(* ===== verification/Prelude.thy ===== *)
theory Prelude
  imports Main "HOL-Library.Word" "HOL-Library.Sublist"
begin

text \<open>
  The shared base of the development: errors as values (\<open>src-tauri/src/error.rs\<close>), Rust's fixed
  width integers as bounded numbers, UTF-8 strings as byte lists with the operations of Rust's
  \<open>str\<close> that the code uses, the select/update/delete statements of SQLite over a table that is a
  list of rows, and the locale that describes the enum/wire-string codecs of the program.
\<close>

named_theorems table_simps \<open>facts about the table statements\<close>
named_theorems wire_simps \<open>enum to wire string equations\<close>
named_theorems inv_intros \<open>preservation rules of the invariants\<close>

section \<open>Errors as values\<close>

(* error.rs 7-9 AppError *)
datatype app_error = AppError (message: string)

(* error.rs 34-34 AppResult *)
type_synonym 'a app_result = "app_error + 'a"

text \<open>Rust's \<open>?\<close> operator: continue with the value, or return the error.\<close>

fun try_bind :: "'e + 'a \<Rightarrow> ('a \<Rightarrow> 'e + 'b) \<Rightarrow> 'e + 'b" where
  "try_bind (Inl e) f = Inl e"
| "try_bind (Inr x) f = f x"

lemma try_bind_Inr_iff:
  "try_bind m f = Inr y \<longleftrightarrow> (\<exists>x. m = Inr x \<and> f x = Inr y)"
  by (cases m) auto

lemma try_bind_Inl_iff:
  "try_bind m f = Inl e \<longleftrightarrow> m = Inl e \<or> (\<exists>x. m = Inr x \<and> f x = Inl e)"
  by (cases m) auto

lemma try_bind_InrE:
  assumes "try_bind m f = Inr y"
  obtains x where "m = Inr x" and "f x = Inr y"
  using assms by (auto simp: try_bind_Inr_iff)

lemma try_bind_assoc [simp]:
  "try_bind (try_bind m f) g = try_bind m (\<lambda>x. try_bind (f x) g)"
  by (cases m) simp_all

text \<open>\<open>ok_or\<close> of an optional value.\<close>

fun ok_or :: "'a option \<Rightarrow> 'e \<Rightarrow> 'e + 'a" where
  "ok_or None e = Inl e"
| "ok_or (Some x) e = Inr x"

lemma ok_or_Inr_iff: "ok_or v e = Inr x \<longleftrightarrow> v = Some x"
  by (cases v) simp_all

lemma find_SomeD: "find p xs = Some x \<Longrightarrow> x \<in> set xs \<and> p x"
  by (auto simp: find_Some_iff)

text \<open>\<open>Result::map_err\<close>.\<close>

fun map_error :: "('e \<Rightarrow> 'f) \<Rightarrow> 'e + 'a \<Rightarrow> 'f + 'a" where
  "map_error h (Inl e) = Inl (h e)"
| "map_error h (Inr x) = Inr x"

lemma map_error_Inr_iff [simp]: "map_error h m = Inr x \<longleftrightarrow> m = Inr x"
  by (cases m) auto

text \<open>Iterating a fallible step over a list, stopping at the first error.\<close>

fun try_map :: "('a \<Rightarrow> 'e + 'b) \<Rightarrow> 'a list \<Rightarrow> 'e + 'b list" where
  "try_map f [] = Inr []"
| "try_map f (x # xs) = try_bind (f x) (\<lambda>y. try_bind (try_map f xs) (\<lambda>ys. Inr (y # ys)))"

lemma try_map_Inr_list_all2:
  "try_map f xs = Inr ys \<longleftrightarrow> list_all2 (\<lambda>x y. f x = Inr y) xs ys"
  by (induction xs arbitrary: ys) (auto simp: try_bind_Inr_iff list_all2_Cons1)

lemma try_map_length: "try_map f xs = Inr ys \<Longrightarrow> length ys = length xs"
  by (auto simp: try_map_Inr_list_all2 dest: list_all2_lengthD)

section \<open>Fixed-width integers\<close>

text \<open>
  Unsigned values are natural numbers with the width's bound written out; \<open>as\<close> casts between
  \<open>u64\<close> and \<open>i64\<close> wrap in two's complement, as Rust's do.
\<close>

definition u32_max :: nat where "u32_max = 2 ^ 32 - 1"
definition u64_max :: nat where "u64_max = 2 ^ 64 - 1"
definition i64_max :: int where "i64_max = 2 ^ 63 - 1"

definition sat_add_u32 :: "nat \<Rightarrow> nat \<Rightarrow> nat" where
  "sat_add_u32 a b = min (a + b) u32_max"

definition sat_add_u64 :: "nat \<Rightarrow> nat \<Rightarrow> nat" where
  "sat_add_u64 a b = min (a + b) u64_max"

definition sat_mul_u64 :: "nat \<Rightarrow> nat \<Rightarrow> nat" where
  "sat_mul_u64 a b = min (a * b) u64_max"

definition as_i64 :: "nat \<Rightarrow> int" where
  "as_i64 n = (let m = int n mod 2 ^ 64 in if m < 2 ^ 63 then m else m - 2 ^ 64)"

definition as_u64 :: "int \<Rightarrow> nat" where
  "as_u64 i = nat (i mod 2 ^ 64)"

definition as_u32 :: "int \<Rightarrow> nat" where
  "as_u32 i = nat (i mod 2 ^ 32)"

text \<open>The \<open>i.max(0) as u64\<close> idiom of the row readers.\<close>

definition clamp0 :: "int \<Rightarrow> nat" where
  "clamp0 i = nat (max i 0)"

lemma as_i64_small: "int n \<le> i64_max \<Longrightarrow> as_i64 n = int n"
  by (simp add: as_i64_def i64_max_def Let_def)

lemma as_u64_as_i64: "n \<le> u64_max \<Longrightarrow> as_u64 (as_i64 n) = n"
  by (auto simp: as_u64_def as_i64_def u64_max_def Let_def)

lemma clamp0_of_nat [simp]: "clamp0 (int n) = n"
  by (simp add: clamp0_def)

lemma sat_add_u64_le: "sat_add_u64 a b \<le> u64_max"
  by (simp add: sat_add_u64_def)

lemma sat_add_u64_exact: "a + b \<le> u64_max \<Longrightarrow> sat_add_u64 a b = a + b"
  by (simp add: sat_add_u64_def)

section \<open>Strings as UTF-8 byte lists\<close>

text \<open>
  A Rust \<open>str\<close> is its UTF-8 bytes, so a \<open>string\<close> of the model is the list of those bytes (a HOL
  \<open>char\<close> is a byte) and \<open>length\<close> is \<open>str::len\<close>. \<open>utf8\<close> encodes a list of code points; the
  messages of the program that hold Chinese text are written with it.
\<close>

definition utf8_char :: "nat \<Rightarrow> string" where
  "utf8_char c =
     (if c < 0x80 then [char_of c]
      else if c < 0x800 then [char_of (0xC0 + c div 64), char_of (0x80 + c mod 64)]
      else if c < 0x10000 then
        [char_of (0xE0 + c div 4096), char_of (0x80 + c div 64 mod 64), char_of (0x80 + c mod 64)]
      else
        [char_of (0xF0 + c div 262144), char_of (0x80 + c div 4096 mod 64),
         char_of (0x80 + c div 64 mod 64), char_of (0x80 + c mod 64)])"

definition utf8 :: "nat list \<Rightarrow> string" where
  "utf8 cs = concat (map utf8_char cs)"

definition byte_of :: "char \<Rightarrow> nat" where
  "byte_of c = of_char c"

text \<open>A byte that continues a multi-byte character.\<close>

definition is_continuation :: "char \<Rightarrow> bool" where
  "is_continuation c \<longleftrightarrow> 0x80 \<le> byte_of c \<and> byte_of c < 0xC0"

text \<open>\<open>str::is_char_boundary\<close>.\<close>

definition is_char_boundary :: "string \<Rightarrow> nat \<Rightarrow> bool" where
  "is_char_boundary s i \<longleftrightarrow>
     i = 0 \<or> i = length s \<or> i < length s \<and> \<not> is_continuation (s ! i)"

text \<open>\<open>s.chars().count()\<close>: the bytes that start a character.\<close>

definition char_count :: "string \<Rightarrow> nat" where
  "char_count s = length (filter (\<lambda>c. \<not> is_continuation c) s)"

text \<open>The characters with the Unicode property White_Space, which \<open>str::trim\<close> removes.\<close>

definition white_space :: "string list" where
  "white_space = map utf8_char
     [0x9, 0xA, 0xB, 0xC, 0xD, 0x20, 0x85, 0xA0, 0x1680, 0x2000, 0x2001, 0x2002, 0x2003, 0x2004,
      0x2005, 0x2006, 0x2007, 0x2008, 0x2009, 0x200A, 0x2028, 0x2029, 0x202F, 0x205F, 0x3000]"

definition strip_one :: "string list \<Rightarrow> string \<Rightarrow> string option" where
  "strip_one ws s = map_option (\<lambda>w. drop (length w) s) (find (\<lambda>w. w \<noteq> [] \<and> prefix w s) ws)"

lemma strip_one_length: "strip_one ws s = Some t \<Longrightarrow> length t < length s"
  by (auto simp: strip_one_def find_Some_iff prefix_def)

function strip_all :: "string list \<Rightarrow> string \<Rightarrow> string" where
  "strip_all ws s = (case strip_one ws s of None \<Rightarrow> s | Some t \<Rightarrow> strip_all ws t)"
  by pat_completeness auto
termination
  by (relation "measure (\<lambda>(ws, s). length s)") (auto simp: strip_one_length)

declare strip_all.simps [simp del]

definition trim_start :: "string \<Rightarrow> string" where
  "trim_start s = strip_all white_space s"

definition trim_end :: "string \<Rightarrow> string" where
  "trim_end s = rev (strip_all (map rev white_space) (rev s))"

definition trim :: "string \<Rightarrow> string" where
  "trim s = trim_end (trim_start s)"

lemma strip_all_Nil [simp]: "strip_all ws [] = []"
  by (subst strip_all.simps) (auto simp: strip_one_def find_Some_iff split: option.splits)

lemma strip_all_suffix: "suffix (strip_all ws s) s"
proof (induction ws s rule: strip_all.induct)
  case (1 ws s)
  show ?case
  proof (cases "strip_one ws s")
    case None
    then show ?thesis by (subst strip_all.simps) simp
  next
    case (Some t)
    then have "suffix t s"
      by (auto simp: strip_one_def suffix_drop)
    with "1"[OF Some] Some show ?thesis
      by (subst strip_all.simps) (auto intro: suffix_order.trans)
  qed
qed

lemma strip_all_idem: "strip_all ws (strip_all ws s) = strip_all ws s"
proof (induction ws s rule: strip_all.induct)
  case (1 ws s)
  then show ?case
    by (cases "strip_one ws s") (simp_all add: strip_all.simps [of ws s] strip_all.simps [of ws s])
qed

lemma strip_one_None_strip_all: "strip_one ws s = None \<Longrightarrow> strip_all ws s = s"
  by (subst strip_all.simps) simp

lemma trim_Nil [simp]: "trim [] = []"
  by (simp add: trim_def trim_start_def trim_end_def)

lemma length_trim_le: "length (trim s) \<le> length s"
proof -
  have "length (trim_end t) \<le> length t" for t
    using suffix_length_le [OF strip_all_suffix [of "map rev white_space" "rev t"]]
    by (simp add: trim_end_def)
  moreover have "length (trim_start s) \<le> length s"
    using suffix_length_le [OF strip_all_suffix] by (simp add: trim_start_def)
  ultimately show ?thesis
    unfolding trim_def using le_trans by blast
qed

subsection \<open>Searching, splitting and replacing\<close>

text \<open>\<open>str::find\<close> of a substring: the byte offset of its first occurrence.\<close>

fun find_sub :: "string \<Rightarrow> string \<Rightarrow> nat option" where
  "find_sub pat [] = (if pat = [] then Some 0 else None)"
| "find_sub pat (c # s) =
     (if prefix pat (c # s) then Some 0 else map_option Suc (find_sub pat s))"

definition contains_sub :: "string \<Rightarrow> string \<Rightarrow> bool" where
  "contains_sub s pat \<longleftrightarrow> find_sub pat s \<noteq> None"

lemma find_sub_Some: "find_sub pat s = Some i \<Longrightarrow> \<exists>t. drop i s = pat @ t"
  by (induction pat s arbitrary: i rule: find_sub.induct)
     (auto simp: prefix_def split: if_splits)

lemma find_sub_None_iff: "find_sub pat s = None \<longleftrightarrow> \<not> sublist pat s"
  by (induction pat s rule: find_sub.induct) (auto simp: sublist_Cons_right)

lemma contains_sub_iff: "contains_sub s pat \<longleftrightarrow> sublist pat s"
  by (simp add: contains_sub_def find_sub_None_iff)

text \<open>\<open>split_once\<close> and \<open>rsplit_once\<close> at an ASCII character.\<close>

definition split_once :: "char \<Rightarrow> string \<Rightarrow> (string \<times> string) option" where
  "split_once c s =
     (if c \<in> set s then Some (takeWhile (\<lambda>x. x \<noteq> c) s, tl (dropWhile (\<lambda>x. x \<noteq> c) s)) else None)"

definition rsplit_once :: "char \<Rightarrow> string \<Rightarrow> (string \<times> string) option" where
  "rsplit_once c s = map_option (\<lambda>(a, b). (rev b, rev a)) (split_once c (rev s))"

lemma split_once_append: "c \<notin> set a \<Longrightarrow> split_once c (a @ c # b) = Some (a, b)"
  by (induction a) (auto simp: split_once_def)

lemma split_once_Some_iff: "split_once c s = Some (a, b) \<longleftrightarrow> s = a @ c # b \<and> c \<notin> set a"
proof
  assume "split_once c s = Some (a, b)"
  then have c: "c \<in> set s" and a: "a = takeWhile (\<lambda>x. x \<noteq> c) s"
    and b: "b = tl (dropWhile (\<lambda>x. x \<noteq> c) s)"
    by (auto simp: split_once_def split: if_splits)
  from c have "dropWhile (\<lambda>x. x \<noteq> c) s \<noteq> []" by (auto simp: dropWhile_eq_Nil_conv)
  then have "dropWhile (\<lambda>x. x \<noteq> c) s = c # b"
    using hd_dropWhile [of "\<lambda>x. x \<noteq> c" s] b by (cases "dropWhile (\<lambda>x. x \<noteq> c) s") auto
  then have "s = a @ c # b" using a takeWhile_dropWhile_id [of "\<lambda>x. x \<noteq> c" s] by simp
  moreover have "c \<notin> set a" using a by (auto dest: set_takeWhileD)
  ultimately show "s = a @ c # b \<and> c \<notin> set a" by simp
next
  assume "s = a @ c # b \<and> c \<notin> set a"
  then show "split_once c s = Some (a, b)" by (simp add: split_once_append)
qed

lemma split_once_None_iff: "split_once c s = None \<longleftrightarrow> c \<notin> set s"
  by (simp add: split_once_def)

lemma rsplit_once_Some_iff: "rsplit_once c s = Some (a, b) \<longleftrightarrow> s = a @ c # b \<and> c \<notin> set b"
proof -
  have "rsplit_once c s = Some (a, b) \<longleftrightarrow> split_once c (rev s) = Some (rev b, rev a)"
    by (auto simp: rsplit_once_def)
  also have "\<dots> \<longleftrightarrow> rev s = rev b @ c # rev a \<and> c \<notin> set b"
    by (simp add: split_once_Some_iff)
  also have "rev s = rev b @ c # rev a \<longleftrightarrow> s = a @ c # b"
  proof
    assume "rev s = rev b @ c # rev a"
    then have "rev (rev s) = rev (rev b @ c # rev a)" by simp
    then show "s = a @ c # b" by simp
  qed simp
  finally show ?thesis .
qed

lemma rsplit_once_None_iff: "rsplit_once c s = None \<longleftrightarrow> c \<notin> set s"
  by (simp add: rsplit_once_def split_once_None_iff)

text \<open>\<open>str::replace\<close> of every non-overlapping occurrence of a non-empty pattern.\<close>

function str_replace :: "string \<Rightarrow> string \<Rightarrow> string \<Rightarrow> string" where
  "str_replace pat rep s =
     (case s of
        [] \<Rightarrow> []
      | c # t \<Rightarrow>
          if pat \<noteq> [] \<and> prefix pat s then rep @ str_replace pat rep (drop (length pat) s)
          else c # str_replace pat rep t)"
  by pat_completeness auto
termination
  by (relation "measure (\<lambda>(pat, rep, s). length s)") auto

declare str_replace.simps [simp del]

lemma str_replace_Nil [simp]: "str_replace pat rep [] = []"
  by (subst str_replace.simps) simp

lemma str_replace_absent: "\<not> sublist pat s \<Longrightarrow> str_replace pat rep s = s"
proof (induction s)
  case (Cons c t)
  from Cons.prems have "\<not> prefix pat (c # t)" and "\<not> sublist pat t"
    by (auto simp: sublist_Cons_right)
  with Cons.IH show ?case by (subst str_replace.simps) simp
qed simp

definition join :: "string \<Rightarrow> string list \<Rightarrow> string" where
  "join sep xs = (case xs of [] \<Rightarrow> [] | x # ys \<Rightarrow> x @ concat (map (\<lambda>y. sep @ y) ys))"

text \<open>ASCII case folding (\<open>eq_ignore_ascii_case\<close>).\<close>

definition ascii_lower :: "char \<Rightarrow> char" where
  "ascii_lower c = (if 65 \<le> byte_of c \<and> byte_of c \<le> 90 then char_of (byte_of c + 32) else c)"

definition eq_ignore_ascii_case :: "string \<Rightarrow> string \<Rightarrow> bool" where
  "eq_ignore_ascii_case a b \<longleftrightarrow> map ascii_lower a = map ascii_lower b"

definition is_ascii_digit :: "char \<Rightarrow> bool" where
  "is_ascii_digit c \<longleftrightarrow> 48 \<le> byte_of c \<and> byte_of c \<le> 57"

definition is_ascii_alphanumeric :: "char \<Rightarrow> bool" where
  "is_ascii_alphanumeric c \<longleftrightarrow>
     is_ascii_digit c \<or> 65 \<le> byte_of c \<and> byte_of c \<le> 90 \<or> 97 \<le> byte_of c \<and> byte_of c \<le> 122"

subsection \<open>Decimal numbers\<close>

definition digit :: "nat \<Rightarrow> char" where
  "digit n = char_of (48 + n)"

fun dec :: "nat \<Rightarrow> string" where
  "dec n = (if n < 10 then [digit n] else dec (n div 10) @ [digit (n mod 10)])"

declare dec.simps [simp del]

definition dec_int :: "int \<Rightarrow> string" where
  "dec_int i = (if i < 0 then CHR ''-'' # dec (nat (- i)) else dec (nat i))"

lemma byte_of_digit [simp]: "n < 10 \<Longrightarrow> byte_of (digit n) = 48 + n"
  by (simp add: byte_of_def digit_def)

lemma digit_inj: "m < 10 \<Longrightarrow> n < 10 \<Longrightarrow> digit m = digit n \<longleftrightarrow> m = n"
  by (metis add_left_cancel byte_of_digit)

lemma is_ascii_digit_digit [simp]: "n < 10 \<Longrightarrow> is_ascii_digit (digit n)"
  by (simp add: is_ascii_digit_def)

lemma dec_digits: "list_all is_ascii_digit (dec n)"
proof (induction n rule: dec.induct)
  case (1 n)
  then show ?case
    by (subst dec.simps) simp
qed

lemma colon_notin_dec: "CHR '':'' \<notin> set (dec n)"
  using dec_digits [of n] by (auto simp: list_all_iff is_ascii_digit_def byte_of_def)

lemma dec_not_Nil [simp]: "dec n \<noteq> []"
  by (subst dec.simps) simp

lemma Nil_not_dec [simp]: "[] \<noteq> dec n"
  by (metis dec_not_Nil)

lemma dec_inj: "dec m = dec n \<Longrightarrow> m = n"
proof (induction m arbitrary: n rule: dec.induct)
  case (1 m)
  show ?case
  proof (cases "m < 10 \<or> n < 10")
    case True
    with "1.prems" show ?thesis
      by (auto simp: dec.simps [of m] dec.simps [of n] digit_inj append_eq_Cons_conv
               split: if_splits)
  next
    case False
    with "1.prems" have "dec (m div 10) = dec (n div 10)" and "digit (m mod 10) = digit (n mod 10)"
      by (auto simp: dec.simps [of m] dec.simps [of n])
    with "1.IH" False have "m div 10 = n div 10" and "m mod 10 = n mod 10"
      by (auto simp: digit_inj)
    then show ?thesis by (metis div_mult_mod_eq)
  qed
qed

lemma dec_eq_iff [simp]: "dec m = dec n \<longleftrightarrow> m = n"
  using dec_inj by blast

lemma dec_int_inj: "0 \<le> i \<Longrightarrow> 0 \<le> j \<Longrightarrow> dec_int i = dec_int j \<longleftrightarrow> i = j"
  by (simp add: dec_int_def eq_nat_nat_iff)

lemma colon_notin_dec_int: "CHR '':'' \<notin> set (dec_int i)"
  by (simp add: dec_int_def colon_notin_dec)

text \<open>
  Splitting a length-prefixed field: two texts \<open>len:field rest\<close> agree only if the fields and the
  rests agree. This is what makes the composite keys of the program unambiguous.
\<close>

lemma colon_split_inj:
  assumes "a @ CHR '':'' # s = b @ CHR '':'' # t" and "CHR '':'' \<notin> set a" and "CHR '':'' \<notin> set b"
  shows "a = b \<and> s = t"
proof -
  from arg_cong [OF assms(1), of "split_once CHR '':''"] have "Some (a, s) = Some (b, t)"
    by (simp only: split_once_append [OF assms(2)] split_once_append [OF assms(3)])
  then show ?thesis by simp
qed

lemma length_prefix_inj:
  assumes "dec (length a) @ CHR '':'' # a @ s = dec (length b) @ CHR '':'' # b @ t"
  shows "a = b \<and> s = t"
proof -
  have *: "dec (length a) = dec (length b) \<and> a @ s = b @ t"
    by (rule colon_split_inj [OF assms colon_notin_dec colon_notin_dec])
  then have "length a = length b" by (blast dest: dec_inj)
  with * show ?thesis by (simp del: dec_eq_iff)
qed

text \<open>
  The \<open>{:?}\<close> rendering of a string: quotes, backslashes and ASCII control characters are escaped;
  printable text, ASCII or not, is kept.
\<close>

definition hex_digit :: "nat \<Rightarrow> char" where
  "hex_digit n = (if n < 10 then digit n else char_of (87 + n))"

definition debug_char :: "char \<Rightarrow> string" where
  "debug_char c =
     (let b = byte_of c in
      if b = 0 then [CHR 0x5C, CHR ''0'']
      else if b = 9 then [CHR 0x5C, CHR ''t'']
      else if b = 10 then [CHR 0x5C, CHR ''n'']
      else if b = 13 then [CHR 0x5C, CHR ''r'']
      else if b = 34 \<or> b = 92 then [CHR 0x5C, c]
      else if b < 16 then [CHR 0x5C, CHR ''u'', CHR 0x7B, hex_digit b, CHR 0x7D]
      else if b < 32 \<or> b = 127 then
        [CHR 0x5C, CHR ''u'', CHR 0x7B, hex_digit (b div 16), hex_digit (b mod 16), CHR 0x7D]
      else [c])"

definition debug_str :: "string \<Rightarrow> string" where
  "debug_str s = [CHR 0x22] @ concat (map debug_char s) @ [CHR 0x22]"

lemma byte_of_char_of [simp]: "byte_of (char_of n) = n mod 256"
  by (simp add: byte_of_def)

lemma strip_all_keeps:
  "c \<in> set s \<Longrightarrow> \<forall>w \<in> set ws. c \<notin> set w \<Longrightarrow> c \<in> set (strip_all ws s)"
proof (induction ws s rule: strip_all.induct)
  case (1 ws s)
  show ?case
  proof (cases "strip_one ws s")
    case None
    with "1.prems" show ?thesis by (simp add: strip_one_None_strip_all)
  next
    case (Some t)
    then obtain w where f: "find (\<lambda>w. w \<noteq> [] \<and> prefix w s) ws = Some w" and "t = drop (length w) s"
      by (auto simp: strip_one_def)
    moreover from f have "w \<in> set ws" "prefix w s"
      by (auto simp: find_Some_iff)
    ultimately have w: "w \<in> set ws" "prefix w s" "t = drop (length w) s" by auto
    then have "s = w @ t" by (auto simp: prefix_def)
    with "1.prems" w(1) have "c \<in> set t" by auto
    from "1.IH" [OF Some this "1.prems"(2)] Some show ?thesis by (simp add: strip_all.simps [of ws s])
  qed
qed

lemma white_space_not_alnum: "w \<in> set white_space \<Longrightarrow> c \<in> set w \<Longrightarrow> \<not> is_ascii_alphanumeric c"
proof -
  have "list_all (list_all (\<lambda>c. \<not> is_ascii_alphanumeric c)) white_space"
    by (simp add: white_space_def utf8_char_def is_ascii_alphanumeric_def is_ascii_digit_def)
  then show "w \<in> set white_space \<Longrightarrow> c \<in> set w \<Longrightarrow> \<not> is_ascii_alphanumeric c"
    by (auto simp: list_all_iff)
qed

text \<open>A text with an ASCII letter or digit does not trim to nothing.\<close>

lemma trim_not_Nil:
  assumes "c \<in> set s" and "is_ascii_alphanumeric c"
  shows "trim s \<noteq> []"
proof -
  have "c \<in> set (trim_start s)"
    unfolding trim_start_def by (rule strip_all_keeps [OF assms(1)]) (use white_space_not_alnum assms(2) in blast)
  then have "c \<in> set (strip_all (map rev white_space) (rev (trim_start s)))"
    by (intro strip_all_keeps) (use white_space_not_alnum assms(2) in auto)
  then have "c \<in> set (trim s)" by (simp add: trim_def trim_end_def)
  then show ?thesis by auto
qed

text \<open>Trimming removes all it can: a second time changes nothing.\<close>

lemma strip_one_strip_all: "strip_one ws (strip_all ws s) = None"
proof (induction ws s rule: strip_all.induct)
  case (1 ws s)
  then show ?case by (cases "strip_one ws s") (simp_all add: strip_all.simps [of ws s])
qed

lemma strip_one_prefix: "strip_one ws s = None \<Longrightarrow> prefix t s \<Longrightarrow> strip_one ws t = None"
  by (auto simp: strip_one_def find_None_iff intro: prefix_order.trans)

lemma trim_trim [simp]: "trim (trim s) = trim s"
proof -
  have "suffix (strip_all (map rev white_space) (rev (trim_start s))) (rev (trim_start s))"
    by (rule strip_all_suffix)
  then have "prefix (trim s) (trim_start s)"
    by (simp add: trim_def trim_end_def suffix_to_prefix)
  with strip_one_strip_all [of white_space s] have "strip_one white_space (trim s) = None"
    unfolding trim_start_def by (rule strip_one_prefix)
  then have "trim_start (trim s) = trim s"
    by (simp add: trim_start_def strip_one_None_strip_all)
  then show ?thesis by (simp add: trim_def trim_end_def strip_all_idem)
qed

lemma white_space_edges:
  "w \<in> set white_space \<Longrightarrow> w \<noteq> [] \<and> \<not> is_ascii_alphanumeric (hd w) \<and> \<not> is_ascii_alphanumeric (last w)"
  using white_space_not_alnum [of w] by (cases "w = []") (auto simp: white_space_def utf8_char_def)

lemma trim_alnum:
  assumes "s \<noteq> []" and "is_ascii_alphanumeric (hd s)" and "is_ascii_alphanumeric (last s)"
  shows "trim s = s"
proof -
  have "\<not> prefix w s" if "w \<in> set white_space" for w
    using white_space_edges [OF that] assms by (auto simp: prefix_def)
  then have "strip_one white_space s = None" by (auto simp: strip_one_def find_None_iff)
  moreover have "\<not> prefix (rev w) (rev s)" if "w \<in> set white_space" for w
    using white_space_edges [OF that] assms by (auto simp: prefix_def hd_rev) (metis append_is_Nil_conv hd_append2 hd_rev rev_is_Nil_conv)
  then have "strip_one (map rev white_space) (rev s) = None" by (auto simp: strip_one_def find_None_iff)
  ultimately show ?thesis
    by (simp add: trim_def trim_start_def trim_end_def strip_one_None_strip_all)
qed

section \<open>Enum codecs\<close>

text \<open>
  Every stored enum of the program has a pair of functions: the exhaustive match to the wire string
  and the parser back. \<open>wire_enum\<close> is the contract the stores rely on when they read a column they
  wrote; a strict codec also rejects every other string, a lenient one maps it to a fixed default.
\<close>

locale wire_enum =
  fixes as_wire :: "'a \<Rightarrow> string" and from_wire :: "string \<Rightarrow> 'a option"
  assumes from_as: "from_wire (as_wire x) = Some x"
begin

lemma as_wire_eq_iff: "as_wire x = as_wire y \<longleftrightarrow> x = y"
  by (metis from_as option.inject)

lemma inj_as_wire: "inj as_wire"
  by (simp add: inj_def as_wire_eq_iff)

lemma parse_written: "s = as_wire x \<Longrightarrow> from_wire s = Some x"
  by (simp add: from_as)

end

locale strict_wire_enum = wire_enum +
  assumes as_from: "from_wire s = Some x \<Longrightarrow> as_wire x = s"
begin

lemma from_wire_iff: "from_wire s = Some x \<longleftrightarrow> s = as_wire x"
  using as_from from_as by blast

lemma rejects_unknown: "from_wire s = None \<longleftrightarrow> s \<notin> range as_wire"
  using from_wire_iff by (metis not_Some_eq range_eqI rangeE)

end

locale lenient_wire_enum =
  fixes as_wire :: "'a \<Rightarrow> string" and from_lenient :: "string \<Rightarrow> 'a" and fallback :: 'a
  assumes lenient_from_as: "from_lenient (as_wire x) = x"
    and lenient_unknown: "s \<notin> range as_wire \<Longrightarrow> from_lenient s = fallback"
begin

lemma lenient_not_fallback: "from_lenient s = x \<Longrightarrow> x \<noteq> fallback \<Longrightarrow> s = as_wire x"
  by (metis lenient_from_as lenient_unknown rangeE)

end

sublocale lenient_wire_enum \<subseteq> total: wire_enum as_wire "\<lambda>s. Some (from_lenient s)"
  by unfold_locales (simp add: lenient_from_as)

end
