(* ===== verification/Model.thy ===== *)
theory Model
  imports Prelude
begin

text \<open>
  The shared wire model (\<open>src-tauri/src/model.rs\<close>): validated string newtypes and identifiers, the
  skill invocation with its command template and path confinement, the event envelope, the producer
  and action keys, the action payloads and results, and the enums with their wire strings.

  JSON text is third-party code (\<open>serde_json\<close>), so a column or string that holds JSON is modelled by
  what it decodes to: \<open>JsonOf v\<close> is the serialisation of \<open>v\<close>, \<open>OtherJson e\<close> is valid JSON of another
  shape and \<open>NotJson e\<close> is no JSON at all, both with the message decoding gives.
\<close>

datatype 'a json_text = JsonOf 'a | OtherJson string | NotJson string

fun json_valid :: "'a json_text \<Rightarrow> bool" where
  "json_valid (JsonOf v) = True"
| "json_valid (OtherJson e) = True"
| "json_valid (NotJson e) = False"

fun from_json :: "'a json_text \<Rightarrow> string + 'a" where
  "from_json (JsonOf v) = Inr v"
| "from_json (OtherJson e) = Inl e"
| "from_json (NotJson e) = Inl e"

section \<open>Validated newtypes and identifiers\<close>

(* model.rs 61-67 non_empty *)
definition non_empty :: "string \<Rightarrow> string + unit" where
  "non_empty value = (if trim value = [] then Inl ''value must not be empty'' else Inr ())"

(* model.rs 19-24 validated_string_newtype::new *)
definition new_key :: "string \<Rightarrow> string + string" where
  "new_key value = try_bind (non_empty value) (\<lambda>_. Inr value)"

(* model.rs 81-93 ExternalRequestId::parse *)
definition parse_request_id :: "string \<Rightarrow> string + string" where
  "parse_request_id value =
     (if length value \<noteq> 32 \<or>
         \<not> list_all (\<lambda>b. is_ascii_digit b \<or> 97 \<le> byte_of b \<and> byte_of b \<le> 102) value
      then Inl ''requestId must be exactly 32 lowercase hexadecimal characters''
      else Inr value)"

(* model.rs 124-128 InboxEventId::new *)
definition inbox_event_id_new :: "int \<Rightarrow> string + int" where
  "inbox_event_id_new value =
     (if 0 < value then Inr value else Inl ''inbox event id must be positive'')"

(* model.rs 149-153 ReviewReceiptId::new *)
definition review_receipt_id_new :: "int \<Rightarrow> string + int" where
  "review_receipt_id_new value =
     (if 0 < value then Inr value else Inl ''review receipt id must be positive'')"

lemma new_key_Inr_iff: "new_key v = Inr k \<longleftrightarrow> trim v \<noteq> [] \<and> k = v"
  by (auto simp: new_key_def non_empty_def try_bind_Inr_iff split: if_splits)

lemma new_key_Inl_iff: "(\<exists>e. new_key v = Inl e) \<longleftrightarrow> trim v = []"
  by (auto simp: new_key_def non_empty_def try_bind_Inl_iff split: if_splits)

section \<open>Enums and their wire strings\<close>

(* model.rs 181-190 ReviewReceiptStatus *)
datatype review_receipt_status =
  Receipt_Received | Receipt_Queued | Receipt_Blocked | Receipt_Starting | Receipt_Running
| Receipt_Interrupting | Receipt_Done | Receipt_Failed

(* model.rs 211-217 ReviewLifecycleEvent *)
datatype review_lifecycle_event =
  Lifecycle_Started | Lifecycle_Completed | Lifecycle_Failed | Lifecycle_Interrupted

(* model.rs 220-227 ReviewLifecycleEvent::as_wire *)
fun lifecycle_as_wire :: "review_lifecycle_event \<Rightarrow> string" where
  "lifecycle_as_wire Lifecycle_Started = ''started''"
| "lifecycle_as_wire Lifecycle_Completed = ''completed''"
| "lifecycle_as_wire Lifecycle_Failed = ''failed''"
| "lifecycle_as_wire Lifecycle_Interrupted = ''interrupted''"

(* model.rs 719-733 SourceKind *)
datatype source_kind = Github | Azure | Bitbucket

(* model.rs 801-808 EngineKind *)
datatype engine_kind = Codex | Claude | Cursor

(* model.rs 813-815 EngineKind::requires_skill_path *)
definition requires_skill_path :: "engine_kind \<Rightarrow> bool" where
  "requires_skill_path e \<longleftrightarrow> e = Codex"

(* model.rs 952-964 EventType *)
datatype event_type = PullRequest | Issue | Comment | Label | Generic

(* model.rs 969-975 ExternalTriggerOrigin *)
datatype external_trigger_origin = Http | Cli | RemoteWeb | DeepLink | MessagingBot

(* model.rs 1327-1335 InboxStatus *)
datatype inbox_status = Inbox_Received | Inbox_Processed | Inbox_Failed

(* model.rs 1466-1471 NotificationLevel *)
datatype notification_level = Info | Warning | Error

(* model.rs 1473-1480 NotificationLevel::from_str *)
definition notification_level_from_str :: "string \<Rightarrow> string + notification_level" where
  "notification_level_from_str value =
     (if value = ''info'' then Inr Info
      else if value = ''warning'' then Inr Warning
      else if value = ''error'' then Inr Error
      else Inl ''level must be one of: info, warning, error'')"

(* model.rs 1496-1505 NotificationKind *)
datatype notification_kind = Desktop | Email | Slack | Telegram | NWeChatWork | NFeishu | NDingTalk

(* model.rs 1516-1521 MessagingProviderKind *)
datatype messaging_provider_kind = Feishu | WeChatWork | DingTalk

(* model.rs 1524-1530 MessagingProviderKind::as_wire *)
fun provider_as_wire :: "messaging_provider_kind \<Rightarrow> string" where
  "provider_as_wire Feishu = ''feishu''"
| "provider_as_wire WeChatWork = ''weChatWork''"
| "provider_as_wire DingTalk = ''dingTalk''"

(* model.rs 1532-1539 MessagingProviderKind::from_wire *)
definition provider_from_wire :: "string \<Rightarrow> messaging_provider_kind option" where
  "provider_from_wire value =
     (if value = ''feishu'' then Some Feishu
      else if value = ''weChatWork'' then Some WeChatWork
      else if value = ''dingTalk'' then Some DingTalk
      else None)"

(* model.rs 1619-1624 MessagingEventStatus *)
datatype messaging_event_status = Msg_Received | Msg_Processed | Msg_Failed

(* model.rs 1627-1633 MessagingEventStatus::as_wire *)
fun messaging_status_as_wire :: "messaging_event_status \<Rightarrow> string" where
  "messaging_status_as_wire Msg_Received = ''received''"
| "messaging_status_as_wire Msg_Processed = ''processed''"
| "messaging_status_as_wire Msg_Failed = ''failed''"

(* model.rs 1635-1641 MessagingEventStatus::from_wire_lenient *)
definition messaging_status_from_wire :: "string \<Rightarrow> messaging_event_status" where
  "messaging_status_from_wire value =
     (if value = ''received'' then Msg_Received
      else if value = ''processed'' then Msg_Processed
      else Msg_Failed)"

(* model.rs 1711-1715 MessagingCardTemplate *)
datatype messaging_card_template = Blue | Orange | Grey

(* model.rs 1718-1724 MessagingCardTemplate::as_wire *)
fun card_template_as_wire :: "messaging_card_template \<Rightarrow> string" where
  "card_template_as_wire Blue = ''blue''"
| "card_template_as_wire Orange = ''orange''"
| "card_template_as_wire Grey = ''grey''"

(* model.rs 1730-1739 MessagingCardTemplate::from_str *)
definition card_template_from_str :: "string \<Rightarrow> string + messaging_card_template" where
  "card_template_from_str value =
     (if value = ''blue'' then Inr Blue
      else if value = ''orange'' then Inr Orange
      else if value = ''grey'' then Inr Grey
      else Inl ((utf8 [0x65E0, 0x6548, 0x5361, 0x7247, 0x6A21, 0x677F] @ '' '') @ debug_str value @ (utf8 [0xFF1B, 0x53EF, 0x9009, 0x503C, 0xFF1A] @ ''blue'' @ utf8 [0x3001] @ ''orange'' @ utf8 [0x3001] @ ''grey'')))"

(* model.rs 2150-2165 ActionKind *)
datatype action_kind =
  Kind_Notification | Kind_RunSkill | Kind_StopReview | Kind_MessagingReply | Kind_MessagingSend

(* model.rs 2168-2176 ActionKind::as_str *)
fun action_kind_as_str :: "action_kind \<Rightarrow> string" where
  "action_kind_as_str Kind_Notification = ''notification''"
| "action_kind_as_str Kind_RunSkill = ''runSkill''"
| "action_kind_as_str Kind_StopReview = ''stopReview''"
| "action_kind_as_str Kind_MessagingReply = ''messagingReply''"
| "action_kind_as_str Kind_MessagingSend = ''messagingSend''"

(* model.rs 2291-2301 ActionStatus *)
datatype action_status = Action_Pending | Action_Blocked | Action_Done | Action_Dead

(* model.rs 2014-2017 WorkflowType *)
datatype workflow_type = ReviewNotify

(* model.rs 2023-2030 WorkflowStatus *)
datatype workflow_status = Wf_Pending | Wf_Running | Wf_Waiting | Wf_Done | Wf_Failed

(* model.rs 2035-2041 WorkflowStep *)
datatype workflow_step = Step_StartReview | Step_WaitReview | Step_EnqueueNotify | Step_Done

interpretation provider_codec: strict_wire_enum provider_as_wire provider_from_wire
proof unfold_locales
  show "provider_from_wire (provider_as_wire x) = Some x" for x
    by (cases x) (simp_all add: provider_from_wire_def)
  show "provider_from_wire s = Some x \<Longrightarrow> provider_as_wire x = s" for s x
    by (auto simp: provider_from_wire_def split: if_splits)
qed

interpretation messaging_status_codec:
  lenient_wire_enum messaging_status_as_wire messaging_status_from_wire Msg_Failed
proof unfold_locales
  show "messaging_status_from_wire (messaging_status_as_wire x) = x" for x
    by (cases x) (simp_all add: messaging_status_from_wire_def)
  show "s \<notin> range messaging_status_as_wire \<Longrightarrow> messaging_status_from_wire s = Msg_Failed" for s
    by (auto simp: messaging_status_from_wire_def image_iff
        dest: spec [of _ Msg_Received] spec [of _ Msg_Processed])
qed

text \<open>The parsers that return a \<open>Result\<close> are codecs once the error text is dropped.\<close>

definition ok :: "'e + 'a \<Rightarrow> 'a option" where
  "ok r = (case r of Inl _ \<Rightarrow> None | Inr x \<Rightarrow> Some x)"

lemma ok_simps [simp]: "ok (Inl e) = None" "ok (Inr x) = Some x"
  by (simp_all add: ok_def)

interpretation card_template_codec:
  strict_wire_enum card_template_as_wire "\<lambda>s. ok (card_template_from_str s)"
proof unfold_locales
  show "ok (card_template_from_str (card_template_as_wire x)) = Some x" for x
    by (cases x) (simp_all add: card_template_from_str_def)
  show "ok (card_template_from_str s) = Some x \<Longrightarrow> card_template_as_wire x = s" for s x
    by (auto simp: card_template_from_str_def split: if_splits)
qed

end
