(* ===== verification/Skill.thy ===== *)
theory Skill
  imports Model
begin

text \<open>
  Skill invocations (\<open>model.rs\<close>, \<open>impl SkillInvocation\<close>): the key that names a skill and its extra
  arguments, the legacy key migration, the command template, and the confinement of the skill file
  to the repository. The file system is a parameter: \<open>fs_canonicalize\<close> and \<open>fs_is_file\<close> stand for
  \<open>Path::canonicalize\<close> and \<open>Path::is_file\<close>; a path is its text, read as Unix paths are.
\<close>

section \<open>Paths\<close>

record filesystem =
  fs_canonicalize :: "string \<Rightarrow> string + string"
  fs_is_file :: "string \<Rightarrow> bool"

fun split_all :: "char \<Rightarrow> string \<Rightarrow> string list" where
  "split_all c [] = [[]]"
| "split_all c (x # xs) =
     (if x = c then [] # split_all c xs
      else (case split_all c xs of [] \<Rightarrow> [[x]] | y # ys \<Rightarrow> (x # y) # ys))"

definition path_is_absolute :: "string \<Rightarrow> bool" where
  "path_is_absolute p \<longleftrightarrow> prefix ''/'' p"

text \<open>\<open>Path::components\<close>: the root, then the segments without empty ones and inner dots.\<close>

definition path_components :: "string \<Rightarrow> string list" where
  "path_components p =
     (case split_all CHR ''/'' p of
        [] \<Rightarrow> []
      | x # xs \<Rightarrow>
          (if path_is_absolute p then [''/''] else if x = [] then [] else [x])
          @ filter (\<lambda>c. c \<noteq> [] \<and> c \<noteq> ''.'') xs)"

definition path_starts_with :: "string \<Rightarrow> string \<Rightarrow> bool" where
  "path_starts_with p base \<longleftrightarrow> prefix (path_components base) (path_components p)"

definition path_join :: "string \<Rightarrow> string \<Rightarrow> string" where
  "path_join base p =
     (if path_is_absolute p then p
      else if base = [] \<or> suffix ''/'' base then base @ p
      else base @ ''/'' @ p)"

definition strip_path_prefix :: "string \<Rightarrow> string \<Rightarrow> string option" where
  "strip_path_prefix p base =
     (if path_starts_with p base
      then Some (join ''/'' (drop (length (path_components base)) (path_components p)))
      else None)"

section \<open>Skill keys\<close>

(* model.rs 245-245 DEFAULT_SKILL_NAME *)
definition default_skill_name :: string where
  "default_skill_name = ''pr-review''"

(* model.rs 247-247 DEFAULT_SKILL_PATH *)
definition default_skill_path :: string where
  "default_skill_path = ''.codex/skills/pr-review/SKILL.md''"

(* model.rs 249-249 DEFAULT_COMMAND_TEMPLATE *)
definition default_command_template :: string where
  "default_command_template = ''/{skill} {pr}''"

(* model.rs 252-252 SKILL_PATH_PREFIXES *)
definition skill_path_prefixes :: "string list" where
  "skill_path_prefixes = [''.codex/skills/'', ''.claude/skills/'', ''.cursor/skills/'']"

(* model.rs 257-268 SkillInvocation *)
record skill_invocation =
  inv_skill_name :: string
  inv_skill_path :: "string option"
  inv_command :: string
  inv_skill_key :: string

abbreviation NUL :: char where "NUL \<equiv> CHR 0x00"

(* model.rs 271-273 SkillInvocation::skill_key *)
definition skill_key :: "string \<Rightarrow> string \<Rightarrow> string" where
  "skill_key name extra_args = name @ [NUL] @ trim extra_args"

(* model.rs 276-283 SkillInvocation::validate_extra_args *)
definition validate_extra_args :: "string \<Rightarrow> string + string" where
  "validate_extra_args extra_args =
     (let t = trim extra_args in
      if t = [] \<or> t = ''--check'' then Inr t
      else Inl (''extraArgs must be empty or '' @ [CHR 0x22] @ ''--check'' @ [CHR 0x22] @ '', got ''
             @ debug_str t))"

(* model.rs 286-293 SkillInvocation::validate_prompt_token *)
definition validate_prompt_token :: "string \<Rightarrow> string \<Rightarrow> string + unit" where
  "validate_prompt_token field value =
     (if CHR 0x60 \<in> set value \<or> CHR 0x0A \<in> set value \<or> CHR 0x0D \<in> set value
      then Inl (field @ '' must not contain backticks or newlines: '' @ debug_str value)
      else Inr ())"

(* model.rs 296-302 SkillInvocation::migrate_legacy_skill_key *)
definition migrate_legacy_skill_key :: "string \<Rightarrow> string" where
  "migrate_legacy_skill_key wire =
     (if wire = ''review'' then skill_key default_skill_name []
      else if wire = ''check'' then skill_key default_skill_name ''--check''
      else wire)"

(* model.rs 315-320 SkillInvocation::is_skill_key *)
definition is_skill_key :: "string \<Rightarrow> bool" where
  "is_skill_key wire =
     (case split_once NUL wire of Some (name, _) \<Rightarrow> name \<noteq> [] | None \<Rightarrow> False)"

(* model.rs 305-312 SkillInvocation::parse_skill_key_wire *)
definition parse_skill_key_wire :: "string \<Rightarrow> string + string" where
  "parse_skill_key_wire wire =
     (if wire = ''review'' then Inr (skill_key default_skill_name [])
      else if wire = ''check'' then Inr (skill_key default_skill_name ''--check'')
      else if is_skill_key wire then Inr wire
      else Inl (''unknown skill_key wire value: '' @ debug_str wire))"

(* model.rs 324-331 SkillInvocation::migrate_legacy_dispatch_key *)
definition migrate_legacy_dispatch_key :: "string \<Rightarrow> string" where
  "migrate_legacy_dispatch_key key =
     (case rsplit_once CHR '':'' key of
        Some (pre, skill_part) \<Rightarrow> pre @ '':'' @ migrate_legacy_skill_key skill_part
      | None \<Rightarrow> key)"

(* model.rs 334-341 SkillInvocation::display_label *)
definition display_label :: "string \<Rightarrow> string" where
  "display_label skey =
     (let key = migrate_legacy_skill_key skey in
      case split_once NUL key of
        Some (name, extra) \<Rightarrow> if extra = [] then name else name @ '' '' @ extra
      | None \<Rightarrow> key)"

(* model.rs 343-360 SkillInvocation::render_command *)
definition render_command :: "string \<Rightarrow> string \<Rightarrow> nat \<Rightarrow> string \<Rightarrow> string \<Rightarrow> string" where
  "render_command template skill_name pr repo extra_args =
     (let command = str_replace ''{repo}'' repo
                     (str_replace ''{pr}'' (dec pr)
                       (str_replace ''{skill}'' skill_name template));
          extra = trim extra_args
      in if extra \<noteq> [] then command @ '' '' @ extra else command)"

section \<open>Confinement of the skill file\<close>

definition skill_prefix_ok :: "string \<Rightarrow> bool" where
  "skill_prefix_ok p \<longleftrightarrow> (\<exists>pre \<in> set skill_path_prefixes. prefix pre p)"

(* model.rs 364-405 SkillInvocation::resolve_skill_path *)
definition resolve_skill_path :: "filesystem \<Rightarrow> string \<Rightarrow> string \<Rightarrow> string + string" where
  "resolve_skill_path fs repo_root skill_path =
     (if path_is_absolute skill_path then
        Inl (''skill path must be relative to repo_root (absolute rejected): '' @ skill_path)
      else if ''..'' \<in> set (path_components skill_path) then
        Inl (''skill path must not contain '' @ [CHR 0x27] @ ''..'' @ [CHR 0x27] @ '': '' @ skill_path)
      else if \<not> skill_prefix_ok (strip_all [''./''] skill_path) then
        Inl (''skill path must be under '' @ join '' | '' skill_path_prefixes
             @ '' (got '' @ skill_path @ '')'')
      else
        try_bind (map_error (\<lambda>e. ''repo_root canonicalize failed: '' @ e)
                    (fs_canonicalize fs repo_root)) (\<lambda>root_canon.
        try_bind (map_error (\<lambda>e. ''skill path canonicalize failed: '' @ e)
                    (fs_canonicalize fs (path_join repo_root skill_path))) (\<lambda>skill_canon.
        if \<not> path_starts_with skill_canon root_canon then
          Inl (''skill path escapes repo_root: '' @ skill_path)
        else if \<not> fs_is_file fs skill_canon then
          Inl (''skill path is not a file: '' @ skill_canon)
        else Inr skill_canon)))"

(* model.rs 408-435 SkillInvocation::assert_skill_path_confined *)
definition assert_skill_path_confined :: "filesystem \<Rightarrow> string \<Rightarrow> string \<Rightarrow> string + unit" where
  "assert_skill_path_confined fs repo_root skill_abs =
     try_bind (map_error (\<lambda>e. ''repo_root canonicalize failed: '' @ e)
                 (fs_canonicalize fs repo_root)) (\<lambda>root.
     try_bind (map_error (\<lambda>e. ''skill path canonicalize failed: '' @ e)
                 (fs_canonicalize fs skill_abs)) (\<lambda>skill.
     if \<not> path_starts_with skill root then
       Inl (''skill path escapes repo_root: '' @ skill_abs)
     else if \<not> fs_is_file fs skill then
       Inl (''skill path is not a file: '' @ skill_abs)
     else
       try_bind (ok_or (strip_path_prefix skill root)
                   (''skill path escapes repo_root: '' @ skill_abs)) (\<lambda>rel.
       let rel_str = str_replace [CHR 0x5C] ''/'' rel in
       if \<not> skill_prefix_ok rel_str then
         Inl (''skill path must be under '' @ join '' | '' skill_path_prefixes
              @ '' (got '' @ rel_str @ '')'')
       else Inr ())))"

section \<open>Building an invocation\<close>

(* model.rs 437-451 SkillInvocation::build *)
definition build_invocation ::
    "string \<Rightarrow> string option \<Rightarrow> string \<Rightarrow> string \<Rightarrow> skill_invocation" where
  "build_invocation name path command extra_args =
     \<lparr>inv_skill_name = name, inv_skill_path = path, inv_command = command,
      inv_skill_key = skill_key name extra_args\<rparr>"

(* model.rs 455-478 SkillInvocation::from_config *)
definition invocation_from_config ::
    "filesystem \<Rightarrow> string \<Rightarrow> string \<Rightarrow> string \<Rightarrow> string \<Rightarrow> nat \<Rightarrow> string \<Rightarrow> string \<Rightarrow> engine_kind
      \<Rightarrow> string + skill_invocation" where
  "invocation_from_config fs repo_root skill_name skill_path command_template pr repo extra_args engine =
     try_bind (validate_prompt_token ''skillName'' skill_name) (\<lambda>_.
     let command = render_command command_template skill_name pr repo extra_args in
     try_bind (validate_prompt_token ''command'' command) (\<lambda>_.
     try_bind (if requires_skill_path engine
               then try_bind (resolve_skill_path fs repo_root skill_path) (\<lambda>p. Inr (Some p))
               else Inr None) (\<lambda>resolved.
     Inr (build_invocation skill_name resolved command extra_args))))"

(* model.rs 482-507 SkillInvocation::materialize_for_engine *)
definition materialize_for_engine ::
    "filesystem \<Rightarrow> skill_invocation \<Rightarrow> string \<Rightarrow> engine_kind \<Rightarrow> string + skill_invocation" where
  "materialize_for_engine fs invo repo_root engine =
     (if \<not> requires_skill_path engine then Inr (invo\<lparr>inv_skill_path := None\<rparr>)
      else
        try_bind
          (case inv_skill_path invo of
             Some p \<Rightarrow>
               if path_is_absolute p then
                 try_bind (assert_skill_path_confined fs repo_root p) (\<lambda>_. Inr p)
               else if p \<noteq> [] then resolve_skill_path fs repo_root p
               else resolve_skill_path fs repo_root default_skill_path
           | None \<Rightarrow> resolve_skill_path fs repo_root default_skill_path) (\<lambda>path.
        try_bind (validate_prompt_token ''skillName'' (inv_skill_name invo)) (\<lambda>_.
        try_bind (validate_prompt_token ''command'' (inv_command invo)) (\<lambda>_.
        Inr (invo\<lparr>inv_skill_path := Some path\<rparr>)))))"

(* model.rs 510-527 SkillInvocation::default_pr_review *)
definition default_pr_review ::
    "filesystem \<Rightarrow> string \<Rightarrow> nat \<Rightarrow> string \<Rightarrow> string \<Rightarrow> engine_kind \<Rightarrow> string + skill_invocation" where
  "default_pr_review fs repo_root pr repo extra_args engine =
     invocation_from_config fs repo_root default_skill_name default_skill_path
       default_command_template pr repo extra_args engine"

section \<open>Facts\<close>

lemma is_skill_key_skill_key:
  "name \<noteq> [] \<Longrightarrow> NUL \<notin> set name \<Longrightarrow> is_skill_key (skill_key name extra)"
  by (simp add: is_skill_key_def skill_key_def split_once_append)

lemma is_skill_key_iff: "is_skill_key w \<longleftrightarrow> (\<exists>a b. w = a @ NUL # b \<and> NUL \<notin> set a \<and> a \<noteq> [])"
proof
  assume "is_skill_key w"
  then obtain a b where "split_once NUL w = Some (a, b)" and "a \<noteq> []"
    by (auto simp: is_skill_key_def split: option.splits)
  then show "\<exists>a b. w = a @ NUL # b \<and> NUL \<notin> set a \<and> a \<noteq> []"
    by (auto simp: split_once_Some_iff)
next
  assume "\<exists>a b. w = a @ NUL # b \<and> NUL \<notin> set a \<and> a \<noteq> []"
  then show "is_skill_key w" by (auto simp: is_skill_key_def split_once_append)
qed

lemma skill_key_inj:
  assumes "skill_key a x = skill_key b y" and "NUL \<notin> set a" and "NUL \<notin> set b"
  shows "a = b \<and> trim x = trim y"
proof -
  from arg_cong [OF assms(1), of "split_once NUL"]
  have "Some (a, trim x) = Some (b, trim y)"
    unfolding skill_key_def append_Cons append_Nil
    by (simp only: split_once_append [OF assms(2)] split_once_append [OF assms(3)])
  then show ?thesis by simp
qed

lemma default_name_no_nul [simp]: "NUL \<notin> set default_skill_name" "default_skill_name \<noteq> []"
  by (simp_all add: default_skill_name_def)

lemma legacy_not_skill_key: "\<not> is_skill_key ''review''" "\<not> is_skill_key ''check''"
  by (simp_all add: is_skill_key_def split_once_def)

lemma migrate_legacy_skill_key_idem:
  "migrate_legacy_skill_key (migrate_legacy_skill_key w) = migrate_legacy_skill_key w"
  by (auto simp: migrate_legacy_skill_key_def skill_key_def default_skill_name_def)

lemma parse_skill_key_wire_Inr:
  assumes "parse_skill_key_wire w = Inr k"
  shows "is_skill_key k \<and> k = migrate_legacy_skill_key w"
  using assms
  by (auto simp: parse_skill_key_wire_def migrate_legacy_skill_key_def is_skill_key_skill_key
      split: if_splits)

lemma parse_skill_key_wire_idem:
  assumes "parse_skill_key_wire w = Inr k"
  shows "parse_skill_key_wire k = Inr k"
proof -
  have k: "is_skill_key k" using parse_skill_key_wire_Inr [OF assms] by blast
  then have "k \<noteq> ''review''" and "k \<noteq> ''check''" using legacy_not_skill_key by metis+
  with k show ?thesis by (simp add: parse_skill_key_wire_def)
qed

lemma resolve_skill_path_Inr:
  assumes "resolve_skill_path fs root p = Inr q"
  obtains rc where "fs_canonicalize fs root = Inr rc"
    and "fs_canonicalize fs (path_join root p) = Inr q"
    and "path_starts_with q rc" and "fs_is_file fs q"
    and "\<not> path_is_absolute p" and "''..'' \<notin> set (path_components p)"
    and "skill_prefix_ok (strip_all [''./''] p)"
  using assms
  by (auto simp: resolve_skill_path_def try_bind_Inr_iff split: if_splits)

lemma assert_confined_Inr:
  assumes "assert_skill_path_confined fs root p = Inr u"
  obtains rc q where "fs_canonicalize fs root = Inr rc" and "fs_canonicalize fs p = Inr q"
    and "path_starts_with q rc" and "fs_is_file fs q"
proof -
  from assms obtain rc q where "fs_canonicalize fs root = Inr rc" and "fs_canonicalize fs p = Inr q"
    and "path_starts_with q rc" and "fs_is_file fs q"
    by (auto simp: assert_skill_path_confined_def try_bind_Inr_iff Let_def split: if_splits)
  then show ?thesis by (rule that)
qed

lemma invocation_from_config_Inr:
  assumes "invocation_from_config fs root name path tmpl pr repo extra engine = Inr invo"
  shows "inv_skill_name invo = name" and "inv_skill_key invo = skill_key name extra"
    and "inv_command invo = render_command tmpl name pr repo extra"
    and "validate_prompt_token ''skillName'' name = Inr ()"
    and "validate_prompt_token ''command'' (inv_command invo) = Inr ()"
    and "requires_skill_path engine \<Longrightarrow>
      \<exists>q. inv_skill_path invo = Some q \<and> resolve_skill_path fs root path = Inr q"
    and "\<not> requires_skill_path engine \<Longrightarrow> inv_skill_path invo = None"
  using assms
  by (auto simp: invocation_from_config_def try_bind_Inr_iff Let_def build_invocation_def
      split: if_splits)

end
