(* ===== verification/Event.thy ===== *)
theory Event
  imports Skill
begin

text \<open>
  The inbound event envelope, the pull request candidate, the keys derived from them, and the
  payloads and results of outbox actions (\<open>src-tauri/src/model.rs\<close>).
\<close>

section \<open>The event envelope\<close>

(* model.rs 980-986 EventSubject *)
record event_subject =
  sub_number :: "nat option"
  sub_title :: string
  sub_body :: string
  sub_labels :: "string list"
  sub_url :: string

(* model.rs 1086-1095 ReviewRequestRef *)
record review_request =
  req_pr_number :: nat
  req_skill_name :: string
  req_extra_args :: string
  req_skill_path :: string
  req_command_template :: string
  req_request_id :: string
  req_origin :: external_trigger_origin
  req_notify_on_completion :: bool

(* model.rs 991-1014 EventPayload *)
datatype event_payload = Observation event_type event_subject | ReviewRequest review_request

(* model.rs 1102-1109 EventEnvelope *)
record event_envelope =
  env_dedupe_key :: string
  env_source :: source_kind
  env_project_id :: string
  env_repo :: string
  env_payload :: event_payload
  env_received_at_epoch :: nat

(* model.rs 1231-1251 EventEnvelope::new *)
definition envelope_new ::
    "string \<Rightarrow> source_kind \<Rightarrow> string \<Rightarrow> string \<Rightarrow> event_payload \<Rightarrow> nat \<Rightarrow> string + event_envelope" where
  "envelope_new dedupe_key source project_id repo payload received_at_epoch =
     (if trim project_id = [] then Inl ''event project id must not be empty''
      else Inr \<lparr>env_dedupe_key = dedupe_key, env_source = source, env_project_id = project_id,
                env_repo = repo, env_payload = payload, env_received_at_epoch = received_at_epoch\<rparr>)"

(* model.rs 1171-1191 EventEnvelope::observation *)
definition envelope_observation ::
    "string \<Rightarrow> source_kind \<Rightarrow> string \<Rightarrow> string \<Rightarrow> event_type \<Rightarrow> event_subject \<Rightarrow> nat
      \<Rightarrow> string + event_envelope" where
  "envelope_observation dedupe_key source project_id repo event_type subject received_at_epoch =
     envelope_new dedupe_key source project_id repo (Observation event_type subject) received_at_epoch"

(* model.rs 1194-1229 EventEnvelope::review_request *)
definition envelope_review_request ::
    "string \<Rightarrow> source_kind \<Rightarrow> string \<Rightarrow> string \<Rightarrow> review_request \<Rightarrow> nat \<Rightarrow> string + event_envelope" where
  "envelope_review_request dedupe_key source project_id repo request received_at_epoch =
     (if req_pr_number request = 0 then Inl ''review request PR number must be positive''
      else envelope_new dedupe_key source project_id repo (ReviewRequest request) received_at_epoch)"

(* model.rs 1272-1283 EventEnvelope::as_observation *)
definition as_observation :: "event_envelope \<Rightarrow> (event_type \<times> event_subject) option" where
  "as_observation e = (case env_payload e of Observation t s \<Rightarrow> Some (t, s) | ReviewRequest _ \<Rightarrow> None)"

(* model.rs 1285-1308 EventEnvelope::as_review_request *)
definition as_review_request :: "event_envelope \<Rightarrow> review_request option" where
  "as_review_request e = (case env_payload e of ReviewRequest r \<Rightarrow> Some r | Observation _ _ \<Rightarrow> None)"

text \<open>
  \<open>impl Deserialize for EventEnvelope\<close>: the wire struct has the same fields, each newtype field
  validates itself, and the constructor validates the whole.
\<close>

(* model.rs 1122-1168 EventEnvelope::deserialize *)
definition envelope_deserialize :: "event_envelope json_text \<Rightarrow> string + event_envelope" where
  "envelope_deserialize json =
     try_bind (from_json json) (\<lambda>wire.
     try_bind (new_key (env_dedupe_key wire)) (\<lambda>key.
     case env_payload wire of
       Observation t s \<Rightarrow>
         envelope_observation key (env_source wire) (env_project_id wire) (env_repo wire) t s
           (env_received_at_epoch wire)
     | ReviewRequest r \<Rightarrow>
         try_bind (parse_request_id (req_request_id r)) (\<lambda>_.
         envelope_review_request key (env_source wire) (env_project_id wire) (env_repo wire) r
           (env_received_at_epoch wire))))"

text \<open>The envelopes the constructors can make.\<close>

definition envelope_ok :: "event_envelope \<Rightarrow> bool" where
  "envelope_ok e \<longleftrightarrow>
     trim (env_dedupe_key e) \<noteq> [] \<and> trim (env_project_id e) \<noteq> [] \<and>
     (case env_payload e of
        Observation _ _ \<Rightarrow> True
      | ReviewRequest r \<Rightarrow> 0 < req_pr_number r \<and> parse_request_id (req_request_id r) = Inr (req_request_id r))"

lemma envelope_new_Inr_iff:
  "envelope_new k s p r pl t = Inr e \<longleftrightarrow>
     trim p \<noteq> [] \<and> e = \<lparr>env_dedupe_key = k, env_source = s, env_project_id = p, env_repo = r,
       env_payload = pl, env_received_at_epoch = t\<rparr>"
  by (auto simp: envelope_new_def)

lemma parse_request_id_Inr_iff:
  "parse_request_id v = Inr k \<longleftrightarrow> k = v \<and> length v = 32 \<and>
     list_all (\<lambda>b. is_ascii_digit b \<or> 97 \<le> byte_of b \<and> byte_of b \<le> 102) v"
  by (auto simp: parse_request_id_def)

lemma envelope_deserialize_ok: "envelope_deserialize j = Inr e \<Longrightarrow> envelope_ok e \<and> from_json j = Inr e"
proof -
  assume e: "envelope_deserialize j = Inr e"
  then obtain w where w: "from_json j = Inr w" by (auto simp: envelope_deserialize_def try_bind_Inr_iff)
  show "envelope_ok e \<and> from_json j = Inr e"
    using e w
    by (cases "env_payload w")
       (auto simp: envelope_deserialize_def try_bind_Inr_iff new_key_Inr_iff envelope_observation_def
         envelope_review_request_def envelope_new_Inr_iff envelope_ok_def parse_request_id_Inr_iff
         split: if_splits)
qed

lemma envelope_deserialize_serialize: "envelope_ok e \<Longrightarrow> envelope_deserialize (JsonOf e) = Inr e"
  by (cases "env_payload e")
     (auto simp: envelope_deserialize_def envelope_ok_def new_key_def non_empty_def
       envelope_observation_def envelope_review_request_def envelope_new_def)

lemma as_observation_iff: "as_observation e = Some (t, s) \<longleftrightarrow> env_payload e = Observation t s"
  by (auto simp: as_observation_def split: event_payload.splits)

lemma as_review_request_iff: "as_review_request e = Some r \<longleftrightarrow> env_payload e = ReviewRequest r"
  by (auto simp: as_review_request_def split: event_payload.splits)

lemma observation_xor_request:
  "(as_observation e \<noteq> None) \<noteq> (as_review_request e \<noteq> None)"
  by (auto simp: as_observation_def as_review_request_def split: event_payload.splits)

section \<open>Candidates and action keys\<close>

(* model.rs 533-542 Candidate *)
record candidate =
  cand_number :: nat
  cand_head_sha :: string
  cand_head_ref :: string
  cand_author :: string
  cand_is_cross_repository :: bool
  cand_is_draft :: bool
  cand_skill_key :: string

(* model.rs 549-562 ReviewActionKey::for_parts *)
definition action_key_for_parts :: "nat \<Rightarrow> string \<Rightarrow> string \<Rightarrow> string + string" where
  "action_key_for_parts pr_number head_sha skey =
     (if pr_number = 0 then Inl ''review action key requires a positive PR number''
      else if trim head_sha = [] then Inl ''review action key requires a non-empty head SHA''
      else new_key (dec pr_number @ ''@'' @ head_sha @ '':'' @ skey))"

(* model.rs 545-547 ReviewActionKey::for_candidate *)
definition action_key_for_candidate :: "candidate \<Rightarrow> string + string" where
  "action_key_for_candidate c =
     action_key_for_parts (cand_number c) (cand_head_sha c) (cand_skill_key c)"

section \<open>Outbox producer keys\<close>

(* model.rs 566-582 OutboxProducerKey::for_rule_action *)
definition producer_for_rule_action :: "int \<Rightarrow> string \<Rightarrow> string \<Rightarrow> string + string" where
  "producer_for_rule_action inbox_id rule_id action_id =
     (if trim rule_id = [] \<or> trim action_id = [] then Inl ''rule and action ids must not be empty''
      else new_key (''inbox:'' @ dec_int inbox_id @ '':rule:'' @ dec (length rule_id) @ '':'' @ rule_id
             @ '':action:'' @ dec (length action_id) @ '':'' @ action_id))"

(* model.rs 584-595 OutboxProducerKey::for_dedupe *)
definition producer_for_dedupe :: "string \<Rightarrow> string \<Rightarrow> string + string" where
  "producer_for_dedupe project_id dedupe_key =
     (if trim project_id = [] \<or> trim dedupe_key = []
      then Inl ''project id and dedupe key must not be empty''
      else new_key (''dedupe:'' @ dec (length project_id) @ '':'' @ project_id @ '':''
             @ dec (length dedupe_key) @ '':'' @ dedupe_key))"

(* model.rs 2180-2194 OutboxProducerKey::for_manual *)
definition producer_for_manual :: "string \<Rightarrow> action_kind \<Rightarrow> string \<Rightarrow> string + string" where
  "producer_for_manual project_id kind nonce =
     (if trim project_id = [] then Inl ''manual producer key requires a project id''
      else new_key (''manual:'' @ dec (length project_id) @ '':'' @ project_id @ '':''
             @ action_kind_as_str kind @ '':'' @ nonce))"

lemma producer_rule_action_Inr:
  assumes "producer_for_rule_action i r a = Inr k"
  shows "k = ''inbox:'' @ dec_int i @ '':rule:'' @ dec (length r) @ '':'' @ r @ '':action:''
    @ dec (length a) @ '':'' @ a"
  using assms by (auto simp: producer_for_rule_action_def new_key_Inr_iff split: if_splits)

lemma producer_dedupe_Inr:
  assumes "producer_for_dedupe p d = Inr k"
  shows "k = ''dedupe:'' @ dec (length p) @ '':'' @ p @ '':'' @ dec (length d) @ '':'' @ d"
  using assms by (auto simp: producer_for_dedupe_def new_key_Inr_iff split: if_splits)

lemma producer_manual_Inr:
  assumes "producer_for_manual p kind n = Inr k"
  shows "k = ''manual:'' @ dec (length p) @ '':'' @ p @ '':'' @ action_kind_as_str kind @ '':'' @ n"
  using assms by (auto simp: producer_for_manual_def new_key_Inr_iff split: if_splits)

text \<open>The three families of producer keys are disjoint and each is injective in its parts.\<close>

lemma producer_families_disjoint:
  assumes "producer_for_rule_action i r a = Inr k" and "producer_for_dedupe p d = Inr k'"
    and "producer_for_manual q kind n = Inr k''"
  shows "k \<noteq> k'" and "k \<noteq> k''" and "k' \<noteq> k''"
  using producer_rule_action_Inr [OF assms(1)] producer_dedupe_Inr [OF assms(2)]
    producer_manual_Inr [OF assms(3)] by auto

lemma producer_rule_action_inj:
  assumes "producer_for_rule_action i r a = Inr k" and "producer_for_rule_action j s b = Inr k"
    and "0 \<le> i" and "0 \<le> j"
  shows "i = j \<and> r = s \<and> a = b"
proof -
  have eq: "dec_int i @ CHR '':'' # ''rule:'' @ dec (length r) @ '':'' @ r @ '':action:''
        @ dec (length a) @ '':'' @ a =
      dec_int j @ CHR '':'' # ''rule:'' @ dec (length s) @ '':'' @ s @ '':action:''
        @ dec (length b) @ '':'' @ b"
    using producer_rule_action_Inr [OF assms(1)] producer_rule_action_Inr [OF assms(2)] by simp
  from colon_split_inj [OF eq colon_notin_dec_int colon_notin_dec_int]
  have ids: "dec_int i = dec_int j"
    and rest: "dec (length r) @ CHR '':'' # r @ '':action:'' @ dec (length a) @ '':'' @ a =
      dec (length s) @ CHR '':'' # s @ '':action:'' @ dec (length b) @ '':'' @ b"
    by simp_all
  from length_prefix_inj [OF rest] have rs: "r = s"
    and rest': "dec (length a) @ CHR '':'' # a @ [] = dec (length b) @ CHR '':'' # b @ []"
    by simp_all
  from length_prefix_inj [OF rest'] have "a = b" by simp
  with ids rs assms(3,4) show ?thesis by (simp add: dec_int_inj)
qed

lemma producer_dedupe_inj:
  assumes "producer_for_dedupe p d = Inr k" and "producer_for_dedupe q e = Inr k"
  shows "p = q \<and> d = e"
proof -
  have eq: "dec (length p) @ CHR '':'' # p @ '':'' @ dec (length d) @ '':'' @ d =
      dec (length q) @ CHR '':'' # q @ '':'' @ dec (length e) @ '':'' @ e"
    using producer_dedupe_Inr [OF assms(1)] producer_dedupe_Inr [OF assms(2)] by simp
  from length_prefix_inj [OF eq] have "p = q"
    and rest: "dec (length d) @ CHR '':'' # d @ [] = dec (length e) @ CHR '':'' # e @ []"
    by simp_all
  with length_prefix_inj [OF rest] show ?thesis by simp
qed

lemma colon_notin_kind: "CHR '':'' \<notin> set (action_kind_as_str k)"
  by (cases k) simp_all

lemma producer_manual_inj:
  assumes "producer_for_manual p kind n = Inr k" and "producer_for_manual q kind' m = Inr k"
  shows "p = q \<and> action_kind_as_str kind = action_kind_as_str kind' \<and> n = m"
proof -
  have eq: "dec (length p) @ CHR '':'' # p @ '':'' @ action_kind_as_str kind @ '':'' @ n =
      dec (length q) @ CHR '':'' # q @ '':'' @ action_kind_as_str kind' @ '':'' @ m"
    using producer_manual_Inr [OF assms(1)] producer_manual_Inr [OF assms(2)] by simp
  from length_prefix_inj [OF eq] have "p = q"
    and rest: "action_kind_as_str kind @ CHR '':'' # n = action_kind_as_str kind' @ CHR '':'' # m"
    by simp_all
  with colon_split_inj [OF rest colon_notin_kind colon_notin_kind] show ?thesis by simp
qed

section \<open>Requests, payloads and results of actions\<close>

(* model.rs 1986-1998 SendNotificationRequest *)
record send_notification_request =
  snr_level :: "notification_level option"
  snr_title :: string
  snr_body :: "string option"
  snr_url :: "string option"
  snr_project_id :: "string option"
  snr_channel_ids :: "string list"

(* model.rs 1746-1755 MessagingSendContent *)
datatype messaging_send_content = Text string | Card string string messaging_card_template

(* model.rs 1883-1888 SendMessagingRequest *)
record send_messaging_request =
  smr_integration_id :: string
  smr_conversation_id :: string
  smr_content :: messaging_send_content
  smr_request_id :: string

(* model.rs 1427-1440 Notification *)
record notification =
  ntf_level :: notification_level
  ntf_title :: string
  ntf_url :: string
  ntf_body :: string
  ntf_project_id :: string

(* model.rs 1971-1975 NotificationDeliveryPayload *)
record notification_delivery =
  dlv_notification :: notification
  dlv_channel_id :: string
  dlv_kind :: notification_kind

(* model.rs 2212-2225 ReviewActionPayload *)
datatype review_action_payload =
  Automatic candidate skill_invocation
| Explicit nat string external_trigger_origin skill_invocation

(* model.rs 2228-2233 ReviewActionPayload::automatic_candidate *)
fun automatic_candidate :: "review_action_payload \<Rightarrow> candidate option" where
  "automatic_candidate (Automatic c i) = Some c"
| "automatic_candidate (Explicit n r orig i) = None"

(* model.rs 2235-2239 ReviewActionPayload::invocation *)
fun payload_invocation :: "review_action_payload \<Rightarrow> skill_invocation" where
  "payload_invocation (Automatic c i) = i"
| "payload_invocation (Explicit n r orig i) = i"

(* model.rs 1685-1690 MessagingReplyPayload *)
record messaging_reply_payload =
  mrp_integration_id :: string
  mrp_provider :: messaging_provider_kind
  mrp_conversation_id :: string
  mrp_message_id :: string
  mrp_thread_id :: string
  mrp_text :: string

(* model.rs 1700-1705 MessagingSendPayload *)
record messaging_send_payload =
  msp_integration_id :: string
  msp_provider :: messaging_provider_kind
  msp_conversation_id :: string
  msp_content :: messaging_send_content

(* model.rs 2265-2270 StopReviewActionPayload *)
record stop_review_payload =
  srp_pr_number :: nat
  srp_skill_key :: string

text \<open>What the \<open>payload\<close> column of an outbox row serialises, one case per action kind.\<close>

datatype action_payload =
  DeliveryPayload notification_delivery
| ReviewPayload review_action_payload
| StopPayload stop_review_payload
| ReplyPayload messaging_reply_payload
| SendPayload messaging_send_payload

(* model.rs 2244-2251 ActionExecutionOutput *)
datatype action_execution_output = Output_None | Output_Review string

(* model.rs 2092-2110 ActionExecutionResult *)
datatype action_execution_result =
  Exec_Done action_execution_output
| Exec_Blocked string nat
| Exec_Retry string "nat option"
| Exec_Dead string

end
