(* ===== verification/Tables.thy ===== *)
theory Tables
  imports Prelude
begin

text \<open>
  SQLite tables. A table is its rows in rowid order and the \<open>AUTOINCREMENT\<close> counter of
  \<open>sqlite_sequence\<close>; SELECT, UPDATE and DELETE are the list functions below, and a UNIQUE index is
  the distinctness of the keys it holds (a partial index leaves a row out by giving it no key). The
  locale \<open>cas_family\<close> is the contract of the guarded single-row updates, "UPDATE ... WHERE id = ?
  AND <guard>" with the number of changed rows as the answer, which the program uses as its
  compare-and-set.
\<close>

section \<open>Rows, identifiers and statements\<close>

record 'r table =
  tb_rows :: "'r list"
  tb_seq :: int

definition empty_table :: "'r table" where
  "empty_table = \<lparr>tb_rows = [], tb_seq = 0\<rparr>"

definition sql_select :: "('r \<Rightarrow> bool) \<Rightarrow> 'r table \<Rightarrow> 'r list" where
  "sql_select p t = filter p (tb_rows t)"

definition sql_update :: "('r \<Rightarrow> bool) \<Rightarrow> ('r \<Rightarrow> 'r) \<Rightarrow> 'r table \<Rightarrow> 'r table" where
  "sql_update p f t = t\<lparr>tb_rows := map (\<lambda>r. if p r then f r else r) (tb_rows t)\<rparr>"

definition sql_changes :: "('r \<Rightarrow> bool) \<Rightarrow> 'r table \<Rightarrow> nat" where
  "sql_changes p t = length (filter p (tb_rows t))"

definition sql_delete :: "('r \<Rightarrow> bool) \<Rightarrow> 'r table \<Rightarrow> 'r table" where
  "sql_delete p t = t\<lparr>tb_rows := filter (\<lambda>r. \<not> p r) (tb_rows t)\<rparr>"

text \<open>
  The rowid an INSERT into an \<open>AUTOINCREMENT\<close> table takes: one more than any it ever had, or the
  error SQLITE_FULL once the largest \<open>i64\<close> is used up.
\<close>

definition tbl_next :: "'r table \<Rightarrow> string + int" where
  "tbl_next t = (if tb_seq t < i64_max then Inr (tb_seq t + 1) else Inl ''database or disk is full'')"

definition tbl_push :: "int \<Rightarrow> 'r \<Rightarrow> 'r table \<Rightarrow> 'r table" where
  "tbl_push i r t = t\<lparr>tb_rows := tb_rows t @ [r], tb_seq := i\<rparr>"

definition by_id :: "('r \<Rightarrow> 'k) \<Rightarrow> 'k \<Rightarrow> 'r table \<Rightarrow> 'r option" where
  "by_id rid i t = find (\<lambda>r. rid r = i) (tb_rows t)"

text \<open>The rowid invariant of every table: ids are positive, ascending and below the counter.\<close>

definition tbl_ok :: "('r \<Rightarrow> int) \<Rightarrow> 'r table \<Rightarrow> bool" where
  "tbl_ok rid t \<longleftrightarrow>
     sorted_wrt (<) (map rid (tb_rows t)) \<and>
     (\<forall>r \<in> set (tb_rows t). 0 < rid r \<and> rid r \<le> tb_seq t) \<and> 0 \<le> tb_seq t"

lemma tb_rows_update [table_simps]:
  "tb_rows (sql_update p f t) = map (\<lambda>r. if p r then f r else r) (tb_rows t)"
  by (simp add: sql_update_def)

lemma tb_seq_update [table_simps]: "tb_seq (sql_update p f t) = tb_seq t"
  by (simp add: sql_update_def)

lemma tb_rows_delete [table_simps]: "tb_rows (sql_delete p t) = filter (\<lambda>r. \<not> p r) (tb_rows t)"
  by (simp add: sql_delete_def)

lemma tb_seq_delete [table_simps]: "tb_seq (sql_delete p t) = tb_seq t"
  by (simp add: sql_delete_def)

lemma tb_rows_push [table_simps]: "tb_rows (tbl_push i r t) = tb_rows t @ [r]"
  by (simp add: tbl_push_def)

lemma tb_seq_push [table_simps]: "tb_seq (tbl_push i r t) = i"
  by (simp add: tbl_push_def)

lemma sql_update_none: "sql_changes p t = 0 \<Longrightarrow> sql_update p f t = t"
  by (cases t) (auto simp: sql_changes_def sql_update_def filter_empty_conv map_idI)

lemma tbl_ok_empty [inv_intros]: "tbl_ok rid empty_table"
  by (simp add: tbl_ok_def empty_table_def)

lemma tbl_ok_distinct: "tbl_ok rid t \<Longrightarrow> distinct (map rid (tb_rows t))"
  by (simp add: tbl_ok_def strict_sorted_iff)

lemma tbl_ok_id_eq:
  assumes "tbl_ok rid t" and "r \<in> set (tb_rows t)" and "s \<in> set (tb_rows t)" and "rid r = rid s"
  shows "r = s"
  using tbl_ok_distinct [OF assms(1)] assms(2-4) by (auto simp: distinct_map inj_on_def)

lemma tbl_ok_push [inv_intros]:
  assumes "tbl_ok rid t" and "tbl_next t = Inr i" and "rid r = i"
  shows "tbl_ok rid (tbl_push i r t)"
  using assms
  by (force simp: tbl_ok_def tbl_next_def tbl_push_def sorted_wrt_append split: if_splits)

lemma map_rid_update:
  assumes "\<And>r. rid (f r) = rid r"
  shows "map rid (tb_rows (sql_update p f t)) = map rid (tb_rows t)"
  using assms by (simp add: table_simps)

lemma tbl_ok_update [inv_intros]:
  assumes "tbl_ok rid t" and "\<And>r. rid (f r) = rid r"
  shows "tbl_ok rid (sql_update p f t)"
proof -
  have "\<forall>r \<in> set (tb_rows (sql_update p f t)). 0 < rid r \<and> rid r \<le> tb_seq t"
    using assms(1) by (auto simp: tbl_ok_def table_simps assms(2))
  with assms(1) show ?thesis
    unfolding tbl_ok_def map_rid_update [of rid f p t, OF assms(2)] tb_seq_update by blast
qed

lemma tbl_ok_delete [inv_intros]: "tbl_ok rid t \<Longrightarrow> tbl_ok rid (sql_delete p t)"
  by (auto simp: tbl_ok_def table_simps sorted_wrt_map intro: sorted_wrt_filter)

subsection \<open>Lookup by identifier\<close>

lemma by_id_Some_in: "by_id rid i t = Some r \<Longrightarrow> r \<in> set (tb_rows t) \<and> rid r = i"
  by (auto simp: by_id_def find_Some_iff)

lemma by_id_None_iff: "by_id rid i t = None \<longleftrightarrow> i \<notin> rid ` set (tb_rows t)"
  by (auto simp: by_id_def find_None_iff)

lemma by_id_eq_Some_iff:
  assumes "distinct (map rid (tb_rows t))"
  shows "by_id rid i t = Some r \<longleftrightarrow> r \<in> set (tb_rows t) \<and> rid r = i"
proof
  assume r: "r \<in> set (tb_rows t) \<and> rid r = i"
  then obtain s where s: "by_id rid i t = Some s"
    using by_id_None_iff [of rid i t] by fastforce
  with by_id_Some_in [OF s] r assms have "s = r" by (auto simp: distinct_map inj_on_def)
  with s show "by_id rid i t = Some r" by simp
qed (rule by_id_Some_in)

lemma by_id_update:
  assumes "\<And>r. rid (f r) = rid r"
  shows "by_id rid i (sql_update p f t) = map_option (\<lambda>r. if p r then f r else r) (by_id rid i t)"
proof -
  have "find (\<lambda>r. rid r = i) (map (\<lambda>r. if p r then f r else r) rs) =
      map_option (\<lambda>r. if p r then f r else r) (find (\<lambda>r. rid r = i) rs)" for rs
    by (induction rs) (auto simp: assms)
  then show ?thesis by (simp add: by_id_def table_simps)
qed

lemma by_id_push:
  assumes "\<And>s. s \<in> set (tb_rows t) \<Longrightarrow> rid s \<noteq> rid r"
  shows "by_id rid j (tbl_push i r t) = (if j = rid r then Some r else by_id rid j t)"
proof -
  have "find (\<lambda>r. rid r = j) (rs @ [r]) = (if j = rid r then Some r else find (\<lambda>r. rid r = j) rs)"
    if "\<And>s. s \<in> set rs \<Longrightarrow> rid s \<noteq> rid r" for rs
    using that by (induction rs) auto
  with assms show ?thesis by (simp add: by_id_def table_simps)
qed

lemma tbl_next_fresh:
  assumes "tbl_ok rid t" and "tbl_next t = Inr i"
  shows "\<And>s. s \<in> set (tb_rows t) \<Longrightarrow> rid s < i"
  using assms by (fastforce simp: tbl_ok_def tbl_next_def split: if_splits)

lemma changes_by_id:
  assumes "distinct (map rid (tb_rows t))"
  shows "sql_changes (\<lambda>r. rid r = i \<and> g r) t =
    (case by_id rid i t of Some r \<Rightarrow> if g r then 1 else 0 | None \<Rightarrow> 0)"
proof -
  have "length (filter (\<lambda>r. rid r = i \<and> g r) rs) =
      (case find (\<lambda>r. rid r = i) rs of Some r \<Rightarrow> if g r then 1 else 0 | None \<Rightarrow> 0)"
    if "distinct (map rid rs)" for rs
    using that
  proof (induction rs)
    case (Cons r rs)
    from Cons.prems have "rid r = i \<Longrightarrow> filter (\<lambda>r. rid r = i \<and> g r) rs = []"
      by (auto simp: filter_empty_conv) (metis imageI)
    with Cons show ?case by (auto split: option.splits)
  qed simp
  with assms show ?thesis by (simp add: sql_changes_def by_id_def)
qed

section \<open>UNIQUE indexes\<close>

definition index_keys :: "('r \<Rightarrow> 'k option) \<Rightarrow> 'r list \<Rightarrow> 'k list" where
  "index_keys key rs = List.map_filter key rs"

definition unique_index :: "('r \<Rightarrow> 'k option) \<Rightarrow> 'r list \<Rightarrow> bool" where
  "unique_index key rs \<longleftrightarrow> distinct (index_keys key rs)"

lemma index_keys_simps [simp]:
  "index_keys key [] = []"
  "index_keys key (r # rs) = (case key r of None \<Rightarrow> index_keys key rs | Some k \<Rightarrow> k # index_keys key rs)"
  by (simp_all add: index_keys_def List.map_filter_simps split: option.split)

lemma index_keys_append [simp]: "index_keys key (rs @ ss) = index_keys key rs @ index_keys key ss"
  by (induction rs) (auto split: option.splits)

lemma set_index_keys: "set (index_keys key rs) = {k. \<exists>r \<in> set rs. key r = Some k}"
  by (induction rs) (auto split: option.splits)

lemma unique_index_snoc:
  "unique_index key (rs @ [r]) \<longleftrightarrow>
     unique_index key rs \<and> (\<forall>k. key r = Some k \<longrightarrow> (\<forall>s \<in> set rs. key s \<noteq> Some k))"
  by (auto simp: unique_index_def set_index_keys split: option.splits)

lemma unique_index_filter: "unique_index key rs \<Longrightarrow> unique_index key (filter p rs)"
proof (induction rs)
  case (Cons r rs)
  then show ?case
    by (cases "key r") (auto simp: unique_index_def set_index_keys)
qed (simp add: unique_index_def)

text \<open>An UPDATE that keeps a row's key or takes the row out of the index cannot violate it.\<close>

lemma unique_index_map:
  assumes "unique_index key rs" and "\<And>r. r \<in> set rs \<Longrightarrow> key (h r) = key r \<or> key (h r) = None"
  shows "unique_index key (map h rs)"
  using assms
proof (induction rs)
  case (Cons r rs)
  then have IH: "unique_index key (map h rs)" by (auto simp: unique_index_def split: option.splits)
  have "k \<notin> set (index_keys key (map h rs))" if "key (h r) = Some k" for k
  proof -
    from that Cons.prems have "key r = Some k" by force
    with Cons.prems(1) have "\<forall>s \<in> set rs. key s \<noteq> Some k"
      by (auto simp: unique_index_def set_index_keys)
    with Cons.prems(2) show ?thesis by (fastforce simp: set_index_keys)
  qed
  with IH show ?case by (auto simp: unique_index_def split: option.splits)
qed (simp add: unique_index_def)

lemma unique_index_eq:
  assumes "unique_index key rs" and "r \<in> set rs" and "s \<in> set rs" and "key r = Some k" and "key s = Some k"
  shows "r = s"
  using assms
  by (induction rs) (auto simp: unique_index_def set_index_keys split: option.splits)

section \<open>Guarded single-row updates as compare-and-set\<close>

definition cas :: "('r \<Rightarrow> 'k) \<Rightarrow> ('r \<Rightarrow> bool) \<Rightarrow> ('r \<Rightarrow> 'r) \<Rightarrow> 'k \<Rightarrow> 'r table \<Rightarrow> nat \<times> 'r table" where
  "cas rid g f i t =
     (sql_changes (\<lambda>r. rid r = i \<and> g r) t, sql_update (\<lambda>r. rid r = i \<and> g r) f t)"

text \<open>A sequence of such updates, in any order, with the change count of each.\<close>

fun cas_run :: "('r \<Rightarrow> 'k) \<Rightarrow> ('c \<Rightarrow> 'r \<Rightarrow> bool) \<Rightarrow> ('c \<Rightarrow> 'r \<Rightarrow> 'r) \<Rightarrow> 'k \<Rightarrow> 'c list \<Rightarrow> 'r table
    \<Rightarrow> nat list \<times> 'r table" where
  "cas_run rid g f i [] t = ([], t)"
| "cas_run rid g f i (c # cs) t =
     (let (n, t') = cas rid (g c) (f c) i t; (ns, t'') = cas_run rid g f i cs t' in (n # ns, t''))"

lemma cas_changes:
  assumes "distinct (map rid (tb_rows t))"
  shows "fst (cas rid g f i t) = (case by_id rid i t of Some r \<Rightarrow> if g r then 1 else 0 | None \<Rightarrow> 0)"
  using changes_by_id [OF assms] by (simp add: cas_def)

lemma cas_loser: "fst (cas rid g f i t) = 0 \<Longrightarrow> snd (cas rid g f i t) = t"
  by (simp add: cas_def sql_update_none)

text \<open>
  The contract: an update keeps the identifier, and a row that one command of the family has
  changed no longer satisfies the guard of any of them.
\<close>

locale cas_family =
  fixes rid :: "'r \<Rightarrow> 'k" and guard :: "'c \<Rightarrow> 'r \<Rightarrow> bool" and act :: "'c \<Rightarrow> 'r \<Rightarrow> 'r"
  assumes rid_act: "rid (act c r) = rid r"
    and closes: "guard c r \<Longrightarrow> \<not> guard d (act c r)"
begin

lemma cas_lookup:
  "by_id rid j (snd (cas rid (guard c) (act c) i t)) =
     map_option (\<lambda>r. if rid r = i \<and> guard c r then act c r else r) (by_id rid j t)"
  by (simp add: cas_def by_id_update rid_act)

lemma cas_distinct:
  "distinct (map rid (tb_rows (snd (cas rid (guard c) (act c) i t)))) =
     distinct (map rid (tb_rows t))"
  using map_rid_update [of rid "act c", OF rid_act] by (simp only: cas_def snd_conv)

lemma cas_won:
  assumes "distinct (map rid (tb_rows t))" and "cas rid (guard c) (act c) i t = (Suc 0, t')"
  obtains r where "by_id rid i t = Some r" and "guard c r" and "by_id rid i t' = Some (act c r)"
    and "distinct (map rid (tb_rows t'))" and "\<And>d. fst (cas rid (guard d) (act d) i t') = 0"
proof (cases "by_id rid i t")
  case None
  with cas_changes [OF assms(1), of "guard c" "act c" i] assms(2) show ?thesis by simp
next
  case (Some r)
  with cas_changes [OF assms(1), of "guard c" "act c" i] assms(2) have g: "guard c r"
    by (cases "guard c r") simp_all
  from cas_lookup [of i c i t] assms(2) Some g by_id_Some_in [OF Some]
  have look: "by_id rid i t' = Some (act c r)" by simp
  from cas_distinct [of c i t] assms have dist: "distinct (map rid (tb_rows t'))" by simp
  have "fst (cas rid (guard d) (act d) i t') = 0" for d
    using cas_changes [OF dist, of "guard d" "act d" i] look closes [OF g] by simp
  with that [OF Some g look dist] show ?thesis .
qed

lemma cas_lost:
  assumes "distinct (map rid (tb_rows t))" and "by_id rid i t = Some r" and "\<not> guard c r"
  shows "cas rid (guard c) (act c) i t = (0, t)"
proof -
  have "fst (cas rid (guard c) (act c) i t) = 0"
    using cas_changes [OF assms(1), of "guard c" "act c" i] assms(2,3) by simp
  with cas_loser [OF this] show ?thesis by (cases "cas rid (guard c) (act c) i t") simp
qed

lemma closed_run:
  assumes "distinct (map rid (tb_rows t))"
    and "\<And>d r. by_id rid i t = Some r \<Longrightarrow> \<not> guard d r"
  shows "cas_run rid guard act i cs t = (replicate (length cs) 0, t)"
  using assms
proof (induction cs)
  case (Cons c cs)
  have "fst (cas rid (guard c) (act c) i t) = 0"
    using Cons.prems by (auto simp: cas_changes split: option.splits)
  with cas_loser [OF this] Cons show ?case
    by (cases "cas rid (guard c) (act c) i t") simp
qed simp

text \<open>At most one command of a run wins, and every command after the winner changes nothing.\<close>

lemma run_wins_at_most_once:
  assumes "distinct (map rid (tb_rows t))"
  shows "sum_list (fst (cas_run rid guard act i cs t)) \<le> 1"
  using assms
proof (induction cs arbitrary: t)
  case (Cons c cs)
  obtain n t' where nt: "cas rid (guard c) (act c) i t = (n, t')" by (cases "cas rid (guard c) (act c) i t")
  from cas_distinct [of c i t] Cons.prems nt have d: "distinct (map rid (tb_rows t'))" by simp
  from cas_changes [OF Cons.prems, of "guard c" "act c" i] nt
  have n: "n = (case by_id rid i t of Some r \<Rightarrow> if guard c r then 1 else 0 | None \<Rightarrow> 0)" by simp
  show ?case
  proof (cases "n = 0")
    case True
    with cas_loser [of rid "guard c" "act c" i t] nt have "t' = t" by simp
    with Cons.IH [OF Cons.prems] True nt show ?thesis
      by (simp add: split_beta)
  next
    case False
    with n obtain r where r: "by_id rid i t = Some r" "guard c r" "n = 1"
      by (auto split: option.splits if_splits)
    with cas_lookup [of i c i t] nt have "by_id rid i t' = Some (act c r)"
      using by_id_Some_in [OF r(1)] by simp
    with closes [OF r(2)] have "cas_run rid guard act i cs t' = (replicate (length cs) 0, t')"
      by (intro closed_run d) simp
    with nt r show ?thesis by (simp add: sum_list_replicate)
  qed
qed simp

lemma winner_closes:
  assumes "distinct (map rid (tb_rows t))" and "fst (cas rid (guard c) (act c) i t) = 1"
  shows "cas_run rid guard act i cs (snd (cas rid (guard c) (act c) i t)) =
    (replicate (length cs) 0, snd (cas rid (guard c) (act c) i t))"
proof -
  from cas_changes [OF assms(1), of "guard c" "act c" i] assms(2)
  obtain r where r: "by_id rid i t = Some r" "guard c r" by (auto split: option.splits if_splits)
  with cas_lookup [of i c i t] by_id_Some_in [OF r(1)]
  have "by_id rid i (snd (cas rid (guard c) (act c) i t)) = Some (act c r)" by simp
  with closes [OF r(2)] assms(1) show ?thesis by (intro closed_run) (auto simp: cas_distinct)
qed

end

end
