(* ===== verification/Schema.thy ===== *)
theory Schema
  imports Event Tables
begin

text \<open>
  The database (\<open>db.rs\<close>): one record per table row in the current schema, the database as a record
  of tables, the two ways the stores run statements (\<open>with_conn\<close>, which maps the SQLite error, and
  \<open>with_tx\<close>, which drops every change of a closure that fails), and the constraints of the tables
  the stores rely on. A column that holds an enum keeps its wire string, so that a value no enum
  knows can be stored, and a column that holds JSON is a \<open>json_text\<close>.

  Statements inside a transaction have the type \<open>db \<Rightarrow> app_error + 'a \<times> db\<close>: a failure carries no
  database, because the transaction is rolled back. SQLite itself is not modelled: a statement fails
  only by a constraint of the schema, an exhausted rowid or a missing row.
\<close>

section \<open>Rows\<close>

(* db.rs 724-739 SCHEMA_V18 *)
record outbox_row =
  ob_id :: int
  ob_project_id :: string
  ob_kind :: string
  ob_summary :: string
  ob_payload :: "action_payload json_text"
  ob_status :: string
  ob_attempt_count :: int
  ob_next_attempt_at :: int
  ob_last_error :: "string option"
  ob_created_at :: int
  ob_updated_at :: int
  ob_dedupe_key :: "string option"
  ob_producer_key :: string
  ob_review_thread_id :: "string option"

(* db.rs 1159-1175 SCHEMA_V15 *)
record inbox_row =
  ib_id :: int
  ib_dedupe_key :: string
  ib_source :: string
  ib_event_type :: string
  ib_project_id :: string
  ib_repo :: string
  ib_number :: "int option"
  ib_event_json :: "event_envelope json_text"
  ib_raw_payload :: string
  ib_webhook_event_json :: "string option"
  ib_status :: string
  ib_received_at :: int
  ib_processed_at :: "int option"
  ib_error :: "string option"
  ib_candidate_json :: "candidate json_text option"

(* db.rs 986-996 SCHEMA_V10 *)
record rule_match_row =
  rm_id :: int
  rm_rule_id :: string
  rm_rule_name :: string
  rm_inbox_event_id :: int
  rm_project_id :: string
  rm_action_count :: int
  rm_error :: "string option"
  rm_created_at :: int

text \<open>\<open>rule_match_action\<close> is a table of pairs, the match and the outbox row.\<close>

type_synonym match_action_row = "int \<times> int"

(* db.rs 808-817 SCHEMA_V1 *)
record session_row =
  ss_thread_id :: string
  ss_project_id :: string
  ss_pr_number :: int
  ss_turn_id :: string
  ss_skill_key :: string
  ss_status :: string
  ss_created_at :: int
  ss_updated_at :: int
  ss_comment_url :: "string option"
  ss_engine_kind :: string
  ss_terminal_outcome :: "string option"
  ss_terminal_error :: "string option"

(* db.rs 825-833 SCHEMA_V1 *)
record history_row =
  hi_id :: int
  hi_thread_id :: string
  hi_item_id :: string
  hi_kind :: string
  hi_text :: string

(* db.rs 948-957 SCHEMA_V7 *)
record claim_row =
  cl_outbox_id :: int
  cl_project_id :: string
  cl_pr_number :: int
  cl_skill_key :: string
  cl_thread_id :: "string option"
  cl_created_at :: int

(* pr/ledger.rs 43-51 DispatchEvent *)
record dispatch_event =
  de_pr :: nat
  de_skill_key :: string
  de_head_sha :: string
  de_key :: string
  de_dispatched_at :: nat

(* db.rs 797-805 SCHEMA_V1 *)
record dispatch_event_row =
  dr_id :: int
  dr_project_id :: string
  dr_pr :: int
  dr_skill_key :: string
  dr_head_sha :: string
  dr_key :: string
  dr_dispatched_at :: int

(* db.rs 776-788 SCHEMA_V1 *)
record tracked_pr_row =
  tk_project_id :: string
  tk_number :: int
  tk_title :: string
  tk_labels_json :: "string list json_text"
  tk_url :: string
  tk_skill_key :: string
  tk_skip_reason :: "string option"
  tk_first_seen_epoch :: int
  tk_last_seen_epoch :: int
  tk_archived :: int

(* messaging/human_input.rs 144-152 HumanQuestion *)
record human_question =
  hq_id :: string
  hq_question :: string
  hq_options :: "string list"

(* messaging/human_input.rs 156-159 HumanAnswer *)
record human_answer =
  ha_question_id :: string
  ha_answer :: string

(* db.rs 1261-1278 SCHEMA_V17 *)
record human_row =
  hr_id :: string
  hr_integration_id :: string
  hr_conversation_id :: string
  hr_purpose :: string
  hr_title :: string
  hr_message :: string
  hr_questions :: "human_question list json_text"
  hr_context :: "string json_text"
  hr_status :: string
  hr_answer :: "human_answer list json_text option"
  hr_answer_source :: "string option"
  hr_card_message_id :: "string option"
  hr_created_at :: int
  hr_expires_at :: int
  hr_answered_at :: "int option"

(* workflow/manager.rs 25-30 ReviewNotifyRequest *)
record review_notify_request =
  rnr_receipt_id :: int
  rnr_reference :: string
  rnr_pr_number :: nat
  rnr_skill_key :: string

(* workflow/manager.rs 34-43 ReviewNotifyState *)
record review_notify_state =
  rns_review_thread_id :: "string option"
  rns_review_wire_status :: "string option"
  rns_comment_url :: "string option"
  rns_notification_outbox_ids :: "int list"

(* db.rs 1055-1069 SCHEMA_V14 *)
record workflow_row =
  wf_id :: int
  wf_project_id :: string
  wf_workflow_type :: string
  wf_status :: string
  wf_current_step :: string
  wf_input_json :: "review_notify_request json_text"
  wf_state_json :: "review_notify_state json_text"
  wf_attempt_count :: int
  wf_next_wake_at :: int
  wf_last_error :: "string option"
  wf_created_at :: int
  wf_updated_at :: int
  wf_dedupe_key :: string

(* db.rs 1226-1230 SCHEMA_V15 *)
record receipt_workflow_row =
  rw_receipt_id :: int
  rw_workflow_id :: int

(* model.rs 1602-1613 MessagingEvent *)
record messaging_event =
  me_provider :: messaging_provider_kind
  me_integration_id :: string
  me_event_id :: string
  me_conversation_id :: string
  me_thread_id :: string
  me_sender_id :: string
  me_text :: string
  me_mentioned_bot :: bool
  me_raw_payload :: string
  me_received_at_epoch :: nat

(* db.rs 1027-1052 SCHEMA_V12 *)
record messaging_row =
  mg_id :: int
  mg_provider :: string
  mg_integration_id :: string
  mg_event_id :: string
  mg_conversation_id :: string
  mg_event_json :: "messaging_event json_text"
  mg_raw_summary :: string
  mg_status :: string
  mg_received_at :: int
  mg_processed_at :: "int option"
  mg_error :: "string option"
  mg_reply_outbox_id :: "int option"
  mg_reply_kind :: "string option"
  mg_reply_summary :: "string option"

(* db.rs 1009-1025 SCHEMA_V11 *)
record remote_audit_row =
  au_id :: int
  au_ts_ms :: int
  au_entrypoint_id :: string
  au_route :: string
  au_capability :: string
  au_gate :: string
  au_decision :: string
  au_peer_ip :: string
  au_effective_ip :: string
  au_host :: string
  au_origin :: string

(* db.rs 963-975 SCHEMA_V8 *)
record terminal_audit_row =
  ta_id :: int
  ta_ts_ms :: int
  ta_listener_id :: string
  ta_action :: string
  ta_ok :: bool
  ta_host :: string
  ta_origin :: string

section \<open>The database and its transactions\<close>

text \<open>The table \<open>config_blob\<close> has at most the row 1, \<open>meta\<close> is a map; both hold text.\<close>

(* db.rs 44-46 Database *)
record db =
  db_outbox :: "outbox_row table"
  db_inbox :: "inbox_row table"
  db_rule_match :: "rule_match_row table"
  db_match_action :: "match_action_row list"
  db_session :: "session_row table"
  db_history :: "history_row table"
  db_claim :: "claim_row table"
  db_dispatch_key :: "(string \<times> string) list"
  db_dispatch_event :: "dispatch_event_row table"
  db_human :: "human_row table"
  db_workflow :: "workflow_row table"
  db_receipt_workflow :: "receipt_workflow_row list"
  db_tracked :: "tracked_pr_row list"
  db_messaging :: "messaging_row table"
  db_remote_audit :: "remote_audit_row table"
  db_terminal_audit :: "terminal_audit_row table"
  db_config_blob :: "string option"
  db_meta :: "(string \<times> string) list"

definition empty_db :: db where
  "empty_db = \<lparr>db_outbox = empty_table, db_inbox = empty_table, db_rule_match = empty_table,
     db_match_action = [], db_session = empty_table, db_history = empty_table,
     db_claim = empty_table, db_dispatch_key = [], db_dispatch_event = empty_table,
     db_human = empty_table, db_workflow = empty_table, db_receipt_workflow = [],
     db_tracked = [], db_messaging = empty_table, db_remote_audit = empty_table,
     db_terminal_audit = empty_table, db_config_blob = None, db_meta = []\<rparr>"

type_synonym 'a db_stmt = "db \<Rightarrow> string + 'a \<times> db"
type_synonym 'a db_tx = "db \<Rightarrow> app_error + 'a \<times> db"
type_synonym 'a db_op = "db \<Rightarrow> 'a app_result \<times> db"

(* db.rs 164-166 map_err *)
definition map_err :: "string \<Rightarrow> app_error" where
  "map_err e = AppError ((utf8 [0x6570, 0x636E, 0x5E93, 0x9519, 0x8BEF] @ '': '') @ e)"

(* db.rs 148-154 Database::with_tx *)
definition with_tx :: "'a db_tx \<Rightarrow> 'a db_op" where
  "with_tx f d = (case f d of Inl e \<Rightarrow> (Inl e, d) | Inr (x, d') \<Rightarrow> (Inr x, d'))"

(* db.rs 140-143 Database::with_conn *)
definition with_conn :: "'a db_stmt \<Rightarrow> 'a db_op" where
  "with_conn f d = (case f d of Inl e \<Rightarrow> (Inl (map_err e), d) | Inr (x, d') \<Rightarrow> (Inr x, d'))"

text \<open>A read in its own statement, and a query that must return a row.\<close>

definition read_conn :: "(db \<Rightarrow> string + 'a) \<Rightarrow> db \<Rightarrow> 'a app_result" where
  "read_conn f d = map_error map_err (f d)"

definition no_rows :: string where
  "no_rows = ''Query returned no rows''"

lemma with_tx_Inr [simp]: "f d = Inr (x, d') \<Longrightarrow> with_tx f d = (Inr x, d')"
  by (simp add: with_tx_def)

lemma with_tx_Inl [simp]: "f d = Inl e \<Longrightarrow> with_tx f d = (Inl e, d)"
  by (simp add: with_tx_def)

lemma with_tx_Inr_iff: "with_tx f d = (Inr x, d') \<longleftrightarrow> f d = Inr (x, d')"
  by (auto simp: with_tx_def split: sum.splits prod.splits)

lemma with_tx_cases:
  obtains (failed) e where "f d = Inl e" and "with_tx f d = (Inl e, d)"
  | (committed) x d' where "f d = Inr (x, d')" and "with_tx f d = (Inr x, d')"
  by (cases "f d") (auto simp: with_tx_def split: prod.splits)

lemma with_tx_error_unchanged: "fst (with_tx f d) = Inl e \<Longrightarrow> snd (with_tx f d) = d"
  by (auto simp: with_tx_def split: sum.splits)

lemma with_conn_error_unchanged: "fst (with_conn f d) = Inl e \<Longrightarrow> snd (with_conn f d) = d"
  by (auto simp: with_conn_def split: sum.splits)

lemma with_conn_Inr [simp]: "f d = Inr (x, d') \<Longrightarrow> with_conn f d = (Inr x, d')"
  by (simp add: with_conn_def)

lemma with_conn_Inl [simp]: "f d = Inl e \<Longrightarrow> with_conn f d = (Inl (map_err e), d)"
  by (simp add: with_conn_def)

text \<open>An invariant that a closure keeps when it succeeds is kept by the transaction.\<close>

lemma with_tx_inv:
  assumes "P d" and "\<And>x d'. f d = Inr (x, d') \<Longrightarrow> P d'"
  shows "P (snd (with_tx f d))"
  using assms by (auto simp: with_tx_def split: sum.splits)

lemma with_conn_inv:
  assumes "P d" and "\<And>x d'. f d = Inr (x, d') \<Longrightarrow> P d'"
  shows "P (snd (with_conn f d))"
  using assms by (auto simp: with_conn_def split: sum.splits)

text \<open>The early return on an error before any statement ran.\<close>

lemma case_err_inv:
  assumes "P d" and "\<And>n. x = Inr n \<Longrightarrow> P (snd (f n))"
  shows "P (snd (case x of Inl e \<Rightarrow> (Inl e, d) | Inr n \<Rightarrow> f n))"
  using assms by (cases x) auto

section \<open>Constraints of the tables\<close>

text \<open>
  The two unique indexes of \<open>action_outbox\<close>: the producer key of every row, and the dedupe key of
  the live rows of a project (a partial index).
\<close>

definition is_live :: "string \<Rightarrow> bool" where
  "is_live s \<longleftrightarrow> s = ''pending'' \<or> s = ''blocked''"

definition producer_index :: "outbox_row \<Rightarrow> string option" where
  "producer_index r = Some (ob_producer_key r)"

(* db.rs 753-755 SCHEMA_V18 *)
definition live_dedupe_index :: "outbox_row \<Rightarrow> (string \<times> string) option" where
  "live_dedupe_index r =
     (case ob_dedupe_key r of
        Some k \<Rightarrow> if is_live (ob_status r) then Some (ob_project_id r, k) else None
      | None \<Rightarrow> None)"

definition outbox_kinds :: "string list" where
  "outbox_kinds = [''notification'', ''runSkill'', ''stopReview'', ''messagingReply'', ''messagingSend'']"

definition outbox_statuses :: "string list" where
  "outbox_statuses = [''pending'', ''blocked'', ''done'', ''dead'']"

definition thread_check :: "outbox_row \<Rightarrow> bool" where
  "thread_check r \<longleftrightarrow> ob_review_thread_id r = None \<or> ob_kind r = ''runSkill''"

text \<open>The CHECK clauses of the table.\<close>

definition outbox_check :: "outbox_row \<Rightarrow> bool" where
  "outbox_check r \<longleftrightarrow>
     ob_kind r \<in> set outbox_kinds \<and> json_valid (ob_payload r) \<and> ob_status r \<in> set outbox_statuses \<and>
     0 \<le> ob_attempt_count r \<and> ob_producer_key r \<noteq> [] \<and> thread_check r"

definition session_exists :: "string \<Rightarrow> db \<Rightarrow> bool" where
  "session_exists t d \<longleftrightarrow> (\<exists>s \<in> set (tb_rows (db_session d)). ss_thread_id s = t)"

definition outbox_fk :: "db \<Rightarrow> outbox_row \<Rightarrow> bool" where
  "outbox_fk d r \<longleftrightarrow> (case ob_review_thread_id r of None \<Rightarrow> True | Some t \<Rightarrow> session_exists t d)"

text \<open>
  An UPDATE of the outbox: SQLite evaluates the CHECK clauses that name a changed column (here only
  that of \<open>review_thread_id\<close>, since every other changed column gets a value its CHECK admits), then the
  unique indexes, then the foreign key where the child column changed.
\<close>

definition rethreaded :: "(outbox_row \<Rightarrow> bool) \<Rightarrow> (outbox_row \<Rightarrow> outbox_row) \<Rightarrow> outbox_row table \<Rightarrow> outbox_row list" where
  "rethreaded p f t =
     map f (filter (\<lambda>r. ob_review_thread_id (f r) \<noteq> ob_review_thread_id r) (sql_select p t))"

definition outbox_update ::
    "(outbox_row \<Rightarrow> bool) \<Rightarrow> (outbox_row \<Rightarrow> outbox_row) \<Rightarrow> nat db_stmt" where
  "outbox_update p f d =
     (let t = db_outbox d; t' = sql_update p f t; changed = rethreaded p f t in
      if \<not> list_all thread_check changed then
        Inl (''CHECK constraint failed: review_thread_id IS NULL OR kind = '' @ [CHR 0x27] @ ''runSkill'' @ [CHR 0x27])
      else if \<not> unique_index live_dedupe_index (tb_rows t') then
        Inl ''UNIQUE constraint failed: action_outbox.project_id, action_outbox.dedupe_key''
      else if \<not> list_all (outbox_fk d) changed then Inl ''FOREIGN KEY constraint failed''
      else Inr (sql_changes p t, d\<lparr>db_outbox := t'\<rparr>))"

text \<open>The invariant of the outbox table that the schema enforces.\<close>

definition outbox_ok :: "db \<Rightarrow> bool" where
  "outbox_ok d \<longleftrightarrow>
     tbl_ok ob_id (db_outbox d) \<and>
     list_all outbox_check (tb_rows (db_outbox d)) \<and>
     unique_index producer_index (tb_rows (db_outbox d)) \<and>
     unique_index live_dedupe_index (tb_rows (db_outbox d))"

lemma outbox_ok_empty: "outbox_ok empty_db"
  by (simp add: outbox_ok_def empty_db_def tbl_ok_empty)
     (simp add: empty_table_def unique_index_def)

lemma outbox_update_Inr:
  assumes "outbox_update p f d = Inr (n, d')"
  shows "d' = d\<lparr>db_outbox := sql_update p f (db_outbox d)\<rparr>" and "n = sql_changes p (db_outbox d)"
    and "unique_index live_dedupe_index (tb_rows (sql_update p f (db_outbox d)))"
    and "\<And>r. r \<in> set (tb_rows (db_outbox d)) \<Longrightarrow> p r \<Longrightarrow>
      ob_review_thread_id (f r) \<noteq> ob_review_thread_id r \<Longrightarrow> thread_check (f r)"
  using assms
  by (auto simp: outbox_update_def Let_def list_all_iff sql_select_def rethreaded_def split: if_splits)

text \<open>An UPDATE that leaves the key columns alone keeps the invariant.\<close>

lemma outbox_update_ok [inv_intros]:
  assumes "outbox_ok d" and "outbox_update p f d = Inr (n, d')"
    and keys: "\<And>r. ob_id (f r) = ob_id r" "\<And>r. ob_producer_key (f r) = ob_producer_key r"
      "\<And>r. ob_kind (f r) = ob_kind r"
    and checks: "\<And>r. outbox_check r \<Longrightarrow> p r \<Longrightarrow> thread_check (f r) \<Longrightarrow> outbox_check (f r)"
  shows "outbox_ok d'"
proof -
  note u = outbox_update_Inr [OF assms(2)]
  let ?t = "sql_update p f (db_outbox d)"
  from assms(1) have ok: "tbl_ok ob_id (db_outbox d)"
    and chk: "\<And>r. r \<in> set (tb_rows (db_outbox d)) \<Longrightarrow> outbox_check r"
    and prod: "unique_index producer_index (tb_rows (db_outbox d))"
    by (auto simp: outbox_ok_def list_all_iff)
  have "thread_check (f r)" if "r \<in> set (tb_rows (db_outbox d))" "p r" for r
    using u(4) [OF that] chk [OF that(1)] keys(3)
    by (cases "ob_review_thread_id (f r) = ob_review_thread_id r") (auto simp: outbox_check_def thread_check_def)
  then have "list_all outbox_check (tb_rows ?t)"
    using chk checks by (auto simp: list_all_iff table_simps)
  moreover have "unique_index producer_index (tb_rows ?t)"
    unfolding tb_rows_update
    by (rule unique_index_map [OF prod]) (simp add: producer_index_def keys)
  moreover have "tbl_ok ob_id ?t" by (rule tbl_ok_update [OF ok keys(1)])
  ultimately show ?thesis using u(1,3) by (simp add: outbox_ok_def)
qed

text \<open>One that also makes no row live that was not succeeds.\<close>

lemma outbox_update_succeeds:
  assumes "outbox_ok d"
    and "\<And>r. ob_project_id (f r) = ob_project_id r" "\<And>r. ob_dedupe_key (f r) = ob_dedupe_key r"
      "\<And>r. ob_review_thread_id (f r) = ob_review_thread_id r"
    and live: "\<And>r. p r \<Longrightarrow> is_live (ob_status (f r)) \<Longrightarrow> is_live (ob_status r)"
  shows "outbox_update p f d = Inr (sql_changes p (db_outbox d), d\<lparr>db_outbox := sql_update p f (db_outbox d)\<rparr>)"
proof -
  from assms(1) have "unique_index live_dedupe_index (tb_rows (db_outbox d))" by (simp add: outbox_ok_def)
  then have "unique_index live_dedupe_index (tb_rows (sql_update p f (db_outbox d)))"
    unfolding tb_rows_update
    by (rule unique_index_map) (use live in \<open>auto simp: live_dedupe_index_def assms(2,3) split: option.split\<close>)
  then show ?thesis by (simp add: outbox_update_def Let_def rethreaded_def assms(4))
qed

end
