(* ===== verification/Outbox_Store.thy ===== *)
theory Outbox_Store
  imports Schema
begin

text \<open>
  The action outbox's queries (\<open>outbox/store.rs\<close>): the producers' \<open>enqueue\<close>, idempotent by producer
  key and by the dedupe key of the live rows; the worker's \<open>claim_due\<close> and the statements that record
  what became of an action; the manual retry; and the reads of the panel. A claimed action's payload
  is the \<open>json_text\<close> of the row.
\<close>

section \<open>Types and wire strings\<close>

(* outbox/store.rs 23-30 OutboxAction *)
record outbox_action =
  oa_id :: int
  oa_project_id :: string
  oa_kind :: action_kind
  oa_payload :: "action_payload json_text"
  oa_attempt_count :: nat
  oa_created_at :: nat

(* model.rs 2314-2337 OutboxEntry *)
record outbox_entry =
  oe_id :: int
  oe_project_id :: string
  oe_kind :: action_kind
  oe_summary :: string
  oe_status :: action_status
  oe_attempt_count :: nat
  oe_next_attempt_at :: nat
  oe_last_error :: "string option"
  oe_created_at :: nat
  oe_updated_at :: nat

(* outbox/store.rs 175-182 EnqueueInput *)
record enqueue_input =
  ei_project_id :: string
  ei_kind :: action_kind
  ei_summary :: string
  ei_payload :: "action_payload json_text"
  ei_dedupe_key :: "string option"
  ei_next_attempt_at :: "nat option"

(* outbox/store.rs 589-596 RetryReset *)
datatype retry_reset = Requeued | Unknown | NotDead

(* outbox/store.rs 73-73 LIST_LIMIT *)
definition list_limit :: nat where "list_limit = 500"

(* outbox/store.rs 77-77 CLAIM_LIMIT *)
definition claim_limit :: nat where "claim_limit = 100"

(* outbox/store.rs 84-84 MAX_LAST_ERROR_LEN *)
definition max_last_error_len :: nat where "max_last_error_len = 512"

definition ellipsis :: string where "ellipsis = utf8 [0x2026]"

text \<open>The loop that backs up to a character boundary.\<close>

fun back_to_boundary :: "string \<Rightarrow> nat \<Rightarrow> nat" where
  "back_to_boundary s 0 = 0"
| "back_to_boundary s (Suc n) =
     (if is_char_boundary s (Suc n) then Suc n else back_to_boundary s n)"

(* outbox/store.rs 90-99 clamp_error *)
definition clamp_error :: "string \<Rightarrow> string" where
  "clamp_error error =
     (if length error \<le> max_last_error_len then error
      else take (back_to_boundary error max_last_error_len) error @ ellipsis)"

(* outbox/store.rs 111-114 sqlite_epoch *)
definition sqlite_epoch :: "string \<Rightarrow> nat \<Rightarrow> int app_result" where
  "sqlite_epoch field value =
     (if int value \<le> i64_max then Inr (int value)
      else Inl (AppError (field @ ('' '' @ utf8 [0x8D85, 0x51FA] @ '' SQLite i64 '' @ utf8 [0x65F6, 0x95F4, 0x6233, 0x5B58, 0x50A8, 0x4E0A, 0x9650] @ '': '') @ dec value)))"

(* outbox/store.rs 122-129 status_as_wire *)
fun status_as_wire :: "action_status \<Rightarrow> string" where
  "status_as_wire Action_Pending = ''pending''"
| "status_as_wire Action_Blocked = ''blocked''"
| "status_as_wire Action_Done = ''done''"
| "status_as_wire Action_Dead = ''dead''"

(* outbox/store.rs 134-141 status_from_wire *)
definition status_from_wire :: "string \<Rightarrow> action_status" where
  "status_from_wire s =
     (if s = ''pending'' then Action_Pending
      else if s = ''blocked'' then Action_Blocked
      else if s = ''done'' then Action_Done
      else Action_Dead)"

text \<open>\<open>serde\<close> writes and reads the unit enum by the same strings as \<open>ActionKind::as_str\<close>.\<close>

(* outbox/store.rs 146-151 kind_as_wire *)
definition kind_as_wire :: "action_kind \<Rightarrow> string" where
  "kind_as_wire kind = action_kind_as_str kind"

(* outbox/store.rs 157-160 kind_from_wire *)
definition kind_from_wire :: "string \<Rightarrow> action_kind app_result" where
  "kind_from_wire s =
     (if s = ''notification'' then Inr Kind_Notification
      else if s = ''runSkill'' then Inr Kind_RunSkill
      else if s = ''stopReview'' then Inr Kind_StopReview
      else if s = ''messagingReply'' then Inr Kind_MessagingReply
      else if s = ''messagingSend'' then Inr Kind_MessagingSend
      else Inl (AppError ((''outbox '' @ utf8 [0x884C, 0x7684] @ '' kind '' @ utf8 [0x65E0, 0x6CD5, 0x8BC6, 0x522B, 0xFF1A]) @ debug_str s)))"

interpretation outbox_status_codec: lenient_wire_enum status_as_wire status_from_wire Action_Dead
proof unfold_locales
  show "status_from_wire (status_as_wire x) = x" for x
    by (cases x) (simp_all add: status_from_wire_def)
  fix s
  assume "s \<notin> range status_as_wire"
  then have ne: "s \<noteq> status_as_wire a" for a by blast
  from ne [of Action_Pending] ne [of Action_Blocked] ne [of Action_Done]
  show "status_from_wire s = Action_Dead" by (simp add: status_from_wire_def)
qed

interpretation outbox_kind_codec: strict_wire_enum kind_as_wire "\<lambda>s. ok (kind_from_wire s)"
proof unfold_locales
  show "ok (kind_from_wire (kind_as_wire x)) = Some x" for x
    by (cases x) (simp_all add: kind_from_wire_def kind_as_wire_def)
  show "ok (kind_from_wire s) = Some x \<Longrightarrow> kind_as_wire x = s" for s x
    by (auto simp: kind_from_wire_def kind_as_wire_def split: if_splits)
qed

lemma kind_from_wire_Inr_iff: "kind_from_wire s = Inr k \<longleftrightarrow> s = kind_as_wire k"
  using outbox_kind_codec.from_wire_iff [of s k] by (cases "kind_from_wire s") auto

lemma kind_as_wire_in_kinds: "kind_as_wire k \<in> set outbox_kinds"
  by (cases k) (simp_all add: kind_as_wire_def outbox_kinds_def)

lemma outbox_kinds_range: "set outbox_kinds = range kind_as_wire"
proof
  have "list_all (\<lambda>s. s \<in> range kind_as_wire) (map kind_as_wire
      [Kind_Notification, Kind_RunSkill, Kind_StopReview, Kind_MessagingReply, Kind_MessagingSend])"
    by simp
  then show "set outbox_kinds \<subseteq> range kind_as_wire"
    unfolding outbox_kinds_def kind_as_wire_def list_all_iff by auto
qed (use kind_as_wire_in_kinds in blast)

lemma outbox_kinds_decode: "s \<in> set outbox_kinds \<longleftrightarrow> (\<exists>k. kind_from_wire s = Inr k)"
  unfolding outbox_kinds_range kind_from_wire_Inr_iff by blast

lemma status_as_wire_in_statuses: "status_as_wire s \<in> set outbox_statuses"
  by (cases s) (simp_all add: outbox_statuses_def)

section \<open>Producers\<close>

(* outbox/store.rs 258-268 default_producer_key *)
definition default_producer_key :: "string \<Rightarrow> enqueue_input \<Rightarrow> string app_result" where
  "default_producer_key nonce row =
     (case ei_dedupe_key row of
        Some key \<Rightarrow> map_error AppError (producer_for_dedupe (ei_project_id row) key)
      | None \<Rightarrow>
          try_bind (map_error AppError (parse_request_id nonce)) (\<lambda>nonce.
          map_error AppError (producer_for_manual (ei_project_id row) (ei_kind row) nonce)))"

text \<open>The row the INSERT writes.\<close>

definition enqueue_row :: "enqueue_input \<Rightarrow> string \<Rightarrow> int \<Rightarrow> int \<Rightarrow> int \<Rightarrow> outbox_row" where
  "enqueue_row row producer next_at now i =
     \<lparr>ob_id = i, ob_project_id = ei_project_id row, ob_kind = kind_as_wire (ei_kind row),
      ob_summary = ei_summary row, ob_payload = ei_payload row,
      ob_status = status_as_wire Action_Pending, ob_attempt_count = 0, ob_next_attempt_at = next_at,
      ob_last_error = None, ob_created_at = now, ob_updated_at = now,
      ob_dedupe_key = ei_dedupe_key row, ob_producer_key = producer, ob_review_thread_id = None\<rparr>"

definition outbox_insertable :: "outbox_row \<Rightarrow> outbox_row list \<Rightarrow> bool" where
  "outbox_insertable r rs \<longleftrightarrow>
     outbox_check r \<and> unique_index producer_index (rs @ [r]) \<and>
     unique_index live_dedupe_index (rs @ [r])"

(* outbox/store.rs 293-350 enqueue_inner_tx *)
definition enqueue_inner_tx :: "enqueue_input \<Rightarrow> string \<Rightarrow> nat \<Rightarrow> int db_tx" where
  "enqueue_inner_tx row producer now d =
     try_bind (sqlite_epoch ''next_attempt_at''
       (case ei_next_attempt_at row of None \<Rightarrow> now | Some n \<Rightarrow> n)) (\<lambda>next_at.
     try_bind (sqlite_epoch ''now'' now) (\<lambda>now_sql.
     try_bind (map_error map_err (tbl_next (db_outbox d))) (\<lambda>i.
     let t = db_outbox d; r = enqueue_row row producer next_at now_sql i in
     if outbox_insertable r (tb_rows t) then Inr (i, d\<lparr>db_outbox := tbl_push i r t\<rparr>)
     else
       let d' = d\<lparr>db_outbox := t\<lparr>tb_seq := i\<rparr>\<rparr> in
       case (find (\<lambda>s. ob_producer_key s = producer) (tb_rows t), ei_dedupe_key row) of
         (Some s, _) \<Rightarrow> Inr (ob_id s, d')
       | (None, Some key) \<Rightarrow>
           (case find (\<lambda>s. ob_project_id s = ei_project_id row \<and> ob_dedupe_key s = Some key \<and>
                         is_live (ob_status s)) (tb_rows t) of
              Some s \<Rightarrow> Inr (ob_id s, d')
            | None \<Rightarrow> Inl (map_err no_rows))
       | (None, None) \<Rightarrow>
           Inl (AppError ((''outbox insert '' @ utf8 [0x88AB, 0x7EA6, 0x675F, 0x62D2, 0x7EDD, 0x4F46, 0x672A, 0x627E, 0x5230] @ '' producer '' @ utf8 [0x6216] @ '' semantic dedupe '' @ utf8 [0x884C]))))))"

(* outbox/store.rs 240-247 enqueue_in_tx *)
definition enqueue_in_tx :: "string \<Rightarrow> enqueue_input \<Rightarrow> nat \<Rightarrow> int db_tx" where
  "enqueue_in_tx nonce row now d =
     try_bind (default_producer_key nonce row) (\<lambda>producer. enqueue_inner_tx row producer now d)"

(* outbox/store.rs 249-256 enqueue_in_tx_with_producer *)
definition enqueue_in_tx_with_producer :: "enqueue_input \<Rightarrow> string \<Rightarrow> nat \<Rightarrow> int db_tx" where
  "enqueue_in_tx_with_producer row producer now = enqueue_inner_tx row producer now"

(* outbox/store.rs 270-291 enqueue_inner *)
definition enqueue_inner ::
    "string \<Rightarrow> string \<Rightarrow> action_kind \<Rightarrow> string \<Rightarrow> action_payload json_text \<Rightarrow> string option \<Rightarrow> nat
      \<Rightarrow> int db_op" where
  "enqueue_inner nonce project_id kind summary payload dedupe_key now =
     with_tx (\<lambda>d.
       let row = \<lparr>ei_project_id = project_id, ei_kind = kind, ei_summary = summary,
                  ei_payload = payload, ei_dedupe_key = dedupe_key, ei_next_attempt_at = Some now\<rparr> in
       try_bind (default_producer_key nonce row) (\<lambda>producer. enqueue_inner_tx row producer now d))"

(* outbox/store.rs 164-173 enqueue *)
definition enqueue ::
    "string \<Rightarrow> string \<Rightarrow> action_kind \<Rightarrow> string \<Rightarrow> action_payload json_text \<Rightarrow> nat \<Rightarrow> int db_op" where
  "enqueue nonce project_id kind summary payload now =
     enqueue_inner nonce project_id kind summary payload None now"

(* outbox/store.rs 187-205 enqueue_deduped *)
definition enqueue_deduped ::
    "string \<Rightarrow> string \<Rightarrow> action_kind \<Rightarrow> string \<Rightarrow> action_payload json_text \<Rightarrow> string \<Rightarrow> nat \<Rightarrow> int db_op" where
  "enqueue_deduped nonce project_id kind summary payload dedupe_key now =
     enqueue_inner nonce project_id kind summary payload (Some dedupe_key) now"

(* outbox/store.rs 224-238 id_by_dedupe_key_any_status_in_tx *)
definition id_by_dedupe_key_any_status_in_tx :: "string \<Rightarrow> string \<Rightarrow> db \<Rightarrow> int option app_result" where
  "id_by_dedupe_key_any_status_in_tx project_id dedupe_key d =
     Inr (map_option ob_id
       (find (\<lambda>r. ob_project_id r = project_id \<and> ob_dedupe_key r = Some dedupe_key)
         (tb_rows (db_outbox d))))"

(* outbox/store.rs 207-222 id_by_dedupe_key_any_status *)
definition id_by_dedupe_key_any_status :: "string \<Rightarrow> string \<Rightarrow> db \<Rightarrow> int option app_result" where
  "id_by_dedupe_key_any_status project_id dedupe_key d =
     read_conn (\<lambda>d. Inr (map_option ob_id
       (find (\<lambda>r. ob_project_id r = project_id \<and> ob_dedupe_key r = Some dedupe_key)
         (tb_rows (db_outbox d))))) d"

section \<open>Recording what became of an action\<close>

(* outbox/store.rs 431-446 mark_done *)
definition mark_done :: "int \<Rightarrow> nat \<Rightarrow> nat \<Rightarrow> unit db_op" where
  "mark_done i attempt_count now d =
     (case sqlite_epoch ''now'' now of
        Inl e \<Rightarrow> (Inl e, d)
      | Inr now \<Rightarrow> with_conn (\<lambda>d.
          try_bind (outbox_update (\<lambda>r. ob_id r = i)
            (\<lambda>r. r\<lparr>ob_status := status_as_wire Action_Done, ob_attempt_count := int attempt_count,
                   ob_last_error := None, ob_updated_at := now\<rparr>) d) (\<lambda>(_, d). Inr ((), d))) d)"

(* outbox/store.rs 448-464 mark_done_with_output *)
definition mark_done_with_output :: "int \<Rightarrow> nat \<Rightarrow> action_execution_output \<Rightarrow> nat \<Rightarrow> unit db_op" where
  "mark_done_with_output i attempt_count out now d =
     (let thread_id = (case out of Output_None \<Rightarrow> None | Output_Review t \<Rightarrow> Some t) in
      case sqlite_epoch ''now'' now of
        Inl e \<Rightarrow> (Inl e, d)
      | Inr now \<Rightarrow> with_conn (\<lambda>d.
          try_bind (outbox_update (\<lambda>r. ob_id r = i)
            (\<lambda>r. r\<lparr>ob_status := status_as_wire Action_Done, ob_attempt_count := int attempt_count,
                   ob_last_error := None, ob_review_thread_id := thread_id,
                   ob_updated_at := now\<rparr>) d) (\<lambda>(_, d). Inr ((), d))) d)"

(* outbox/store.rs 466-472 mark_blocked *)
definition mark_blocked :: "int \<Rightarrow> string \<Rightarrow> nat \<Rightarrow> unit db_op" where
  "mark_blocked i msg now d =
     (case sqlite_epoch ''now'' now of
        Inl e \<Rightarrow> (Inl e, d)
      | Inr now \<Rightarrow> with_conn (\<lambda>d.
          try_bind (outbox_update (\<lambda>r. ob_id r = i \<and> ob_status r = ''pending'')
            (\<lambda>r. r\<lparr>ob_status := status_as_wire Action_Blocked, ob_last_error := Some (clamp_error msg),
                   ob_updated_at := now\<rparr>) d) (\<lambda>(_, d). Inr ((), d))) d)"

(* outbox/store.rs 474-480 unblock_reviews *)
definition unblock_reviews :: "nat \<Rightarrow> nat db_op" where
  "unblock_reviews now d =
     (case sqlite_epoch ''now'' now of
        Inl e \<Rightarrow> (Inl e, d)
      | Inr now \<Rightarrow> with_conn (outbox_update (\<lambda>r. ob_status r = ''blocked'' \<and> ob_kind r = ''runSkill'')
          (\<lambda>r. r\<lparr>ob_status := ''pending'', ob_next_attempt_at := now, ob_last_error := None,
                 ob_updated_at := now\<rparr>)) d)"

(* outbox/store.rs 485-509 mark_retry *)
definition mark_retry :: "int \<Rightarrow> nat \<Rightarrow> nat \<Rightarrow> string \<Rightarrow> nat \<Rightarrow> unit db_op" where
  "mark_retry i attempt_count next_attempt_at error now d =
     (case sqlite_epoch ''next_attempt_at'' next_attempt_at of
        Inl e \<Rightarrow> (Inl e, d)
      | Inr next_at \<Rightarrow>
          (case sqlite_epoch ''now'' now of
             Inl e \<Rightarrow> (Inl e, d)
           | Inr now \<Rightarrow> with_conn (\<lambda>d.
               try_bind (outbox_update (\<lambda>r. ob_id r = i)
                 (\<lambda>r. r\<lparr>ob_attempt_count := int attempt_count, ob_next_attempt_at := next_at,
                        ob_last_error := Some (clamp_error error), ob_updated_at := now\<rparr>) d)
                 (\<lambda>(_, d). Inr ((), d))) d))"

(* outbox/store.rs 513-535 mark_dead *)
definition mark_dead :: "int \<Rightarrow> nat \<Rightarrow> string \<Rightarrow> nat \<Rightarrow> unit db_op" where
  "mark_dead i attempt_count error now d =
     (case sqlite_epoch ''now'' now of
        Inl e \<Rightarrow> (Inl e, d)
      | Inr now \<Rightarrow> with_conn (\<lambda>d.
          try_bind (outbox_update (\<lambda>r. ob_id r = i)
            (\<lambda>r. r\<lparr>ob_status := status_as_wire Action_Dead, ob_attempt_count := int attempt_count,
                   ob_last_error := Some (clamp_error error), ob_updated_at := now\<rparr>) d)
            (\<lambda>(_, d). Inr ((), d))) d)"

text \<open>The loop over the selected ids inside the transaction.\<close>

fun kill_pending_ids :: "int list \<Rightarrow> string \<Rightarrow> int \<Rightarrow> unit db_tx" where
  "kill_pending_ids [] error now d = Inr ((), d)"
| "kill_pending_ids (i # ids) error now d =
     try_bind (map_error map_err
       (outbox_update (\<lambda>r. ob_id r = i \<and> ob_status r = status_as_wire Action_Pending)
         (\<lambda>r. r\<lparr>ob_status := status_as_wire Action_Dead, ob_last_error := Some error,
                ob_updated_at := now\<rparr>) d)) (\<lambda>(_, d'). kill_pending_ids ids error now d')"

(* outbox/store.rs 537-583 mark_pending_by_dedupe_fragment_dead *)
definition mark_pending_by_dedupe_fragment_dead :: "string \<Rightarrow> string \<Rightarrow> nat \<Rightarrow> int list db_op" where
  "mark_pending_by_dedupe_fragment_dead dedupe_fragment error now d =
     (if dedupe_fragment = [] then (Inr [], d)
      else case sqlite_epoch ''now'' now of
        Inl e \<Rightarrow> (Inl e, d)
      | Inr now \<Rightarrow> with_tx (\<lambda>d.
          let ids = map ob_id (sql_select (\<lambda>r. ob_status r = status_as_wire Action_Pending \<and>
                (case ob_dedupe_key r of None \<Rightarrow> False | Some k \<Rightarrow> contains_sub k dedupe_fragment))
                (db_outbox d))
          in try_bind (kill_pending_ids ids (clamp_error error) now d) (\<lambda>(_, d'). Inr (ids, d'))) d)"

text \<open>The SET clause of the manual retry: \<open>last_error\<close> is kept, \<open>created_at\<close> is reset.\<close>

definition retry_row :: "int \<Rightarrow> outbox_row \<Rightarrow> outbox_row" where
  "retry_row now r = r\<lparr>ob_status := status_as_wire Action_Pending, ob_attempt_count := 0,
     ob_next_attempt_at := now, ob_created_at := now, ob_updated_at := now\<rparr>"

(* outbox/store.rs 614-646 reset_for_retry *)
definition reset_for_retry :: "int \<Rightarrow> nat \<Rightarrow> retry_reset db_op" where
  "reset_for_retry i now d =
     (case sqlite_epoch ''now'' now of
        Inl e \<Rightarrow> (Inl e, d)
      | Inr now \<Rightarrow> with_conn (\<lambda>d.
          try_bind (outbox_update (\<lambda>r. ob_id r = i \<and> ob_status r = status_as_wire Action_Dead)
            (retry_row now) d)
          (\<lambda>(updated, d').
             Inr (if updated = 1 then Requeued
                  else if by_id ob_id i (db_outbox d') \<noteq> None then NotDead
                  else Unknown, d'))) d)"

section \<open>Claiming due actions\<close>

(* outbox/store.rs 52-68 OutboxAction::from_claimed_row *)
definition from_claimed_row :: "outbox_row \<Rightarrow> action_kind \<Rightarrow> outbox_action" where
  "from_claimed_row r kind =
     \<lparr>oa_id = ob_id r, oa_project_id = ob_project_id r, oa_kind = kind, oa_payload = ob_payload r,
      oa_attempt_count = as_u32 (max (ob_attempt_count r) 0), oa_created_at = clamp0 (ob_created_at r)\<rparr>"

definition due_rows :: "int \<Rightarrow> outbox_row table \<Rightarrow> outbox_row list" where
  "due_rows now t =
     take claim_limit (sql_select (\<lambda>r. ob_status r = ''pending'' \<and> ob_next_attempt_at r \<le> now) t)"

text \<open>The loop over the claimed rows: decode the kind, or dead-letter the row.\<close>

fun claim_loop :: "nat \<Rightarrow> outbox_row list \<Rightarrow> outbox_action list \<times> int list \<Rightarrow> db
    \<Rightarrow> (outbox_action list \<times> int list) \<times> db" where
  "claim_loop now [] acc d = (acc, d)"
| "claim_loop now (r # rs) (actions, quarantined) d =
     (case kind_from_wire (ob_kind r) of
        Inr kind \<Rightarrow> claim_loop now rs (actions @ [from_claimed_row r kind], quarantined) d
      | Inl e \<Rightarrow>
          (case mark_dead (ob_id r) (as_u32 (max (ob_attempt_count r) 0)) (message e) now d of
             (Inr _, d') \<Rightarrow> claim_loop now rs (actions, quarantined @ [ob_id r]) d'
           | (Inl _, d') \<Rightarrow> claim_loop now rs (actions, quarantined) d'))"

(* outbox/store.rs 366-425 claim_due *)
definition claim_due :: "nat \<Rightarrow> (outbox_action list \<times> int list) db_op" where
  "claim_due now d =
     (case sqlite_epoch ''now'' now of
        Inl e \<Rightarrow> (Inl e, d)
      | Inr now_sql \<Rightarrow>
          (let (res, d') = claim_loop now (due_rows now_sql (db_outbox d)) ([], []) d
           in (Inr res, d')))"

section \<open>Reads\<close>

text \<open>\<open>rusqlite\<close>'s error for a column that does not convert.\<close>

definition conversion_failure :: "nat \<Rightarrow> string \<Rightarrow> string" where
  "conversion_failure i e = ''Conversion error from type Text at index: '' @ dec i @ '', '' @ e"

(* outbox/store.rs 712-740 hydrate_entry *)
definition hydrate_entry :: "outbox_row \<Rightarrow> string + outbox_entry" where
  "hydrate_entry r =
     try_bind (map_error (\<lambda>e. conversion_failure 2 (message e)) (kind_from_wire (ob_kind r))) (\<lambda>kind.
     Inr \<lparr>oe_id = ob_id r, oe_project_id = ob_project_id r, oe_kind = kind,
          oe_summary = ob_summary r, oe_status = status_from_wire (ob_status r),
          oe_attempt_count = as_u32 (max (ob_attempt_count r) 0),
          oe_next_attempt_at = clamp0 (ob_next_attempt_at r), oe_last_error = ob_last_error r,
          oe_created_at = clamp0 (ob_created_at r), oe_updated_at = clamp0 (ob_updated_at r)\<rparr>)"

(* outbox/store.rs 651-681 list_by_project *)
definition list_by_project :: "string option \<Rightarrow> db \<Rightarrow> outbox_entry list app_result" where
  "list_by_project project_id d =
     read_conn (\<lambda>d. case project_id of
        Some pid \<Rightarrow> try_map hydrate_entry
          (take list_limit (rev (sql_select (\<lambda>r. ob_project_id r = pid) (db_outbox d))))
      | None \<Rightarrow> try_map hydrate_entry (take list_limit (rev (tb_rows (db_outbox d))))) d"

(* outbox/store.rs 685-695 get_entry *)
definition get_entry :: "int \<Rightarrow> db \<Rightarrow> outbox_entry option app_result" where
  "get_entry i d =
     read_conn (\<lambda>d. case by_id ob_id i (db_outbox d) of
        None \<Rightarrow> Inr None
      | Some r \<Rightarrow> try_bind (hydrate_entry r) (\<lambda>e. Inr (Some e))) d"

(* outbox/store.rs 699-707 get_raw *)
definition get_raw :: "int \<Rightarrow> db \<Rightarrow> action_payload json_text option app_result" where
  "get_raw i d = read_conn (\<lambda>d. Inr (map_option ob_payload (by_id ob_id i (db_outbox d)))) d"

end
