(* ===== verification/World.thy ===== *)
theory World
  imports Outbox_Store Prelude
begin

text \<open>
  What an operation of a service sees besides its arguments: the application handle. \<open>world\<close> holds the
  database, the clock (each \<open>now_epoch\<close> takes the next reading of an arbitrary sequence, so time may
  stand still or jump), the stream of fresh UUIDs, the events emitted to the panel in order, the wake
  permits of the background workers (a \<open>tokio::sync::Notify\<close> stores at most one permit), the resume
  generation of the review engine (\<open>state.rs\<close>), the ring of webhook deliveries and the poll loops.
\<close>

text \<open>
  The state in memory that the pull request subsystem keeps between operations: the ring of the last
  webhook deliveries (\<open>pr/webhook.rs\<close>) and the poll loops (\<open>pr/scheduler.rs\<close>). A spawned loop and a
  diagnostic cell are shared by reference in the program, so they live in lists and are named by index.
\<close>

section \<open>Webhook deliveries\<close>

(* pr/webhook.rs 169-194 DeliveryStatus *)
datatype delivery_status =
  Unauthorized | BadPayload | Ignored | WrongRepo | NoTriggerLabel | NotOpen | Gated | ListUpdated | Refreshed

(* pr/webhook.rs 201-220 WebhookDelivery *)
record webhook_delivery =
  wd_received_at_epoch :: nat
  wd_event :: string
  wd_action :: "string option"
  wd_repo :: "string option"
  wd_pr_number :: "nat option"
  wd_skill_key :: "string option"
  wd_status :: delivery_status
  wd_message :: "string option"

(* pr/webhook.rs 160-160 DELIVERY_RING_CAP *)
definition delivery_ring_cap :: nat where "delivery_ring_cap = 50"

(* pr/webhook.rs 1088-1094 record_into *)
definition record_into :: "webhook_delivery list \<Rightarrow> webhook_delivery \<Rightarrow> webhook_delivery list" where
  "record_into ring d = (if length ring \<ge> delivery_ring_cap then tl ring else ring) @ [d]"

section \<open>Diagnostics of polling\<close>

(* pr/scheduler.rs 66-80 PollDiag *)
record poll_diag =
  pd_last_started_epoch :: "nat option"
  pd_last_success_epoch :: "nat option"
  pd_last_error_epoch :: "nat option"
  pd_last_error_message :: "string option"
  pd_last_persist_epoch :: "nat option"
  pd_last_discovered_count :: "nat option"

definition poll_diag_default :: poll_diag where
  "poll_diag_default = \<lparr>pd_last_started_epoch = None, pd_last_success_epoch = None, pd_last_error_epoch = None,
     pd_last_error_message = None, pd_last_persist_epoch = None, pd_last_discovered_count = None\<rparr>"

(* pr/scheduler.rs 84-86 PollDiag::mark_started *)
definition mark_started :: "nat \<Rightarrow> poll_diag \<Rightarrow> poll_diag" where
  "mark_started now p = p\<lparr>pd_last_started_epoch := Some now\<rparr>"

(* pr/scheduler.rs 89-92 PollDiag::mark_discovered *)
definition mark_discovered :: "nat \<Rightarrow> nat \<Rightarrow> poll_diag \<Rightarrow> poll_diag" where
  "mark_discovered count now p = p\<lparr>pd_last_success_epoch := Some now, pd_last_discovered_count := Some count\<rparr>"

(* pr/scheduler.rs 95-97 PollDiag::mark_persist *)
definition mark_persist :: "nat \<Rightarrow> poll_diag \<Rightarrow> poll_diag" where
  "mark_persist now p = p\<lparr>pd_last_persist_epoch := Some now\<rparr>"

(* pr/scheduler.rs 100-103 PollDiag::mark_error *)
definition mark_error :: "string \<Rightarrow> nat \<Rightarrow> poll_diag \<Rightarrow> poll_diag" where
  "mark_error msg now p = p\<lparr>pd_last_error_epoch := Some now, pd_last_error_message := Some msg\<rparr>"

section \<open>Poll loops\<close>

text \<open>
  A spawned loop is between two cycles (\<open>Selecting\<close>), in a discovery cycle, or has returned. The three
  flags are the permits of its notifiers; whether it has the sink and which diagnostic cell it writes
  are what its closure captured.
\<close>

datatype loop_phase = Selecting | Cycling | Returned

(* pr/scheduler.rs 177-182 RunningTask *)
record poll_loop =
  pl_project_id :: string
  pl_phase :: loop_phase
  pl_has_sink :: bool
  pl_diag :: nat
  pl_wake :: bool
  pl_reconfigure :: bool
  pl_stop :: bool

text \<open>The task of a scheduler names its loop; the diagnostic cell is named too. The sink is the one of the composition root.\<close>

(* pr/scheduler.rs 160-174 Scheduler *)
record scheduler =
  sc_task :: "nat option"
  sc_has_sink :: bool
  sc_diag :: nat

text \<open>
  The maps are association lists: the iteration order of a \<open>HashMap\<close> is any. The in-flight set is a list
  without repetition.
\<close>

(* pr/scheduler.rs 343-372 SchedulerSet *)
record scheduler_set =
  ss_inner :: "(string \<times> scheduler) list"
  ss_has_sink :: bool
  ss_manual_diags :: "(string \<times> nat) list"
  ss_manual_inflight :: "string list"
  ss_loops :: "poll_loop list"
  ss_diags :: "poll_diag list"

definition scheduler_set_default :: scheduler_set where
  "scheduler_set_default = \<lparr>ss_inner = [], ss_has_sink = False, ss_manual_diags = [], ss_manual_inflight = [],
     ss_loops = [], ss_diags = []\<rparr>"

section \<open>Views and events\<close>

(* model.rs 1352-1365 InboxEntry *)
record inbox_entry =
  ie_id :: int
  ie_event :: event_envelope
  ie_status :: inbox_status
  ie_processed_at :: "nat option"
  ie_error :: "string option"

(* model.rs 2047-2061 WorkflowInstance *)
record workflow_instance =
  wi_id :: int
  wi_project_id :: string
  wi_workflow_type :: workflow_type
  wi_status :: workflow_status
  wi_current_step :: workflow_step
  wi_input :: "review_notify_request json_text"
  wi_state :: "review_notify_state json_text"
  wi_attempt_count :: nat
  wi_next_wake_at :: nat
  wi_last_error :: "string option"
  wi_created_at :: nat
  wi_updated_at :: nat

(* events.rs 96-99 InboxErrorOperation *)
datatype inbox_error_operation = Retention | Worker

(* events.rs 78-92 InboxEvent *)
datatype inbox_event = Inbox_Updated string inbox_entry | Inbox_Error inbox_error_operation string

(* events.rs 110-129 OutboxEvent *)
datatype outbox_event = Outbox_Updated string outbox_entry | Outbox_Error string string

(* events.rs 134-142 WorkflowEvent *)
datatype workflow_event = Workflow_Updated string workflow_instance | Workflow_Error string string

text \<open>A delta carries the project, the thread, the item and the text; an error the project, the thread and the message.\<close>

(* events.rs 152-203 ReviewEvent *)
datatype review_event =
  Message_Delta string string string string
| Reasoning_Delta string string string string
| Turn_Completed string string string "string option"
| Review_Error string string string
| Dispatch_Error string string

(* model.rs 888-898 PullRequestView *)
record pull_request_view =
  pv_number :: nat
  pv_title :: string
  pv_labels :: "string list"
  pv_url :: string
  pv_skill_key :: string
  pv_skip_reason :: "string option"

(* model.rs 912-915 PrPresence *)
datatype pr_presence = Current | Stale

(* model.rs 928-933 TrackedPrView *)
record tracked_pr_view =
  tv_pr :: pull_request_view
  tv_presence :: pr_presence
  tv_archived :: bool

(* events.rs 52-66 PrEvent *)
datatype pr_event = Pr_Updated string "tracked_pr_view list" | Pr_Error string string

(* events.rs 287-302 StreamEvent *)
datatype stream_event =
  Action outbox_event | Workflow workflow_event | Inbox inbox_event | Review review_event | Pr pr_event

section \<open>The application handle\<close>

record world =
  w_db :: db
  w_clock :: "nat \<Rightarrow> nat"
  w_ticks :: nat
  w_uuids :: "nat \<Rightarrow> string"
  w_uuid :: nat
  w_events :: "stream_event list"
  w_outbox_wake :: bool
  w_inbox_wake :: bool
  w_workflow_wake :: bool
  w_resume_generation :: nat
  w_deliveries :: "webhook_delivery list"
  w_scheduler :: scheduler_set

(* outbox/store.rs 103-109 now_epoch *)
definition now_epoch :: "world \<Rightarrow> nat \<times> world" where
  "now_epoch w = (w_clock w (w_ticks w), w\<lparr>w_ticks := Suc (w_ticks w)\<rparr>)"

definition new_uuid :: "world \<Rightarrow> string \<times> world" where
  "new_uuid w = (w_uuids w (w_uuid w), w\<lparr>w_uuid := Suc (w_uuid w)\<rparr>)"

(* stream.rs 85-105 emit *)
definition emit :: "stream_event \<Rightarrow> world \<Rightarrow> world" where
  "emit event w = w\<lparr>w_events := w_events w @ [event]\<rparr>"

(* outbox/manager.rs 100-102 OutboxManager::wake *)
definition wake_outbox :: "world \<Rightarrow> world" where
  "wake_outbox w = w\<lparr>w_outbox_wake := True\<rparr>"

definition wake_inbox :: "world \<Rightarrow> world" where
  "wake_inbox w = w\<lparr>w_inbox_wake := True\<rparr>"

(* workflow/manager.rs 120-122 WorkflowManager::wake *)
definition wake_workflow :: "world \<Rightarrow> world" where
  "wake_workflow w = w\<lparr>w_workflow_wake := True\<rparr>"

text \<open>Running a database operation.\<close>

definition on_db :: "'a db_op \<Rightarrow> world \<Rightarrow> 'a app_result \<times> world" where
  "on_db f w = (let (r, d) = f (w_db w) in (r, w\<lparr>w_db := d\<rparr>))"

lemma on_db_simps [simp]:
  "fst (on_db f w) = fst (f (w_db w))" "w_db (snd (on_db f w)) = snd (f (w_db w))"
  "w_events (snd (on_db f w)) = w_events w"
  "w_resume_generation (snd (on_db f w)) = w_resume_generation w"
  "w_outbox_wake (snd (on_db f w)) = w_outbox_wake w"
  by (simp_all add: on_db_def split_beta)

lemma emit_simps [simp]:
  "w_db (emit e w) = w_db w" "w_events (emit e w) = w_events w @ [e]"
  "w_outbox_wake (emit e w) = w_outbox_wake w"
  by (simp_all add: emit_def)

lemma wake_outbox_simps [simp]:
  "w_db (wake_outbox w) = w_db w" "w_events (wake_outbox w) = w_events w"
  "w_outbox_wake (wake_outbox w)"
  by (simp_all add: wake_outbox_def)

lemma now_epoch_simps [simp]:
  "w_db (snd (now_epoch w)) = w_db w" "w_events (snd (now_epoch w)) = w_events w"
  "w_outbox_wake (snd (now_epoch w)) = w_outbox_wake w"
  by (simp_all add: now_epoch_def)

text \<open>A world at rest, for concrete examples.\<close>

definition idle_world :: "db \<Rightarrow> world" where
  "idle_world d = \<lparr>w_db = d, w_clock = (\<lambda>n. 10 + n), w_ticks = 0, w_uuids = (\<lambda>n. []), w_uuid = 0,
     w_events = [], w_outbox_wake = False, w_inbox_wake = False, w_workflow_wake = False,
     w_resume_generation = 0, w_deliveries = [], w_scheduler = scheduler_set_default\<rparr>"

end
