(* ===== verification/Outbox_Facts.thy ===== *)
theory Outbox_Facts
  imports Outbox_Store
begin

text \<open>
  The correctness of the outbox's statements: every one keeps the table invariant, a producer key
  names one row for ever, the dedupe key names at most one live row, a claim returns the oldest due
  rows, and only a dead row is put back by the manual retry. The locale \<open>keyed_store\<close> states what a
  producer relies on when it enqueues: a key that is known keeps its identifier, whatever else is
  inserted.
\<close>

section \<open>Stores with a permanent key\<close>

locale keyed_store =
  fixes ins :: "'k \<Rightarrow> 'a \<Rightarrow> 's \<Rightarrow> ('i \<times> 's) option"
    and lookup :: "'k \<Rightarrow> 's \<Rightarrow> 'i option"
    and good :: "'s \<Rightarrow> bool"
  assumes ins_good: "good s \<Longrightarrow> ins k a s = Some (i, s') \<Longrightarrow> good s'"
    and ins_known: "good s \<Longrightarrow> lookup k s = Some i \<Longrightarrow> ins k a s = Some (j, s') \<Longrightarrow> j = i"
    and ins_keeps: "good s \<Longrightarrow> ins k a s = Some (i, s') \<Longrightarrow> lookup q s = Some j \<Longrightarrow> lookup q s' = Some j"
begin

text \<open>A sequence of inserts; one that fails leaves the state as it was.\<close>

fun run :: "('k \<times> 'a) list \<Rightarrow> 's \<Rightarrow> 'i option list \<times> 's" where
  "run [] s = ([], s)"
| "run ((k, a) # ops) s =
     (case ins k a s of
        None \<Rightarrow> (let (rs, s') = run ops s in (None # rs, s'))
      | Some (i, s1) \<Rightarrow> (let (rs, s') = run ops s1 in (Some i # rs, s')))"

lemma run_good: "good s \<Longrightarrow> good (snd (run ops s))"
  by (induction ops s rule: run.induct)
     (auto simp: split_beta ins_good split: option.splits)

lemma run_keeps: "good s \<Longrightarrow> lookup q s = Some j \<Longrightarrow> lookup q (snd (run ops s)) = Some j"
  by (induction ops s rule: run.induct)
     (fastforce simp: split_beta dest: ins_good ins_keeps split: option.splits)+

lemma run_known:
  assumes "good s" and "lookup k s = Some i"
  shows "\<forall>(q, r) \<in> set (zip (map fst ops) (fst (run ops s))). q = k \<longrightarrow> r = None \<or> r = Some i"
  using assms
proof (induction ops s rule: run.induct)
  case (2 q a ops s)
  show ?case
  proof (cases "ins q a s")
    case None
    with 2 show ?thesis by (auto simp: split_beta)
  next
    case (Some p)
    obtain j s1 where p: "p = (j, s1)" by (cases p)
    from Some p "2.prems" have "good s1" and "lookup k s1 = Some i"
      by (auto intro: ins_good ins_keeps)
    with "2.IH"(2) [OF Some p [symmetric]] Some p "2.prems" show ?thesis
      by (auto simp: split_beta dest: ins_known)
  qed
qed simp

end

section \<open>Enqueue\<close>

lemma enqueue_inner_txE:
  assumes "enqueue_inner_tx row producer now d = Inr (i, d')"
  obtains (inserted) next_at now_sql where
      "tbl_next (db_outbox d) = Inr i"
      "outbox_insertable (enqueue_row row producer next_at now_sql i) (tb_rows (db_outbox d))"
      "d' = d\<lparr>db_outbox := tbl_push i (enqueue_row row producer next_at now_sql i) (db_outbox d)\<rparr>"
      "sqlite_epoch ''next_attempt_at''
         (case ei_next_attempt_at row of None \<Rightarrow> now | Some n \<Rightarrow> n) = Inr next_at"
      "sqlite_epoch ''now'' now = Inr now_sql"
  | (known) s j where
      "find (\<lambda>s. ob_producer_key s = producer) (tb_rows (db_outbox d)) = Some s" "i = ob_id s"
      "tbl_next (db_outbox d) = Inr j" "d' = d\<lparr>db_outbox := (db_outbox d)\<lparr>tb_seq := j\<rparr>\<rparr>"
  | (live) s j key where
      "find (\<lambda>s. ob_producer_key s = producer) (tb_rows (db_outbox d)) = None"
      "ei_dedupe_key row = Some key"
      "find (\<lambda>s. ob_project_id s = ei_project_id row \<and> ob_dedupe_key s = Some key \<and>
         is_live (ob_status s)) (tb_rows (db_outbox d)) = Some s" "i = ob_id s"
      "tbl_next (db_outbox d) = Inr j" "d' = d\<lparr>db_outbox := (db_outbox d)\<lparr>tb_seq := j\<rparr>\<rparr>"
  using assms
  by (auto simp: enqueue_inner_tx_def try_bind_Inr_iff Let_def split: if_splits option.splits)

lemma tbl_ok_seq: "tbl_ok rid t \<Longrightarrow> tbl_next t = Inr j \<Longrightarrow> tbl_ok rid (t\<lparr>tb_seq := j\<rparr>)"
  by (fastforce simp: tbl_ok_def tbl_next_def split: if_splits)

lemma outbox_ok_push:
  assumes "outbox_ok d" and "tbl_next (db_outbox d) = Inr i" and "ob_id r = i"
    and "outbox_insertable r (tb_rows (db_outbox d))"
  shows "outbox_ok (d\<lparr>db_outbox := tbl_push i r (db_outbox d)\<rparr>)"
  using assms by (auto simp: outbox_ok_def outbox_insertable_def table_simps intro: tbl_ok_push)

lemma outbox_ok_seq:
  "outbox_ok d \<Longrightarrow> tbl_next (db_outbox d) = Inr j \<Longrightarrow> outbox_ok (d\<lparr>db_outbox := (db_outbox d)\<lparr>tb_seq := j\<rparr>\<rparr>)"
  by (auto simp: outbox_ok_def tbl_ok_seq)

lemma enqueue_row_sel [simp]:
  "ob_id (enqueue_row row producer next_at now i) = i"
  "ob_producer_key (enqueue_row row producer next_at now i) = producer"
  "ob_status (enqueue_row row producer next_at now i) = ''pending''"
  "ob_project_id (enqueue_row row producer next_at now i) = ei_project_id row"
  "ob_dedupe_key (enqueue_row row producer next_at now i) = ei_dedupe_key row"
  by (simp_all add: enqueue_row_def)

lemma enqueue_inner_tx_ok [inv_intros]:
  assumes "outbox_ok d" and "enqueue_inner_tx row producer now d = Inr (i, d')"
  shows "outbox_ok d'"
  using assms(2) by (cases rule: enqueue_inner_txE) (use assms(1) in \<open>auto intro: outbox_ok_push outbox_ok_seq\<close>)

text \<open>Rows are only ever added, at the end of the table.\<close>

lemma enqueue_inner_tx_rows:
  assumes "enqueue_inner_tx row producer now d = Inr (i, d')"
  shows "tb_rows (db_outbox d') = tb_rows (db_outbox d) \<or>
    (\<exists>r. tb_rows (db_outbox d') = tb_rows (db_outbox d) @ [r] \<and> ob_id r = i \<and>
       ob_status r = ''pending'' \<and> ob_producer_key r = producer \<and>
       ob_project_id r = ei_project_id row \<and> ob_dedupe_key r = ei_dedupe_key row)"
  using assms by (cases rule: enqueue_inner_txE) (auto simp: table_simps)

text \<open>The identifier that is returned is that of a row of the table.\<close>

lemma enqueue_inner_tx_id_in:
  assumes "enqueue_inner_tx row producer now d = Inr (i, d')"
  shows "i \<in> ob_id ` set (tb_rows (db_outbox d'))"
  using assms by (cases rule: enqueue_inner_txE) (auto simp: table_simps find_Some_iff)

definition producer_id :: "string \<Rightarrow> db \<Rightarrow> int option" where
  "producer_id k d = map_option ob_id (find (\<lambda>r. ob_producer_key r = k) (tb_rows (db_outbox d)))"

lemma producer_id_append:
  "find p (rs @ [r]) = (case find p rs of Some s \<Rightarrow> Some s | None \<Rightarrow> if p r then Some r else None)"
  by (induction rs) auto

definition enqueue_once :: "string \<Rightarrow> enqueue_input \<times> nat \<Rightarrow> db \<Rightarrow> (int \<times> db) option" where
  "enqueue_once k a d = ok (enqueue_inner_tx (fst a) k (snd a) d)"

lemma enqueue_once_iff: "enqueue_once k a d = Some (i, d') \<longleftrightarrow> enqueue_inner_tx (fst a) k (snd a) d = Inr (i, d')"
  by (cases "enqueue_inner_tx (fst a) k (snd a) d") (auto simp: enqueue_once_def)

lemma enqueue_keeps_producer:
  assumes "enqueue_inner_tx row k now d = Inr (i, d')" and "producer_id q d = Some j"
  shows "producer_id q d' = Some j"
  using enqueue_inner_tx_rows [OF assms(1)] assms(2)
  by (auto simp: producer_id_def producer_id_append)

lemma enqueue_known_producer:
  assumes "outbox_ok d" and "producer_id k d = Some i"
  shows "enqueue_inner_tx row k now d = Inr (j, d') \<Longrightarrow>
    j = i \<and> tb_rows (db_outbox d') = tb_rows (db_outbox d)"
proof -
  assume e: "enqueue_inner_tx row k now d = Inr (j, d')"
  from assms(2) obtain s where s: "find (\<lambda>r. ob_producer_key r = k) (tb_rows (db_outbox d)) = Some s"
    "ob_id s = i" by (auto simp: producer_id_def)
  then have "s \<in> set (tb_rows (db_outbox d))" and "ob_producer_key s = k"
    by (auto simp: find_Some_iff)
  then have "\<not> unique_index producer_index (tb_rows (db_outbox d) @ [r])" if "ob_producer_key r = k" for r
    using that by (auto simp: unique_index_snoc producer_index_def)
  then have "\<not> outbox_insertable r (tb_rows (db_outbox d))" if "ob_producer_key r = k" for r
    using that by (auto simp: outbox_insertable_def)
  with e s show ?thesis by (cases rule: enqueue_inner_txE) auto
qed

interpretation outbox_queue: keyed_store enqueue_once producer_id outbox_ok
proof unfold_locales
  show "outbox_ok d'" if "outbox_ok d" "enqueue_once k a d = Some (i, d')" for d k a i d'
    using that by (auto simp: enqueue_once_iff intro: enqueue_inner_tx_ok)
  show "j = i" if "outbox_ok d" "producer_id k d = Some i" "enqueue_once k a d = Some (j, d')" for d k i a j d'
    using that enqueue_known_producer by (auto simp: enqueue_once_iff)
  show "producer_id q d' = Some j"
    if "outbox_ok d" "enqueue_once k a d = Some (i, d')" "producer_id q d = Some j" for d k a i d' q j
    using that enqueue_keeps_producer by (auto simp: enqueue_once_iff)
qed

section \<open>The error text\<close>

lemma back_to_boundary_le: "back_to_boundary s n \<le> n"
  by (induction n) auto

lemma back_to_boundary_boundary: "is_char_boundary s (back_to_boundary s n)"
  by (induction n) (auto simp: is_char_boundary_def)

text \<open>A Unicode scalar value is at most \<open>0x10FFFF\<close>; its encoding is a lead byte and continuations.\<close>

lemma utf8_char_shape:
  assumes "c < 0x110000"
  obtains b bs where "utf8_char c = b # bs" and "\<not> is_continuation b" and "list_all is_continuation bs"
    and "length bs \<le> 3"
proof (cases "c < 0x80")
  case True
  then show ?thesis using that [of "char_of c" "[]"] by (simp add: utf8_char_def is_continuation_def)
next
  case ge80: False
  have cont: "is_continuation (char_of (0x80 + m mod 64))" for m :: nat
  proof -
    have "m mod 64 < 64" by simp
    then show ?thesis by (simp add: is_continuation_def)
  qed
  show ?thesis
  proof (cases "c < 0x800")
    case True
    then have "c div 64 < 32" by simp
    then have "\<not> is_continuation (char_of (0xC0 + c div 64))" by (simp add: is_continuation_def)
    with True ge80 that cont show ?thesis by (simp add: utf8_char_def)
  next
    case ge800: False
    show ?thesis
    proof (cases "c < 0x10000")
      case True
      then have "c div 4096 < 16" by simp
      then have "\<not> is_continuation (char_of (0xE0 + c div 4096))" by (simp add: is_continuation_def)
      with True ge80 ge800 that cont show ?thesis by (simp add: utf8_char_def)
    next
      case False
      from assms have "c div 262144 < 5" by simp
      then have "\<not> is_continuation (char_of (0xF0 + c div 262144))" by (simp add: is_continuation_def)
      with False ge80 ge800 that cont show ?thesis by (simp add: utf8_char_def)
    qed
  qed
qed

text \<open>Cutting a UTF-8 string at a character boundary leaves the encoding of a prefix.\<close>

lemma take_boundary_utf8:
  assumes "list_all (\<lambda>c. c < 0x110000) cs" and "is_char_boundary (utf8 cs) i" and "i \<le> length (utf8 cs)"
  shows "\<exists>n. take i (utf8 cs) = utf8 (take n cs)"
  using assms
proof (induction cs arbitrary: i)
  case (Cons c cs)
  obtain b bs where bs: "utf8_char c = b # bs" "list_all is_continuation bs"
    using Cons.prems(1) by (auto elim: utf8_char_shape [of c])
  have u: "utf8 (c # cs) = (b # bs) @ utf8 cs" by (simp add: utf8_def bs)
  show ?case
  proof (cases "i = 0")
    case True
    then show ?thesis by (intro exI [of _ 0]) (simp add: utf8_def)
  next
    case False
    have "length (b # bs) \<le> i"
    proof (rule ccontr)
      assume short: "\<not> length (b # bs) \<le> i"
      with False have "utf8 (c # cs) ! i = bs ! (i - 1)"
        by (cases i) (simp_all add: u nth_append)
      moreover have "is_continuation (bs ! (i - 1))" using bs(2) short False by (auto simp: list_all_length)
      ultimately show False using Cons.prems(2) False short by (auto simp: is_char_boundary_def u)
    qed
    then obtain k where k: "i = length (b # bs) + k" using le_Suc_ex by blast
    with Cons.prems(2) have "is_char_boundary (utf8 cs) k"
      by (auto simp: is_char_boundary_def u nth_append)
    moreover from Cons.prems(3) k have "k \<le> length (utf8 cs)" by (simp add: u)
    ultimately obtain n where "take k (utf8 cs) = utf8 (take n cs)"
      using Cons.IH Cons.prems(1) by auto
    then have "take i (utf8 (c # cs)) = utf8 (take (Suc n) cs')" if "cs' = c # cs" for cs'
      using that k by (simp add: u) (simp add: utf8_def bs)
    then show ?thesis by blast
  qed
qed (simp add: utf8_def)

lemma clamp_error_length: "length (clamp_error e) \<le> max_last_error_len + 3"
proof -
  have "length ellipsis = 3" by (simp add: ellipsis_def utf8_def utf8_char_def)
  moreover have "back_to_boundary e max_last_error_len \<le> max_last_error_len" by (rule back_to_boundary_le)
  ultimately show ?thesis by (auto simp: clamp_error_def)
qed

lemma clamp_error_short: "length e \<le> max_last_error_len \<Longrightarrow> clamp_error e = e"
  by (simp add: clamp_error_def)

section \<open>Every statement keeps the table invariant\<close>

lemma in_statuses [simp]:
  "''pending'' \<in> set outbox_statuses" "''blocked'' \<in> set outbox_statuses"
  "''done'' \<in> set outbox_statuses" "''dead'' \<in> set outbox_statuses"
  by (simp_all add: outbox_statuses_def)

lemma stmt_update_ok:
  assumes "outbox_ok d"
    and "\<And>r. ob_id (f r) = ob_id r" "\<And>r. ob_producer_key (f r) = ob_producer_key r"
      "\<And>r. ob_kind (f r) = ob_kind r"
    and "\<And>r. outbox_check r \<Longrightarrow> thread_check (f r) \<Longrightarrow> outbox_check (f r)"
  shows "outbox_ok (snd (with_conn (\<lambda>d. try_bind (outbox_update p f d) (\<lambda>(n, d). Inr (h n d, d))) d))"
  using assms
  by (intro with_conn_inv [where P = outbox_ok]) (auto simp: try_bind_Inr_iff intro: outbox_update_ok)

lemmas stmt_ok = case_err_inv [where P = outbox_ok] stmt_update_ok [where h = "\<lambda>_ _. ()"]

lemma mark_done_ok [inv_intros]: "outbox_ok d \<Longrightarrow> outbox_ok (snd (mark_done i n now d))"
  unfolding mark_done_def by (intro stmt_ok) (simp_all add: outbox_check_def)

lemma mark_done_with_output_ok [inv_intros]:
  "outbox_ok d \<Longrightarrow> outbox_ok (snd (mark_done_with_output i n out now d))"
  unfolding mark_done_with_output_def Let_def by (intro stmt_ok) (simp_all add: outbox_check_def)

lemma mark_blocked_ok [inv_intros]: "outbox_ok d \<Longrightarrow> outbox_ok (snd (mark_blocked i msg now d))"
  unfolding mark_blocked_def by (intro stmt_ok) (simp_all add: outbox_check_def)

lemma mark_dead_ok [inv_intros]: "outbox_ok d \<Longrightarrow> outbox_ok (snd (mark_dead i n e now d))"
  unfolding mark_dead_def by (intro stmt_ok) (simp_all add: outbox_check_def)

lemma mark_retry_ok [inv_intros]: "outbox_ok d \<Longrightarrow> outbox_ok (snd (mark_retry i n next e now d))"
  unfolding mark_retry_def by (intro stmt_ok) (simp_all add: outbox_check_def)

lemma unblock_reviews_ok [inv_intros]:
  assumes "outbox_ok d"
  shows "outbox_ok (snd (unblock_reviews now d))"
  unfolding unblock_reviews_def
proof (intro case_err_inv [where P = outbox_ok] with_conn_inv [where P = outbox_ok] assms)
  fix n x d'
  assume "outbox_update (\<lambda>r. ob_status r = ''blocked'' \<and> ob_kind r = ''runSkill'')
    (\<lambda>r. r\<lparr>ob_status := ''pending'', ob_next_attempt_at := n, ob_last_error := None, ob_updated_at := n\<rparr>) d
    = Inr (x, d')"
  with assms show "outbox_ok d'" by (rule outbox_update_ok) (simp_all add: outbox_check_def)
qed

lemma reset_for_retry_ok [inv_intros]: "outbox_ok d \<Longrightarrow> outbox_ok (snd (reset_for_retry i now d))"
  unfolding reset_for_retry_def
  by (intro case_err_inv [where P = outbox_ok] stmt_update_ok
      [where h = "\<lambda>n d. if n = 1 then Requeued else if by_id ob_id i (db_outbox d) \<noteq> None then NotDead else Unknown"])
     (simp_all add: outbox_check_def retry_row_def)

lemma kill_pending_ids_ok: "outbox_ok d \<Longrightarrow> kill_pending_ids ids e now d = Inr (u, d') \<Longrightarrow> outbox_ok d'"
proof (induction ids arbitrary: d)
  case (Cons i ids)
  from Cons.prems(2) obtain n d1 where
    u: "outbox_update (\<lambda>r. ob_id r = i \<and> ob_status r = status_as_wire Action_Pending)
         (\<lambda>r. r\<lparr>ob_status := status_as_wire Action_Dead, ob_last_error := Some e, ob_updated_at := now\<rparr>) d
       = Inr (n, d1)" and rest: "kill_pending_ids ids e now d1 = Inr (u, d')"
    by (auto simp: try_bind_Inr_iff)
  from Cons.prems(1) u have "outbox_ok d1"
    by (rule outbox_update_ok) (simp_all add: outbox_check_def)
  from Cons.IH [OF this rest] show ?case .
qed simp

lemma mark_pending_by_dedupe_fragment_dead_ok [inv_intros]:
  assumes "outbox_ok d"
  shows "outbox_ok (snd (mark_pending_by_dedupe_fragment_dead frag e now d))"
proof (cases "frag = []")
  case False
  then show ?thesis
    unfolding mark_pending_by_dedupe_fragment_dead_def if_not_P [OF False] Let_def
    by (intro case_err_inv [where P = outbox_ok] with_tx_inv [where P = outbox_ok] assms)
       (auto simp only: try_bind_Inr_iff split: prod.splits intro: kill_pending_ids_ok [OF assms])
qed (simp add: mark_pending_by_dedupe_fragment_dead_def assms)

section \<open>What a statement does to each row\<close>

lemma outbox_update_lookup:
  assumes "outbox_update p f d = Inr (n, d')" and "\<And>r. ob_id (f r) = ob_id r"
  shows "by_id ob_id j (db_outbox d') = map_option (\<lambda>r. if p r then f r else r) (by_id ob_id j (db_outbox d))"
  using outbox_update_Inr(1) [OF assms(1)] by_id_update [of ob_id f, OF assms(2)] by simp

lemma mark_dead_lookup:
  assumes "mark_dead i n e now d = (Inr u, d')"
  shows "by_id ob_id j (db_outbox d') = map_option (\<lambda>r. if ob_id r = i then
    r\<lparr>ob_status := ''dead'', ob_attempt_count := int n, ob_last_error := Some (clamp_error e),
      ob_updated_at := int now\<rparr> else r) (by_id ob_id j (db_outbox d))"
proof -
  from assms have now: "sqlite_epoch ''now'' now = Inr (int now)"
    by (auto simp: mark_dead_def sqlite_epoch_def split: if_splits)
  with assms obtain k where "outbox_update (\<lambda>r. ob_id r = i)
      (\<lambda>r. r\<lparr>ob_status := ''dead'', ob_attempt_count := int n, ob_last_error := Some (clamp_error e),
             ob_updated_at := int now\<rparr>) d = Inr (k, d')"
    by (auto simp: mark_dead_def with_conn_def try_bind_Inr_iff split: sum.splits)
  from outbox_update_lookup [OF this] show ?thesis by simp
qed

section \<open>The claim\<close>

definition claims_row :: "outbox_row \<Rightarrow> outbox_action \<Rightarrow> bool" where
  "claims_row r a \<longleftrightarrow> a = from_claimed_row r (oa_kind a) \<and> ob_kind r = kind_as_wire (oa_kind a)"

lemma claims_row_from: "kind_from_wire (ob_kind r) = Inr k \<Longrightarrow> claims_row r (from_claimed_row r k)"
  by (simp add: claims_row_def from_claimed_row_def kind_from_wire_Inr_iff)

lemma claim_loop_clean:
  assumes "\<forall>r \<in> set rs. ob_kind r \<in> set outbox_kinds"
  shows "\<exists>as'. claim_loop now rs (as, qs) d = ((as @ as', qs), d) \<and> list_all2 claims_row rs as'"
  using assms
proof (induction rs arbitrary: as)
  case (Cons r rs)
  then obtain k where k: "kind_from_wire (ob_kind r) = Inr k"
    by (auto simp: outbox_kinds_decode)
  from Cons obtain as' where
    "claim_loop now rs (as @ [from_claimed_row r k], qs) d = (((as @ [from_claimed_row r k]) @ as', qs), d)"
    "list_all2 claims_row rs as'" by fastforce
  with k claims_row_from [OF k] show ?case
    by (intro exI [of _ "from_claimed_row r k # as'"]) simp
qed simp

lemma due_rows_subset: "set (due_rows now t) \<subseteq> set (tb_rows t)"
  by (auto simp: due_rows_def sql_select_def dest: in_set_takeD)

lemma due_rows_due: "r \<in> set (due_rows now t) \<Longrightarrow> ob_status r = ''pending'' \<and> ob_next_attempt_at r \<le> now"
  by (auto simp: due_rows_def sql_select_def dest: in_set_takeD)

lemma due_rows_length: "length (due_rows now t) \<le> 100"
  by (simp add: due_rows_def claim_limit_def)

lemma due_rows_sorted: "tbl_ok ob_id t \<Longrightarrow> sorted_wrt (<) (map ob_id (due_rows now t))"
  by (simp add: tbl_ok_def due_rows_def sql_select_def take_map [symmetric] sorted_wrt_map sorted_wrt_filter
      sorted_wrt_take)

lemma claim_due_clean:
  assumes "outbox_ok d" and "int now \<le> i64_max"
  shows "\<exists>as. claim_due now d = (Inr (as, []), d) \<and> list_all2 claims_row (due_rows (int now) (db_outbox d)) as"
proof -
  have "\<forall>r \<in> set (due_rows (int now) (db_outbox d)). ob_kind r \<in> set outbox_kinds"
    using due_rows_subset [of "int now" "db_outbox d"] assms(1)
    by (auto simp: outbox_ok_def list_all_iff outbox_check_def)
  from claim_loop_clean [OF this, of now "[]" "[]" d] assms(2) show ?thesis
    by (auto simp: claim_due_def sqlite_epoch_def)
qed

text \<open>
  A quarantined row is dead afterwards, and since its kind still does not decode, the read that would
  announce it fails.
\<close>

definition quarantined_row :: "db \<Rightarrow> int \<Rightarrow> bool" where
  "quarantined_row d i \<longleftrightarrow>
     (case by_id ob_id i (db_outbox d) of
        None \<Rightarrow> False
      | Some r \<Rightarrow> ob_status r = ''dead'' \<and> ob_kind r \<notin> set outbox_kinds)"

definition kind_at :: "db \<Rightarrow> int \<Rightarrow> string option" where
  "kind_at d i = map_option ob_kind (by_id ob_id i (db_outbox d))"

lemma mark_dead_kind_at: "mark_dead i n e now d = (Inr u, d') \<Longrightarrow> kind_at d' j = kind_at d j"
  by (cases "by_id ob_id j (db_outbox d)") (auto simp: kind_at_def mark_dead_lookup)

lemma mark_dead_quarantines:
  assumes "mark_dead i n e now d = (Inr u, d')" and "kind_at d i = Some k" and "k \<notin> set outbox_kinds"
  shows "quarantined_row d' i"
  using assms by (auto simp: kind_at_def quarantined_row_def mark_dead_lookup dest: by_id_Some_in)

lemma mark_dead_keeps_quarantined:
  "mark_dead i n e now d = (Inr u, d') \<Longrightarrow> quarantined_row d j \<Longrightarrow> quarantined_row d' j"
  by (auto simp: quarantined_row_def mark_dead_lookup split: option.splits)

lemma claim_loop_quarantines:
  assumes "claim_loop now rs (as, qs) d = ((as', qs'), d')"
    and "\<forall>r \<in> set rs. kind_at d (ob_id r) = Some (ob_kind r)" and "\<forall>i \<in> set qs. quarantined_row d i"
  shows "\<forall>i \<in> set qs'. quarantined_row d' i"
  using assms
proof (induction rs arbitrary: as qs d)
  case (Cons r rs)
  show ?case
  proof (cases "kind_from_wire (ob_kind r)")
    case (Inr k)
    with Cons show ?thesis by auto
  next
    case (Inl e)
    obtain res d1 where m: "mark_dead (ob_id r) (as_u32 (max (ob_attempt_count r) 0)) (message e) now d = (res, d1)"
      by (cases "mark_dead (ob_id r) (as_u32 (max (ob_attempt_count r) 0)) (message e) now d")
    show ?thesis
    proof (cases res)
      case (Inl e')
      with m have "d1 = d"
        by (auto simp: mark_dead_def with_conn_def split: sum.splits)
      with Cons Inl m \<open>kind_from_wire (ob_kind r) = Inl e\<close> show ?thesis by auto
    next
      case (Inr u)
      have bad: "ob_kind r \<notin> set outbox_kinds" using \<open>kind_from_wire (ob_kind r) = Inl e\<close>
        by (simp add: outbox_kinds_decode)
      note m' = m [unfolded Inr]
      have "\<forall>i \<in> set (qs @ [ob_id r]). quarantined_row d1 i"
        using Cons.prems(2,3) mark_dead_quarantines [OF m' _ bad] mark_dead_keeps_quarantined [OF m'] by auto
      moreover have "\<forall>q \<in> set rs. kind_at d1 (ob_id q) = Some (ob_kind q)"
        using Cons.prems(2) mark_dead_kind_at [OF m'] by auto
      ultimately show ?thesis
        using Cons.IH [of as "qs @ [ob_id r]" d1] Cons.prems(1) m' \<open>kind_from_wire (ob_kind r) = Inl e\<close> by simp
    qed
  qed
qed simp

lemma claim_due_quarantines:
  assumes "claim_due now d = (Inr (as, qs), d')" and "distinct (map ob_id (tb_rows (db_outbox d)))" and "i \<in> set qs"
  shows "quarantined_row d' i"
proof -
  from assms(1) obtain n where "claim_loop now (due_rows n (db_outbox d)) ([], []) d = ((as, qs), d')"
    by (auto simp: claim_due_def split: sum.splits prod.splits)
  moreover have "kind_at d (ob_id r) = Some (ob_kind r)" if "r \<in> set (due_rows n (db_outbox d))" for r
    using that due_rows_subset by_id_eq_Some_iff [OF assms(2)] by (fastforce simp: kind_at_def)
  ultimately show ?thesis using claim_loop_quarantines assms(3) by fastforce
qed

lemma quarantined_row_unreadable: "quarantined_row d i \<Longrightarrow> \<exists>e. get_entry i d = Inl e"
proof -
  assume "quarantined_row d i"
  then obtain r where r: "by_id ob_id i (db_outbox d) = Some r" and "ob_kind r \<notin> set outbox_kinds"
    by (auto simp: quarantined_row_def split: option.splits)
  then obtain e where "kind_from_wire (ob_kind r) = Inl e"
    by (cases "kind_from_wire (ob_kind r)") (auto simp: outbox_kinds_decode)
  with r show ?thesis by (simp add: get_entry_def read_conn_def hydrate_entry_def)
qed

section \<open>The manual retry\<close>

interpretation outbox_retry: cas_family ob_id "\<lambda>(now :: int) r. ob_status r = ''dead''" retry_row
  by unfold_locales (simp_all add: retry_row_def)

text \<open>The rows a retry would collide with: another live row of the same project and dedupe key.\<close>

lemma reset_for_retry_cases:
  assumes "outbox_ok d" and "int now \<le> i64_max"
  shows "reset_for_retry i now d =
    (case by_id ob_id i (db_outbox d) of
       None \<Rightarrow> (Inr Unknown, d)
     | Some r \<Rightarrow>
         if ob_status r \<noteq> ''dead'' then (Inr NotDead, d)
         else (case outbox_update (\<lambda>r. ob_id r = i \<and> ob_status r = ''dead'') (retry_row (int now)) d of
                 Inl e \<Rightarrow> (Inl (map_err e), d)
               | Inr (n, d') \<Rightarrow> (Inr Requeued, d')))"
proof -
  have dist: "distinct (map ob_id (tb_rows (db_outbox d)))"
    using assms(1) by (auto simp: outbox_ok_def dest: tbl_ok_distinct)
  let ?p = "\<lambda>r. ob_id r = i \<and> ob_status r = ''dead''"
  have n: "sql_changes ?p (db_outbox d) =
      (case by_id ob_id i (db_outbox d) of Some r \<Rightarrow> if ob_status r = ''dead'' then 1 else 0 | None \<Rightarrow> 0)"
    by (rule changes_by_id [OF dist])
  have none: "outbox_update ?p (retry_row (int now)) d = Inr (0, d)" if "sql_changes ?p (db_outbox d) = 0"
  proof -
    from that have "sql_update ?p (retry_row (int now)) (db_outbox d) = db_outbox d" by (rule sql_update_none)
    moreover from that have "sql_select ?p (db_outbox d) = []" by (simp add: sql_changes_def sql_select_def)
    ultimately show ?thesis using assms(1) that
      by (simp add: outbox_update_def Let_def outbox_ok_def rethreaded_def)
  qed
  note ep = assms(2) [THEN sqlite_epoch_def [of "''now''", THEN trans, OF if_P]]
  show ?thesis
  proof (cases "by_id ob_id i (db_outbox d)")
    case None
    with n none show ?thesis by (simp add: reset_for_retry_def ep)
  next
    case (Some r)
    show ?thesis
    proof (cases "ob_status r = ''dead''")
      case False
      with Some n none show ?thesis by (simp add: reset_for_retry_def ep)
    next
      case True
      with Some n have "outbox_update ?p (retry_row (int now)) d = Inr (m, d') \<Longrightarrow> m = 1" for m d'
        using outbox_update_Inr(2) by fastforce
      with Some True show ?thesis
        by (auto simp: reset_for_retry_def ep with_conn_def split: sum.split)
    qed
  qed
qed

end
