(* ===== verification/Outbox_Worker.thy ===== *)
theory Outbox_Worker
  imports World Outbox_Facts
begin

text \<open>
  The outbox worker (\<open>outbox/service.rs\<close>): the retry delay, the mapping of an execution result to the
  row's next state, the staleness sweep, one worker cycle with its aggregated error events, and the
  enqueue entry points. The executor and the claim releaser are the closures the composition root
  injects; the executor may change the world in any way.
\<close>

section \<open>Retry delays\<close>

(* outbox/service.rs 27-27 MAX_ATTEMPTS *)
definition max_attempts :: nat where "max_attempts = 5"

(* outbox/service.rs 30-30 BACKOFF_BASE_SECS *)
definition backoff_base_secs :: nat where "backoff_base_secs = 30"

(* outbox/service.rs 34-34 BACKOFF_CAP_SECS *)
definition backoff_cap_secs :: nat where "backoff_cap_secs = 3600"

(* outbox/service.rs 42-42 JITTER_DEN *)
definition jitter_den :: nat where "jitter_den = 4"

unbundle bit_operations_syntax

(* outbox/service.rs 48-53 splitmix64 *)
definition splitmix64 :: "64 word \<Rightarrow> 64 word" where
  "splitmix64 seed =
     (let z = seed + 0x9E3779B97F4A7C15;
          z = (z XOR (drop_bit 30 z)) * 0xBF58476D1CE4E5B9;
          z = (z XOR (drop_bit 27 z)) * 0x94D049BB133111EB
      in z XOR (drop_bit 31 z))"

(* outbox/service.rs 61-76 next_backoff *)
definition next_backoff :: "nat \<Rightarrow> 64 word \<Rightarrow> nat" where
  "next_backoff attempt seed =
     (let exp = min (attempt - 1) 63;
          base = min (sat_mul_u64 backoff_base_secs (2 ^ exp)) backoff_cap_secs;
          span = base div jitter_den
      in if span = 0 then max base 1
         else
           let h = splitmix64 (seed XOR (of_nat attempt * 0x9E3779B97F4A7C15));
               offset = int (unat h mod (2 * span + 1)) - int span
           in nat (max (int base + offset) 1))"

section \<open>Outcomes\<close>

(* outbox/service.rs 81-90 Outcome *)
datatype outcome =
  Out_Done action_execution_output | Out_Blocked nat | Out_Retry nat | Out_Dead

(* outbox/service.rs 97-110 decide_outcome *)
definition decide_outcome :: "nat \<Rightarrow> nat \<Rightarrow> bool \<Rightarrow> 64 word \<Rightarrow> outcome" where
  "decide_outcome new_attempt_count now is_err seed =
     (if \<not> is_err then Out_Done Output_None
      else if max_attempts \<le> new_attempt_count then Out_Dead
      else Out_Retry (sat_add_u64 now (next_backoff new_attempt_count seed)))"

(* outbox/service.rs 124-131 ttl_secs *)
fun ttl_secs :: "action_kind \<Rightarrow> nat \<Rightarrow> nat option" where
  "ttl_secs Kind_Notification t = (if 0 < t then Some t else None)"
| "ttl_secs Kind_MessagingReply t = (if 0 < t then Some t else None)"
| "ttl_secs Kind_MessagingSend t = (if 0 < t then Some t else None)"
| "ttl_secs Kind_RunSkill t = None"
| "ttl_secs Kind_StopReview t = None"

(* outbox/service.rs 141-143 is_expired *)
definition is_expired :: "action_kind \<Rightarrow> nat \<Rightarrow> nat \<Rightarrow> nat \<Rightarrow> bool" where
  "is_expired kind created_at now notification_ttl_secs =
     (case ttl_secs kind notification_ttl_secs of
        None \<Rightarrow> False | Some ttl \<Rightarrow> sat_add_u64 created_at ttl \<le> now)"

text \<open>\<open>u64::clamp\<close>.\<close>

definition clamp_nat :: "nat \<Rightarrow> nat \<Rightarrow> nat \<Rightarrow> nat" where
  "clamp_nat lo hi x = max lo (min x hi)"

definition outcome_of ::
    "int \<Rightarrow> nat \<Rightarrow> nat \<Rightarrow> action_execution_result app_result \<Rightarrow> outcome \<times> string" where
  "outcome_of i new_attempt_count now result =
     (case result of
        Inr (Exec_Done out) \<Rightarrow> (Out_Done out, [])
      | Inr (Exec_Blocked msg observed) \<Rightarrow> (Out_Blocked observed, msg)
      | Inr (Exec_Dead msg) \<Rightarrow> (Out_Dead, msg)
      | Inr (Exec_Retry msg retry_after_secs) \<Rightarrow>
          if max_attempts \<le> new_attempt_count then (Out_Dead, msg)
          else (Out_Retry (case retry_after_secs of
                  Some s \<Rightarrow> sat_add_u64 now (clamp_nat 1 backoff_cap_secs s)
                | None \<Rightarrow> sat_add_u64 now (next_backoff new_attempt_count (of_int i))), msg)
      | Inl e \<Rightarrow> (decide_outcome new_attempt_count now True (of_int i), message e))"

(* outbox/service.rs 224-286 record_action_result *)
definition record_action_result ::
    "int \<Rightarrow> nat \<Rightarrow> nat \<Rightarrow> action_execution_result app_result \<Rightarrow> outcome db_op" where
  "record_action_result i prev_attempt_count now result d =
     (let n = sat_add_u32 prev_attempt_count 1;
          (outcome, error) = outcome_of i n now result;
          (r, d') = (case outcome of
             Out_Done out \<Rightarrow> mark_done_with_output i n out now d
           | Out_Blocked _ \<Rightarrow> mark_blocked i error now d
           | Out_Retry next_at \<Rightarrow> mark_retry i n next_at error now d
           | Out_Dead \<Rightarrow> mark_dead i n error now d)
      in (try_bind r (\<lambda>_. Inr outcome), d'))"

(* outbox/service.rs 288-305 reconcile_blocked_resume *)
definition reconcile_blocked_resume :: "outcome \<Rightarrow> nat \<Rightarrow> nat \<Rightarrow> bool db_op" where
  "reconcile_blocked_resume outcome current_resume_generation now d =
     (case outcome of
        Out_Blocked observed \<Rightarrow>
          if observed = current_resume_generation then (Inr False, d)
          else let (r, d') = unblock_reviews now d in (try_bind r (\<lambda>_. Inr True), d')
      | _ \<Rightarrow> (Inr False, d))"

(* outbox/service.rs 312-319 cycle_error_summary *)
definition cycle_error_summary :: "nat \<Rightarrow> string option \<Rightarrow> string \<Rightarrow> string option" where
  "cycle_error_summary failures first noun =
     map_option (\<lambda>first. if 1 < failures then dec failures @ '' '' @ noun @ utf8 [0xFF08, 0x9996, 0x6761, 0xFF09, 0xFF1A] @ first
                         else first) first"

section \<open>Announcing\<close>

(* outbox/service.rs 472-487 announce_cycle_error *)
definition announce_cycle_error :: "string \<Rightarrow> string \<Rightarrow> world \<Rightarrow> world" where
  "announce_cycle_error operation msg w = emit (Action (Outbox_Error operation (clamp_error msg))) w"

(* outbox/service.rs 497-522 try_announce_updated *)
definition try_announce_updated :: "int \<Rightarrow> world \<Rightarrow> (string + unit) \<times> world" where
  "try_announce_updated i w =
     (case get_entry i (w_db w) of
        Inr (Some entry) \<Rightarrow> (Inr (), emit (Action (Outbox_Updated (oe_project_id entry) entry)) w)
      | Inr None \<Rightarrow> (Inr (), w)
      | Inl e \<Rightarrow> (Inl (message e), w))"

(* outbox/service.rs 528-532 announce_updated *)
definition announce_updated :: "int \<Rightarrow> world \<Rightarrow> world" where
  "announce_updated i w =
     (case try_announce_updated i w of
        (Inl msg, w') \<Rightarrow> announce_cycle_error ''announce'' msg w'
      | (Inr _, w') \<Rightarrow> w')"

section \<open>Entry points of the producers\<close>

definition announce_enqueued :: "int app_result \<times> world \<Rightarrow> int app_result \<times> world" where
  "announce_enqueued res =
     (case res of
        (Inl e, w) \<Rightarrow> (Inl e, w)
      | (Inr i, w) \<Rightarrow> (Inr i, wake_outbox (announce_updated i w)))"

(* outbox/service.rs 150-163 enqueue *)
definition service_enqueue ::
    "string \<Rightarrow> action_kind \<Rightarrow> string \<Rightarrow> action_payload json_text \<Rightarrow> world \<Rightarrow> int app_result \<times> world" where
  "service_enqueue project_id kind summary payload w =
     (let (now, w) = now_epoch w; (nonce, w) = new_uuid w in
      announce_enqueued (on_db (enqueue nonce project_id kind summary payload now) w))"

(* outbox/service.rs 167-189 enqueue_deduped *)
definition service_enqueue_deduped ::
    "string \<Rightarrow> action_kind \<Rightarrow> string \<Rightarrow> action_payload json_text \<Rightarrow> string \<Rightarrow> world
      \<Rightarrow> int app_result \<times> world" where
  "service_enqueue_deduped project_id kind summary payload dedupe_key w =
     (let (now, w) = now_epoch w in
      announce_enqueued (on_db (enqueue_deduped [] project_id kind summary payload dedupe_key now) w))"

(* outbox/service.rs 191-216 enqueue_deduped_after *)
definition service_enqueue_deduped_after ::
    "string \<Rightarrow> action_kind \<Rightarrow> string \<Rightarrow> action_payload json_text \<Rightarrow> string \<Rightarrow> nat \<Rightarrow> world
      \<Rightarrow> int app_result \<times> world" where
  "service_enqueue_deduped_after project_id kind summary payload dedupe_key delay_secs w =
     (let (now, w) = now_epoch w;
          row = \<lparr>ei_project_id = project_id, ei_kind = kind, ei_summary = summary, ei_payload = payload,
                 ei_dedupe_key = Some dedupe_key, ei_next_attempt_at = Some (sat_add_u64 now delay_secs)\<rparr>
      in announce_enqueued (on_db (with_tx (enqueue_in_tx [] row now)) w))"

(* outbox/commands.rs 51-68 outbox_retry *)
definition outbox_retry :: "int \<Rightarrow> world \<Rightarrow> unit app_result \<times> world" where
  "outbox_retry i w =
     (let (now, w) = now_epoch w; (r, w) = on_db (reset_for_retry i now) w in
      case r of
        Inl e \<Rightarrow> (Inl e, w)
      | Inr Requeued \<Rightarrow> (Inr (), wake_outbox (announce_updated i w))
      | Inr Unknown \<Rightarrow> (Inl (AppError ((''outbox '' @ utf8 [0x6761, 0x76EE, 0x4E0D, 0x5B58, 0x5728, 0xFF08] @ ''id='') @ dec_int i @ utf8 [0xFF09])), w)
      | Inr NotDead \<Rightarrow>
          (Inl (AppError ((''outbox '' @ utf8 [0x6761, 0x76EE] @ '' '') @ dec_int i
             @ ('' '' @ utf8 [0x975E] @ '' dead '' @ utf8 [0x72B6, 0x6001, 0xFF0C, 0x4EC5] @ '' dead'' @ utf8 [0xFF08, 0x6700, 0x7EC8, 0x5931, 0x8D25, 0xFF09, 0x884C, 0x53EF, 0x91CD, 0x8BD5]))), w))"

(* outbox/commands.rs 20-26 outbox_list *)
definition outbox_list :: "string option \<Rightarrow> world \<Rightarrow> outbox_entry list app_result" where
  "outbox_list project_id w = list_by_project project_id (w_db w)"

(* outbox/commands.rs 33-40 outbox_get_raw *)
definition outbox_get_raw :: "int \<Rightarrow> world \<Rightarrow> action_payload json_text app_result" where
  "outbox_get_raw i w =
     try_bind (get_raw i (w_db w)) (\<lambda>raw.
     ok_or raw (AppError ((''outbox '' @ utf8 [0x6761, 0x76EE, 0x4E0D, 0x5B58, 0x5728, 0xFF08] @ ''id='') @ dec_int i @ utf8 [0xFF09])))"

section \<open>One cycle of the worker\<close>

type_synonym executor = "world \<Rightarrow> outbox_action \<Rightarrow> action_execution_result app_result \<times> world"
type_synonym claim_releaser = "db \<Rightarrow> int \<Rightarrow> db"

text \<open>The failure counters of a cycle, with the first message of each kind.\<close>

record cycle_errors =
  ce_record_failures :: nat
  ce_first_record :: "string option"
  ce_announce_failures :: nat
  ce_first_announce :: "string option"

definition no_errors :: cycle_errors where
  "no_errors = \<lparr>ce_record_failures = 0, ce_first_record = None,
                ce_announce_failures = 0, ce_first_announce = None\<rparr>"

definition get_or_insert :: "'a option \<Rightarrow> 'a \<Rightarrow> 'a option" where
  "get_or_insert m x = (case m of None \<Rightarrow> Some x | Some y \<Rightarrow> Some y)"

definition record_failed :: "string \<Rightarrow> cycle_errors \<Rightarrow> cycle_errors" where
  "record_failed msg ce = ce\<lparr>ce_record_failures := Suc (ce_record_failures ce),
     ce_first_record := get_or_insert (ce_first_record ce) msg\<rparr>"

definition announce_failed :: "string \<Rightarrow> cycle_errors \<Rightarrow> cycle_errors" where
  "announce_failed msg ce = ce\<lparr>ce_announce_failures := Suc (ce_announce_failures ce),
     ce_first_announce := get_or_insert (ce_first_announce ce) msg\<rparr>"

definition announce_row :: "int \<Rightarrow> cycle_errors \<times> world \<Rightarrow> cycle_errors \<times> world" where
  "announce_row i s =
     (case s of (ce, w) \<Rightarrow>
        case try_announce_updated i w of
          (Inl m, w') \<Rightarrow> (announce_failed m ce, w')
        | (Inr _, w') \<Rightarrow> (ce, w'))"

definition stale_reason :: string where
  "stale_reason = (utf8 [0x901A, 0x77E5, 0x8FC7, 0x671F, 0x672A, 0x6295, 0x9012, 0xFF1A, 0x8D85, 0x8FC7, 0x4FDD, 0x7559, 0x65F6, 0x9650] @ '' / notification expired before delivery (stale beyond TTL)'')"

text \<open>The branch of the loop body that dead-letters a stale action.\<close>

definition expire_action :: "nat \<Rightarrow> outbox_action \<Rightarrow> cycle_errors \<times> world \<Rightarrow> cycle_errors \<times> world" where
  "expire_action now0 action s =
     (case s of (ce, w) \<Rightarrow>
        let (r, w) = on_db (mark_dead (oa_id action) (oa_attempt_count action) stale_reason now0) w;
            ce = (case r of Inl e \<Rightarrow> record_failed (message e) ce | Inr _ \<Rightarrow> ce)
        in announce_row (oa_id action) (ce, w))"

text \<open>What follows a recorded outcome: the release of the claim, the resume check.\<close>

definition after_outcome ::
    "claim_releaser \<Rightarrow> int \<Rightarrow> outcome \<Rightarrow> cycle_errors \<times> world \<Rightarrow> cycle_errors \<times> world" where
  "after_outcome release i outcome s =
     (case s of (ce, w) \<Rightarrow>
        case outcome of
          Out_Done _ \<Rightarrow> (ce, w\<lparr>w_db := release (w_db w) i\<rparr>)
        | Out_Blocked _ \<Rightarrow>
            (let generation = w_resume_generation w; (now, w) = now_epoch w;
                 (r, w) = on_db (reconcile_blocked_resume outcome generation now) w
             in case r of
                  Inr True \<Rightarrow> (ce, wake_outbox w)
                | Inr False \<Rightarrow> (ce, w)
                | Inl e \<Rightarrow> (record_failed (message e) ce, w))
        | _ \<Rightarrow> (ce, w))"

text \<open>The branch that runs the action and records its result.\<close>

definition execute_action ::
    "executor \<Rightarrow> claim_releaser \<Rightarrow> outbox_action \<Rightarrow> cycle_errors \<times> world \<Rightarrow> cycle_errors \<times> world" where
  "execute_action exec release action s =
     (case s of (ce, w) \<Rightarrow>
        let (result, w) = exec w action; (now, w) = now_epoch w;
            (r, w) = on_db (record_action_result (oa_id action) (oa_attempt_count action) now result) w;
            s = (case r of
                   Inr outcome \<Rightarrow> after_outcome release (oa_id action) outcome (ce, w)
                 | Inl e \<Rightarrow> (record_failed (message e) ce, w))
        in announce_row (oa_id action) s)"

definition process_action ::
    "executor \<Rightarrow> claim_releaser \<Rightarrow> nat \<Rightarrow> nat \<Rightarrow> outbox_action \<Rightarrow> cycle_errors \<times> world
      \<Rightarrow> cycle_errors \<times> world" where
  "process_action exec release ttl now0 action s =
     (if is_expired (oa_kind action) (oa_created_at action) now0 ttl
      then expire_action now0 action s
      else execute_action exec release action s)"

definition emit_summary :: "string \<Rightarrow> string option \<Rightarrow> world \<Rightarrow> world" where
  "emit_summary operation summary w =
     (case summary of None \<Rightarrow> w | Some m \<Rightarrow> announce_cycle_error operation m w)"

(* outbox/service.rs 339-464 run_due_once *)
definition run_due_once :: "executor \<Rightarrow> claim_releaser \<Rightarrow> nat \<Rightarrow> world \<Rightarrow> world" where
  "run_due_once exec release ttl w =
     (let (now0, w) = now_epoch w; (claimed, w) = on_db (claim_due now0) w in
      case claimed of
        Inl e \<Rightarrow> announce_cycle_error ''claim'' (message e) w
      | Inr (due, quarantined) \<Rightarrow>
          (let s = fold announce_row quarantined (no_errors, w);
               (ce, w) = fold (process_action exec release ttl now0) due s;
               w = emit_summary ''record''
                 (cycle_error_summary (ce_record_failures ce) (ce_first_record ce) (utf8 [0x884C, 0x5199, 0x5165, 0x5931, 0x8D25])) w
           in emit_summary ''announce''
                (cycle_error_summary (ce_announce_failures ce) (ce_first_announce ce)
                  (utf8 [0x884C, 0x66F4, 0x65B0, 0x53D1, 0x9001, 0x5931, 0x8D25])) w))"

end
