(* ===== verification/Outbox_Worker_Facts.thy ===== *)
theory Outbox_Worker_Facts
  imports Outbox_Worker
begin

text \<open>
  What the worker guarantees: the bounds of the retry delay, the retry budget, the treatment of stale
  rows, the release of claims, and the aggregation of a cycle's errors.
\<close>

section \<open>Retry delays\<close>

definition backoff_base :: "nat \<Rightarrow> nat" where
  "backoff_base attempt = min (sat_mul_u64 backoff_base_secs (2 ^ min (attempt - 1) 63)) backoff_cap_secs"

lemma backoff_base_range: "30 \<le> backoff_base n \<and> backoff_base n \<le> 3600"
proof -
  have "(1::nat) \<le> 2 ^ min (n - 1) 63" by simp
  then have "30 \<le> 30 * (2::nat) ^ min (n - 1) 63" by linarith
  then show ?thesis
    by (simp add: backoff_base_def sat_mul_u64_def backoff_base_secs_def backoff_cap_secs_def u64_max_def)
qed

lemma backoff_base_mono: "m \<le> n \<Longrightarrow> backoff_base m \<le> backoff_base n"
  unfolding backoff_base_def sat_mul_u64_def by (intro min.mono mult_le_mono power_increasing) auto

lemma backoff_base_doubles: "1 \<le> n \<Longrightarrow> n \<le> 7 \<Longrightarrow> backoff_base n = 30 * 2 ^ (n - 1)"
proof -
  assume "1 \<le> n" "n \<le> 7"
  then have "n = 1 \<or> n = 2 \<or> n = 3 \<or> n = 4 \<or> n = 5 \<or> n = 6 \<or> n = 7" by arith
  then show ?thesis
    by (auto simp: backoff_base_def sat_mul_u64_def backoff_base_secs_def backoff_cap_secs_def u64_max_def)
qed

lemma next_backoff_range:
  "backoff_base n - backoff_base n div 4 \<le> next_backoff n seed \<and>
   next_backoff n seed \<le> backoff_base n + backoff_base n div 4"
proof -
  define b where "b = backoff_base n"
  define span where "span = b div 4"
  have b: "30 \<le> b" "b \<le> 3600" using backoff_base_range by (simp_all add: b_def)
  have span: "0 < span" using b by (simp add: span_def)
  define h where "h = unat (splitmix64 (xor seed (of_nat n * 0x9E3779B97F4A7C15)))"
  have "next_backoff n seed = (if span = 0 then max b 1
      else nat (max (int b + (int (h mod (2 * span + 1)) - int span)) 1))"
    by (simp only: next_backoff_def Let_def h_def b_def span_def backoff_base_def jitter_den_def)
  with span have nb: "next_backoff n seed = nat (max (int b + (int (h mod (2 * span + 1)) - int span)) 1)"
    by simp
  define m where "m = h mod (2 * span + 1)"
  have "m < 2 * span + 1" unfolding m_def by (rule mod_less_divisor) simp
  have "4 * span \<le> b" by (simp add: span_def)
  then have "span \<le> b" by simp
  then have "int b + (int m - int span) = int (b + m - span)" by simp
  moreover have "1 \<le> b + m - span" using \<open>4 * span \<le> b\<close> b by linarith
  ultimately have "next_backoff n seed = b + m - span"
    unfolding nb m_def [symmetric] by simp
  with \<open>m < 2 * span + 1\<close> \<open>span \<le> b\<close> show ?thesis
    unfolding b_def [symmetric] span_def [symmetric] by linarith
qed

lemma next_backoff_bounds: "23 \<le> next_backoff n seed \<and> next_backoff n seed \<le> 4500"
proof -
  let ?b = "backoff_base n"
  have "30 \<le> ?b" "?b \<le> 3600" using backoff_base_range by simp_all
  moreover have "?b div 4 \<le> 900" using \<open>?b \<le> 3600\<close> by simp
  moreover have "4 * (?b div 4) \<le> ?b" by simp
  moreover have "23 \<le> ?b - ?b div 4" using \<open>30 \<le> ?b\<close> by linarith
  ultimately show ?thesis using next_backoff_range [of n seed] by linarith
qed

section \<open>The retry budget\<close>

text \<open>A result that counts against the budget without ending the action.\<close>

definition failing :: "action_execution_result app_result \<Rightarrow> bool" where
  "failing r \<longleftrightarrow> (case r of Inl _ \<Rightarrow> True | Inr (Exec_Retry _ _) \<Rightarrow> True | _ \<Rightarrow> False)"

lemma outcome_of_failing:
  assumes "failing r"
  shows "(max_attempts \<le> n \<longrightarrow> fst (outcome_of i n now r) = Out_Dead) \<and>
    (n < max_attempts \<longrightarrow> (\<exists>t. fst (outcome_of i n now r) = Out_Retry t \<and> min (now + 1) u64_max \<le> t \<and> t \<le> now + 4500))"
proof -
  note b = next_backoff_bounds
  have sat: "min (now + 1) u64_max \<le> sat_add_u64 now x \<and> sat_add_u64 now x \<le> now + 4500"
    if "1 \<le> x" "x \<le> 4500" for x
    using that by (auto simp: sat_add_u64_def)
  have clamp: "1 \<le> clamp_nat 1 backoff_cap_secs x \<and> clamp_nat 1 backoff_cap_secs x \<le> 4500" for x
    by (auto simp: clamp_nat_def backoff_cap_secs_def)
  have nb: "1 \<le> next_backoff n s \<and> next_backoff n s \<le> 4500" for s using b [of n s] by simp
  show ?thesis
  proof (cases r)
    case (Inl e)
    then show ?thesis using sat nb by (auto simp: outcome_of_def decide_outcome_def)
  next
    case (Inr x)
    with assms obtain msg after where "x = Exec_Retry msg after"
      by (cases x) (auto simp: failing_def)
    with Inr show ?thesis using sat nb clamp by (auto simp: outcome_of_def split: option.split)
  qed
qed

text \<open>Recording a result writes the row of its action and no other.\<close>

lemma stmt_lookup:
  assumes "with_conn (\<lambda>d. try_bind (outbox_update p f d) (\<lambda>(n, d). Inr (h n d, d))) d = (Inr u, d')"
    and "\<And>r. ob_id (f r) = ob_id r"
  shows "by_id ob_id j (db_outbox d') = map_option (\<lambda>r. if p r then f r else r) (by_id ob_id j (db_outbox d))"
proof -
  from assms(1) obtain k where "outbox_update p f d = Inr (k, d')"
    by (auto simp: with_conn_def try_bind_Inr_iff split: sum.splits)
  from outbox_update_lookup [OF this assms(2)] show ?thesis .
qed

lemma stmt_other:
  assumes "with_conn (\<lambda>d. try_bind (outbox_update p f d) (\<lambda>(n, d). Inr (h n d, d))) d = (x, d')"
    and "\<And>r. ob_id (f r) = ob_id r" and "\<And>r. p r \<Longrightarrow> ob_id r \<noteq> j"
  shows "by_id ob_id j (db_outbox d') = by_id ob_id j (db_outbox d)"
proof (cases x)
  case (Inl e)
  with assms(1) have "d' = d" by (auto simp: with_conn_def split: sum.splits)
  then show ?thesis by simp
next
  case (Inr u)
  from stmt_lookup [OF assms(1) [unfolded Inr] assms(2)] assms(3) show ?thesis
    by (cases "by_id ob_id j (db_outbox d)") (auto dest: by_id_Some_in)
qed

definition untouched :: "int \<Rightarrow> db \<Rightarrow> db \<Rightarrow> bool" where
  "untouched j d d' \<longleftrightarrow> by_id ob_id j (db_outbox d') = by_id ob_id j (db_outbox d)"

lemma with_conn_untouched:
  assumes "\<And>r. ob_id (f r) = ob_id r" and "\<And>r. p r \<Longrightarrow> ob_id r \<noteq> j"
  shows "untouched j d (snd (with_conn (\<lambda>d. try_bind (outbox_update p f d) (\<lambda>(n, d). Inr ((), d))) d))"
  using stmt_other [where p = p and f = f and h = "\<lambda>_ _. ()" and d = d and j = j, OF _ assms]
  unfolding untouched_def
  by (cases "with_conn (\<lambda>d. try_bind (outbox_update p f d) (\<lambda>(n, d). Inr ((), d))) d") simp

lemma untouched_refl: "untouched j d d"
  by (simp add: untouched_def)

lemmas untouched_stmt = case_err_inv [where P = "untouched j d" for j d, OF untouched_refl]

lemma marks_untouched:
  assumes "i \<noteq> j"
  shows "untouched j d (snd (mark_dead i n e now d))"
    and "untouched j d (snd (mark_retry i n t e now d))"
    and "untouched j d (snd (mark_blocked i e now d))"
    and "untouched j d (snd (mark_done_with_output i n out now d))"
  unfolding mark_dead_def mark_retry_def mark_blocked_def mark_done_with_output_def Let_def
  using assms by (rule_tac [!] untouched_stmt) (auto intro!: with_conn_untouched untouched_stmt)

lemma record_action_result_untouched:
  "i \<noteq> j \<Longrightarrow> untouched j d (snd (record_action_result i n now r d))"
  using marks_untouched [of i j d]
  by (cases "fst (outcome_of i (sat_add_u32 n 1) now r)")
     (auto simp: record_action_result_def Let_def split_beta)

lemma mark_dead_succeeds:
  assumes "outbox_ok d" and "int now \<le> i64_max"
  shows "\<exists>d'. mark_dead i n e now d = (Inr (), d')"
proof -
  have "is_live (ob_status r)" if "is_live ''dead''" for r :: outbox_row
    using that by (simp add: is_live_def)
  then have "\<exists>m d'. outbox_update (\<lambda>r. ob_id r = i) (\<lambda>r. r\<lparr>ob_status := status_as_wire Action_Dead,
      ob_attempt_count := int n, ob_last_error := Some (clamp_error e), ob_updated_at := int now\<rparr>) d = Inr (m, d')"
    by (subst outbox_update_succeeds [OF assms(1)]) auto
  with assms(2) show ?thesis by (auto simp: mark_dead_def sqlite_epoch_def)
qed

lemma mark_retry_succeeds:
  assumes "outbox_ok d" and "int now \<le> i64_max" and "int t \<le> i64_max"
  shows "\<exists>d'. mark_retry i n t e now d = (Inr (), d')"
proof -
  have "\<exists>m d'. outbox_update (\<lambda>r. ob_id r = i) (\<lambda>r. r\<lparr>ob_attempt_count := int n,
      ob_next_attempt_at := int t, ob_last_error := Some (clamp_error e), ob_updated_at := int now\<rparr>) d = Inr (m, d')"
    by (subst outbox_update_succeeds [OF assms(1)]) auto
  with assms(2,3) show ?thesis by (auto simp: mark_retry_def sqlite_epoch_def)
qed

lemma mark_retry_lookup:
  assumes "mark_retry i n t e now d = (Inr u, d')"
  shows "by_id ob_id j (db_outbox d') = map_option (\<lambda>r. if ob_id r = i then
    r\<lparr>ob_attempt_count := int n, ob_next_attempt_at := int t, ob_last_error := Some (clamp_error e),
      ob_updated_at := int now\<rparr> else r) (by_id ob_id j (db_outbox d))"
proof -
  from assms have now: "sqlite_epoch ''now'' now = Inr (int now)"
    and t: "sqlite_epoch ''next_attempt_at'' t = Inr (int t)"
    by (auto simp: mark_retry_def sqlite_epoch_def split: if_splits)
  with assms obtain k where "outbox_update (\<lambda>r. ob_id r = i)
      (\<lambda>r. r\<lparr>ob_attempt_count := int n, ob_next_attempt_at := int t,
             ob_last_error := Some (clamp_error e), ob_updated_at := int now\<rparr>) d = Inr (k, d')"
    by (auto simp: mark_retry_def with_conn_def try_bind_Inr_iff split: sum.splits)
  from outbox_update_lookup [OF this] show ?thesis by simp
qed

text \<open>The attempt count of a row, as the claim reads it, and a sequence of recorded results.\<close>

definition attempts :: "int \<Rightarrow> db \<Rightarrow> nat" where
  "attempts i d = (case by_id ob_id i (db_outbox d) of
     None \<Rightarrow> 0 | Some r \<Rightarrow> as_u32 (max (ob_attempt_count r) 0))"

fun record_run :: "int \<Rightarrow> (nat \<times> action_execution_result app_result) list \<Rightarrow> db \<Rightarrow> db" where
  "record_run i [] d = d"
| "record_run i ((now, r) # rs) d =
     record_run i rs (snd (record_action_result i (attempts i d) now r d))"

definition row_state :: "int \<Rightarrow> db \<Rightarrow> (string \<times> int) option" where
  "row_state i d = map_option (\<lambda>r. (ob_status r, ob_attempt_count r)) (by_id ob_id i (db_outbox d))"

lemma record_action_result_ok [inv_intros]:
  "outbox_ok d \<Longrightarrow> outbox_ok (snd (record_action_result i n now r d))"
  by (cases "fst (outcome_of i (sat_add_u32 n 1) now r)")
     (auto simp: record_action_result_def Let_def split_beta intro: inv_intros)

lemma record_failing_step:
  assumes "outbox_ok d" and "row_state i d = Some (''pending'', int k)" and "k < 5"
    and "failing r" and "int now + 4500 \<le> i64_max"
  shows "row_state i (snd (record_action_result i (attempts i d) now r d)) =
    Some (if k < 4 then ''pending'' else ''dead'', int (Suc k))"
proof -
  from assms(2) obtain row where row: "by_id ob_id i (db_outbox d) = Some row" "ob_status row = ''pending''"
    "ob_attempt_count row = int k" by (auto simp: row_state_def)
  have idr: "ob_id row = i" using by_id_Some_in [OF row(1)] by simp
  have k: "attempts i d = k" using row assms(3) by (simp add: attempts_def as_u32_def)
  have n: "sat_add_u32 k 1 = Suc k" using assms(3) by (simp add: sat_add_u32_def u32_max_def)
  have now: "int now \<le> i64_max" using assms(5) by simp
  note o = outcome_of_failing [OF assms(4), of "Suc k" i now]
  show ?thesis
  proof (cases "k < 4")
    case True
    with o obtain t msg where out: "outcome_of i (Suc k) now r = (Out_Retry t, msg)" and "t \<le> now + 4500"
      by (cases "outcome_of i (Suc k) now r") (auto simp: max_attempts_def)
    with assms(5) have "int t \<le> i64_max" by linarith
    from mark_retry_succeeds [OF assms(1) now this] obtain d' where
      d': "mark_retry i (Suc k) t msg now d = (Inr (), d')" by blast
    from mark_retry_lookup [OF d', of i] row idr True out d' show ?thesis
      by (simp add: record_action_result_def k n [simplified] row_state_def Let_def)
  next
    case False
    with o assms(3) obtain msg where out: "outcome_of i (Suc k) now r = (Out_Dead, msg)"
      by (cases "outcome_of i (Suc k) now r") (auto simp: max_attempts_def)
    from mark_dead_succeeds [OF assms(1) now] obtain d' where
      d': "mark_dead i (Suc k) msg now d = (Inr (), d')" by blast
    from mark_dead_lookup [OF d', of i] row idr False out d' show ?thesis
      by (simp add: record_action_result_def k n [simplified] row_state_def Let_def)
  qed
qed

lemma record_run_budget:
  assumes "outbox_ok d" and "row_state i d = Some (''pending'', int k)"
    and "k + length rs \<le> 5" and "\<forall>(now, r) \<in> set rs. failing r \<and> int now + 4500 \<le> i64_max"
  shows "row_state i (record_run i rs d) =
    Some (if k + length rs = 5 \<and> rs \<noteq> [] then ''dead'' else ''pending'', int (k + length rs))"
  using assms
proof (induction rs arbitrary: k d)
  case (Cons a rs)
  obtain now r where a: "a = (now, r)" by (cases a)
  let ?d = "snd (record_action_result i (attempts i d) now r d)"
  have step: "row_state i ?d = Some (if k < 4 then ''pending'' else ''dead'', int (Suc k))"
    using Cons.prems a by (intro record_failing_step) auto
  show ?case
  proof (cases "k < 4")
    case True
    have "row_state i (record_run i rs ?d) =
      Some (if Suc k + length rs = 5 \<and> rs \<noteq> [] then ''dead'' else ''pending'', int (Suc k + length rs))"
      using Cons.prems step True by (intro Cons.IH record_action_result_ok) auto
    with True a show ?thesis by (cases rs) auto
  next
    case False
    with Cons.prems(3) have "length rs = 0" unfolding list.size by linarith
    then have "rs = []" by simp
    with False step a Cons.prems(3) show ?thesis by simp
  qed
qed simp

section \<open>Invariant of a cycle\<close>

lemma announce_row_db [simp]: "w_db (snd (announce_row i s)) = w_db (snd s)"
  by (cases s) (auto simp: announce_row_def try_announce_updated_def split: sum.split option.split)

lemma announce_rows_db [simp]: "w_db (snd (fold announce_row ids s)) = w_db (snd s)"
  by (induction ids arbitrary: s) auto

lemma emit_summary_db [simp]: "w_db (emit_summary op m w) = w_db w"
  by (simp add: emit_summary_def announce_cycle_error_def split: option.split)

lemma reconcile_ok [inv_intros]: "outbox_ok d \<Longrightarrow> outbox_ok (snd (reconcile_blocked_resume out g now d))"
  by (auto simp: reconcile_blocked_resume_def Let_def split_beta split: outcome.split intro: inv_intros)

lemma expire_action_ok: "outbox_ok (w_db (snd s)) \<Longrightarrow> outbox_ok (w_db (snd (expire_action now a s)))"
  by (cases s) (auto simp: expire_action_def Let_def split_beta intro: inv_intros)

lemma after_outcome_ok:
  assumes "outbox_ok (w_db (snd s))" and "\<And>d i. outbox_ok d \<Longrightarrow> outbox_ok (release d i)"
  shows "outbox_ok (w_db (snd (after_outcome release i out s)))"
proof -
  obtain ce w where s: "s = (ce, w)" by (cases s)
  have "outbox_ok (snd (reconcile_blocked_resume out g n (w_db w)))" for g n
    using assms(1) s by (auto intro: inv_intros)
  then show ?thesis
    using assms s
    by (cases out) (auto simp: after_outcome_def Let_def split_beta split: sum.split bool.split)
qed

lemma execute_action_ok:
  assumes "outbox_ok (w_db (snd s))" and "\<And>d i. outbox_ok d \<Longrightarrow> outbox_ok (release d i)"
    and "\<And>w a. outbox_ok (w_db w) \<Longrightarrow> outbox_ok (w_db (snd (exec w a)))"
  shows "outbox_ok (w_db (snd (execute_action exec release a s)))"
proof -
  obtain ce w where s: "s = (ce, w)" by (cases s)
  let ?w = "snd (now_epoch (snd (exec w a)))"
  let ?p = "on_db (record_action_result (oa_id a) (oa_attempt_count a)
    (fst (now_epoch (snd (exec w a)))) (fst (exec w a))) ?w"
  have "outbox_ok (w_db (snd ?p))" using assms(1,3) s by (auto intro: inv_intros)
  then show ?thesis
    using after_outcome_ok [of "(ce, snd ?p)" release, OF _ assms(2)] s
    by (auto simp: execute_action_def Let_def split_beta split: sum.split)
qed

lemma process_actions_ok:
  assumes "outbox_ok (w_db (snd s))" and "\<And>d i. outbox_ok d \<Longrightarrow> outbox_ok (release d i)"
    and "\<And>w a. outbox_ok (w_db w) \<Longrightarrow> outbox_ok (w_db (snd (exec w a)))"
  shows "outbox_ok (w_db (snd (fold (process_action exec release ttl now0) as s)))"
  using assms(1)
  by (induction as arbitrary: s)
     (auto simp: process_action_def expire_action_ok execute_action_ok [OF _ assms(2,3)])

lemma claim_loop_ok: "outbox_ok d \<Longrightarrow> outbox_ok (snd (claim_loop now rs acc d))"
proof (induction now rs acc d rule: claim_loop.induct)
  case (2 now r rs as qs d)
  then show ?case
    using mark_dead_ok [of d "ob_id r" "as_u32 (max (ob_attempt_count r) 0)" _ now]
    by (auto split: sum.split prod.split) (metis snd_conv)+
qed simp

lemma claim_due_ok [inv_intros]: "outbox_ok d \<Longrightarrow> outbox_ok (snd (claim_due now d))"
  by (auto simp: claim_due_def split_beta Let_def claim_loop_ok split: sum.split)

lemma run_due_once_ok:
  assumes "outbox_ok (w_db w)" and "\<And>d i. outbox_ok d \<Longrightarrow> outbox_ok (release d i)"
    and "\<And>w a. outbox_ok (w_db w) \<Longrightarrow> outbox_ok (w_db (snd (exec w a)))"
  shows "outbox_ok (w_db (run_due_once exec release ttl w))"
proof -
  obtain now0 w1 where n: "now_epoch w = (now0, w1)" by (cases "now_epoch w")
  obtain c w2 where c: "on_db (claim_due now0) w1 = (c, w2)" by (cases "on_db (claim_due now0) w1")
  from n have "w_db w1 = w_db w" by (auto simp: now_epoch_def)
  then have w2: "outbox_ok (w_db w2)"
    using claim_due_ok [OF assms(1), of now0] c on_db_simps(2) [of "claim_due now0" w1] by simp
  show ?thesis
  proof (cases c)
    case (Inl e)
    with w2 show ?thesis
      by (simp only: run_due_once_def Let_def n c prod.case sum.case announce_cycle_error_def emit_simps)
  next
    case (Inr p)
    obtain due q where p: "p = (due, q)" by (cases p)
    obtain ce w3 where f: "fold (process_action exec release ttl now0) due
        (fold announce_row q (no_errors, w2)) = (ce, w3)"
      by (cases "fold (process_action exec release ttl now0) due (fold announce_row q (no_errors, w2))")
    have "outbox_ok (w_db (snd (fold (process_action exec release ttl now0) due
        (fold announce_row q (no_errors, w2)))))"
      using w2 by (intro process_actions_ok assms(2,3)) auto
    with f have "outbox_ok (w_db w3)" by simp
    then show ?thesis
      by (simp only: run_due_once_def Let_def n c Inr p f prod.case sum.case emit_summary_db)
  qed
qed

section \<open>Stale actions and claims\<close>

lemma expired_ignores_executor:
  "is_expired (oa_kind a) (oa_created_at a) now0 ttl \<Longrightarrow>
    process_action exec release ttl now0 a s = expire_action now0 a s"
  by (simp add: process_action_def)

lemma expire_action_kills:
  assumes "outbox_ok (w_db w)" and "int now0 \<le> i64_max" and "by_id ob_id (oa_id a) (db_outbox (w_db w)) = Some r"
  shows "row_state (oa_id a) (w_db (snd (expire_action now0 a (ce, w)))) = Some (''dead'', int (oa_attempt_count a))"
proof -
  obtain d' where d': "mark_dead (oa_id a) (oa_attempt_count a) stale_reason now0 (w_db w) = (Inr (), d')"
    using mark_dead_succeeds [OF assms(1,2)] by blast
  from mark_dead_lookup [OF d', of "oa_id a"] by_id_Some_in [OF assms(3)] assms(3) show ?thesis
    by (simp add: expire_action_def Let_def split_beta d' row_state_def)
qed

lemma release_needs_done:
  assumes "\<And>out. fst (exec w a) \<noteq> Inr (Exec_Done out)"
  shows "execute_action exec release a (ce, w) = execute_action exec release' a (ce, w)"
proof -
  have nd: "fst (outcome_of i n now (fst (exec w a))) \<noteq> Out_Done out" for i n now out
    using assms
    by (auto simp: outcome_of_def decide_outcome_def split: sum.split action_execution_result.split)
  have rr: "fst (record_action_result i n now (fst (exec w a)) d) \<noteq> Inr (Out_Done out)" for i n now d out
    using nd by (auto simp: record_action_result_def Let_def split_beta try_bind_Inr_iff)
  show ?thesis
    using rr
    by (auto simp: execute_action_def Let_def split_beta after_outcome_def
        split: sum.split outcome.split)
qed

section \<open>Error events of a cycle\<close>

definition outbox_error_op :: "stream_event \<Rightarrow> string option" where
  "outbox_error_op e = (case e of Action (Outbox_Error op m) \<Rightarrow> Some op | _ \<Rightarrow> None)"

definition quiet :: "world \<Rightarrow> world \<Rightarrow> bool" where
  "quiet w w' \<longleftrightarrow> (\<exists>es. w_events w' = w_events w @ es \<and> (\<forall>e \<in> set es. outbox_error_op e = None))"

lemma quiet_refl: "w_events w' = w_events w \<Longrightarrow> quiet w w'"
  by (simp add: quiet_def)

lemma quiet_trans: "quiet u v \<Longrightarrow> quiet v w \<Longrightarrow> quiet u w"
  unfolding quiet_def by (metis (no_types, opaque_lifting) append.assoc Un_iff set_append)

lemma announce_row_quiet: "quiet (snd s) (snd (announce_row i s))"
  by (cases s)
     (auto simp: announce_row_def try_announce_updated_def quiet_def outbox_error_op_def
       split: sum.split option.split)

lemma after_outcome_quiet: "quiet (snd s) (snd (after_outcome release i out s))"
  by (cases s)
     (auto simp: after_outcome_def Let_def split_beta intro!: quiet_refl split: outcome.split sum.split bool.split)

lemma process_action_quiet:
  assumes "\<And>w a. quiet w (snd (exec w a))"
  shows "quiet (snd s) (snd (process_action exec release ttl now0 a s))"
proof -
  obtain ce w where s: "s = (ce, w)" by (cases s)
  have expire: "quiet w (snd (expire_action now0 a (ce, w)))"
  proof -
    let ?w = "snd (on_db (mark_dead (oa_id a) (oa_attempt_count a) stale_reason now0) w)"
    have "quiet w ?w" by (rule quiet_refl) simp
    then show ?thesis
      using announce_row_quiet [of "(c, ?w)" for c] quiet_trans
      by (fastforce simp: expire_action_def Let_def split_beta)
  qed
  have run: "quiet w (snd (execute_action exec release a (ce, w)))"
  proof -
    let ?w1 = "snd (now_epoch (snd (exec w a)))"
    let ?p = "on_db (record_action_result (oa_id a) (oa_attempt_count a)
      (fst (now_epoch (snd (exec w a)))) (fst (exec w a))) ?w1"
    have "quiet w ?w1" using quiet_trans [OF assms quiet_refl] by simp
    moreover have "quiet ?w1 (snd ?p)" by (rule quiet_refl) simp
    ultimately have p: "quiet w (snd ?p)" by (rule quiet_trans)
    show ?thesis
    proof (cases "fst ?p")
      case (Inl e)
      with announce_row_quiet [of "(record_failed (message e) ce, snd ?p)"] quiet_trans [OF p] show ?thesis
        by (simp add: execute_action_def Let_def split_beta)
    next
      case (Inr out)
      let ?s = "after_outcome release (oa_id a) out (ce, snd ?p)"
      have "quiet w (snd ?s)"
        using quiet_trans [OF p] after_outcome_quiet [of "(ce, snd ?p)" release "oa_id a" out] by simp
      from quiet_trans [OF this announce_row_quiet] Inr show ?thesis
        by (simp add: execute_action_def Let_def split_beta)
    qed
  qed
  from expire run s show ?thesis by (simp add: process_action_def)
qed

lemma fold_quiet: "(\<And>x s. quiet (snd s) (snd (f x s))) \<Longrightarrow> quiet (snd s) (snd (fold f xs s))"
proof (induction xs arbitrary: s)
  case (Cons x xs)
  from quiet_trans [OF Cons.prems Cons.IH [OF Cons.prems]] show ?case by simp
qed (simp add: quiet_refl)

lemma emit_summary_events:
  "\<exists>es. w_events (emit_summary op m w) = w_events w @ es \<and> length es \<le> 1 \<and>
    (\<forall>e \<in> set es. outbox_error_op e = Some op)"
  by (auto simp: emit_summary_def announce_cycle_error_def outbox_error_op_def split: option.split)

lemma run_due_once_errors:
  assumes "\<And>w a. quiet w (snd (exec w a))"
  shows "\<exists>es. w_events (run_due_once exec release ttl w) = w_events w @ es \<and>
    (\<forall>op. length (filter (\<lambda>e. outbox_error_op e = Some op) es) \<le>
       (if op \<in> {''claim'', ''record'', ''announce''} then 1 else 0))"
proof -
  obtain now0 w1 where n: "now_epoch w = (now0, w1)" by (cases "now_epoch w")
  obtain c w2 where c: "on_db (claim_due now0) w1 = (c, w2)" by (cases "on_db (claim_due now0) w1")
  from n have e1: "w_events w1 = w_events w" by (auto simp: now_epoch_def)
  with c on_db_simps(3) [of "claim_due now0" w1] have e2: "w_events w2 = w_events w" by simp
  show ?thesis
  proof (cases c)
    case (Inl e)
    have "w_events (run_due_once exec release ttl w) =
        w_events w @ [Action (Outbox_Error ''claim'' (clamp_error (message e)))]"
      by (simp only: run_due_once_def Let_def n c Inl prod.case sum.case announce_cycle_error_def emit_simps e2)
    then show ?thesis by (auto simp: outbox_error_op_def)
  next
    case (Inr p)
    obtain due q where p: "p = (due, q)" by (cases p)
    obtain ce w3 where f: "fold (process_action exec release ttl now0) due
        (fold announce_row q (no_errors, w2)) = (ce, w3)"
      by (cases "fold (process_action exec release ttl now0) due (fold announce_row q (no_errors, w2))")
    have "quiet w2 (snd (fold announce_row q (no_errors, w2)))"
      using fold_quiet [where f = announce_row and s = "(no_errors, w2)"] announce_row_quiet by simp
    with quiet_trans fold_quiet [where f = "process_action exec release ttl now0", OF process_action_quiet [OF assms]]
    have "quiet w2 (snd (fold (process_action exec release ttl now0) due (fold announce_row q (no_errors, w2))))"
      by blast
    with f e2 obtain es where es: "w_events w3 = w_events w @ es" "\<forall>e \<in> set es. outbox_error_op e = None"
      by (auto simp: quiet_def)
    let ?m1 = "cycle_error_summary (ce_record_failures ce) (ce_first_record ce) (utf8 [0x884C, 0x5199, 0x5165, 0x5931, 0x8D25])"
    let ?m2 = "cycle_error_summary (ce_announce_failures ce) (ce_first_announce ce) (utf8 [0x884C, 0x66F4, 0x65B0, 0x53D1, 0x9001, 0x5931, 0x8D25])"
    let ?w4 = "emit_summary ''record'' ?m1 w3"
    obtain rs where rs: "w_events ?w4 = w_events w3 @ rs" "length rs \<le> 1"
      "\<forall>e \<in> set rs. outbox_error_op e = Some ''record''" using emit_summary_events by blast
    obtain as where as: "w_events (emit_summary ''announce'' ?m2 ?w4) = w_events ?w4 @ as" "length as \<le> 1"
      "\<forall>e \<in> set as. outbox_error_op e = Some ''announce''" using emit_summary_events by blast
    have "run_due_once exec release ttl w = emit_summary ''announce'' ?m2 ?w4"
      by (simp only: run_due_once_def Let_def n c Inr p f prod.case sum.case)
    with es rs as have ev: "w_events (run_due_once exec release ttl w) = w_events w @ (es @ rs @ as)" by simp
    have "filter (\<lambda>e. outbox_error_op e = Some op) es = []" for op
      using es(2) by (auto simp: filter_empty_conv)
    moreover have "filter (\<lambda>e. outbox_error_op e = Some op) rs = (if op = ''record'' then rs else [])" for op
      using rs(3) by (auto simp: filter_empty_conv filter_id_conv)
    moreover have "filter (\<lambda>e. outbox_error_op e = Some op) as = (if op = ''announce'' then as else [])" for op
      using as(3) by (auto simp: filter_empty_conv filter_id_conv)
    ultimately have "length (filter (\<lambda>e. outbox_error_op e = Some op) (es @ rs @ as)) \<le>
        (if op \<in> {''claim'', ''record'', ''announce''} then 1 else 0)" for op
      using rs(2) as(2) by simp
    with ev show ?thesis by blast
  qed
qed

end
