(* ===== verification/Outbox_Properties.thy ===== *)
theory Outbox_Properties
  imports Outbox_Worker_Facts
begin

text \<open>
  The properties of the outbox: the state machine of its statements with the invariant of every
  reachable database, idempotent enqueueing, the claim, the retry budget, the manual retry, the
  treatment of stale rows and the worker's error events.
\<close>

section \<open>The state machine of the outbox\<close>

text \<open>One step of the outbox: a transaction or statement of the store. No statement of the store deletes a row.\<close>

inductive outbox_step :: "db \<Rightarrow> db \<Rightarrow> bool" where
  enqueued: "enqueue_inner_tx row producer now d = Inr (i, d') \<Longrightarrow> outbox_step d d'"
| claimed: "outbox_step d (snd (claim_due now d))"
| finished: "outbox_step d (snd (mark_done i n now d))"
| finished_with: "outbox_step d (snd (mark_done_with_output i n out now d))"
| blocked: "outbox_step d (snd (mark_blocked i msg now d))"
| unblocked: "outbox_step d (snd (unblock_reviews now d))"
| retried: "outbox_step d (snd (mark_retry i n next_at e now d))"
| died: "outbox_step d (snd (mark_dead i n e now d))"
| withdrawn: "outbox_step d (snd (mark_pending_by_dedupe_fragment_dead frag e now d))"
| reset: "outbox_step d (snd (reset_for_retry i now d))"

inductive_cases outbox_stepE: "outbox_step d d'"

lemma outbox_step_ok: "outbox_step d d' \<Longrightarrow> outbox_ok d \<Longrightarrow> outbox_ok d'"
  by (induction rule: outbox_step.induct) (auto intro: inv_intros)

lemma outbox_steps_ok: "outbox_step\<^sup>*\<^sup>* d d' \<Longrightarrow> outbox_ok d \<Longrightarrow> outbox_ok d'"
  by (induction rule: rtranclp_induct) (auto intro: outbox_step_ok)

definition sample_row :: "string \<Rightarrow> string option \<Rightarrow> enqueue_input" where
  "sample_row project key =
     \<lparr>ei_project_id = project, ei_kind = Kind_StopReview, ei_summary = ''stop'',
      ei_payload = JsonOf (StopPayload \<lparr>srp_pr_number = 7, srp_skill_key = ''k''\<rparr>),
      ei_dedupe_key = key, ei_next_attempt_at = Some 10\<rparr>"

text \<open>A database with one pending row, made by an enqueue.\<close>

definition sample_outbox_row :: outbox_row where
  "sample_outbox_row = enqueue_row (sample_row ''p'' (Some ''s'')) ''k1'' 10 10 1"

definition sample_db :: db where
  "sample_db = empty_db\<lparr>db_outbox := tbl_push 1 sample_outbox_row empty_table\<rparr>"

lemma sample_enqueue: "enqueue_inner_tx (sample_row ''p'' (Some ''s'')) ''k1'' 10 empty_db = Inr (1, sample_db)"
  by (simp add: enqueue_inner_tx_def sqlite_epoch_def i64_max_def tbl_next_def empty_table_def sample_row_def
      enqueue_row_def outbox_insertable_def outbox_check_def kind_as_wire_def outbox_kinds_def
      outbox_statuses_def thread_check_def unique_index_def producer_index_def live_dedupe_index_def
      sample_db_def sample_outbox_row_def empty_db_def tbl_push_def Let_def is_live_def)

lemma sample_db_ok: "outbox_ok sample_db"
  using enqueue_inner_tx_ok [OF outbox_ok_empty sample_enqueue] .

lemma sample_lookup: "by_id ob_id 1 (db_outbox sample_db) = Some sample_outbox_row"
  by (simp add: sample_db_def tbl_push_def empty_table_def by_id_def sample_outbox_row_def)

text \<open>
  C1. In every database the operations of the outbox store can reach, a project and dedupe key name at most one live row, a
  producer key at most one row, and every row has a known kind and status and a payload that is JSON.
\<close>

theorem outbox_reachable_unique:
  assumes "outbox_step\<^sup>*\<^sup>* empty_db d"
    and "r \<in> set (tb_rows (db_outbox d))" and "s \<in> set (tb_rows (db_outbox d))"
  shows "(ob_producer_key r = ob_producer_key s \<longrightarrow> r = s) \<and>
    (is_live (ob_status r) \<longrightarrow> is_live (ob_status s) \<longrightarrow> ob_project_id r = ob_project_id s \<longrightarrow>
     ob_dedupe_key r \<noteq> None \<longrightarrow> ob_dedupe_key r = ob_dedupe_key s \<longrightarrow> r = s) \<and>
    (ob_id r = ob_id s \<longrightarrow> r = s) \<and> outbox_check r"
proof -
  have ok: "outbox_ok d" by (rule outbox_steps_ok [OF assms(1) outbox_ok_empty])
  then have prod: "unique_index producer_index (tb_rows (db_outbox d))"
    and live: "unique_index live_dedupe_index (tb_rows (db_outbox d))"
    and ids: "tbl_ok ob_id (db_outbox d)" and "outbox_check r"
    using assms(2) by (auto simp: outbox_ok_def list_all_iff)
  with unique_index_eq [OF prod assms(2,3), of "ob_producer_key r"]
    unique_index_eq [OF live assms(2,3), of "(ob_project_id r, the (ob_dedupe_key r))"]
    tbl_ok_id_eq [OF ids assms(2,3)] show ?thesis
    by (auto simp: producer_index_def live_dedupe_index_def)
qed

theorem outbox_reachable_unique_witness:
  "outbox_step\<^sup>*\<^sup>* empty_db sample_db \<and> sample_outbox_row \<in> set (tb_rows (db_outbox sample_db)) \<and>
   outbox_check sample_outbox_row"
proof -
  have r: "outbox_step\<^sup>*\<^sup>* empty_db sample_db"
    using outbox_step.enqueued [OF sample_enqueue] by (rule r_into_rtranclp)
  have i: "sample_outbox_row \<in> set (tb_rows (db_outbox sample_db))"
    using by_id_Some_in [OF sample_lookup] by simp
  from r i outbox_reachable_unique [OF r i i] show ?thesis by simp
qed

section \<open>Enqueueing\<close>

text \<open>The database after a sequence of enqueues, each of which may fail.\<close>

definition enqueue_all :: "(string \<times> enqueue_input \<times> nat) list \<Rightarrow> db \<Rightarrow> db" where
  "enqueue_all ops d = snd (outbox_queue.run ops d)"

text \<open>
  C18. A producer key is permanent: once a row has it, an enqueue with the key after any other
  enqueues returns that row's id, whatever the row's status, and adds no row.
\<close>

theorem enqueue_idempotent:
  assumes "outbox_ok d" and "producer_id k d = Some i"
    and "enqueue_inner_tx row k now (enqueue_all ops d) = Inr (j, d')"
  shows "j = i \<and> tb_rows (db_outbox d') = tb_rows (db_outbox (enqueue_all ops d))"
proof -
  have "outbox_ok (enqueue_all ops d)"
    unfolding enqueue_all_def by (rule outbox_queue.run_good [OF assms(1)])
  moreover have "producer_id k (enqueue_all ops d) = Some i"
    unfolding enqueue_all_def by (rule outbox_queue.run_keeps [OF assms(1,2)])
  ultimately show ?thesis by (rule enqueue_known_producer [OF _ _ assms(3)])
qed

theorem enqueue_idempotent_witness:
  "outbox_ok sample_db \<and> producer_id ''k1'' sample_db = Some 1 \<and>
   (\<exists>d'. enqueue_inner_tx (sample_row ''p'' (Some ''s'')) ''k1'' 20 (enqueue_all [] sample_db) = Inr (1, d') \<and>
     tb_rows (db_outbox d') = tb_rows (db_outbox sample_db))"
proof -
  have p: "producer_id ''k1'' sample_db = Some 1"
    by (simp add: producer_id_def sample_db_def tbl_push_def empty_table_def sample_outbox_row_def)
  have e: "enqueue_inner_tx (sample_row ''p'' (Some ''s'')) ''k1'' 20 (enqueue_all [] sample_db) =
      Inr (1, sample_db\<lparr>db_outbox := (db_outbox sample_db)\<lparr>tb_seq := 2\<rparr>\<rparr>)"
    by (simp add: enqueue_all_def enqueue_inner_tx_def sqlite_epoch_def i64_max_def tbl_next_def
        sample_row_def outbox_insertable_def unique_index_def producer_index_def
        sample_db_def sample_outbox_row_def empty_db_def tbl_push_def empty_table_def Let_def is_live_def enqueue_row_def)
  from enqueue_idempotent [OF sample_db_ok p e] e p sample_db_ok show ?thesis
    by (auto simp: enqueue_all_def)
qed

text \<open>
  What an enqueue does: it appends exactly one pending row with the returned id, or it adds
  nothing and returns the row of the same producer key, or, if no row has the key, the live row of
  the same project and dedupe key.
\<close>

theorem enqueue_outcome:
  assumes "enqueue_inner_tx row producer now d = Inr (i, d')"
  shows "(\<exists>r. tb_rows (db_outbox d') = tb_rows (db_outbox d) @ [r] \<and> ob_id r = i \<and>
      ob_status r = ''pending'' \<and> ob_attempt_count r = 0 \<and> ob_producer_key r = producer \<and>
      ob_payload r = ei_payload row \<and> ob_kind r = kind_as_wire (ei_kind row) \<and>
      ob_next_attempt_at r = int (case ei_next_attempt_at row of None \<Rightarrow> now | Some n \<Rightarrow> n)) \<or>
    tb_rows (db_outbox d') = tb_rows (db_outbox d) \<and>
    (\<exists>r \<in> set (tb_rows (db_outbox d)). ob_id r = i \<and>
      (ob_producer_key r = producer \<or>
       (\<forall>s \<in> set (tb_rows (db_outbox d)). ob_producer_key s \<noteq> producer) \<and>
       is_live (ob_status r) \<and> ob_project_id r = ei_project_id row \<and>
       ob_dedupe_key r = ei_dedupe_key row \<and> ob_dedupe_key r \<noteq> None))"
  using assms
proof (cases rule: enqueue_inner_txE)
  case (inserted next_at now_sql)
  then show ?thesis
    by (auto simp: table_simps enqueue_row_def sqlite_epoch_def split: if_splits)
next
  case (known s j)
  then have "s \<in> set (tb_rows (db_outbox d)) \<and> ob_producer_key s = producer" by (auto simp: find_Some_iff)
  with known show ?thesis by auto
next
  case (live s j key)
  from live(1) have none: "\<forall>s \<in> set (tb_rows (db_outbox d)). ob_producer_key s \<noteq> producer"
    by (auto simp: find_None_iff)
  from live(3) have "s \<in> set (tb_rows (db_outbox d)) \<and> ob_project_id s = ei_project_id row \<and>
      ob_dedupe_key s = Some key \<and> is_live (ob_status s)" by (auto simp: find_Some_iff)
  with none live show ?thesis by auto
qed

theorem enqueue_outcome_witness:
  "\<exists>r. tb_rows (db_outbox sample_db) = [r] \<and> ob_id r = 1 \<and> ob_status r = ''pending'' \<and> ob_next_attempt_at r = 10"
  using enqueue_outcome [OF sample_enqueue] by (auto simp: empty_db_def empty_table_def sample_row_def)

section \<open>Claiming and running\<close>

lemma claims_row_sel:
  assumes "claims_row r a"
  shows "oa_id a = ob_id r" and "oa_payload a = ob_payload r" and "oa_project_id a = ob_project_id r"
    and "ob_kind r = kind_as_wire (oa_kind a)"
proof -
  from assms have a: "a = from_claimed_row r (oa_kind a)" by (simp add: claims_row_def)
  show "oa_id a = ob_id r" "oa_payload a = ob_payload r" "oa_project_id a = ob_project_id r"
    by (subst a, simp add: from_claimed_row_def)+
  from assms show "ob_kind r = kind_as_wire (oa_kind a)" by (simp add: claims_row_def)
qed

text \<open>
  On a database of the schema a claim changes nothing and quarantines nothing: it returns the at
  most one hundred oldest rows that are pending and due, in ascending id order, decoded.
\<close>

theorem claim_due_oldest_first:
  assumes "outbox_ok d" and "int now \<le> i64_max"
  shows "\<exists>as. claim_due now d = (Inr (as, []), d) \<and>
    map oa_id as = map ob_id (take 100 (filter (\<lambda>r. ob_status r = ''pending'' \<and> ob_next_attempt_at r \<le> int now)
      (tb_rows (db_outbox d)))) \<and>
    sorted_wrt (<) (map oa_id as) \<and>
    (\<forall>a \<in> set as. \<exists>r \<in> set (tb_rows (db_outbox d)). ob_id r = oa_id a \<and> ob_status r = ''pending'' \<and>
       ob_next_attempt_at r \<le> int now \<and> ob_kind r = kind_as_wire (oa_kind a) \<and>
       ob_payload r = oa_payload a \<and> ob_project_id r = oa_project_id a)"
proof -
  let ?due = "due_rows (int now) (db_outbox d)"
  from claim_due_clean [OF assms] obtain as where
    as: "claim_due now d = (Inr (as, []), d)" "list_all2 claims_row ?due as" by blast
  from as(2) have ids: "map oa_id as = map ob_id ?due"
    by (induction rule: list_all2_induct) (auto simp: claims_row_sel)
  have "\<exists>r \<in> set (tb_rows (db_outbox d)). ob_id r = oa_id a \<and> ob_status r = ''pending'' \<and>
       ob_next_attempt_at r \<le> int now \<and> ob_kind r = kind_as_wire (oa_kind a) \<and>
       ob_payload r = oa_payload a \<and> ob_project_id r = oa_project_id a" if "a \<in> set as" for a
  proof -
    obtain r where r: "r \<in> set ?due" "claims_row r a"
    proof -
      from \<open>a \<in> set as\<close> obtain n where n: "n < length as" "a = as ! n" by (auto simp: in_set_conv_nth)
      with as(2) show ?thesis using that [of "?due ! n"] by (auto simp: list_all2_conv_all_nth)
    qed
    have "r \<in> set (tb_rows (db_outbox d))" using due_rows_subset r(1) by blast
    with claims_row_sel [OF r(2)] due_rows_due [OF r(1)] show ?thesis by (intro bexI [of _ r]) simp_all
  qed
  with as ids due_rows_sorted [of "db_outbox d" "int now"] assms(1) show ?thesis
    by (auto simp: outbox_ok_def due_rows_def sql_select_def claim_limit_def)
qed

theorem claim_due_oldest_first_witness:
  "outbox_ok sample_db \<and> (\<exists>as. claim_due 10 sample_db = (Inr (as, []), sample_db) \<and> map oa_id as = [1])"
proof -
  have "int 10 \<le> i64_max" by (simp add: i64_max_def)
  from claim_due_oldest_first [OF sample_db_ok this] sample_db_ok show ?thesis
    by (auto simp: sample_db_def tbl_push_def empty_table_def sample_outbox_row_def enqueue_row_def)
qed

text \<open>
  A row the claim quarantines for its kind is dead afterwards, and reading it back fails: the
  announcement of that row reports an error and never an update.
\<close>

theorem quarantined_never_announced:
  assumes "distinct (map ob_id (tb_rows (db_outbox (w_db w))))"
    and "claim_due now (w_db w) = (Inr (as, qs), d')" and "i \<in> set qs"
  shows "quarantined_row d' i \<and>
    (\<exists>m. try_announce_updated i (w\<lparr>w_db := d'\<rparr>) = (Inl m, w\<lparr>w_db := d'\<rparr>))"
proof -
  have q: "quarantined_row d' i" by (rule claim_due_quarantines [OF assms(2,1,3)])
  from quarantined_row_unreadable [OF q] obtain e where "get_entry i d' = Inl e" by blast
  with q show ?thesis by (simp add: try_announce_updated_def)
qed

definition corrupt_db :: db where
  "corrupt_db = empty_db\<lparr>db_outbox := \<lparr>tb_rows = [sample_outbox_row\<lparr>ob_kind := ''review''\<rparr>], tb_seq = 1\<rparr>\<rparr>"

theorem quarantined_never_announced_witness:
  "\<exists>d'. claim_due 10 corrupt_db = (Inr ([], [1]), d') \<and> quarantined_row d' 1"
proof -
  have "\<exists>d'. claim_due 10 (w_db (idle_world corrupt_db)) = (Inr ([], [1]), d')"
    by (simp add: claim_due_def idle_world_def corrupt_db_def sample_outbox_row_def enqueue_row_def
        sqlite_epoch_def i64_max_def due_rows_def claim_limit_def sql_select_def kind_from_wire_def
        mark_dead_def as_u32_def outbox_update_def Let_def rethreaded_def sample_row_def
        unique_index_def live_dedupe_index_def sql_update_def is_live_def)
  then obtain d' where c: "claim_due 10 (w_db (idle_world corrupt_db)) = (Inr ([], [1]), d')" by blast
  have "distinct (map ob_id (tb_rows (db_outbox (w_db (idle_world corrupt_db)))))"
    by (simp add: idle_world_def corrupt_db_def)
  from quarantined_never_announced [OF this c] c show ?thesis by (simp add: idle_world_def)
qed

text \<open>
  The delay before a retry is within a quarter of 30 times two to the number of failures, capped at
  an hour, so that it is never below 23 and never above 4500 seconds.
\<close>

theorem next_backoff_within:
  "next_backoff n seed \<in> {backoff_base n - backoff_base n div 4 .. backoff_base n + backoff_base n div 4} \<and>
   next_backoff n seed \<in> {23 .. 4500} \<and>
   (1 \<le> n \<and> n \<le> 7 \<longrightarrow> backoff_base n = 30 * 2 ^ (n - 1)) \<and> (7 < n \<longrightarrow> backoff_base n = 3600)"
proof -
  have "backoff_base n = 3600" if "7 < n"
  proof -
    have "(2::nat) ^ 7 \<le> 2 ^ min (n - 1) 63" using that by (intro power_increasing) auto
    then show ?thesis
      by (simp add: backoff_base_def sat_mul_u64_def backoff_base_secs_def backoff_cap_secs_def u64_max_def)
  qed
  then show ?thesis
    using next_backoff_range [of n seed] next_backoff_bounds [of n seed] backoff_base_doubles [of n] by auto
qed

theorem next_backoff_within_witness: "backoff_base 3 = 120 \<and> next_backoff 3 0 \<in> {90 .. 150}"
  using next_backoff_within [of 3 0] by auto

section \<open>Results\<close>

text \<open>
  C29. The retry budget: a pending row whose results all fail stays pending with its attempts counted
  until the fifth, which makes it dead; no fewer and no more.
\<close>

theorem retry_budget:
  assumes "outbox_ok d" and "row_state i d = Some (''pending'', 0)" and "length rs \<le> 5"
    and "\<forall>(now, r) \<in> set rs. failing r \<and> int now + 4500 \<le> i64_max"
  shows "row_state i (record_run i rs d) =
    Some (if length rs = 5 then ''dead'' else ''pending'', int (length rs))"
  using record_run_budget [OF assms(1), of i 0 rs] assms by auto

theorem retry_budget_witness:
  "row_state 1 (record_run 1 (replicate 5 (10, Inl (AppError ''x''))) sample_db) = Some (''dead'', 5)"
proof -
  have "row_state 1 sample_db = Some (''pending'', 0)"
    by (simp add: row_state_def sample_lookup) (simp add: sample_outbox_row_def enqueue_row_def)
  from retry_budget [OF sample_db_ok this, of "replicate 5 (10, Inl (AppError ''x''))"] show ?thesis
    by (simp add: failing_def i64_max_def)
qed

text \<open>
  A stale notification or message is never executed: whatever the executor and the releaser are,
  the worker's step for an expired action is the same and leaves the row dead.
\<close>

theorem stale_action_dies:
  assumes "outbox_ok (w_db w)" and "int now0 \<le> i64_max"
    and "by_id ob_id (oa_id a) (db_outbox (w_db w)) = Some r"
    and "is_expired (oa_kind a) (oa_created_at a) now0 ttl"
  shows "process_action exec release ttl now0 a (ce, w) = process_action exec' release' ttl now0 a (ce, w) \<and>
    row_state (oa_id a) (w_db (snd (process_action exec release ttl now0 a (ce, w)))) =
      Some (''dead'', int (oa_attempt_count a))"
  using expire_action_kills [OF assms(1-3)] by (simp add: expired_ignores_executor [OF assms(4)])

definition stale_action :: outbox_action where
  "stale_action = \<lparr>oa_id = 1, oa_project_id = ''p'', oa_kind = Kind_Notification,
     oa_payload = NotJson [], oa_attempt_count = 2, oa_created_at = 10\<rparr>"

theorem stale_action_dies_witness:
  "is_expired (oa_kind stale_action) (oa_created_at stale_action) 7210 7200 \<and>
   row_state 1 (w_db (snd (process_action (\<lambda>w a. (Inl (AppError []), w)) (\<lambda>d i. d) 7200 7210 stale_action
     (no_errors, idle_world sample_db)))) = Some (''dead'', 2)"
proof -
  have e: "is_expired (oa_kind stale_action) (oa_created_at stale_action) 7210 7200"
    by (simp add: is_expired_def stale_action_def sat_add_u64_def)
  have "outbox_ok (w_db (idle_world sample_db))" by (simp add: idle_world_def sample_db_ok)
  moreover have "int 7210 \<le> i64_max" by (simp add: i64_max_def)
  moreover have "by_id ob_id (oa_id stale_action) (db_outbox (w_db (idle_world sample_db))) = Some sample_outbox_row"
    by (simp add: idle_world_def stale_action_def sample_lookup)
  ultimately show ?thesis using stale_action_dies [OF _ _ _ e] e by (fastforce simp: stale_action_def)
qed

text \<open>
  The review claim of an action is released only when its execution reported Done: otherwise the
  step is the same for every releaser.
\<close>

theorem claim_released_only_when_done:
  assumes "\<And>out. fst (exec w a) \<noteq> Inr (Exec_Done out)"
  shows "process_action exec release ttl now0 a (ce, w) = process_action exec release' ttl now0 a (ce, w)"
  using release_needs_done [where exec = exec and w = w and a = a, OF assms] by (simp add: process_action_def)

theorem claim_released_only_when_done_witness:
  "process_action (\<lambda>w a. (Inr (Exec_Dead ''x''), w)) (\<lambda>d i. d) 0 10 stale_action (no_errors, idle_world sample_db) =
   process_action (\<lambda>w a. (Inr (Exec_Dead ''x''), w)) (\<lambda>d i. empty_db) 0 10 stale_action (no_errors, idle_world sample_db)"
  by (rule claim_released_only_when_done) simp

text \<open>
  One cycle emits at most one error event per operation, and only for the operations claim,
  record and announce, however many rows fail (the executor's own events aside).
\<close>

theorem cycle_errors_aggregated:
  assumes "\<And>w a. quiet w (snd (exec w a))"
  shows "\<exists>es. w_events (run_due_once exec release ttl w) = w_events w @ es \<and>
    (\<forall>op. length (filter (\<lambda>e. outbox_error_op e = Some op) es) \<le>
       (if op \<in> {''claim'', ''record'', ''announce''} then 1 else 0))"
  by (rule run_due_once_errors [OF assms])

theorem cycle_errors_aggregated_witness:
  "\<exists>es. w_events (run_due_once (\<lambda>w a. (Inl (AppError ''x''), w)) (\<lambda>d i. d) 0 (idle_world sample_db)) = es \<and>
    length (filter (\<lambda>e. outbox_error_op e = Some ''record'') es) \<le> 1"
proof -
  have "quiet w (snd (Inl (AppError ''x'') :: action_execution_result app_result, w))" for w
    by (simp add: quiet_refl)
  from cycle_errors_aggregated [of "\<lambda>w a. (Inl (AppError ''x''), w)", OF this, of "\<lambda>d i. d" 0 "idle_world sample_db"]
  obtain es where es: "w_events (run_due_once (\<lambda>w a. (Inl (AppError ''x''), w)) (\<lambda>d i. d) 0 (idle_world sample_db)) =
      w_events (idle_world sample_db) @ es"
    and l: "\<forall>op. length (filter (\<lambda>e. outbox_error_op e = Some op) es) \<le>
      (if op \<in> {''claim'', ''record'', ''announce''} then 1 else 0)" by blast
  from l have "length (filter (\<lambda>e. outbox_error_op e = Some ''record'') es) \<le> 1" by (drule_tac x = "''record''" in spec) simp
  with es show ?thesis by (simp add: idle_world_def)
qed

section \<open>The manual retry\<close>

text \<open>
  The manual retry by case: an unknown id and a row that is not dead are reported and change
  nothing; a dead row becomes pending, due now, with a fresh budget and creation time and its last
  error kept, and no other row changes; or, when that would duplicate a live dedupe key, the statement
  fails and nothing changes.
\<close>

theorem reset_for_retry_spec:
  assumes "outbox_ok d" and "int now \<le> i64_max"
  shows "case by_id ob_id i (db_outbox d) of
      None \<Rightarrow> reset_for_retry i now d = (Inr Unknown, d)
    | Some r \<Rightarrow>
        if ob_status r \<noteq> ''dead'' then reset_for_retry i now d = (Inr NotDead, d)
        else (\<exists>d'. reset_for_retry i now d = (Inr Requeued, d') \<and>
               by_id ob_id i (db_outbox d') = Some (retry_row (int now) r) \<and>
               (\<forall>j. j \<noteq> i \<longrightarrow> by_id ob_id j (db_outbox d') = by_id ob_id j (db_outbox d))) \<or>
             (\<exists>e. reset_for_retry i now d = (Inl e, d)) \<and>
               \<not> unique_index live_dedupe_index (tb_rows (sql_update (\<lambda>r. ob_id r = i \<and> ob_status r = ''dead'')
                    (retry_row (int now)) (db_outbox d)))"
proof (cases "by_id ob_id i (db_outbox d)")
  case None
  then show ?thesis by (simp add: reset_for_retry_cases [OF assms])
next
  case (Some r)
  let ?u = "outbox_update (\<lambda>r. ob_id r = i \<and> ob_status r = ''dead'') (retry_row (int now)) d"
  show ?thesis
  proof (cases "ob_status r = ''dead''")
    case False
    with Some show ?thesis by (simp add: reset_for_retry_cases [OF assms])
  next
    case dead: True
    show ?thesis
    proof (cases ?u)
      case (Inl e)
      then have "\<not> unique_index live_dedupe_index (tb_rows (sql_update (\<lambda>r. ob_id r = i \<and> ob_status r = ''dead'')
                    (retry_row (int now)) (db_outbox d)))"
        by (auto simp: outbox_update_def Let_def rethreaded_def retry_row_def split: if_splits)
      with Inl Some dead show ?thesis by (simp add: reset_for_retry_cases [OF assms])
    next
      case (Inr p)
      obtain n d' where u: "?u = Inr (n, d')" using Inr by (cases p) auto
      have "by_id ob_id j (db_outbox d') =
          map_option (\<lambda>r. if ob_id r = i \<and> ob_status r = ''dead'' then retry_row (int now) r else r)
            (by_id ob_id j (db_outbox d))" for j
        by (rule outbox_update_lookup [OF u]) (simp add: retry_row_def)
      with u Some dead by_id_Some_in [OF Some] show ?thesis
        by (auto simp: reset_for_retry_cases [OF assms] map_option_case split: option.split dest: by_id_Some_in)
    qed
  qed
qed

theorem reset_for_retry_spec_witness:
  "reset_for_retry 1 10 sample_db = (Inr NotDead, sample_db) \<and> reset_for_retry 2 10 sample_db = (Inr Unknown, sample_db)"
proof -
  have n: "int 10 \<le> i64_max" by (simp add: i64_max_def)
  have "by_id ob_id 2 (db_outbox sample_db) = None"
    by (simp add: sample_db_def tbl_push_def empty_table_def by_id_def sample_outbox_row_def)
  then show ?thesis
    using reset_for_retry_spec [OF sample_db_ok n, of 1] reset_for_retry_spec [OF sample_db_ok n, of 2]
    by (simp add: sample_lookup) (simp add: sample_outbox_row_def)
qed

text \<open>A sequence of manual retries of one row at the given times, with their answers.\<close>

fun reset_all :: "int \<Rightarrow> nat list \<Rightarrow> db \<Rightarrow> retry_reset app_result list \<times> db" where
  "reset_all i [] d = ([], d)"
| "reset_all i (now # nows) d =
     (let (r, d1) = reset_for_retry i now d; (rs, d2) = reset_all i nows d1 in (r # rs, d2))"

lemma reset_all_not_dead:
  assumes "outbox_ok d" and "\<forall>now \<in> set nows. int now \<le> i64_max"
    and "by_id ob_id i (db_outbox d) = Some r" and "ob_status r \<noteq> ''dead''"
  shows "reset_all i nows d = (replicate (length nows) (Inr NotDead), d)"
  using assms by (induction nows) (auto simp: reset_for_retry_cases)

text \<open>
  Of any sequence of manual retries of a row, with no other statement between them, at most one
  puts it back.
\<close>

theorem manual_retry_wins_once:
  assumes "outbox_ok d" and "\<forall>now \<in> set nows. int now \<le> i64_max"
  shows "length (filter (\<lambda>r. r = Inr Requeued) (fst (reset_all i nows d))) \<le> 1"
  using assms
proof (induction nows arbitrary: d)
  case (Cons now nows)
  from Cons.prems(2) have now: "int now \<le> i64_max" by simp
  obtain r d1 where r: "reset_for_retry i now d = (r, d1)" by (cases "reset_for_retry i now d")
  with reset_for_retry_ok [OF Cons.prems(1), of i now] have ok: "outbox_ok d1" by simp
  show ?case
  proof (cases "r = Inr Requeued")
    case False
    with Cons.IH [OF ok] Cons.prems(2) r show ?thesis by (simp add: split_beta)
  next
    case True
    with r have res: "reset_for_retry i now d = (Inr Requeued, d1)" by simp
    obtain s where s: "by_id ob_id i (db_outbox d) = Some s" "ob_status s = ''dead''"
      and u: "\<exists>n. outbox_update (\<lambda>r. ob_id r = i \<and> ob_status r = ''dead'') (retry_row (int now)) d = Inr (n, d1)"
      using res unfolding reset_for_retry_cases [OF Cons.prems(1) now]
      by (auto split: option.splits if_splits sum.splits)
    from u obtain n where
      "outbox_update (\<lambda>r. ob_id r = i \<and> ob_status r = ''dead'') (retry_row (int now)) d = Inr (n, d1)" by blast
    from outbox_update_lookup [OF this outbox_retry.rid_act] s by_id_Some_in [OF s(1)]
    have "by_id ob_id i (db_outbox d1) = Some (retry_row (int now) s)" by simp
    moreover have "ob_status (retry_row (int now) s) \<noteq> ''dead''" using outbox_retry.closes [OF s(2)] .
    ultimately have "reset_all i nows d1 = (replicate (length nows) (Inr NotDead), d1)"
      using Cons.prems(2) by (intro reset_all_not_dead [OF ok]) auto
    with r True show ?thesis by simp
  qed
qed simp

theorem manual_retry_wins_once_witness:
  "outbox_ok sample_db \<and> length (filter (\<lambda>r. r = Inr Requeued) (fst (reset_all 1 [10, 11] sample_db))) \<le> 1"
  using manual_retry_wins_once [OF sample_db_ok, of "[10, 11]" 1] sample_db_ok
  by (simp only: i64_max_def) simp

section \<open>The stored error text\<close>

text \<open>
  The stored error is the message itself when it fits in 512 bytes, and otherwise whole leading
  characters of it and an ellipsis: cutting a UTF-8 text never splits a character.
\<close>

theorem clamp_error_whole_characters:
  assumes "list_all (\<lambda>c. c < 0x110000) cs"
  shows "length (clamp_error (utf8 cs)) \<le> 515 \<and>
    (if length (utf8 cs) \<le> 512 then clamp_error (utf8 cs) = utf8 cs
     else \<exists>n. clamp_error (utf8 cs) = utf8 (take n cs @ [0x2026]))"
proof -
  let ?i = "back_to_boundary (utf8 cs) max_last_error_len"
  have "\<exists>n. clamp_error (utf8 cs) = utf8 (take n cs @ [0x2026])" if long: "\<not> length (utf8 cs) \<le> 512"
  proof -
    have "?i \<le> 512" using back_to_boundary_le [of "utf8 cs" max_last_error_len] by (simp add: max_last_error_len_def)
    with long have "?i \<le> length (utf8 cs)" by simp
    from take_boundary_utf8 [OF assms back_to_boundary_boundary this] obtain n where
      "take ?i (utf8 cs) = utf8 (take n cs)" by blast
    with long show ?thesis
      by (intro exI [of _ n]) (simp add: clamp_error_def max_last_error_len_def ellipsis_def utf8_def)
  qed
  then show ?thesis
    using clamp_error_length [of "utf8 cs"] clamp_error_short [of "utf8 cs"] by (simp add: max_last_error_len_def)
qed

theorem clamp_error_whole_characters_witness:
  "length (clamp_error (utf8 (replicate 200 0x4E2D))) \<le> 515"
  using clamp_error_whole_characters [of "replicate 200 0x4E2D"] by (simp add: list_all_iff)

end
