(* ===== verification/Inbox_Service.thy ===== *)
theory Inbox_Service
  imports World
begin

text \<open>
  Ingestion and processing of inbox events (\<open>inbox/service.rs\<close>, \<open>inbox/commands.rs\<close>, one pass of
  the worker of \<open>inbox/manager.rs\<close>). The closures the composition root injects (the GitHub re-feed,
  the Azure refresh and the rule processor) are arguments: they may change the world in any way. The
  hash of \<open>normalize_azure\<close> (crate \<open>sha2\<close>) is an argument too.
\<close>

text \<open>
  The event inbox's queries (\<open>inbox/store.rs\<close>): the deduplicating insert with its retention, the
  lifecycle of a row, the reads, and the receipt of an external review request, which joins the inbox
  row with the rule match, the outbox row and the review session it led to.

  \<open>json_extract(event_json, '$.payload.kind')\<close> is read off the stored envelope; JSON of another shape
  (a row of an older schema) has no payload kind.
\<close>

section \<open>Wire strings\<close>

(* inbox/store.rs 24-24 LIST_LIMIT *)
definition inbox_list_limit :: nat where "inbox_list_limit = 500"

(* inbox/store.rs 32-32 MAX_INBOX_EVENTS *)
definition max_inbox_events :: nat where "max_inbox_events = 5000"

(* inbox/store.rs 52-58 status_as_wire *)
fun inbox_status_as_wire :: "inbox_status \<Rightarrow> string" where
  "inbox_status_as_wire Inbox_Received = ''received''"
| "inbox_status_as_wire Inbox_Processed = ''processed''"
| "inbox_status_as_wire Inbox_Failed = ''failed''"

(* inbox/store.rs 64-70 status_from_wire *)
definition inbox_status_from_wire :: "string \<Rightarrow> inbox_status" where
  "inbox_status_from_wire s =
     (if s = ''received'' then Inbox_Received
      else if s = ''processed'' then Inbox_Processed
      else Inbox_Failed)"

(* inbox/store.rs 75-80 source_as_wire *)
fun source_as_wire :: "source_kind \<Rightarrow> string" where
  "source_as_wire Github = ''github''"
| "source_as_wire Azure = ''azure''"
| "source_as_wire Bitbucket = ''bitbucket''"

(* inbox/store.rs 525-528 source_from_wire *)
definition source_from_wire :: "string \<Rightarrow> source_kind app_result" where
  "source_from_wire s =
     (if s = ''github'' then Inr Github
      else if s = ''azure'' then Inr Azure
      else if s = ''bitbucket'' then Inr Bitbucket
      else Inl (AppError ((''inbox '' @ utf8 [0x884C, 0x7684] @ '' source '' @ utf8 [0x65E0, 0x6CD5, 0x8BC6, 0x522B, 0xFF1A]) @ debug_str s)))"

fun event_type_wire :: "event_type \<Rightarrow> string" where
  "event_type_wire PullRequest = ''pullRequest''"
| "event_type_wire Issue = ''issue''"
| "event_type_wire Comment = ''comment''"
| "event_type_wire Label = ''label''"
| "event_type_wire Generic = ''generic''"

(* inbox/store.rs 533-547 event_type_as_wire *)
definition event_type_as_wire :: "event_envelope \<Rightarrow> string" where
  "event_type_as_wire event =
     event_type_wire (case env_payload event of Observation t s \<Rightarrow> t | ReviewRequest r \<Rightarrow> PullRequest)"

interpretation inbox_status_codec:
  lenient_wire_enum inbox_status_as_wire inbox_status_from_wire Inbox_Failed
proof unfold_locales
  show "inbox_status_from_wire (inbox_status_as_wire x) = x" for x
    by (cases x) (simp_all add: inbox_status_from_wire_def)
  fix s
  assume "s \<notin> range inbox_status_as_wire"
  then have ne: "s \<noteq> inbox_status_as_wire a" for a by blast
  from ne [of Inbox_Received] ne [of Inbox_Processed]
  show "inbox_status_from_wire s = Inbox_Failed" by (simp add: inbox_status_from_wire_def)
qed

interpretation source_codec: strict_wire_enum source_as_wire "\<lambda>s. ok (source_from_wire s)"
proof unfold_locales
  show "ok (source_from_wire (source_as_wire x)) = Some x" for x
    by (cases x) (simp_all add: source_from_wire_def)
  show "ok (source_from_wire s) = Some x \<Longrightarrow> source_as_wire x = s" for s x
    by (auto simp: source_from_wire_def split: if_splits)
qed

section \<open>The deduplicating insert\<close>

definition payload_kind :: "event_envelope json_text \<Rightarrow> string option" where
  "payload_kind j =
     (case j of
        JsonOf e \<Rightarrow> Some (case env_payload e of Observation _ _ \<Rightarrow> ''observation'' | ReviewRequest _ \<Rightarrow> ''reviewRequest'')
      | _ \<Rightarrow> None)"

text \<open>The rows the retention may delete: terminal, and not a review request.\<close>

definition prunable :: "inbox_row \<Rightarrow> bool" where
  "prunable r \<longleftrightarrow>
     (ib_status r = ''processed'' \<or> ib_status r = ''failed'') \<and>
     (case payload_kind (ib_event_json r) of None \<Rightarrow> True | Some k \<Rightarrow> k \<noteq> ''reviewRequest'')"

definition prune_ids :: "inbox_row list \<Rightarrow> int list" where
  "prune_ids rs = map ib_id (take (length rs - max_inbox_events) (filter prunable rs))"

text \<open>A DELETE from the inbox cascades to the rule matches of the rows and their action links.\<close>

definition delete_inbox :: "int list \<Rightarrow> db \<Rightarrow> db" where
  "delete_inbox ids d =
     (let gone = map rm_id (sql_select (\<lambda>m. rm_inbox_event_id m \<in> set ids) (db_rule_match d)) in
      d\<lparr>db_inbox := sql_delete (\<lambda>r. ib_id r \<in> set ids) (db_inbox d),
        db_rule_match := sql_delete (\<lambda>m. rm_inbox_event_id m \<in> set ids) (db_rule_match d),
        db_match_action := filter (\<lambda>(m, a). m \<notin> set gone) (db_match_action d)\<rparr>)"

definition inbox_insert_row ::
    "event_envelope \<Rightarrow> string \<Rightarrow> string option \<Rightarrow> candidate option \<Rightarrow> int \<Rightarrow> inbox_row" where
  "inbox_insert_row event raw webhook cand i =
     \<lparr>ib_id = i, ib_dedupe_key = env_dedupe_key event, ib_source = source_as_wire (env_source event),
      ib_event_type = event_type_as_wire event, ib_project_id = env_project_id event,
      ib_repo = env_repo event,
      ib_number = map_option as_i64
        (case env_payload event of
           Observation t s \<Rightarrow> sub_number s | ReviewRequest r \<Rightarrow> Some (req_pr_number r)),
      ib_event_json = JsonOf event, ib_raw_payload = raw, ib_webhook_event_json = webhook,
      ib_status = inbox_status_as_wire Inbox_Received,
      ib_received_at = as_i64 (env_received_at_epoch event), ib_processed_at = None, ib_error = None,
      ib_candidate_json = map_option JsonOf cand\<rparr>"

(* inbox/store.rs 109-154 insert_dedup *)
definition insert_dedup_tx ::
    "event_envelope \<Rightarrow> string \<Rightarrow> string option \<Rightarrow> candidate option \<Rightarrow> int option db_tx" where
  "insert_dedup_tx event raw webhook cand d =
     try_bind (map_error map_err (tbl_next (db_inbox d))) (\<lambda>i.
     let t = db_inbox d in
     if list_ex (\<lambda>r. ib_dedupe_key r = env_dedupe_key event) (tb_rows t)
     then Inr (None, d\<lparr>db_inbox := t\<lparr>tb_seq := i\<rparr>\<rparr>)
     else
       let d' = d\<lparr>db_inbox := tbl_push i (inbox_insert_row event raw webhook cand i) t\<rparr> in
       Inr (Some i, delete_inbox (prune_ids (tb_rows (db_inbox d'))) d'))"

(* inbox/store.rs 95-156 insert_dedup *)
definition insert_dedup ::
    "event_envelope \<Rightarrow> string \<Rightarrow> string option \<Rightarrow> candidate option \<Rightarrow> int option db_op" where
  "insert_dedup event raw webhook cand = with_tx (insert_dedup_tx event raw webhook cand)"

(* inbox/store.rs 159-167 retention_pressure *)
definition retention_pressure :: "db \<Rightarrow> bool app_result" where
  "retention_pressure d = Inr (max_inbox_events < length (tb_rows (db_inbox d)))"

(* inbox/store.rs 170-179 received_ids *)
definition received_ids :: "db \<Rightarrow> int list app_result" where
  "received_ids d = Inr (map ib_id (take 100 (sql_select (\<lambda>r. ib_status r = ''received'') (db_inbox d))))"

section \<open>The lifecycle of a row\<close>

definition inbox_update :: "(inbox_row \<Rightarrow> bool) \<Rightarrow> (inbox_row \<Rightarrow> inbox_row) \<Rightarrow> nat db_stmt" where
  "inbox_update p f d =
     Inr (sql_changes p (db_inbox d), d\<lparr>db_inbox := sql_update p f (db_inbox d)\<rparr>)"

definition requeue_row :: "inbox_row \<Rightarrow> inbox_row" where
  "requeue_row r = r\<lparr>ib_status := ''received'', ib_processed_at := None, ib_error := None\<rparr>"

(* inbox/store.rs 182-191 requeue_failed *)
definition requeue_failed :: "int \<Rightarrow> bool db_op" where
  "requeue_failed i = with_conn (\<lambda>d.
     try_bind (inbox_update (\<lambda>r. ib_id r = i \<and> ib_status r = ''failed'') requeue_row d)
       (\<lambda>(changed, d'). Inr (changed = 1, d')))"

(* inbox/store.rs 466-476 mark_processed *)
definition mark_processed :: "int \<Rightarrow> nat \<Rightarrow> unit db_op" where
  "mark_processed i now = with_conn (\<lambda>d.
     try_bind (inbox_update (\<lambda>r. ib_id r = i)
       (\<lambda>r. r\<lparr>ib_status := inbox_status_as_wire Inbox_Processed, ib_processed_at := Some (as_i64 now),
              ib_error := None\<rparr>) d) (\<lambda>(_, d'). Inr ((), d')))"

definition processed_row :: "nat \<Rightarrow> inbox_row \<Rightarrow> inbox_row" where
  "processed_row now r = r\<lparr>ib_status := inbox_status_as_wire Inbox_Processed,
     ib_processed_at := Some (as_i64 now), ib_error := None\<rparr>"

(* inbox/store.rs 478-492 mark_processed_in_tx *)
definition mark_processed_in_tx :: "int \<Rightarrow> nat \<Rightarrow> unit db_tx" where
  "mark_processed_in_tx i now d =
     try_bind (map_error map_err
       (inbox_update (\<lambda>r. ib_id r = i \<and> ib_status r = ''received'') (processed_row now) d))
     (\<lambda>(changed, d').
        if changed \<noteq> 1 then
          Inl (AppError ((''inbox '' @ utf8 [0x884C] @ '' '') @ dec_int i @ ('' '' @ utf8 [0x975E] @ '' Received'' @ utf8 [0xFF0C, 0x62D2, 0x7EDD, 0x63D0, 0x4EA4, 0x89C4, 0x5219, 0x52A8, 0x4F5C])))
        else Inr ((), d'))"

(* inbox/store.rs 496-506 mark_failed *)
definition inbox_mark_failed :: "int \<Rightarrow> string \<Rightarrow> nat \<Rightarrow> unit db_op" where
  "inbox_mark_failed i error now = with_conn (\<lambda>d.
     try_bind (inbox_update (\<lambda>r. ib_id r = i)
       (\<lambda>r. r\<lparr>ib_status := inbox_status_as_wire Inbox_Failed, ib_processed_at := Some (as_i64 now),
              ib_error := Some error\<rparr>) d) (\<lambda>(_, d'). Inr ((), d')))"

section \<open>Reads\<close>

definition entry_of_row :: "inbox_row \<Rightarrow> event_envelope \<Rightarrow> inbox_entry" where
  "entry_of_row r event =
     \<lparr>ie_id = ib_id r, ie_event = event, ie_status = inbox_status_from_wire (ib_status r),
      ie_processed_at = map_option as_u64 (ib_processed_at r), ie_error = ib_error r\<rparr>"

text \<open>A row whose envelope does not decode is left out of the list.\<close>

(* inbox/store.rs 198-252 list_by_project *)
definition inbox_list_by_project :: "string option \<Rightarrow> db \<Rightarrow> inbox_entry list app_result" where
  "inbox_list_by_project project_id d =
     (let rows = take inbox_list_limit (rev (case project_id of
            Some pid \<Rightarrow> sql_select (\<lambda>r. ib_project_id r = pid) (db_inbox d)
          | None \<Rightarrow> tb_rows (db_inbox d)))
      in Inr (List.map_filter (\<lambda>r. case envelope_deserialize (ib_event_json r) of
            Inr event \<Rightarrow> Some (entry_of_row r event) | Inl _ \<Rightarrow> None) rows))"

(* inbox/store.rs 257-290 get_entry *)
definition inbox_get_entry :: "int \<Rightarrow> db \<Rightarrow> inbox_entry option app_result" where
  "inbox_get_entry i d =
     (case by_id ib_id i (db_inbox d) of
        None \<Rightarrow> Inr None
      | Some r \<Rightarrow>
          try_bind (map_error (\<lambda>e. AppError ((''inbox '' @ utf8 [0x884C] @ '' '') @ dec_int i @ ('' '' @ utf8 [0x7684, 0x4E8B, 0x4EF6, 0x53CD, 0x5E8F, 0x5217, 0x5316, 0x5931, 0x8D25] @ '': '') @ e))
            (envelope_deserialize (ib_event_json r))) (\<lambda>event. Inr (Some (entry_of_row r event))))"

(* inbox/store.rs 294-303 get_raw *)
definition inbox_get_raw :: "int \<Rightarrow> db \<Rightarrow> string option app_result" where
  "inbox_get_raw i d = Inr (map_option ib_raw_payload (by_id ib_id i (db_inbox d)))"

(* inbox/store.rs 305-314 id_by_dedupe_key *)
definition id_by_dedupe_key :: "string \<Rightarrow> db \<Rightarrow> int option app_result" where
  "id_by_dedupe_key key d =
     Inr (map_option ib_id (find (\<lambda>r. ib_dedupe_key r = key) (tb_rows (db_inbox d))))"

(* inbox/store.rs 411-417 ProcessableInboxRow *)
record processable_inbox_row =
  pir_event :: event_envelope
  pir_source :: source_kind
  pir_status :: inbox_status
  pir_webhook_event_json :: "string option"
  pir_candidate :: "candidate option"

(* inbox/store.rs 421-462 get_replayable *)
definition get_replayable :: "int \<Rightarrow> db \<Rightarrow> processable_inbox_row option app_result" where
  "get_replayable i d =
     (case by_id ib_id i (db_inbox d) of
        None \<Rightarrow> Inr None
      | Some r \<Rightarrow>
          try_bind (map_error (\<lambda>e. AppError ((''inbox '' @ utf8 [0x884C] @ '' '') @ dec_int i @ ('' '' @ utf8 [0x7684, 0x4E8B, 0x4EF6, 0x53CD, 0x5E8F, 0x5217, 0x5316, 0x5931, 0x8D25] @ '': '') @ e))
            (envelope_deserialize (ib_event_json r))) (\<lambda>event.
          try_bind (case ib_candidate_json r of
              None \<Rightarrow> Inr None
            | Some json \<Rightarrow>
                try_bind (map_error (\<lambda>e. AppError ((''inbox '' @ utf8 [0x884C] @ '' '') @ dec_int i @ ('' '' @ utf8 [0x7684] @ '' candidate '' @ utf8 [0x53CD, 0x5E8F, 0x5217, 0x5316, 0x5931, 0x8D25] @ '': '') @ e))
                  (from_json json)) (\<lambda>c. Inr (Some c))) (\<lambda>cand.
          try_bind (source_from_wire (ib_source r)) (\<lambda>source.
          Inr (Some \<lparr>pir_event = event, pir_source = source,
                     pir_status = inbox_status_from_wire (ib_status r),
                     pir_webhook_event_json = ib_webhook_event_json r, pir_candidate = cand\<rparr>)))))"

section \<open>Receipts\<close>

(* model.rs 197-204 ReviewReceiptSnapshot *)
record review_receipt_snapshot =
  rrs_receipt_id :: int
  rrs_status :: review_receipt_status
  rrs_thread_id :: "string option"
  rrs_comment_url :: "string option"
  rrs_outcome :: "string option"
  rrs_error :: "string option"

text \<open>
  The outbox column of the left joins: one entry per match and action of the event, NULL where there
  is no match, no action or an action of another kind. \<open>ORDER BY o.id LIMIT 1\<close> puts NULL first.
\<close>

definition joined_actions :: "int \<Rightarrow> db \<Rightarrow> outbox_row option list" where
  "joined_actions i d =
     (let matches = sql_select (\<lambda>m. rm_inbox_event_id m = i) (db_rule_match d) in
      if matches = [] then [None]
      else concat (map (\<lambda>m.
        let actions = filter (\<lambda>(mi, a). mi = rm_id m) (db_match_action d) in
        if actions = [] then [None]
        else map (\<lambda>(mi, a). find (\<lambda>r. ob_id r = a \<and> ob_kind r = ''runSkill'') (tb_rows (db_outbox d)))
               actions) matches))"

definition first_action :: "outbox_row option list \<Rightarrow> outbox_row option" where
  "first_action os =
     (if None \<in> set os then None
      else case sort_key ob_id (map the os) of [] \<Rightarrow> None | r # _ \<Rightarrow> Some r)"

definition receipt_status ::
    "string \<Rightarrow> string option \<Rightarrow> string option \<Rightarrow> review_receipt_status" where
  "receipt_status inbox_status action_status session_status =
     (if inbox_status = ''failed'' then Receipt_Failed
      else case action_status of
        None \<Rightarrow> Receipt_Received
      | Some a \<Rightarrow>
          if a = ''pending'' then Receipt_Queued
          else if a = ''blocked'' then Receipt_Blocked
          else if a = ''dead'' then Receipt_Failed
          else if a = ''done'' then
            (case session_status of
               None \<Rightarrow> Receipt_Done
             | Some s \<Rightarrow>
                 if s = ''starting'' then Receipt_Starting
                 else if s = ''running'' then Receipt_Running
                 else if s = ''interrupting'' then Receipt_Interrupting
                 else if s = ''failed'' then Receipt_Failed
                 else if s = ''done'' then Receipt_Done
                 else Receipt_Failed)
          else Receipt_Failed)"

text \<open>\<open>Option::or\<close>.\<close>

definition or_else :: "'a option \<Rightarrow> 'a option \<Rightarrow> 'a option" where
  "or_else a b = (case a of None \<Rightarrow> b | Some x \<Rightarrow> Some x)"

(* inbox/store.rs 316-404 get_review_receipt *)
definition get_review_receipt :: "int \<Rightarrow> db \<Rightarrow> review_receipt_snapshot app_result" where
  "get_review_receipt receipt_id d =
     (case by_id ib_id receipt_id (db_inbox d) of
        None \<Rightarrow> Inl (AppError ((''review receipt '' @ utf8 [0x4E0D, 0x5B58, 0x5728, 0xFF1A]) @ dec_int receipt_id))
      | Some r \<Rightarrow>
          try_bind (map_error (\<lambda>e. AppError (''review receipt '' @ dec_int receipt_id @ ('' '' @ utf8 [0x7684, 0x4E8B, 0x4EF6, 0x635F, 0x574F] @ '': '') @ e))
            (envelope_deserialize (ib_event_json r))) (\<lambda>event.
          if as_review_request event = None then
            Inl (AppError ((''review receipt '' @ utf8 [0x4E0D, 0x5B58, 0x5728, 0xFF1A]) @ dec_int receipt_id))
          else
            let action = first_action (joined_actions receipt_id d);
                thread_id = Option.bind action ob_review_thread_id;
                session = Option.bind thread_id (\<lambda>t. by_id ss_thread_id t (db_session d))
            in Inr \<lparr>rrs_receipt_id = receipt_id,
                    rrs_status = receipt_status (ib_status r) (map_option ob_status action)
                      (map_option ss_status session),
                    rrs_thread_id = thread_id,
                    rrs_comment_url = Option.bind session ss_comment_url,
                    rrs_outcome = Option.bind session ss_terminal_outcome,
                    rrs_error = or_else (or_else (Option.bind session ss_terminal_error) (ib_error r))
                      (Option.bind action ob_last_error)\<rparr>))"

section \<open>Ingestion\<close>

(* inbox/service.rs 47-65 normalize_azure *)
definition normalize_azure ::
    "(string \<Rightarrow> string) \<Rightarrow> string \<Rightarrow> string \<Rightarrow> string \<Rightarrow> nat \<Rightarrow> string + event_envelope" where
  "normalize_azure sha256_hex raw project_id repo now =
     try_bind (new_key (''azure:sha256:'' @ sha256_hex raw)) (\<lambda>key.
     envelope_observation key Azure project_id repo Generic
       \<lparr>sub_number = None, sub_title = [], sub_body = [], sub_labels = [], sub_url = []\<rparr> now)"

(* inbox/service.rs 78-86 emit_updated *)
definition inbox_emit_updated :: "string \<Rightarrow> inbox_entry \<Rightarrow> world \<Rightarrow> world" where
  "inbox_emit_updated project_id entry w = emit (Inbox (Inbox_Updated project_id entry)) w"

(* inbox/service.rs 91-105 emit_for_id *)
definition emit_for_id :: "string \<Rightarrow> int \<Rightarrow> world \<Rightarrow> world" where
  "emit_for_id project_id i w =
     (case inbox_get_entry i (w_db w) of
        Inr (Some entry) \<Rightarrow> inbox_emit_updated project_id entry w
      | _ \<Rightarrow> w)"

(* inbox/service.rs 107-123 announce_worker_error *)
definition announce_worker_error :: "string \<Rightarrow> string \<Rightarrow> world \<Rightarrow> world" where
  "announce_worker_error operation msg w =
     emit (Inbox (Inbox_Error (if operation = ''retention'' then Retention else Worker) msg)) w"

(* inbox/service.rs 139-177 ingest_github *)
definition ingest_github ::
    "event_envelope \<Rightarrow> string \<Rightarrow> string \<Rightarrow> candidate option \<Rightarrow> world \<Rightarrow> unit app_result \<times> world" where
  "ingest_github event raw webhook_event_json cand w =
     (let (r, w) = on_db (insert_dedup event raw (Some webhook_event_json) cand) w in
      case r of
        Inl e \<Rightarrow> (Inl e, w)
      | Inr None \<Rightarrow> (Inr (), w)
      | Inr (Some i) \<Rightarrow>
          (let w = emit_for_id (env_project_id event) i w in
           case retention_pressure (w_db w) of
             Inl e \<Rightarrow> (Inl e, w)
           | Inr pressure \<Rightarrow>
               (Inr (), wake_inbox
                 (if pressure
                  then announce_worker_error ''retention''
                    ((''inbox '' @ utf8 [0x6D3B, 0x4EFB, 0x52A1, 0x8D85, 0x8FC7, 0x4FDD, 0x7559, 0x76EE, 0x6807, 0xFF1B, 0x5DF2, 0x4FDD, 0x7559, 0x5168, 0x90E8] @ '' live rows'')) w
                  else w))))"

text \<open>The \<open>expect\<close> of the normalisation panics on an empty project id: no result.\<close>

(* inbox/service.rs 190-210 ingest_azure_refresh *)
definition ingest_azure_refresh ::
    "(string \<Rightarrow> string) \<Rightarrow> string \<Rightarrow> string \<Rightarrow> string \<Rightarrow> world \<Rightarrow> (unit app_result \<times> world) option" where
  "ingest_azure_refresh sha256_hex raw project_id repo w =
     (let (now, w) = now_epoch w in
      case normalize_azure sha256_hex raw project_id repo now of
        Inl _ \<Rightarrow> None
      | Inr event \<Rightarrow>
          (let (r, w) = on_db (insert_dedup event raw None None) w in
           Some (case r of
             Inl e \<Rightarrow> (Inl e, w)
           | Inr None \<Rightarrow> (Inr (), w)
           | Inr (Some i) \<Rightarrow> (Inr (), wake_inbox (emit_for_id project_id i w)))))"

section \<open>Processing plans\<close>

(* inbox/service.rs 332-343 ProcessingAction *)
datatype processing_action =
  ProcessReviewRequest | ProcessRulesWithCandidate candidate | RefeedGithub string | RefreshAzure

(* inbox/service.rs 348-351 ProcessingPlan *)
record processing_plan =
  pp_project_id :: string
  pp_action :: processing_action

definition missing_entry :: "int \<Rightarrow> app_error" where
  "missing_entry i = AppError ((''inbox '' @ utf8 [0x6761, 0x76EE, 0x4E0D, 0x5B58, 0x5728, 0xFF08] @ ''id='') @ dec_int i @ utf8 [0xFF09])"

definition plan_action_of ::
    "int \<Rightarrow> processable_inbox_row \<Rightarrow> processing_action app_result" where
  "plan_action_of i r =
     (if as_review_request (pir_event r) \<noteq> None then Inr ProcessReviewRequest
      else case (pir_source r, pir_webhook_event_json r, pir_candidate r) of
        (Github, Some json, _) \<Rightarrow> Inr (RefeedGithub json)
      | (_, _, Some c) \<Rightarrow> Inr (ProcessRulesWithCandidate c)
      | (Github, None, None) \<Rightarrow>
          Inl (AppError ((''inbox '' @ utf8 [0x6761, 0x76EE] @ '' '') @ dec_int i
            @ ('' '' @ utf8 [0x7F3A, 0x5C11, 0x53EF, 0x91CD, 0x653E, 0x7684] @ '' WebhookEvent'' @ utf8 [0xFF08] @ ''GitHub '' @ utf8 [0x6295, 0x9012, 0x672A, 0x4FDD, 0x5B58, 0x89E3, 0x6790, 0x7ED3, 0x679C, 0xFF09])))
      | (Azure, _, None) \<Rightarrow> Inr RefreshAzure
      | (Bitbucket, _, None) \<Rightarrow>
          Inl (AppError ((''inbox '' @ utf8 [0x6761, 0x76EE] @ '' '') @ dec_int i
            @ ('' '' @ utf8 [0x6765, 0x6E90] @ '' Bitbucket '' @ utf8 [0x4E0D, 0x652F, 0x6301, 0x91CD, 0x653E, 0xFF08, 0x65E0, 0x5165, 0x7AD9] @ '' webhook'' @ utf8 [0xFF09]))))"

(* inbox/service.rs 357-393 load_processing_plan *)
definition load_processing_plan :: "int \<Rightarrow> db \<Rightarrow> processing_plan app_result" where
  "load_processing_plan i d =
     try_bind (get_replayable i d) (\<lambda>row.
     try_bind (ok_or row (missing_entry i)) (\<lambda>r.
     try_bind (plan_action_of i r) (\<lambda>action.
     Inr \<lparr>pp_project_id = env_project_id (pir_event r), pp_action = action\<rparr>)))"

text \<open>Marking the row failed with the error that is about to be returned.\<close>

definition fail_with :: "int \<Rightarrow> app_error \<Rightarrow> world \<Rightarrow> 'a app_result \<times> world" where
  "fail_with i error w =
     (let (now, w) = now_epoch w; (r, w) = on_db (inbox_mark_failed i (message error) now) w in
      case r of Inl e \<Rightarrow> (Inl e, w) | Inr _ \<Rightarrow> (Inl error, w))"

(* inbox/service.rs 287-308 load_received_plan *)
definition load_received_plan :: "int \<Rightarrow> world \<Rightarrow> processing_plan option app_result \<times> world" where
  "load_received_plan i w =
     (case get_replayable i (w_db w) of
        Inr None \<Rightarrow> (Inl (missing_entry i), w)
      | Inl error \<Rightarrow>
          (case inbox_get_raw i (w_db w) of
             Inl e \<Rightarrow> (Inl e, w)
           | Inr None \<Rightarrow> (Inl error, w)
           | Inr (Some _) \<Rightarrow> fail_with i error w)
      | Inr (Some r) \<Rightarrow>
          if pir_status r \<noteq> Inbox_Received then (Inr None, w)
          else (case load_processing_plan i (w_db w) of
             Inr plan \<Rightarrow> (Inr (Some plan), w)
           | Inl error \<Rightarrow> fail_with i error w))"

section \<open>Processing\<close>

type_synonym github_refeed = "world \<Rightarrow> string \<Rightarrow> candidate option app_result \<times> world"
type_synonym azure_refresh = "world \<Rightarrow> string \<Rightarrow> unit app_result \<times> world"
type_synonym rule_processor =
  "world \<Rightarrow> int \<Rightarrow> event_envelope \<Rightarrow> candidate option \<Rightarrow> unit app_result \<times> world"

text \<open>Loading the row again and running the rules on its event.\<close>

definition process_rules_for ::
    "rule_processor \<Rightarrow> int \<Rightarrow> candidate option \<Rightarrow> world \<Rightarrow> unit app_result \<times> world" where
  "process_rules_for rules i cand w =
     (case try_bind (get_replayable i (w_db w)) (\<lambda>row. ok_or row (missing_entry i)) of
        Inl e \<Rightarrow> (Inl e, w)
      | Inr r \<Rightarrow> rules w i (pir_event r) cand)"

definition run_plan ::
    "github_refeed \<Rightarrow> azure_refresh \<Rightarrow> rule_processor \<Rightarrow> int \<Rightarrow> processing_plan \<Rightarrow> world
      \<Rightarrow> unit app_result \<times> world" where
  "run_plan refeed refresh rules i plan w =
     (case pp_action plan of
        ProcessReviewRequest \<Rightarrow> process_rules_for rules i None w
      | RefeedGithub json \<Rightarrow>
          (case refeed w json of
             (Inl e, w) \<Rightarrow> (Inl e, w)
           | (Inr gated, w) \<Rightarrow> process_rules_for rules i gated w)
      | RefreshAzure \<Rightarrow>
          (case refresh w (pp_project_id plan) of
             (Inl e, w) \<Rightarrow> (Inl e, w)
           | (Inr _, w) \<Rightarrow> process_rules_for rules i None w)
      | ProcessRulesWithCandidate c \<Rightarrow> process_rules_for rules i (Some c) w)"

(* inbox/service.rs 278-283 record_processing_result *)
definition record_processing_result :: "int \<Rightarrow> unit app_result \<Rightarrow> world \<Rightarrow> unit app_result \<times> world" where
  "record_processing_result i result w =
     (case result of
        Inr _ \<Rightarrow> (Inr (), w)
      | Inl error \<Rightarrow>
          (let (now, w) = now_epoch w in on_db (inbox_mark_failed i (message error) now) w))"

(* inbox/service.rs 227-276 process_received *)
definition process_received ::
    "github_refeed \<Rightarrow> azure_refresh \<Rightarrow> rule_processor \<Rightarrow> int \<Rightarrow> world \<Rightarrow> unit app_result \<times> world" where
  "process_received refeed refresh rules i w =
     (case load_received_plan i w of
        (Inl e, w) \<Rightarrow> (Inl e, w)
      | (Inr None, w) \<Rightarrow> (Inr (), w)
      | (Inr (Some plan), w) \<Rightarrow>
          (let (result, w) = run_plan refeed refresh rules i plan w in
           case record_processing_result i result w of
             (Inl e, w) \<Rightarrow> (Inl e, w)
           | (Inr _, w) \<Rightarrow> (result, emit_for_id (pp_project_id plan) i w)))"

text \<open>One batch of the worker: every received id in turn, announcing the errors.\<close>

definition process_and_announce ::
    "github_refeed \<Rightarrow> azure_refresh \<Rightarrow> rule_processor \<Rightarrow> int \<Rightarrow> bool \<times> world \<Rightarrow> bool \<times> world" where
  "process_and_announce refeed refresh rules i s =
     (case process_received refeed refresh rules i (snd s) of
        (Inr _, w) \<Rightarrow> (fst s, w)
      | (Inl e, w) \<Rightarrow> (True, announce_worker_error ''worker'' (message e) w))"

(* inbox/manager.rs 93-134 InboxManager::start *)
definition inbox_worker_pass ::
    "github_refeed \<Rightarrow> azure_refresh \<Rightarrow> rule_processor \<Rightarrow> world \<Rightarrow> bool \<times> world" where
  "inbox_worker_pass refeed refresh rules w =
     (case received_ids (w_db w) of
        Inr ids \<Rightarrow> fold (process_and_announce refeed refresh rules) ids (False, w)
      | Inl e \<Rightarrow> (True, announce_worker_error ''worker'' (message e) w))"

(* inbox/service.rs 311-327 requeue_failed *)
definition service_requeue_failed :: "int \<Rightarrow> world \<Rightarrow> unit app_result \<times> world" where
  "service_requeue_failed i w =
     (let (r, w) = on_db (requeue_failed i) w in
      case r of
        Inl e \<Rightarrow> (Inl e, w)
      | Inr False \<Rightarrow>
          (Inl (AppError ((''inbox '' @ utf8 [0x6761, 0x76EE, 0x4EC5, 0x5141, 0x8BB8] @ '' Failed '' @ utf8 [0x2192] @ '' Received '' @ utf8 [0x91CD, 0x653E, 0xFF08] @ ''id='') @ dec_int i @ utf8 [0xFF09])), w)
      | Inr True \<Rightarrow>
          (case inbox_get_entry i (w_db w) of
             Inl e \<Rightarrow> (Inl e, w)
           | Inr entry \<Rightarrow>
               (Inr (), wake_inbox (case entry of
                  None \<Rightarrow> w
                | Some e \<Rightarrow> inbox_emit_updated (env_project_id (ie_event e)) e w))))"

(* inbox/commands.rs 17-23 inbox_list *)
definition inbox_list :: "string option \<Rightarrow> world \<Rightarrow> inbox_entry list app_result" where
  "inbox_list project_id w = inbox_list_by_project project_id (w_db w)"

(* inbox/commands.rs 29-36 inbox_get_raw *)
definition inbox_get_raw_command :: "int \<Rightarrow> world \<Rightarrow> string app_result" where
  "inbox_get_raw_command i w =
     try_bind (inbox_get_raw i (w_db w)) (\<lambda>raw. ok_or raw (missing_entry i))"

(* inbox/commands.rs 42-45 inbox_replay *)
definition inbox_replay :: "int \<Rightarrow> world \<Rightarrow> unit app_result \<times> world" where
  "inbox_replay i w = service_requeue_failed i w"

end
