(* ===== verification/Inbox_Properties.thy ===== *)
theory Inbox_Properties
  imports Inbox_Service Outbox_Facts
begin

text \<open>
  The inbox's guarantees: a delivery identity is stored once, the retention deletes only the oldest
  terminal observations, a row is processed only while it is received and commits once, a failure is
  recorded on the row, only a failed row can be replayed, and a receipt says Done only for a review
  action that is done.
\<close>

section \<open>The table invariant\<close>

definition inbox_key :: "inbox_row \<Rightarrow> string option" where
  "inbox_key r = Some (ib_dedupe_key r)"

definition inbox_ok :: "db \<Rightarrow> bool" where
  "inbox_ok d \<longleftrightarrow> tbl_ok ib_id (db_inbox d) \<and> unique_index inbox_key (tb_rows (db_inbox d))"

lemma inbox_ok_empty: "inbox_ok empty_db"
  by (simp add: inbox_ok_def empty_db_def tbl_ok_empty) (simp add: empty_table_def unique_index_def)

lemma delete_inbox_rows:
  "tb_rows (db_inbox (delete_inbox ids d)) = filter (\<lambda>r. ib_id r \<notin> set ids) (tb_rows (db_inbox d))"
  by (simp add: delete_inbox_def Let_def table_simps)

lemma delete_inbox_ok: "inbox_ok d \<Longrightarrow> inbox_ok (delete_inbox ids d)"
  by (auto simp: inbox_ok_def delete_inbox_def Let_def table_simps tbl_ok_delete intro: unique_index_filter)

lemma inbox_row_sel [simp]:
  "ib_id (inbox_insert_row event raw webhook cand i) = i"
  "ib_dedupe_key (inbox_insert_row event raw webhook cand i) = env_dedupe_key event"
  "ib_status (inbox_insert_row event raw webhook cand i) = ''received''"
  "ib_event_json (inbox_insert_row event raw webhook cand i) = JsonOf event"
  by (simp_all add: inbox_insert_row_def)

lemma inbox_ok_push:
  assumes "inbox_ok d" and "tbl_next (db_inbox d) = Inr i" and "ib_id r = i"
    and "\<forall>s \<in> set (tb_rows (db_inbox d)). ib_dedupe_key s \<noteq> ib_dedupe_key r"
  shows "inbox_ok (d\<lparr>db_inbox := tbl_push i r (db_inbox d)\<rparr>)"
  using assms
  by (auto simp: inbox_ok_def table_simps unique_index_snoc inbox_key_def intro: tbl_ok_push)

lemma insert_dedup_txE:
  assumes "insert_dedup_tx event raw webhook cand d = Inr (res, d')"
  obtains (duplicate) i where "res = None" "tbl_next (db_inbox d) = Inr i"
      "\<exists>r \<in> set (tb_rows (db_inbox d)). ib_dedupe_key r = env_dedupe_key event"
      "d' = d\<lparr>db_inbox := (db_inbox d)\<lparr>tb_seq := i\<rparr>\<rparr>"
  | (inserted) i d1 where "res = Some i" "tbl_next (db_inbox d) = Inr i"
      "\<forall>r \<in> set (tb_rows (db_inbox d)). ib_dedupe_key r \<noteq> env_dedupe_key event"
      "d1 = d\<lparr>db_inbox := tbl_push i (inbox_insert_row event raw webhook cand i) (db_inbox d)\<rparr>"
      "d' = delete_inbox (prune_ids (tb_rows (db_inbox d1))) d1"
  using assms
  by (auto simp: insert_dedup_tx_def try_bind_Inr_iff Let_def list_ex_iff split: if_splits)

lemma insert_dedup_tx_ok:
  assumes "inbox_ok d" and "insert_dedup_tx event raw webhook cand d = Inr (res, d')"
  shows "inbox_ok d'"
  using assms(2)
proof (cases rule: insert_dedup_txE)
  case (duplicate i)
  with assms(1) show ?thesis by (auto simp: inbox_ok_def intro: tbl_ok_seq)
next
  case (inserted i d1)
  with assms(1) show ?thesis by (auto intro!: delete_inbox_ok inbox_ok_push)
qed

section \<open>Retention\<close>

lemma filter_out_length:
  assumes "distinct (map rid rs)" and "set ids \<subseteq> rid ` set rs" and "distinct ids"
  shows "length (filter (\<lambda>r. rid r \<notin> set ids) rs) = length rs - length ids"
proof -
  have "length (filter (\<lambda>r. rid r \<in> set ids) rs) = card (rid ` set (filter (\<lambda>r. rid r \<in> set ids) rs))"
    using assms(1) by (metis (no_types, lifting) distinct_card distinct_map_filter length_map list.set_map)
  also have "rid ` set (filter (\<lambda>r. rid r \<in> set ids) rs) = set ids" using assms(2) by auto
  also have "card (set ids) = length ids" using assms(3) by (simp add: distinct_card)
  finally show ?thesis using sum_length_filter_compl [of "\<lambda>r. rid r \<in> set ids" rs] by simp
qed

lemma prune_ids_sub: "set (prune_ids rs) \<subseteq> ib_id ` set (filter prunable rs)"
  by (auto simp: prune_ids_def dest: in_set_takeD)

lemma prune_ids_distinct: "distinct (map ib_id rs) \<Longrightarrow> distinct (prune_ids rs)"
  by (simp add: prune_ids_def take_map [symmetric] distinct_map_filter)

lemma prune_keeps_unprunable:
  assumes "distinct (map ib_id rs)" and "r \<in> set rs" and "\<not> prunable r"
  shows "ib_id r \<notin> set (prune_ids rs)"
proof
  assume "ib_id r \<in> set (prune_ids rs)"
  with prune_ids_sub [of rs] obtain s where "s \<in> set rs" "prunable s" "ib_id r = ib_id s" by auto
  with assms show False by (auto simp: distinct_map inj_on_def)
qed

lemma prune_bound:
  assumes "distinct (map ib_id rs)"
  shows "length (filter (\<lambda>r. ib_id r \<notin> set (prune_ids rs)) rs) \<le> max_inbox_events \<or>
    (\<forall>r \<in> set rs. ib_id r \<notin> set (prune_ids rs) \<longrightarrow> \<not> prunable r)"
proof (cases "length rs - max_inbox_events \<le> length (filter prunable rs)")
  case True
  have "length (prune_ids rs) = length rs - max_inbox_events" using True by (simp add: prune_ids_def)
  moreover have "set (prune_ids rs) \<subseteq> ib_id ` set rs" using prune_ids_sub by fastforce
  ultimately have "length (filter (\<lambda>r. ib_id r \<notin> set (prune_ids rs)) rs) = length rs - (length rs - max_inbox_events)"
    using filter_out_length [OF assms _ prune_ids_distinct [OF assms]] by simp
  then have "length (filter (\<lambda>r. ib_id r \<notin> set (prune_ids rs)) rs) \<le> max_inbox_events" by arith
  then show ?thesis ..
next
  case False
  then have "prune_ids rs = map ib_id (filter prunable rs)" by (simp add: prune_ids_def)
  then show ?thesis by auto
qed

text \<open>What is deleted is older than every terminal observation that stays.\<close>

lemma prune_oldest:
  assumes "sorted_wrt (<) (map ib_id rs)" and "i \<in> set (prune_ids rs)" and "s \<in> set rs" and "prunable s"
    and "ib_id s \<notin> set (prune_ids rs)"
  shows "i < ib_id s"
proof -
  let ?ps = "map ib_id (filter prunable rs)" and ?k = "length rs - max_inbox_events"
  have sorted: "sorted_wrt (<) ?ps"
    using assms(1) by (simp add: sorted_wrt_map sorted_wrt_filter)
  have i: "i \<in> set (take ?k ?ps)" using assms(2) by (simp add: prune_ids_def take_map)
  have "ib_id s \<in> set ?ps" using assms(3,4) by simp
  moreover have "ib_id s \<notin> set (take ?k ?ps)" using assms(5) by (simp add: prune_ids_def take_map)
  ultimately have "ib_id s \<in> set (drop ?k ?ps)" by (metis Un_iff append_take_drop_id set_append)
  with i sorted show ?thesis
    by (metis append_take_drop_id sorted_wrt_append)
qed

section \<open>Ingestion\<close>

definition sample_event :: event_envelope where
  "sample_event = \<lparr>env_dedupe_key = ''github:1'', env_source = Github, env_project_id = ''p'',
     env_repo = ''o/r'', env_payload = Observation Label
       \<lparr>sub_number = Some 7, sub_title = ''t'', sub_body = [], sub_labels = [''review''], sub_url = []\<rparr>,
     env_received_at_epoch = 5\<rparr>"

lemma sample_event_ok: "envelope_ok sample_event"
  using trim_not_Nil [of "CHR ''g''" "''github:1''"] trim_not_Nil [of "CHR ''p''" "''p''"]
  by (simp add: envelope_ok_def sample_event_def is_ascii_alphanumeric_def byte_of_def)

definition inbox_sample :: db where
  "inbox_sample = empty_db\<lparr>db_inbox :=
     \<lparr>tb_rows = [inbox_insert_row sample_event ''raw'' (Some ''wh'') None 1], tb_seq = 1\<rparr>\<rparr>"

lemma sample_insert: "insert_dedup_tx sample_event ''raw'' (Some ''wh'') None empty_db = Inr (Some 1, inbox_sample)"
  by (simp add: insert_dedup_tx_def tbl_next_def empty_db_def empty_table_def i64_max_def tbl_push_def
      prune_ids_def max_inbox_events_def delete_inbox_def sql_delete_def sql_select_def inbox_sample_def)

lemma inbox_sample_ok: "inbox_ok inbox_sample"
  using insert_dedup_tx_ok [OF inbox_ok_empty sample_insert] .

lemma insert_dedup_inserted:
  assumes "inbox_ok d" and "insert_dedup_tx event raw webhook cand d = Inr (Some i, d')"
  shows "inbox_insert_row event raw webhook cand i \<in> set (tb_rows (db_inbox d'))"
    and "\<forall>r \<in> set (tb_rows (db_inbox d)). ib_dedupe_key r \<noteq> env_dedupe_key event \<and> ib_id r < i"
proof -
  let ?r = "inbox_insert_row event raw webhook cand i"
  from assms(2) have "?r \<in> set (tb_rows (db_inbox d')) \<and>
    (\<forall>r \<in> set (tb_rows (db_inbox d)). ib_dedupe_key r \<noteq> env_dedupe_key event \<and> ib_id r < i)"
  proof (cases rule: insert_dedup_txE)
    case (inserted j d1)
    from assms(1) have fresh: "\<forall>s \<in> set (tb_rows (db_inbox d)). ib_id s < j"
      using tbl_next_fresh [OF _ inserted(2)] by (auto simp: inbox_ok_def)
    have "inbox_ok d1" using assms(1) inserted(2-4) by (auto intro!: inbox_ok_push)
    then have dist: "distinct (map ib_id (tb_rows (db_inbox d1)))"
      by (auto simp: inbox_ok_def dest: tbl_ok_distinct)
    have r: "?r \<in> set (tb_rows (db_inbox d1))" using inserted(1,4) by (simp add: table_simps)
    have "ib_id ?r \<notin> set (prune_ids (tb_rows (db_inbox d1)))"
      by (rule prune_keeps_unprunable [OF dist r]) (simp add: prunable_def)
    with r inserted fresh show ?thesis by (simp add: delete_inbox_rows)
  qed simp
  then show "?r \<in> set (tb_rows (db_inbox d'))"
    and "\<forall>r \<in> set (tb_rows (db_inbox d)). ib_dedupe_key r \<noteq> env_dedupe_key event \<and> ib_id r < i" by auto
qed

text \<open>
  A delivery is stored exactly once: an insert answers None exactly when a row with its dedupe
  key is there, and then adds and removes nothing; otherwise it adds one received row with the event,
  under a fresh id, and keeps the keys unique.
\<close>

theorem inbox_insert_exactly_once:
  assumes "inbox_ok d" and "insert_dedup event raw webhook cand d = (Inr res, d')"
  shows "inbox_ok d' \<and>
    (case res of
       None \<Rightarrow> (\<exists>r \<in> set (tb_rows (db_inbox d)). ib_dedupe_key r = env_dedupe_key event) \<and>
         tb_rows (db_inbox d') = tb_rows (db_inbox d)
     | Some i \<Rightarrow> (\<forall>r \<in> set (tb_rows (db_inbox d)). ib_dedupe_key r \<noteq> env_dedupe_key event \<and> ib_id r < i) \<and>
         inbox_insert_row event raw webhook cand i \<in> set (tb_rows (db_inbox d')))"
proof -
  from assms(2) have tx: "insert_dedup_tx event raw webhook cand d = Inr (res, d')"
    by (auto simp: insert_dedup_def with_tx_def split: sum.splits)
  from tx show ?thesis
  proof (cases rule: insert_dedup_txE)
    case (duplicate i)
    then show ?thesis using insert_dedup_tx_ok [OF assms(1) tx] by simp
  next
    case (inserted i d1)
    with insert_dedup_inserted [OF assms(1) tx [unfolded inserted(1)]] insert_dedup_tx_ok [OF assms(1) tx]
    show ?thesis by simp
  qed
qed

theorem inbox_insert_exactly_once_witness:
  "inbox_ok inbox_sample \<and>
   fst (insert_dedup sample_event ''raw'' None None inbox_sample) = Inr None \<and>
   inbox_insert_row sample_event ''raw'' (Some ''wh'') None 1 \<in> set (tb_rows (db_inbox inbox_sample))"
proof -
  have i: "insert_dedup sample_event ''raw'' (Some ''wh'') None empty_db = (Inr (Some 1), inbox_sample)"
    by (simp add: insert_dedup_def sample_insert)
  have "fst (insert_dedup sample_event ''raw'' None None inbox_sample) = Inr None"
    by (simp add: insert_dedup_def with_tx_def insert_dedup_tx_def tbl_next_def inbox_sample_def i64_max_def)
  with inbox_insert_exactly_once [OF inbox_ok_empty i] show ?thesis by simp
qed

text \<open>
  Retention is safe and bounded: an insert deletes only terminal observations, the oldest first,
  never a received row and never a review request; afterwards at most 5000 rows are left, or none that
  may be deleted.
\<close>

theorem inbox_retention:
  assumes "inbox_ok d" and "insert_dedup event raw webhook cand d = (Inr (Some i), d')"
  shows "(\<forall>r \<in> set (tb_rows (db_inbox d)). r \<notin> set (tb_rows (db_inbox d')) \<longrightarrow>
      ib_status r \<in> {''processed'', ''failed''} \<and> payload_kind (ib_event_json r) \<noteq> Some ''reviewRequest'' \<and>
      (\<forall>s \<in> set (tb_rows (db_inbox d')). prunable s \<longrightarrow> ib_id r < ib_id s)) \<and>
    (length (tb_rows (db_inbox d')) \<le> 5000 \<or> (\<forall>s \<in> set (tb_rows (db_inbox d')). \<not> prunable s))"
proof -
  from assms(2) have "insert_dedup_tx event raw webhook cand d = Inr (Some i, d')"
    by (auto simp: insert_dedup_def with_tx_def split: sum.splits)
  then obtain d1 where next_id: "tbl_next (db_inbox d) = Inr i"
    and new: "\<forall>r \<in> set (tb_rows (db_inbox d)). ib_dedupe_key r \<noteq> env_dedupe_key event"
    and d1: "d1 = d\<lparr>db_inbox := tbl_push i (inbox_insert_row event raw webhook cand i) (db_inbox d)\<rparr>"
    and d': "d' = delete_inbox (prune_ids (tb_rows (db_inbox d1))) d1"
    by (cases rule: insert_dedup_txE) auto
  let ?rs = "tb_rows (db_inbox d1)"
  have rows: "tb_rows (db_inbox d') = filter (\<lambda>r. ib_id r \<notin> set (prune_ids ?rs)) ?rs"
    by (simp add: d' delete_inbox_rows)
  have "inbox_ok d1" using assms(1) next_id new d1 by (auto intro!: inbox_ok_push)
  then have sorted: "sorted_wrt (<) (map ib_id ?rs)" and dist: "distinct (map ib_id ?rs)"
    by (auto simp: inbox_ok_def tbl_ok_def strict_sorted_iff)
  have gone: "ib_status r \<in> {''processed'', ''failed''} \<and> payload_kind (ib_event_json r) \<noteq> Some ''reviewRequest'' \<and>
      (\<forall>s \<in> set (tb_rows (db_inbox d')). prunable s \<longrightarrow> ib_id r < ib_id s)"
    if "r \<in> set (tb_rows (db_inbox d))" "r \<notin> set (tb_rows (db_inbox d'))" for r
  proof -
    from that(1) have r: "r \<in> set ?rs" by (simp add: d1 table_simps)
    with that(2) have del: "ib_id r \<in> set (prune_ids ?rs)" by (simp add: rows)
    with prune_keeps_unprunable [OF dist r] have "prunable r" by blast
    moreover have "\<forall>s \<in> set (tb_rows (db_inbox d')). prunable s \<longrightarrow> ib_id r < ib_id s"
      using prune_oldest [OF sorted del] by (simp add: rows)
    ultimately show ?thesis by (auto simp: prunable_def)
  qed
  from prune_bound [OF dist] gone show ?thesis
    by (auto simp: rows max_inbox_events_def)
qed

theorem inbox_retention_witness:
  "inbox_ok empty_db \<and> length (tb_rows (db_inbox inbox_sample)) \<le> 5000"
proof -
  have i: "insert_dedup sample_event ''raw'' (Some ''wh'') None empty_db = (Inr (Some 1), inbox_sample)"
    by (simp add: insert_dedup_def sample_insert)
  from inbox_retention [OF inbox_ok_empty i] inbox_ok_empty show ?thesis
    by (auto simp: inbox_sample_def)
qed

section \<open>Processing\<close>

interpretation inbox_requeue: cas_family ib_id "\<lambda>(u :: unit) r. ib_status r = ''failed''" "\<lambda>u. requeue_row"
  by unfold_locales (simp_all add: requeue_row_def)

interpretation inbox_commit: cas_family ib_id "\<lambda>(now :: nat) r. ib_status r = ''received''" processed_row
  by unfold_locales (simp_all add: processed_row_def)

lemma mark_processed_in_tx_cas:
  "mark_processed_in_tx i now d =
     (let (n, t) = cas ib_id (\<lambda>r. ib_status r = ''received'') (processed_row now) i (db_inbox d) in
      if n = 1 then Inr ((), d\<lparr>db_inbox := t\<rparr>)
      else Inl (AppError ((''inbox '' @ utf8 [0x884C] @ '' '') @ dec_int i @ ('' '' @ utf8 [0x975E] @ '' Received'' @ utf8 [0xFF0C, 0x62D2, 0x7EDD, 0x63D0, 0x4EA4, 0x89C4, 0x5219, 0x52A8, 0x4F5C]))))"
  by (simp add: mark_processed_in_tx_def inbox_update_def cas_def)

text \<open>
  A row that is not received is never processed: nothing changes and no closure runs, whatever
  the closures are.
\<close>

theorem inbox_only_received_processed:
  assumes "get_replayable i (w_db w) = Inr (Some r)" and "pir_status r \<noteq> Inbox_Received"
  shows "process_received refeed refresh rules i w = (Inr (), w)"
  using assms by (simp add: process_received_def load_received_plan_def)

theorem inbox_only_received_processed_witness:
  "\<exists>d. process_received (\<lambda>w s. (Inl (AppError []), w)) (\<lambda>w s. (Inl (AppError []), w)) (\<lambda>w i e c. (Inl (AppError []), w))
     1 (idle_world d) = (Inr (), idle_world d) \<and> tb_rows (db_inbox d) \<noteq> []"
proof -
  let ?r = "(inbox_insert_row sample_event ''raw'' (Some ''wh'') None 1)\<lparr>ib_status := ''processed''\<rparr>"
  let ?d = "empty_db\<lparr>db_inbox := \<lparr>tb_rows = [?r], tb_seq = 1\<rparr>\<rparr>"
  have "\<exists>r. get_replayable 1 (w_db (idle_world ?d)) = Inr (Some r) \<and> pir_status r \<noteq> Inbox_Received"
    using envelope_deserialize_serialize [OF sample_event_ok]
    by (simp add: get_replayable_def idle_world_def by_id_def inbox_status_from_wire_def source_from_wire_def)
       (simp add: inbox_insert_row_def sample_event_def)
  then obtain r where "get_replayable 1 (w_db (idle_world ?d)) = Inr (Some r)" "pir_status r \<noteq> Inbox_Received" by blast
  from inbox_only_received_processed [OF this] show ?thesis by (intro exI [of _ ?d]) simp
qed

section \<open>Failures, replays and receipts\<close>

lemma mark_failed_lookup:
  "by_id ib_id i (db_inbox (snd (inbox_mark_failed i msg now d))) =
     map_option (\<lambda>r. r\<lparr>ib_status := ''failed'', ib_processed_at := Some (as_i64 now), ib_error := Some msg\<rparr>)
       (by_id ib_id i (db_inbox d))"
  by (cases "by_id ib_id i (db_inbox d)")
     (auto simp: inbox_mark_failed_def with_conn_def inbox_update_def by_id_update dest: by_id_Some_in)

lemma mark_failed_Inr: "fst (inbox_mark_failed i msg now d) = Inr ()"
  by (simp add: inbox_mark_failed_def with_conn_def inbox_update_def)

definition failed_with :: "int \<Rightarrow> string \<Rightarrow> db \<Rightarrow> bool" where
  "failed_with i msg d \<longleftrightarrow>
     (case by_id ib_id i (db_inbox d) of
        None \<Rightarrow> True
      | Some r \<Rightarrow> ib_status r = ''failed'' \<and> ib_error r = Some msg)"

lemma failed_with_mark: "failed_with i msg (snd (inbox_mark_failed i msg now d))"
  by (simp add: failed_with_def mark_failed_lookup split: option.split)

lemma fail_with_records: "fst (fail_with i e w) = Inl e \<and> failed_with i (message e) (w_db (snd (fail_with i e w)))"
  using mark_failed_Inr [of i "message e"]
  by (simp add: fail_with_def split_beta failed_with_mark split: sum.split)

lemma fail_with_error: "fail_with i e w = (r, w') \<Longrightarrow> r = Inl e \<and> failed_with i (message e) (w_db w')"
  using fail_with_records [of i e w] by (metis fst_conv snd_conv)

lemma load_received_plan_error:
  assumes "load_received_plan i w = (Inl e, w')"
  shows "failed_with i (message e) (w_db w')"
proof -
  have f: "failed_with i (message e) (w_db w')" if "fail_with i e' w = (Inl e :: processing_plan option app_result, w')" for e'
    using fail_with_error [OF that] by simp
  show ?thesis
  proof (cases "get_replayable i (w_db w)")
    case (Inl e')
    then have "by_id ib_id i (db_inbox (w_db w)) \<noteq> None"
      by (cases "by_id ib_id i (db_inbox (w_db w))") (simp_all add: get_replayable_def)
    with assms Inl f show ?thesis by (auto simp: load_received_plan_def inbox_get_raw_def)
  next
    case (Inr row)
    show ?thesis
    proof (cases row)
      case None
      with Inr have "by_id ib_id i (db_inbox (w_db w)) = None"
        by (auto simp: get_replayable_def try_bind_Inr_iff split: option.splits)
      with None Inr assms show ?thesis by (auto simp: load_received_plan_def failed_with_def)
    next
      case (Some r)
      with Inr assms f show ?thesis
        by (cases "load_processing_plan i (w_db w)") (auto simp: load_received_plan_def split: if_splits)
    qed
  qed
qed

lemma emit_for_id_db [simp]: "w_db (emit_for_id p i w) = w_db w"
  by (simp add: emit_for_id_def inbox_emit_updated_def split: sum.split option.split)

text \<open>
  A failure is recorded: when processing a row returns an error, the row (if it still exists) is
  failed and holds exactly the returned message, whatever the closures did, so the worker does not
  pick it up again; this covers rows whose stored event does not even decode.
\<close>

theorem inbox_failure_recorded:
  assumes "process_received refeed refresh rules i w = (Inl e, w')"
    and "by_id ib_id i (db_inbox (w_db w')) = Some r"
  shows "ib_status r = ''failed'' \<and> ib_error r = Some (message e)"
proof -
  have "failed_with i (message e) (w_db w')"
  proof (cases "load_received_plan i w")
    case (Pair res w1)
    show ?thesis
    proof (cases res)
      case (Inl e')
      with Pair assms(1) have "e' = e" "w1 = w'" by (auto simp: process_received_def)
      with load_received_plan_error Pair Inl show ?thesis by simp
    next
      case (Inr p)
      with Pair assms(1) obtain plan where p: "p = Some plan"
        by (cases p) (auto simp: process_received_def)
      obtain result w2 where run: "run_plan refeed refresh rules i plan w1 = (result, w2)"
        by (cases "run_plan refeed refresh rules i plan w1")
      with assms(1) Pair Inr p mark_failed_Inr show ?thesis
        by (auto simp: process_received_def record_processing_result_def split_beta on_db_def failed_with_mark
            split: sum.splits)
    qed
  qed
  with assms(2) show ?thesis by (simp add: failed_with_def)
qed

theorem inbox_failure_recorded_witness:
  "\<exists>w'. process_received (\<lambda>w s. (Inl (AppError ''gone''), w)) (\<lambda>w s. (Inr (), w)) (\<lambda>w i e c. (Inr (), w))
     1 (idle_world inbox_sample) = (Inl (AppError ''gone''), w') \<and>
     map_option ib_error (by_id ib_id 1 (db_inbox (w_db w'))) = Some (Some ''gone'')"
proof -
  let ?p = "process_received (\<lambda>w s. (Inl (AppError ''gone''), w)) (\<lambda>w s. (Inr (), w)) (\<lambda>w i e c. (Inr (), w)) 1 (idle_world inbox_sample)"
  have row: "by_id ib_id 1 (db_inbox inbox_sample) = Some (inbox_insert_row sample_event ''raw'' (Some ''wh'') None 1)"
    by (simp add: inbox_sample_def by_id_def)
  have g: "get_replayable 1 inbox_sample = Inr (Some \<lparr>pir_event = sample_event, pir_source = Github,
      pir_status = Inbox_Received, pir_webhook_event_json = Some ''wh'', pir_candidate = None\<rparr>)"
    unfolding get_replayable_def row
    using envelope_deserialize_serialize [OF sample_event_ok]
    by (simp add: inbox_status_from_wire_def) (simp add: inbox_insert_row_def sample_event_def source_from_wire_def)
  have "load_received_plan 1 (idle_world inbox_sample) =
      (Inr (Some \<lparr>pp_project_id = ''p'', pp_action = RefeedGithub ''wh''\<rparr>), idle_world inbox_sample)"
    using g by (simp add: load_received_plan_def load_processing_plan_def plan_action_of_def idle_world_def
        as_review_request_def sample_event_def)
  then have "fst ?p = Inl (AppError ''gone'')"
    and db: "w_db (snd ?p) = snd (inbox_mark_failed 1 ''gone'' 10 inbox_sample)"
    using mark_failed_Inr [of 1 "''gone''" 10 inbox_sample]
    by (simp_all add: process_received_def run_plan_def record_processing_result_def split_beta now_epoch_def
        on_db_def idle_world_def split: sum.split)
  then have p: "?p = (Inl (AppError ''gone''), snd ?p)" by (metis prod.collapse)
  from db row have "\<exists>r. by_id ib_id 1 (db_inbox (w_db (snd ?p))) = Some r" by (simp add: mark_failed_lookup)
  then obtain r where r: "by_id ib_id 1 (db_inbox (w_db (snd ?p))) = Some r" by blast
  from inbox_failure_recorded [OF p r] r p show ?thesis
    by (intro exI [of _ "snd ?p"]) (simp del: p)
qed

lemma requeue_failed_cas:
  "requeue_failed i d =
     (let (n, t) = cas ib_id (\<lambda>r. ib_status r = ''failed'') requeue_row i (db_inbox d) in
      (Inr (n = 1), d\<lparr>db_inbox := t\<rparr>))"
  by (simp add: requeue_failed_def with_conn_def inbox_update_def cas_def)

text \<open>
  Only a failed row can be replayed, and of two replays of it the second is refused: a replay
  answers true exactly when the row is failed, makes it received with no error and no processing time,
  leaves every other row alone, and a second one changes nothing.
\<close>

theorem inbox_replay_once:
  assumes "inbox_ok d"
  shows "\<exists>d'. requeue_failed i d = (Inr (map_option ib_status (by_id ib_id i (db_inbox d)) = Some ''failed''), d') \<and>
    (\<forall>j. by_id ib_id j (db_inbox d') =
      map_option (\<lambda>r. if j = i \<and> ib_status r = ''failed'' then requeue_row r else r) (by_id ib_id j (db_inbox d))) \<and>
    requeue_failed i d' = (Inr False, d')"
proof -
  let ?g = "\<lambda>r. ib_status r = ''failed''"
  let ?t = "snd (cas ib_id ?g requeue_row i (db_inbox d))"
  let ?d = "d\<lparr>db_inbox := ?t\<rparr>"
  from assms have dist: "distinct (map ib_id (tb_rows (db_inbox d)))"
    by (auto simp: inbox_ok_def dest: tbl_ok_distinct)
  have look: "by_id ib_id j ?t = map_option (\<lambda>r. if j = i \<and> ?g r then requeue_row r else r) (by_id ib_id j (db_inbox d))" for j
    by (cases "by_id ib_id j (db_inbox d)")
       (auto simp: cas_def by_id_update requeue_row_def dest: by_id_Some_in)
  have n: "(fst (cas ib_id ?g requeue_row i (db_inbox d)) = 1) =
      (map_option ib_status (by_id ib_id i (db_inbox d)) = Some ''failed'')"
    by (simp add: cas_changes [OF dist] split: option.split)
  have dist': "distinct (map ib_id (tb_rows ?t))"
    using dist by (simp only: inbox_requeue.cas_distinct)
  have zero: "fst (cas ib_id ?g requeue_row i ?t) = 0"
    by (simp add: cas_changes [OF dist'] look requeue_row_def split: option.split)
  then have "snd (cas ib_id ?g requeue_row i ?t) = ?t" by (rule cas_loser)
  with zero have second: "requeue_failed i ?d = (Inr False, ?d)" by (simp add: requeue_failed_cas split_beta)
  show ?thesis
    by (intro exI [of _ ?d] conjI second) (simp_all only: requeue_failed_cas split_beta Let_def n, simp_all add: look)
qed

theorem inbox_replay_once_witness:
  "\<exists>d'. requeue_failed 1 inbox_sample = (Inr False, d') \<and> inbox_ok inbox_sample"
  using inbox_replay_once [OF inbox_sample_ok, of 1] inbox_sample_ok
  by (auto simp: inbox_sample_def by_id_def)

lemma first_action_in: "first_action os = Some r \<Longrightarrow> Some r \<in> set os"
proof -
  assume f: "first_action os = Some r"
  then have n: "None \<notin> set os" and "sort_key ob_id (map the os) \<noteq> []"
    by (auto simp: first_action_def split: if_splits)
  with f n have "r \<in> set (sort_key ob_id (map the os))"
    by (cases "sort_key ob_id (map the os)") (simp_all add: first_action_def)
  then obtain p where "p \<in> set os" "r = the p" by auto
  with n show ?thesis by (cases p) auto
qed

lemma joined_action:
  assumes "Some a \<in> set (joined_actions i d)"
  obtains m k where "m \<in> set (tb_rows (db_rule_match d))" "rm_inbox_event_id m = i"
    "(rm_id m, k) \<in> set (db_match_action d)"
    "find (\<lambda>r. ob_id r = k \<and> ob_kind r = ''runSkill'') (tb_rows (db_outbox d)) = Some a"
proof -
  let ?find = "\<lambda>k. find (\<lambda>r. ob_id r = k \<and> ob_kind r = ''runSkill'') (tb_rows (db_outbox d))"
  let ?acts = "\<lambda>m. filter (\<lambda>(mi, a). mi = rm_id m) (db_match_action d)"
  let ?ms = "sql_select (\<lambda>m. rm_inbox_event_id m = i) (db_rule_match d)"
  have "joined_actions i d = (if ?ms = [] then [None]
      else concat (map (\<lambda>m. if ?acts m = [] then [None] else map (\<lambda>(mi, a). ?find a) (?acts m)) ?ms))"
    by (simp add: joined_actions_def Let_def)
  with assms have "Some a \<in> set (concat (map (\<lambda>m. if ?acts m = [] then [None] else map (\<lambda>(mi, a). ?find a) (?acts m)) ?ms))"
    by (cases "?ms = []") simp_all
  then obtain m where m: "m \<in> set ?ms"
    and a: "Some a \<in> set (if ?acts m = [] then [None] else map (\<lambda>(mi, a). ?find a) (?acts m))"
    unfolding set_concat set_map by blast
  from a have "Some a \<in> set (map (\<lambda>(mi, a). ?find a) (?acts m))" by (cases "?acts m = []") simp_all
  then obtain k where "(rm_id m, k) \<in> set (db_match_action d)" "?find k = Some a" by fastforce
  moreover from m have "m \<in> set (tb_rows (db_rule_match d))" "rm_inbox_event_id m = i"
    by (auto simp: sql_select_def)
  ultimately show thesis by (intro that) 
qed

text \<open>
  A receipt is truthful: it says Done only when the processing of the event did not fail and a
  run-skill action linked to a rule match of this very event is done in the outbox, and the review
  session of that action, if it has one, is done too.
\<close>

theorem receipt_done_truthful:
  assumes "get_review_receipt i d = Inr s" and "rrs_status s = Receipt_Done"
  shows "\<exists>m a. m \<in> set (tb_rows (db_rule_match d)) \<and> rm_inbox_event_id m = i \<and>
    (rm_id m, ob_id a) \<in> set (db_match_action d) \<and> a \<in> set (tb_rows (db_outbox d)) \<and>
    ob_kind a = ''runSkill'' \<and> ob_status a = ''done'' \<and> rrs_thread_id s = ob_review_thread_id a \<and>
    (\<forall>t ss. ob_review_thread_id a = Some t \<and> by_id ss_thread_id t (db_session d) = Some ss \<longrightarrow>
      ss_status ss = ''done'')"
proof -
  let ?act = "first_action (joined_actions i d)"
  let ?thr = "Option.bind ?act ob_review_thread_id"
  obtain r where r: "by_id ib_id i (db_inbox d) = Some r"
    using assms(1) by (cases "by_id ib_id i (db_inbox d)") (auto simp: get_review_receipt_def)
  have st: "rrs_status s = receipt_status (ib_status r) (map_option ob_status ?act)
      (map_option ss_status (Option.bind ?thr (\<lambda>t. by_id ss_thread_id t (db_session d))))"
    and th: "rrs_thread_id s = ?thr"
    using assms(1) r by (auto simp: get_review_receipt_def try_bind_Inr_iff Let_def split: if_splits)
  with assms(2) obtain a where a: "first_action (joined_actions i d) = Some a" and done_a: "ob_status a = ''done''"
    by (cases "first_action (joined_actions i d)") (auto simp: st receipt_status_def split: if_splits)
  have session: "ss_status ss = ''done''"
    if "ob_review_thread_id a = Some t" "by_id ss_thread_id t (db_session d) = Some ss" for t ss
    using assms(2) that a done_a by (simp add: st receipt_status_def split: if_splits)
  from first_action_in [OF a] have ja: "Some a \<in> set (joined_actions i d)" .
  obtain m k where
    m: "m \<in> set (tb_rows (db_rule_match d))" "rm_inbox_event_id m = i" "(rm_id m, k) \<in> set (db_match_action d)"
    and f: "find (\<lambda>r. ob_id r = k \<and> ob_kind r = ''runSkill'') (tb_rows (db_outbox d)) = Some a"
    by (rule joined_action [OF ja])
  from f have "a \<in> set (tb_rows (db_outbox d)) \<and> ob_id a = k \<and> ob_kind a = ''runSkill''"
    by (auto simp: find_Some_iff)
  with m done_a session th a show ?thesis by auto
qed

definition request_event :: event_envelope where
  "request_event = \<lparr>env_dedupe_key = ''k'', env_source = Github, env_project_id = ''p'', env_repo = ''o/r'',
     env_payload = ReviewRequest \<lparr>req_pr_number = 7, req_skill_name = default_skill_name,
       req_extra_args = [], req_skill_path = default_skill_path,
       req_command_template = default_command_template, req_request_id = replicate 32 CHR ''0'',
       req_origin = Cli, req_notify_on_completion = False\<rparr>, env_received_at_epoch = 5\<rparr>"

lemma request_event_ok: "envelope_ok request_event"
  using trim_alnum [of "''k''"] trim_alnum [of "''p''"]
  by (simp add: envelope_ok_def request_event_def parse_request_id_def is_ascii_alphanumeric_def
      is_ascii_digit_def byte_of_def list_all_iff)

definition done_review_row :: outbox_row where
  "done_review_row = \<lparr>ob_id = 1, ob_project_id = ''p'', ob_kind = ''runSkill'', ob_summary = ''s'',
     ob_payload = OtherJson [], ob_status = ''done'', ob_attempt_count = 1, ob_next_attempt_at = 0,
     ob_last_error = None, ob_created_at = 0, ob_updated_at = 0, ob_dedupe_key = None,
     ob_producer_key = ''k'', ob_review_thread_id = None\<rparr>"

definition receipt_sample :: db where
  "receipt_sample = empty_db\<lparr>
     db_inbox := \<lparr>tb_rows = [(inbox_insert_row request_event ''raw'' None None 1)\<lparr>ib_status := ''processed''\<rparr>], tb_seq = 1\<rparr>,
     db_rule_match := \<lparr>tb_rows = [\<lparr>rm_id = 1, rm_rule_id = ''r'', rm_rule_name = ''r'', rm_inbox_event_id = 1,
       rm_project_id = ''p'', rm_action_count = 1, rm_error = None, rm_created_at = 0\<rparr>], tb_seq = 1\<rparr>,
     db_match_action := [(1, 1)], db_outbox := \<lparr>tb_rows = [done_review_row], tb_seq = 1\<rparr>\<rparr>"

lemma receipt_sample_done: "\<exists>s. get_review_receipt 1 receipt_sample = Inr s \<and> rrs_status s = Receipt_Done"
proof -
  have row: "by_id ib_id 1 (db_inbox receipt_sample) =
      Some ((inbox_insert_row request_event ''raw'' None None 1)\<lparr>ib_status := ''processed''\<rparr>)"
    by (simp add: receipt_sample_def by_id_def)
  have act: "first_action (joined_actions 1 receipt_sample) = Some done_review_row"
    by (simp add: first_action_def joined_actions_def receipt_sample_def sql_select_def done_review_row_def)
  have req: "as_review_request request_event \<noteq> None"
    by (simp add: as_review_request_def request_event_def)
  show ?thesis
    using envelope_deserialize_serialize [OF request_event_ok] req
    by (simp add: get_review_receipt_def row act receipt_status_def done_review_row_def Let_def)
qed

theorem receipt_done_truthful_witness:
  "\<exists>s a. get_review_receipt 1 receipt_sample = Inr s \<and> rrs_status s = Receipt_Done \<and>
     a \<in> set (tb_rows (db_outbox receipt_sample)) \<and> ob_status a = ''done''"
proof -
  obtain s where s: "get_review_receipt 1 receipt_sample = Inr s" "rrs_status s = Receipt_Done"
    using receipt_sample_done by blast
  from receipt_done_truthful [OF s] s show ?thesis by blast
qed

end
