(* ===== verification/Config.thy ===== *)
theory Config
  imports Skill Event Prelude
begin

text \<open>
  The configuration (\<open>config/model.rs\<close>): projects, rules with their actions, notification channels
  and messaging integrations, and the validation of rules that the settings command runs before it
  stores a configuration. The file system that confines a rule's skill path is a parameter, as in \<open>Skill\<close>.
\<close>

text \<open>
  The configuration of the third party command line tools (\<open>CliToolsConfig\<close> of \<open>config/model.rs\<close>), as
  the program is compiled for Unix: a configured path is absolute, executable and named like the tool.
\<close>

section \<open>The configuration of the tools\<close>

(* model.rs 604-616 CliTool *)
datatype cli_tool = Tool_Gh | Tool_Az | Tool_Codex | Tool_Claude | Tool_Agent | Tool_Cloudflared

(* model.rs 622-627 CliResolutionSource *)
datatype cli_source = Custom | Process_Path | Login_Shell_Path | Platform_Fallback

(* config/model.rs 36-48 CliPath::try_from *)
definition cli_path_try_from :: "string \<Rightarrow> string app_result" where
  "cli_path_try_from v =
     (if v = [] \<or> path_is_absolute v then Inr v
      else Inl (AppError (''CLI '' @ (utf8 [0x8DEF, 0x5F84, 0x5FC5, 0x987B, 0x4E3A, 0x7A7A, 0x6216, 0x7EDD, 0x5BF9, 0x8DEF, 0x5F84] @ '': '') @ v)))"

(* config/model.rs 64-74 CliToolsConfig *)
record cli_tools_config =
  ctc_gh_path :: string
  ctc_az_path :: string
  ctc_codex_path :: string
  ctc_claude_path :: string
  ctc_agent_path :: string
  ctc_cloudflared_path :: string
  ctc_codex_home :: string
  ctc_claude_config_dir :: string

definition default_cli_tools :: cli_tools_config where
  "default_cli_tools = \<lparr>ctc_gh_path = [], ctc_az_path = [], ctc_codex_path = [], ctc_claude_path = [], ctc_agent_path = [],
     ctc_cloudflared_path = [], ctc_codex_home = [], ctc_claude_config_dir = []\<rparr>"

text \<open>What the file system answers.\<close>

record cli_files =
  cf_is_dir :: "string \<Rightarrow> bool"
  cf_is_executable_file :: "string \<Rightarrow> bool"

(* config/model.rs 91-100 CliToolsConfig::path *)
fun tool_path :: "cli_tools_config \<Rightarrow> cli_tool \<Rightarrow> string" where
  "tool_path c Tool_Gh = ctc_gh_path c"
| "tool_path c Tool_Az = ctc_az_path c"
| "tool_path c Tool_Codex = ctc_codex_path c"
| "tool_path c Tool_Claude = ctc_claude_path c"
| "tool_path c Tool_Agent = ctc_agent_path c"
| "tool_path c Tool_Cloudflared = ctc_cloudflared_path c"

(* config/model.rs 102-108 CliToolsConfig::config_dir *)
fun config_dir :: "cli_tools_config \<Rightarrow> cli_tool \<Rightarrow> (string \<times> string) option" where
  "config_dir c Tool_Codex = Some (''CODEX_HOME'', ctc_codex_home c)"
| "config_dir c Tool_Claude = Some (''CLAUDE_CONFIG_DIR'', ctc_claude_config_dir c)"
| "config_dir c _ = None"

(* config/model.rs 166-175 canonical_cli_name *)
fun canonical_cli_name :: "cli_tool \<Rightarrow> string" where
  "canonical_cli_name Tool_Gh = ''gh''"
| "canonical_cli_name Tool_Az = ''az''"
| "canonical_cli_name Tool_Codex = ''codex''"
| "canonical_cli_name Tool_Claude = ''claude''"
| "canonical_cli_name Tool_Agent = ''agent''"
| "canonical_cli_name Tool_Cloudflared = ''cloudflared''"

text \<open>\<open>Path::file_name\<close>: the last component when it is a name.\<close>

definition file_name :: "string \<Rightarrow> string option" where
  "file_name p =
     (let cs = path_components p in
      if cs = [] \<or> List.last cs \<in> {''/'', ''.'', ''..''} then None else Some (List.last cs))"

(* config/model.rs 177-198 has_canonical_cli_basename *)
definition has_canonical_cli_basename :: "string \<Rightarrow> cli_tool \<Rightarrow> bool" where
  "has_canonical_cli_basename p tool \<longleftrightarrow> file_name p = Some (canonical_cli_name tool)"

(* config/model.rs 119-151 CliToolsConfig::validate_tool *)
definition validate_tool :: "cli_files \<Rightarrow> cli_tools_config \<Rightarrow> cli_tool \<Rightarrow> unit app_result" where
  "validate_tool fs c tool =
     try_bind
       (case config_dir c tool of
          Some (variable, directory) \<Rightarrow>
            if directory \<noteq> [] \<and> (\<not> path_is_absolute directory \<or> \<not> cf_is_dir fs directory)
            then Inl (AppError (''CLI '' @ (utf8 [0x914D, 0x7F6E, 0x76EE, 0x5F55] @ '' '') @ variable @ ('' '' @ utf8 [0x5FC5, 0x987B, 0x4E3A, 0x5DF2, 0x5B58, 0x5728, 0x7684, 0x76EE, 0x5F55, 0x7EDD, 0x5BF9, 0x8DEF, 0x5F84] @ '': '') @ directory))
            else Inr ()
        | None \<Rightarrow> Inr ()) (\<lambda>_.
     let path = tool_path c tool in
     if path = [] then Inr ()
     else if \<not> has_canonical_cli_basename path tool
     then Inl (AppError (canonical_cli_name tool @ (''Path '' @ utf8 [0x6587, 0x4EF6, 0x540D, 0x5FC5, 0x987B, 0x4E3A] @ '' '') @ canonical_cli_name tool @ '': '' @ path))
     else if \<not> cf_is_executable_file fs path
     then Inl (AppError (canonical_cli_name tool @ (''Path '' @ utf8 [0x4E0D, 0x662F, 0x5B58, 0x5728, 0x4E14, 0x53EF, 0x6267, 0x884C, 0x7684, 0x6587, 0x4EF6] @ '': '') @ path))
     else Inr ())"

definition all_tools :: "cli_tool list" where
  "all_tools = [Tool_Gh, Tool_Az, Tool_Codex, Tool_Claude, Tool_Agent, Tool_Cloudflared]"

(* config/model.rs 110-115 CliToolsConfig::validate *)
definition validate_tools :: "cli_files \<Rightarrow> cli_tools_config \<Rightarrow> unit app_result" where
  "validate_tools fs c = try_bind (try_map (validate_tool fs c) all_tools) (\<lambda>_. Inr ())"

text \<open>
  The configuration of remote access (\<open>config/model.rs\<close>): entrypoints with their routes, and the
  tunnels that lead to them.
\<close>

(* config/model.rs 1017-1022 RemoteCapability *)
datatype remote_capability = Capability_Terminal | Capability_LocalApi | Capability_Messaging

(* config/model.rs 1035-1040 SourcePolicyMode *)
datatype source_policy_mode = Policy_Loopback | Policy_Lan | Policy_Custom

(* config/model.rs 1027-1030 SourcePolicy *)
record source_policy =
  sp_mode :: source_policy_mode
  sp_allow :: "string list"

(* config/model.rs 937-948 RemoteRoute *)
record remote_route =
  rr_id :: string
  rr_name :: string
  rr_path :: string
  rr_capability :: remote_capability
  rr_enabled :: bool
  rr_auth_token :: string
  rr_terminal_read :: bool
  rr_terminal_write :: bool
  rr_terminal_create :: bool
  rr_terminal_admin :: bool

(* config/model.rs 890-900 RemoteEntrypoint *)
record remote_entrypoint =
  re_id :: string
  re_name :: string
  re_bind_host :: string
  re_port :: nat
  re_enabled :: bool
  re_source_policy :: source_policy
  re_allowed_origins :: "string list"
  re_trusted_proxies :: "string list"
  re_routes :: "remote_route list"

(* config/model.rs 1077-1082 RemoteTunnelMode *)
datatype remote_tunnel_mode = Remote_Quick | Remote_Command | Remote_Listener | Remote_Lan

(* config/model.rs 1045-1055 RemoteTunnel *)
record remote_tunnel =
  rtn_id :: string
  rtn_name :: string
  rtn_mode :: remote_tunnel_mode
  rtn_target_entrypoint_id :: string
  rtn_bind_host :: string
  rtn_port :: nat
  rtn_command :: string
  rtn_public_url :: string
  rtn_enabled :: bool

(* config/model.rs 873-876 RemoteAccessConfig *)
record remote_access_config =
  ra_entrypoints :: "remote_entrypoint list"
  ra_tunnels :: "remote_tunnel list"

section \<open>Defaults\<close>

(* config/model.rs 950-964 RemoteRoute::local_api *)
definition local_api_route :: remote_route where
  "local_api_route = \<lparr>rr_id = ''local-api'', rr_name = ''Local API'', rr_path = ''/api'', rr_capability = Capability_LocalApi,
     rr_enabled = True, rr_auth_token = [], rr_terminal_read = False, rr_terminal_write = False,
     rr_terminal_create = False, rr_terminal_admin = False\<rparr>"

(* config/model.rs 966-979 RemoteRoute::terminal *)
definition terminal_route :: remote_route where
  "terminal_route = \<lparr>rr_id = ''terminal'', rr_name = ''Terminal'', rr_path = ''/terminal'', rr_capability = Capability_Terminal,
     rr_enabled = True, rr_auth_token = [], rr_terminal_read = True, rr_terminal_write = False,
     rr_terminal_create = False, rr_terminal_admin = False\<rparr>"

(* config/model.rs 981-994 RemoteRoute::messaging *)
definition messaging_route :: remote_route where
  "messaging_route = \<lparr>rr_id = ''messaging'', rr_name = ''Messaging'', rr_path = ''/messaging'',
     rr_capability = Capability_Messaging, rr_enabled = True, rr_auth_token = [], rr_terminal_read = False,
     rr_terminal_write = False, rr_terminal_create = False, rr_terminal_admin = False\<rparr>"

(* config/model.rs 997-1012 RemoteRoute::default *)
definition default_route :: remote_route where
  "default_route = \<lparr>rr_id = [], rr_name = [], rr_path = ''/terminal'', rr_capability = Capability_Terminal,
     rr_enabled = False, rr_auth_token = [], rr_terminal_read = False, rr_terminal_write = False,
     rr_terminal_create = False, rr_terminal_admin = False\<rparr>"

definition default_source_policy :: source_policy where
  "default_source_policy = \<lparr>sp_mode = Policy_Loopback, sp_allow = []\<rparr>"

(* config/model.rs 902-916 RemoteEntrypoint::default_local_api *)
definition default_local_api :: remote_entrypoint where
  "default_local_api = \<lparr>re_id = ''local-api'', re_name = ''Local API'', re_bind_host = ''127.0.0.1'', re_port = 8788,
     re_enabled = True, re_source_policy = default_source_policy, re_allowed_origins = [], re_trusted_proxies = [],
     re_routes = [local_api_route]\<rparr>"

(* config/model.rs 918-932 RemoteEntrypoint::default *)
definition default_entrypoint :: remote_entrypoint where
  "default_entrypoint = \<lparr>re_id = [], re_name = [], re_bind_host = ''127.0.0.1'', re_port = 0, re_enabled = False,
     re_source_policy = default_source_policy, re_allowed_origins = [], re_trusted_proxies = [], re_routes = []\<rparr>"

(* config/model.rs 1057-1071 RemoteTunnel::default *)
definition default_tunnel :: remote_tunnel where
  "default_tunnel = \<lparr>rtn_id = [], rtn_name = [], rtn_mode = Remote_Quick, rtn_target_entrypoint_id = [],
     rtn_bind_host = ''0.0.0.0'', rtn_port = 0, rtn_command = [], rtn_public_url = [], rtn_enabled = False\<rparr>"

(* config/model.rs 878-885 RemoteAccessConfig::default *)
definition default_remote_access :: remote_access_config where
  "default_remote_access = \<lparr>ra_entrypoints = [default_local_api], ra_tunnels = []\<rparr>"

section \<open>Projects, channels and integrations\<close>

(* model.rs 752-756 LabelSource *)
datatype label_source = Native | Title

(* model.rs 779-785 UpdateMode *)
datatype update_mode = WebhookOnly | PullOnly | Hybrid | Manual

(* model.rs 825-836 CodexReasoningEffort *)
datatype codex_effort =
  CE_Default | CE_None | CE_Minimal | CE_Low | CE_Medium | CE_High | CE_Xhigh | CE_Max | CE_Ultra

(* model.rs 845-853 ClaudeEffort *)
datatype claude_effort = CL_Default | CL_Low | CL_Medium | CL_High | CL_Xhigh | CL_Max

(* config/model.rs 242-311 Project *)
record project =
  prj_id :: string
  prj_name :: string
  prj_enabled :: bool
  prj_repo :: string
  prj_repo_root :: string
  prj_poll_interval_secs :: nat
  prj_authors :: "string list"
  prj_pr_cooldown_seconds :: nat
  prj_source_kind :: source_kind
  prj_engine_kind :: engine_kind
  prj_codex_model :: string
  prj_claude_model :: string
  prj_cursor_model :: string
  prj_codex_effort :: codex_effort
  prj_claude_effort :: claude_effort
  prj_update_mode :: update_mode
  prj_azure_org :: string
  prj_azure_project :: string
  prj_label_source :: label_source
  prj_bitbucket_host :: string
  prj_bitbucket_project :: string
  prj_bitbucket_token :: string

(* config/model.rs 720-736 NotificationChannel *)
record notification_channel =
  nch_id :: string
  nch_name :: string
  nch_kind :: notification_kind
  nch_enabled :: bool
  nch_webhook_url :: string
  nch_webhook_secret :: string
  nch_telegram_bot_token :: string
  nch_telegram_chat_id :: string
  nch_smtp_host :: string
  nch_smtp_port :: nat
  nch_smtp_username :: string
  nch_smtp_password :: string
  nch_smtp_from :: string
  nch_smtp_to :: string
  nch_timeout_secs :: nat

(* config/model.rs 770-770 DEFAULT_NOTIFICATION_TIMEOUT_SECS *)
definition default_notification_timeout_secs :: nat where
  "default_notification_timeout_secs = 15"

(* config/model.rs 738-757 NotificationChannel::desktop_default *)
definition desktop_channel :: notification_channel where
  "desktop_channel = \<lparr>nch_id = ''desktop'', nch_name = ''Desktop'', nch_kind = Desktop, nch_enabled = True,
     nch_webhook_url = [], nch_webhook_secret = [], nch_telegram_bot_token = [], nch_telegram_chat_id = [],
     nch_smtp_host = [], nch_smtp_port = 587, nch_smtp_username = [], nch_smtp_password = [], nch_smtp_from = [],
     nch_smtp_to = [], nch_timeout_secs = default_notification_timeout_secs\<rparr>"

(* config/model.rs 761-768 NotificationChannel::default *)
definition default_channel :: notification_channel where
  "default_channel = desktop_channel\<lparr>nch_enabled := False\<rparr>"

(* config/model.rs 666-683 MessagingIntegration *)
record messaging_integration =
  mi_id :: string
  mi_name :: string
  mi_kind :: messaging_provider_kind
  mi_enabled :: bool
  mi_verification_token :: string
  mi_encrypt_key :: string
  mi_app_id :: string
  mi_app_secret :: string
  mi_bot_open_id :: string
  mi_card_template_id :: string
  mi_allowed_conversation_ids :: "string list"
  mi_require_mention :: bool
  mi_timeout_secs :: nat

(* config/model.rs 685-703 MessagingIntegration::feishu_default *)
definition feishu_default :: messaging_integration where
  "feishu_default = \<lparr>mi_id = [], mi_name = (utf8 [0x98DE, 0x4E66]), mi_kind = Feishu, mi_enabled = False, mi_verification_token = [],
     mi_encrypt_key = [], mi_app_id = [], mi_app_secret = [], mi_bot_open_id = [], mi_card_template_id = [],
     mi_allowed_conversation_ids = [], mi_require_mention = True, mi_timeout_secs = default_notification_timeout_secs\<rparr>"

section \<open>Rules\<close>

(* config/model.rs 391-394 RuleActionKind *)
datatype rule_action_kind = ActionKind_RunSkill | ActionKind_Notify

(* config/model.rs 399-403 RuleActionDedupePolicy *)
datatype dedupe_policy = PerEvent | PerAction

(* config/model.rs 408-421 RuleActionTarget *)
datatype rule_action_target =
  Target_None
| NotificationChannels "string list"
| MessagingConversation string string

text \<open>The accessors of the code are the shared selectors.\<close>

(* config/model.rs 426-495 RuleActionConfig *)
datatype rule_action_config =
  RunSkill (ra_id: string) (ra_enabled: bool) (ra_dedupe_policy: dedupe_policy) (ra_delay_secs: nat)
    (ra_level: string) (ra_skill_name: string) (ra_skill_path: string) (ra_command_template: string)
    (ra_extra_args: string)
| Notify (ra_id: string) (ra_enabled: bool) (ra_target: rule_action_target)
    (ra_dedupe_policy: dedupe_policy) (ra_delay_secs: nat) (ra_level: string)

fun ra_kind :: "rule_action_config \<Rightarrow> rule_action_kind" where
  "ra_kind (RunSkill i en p d l n sp ct ea) = ActionKind_RunSkill"
| "ra_kind (Notify i en t p d l) = ActionKind_Notify"

fun kind_debug :: "rule_action_kind \<Rightarrow> string" where
  "kind_debug ActionKind_RunSkill = ''RunSkill''"
| "kind_debug ActionKind_Notify = ''Notify''"

(* config/model.rs 497-509 RuleActionConfig::run_skill *)
definition ra_run_skill :: "string \<Rightarrow> rule_action_config" where
  "ra_run_skill i = RunSkill i True PerEvent 0 ''action'' default_skill_name default_skill_path
     default_command_template []"

(* config/model.rs 511-536 RuleActionConfig::run_skill_check *)
definition ra_run_skill_check :: "string \<Rightarrow> rule_action_config" where
  "ra_run_skill_check i = RunSkill i True PerEvent 0 ''action'' default_skill_name default_skill_path
     default_command_template ''--check''"

(* config/model.rs 538-547 RuleActionConfig::notify *)
definition ra_notify :: "string \<Rightarrow> rule_action_config" where
  "ra_notify i = Notify i True Target_None PerEvent 0 ''action''"

(* config/model.rs 564-579 RuleConfig *)
record rule_config =
  rc_id :: string
  rc_name :: string
  rc_enabled :: bool
  rc_source :: "source_kind option"
  rc_event_type :: "event_type option"
  rc_project_id :: string
  rc_repo :: string
  rc_labels_any :: "string list"
  rc_labels_all :: "string list"
  rc_title_contains :: string
  rc_body_contains :: string
  rc_actions :: "rule_action_config list"
  rc_allow_action_kinds :: "rule_action_kind list"
  rc_deny_action_kinds :: "rule_action_kind list"

section \<open>Review lifecycle notifications\<close>

(* config/model.rs 584-595 ReviewLifecycleTarget *)
datatype review_lifecycle_target =
  Lifecycle_Channels "string list"
| Lifecycle_Conversation string string

(* config/model.rs 608-614 ReviewLifecycleNotificationConfig *)
record review_lifecycle_config =
  rln_enabled :: bool
  rln_events :: "review_lifecycle_event list"
  rln_targets :: "review_lifecycle_target list"
  rln_start_delay_secs :: nat
  rln_end_delay_secs :: nat

(* config/model.rs 616-631 ReviewLifecycleNotificationConfig::default *)
definition review_lifecycle_default :: review_lifecycle_config where
  "review_lifecycle_default =
     \<lparr>rln_enabled = False,
      rln_events = [Lifecycle_Started, Lifecycle_Completed, Lifecycle_Failed, Lifecycle_Interrupted],
      rln_targets = [Lifecycle_Channels []], rln_start_delay_secs = 0, rln_end_delay_secs = 0\<rparr>"

(* model.rs 876-882 WebhookTunnelMode *)
datatype webhook_tunnel_mode = Mode_Quick | Mode_Command | Mode_Listener

text \<open>The fields \<open>listeners\<close> and \<open>tunnels\<close> that the serializer skips are left out.\<close>

(* config/model.rs 785-843 AppConfig *)
record app_config =
  cfg_projects :: "project list"
  cfg_active_project_id :: string
  cfg_webhook_enabled :: bool
  cfg_webhook_port :: nat
  cfg_webhook_secret :: string
  cfg_cli_tools :: cli_tools_config
  cfg_webhook_tunnel_mode :: webhook_tunnel_mode
  cfg_webhook_tunnel_command :: string
  cfg_webhook_public_url :: string
  cfg_local_api_token :: string
  cfg_notification_ttl_secs :: nat
  cfg_rules :: "rule_config list"
  cfg_channels :: "notification_channel list"
  cfg_integrations :: "messaging_integration list"
  cfg_review_lifecycle :: review_lifecycle_config
  cfg_remote_access :: remote_access_config

(* config/model.rs 353-353 DEFAULT_NOTIFICATION_TTL_SECS *)
definition default_notification_ttl_secs :: nat where
  "default_notification_ttl_secs = 2 * 60 * 60"

(* config/model.rs 845-868 AppConfig::default *)
definition default_config :: app_config where
  "default_config = \<lparr>cfg_projects = [], cfg_active_project_id = [], cfg_webhook_enabled = False, cfg_webhook_port = 8787,
     cfg_webhook_secret = [], cfg_cli_tools = default_cli_tools, cfg_webhook_tunnel_mode = Mode_Quick,
     cfg_webhook_tunnel_command = [], cfg_webhook_public_url = [], cfg_local_api_token = [],
     cfg_notification_ttl_secs = default_notification_ttl_secs, cfg_rules = [], cfg_channels = [desktop_channel],
     cfg_integrations = [], cfg_review_lifecycle = review_lifecycle_default, cfg_remote_access = default_remote_access\<rparr>"

section \<open>Validation of rules\<close>

(* config/model.rs 354-354 MAX_CONFIGURED_DELAY_SECS *)
definition max_configured_delay_secs :: nat where
  "max_configured_delay_secs = 365 * 24 * 60 * 60"

text \<open>\<open>chars().any(char::is_whitespace)\<close>: UTF-8 is self-synchronising.\<close>

definition has_whitespace :: "string \<Rightarrow> bool" where
  "has_whitespace s \<longleftrightarrow> list_ex (\<lambda>w. contains_sub s w) white_space"

definition bad_token :: "string \<Rightarrow> bool" where
  "bad_token s \<longleftrightarrow> trim s = [] \<or> CHR '':'' \<in> set s \<or> has_whitespace s"

(* config/model.rs 1820-1827 validate_delay_secs *)
definition validate_delay_secs :: "string \<Rightarrow> nat \<Rightarrow> unit app_result" where
  "validate_delay_secs field delay_secs =
     (if max_configured_delay_secs < delay_secs
      then Inl (AppError (field @ ('' '' @ utf8 [0x4E0D, 0x80FD, 0x8D85, 0x8FC7] @ '' '') @ dec max_configured_delay_secs @ ('' '' @ utf8 [0x79D2])))
      else Inr ())"

fun validate_ids_loop :: "string \<Rightarrow> string list \<Rightarrow> string list \<Rightarrow> unit app_result" where
  "validate_ids_loop field [] seen = Inr ()"
| "validate_ids_loop field (raw # ids) seen =
     (let i = trim raw in
      if i = [] then Inl (AppError (field @ ('' '' @ utf8 [0x4E0D, 0x80FD, 0x5305, 0x542B, 0x7A7A, 0x503C])))
      else if i \<in> set seen then Inl (AppError (field @ ('' '' @ utf8 [0x4E0D, 0x80FD, 0x5305, 0x542B, 0x91CD, 0x590D, 0x503C] @ '': '') @ i))
      else validate_ids_loop field ids (i # seen))"

(* config/model.rs 1829-1841 validate_id_list *)
definition validate_id_list :: "string \<Rightarrow> string list \<Rightarrow> unit app_result" where
  "validate_id_list field ids = validate_ids_loop field ids []"

fun validate_channel_ids :: "notification_channel list \<Rightarrow> string list \<Rightarrow> unit app_result" where
  "validate_channel_ids channels [] = Inr ()"
| "validate_channel_ids channels (i # ids) =
     (case find (\<lambda>c. nch_id c = i) channels of
        None \<Rightarrow> Inl (AppError ((''target.channelIds '' @ utf8 [0x4E0D, 0x5B58, 0x5728] @ '': '') @ i))
      | Some c \<Rightarrow>
          if \<not> nch_enabled c then Inl (AppError ((''target.channelIds '' @ utf8 [0x5DF2, 0x7981, 0x7528] @ '': '') @ i))
          else validate_channel_ids channels ids)"

(* config/model.rs 1749-1818 validate_rule_action_target *)
fun validate_rule_action_target ::
    "rule_action_target \<Rightarrow> notification_channel list \<Rightarrow> messaging_integration list \<Rightarrow> unit app_result" where
  "validate_rule_action_target Target_None channels integrations = Inr ()"
| "validate_rule_action_target (NotificationChannels ids) channels integrations =
     try_bind (validate_id_list ''target.channelIds'' ids) (\<lambda>_.
     if ids = [] \<and> \<not> list_ex nch_enabled channels
     then Inl (AppError (''target.channelIds '' @ utf8 [0x672A, 0x6307, 0x5B9A, 0x4E14, 0x6CA1, 0x6709, 0x542F, 0x7528, 0x7684, 0x901A, 0x77E5, 0x6E20, 0x9053]))
     else validate_channel_ids channels ids)"
| "validate_rule_action_target (MessagingConversation integration_id conversation_id) channels integrations =
     (if trim integration_id = [] then Inl (AppError (''target.integrationId '' @ utf8 [0x4E0D, 0x80FD, 0x4E3A, 0x7A7A]))
      else if trim conversation_id = [] then Inl (AppError (''target.conversationId '' @ utf8 [0x4E0D, 0x80FD, 0x4E3A, 0x7A7A]))
      else case find (\<lambda>m. mi_id m = integration_id) integrations of
        None \<Rightarrow> Inl (AppError ((''target.integrationId '' @ utf8 [0x4E0D, 0x5B58, 0x5728] @ '': '') @ integration_id))
      | Some m \<Rightarrow>
          if \<not> mi_enabled m then Inl (AppError ((''target.integrationId '' @ utf8 [0x5DF2, 0x7981, 0x7528] @ '': '') @ integration_id))
          else if \<not> list_ex (\<lambda>a. trim a = trim conversation_id) (mi_allowed_conversation_ids m)
          then Inl (AppError ((''target.conversationId '' @ utf8 [0x672A, 0x6388, 0x6743] @ '': '') @ conversation_id))
          else Inr ())"

text \<open>The projects whose repositories must hold the rule's skill file.\<close>

definition skill_targets :: "rule_config \<Rightarrow> project list \<Rightarrow> project list app_result" where
  "skill_targets rule projects =
     (if trim (rc_project_id rule) = [] then Inr projects
      else case find (\<lambda>p. prj_id p = rc_project_id rule) projects of
        None \<Rightarrow> Inl (AppError ((''skillPath '' @ utf8 [0x6821, 0x9A8C, 0x9700, 0x8981, 0x5B58, 0x5728, 0x7684] @ '' projectId: '') @ rc_project_id rule))
      | Some p \<Rightarrow> Inr [p])"

fun validate_skill_paths :: "filesystem \<Rightarrow> string \<Rightarrow> project list \<Rightarrow> unit app_result" where
  "validate_skill_paths fs skill_path [] = Inr ()"
| "validate_skill_paths fs skill_path (p # ps) =
     (case resolve_skill_path fs (prj_repo_root p) skill_path of
        Inl e \<Rightarrow> Inl (AppError ((''skillPath '' @ utf8 [0x5728, 0x9879, 0x76EE] @ '' '') @ prj_id p @ ('' '' @ utf8 [0x6821, 0x9A8C, 0x5931, 0x8D25] @ '': '') @ e))
      | Inr _ \<Rightarrow> validate_skill_paths fs skill_path ps)"

definition validate_action_body ::
    "filesystem \<Rightarrow> rule_action_config \<Rightarrow> rule_config \<Rightarrow> app_config \<Rightarrow> unit app_result" where
  "validate_action_body fs action rule cfg =
     (case action of
        RunSkill i en p d l skill_name skill_path command_template ea \<Rightarrow>
          if trim skill_name = [] then Inl (AppError (''skillName '' @ utf8 [0x4E0D, 0x80FD, 0x4E3A, 0x7A7A]))
          else if trim skill_path = [] then Inl (AppError (''skillPath '' @ utf8 [0x4E0D, 0x80FD, 0x4E3A, 0x7A7A]))
          else if trim command_template = [] then Inl (AppError (''commandTemplate '' @ utf8 [0x4E0D, 0x80FD, 0x4E3A, 0x7A7A]))
          else try_bind (skill_targets rule (cfg_projects cfg)) (\<lambda>targets.
            if targets = [] then Inl (AppError (''runSkill skillPath '' @ utf8 [0x6821, 0x9A8C, 0x9700, 0x8981, 0x81F3, 0x5C11, 0x4E00, 0x4E2A] @ '' project''))
            else validate_skill_paths fs skill_path targets)
      | Notify i en target p d l \<Rightarrow>
          validate_rule_action_target target (cfg_channels cfg) (cfg_integrations cfg))"

(* config/model.rs 1674-1747 validate_rule_action *)
definition validate_rule_action ::
    "filesystem \<Rightarrow> rule_action_config \<Rightarrow> rule_config \<Rightarrow> app_config \<Rightarrow> unit app_result" where
  "validate_rule_action fs action rule cfg =
     (if bad_token (ra_id action) then
        Inl (AppError ((''id '' @ utf8 [0x975E, 0x6CD5, 0xFF08, 0x4E0D, 0x80FD, 0x4E3A, 0x7A7A, 0x3001, 0x542B] @ '' `:` '' @ utf8 [0x6216, 0x7A7A, 0x767D, 0x5B57, 0x7B26, 0xFF09] @ '': '') @ debug_str (ra_id action)))
      else if bad_token (ra_level action) then
        Inl (AppError ((''level '' @ utf8 [0x975E, 0x6CD5, 0xFF08, 0x4E0D, 0x80FD, 0x4E3A, 0x7A7A, 0x3001, 0x542B] @ '' `:` '' @ utf8 [0x6216, 0x7A7A, 0x767D, 0x5B57, 0x7B26, 0xFF09] @ '': '') @ debug_str (ra_level action)))
      else
        try_bind (validate_delay_secs ''delaySecs'' (ra_delay_secs action)) (\<lambda>_.
        validate_action_body fs action rule cfg))"

definition at_index :: "string \<Rightarrow> nat \<Rightarrow> string" where
  "at_index name idx = name @ ''['' @ dec idx @ ''].''"

fun validate_actions_loop ::
    "filesystem \<Rightarrow> rule_config \<Rightarrow> app_config \<Rightarrow> nat \<Rightarrow> string list \<Rightarrow> rule_action_config list
      \<Rightarrow> unit app_result" where
  "validate_actions_loop fs rule cfg idx seen [] = Inr ()"
| "validate_actions_loop fs rule cfg idx seen (action # actions) =
     try_bind (map_error (\<lambda>e. AppError (at_index ''actions'' idx @ message e))
       (validate_rule_action fs action rule cfg)) (\<lambda>_.
     if ra_id action \<in> set seen then
       Inl (AppError (at_index ''actions'' idx @ (''id '' @ utf8 [0x52A8, 0x4F5C] @ '' id '' @ utf8 [0x91CD, 0x590D] @ '': '') @ ra_id action))
     else if ra_kind action \<in> set (rc_deny_action_kinds rule) \<or>
         rc_allow_action_kinds rule \<noteq> [] \<and> ra_kind action \<notin> set (rc_allow_action_kinds rule) then
       Inl (AppError (at_index ''actions'' idx @ (''kind '' @ utf8 [0x88AB, 0x7EC4, 0x5408, 0x7B56, 0x7565, 0x62D2, 0x7EDD] @ '': '') @ kind_debug (ra_kind action)))
     else validate_actions_loop fs rule cfg (Suc idx) (ra_id action # seen) actions)"

(* config/model.rs 1627-1672 validate_rule *)
definition validate_rule :: "filesystem \<Rightarrow> rule_config \<Rightarrow> app_config \<Rightarrow> unit app_result" where
  "validate_rule fs rule cfg =
     (if bad_token (rc_id rule) then
        Inl (AppError ((''id '' @ utf8 [0x975E, 0x6CD5, 0xFF08, 0x4E0D, 0x80FD, 0x4E3A, 0x7A7A, 0x3001, 0x542B] @ '' `:` '' @ utf8 [0x6216, 0x7A7A, 0x767D, 0x5B57, 0x7B26, 0xFF09] @ '': '') @ debug_str (rc_id rule)))
      else if trim (rc_name rule) = [] then Inl (AppError (''name '' @ utf8 [0x4E0D, 0x80FD, 0x4E3A, 0x7A7A]))
      else if rc_enabled rule \<and> rc_actions rule = [] then
        Inl (AppError (''actions '' @ utf8 [0x4E0D, 0x80FD, 0x4E3A, 0x7A7A, 0xFF08, 0x542F, 0x7528, 0x89C4, 0x5219, 0x81F3, 0x5C11, 0x9700, 0x8981, 0x4E00, 0x4E2A, 0x52A8, 0x4F5C, 0xFF09]))
      else validate_actions_loop fs rule cfg 0 [] (rc_actions rule))"

text \<open>The rules' part of \<open>validate\<close>.\<close>

fun validate_rules_loop ::
    "filesystem \<Rightarrow> app_config \<Rightarrow> nat \<Rightarrow> string list \<Rightarrow> rule_config list \<Rightarrow> unit app_result" where
  "validate_rules_loop fs cfg idx seen [] = Inr ()"
| "validate_rules_loop fs cfg idx seen (rule # rules) =
     try_bind (map_error (\<lambda>e. AppError (at_index ''rules'' idx @ message e)) (validate_rule fs rule cfg)) (\<lambda>_.
     if rc_id rule \<in> set seen then
       Inl (AppError (at_index ''rules'' idx @ (''id '' @ utf8 [0x89C4, 0x5219] @ '' id '' @ utf8 [0x91CD, 0x590D] @ '': '') @ rc_id rule @ (utf8 [0xFF08, 0x6BCF, 0x6761, 0x89C4, 0x5219, 0x7684] @ '' id '' @ utf8 [0x5FC5, 0x987B, 0x552F, 0x4E00, 0xFF09])))
     else if rc_project_id rule \<noteq> [] \<and> rc_project_id rule \<notin> set (map prj_id (cfg_projects cfg)) then
       Inl (AppError (at_index ''rules'' idx @ (''projectId '' @ utf8 [0x4E0D, 0x6307, 0x5411, 0x4EFB, 0x4F55, 0x73B0, 0x6709, 0x9879, 0x76EE] @ '': '') @ debug_str (rc_project_id rule)))
     else validate_rules_loop fs cfg (Suc idx) (rc_id rule # seen) rules)"

(* config/model.rs 2339-2360 validate *)
definition validate_rules :: "filesystem \<Rightarrow> app_config \<Rightarrow> unit app_result" where
  "validate_rules fs cfg = validate_rules_loop fs cfg 0 [] (cfg_rules cfg)"

section \<open>What a validated rule set satisfies\<close>

lemma validate_actions_loop_Inr:
  assumes "validate_actions_loop fs rule cfg idx seen actions = Inr ()"
  shows "distinct (map ra_id actions) \<and> set (map ra_id actions) \<inter> set seen = {} \<and>
    (\<forall>a \<in> set actions. \<not> bad_token (ra_id a) \<and> ra_delay_secs a \<le> max_configured_delay_secs \<and>
      ra_kind a \<notin> set (rc_deny_action_kinds rule) \<and> validate_rule_action fs a rule cfg = Inr ())"
  using assms
proof (induction actions arbitrary: idx seen)
  case (Cons a actions)
  from Cons.prems have a: "validate_rule_action fs a rule cfg = Inr ()" "ra_id a \<notin> set seen"
    "ra_kind a \<notin> set (rc_deny_action_kinds rule)"
    and rest: "validate_actions_loop fs rule cfg (Suc idx) (ra_id a # seen) actions = Inr ()"
    by (auto simp: try_bind_Inr_iff split: if_splits)
  from a(1) have "\<not> bad_token (ra_id a)" "ra_delay_secs a \<le> max_configured_delay_secs"
    by (auto simp: validate_rule_action_def validate_delay_secs_def try_bind_Inr_iff split: if_splits)
  with a Cons.IH [OF rest] show ?case by auto
qed simp

lemma validate_rule_Inr:
  assumes "validate_rule fs rule cfg = Inr ()"
  shows "\<not> bad_token (rc_id rule) \<and> distinct (map ra_id (rc_actions rule)) \<and>
    (\<forall>a \<in> set (rc_actions rule). \<not> bad_token (ra_id a) \<and> ra_delay_secs a \<le> max_configured_delay_secs \<and>
      ra_kind a \<notin> set (rc_deny_action_kinds rule) \<and> validate_rule_action fs a rule cfg = Inr ())"
proof -
  from assms have "\<not> bad_token (rc_id rule)"
    and loop: "validate_actions_loop fs rule cfg 0 [] (rc_actions rule) = Inr ()"
    by (auto simp: validate_rule_def split: if_splits)
  with validate_actions_loop_Inr [OF loop] show ?thesis by simp
qed

lemma validate_rules_loop_Inr:
  assumes "validate_rules_loop fs cfg idx seen rules = Inr ()"
  shows "distinct (map rc_id rules) \<and> set (map rc_id rules) \<inter> set seen = {} \<and>
    (\<forall>r \<in> set rules. validate_rule fs r cfg = Inr () \<and>
      (rc_project_id r = [] \<or> rc_project_id r \<in> set (map prj_id (cfg_projects cfg))))"
  using assms
proof (induction rules arbitrary: idx seen)
  case (Cons r rules)
  from Cons.prems have r: "validate_rule fs r cfg = Inr ()" "rc_id r \<notin> set seen"
    "rc_project_id r = [] \<or> rc_project_id r \<in> set (map prj_id (cfg_projects cfg))"
    and rest: "validate_rules_loop fs cfg (Suc idx) (rc_id r # seen) rules = Inr ()"
    by (auto simp: try_bind_Inr_iff split: if_splits)
  with Cons.IH [OF rest] show ?case by auto
qed simp

lemma validate_skill_paths_Inr:
  "validate_skill_paths fs sp ps = Inr () \<Longrightarrow> \<forall>p \<in> set ps. \<exists>q. resolve_skill_path fs (prj_repo_root p) sp = Inr q"
  by (induction ps) (auto split: sum.splits)

end
