(* ===== verification/Notifications.thy ===== *)
theory Notifications
  imports Config Outbox_Worker
begin

text \<open>
  Outbound notifications and messages as producers of the outbox (\<open>notification.rs\<close>,
  \<open>messaging_outbox.rs\<close>, the sending half of \<open>messaging/service.rs\<close>): the normalisation of a request,
  the choice of channels, one outbox row per channel, and the deduplication of rows over every status.
  \<open>Url::parse\<close> (crate \<open>url\<close>) is a parameter; the configuration that \<open>config::service::load\<close> returns
  is an argument. A row without a dedupe key draws a fresh UUID; \<open>nonces k\<close> is the one of row \<open>k\<close>.
\<close>

section \<open>Normalising a request\<close>

(* notification.rs 23-23 MAX_TITLE_CHARS *)
definition max_title_chars :: nat where "max_title_chars = 200"

(* notification.rs 24-24 MAX_BODY_CHARS *)
definition max_body_chars :: nat where "max_body_chars = 4000"

(* notification.rs 25-25 MAX_URL_CHARS *)
definition max_url_chars :: nat where "max_url_chars = 2048"

(* notification.rs 26-26 MAX_PROJECT_ID_CHARS *)
definition max_project_id_chars :: nat where "max_project_id_chars = 128"

(* notification.rs 27-27 MAX_CHANNEL_IDS *)
definition max_channel_ids :: nat where "max_channel_ids = 32"

(* notification.rs 28-28 MAX_CHANNEL_ID_CHARS *)
definition max_channel_id_chars :: nat where "max_channel_id_chars = 128"

(* notification.rs 30-37 NormalizedRequest *)
record normalized_request =
  nr_level :: notification_level
  nr_title :: string
  nr_body :: string
  nr_url :: string
  nr_project_id :: string
  nr_channel_ids :: "string list"

(* notification.rs 39-44 PreparedRow *)
record prepared_row =
  pr_project_id :: string
  pr_summary :: string
  pr_payload :: "action_payload json_text"
  pr_dedupe_key :: "string option"

record parsed_url =
  url_scheme :: string
  url_username :: string
  url_password :: "string option"

(* notification.rs 234-241 ensure_len *)
definition ensure_len :: "string \<Rightarrow> string \<Rightarrow> nat \<Rightarrow> unit app_result" where
  "ensure_len field value max_chars =
     (if max_chars < char_count value
      then Inl (AppError ((utf8 [0x901A, 0x77E5] @ '' '') @ field @ ('' '' @ utf8 [0x8FC7, 0x957F, 0xFF08, 0x6700, 0x591A] @ '' '') @ dec max_chars @ ('' '' @ utf8 [0x5B57, 0x7B26, 0xFF09])))
      else Inr ())"

(* notification.rs 212-219 trim_required *)
definition trim_required :: "string \<Rightarrow> string \<Rightarrow> nat \<Rightarrow> string app_result" where
  "trim_required field value max_chars =
     (let value = trim value in
      if value = [] then Inl (AppError ((utf8 [0x901A, 0x77E5] @ '' '') @ field @ ('' '' @ utf8 [0x4E0D, 0x80FD, 0x4E3A, 0x7A7A])))
      else try_bind (ensure_len field value max_chars) (\<lambda>_. Inr value))"

(* notification.rs 221-232 trim_optional *)
definition trim_optional :: "string \<Rightarrow> string option \<Rightarrow> nat \<Rightarrow> string option app_result" where
  "trim_optional field value max_chars =
     (case value of
        None \<Rightarrow> Inr None
      | Some value \<Rightarrow>
          let value = trim value in
          try_bind (ensure_len field value max_chars) (\<lambda>_.
          Inr (if value \<noteq> [] then Some value else None)))"

text \<open>\<open>unwrap_or_default\<close> of an optional string.\<close>

definition str_or_empty :: "string option \<Rightarrow> string" where
  "str_or_empty v = (case v of None \<Rightarrow> [] | Some s \<Rightarrow> s)"

(* notification.rs 243-258 validate_url *)
definition validate_url :: "(string \<Rightarrow> parsed_url option) \<Rightarrow> string \<Rightarrow> unit app_result" where
  "validate_url parse_url url =
     (if url = [] then Inr ()
      else case parse_url url of
        None \<Rightarrow> Inl (AppError (utf8 [0x901A, 0x77E5] @ '' url '' @ utf8 [0x5FC5, 0x987B, 0x662F, 0x5408, 0x6CD5] @ '' URL''))
      | Some p \<Rightarrow>
          if url_scheme p \<notin> {''http'', ''https''} \<or> url_username p \<noteq> [] \<or> url_password p \<noteq> None
          then Inl (AppError (utf8 [0x901A, 0x77E5] @ '' url '' @ utf8 [0x4EC5, 0x652F, 0x6301, 0x65E0] @ '' userinfo '' @ utf8 [0x7684] @ '' http/https URL''))
          else Inr ())"

fun channel_ids_loop :: "string list \<Rightarrow> string list \<Rightarrow> string list \<Rightarrow> string list app_result" where
  "channel_ids_loop [] seen out = Inr out"
| "channel_ids_loop (raw # raws) seen out =
     try_bind (trim_required ''channelId'' raw max_channel_id_chars) (\<lambda>i.
     if i \<in> set seen then Inl (AppError ((utf8 [0x901A, 0x77E5] @ '' channelId '' @ utf8 [0x91CD, 0x590D] @ '': '') @ i))
     else channel_ids_loop raws (i # seen) (out @ [i]))"

(* notification.rs 260-276 normalize_channel_ids *)
definition normalize_channel_ids :: "string list \<Rightarrow> string list app_result" where
  "normalize_channel_ids channel_ids =
     (if max_channel_ids < length channel_ids
      then Inl (AppError ((utf8 [0x901A, 0x77E5] @ '' channelIds '' @ utf8 [0x8FC7, 0x591A, 0xFF08, 0x6700, 0x591A] @ '' '') @ dec max_channel_ids @ ('' '' @ utf8 [0x4E2A, 0xFF09])))
      else channel_ids_loop channel_ids [] [])"

(* notification.rs 190-210 normalize_request *)
definition normalize_request ::
    "(string \<Rightarrow> parsed_url option) \<Rightarrow> send_notification_request \<Rightarrow> normalized_request app_result" where
  "normalize_request parse_url request =
     try_bind (trim_required ''title'' (snr_title request) max_title_chars) (\<lambda>title.
     try_bind (trim_optional ''body'' (snr_body request) max_body_chars) (\<lambda>body.
     try_bind (trim_optional ''url'' (snr_url request) max_url_chars) (\<lambda>url.
     if str_or_empty body = [] \<and> str_or_empty url = []
     then Inl (AppError (utf8 [0x901A, 0x77E5] @ '' body '' @ utf8 [0x4E0E] @ '' url '' @ utf8 [0x81F3, 0x5C11, 0x63D0, 0x4F9B, 0x4E00, 0x4E2A]))
     else
       try_bind (validate_url parse_url (str_or_empty url)) (\<lambda>_.
       try_bind (trim_optional ''projectId'' (snr_project_id request) max_project_id_chars) (\<lambda>project_id.
       try_bind (normalize_channel_ids (snr_channel_ids request)) (\<lambda>channel_ids.
       Inr \<lparr>nr_level = (case snr_level request of None \<Rightarrow> Info | Some l \<Rightarrow> l), nr_title = title,
            nr_body = str_or_empty body, nr_url = str_or_empty url,
            nr_project_id = str_or_empty project_id, nr_channel_ids = channel_ids\<rparr>))))))"

section \<open>Choosing channels and preparing rows\<close>

fun pick_channels :: "notification_channel list \<Rightarrow> string list \<Rightarrow> notification_channel list app_result" where
  "pick_channels channels [] = Inr []"
| "pick_channels channels (i # ids) =
     (case find (\<lambda>c. nch_id c = i) channels of
        None \<Rightarrow> Inl (AppError ((''notificationChannelId '' @ utf8 [0x4E0D, 0x5B58, 0x5728] @ '': '') @ i))
      | Some c \<Rightarrow>
          if \<not> nch_enabled c then Inl (AppError ((''notificationChannelId '' @ utf8 [0x5DF2, 0x7981, 0x7528] @ '': '') @ i))
          else try_bind (pick_channels channels ids) (\<lambda>cs. Inr (c # cs)))"

(* notification.rs 286-312 selected_channels_from_settings *)
definition selected_channels_from_settings ::
    "notification_channel list \<Rightarrow> string list \<Rightarrow> notification_channel list app_result" where
  "selected_channels_from_settings channels channel_ids =
     (if channel_ids = [] then Inr (filter nch_enabled channels)
      else pick_channels channels channel_ids)"

(* notification.rs 278-284 selected_channels *)
definition selected_channels ::
    "app_config app_result \<Rightarrow> string list \<Rightarrow> notification_channel list app_result" where
  "selected_channels load channel_ids =
     try_bind load (\<lambda>cfg. selected_channels_from_settings (cfg_channels cfg) channel_ids)"

definition prepared_row_of ::
    "normalized_request \<Rightarrow> string option \<Rightarrow> notification_channel \<Rightarrow> prepared_row" where
  "prepared_row_of request dedupe_prefix channel =
     (let note = \<lparr>ntf_level = nr_level request, ntf_title = nr_title request, ntf_url = nr_url request,
                  ntf_body = nr_body request, ntf_project_id = nr_project_id request\<rparr> in
      \<lparr>pr_project_id = nr_project_id request,
       pr_summary = nr_title request @ '' via '' @ nch_name channel,
       pr_payload = JsonOf (DeliveryPayload \<lparr>dlv_notification = note, dlv_channel_id = nch_id channel,
         dlv_kind = nch_kind channel\<rparr>),
       pr_dedupe_key = map_option (\<lambda>p. p @ '':'' @ nch_id channel) dedupe_prefix\<rparr>)"

(* notification.rs 129-165 prepare_delivery_rows *)
definition prepare_delivery_rows ::
    "normalized_request \<Rightarrow> notification_channel list \<Rightarrow> string option \<Rightarrow> prepared_row list app_result" where
  "prepare_delivery_rows request channels dedupe_prefix =
     (if channels = [] then Inl (AppError (utf8 [0x6CA1, 0x6709, 0x542F, 0x7528, 0x7684, 0x901A, 0x77E5, 0x6E20, 0x9053, 0x53EF, 0x53D1, 0x9001]))
      else Inr (map (prepared_row_of request dedupe_prefix) channels))"

definition prepared_input :: "nat \<Rightarrow> nat \<Rightarrow> prepared_row \<Rightarrow> enqueue_input" where
  "prepared_input now delay_secs row =
     \<lparr>ei_project_id = pr_project_id row, ei_kind = Kind_Notification, ei_summary = pr_summary row,
      ei_payload = pr_payload row, ei_dedupe_key = pr_dedupe_key row,
      ei_next_attempt_at = Some (sat_add_u64 now delay_secs)\<rparr>"

section \<open>Enqueueing\<close>

definition enqueue_one_prepared :: "string \<Rightarrow> prepared_row \<Rightarrow> nat \<Rightarrow> nat \<Rightarrow> int db_tx" where
  "enqueue_one_prepared nonce row delay_secs now d =
     try_bind (case pr_dedupe_key row of
        None \<Rightarrow> Inr None
      | Some key \<Rightarrow> id_by_dedupe_key_any_status_in_tx (pr_project_id row) key d) (\<lambda>existing.
     case existing of
       Some i \<Rightarrow> Inr (i, d)
     | None \<Rightarrow> enqueue_in_tx nonce (prepared_input now delay_secs row) now d)"

(* notification.rs 167-188 enqueue_prepared_in_tx *)
fun enqueue_prepared_in_tx ::
    "(nat \<Rightarrow> string) \<Rightarrow> nat \<Rightarrow> prepared_row list \<Rightarrow> nat \<Rightarrow> nat \<Rightarrow> int list db_tx" where
  "enqueue_prepared_in_tx nonces k [] delay_secs now d = Inr ([], d)"
| "enqueue_prepared_in_tx nonces k (row # rows) delay_secs now d =
     try_bind (enqueue_one_prepared (nonces k) row delay_secs now d) (\<lambda>(i, d).
     try_bind (enqueue_prepared_in_tx nonces (Suc k) rows delay_secs now d) (\<lambda>(ids, d).
     Inr (i # ids, d)))"

(* notification.rs 104-127 enqueue_notification_in_tx *)
definition enqueue_notification_in_tx ::
    "(string \<Rightarrow> parsed_url option) \<Rightarrow> (nat \<Rightarrow> string) \<Rightarrow> app_config \<Rightarrow> send_notification_request
      \<Rightarrow> string option \<Rightarrow> nat \<Rightarrow> nat \<Rightarrow> int list db_tx" where
  "enqueue_notification_in_tx parse_url nonces cfg request dedupe_prefix delay_secs now d =
     try_bind (normalize_request parse_url request) (\<lambda>request.
     try_bind (selected_channels_from_settings (cfg_channels cfg) (nr_channel_ids request)) (\<lambda>channels.
     try_bind (prepare_delivery_rows request channels dedupe_prefix) (\<lambda>prepared.
     enqueue_prepared_in_tx nonces 0 prepared delay_secs now d)))"

(* notification.rs 71-102 enqueue_notification_with_dedupe_prefix_after *)
definition enqueue_notification_after ::
    "(string \<Rightarrow> parsed_url option) \<Rightarrow> app_config app_result \<Rightarrow> send_notification_request
      \<Rightarrow> string option \<Rightarrow> nat \<Rightarrow> world \<Rightarrow> int list app_result \<times> world" where
  "enqueue_notification_after parse_url load request dedupe_prefix delay_secs w =
     (case try_bind (normalize_request parse_url request) (\<lambda>request.
           try_bind (selected_channels load (nr_channel_ids request)) (\<lambda>channels.
           prepare_delivery_rows request channels dedupe_prefix)) of
        Inl e \<Rightarrow> (Inl e, w)
      | Inr prepared \<Rightarrow>
          (let (now, w) = now_epoch w;
               nonces = (\<lambda>k. w_uuids w (w_uuid w + k));
               w = w\<lparr>w_uuid := w_uuid w + length prepared\<rparr>;
               (r, w) = on_db (with_tx (enqueue_prepared_in_tx nonces 0 prepared delay_secs now)) w
           in case r of
             Inl e \<Rightarrow> (Inl e, w)
           | Inr ids \<Rightarrow> (Inr ids, wake_outbox (fold announce_updated ids w))))"

(* notification.rs 48-61 send_notification *)
definition send_notification ::
    "(string \<Rightarrow> parsed_url option) \<Rightarrow> app_config app_result \<Rightarrow> send_notification_request \<Rightarrow> world
      \<Rightarrow> int list app_result \<times> world" where
  "send_notification parse_url load request w =
     enqueue_notification_after parse_url load request None 0 w"

section \<open>Messages\<close>

(* messaging/service.rs 1054-1054 MAX_SEND_TEXT_BYTES *)
definition max_send_text_bytes :: nat where "max_send_text_bytes = 4096"

(* messaging/service.rs 1055-1055 MAX_SEND_CARD_TITLE_BYTES *)
definition max_send_card_title_bytes :: nat where "max_send_card_title_bytes = 128"

(* messaging/mod.rs 23-32 truncate_utf8_boundary *)
definition truncate_utf8_boundary :: "string \<Rightarrow> nat \<Rightarrow> string" where
  "truncate_utf8_boundary value max_bytes =
     (if length value \<le> max_bytes then value else take (back_to_boundary value max_bytes) value)"

text \<open>\<open>provider_for(kind).capability().supports_information_card\<close>.\<close>

fun supports_information_card :: "messaging_provider_kind \<Rightarrow> bool" where
  "supports_information_card Feishu = True"
| "supports_information_card WeChatWork = False"
| "supports_information_card DingTalk = True"

(* messaging/service.rs 484-488 PreparedSend *)
record prepared_send =
  ps_summary :: string
  ps_payload :: "action_payload json_text"
  ps_dedupe_key :: string

(* messaging/service.rs 869-875 conversation_allowed *)
definition conversation_allowed :: "messaging_integration \<Rightarrow> string \<Rightarrow> bool" where
  "conversation_allowed integration conversation_id =
     list_ex (\<lambda>allowed. trim allowed = trim conversation_id) (mi_allowed_conversation_ids integration)"

(* messaging/service.rs 575-581 active_send_dedupe_key *)
definition active_send_dedupe_key :: "string \<Rightarrow> string \<Rightarrow> string" where
  "active_send_dedupe_key integration_id request_id =
     ''messaging-send:'' @ trim integration_id @ '':'' @ trim request_id"

fun prepare_content ::
    "messaging_integration \<Rightarrow> messaging_send_content \<Rightarrow> messaging_send_content app_result" where
  "prepare_content integration (Text text) =
     (if trim text = [] then Inl (AppError (utf8 [0x6D88, 0x606F, 0x6B63, 0x6587, 0x4E0D, 0x80FD, 0x4E3A, 0x7A7A]))
      else Inr (Text (truncate_utf8_boundary (trim text) max_send_text_bytes)))"
| "prepare_content integration (Card title text template) =
     (if \<not> supports_information_card (mi_kind integration) then
        Inl (AppError (utf8 [0x4FE1, 0x606F, 0x5361, 0x7247, 0x4E0D, 0x53D7, 0x652F, 0x6301, 0xFF1A, 0x6D88, 0x606F, 0x96C6, 0x6210, 0x300C] @ mi_name integration @ (utf8 [0x300D, 0x662F] @ '' '')
          @ provider_as_wire (mi_kind integration)))
      else if trim title = [] then Inl (AppError (utf8 [0x5361, 0x7247, 0x6807, 0x9898, 0x4E0D, 0x80FD, 0x4E3A, 0x7A7A]))
      else if trim text = [] then Inl (AppError (utf8 [0x5361, 0x7247, 0x6B63, 0x6587, 0x4E0D, 0x80FD, 0x4E3A, 0x7A7A]))
      else Inr (Card (truncate_utf8_boundary (trim title) max_send_card_title_bytes)
                  (truncate_utf8_boundary (trim text) max_send_text_bytes) template))"

fun send_kind :: "messaging_send_content \<Rightarrow> string" where
  "send_kind (Text t) = ''text''"
| "send_kind (Card a b c) = ''card''"

(* messaging/service.rs 489-573 prepare_send *)
definition prepare_send ::
    "messaging_integration \<Rightarrow> send_messaging_request \<Rightarrow> prepared_send app_result" where
  "prepare_send integration request =
     (if \<not> mi_enabled integration then
        Inl (AppError (utf8 [0x6D88, 0x606F, 0x96C6, 0x6210, 0x300C] @ mi_name integration @ utf8 [0x300D, 0x5DF2, 0x7981, 0x7528, 0xFF0C, 0x4E0D, 0x80FD, 0x53D1, 0x9001]))
      else if \<not> conversation_allowed integration (trim (smr_conversation_id request)) then
        Inl (AppError ((''conversationId '' @ utf8 [0x672A, 0x6388, 0x6743, 0x4F7F, 0x7528, 0x6D88, 0x606F, 0x96C6, 0x6210, 0x300C]) @ mi_name integration @ utf8 [0x300D]))
      else if trim (smr_request_id request) = [] then
        Inl (AppError (''messaging requestId '' @ utf8 [0x4E0D, 0x80FD, 0x4E3A, 0x7A7A]))
      else
        try_bind (prepare_content integration (smr_content request)) (\<lambda>content.
        Inr \<lparr>ps_summary = ''Messaging '' @ send_kind content @ '' '' @ provider_as_wire (mi_kind integration)
               @ ('' '' @ utf8 [0x2192] @ '' '') @ trim (smr_conversation_id request),
             ps_payload = JsonOf (SendPayload \<lparr>msp_integration_id = mi_id integration,
               msp_provider = mi_kind integration,
               msp_conversation_id = trim (smr_conversation_id request), msp_content = content\<rparr>),
             ps_dedupe_key = active_send_dedupe_key (mi_id integration) (trim (smr_request_id request))\<rparr>))"

(* messaging_outbox.rs 17-17 MESSAGING_OUTBOX_SCOPE *)
definition messaging_outbox_scope :: string where
  "messaging_outbox_scope = ''__messaging__''"

definition integration_missing :: "string \<Rightarrow> app_error" where
  "integration_missing i = AppError ((''messagingIntegrationId '' @ utf8 [0x4E0D, 0x5B58, 0x5728] @ '': '') @ i)"

(* messaging_outbox.rs 19-58 enqueue_send_once_after_in_tx *)
definition enqueue_send_once_after_in_tx ::
    "app_config \<Rightarrow> send_messaging_request \<Rightarrow> nat \<Rightarrow> nat \<Rightarrow> int db_tx" where
  "enqueue_send_once_after_in_tx cfg request delay_secs now d =
     try_bind (ok_or (find (\<lambda>m. mi_id m = smr_integration_id request) (cfg_integrations cfg))
       (integration_missing (smr_integration_id request))) (\<lambda>integration.
     try_bind (prepare_send integration request) (\<lambda>prepared.
     try_bind (id_by_dedupe_key_any_status_in_tx messaging_outbox_scope (ps_dedupe_key prepared) d) (\<lambda>existing.
     case existing of
       Some i \<Rightarrow> Inr (i, d)
     | None \<Rightarrow>
         enqueue_in_tx [] \<lparr>ei_project_id = messaging_outbox_scope, ei_kind = Kind_MessagingSend,
           ei_summary = ps_summary prepared, ei_payload = ps_payload prepared,
           ei_dedupe_key = Some (ps_dedupe_key prepared),
           ei_next_attempt_at = Some (sat_add_u64 now delay_secs)\<rparr> now d)))"

(* config/service.rs 153-163 messaging_integration *)
definition find_integration :: "app_config app_result \<Rightarrow> string \<Rightarrow> messaging_integration app_result" where
  "find_integration load i =
     try_bind load (\<lambda>cfg.
     ok_or (find (\<lambda>m. mi_id m = i) (cfg_integrations cfg)) (integration_missing i))"

(* lib.rs 141-159 MessagingActionsImpl::enqueue_send_after *)
definition actions_enqueue_send_after ::
    "string \<Rightarrow> action_payload json_text \<Rightarrow> string \<Rightarrow> nat \<Rightarrow> world \<Rightarrow> int app_result \<times> world" where
  "actions_enqueue_send_after summary payload dedupe_key delay_secs w =
     service_enqueue_deduped_after messaging_outbox_scope Kind_MessagingSend summary payload dedupe_key
       delay_secs w"

(* lib.rs 161-188 MessagingActionsImpl::enqueue_send_once_after *)
definition actions_enqueue_send_once_after ::
    "string \<Rightarrow> action_payload json_text \<Rightarrow> string \<Rightarrow> nat \<Rightarrow> world \<Rightarrow> int app_result \<times> world" where
  "actions_enqueue_send_once_after summary payload dedupe_key delay_secs w =
     (case id_by_dedupe_key_any_status messaging_outbox_scope dedupe_key (w_db w) of
        Inl e \<Rightarrow> (Inl e, w)
      | Inr (Some i) \<Rightarrow> (Inr i, w)
      | Inr None \<Rightarrow> actions_enqueue_send_after summary payload dedupe_key delay_secs w)"

(* messaging/service.rs 452-482 enqueue_send_scoped_after *)
definition enqueue_send_scoped_after ::
    "app_config app_result \<Rightarrow> send_messaging_request \<Rightarrow> nat \<Rightarrow> bool \<Rightarrow> world \<Rightarrow> int app_result \<times> world" where
  "enqueue_send_scoped_after load request delay_secs all_status_dedupe w =
     (case try_bind (find_integration load (smr_integration_id request)) (\<lambda>integration.
           prepare_send integration request) of
        Inl e \<Rightarrow> (Inl e, w)
      | Inr p \<Rightarrow>
          if all_status_dedupe
          then actions_enqueue_send_once_after (ps_summary p) (ps_payload p) (ps_dedupe_key p) delay_secs w
          else actions_enqueue_send_after (ps_summary p) (ps_payload p) (ps_dedupe_key p) delay_secs w)"

text \<open>
  The checks an executor makes before it sends: the configuration may have changed since the row was
  enqueued. Sending is the provider's.
\<close>

definition kind_debug_provider :: "messaging_provider_kind \<Rightarrow> string" where
  "kind_debug_provider k = (case k of Feishu \<Rightarrow> ''Feishu'' | WeChatWork \<Rightarrow> ''WeChatWork'' | DingTalk \<Rightarrow> ''DingTalk'')"

(* messaging/service.rs 583-615 execute_send *)
definition execute_send ::
    "app_config app_result \<Rightarrow> (messaging_integration \<Rightarrow> string \<Rightarrow> messaging_send_content
      \<Rightarrow> action_execution_result app_result) \<Rightarrow> messaging_send_payload
      \<Rightarrow> action_execution_result app_result" where
  "execute_send load send payload =
     (case find_integration load (msp_integration_id payload) of
        Inl e \<Rightarrow>
          if contains_sub (message e) (''messagingIntegrationId '' @ utf8 [0x4E0D, 0x5B58, 0x5728]) then Inr (Exec_Dead (message e))
          else Inl e
      | Inr m \<Rightarrow>
          if \<not> mi_enabled m then
            Inr (Exec_Dead (utf8 [0x6D88, 0x606F, 0x96C6, 0x6210, 0x300C] @ mi_name m @ utf8 [0x300D, 0x5DF2, 0x7981, 0x7528, 0xFF0C, 0x505C, 0x6B62, 0x53D1, 0x9001]))
          else if mi_kind m \<noteq> msp_provider payload then
            Inr (Exec_Dead (utf8 [0x6D88, 0x606F, 0x96C6, 0x6210, 0x300C] @ mi_name m @ (utf8 [0x300D] @ ''kind '' @ utf8 [0x5DF2, 0x4ECE] @ '' '') @ kind_debug_provider (msp_provider payload)
              @ ('' '' @ utf8 [0x6539, 0x4E3A] @ '' '') @ kind_debug_provider (mi_kind m) @ utf8 [0xFF0C, 0x505C, 0x6B62, 0x53D1, 0x9001]))
          else if \<not> conversation_allowed m (msp_conversation_id payload) then
            Inr (Exec_Dead ((''conversationId '' @ utf8 [0x672A, 0x6388, 0x6743, 0x4F7F, 0x7528, 0x6D88, 0x606F, 0x96C6, 0x6210, 0x300C]) @ mi_name m @ utf8 [0x300D]))
          else send m (msp_conversation_id payload) (msp_content payload))"

end
