(* ===== verification/Notification_Properties.thy ===== *)
theory Notification_Properties
  imports Notifications Outbox_Worker_Facts
begin

text \<open>
  What the producers of notifications and messages guarantee: one outbox row per channel or none, the
  same rows when a request with a dedupe prefix is repeated, whatever became of them, and bounded
  message texts of whole characters. The facts about a growing outbox are shared with the rule engine.
\<close>

section \<open>The growing outbox\<close>

text \<open>A transaction that only appends rows to the outbox.\<close>

definition outbox_grows :: "db \<Rightarrow> db \<Rightarrow> bool" where
  "outbox_grows d d' \<longleftrightarrow>
     (\<exists>t rs. d' = d\<lparr>db_outbox := t\<rparr> \<and> tb_rows t = tb_rows (db_outbox d) @ rs)"

definition any_status_id :: "string \<Rightarrow> string \<Rightarrow> db \<Rightarrow> int option" where
  "any_status_id p k d =
     map_option ob_id (find (\<lambda>r. ob_project_id r = p \<and> ob_dedupe_key r = Some k) (tb_rows (db_outbox d)))"

text \<open>A row whose producer key is that of a dedupe key has this dedupe key.\<close>

definition producer_consistent :: "db \<Rightarrow> bool" where
  "producer_consistent d \<longleftrightarrow>
     (\<forall>r \<in> set (tb_rows (db_outbox d)). \<forall>p k.
        producer_for_dedupe p k = Inr (ob_producer_key r) \<longrightarrow> ob_project_id r = p \<and> ob_dedupe_key r = Some k)"

lemma outbox_grows_refl [simp]: "outbox_grows d d"
  unfolding outbox_grows_def by (intro exI [of _ "db_outbox d"] exI [of _ "[]"]) simp

lemma outbox_grows_trans:
  assumes "outbox_grows d d1" and "outbox_grows d1 d2"
  shows "outbox_grows d d2"
proof -
  from assms obtain t rs u ss where "d1 = d\<lparr>db_outbox := t\<rparr>" "tb_rows t = tb_rows (db_outbox d) @ rs"
    "d2 = d1\<lparr>db_outbox := u\<rparr>" "tb_rows u = tb_rows (db_outbox d1) @ ss"
    by (auto simp: outbox_grows_def)
  then show ?thesis
    unfolding outbox_grows_def by (intro exI [of _ u] exI [of _ "rs @ ss"]) simp
qed

lemma outbox_grows_find:
  assumes "outbox_grows d d'" and "find p (tb_rows (db_outbox d)) = Some r"
  shows "find p (tb_rows (db_outbox d')) = Some r"
proof -
  have "find p (xs @ ys) = Some r" if "find p xs = Some r" for xs ys
    using that by (induction xs) (auto split: if_splits)
  with assms show ?thesis by (auto simp: outbox_grows_def)
qed

lemma outbox_grows_any:
  "outbox_grows d d' \<Longrightarrow> any_status_id p k d = Some i \<Longrightarrow> any_status_id p k d' = Some i"
  by (auto simp: any_status_id_def dest: outbox_grows_find)

lemma outbox_grows_ids:
  "outbox_grows d d' \<Longrightarrow> ob_id ` set (tb_rows (db_outbox d)) \<subseteq> ob_id ` set (tb_rows (db_outbox d'))"
  by (auto simp: outbox_grows_def)

lemma outbox_grows_other:
  assumes "outbox_grows d d'"
  shows "db_inbox d' = db_inbox d" "db_rule_match d' = db_rule_match d"
    "db_match_action d' = db_match_action d" "db_session d' = db_session d"
    "db_workflow d' = db_workflow d" "db_receipt_workflow d' = db_receipt_workflow d"
  using assms by (auto simp: outbox_grows_def)

lemma enqueue_inner_grows:
  assumes "enqueue_inner_tx row producer now d = Inr (i, d')"
  shows "outbox_grows d d'"
  using assms
  by (cases rule: enqueue_inner_txE) (auto simp: outbox_grows_def table_simps)

lemma enqueue_in_grows: "enqueue_in_tx nonce row now d = Inr (i, d') \<Longrightarrow> outbox_grows d d'"
  by (auto simp: enqueue_in_tx_def try_bind_Inr_iff dest: enqueue_inner_grows)

text \<open>The consistency of the producer keys is kept by every way to enqueue.\<close>

lemma consistent_append:
  assumes "producer_consistent d" and "enqueue_inner_tx row producer now d = Inr (i, d')"
    and "\<And>p k. producer_for_dedupe p k = Inr producer \<Longrightarrow> ei_project_id row = p \<and> ei_dedupe_key row = Some k"
  shows "producer_consistent d'"
proof -
  from enqueue_inner_tx_rows [OF assms(2)] show ?thesis
    using assms(1,3) by (fastforce simp: producer_consistent_def)
qed

lemma consistent_rule_producer:
  assumes "producer_consistent d" and "producer_for_rule_action j rl a = Inr producer"
    and "enqueue_inner_tx row producer now d = Inr (i, d')"
  shows "producer_consistent d'"
proof (rule consistent_append [OF assms(1,3)])
  fix p k
  assume "producer_for_dedupe p k = Inr producer"
  with producer_rule_action_Inr [OF assms(2)] producer_dedupe_Inr [of p k producer]
  show "ei_project_id row = p \<and> ei_dedupe_key row = Some k" by simp
qed

lemma consistent_enqueue_in:
  assumes "producer_consistent d" and "enqueue_in_tx nonce row now d = Inr (i, d')"
  shows "producer_consistent d'"
proof -
  from assms(2) obtain producer where pr: "default_producer_key nonce row = Inr producer"
    and e: "enqueue_inner_tx row producer now d = Inr (i, d')"
    by (auto simp: enqueue_in_tx_def try_bind_Inr_iff)
  show ?thesis
  proof (rule consistent_append [OF assms(1) e])
    fix p k
    assume pk: "producer_for_dedupe p k = Inr producer"
    show "ei_project_id row = p \<and> ei_dedupe_key row = Some k"
    proof (cases "ei_dedupe_key row")
      case None
      with pr obtain n where "producer_for_manual (ei_project_id row) (ei_kind row) n = Inr producer"
        by (auto simp: default_producer_key_def try_bind_Inr_iff)
      with producer_manual_Inr producer_dedupe_Inr [OF pk] show ?thesis by fastforce
    next
      case (Some k')
      with pr have "producer_for_dedupe (ei_project_id row) k' = Inr producer"
        by (simp add: default_producer_key_def)
      with producer_dedupe_inj [OF pk] Some show ?thesis by auto
    qed
  qed
qed

section \<open>Deduplicated rows as a keyed store\<close>

lemma enqueue_one_grows:
  "enqueue_one_prepared nonce row delay_secs now d = Inr (i, d') \<Longrightarrow> outbox_grows d d'"
  by (auto simp: enqueue_one_prepared_def id_by_dedupe_key_any_status_in_tx_def
      dest: enqueue_in_grows split: option.splits)

lemma enqueue_one_consistent:
  "producer_consistent d \<Longrightarrow> enqueue_one_prepared nonce row delay_secs now d = Inr (i, d') \<Longrightarrow> producer_consistent d'"
  by (auto simp: enqueue_one_prepared_def id_by_dedupe_key_any_status_in_tx_def
      dest: consistent_enqueue_in split: option.splits)

lemma enqueue_one_known:
  "pr_dedupe_key row = Some k \<Longrightarrow> any_status_id (pr_project_id row) k d = Some i \<Longrightarrow>
    enqueue_one_prepared nonce row delay_secs now d = Inr (i, d)"
  by (auto simp: enqueue_one_prepared_def id_by_dedupe_key_any_status_in_tx_def any_status_id_def)

text \<open>Enqueueing under a fresh dedupe key makes the row findable under it.\<close>

lemma enqueue_in_recorded:
  assumes "producer_consistent d" and "enqueue_in_tx nonce row now d = Inr (i, d')"
    and "ei_dedupe_key row = Some k" and "any_status_id (ei_project_id row) k d = None"
  shows "any_status_id (ei_project_id row) k d' = Some i"
proof -
  from assms(2,3) obtain producer where pr: "producer_for_dedupe (ei_project_id row) k = Inr producer"
    and e: "enqueue_inner_tx row producer now d = Inr (i, d')"
    by (auto simp: enqueue_in_tx_def try_bind_Inr_iff default_producer_key_def)
  from assms(4) have none: "\<forall>r \<in> set (tb_rows (db_outbox d)). \<not> (ob_project_id r = ei_project_id row \<and> ob_dedupe_key r = Some k)"
    by (auto simp: any_status_id_def find_None_iff)
  from e show ?thesis
  proof (cases rule: enqueue_inner_txE)
    case inserted
    moreover from assms(4) have "find (\<lambda>r. ob_project_id r = ei_project_id row \<and> ob_dedupe_key r = Some k)
        (tb_rows (db_outbox d)) = None" by (simp add: any_status_id_def)
    ultimately show ?thesis
      using assms(3) by (simp add: any_status_id_def producer_id_append table_simps)
  next
    case known
    with assms(1) pr none show ?thesis by (auto simp: producer_consistent_def dest!: find_SomeD)
  next
    case live
    with none assms(3) show ?thesis by (auto dest!: find_SomeD)
  qed
qed

lemma enqueue_one_recorded:
  assumes "producer_consistent d" and "enqueue_one_prepared nonce row delay_secs now d = Inr (i, d')"
    and "pr_dedupe_key row = Some k"
  shows "any_status_id (pr_project_id row) k d' = Some i"
proof (cases "any_status_id (pr_project_id row) k d")
  case None
  with assms(2,3) have "enqueue_in_tx nonce (prepared_input now delay_secs row) now d = Inr (i, d')"
    by (auto simp: enqueue_one_prepared_def id_by_dedupe_key_any_status_in_tx_def any_status_id_def)
  from enqueue_in_recorded [OF assms(1) this, of k] None assms(3) show ?thesis
    by (simp add: prepared_input_def)
next
  case (Some j)
  with enqueue_one_known [OF assms(3) Some] assms(2) show ?thesis by simp
qed

definition notify_once ::
    "string \<times> string \<Rightarrow> string \<times> prepared_row \<times> nat \<times> nat \<Rightarrow> db \<Rightarrow> (int \<times> db) option" where
  "notify_once key a d =
     (case (key, a) of ((p, k), (nonce, row, delay_secs, now)) \<Rightarrow>
        ok (enqueue_one_prepared nonce (row\<lparr>pr_project_id := p, pr_dedupe_key := Some k\<rparr>) delay_secs now d))"

lemma notify_once_iff:
  "notify_once (p, k) (nonce, row, delay_secs, now) d = Some (i, d') \<longleftrightarrow>
     enqueue_one_prepared nonce (row\<lparr>pr_project_id := p, pr_dedupe_key := Some k\<rparr>) delay_secs now d = Inr (i, d')"
  by (cases "enqueue_one_prepared nonce (row\<lparr>pr_project_id := p, pr_dedupe_key := Some k\<rparr>) delay_secs now d")
     (auto simp: notify_once_def)

interpretation notification_queue:
  keyed_store notify_once "\<lambda>(p, k). any_status_id p k" producer_consistent
proof unfold_locales
  fix key :: "string \<times> string" and a :: "string \<times> prepared_row \<times> nat \<times> nat" and d i d'
  obtain p k where key: "key = (p, k)" by (cases key)
  obtain nonce row delay_secs now where a: "a = (nonce, row, delay_secs, now)" by (cases a)
  show "producer_consistent d'" if "producer_consistent d" "notify_once key a d = Some (i, d')"
    using that by (auto simp: key a notify_once_iff dest: enqueue_one_consistent)
  show "j = i" if "producer_consistent d" "(case key of (p, k) \<Rightarrow> any_status_id p k) d = Some i"
    "notify_once key a d = Some (j, d')" for j
    using that enqueue_one_known [of "row\<lparr>pr_project_id := p, pr_dedupe_key := Some k\<rparr>" k d i]
    by (auto simp: key a notify_once_iff)
  show "(case q of (p, k) \<Rightarrow> any_status_id p k) d' = Some j"
    if "producer_consistent d" "notify_once key a d = Some (i, d')" "(case q of (p, k) \<Rightarrow> any_status_id p k) d = Some j" for q j
    using that by (auto simp: key a notify_once_iff dest: enqueue_one_grows outbox_grows_any split: prod.splits)
qed

lemma enqueue_prepared_grows:
  "enqueue_prepared_in_tx nonces n rows delay_secs now d = Inr (ids, d') \<Longrightarrow> outbox_grows d d'"
proof (induction rows arbitrary: n d ids)
  case (Cons row rows)
  from Cons.prems obtain i d1 ids' where one: "enqueue_one_prepared (nonces n) row delay_secs now d = Inr (i, d1)"
    and rest: "enqueue_prepared_in_tx nonces (Suc n) rows delay_secs now d1 = Inr (ids', d')"
    by (auto simp: try_bind_Inr_iff)
  from outbox_grows_trans [OF enqueue_one_grows [OF one] Cons.IH [OF rest]] show ?case .
qed simp

lemma enqueue_prepared_consistent:
  "producer_consistent d \<Longrightarrow> enqueue_prepared_in_tx nonces n rows delay_secs now d = Inr (ids, d') \<Longrightarrow>
    producer_consistent d'"
proof (induction rows arbitrary: n d ids)
  case (Cons row rows)
  from Cons.prems(2) obtain i d1 ids' where one: "enqueue_one_prepared (nonces n) row delay_secs now d = Inr (i, d1)"
    and rest: "enqueue_prepared_in_tx nonces (Suc n) rows delay_secs now d1 = Inr (ids', d')"
    by (auto simp: try_bind_Inr_iff)
  from Cons.IH [OF enqueue_one_consistent [OF Cons.prems(1) one] rest] show ?case .
qed simp

lemma enqueue_prepared_length:
  "enqueue_prepared_in_tx nonces n rows delay_secs now d = Inr (ids, d') \<Longrightarrow> length ids = length rows"
  by (induction rows arbitrary: n d ids) (fastforce simp: try_bind_Inr_iff)+

text \<open>Afterwards every row of the batch is found under its dedupe key, with the id that was returned.\<close>

lemma enqueue_prepared_recorded:
  assumes "producer_consistent d" and "enqueue_prepared_in_tx nonces n rows delay_secs now d = Inr (ids, d')"
  shows "list_all2 (\<lambda>row i. \<forall>k. pr_dedupe_key row = Some k \<longrightarrow> any_status_id (pr_project_id row) k d' = Some i) rows ids"
  using assms
proof (induction rows arbitrary: n d ids)
  case (Cons row rows)
  from Cons.prems(2) obtain i d1 ids' where one: "enqueue_one_prepared (nonces n) row delay_secs now d = Inr (i, d1)"
    and rest: "enqueue_prepared_in_tx nonces (Suc n) rows delay_secs now d1 = Inr (ids', d')" and ids: "ids = i # ids'"
    by (auto simp: try_bind_Inr_iff)
  from Cons.IH [OF enqueue_one_consistent [OF Cons.prems(1) one] rest]
    enqueue_one_recorded [OF Cons.prems(1) one] outbox_grows_any [OF enqueue_prepared_grows [OF rest]]
  show ?case by (auto simp: ids)
qed simp

lemma enqueue_prepared_known:
  assumes "list_all2 (\<lambda>row i. \<exists>k. pr_dedupe_key row = Some k \<and> any_status_id (pr_project_id row) k d = Some i) rows ids"
  shows "enqueue_prepared_in_tx nonces n rows delay_secs now d = Inr (ids, d)"
  using assms
  by (induction rows ids arbitrary: n rule: list_all2_induct) (auto simp: enqueue_one_known)

section \<open>Requests\<close>

lemma announce_updated_db [simp]: "w_db (announce_updated i w) = w_db w"
  by (auto simp: announce_updated_def try_announce_updated_def announce_cycle_error_def split: sum.split option.split)

lemma fold_announce_db [simp]: "w_db (fold announce_updated ids w) = w_db w"
  by (induction ids arbitrary: w) simp_all

lemma selected_enabled:
  "selected_channels_from_settings channels ids = Inr cs \<Longrightarrow> list_all nch_enabled cs"
proof -
  have "pick_channels channels ids = Inr cs \<Longrightarrow> list_all nch_enabled cs" for cs
    by (induction ids arbitrary: cs) (auto simp: try_bind_Inr_iff split: option.splits if_splits)
  then show "selected_channels_from_settings channels ids = Inr cs \<Longrightarrow> list_all nch_enabled cs"
    by (auto simp: selected_channels_from_settings_def list_all_iff split: if_splits)
qed

lemma enqueue_notification_in_txE:
  assumes "enqueue_notification_in_tx parse_url nonces cfg request dedupe_prefix delay_secs now d = Inr (ids, d')"
  obtains n cs where "normalize_request parse_url request = Inr n"
    "selected_channels_from_settings (cfg_channels cfg) (nr_channel_ids n) = Inr cs" "cs \<noteq> []"
    "enqueue_prepared_in_tx nonces 0 (map (prepared_row_of n dedupe_prefix) cs) delay_secs now d = Inr (ids, d')"
  using assms
  by (auto simp: enqueue_notification_in_tx_def try_bind_Inr_iff prepare_delivery_rows_def split: if_splits)

lemma prepared_row_sel [simp]:
  "pr_project_id (prepared_row_of n p c) = nr_project_id n"
  "pr_dedupe_key (prepared_row_of n p c) = map_option (\<lambda>p. p @ '':'' @ nch_id c) p"
  by (simp_all add: prepared_row_of_def Let_def)

text \<open>
  A notification with a dedupe prefix is enqueued once: repeating the request, with any delay, at
  any time and in any later state that still has the rows, whatever became of them, returns the same
  outbox ids and changes nothing.
\<close>

theorem notification_prefix_idempotent:
  assumes "producer_consistent d"
    and "enqueue_notification_in_tx parse_url nonces cfg request (Some pre) delay_secs now d = Inr (ids, d1)"
    and "\<And>p k i. any_status_id p k d1 = Some i \<Longrightarrow> any_status_id p k d2 = Some i"
  shows "enqueue_notification_in_tx parse_url nonces' cfg request (Some pre) delay_secs' later d2 = Inr (ids, d2)"
proof -
  from assms(2) obtain n cs where n: "normalize_request parse_url request = Inr n"
    and cs: "selected_channels_from_settings (cfg_channels cfg) (nr_channel_ids n) = Inr cs" "cs \<noteq> []"
    and e: "enqueue_prepared_in_tx nonces 0 (map (prepared_row_of n (Some pre)) cs) delay_secs now d = Inr (ids, d1)"
    by (rule enqueue_notification_in_txE)
  have "list_all2 (\<lambda>row i. \<exists>k. pr_dedupe_key row = Some k \<and> any_status_id (pr_project_id row) k d2 = Some i)
      (map (prepared_row_of n (Some pre)) cs) ids"
    using enqueue_prepared_recorded [OF assms(1) e] assms(3) by (auto simp: list_all2_conv_all_nth)
  from enqueue_prepared_known [OF this] n cs show ?thesis
    by (simp add: enqueue_notification_in_tx_def prepare_delivery_rows_def)
qed

abbreviation desktop :: notification_channel where
  "desktop \<equiv> desktop_channel"

abbreviation desktop_config :: app_config where
  "desktop_config \<equiv> default_config"

definition sample_request :: "string option \<Rightarrow> send_notification_request" where
  "sample_request project = \<lparr>snr_level = None, snr_title = ''t'', snr_body = Some ''b'', snr_url = None,
     snr_project_id = project, snr_channel_ids = []\<rparr>"

lemma trim_short [simp]: "trim ''t'' = ''t''" "trim ''b'' = ''b''" "trim ''p'' = ''p''"
  "trim ''t:desktop'' = ''t:desktop''"
  by (rule trim_alnum, simp_all add: is_ascii_alphanumeric_def is_ascii_digit_def byte_of_def)+

lemma sample_request_normal:
  "normalize_request parse_url (sample_request None) = Inr \<lparr>nr_level = Info, nr_title = ''t'', nr_body = ''b'',
     nr_url = [], nr_project_id = [], nr_channel_ids = []\<rparr>"
  "normalize_request parse_url (sample_request (Some ''p'')) = Inr \<lparr>nr_level = Info, nr_title = ''t'', nr_body = ''b'',
     nr_url = [], nr_project_id = ''p'', nr_channel_ids = []\<rparr>"
  by (simp_all add: normalize_request_def sample_request_def trim_required_def trim_optional_def ensure_len_def
      char_count_def is_continuation_def byte_of_def max_title_chars_def max_body_chars_def
      max_project_id_chars_def str_or_empty_def validate_url_def normalize_channel_ids_def)

theorem notification_prefix_idempotent_witness:
  "\<exists>d1. enqueue_notification_in_tx (\<lambda>u. None) (\<lambda>k. []) desktop_config (sample_request (Some ''p'')) (Some ''t'') 0 5 empty_db
      = Inr ([1], d1) \<and>
    enqueue_notification_in_tx (\<lambda>u. None) (\<lambda>k. []) desktop_config (sample_request (Some ''p'')) (Some ''t'') 0 9 d1
      = Inr ([1], d1)"
proof -
  have "trim (''dedupe:'' @ s) \<noteq> []" for s
    by (rule trim_not_Nil [of "CHR ''d''"]) (simp_all add: is_ascii_alphanumeric_def byte_of_def)
  then obtain key where pr: "producer_for_dedupe ''p'' ''t:desktop'' = Inr key" and key: "key \<noteq> []"
    by (auto simp: producer_for_dedupe_def new_key_def non_empty_def)
  have c: "producer_consistent empty_db" by (simp add: producer_consistent_def empty_db_def empty_table_def)
  have "\<exists>d1. enqueue_notification_in_tx (\<lambda>u. None) (\<lambda>k. []) desktop_config (sample_request (Some ''p'')) (Some ''t'') 0 5 empty_db
      = Inr ([1], d1)"
    by (simp add: enqueue_notification_in_tx_def sample_request_normal default_config_def desktop_channel_def
        selected_channels_from_settings_def prepare_delivery_rows_def enqueue_one_prepared_def
        id_by_dedupe_key_any_status_in_tx_def empty_db_def empty_table_def enqueue_in_tx_def default_producer_key_def
        prepared_row_of_def prepared_input_def pr key enqueue_inner_tx_def sqlite_epoch_def i64_max_def sat_add_u64_def
        u64_max_def tbl_next_def outbox_insertable_def outbox_check_def enqueue_row_def outbox_kinds_def
        outbox_statuses_def thread_check_def unique_index_def kind_as_wire_def Let_def split: option.split)
  then obtain d1 where d1: "enqueue_notification_in_tx (\<lambda>u. None) (\<lambda>k. []) desktop_config (sample_request (Some ''p'')) (Some ''t'') 0 5 empty_db
      = Inr ([1], d1)" by blast
  from notification_prefix_idempotent [OF c d1, of d1] d1 show ?thesis by blast
qed

text \<open>
  A notification that names no project is never sent: although the request's project is optional,
  every such request that passes validation fails with an error and enqueues nothing, since a producer
  key needs a project.
\<close>

theorem notification_without_project_fails:
  assumes "normalize_request parse_url request = Inr n" and "nr_project_id n = []"
  shows "\<exists>e w'. send_notification parse_url load request w = (Inl e, w') \<and> w_db w' = w_db w \<and>
    w_events w' = w_events w \<and> w_outbox_wake w' = w_outbox_wake w"
proof -
  have fails: "\<exists>e. enqueue_prepared_in_tx nonces k (map (prepared_row_of n None) cs) 0 now d = Inl e"
    if "cs \<noteq> []" for nonces k cs now d
  proof -
    from that obtain c cs' where "cs = c # cs'" by (cases cs) auto
    moreover have "\<exists>e. enqueue_one_prepared (nonces k) (prepared_row_of n None c) 0 now d = Inl e"
      using assms(2) by (cases "parse_request_id (nonces k)")
        (auto simp: enqueue_one_prepared_def enqueue_in_tx_def default_producer_key_def prepared_input_def
          producer_for_manual_def)
    ultimately show ?thesis by auto
  qed
  show ?thesis
  proof (cases "try_bind (selected_channels load (nr_channel_ids n)) (\<lambda>cs. prepare_delivery_rows n cs None)")
    case (Inl e)
    then show ?thesis using assms(1)
      by (intro exI [of _ e] exI [of _ w]) (simp add: send_notification_def enqueue_notification_after_def)
  next
    case (Inr prepared)
    then obtain cs where cs: "prepared = map (prepared_row_of n None) cs" "cs \<noteq> []"
      by (auto simp: try_bind_Inr_iff prepare_delivery_rows_def split: if_splits)
    let ?w = "snd (now_epoch w)\<lparr>w_uuid := w_uuid w + length prepared\<rparr>"
    obtain e where "enqueue_prepared_in_tx (\<lambda>k. w_uuids w (w_uuid w + k)) 0 prepared 0 (fst (now_epoch w)) (w_db w) = Inl e"
      using fails [OF cs(2)] cs(1) by metis
    then show ?thesis
      using assms(1) Inr
      by (simp add: send_notification_def enqueue_notification_after_def now_epoch_def on_db_def with_tx_def)
  qed
qed

theorem notification_without_project_fails_witness:
  "\<exists>e w'. send_notification (\<lambda>u. None) (Inr desktop_config) (sample_request None) (idle_world empty_db) = (Inl e, w')"
  using notification_without_project_fails [OF sample_request_normal(1) [of "\<lambda>u. None"], of "Inr desktop_config" "idle_world empty_db"]
  by auto

text \<open>
  A notification is all or nothing: an error leaves the database as it was, and a success has
  chosen at least one channel, all enabled, and has one outbox row for each, which wakes the worker.
\<close>

theorem notification_all_or_nothing:
  assumes "enqueue_notification_after parse_url load request pre delay_secs w = (r, w')"
  shows "case r of
      Inl e \<Rightarrow> w_db w' = w_db w
    | Inr ids \<Rightarrow> \<exists>cfg n cs. load = Inr cfg \<and> normalize_request parse_url request = Inr n \<and>
        selected_channels_from_settings (cfg_channels cfg) (nr_channel_ids n) = Inr cs \<and> cs \<noteq> [] \<and>
        list_all nch_enabled cs \<and> length ids = length cs \<and> outbox_grows (w_db w) (w_db w') \<and> w_outbox_wake w'"
proof (cases "try_bind (normalize_request parse_url request) (\<lambda>n.
    try_bind (selected_channels load (nr_channel_ids n)) (\<lambda>cs. prepare_delivery_rows n cs pre))")
  case (Inl e)
  with assms show ?thesis by (auto simp: enqueue_notification_after_def)
next
  case (Inr prepared)
  then obtain n cfg cs where n: "normalize_request parse_url request = Inr n" and load: "load = Inr cfg"
    and cs: "selected_channels_from_settings (cfg_channels cfg) (nr_channel_ids n) = Inr cs" "cs \<noteq> []"
      "prepared = map (prepared_row_of n pre) cs"
    by (auto simp: try_bind_Inr_iff selected_channels_def prepare_delivery_rows_def split: if_splits)
  let ?tx = "enqueue_prepared_in_tx (\<lambda>k. w_uuids w (w_uuid w + k)) 0 prepared delay_secs (fst (now_epoch w))"
  show ?thesis
  proof (cases "?tx (w_db w)")
    case (Inl e)
    with assms Inr show ?thesis
      by (auto simp: enqueue_notification_after_def now_epoch_def on_db_def with_tx_def)
  next
    case (Inr p)
    obtain ids d' where p: "p = (ids, d')" by (cases p)
    with Inr assms \<open>try_bind _ _ = Inr prepared\<close> have "r = Inr ids" "w_db w' = d'" "w_outbox_wake w'"
      by (auto simp: enqueue_notification_after_def now_epoch_def on_db_def with_tx_def)
    with enqueue_prepared_grows enqueue_prepared_length n load cs selected_enabled [OF cs(1)] Inr p show ?thesis
      by fastforce
  qed
qed

theorem notification_all_or_nothing_witness:
  "\<exists>r w'. enqueue_notification_after (\<lambda>u. None) (Inr desktop_config) (sample_request None) (Some ''x'') 0 (idle_world empty_db) = (r, w') \<and>
    (case r of Inl e \<Rightarrow> w_db w' = empty_db | Inr ids \<Rightarrow> length ids = 1)"
proof -
  let ?p = "enqueue_notification_after (\<lambda>u. None) (Inr desktop_config) (sample_request None) (Some ''x'') 0 (idle_world empty_db)"
  obtain r w' where p: "?p = (r, w')" by (cases ?p)
  from notification_all_or_nothing [OF p] p show ?thesis
    by (auto simp: idle_world_def sample_request_normal selected_channels_from_settings_def default_config_def
        desktop_channel_def split: sum.splits)
qed

section \<open>Messages\<close>

text \<open>
  An outgoing text is delivered to an allowed conversation of an enabled integration, is at most
  4096 bytes long and is cut at a character boundary: it consists of whole leading characters of the
  trimmed request text.
\<close>

theorem message_text_bounded:
  assumes "prepare_send integration request = Inr p" and "smr_content request = Text t"
    and "trim t = utf8 cs" and "list_all (\<lambda>c. c < 0x110000) cs"
  shows "mi_enabled integration \<and> conversation_allowed integration (smr_conversation_id request) \<and>
    (\<exists>n msg. ps_payload p = JsonOf (SendPayload msg) \<and> msp_content msg = Text (utf8 (take n cs)) \<and>
      length (utf8 (take n cs)) \<le> 4096)"
proof -
  let ?t = "truncate_utf8_boundary (utf8 cs) 4096"
  from assms(1-3) have en: "mi_enabled integration"
    and conv: "conversation_allowed integration (trim (smr_conversation_id request))"
    and msg: "\<exists>msg. ps_payload p = JsonOf (SendPayload msg) \<and> msp_content msg = Text ?t"
    by (auto simp: prepare_send_def try_bind_Inr_iff max_send_text_bytes_def split: if_splits)
  have "\<exists>n. ?t = utf8 (take n cs) \<and> length ?t \<le> 4096"
  proof (cases "length (utf8 cs) \<le> 4096")
    case True
    then show ?thesis by (intro exI [of _ "length cs"]) (simp add: truncate_utf8_boundary_def)
  next
    case False
    let ?i = "back_to_boundary (utf8 cs) 4096"
    have i: "?i \<le> 4096" by (rule back_to_boundary_le)
    with False have "?i \<le> length (utf8 cs)" by simp
    from take_boundary_utf8 [OF assms(4) back_to_boundary_boundary this] i False show ?thesis
      by (auto simp: truncate_utf8_boundary_def)
  qed
  moreover from conv have "conversation_allowed integration (smr_conversation_id request)"
    by (simp add: conversation_allowed_def trim_trim)
  ultimately show ?thesis using en msg by metis
qed

theorem message_text_bounded_witness:
  "\<exists>p n. prepare_send (feishu_default\<lparr>mi_id := ''p'', mi_enabled := True, mi_allowed_conversation_ids := [''t'']\<rparr>)
    \<lparr>smr_integration_id = ''p'', smr_conversation_id = ''t'', smr_content = Text ''b'', smr_request_id = ''t''\<rparr> = Inr p \<and>
    length (utf8 (take n [98])) \<le> 4096"
proof -
  let ?m = "(feishu_default\<lparr>mi_id := ''p'', mi_enabled := True, mi_allowed_conversation_ids := [''t'']\<rparr>)"
  let ?r = "\<lparr>smr_integration_id = ''p'', smr_conversation_id = ''t'', smr_content = Text ''b'', smr_request_id = ''t''\<rparr>"
  have u: "trim ''b'' = utf8 [98]" by (simp add: utf8_def utf8_char_def) (simp add: char_of_def bit_iff_odd)
  have "\<exists>p. prepare_send ?m ?r = Inr p"
    by (simp add: prepare_send_def conversation_allowed_def)
  then obtain p where p: "prepare_send ?m ?r = Inr p" by blast
  from message_text_bounded [OF p _ u] obtain n where "length (utf8 (take n [98])) \<le> 4096" by auto
  with p show ?thesis by blast
qed

end
