(* ===== verification/Rule_Events.thy ===== *)
theory Rule_Events
  imports Inbox_Service "HOL-Library.List_Lexorder" "HOL-Library.Char_ord" Notifications
begin

text \<open>
  The rule processor that the composition root (\<open>lib.rs\<close>) gives to the inbox, and the ingestion of
  the events that polling discovers. The processor plans an event against the loaded configuration,
  and commits the outbox rows, the matches and the processed mark in one transaction; a row's dedupe
  key makes it independent of the UUID stream, so no nonce is drawn. The digest of a poll snapshot
  (crates \<open>sha2\<close>, \<open>serde_json\<close>, \<open>hex\<close>) is a parameter of its fields.
\<close>

text \<open>
  The rule engine (\<open>rule/service.rs\<close>, \<open>rule/store.rs\<close>): which rules match an event, the plan of
  actions each match asks for, and the table of matches. The file system that confines skill files and
  \<open>str::to_lowercase\<close> (the Unicode tables) are parameters.
\<close>

section \<open>Resolving an invocation\<close>

(* rule/service.rs 21-36 resolve_skill_invocation *)
definition skill_actions :: "rule_config list \<Rightarrow> project \<Rightarrow> rule_action_config list" where
  "skill_actions rules project =
     concat (map (\<lambda>rule. filter (\<lambda>a. ra_kind a = ActionKind_RunSkill \<and> ra_enabled a) (rc_actions rule))
       (filter (\<lambda>rule. rc_enabled rule \<and> (rc_project_id rule = [] \<or> rc_project_id rule = prj_id project))
         rules))"

text \<open>The action with the requested arguments, else the first one.\<close>

definition chosen_action :: "string \<Rightarrow> rule_action_config list \<Rightarrow> rule_action_config option" where
  "chosen_action extra_args actions =
     (case find (\<lambda>a. trim (ra_extra_args a) = extra_args) actions of
        Some a \<Rightarrow> Some a
      | None \<Rightarrow> (case actions of [] \<Rightarrow> None | a # _ \<Rightarrow> Some a))"

(* rule/service.rs 14-75 resolve_skill_invocation *)
definition resolve_skill_invocation ::
    "filesystem \<Rightarrow> rule_config list \<Rightarrow> project \<Rightarrow> nat \<Rightarrow> string \<Rightarrow> string + skill_invocation" where
  "resolve_skill_invocation fs rules project pr_number extra_args =
     try_bind (validate_extra_args extra_args) (\<lambda>extra_args.
     case chosen_action extra_args (skill_actions rules project) of
       Some a \<Rightarrow>
         invocation_from_config fs (prj_repo_root project) (ra_skill_name a) (ra_skill_path a)
           (ra_command_template a) pr_number (prj_repo project) extra_args (prj_engine_kind project)
     | None \<Rightarrow>
         default_pr_review fs (prj_repo_root project) pr_number (prj_repo project) extra_args
           (prj_engine_kind project))"

section \<open>Matching\<close>

(* rule/service.rs 119-122 contains_ci *)
definition contains_ci :: "(string \<Rightarrow> string) \<Rightarrow> string \<Rightarrow> string \<Rightarrow> bool" where
  "contains_ci to_lowercase haystack needle =
     (let needle = trim needle in
      needle = [] \<or> contains_sub (to_lowercase haystack) (to_lowercase needle))"

(* rule/service.rs 77-117 matches *)
definition rule_matches :: "(string \<Rightarrow> string) \<Rightarrow> rule_config \<Rightarrow> event_envelope \<Rightarrow> bool" where
  "rule_matches to_lowercase rule event =
     (case as_observation event of
        None \<Rightarrow> False
      | Some (event_type, subject) \<Rightarrow>
          if \<not> rc_enabled rule then False
          else if (case rc_source rule of None \<Rightarrow> False | Some s \<Rightarrow> s \<noteq> env_source event) then False
          else if (case rc_event_type rule of None \<Rightarrow> False | Some t \<Rightarrow> t \<noteq> event_type) then False
          else if rc_project_id rule \<noteq> [] \<and> rc_project_id rule \<noteq> env_project_id event then False
          else if rc_repo rule \<noteq> [] \<and> \<not> eq_ignore_ascii_case (rc_repo rule) (env_repo event) then False
          else if rc_labels_any rule \<noteq> [] \<and>
              \<not> list_ex (\<lambda>wanted. wanted \<in> set (sub_labels subject)) (rc_labels_any rule) then False
          else if \<not> list_all (\<lambda>wanted. wanted \<in> set (sub_labels subject)) (rc_labels_all rule) then False
          else contains_ci to_lowercase (sub_title subject) (rc_title_contains rule) \<and>
               contains_ci to_lowercase (sub_body subject) (rc_body_contains rule))"

section \<open>Planning\<close>

(* rule/service.rs 145-149 RuleActionDispatch *)
datatype rule_dispatch =
  Dispatch_Outbox "action_payload json_text"
| Dispatch_Notification send_notification_request
| Dispatch_Messaging send_messaging_request

(* rule/service.rs 134-142 RuleActionPlan *)
record rule_action_plan =
  rap_kind :: action_kind
  rap_summary :: string
  rap_dispatch :: rule_dispatch
  rap_dedupe_key :: string
  rap_delay_secs :: nat
  rap_action_id :: string
  rap_level :: string

(* rule/service.rs 125-131 RuleMatchPlan *)
record rule_match_plan =
  rmp_rule_id :: string
  rmp_rule_name :: string
  rmp_project_id :: string
  rmp_actions :: "rule_action_plan list"
  rmp_errors :: "string list"

(* rule/service.rs 428-430 action_node_id *)
definition action_node_id :: "rule_action_config \<Rightarrow> string" where
  "action_node_id action = trim (ra_level action) @ '':'' @ trim (ra_id action)"

(* rule/service.rs 407-426 rule_action_dedupe_key *)
definition rule_action_dedupe_key ::
    "rule_config \<Rightarrow> rule_action_config \<Rightarrow> event_envelope \<Rightarrow> string \<Rightarrow> string" where
  "rule_action_dedupe_key rule action event suff =
     (case ra_dedupe_policy action of
        PerEvent \<Rightarrow> ''rule:'' @ rc_id rule @ '':'' @ env_dedupe_key event @ '':'' @ suff
      | PerAction \<Rightarrow>
          ''rule:'' @ rc_id rule @ '':'' @ ra_id action @ '':'' @ env_dedupe_key event @ '':'' @ suff)"

definition skill_dedupe_key :: "rule_config \<Rightarrow> rule_action_config \<Rightarrow> string \<Rightarrow> string" where
  "skill_dedupe_key rule action base =
     (case ra_dedupe_policy action of
        PerEvent \<Rightarrow> base
      | PerAction \<Rightarrow> ''rule:'' @ rc_id rule @ '':'' @ ra_id action @ '':'' @ base)"

(* rule/service.rs 250-325 plan_run_skill *)
definition plan_run_skill ::
    "filesystem \<Rightarrow> rule_config \<Rightarrow> project list \<Rightarrow> event_envelope \<Rightarrow> candidate option
      \<Rightarrow> rule_action_config \<Rightarrow> rule_action_plan app_result" where
  "plan_run_skill fs rule projects event cand action =
     (case cand of
        None \<Rightarrow> Inl (AppError ((utf8 [0x89C4, 0x5219] @ '' '') @ rc_id rule @ ('' '' @ utf8 [0x9700, 0x8981] @ '' PR candidate '' @ utf8 [0x624D, 0x80FD, 0x89E6, 0x53D1] @ '' runSkill'')))
      | Some c \<Rightarrow>
          let project_id = (if rc_project_id rule = [] then env_project_id event else rc_project_id rule) in
          try_bind (ok_or (find (\<lambda>p. prj_id p = project_id) projects)
            (AppError ((utf8 [0x89C4, 0x5219] @ '' '') @ rc_id rule @ ('' '' @ utf8 [0x627E, 0x4E0D, 0x5230, 0x9879, 0x76EE] @ '' '') @ project_id))) (\<lambda>project.
          try_bind (map_error AppError
            (invocation_from_config fs (prj_repo_root project) (ra_skill_name action)
              (ra_skill_path action) (ra_command_template action) (cand_number c) (env_repo event)
              (ra_extra_args action) (prj_engine_kind project))) (\<lambda>invocation.
          let c = c\<lparr>cand_skill_key := inv_skill_key invocation\<rparr> in
          try_bind (map_error AppError (action_key_for_candidate c)) (\<lambda>base.
          Inr \<lparr>rap_kind = Kind_RunSkill,
               rap_summary = ''Rule '' @ rc_name rule @ '' action '' @ action_node_id action @ '' -> PR #''
                 @ dec (cand_number c) @ '' '' @ inv_skill_name invocation,
               rap_dispatch = Dispatch_Outbox (JsonOf (ReviewPayload (Automatic c invocation))),
               rap_dedupe_key = skill_dedupe_key rule action base,
               rap_delay_secs = ra_delay_secs action, rap_action_id = ra_id action,
               rap_level = ra_level action\<rparr>))))"

definition rule_notification ::
    "string \<Rightarrow> string \<Rightarrow> event_subject \<Rightarrow> event_envelope \<Rightarrow> string list \<Rightarrow> send_notification_request" where
  "rule_notification title body subject event channel_ids =
     \<lparr>snr_level = Some Info, snr_title = title, snr_body = Some body,
      snr_url = (if sub_url subject = [] then None else Some (sub_url subject)),
      snr_project_id = Some (env_project_id event), snr_channel_ids = channel_ids\<rparr>"

definition newline :: string where "newline = [CHR 0x0A]"

(* rule/service.rs 327-405 plan_notification *)
definition plan_notification ::
    "rule_config \<Rightarrow> event_envelope \<Rightarrow> event_subject \<Rightarrow> rule_action_config \<Rightarrow> rule_action_plan" where
  "plan_notification rule event subject action =
     (let node_id = action_node_id action;
          title = (case sub_number subject of
              Some number \<Rightarrow> ''Rule '' @ rc_name rule @ '' action '' @ node_id @ '' matched PR #'' @ dec number
            | None \<Rightarrow> ''Rule '' @ rc_name rule @ '' action '' @ node_id @ '' matched event'');
          body = ''Rule matched an inbound event'' @ newline @ ''nodeId: '' @ node_id;
          dedupe_key = rule_action_dedupe_key rule action event ''notify'';
          (kind, dispatch) = (case ra_target action of
              Target_None \<Rightarrow>
                (Kind_Notification, Dispatch_Notification (rule_notification title body subject event []))
            | NotificationChannels ids \<Rightarrow>
                (Kind_Notification, Dispatch_Notification (rule_notification title body subject event ids))
            | MessagingConversation integration_id conversation_id \<Rightarrow>
                (Kind_MessagingSend, Dispatch_Messaging
                  \<lparr>smr_integration_id = integration_id, smr_conversation_id = conversation_id,
                   smr_content = Text (if sub_url subject = [] then title @ newline @ body
                     else title @ newline @ body @ newline @ sub_url subject),
                   smr_request_id = dedupe_key\<rparr>))
      in \<lparr>rap_kind = kind, rap_summary = title, rap_dispatch = dispatch, rap_dedupe_key = dedupe_key,
          rap_delay_secs = ra_delay_secs action, rap_action_id = ra_id action, rap_level = ra_level action\<rparr>)"

text \<open>Configuration rules only consume observations; the subject is that of the event.\<close>

(* rule/service.rs 231-248 plan_action *)
definition plan_action ::
    "filesystem \<Rightarrow> rule_config \<Rightarrow> project list \<Rightarrow> event_envelope \<Rightarrow> event_subject \<Rightarrow> candidate option
      \<Rightarrow> rule_action_config \<Rightarrow> rule_action_plan app_result" where
  "plan_action fs rule projects event subject cand action =
     try_bind (case action of
         RunSkill _ _ _ _ _ _ _ _ _ \<Rightarrow> plan_run_skill fs rule projects event cand action
       | Notify _ _ _ _ _ _ \<Rightarrow> Inr (plan_notification rule event subject action)) (\<lambda>plan.
     Inr (plan\<lparr>rap_delay_secs := ra_delay_secs action, rap_action_id := ra_id action,
               rap_level := ra_level action\<rparr>))"

fun plan_actions ::
    "filesystem \<Rightarrow> rule_config \<Rightarrow> project list \<Rightarrow> event_envelope \<Rightarrow> event_subject \<Rightarrow> candidate option
      \<Rightarrow> rule_action_config list \<Rightarrow> rule_action_plan list \<times> string list" where
  "plan_actions fs rule projects event subject cand [] = ([], [])"
| "plan_actions fs rule projects event subject cand (action # actions) =
     (let (plans, errors) = plan_actions fs rule projects event subject cand actions in
      case plan_action fs rule projects event subject cand action of
        Inr plan \<Rightarrow> (plan # plans, errors)
      | Inl e \<Rightarrow> (plans, message e # errors))"

definition plan_rule ::
    "filesystem \<Rightarrow> project list \<Rightarrow> event_envelope \<Rightarrow> event_subject \<Rightarrow> candidate option \<Rightarrow> rule_config
      \<Rightarrow> rule_match_plan" where
  "plan_rule fs projects event subject cand rule =
     (let (actions, errors) = plan_actions fs rule projects event subject cand
            (filter ra_enabled (rc_actions rule)) in
      \<lparr>rmp_rule_id = rc_id rule, rmp_rule_name = rc_name rule, rmp_project_id = env_project_id event,
       rmp_actions = actions, rmp_errors = errors\<rparr>)"

definition external_rule_id :: string where "external_rule_id = ''system:external-review''"

(* rule/service.rs 157-207 plan_event *)
definition plan_request ::
    "filesystem \<Rightarrow> rule_config list \<Rightarrow> project list \<Rightarrow> event_envelope \<Rightarrow> review_request
      \<Rightarrow> rule_match_plan" where
  "plan_request fs rules projects event request =
     (let plan = \<lparr>rmp_rule_id = external_rule_id, rmp_rule_name = ''External review request'',
            rmp_project_id = env_project_id event, rmp_actions = [], rmp_errors = []\<rparr> in
      case (case find (\<lambda>p. prj_id p = env_project_id event) projects of
          Some project \<Rightarrow>
            resolve_skill_invocation fs rules project (req_pr_number request) (req_extra_args request)
        | None \<Rightarrow> Inl (''external review request project not found: '' @ env_project_id event)) of
        Inl msg \<Rightarrow> plan\<lparr>rmp_errors := [msg]\<rparr>
      | Inr invocation \<Rightarrow>
          plan\<lparr>rmp_actions := [\<lparr>rap_kind = Kind_RunSkill,
            rap_summary = ''External '' @ inv_skill_name invocation @ '' request for PR #''
              @ dec (req_pr_number request),
            rap_dispatch = Dispatch_Outbox (JsonOf (ReviewPayload (Explicit (req_pr_number request)
              (req_request_id request) (req_origin request) invocation))),
            rap_dedupe_key = ''external:'' @ req_request_id request, rap_delay_secs = 0,
            rap_action_id = inv_skill_key invocation, rap_level = ''system''\<rparr>]\<rparr>)"

(* rule/service.rs 151-229 plan_event *)
definition plan_event ::
    "filesystem \<Rightarrow> (string \<Rightarrow> string) \<Rightarrow> rule_config list \<Rightarrow> project list \<Rightarrow> event_envelope
      \<Rightarrow> candidate option \<Rightarrow> rule_match_plan list" where
  "plan_event fs to_lowercase rules projects event cand =
     (case env_payload event of
        ReviewRequest request \<Rightarrow> [plan_request fs rules projects event request]
      | Observation event_type subject \<Rightarrow>
          map (plan_rule fs projects event subject cand)
            (filter (\<lambda>rule. rule_matches to_lowercase rule event) rules))"

section \<open>The match table\<close>

(* rule/store.rs 22-30 NewRuleMatch *)
record new_rule_match =
  nrm_rule_id :: string
  nrm_rule_name :: string
  nrm_inbox_event_id :: int
  nrm_project_id :: string
  nrm_action_ids :: "int list"
  nrm_error :: "string option"
  nrm_now :: nat

(* rule/store.rs 10-20 RuleMatchEntry *)
record rule_match_entry =
  rme_id :: int
  rme_rule_id :: string
  rme_rule_name :: string
  rme_inbox_event_id :: int
  rme_project_id :: string
  rme_action_count :: nat
  rme_error :: "string option"
  rme_created_at :: nat
  rme_action_outbox_ids :: "int list"

text \<open>
  The links of a match: the PRIMARY KEY holds the pair once, and the foreign keys want the match and
  the outbox row.
\<close>

fun insert_links :: "int \<Rightarrow> int list \<Rightarrow> db \<Rightarrow> string + db" where
  "insert_links i [] d = Inr d"
| "insert_links i (a # as) d =
     (if (i, a) \<in> set (db_match_action d) then
        Inl ''UNIQUE constraint failed: rule_match_action.rule_match_id, rule_match_action.action_outbox_id''
      else if by_id ob_id a (db_outbox d) = None \<or> by_id rm_id i (db_rule_match d) = None then
        Inl ''FOREIGN KEY constraint failed''
      else insert_links i as (d\<lparr>db_match_action := db_match_action d @ [(i, a)]\<rparr>))"

(* rule/store.rs 44-69 insert_match_in_tx *)
definition insert_match_in_tx :: "new_rule_match \<Rightarrow> int db_tx" where
  "insert_match_in_tx new d =
     map_error map_err
       (try_bind (tbl_next (db_rule_match d)) (\<lambda>i.
        if by_id ib_id (nrm_inbox_event_id new) (db_inbox d) = None then
          Inl ''FOREIGN KEY constraint failed''
        else
          let row = \<lparr>rm_id = i, rm_rule_id = nrm_rule_id new, rm_rule_name = nrm_rule_name new,
                     rm_inbox_event_id = nrm_inbox_event_id new, rm_project_id = nrm_project_id new,
                     rm_action_count = int (length (nrm_action_ids new)), rm_error = nrm_error new,
                     rm_created_at = as_i64 (nrm_now new)\<rparr> in
          try_bind (insert_links i (nrm_action_ids new)
            (d\<lparr>db_rule_match := tbl_push i row (db_rule_match d)\<rparr>)) (\<lambda>d. Inr (i, d))))"

(* rule/store.rs 40-42 insert_match *)
definition insert_match :: "new_rule_match \<Rightarrow> int db_op" where
  "insert_match new = with_tx (insert_match_in_tx new)"

(* rule/store.rs 85-111 hydrate_actions *)
definition hydrate_match :: "db \<Rightarrow> rule_match_row \<Rightarrow> rule_match_entry" where
  "hydrate_match d r =
     \<lparr>rme_id = rm_id r, rme_rule_id = rm_rule_id r, rme_rule_name = rm_rule_name r,
      rme_inbox_event_id = rm_inbox_event_id r, rme_project_id = rm_project_id r,
      rme_action_count = as_u32 (max (rm_action_count r) 0), rme_error = rm_error r,
      rme_created_at = clamp0 (rm_created_at r),
      rme_action_outbox_ids = sort (map snd (filter (\<lambda>(m, a). m = rm_id r) (db_match_action d)))\<rparr>"

(* rule/store.rs 71-83 list_by_inbox *)
definition match_list_by_inbox :: "int \<Rightarrow> db \<Rightarrow> rule_match_entry list app_result" where
  "match_list_by_inbox inbox_event_id d =
     Inr (map (hydrate_match d)
       (rev (sql_select (\<lambda>r. rm_inbox_event_id r = inbox_event_id) (db_rule_match d))))"

(* rule/store.rs 137-151 get *)
definition match_get :: "int \<Rightarrow> db \<Rightarrow> rule_match_entry option app_result" where
  "match_get i d = Inr (map_option (hydrate_match d) (by_id rm_id i (db_rule_match d)))"

section \<open>Committing the plans of an event\<close>

record rule_env =
  re_fs :: filesystem
  re_to_lowercase :: "string \<Rightarrow> string"
  re_parse_url :: "string \<Rightarrow> parsed_url option"

(* lib.rs 1457-1500 process_rule_event *)
definition dispatch_action ::
    "rule_env \<Rightarrow> app_config \<Rightarrow> int \<Rightarrow> rule_match_plan \<Rightarrow> rule_action_plan \<Rightarrow> nat \<Rightarrow> int list db_tx" where
  "dispatch_action env cfg inbox_id plan action now d =
     (case rap_dispatch action of
        Dispatch_Outbox payload \<Rightarrow>
          try_bind (map_error AppError (inbox_event_id_new inbox_id)) (\<lambda>inbox_id.
          try_bind (map_error AppError
            (producer_for_rule_action inbox_id (rmp_rule_id plan) (rap_action_id action))) (\<lambda>producer.
          try_bind (enqueue_in_tx_with_producer
            \<lparr>ei_project_id = rmp_project_id plan, ei_kind = rap_kind action, ei_summary = rap_summary action,
             ei_payload = payload, ei_dedupe_key = Some (rap_dedupe_key action),
             ei_next_attempt_at = Some (sat_add_u64 now (rap_delay_secs action))\<rparr> producer now d) (\<lambda>(i, d).
          Inr ([i], d))))
      | Dispatch_Notification request \<Rightarrow>
          enqueue_notification_in_tx (re_parse_url env) (\<lambda>k. []) cfg request
            (Some (rap_dedupe_key action)) (rap_delay_secs action) now d
      | Dispatch_Messaging request \<Rightarrow>
          try_bind (enqueue_send_once_after_in_tx cfg request (rap_delay_secs action) now d) (\<lambda>(i, d).
          Inr ([i], d)))"

(* lib.rs 1456-1501 process_rule_event *)
fun dispatch_actions ::
    "rule_env \<Rightarrow> app_config \<Rightarrow> int \<Rightarrow> rule_match_plan \<Rightarrow> rule_action_plan list \<Rightarrow> nat \<Rightarrow> int list db_tx" where
  "dispatch_actions env cfg inbox_id plan [] now d = Inr ([], d)"
| "dispatch_actions env cfg inbox_id plan (action # actions) now d =
     try_bind (dispatch_action env cfg inbox_id plan action now d) (\<lambda>(ids, d).
     try_bind (dispatch_actions env cfg inbox_id plan actions now d) (\<lambda>(more, d).
     Inr (ids @ more, d)))"

(* lib.rs 1449-1514 process_rule_event *)
definition commit_plan ::
    "rule_env \<Rightarrow> app_config \<Rightarrow> int \<Rightarrow> nat \<Rightarrow> rule_match_plan \<Rightarrow> int list db_tx" where
  "commit_plan env cfg inbox_id now plan d =
     (if rmp_errors plan \<noteq> [] then
        Inl (AppError ((utf8 [0x89C4, 0x5219, 0x52A8, 0x4F5C, 0x89C4, 0x5212, 0x5931, 0x8D25, 0xFF1A]) @ join ''; '' (rmp_errors plan)))
      else
        try_bind (dispatch_actions env cfg inbox_id plan (rmp_actions plan) now d) (\<lambda>(ids, d).
        try_bind (insert_match_in_tx
          \<lparr>nrm_rule_id = rmp_rule_id plan, nrm_rule_name = rmp_rule_name plan, nrm_inbox_event_id = inbox_id,
           nrm_project_id = rmp_project_id plan, nrm_action_ids = ids, nrm_error = None, nrm_now = now\<rparr> d)
          (\<lambda>(_, d). Inr (ids, d))))"

(* lib.rs 1448-1515 process_rule_event *)
fun commit_plans ::
    "rule_env \<Rightarrow> app_config \<Rightarrow> int \<Rightarrow> nat \<Rightarrow> rule_match_plan list \<Rightarrow> int list db_tx" where
  "commit_plans env cfg inbox_id now [] d = Inr ([], d)"
| "commit_plans env cfg inbox_id now (plan # plans) d =
     try_bind (commit_plan env cfg inbox_id now plan d) (\<lambda>(ids, d).
     try_bind (commit_plans env cfg inbox_id now plans d) (\<lambda>(more, d).
     Inr (ids @ more, d)))"

(* lib.rs 1446-1518 process_rule_event *)
definition rule_event_tx ::
    "rule_env \<Rightarrow> app_config \<Rightarrow> int \<Rightarrow> nat \<Rightarrow> rule_match_plan list \<Rightarrow> int list db_tx" where
  "rule_event_tx env cfg inbox_id now plans d =
     try_bind (commit_plans env cfg inbox_id now plans d) (\<lambda>(ids, d).
     try_bind (mark_processed_in_tx inbox_id now d) (\<lambda>(_, d). Inr (ids, d)))"

(* lib.rs 1436-1527 process_rule_event *)
definition process_rule_event :: "rule_env \<Rightarrow> app_config app_result \<Rightarrow> rule_processor" where
  "process_rule_event env load w inbox_id event cand =
     (case load of
        Inl e \<Rightarrow> (Inl e, w)
      | Inr cfg \<Rightarrow>
          let plans = plan_event (re_fs env) (re_to_lowercase env) (cfg_rules cfg) (cfg_projects cfg) event cand;
              (now, w) = now_epoch w;
              (r, w) = on_db (with_tx (rule_event_tx env cfg inbox_id now plans)) w
          in case r of
               Inl e \<Rightarrow> (Inl e, w)
             | Inr ids \<Rightarrow>
                 let w = fold announce_updated ids w in
                 (Inr (), if ids = [] then w else wake_outbox w))"

section \<open>Polled events\<close>

(* pr/source.rs 27-31 DiscoveredEvent *)
record discovered_event =
  dsc_event :: event_envelope
  dsc_candidate :: candidate
  dsc_conflict :: bool

record poll_snapshot =
  snap_project_id :: string
  snap_source :: source_kind
  snap_repo :: string
  snap_event_type :: event_type
  snap_subject :: event_subject
  snap_candidate :: candidate

(* lib.rs 1398-1434 normalize_discovered_event *)
definition normalize_discovered_event ::
    "(poll_snapshot \<Rightarrow> string) \<Rightarrow> string \<Rightarrow> discovered_event \<Rightarrow> nat \<Rightarrow> event_envelope app_result" where
  "normalize_discovered_event snapshot_sha256 project_id discovered received_at_epoch =
     try_bind (ok_or (as_observation (dsc_event discovered))
       (AppError ''poll source produced a non-observation event'')) (\<lambda>(event_type, subject).
     let subject = subject\<lparr>sub_labels := remdups_adj (sort (sub_labels subject))\<rparr>;
         snapshot = \<lparr>snap_project_id = project_id, snap_source = env_source (dsc_event discovered),
           snap_repo = env_repo (dsc_event discovered), snap_event_type = event_type,
           snap_subject = subject, snap_candidate = dsc_candidate discovered\<rparr>
     in map_error AppError
          (try_bind (new_key (''poll:sha256:'' @ snapshot_sha256 snapshot)) (\<lambda>key.
           envelope_observation key (env_source (dsc_event discovered)) project_id
             (env_repo (dsc_event discovered)) event_type subject received_at_epoch)))"

(* lib.rs 1533-1545 emit_dispatch_error *)
definition emit_dispatch_error :: "string \<Rightarrow> string \<Rightarrow> world \<Rightarrow> world" where
  "emit_dispatch_error project_id msg w = emit (Review (Dispatch_Error project_id msg)) w"

definition first_err :: "app_error option \<Rightarrow> app_error \<Rightarrow> app_error option" where
  "first_err current e = (case current of None \<Rightarrow> Some e | Some f \<Rightarrow> Some f)"

fun ingest_loop ::
    "(poll_snapshot \<Rightarrow> string) \<Rightarrow> string \<Rightarrow> discovered_event list \<Rightarrow> app_error option \<Rightarrow> world
      \<Rightarrow> app_error option \<times> world" where
  "ingest_loop sha project_id [] err w = (err, w)"
| "ingest_loop sha project_id (discovered # events) err w =
     (let (now, w) = now_epoch w in
      case normalize_discovered_event sha project_id discovered now of
        Inl e \<Rightarrow> ingest_loop sha project_id events (first_err err e)
                  (emit_dispatch_error project_id (message e) w)
      | Inr event \<Rightarrow>
          (let (r, w) = on_db (insert_dedup event ''rule-engine-discovery'' None
                          (Some (dsc_candidate discovered))) w in
           case r of
             Inl e \<Rightarrow> ingest_loop sha project_id events (first_err err e)
                       (emit_dispatch_error project_id ((utf8 [0x89C4, 0x5219, 0x5F15, 0x64CE] @ '' inbox '' @ utf8 [0x6301, 0x4E45, 0x5316, 0x5931, 0x8D25, 0xFF1A]) @ message e) w)
           | Inr None \<Rightarrow> ingest_loop sha project_id events err w
           | Inr (Some i) \<Rightarrow>
               ingest_loop sha project_id events err (wake_inbox (emit_for_id project_id i w))))"

(* lib.rs 1346-1396 ingest_discovered_events *)
definition ingest_discovered_events ::
    "(poll_snapshot \<Rightarrow> string) \<Rightarrow> string \<Rightarrow> discovered_event list \<Rightarrow> world \<Rightarrow> unit app_result \<times> world" where
  "ingest_discovered_events sha project_id events w =
     (if events = [] then (Inr (), w)
      else case ingest_loop sha project_id events None w of
        (Some e, w) \<Rightarrow> (Inl e, w)
      | (None, w) \<Rightarrow> (Inr (), w))"

text \<open>The labels enter the snapshot as a set.\<close>

lemma distinct_remdups_adj_sorted: "sorted xs \<Longrightarrow> distinct (remdups_adj xs)"
  for xs :: "'a :: linorder list"
  by (induction xs rule: remdups_adj.induct) (auto simp: order_antisym)

lemma remdups_adj_sort: "remdups_adj (sort xs) = remdups_adj (sort ys)" if "set xs = set ys"
  for xs ys :: "'a :: linorder list"
  using that by (intro sorted_distinct_set_unique) (simp_all add: distinct_remdups_adj_sorted)

end
