(* ===== verification/Rule_Properties.thy ===== *)
theory Rule_Properties
  imports Rule_Events Notification_Properties Inbox_Properties
begin

text \<open>
  The rule engine's guarantees: an event is processed completely or not at all, every planned skill file
  is confined to its repository, the producer keys of a validated rule set tell its actions apart, polled
  events are deduplicated whatever the order of their labels; and what two actions of one rule with the
  default dedupe policy do to the event.
\<close>

section \<open>Committing only appends\<close>

lemma dispatch_action_grows:
  assumes "dispatch_action env cfg i plan action now d = Inr (ids, d')"
  shows "outbox_grows d d'"
proof (cases "rap_dispatch action")
  case (Dispatch_Outbox payload)
  with assms show ?thesis
    by (auto simp: dispatch_action_def try_bind_Inr_iff enqueue_in_tx_with_producer_def dest: enqueue_inner_grows)
next
  case (Dispatch_Notification request)
  with assms show ?thesis
    by (auto simp: dispatch_action_def elim!: enqueue_notification_in_txE dest: enqueue_prepared_grows)
next
  case (Dispatch_Messaging request)
  with assms show ?thesis
    by (auto simp: dispatch_action_def try_bind_Inr_iff enqueue_send_once_after_in_tx_def
        id_by_dedupe_key_any_status_in_tx_def dest: enqueue_in_grows split: option.splits)
qed

lemma dispatch_action_consistent:
  assumes "producer_consistent d" and "dispatch_action env cfg i plan action now d = Inr (ids, d')"
  shows "producer_consistent d'"
proof (cases "rap_dispatch action")
  case (Dispatch_Outbox payload)
  with assms show ?thesis
    by (auto simp: dispatch_action_def try_bind_Inr_iff enqueue_in_tx_with_producer_def
        dest: consistent_rule_producer [OF assms(1)])
next
  case (Dispatch_Notification request)
  with assms show ?thesis
    by (auto simp: dispatch_action_def elim!: enqueue_notification_in_txE dest: enqueue_prepared_consistent)
next
  case (Dispatch_Messaging request)
  with assms show ?thesis
    by (auto simp: dispatch_action_def try_bind_Inr_iff enqueue_send_once_after_in_tx_def
        id_by_dedupe_key_any_status_in_tx_def dest: consistent_enqueue_in split: option.splits)
qed

lemma dispatch_actions_ConsE:
  assumes "dispatch_actions env cfg i plan (a # as) now d = Inr (ids, d')"
  obtains ids1 d1 ids2 where "dispatch_action env cfg i plan a now d = Inr (ids1, d1)"
    "dispatch_actions env cfg i plan as now d1 = Inr (ids2, d')" "ids = ids1 @ ids2"
  using assms by (auto simp: try_bind_Inr_iff)

lemma dispatch_actions_append:
  assumes "dispatch_actions env cfg i plan (as @ bs) now d = Inr (ids, d')"
  obtains ids1 d1 ids2 where "dispatch_actions env cfg i plan as now d = Inr (ids1, d1)"
    "dispatch_actions env cfg i plan bs now d1 = Inr (ids2, d')" "ids = ids1 @ ids2"
  using assms
proof (induction as arbitrary: d ids thesis)
  case Nil
  then show ?case by simp
next
  case (Cons a as)
  obtain ids1 d1 ids2 where a: "dispatch_action env cfg i plan a now d = Inr (ids1, d1)"
    and rest: "dispatch_actions env cfg i plan (as @ bs) now d1 = Inr (ids2, d')" and ids: "ids = ids1 @ ids2"
    by (rule dispatch_actions_ConsE [OF Cons.prems(2) [unfolded append_Cons]])
  from Cons.IH [OF _ rest] obtain ids3 d2 ids4 where
    "dispatch_actions env cfg i plan as now d1 = Inr (ids3, d2)"
    "dispatch_actions env cfg i plan bs now d2 = Inr (ids4, d')" "ids2 = ids3 @ ids4" by blast
  with a ids show ?case by (intro Cons.prems(1) [of "ids1 @ ids3" d2 ids4]) (simp_all add: try_bind_Inr_iff)
qed

lemma dispatch_actions_inv:
  assumes "dispatch_actions env cfg i plan as now d = Inr (ids, d')"
  shows "outbox_grows d d' \<and> (producer_consistent d \<longrightarrow> producer_consistent d')"
  using assms
proof (induction as arbitrary: d ids)
  case (Cons a as)
  from Cons.prems obtain ids1 d1 ids2 where a: "dispatch_action env cfg i plan a now d = Inr (ids1, d1)"
    and rest: "dispatch_actions env cfg i plan as now d1 = Inr (ids2, d')"
    by (rule dispatch_actions_ConsE)
  from Cons.IH [OF rest] dispatch_action_grows [OF a] dispatch_action_consistent [OF _ a]
  show ?case by (blast intro: outbox_grows_trans)
qed simp

section \<open>The links of a match\<close>

lemma insert_links_Inr:
  assumes "insert_links m as d = Inr d'"
  shows "distinct as \<and> d' = d\<lparr>db_match_action := db_match_action d @ map (Pair m) as\<rparr> \<and>
    set as \<inter> {a. (m, a) \<in> set (db_match_action d)} = {} \<and>
    (\<forall>a \<in> set as. by_id ob_id a (db_outbox d) \<noteq> None)"
  using assms
proof (induction as arbitrary: d)
  case (Cons a as)
  from Cons.prems have a: "(m, a) \<notin> set (db_match_action d)" "by_id ob_id a (db_outbox d) \<noteq> None"
    and rest: "insert_links m as (d\<lparr>db_match_action := db_match_action d @ [(m, a)]\<rparr>) = Inr d'"
    by (auto split: if_splits)
  from Cons.IH [OF rest] a show ?case by auto
qed simp

lemma insert_match_Inr:
  assumes "insert_match_in_tx new d = Inr (m, d')"
  obtains row where
    "row = \<lparr>rm_id = m, rm_rule_id = nrm_rule_id new, rm_rule_name = nrm_rule_name new,
            rm_inbox_event_id = nrm_inbox_event_id new, rm_project_id = nrm_project_id new,
            rm_action_count = int (length (nrm_action_ids new)), rm_error = nrm_error new,
            rm_created_at = as_i64 (nrm_now new)\<rparr>"
    "tbl_next (db_rule_match d) = Inr m" "distinct (nrm_action_ids new)"
    "d' = d\<lparr>db_rule_match := tbl_push m row (db_rule_match d),
           db_match_action := db_match_action d @ map (Pair m) (nrm_action_ids new)\<rparr>"
    "\<forall>a \<in> set (nrm_action_ids new). by_id ob_id a (db_outbox d) \<noteq> None"
proof -
  define row where "row = \<lparr>rm_id = m, rm_rule_id = nrm_rule_id new, rm_rule_name = nrm_rule_name new,
                     rm_inbox_event_id = nrm_inbox_event_id new, rm_project_id = nrm_project_id new,
                     rm_action_count = int (length (nrm_action_ids new)), rm_error = nrm_error new,
                     rm_created_at = as_i64 (nrm_now new)\<rparr>"
  from assms have next_id: "tbl_next (db_rule_match d) = Inr m"
    and links: "insert_links m (nrm_action_ids new) (d\<lparr>db_rule_match := tbl_push m row (db_rule_match d)\<rparr>) = Inr d'"
    by (auto simp: insert_match_in_tx_def try_bind_Inr_iff Let_def row_def split: if_splits)
  from insert_links_Inr [OF links] next_id show thesis
    by (intro that [of row]) (simp_all add: row_def)
qed

section \<open>Two actions with one dedupe key\<close>

lemma plan_actions_no_errors:
  assumes "plan_actions fs rule projects event subject cand as = (ps, [])"
  shows "list_all2 (\<lambda>a p. plan_action fs rule projects event subject cand a = Inr p) as ps"
  using assms
  by (induction as arbitrary: ps) (auto split: prod.splits sum.splits)

definition event_notify_key :: "rule_config \<Rightarrow> event_envelope \<Rightarrow> string" where
  "event_notify_key rule event = ''rule:'' @ rc_id rule @ '':'' @ env_dedupe_key event @ '':notify''"

lemma plan_default_notify:
  assumes "plan_action fs rule projects event subject cand (Notify i True Target_None PerEvent dl lv) = Inr p"
  obtains title body where "rap_dispatch p = Dispatch_Notification (rule_notification title body subject event [])"
    and "rap_dedupe_key p = event_notify_key rule event"
proof -
  let ?a = "Notify i True Target_None PerEvent dl lv"
  let ?p = "plan_notification rule event subject ?a"
  from assms have e: "rap_dispatch p = rap_dispatch ?p" "rap_dedupe_key p = rap_dedupe_key ?p"
    by (auto simp: plan_action_def)
  have "rap_dispatch ?p = Dispatch_Notification (rule_notification (rap_summary ?p)
      (''Rule matched an inbound event'' @ newline @ ''nodeId: '' @ action_node_id ?a) subject event [])"
    and "rap_dedupe_key ?p = event_notify_key rule event"
    by (simp_all add: plan_notification_def rule_action_dedupe_key_def Let_def event_notify_key_def)
  from trans [OF e(1) this(1)] trans [OF e(2) this(2)] show thesis by (rule that)
qed

text \<open>A default notification finds the rows of an earlier one under the same key.\<close>

lemma dispatch_same_key:
  assumes "producer_consistent d"
    and a: "rap_dispatch a = Dispatch_Notification (rule_notification t1 b1 subject event [])"
    and b: "rap_dispatch b = Dispatch_Notification (rule_notification t2 b2 subject event [])"
    and key: "rap_dedupe_key a = rap_dedupe_key b"
    and da: "dispatch_action env cfg i plan a now d = Inr (ids1, d1)"
    and db: "dispatch_action env cfg i plan b now d2 = Inr (ids2, d3)" and grows: "outbox_grows d1 d2"
  shows "set ids1 \<inter> set ids2 \<noteq> {}"
proof -
  from da a obtain n1 cs where n1: "normalize_request (re_parse_url env) (rule_notification t1 b1 subject event []) = Inr n1"
    and cs: "selected_channels_from_settings (cfg_channels cfg) (nr_channel_ids n1) = Inr cs" "cs \<noteq> []"
    and ea: "enqueue_prepared_in_tx (\<lambda>k. []) 0 (map (prepared_row_of n1 (Some (rap_dedupe_key a))) cs)
      (rap_delay_secs a) now d = Inr (ids1, d1)"
    by (auto simp: dispatch_action_def elim!: enqueue_notification_in_txE)
  from db b obtain n2 cs' where n2: "normalize_request (re_parse_url env) (rule_notification t2 b2 subject event []) = Inr n2"
    and cs': "selected_channels_from_settings (cfg_channels cfg) (nr_channel_ids n2) = Inr cs'"
    and eb: "enqueue_prepared_in_tx (\<lambda>k. []) 0 (map (prepared_row_of n2 (Some (rap_dedupe_key b))) cs')
      (rap_delay_secs b) now d2 = Inr (ids2, d3)"
    by (auto simp: dispatch_action_def elim!: enqueue_notification_in_txE)
  from n1 n2 have same: "nr_channel_ids n1 = nr_channel_ids n2" "nr_project_id n1 = nr_project_id n2"
    by (auto simp: normalize_request_def try_bind_Inr_iff rule_notification_def normalize_channel_ids_def
        max_channel_ids_def split: if_splits)
  with cs cs' have "cs' = cs" by simp
  from enqueue_prepared_recorded [OF assms(1) ea] outbox_grows_any [OF grows]
  have "list_all2 (\<lambda>row i. \<exists>k. pr_dedupe_key row = Some k \<and> any_status_id (pr_project_id row) k d2 = Some i)
      (map (prepared_row_of n2 (Some (rap_dedupe_key b))) cs) ids1"
    by (auto simp: list_all2_conv_all_nth same key)
  from enqueue_prepared_known [OF this] eb \<open>cs' = cs\<close> have "ids2 = ids1" by simp
  moreover have "ids1 \<noteq> []" using enqueue_prepared_length [OF ea] cs(2) by auto
  ultimately show ?thesis by (cases ids1) auto
qed

lemma commit_plan_duplicate_notify:
  assumes "producer_consistent d"
    and "filter ra_enabled (rc_actions rule) =
      xs @ Notify i True Target_None PerEvent dl1 lv1 # ys @ Notify j True Target_None PerEvent dl2 lv2 # zs"
  shows "\<exists>e. commit_plan env cfg m now (plan_rule fs projects event subject cand rule) d = Inl e"
proof (rule ccontr)
  let ?plan = "plan_rule fs projects event subject cand rule"
  assume "\<not> ?thesis"
  then obtain ids d' where c: "commit_plan env cfg m now ?plan d = Inr (ids, d')"
    by (cases "commit_plan env cfg m now ?plan d") auto
  obtain ps errs where pl: "plan_actions fs rule projects event subject cand (filter ra_enabled (rc_actions rule)) = (ps, errs)"
    by (cases "plan_actions fs rule projects event subject cand (filter ra_enabled (rc_actions rule))")
  from c pl have "errs = []"
    by (auto simp: commit_plan_def plan_rule_def split: if_splits)
  with plan_actions_no_errors [of fs rule projects event subject cand] pl
  have "list_all2 (\<lambda>a p. plan_action fs rule projects event subject cand a = Inr p)
    (xs @ Notify i True Target_None PerEvent dl1 lv1 # ys @ Notify j True Target_None PerEvent dl2 lv2 # zs) ps"
    by (simp add: assms(2))
  then obtain p1 pa p2 pb p3 where ps: "ps = p1 @ pa # p2 @ pb # p3"
    and a: "plan_action fs rule projects event subject cand (Notify i True Target_None PerEvent dl1 lv1) = Inr pa"
    and b: "plan_action fs rule projects event subject cand (Notify j True Target_None PerEvent dl2 lv2) = Inr pb"
    by (auto simp: list_all2_append1 list_all2_Cons1)
  from c pl \<open>errs = []\<close> obtain ids0 d0 mm where
    disp: "dispatch_actions env cfg m ?plan ps now d = Inr (ids0, d0)"
    and ins: "\<exists>new r. insert_match_in_tx new d0 = Inr r \<and> nrm_action_ids new = ids0"
    by (auto simp: commit_plan_def plan_rule_def try_bind_Inr_iff) force
  from disp ps obtain i1 d1 r1 where s1: "dispatch_actions env cfg m ?plan p1 now d = Inr (i1, d1)"
    and r1: "dispatch_actions env cfg m ?plan (pa # p2 @ pb # p3) now d1 = Inr (r1, d0)" and e1: "ids0 = i1 @ r1"
    by (auto elim: dispatch_actions_append)
  from r1 obtain ia d2 r2 where sa: "dispatch_action env cfg m ?plan pa now d1 = Inr (ia, d2)"
    and r2: "dispatch_actions env cfg m ?plan (p2 @ pb # p3) now d2 = Inr (r2, d0)" and e2: "r1 = ia @ r2"
    by (rule dispatch_actions_ConsE)
  from r2 obtain i2 d3 r3 where s2: "dispatch_actions env cfg m ?plan p2 now d2 = Inr (i2, d3)"
    and r3: "dispatch_actions env cfg m ?plan (pb # p3) now d3 = Inr (r3, d0)" and e3: "r2 = i2 @ r3"
    by (rule dispatch_actions_append)
  from r3 obtain ib d4 r4 where sb: "dispatch_action env cfg m ?plan pb now d3 = Inr (ib, d4)" and e4: "r3 = ib @ r4"
    by (rule dispatch_actions_ConsE)
  from dispatch_actions_inv [OF s1] assms(1) have cons: "producer_consistent d1" by blast
  from dispatch_actions_inv [OF s2] have grows: "outbox_grows d2 d3" by blast
  obtain t1 b1 where na: "rap_dispatch pa = Dispatch_Notification (rule_notification t1 b1 subject event [])"
    and ka: "rap_dedupe_key pa = event_notify_key rule event" by (rule plan_default_notify [OF a])
  obtain t2 b2 where nb: "rap_dispatch pb = Dispatch_Notification (rule_notification t2 b2 subject event [])"
    and kb: "rap_dedupe_key pb = event_notify_key rule event" by (rule plan_default_notify [OF b])
  have "set ia \<inter> set ib \<noteq> {}"
    by (rule dispatch_same_key [OF cons na nb _ sa sb grows]) (simp only: ka kb)
  moreover from ins have "distinct ids0" by (auto elim: insert_match_Inr)
  ultimately show False by (auto simp: e1 e2 e3 e4)
qed

section \<open>Processing an event\<close>

text \<open>
  What an action asks of the outbox, read off the plan and the configuration: one row for a skill run
  and for a message, one row per selected channel for a notification; with each row its producer key,
  where it has one.
\<close>

definition action_inputs ::
    "rule_env \<Rightarrow> app_config \<Rightarrow> int \<Rightarrow> nat \<Rightarrow> rule_match_plan \<Rightarrow> rule_action_plan
      \<Rightarrow> (enqueue_input \<times> string option) list" where
  "action_inputs env cfg i now plan action =
     (case rap_dispatch action of
        Dispatch_Outbox payload \<Rightarrow>
          [(\<lparr>ei_project_id = rmp_project_id plan, ei_kind = rap_kind action, ei_summary = rap_summary action,
             ei_payload = payload, ei_dedupe_key = Some (rap_dedupe_key action),
             ei_next_attempt_at = Some (sat_add_u64 now (rap_delay_secs action))\<rparr>,
            ok (producer_for_rule_action i (rmp_rule_id plan) (rap_action_id action)))]
      | Dispatch_Notification request \<Rightarrow>
          (case normalize_request (re_parse_url env) request of
             Inl e \<Rightarrow> []
           | Inr n \<Rightarrow>
               (case selected_channels_from_settings (cfg_channels cfg) (nr_channel_ids n) of
                  Inl e \<Rightarrow> []
                | Inr cs \<Rightarrow>
                    map (\<lambda>c. let inp = prepared_input now (rap_delay_secs action)
                                  (prepared_row_of n (Some (rap_dedupe_key action)) c)
                             in (inp, ok (default_producer_key [] inp))) cs))
      | Dispatch_Messaging request \<Rightarrow>
          (case find (\<lambda>m. mi_id m = smr_integration_id request) (cfg_integrations cfg) of
             None \<Rightarrow> []
           | Some integration \<Rightarrow>
               (case prepare_send integration request of
                  Inl e \<Rightarrow> []
                | Inr ps \<Rightarrow>
                    (let inp = \<lparr>ei_project_id = messaging_outbox_scope, ei_kind = Kind_MessagingSend,
                           ei_summary = ps_summary ps, ei_payload = ps_payload ps,
                           ei_dedupe_key = Some (ps_dedupe_key ps),
                           ei_next_attempt_at = Some (sat_add_u64 now (rap_delay_secs action))\<rparr>
                     in [(inp, ok (default_producer_key [] inp))]))))"

text \<open>The row an input asks for, when it is new; and a row that stands for it.\<close>

definition planned_row :: "nat \<Rightarrow> enqueue_input \<times> string option \<Rightarrow> outbox_row \<Rightarrow> bool" where
  "planned_row now x r \<longleftrightarrow>
     (\<exists>k n. snd x = Some k \<and> ei_next_attempt_at (fst x) = Some n \<and>
        r = enqueue_row (fst x) k (int n) (int now) (ob_id r))"

definition row_for :: "db \<Rightarrow> enqueue_input \<times> string option \<Rightarrow> int \<Rightarrow> bool" where
  "row_for d x a \<longleftrightarrow>
     (\<exists>r \<in> set (tb_rows (db_outbox d)). ob_id r = a \<and>
        (snd x = Some (ob_producer_key r) \<or>
         ob_project_id r = ei_project_id (fst x) \<and> ob_dedupe_key r = ei_dedupe_key (fst x) \<and> ob_dedupe_key r \<noteq> None))"

definition adds :: "nat \<Rightarrow> (enqueue_input \<times> string option) set \<Rightarrow> int set \<Rightarrow> db \<Rightarrow> db \<Rightarrow> bool" where
  "adds now xs ids d d' \<longleftrightarrow>
     (\<exists>new. tb_rows (db_outbox d') = tb_rows (db_outbox d) @ new \<and>
        (\<forall>r \<in> set new. ob_id r \<in> ids \<and> (\<exists>x \<in> xs. planned_row now x r)))"

lemma adds_refl: "db_outbox d' = db_outbox d \<Longrightarrow> adds now xs ids d d'"
  by (simp add: adds_def)

lemma adds_trans: "adds now xs ids d d1 \<Longrightarrow> adds now ys ids' d1 d2 \<Longrightarrow> adds now (xs \<union> ys) (ids \<union> ids') d d2"
  by (fastforce simp: adds_def)

lemma row_for_mono:
  "row_for d x a \<Longrightarrow> set (tb_rows (db_outbox d)) \<subseteq> set (tb_rows (db_outbox d')) \<Longrightarrow> row_for d' x a"
  by (auto simp: row_for_def)

lemma adds_rows: "adds now xs ids d d' \<Longrightarrow> set (tb_rows (db_outbox d)) \<subseteq> set (tb_rows (db_outbox d'))"
  by (auto simp: adds_def)

lemma sqlite_epoch_Inr: "sqlite_epoch f n = Inr x \<Longrightarrow> x = int n"
  by (auto simp: sqlite_epoch_def split: if_splits)

lemma enqueue_inner_serves:
  assumes "enqueue_inner_tx inp k now d = Inr (a, d')" and "ei_next_attempt_at inp = Some n"
  shows "row_for d' (inp, Some k) a \<and> adds now {(inp, Some k)} {a} d d'"
  using assms(1)
proof (cases rule: enqueue_inner_txE)
  case (inserted next_at now_sql)
  with assms(2) have "next_at = int n" "now_sql = int now" by (auto dest: sqlite_epoch_Inr)
  with inserted assms(2) show ?thesis by (auto simp: row_for_def adds_def planned_row_def table_simps)
qed (auto simp: row_for_def adds_def dest!: find_SomeD)

lemma enqueue_in_serves:
  assumes "enqueue_in_tx [] inp now d = Inr (a, d')" and "ei_next_attempt_at inp = Some n"
  shows "row_for d' (inp, ok (default_producer_key [] inp)) a \<and> adds now {(inp, ok (default_producer_key [] inp))} {a} d d'"
  using assms enqueue_inner_serves by (auto simp: enqueue_in_tx_def try_bind_Inr_iff)

lemma known_serves:
  assumes "id_by_dedupe_key_any_status_in_tx p k d = Inr (Some a)" and "ei_project_id inp = p" and "ei_dedupe_key inp = Some k"
  shows "row_for d (inp, x) a"
  using assms by (auto simp: id_by_dedupe_key_any_status_in_tx_def row_for_def dest!: find_SomeD)

lemma enqueue_one_serves:
  assumes "enqueue_one_prepared [] row delay now d = Inr (a, d')" and "pr_dedupe_key row = Some k"
  shows "let inp = prepared_input now delay row; x = (inp, ok (default_producer_key [] inp)) in
    row_for d' x a \<and> adds now {x} {a} d d'"
proof -
  let ?inp = "prepared_input now delay row"
  have inp: "ei_next_attempt_at ?inp = Some (sat_add_u64 now delay)" "ei_project_id ?inp = pr_project_id row"
    "ei_dedupe_key ?inp = Some k"
    using assms(2) by (simp_all add: prepared_input_def)
  from assms consider "enqueue_in_tx [] ?inp now d = Inr (a, d')"
    | "id_by_dedupe_key_any_status_in_tx (pr_project_id row) k d = Inr (Some a)" "d' = d"
    by (auto simp: enqueue_one_prepared_def try_bind_Inr_iff split: option.splits)
  then show ?thesis
  proof cases
    case 1
    from enqueue_in_serves [OF this inp(1)] show ?thesis by (simp add: Let_def)
  next
    case 2
    with known_serves [OF 2(1) inp(2,3)] show ?thesis by (simp add: Let_def adds_refl)
  qed
qed

lemma enqueue_prepared_serves:
  assumes "enqueue_prepared_in_tx (\<lambda>k. []) j (map (prepared_row_of n (Some p)) cs) delay now d = Inr (ids, d')"
  shows "let xs = map (\<lambda>c. let inp = prepared_input now delay (prepared_row_of n (Some p) c)
                           in (inp, ok (default_producer_key [] inp))) cs in
    list_all2 (row_for d') xs ids \<and> adds now (set xs) (set ids) d d'"
  using assms
proof (induction cs arbitrary: j d ids)
  case Nil
  then show ?case by (simp add: adds_refl)
next
  case (Cons c cs)
  from Cons.prems obtain a d1 ids2 where
    one: "enqueue_one_prepared [] (prepared_row_of n (Some p) c) delay now d = Inr (a, d1)"
    and rest: "enqueue_prepared_in_tx (\<lambda>k. []) (Suc j) (map (prepared_row_of n (Some p)) cs) delay now d1 = Inr (ids2, d')"
    and ids: "ids = a # ids2"
    by (auto simp: try_bind_Inr_iff)
  have k: "pr_dedupe_key (prepared_row_of n (Some p) c) = Some (p @ '':'' @ nch_id c)"
    by (simp add: prepared_row_of_def Let_def)
  from enqueue_one_serves [OF one k] Cons.IH [OF rest] show ?case
    by (auto simp: Let_def ids intro: row_for_mono [OF _ adds_rows] adds_trans [of now "{_}" "{_}", simplified])
qed

lemma dispatch_action_serves:
  assumes "dispatch_action env cfg i plan action now d = Inr (ids, d')"
  shows "action_inputs env cfg i now plan action \<noteq> [] \<and>
    list_all2 (row_for d') (action_inputs env cfg i now plan action) ids \<and>
    adds now (set (action_inputs env cfg i now plan action)) (set ids) d d'"
proof (cases "rap_dispatch action")
  case (Dispatch_Outbox payload)
  with assms show ?thesis
    by (auto simp: dispatch_action_def try_bind_Inr_iff enqueue_in_tx_with_producer_def inbox_event_id_new_def
        action_inputs_def dest!: enqueue_inner_serves split: if_splits)
next
  case (Dispatch_Notification request)
  with assms obtain n cs where "normalize_request (re_parse_url env) request = Inr n"
    and "selected_channels_from_settings (cfg_channels cfg) (nr_channel_ids n) = Inr cs" "cs \<noteq> []"
    and "enqueue_prepared_in_tx (\<lambda>k. []) 0 (map (prepared_row_of n (Some (rap_dedupe_key action))) cs)
      (rap_delay_secs action) now d = Inr (ids, d')"
    by (auto simp: dispatch_action_def elim!: enqueue_notification_in_txE)
  with Dispatch_Notification enqueue_prepared_serves [OF this(4)] show ?thesis
    by (simp add: action_inputs_def Let_def)
next
  case (Dispatch_Messaging request)
  with assms obtain integration ps existing a where
    find: "find (\<lambda>m. mi_id m = smr_integration_id request) (cfg_integrations cfg) = Some integration"
    and ps: "prepare_send integration request = Inr ps"
    and known: "id_by_dedupe_key_any_status_in_tx messaging_outbox_scope (ps_dedupe_key ps) d = Inr existing"
    and enq: "(case existing of Some j \<Rightarrow> Inr (j, d) | None \<Rightarrow>
         enqueue_in_tx [] \<lparr>ei_project_id = messaging_outbox_scope, ei_kind = Kind_MessagingSend,
           ei_summary = ps_summary ps, ei_payload = ps_payload ps, ei_dedupe_key = Some (ps_dedupe_key ps),
           ei_next_attempt_at = Some (sat_add_u64 now (rap_delay_secs action))\<rparr> now d) = Inr (a, d')"
    and ids: "ids = [a]"
    by (auto simp: dispatch_action_def enqueue_send_once_after_in_tx_def try_bind_Inr_iff ok_or_Inr_iff)
  show ?thesis
  proof (cases existing)
    case None
    with enq enqueue_in_serves Dispatch_Messaging find ps ids show ?thesis
      by (simp add: action_inputs_def Let_def)
  next
    case (Some j)
    with enq known have "id_by_dedupe_key_any_status_in_tx messaging_outbox_scope (ps_dedupe_key ps) d = Inr (Some a)" "d' = d"
      by auto
    with known_serves [OF this(1)] Dispatch_Messaging find ps ids show ?thesis
      by (simp add: action_inputs_def Let_def adds_refl)
  qed
qed

definition action_served ::
    "rule_env \<Rightarrow> app_config \<Rightarrow> int \<Rightarrow> nat \<Rightarrow> db \<Rightarrow> rule_match_plan \<Rightarrow> rule_action_plan \<Rightarrow> int list \<Rightarrow> bool" where
  "action_served env cfg i now d plan action ids \<longleftrightarrow>
     action_inputs env cfg i now plan action \<noteq> [] \<and>
     list_all2 (row_for d) (action_inputs env cfg i now plan action) ids"

definition plan_inputs ::
    "rule_env \<Rightarrow> app_config \<Rightarrow> int \<Rightarrow> nat \<Rightarrow> rule_match_plan \<Rightarrow> (enqueue_input \<times> string option) set" where
  "plan_inputs env cfg i now plan = \<Union> (set ` action_inputs env cfg i now plan ` set (rmp_actions plan))"

lemma action_served_mono:
  "action_served env cfg i now d plan action ids \<Longrightarrow>
    set (tb_rows (db_outbox d)) \<subseteq> set (tb_rows (db_outbox d')) \<Longrightarrow> action_served env cfg i now d' plan action ids"
  by (auto simp: action_served_def intro: list_all2_mono row_for_mono)

lemma dispatch_actions_serve:
  assumes "dispatch_actions env cfg i plan as now d = Inr (ids, d')"
  shows "(\<exists>idss. ids = concat idss \<and> list_all2 (action_served env cfg i now d' plan) as idss) \<and>
    adds now (\<Union> (set ` action_inputs env cfg i now plan ` set as)) (set ids) d d'"
  using assms
proof (induction as arbitrary: d ids)
  case Nil
  then show ?case by (simp add: adds_refl)
next
  case (Cons a as)
  from Cons.prems obtain ids1 d1 ids2 where a: "dispatch_action env cfg i plan a now d = Inr (ids1, d1)"
    and rest: "dispatch_actions env cfg i plan as now d1 = Inr (ids2, d')" and ids: "ids = ids1 @ ids2"
    by (rule dispatch_actions_ConsE)
  note one = dispatch_action_serves [OF a]
  from Cons.IH [OF rest] obtain idss where idss: "ids2 = concat idss"
      "list_all2 (action_served env cfg i now d' plan) as idss"
    and adds2: "adds now (\<Union> (set ` action_inputs env cfg i now plan ` set as)) (set ids2) d1 d'" by blast
  from one have "action_served env cfg i now d1 plan a ids1" by (simp add: action_served_def)
  then have "action_served env cfg i now d' plan a ids1"
    by (rule action_served_mono [OF _ adds_rows [OF adds2]])
  with idss ids have "ids = concat (ids1 # idss) \<and> list_all2 (action_served env cfg i now d' plan) (a # as) (ids1 # idss)"
    by simp
  then have served: "\<exists>idss. ids = concat idss \<and> list_all2 (action_served env cfg i now d' plan) (a # as) idss"
    by blast
  from adds_trans [OF _ adds2] one
  have "adds now (\<Union> (set ` action_inputs env cfg i now plan ` set (a # as))) (set ids) d d'" by (simp add: ids)
  with served show ?case by blast
qed

text \<open>
  What a commit adds: one match for every plan, the links from it to the rows of its actions, and the
  rows of the outbox the actions ask for; nothing else changes.
\<close>

definition committed_match ::
    "rule_env \<Rightarrow> app_config \<Rightarrow> int \<Rightarrow> nat \<Rightarrow> db \<Rightarrow> rule_match_plan \<Rightarrow> rule_match_row \<times> int list list \<Rightarrow> bool" where
  "committed_match env cfg i now d plan x \<longleftrightarrow>
     (case x of (m, idss) \<Rightarrow>
        rmp_errors plan = [] \<and>
        m = \<lparr>rm_id = rm_id m, rm_rule_id = rmp_rule_id plan, rm_rule_name = rmp_rule_name plan,
             rm_inbox_event_id = i, rm_project_id = rmp_project_id plan,
             rm_action_count = int (length (concat idss)), rm_error = None, rm_created_at = as_i64 now\<rparr> \<and>
        distinct (concat idss) \<and> list_all2 (action_served env cfg i now d plan) (rmp_actions plan) idss)"

definition match_grows :: "(rule_match_row \<times> int list list) list \<Rightarrow> db \<Rightarrow> db \<Rightarrow> bool" where
  "match_grows new d d' \<longleftrightarrow>
     db_inbox d' = db_inbox d \<and>
     tb_rows (db_rule_match d') = tb_rows (db_rule_match d) @ map fst new \<and>
     db_match_action d' = db_match_action d @ concat (map (\<lambda>(m, idss). map (Pair (rm_id m)) (concat idss)) new)"

lemma committed_match_mono:
  "committed_match env cfg i now d plan x \<Longrightarrow>
    set (tb_rows (db_outbox d)) \<subseteq> set (tb_rows (db_outbox d')) \<Longrightarrow> committed_match env cfg i now d' plan x"
  by (auto simp: committed_match_def intro: list_all2_mono action_served_mono)

lemma match_grows_refl: "match_grows [] d d"
  by (simp add: match_grows_def)

lemma match_grows_trans:
  "match_grows new d d1 \<Longrightarrow> match_grows new' d1 d2 \<Longrightarrow> match_grows (new @ new') d d2"
  by (simp add: match_grows_def)

lemma commit_plan_Inr:
  assumes "commit_plan env cfg i now plan d = Inr (ids, d')"
  shows "\<exists>x. committed_match env cfg i now d' plan x \<and> match_grows [x] d d' \<and>
    adds now (plan_inputs env cfg i now plan) (set (concat (snd x))) d d'"
proof -
  from assms obtain d1 j where errs: "rmp_errors plan = []"
    and disp: "dispatch_actions env cfg i plan (rmp_actions plan) now d = Inr (ids, d1)"
    and ins: "insert_match_in_tx \<lparr>nrm_rule_id = rmp_rule_id plan, nrm_rule_name = rmp_rule_name plan,
        nrm_inbox_event_id = i, nrm_project_id = rmp_project_id plan, nrm_action_ids = ids,
        nrm_error = None, nrm_now = now\<rparr> d1 = Inr (j, d')"
    by (auto simp: commit_plan_def try_bind_Inr_iff split: if_splits)
  from dispatch_actions_inv [OF disp] have grows: "outbox_grows d d1" by blast
  from dispatch_actions_serve [OF disp] obtain idss where idss: "ids = concat idss"
      "list_all2 (action_served env cfg i now d1 plan) (rmp_actions plan) idss"
    and added: "adds now (plan_inputs env cfg i now plan) (set ids) d d1" by (auto simp: plan_inputs_def)
  from ins obtain m where m: "m = \<lparr>rm_id = j, rm_rule_id = rmp_rule_id plan, rm_rule_name = rmp_rule_name plan,
             rm_inbox_event_id = i, rm_project_id = rmp_project_id plan,
             rm_action_count = int (length ids), rm_error = None, rm_created_at = as_i64 now\<rparr>"
    and dist: "distinct ids"
    and d': "d' = d1\<lparr>db_rule_match := tbl_push j m (db_rule_match d1),
           db_match_action := db_match_action d1 @ map (Pair j) ids\<rparr>"
    by (rule insert_match_Inr) simp
  have "match_grows [(m, idss)] d d'"
    using outbox_grows_other [OF grows] by (simp add: match_grows_def d' table_simps m idss(1))
  moreover have "committed_match env cfg i now d1 plan (m, idss)"
    using errs m dist idss by (simp add: committed_match_def)
  then have "committed_match env cfg i now d' plan (m, idss)"
    by (rule committed_match_mono) (simp add: d')
  moreover have "adds now (plan_inputs env cfg i now plan) (set (concat (snd (m, idss)))) d d'"
    using added by (simp add: adds_def d' idss(1))
  ultimately show ?thesis by blast
qed

lemma commit_plans_Inr:
  assumes "commit_plans env cfg i now plans d = Inr (ids, d')"
  shows "\<exists>new. list_all2 (committed_match env cfg i now d') plans new \<and> match_grows new d d' \<and>
    adds now (\<Union> (plan_inputs env cfg i now ` set plans)) (\<Union> (set ` concat ` snd ` set new)) d d'"
  using assms
proof (induction plans arbitrary: d ids)
  case Nil
  then show ?case by (auto intro: match_grows_refl adds_refl)
next
  case (Cons plan plans)
  from Cons.prems obtain ids1 d1 ids2 where one: "commit_plan env cfg i now plan d = Inr (ids1, d1)"
    and rest: "commit_plans env cfg i now plans d1 = Inr (ids2, d')"
    by (auto simp: try_bind_Inr_iff)
  from commit_plan_Inr [OF one] obtain x where x: "committed_match env cfg i now d1 plan x" "match_grows [x] d d1"
      "adds now (plan_inputs env cfg i now plan) (set (concat (snd x))) d d1" by blast
  from Cons.IH [OF rest] obtain new where new: "list_all2 (committed_match env cfg i now d') plans new"
      "match_grows new d1 d'" "adds now (\<Union> (plan_inputs env cfg i now ` set plans)) (\<Union> (set ` concat ` snd ` set new)) d1 d'" by blast
  from committed_match_mono [OF x(1) adds_rows [OF new(3)]] new(1)
  have "list_all2 (committed_match env cfg i now d') (plan # plans) (x # new)" by simp
  moreover from match_grows_trans [OF x(2) new(2)] have "match_grows (x # new) d d'" by simp
  moreover from adds_trans [OF x(3) new(3)] have "adds now (\<Union> (plan_inputs env cfg i now ` set (plan # plans))) (\<Union> (set ` concat ` snd ` set (x # new))) d d'" by simp
  ultimately show ?case by blast
qed


lemma mark_processed_in_txE:
  assumes "distinct (map ib_id (tb_rows (db_inbox d)))" and "mark_processed_in_tx i now d = Inr (u, d')"
  shows "map_option ib_status (by_id ib_id i (db_inbox d)) = Some ''received'' \<and>
    map_option ib_status (by_id ib_id i (db_inbox d')) = Some ''processed'' \<and>
    (\<exists>t. d' = d\<lparr>db_inbox := t\<rparr>)"
proof -
  obtain n t where nt: "cas ib_id (\<lambda>r. ib_status r = ''received'') (processed_row now) i (db_inbox d) = (n, t)"
    by (cases "cas ib_id (\<lambda>r. ib_status r = ''received'') (processed_row now) i (db_inbox d)")
  with assms(2) have n: "n = Suc 0" and d': "d' = d\<lparr>db_inbox := t\<rparr>"
    by (auto simp: mark_processed_in_tx_cas split: if_splits)
  show ?thesis
  proof (rule inbox_commit.cas_won [OF assms(1) nt [unfolded n]])
    fix r
    assume "by_id ib_id i (db_inbox d) = Some r" "ib_status r = ''received''"
      "by_id ib_id i t = Some (processed_row now r)"
    then show ?thesis by (auto simp: d' processed_row_def)
  qed
qed

definition event_plans :: "rule_env \<Rightarrow> app_config \<Rightarrow> event_envelope \<Rightarrow> candidate option \<Rightarrow> rule_match_plan list" where
  "event_plans env cfg event cand =
     plan_event (re_fs env) (re_to_lowercase env) (cfg_rules cfg) (cfg_projects cfg) event cand"

lemma process_rule_event_cases:
  assumes "process_rule_event env load w i event cand = (r, w')"
  obtains (failed) e where "r = Inl e" "w_db w' = w_db w" "w_events w' = w_events w"
      "w_outbox_wake w' = w_outbox_wake w"
  | (committed) cfg ids where "load = Inr cfg" "r = Inr ()"
      "rule_event_tx env cfg i (fst (now_epoch w)) (event_plans env cfg event cand) (w_db w) = Inr (ids, w_db w')"
proof (cases load)
  case (Inl e)
  with assms show thesis by (intro failed [of e]) (auto simp: process_rule_event_def)
next
  case (Inr cfg)
  let ?tx = "rule_event_tx env cfg i (fst (now_epoch w)) (event_plans env cfg event cand) (w_db w)"
  show thesis
  proof (cases ?tx)
    case (Inl e)
    with assms Inr show thesis
      by (intro failed [of e])
         (auto simp: process_rule_event_def event_plans_def now_epoch_def on_db_def with_tx_def)
  next
    case (Inr p)
    with assms \<open>load = Inr cfg\<close> show thesis
      by (intro committed [of cfg "fst p"])
         (auto simp: process_rule_event_def event_plans_def now_epoch_def on_db_def with_tx_def Let_def
           wake_outbox_def split: prod.splits)
  qed
qed

lemma process_rule_event_committed:
  assumes "inbox_ok (w_db w)" and "process_rule_event env load w i event cand = (Inr u, w')"
  obtains cfg d1 new t where "load = Inr cfg"
    "list_all2 (committed_match env cfg i (fst (now_epoch w)) (w_db w')) (event_plans env cfg event cand) new"
    "match_grows new (w_db w) d1"
    "adds (fst (now_epoch w)) (\<Union> (plan_inputs env cfg i (fst (now_epoch w)) ` set (event_plans env cfg event cand)))
       (\<Union> (set ` concat ` snd ` set new)) (w_db w) (w_db w')"
    "mark_processed_in_tx i (fst (now_epoch w)) d1 = Inr ((), w_db w')" "w_db w' = d1\<lparr>db_inbox := t\<rparr>"
    "map_option ib_status (by_id ib_id i (db_inbox (w_db w))) = Some ''received''"
    "map_option ib_status (by_id ib_id i (db_inbox (w_db w'))) = Some ''processed''"
  using assms(2)
proof (cases rule: process_rule_event_cases)
  case (failed e)
  then show thesis by simp
next
  case (committed cfg ids)
  let ?now = "fst (now_epoch w)"
  from committed(3) obtain d1 where plans: "commit_plans env cfg i ?now (event_plans env cfg event cand) (w_db w) = Inr (ids, d1)"
    and mark: "mark_processed_in_tx i ?now d1 = Inr ((), w_db w')"
    by (auto simp: rule_event_tx_def try_bind_Inr_iff)
  from commit_plans_Inr [OF plans] obtain new where
    new: "list_all2 (committed_match env cfg i ?now d1) (event_plans env cfg event cand) new"
      "match_grows new (w_db w) d1"
      "adds ?now (\<Union> (plan_inputs env cfg i ?now ` set (event_plans env cfg event cand))) (\<Union> (set ` concat ` snd ` set new)) (w_db w) d1" by blast
  have same: "db_inbox d1 = db_inbox (w_db w)" using new(2) by (simp add: match_grows_def)
  with assms(1) have dist: "distinct (map ib_id (tb_rows (db_inbox d1)))"
    by (auto simp: inbox_ok_def dest: tbl_ok_distinct)
  from mark_processed_in_txE [OF dist mark] obtain t where st:
    "map_option ib_status (by_id ib_id i (db_inbox d1)) = Some ''received''"
    "map_option ib_status (by_id ib_id i (db_inbox (w_db w'))) = Some ''processed''"
    and d': "w_db w' = d1\<lparr>db_inbox := t\<rparr>" by blast
  have "list_all2 (committed_match env cfg i ?now (w_db w')) (event_plans env cfg event cand) new"
    using new(1) by (rule list_all2_mono) (auto intro: committed_match_mono simp: d')
  moreover have "adds ?now (\<Union> (plan_inputs env cfg i ?now ` set (event_plans env cfg event cand))) (\<Union> (set ` concat ` snd ` set new)) (w_db w) (w_db w')"
    using new(3) by (simp add: adds_def d')
  ultimately show thesis using that [OF committed(1) _ new(2) _ mark d'] st same by simp
qed

text \<open>
  C6. An event is processed completely or not at all. An error leaves the database, the emitted events
  and the worker's permit as they were. A success has turned the row from received to processed and
  added, for every plan, one match with the plan's rule and project; none of the plans had a planning
  error. Every action of every plan is served: for each row it asks for (one for a skill run or a
  message, one for each selected channel, at least one, of a notification) the match is linked to a row
  of the outbox with its producer key or its project and dedupe key; the match has no other links, each
  link once, and counts them. The outbox has grown by linked rows only, each with the kind, summary,
  payload and due time that an action asks for.
\<close>

theorem rule_event_all_or_nothing:
  assumes "inbox_ok (w_db w)" and "process_rule_event env load w i event cand = (r, w')"
  shows "case r of
      Inl e \<Rightarrow> w_db w' = w_db w \<and> w_events w' = w_events w \<and> w_outbox_wake w' = w_outbox_wake w
    | Inr _ \<Rightarrow> \<exists>cfg new. load = Inr cfg \<and>
        map_option ib_status (by_id ib_id i (db_inbox (w_db w))) = Some ''received'' \<and>
        map_option ib_status (by_id ib_id i (db_inbox (w_db w'))) = Some ''processed'' \<and>
        list_all2 (committed_match env cfg i (fst (now_epoch w)) (w_db w')) (event_plans env cfg event cand) new \<and>
        tb_rows (db_rule_match (w_db w')) = tb_rows (db_rule_match (w_db w)) @ map fst new \<and>
        db_match_action (w_db w') = db_match_action (w_db w) @
          concat (map (\<lambda>(m, idss). map (Pair (rm_id m)) (concat idss)) new) \<and>
        (\<exists>added. tb_rows (db_outbox (w_db w')) = tb_rows (db_outbox (w_db w)) @ added \<and>
           (\<forall>row \<in> set added. (\<exists>(m, idss) \<in> set new. ob_id row \<in> set (concat idss)) \<and>
              (\<exists>plan \<in> set (event_plans env cfg event cand). \<exists>action \<in> set (rmp_actions plan).
                \<exists>x \<in> set (action_inputs env cfg i (fst (now_epoch w)) plan action). planned_row (fst (now_epoch w)) x row)))"
  using assms(2)
proof (cases rule: process_rule_event_cases)
  case (failed e)
  then show ?thesis by simp
next
  case (committed cfg' ids)
  from assms(2) committed(2) have "process_rule_event env load w i event cand = (Inr (), w')" by simp
  then show ?thesis
  proof (rule process_rule_event_committed [OF assms(1)])
    fix cfg d1 new t
    let ?now = "fst (now_epoch w)"
    assume c: "load = Inr cfg"
      "list_all2 (committed_match env cfg i ?now (w_db w')) (event_plans env cfg event cand) new"
      "map_option ib_status (by_id ib_id i (db_inbox (w_db w))) = Some ''received''"
      "map_option ib_status (by_id ib_id i (db_inbox (w_db w'))) = Some ''processed''"
      and grows: "match_grows new (w_db w) d1" and d': "w_db w' = d1\<lparr>db_inbox := t\<rparr>"
      and added: "adds ?now (\<Union> (plan_inputs env cfg i ?now ` set (event_plans env cfg event cand))) (\<Union> (set ` concat ` snd ` set new)) (w_db w) (w_db w')"
    have "\<exists>added. tb_rows (db_outbox (w_db w')) = tb_rows (db_outbox (w_db w)) @ added \<and>
        (\<forall>row \<in> set added. (\<exists>(m, idss) \<in> set new. ob_id row \<in> set (concat idss)) \<and>
          (\<exists>plan \<in> set (event_plans env cfg event cand). \<exists>action \<in> set (rmp_actions plan).
            \<exists>x \<in> set (action_inputs env cfg i ?now plan action). planned_row ?now x row))"
      using added by (fastforce simp: adds_def plan_inputs_def)
    with c grows committed(2) show ?thesis
      by (auto simp: match_grows_def d' simp del: split_paired_Ex)
  qed
qed

definition no_files :: filesystem where
  "no_files = \<lparr>fs_canonicalize = (\<lambda>p. Inl ''no such file''), fs_is_file = (\<lambda>p. False)\<rparr>"

definition sample_env :: rule_env where
  "sample_env = \<lparr>re_fs = no_files, re_to_lowercase = (\<lambda>s. s), re_parse_url = (\<lambda>u. None)\<rparr>"

definition sample_project :: project where
  "sample_project = \<lparr>prj_id = ''p'', prj_name = ''P'', prj_enabled = True, prj_repo = ''o/r'',
     prj_repo_root = ''/r'', prj_poll_interval_secs = 60, prj_authors = [], prj_pr_cooldown_seconds = 60,
     prj_source_kind = Github, prj_engine_kind = Cursor, prj_codex_model = [], prj_claude_model = [],
     prj_cursor_model = [], prj_codex_effort = CE_Default, prj_claude_effort = CL_Default,
     prj_update_mode = Manual, prj_azure_org = [], prj_azure_project = [], prj_label_source = Native,
     prj_bitbucket_host = [], prj_bitbucket_project = [], prj_bitbucket_token = []\<rparr>"

lemma sample_invocation: "resolve_skill_invocation no_files [] sample_project 7 [] =
    Inr (build_invocation ''pr-review'' None ''/pr-review 7'' [])"
proof -
  have "dec 7 = ''7''" by (simp add: dec.simps digit_def) (simp add: char_of_def bit_iff_odd)
  then show ?thesis
    by (simp add: resolve_skill_invocation_def validate_extra_args_def chosen_action_def skill_actions_def
        default_pr_review_def invocation_from_config_def sample_project_def validate_prompt_token_def
        render_command_def default_skill_name_def default_command_template_def str_replace.simps
        requires_skill_path_def Let_def)
qed

definition request_sample :: db where
  "request_sample = empty_db\<lparr>db_inbox :=
     \<lparr>tb_rows = [inbox_insert_row request_event ''raw'' None None 1], tb_seq = 1\<rparr>\<rparr>"

lemma request_sample_ok: "inbox_ok request_sample"
proof -
  have "insert_dedup_tx request_event ''raw'' None None empty_db = Inr (Some 1, request_sample)"
    by (simp add: insert_dedup_tx_def tbl_next_def empty_db_def empty_table_def i64_max_def tbl_push_def
        prune_ids_def max_inbox_events_def delete_inbox_def sql_delete_def sql_select_def request_sample_def)
  from insert_dedup_tx_ok [OF inbox_ok_empty this] show ?thesis .
qed

definition request_config :: app_config where
  "request_config = desktop_config\<lparr>cfg_rules := [], cfg_projects := [sample_project]\<rparr>"

lemma request_plans:
  "event_plans sample_env request_config request_event None =
     [\<lparr>rmp_rule_id = external_rule_id, rmp_rule_name = ''External review request'', rmp_project_id = ''p'',
       rmp_actions = [\<lparr>rap_kind = Kind_RunSkill, rap_summary = ''External pr-review request for PR #'' @ dec 7,
         rap_dispatch = Dispatch_Outbox (JsonOf (ReviewPayload (Explicit 7 (replicate 32 CHR ''0'') Cli
           (build_invocation ''pr-review'' None ''/pr-review 7'' [])))),
         rap_dedupe_key = ''external:'' @ replicate 32 CHR ''0'', rap_delay_secs = 0,
         rap_action_id = ''pr-review'' @ [NUL], rap_level = ''system''\<rparr>], rmp_errors = []\<rparr>]"
proof -
  have "prj_id sample_project = ''p''" by (simp add: sample_project_def)
  then show ?thesis
    by (simp add: event_plans_def plan_event_def plan_request_def request_event_def request_config_def
        sample_env_def sample_invocation) (simp add: build_invocation_def skill_key_def)
qed

lemma enqueue_first:
  assumes "db_outbox d = empty_table" and "ei_next_attempt_at inp = Some n" and "int n \<le> i64_max" and "int now \<le> i64_max"
    and "json_valid (ei_payload inp)" and "k \<noteq> []"
  shows "enqueue_inner_tx inp k now d =
    Inr (1, d\<lparr>db_outbox := tbl_push 1 (enqueue_row inp k (int n) (int now) 1) empty_table\<rparr>)"
proof -
  have "outbox_insertable (enqueue_row inp k (int n) (int now) 1) []"
    using assms(5,6) unique_index_snoc [of producer_index "[]"] unique_index_snoc [of live_dedupe_index "[]"]
    by (cases "ei_kind inp")
       (simp_all add: outbox_insertable_def outbox_check_def enqueue_row_def outbox_kinds_def outbox_statuses_def
         thread_check_def kind_as_wire_def unique_index_def)
  with assms show ?thesis
    by (simp add: enqueue_inner_tx_def sqlite_epoch_def tbl_next_def empty_table_def i64_max_def)
qed

lemma request_processed:
  "\<exists>w'. process_rule_event sample_env (Inr request_config) (idle_world request_sample) 1 request_event None = (Inr (), w')"
proof -
  have "trim external_rule_id \<noteq> []"
    by (rule trim_not_Nil [of "CHR ''s''"]) (simp_all add: external_rule_id_def is_ascii_alphanumeric_def byte_of_def)
  moreover have "trim (''pr-review'' @ [NUL]) \<noteq> []"
    by (rule trim_not_Nil [of "CHR ''p''"]) (simp_all add: is_ascii_alphanumeric_def byte_of_def)
  moreover have "trim (''inbox:'' @ x) \<noteq> []" for x
    by (rule trim_not_Nil [of "CHR ''i''"]) (simp_all add: is_ascii_alphanumeric_def byte_of_def)
  ultimately obtain k where k: "producer_for_rule_action 1 external_rule_id (''pr-review'' @ [NUL]) = Inr k" "k \<noteq> []"
    by (auto simp: producer_for_rule_action_def new_key_def non_empty_def)
  have e: "db_outbox request_sample = empty_table" by (simp add: request_sample_def empty_db_def)
  have "\<exists>r. rule_event_tx sample_env request_config 1 10 (event_plans sample_env request_config request_event None)
      request_sample = Inr r"
    using k
    by (simp add: request_plans rule_event_tx_def commit_plan_def dispatch_action_def inbox_event_id_new_def
        enqueue_in_tx_with_producer_def enqueue_first [OF e] i64_max_def u64_max_def sat_add_u64_def)
       (simp add: insert_match_in_tx_def request_sample_def empty_db_def empty_table_def tbl_next_def i64_max_def
        by_id_def tbl_push_def mark_processed_in_tx_def inbox_update_def sql_changes_def Let_def)
  then show ?thesis
    by (auto simp: process_rule_event_def on_db_def with_tx_def event_plans_def now_epoch_def idle_world_def split_beta Let_def)
qed

theorem rule_event_all_or_nothing_witness:
  "\<exists>w' new a. process_rule_event sample_env (Inr request_config) (idle_world request_sample) 1 request_event None = (Inr (), w') \<and>
    tb_rows (db_rule_match (w_db w')) = [new] \<and> db_match_action (w_db w') = [(rm_id new, a)] \<and>
    a \<in> ob_id ` set (tb_rows (db_outbox (w_db w')))"
proof -
  let ?w = "idle_world request_sample"
  obtain w' where p: "process_rule_event sample_env (Inr request_config) ?w 1 request_event None = (Inr (), w')"
    using request_processed by blast
  have ok: "inbox_ok (w_db ?w)" by (simp add: idle_world_def request_sample_ok)
  have none: "tb_rows (db_rule_match (w_db ?w)) = []" "db_match_action (w_db ?w) = []"
    by (simp_all add: idle_world_def request_sample_def empty_db_def empty_table_def)
  from rule_event_all_or_nothing [OF ok p] obtain new where
    m: "list_all2 (committed_match sample_env request_config 1 (fst (now_epoch ?w)) (w_db w'))
      (event_plans sample_env request_config request_event None) new"
    and rows: "tb_rows (db_rule_match (w_db w')) = map fst new"
    and links: "db_match_action (w_db w') = concat (map (\<lambda>(m, idss). map (Pair (rm_id m)) (concat idss)) new)"
    by (auto simp: none)
  from m obtain r ids where new: "new = [(r, [ids])]"
    and served: "action_served sample_env request_config 1 (fst (now_epoch ?w)) (w_db w')
      (hd (event_plans sample_env request_config request_event None))
      (hd (rmp_actions (hd (event_plans sample_env request_config request_event None)))) ids"
    by (auto simp: request_plans list_all2_Cons1 committed_match_def)
  from served obtain a where "ids = [a]" "a \<in> ob_id ` set (tb_rows (db_outbox (w_db w')))"
    by (auto simp: request_plans action_served_def action_inputs_def list_all2_Cons1 row_for_def)
  with p rows links new show ?thesis by (intro exI [of _ w'] exI [of _ r] exI [of _ a]) simp
qed

lemma commit_plan_consistent:
  assumes "producer_consistent d" and "commit_plan env cfg i now plan d = Inr (ids, d')"
  shows "producer_consistent d'"
proof -
  from assms(2) obtain d1 j new where "dispatch_actions env cfg i plan (rmp_actions plan) now d = Inr (ids, d1)"
    and ins: "insert_match_in_tx new d1 = Inr (j, d')"
    by (auto simp: commit_plan_def try_bind_Inr_iff split: if_splits)
  with dispatch_actions_inv assms(1) have "producer_consistent d1" by blast
  moreover from ins have "db_outbox d' = db_outbox d1" by (rule insert_match_Inr) simp
  ultimately show ?thesis by (simp add: producer_consistent_def)
qed

lemma commit_plans_fail:
  assumes "producer_consistent d" and "plan \<in> set plans"
    and "\<And>d. producer_consistent d \<Longrightarrow> \<exists>e. commit_plan env cfg i now plan d = Inl e"
  shows "\<exists>e. commit_plans env cfg i now plans d = Inl e"
  using assms(1,2)
proof (induction plans arbitrary: d)
  case (Cons p ps)
  show ?case
  proof (cases "commit_plan env cfg i now p d")
    case (Inl e)
    then show ?thesis by simp
  next
    case (Inr r)
    obtain ids d1 where r: "r = (ids, d1)" by (cases r)
    with Inr commit_plan_consistent Cons.prems(1) have c: "producer_consistent d1" by blast
    from Inr assms(3) [OF Cons.prems(1)] have "p \<noteq> plan" by auto
    with Cons.prems(2) Cons.IH [OF c] obtain e where "commit_plans env cfg i now ps d1 = Inl e" by auto
    with Inr r show ?thesis by simp
  qed
qed simp

text \<open>
  Two enabled notifications of one rule that keep the default target and dedupe policy make every
  event the rule matches fail: both get the dedupe key of the event, so the second returns the outbox
  row of the first, which the primary key of the match's links rejects, and the whole transaction, with
  the actions of every other rule, is rolled back.
\<close>

theorem duplicate_default_notifications_fail:
  assumes "producer_consistent (w_db w)" and "env_payload event = Observation ty subject"
    and "rule \<in> set (cfg_rules cfg)" and "rule_matches (re_to_lowercase env) rule event"
    and "filter ra_enabled (rc_actions rule) =
      xs @ Notify j True Target_None PerEvent dl1 lv1 # ys @ Notify k True Target_None PerEvent dl2 lv2 # zs"
  shows "\<exists>e w'. process_rule_event env (Inr cfg) w i event cand = (Inl e, w') \<and> w_db w' = w_db w"
proof -
  obtain r w' where p: "process_rule_event env (Inr cfg) w i event cand = (r, w')"
    by (cases "process_rule_event env (Inr cfg) w i event cand")
  let ?plan = "plan_rule (re_fs env) (cfg_projects cfg) event subject cand rule"
  have "?plan \<in> set (event_plans env cfg event cand)"
    using assms(2-4) by (auto simp: event_plans_def plan_event_def)
  then have fails: "\<exists>e. commit_plans env cfg i now (event_plans env cfg event cand) (w_db w) = Inl e" for now
    using commit_plan_duplicate_notify [OF _ assms(5)] by (intro commit_plans_fail [OF assms(1)])
  from p show ?thesis
  proof (cases rule: process_rule_event_cases)
    case (failed e)
    with p show ?thesis by simp
  next
    case (committed cfg' ids)
    with fails [of "fst (now_epoch w)"] show ?thesis by (auto simp: rule_event_tx_def try_bind_Inr_iff)
  qed
qed

lemma alnum_token: "s \<noteq> [] \<Longrightarrow> list_all is_ascii_alphanumeric s \<Longrightarrow> \<not> bad_token s"
proof -
  assume s: "s \<noteq> []" "list_all is_ascii_alphanumeric s"
  then have "trim s = s" by (intro trim_alnum) (simp_all add: list_all_iff)
  moreover have "CHR '':'' \<notin> set s"
    using s(2) by (auto simp: list_all_iff is_ascii_alphanumeric_def is_ascii_digit_def byte_of_def)
  moreover have "\<not> sublist w s" if "w \<in> set white_space" for w
    using white_space_edges [OF that] s(2) by (cases w) (auto simp: list_all_iff dest: set_mono_sublist)
  ultimately show "\<not> bad_token s" using s(1)
    by (auto simp: bad_token_def has_whitespace_def list_ex_iff contains_sub_iff)
qed

definition noisy_rule :: rule_config where
  "noisy_rule = \<lparr>rc_id = ''r'', rc_name = ''t'', rc_enabled = True, rc_source = None, rc_event_type = None,
     rc_project_id = [], rc_repo = [], rc_labels_any = [], rc_labels_all = [], rc_title_contains = [],
     rc_body_contains = [], rc_actions = [ra_notify ''a'', ra_notify ''b''], rc_allow_action_kinds = [],
     rc_deny_action_kinds = []\<rparr>"

theorem duplicate_default_notifications_fail_witness:
  "validate_rules no_files (desktop_config\<lparr>cfg_rules := [noisy_rule]\<rparr>) = Inr () \<and>
   (\<exists>e w'. process_rule_event sample_env (Inr (desktop_config\<lparr>cfg_rules := [noisy_rule]\<rparr>)) (idle_world inbox_sample)
      1 sample_event None = (Inl e, w'))"
proof -
  have tok: "\<not> bad_token ''r''" "\<not> bad_token ''a''" "\<not> bad_token ''b''" "\<not> bad_token ''action''"
    by (rule alnum_token, simp_all add: is_ascii_alphanumeric_def is_ascii_digit_def byte_of_def)+
  then have v: "validate_rules no_files (desktop_config\<lparr>cfg_rules := [noisy_rule]\<rparr>) = Inr ()"
    by (simp add: validate_rules_def default_config_def noisy_rule_def validate_rule_def validate_rule_action_def
        validate_delay_secs_def validate_action_body_def ra_notify_def max_configured_delay_secs_def)
  have c: "producer_consistent (w_db (idle_world inbox_sample))"
    by (simp add: producer_consistent_def idle_world_def inbox_sample_def empty_db_def empty_table_def)
  have pay: "env_payload sample_event = Observation Label
       \<lparr>sub_number = Some 7, sub_title = ''t'', sub_body = [], sub_labels = [''review''], sub_url = []\<rparr>"
    by (simp add: sample_event_def)
  have m: "rule_matches (re_to_lowercase sample_env) noisy_rule sample_event"
    by (simp add: rule_matches_def as_observation_def pay noisy_rule_def contains_ci_def)
  have acts: "filter ra_enabled (rc_actions noisy_rule) =
      [] @ Notify ''a'' True Target_None PerEvent 0 ''action'' # [] @ Notify ''b'' True Target_None PerEvent 0 ''action'' # []"
    by (simp add: noisy_rule_def ra_notify_def)
  from duplicate_default_notifications_fail [OF c pay _ m acts, of "desktop_config\<lparr>cfg_rules := [noisy_rule]\<rparr>" 1 None] v
  show ?thesis by auto
qed

section \<open>Confinement of what is planned\<close>

definition confined_in :: "filesystem \<Rightarrow> project \<Rightarrow> skill_invocation \<Rightarrow> bool" where
  "confined_in fs prj invo \<longleftrightarrow>
     validate_prompt_token ''command'' (inv_command invo) = Inr () \<and>
     (case inv_skill_path invo of
        None \<Rightarrow> prj_engine_kind prj \<noteq> Codex
      | Some q \<Rightarrow> fs_is_file fs q \<and>
          (case fs_canonicalize fs (prj_repo_root prj) of Inl _ \<Rightarrow> False | Inr rc \<Rightarrow> path_starts_with q rc))"

lemma invocation_confined:
  assumes "invocation_from_config fs (prj_repo_root prj) name path tmpl pr repo extra (prj_engine_kind prj) = Inr invo"
  shows "confined_in fs prj invo"
proof (cases "requires_skill_path (prj_engine_kind prj)")
  case True
  with invocation_from_config_Inr(6) [OF assms] obtain q where q: "inv_skill_path invo = Some q"
    and res: "resolve_skill_path fs (prj_repo_root prj) path = Inr q" by blast
  from res q invocation_from_config_Inr(5) [OF assms] show ?thesis
    by (auto simp: confined_in_def elim!: resolve_skill_path_Inr)
next
  case False
  with invocation_from_config_Inr(5,7) [OF assms] show ?thesis
    by (simp add: confined_in_def requires_skill_path_def)
qed

lemma resolve_invocation_confined:
  "resolve_skill_invocation fs rules prj pr extra = Inr invo \<Longrightarrow> confined_in fs prj invo"
  by (auto simp: resolve_skill_invocation_def try_bind_Inr_iff default_pr_review_def
      dest: invocation_confined split: option.splits)

lemma plan_actions_in:
  "p \<in> set (fst (plan_actions fs rule projects event subject cand as)) \<Longrightarrow>
    \<exists>a \<in> set as. plan_action fs rule projects event subject cand a = Inr p"
  by (induction as) (auto split: prod.splits sum.splits)

text \<open>
  Every review that is planned, from a rule or from an external request, is confined to a
  configured project: its command has no backtick or newline, and its skill file, which a Codex project
  always has, is an existing file inside the canonical root of the repository.
\<close>

theorem planned_reviews_confined:
  assumes "plan \<in> set (plan_event fs to_lowercase rules projects event cand)"
    and "action \<in> set (rmp_actions plan)"
    and "rap_dispatch action = Dispatch_Outbox (JsonOf (ReviewPayload payload))"
  shows "\<exists>prj \<in> set projects. confined_in fs prj (payload_invocation payload)"
proof (cases "env_payload event")
  case (Observation ty subject)
  with assms(1) obtain rule where "plan = plan_rule fs projects event subject cand rule"
    by (auto simp: plan_event_def)
  with assms(2) have "action \<in> set (fst (plan_actions fs rule projects event subject cand
      (filter ra_enabled (rc_actions rule))))"
    by (simp add: plan_rule_def split_beta)
  from plan_actions_in [OF this] obtain a where a: "plan_action fs rule projects event subject cand a = Inr action"
    by blast
  show ?thesis
  proof (cases a)
    case RunSkill
    with a obtain p where p: "plan_run_skill fs rule projects event cand a = Inr p"
      "rap_dispatch action = rap_dispatch p" by (auto simp: plan_action_def try_bind_Inr_iff)
    then obtain c where c: "cand = Some c" by (cases cand) (auto simp: plan_run_skill_def)
    with p(1) obtain prj invo c' where prj: "find (\<lambda>q. prj_id q =
        (if rc_project_id rule = [] then env_project_id event else rc_project_id rule)) projects = Some prj"
      and invo: "invocation_from_config fs (prj_repo_root prj) (ra_skill_name a) (ra_skill_path a)
        (ra_command_template a) (cand_number c) (env_repo event) (ra_extra_args a) (prj_engine_kind prj) = Inr invo"
      and d: "rap_dispatch p = Dispatch_Outbox (JsonOf (ReviewPayload (Automatic c' invo)))"
      by (cases "find (\<lambda>q. prj_id q = (if rc_project_id rule = [] then env_project_id event else rc_project_id rule)) projects")
         (auto simp: plan_run_skill_def try_bind_Inr_iff Let_def)
    from find_SomeD [OF prj] invocation_confined [OF invo] d p(2) assms(3) show ?thesis by auto
  next
    case Notify
    with a assms(3) show ?thesis
      by (auto simp: plan_action_def plan_notification_def Let_def split: rule_action_target.splits)
  qed
next
  case (ReviewRequest request)
  with assms(1) have plan: "plan = plan_request fs rules projects event request" by (simp add: plan_event_def)
  show ?thesis
  proof (cases "find (\<lambda>p. prj_id p = env_project_id event) projects")
    case None
    with plan assms(2) show ?thesis by (simp add: plan_request_def)
  next
    case (Some prj)
    show ?thesis
    proof (cases "resolve_skill_invocation fs rules prj (req_pr_number request) (req_extra_args request)")
      case (Inl e)
      with Some plan assms(2) show ?thesis by (simp add: plan_request_def)
    next
      case (Inr invo)
      with Some plan assms(2,3) have "payload_invocation payload = invo"
        by (auto simp: plan_request_def)
      with resolve_invocation_confined [OF Inr] find_SomeD [OF Some] show ?thesis by auto
    qed
  qed
qed

theorem planned_reviews_confined_witness:
  "\<exists>plan action. plan \<in> set (plan_event no_files (\<lambda>s. s) [] [sample_project] request_event None) \<and>
     action \<in> set (rmp_actions plan) \<and>
     (\<exists>prj \<in> set [sample_project]. confined_in no_files prj (build_invocation ''pr-review'' None ''/pr-review 7'' []))"
proof -
  let ?plan = "plan_request no_files [] [sample_project] request_event (the (as_review_request request_event))"
  have plan: "?plan \<in> set (plan_event no_files (\<lambda>s. s) [] [sample_project] request_event None)"
    by (simp add: plan_event_def request_event_def as_review_request_def)
  have find: "find (\<lambda>p. prj_id p = env_project_id request_event) [sample_project] = Some sample_project"
    by (simp add: request_event_def sample_project_def)
  obtain action where a: "action \<in> set (rmp_actions ?plan)" and
    d: "rap_dispatch action = Dispatch_Outbox (JsonOf (ReviewPayload (Explicit 7 (replicate 32 CHR ''0'') Cli
      (build_invocation ''pr-review'' None ''/pr-review 7'' []))))"
    unfolding plan_request_def find
    by (simp add: request_event_def as_review_request_def sample_invocation)
  from planned_reviews_confined [OF plan a d] plan a show ?thesis by auto
qed

section \<open>Identities\<close>

lemma bad_tokenD: "\<not> bad_token s \<Longrightarrow> trim s \<noteq> []"
  by (simp add: bad_token_def)

text \<open>
  In a validated rule set the producer key of a rule action tells which event, rule and action made
  it: two actions of rules of the set have the same key for two inbox events only if the events, the
  rules and the actions are the same.
\<close>

theorem validated_producer_keys_distinct:
  assumes "validate_rules fs cfg = Inr ()"
    and "r1 \<in> set (cfg_rules cfg)" and "a1 \<in> set (rc_actions r1)"
    and "r2 \<in> set (cfg_rules cfg)" and "a2 \<in> set (rc_actions r2)"
    and "producer_for_rule_action i (rc_id r1) (ra_id a1) = Inr k" and "0 < i"
    and "producer_for_rule_action j (rc_id r2) (ra_id a2) = Inr k" and "0 < j"
  shows "i = j \<and> r1 = r2 \<and> a1 = a2"
proof -
  from producer_rule_action_inj [OF assms(6,8)] assms(7,9)
  have ids: "i = j" "rc_id r1 = rc_id r2" "ra_id a1 = ra_id a2" by auto
  from validate_rules_loop_Inr [OF assms(1) [unfolded validate_rules_def]]
  have "distinct (map rc_id (cfg_rules cfg))" and r1: "validate_rule fs r1 cfg = Inr ()" using assms(2) by auto
  with ids(2) assms(2,4) have "r1 = r2" by (auto simp: distinct_map inj_on_def)
  moreover from validate_rule_Inr [OF r1] have "distinct (map ra_id (rc_actions r1))" by blast
  ultimately show ?thesis using ids assms(3,5) by (auto simp: distinct_map inj_on_def)
qed

theorem validated_producer_keys_distinct_witness:
  "\<exists>k. producer_for_rule_action 1 (rc_id noisy_rule) (ra_id (ra_notify ''a'')) = Inr k \<and>
     noisy_rule \<in> set (cfg_rules (desktop_config\<lparr>cfg_rules := [noisy_rule]\<rparr>))"
proof -
  let ?cfg = "desktop_config\<lparr>cfg_rules := [noisy_rule]\<rparr>"
  have tok: "\<not> bad_token ''r''" "\<not> bad_token ''a''" "\<not> bad_token ''b''" "\<not> bad_token ''action''"
    by (rule alnum_token, simp_all add: is_ascii_alphanumeric_def is_ascii_digit_def byte_of_def)+
  then have v: "validate_rules no_files ?cfg = Inr ()"
    by (simp add: validate_rules_def default_config_def noisy_rule_def validate_rule_def validate_rule_action_def
        validate_delay_secs_def validate_action_body_def ra_notify_def max_configured_delay_secs_def)
  have "trim (''inbox:'' @ x) \<noteq> []" for x
    by (rule trim_not_Nil [of "CHR ''i''"]) (simp_all add: is_ascii_alphanumeric_def byte_of_def)
  with bad_tokenD [OF tok(1)] bad_tokenD [OF tok(2)]
  have "\<exists>k. producer_for_rule_action 1 (rc_id noisy_rule) (ra_id (ra_notify ''a'')) = Inr k"
    by (simp add: producer_for_rule_action_def new_key_def non_empty_def noisy_rule_def ra_notify_def)
  then obtain k where k: "producer_for_rule_action 1 (rc_id noisy_rule) (ra_id (ra_notify ''a'')) = Inr k" by blast
  have a: "ra_notify ''a'' \<in> set (rc_actions noisy_rule)" by (simp add: noisy_rule_def)
  have r: "noisy_rule \<in> set (cfg_rules ?cfg)" by simp
  from validated_producer_keys_distinct [OF v r a r a k _ k] k r show ?thesis by blast
qed

text \<open>
  A polled event is deduplicated by what it says: the order and the repetition of the labels that
  the source reports, and the time of the poll, do not enter its key.
\<close>

theorem poll_key_ignores_label_order:
  assumes "normalize_discovered_event sha project_id d now = Inr e"
    and "as_observation (dsc_event d) = Some (ty, subject)" and "set labels = set (sub_labels subject)"
  shows "\<exists>e'. normalize_discovered_event sha project_id
      (d\<lparr>dsc_event := (dsc_event d)\<lparr>env_payload := Observation ty (subject\<lparr>sub_labels := labels\<rparr>)\<rparr>\<rparr>) later = Inr e' \<and>
    e' = e\<lparr>env_received_at_epoch := later\<rparr>"
proof -
  have s: "remdups_adj (sort labels) = remdups_adj (sort (sub_labels subject))"
    by (rule remdups_adj_sort [OF assms(3)])
  from assms(1,2) show ?thesis
    by (auto simp: normalize_discovered_event_def as_observation_def try_bind_Inr_iff Let_def s
        envelope_observation_def envelope_new_Inr_iff new_key_Inr_iff
        split: event_payload.splits)
qed

definition sample_candidate :: candidate where
  "sample_candidate = \<lparr>cand_number = 7, cand_head_sha = ''s'', cand_head_ref = ''h'', cand_author = ''a'',
     cand_is_cross_repository = False, cand_is_draft = False, cand_skill_key = ''k''\<rparr>"

theorem poll_key_ignores_label_order_witness:
  "\<exists>e e'. normalize_discovered_event (\<lambda>s. ''x'') ''p''
      \<lparr>dsc_event = sample_event, dsc_candidate = sample_candidate, dsc_conflict = False\<rparr> 1 = Inr e \<and>
    e' = e\<lparr>env_received_at_epoch := 2\<rparr> \<and> env_dedupe_key e' = env_dedupe_key e"
proof -
  let ?d = "\<lparr>dsc_event = sample_event, dsc_candidate = sample_candidate, dsc_conflict = False\<rparr>"
  have "trim (''poll:sha256:'' @ x) \<noteq> []" for x
    by (rule trim_not_Nil [of "CHR ''p''"]) (simp_all add: is_ascii_alphanumeric_def byte_of_def)
  then obtain e where e: "normalize_discovered_event (\<lambda>s. ''x'') ''p'' ?d 1 = Inr e"
    by (auto simp: normalize_discovered_event_def as_observation_def sample_event_def Let_def new_key_def
        non_empty_def envelope_observation_def envelope_new_def)
  have o: "as_observation (dsc_event ?d) = Some (Label, \<lparr>sub_number = Some 7, sub_title = ''t'', sub_body = [],
      sub_labels = [''review''], sub_url = []\<rparr>)"
    by (simp add: as_observation_def sample_event_def)
  from poll_key_ignores_label_order [OF e o, of "[''review'', ''review'']" 2] e show ?thesis by auto
qed

section \<open>From the inbox to the rules\<close>

text \<open>
  Processing a received row whose plan needs no source (a review request, or a stored candidate)
  ends in one of two ways: the row is processed and its rules are committed, or it is failed with the
  returned message and neither the outbox nor the matches have changed.
\<close>

theorem processing_commits_or_records:
  assumes "inbox_ok (w_db w)" and "load_received_plan i w = (Inr (Some plan), w)"
    and "pp_action plan = ProcessReviewRequest \<or> (\<exists>c. pp_action plan = ProcessRulesWithCandidate c)"
    and "process_received refeed refresh (process_rule_event env load) i w = (r, w')"
    and "by_id ib_id i (db_inbox (w_db w')) = Some row"
  shows "case r of
      Inr _ \<Rightarrow> ib_status row = ''processed''
    | Inl e \<Rightarrow> ib_status row = ''failed'' \<and> ib_error row = Some (message e) \<and>
        db_outbox (w_db w') = db_outbox (w_db w) \<and> db_rule_match (w_db w') = db_rule_match (w_db w) \<and>
        db_match_action (w_db w') = db_match_action (w_db w)"
proof -
  obtain res w1 where run: "run_plan refeed refresh (process_rule_event env load) i plan w = (res, w1)"
    by (cases "run_plan refeed refresh (process_rule_event env load) i plan w")
  from assms(3) obtain cand where "run_plan refeed refresh (process_rule_event env load) i plan w =
      process_rules_for (process_rule_event env load) i cand w"
    by (auto simp: run_plan_def)
  with run have rules: "process_rules_for (process_rule_event env load) i cand w = (res, w1)" by simp
  show ?thesis
  proof (cases res)
    case (Inl e)
    have same: "w_db w1 = w_db w"
    proof (cases "try_bind (get_replayable i (w_db w)) (\<lambda>row. ok_or row (missing_entry i))")
      case (Inl e)
      with rules show ?thesis by (simp add: process_rules_for_def)
    next
      case (Inr pr)
      with rules have p: "process_rule_event env load w i (pir_event pr) cand = (Inl e, w1)"
        by (simp add: process_rules_for_def \<open>res = Inl e\<close>)
      from p show ?thesis by (cases rule: process_rule_event_cases) auto
    qed
    from assms(2,4) run Inl mark_failed_Inr obtain now where r: "r = Inl e"
      and d': "w_db w' = snd (inbox_mark_failed i (message e) now (w_db w1))"
      by (auto simp: process_received_def record_processing_result_def on_db_def split_beta split: sum.splits)
    have "db_outbox (w_db w') = db_outbox (w_db w) \<and> db_rule_match (w_db w') = db_rule_match (w_db w) \<and>
        db_match_action (w_db w') = db_match_action (w_db w)"
      by (simp add: d' same inbox_mark_failed_def with_conn_def inbox_update_def)
    moreover have "failed_with i (message e) (w_db w')" by (simp add: d' failed_with_mark)
    ultimately show ?thesis using r assms(5) by (simp add: failed_with_def)
  next
    case (Inr u)
    from rules Inr obtain pr where "try_bind (get_replayable i (w_db w)) (\<lambda>row. ok_or row (missing_entry i)) = Inr pr"
      by (cases "try_bind (get_replayable i (w_db w)) (\<lambda>row. ok_or row (missing_entry i))")
         (simp_all add: process_rules_for_def)
    with rules Inr have p: "process_rule_event env load w i (pir_event pr) cand = (Inr u, w1)"
      by (simp add: process_rules_for_def)
    from assms(2,4) run Inr have r: "r = Inr u" and d': "w_db w' = w_db w1"
      by (auto simp: process_received_def record_processing_result_def)
    from p have "map_option ib_status (by_id ib_id i (db_inbox (w_db w1))) = Some ''processed''"
    proof (cases rule: process_rule_event_cases)
      case (committed cfg ids)
      then obtain d1 new where mark: "mark_processed_in_tx i (fst (now_epoch w)) d1 = Inr ((), w_db w1)"
        and grows: "match_grows new (w_db w) d1"
        using commit_plans_Inr by (fastforce simp: rule_event_tx_def try_bind_Inr_iff)
      from assms(1) grows have "distinct (map ib_id (tb_rows (db_inbox d1)))"
        by (auto simp: match_grows_def inbox_ok_def dest: tbl_ok_distinct)
      from mark_processed_in_txE [OF this mark] show ?thesis by blast
    qed simp
    with r d' assms(5) show ?thesis by simp
  qed
qed

definition inbox_candidate_sample :: db where
  "inbox_candidate_sample = empty_db\<lparr>db_inbox :=
     \<lparr>tb_rows = [inbox_insert_row sample_event ''raw'' None (Some sample_candidate) 1], tb_seq = 1\<rparr>\<rparr>"

lemma inbox_candidate_sample_ok: "inbox_ok inbox_candidate_sample"
proof -
  have "insert_dedup_tx sample_event ''raw'' None (Some sample_candidate) empty_db = Inr (Some 1, inbox_candidate_sample)"
    by (simp add: insert_dedup_tx_def tbl_next_def empty_db_def empty_table_def i64_max_def tbl_push_def
        prune_ids_def max_inbox_events_def delete_inbox_def sql_delete_def sql_select_def inbox_candidate_sample_def)
  from insert_dedup_tx_ok [OF inbox_ok_empty this] show ?thesis .
qed

theorem processing_commits_or_records_witness:
  "\<exists>w'. process_received (\<lambda>w s. (Inr None, w)) (\<lambda>w s. (Inr (), w)) (process_rule_event sample_env (Inl (AppError ''cfg''))) 1
      (idle_world inbox_candidate_sample) = (Inl (AppError ''cfg''), w') \<and>
    map_option ib_status (by_id ib_id 1 (db_inbox (w_db w'))) = Some ''failed''"
proof -
  let ?w = "idle_world inbox_candidate_sample"
  let ?p = "process_received (\<lambda>w s. (Inr None, w)) (\<lambda>w s. (Inr (), w)) (process_rule_event sample_env (Inl (AppError ''cfg''))) 1 ?w"
  let ?plan = "\<lparr>pp_project_id = ''p'', pp_action = ProcessRulesWithCandidate sample_candidate\<rparr>"
  have row: "by_id ib_id 1 (db_inbox inbox_candidate_sample) = Some (inbox_insert_row sample_event ''raw'' None (Some sample_candidate) 1)"
    by (simp add: inbox_candidate_sample_def by_id_def)
  have g: "get_replayable 1 inbox_candidate_sample = Inr (Some \<lparr>pir_event = sample_event, pir_source = Github,
      pir_status = Inbox_Received, pir_webhook_event_json = None, pir_candidate = Some sample_candidate\<rparr>)"
    unfolding get_replayable_def row
    using envelope_deserialize_serialize [OF sample_event_ok]
    by (simp add: inbox_status_from_wire_def) (simp add: inbox_insert_row_def sample_event_def source_from_wire_def)
  have ok: "inbox_ok (w_db ?w)" by (simp add: idle_world_def inbox_candidate_sample_ok)
  have load: "load_received_plan 1 ?w = (Inr (Some ?plan), ?w)"
    using g by (simp add: load_received_plan_def load_processing_plan_def plan_action_of_def idle_world_def
        as_review_request_def sample_event_def)
  have run: "run_plan (\<lambda>w s. (Inr None, w)) (\<lambda>w s. (Inr (), w)) (process_rule_event sample_env (Inl (AppError ''cfg''))) 1 ?plan ?w
      = (Inl (AppError ''cfg''), ?w)"
    using g by (simp add: run_plan_def process_rules_for_def idle_world_def process_rule_event_def)
  have p: "?p = (Inl (AppError ''cfg''), snd ?p)" and "\<exists>r. by_id ib_id 1 (db_inbox (w_db (snd ?p))) = Some r"
    using mark_failed_Inr [of 1 "''cfg''" 10 inbox_candidate_sample] row
    by (simp_all add: process_received_def load run record_processing_result_def split_beta now_epoch_def
        on_db_def mark_failed_lookup split: sum.split) (simp_all add: idle_world_def mark_failed_lookup)
  then obtain r where r: "by_id ib_id 1 (db_inbox (w_db (snd ?p))) = Some r" by blast
  from processing_commits_or_records [OF ok load _ p r] p r show ?thesis
    by (intro exI [of _ "snd ?p"]) simp
qed

end
