(* ===== verification/Inbox_Commits.thy ===== *)
theory Inbox_Commits
  imports Rule_Properties
begin

text \<open>
  The life of an inbox row across the worker, the replays, new deliveries and the retention
  (\<open>inbox/service.rs\<close>, \<open>inbox/store.rs\<close>, the rule processor of \<open>lib.rs\<close>): once the rules of an event
  are committed, they are never committed again.
\<close>

section \<open>An event commits at most once\<close>

text \<open>
  What may happen to the inbox between two attempts at one event: deliveries are inserted (with the
  retention that goes with an insert), failed rows are replayed, the worker processes rows, and
  everything else leaves the inbox and the matches alone. The two closures that ask a source for more
  events may do the first and the last.
\<close>

inductive feeds :: "world \<Rightarrow> world \<Rightarrow> bool" where
  Feed_Other: "db_inbox (w_db w') = db_inbox (w_db w) \<Longrightarrow> db_rule_match (w_db w') = db_rule_match (w_db w) \<Longrightarrow>
    feeds w w'"
| Feed_Insert: "insert_dedup event raw webhook cand (w_db w) = (res, w_db w') \<Longrightarrow> feeds w w'"
| Feed_Trans: "feeds w w1 \<Longrightarrow> feeds w1 w2 \<Longrightarrow> feeds w w2"

definition feeding_closures :: "github_refeed \<Rightarrow> azure_refresh \<Rightarrow> bool" where
  "feeding_closures refeed refresh \<longleftrightarrow>
     (\<forall>w s. feeds w (snd (refeed w s))) \<and> (\<forall>w s. feeds w (snd (refresh w s)))"

inductive inbox_history :: "world \<Rightarrow> world \<Rightarrow> bool" where
  Inbox_Start: "inbox_history w w"
| Inbox_Feed: "inbox_history w w1 \<Longrightarrow> feeds w1 w2 \<Longrightarrow> inbox_history w w2"
| Inbox_Replayed: "inbox_history w w1 \<Longrightarrow> inbox_replay j w1 = (r, w2) \<Longrightarrow> inbox_history w w2"
| Inbox_Handled: "inbox_history w w1 \<Longrightarrow> feeding_closures refeed refresh \<Longrightarrow>
    process_received refeed refresh (process_rule_event env load) j w1 = (r, w2) \<Longrightarrow> inbox_history w w2"

definition event_matches :: "int \<Rightarrow> db \<Rightarrow> rule_match_row set" where
  "event_matches i d = {m \<in> set (tb_rows (db_rule_match d)). rm_inbox_event_id m = i}"

text \<open>The row of a committed event stays as it is until the retention takes it, with its matches.\<close>

definition settled :: "int \<Rightarrow> inbox_row \<Rightarrow> rule_match_row set \<Rightarrow> db \<Rightarrow> bool" where
  "settled i r ms d \<longleftrightarrow>
     inbox_ok d \<and> i \<le> tb_seq (db_inbox d) \<and>
     (by_id ib_id i (db_inbox d) = None \<or> by_id ib_id i (db_inbox d) = Some r) \<and> event_matches i d \<subseteq> ms"

text \<open>The row is processed, and its columns decode.\<close>

definition terminal_row :: "int \<Rightarrow> inbox_row \<Rightarrow> bool" where
  "terminal_row i r \<longleftrightarrow>
     ib_status r = ''processed'' \<and>
     (\<forall>d. by_id ib_id i (db_inbox d) = Some r \<longrightarrow>
        (\<exists>p. get_replayable i d = Inr (Some p) \<and> pir_status p = Inbox_Processed))"

lemma inbox_ok_update:
  assumes "inbox_ok d" and "\<And>r. ib_id (f r) = ib_id r" and "\<And>r. ib_dedupe_key (f r) = ib_dedupe_key r"
  shows "inbox_ok (d\<lparr>db_inbox := sql_update p f (db_inbox d)\<rparr>)"
proof -
  from assms(1) have "unique_index inbox_key (tb_rows (sql_update p f (db_inbox d)))"
    by (auto simp: inbox_ok_def table_simps inbox_key_def assms(3) intro!: unique_index_map)
  with assms(1) show ?thesis by (simp add: inbox_ok_def tbl_ok_update assms(2))
qed

lemma settled_update:
  assumes "settled i r ms d" and "\<And>r. ib_id (f r) = ib_id r" and "\<And>r. ib_dedupe_key (f r) = ib_dedupe_key r"
    and "\<And>x. p x \<Longrightarrow> x = r \<Longrightarrow> ib_id x \<noteq> i"
  shows "settled i r ms (d\<lparr>db_inbox := sql_update p f (db_inbox d)\<rparr>)"
proof -
  have "by_id ib_id i (sql_update p f (db_inbox d)) = by_id ib_id i (db_inbox d)"
  proof (cases "by_id ib_id i (db_inbox d)")
    case (Some x)
    with assms(1) have "x = r" "ib_id x = i" by (auto simp: settled_def dest: by_id_Some_in)
    with assms(4) [of x] Some show ?thesis by (auto simp: by_id_update assms(2))
  qed (simp add: by_id_update assms(2))
  with assms(1) inbox_ok_update [OF _ assms(2,3)] show ?thesis
    by (auto simp: settled_def table_simps event_matches_def)
qed

lemma find_filter_Some:
  "(\<And>y. y \<in> set xs \<Longrightarrow> p y \<Longrightarrow> y = x) \<Longrightarrow> find p (filter q xs) = None \<or> find p (filter q xs) = Some x"
  by (cases "find p (filter q xs)") (auto dest!: find_SomeD)

lemma settled_delete:
  assumes "settled i r ms d"
  shows "settled i r ms (delete_inbox ids d)"
proof -
  let ?d = "delete_inbox ids d"
  from assms have dist: "distinct (map ib_id (tb_rows (db_inbox d)))"
    by (auto simp: settled_def inbox_ok_def dest: tbl_ok_distinct)
  have "by_id ib_id i (db_inbox ?d) = None \<or> by_id ib_id i (db_inbox ?d) = Some r"
  proof (cases "by_id ib_id i (db_inbox d)")
    case None
    then show ?thesis by (auto simp: by_id_None_iff delete_inbox_rows)
  next
    case (Some x)
    with assms have "x = r" by (simp add: settled_def)
    have "y = x" if "y \<in> set (tb_rows (db_inbox d))" "ib_id y = i" for y
      using Some that by_id_eq_Some_iff [OF dist, of i y] by simp
    with \<open>x = r\<close> find_filter_Some [of "tb_rows (db_inbox d)" "\<lambda>x. ib_id x = i" x]
    show ?thesis by (simp add: by_id_def delete_inbox_rows)
  qed
  moreover have "tb_seq (db_inbox ?d) = tb_seq (db_inbox d)"
    by (simp add: delete_inbox_def Let_def table_simps)
  moreover have "event_matches i ?d \<subseteq> event_matches i d"
    by (auto simp: event_matches_def delete_inbox_def Let_def table_simps)
  ultimately show ?thesis using assms delete_inbox_ok [of d ids] by (auto simp: settled_def)
qed

lemma settled_insert:
  assumes "settled i r ms d" and "insert_dedup_tx event raw webhook cand d = Inr (res, d')"
  shows "settled i r ms d'"
proof -
  from assms have ok: "inbox_ok d'" by (auto simp: settled_def intro: insert_dedup_tx_ok)
  from assms(2) show ?thesis
  proof (cases rule: insert_dedup_txE)
    case (duplicate j)
    then have "tb_seq (db_inbox d) \<le> j" by (auto simp: tbl_next_def split: if_splits)
    with duplicate assms(1) ok show ?thesis by (auto simp: settled_def by_id_def event_matches_def)
  next
    case (inserted j d1)
    let ?row = "inbox_insert_row event raw webhook cand j"
    from inserted(2) have j: "tb_seq (db_inbox d) < j" by (auto simp: tbl_next_def split: if_splits)
    from assms(1) have fresh: "ib_id s \<noteq> ib_id ?row" if "s \<in> set (tb_rows (db_inbox d))" for s
      using that j by (auto simp: settled_def inbox_ok_def tbl_ok_def)
    from assms(1) inserted(2-4) have "inbox_ok d1" by (auto simp: settled_def intro!: inbox_ok_push)
    moreover have "by_id ib_id i (db_inbox d1) = by_id ib_id i (db_inbox d)"
      using by_id_push [of "db_inbox d" ib_id ?row i j, OF fresh] assms(1) j
      by (auto simp: inserted(4) settled_def)
    ultimately have "settled i r ms d1"
      using assms(1) j by (auto simp: settled_def inserted(4) table_simps event_matches_def)
    then show ?thesis unfolding inserted(5) by (rule settled_delete)
  qed
qed

lemma feeds_settled: "feeds w w' \<Longrightarrow> settled i r ms (w_db w) \<Longrightarrow> settled i r ms (w_db w')"
proof (induction rule: feeds.induct)
  case (Feed_Other w' w)
  then show ?case by (simp add: settled_def inbox_ok_def event_matches_def)
next
  case (Feed_Insert event raw webhook cand w res w')
  then show ?case
    by (auto simp: insert_dedup_def with_tx_def settled_insert split: sum.splits)
qed simp

lemma feeds_ok: "feeds w w' \<Longrightarrow> inbox_ok (w_db w) \<Longrightarrow> inbox_ok (w_db w')"
proof (induction rule: feeds.induct)
  case (Feed_Other w' w)
  then show ?case by (simp add: inbox_ok_def)
next
  case (Feed_Insert event raw webhook cand w res w')
  then show ?case
    by (auto simp: insert_dedup_def with_tx_def insert_dedup_tx_ok split: sum.splits)
qed simp

text \<open>What processing a row does to the database: it feeds, marks the row failed, or commits its rules.\<close>

lemma process_received_keeps:
  assumes "P (w_db w)" and "feeding_closures refeed refresh"
    and feed: "\<And>w w'. feeds w w' \<Longrightarrow> P (w_db w) \<Longrightarrow> P (w_db w')"
    and failed: "\<And>d msg now. P d \<Longrightarrow> P (snd (inbox_mark_failed j msg now d))"
    and rules: "\<And>w event cand r w'. process_rule_event env load w j event cand = (r, w') \<Longrightarrow> P (w_db w) \<Longrightarrow> P (w_db w')"
  shows "P (w_db (snd (process_received refeed refresh (process_rule_event env load) j w)))"
proof -
  have fail: "P (w_db (snd (fail_with j e w :: processing_plan option app_result \<times> world)))" if "P (w_db w)" for e and w :: world
    using failed [OF that] by (simp add: fail_with_def split_beta now_epoch_def split: sum.split)
  have load: "P (w_db (snd (load_received_plan j w)))"
    using assms(1) fail [OF assms(1)] by (simp add: load_received_plan_def split: sum.split option.split)
  have run_rules: "P (w_db (snd (process_rules_for (process_rule_event env load) j cand w)))" if "P (w_db w)" for cand and w :: world
    using that rules [OF prod.collapse [symmetric]] by (simp add: process_rules_for_def split: sum.split)
  have run: "P (w_db (snd (run_plan refeed refresh (process_rule_event env load) j plan w)))" if "P (w_db w)" for plan and w :: world
  proof (cases "pp_action plan")
    case (RefeedGithub json)
    obtain res w1 where r: "refeed w json = (res, w1)" by (cases "refeed w json")
    with assms(2) have "feeds w w1" by (metis feeding_closures_def snd_conv)
    from feed [OF this that] run_rules [of w1] RefeedGithub r show ?thesis
      by (simp add: run_plan_def split: sum.split)
  next
    case RefreshAzure
    obtain res w1 where r: "refresh w (pp_project_id plan) = (res, w1)" by (cases "refresh w (pp_project_id plan)")
    with assms(2) have "feeds w w1" by (metis feeding_closures_def snd_conv)
    from feed [OF this that] run_rules [of w1] RefreshAzure r show ?thesis
      by (simp add: run_plan_def split: sum.split)
  qed (simp_all add: run_plan_def run_rules that)
  have noted: "P (w_db (snd (record_processing_result j res w)))" if "P (w_db w)" for res and w :: world
    using failed [OF that] that by (simp add: record_processing_result_def split_beta now_epoch_def split: sum.split)
  obtain x w1 where l: "load_received_plan j w = (x, w1)" by (cases "load_received_plan j w")
  with load have w1: "P (w_db w1)" by simp
  show ?thesis
  proof (cases x)
    case (Inr y)
    show ?thesis
    proof (cases y)
      case (Some plan)
      obtain res w2 where r: "run_plan refeed refresh (process_rule_event env load) j plan w1 = (res, w2)"
        by (cases "run_plan refeed refresh (process_rule_event env load) j plan w1")
      with run [OF w1, of plan] have "P (w_db w2)" by simp
      from noted [OF this, of res] l Inr Some r show ?thesis
        by (simp add: process_received_def split_beta split: sum.split)
    qed (use l Inr w1 in \<open>simp add: process_received_def\<close>)
  qed (use l w1 in \<open>simp add: process_received_def\<close>)
qed

lemma mark_failed_db:
  "snd (inbox_mark_failed j msg now d) = d\<lparr>db_inbox := sql_update (\<lambda>r. ib_id r = j)
     (\<lambda>r. r\<lparr>ib_status := ''failed'', ib_processed_at := Some (as_i64 now), ib_error := Some msg\<rparr>) (db_inbox d)\<rparr>"
  by (simp add: inbox_mark_failed_def with_conn_def inbox_update_def)

lemma mark_processed_db:
  "mark_processed_in_tx j now d = Inr (u, d') \<Longrightarrow>
    d' = d\<lparr>db_inbox := sql_update (\<lambda>r. ib_id r = j \<and> ib_status r = ''received'') (processed_row now) (db_inbox d)\<rparr>"
  by (auto simp: mark_processed_in_tx_def inbox_update_def split: if_splits)

lemma rules_ok:
  assumes "process_rule_event env load w j event cand = (r, w')" and "inbox_ok (w_db w)"
  shows "inbox_ok (w_db w')"
  using assms(1)
proof (cases rule: process_rule_event_cases)
  case (committed cfg ids)
  from assms committed(2) have "process_rule_event env load w j event cand = (Inr (), w')" by simp
  then show ?thesis
  proof (rule process_rule_event_committed [OF assms(2)])
    fix d1 new
    assume grows: "match_grows new (w_db w) d1"
      and mark: "mark_processed_in_tx j (fst (now_epoch w)) d1 = Inr ((), w_db w')"
    from grows assms(2) have "inbox_ok d1" by (simp add: match_grows_def inbox_ok_def)
    then show ?thesis unfolding mark_processed_db [OF mark] by (rule inbox_ok_update) (simp_all add: processed_row_def)
  qed
qed (use assms(2) in simp)

lemma process_received_ok:
  assumes "inbox_ok (w_db w)" and "feeding_closures refeed refresh"
  shows "inbox_ok (w_db (snd (process_received refeed refresh (process_rule_event env load) j w)))"
  by (rule process_received_keeps [where P = inbox_ok, OF assms])
     (auto simp: mark_failed_db feeds_ok rules_ok intro: inbox_ok_update)

lemma committed_match_event: "committed_match env cfg j now d plan x \<Longrightarrow> rm_inbox_event_id (fst x) = j"
  unfolding committed_match_def
  by (cases x) (simp, metis rule_match_row.select_convs(4))

lemma rules_settled:
  assumes "process_rule_event env load w j event cand = (r, w')" and "settled i row ms (w_db w)" and "j \<noteq> i"
  shows "settled i row ms (w_db w')"
  using assms(1)
proof (cases rule: process_rule_event_cases)
  case (committed cfg ids)
  from assms committed(2) have p: "process_rule_event env load w j event cand = (Inr (), w')" by simp
  from assms(2) have ok: "inbox_ok (w_db w)" by (simp add: settled_def)
  from p show ?thesis
  proof (rule process_rule_event_committed [OF ok])
    fix cfg' d1 new
    assume m: "list_all2 (committed_match env cfg' j (fst (now_epoch w)) (w_db w')) (event_plans env cfg' event cand) new"
      and grows: "match_grows new (w_db w) d1" and mark: "mark_processed_in_tx j (fst (now_epoch w)) d1 = Inr ((), w_db w')"
    from m have "\<forall>x \<in> set new. rm_inbox_event_id (fst x) = j"
      by (induction rule: list_all2_induct) (auto dest: committed_match_event)
    with grows assms(3) have "event_matches i d1 = event_matches i (w_db w)"
      by (auto simp: event_matches_def match_grows_def)
    with assms(2) grows have "settled i row ms d1" by (simp add: settled_def match_grows_def inbox_ok_def)
    then show ?thesis
      unfolding mark_processed_db [OF mark] by (rule settled_update) (use assms(3) in \<open>auto simp: processed_row_def\<close>)
  qed
qed (use assms(2) in simp)

lemma process_received_settled:
  assumes "settled i row ms (w_db w)" and "terminal_row i row" and "feeding_closures refeed refresh"
  shows "settled i row ms (w_db (snd (process_received refeed refresh (process_rule_event env load) j w)))"
proof (cases "j = i")
  case False
  show ?thesis
    by (rule process_received_keeps [where P = "settled i row ms", OF assms(1,3)])
       (use False in \<open>auto simp: mark_failed_db feeds_settled rules_settled intro: settled_update\<close>)
next
  case True
  show ?thesis
  proof (cases "by_id ib_id i (db_inbox (w_db w))")
    case None
    with True assms(1) show ?thesis
      by (simp add: process_received_def load_received_plan_def get_replayable_def)
  next
    case (Some x)
    with assms(1) have "x = row" by (simp add: settled_def)
    with Some assms(2) obtain p where "get_replayable i (w_db w) = Inr (Some p)" "pir_status p = Inbox_Processed"
      by (auto simp: terminal_row_def)
    with True assms(1) show ?thesis by (simp add: process_received_def load_received_plan_def)
  qed
qed

lemma requeue_settled:
  assumes "settled i row ms (w_db w)" and "terminal_row i row"
  shows "settled i row ms (w_db (snd (inbox_replay j w)))"
proof -
  have "settled i row ms (snd (requeue_failed j (w_db w)))"
    unfolding requeue_failed_def with_conn_def inbox_update_def
    by (simp, rule settled_update [OF assms(1)])
       (use assms(2) in \<open>auto simp: requeue_row_def terminal_row_def\<close>)
  then show ?thesis
    by (simp add: inbox_replay_def service_requeue_failed_def split_beta wake_inbox_def inbox_emit_updated_def
        split: sum.split bool.split option.split)
qed

lemma history_settled:
  "inbox_history w w' \<Longrightarrow> settled i row ms (w_db w) \<Longrightarrow> terminal_row i row \<Longrightarrow> settled i row ms (w_db w')"
proof (induction rule: inbox_history.induct)
  case (Inbox_Feed w w1 w2)
  then show ?case by (blast intro: feeds_settled)
next
  case (Inbox_Replayed w w1 j r w2)
  with requeue_settled [of i row ms w1 j] show ?case by simp
next
  case (Inbox_Handled w w1 refeed refresh env load j r w2)
  with process_received_settled [of i row ms w1 refeed refresh env load j] show ?case by simp
qed

lemma get_replayable_cong:
  "by_id ib_id i (db_inbox d) = by_id ib_id i (db_inbox d') \<Longrightarrow> get_replayable i d = get_replayable i d'"
  by (simp add: get_replayable_def)

lemma get_replayable_processed:
  assumes "get_replayable i d = Inr (Some p)" and "by_id ib_id i (db_inbox d) = Some r"
    and "by_id ib_id i (db_inbox d') = Some (processed_row now r)"
  shows "\<exists>p'. get_replayable i d' = Inr (Some p') \<and> pir_status p' = Inbox_Processed"
  using assms by (auto simp: get_replayable_def try_bind_Inr_iff processed_row_def inbox_status_from_wire_def
      simp del: inbox_status_as_wire.simps) (auto simp: inbox_status_from_wire_def)

text \<open>A received row that is processed without an error has its rules committed, on the row as it was loaded.\<close>

lemma process_received_success:
  assumes "inbox_ok (w_db w)" and "map_option ib_status (by_id ib_id i (db_inbox (w_db w))) = Some ''received''"
    and "feeding_closures refeed refresh"
    and "process_received refeed refresh (process_rule_event env load) i w = (Inr (), w')"
  obtains w0 p cand w1 where "inbox_ok (w_db w0)" "get_replayable i (w_db w0) = Inr (Some p)"
    "process_rule_event env load w0 i (pir_event p) cand = (Inr (), w1)" "w_db w' = w_db w1"
proof -
  obtain plan where load: "load_received_plan i w = (Inr (Some plan), w)"
    and run: "\<exists>w2. run_plan refeed refresh (process_rule_event env load) i plan w = (Inr (), w2) \<and> w_db w' = w_db w2"
  proof -
    obtain x w0 where l: "load_received_plan i w = (x, w0)" by (cases "load_received_plan i w")
    with assms(4) obtain y where x: "x = Inr y" by (cases x) (auto simp: process_received_def)
    have "y \<noteq> None"
    proof
      assume "y = None"
      with l x obtain p where "get_replayable i (w_db w) = Inr (Some p)" "pir_status p \<noteq> Inbox_Received"
        by (auto simp: load_received_plan_def fail_with_def split_beta split: sum.splits option.splits if_splits)
      with assms(2) show False
        by (auto simp: get_replayable_def try_bind_Inr_iff inbox_status_from_wire_def)
    qed
    then obtain plan where y: "y = Some plan" by blast
    with l x have "w0 = w"
      by (auto simp: load_received_plan_def fail_with_def split_beta split: sum.splits option.splits if_splits)
    obtain res w2 where r: "run_plan refeed refresh (process_rule_event env load) i plan w = (res, w2)"
      by (cases "run_plan refeed refresh (process_rule_event env load) i plan w")
    from l x y \<open>w0 = w\<close> r assms(4) show ?thesis
      by (intro that [of plan])
         (auto simp: process_received_def record_processing_result_def split_beta on_db_def split: sum.splits)
  qed
  then obtain w2 where run: "run_plan refeed refresh (process_rule_event env load) i plan w = (Inr (), w2)"
    and w': "w_db w' = w_db w2" by blast
  have "\<exists>w0 cand. inbox_ok (w_db w0) \<and> process_rules_for (process_rule_event env load) i cand w0 = (Inr (), w2)"
  proof (cases "pp_action plan")
    case (RefeedGithub json)
    obtain res w1 where r: "refeed w json = (res, w1)" by (cases "refeed w json")
    with assms(3) have "feeds w w1" by (metis feeding_closures_def snd_conv)
    from feeds_ok [OF this assms(1)] run RefeedGithub r show ?thesis
      by (auto simp: run_plan_def split: sum.splits)
  next
    case RefreshAzure
    obtain res w1 where r: "refresh w (pp_project_id plan) = (res, w1)" by (cases "refresh w (pp_project_id plan)")
    with assms(3) have "feeds w w1" by (metis feeding_closures_def snd_conv)
    from feeds_ok [OF this assms(1)] run RefreshAzure r show ?thesis
      by (auto simp: run_plan_def split: sum.splits)
  qed (use run assms(1) in \<open>auto simp: run_plan_def\<close>)
  then obtain w0 cand where ok: "inbox_ok (w_db w0)"
    and rules: "process_rules_for (process_rule_event env load) i cand w0 = (Inr (), w2)" by blast
  then obtain p where "get_replayable i (w_db w0) = Inr (Some p)"
      "process_rule_event env load w0 i (pir_event p) cand = (Inr (), w2)"
    by (cases "get_replayable i (w_db w0)") (auto simp: process_rules_for_def ok_or_Inr_iff split: sum.splits)
  from that [OF ok this w'] show thesis .
qed

lemma uncommitted_fails:
  assumes "map_option ib_status (by_id ib_id i (db_inbox (w_db w))) \<noteq> Some ''received''" and "inbox_ok (w_db w)"
  shows "\<exists>e w'. process_rule_event env load w i event cand = (Inl e, w') \<and> w_db w' = w_db w"
proof -
  obtain r w' where p: "process_rule_event env load w i event cand = (r, w')"
    by (cases "process_rule_event env load w i event cand")
  then show ?thesis
  proof (cases rule: process_rule_event_cases)
    case (committed cfg ids)
    with p have "process_rule_event env load w i event cand = (Inr (), w')" by simp
    with assms show ?thesis by (metis process_rule_event_committed)
  qed (use p in simp)
qed

text \<open>
  C4. The rules of an event commit at most once. When processing a received row succeeds, its rules are
  committed and the row is processed. Whatever follows (deliveries and their retention, replays of any
  row, the processing of any row, this one included, with any closures, and whatever else leaves the
  inbox and the matches alone), the row stays exactly as it is until the retention deletes it, the event
  gets no further match, and another attempt to commit its rules, with any configuration and event,
  fails and changes nothing.
\<close>

theorem inbox_commits_once:
  assumes "inbox_ok (w_db w)" and "map_option ib_status (by_id ib_id i (db_inbox (w_db w))) = Some ''received''"
    and "feeding_closures refeed refresh"
    and "process_received refeed refresh (process_rule_event env load) i w = (Inr (), w1)"
    and "inbox_history w1 w2"
  shows "\<exists>row. by_id ib_id i (db_inbox (w_db w1)) = Some row \<and> ib_status row = ''processed'' \<and>
    (by_id ib_id i (db_inbox (w_db w2)) = Some row \<or> by_id ib_id i (db_inbox (w_db w2)) = None) \<and>
    event_matches i (w_db w2) \<subseteq> event_matches i (w_db w1) \<and>
    (\<exists>e w3. process_rule_event env' load' w2 i event cand = (Inl e, w3) \<and> w_db w3 = w_db w2)"
proof -
  from process_received_success [OF assms(1-4)] obtain w0 p c wr where
    ok: "inbox_ok (w_db w0)" and p: "get_replayable i (w_db w0) = Inr (Some p)"
    and rules: "process_rule_event env load w0 i (pir_event p) c = (Inr (), wr)" and w1: "w_db w1 = w_db wr" .
  from process_rule_event_committed [OF ok rules] obtain cfg d1 new t where
    grows: "match_grows new (w_db w0) d1" and mark: "mark_processed_in_tx i (fst (now_epoch w0)) d1 = Inr ((), w_db wr)"
    and was: "map_option ib_status (by_id ib_id i (db_inbox (w_db w0))) = Some ''received''" by metis
  from was obtain r where r: "by_id ib_id i (db_inbox (w_db w0)) = Some r" "ib_status r = ''received''" by auto
  let ?row = "processed_row (fst (now_epoch w0)) r"
  from grows have same: "db_inbox d1 = db_inbox (w_db w0)" by (simp add: match_grows_def)
  have id: "ib_id r = i" using by_id_Some_in [OF r(1)] by simp
  have row: "by_id ib_id i (db_inbox (w_db w1)) = Some ?row"
    using r id by (simp add: w1 mark_processed_db [OF mark] by_id_update same processed_row_def)
  have proc: "ib_status ?row = ''processed''" by (simp add: processed_row_def)
  have final: "terminal_row i ?row"
    using get_replayable_processed [OF p r(1)] proc by (auto simp: terminal_row_def)
  have ok1: "inbox_ok (w_db w1)" using rules_ok [OF rules ok] w1 by simp
  have "r \<in> set (tb_rows (db_inbox (w_db w0)))" using by_id_Some_in [OF r(1)] by simp
  moreover have "tb_seq (db_inbox (w_db w1)) = tb_seq (db_inbox (w_db w0))"
    by (simp add: w1 mark_processed_db [OF mark] same table_simps)
  ultimately have "i \<le> tb_seq (db_inbox (w_db w1))" using ok id by (auto simp: inbox_ok_def tbl_ok_def)
  with ok1 row have "settled i ?row (event_matches i (w_db w1)) (w_db w1)" by (simp add: settled_def)
  from history_settled [OF assms(5) this final]
  have s2: "settled i ?row (event_matches i (w_db w1)) (w_db w2)" .
  then have "map_option ib_status (by_id ib_id i (db_inbox (w_db w2))) \<noteq> Some ''received''"
    using proc by (auto simp: settled_def)
  moreover from s2 have "inbox_ok (w_db w2)" by (simp add: settled_def)
  ultimately have "\<exists>e w3. process_rule_event env' load' w2 i event cand = (Inl e, w3) \<and> w_db w3 = w_db w2"
    by (rule uncommitted_fails)
  with row proc s2 show ?thesis by (auto simp: settled_def)
qed

theorem inbox_commits_once_witness:
  "\<exists>w1 w2 r e w3. process_received (\<lambda>w s. (Inr None, w)) (\<lambda>w s. (Inr (), w)) (process_rule_event sample_env (Inr request_config)) 1
      (idle_world request_sample) = (Inr (), w1) \<and>
    inbox_replay 1 w1 = (r, w2) \<and>
    process_rule_event sample_env (Inr request_config) w2 1 request_event None = (Inl e, w3)"
proof -
  let ?refeed = "\<lambda>w s. (Inr None, w)" and ?refresh = "\<lambda>w s. (Inr (), w)" and ?w = "idle_world request_sample"
  have row: "by_id ib_id 1 (db_inbox (w_db ?w)) = Some (inbox_insert_row request_event ''raw'' None None 1)"
    by (simp add: request_sample_def by_id_def idle_world_def)
  have g: "get_replayable 1 (w_db ?w) = Inr (Some \<lparr>pir_event = request_event, pir_source = Github,
      pir_status = Inbox_Received, pir_webhook_event_json = None, pir_candidate = None\<rparr>)"
    unfolding get_replayable_def row
    using envelope_deserialize_serialize [OF request_event_ok]
    by (simp add: inbox_status_from_wire_def) (simp add: inbox_insert_row_def request_event_def source_from_wire_def)
  obtain w' where e: "process_rule_event sample_env (Inr request_config) ?w 1 request_event None = (Inr (), w')"
    using request_processed by blast
  have "as_review_request request_event \<noteq> None" by (simp add: as_review_request_def request_event_def)
  then have "\<exists>w1. process_received ?refeed ?refresh (process_rule_event sample_env (Inr request_config)) 1 ?w = (Inr (), w1)"
    using g e by (simp add: process_received_def load_received_plan_def load_processing_plan_def plan_action_of_def
        run_plan_def process_rules_for_def record_processing_result_def)
  then obtain w1 where p: "process_received ?refeed ?refresh (process_rule_event sample_env (Inr request_config)) 1 ?w = (Inr (), w1)"
    by blast
  obtain r w2 where r: "inbox_replay 1 w1 = (r, w2)" by (cases "inbox_replay 1 w1")
  have f: "feeding_closures ?refeed ?refresh" by (simp add: feeding_closures_def Feed_Other)
  have ok: "inbox_ok (w_db ?w)" by (simp add: idle_world_def request_sample_ok)
  have s: "map_option ib_status (by_id ib_id 1 (db_inbox (w_db ?w))) = Some ''received''" by (simp add: row)
  from inbox_commits_once [OF ok s f p Inbox_Replayed [OF Inbox_Start r]] p r show ?thesis by blast
qed

end
