(* ===== verification/Workflow_Store.thy ===== *)
theory Workflow_Store
  imports World
begin

text \<open>
  The queries of the durable workflows (\<open>workflow/store.rs\<close>): the wire strings, the two creators (by
  active dedupe key, and by review receipt), the reads, and the guarded updates by which a worker
  claims a step, records its progress or its failure, and releases what a dead worker left running.
  A statement fails by the partial unique index over the active rows (\<open>idx_workflow_active_dedupe\<close>) or
  by the keys of \<open>review_receipt_workflow\<close>.
\<close>

section \<open>Wire strings\<close>

(* workflow/store.rs 9-9 LIST_LIMIT *)
definition wf_list_limit :: nat where "wf_list_limit = 500"

(* workflow/store.rs 10-10 CLAIM_LIMIT *)
definition wf_claim_limit :: nat where "wf_claim_limit = 20"

text \<open>The module has its own copy of the outbox's \<open>clamp_error\<close>, with the same bound of 512 bytes.\<close>

(* workflow/store.rs 21-30 clamp_error *)
definition wf_clamp_error :: "string \<Rightarrow> string" where
  "wf_clamp_error error =
     (if length error \<le> 512 then error else take (back_to_boundary error 512) error @ ellipsis)"

(* workflow/store.rs 32-36 type_wire *)
fun wf_type_wire :: "workflow_type \<Rightarrow> string" where
  "wf_type_wire ReviewNotify = ''reviewNotify''"

(* workflow/store.rs 38-45 type_from_wire *)
definition wf_type_from_wire :: "string \<Rightarrow> workflow_type app_result" where
  "wf_type_from_wire s =
     (if s = ''reviewNotify'' then Inr ReviewNotify
      else Inl (AppError (''workflow_type '' @ (utf8 [0x975E, 0x6CD5, 0xFF1A]) @ s)))"

(* workflow/store.rs 47-55 status_wire *)
fun wf_status_wire :: "workflow_status \<Rightarrow> string" where
  "wf_status_wire Wf_Pending = ''pending''"
| "wf_status_wire Wf_Running = ''running''"
| "wf_status_wire Wf_Waiting = ''waiting''"
| "wf_status_wire Wf_Done = ''done''"
| "wf_status_wire Wf_Failed = ''failed''"

(* workflow/store.rs 57-68 status_from_wire *)
definition wf_status_from_wire :: "string \<Rightarrow> workflow_status app_result" where
  "wf_status_from_wire s =
     (if s = ''pending'' then Inr Wf_Pending
      else if s = ''running'' then Inr Wf_Running
      else if s = ''waiting'' then Inr Wf_Waiting
      else if s = ''done'' then Inr Wf_Done
      else if s = ''failed'' then Inr Wf_Failed
      else Inl (AppError (''workflow status '' @ (utf8 [0x975E, 0x6CD5, 0xFF1A]) @ s)))"

(* workflow/store.rs 70-77 step_wire *)
fun wf_step_wire :: "workflow_step \<Rightarrow> string" where
  "wf_step_wire Step_StartReview = ''startReview''"
| "wf_step_wire Step_WaitReview = ''waitReview''"
| "wf_step_wire Step_EnqueueNotify = ''enqueueNotify''"
| "wf_step_wire Step_Done = ''done''"

(* workflow/store.rs 79-89 step_from_wire *)
definition wf_step_from_wire :: "string \<Rightarrow> workflow_step app_result" where
  "wf_step_from_wire s =
     (if s = ''startReview'' then Inr Step_StartReview
      else if s = ''waitReview'' then Inr Step_WaitReview
      else if s = ''enqueueNotify'' then Inr Step_EnqueueNotify
      else if s = ''done'' then Inr Step_Done
      else Inl (AppError (''workflow step '' @ (utf8 [0x975E, 0x6CD5, 0xFF1A]) @ s)))"

interpretation wf_status_codec: strict_wire_enum wf_status_wire "\<lambda>s. ok (wf_status_from_wire s)"
proof unfold_locales
  show "ok (wf_status_from_wire (wf_status_wire x)) = Some x" for x
    by (cases x) (simp_all add: wf_status_from_wire_def)
  show "ok (wf_status_from_wire s) = Some x \<Longrightarrow> wf_status_wire x = s" for s x
    by (auto simp: wf_status_from_wire_def split: if_splits)
qed

interpretation wf_step_codec: strict_wire_enum wf_step_wire "\<lambda>s. ok (wf_step_from_wire s)"
proof unfold_locales
  show "ok (wf_step_from_wire (wf_step_wire x)) = Some x" for x
    by (cases x) (simp_all add: wf_step_from_wire_def)
  show "ok (wf_step_from_wire s) = Some x \<Longrightarrow> wf_step_wire x = s" for s x
    by (auto simp: wf_step_from_wire_def split: if_splits)
qed

interpretation wf_type_codec: strict_wire_enum wf_type_wire "\<lambda>s. ok (wf_type_from_wire s)"
proof unfold_locales
  show "ok (wf_type_from_wire (wf_type_wire x)) = Some x" for x
    by (cases x) (simp_all add: wf_type_from_wire_def)
  show "ok (wf_type_from_wire s) = Some x \<Longrightarrow> wf_type_wire x = s" for s x
    by (cases x) (auto simp: wf_type_from_wire_def split: if_splits)
qed

lemma wf_from_wire_simps [simp]:
  "wf_status_from_wire (wf_status_wire s) = Inr s" "wf_step_from_wire (wf_step_wire t) = Inr t"
  "wf_type_from_wire (wf_type_wire u) = Inr u"
proof -
  show "wf_status_from_wire (wf_status_wire s) = Inr s" by (cases s) (simp_all add: wf_status_from_wire_def)
  show "wf_step_from_wire (wf_step_wire t) = Inr t" by (cases t) (simp_all add: wf_step_from_wire_def)
  show "wf_type_from_wire (wf_type_wire u) = Inr u" by (cases u) (simp add: wf_type_from_wire_def)
qed

lemma wf_from_wire_iff:
  "wf_status_from_wire x = Inr s \<longleftrightarrow> x = wf_status_wire s"
  "wf_step_from_wire x = Inr t \<longleftrightarrow> x = wf_step_wire t"
  using wf_status_codec.from_wire_iff [of x s] wf_step_codec.from_wire_iff [of x t]
  by (cases "wf_status_from_wire x"; cases "wf_step_from_wire x"; auto)+

section \<open>Rows and the table's constraints\<close>

text \<open>A stored JSON value parses whatever its shape; only text that is no JSON fails.\<close>

definition json_value :: "string \<Rightarrow> 'a json_text \<Rightarrow> string + 'a json_text" where
  "json_value what j =
     (case j of NotJson e \<Rightarrow> Inl (conversion_failure 0 (what @ ('' '' @ utf8 [0x975E, 0x6CD5, 0xFF1A]) @ e)) | _ \<Rightarrow> Inr j)"

(* workflow/store.rs 411-440 row_to_instance *)
definition row_to_instance :: "workflow_row \<Rightarrow> string + workflow_instance" where
  "row_to_instance r =
     try_bind (map_error (\<lambda>e. conversion_failure 0 (message e)) (wf_type_from_wire (wf_workflow_type r))) (\<lambda>ty.
     try_bind (map_error (\<lambda>e. conversion_failure 0 (message e)) (wf_status_from_wire (wf_status r))) (\<lambda>status.
     try_bind (map_error (\<lambda>e. conversion_failure 0 (message e)) (wf_step_from_wire (wf_current_step r))) (\<lambda>step.
     try_bind (json_value ''workflow input_json'' (wf_input_json r)) (\<lambda>input.
     try_bind (json_value ''workflow state_json'' (wf_state_json r)) (\<lambda>state.
     Inr \<lparr>wi_id = wf_id r, wi_project_id = wf_project_id r, wi_workflow_type = ty,
          wi_status = status, wi_current_step = step, wi_input = input, wi_state = state,
          wi_attempt_count = as_u32 (wf_attempt_count r), wi_next_wake_at = as_u64 (wf_next_wake_at r),
          wi_last_error = wf_last_error r, wi_created_at = as_u64 (wf_created_at r),
          wi_updated_at = as_u64 (wf_updated_at r)\<rparr>)))))"

definition wf_active :: "string \<Rightarrow> bool" where
  "wf_active s \<longleftrightarrow> s = ''pending'' \<or> s = ''running'' \<or> s = ''waiting''"

(* db.rs 1070-1072 SCHEMA_V14 *)
definition wf_active_index :: "workflow_row \<Rightarrow> (string \<times> string \<times> string) option" where
  "wf_active_index r =
     (if wf_active (wf_status r) then Some (wf_project_id r, wf_workflow_type r, wf_dedupe_key r) else None)"

definition wf_unique_error :: string where
  "wf_unique_error = ''UNIQUE constraint failed: workflow_instance.project_id, workflow_instance.workflow_type, workflow_instance.dedupe_key''"

definition wf_update :: "(workflow_row \<Rightarrow> bool) \<Rightarrow> (workflow_row \<Rightarrow> workflow_row) \<Rightarrow> nat db_stmt" where
  "wf_update p f d =
     (let t = sql_update p f (db_workflow d) in
      if unique_index wf_active_index (tb_rows t)
      then Inr (sql_changes p (db_workflow d), d\<lparr>db_workflow := t\<rparr>)
      else Inl wf_unique_error)"

section \<open>Creating\<close>

(* workflow/store.rs 91-97 NewWorkflow *)
record new_workflow =
  nw_project_id :: string
  nw_workflow_type :: workflow_type
  nw_input :: review_notify_request
  nw_dedupe_key :: string
  nw_now :: nat

text \<open>The state \<open>'{}'\<close>, which reads back as the default.\<close>

definition empty_notify_state :: review_notify_state where
  "empty_notify_state = \<lparr>rns_review_thread_id = None, rns_review_wire_status = None,
     rns_comment_url = None, rns_notification_outbox_ids = []\<rparr>"

definition new_workflow_row :: "new_workflow \<Rightarrow> int \<Rightarrow> workflow_row" where
  "new_workflow_row new i =
     \<lparr>wf_id = i, wf_project_id = nw_project_id new, wf_workflow_type = wf_type_wire (nw_workflow_type new),
      wf_status = wf_status_wire Wf_Pending, wf_current_step = wf_step_wire Step_StartReview,
      wf_input_json = JsonOf (nw_input new), wf_state_json = JsonOf empty_notify_state,
      wf_attempt_count = 0, wf_next_wake_at = as_i64 (nw_now new), wf_last_error = None,
      wf_created_at = as_i64 (nw_now new), wf_updated_at = as_i64 (nw_now new),
      wf_dedupe_key = nw_dedupe_key new\<rparr>"

text \<open>\<open>INSERT\<close>: the rowid it took, and whether the row went in (\<open>OR IGNORE\<close> looks at the flag).\<close>

definition wf_insert :: "new_workflow \<Rightarrow> (int \<times> bool) db_stmt" where
  "wf_insert new d =
     try_bind (tbl_next (db_workflow d)) (\<lambda>i.
     let t = db_workflow d; r = new_workflow_row new i in
     if unique_index wf_active_index (tb_rows t @ [r])
     then Inr ((i, True), d\<lparr>db_workflow := tbl_push i r t\<rparr>)
     else Inr ((i, False), d\<lparr>db_workflow := t\<lparr>tb_seq := i\<rparr>\<rparr>))"

(* workflow/store.rs 381-398 select_active_by_dedupe_tx *)
definition select_active_by_dedupe_tx ::
    "string \<Rightarrow> workflow_type \<Rightarrow> string \<Rightarrow> db \<Rightarrow> workflow_instance app_result" where
  "select_active_by_dedupe_tx project_id ty dedupe_key d =
     map_error map_err
       (case rev (sql_select (\<lambda>r. wf_active_index r = Some (project_id, wf_type_wire ty, dedupe_key))
                    (db_workflow d)) of
          [] \<Rightarrow> Inl no_rows
        | r # _ \<Rightarrow> row_to_instance r)"

(* workflow/store.rs 400-409 select_by_id_tx *)
definition wf_select_by_id_tx :: "int \<Rightarrow> db \<Rightarrow> workflow_instance app_result" where
  "wf_select_by_id_tx i d =
     map_error map_err
       (case by_id wf_id i (db_workflow d) of None \<Rightarrow> Inl no_rows | Some r \<Rightarrow> row_to_instance r)"

definition create_or_get_tx :: "new_workflow \<Rightarrow> workflow_instance db_tx" where
  "create_or_get_tx new d =
     try_bind (map_error map_err (wf_insert new d)) (\<lambda>(_, d).
     try_bind (select_active_by_dedupe_tx (nw_project_id new) (nw_workflow_type new) (nw_dedupe_key new) d)
       (\<lambda>w. Inr (w, d)))"

(* workflow/store.rs 99-121 create_or_get *)
definition create_or_get :: "new_workflow \<Rightarrow> workflow_instance db_op" where
  "create_or_get new = with_tx (create_or_get_tx new)"

text \<open>The row of the receipt's workflow: its keys are those of the table's two UNIQUE constraints.\<close>

definition receipt_link :: "int \<Rightarrow> int \<Rightarrow> unit db_stmt" where
  "receipt_link receipt_id workflow_id d =
     (let ls = db_receipt_workflow d in
      if list_ex (\<lambda>l. rw_receipt_id l = receipt_id) ls then
        Inl ''UNIQUE constraint failed: review_receipt_workflow.receipt_id''
      else if list_ex (\<lambda>l. rw_workflow_id l = workflow_id) ls then
        Inl ''UNIQUE constraint failed: review_receipt_workflow.workflow_id''
      else if by_id wf_id workflow_id (db_workflow d) = None then Inl ''FOREIGN KEY constraint failed''
      else Inr ((), d\<lparr>db_receipt_workflow := ls @ [\<lparr>rw_receipt_id = receipt_id, rw_workflow_id = workflow_id\<rparr>]\<rparr>))"

(* workflow/store.rs 131-164 create_or_get_for_receipt *)
definition create_or_get_for_receipt_tx :: "int \<Rightarrow> new_workflow \<Rightarrow> workflow_instance db_tx" where
  "create_or_get_for_receipt_tx receipt_id new d =
     (case find (\<lambda>l. rw_receipt_id l = receipt_id) (db_receipt_workflow d) of
        Some l \<Rightarrow> try_bind (wf_select_by_id_tx (rw_workflow_id l) d) (\<lambda>w. Inr (w, d))
      | None \<Rightarrow>
          try_bind (map_error map_err (wf_insert new d)) (\<lambda>((i, inserted), d).
          if \<not> inserted then Inl (map_err wf_unique_error)
          else
            try_bind (map_error map_err (receipt_link receipt_id i d)) (\<lambda>(_, d).
            try_bind (wf_select_by_id_tx i d) (\<lambda>w. Inr (w, d)))))"

(* workflow/store.rs 123-166 create_or_get_for_receipt *)
definition create_or_get_for_receipt :: "int \<Rightarrow> new_workflow \<Rightarrow> workflow_instance db_op" where
  "create_or_get_for_receipt receipt_id new = with_tx (create_or_get_for_receipt_tx receipt_id new)"

section \<open>Reads\<close>

text \<open>
  Rows are stored in id order and the sort is stable, so sorting by \<open>updated_at\<close> orders by
  \<open>updated_at, id\<close>, and its reverse by \<open>updated_at DESC, id DESC\<close>. A row that does not decode fails
  the whole query.
\<close>

(* workflow/store.rs 168-196 list_by_project *)
definition wf_list_by_project :: "string option \<Rightarrow> db \<Rightarrow> workflow_instance list app_result" where
  "wf_list_by_project project_id = read_conn (\<lambda>d.
     try_map row_to_instance (take wf_list_limit (rev (sort_key wf_updated_at
       (sql_select (\<lambda>r. case project_id of None \<Rightarrow> True | Some p \<Rightarrow> wf_project_id r = p) (db_workflow d))))))"

(* workflow/store.rs 198-209 get *)
definition wf_get :: "int \<Rightarrow> db \<Rightarrow> workflow_instance option app_result" where
  "wf_get i = read_conn (\<lambda>d.
     case by_id wf_id i (db_workflow d) of
       None \<Rightarrow> Inr None
     | Some r \<Rightarrow> try_bind (row_to_instance r) (\<lambda>w. Inr (Some w)))"

definition wf_due :: "nat \<Rightarrow> workflow_row \<Rightarrow> bool" where
  "wf_due now r \<longleftrightarrow> (wf_status r = ''pending'' \<or> wf_status r = ''waiting'') \<and> wf_next_wake_at r \<le> as_i64 now"

(* workflow/store.rs 211-227 due_instances *)
definition due_instances :: "nat \<Rightarrow> db \<Rightarrow> workflow_instance list app_result" where
  "due_instances now = read_conn (\<lambda>d.
     try_map row_to_instance (take wf_claim_limit (sort_key wf_updated_at
       (sql_select (wf_due now) (db_workflow d)))))"

section \<open>The life of a step\<close>

text \<open>Each operation reads the clock before it runs its statement.\<close>

definition stamped :: "(nat \<Rightarrow> 'a db_op) \<Rightarrow> world \<Rightarrow> 'a app_result \<times> world" where
  "stamped f w = (let (now, w) = now_epoch w in on_db (f now) w)"

definition changed_one :: "(workflow_row \<Rightarrow> bool) \<Rightarrow> (workflow_row \<Rightarrow> workflow_row) \<Rightarrow> bool db_op" where
  "changed_one p f = with_conn (\<lambda>d. try_bind (wf_update p f d) (\<lambda>(changed, d). Inr (changed = 1, d)))"

definition claimable :: "workflow_step \<Rightarrow> workflow_row \<Rightarrow> bool" where
  "claimable step r \<longleftrightarrow>
     wf_current_step r = wf_step_wire step \<and> (wf_status r = ''pending'' \<or> wf_status r = ''waiting'')"

definition claimed_row :: "nat \<Rightarrow> nat \<Rightarrow> workflow_row \<Rightarrow> workflow_row" where
  "claimed_row lease_until now r =
     r\<lparr>wf_status := wf_status_wire Wf_Running, wf_next_wake_at := as_i64 lease_until,
       wf_last_error := None, wf_updated_at := as_i64 now\<rparr>"

(* workflow/store.rs 229-250 claim_step *)
definition claim_step :: "int \<Rightarrow> workflow_step \<Rightarrow> nat \<Rightarrow> world \<Rightarrow> bool app_result \<times> world" where
  "claim_step i expected_step lease_until = stamped (\<lambda>now.
     changed_one (\<lambda>r. wf_id r = i \<and> claimable expected_step r) (claimed_row lease_until now))"

(* workflow/store.rs 252-260 ProgressUpdate *)
record progress_update =
  pu_id :: int
  pu_expected_step :: workflow_step
  pu_project_id :: "string option"
  pu_status :: workflow_status
  pu_step :: workflow_step
  pu_state :: review_notify_state
  pu_next_wake_at :: nat

definition progressed_row :: "progress_update \<Rightarrow> nat \<Rightarrow> workflow_row \<Rightarrow> workflow_row" where
  "progressed_row u now r =
     r\<lparr>wf_project_id := (case pu_project_id u of Some p \<Rightarrow> p | None \<Rightarrow> wf_project_id r),
       wf_status := wf_status_wire (pu_status u), wf_current_step := wf_step_wire (pu_step u),
       wf_state_json := JsonOf (pu_state u), wf_next_wake_at := as_i64 (pu_next_wake_at u),
       wf_last_error := None, wf_updated_at := as_i64 now\<rparr>"

text \<open>The guard is the step alone: the status of the row is not looked at.\<close>

(* workflow/store.rs 262-301 update_progress *)
definition update_progress :: "progress_update \<Rightarrow> world \<Rightarrow> bool app_result \<times> world" where
  "update_progress u = stamped (\<lambda>now.
     changed_one (\<lambda>r. wf_id r = pu_id u \<and> wf_current_step r = wf_step_wire (pu_expected_step u))
       (progressed_row u now))"

definition failed_row :: "string \<Rightarrow> nat \<Rightarrow> workflow_row \<Rightarrow> workflow_row" where
  "failed_row error now r =
     r\<lparr>wf_status := wf_status_wire Wf_Failed, wf_last_error := Some (wf_clamp_error error),
       wf_attempt_count := wf_attempt_count r + 1, wf_updated_at := as_i64 now\<rparr>"

(* workflow/store.rs 316-347 mark_failed_inner *)
definition wf_mark_failed_inner ::
    "int \<Rightarrow> workflow_step option \<Rightarrow> string \<Rightarrow> world \<Rightarrow> bool app_result \<times> world" where
  "wf_mark_failed_inner i expected_step error = stamped (\<lambda>now.
     changed_one (\<lambda>r. wf_id r = i \<and>
         (case expected_step of
            Some s \<Rightarrow> wf_current_step r = wf_step_wire s \<and> wf_status r = ''running''
          | None \<Rightarrow> True))
       (failed_row error now))"

(* workflow/store.rs 303-305 mark_failed *)
definition wf_mark_failed :: "int \<Rightarrow> string \<Rightarrow> world \<Rightarrow> unit app_result \<times> world" where
  "wf_mark_failed i error w =
     (let (r, w) = wf_mark_failed_inner i None error w in (try_bind r (\<lambda>_. Inr ()), w))"

(* workflow/store.rs 307-314 mark_failed_expected *)
definition mark_failed_expected ::
    "int \<Rightarrow> workflow_step \<Rightarrow> string \<Rightarrow> world \<Rightarrow> bool app_result \<times> world" where
  "mark_failed_expected i expected_step error = wf_mark_failed_inner i (Some expected_step) error"

definition released_row :: "nat \<Rightarrow> workflow_row \<Rightarrow> workflow_row" where
  "released_row now r =
     r\<lparr>wf_status := wf_status_wire Wf_Pending, wf_next_wake_at := as_i64 now, wf_updated_at := as_i64 now\<rparr>"

(* workflow/store.rs 349-359 reset_for_retry *)
definition wf_reset_for_retry :: "int \<Rightarrow> world \<Rightarrow> bool app_result \<times> world" where
  "wf_reset_for_retry i = stamped (\<lambda>now.
     changed_one (\<lambda>r. wf_id r = i \<and> wf_status r = ''failed'')
       (\<lambda>r. (released_row now r)\<lparr>wf_last_error := None\<rparr>))"

(* workflow/store.rs 361-369 reset_running_for_recovery *)
definition reset_running_for_recovery :: "nat \<Rightarrow> nat db_op" where
  "reset_running_for_recovery now =
     with_conn (wf_update (\<lambda>r. wf_status r = ''running'') (released_row now))"

(* workflow/store.rs 371-379 reset_expired_running *)
definition reset_expired_running :: "nat \<Rightarrow> nat db_op" where
  "reset_expired_running now =
     with_conn (wf_update (\<lambda>r. wf_status r = ''running'' \<and> wf_next_wake_at r \<le> as_i64 now)
       (released_row now))"

end
