(* ===== verification/Workflow_Service.thy ===== *)
theory Workflow_Service
  imports Workflow_Store Inbox_Service Notifications
begin

text \<open>
  The review-notify workflow (\<open>workflow/service.rs\<close>), the worker and the commands around it
  (\<open>workflow/manager.rs\<close>, \<open>workflow/commands.rs\<close>) and the two actions the composition root injects
  (\<open>lib.rs\<close>): waiting for a review receipt to become terminal and sending the completion notification.

  Waiting polls until the receipt is terminal, so it may never return: the result of an action is an
  option, and the loops are \<open>partial_function (option)\<close>. What the rest of the program does to the
  world between two polls is the parameter \<open>tick\<close>. The hash of the dedupe key is a parameter.
\<close>

section \<open>Actions\<close>

(* workflow/manager.rs 46-51 ReviewCompletion *)
record review_completion =
  rc_thread_id :: "string option"
  rc_project_id :: string
  rc_status :: review_receipt_status
  rc_comment_url :: "string option"

(* workflow/manager.rs 69-72 WorkflowActions *)
record workflow_actions =
  wa_wait_receipt :: "int \<Rightarrow> world \<Rightarrow> (review_completion app_result \<times> world) option"
  wa_send_notification :: "send_notification_request \<Rightarrow> string \<Rightarrow> world \<Rightarrow> int list app_result \<times> world"

(* lib.rs 561-561 wait_receipt *)
definition terminal_receipt :: "review_receipt_status \<Rightarrow> bool" where
  "terminal_receipt s \<longleftrightarrow> s = Receipt_Done \<or> s = Receipt_Failed"

(* lib.rs 562-567 wait_receipt *)
definition completion_of :: "string \<Rightarrow> review_receipt_snapshot \<Rightarrow> review_completion" where
  "completion_of project_id receipt =
     \<lparr>rc_thread_id = rrs_thread_id receipt, rc_project_id = project_id, rc_status = rrs_status receipt,
      rc_comment_url = rrs_comment_url receipt\<rparr>"

(* lib.rs 558-569 wait_receipt *)
partial_function (option) poll_receipt ::
    "(world \<Rightarrow> world) \<Rightarrow> string \<Rightarrow> int \<Rightarrow> world \<Rightarrow> (review_completion app_result \<times> world) option" where
  "poll_receipt tick project_id receipt_id w =
     (let w = tick w in
      case get_review_receipt receipt_id (w_db w) of
        Inl e \<Rightarrow> Some (Inl e, w)
      | Inr receipt \<Rightarrow>
          if terminal_receipt (rrs_status receipt) then Some (Inr (completion_of project_id receipt), w)
          else poll_receipt tick project_id receipt_id w)"

(* lib.rs 547-557 wait_receipt *)
definition wait_receipt ::
    "(world \<Rightarrow> world) \<Rightarrow> int \<Rightarrow> world \<Rightarrow> (review_completion app_result \<times> world) option" where
  "wait_receipt tick receipt_id w =
     (case inbox_get_entry receipt_id (w_db w) of
        Inl e \<Rightarrow> Some (Inl e, w)
      | Inr None \<Rightarrow> Some (Inl (AppError (''review receipt '' @ (utf8 [0x4E0D, 0x5B58, 0x5728]))), w)
      | Inr (Some entry) \<Rightarrow> poll_receipt tick (env_project_id (ie_event entry)) receipt_id w)"

(* notification.rs 63-69 enqueue_notification_with_dedupe_prefix *)
definition enqueue_notification_with_dedupe_prefix ::
    "(string \<Rightarrow> parsed_url option) \<Rightarrow> app_config app_result \<Rightarrow> send_notification_request \<Rightarrow> string option
      \<Rightarrow> world \<Rightarrow> int list app_result \<times> world" where
  "enqueue_notification_with_dedupe_prefix parse_url load request dedupe_prefix w =
     enqueue_notification_after parse_url load request dedupe_prefix 0 w"

(* lib.rs 546-585 set_actions *)
definition installed_actions ::
    "(string \<Rightarrow> parsed_url option) \<Rightarrow> app_config app_result \<Rightarrow> (world \<Rightarrow> world) \<Rightarrow> workflow_actions" where
  "installed_actions parse_url load tick =
     \<lparr>wa_wait_receipt = wait_receipt tick,
      wa_send_notification = (\<lambda>request prefix.
        enqueue_notification_with_dedupe_prefix parse_url load request (Some prefix))\<rparr>"

section \<open>Reading and announcing an instance\<close>

(* workflow/service.rs 17-17 STEP_LEASE_SECS *)
definition step_lease_secs :: nat where "step_lease_secs = 5 * 60"

(* workflow/service.rs 18-18 WAIT_RECEIPT_LEASE_SECS *)
definition wait_receipt_lease_secs :: nat where "wait_receipt_lease_secs = 24 * 60 * 60"

(* workflow/service.rs 83-101 announce_updated *)
definition wf_announce_updated :: "int \<Rightarrow> world \<Rightarrow> world" where
  "wf_announce_updated i w =
     (case wf_get i (w_db w) of
        Inr (Some instance) \<Rightarrow> emit (Workflow (Workflow_Updated (wi_project_id instance) instance)) w
      | Inr None \<Rightarrow> w
      | Inl e \<Rightarrow> emit (Workflow (Workflow_Error ''announce'' (message e))) w)"

(* workflow/service.rs 307-309 current_instance *)
definition current_instance :: "int \<Rightarrow> db \<Rightarrow> workflow_instance app_result" where
  "current_instance i d =
     try_bind (wf_get i d) (\<lambda>found. ok_or found (AppError (''workflow '' @ (utf8 [0x4E0D, 0x5B58, 0x5728, 0xFF1A]) @ dec_int i)))"

(* workflow/service.rs 311-314 review_notify_state *)
definition review_notify_state_of :: "workflow_instance \<Rightarrow> review_notify_state app_result" where
  "review_notify_state_of instance =
     map_error (\<lambda>e. AppError (''workflow reviewNotify state '' @ (utf8 [0x65E0, 0x6548, 0xFF1A]) @ e)) (from_json (wi_state instance))"

definition review_notify_request_of :: "workflow_instance \<Rightarrow> review_notify_request app_result" where
  "review_notify_request_of instance =
     map_error (\<lambda>e. AppError (''workflow reviewNotify input '' @ (utf8 [0x65E0, 0x6548, 0xFF1A]) @ e)) (from_json (wi_input instance))"

(* workflow/service.rs 294-305 receipt_status_wire *)
fun receipt_status_wire :: "review_receipt_status \<Rightarrow> string" where
  "receipt_status_wire Receipt_Done = ''completed''"
| "receipt_status_wire Receipt_Failed = ''failed''"
| "receipt_status_wire s = ''running''"

(* workflow/service.rs 273-292 review_completion_notification_request *)
definition review_completion_notification_request ::
    "review_notify_request \<Rightarrow> workflow_instance \<Rightarrow> review_receipt_status \<Rightarrow> string option
      \<Rightarrow> send_notification_request" where
  "review_completion_notification_request request instance status comment_url =
     (let (status_label, fallback) =
        (case status of
           Receipt_Done \<Rightarrow> ((utf8 [0x5B8C, 0x6210]), (utf8 [0x672C, 0x6B21] @ '' review '' @ utf8 [0x5B8C, 0x6210, 0xFF08, 0x65E0, 0x8BC4, 0x8BBA, 0x94FE, 0x63A5, 0xFF09]))
         | Receipt_Failed \<Rightarrow> ((utf8 [0x5931, 0x8D25]), (utf8 [0x672C, 0x6B21] @ '' review '' @ utf8 [0x5931, 0x8D25, 0xFF08, 0x65E0, 0x8BC4, 0x8BBA, 0x94FE, 0x63A5, 0xFF09]))
         | _ \<Rightarrow> ((utf8 [0x7ED3, 0x675F]), (utf8 [0x672C, 0x6B21] @ '' review '' @ utf8 [0x7ED3, 0x675F, 0xFF08, 0x65E0, 0x8BC4, 0x8BBA, 0x94FE, 0x63A5, 0xFF09]))) in
      \<lparr>snr_level = Some Info,
       snr_title = ''PR #'' @ dec (rnr_pr_number request) @ '' review '' @ status_label,
       snr_body = Some (case comment_url of Some u \<Rightarrow> u | None \<Rightarrow> fallback),
       snr_url = comment_url,
       snr_project_id = (if wi_project_id instance \<noteq> [] then Some (wi_project_id instance) else None),
       snr_channel_ids = []\<rparr>)"

section \<open>The steps\<close>

type_synonym step_result = "workflow_instance app_result \<times> world"

text \<open>What every step does once its claim is lost, or its update finds the row at another step.\<close>

definition reread :: "int \<Rightarrow> world \<Rightarrow> step_result" where
  "reread i w = (current_instance i (w_db w), w)"

text \<open>Claiming a step with a lease counted from a reading of the clock.\<close>

definition claim_for :: "int \<Rightarrow> workflow_step \<Rightarrow> nat \<Rightarrow> world \<Rightarrow> bool app_result \<times> world" where
  "claim_for i step lease w =
     (let (now, w) = now_epoch w in claim_step i step (sat_add_u64 now lease) w)"

text \<open>Recording progress, announcing it, and reading the row back.\<close>

definition advance :: "progress_update \<Rightarrow> world \<Rightarrow> step_result" where
  "advance u w =
     (case update_progress u w of
        (Inl e, w) \<Rightarrow> (Inl e, w)
      | (Inr False, w) \<Rightarrow> reread (pu_id u) w
      | (Inr True, w) \<Rightarrow> reread (pu_id u) (wf_announce_updated (pu_id u) w))"

text \<open>Failing a step: the error is recorded if the row is still running at the step, and returned.\<close>

definition fail_step :: "int \<Rightarrow> workflow_step \<Rightarrow> app_error \<Rightarrow> world \<Rightarrow> step_result" where
  "fail_step i step error w =
     (case mark_failed_expected i step (message error) w of
        (Inl e, w) \<Rightarrow> (Inl e, w)
      | (Inr _, w) \<Rightarrow> (Inl error, wf_announce_updated i w))"

(* workflow/service.rs 103-138 resolve_receipt_step *)
definition resolve_receipt_step :: "workflow_instance \<Rightarrow> world \<Rightarrow> step_result" where
  "resolve_receipt_step instance w =
     (let i = wi_id instance in
      case claim_for i Step_StartReview step_lease_secs w of
        (Inl e, w) \<Rightarrow> (Inl e, w)
      | (Inr False, w) \<Rightarrow> reread i w
      | (Inr True, w) \<Rightarrow>
          (let w = wf_announce_updated i w in
           case review_notify_state_of instance of
             Inl e \<Rightarrow> (Inl e, w)
           | Inr state \<Rightarrow>
               (let (now, w) = now_epoch w in
                advance \<lparr>pu_id = i, pu_expected_step = Step_StartReview, pu_project_id = None,
                         pu_status = Wf_Waiting, pu_step = Step_WaitReview, pu_state = state,
                         pu_next_wake_at = now\<rparr> w)))"

definition completed_state :: "review_completion \<Rightarrow> review_notify_state \<Rightarrow> review_notify_state" where
  "completed_state outcome trace =
     trace\<lparr>rns_review_thread_id := rc_thread_id outcome,
           rns_review_wire_status := Some (receipt_status_wire (rc_status outcome)),
           rns_comment_url := rc_comment_url outcome\<rparr>"

(* workflow/service.rs 140-192 wait_receipt_step *)
definition wait_receipt_step :: "workflow_actions \<Rightarrow> workflow_instance \<Rightarrow> world \<Rightarrow> step_result option" where
  "wait_receipt_step actions instance w =
     (let i = wi_id instance in
      case claim_for i Step_WaitReview wait_receipt_lease_secs w of
        (Inl e, w) \<Rightarrow> Some (Inl e, w)
      | (Inr False, w) \<Rightarrow> Some (reread i w)
      | (Inr True, w) \<Rightarrow>
          (let w = wf_announce_updated i w in
           case review_notify_state_of instance of
             Inl e \<Rightarrow> Some (Inl e, w)
           | Inr trace \<Rightarrow>
           (case review_notify_request_of instance of
             Inl e \<Rightarrow> Some (Inl e, w)
           | Inr request \<Rightarrow>
           (case wa_wait_receipt actions (rnr_receipt_id request) w of
             None \<Rightarrow> None
           | Some (Inl e, w) \<Rightarrow> Some (fail_step i Step_WaitReview e w)
           | Some (Inr outcome, w) \<Rightarrow>
               (let (now, w) = now_epoch w in
                Some (advance \<lparr>pu_id = i, pu_expected_step = Step_WaitReview,
                  pu_project_id = Some (rc_project_id outcome), pu_status = Wf_Pending,
                  pu_step = Step_EnqueueNotify, pu_state = completed_state outcome trace,
                  pu_next_wake_at = now\<rparr> w))))))"

definition notify_done_update :: "int \<Rightarrow> review_notify_state \<Rightarrow> progress_update" where
  "notify_done_update i state =
     \<lparr>pu_id = i, pu_expected_step = Step_EnqueueNotify, pu_project_id = None, pu_status = Wf_Done,
      pu_step = Step_Done, pu_state = state, pu_next_wake_at = 0\<rparr>"

definition notify_request_of :: "review_notify_request \<Rightarrow> review_notify_state \<Rightarrow> workflow_instance
    \<Rightarrow> send_notification_request" where
  "notify_request_of request trace instance =
     review_completion_notification_request request instance
       (if rns_review_wire_status trace = Some ''failed'' then Receipt_Failed else Receipt_Done)
       (rns_comment_url trace)"

definition notify_prefix :: "int \<Rightarrow> string" where
  "notify_prefix i = ''workflow:'' @ dec_int i @ '':notify''"

(* workflow/service.rs 194-271 enqueue_notify_step *)
definition enqueue_notify_step :: "workflow_actions \<Rightarrow> workflow_instance \<Rightarrow> world \<Rightarrow> step_result" where
  "enqueue_notify_step actions instance w =
     (let i = wi_id instance in
      case review_notify_request_of instance of
        Inl e \<Rightarrow> (Inl e, w)
      | Inr request \<Rightarrow>
     (case review_notify_state_of instance of
        Inl e \<Rightarrow> (Inl e, w)
      | Inr trace \<Rightarrow>
          if rns_notification_outbox_ids trace \<noteq> [] then advance (notify_done_update i trace) w
          else
            (case claim_for i Step_EnqueueNotify step_lease_secs w of
               (Inl e, w) \<Rightarrow> (Inl e, w)
             | (Inr False, w) \<Rightarrow> reread i w
             | (Inr True, w) \<Rightarrow>
                 (let w = wf_announce_updated i w in
                  case wa_send_notification actions (notify_request_of request trace instance)
                         (notify_prefix i) w of
                    (Inr ids, w) \<Rightarrow>
                      advance (notify_done_update i (trace\<lparr>rns_notification_outbox_ids := ids\<rparr>)) w
                  | (Inl e, w) \<Rightarrow> fail_step i Step_EnqueueNotify e w))))"

section \<open>Driving an instance\<close>

definition drive_stops :: "workflow_instance \<Rightarrow> bool" where
  "drive_stops instance \<longleftrightarrow>
     (wi_status instance \<in> {Wf_Waiting, Wf_Done, Wf_Failed} \<and> wi_current_step instance = Step_WaitReview) \<or>
     wi_status instance \<in> {Wf_Done, Wf_Failed}"

text \<open>One turn of the loop's \<open>match\<close>; the step \<open>Done\<close> returns before it.\<close>

definition drive_step :: "workflow_actions \<Rightarrow> workflow_instance \<Rightarrow> world \<Rightarrow> step_result option" where
  "drive_step actions instance w =
     (case wi_current_step instance of
        Step_StartReview \<Rightarrow> Some (resolve_receipt_step instance w)
      | Step_WaitReview \<Rightarrow> wait_receipt_step actions instance w
      | Step_EnqueueNotify \<Rightarrow> Some (enqueue_notify_step actions instance w)
      | Step_Done \<Rightarrow> Some (Inr instance, w))"

(* workflow/service.rs 44-81 drive_instance *)
partial_function (option) drive_instance ::
    "workflow_actions \<Rightarrow> workflow_instance \<Rightarrow> world \<Rightarrow> (unit app_result \<times> world) option" where
  "drive_instance actions instance w =
     (if wi_status instance = Wf_Running \<or> wi_current_step instance = Step_Done then Some (Inr (), w)
      else case drive_step actions instance w of
        None \<Rightarrow> None
      | Some (Inl e, w) \<Rightarrow> Some (Inl e, w)
      | Some (Inr instance, w) \<Rightarrow>
          if drive_stops instance then Some (Inr (), w) else drive_instance actions instance w)"

section \<open>Starting, the worker and the commands\<close>

(* workflow/service.rs 321-325 review_notify_dedupe_key *)
definition review_notify_dedupe_key :: "(review_notify_request \<Rightarrow> string) \<Rightarrow> review_notify_request \<Rightarrow> string" where
  "review_notify_dedupe_key digest_hex request = ''deeplink-review:'' @ digest_hex request"

(* workflow/service.rs 20-42 ensure_receipt_notify *)
definition ensure_receipt_notify ::
    "(review_notify_request \<Rightarrow> string) \<Rightarrow> review_notify_request \<Rightarrow> world \<Rightarrow> unit app_result \<times> world" where
  "ensure_receipt_notify digest_hex request w =
     (let (now, w) = now_epoch w in
      case on_db (create_or_get_for_receipt (rnr_receipt_id request)
             \<lparr>nw_project_id = rnr_reference request, nw_workflow_type = ReviewNotify, nw_input = request,
              nw_dedupe_key = review_notify_dedupe_key digest_hex request, nw_now = now\<rparr>) w of
        (Inl e, w) \<Rightarrow> (Inl e, w)
      | (Inr instance, w) \<Rightarrow> (Inr (), wf_announce_updated (wi_id instance) w))"

(* workflow/manager.rs 140-157 WorkflowManager::start_receipt_notify *)
definition start_receipt_notify ::
    "(review_notify_request \<Rightarrow> string) \<Rightarrow> int \<Rightarrow> string \<Rightarrow> nat \<Rightarrow> string \<Rightarrow> world \<Rightarrow> unit app_result \<times> world" where
  "start_receipt_notify digest_hex receipt_id reference pr_number key w =
     (case ensure_receipt_notify digest_hex \<lparr>rnr_receipt_id = receipt_id, rnr_reference = reference,
             rnr_pr_number = pr_number, rnr_skill_key = key\<rparr> w of
        (Inl e, w) \<Rightarrow> (Inl e, w)
      | (Inr _, w) \<Rightarrow> (Inr (), wake_workflow w))"

(* workflow/manager.rs 190-198 emit_error *)
definition wf_emit_error :: "string \<Rightarrow> string \<Rightarrow> world \<Rightarrow> world" where
  "wf_emit_error operation msg w = emit (Workflow (Workflow_Error operation msg)) w"

text \<open>What \<open>start\<close> does before it spawns the worker: rows a previous process left running are released.\<close>

(* workflow/manager.rs 107-113 WorkflowManager::start *)
definition workflow_recover :: "world \<Rightarrow> world" where
  "workflow_recover w =
     (let (now, w) = now_epoch w; (r, w) = on_db (reset_running_for_recovery now) w in
      case r of Inl e \<Rightarrow> wf_emit_error ''reset_running_for_recovery'' (message e) w | Inr _ \<Rightarrow> w)"

text \<open>
  A tick of the worker spawns one task per due instance. \<open>drive_tasks\<close> runs the tasks one after the
  other, which is one of their schedules; a task that never returns has no result.
\<close>

(* workflow/manager.rs 228-244 worker_loop *)
definition workflow_due :: "world \<Rightarrow> workflow_instance list option \<times> world" where
  "workflow_due w =
     (let (now, w) = now_epoch w; (r, w) = on_db (reset_expired_running now) w in
      case r of
        Inl e \<Rightarrow> (None, wf_emit_error ''reset_expired_running'' (message e) w)
      | Inr _ \<Rightarrow>
          (let (now, w) = now_epoch w in
           case due_instances now (w_db w) of
             Inl e \<Rightarrow> (None, wf_emit_error ''due_instances'' (message e) w)
           | Inr due \<Rightarrow> (Some due, w)))"

(* workflow/manager.rs 245-255 worker_loop *)
fun drive_tasks :: "workflow_actions \<Rightarrow> workflow_instance list \<Rightarrow> world \<Rightarrow> world option" where
  "drive_tasks actions [] w = Some w"
| "drive_tasks actions (instance # rest) w =
     (case drive_instance actions instance w of
        None \<Rightarrow> None
      | Some (Inl e, w) \<Rightarrow> drive_tasks actions rest (wf_emit_error ''drive_instance'' (message e) w)
      | Some (Inr _, w) \<Rightarrow> drive_tasks actions rest w)"

(* workflow/manager.rs 225-256 worker_loop *)
definition workflow_worker_pass :: "workflow_actions \<Rightarrow> world \<Rightarrow> world option" where
  "workflow_worker_pass actions w =
     (case workflow_due w of (None, w) \<Rightarrow> Some w | (Some due, w) \<Rightarrow> drive_tasks actions due w)"

(* workflow/commands.rs 11-17 workflow_list *)
definition workflow_list :: "string option \<Rightarrow> world \<Rightarrow> workflow_instance list app_result" where
  "workflow_list project_id w = wf_list_by_project project_id (w_db w)"

(* workflow/commands.rs 20-27 workflow_get *)
definition workflow_get :: "int \<Rightarrow> world \<Rightarrow> workflow_instance app_result" where
  "workflow_get i w =
     try_bind (wf_get i (w_db w)) (\<lambda>found.
     ok_or found (AppError (''workflow '' @ (utf8 [0x4E0D, 0x5B58, 0x5728, 0xFF08]) @ ''id='' @ dec_int i @ (utf8 [0xFF09]))))"

(* workflow/commands.rs 40-50 workflow_retry *)
definition workflow_retry :: "int \<Rightarrow> world \<Rightarrow> unit app_result \<times> world" where
  "workflow_retry i w =
     (case wf_reset_for_retry i w of
        (Inl e, w) \<Rightarrow> (Inl e, w)
      | (Inr False, w) \<Rightarrow>
          (Inl (AppError (''workflow '' @ dec_int i @ ('' '' @ utf8 [0x975E] @ '' failed '' @ utf8 [0x72B6, 0x6001, 0xFF0C, 0x4EC5, 0x5931, 0x8D25] @ '' workflow '' @ utf8 [0x53EF, 0x91CD, 0x8BD5]))), w)
      | (Inr True, w) \<Rightarrow> (Inr (), wake_workflow (wf_announce_updated i w)))"

end
