(* ===== verification/Workflow_Facts.thy ===== *)
theory Workflow_Facts
  imports Workflow_Service
begin

text \<open>
  The workflow table against its abstract machine. A stored row has a phase, its step and status;
  \<open>wf_move\<close> lists the moves a workflow may make. The locale \<open>wf_operation\<close> is the contract of one
  guarded statement: it keeps the row's identity and typing and makes a move of the machine. Its
  lemma is that such a statement, run over the whole table, \<open>evolves\<close> the database: the invariant is
  kept, no workflow disappears, each moves along the machine. The steps, the driver, the worker and
  the commands are then compositions of evolutions, whatever the injected actions do that evolves too.
\<close>

section \<open>The abstract machine\<close>

type_synonym phase = "workflow_step \<times> workflow_status"

inductive wf_move :: "phase \<Rightarrow> phase \<Rightarrow> bool" where
  claim: "t = Wf_Pending \<or> t = Wf_Waiting \<Longrightarrow> s \<noteq> Step_Done \<Longrightarrow> wf_move (s, t) (s, Wf_Running)"
| started: "wf_move (Step_StartReview, t) (Step_WaitReview, Wf_Waiting)"
| reviewed: "wf_move (Step_WaitReview, t) (Step_EnqueueNotify, Wf_Pending)"
| notified: "wf_move (Step_EnqueueNotify, t) (Step_Done, Wf_Done)"
| fail: "wf_move (s, Wf_Running) (s, Wf_Failed)"
| release: "wf_move (s, Wf_Running) (s, Wf_Pending)"
| retry: "wf_move (s, Wf_Failed) (s, Wf_Pending)"

inductive_cases wf_moveE: "wf_move p q"

inductive_simps wf_move_done: "wf_move (Step_Done, t) q"

abbreviation wf_moves :: "phase \<Rightarrow> phase \<Rightarrow> bool" where
  "wf_moves \<equiv> wf_move\<^sup>*\<^sup>*"

fun step_rank :: "workflow_step \<Rightarrow> nat" where
  "step_rank Step_StartReview = 0"
| "step_rank Step_WaitReview = 1"
| "step_rank Step_EnqueueNotify = 2"
| "step_rank Step_Done = 3"

lemma step_rank_inj: "step_rank s = step_rank t \<longleftrightarrow> s = t"
  by (cases s; cases t) simp_all

lemma step_rank_le: "step_rank s \<le> 3"
  by (cases s) simp_all

lemma wf_move_rank: "wf_move p q \<Longrightarrow> step_rank (fst p) \<le> step_rank (fst q) \<and> step_rank (fst q) \<le> Suc (step_rank (fst p))"
  by (auto elim!: wf_moveE)

lemma wf_moves_rank: "wf_moves p q \<Longrightarrow> step_rank (fst p) \<le> step_rank (fst q)"
  by (induction rule: rtranclp_induct) (auto dest: wf_move_rank)

lemma wf_moves_done:
  "wf_moves (Step_Done, Wf_Done) q \<Longrightarrow> q = (Step_Done, Wf_Done)"
  by (induction rule: rtranclp_induct) (auto simp: wf_move_done)

section \<open>The invariant of the table\<close>

text \<open>Every stored row decodes.\<close>

definition wf_typed :: "workflow_row \<Rightarrow> bool" where
  "wf_typed r \<longleftrightarrow>
     wf_workflow_type r \<in> range wf_type_wire \<and> wf_status r \<in> range wf_status_wire \<and>
     wf_current_step r \<in> range wf_step_wire \<and>
     (\<exists>v. wf_input_json r = JsonOf v) \<and> (\<exists>v. wf_state_json r = JsonOf v)"

definition phase_of :: "workflow_row \<Rightarrow> phase" where
  "phase_of r = (the (ok (wf_step_from_wire (wf_current_step r))), the (ok (wf_status_from_wire (wf_status r))))"

lemma wf_typedE:
  assumes "wf_typed r"
  obtains s t u v where "wf_current_step r = wf_step_wire s" "wf_status r = wf_status_wire t"
    "wf_workflow_type r = ''reviewNotify''" "phase_of r = (s, t)"
    "wf_input_json r = JsonOf u" "wf_state_json r = JsonOf v"
proof -
  from assms obtain s t y u v where rs: "wf_current_step r = wf_step_wire s" "wf_status r = wf_status_wire t"
    "wf_workflow_type r = wf_type_wire y" "wf_input_json r = JsonOf u" "wf_state_json r = JsonOf v"
    unfolding wf_typed_def by blast
  show ?thesis
  proof (rule that [of s t u v])
    show "wf_workflow_type r = ''reviewNotify''" using rs(3) by (cases y) simp
  qed (use rs in \<open>simp_all add: phase_of_def\<close>)
qed

lemma phase_of_simp:
  "wf_current_step r = wf_step_wire s \<Longrightarrow> wf_status r = wf_status_wire t \<Longrightarrow> phase_of r = (s, t)"
  by (simp add: phase_of_def)

definition link_ok :: "db \<Rightarrow> bool" where
  "link_ok d \<longleftrightarrow>
     distinct (map rw_receipt_id (db_receipt_workflow d)) \<and>
     distinct (map rw_workflow_id (db_receipt_workflow d)) \<and>
     (\<forall>l \<in> set (db_receipt_workflow d). by_id wf_id (rw_workflow_id l) (db_workflow d) \<noteq> None)"

definition wf_ok :: "db \<Rightarrow> bool" where
  "wf_ok d \<longleftrightarrow>
     tbl_ok wf_id (db_workflow d) \<and> list_all wf_typed (tb_rows (db_workflow d)) \<and>
     unique_index wf_active_index (tb_rows (db_workflow d)) \<and> link_ok d"

lemma wf_ok_empty: "wf_ok empty_db"
  by (simp add: wf_ok_def link_ok_def empty_db_def tbl_ok_empty)
     (simp add: empty_table_def unique_index_def)

lemma wf_ok_cong:
  "db_workflow d' = db_workflow d \<Longrightarrow> db_receipt_workflow d' = db_receipt_workflow d \<Longrightarrow> wf_ok d' = wf_ok d"
  by (simp add: wf_ok_def link_ok_def)

lemma wf_ok_distinct: "wf_ok d \<Longrightarrow> distinct (map wf_id (tb_rows (db_workflow d)))"
  by (simp add: wf_ok_def tbl_ok_distinct)

abbreviation wf_row :: "db \<Rightarrow> int \<Rightarrow> workflow_row option" where
  "wf_row d i \<equiv> by_id wf_id i (db_workflow d)"

lemma wf_ok_typed: "wf_ok d \<Longrightarrow> wf_row d i = Some r \<Longrightarrow> wf_typed r"
  by (auto simp: wf_ok_def list_all_iff dest: by_id_Some_in)

text \<open>A typed row decodes to an instance of its phase.\<close>

lemma row_to_instance_typed:
  assumes "wf_typed r"
  obtains w where "row_to_instance r = Inr w" "wi_id w = wf_id r" "wi_project_id w = wf_project_id r"
    "(wi_current_step w, wi_status w) = phase_of r" "wi_input w = wf_input_json r" "wi_state w = wf_state_json r"
proof (rule wf_typedE [OF assms])
  fix s t u v
  assume r: "wf_current_step r = wf_step_wire s" "wf_status r = wf_status_wire t"
    "wf_workflow_type r = ''reviewNotify''" "phase_of r = (s, t)"
    "wf_input_json r = JsonOf u" "wf_state_json r = JsonOf v"
  have "\<exists>w. row_to_instance r = Inr w \<and> wi_id w = wf_id r \<and> wi_project_id w = wf_project_id r \<and>
      (wi_current_step w, wi_status w) = phase_of r \<and> wi_input w = wf_input_json r \<and> wi_state w = wf_state_json r"
    by (simp add: row_to_instance_def r json_value_def wf_type_from_wire_def)
  with that show ?thesis by blast
qed

section \<open>Evolutions\<close>

definition row_evolves :: "workflow_row \<Rightarrow> workflow_row \<Rightarrow> bool" where
  "row_evolves r r' \<longleftrightarrow>
     wf_moves (phase_of r) (phase_of r') \<and> wf_input_json r' = wf_input_json r \<and>
     wf_dedupe_key r' = wf_dedupe_key r \<and> wf_created_at r' = wf_created_at r"

definition evolves :: "db \<Rightarrow> db \<Rightarrow> bool" where
  "evolves d d' \<longleftrightarrow> (wf_ok d \<longrightarrow>
     wf_ok d' \<and> set (db_receipt_workflow d) \<subseteq> set (db_receipt_workflow d') \<and>
     (\<forall>i r. wf_row d i = Some r \<longrightarrow> (\<exists>r'. wf_row d' i = Some r' \<and> row_evolves r r')))"

lemma row_evolves_refl [simp]: "row_evolves r r"
  by (simp add: row_evolves_def)

lemma row_evolves_trans: "row_evolves r s \<Longrightarrow> row_evolves s t \<Longrightarrow> row_evolves r t"
  unfolding row_evolves_def by (metis rtranclp_trans)

lemma evolves_refl [simp]: "evolves d d"
  by (simp add: evolves_def)

lemma evolves_trans: "evolves d e \<Longrightarrow> evolves e f \<Longrightarrow> evolves d f"
  unfolding evolves_def by (meson row_evolves_trans subset_trans)

lemma evolves_same:
  "db_workflow d' = db_workflow d \<Longrightarrow> db_receipt_workflow d' = db_receipt_workflow d \<Longrightarrow> evolves d d'"
  using wf_ok_cong [of d' d] by (simp add: evolves_def)

lemma evolvesD:
  assumes "evolves d d'" and "wf_ok d"
  shows "wf_ok d'" and "wf_row d i = Some r \<Longrightarrow> \<exists>r'. wf_row d' i = Some r' \<and> row_evolves r r'"
  using assms by (auto simp: evolves_def)

text \<open>One guarded statement.\<close>

locale wf_operation =
  fixes guard :: "'c \<Rightarrow> workflow_row \<Rightarrow> bool" and act :: "'c \<Rightarrow> workflow_row \<Rightarrow> workflow_row"
  assumes keeps: "wf_id (act c r) = wf_id r" "wf_input_json (act c r) = wf_input_json r"
      "wf_dedupe_key (act c r) = wf_dedupe_key r" "wf_created_at (act c r) = wf_created_at r"
    and typed: "guard c r \<Longrightarrow> wf_typed r \<Longrightarrow> wf_typed (act c r)"
    and moves: "guard c r \<Longrightarrow> wf_typed r \<Longrightarrow> wf_move (phase_of r) (phase_of (act c r))"
begin

lemma update_evolves:
  assumes "wf_update p (act c) d = Inr (n, d')" and "\<And>r. p r \<Longrightarrow> guard c r"
  shows "evolves d d'"
  unfolding evolves_def
proof (intro impI)
  assume ok: "wf_ok d"
  let ?t = "sql_update p (act c) (db_workflow d)"
  from assms(1) have d': "d' = d\<lparr>db_workflow := ?t\<rparr>" and u: "unique_index wf_active_index (tb_rows ?t)"
    by (auto simp: wf_update_def Let_def split: if_splits)
  have look: "by_id wf_id i ?t = map_option (\<lambda>r. if p r then act c r else r) (wf_row d i)" for i
    by (rule by_id_update) (rule keeps(1))
  have "list_all wf_typed (tb_rows ?t)"
    using ok assms(2) typed by (auto simp: wf_ok_def list_all_iff table_simps)
  then have "wf_ok d'"
    using ok u tbl_ok_update [where rid = wf_id and f = "act c" and p = p, OF _ keeps(1)]
    by (auto simp: wf_ok_def link_ok_def d' look)
  moreover have "\<exists>r'. wf_row d' i = Some r' \<and> row_evolves r r'" if "wf_row d i = Some r" for i r
    using that wf_ok_typed [OF ok that] assms(2) moves keeps
    by (auto simp: d' look row_evolves_def)
  ultimately show "wf_ok d' \<and> set (db_receipt_workflow d) \<subseteq> set (db_receipt_workflow d') \<and>
     (\<forall>i r. wf_row d i = Some r \<longrightarrow> (\<exists>r'. wf_row d' i = Some r' \<and> row_evolves r r'))"
    by (simp add: d')
qed

lemma conn_evolves:
  assumes "\<And>r. p r \<Longrightarrow> guard c r"
  shows "evolves d (snd (with_conn (wf_update p (act c)) d))" and "evolves d (snd (changed_one p (act c) d))"
  unfolding changed_one_def
  by (rule with_conn_inv [where P = "evolves d"]; auto simp: try_bind_Inr_iff intro: update_evolves [OF _ assms])+

end

definition legal_update :: "progress_update \<Rightarrow> bool" where
  "legal_update u \<longleftrightarrow> (pu_expected_step u, pu_step u, pu_status u) \<in>
     {(Step_StartReview, Step_WaitReview, Wf_Waiting), (Step_WaitReview, Step_EnqueueNotify, Wf_Pending),
      (Step_EnqueueNotify, Step_Done, Wf_Done)}"

lemmas phase_intro = phase_of_simp wf_move.intros


text \<open>The operations of the store, each with what its statement is guarded by.\<close>

definition claim_guard :: "workflow_step \<times> nat \<times> nat \<Rightarrow> workflow_row \<Rightarrow> bool" where
  "claim_guard c r \<longleftrightarrow> fst c \<noteq> Step_Done \<and> claimable (fst c) r"

definition claim_act :: "workflow_step \<times> nat \<times> nat \<Rightarrow> workflow_row \<Rightarrow> workflow_row" where
  "claim_act c = claimed_row (fst (snd c)) (snd (snd c))"

definition progress_guard :: "progress_update \<times> nat \<Rightarrow> workflow_row \<Rightarrow> bool" where
  "progress_guard c r \<longleftrightarrow>
     legal_update (fst c) \<and> wf_current_step r = wf_step_wire (pu_expected_step (fst c))"

lemma wire_in_range [simp]:
  "''pending'' \<in> range wf_status_wire" "''running'' \<in> range wf_status_wire" "''failed'' \<in> range wf_status_wire"
  by (rule range_eqI [of _ _ Wf_Pending], simp, rule range_eqI [of _ _ Wf_Running], simp,
      rule range_eqI [of _ _ Wf_Failed], simp)

lemmas wf_wire_inj = wf_status_codec.as_wire_eq_iff wf_step_codec.as_wire_eq_iff

interpretation wf_claim: wf_operation claim_guard claim_act
proof
  fix c r
  assume g: "claim_guard c r" and t: "wf_typed r"
  obtain s l n where c: "c = (s, l, n)" by (cases c)
  from t show "wf_typed (claim_act c r)"
    by (auto simp: wf_typed_def claim_act_def claimed_row_def)
  show "wf_move (phase_of r) (phase_of (claim_act c r))"
  proof (rule wf_typedE [OF t])
    fix s' t' u v
    assume r: "wf_current_step r = wf_step_wire s'" "wf_status r = wf_status_wire t'" "phase_of r = (s', t')"
    from g r c have "s' = s" "s \<noteq> Step_Done" "t' = Wf_Pending \<or> t' = Wf_Waiting"
      by (auto simp: claim_guard_def claimable_def wf_wire_inj) (cases t'; simp)+
    moreover have "phase_of (claim_act c r) = (s', Wf_Running)"
      by (rule phase_of_simp) (simp_all add: claim_act_def claimed_row_def r)
    ultimately show ?thesis by (simp add: r wf_move.claim)
  qed
qed (simp_all add: claim_act_def claimed_row_def)

interpretation wf_progress: wf_operation progress_guard "\<lambda>c. progressed_row (fst c) (snd c)"
proof
  fix c r
  assume g: "progress_guard c r" and t: "wf_typed r"
  obtain u n where c: "c = (u, n)" by (cases c)
  from t show "wf_typed (progressed_row (fst c) (snd c) r)"
    by (auto simp: wf_typed_def progressed_row_def)
  show "wf_move (phase_of r) (phase_of (progressed_row (fst c) (snd c) r))"
  proof (rule wf_typedE [OF t])
    fix s' t' x v
    assume r: "wf_current_step r = wf_step_wire s'" "wf_status r = wf_status_wire t'" "phase_of r = (s', t')"
    from g r c have "s' = pu_expected_step u" "legal_update u"
      by (auto simp: progress_guard_def wf_wire_inj)
    moreover have "phase_of (progressed_row u n r) = (pu_step u, pu_status u)"
      by (rule phase_of_simp) (simp_all add: progressed_row_def)
    ultimately show ?thesis by (auto simp: c r legal_update_def intro: wf_move.intros)
  qed
qed (simp_all add: progressed_row_def)

text \<open>The three statements that look at the status alone share their proof.\<close>

lemma status_move:
  assumes "wf_typed r" and "wf_status r = wf_status_wire t" and "wf_status r' = wf_status_wire t'"
    and "wf_current_step r' = wf_current_step r"
    and "wf_workflow_type r' = wf_workflow_type r" "wf_input_json r' = wf_input_json r"
      "wf_state_json r' = wf_state_json r"
    and "(t, t') \<in> {(Wf_Running, Wf_Failed), (Wf_Running, Wf_Pending), (Wf_Failed, Wf_Pending)}"
  shows "wf_typed r' \<and> wf_move (phase_of r) (phase_of r')"
proof (rule wf_typedE [OF assms(1)])
  fix s u x v
  assume r: "wf_current_step r = wf_step_wire s" "wf_status r = wf_status_wire u" "phase_of r = (s, u)"
  then have "phase_of r = (s, t)" "phase_of r' = (s, t')"
    using assms(2-4) by (auto intro!: phase_of_simp simp: wf_wire_inj)
  moreover have "wf_typed r'" using assms(1,3-7) by (auto simp: wf_typed_def)
  ultimately show ?thesis using assms(8) by (auto intro: wf_move.intros)
qed

interpretation wf_fail: wf_operation "\<lambda>(c :: string \<times> nat) r. wf_status r = ''running''"
  "\<lambda>c. failed_row (fst c) (snd c)"
  using status_move [where t = Wf_Running and t' = Wf_Failed]
  by unfold_locales (auto simp: failed_row_def)

interpretation wf_release: wf_operation "\<lambda>(now :: nat) r. wf_status r = ''running''" released_row
  using status_move [where t = Wf_Running and t' = Wf_Pending]
  by unfold_locales (auto simp: released_row_def)

interpretation wf_retry: wf_operation "\<lambda>(now :: nat) r. wf_status r = ''failed''"
    "\<lambda>now r. (released_row now r)\<lparr>wf_last_error := None\<rparr>"
  using status_move [where t = Wf_Failed and t' = Wf_Pending]
  by unfold_locales (auto simp: released_row_def)

section \<open>Every operation evolves the database\<close>

abbreviation w_evolves :: "world \<Rightarrow> world \<Rightarrow> bool" where
  "w_evolves w w' \<equiv> evolves (w_db w) (w_db w')"

lemma wf_announce_updated_db [simp]: "w_db (wf_announce_updated i w) = w_db w"
  by (simp add: wf_announce_updated_def split: sum.split option.split)

lemma wf_emit_error_db [simp]: "w_db (wf_emit_error op m w) = w_db w"
  by (simp add: wf_emit_error_def)

lemma wake_workflow_db [simp]: "w_db (wake_workflow w) = w_db w"
  by (simp add: wake_workflow_def)

lemma reread_snd [simp]: "snd (reread i w) = w"
  by (simp add: reread_def)

lemma stamped_db: "w_db (snd (stamped f w)) = snd (f (fst (now_epoch w)) (w_db w))"
  and stamped_fst: "fst (stamped f w) = fst (f (fst (now_epoch w)) (w_db w))"
  by (simp_all add: stamped_def split_beta)

lemma claim_step_evolves: "s \<noteq> Step_Done \<Longrightarrow> w_evolves w (snd (claim_step i s l w))"
  using wf_claim.conn_evolves(2) [where c = "(s, l, fst (now_epoch w))" and p = "\<lambda>r. wf_id r = i \<and> claimable s r" and d = "w_db w"]
  by (simp add: claim_step_def stamped_db claim_guard_def claim_act_def)

lemma claim_for_evolves: "s \<noteq> Step_Done \<Longrightarrow> w_evolves w (snd (claim_for i s l w))"
  using claim_step_evolves [where w = "snd (now_epoch w)"] by (simp add: claim_for_def split_beta)

lemma update_progress_evolves: "legal_update u \<Longrightarrow> w_evolves w (snd (update_progress u w))"
  using wf_progress.conn_evolves(2) [where c = "(u, fst (now_epoch w))" and d = "w_db w"
      and p = "\<lambda>r. wf_id r = pu_id u \<and> wf_current_step r = wf_step_wire (pu_expected_step u)"]
  by (simp add: update_progress_def stamped_db progress_guard_def)

lemma mark_failed_expected_evolves: "w_evolves w (snd (mark_failed_expected i s e w))"
  using wf_fail.conn_evolves(2) [where c = "(e, fst (now_epoch w))" and d = "w_db w"
      and p = "\<lambda>r. wf_id r = i \<and> wf_current_step r = wf_step_wire s \<and> wf_status r = ''running''"]
  by (simp add: mark_failed_expected_def wf_mark_failed_inner_def stamped_db)

lemma wf_reset_for_retry_evolves: "w_evolves w (snd (wf_reset_for_retry i w))"
  using wf_retry.conn_evolves(2) [where c = "fst (now_epoch w)" and d = "w_db w"
      and p = "\<lambda>r. wf_id r = i \<and> wf_status r = ''failed''"]
  by (simp add: wf_reset_for_retry_def stamped_db)

lemma reset_running_evolves:
  "evolves d (snd (reset_running_for_recovery now d))" "evolves d (snd (reset_expired_running now d))"
  unfolding reset_running_for_recovery_def reset_expired_running_def
  by (rule wf_release.conn_evolves(1); simp)+

lemma advance_evolves: "legal_update u \<Longrightarrow> w_evolves w (snd (advance u w))"
  using update_progress_evolves [of u w]
  by (auto simp: advance_def split: prod.split sum.split bool.split)

lemma fail_step_evolves: "w_evolves w (snd (fail_step i s e w))"
  using mark_failed_expected_evolves [of w i s "message e"]
  by (auto simp: fail_step_def split: prod.split sum.split)

text \<open>A claim followed by something that evolves.\<close>

lemma claimed_evolves:
  assumes "claim_for i s l w = (r, w1)" and "s \<noteq> Step_Done" and "evolves (w_db w1) d"
  shows "evolves (w_db w) d"
  using claim_for_evolves [OF assms(2), of w i l] assms(1,3) by (auto intro: evolves_trans)

lemma resolve_receipt_step_evolves: "w_evolves w (snd (resolve_receipt_step instance w))"
proof (cases "claim_for (wi_id instance) Step_StartReview step_lease_secs w")
  case (Pair r w1)
  have "w_evolves w1 (snd (resolve_receipt_step instance w))"
    by (auto simp: resolve_receipt_step_def Pair Let_def split_beta legal_update_def
        intro!: evolves_trans [OF evolves_same advance_evolves] split: sum.split bool.split)
  with claimed_evolves [OF Pair] show ?thesis by simp
qed

definition actions_evolve :: "workflow_actions \<Rightarrow> bool" where
  "actions_evolve actions \<longleftrightarrow>
     (\<forall>i w r w'. wa_wait_receipt actions i w = Some (r, w') \<longrightarrow> w_evolves w w') \<and>
     (\<forall>request prefix w. w_evolves w (snd (wa_send_notification actions request prefix w)))"

lemma advance_after:
  "w_evolves w w' \<Longrightarrow> legal_update u \<Longrightarrow> w_evolves w (snd (advance u w'))"
  "w_evolves w w' \<Longrightarrow> w_evolves w (snd (fail_step i s e w'))"
  using advance_evolves [of u w'] fail_step_evolves [of w' i s e] by (auto intro: evolves_trans)

lemma wait_receipt_step_evolves:
  assumes "actions_evolve actions" and "wait_receipt_step actions instance w = Some (r, w')"
  shows "w_evolves w w'"
proof (cases "claim_for (wi_id instance) Step_WaitReview wait_receipt_lease_secs w")
  case (Pair x w1)
  have wait: "w_evolves w1 w2" if "wa_wait_receipt actions i (wf_announce_updated j w1) = Some (y, w2)" for i j y w2
    using assms(1) that unfolding actions_evolve_def by (metis wf_announce_updated_db)
  have "w_evolves w1 w'"
    using assms(2)
    by (auto simp: wait_receipt_step_def Pair Let_def reread_def legal_update_def now_epoch_def
        dest!: arg_cong [of "advance _ _" _ snd] arg_cong [of "fail_step _ _ _ _" _ snd] wait
        intro!: advance_after
        split: sum.splits bool.splits option.splits prod.splits)
  with claimed_evolves [OF Pair] show ?thesis by simp
qed

lemma enqueue_notify_step_evolves:
  assumes "actions_evolve actions"
  shows "w_evolves w (snd (enqueue_notify_step actions instance w))"
proof (cases "claim_for (wi_id instance) Step_EnqueueNotify step_lease_secs w")
  case (Pair x w1)
  have send: "w_evolves w1 w2"
    if "wa_send_notification actions q p (wf_announce_updated j w1) = (y, w2)" for q p j y w2
    using assms that unfolding actions_evolve_def by (metis wf_announce_updated_db snd_conv)
  from claimed_evolves [OF Pair, of "w_db w1"] have w1: "w_evolves w w1" by simp
  note tail = evolves_trans [OF w1 advance_after(1)] evolves_trans [OF w1 advance_after(2)]
  show ?thesis
    by (auto simp: enqueue_notify_step_def Pair Let_def notify_done_update_def legal_update_def w1
        intro!: advance_evolves tail dest!: send
        split: sum.split bool.split prod.split)
qed

lemma drive_step_evolves:
  assumes "actions_evolve actions" and "drive_step actions instance w = Some (r, w')"
  shows "w_evolves w w'"
  using assms resolve_receipt_step_evolves [of w "instance"] wait_receipt_step_evolves [OF assms(1)]
    enqueue_notify_step_evolves [OF assms(1), of w "instance"]
  by (auto simp: drive_step_def split: workflow_step.splits)

lemma drive_instance_evolves:
  assumes "actions_evolve actions" and "drive_instance actions instance w = Some (r, w')"
  shows "w_evolves w w'"
proof -
  have "actions_evolve actions \<longrightarrow> w_evolves w (snd (r, w'))"
  proof (rule drive_instance.raw_induct [
        where P = "\<lambda>actions instance w r. actions_evolve actions \<longrightarrow> w_evolves w (snd r)", OF _ assms(2)])
    fix drive actions "instance" w r
    assume IH: "\<And>a i w r. drive a i w = Some r \<Longrightarrow> actions_evolve a \<longrightarrow> w_evolves w (snd r)"
      and body: "(if wi_status instance = Wf_Running \<or> wi_current_step instance = Step_Done then Some (Inr (), w)
        else case drive_step actions instance w of None \<Rightarrow> None
        | Some (Inl e, w) \<Rightarrow> Some (Inl e, w)
        | Some (Inr instance, w) \<Rightarrow> if drive_stops instance then Some (Inr (), w) else drive actions instance w)
        = Some r"
    show "actions_evolve actions \<longrightarrow> w_evolves w (snd r)"
    proof
      assume a: "actions_evolve actions"
      have IH': "drive actions i w' = Some r \<Longrightarrow> w_evolves w' (snd r)" for i w'
        using IH [of actions i w' r] a by simp
      show "w_evolves w (snd r)"
        using body drive_step_evolves [OF a, of "instance" w]
        by (auto split: if_splits option.splits sum.splits intro: evolves_trans [OF _ IH'])
    qed
  qed
  with assms(1) show ?thesis by simp
qed

lemma drive_tasks_evolves:
  "actions_evolve actions \<Longrightarrow> drive_tasks actions due w = Some w' \<Longrightarrow> w_evolves w w'"
proof (induction due arbitrary: w)
  case (Cons inst due)
  then obtain r w1 where d: "drive_instance actions inst w = Some (r, w1)"
    by (auto split: option.splits)
  have "\<exists>w2. w_db w2 = w_db w1 \<and> drive_tasks actions due w2 = Some w'"
    using Cons.prems(2) d by (cases r) (auto intro: exI [of _ w1] exI [of _ "wf_emit_error _ _ w1"])
  with Cons drive_instance_evolves [OF Cons.prems(1) d] show ?case by (metis evolves_trans)
qed simp

lemma workflow_due_evolves: "w_evolves w (snd (workflow_due w))"
  using reset_running_evolves(2) [of "w_db w" "fst (now_epoch w)"]
  by (auto simp: workflow_due_def split_beta Let_def split: sum.split)

lemma workflow_worker_pass_evolves:
  assumes "actions_evolve actions" and "workflow_worker_pass actions w = Some w'"
  shows "w_evolves w w'"
  using assms workflow_due_evolves [of w] drive_tasks_evolves [OF assms(1)]
  by (auto simp: workflow_worker_pass_def split: prod.splits option.splits intro: evolves_trans)

lemma workflow_recover_evolves: "w_evolves w (workflow_recover w)"
  using reset_running_evolves(1) [of "w_db w" "fst (now_epoch w)"]
  by (auto simp: workflow_recover_def split_beta Let_def split: sum.split)

lemma workflow_retry_evolves: "w_evolves w (snd (workflow_retry i w))"
  using wf_reset_for_retry_evolves [of w i]
  by (auto simp: workflow_retry_def split: prod.split sum.split bool.split)

subsection \<open>Creation\<close>

lemma new_workflow_row_sel [simp]:
  "wf_id (new_workflow_row new i) = i" "wf_input_json (new_workflow_row new i) = JsonOf (nw_input new)"
  "phase_of (new_workflow_row new i) = (Step_StartReview, Wf_Pending)"
  "wf_typed (new_workflow_row new i)"
  "wf_active_index (new_workflow_row new i) =
     Some (nw_project_id new, wf_type_wire (nw_workflow_type new), nw_dedupe_key new)"
proof -
  show "phase_of (new_workflow_row new i) = (Step_StartReview, Wf_Pending)"
    by (rule phase_of_simp) (simp_all add: new_workflow_row_def)
  show "wf_typed (new_workflow_row new i)"
    by (simp add: new_workflow_row_def wf_typed_def)
       (metis rangeI wf_step_wire.simps(1))
qed (simp_all add: new_workflow_row_def wf_active_index_def wf_active_def)

lemma wf_insertE:
  assumes "wf_insert new d = Inr ((i, ins), d')" and "wf_ok d"
  shows "evolves d d'" and "wf_row d i = None"
    and "ins \<Longrightarrow> wf_row d' i = Some (new_workflow_row new i)"
    and "db_receipt_workflow d' = db_receipt_workflow d"
    and "\<not> ins \<Longrightarrow> db_workflow d' = (db_workflow d)\<lparr>tb_seq := i\<rparr>"
proof -
  let ?t = "db_workflow d" and ?r = "new_workflow_row new i"
  from assms(1) have nx: "tbl_next ?t = Inr i"
    and d': "d' = (if ins then d\<lparr>db_workflow := tbl_push i ?r ?t\<rparr> else d\<lparr>db_workflow := ?t\<lparr>tb_seq := i\<rparr>\<rparr>)"
    and u: "ins \<Longrightarrow> unique_index wf_active_index (tb_rows ?t @ [?r])"
    by (auto simp: wf_insert_def try_bind_Inr_iff Let_def split: if_splits)
  from assms(2) have tok: "tbl_ok wf_id ?t" by (simp add: wf_ok_def)
  from tbl_next_fresh [OF tok nx] have fresh: "s \<in> set (tb_rows ?t) \<Longrightarrow> wf_id s \<noteq> wf_id ?r" for s by force
  then show none: "wf_row d i = None" by (auto simp: by_id_None_iff)
  have look: "by_id wf_id j (tbl_push i ?r ?t) = (if j = i then Some ?r else wf_row d j)" for j
    using by_id_push [of ?t wf_id ?r j i] fresh by simp
  have seq: "by_id wf_id j (?t\<lparr>tb_seq := i\<rparr>) = wf_row d j" for j by (simp add: by_id_def)
  have "tbl_ok wf_id (?t\<lparr>tb_seq := i\<rparr>)"
    using tok nx by (auto simp: tbl_ok_def tbl_next_def split: if_splits)
  moreover have "tbl_ok wf_id (tbl_push i ?r ?t)" by (rule tbl_ok_push [OF tok nx]) simp
  ultimately have "wf_ok d'"
    using assms(2) u by (auto simp: d' wf_ok_def link_ok_def look seq table_simps)
  then show "evolves d d'"
    using none by (auto simp: evolves_def d' look seq)
  show "ins \<Longrightarrow> wf_row d' i = Some ?r" by (simp add: d' look)
  show "db_receipt_workflow d' = db_receipt_workflow d" by (simp add: d')
  show "\<not> ins \<Longrightarrow> db_workflow d' = ?t\<lparr>tb_seq := i\<rparr>" by (simp add: d')
qed

lemma receipt_link_evolves:
  assumes "receipt_link receipt i d = Inr (u, d')"
  shows "evolves d d'" and "db_workflow d' = db_workflow d"
    and "db_receipt_workflow d' = db_receipt_workflow d @ [\<lparr>rw_receipt_id = receipt, rw_workflow_id = i\<rparr>]"
proof -
  from assms show d': "db_receipt_workflow d' = db_receipt_workflow d @ [\<lparr>rw_receipt_id = receipt, rw_workflow_id = i\<rparr>]"
    and w: "db_workflow d' = db_workflow d"
    by (auto simp: receipt_link_def Let_def split: if_splits)
  from assms have "\<forall>l \<in> set (db_receipt_workflow d). rw_receipt_id l \<noteq> receipt \<and> rw_workflow_id l \<noteq> i"
    and "wf_row d i \<noteq> None"
    by (auto simp: receipt_link_def Let_def list_ex_iff split: if_splits)
  then show "evolves d d'"
    by (auto simp: evolves_def wf_ok_def link_ok_def d' w)
qed

lemma create_or_get_evolves: "evolves d (snd (create_or_get new d))"
  unfolding create_or_get_def
proof (rule with_tx_inv [where P = "evolves d"])
  fix x d'
  assume "create_or_get_tx new d = Inr (x, d')"
  then obtain i ins where "wf_insert new d = Inr ((i, ins), d')"
    by (auto simp: create_or_get_tx_def try_bind_Inr_iff map_error_Inr_iff)
  from wf_insertE(1) [OF this] show "evolves d d'" by (auto simp: evolves_def)
qed simp

lemma create_for_receiptE:
  assumes "create_or_get_for_receipt_tx receipt new d = Inr (x, d')" and "wf_ok d"
  obtains (known) l where "l \<in> set (db_receipt_workflow d)" "rw_receipt_id l = receipt"
      "wi_id x = rw_workflow_id l" "d' = d"
  | (fresh) i where "\<forall>l \<in> set (db_receipt_workflow d). rw_receipt_id l \<noteq> receipt" "wi_id x = i"
      "wf_row d i = None" "wf_row d' i = Some (new_workflow_row new i)" "evolves d d'"
      "db_receipt_workflow d' = db_receipt_workflow d @ [\<lparr>rw_receipt_id = receipt, rw_workflow_id = i\<rparr>]"
proof (cases "find (\<lambda>l. rw_receipt_id l = receipt) (db_receipt_workflow d)")
  case (Some l)
  then have l: "l \<in> set (db_receipt_workflow d)" "rw_receipt_id l = receipt" by (auto simp: find_Some_iff)
  from assms(1) Some have r: "wf_select_by_id_tx (rw_workflow_id l) d = Inr x" and d': "d' = d"
    by (auto simp: create_or_get_for_receipt_tx_def try_bind_Inr_iff)
  from r obtain row where row: "wf_row d (rw_workflow_id l) = Some row" "row_to_instance row = Inr x"
    by (auto simp: wf_select_by_id_tx_def map_error_Inr_iff split: option.splits)
  from row_to_instance_typed [OF wf_ok_typed [OF assms(2) row(1)]] row by_id_Some_in [OF row(1)]
  have "wi_id x = rw_workflow_id l" by force
  from known [OF l this d'] show ?thesis .
next
  case None
  with assms(1) obtain i d1 d2 u where ins: "wf_insert new d = Inr ((i, True), d1)"
    and link: "receipt_link receipt i d1 = Inr (u, d2)" and sel: "wf_select_by_id_tx i d2 = Inr x" and d': "d' = d2"
    by (auto simp: create_or_get_for_receipt_tx_def try_bind_Inr_iff map_error_Inr_iff split: if_splits)
  note e = wf_insertE [OF ins assms(2)] and l = receipt_link_evolves [OF link]
  have row: "wf_row d2 i = Some (new_workflow_row new i)" using e(3) l(2) by simp
  with sel have "row_to_instance (new_workflow_row new i) = Inr x"
    by (auto simp: wf_select_by_id_tx_def map_error_Inr_iff)
  with row_to_instance_typed [of "new_workflow_row new i"] have "wi_id x = i" by force
  with None e l row show ?thesis
    by (intro fresh [of i]) (auto simp: find_None_iff d' intro: evolves_trans)
qed

lemma create_or_get_for_receipt_evolves: "evolves d (snd (create_or_get_for_receipt receipt new d))"
proof (cases "wf_ok d")
  case True
  show ?thesis
    unfolding create_or_get_for_receipt_def
    by (rule with_tx_inv [where P = "evolves d"]) (auto elim: create_for_receiptE [OF _ True])
qed (simp add: evolves_def)

lemma start_receipt_notify_evolves:
  "w_evolves w (snd (start_receipt_notify digest_hex receipt reference pr_number key w))"
  using create_or_get_for_receipt_evolves
  by (auto simp: start_receipt_notify_def ensure_receipt_notify_def split_beta Let_def split: sum.split)

section \<open>Progress of the driver\<close>

text \<open>An instance is read from a row: it has the row's identity and phase.\<close>

definition reads :: "workflow_instance \<Rightarrow> workflow_row \<Rightarrow> bool" where
  "reads inst r \<longleftrightarrow> wi_id inst = wf_id r \<and> (wi_current_step inst, wi_status inst) = phase_of r"

lemma readsD: "reads inst r \<Longrightarrow> wi_current_step inst = fst (phase_of r) \<and> wi_status inst = snd (phase_of r)"
  unfolding reads_def by (metis fst_conv snd_conv)

lemma wf_get_ok:
  assumes "wf_ok d" and "wf_row d i = Some r"
  obtains inst where "wf_get i d = Inr (Some inst)" "row_to_instance r = Inr inst" "reads inst r"
proof -
  from row_to_instance_typed [OF wf_ok_typed [OF assms]] obtain inst
    where "row_to_instance r = Inr inst" "reads inst r" unfolding reads_def by metis
  with that show ?thesis by (simp add: wf_get_def read_conn_def assms(2))
qed

lemma rereadE:
  assumes "reread i w = (Inr inst, w')" and "wf_ok (w_db w)"
  obtains r where "w' = w" "wf_row (w_db w) i = Some r" "reads inst r" "row_to_instance r = Inr inst"
proof (cases "wf_row (w_db w) i")
  case None
  with assms(1) show ?thesis
    by (simp add: reread_def current_instance_def wf_get_def read_conn_def)
next
  case (Some r)
  show ?thesis
  proof (rule wf_get_ok [OF assms(2) Some])
    fix x
    assume x: "wf_get i (w_db w) = Inr (Some x)" "row_to_instance r = Inr x" "reads x r"
    with assms(1) have "w' = w" "inst = x" by (auto simp: reread_def current_instance_def)
    with x show ?thesis by (intro that [OF _ Some]) simp_all
  qed
qed

lemma changed_one_Inr:
  assumes "changed_one (\<lambda>r. wf_id r = i \<and> g r) f d = (Inr b, d')" and "distinct (map wf_id (tb_rows (db_workflow d)))"
    and "\<And>r. wf_id (f r) = wf_id r"
  shows "b \<longleftrightarrow> (\<exists>r. wf_row d i = Some r \<and> g r)" and "\<not> b \<Longrightarrow> d' = d"
    and "wf_row d i = Some r \<Longrightarrow> wf_row d' i = Some (if g r then f r else r)"
    and "\<exists>t. d' = d\<lparr>db_workflow := t\<rparr>"
proof -
  let ?p = "\<lambda>r. wf_id r = i \<and> g r"
  from assms(1) have b: "b \<longleftrightarrow> sql_changes ?p (db_workflow d) = 1"
    and d': "d' = d\<lparr>db_workflow := sql_update ?p f (db_workflow d)\<rparr>"
    by (auto simp: changed_one_def with_conn_def wf_update_def Let_def split: if_splits sum.splits)
  note ch = changes_by_id [OF assms(2), of i g]
  then show bg: "b \<longleftrightarrow> (\<exists>r. wf_row d i = Some r \<and> g r)" using b by (auto split: option.splits)
  show "\<not> b \<Longrightarrow> d' = d"
    using b ch sql_update_none [of ?p "db_workflow d" f] by (auto simp: d' split: option.splits if_splits)
  show "wf_row d i = Some r \<Longrightarrow> wf_row d' i = Some (if g r then f r else r)"
    using by_id_update [of wf_id f i ?p, OF assms(3)] by (auto simp: d' dest: by_id_Some_in)
  show "\<exists>t. d' = d\<lparr>db_workflow := t\<rparr>" by (auto simp: d')
qed

lemma claim_for_Inr:
  assumes "claim_for i s l w = (Inr b, w')" and "wf_ok (w_db w)"
  shows "b \<longleftrightarrow> (\<exists>r. wf_row (w_db w) i = Some r \<and> claimable s r)" and "\<not> b \<Longrightarrow> w_db w' = w_db w"
    and "wf_row (w_db w) i = Some r \<Longrightarrow> claimable s r \<Longrightarrow>
      \<exists>l n. wf_row (w_db w') i = Some (claimed_row l n r)"
    and "\<exists>t. w_db w' = (w_db w)\<lparr>db_workflow := t\<rparr>"
proof -
  let ?w = "snd (now_epoch w)"
  let ?f = "claimed_row (sat_add_u64 (fst (now_epoch w)) l) (fst (now_epoch ?w))"
  have c: "changed_one (\<lambda>r. wf_id r = i \<and> claimable s r) ?f (w_db w) = (Inr b, w_db w')"
    using assms(1) by (auto simp: claim_for_def claim_step_def stamped_def split_beta prod_eq_iff)
  note r = changed_one_Inr [OF c wf_ok_distinct [OF assms(2)]]
  show "b \<longleftrightarrow> (\<exists>r. wf_row (w_db w) i = Some r \<and> claimable s r)" by (rule r(1)) (simp add: claimed_row_def)
  show "\<not> b \<Longrightarrow> w_db w' = w_db w" by (rule r(2)) (simp_all add: claimed_row_def)
  show "wf_row (w_db w) i = Some r \<Longrightarrow> claimable s r \<Longrightarrow> \<exists>l n. wf_row (w_db w') i = Some (claimed_row l n r)"
    using r(3) [where r = r] by (auto simp: claimed_row_def)
  show "\<exists>t. w_db w' = (w_db w)\<lparr>db_workflow := t\<rparr>" by (rule r(4)) (simp add: claimed_row_def)
qed

lemma advanceE:
  assumes "advance u w = (Inr inst, w')" and "wf_ok (w_db w)" and "legal_update u"
  obtains r r' where "wf_row (w_db w) (pu_id u) = Some r" "wf_row (w_db w') (pu_id u) = Some r'" "reads inst r'"
    "row_to_instance r' = Inr inst" "wf_ok (w_db w')"
    "fst (phase_of r') = (if fst (phase_of r) = pu_expected_step u then pu_step u else fst (phase_of r))"
    "fst (phase_of r) = pu_expected_step u \<Longrightarrow> \<exists>n. r' = progressed_row u n r"
    "\<exists>t. w_db w' = (w_db w)\<lparr>db_workflow := t\<rparr>"
proof -
  let ?g = "\<lambda>r. wf_current_step r = wf_step_wire (pu_expected_step u)" and ?n = "fst (now_epoch w)"
  from assms(1) obtain b w1 where p: "update_progress u w = (Inr b, w1)" and db: "w_db w' = w_db w1"
    and rr: "\<exists>w2. reread (pu_id u) w2 = (Inr inst, w2) \<and> w_db w2 = w_db w1"
    by (auto simp: advance_def reread_def split: prod.splits sum.splits bool.splits) (metis wf_announce_updated_db)
  have c: "changed_one (\<lambda>r. wf_id r = pu_id u \<and> ?g r) (progressed_row u ?n) (w_db w) = (Inr b, w_db w1)"
    using p by (auto simp: update_progress_def stamped_def split_beta prod_eq_iff)
  have ids: "wf_id (progressed_row u ?n r) = wf_id r" for r by (simp add: progressed_row_def)
  note ch = changed_one_Inr [OF c wf_ok_distinct [OF assms(2)] ids]
  from update_progress_evolves [OF assms(3), of w] p have "w_evolves w w1" by simp
  from evolvesD(1) [OF this assms(2)] have ok1: "wf_ok (w_db w1)" .
  from rr obtain w2 where w2: "reread (pu_id u) w2 = (Inr inst, w2)" "w_db w2 = w_db w1" by blast
  from rereadE [OF w2(1)] ok1 w2(2) obtain r' where r': "wf_row (w_db w1) (pu_id u) = Some r'" "reads inst r'"
    "row_to_instance r' = Inr inst" by metis
  obtain r where r: "wf_row (w_db w) (pu_id u) = Some r"
    using r'(1) ch(1,2) by (cases "wf_row (w_db w) (pu_id u)") auto
  from ch(3) [OF r] r'(1) have r'_eq: "r' = (if ?g r then progressed_row u ?n r else r)" by simp
  have g: "?g r \<longleftrightarrow> fst (phase_of r) = pu_expected_step u"
    by (rule wf_typedE [OF wf_ok_typed [OF assms(2) r]]) (auto simp: wf_wire_inj)
  have "phase_of (progressed_row u ?n r) = (pu_step u, pu_status u)"
    by (rule phase_of_simp) (simp_all add: progressed_row_def)
  with r'_eq g r r' ok1 ch(4) show ?thesis by (intro that [of r r']) (auto simp: db)
qed

lemma fail_step_Inl: "fst (fail_step i s e w) \<noteq> Inr x"
  by (auto simp: fail_step_def split: prod.split sum.split)

text \<open>
  The measure of the loop: how far the row is from its last step, and whether the driver has yet to
  learn at which step it is.
\<close>

definition drive_measure :: "workflow_instance \<Rightarrow> db \<Rightarrow> nat" where
  "drive_measure inst d =
     (case wf_row d (wi_id inst) of
        None \<Rightarrow> 0
      | Some r \<Rightarrow> 2 * (3 - step_rank (fst (phase_of r))) + (if wi_current_step inst = fst (phase_of r) then 0 else 1))"

text \<open>A turn that leaves the loop running comes from a lost claim on a stale step, or from an advance.\<close>

lemma lost_claim:
  assumes "claim_for (wi_id inst) s l w = (Inr False, w1)" and "reread (wi_id inst) w1 = (Inr inst', w')"
    and "wf_ok (w_db w)" and "wi_current_step inst = s" and "\<not> drive_stops inst'" "wi_status inst' \<noteq> Wf_Running"
  shows "wi_id inst' = wi_id inst \<and> drive_measure inst' (w_db w') < drive_measure inst (w_db w)"
proof -
  note c = claim_for_Inr [OF assms(1,3)]
  then have db: "w_db w1 = w_db w" by simp
  with rereadE [OF assms(2)] assms(3) obtain r where w': "w' = w1" and r: "wf_row (w_db w) (wi_id inst) = Some r"
    and rd: "reads inst' r" by metis
  from wf_ok_typed [OF assms(3) r] obtain s' t' where ph: "wf_current_step r = wf_step_wire s'"
    "wf_status r = wf_status_wire t'" "phase_of r = (s', t')" by (rule wf_typedE)
  have nc: "\<not> claimable s r" using c(1) r by simp
  have "t' = Wf_Pending \<or> t' = Wf_Waiting"
    using readsD [OF rd] ph(3) assms(5,6) by (cases t') (auto simp: drive_stops_def)
  with nc ph have "s' \<noteq> s" by (auto simp: claimable_def)
  moreover have "wi_id inst' = wi_id inst" using rd by_id_Some_in [OF r] by (simp add: reads_def)
  ultimately show ?thesis
    using readsD [OF rd] ph(3) assms(4) by (simp add: drive_measure_def w' db r)
qed

lemma won_claim:
  assumes "claim_for (wi_id inst) s l w = (Inr True, w1)" and "w_evolves w1 w2"
    and "advance u w2 = (Inr inst', w')" and "legal_update u" "pu_id u = wi_id inst" "pu_expected_step u = s"
    and "wf_ok (w_db w)"
  shows "wi_id inst' = wi_id inst \<and> drive_measure inst' (w_db w') < drive_measure inst (w_db w)"
proof -
  from assms(4,6) have nxt: "s \<noteq> Step_Done" "step_rank (pu_step u) = Suc (step_rank s)" by (auto simp: legal_update_def)
  from claim_for_Inr(1) [OF assms(1,7)] obtain r where r: "wf_row (w_db w) (wi_id inst) = Some r" and cl: "claimable s r" by auto
  from claim_for_evolves [OF nxt(1), of w "wi_id inst" l] assms(1,2) have "w_evolves w w2"
    by (auto intro: evolves_trans)
  from evolvesD [OF this assms(7)] r obtain r2 where ok2: "wf_ok (w_db w2)"
    and r2: "wf_row (w_db w2) (wi_id inst) = Some r2" "row_evolves r r2" by blast
  have s: "fst (phase_of r) = s"
  proof (rule wf_typedE [OF wf_ok_typed [OF assms(7) r]])
    fix s' t'
    assume "wf_current_step r = wf_step_wire s'" "phase_of r = (s', t')"
    with cl show ?thesis by (simp add: claimable_def wf_wire_inj)
  qed
  from r2(2) s have le: "step_rank s \<le> step_rank (fst (phase_of r2))"
    unfolding row_evolves_def using wf_moves_rank by blast
  show ?thesis
  proof (rule advanceE [OF assms(3) ok2 assms(4)])
    fix r3 r'
    assume "wf_row (w_db w2) (pu_id u) = Some r3" "wf_row (w_db w') (pu_id u) = Some r'" and rd: "reads inst' r'"
      and step: "fst (phase_of r') = (if fst (phase_of r3) = pu_expected_step u then pu_step u else fst (phase_of r3))"
    then have r': "wf_row (w_db w') (wi_id inst) = Some r'" "r3 = r2" using assms(5) r2(1) by simp_all
    have "step_rank s < step_rank (fst (phase_of r'))"
      using step r'(2) assms(6) le nxt(2) by (auto simp: step_rank_inj order_le_less split: if_splits)
    moreover have "wi_id inst' = wi_id inst" using rd by_id_Some_in [OF r'(1)] by (simp add: reads_def)
    ultimately show ?thesis
      using readsD [OF rd] s step_rank_le [of "fst (phase_of r')"]
      by (simp add: drive_measure_def r r'(1))
  qed
qed

text \<open>The ways a step can return an instance.\<close>

lemma fail_step_not_Inr: "fail_step i s e w \<noteq> (Inr x, w')"
  using fail_step_Inl [of i s e w x] by (metis fst_conv)

definition started_update :: "workflow_instance \<Rightarrow> review_notify_state \<Rightarrow> nat \<Rightarrow> progress_update" where
  "started_update inst state now =
     \<lparr>pu_id = wi_id inst, pu_expected_step = Step_StartReview, pu_project_id = None, pu_status = Wf_Waiting,
      pu_step = Step_WaitReview, pu_state = state, pu_next_wake_at = now\<rparr>"

definition reviewed_update :: "workflow_instance \<Rightarrow> review_completion \<Rightarrow> review_notify_state \<Rightarrow> nat \<Rightarrow> progress_update" where
  "reviewed_update inst outcome trace now =
     \<lparr>pu_id = wi_id inst, pu_expected_step = Step_WaitReview, pu_project_id = Some (rc_project_id outcome),
      pu_status = Wf_Pending, pu_step = Step_EnqueueNotify, pu_state = completed_state outcome trace,
      pu_next_wake_at = now\<rparr>"

lemma legal_updates [simp]:
  "legal_update (started_update inst state now)" "legal_update (reviewed_update inst outcome trace now)"
  "legal_update (notify_done_update i trace)"
  by (simp_all add: legal_update_def started_update_def reviewed_update_def notify_done_update_def)

lemma update_sel [simp]:
  "pu_id (started_update inst state now) = wi_id inst" "pu_expected_step (started_update inst state now) = Step_StartReview"
  "pu_id (reviewed_update inst outcome trace now) = wi_id inst" "pu_expected_step (reviewed_update inst outcome trace now) = Step_WaitReview"
  "pu_id (notify_done_update i trace) = i" "pu_expected_step (notify_done_update i trace) = Step_EnqueueNotify"
  by (simp_all add: started_update_def reviewed_update_def notify_done_update_def)

lemma resolve_receipt_stepE:
  assumes "resolve_receipt_step inst w = (Inr inst', w')"
  obtains (lost) w1 where "claim_for (wi_id inst) Step_StartReview step_lease_secs w = (Inr False, w1)"
      "reread (wi_id inst) w1 = (Inr inst', w')"
  | (won) w1 w2 state where "claim_for (wi_id inst) Step_StartReview step_lease_secs w = (Inr True, w1)"
      "w2 = wf_announce_updated (wi_id inst) w1" "review_notify_state_of inst = Inr state"
      "advance (started_update inst state (fst (now_epoch w2))) (snd (now_epoch w2)) = (Inr inst', w')"
proof (cases "claim_for (wi_id inst) Step_StartReview step_lease_secs w")
  case (Pair x w1)
  with assms that show ?thesis
    by (auto simp: resolve_receipt_step_def Let_def split_beta started_update_def [symmetric]
        split: sum.splits bool.splits)
qed

lemma wait_receipt_stepE:
  assumes "wait_receipt_step actions inst w = Some (Inr inst', w')"
  obtains (lost) w1 where "claim_for (wi_id inst) Step_WaitReview wait_receipt_lease_secs w = (Inr False, w1)"
      "reread (wi_id inst) w1 = (Inr inst', w')"
  | (won) w1 w2 trace request outcome where
      "claim_for (wi_id inst) Step_WaitReview wait_receipt_lease_secs w = (Inr True, w1)"
      "review_notify_state_of inst = Inr trace" "review_notify_request_of inst = Inr request"
      "wa_wait_receipt actions (rnr_receipt_id request) (wf_announce_updated (wi_id inst) w1) = Some (Inr outcome, w2)"
      "advance (reviewed_update inst outcome trace (fst (now_epoch w2))) (snd (now_epoch w2)) = (Inr inst', w')"
proof (cases "claim_for (wi_id inst) Step_WaitReview wait_receipt_lease_secs w")
  case (Pair x w1)
  with assms that show ?thesis
    by (auto simp: wait_receipt_step_def Let_def split_beta reviewed_update_def [symmetric] fail_step_not_Inr
        split: sum.splits bool.splits option.splits)
qed

lemma enqueue_notify_stepE:
  assumes "enqueue_notify_step actions inst w = (Inr inst', w')"
  obtains (sent_before) trace where "review_notify_state_of inst = Inr trace" "rns_notification_outbox_ids trace \<noteq> []"
      "advance (notify_done_update (wi_id inst) trace) w = (Inr inst', w')"
  | (lost) w1 where "claim_for (wi_id inst) Step_EnqueueNotify step_lease_secs w = (Inr False, w1)"
      "reread (wi_id inst) w1 = (Inr inst', w')"
  | (won) w1 w2 trace request ids where
      "claim_for (wi_id inst) Step_EnqueueNotify step_lease_secs w = (Inr True, w1)"
      "review_notify_state_of inst = Inr trace" "review_notify_request_of inst = Inr request"
      "rns_notification_outbox_ids trace = []"
      "wa_send_notification actions (notify_request_of request trace inst) (notify_prefix (wi_id inst))
         (wf_announce_updated (wi_id inst) w1) = (Inr ids, w2)"
      "advance (notify_done_update (wi_id inst) (trace\<lparr>rns_notification_outbox_ids := ids\<rparr>)) w2 = (Inr inst', w')"
  using assms
  by (auto simp: enqueue_notify_step_def Let_def fail_step_not_Inr
      split: prod.splits sum.splits bool.splits if_splits)

lemma actions_evolveD:
  assumes "actions_evolve actions"
  shows "wa_wait_receipt actions i (wf_announce_updated j w) = Some (y, w') \<Longrightarrow> w_evolves w w'"
    and "wa_send_notification actions q p (wf_announce_updated j w) = (z, w') \<Longrightarrow> w_evolves w w'"
  using assms unfolding actions_evolve_def by (metis wf_announce_updated_db snd_conv)+

lemma drive_step_progress:
  assumes "drive_step actions inst w = Some (Inr inst', w')" and ok: "wf_ok (w_db w)" and a: "actions_evolve actions"
    and "wi_current_step inst \<noteq> Step_Done" and go: "\<not> drive_stops inst'" "wi_status inst' \<noteq> Wf_Running"
  shows "wi_id inst' = wi_id inst \<and> drive_measure inst' (w_db w') < drive_measure inst (w_db w)"
proof (cases "wi_current_step inst")
  case Step_StartReview
  with assms(1) have "resolve_receipt_step inst w = (Inr inst', w')" by (simp add: drive_step_def)
  then show ?thesis
  proof (cases rule: resolve_receipt_stepE)
    case lost
    from lost_claim [OF this ok Step_StartReview go] show ?thesis .
  next
    case (won w1 w2 state)
    from won_claim [OF won(1) _ won(4) _ _ _ ok] show ?thesis by (simp add: won(2))
  qed
next
  case Step_WaitReview
  with assms(1) have "wait_receipt_step actions inst w = Some (Inr inst', w')" by (simp add: drive_step_def)
  then show ?thesis
  proof (cases rule: wait_receipt_stepE)
    case lost
    from lost_claim [OF this ok Step_WaitReview go] show ?thesis .
  next
    case (won w1 w2 trace request outcome)
    from won_claim [OF won(1) _ won(5) _ _ _ ok] actions_evolveD(1) [OF a won(4)] show ?thesis by simp
  qed
next
  case Step_EnqueueNotify
  with assms(1) have "enqueue_notify_step actions inst w = (Inr inst', w')" by (simp add: drive_step_def)
  then show ?thesis
  proof (cases rule: enqueue_notify_stepE)
    case (sent_before trace)
    show ?thesis
    proof (rule advanceE [OF sent_before(3) ok])
      fix r r'
      assume r: "wf_row (w_db w) (pu_id (notify_done_update (wi_id inst) trace)) = Some r"
        "wf_row (w_db w') (pu_id (notify_done_update (wi_id inst) trace)) = Some r'" and rd: "reads inst' r'"
        and step: "fst (phase_of r') = (if fst (phase_of r) = pu_expected_step (notify_done_update (wi_id inst) trace)
          then pu_step (notify_done_update (wi_id inst) trace) else fst (phase_of r))"
      have "wi_id inst' = wi_id inst" using rd by_id_Some_in [OF r(2)] by (simp add: reads_def)
      with r step readsD [OF rd] Step_EnqueueNotify show ?thesis
        by (auto simp: drive_measure_def notify_done_update_def)
    qed simp
  next
    case lost
    from lost_claim [OF this ok Step_EnqueueNotify go] show ?thesis .
  next
    case (won w1 w2 trace request ids)
    from won_claim [OF won(1) _ won(6) _ _ _ ok] actions_evolveD(2) [OF a won(5)] show ?thesis by simp
  qed
qed (use assms(4) in simp)

text \<open>Every wait returns.\<close>

definition actions_return :: "workflow_actions \<Rightarrow> bool" where
  "actions_return actions \<longleftrightarrow> (\<forall>i w. wa_wait_receipt actions i w \<noteq> None)"

lemma drive_step_total:
  assumes "actions_return actions"
  shows "drive_step actions inst w \<noteq> None"
proof -
  have returns: "wa_wait_receipt actions i w = None \<longleftrightarrow> False" for i w
    using assms by (simp add: actions_return_def)
  show ?thesis
    by (auto simp: drive_step_def wait_receipt_step_def returns Let_def
        split: workflow_step.split prod.split sum.split bool.split option.split)
qed

lemma drive_instance_total:
  assumes "actions_evolve actions" and "actions_return actions" and "wf_ok (w_db w)"
  shows "\<exists>r w'. drive_instance actions inst w = Some (r, w')"
  using assms(3)
proof (induction "drive_measure inst (w_db w)" arbitrary: inst w rule: less_induct)
  case less
  show ?case
  proof (cases "wi_status inst = Wf_Running \<or> wi_current_step inst = Step_Done")
    case True
    then show ?thesis by (subst drive_instance.simps) auto
  next
    case running: False
    obtain x w1 where x: "drive_step actions inst w = Some (x, w1)"
      using drive_step_total [OF assms(2)] by fast
    show ?thesis
    proof (cases x)
      case (Inl e)
      with running x show ?thesis by (subst drive_instance.simps) auto
    next
      case (Inr inst')
      from evolvesD(1) [OF drive_step_evolves [OF assms(1) x] less.prems] have ok1: "wf_ok (w_db w1)" .
      show ?thesis
      proof (cases "drive_stops inst' \<or> wi_status inst' = Wf_Running")
        case True
        with running x Inr show ?thesis
          by (subst drive_instance.simps) (auto simp: drive_instance.simps [of actions inst' w1])
      next
        case False
        with drive_step_progress [OF x [unfolded Inr] less.prems assms(1)] running
        have "drive_measure inst' (w_db w1) < drive_measure inst (w_db w)" by simp
        from less.hyps [OF this ok1] running x Inr show ?thesis
          by (subst drive_instance.simps) auto
      qed
    qed
  qed
qed

lemma drive_tasks_total:
  assumes "actions_evolve actions" and "actions_return actions" and "wf_ok (w_db w)"
  shows "\<exists>w'. drive_tasks actions due w = Some w'"
  using assms(3)
proof (induction due arbitrary: w)
  case (Cons inst due)
  from drive_instance_total [OF assms(1,2) Cons.prems] obtain r w1
    where d: "drive_instance actions inst w = Some (r, w1)" by blast
  from evolvesD(1) [OF drive_instance_evolves [OF assms(1) d] Cons.prems] have "wf_ok (w_db w1)" .
  with Cons.IH d show ?case by (cases r) simp_all
qed simp

end
