(* ===== verification/Workflow_Properties.thy ===== *)
theory Workflow_Properties
  imports Workflow_Facts Notification_Properties Inbox_Properties
begin

text \<open>
  The durable workflows: the table stays readable and one workflow belongs to a receipt, every sequence
  of operations moves each workflow along the abstract machine, driving terminates, the completion
  notification is sent once, and waiting for a receipt returns when the receipt is terminal.
\<close>

section \<open>Histories\<close>

text \<open>
  What may happen to the workflow table between two points in time: the operations of the service, in
  any order, and anything that leaves the two tables alone.
\<close>

inductive workflow_run :: "workflow_actions \<Rightarrow> world \<Rightarrow> world \<Rightarrow> bool" for actions where
  stop: "workflow_run actions w w"
| start: "workflow_run actions w w1 \<Longrightarrow>
    workflow_run actions w (snd (start_receipt_notify digest receipt reference pr_number key w1))"
| recover: "workflow_run actions w w1 \<Longrightarrow> workflow_run actions w (workflow_recover w1)"
| pass: "workflow_run actions w w1 \<Longrightarrow> workflow_worker_pass actions w1 = Some w2 \<Longrightarrow> workflow_run actions w w2"
| drive: "workflow_run actions w w1 \<Longrightarrow> drive_instance actions inst w1 = Some (r, w2) \<Longrightarrow> workflow_run actions w w2"
| retry: "workflow_run actions w w1 \<Longrightarrow> workflow_run actions w (snd (workflow_retry i w1))"
| other: "workflow_run actions w w1 \<Longrightarrow> db_workflow (w_db w2) = db_workflow (w_db w1) \<Longrightarrow>
    db_receipt_workflow (w_db w2) = db_receipt_workflow (w_db w1) \<Longrightarrow> workflow_run actions w w2"

lemma workflow_run_evolves:
  assumes "actions_evolve actions" and "workflow_run actions w w'"
  shows "w_evolves w w'"
  using assms(2)
proof (induction rule: workflow_run.induct)
  case (pass w w1 w2)
  from evolves_trans [OF pass.IH workflow_worker_pass_evolves [OF assms(1) pass.hyps(2)]] show ?case .
next
  case (drive w w1 inst r w2)
  from evolves_trans [OF drive.IH drive_instance_evolves [OF assms(1) drive.hyps(2)]] show ?case .
qed (auto intro: evolves_trans [OF _ start_receipt_notify_evolves] evolves_trans [OF _ workflow_recover_evolves]
      evolves_trans [OF _ workflow_retry_evolves] evolves_trans [OF _ evolves_same])

text \<open>A first workflow, for concrete examples, and actions that return at once.\<close>

definition sample_notify :: review_notify_request where
  "sample_notify = \<lparr>rnr_receipt_id = 1, rnr_reference = ''p'', rnr_pr_number = 7, rnr_skill_key = ''s''\<rparr>"

definition sample_new :: new_workflow where
  "sample_new = \<lparr>nw_project_id = ''p'', nw_workflow_type = ReviewNotify, nw_input = sample_notify,
     nw_dedupe_key = ''k'', nw_now = 5\<rparr>"

definition sample_workflow_db :: db where
  "sample_workflow_db = empty_db\<lparr>db_workflow := tbl_push 1 (new_workflow_row sample_new 1) empty_table,
     db_receipt_workflow := [\<lparr>rw_receipt_id = 1, rw_workflow_id = 1\<rparr>]\<rparr>"

definition sample_actions :: workflow_actions where
  "sample_actions = \<lparr>wa_wait_receipt = (\<lambda>i w. Some (Inr \<lparr>rc_thread_id = None, rc_project_id = ''p'',
       rc_status = Receipt_Done, rc_comment_url = None\<rparr>, w)),
     wa_send_notification = (\<lambda>q p w. (Inr [1], w))\<rparr>"

lemma sample_actions_ok: "actions_evolve sample_actions" "actions_return sample_actions"
  by (simp_all add: actions_evolve_def actions_return_def sample_actions_def)

lemma sample_workflow_row: "wf_row sample_workflow_db 1 = Some (new_workflow_row sample_new 1)"
  "db_receipt_workflow sample_workflow_db = [\<lparr>rw_receipt_id = 1, rw_workflow_id = 1\<rparr>]"
  by (simp_all add: sample_workflow_db_def by_id_def empty_table_def table_simps)

lemma sample_workflow_ok: "wf_ok sample_workflow_db"
  using sample_workflow_row
  by (simp add: wf_ok_def link_ok_def)
     (simp add: sample_workflow_db_def tbl_ok_def empty_table_def unique_index_def table_simps)

section \<open>Properties\<close>

text \<open>
  C30. The workflow table stays readable: starting from a database without workflows, after any sequence
  of operations every row decodes, so that neither the list of the panel, nor the due query of the
  worker, nor the read of an existing workflow ever fails.
\<close>

theorem workflow_rows_decode:
  assumes "db_workflow (w_db w0) = empty_table" and "db_receipt_workflow (w_db w0) = []"
    and "actions_evolve actions" and "workflow_run actions w0 w"
  shows "(\<exists>views. workflow_list project_id w = Inr views) \<and> (\<exists>due. due_instances now (w_db w) = Inr due) \<and>
    (\<exists>found. wf_get i (w_db w) = Inr found)"
proof -
  have "wf_ok (w_db w0)"
    using wf_ok_empty wf_ok_cong [of "w_db w0" empty_db] assms(1,2) by (simp add: empty_db_def)
  from evolvesD(1) [OF workflow_run_evolves [OF assms(3,4)] this] have ok: "wf_ok (w_db w)" .
  have decode: "\<exists>ws. try_map row_to_instance rs = Inr ws" if "set rs \<subseteq> set (tb_rows (db_workflow (w_db w)))" for rs
    using that
  proof (induction rs)
    case (Cons r rs)
    then have "wf_typed r" using ok by (auto simp: wf_ok_def list_all_iff)
    with row_to_instance_typed obtain v where "row_to_instance r = Inr v" by metis
    with Cons show ?case by auto
  qed simp
  have "\<exists>ws. try_map row_to_instance (take n (rev (sort_key key (sql_select p (db_workflow (w_db w)))))) = Inr ws"
    and "\<exists>ws. try_map row_to_instance (take n (sort_key key (sql_select p (db_workflow (w_db w))))) = Inr ws"
    for n p and key :: "workflow_row \<Rightarrow> int"
    by (intro decode; auto simp: sql_select_def dest!: in_set_takeD)+
  moreover have "\<exists>found. wf_get i (w_db w) = Inr found"
  proof (cases "wf_row (w_db w) i")
    case (Some r)
    show ?thesis by (rule wf_get_ok [OF ok Some]) blast
  qed (simp add: wf_get_def read_conn_def)
  ultimately show ?thesis
    unfolding workflow_list_def wf_list_by_project_def due_instances_def read_conn_def
    by (metis map_error.simps(2))
qed

theorem workflow_rows_decode_witness:
  "\<exists>due. due_instances 99 (w_db (workflow_recover (idle_world empty_db))) = Inr due"
  using workflow_rows_decode [of "idle_world empty_db" sample_actions "workflow_recover (idle_world empty_db)" None 99 1]
    workflow_run.recover [OF workflow_run.stop] sample_actions_ok(1)
  by (simp add: idle_world_def empty_db_def)

text \<open>
  C5. The operations refine the abstract machine: whatever sequence of operations runs, whatever the
  injected actions do that keeps to the machine too, a workflow never disappears, its step and status
  move along the machine wf_move, its step never goes back, and its request stays as it was.
\<close>

theorem workflow_refines_machine:
  assumes "wf_ok (w_db w)" and "actions_evolve actions" and "workflow_run actions w w'"
    and "wf_row (w_db w) i = Some r"
  shows "\<exists>r'. wf_row (w_db w') i = Some r' \<and> wf_moves (phase_of r) (phase_of r') \<and>
    step_rank (fst (phase_of r)) \<le> step_rank (fst (phase_of r')) \<and> wf_input_json r' = wf_input_json r"
proof -
  from evolvesD(2) [OF workflow_run_evolves [OF assms(2,3)] assms(1,4)]
  obtain r' where "wf_row (w_db w') i = Some r'" "row_evolves r r'" by blast
  then show ?thesis using wf_moves_rank by (auto simp: row_evolves_def)
qed

theorem workflow_refines_machine_witness:
  "\<exists>r'. wf_row (w_db (snd (workflow_retry 1 (idle_world sample_workflow_db)))) 1 = Some r' \<and>
    wf_moves (Step_StartReview, Wf_Pending) (phase_of r')"
  using workflow_refines_machine [OF _ sample_actions_ok(1) workflow_run.retry [OF workflow_run.stop],
      of "idle_world sample_workflow_db" 1 "new_workflow_row sample_new 1" 1]
    sample_workflow_ok sample_workflow_row(1)
  by (auto simp: idle_world_def)

text \<open>
  C31. Driving terminates: if every wait for a receipt returns and the actions keep to the machine, then
  driving any instance, fresh or stale, returns, and so does a pass of the worker over all that is due.
\<close>

theorem drive_terminates:
  assumes "actions_evolve actions" and "actions_return actions" and "wf_ok (w_db w)"
  shows "(\<exists>r w'. drive_instance actions inst w = Some (r, w')) \<and> (\<exists>w'. workflow_worker_pass actions w = Some w')"
proof -
  have "wf_ok (w_db (snd (workflow_due w)))" by (rule evolvesD(1) [OF workflow_due_evolves assms(3)])
  then have "\<exists>w'. workflow_worker_pass actions w = Some w'"
    using drive_tasks_total [OF assms(1,2)]
    by (auto simp: workflow_worker_pass_def split: prod.split option.split)
  with drive_instance_total [OF assms] show ?thesis by blast
qed

theorem drive_terminates_witness: "\<exists>w'. workflow_worker_pass sample_actions (idle_world sample_workflow_db) = Some w'"
  using drive_terminates [OF sample_actions_ok, of "idle_world sample_workflow_db"] sample_workflow_ok
  by (simp add: idle_world_def)

text \<open>
  One workflow per receipt: once the completion notice of a receipt has been requested, requesting
  it again, with whatever reference, pull request and skill, after any operations, succeeds and leaves
  the workflow table as it is.
\<close>

theorem one_workflow_per_receipt:
  assumes "start_receipt_notify digest receipt reference pr_number key w = (Inr (), w1)" and "wf_ok (w_db w)"
    and "actions_evolve actions" and "workflow_run actions w1 w2"
    and "start_receipt_notify digest' receipt reference' pr_number' key' w2 = (r, w3)"
  shows "r = Inr () \<and> db_workflow (w_db w3) = db_workflow (w_db w2) \<and>
    db_receipt_workflow (w_db w3) = db_receipt_workflow (w_db w2)"
proof -
  from start_receipt_notify_evolves [of w digest receipt reference pr_number key] assms(1)
  have "w_evolves w w1" by simp
  from evolvesD(1) [OF this assms(2)] have ok1: "wf_ok (w_db w1)" .
  from assms(1) obtain new x where new: "create_or_get_for_receipt_tx receipt new (w_db w) = Inr (x, w_db w1)"
    by (auto simp: start_receipt_notify_def ensure_receipt_notify_def create_or_get_for_receipt_def with_tx_def
        on_db_def now_epoch_def Let_def split: sum.splits prod.splits)
  obtain l where l: "l \<in> set (db_receipt_workflow (w_db w1))" "rw_receipt_id l = receipt"
    using create_for_receiptE [OF new assms(2)] by (metis in_set_conv_decomp receipt_workflow_row.select_convs(1))
  have ev: "w_evolves w1 w2" by (rule workflow_run_evolves [OF assms(3,4)])
  with l ok1 have l2: "l \<in> set (db_receipt_workflow (w_db w2))" and ok2: "wf_ok (w_db w2)" by (auto simp: evolves_def)
  obtain m where m: "find (\<lambda>l. rw_receipt_id l = receipt) (db_receipt_workflow (w_db w2)) = Some m"
    using l2 l(2) by (cases "find (\<lambda>l. rw_receipt_id l = receipt) (db_receipt_workflow (w_db w2))")
      (auto simp: find_None_iff)
  then have "wf_row (w_db w2) (rw_workflow_id m) \<noteq> None"
    using ok2 by (auto simp: wf_ok_def link_ok_def find_Some_iff)
  then obtain row where row: "wf_row (w_db w2) (rw_workflow_id m) = Some row" by blast
  from row_to_instance_typed [OF wf_ok_typed [OF ok2 row]] obtain y where y: "row_to_instance row = Inr y" by metis
  have "create_or_get_for_receipt receipt new' (w_db w2) = (Inr y, w_db w2)" for new'
    using m row y
    by (simp add: create_or_get_for_receipt_def create_or_get_for_receipt_tx_def wf_select_by_id_tx_def)
  with assms(5) show ?thesis
    by (auto simp: start_receipt_notify_def ensure_receipt_notify_def on_db_def now_epoch_def Let_def)
qed

theorem one_workflow_per_receipt_witness:
  "\<exists>w1. start_receipt_notify (\<lambda>q. ''h'') 1 ''p'' 7 ''s'' (idle_world sample_workflow_db) = (Inr (), w1) \<and>
    fst (start_receipt_notify (\<lambda>q. ''g'') 1 ''q'' 8 ''t'' (snd (workflow_retry 1 w1))) = Inr ()"
proof -
  obtain x where "row_to_instance (new_workflow_row sample_new 1) = Inr x"
    using row_to_instance_typed [of "new_workflow_row sample_new 1"] by auto
  then have "create_or_get_for_receipt 1 new sample_workflow_db = (Inr x, sample_workflow_db)" for new
    using sample_workflow_row
    by (simp add: create_or_get_for_receipt_def create_or_get_for_receipt_tx_def wf_select_by_id_tx_def)
  then obtain w1 where w1: "start_receipt_notify (\<lambda>q. ''h'') 1 ''p'' 7 ''s'' (idle_world sample_workflow_db) = (Inr (), w1)"
    by (auto simp: start_receipt_notify_def ensure_receipt_notify_def on_db_def now_epoch_def idle_world_def Let_def)
  show ?thesis
    using one_workflow_per_receipt [OF w1 _ sample_actions_ok(1) workflow_run.retry [OF workflow_run.stop], of _ _ _ _ 1]
      w1 sample_workflow_ok
    by (metis (no_types, lifting) idle_world_def prod.collapse world.select_convs(1))
qed

section \<open>Sending once\<close>

text \<open>Sending under a prefix: what a success records, and that it is then known.\<close>

lemma enqueue_after_Inr:
  assumes "enqueue_notification_after parse_url (Inr cfg) request (Some pre) delay_secs w = (Inr ids, w')"
  obtains n cs nonces now where "normalize_request parse_url request = Inr n"
    "selected_channels_from_settings (cfg_channels cfg) (nr_channel_ids n) = Inr cs" "cs \<noteq> []"
    "enqueue_prepared_in_tx nonces 0 (map (prepared_row_of n (Some pre)) cs) delay_secs now (w_db w) = Inr (ids, w_db w')"
  using assms
  by (auto simp: enqueue_notification_after_def selected_channels_def prepare_delivery_rows_def on_db_def Let_def
      now_epoch_def with_tx_Inr_iff try_bind_Inr_iff split: sum.splits prod.splits if_splits)

lemma enqueue_after_known:
  assumes "normalize_request parse_url request = Inr n"
    "selected_channels_from_settings (cfg_channels cfg) (nr_channel_ids n) = Inr cs" "cs \<noteq> []"
    and "list_all2 (\<lambda>row i. \<exists>k. pr_dedupe_key row = Some k \<and> any_status_id (pr_project_id row) k (w_db w) = Some i)
      (map (prepared_row_of n (Some pre)) cs) ids"
  shows "\<exists>w'. enqueue_notification_after parse_url (Inr cfg) request (Some pre) delay_secs w = (Inr ids, w') \<and>
    w_db w' = w_db w"
  using assms enqueue_prepared_known [OF assms(4)]
  by (simp add: enqueue_notification_after_def selected_channels_def prepare_delivery_rows_def on_db_def Let_def now_epoch_def)

text \<open>The steps touch the workflow table alone, apart from what the actions do.\<close>

lemma changed_one_frame [simp]: "db_outbox (snd (changed_one p f d)) = db_outbox d"
  by (auto simp: changed_one_def with_conn_def wf_update_def Let_def split: sum.split prod.split)

lemma stamped_frame: "(\<And>n d. db_outbox (snd (f n d)) = db_outbox d) \<Longrightarrow> db_outbox (w_db (snd (stamped f w))) = db_outbox (w_db w)"
  by (simp add: stamped_db)

lemma claim_for_frame [simp]: "db_outbox (w_db (snd (claim_for i s l w))) = db_outbox (w_db w)"
  by (simp add: claim_for_def claim_step_def stamped_frame split_beta)

lemma update_progress_frame [simp]: "db_outbox (w_db (snd (update_progress u w))) = db_outbox (w_db w)"
  by (simp add: update_progress_def stamped_frame)

lemma advance_frame [simp]: "db_outbox (w_db (snd (advance u w))) = db_outbox (w_db w)"
proof (cases "update_progress u w")
  case (Pair x w1)
  with update_progress_frame [of u w] have "db_outbox (w_db w1) = db_outbox (w_db w)" by (simp only: snd_conv)
  with Pair show ?thesis by (simp add: advance_def split: sum.split bool.split)
qed

lemma any_status_id_cong: "db_outbox d = db_outbox d' \<Longrightarrow> any_status_id p k d = any_status_id p k d'"
  by (simp add: any_status_id_def)

lemma row_to_instance_state: "row_to_instance r = Inr inst \<Longrightarrow> wi_state inst = wf_state_json r"
  by (auto simp: row_to_instance_def json_value_def try_bind_Inr_iff split: json_text.splits)

text \<open>
  The completion notification is sent once: suppose a worker sent it and died before it could record
  the outbox rows. When the step is driven again, later and on whatever instance is read from the row, as
  long as the configuration is the same and the rows sent are still there under their dedupe keys, in
  whatever status, it enqueues nothing, and if it wins the step it records the rows sent before.
\<close>

theorem workflow_notifies_once:
  assumes "producer_consistent (w_db w1)"
    and "wa_send_notification (installed_actions parse_url (Inr cfg) tick) (notify_request_of request trace inst)
      (notify_prefix (wi_id inst)) w1 = (Inr ids, w2)"
    and "\<And>p k i. any_status_id p k (w_db w2) = Some i \<Longrightarrow> any_status_id p k (w_db w3) = Some i"
    and "review_notify_request_of inst' = Inr request" "review_notify_state_of inst' = Inr trace"
      "wi_id inst' = wi_id inst" "wi_project_id inst' = wi_project_id inst"
    and "wf_ok (w_db w3)"
    and "enqueue_notify_step (installed_actions parse_url (Inr cfg) tick) inst' w3 = (r, w4)"
  shows "db_outbox (w_db w4) = db_outbox (w_db w3) \<and>
    (\<forall>w5 finished. claim_for (wi_id inst) Step_EnqueueNotify step_lease_secs w3 = (Inr True, w5) \<and>
       rns_notification_outbox_ids trace = [] \<and> r = Inr finished \<longrightarrow>
       wi_state finished = JsonOf (trace\<lparr>rns_notification_outbox_ids := ids\<rparr>))"
proof (cases "rns_notification_outbox_ids trace = []")
  case False
  with assms(4,5,9) have "advance (notify_done_update (wi_id inst') trace) w3 = (r, w4)"
    by (simp add: enqueue_notify_step_def Let_def)
  then show ?thesis using False advance_frame [of "notify_done_update (wi_id inst') trace" w3] by simp
next
  case True
  let ?q = "notify_request_of request trace inst" and ?pre = "notify_prefix (wi_id inst)" and ?i = "wi_id inst"
  obtain x w5 where claim: "claim_for ?i Step_EnqueueNotify step_lease_secs w3 = (x, w5)" by fastforce
  then have out5: "db_outbox (w_db w5) = db_outbox (w_db w3)"
    using claim_for_frame [of ?i Step_EnqueueNotify step_lease_secs w3] by simp
  have same: "notify_request_of request trace inst' = ?q"
    by (simp add: notify_request_of_def review_completion_notification_request_def assms(7))
  have sent: "\<exists>w6. wa_send_notification (installed_actions parse_url (Inr cfg) tick) ?q ?pre (wf_announce_updated ?i w5) = (Inr ids, w6)
      \<and> w_db w6 = w_db w5"
  proof -
    from assms(2) have "enqueue_notification_after parse_url (Inr cfg) ?q (Some ?pre) 0 w1 = (Inr ids, w2)"
      by (simp add: installed_actions_def enqueue_notification_with_dedupe_prefix_def)
    then obtain n cs nonces now where n: "normalize_request parse_url ?q = Inr n"
      "selected_channels_from_settings (cfg_channels cfg) (nr_channel_ids n) = Inr cs" "cs \<noteq> []"
      and e: "enqueue_prepared_in_tx nonces 0 (map (prepared_row_of n (Some ?pre)) cs) 0 now (w_db w1) = Inr (ids, w_db w2)"
      by (rule enqueue_after_Inr)
    have "list_all2 (\<lambda>row i. \<exists>k. pr_dedupe_key row = Some k \<and> any_status_id (pr_project_id row) k (w_db w5) = Some i)
        (map (prepared_row_of n (Some ?pre)) cs) ids"
      using enqueue_prepared_recorded [OF assms(1) e] assms(3) any_status_id_cong [OF out5]
      by (auto simp: list_all2_conv_all_nth)
    with enqueue_after_known [OF n, where w = "wf_announce_updated ?i w5" and ids = ids and pre = ?pre] show ?thesis
      by (simp add: installed_actions_def enqueue_notification_with_dedupe_prefix_def)
  qed
  show ?thesis
  proof (cases "x = Inr True")
    case False
    then have "w_db w4 = w_db w5"
      using assms(4,5,6,9) True claim
      by (auto simp: enqueue_notify_step_def Let_def reread_def split: sum.splits bool.splits)
    with out5 claim False show ?thesis by simp
  next
    case won: True
    from sent obtain w6 where w6: "wa_send_notification (installed_actions parse_url (Inr cfg) tick) ?q ?pre (wf_announce_updated ?i w5) = (Inr ids, w6)"
      "w_db w6 = w_db w5" by blast
    let ?u = "notify_done_update ?i (trace\<lparr>rns_notification_outbox_ids := ids\<rparr>)"
    have adv: "advance ?u w6 = (r, w4)"
      using assms(4,5,6,9) True claim won w6(1)
      by (simp add: enqueue_notify_step_def Let_def same)
    have ok5: "wf_ok (w_db w5)"
      using claim_for_evolves [of Step_EnqueueNotify w3 ?i step_lease_secs] claim assms(8) evolvesD(1) by auto
    have "wi_state finished = JsonOf (trace\<lparr>rns_notification_outbox_ids := ids\<rparr>)" if r: "r = Inr finished" for finished
    proof (rule advanceE [OF adv [unfolded r]])
      show "wf_ok (w_db w6)" using ok5 w6(2) by simp
    next
      fix r r'
      assume row: "wf_row (w_db w6) (pu_id ?u) = Some r" and dec: "row_to_instance r' = Inr finished"
        and prog: "fst (phase_of r) = pu_expected_step ?u \<Longrightarrow> \<exists>n. r' = progressed_row ?u n r"
      note c = claim_for_Inr [OF claim [unfolded won] assms(8)]
      from c(1) obtain r0 where r0: "wf_row (w_db w3) ?i = Some r0" "claimable Step_EnqueueNotify r0" by auto
      from c(3) [OF r0] row w6(2) obtain l n where "r = claimed_row l n r0" by auto
      then have "phase_of r = (Step_EnqueueNotify, Wf_Running)"
        using r0(2) by (intro phase_of_simp) (simp_all add: claimed_row_def claimable_def)
      with prog obtain n where "r' = progressed_row ?u n r" by auto
      with row_to_instance_state [OF dec] show ?thesis
        by (simp add: progressed_row_def notify_done_update_def)
    qed simp
    moreover have "db_outbox (w_db w4) = db_outbox (w_db w3)"
      using advance_frame [of ?u w6] adv w6(2) out5 by simp
    ultimately show ?thesis by blast
  qed
qed

definition notify_db :: db where
  "notify_db = sample_workflow_db\<lparr>db_workflow :=
     sql_update (\<lambda>r. True) (\<lambda>r. r\<lparr>wf_current_step := ''enqueueNotify''\<rparr>) (db_workflow sample_workflow_db)\<rparr>"

definition notify_inst :: workflow_instance where
  "notify_inst = \<lparr>wi_id = 1, wi_project_id = ''p'', wi_workflow_type = ReviewNotify, wi_status = Wf_Pending,
     wi_current_step = Step_EnqueueNotify, wi_input = JsonOf sample_notify, wi_state = JsonOf empty_notify_state,
     wi_attempt_count = 0, wi_next_wake_at = 5, wi_last_error = None, wi_created_at = 5, wi_updated_at = 5\<rparr>"

lemma notify_db_ok: "wf_ok notify_db" "db_outbox notify_db = empty_table"
proof -
  have "''enqueueNotify'' \<in> range wf_step_wire" "''reviewNotify'' \<in> range wf_type_wire"
    by (rule range_eqI [of _ _ Step_EnqueueNotify], simp, rule range_eqI [of _ _ ReviewNotify], simp)
  then show "wf_ok notify_db"
    using sample_workflow_row(2)
    by (simp add: wf_ok_def link_ok_def)
       (simp add: notify_db_def sample_workflow_db_def tbl_ok_def empty_table_def unique_index_def table_simps
          wf_typed_def new_workflow_row_def by_id_def wf_active_index_def wf_active_def sample_new_def)
qed (simp add: notify_db_def sample_workflow_db_def empty_db_def)

lemma notify_request_normal:
  "\<exists>n. normalize_request (\<lambda>u. None) (notify_request_of sample_notify empty_notify_state notify_inst) = Inr n \<and>
     nr_project_id n = ''p'' \<and> nr_channel_ids n = []"
proof -
  have short: "char_count (trim s) \<le> length s" for s
    using length_trim_le [of s] length_filter_le [of _ "trim s"] unfolding char_count_def by (meson le_trans)
  let ?title = "''PR #7 review '' @ utf8 [0x5B8C, 0x6210]" and ?body = "utf8 [0x672C, 0x6B21] @ '' review '' @ utf8 [0x5B8C, 0x6210, 0xFF08, 0x65E0, 0x8BC4, 0x8BBA, 0x94FE, 0x63A5, 0xFF09]"
  have r: "is_ascii_alphanumeric (CHR ''r'')" by (simp add: is_ascii_alphanumeric_def byte_of_def)
  have ne: "trim ?title \<noteq> []" "trim ?body \<noteq> []" by (rule trim_not_Nil [OF _ r]; simp)+
  have len: "length ?title \<le> 200" "length ?body \<le> 4000"
    by (simp_all add: utf8_def utf8_char_def)
  have "notify_request_of sample_notify empty_notify_state notify_inst =
      \<lparr>snr_level = Some Info, snr_title = ?title, snr_body = Some ?body, snr_url = None, snr_project_id = Some ''p'',
       snr_channel_ids = []\<rparr>"
    by (simp add: notify_request_of_def review_completion_notification_request_def sample_notify_def
        empty_notify_state_def notify_inst_def dec.simps digit_def) (simp add: char_of_def bit_iff_odd)
  then show ?thesis
    using ne order_trans [OF short len(1)] order_trans [OF short len(2)]
    by (simp add: normalize_request_def trim_required_def trim_optional_def ensure_len_def max_title_chars_def
        max_body_chars_def max_project_id_chars_def str_or_empty_def validate_url_def normalize_channel_ids_def
        not_less char_count_def is_continuation_def byte_of_def)
qed

theorem workflow_notifies_once_witness:
  "\<exists>w2. wa_send_notification (installed_actions (\<lambda>u. None) (Inr desktop_config) id)
      (notify_request_of sample_notify empty_notify_state notify_inst) (notify_prefix 1) (idle_world notify_db) = (Inr [1], w2) \<and>
    db_outbox (w_db (snd (enqueue_notify_step (installed_actions (\<lambda>u. None) (Inr desktop_config) id) notify_inst w2))) =
      db_outbox (w_db w2)"
proof -
  let ?a = "installed_actions (\<lambda>u. None) (Inr desktop_config) id"
  let ?q = "notify_request_of sample_notify empty_notify_state notify_inst"
  from notify_request_normal obtain n where n: "normalize_request (\<lambda>u. None) ?q = Inr n"
    "nr_project_id n = ''p''" "nr_channel_ids n = []" by blast
  have alnum: "is_ascii_alphanumeric (CHR ''d'')" by (simp add: is_ascii_alphanumeric_def byte_of_def)
  have ne: "trim (''dedupe:'' @ s) \<noteq> []" "trim (notify_prefix 1 @ '':desktop'') \<noteq> []" for s
    by (rule trim_not_Nil [OF _ alnum]; simp)+
  then obtain key where pr: "producer_for_dedupe ''p'' (notify_prefix 1 @ '':desktop'') = Inr key" and key: "key \<noteq> []"
    by (auto simp: producer_for_dedupe_def new_key_def non_empty_def)
  have "\<exists>d1. enqueue_prepared_in_tx nonces 0 (map (prepared_row_of n (Some (notify_prefix 1))) [desktop]) 0 10 notify_db = Inr ([1], d1)
      \<and> db_workflow d1 = db_workflow notify_db \<and> db_receipt_workflow d1 = db_receipt_workflow notify_db" for nonces
    using n(2)
    by (simp add: enqueue_one_prepared_def id_by_dedupe_key_any_status_in_tx_def notify_db_ok(2) empty_table_def
        enqueue_in_tx_def default_producer_key_def prepared_row_of_def prepared_input_def desktop_channel_def pr key
        enqueue_inner_tx_def sqlite_epoch_def i64_max_def sat_add_u64_def u64_max_def tbl_next_def
        outbox_insertable_def outbox_check_def enqueue_row_def outbox_kinds_def outbox_statuses_def
        thread_check_def unique_index_def kind_as_wire_def Let_def split: option.split)
  then obtain d1 where d1: "enqueue_prepared_in_tx (w_uuids (idle_world notify_db)) 0
      (map (prepared_row_of n (Some (notify_prefix 1))) [desktop]) 0 10 notify_db = Inr ([1], d1)"
    "db_workflow d1 = db_workflow notify_db" "db_receipt_workflow d1 = db_receipt_workflow notify_db" by blast
  then have "\<exists>w2. wa_send_notification ?a ?q (notify_prefix 1) (idle_world notify_db) = (Inr [1], w2) \<and> w_db w2 = d1"
    by (simp add: installed_actions_def enqueue_notification_with_dedupe_prefix_def enqueue_notification_after_def
        n default_config_def desktop_channel_def selected_channels_def selected_channels_from_settings_def
        prepare_delivery_rows_def idle_world_def now_epoch_def on_db_def Let_def)
  then obtain w2 where w2: "wa_send_notification ?a ?q (notify_prefix 1) (idle_world notify_db) = (Inr [1], w2)" "w_db w2 = d1"
    by blast
  have "producer_consistent (w_db (idle_world notify_db))"
    by (simp add: idle_world_def producer_consistent_def notify_db_ok(2) empty_table_def)
  moreover have "wf_ok (w_db w2)" using wf_ok_cong [OF d1(2,3)] notify_db_ok(1) w2(2) by simp
  moreover have "review_notify_request_of notify_inst = Inr sample_notify" "review_notify_state_of notify_inst = Inr empty_notify_state"
    "wi_id notify_inst = 1"
    by (simp_all add: review_notify_request_of_def review_notify_state_of_def notify_inst_def)
  ultimately show ?thesis
    using workflow_notifies_once [of "idle_world notify_db" "\<lambda>u. None" desktop_config id sample_notify empty_notify_state
        notify_inst "[1]" w2 w2 notify_inst "fst (enqueue_notify_step ?a notify_inst w2)" "snd (enqueue_notify_step ?a notify_inst w2)"] w2
    by auto
qed

section \<open>Waiting\<close>

text \<open>The receipt read at poll \<open>n\<close>, counted from zero: each poll is preceded by one tick.\<close>

definition receipt_at :: "(world \<Rightarrow> world) \<Rightarrow> int \<Rightarrow> world \<Rightarrow> nat \<Rightarrow> review_receipt_snapshot app_result" where
  "receipt_at tick i w n = get_review_receipt i (w_db ((tick ^^ Suc n) w))"

definition pending_at :: "(world \<Rightarrow> world) \<Rightarrow> int \<Rightarrow> world \<Rightarrow> nat \<Rightarrow> bool" where
  "pending_at tick i w n \<longleftrightarrow> (\<exists>rc. receipt_at tick i w n = Inr rc \<and> \<not> terminal_receipt (rrs_status rc))"

lemma receipt_at_Suc: "receipt_at tick i (tick w) n = receipt_at tick i w (Suc n)"
  "pending_at tick i (tick w) n = pending_at tick i w (Suc n)"
  by (simp_all add: receipt_at_def pending_at_def funpow_swap1)

lemma poll_receipt_returns:
  assumes "\<And>k. k < n \<Longrightarrow> pending_at tick i w k" and "\<not> pending_at tick i w n"
  shows "poll_receipt tick p i w = Some
    (case receipt_at tick i w n of Inl e \<Rightarrow> Inl e | Inr rc \<Rightarrow> Inr (completion_of p rc), (tick ^^ Suc n) w)"
  using assms
proof (induction n arbitrary: w)
  case 0
  then show ?case
    by (subst poll_receipt.simps) (auto simp: pending_at_def receipt_at_def Let_def split: sum.splits)
next
  case (Suc n)
  have "poll_receipt tick p i (tick w) = Some
      (case receipt_at tick i (tick w) n of Inl e \<Rightarrow> Inl e | Inr rc \<Rightarrow> Inr (completion_of p rc), (tick ^^ Suc n) (tick w))"
    using Suc.prems by (intro Suc.IH) (simp_all add: receipt_at_Suc)
  with Suc.prems(1) [of 0] show ?case
    by (subst poll_receipt.simps) (auto simp: pending_at_def receipt_at_Suc [symmetric] receipt_at_def Let_def funpow_swap1)
qed

lemma poll_receipt_result:
  assumes "poll_receipt tick p i w = Some r"
  shows "\<exists>n. (\<forall>k < n. pending_at tick i w k) \<and> snd r = (tick ^^ Suc n) w \<and>
    (case receipt_at tick i w n of Inl e \<Rightarrow> fst r = Inl e
     | Inr rc \<Rightarrow> terminal_receipt (rrs_status rc) \<and> fst r = Inr (completion_of p rc))"
proof (rule poll_receipt.raw_induct [where P = "\<lambda>tick p i w r. \<exists>n. (\<forall>k < n. pending_at tick i w k) \<and> snd r = (tick ^^ Suc n) w \<and>
    (case receipt_at tick i w n of Inl e \<Rightarrow> fst r = Inl e
     | Inr rc \<Rightarrow> terminal_receipt (rrs_status rc) \<and> fst r = Inr (completion_of p rc))", OF _ assms])
  fix poll tick p i w r
  assume IH: "\<And>tick p i w r. poll tick p i w = Some r \<Longrightarrow> \<exists>n. (\<forall>k < n. pending_at tick i w k) \<and> snd r = (tick ^^ Suc n) w \<and>
      (case receipt_at tick i w n of Inl e \<Rightarrow> fst r = Inl e
       | Inr rc \<Rightarrow> terminal_receipt (rrs_status rc) \<and> fst r = Inr (completion_of p rc))"
    and body: "(let w = tick w in case get_review_receipt i (w_db w) of Inl e \<Rightarrow> Some (Inl e, w)
      | Inr receipt \<Rightarrow> if terminal_receipt (rrs_status receipt) then Some (Inr (completion_of p receipt), w)
          else poll tick p i w) = Some r"
  show "\<exists>n. (\<forall>k < n. pending_at tick i w k) \<and> snd r = (tick ^^ Suc n) w \<and>
      (case receipt_at tick i w n of Inl e \<Rightarrow> fst r = Inl e
       | Inr rc \<Rightarrow> terminal_receipt (rrs_status rc) \<and> fst r = Inr (completion_of p rc))"
  proof (cases "pending_at tick i w 0")
    case False
    with body show ?thesis
      by (intro exI [of _ 0]) (auto simp: pending_at_def receipt_at_def Let_def split: sum.splits if_splits)
  next
    case True
    with body have "poll tick p i (tick w) = Some r"
      by (auto simp: pending_at_def receipt_at_def Let_def)
    from IH [OF this] obtain n where n: "\<forall>k < n. pending_at tick i w (Suc k)" "snd r = (tick ^^ Suc n) (tick w)"
      "case receipt_at tick i w (Suc n) of Inl e \<Rightarrow> fst r = Inl e
       | Inr rc \<Rightarrow> terminal_receipt (rrs_status rc) \<and> fst r = Inr (completion_of p rc)"
      by (auto simp: receipt_at_Suc)
    have "\<forall>k < Suc n. pending_at tick i w k"
      using n(1) True by (metis less_Suc_eq_0_disj)
    with n(2,3) show ?thesis by (intro exI [of _ "Suc n"]) (simp add: funpow_swap1)
  qed
qed

text \<open>
  Waiting for a receipt returns a completion exactly when, at some poll, the receipt is done or
  failed, every earlier poll having read it and found it pending; the completion is that of the first
  such poll, with the project of the receipt's event. While it stays pending, waiting never returns.
\<close>

theorem wait_returns_when_terminal:
  assumes "inbox_get_entry i (w_db w) = Inr (Some entry)"
  shows "(wait_receipt tick i w = Some (Inr c, w') \<longleftrightarrow>
      (\<exists>n rc. (\<forall>k < n. pending_at tick i w k) \<and> receipt_at tick i w n = Inr rc \<and> terminal_receipt (rrs_status rc) \<and>
        c = completion_of (env_project_id (ie_event entry)) rc \<and> w' = (tick ^^ Suc n) w)) \<and>
    (wait_receipt tick i w = None \<longleftrightarrow> (\<forall>n. pending_at tick i w n))"
proof -
  let ?p = "env_project_id (ie_event entry)"
  have wait: "wait_receipt tick i w = poll_receipt tick ?p i w" by (simp add: wait_receipt_def assms)
  have first: "\<exists>n rc. (\<forall>k < n. pending_at tick i w k) \<and> receipt_at tick i w n = Inr rc \<and> terminal_receipt (rrs_status rc) \<and>
        c = completion_of ?p rc \<and> w' = (tick ^^ Suc n) w" if "poll_receipt tick ?p i w = Some (Inr c, w')"
  proof -
    from poll_receipt_result [OF that] show ?thesis
    proof (elim exE conjE)
      fix n
      assume n: "\<forall>k < n. pending_at tick i w k" "snd (Inr c, w') = (tick ^^ Suc n) w"
        and r: "case receipt_at tick i w n of Inl e \<Rightarrow> fst (Inr c, w') = Inl e
          | Inr rc \<Rightarrow> terminal_receipt (rrs_status rc) \<and> fst (Inr c, w') = Inr (completion_of ?p rc)"
      obtain rc where "receipt_at tick i w n = Inr rc" "terminal_receipt (rrs_status rc)" "c = completion_of ?p rc"
        using r by (cases "receipt_at tick i w n") auto
      with n show ?thesis by (intro exI [of _ n] exI [of _ rc]) simp
    qed
  qed
  have reached: "poll_receipt tick ?p i w = Some (Inr (completion_of ?p rc), (tick ^^ Suc n) w)"
    if "\<forall>k < n. pending_at tick i w k" "receipt_at tick i w n = Inr rc" "terminal_receipt (rrs_status rc)" for n rc
    using poll_receipt_returns [of n tick i w ?p] that by (simp add: pending_at_def)
  have never: "poll_receipt tick ?p i w = None \<longleftrightarrow> (\<forall>n. pending_at tick i w n)"
  proof
    assume none: "poll_receipt tick ?p i w = None"
    show "\<forall>n. pending_at tick i w n"
    proof (rule ccontr)
      assume "\<not> (\<forall>n. pending_at tick i w n)"
      then obtain m where "\<not> pending_at tick i w m" "\<And>k. k < m \<Longrightarrow> pending_at tick i w k"
        using exists_least_iff [of "\<lambda>n. \<not> pending_at tick i w n"] by blast
      from poll_receipt_returns [OF this(2,1), where p = ?p] none show False by simp
    qed
  next
    assume "\<forall>n. pending_at tick i w n"
    then have "\<exists>rc. receipt_at tick i w n = Inr rc \<and> \<not> terminal_receipt (rrs_status rc)" for n
      by (simp add: pending_at_def)
    then have "\<not> (case receipt_at tick i w n of Inl e \<Rightarrow> fst r = Inl e
        | Inr rc \<Rightarrow> terminal_receipt (rrs_status rc) \<and> fst r = Inr (completion_of ?p rc))" for n and r :: "review_completion app_result \<times> world"
      by (metis sum.case(2))
    with poll_receipt_result [of tick ?p i w] show "poll_receipt tick ?p i w = None"
      by (cases "poll_receipt tick ?p i w") blast+
  qed
  show ?thesis
    unfolding wait
  proof (intro conjI never iffI)
    show "\<exists>n rc. (\<forall>k < n. pending_at tick i w k) \<and> receipt_at tick i w n = Inr rc \<and> terminal_receipt (rrs_status rc) \<and>
        c = completion_of ?p rc \<and> w' = (tick ^^ Suc n) w" if "poll_receipt tick ?p i w = Some (Inr c, w')"
      by (rule first [OF that])
  next
    assume "\<exists>n rc. (\<forall>k < n. pending_at tick i w k) \<and> receipt_at tick i w n = Inr rc \<and> terminal_receipt (rrs_status rc) \<and>
        c = completion_of ?p rc \<and> w' = (tick ^^ Suc n) w"
    then show "poll_receipt tick ?p i w = Some (Inr c, w')"
      by (elim exE conjE) (simp only: reached)
  qed
qed

theorem wait_returns_when_terminal_witness:
  "\<exists>r. wait_receipt id 1 (idle_world receipt_sample) = Some r"
proof -
  obtain s where s: "get_review_receipt 1 receipt_sample = Inr s" "rrs_status s = Receipt_Done"
    using receipt_sample_done by blast
  have row: "by_id ib_id 1 (db_inbox receipt_sample) =
      Some ((inbox_insert_row request_event ''raw'' None None 1)\<lparr>ib_status := ''processed''\<rparr>)"
    by (simp add: receipt_sample_def by_id_def)
  have "inbox_get_entry 1 (w_db (idle_world receipt_sample)) =
      Inr (Some (entry_of_row ((inbox_insert_row request_event ''raw'' None None 1)\<lparr>ib_status := ''processed''\<rparr>) request_event))"
    using envelope_deserialize_serialize [OF request_event_ok] by (simp add: idle_world_def inbox_get_entry_def row)
  from wait_returns_when_terminal [OF this, of id] s show ?thesis
    by (auto simp: pending_at_def receipt_at_def idle_world_def terminal_receipt_def)
qed

end
