(* ===== verification/Project_Config.thy ===== *)
theory Project_Config
  imports Config
begin

text \<open>
  The projects of the configuration (\<open>config/model.rs\<close>, \<open>config/service.rs\<close>): validation of one project
  and of the list, and the resolution of a reference, which is a project id or a repository. Whether a
  path is a directory is a parameter. Text is UTF-8, so a character occurs in a string when its encoding
  is a substring.
\<close>

section \<open>Characters of a text\<close>

definition has_char :: "string list \<Rightarrow> string \<Rightarrow> bool" where
  "has_char cs s = list_ex (contains_sub s) cs"

text \<open>\<open>char::is_control\<close>: the general category Cc.\<close>

definition control_chars :: "string list" where
  "control_chars = map utf8_char ([0..<32] @ [127..<160])"

text \<open>White space, a control character, or one of the given ASCII characters.\<close>

definition has_illegal :: "string \<Rightarrow> string \<Rightarrow> bool" where
  "has_illegal extra s \<longleftrightarrow> has_whitespace s \<or> has_char control_chars s \<or> (\<exists>c \<in> set extra. c \<in> set s)"

definition ascii_lower :: "string \<Rightarrow> string" where
  "ascii_lower s = map (\<lambda>c. if 65 \<le> byte_of c \<and> byte_of c \<le> 90 then char_of (byte_of c + 32) else c) s"

section \<open>Validation\<close>

definition project_error :: "string \<Rightarrow> 'a app_result" where
  "project_error msg = Inl (AppError msg)"

definition github_repo_ok :: "string \<Rightarrow> bool" where
  "github_repo_ok repo \<longleftrightarrow>
     (case split_all (CHR ''/'') repo of [a, b] \<Rightarrow> a \<noteq> [] \<and> b \<noteq> [] | _ \<Rightarrow> False) \<and> \<not> has_whitespace repo"

(* config/model.rs 1467-1606 validate_project *)
definition validate_source :: "project \<Rightarrow> unit app_result" where
  "validate_source project =
     (case prj_source_kind project of
        Github \<Rightarrow>
          if \<not> github_repo_ok (prj_repo project)
          then project_error (''repo '' @ (utf8 [0x5FC5, 0x987B, 0x662F] @ '' owner/name '' @ utf8 [0x683C, 0x5F0F] @ '': '') @ prj_repo project)
          else Inr ()
      | Azure \<Rightarrow>
          if trim (prj_azure_org project) = [] then project_error (''azureOrg '' @ (utf8 [0x4E0D, 0x80FD, 0x4E3A, 0x7A7A, 0xFF08] @ ''Azure '' @ utf8 [0x6E90, 0x5FC5, 0x586B, 0xFF09]))
          else if has_illegal ''/#?@'' (prj_azure_org project) then
            project_error (''azureOrg '' @ (utf8 [0x542B, 0x975E, 0x6CD5, 0x5B57, 0x7B26, 0xFF08, 0x4E0D, 0x80FD, 0x6709, 0x7A7A, 0x767D, 0x3001, 0x63A7, 0x5236, 0x5B57, 0x7B26, 0x6216] @ '' / # ? @'' @ utf8 [0xFF09] @ '': '') @ prj_azure_org project)
          else if trim (prj_azure_project project) = [] then
            project_error (''azureProject '' @ (utf8 [0x4E0D, 0x80FD, 0x4E3A, 0x7A7A, 0xFF08] @ ''Azure '' @ utf8 [0x6E90, 0x5FC5, 0x586B, 0xFF09]))
          else if trim (prj_repo project) = [] then project_error (''repo '' @ (utf8 [0x4E0D, 0x80FD, 0x4E3A, 0x7A7A, 0xFF08] @ ''Azure '' @ utf8 [0x6E90, 0x5FC5, 0x586B, 0x4ED3, 0x5E93, 0x540D, 0xFF09]))
          else Inr ()
      | Bitbucket \<Rightarrow>
          if trim (prj_bitbucket_host project) = [] then
            project_error (''bitbucketHost '' @ (utf8 [0x4E0D, 0x80FD, 0x4E3A, 0x7A7A, 0xFF08] @ ''Bitbucket '' @ utf8 [0x6E90, 0x5FC5, 0x586B, 0xFF09]))
          else if has_illegal ''#?@'' (prj_bitbucket_host project) then
            project_error (''bitbucketHost '' @ (utf8 [0x542B, 0x975E, 0x6CD5, 0x5B57, 0x7B26, 0xFF08, 0x4E0D, 0x80FD, 0x6709, 0x7A7A, 0x767D, 0x3001, 0x63A7, 0x5236, 0x5B57, 0x7B26, 0x6216] @ '' # ? @'' @ utf8 [0xFF09] @ '': '') @ prj_bitbucket_host project)
          else if \<not> prefix ''https://'' (ascii_lower (trim (prj_bitbucket_host project))) then
            project_error (''bitbucketHost '' @ (utf8 [0x5FC5, 0x987B, 0x662F] @ '' https:// '' @ utf8 [0x5F00, 0x5934, 0x7684] @ '' URL'' @ utf8 [0xFF08] @ ''Bearer '' @ utf8 [0x51ED, 0x636E, 0x4E0D, 0x80FD, 0x8D70, 0x660E, 0x6587] @ '' HTTP'' @ utf8 [0xFF09] @ '': '')
              @ prj_bitbucket_host project)
          else if trim (prj_bitbucket_project project) = [] then
            project_error (''bitbucketProject '' @ (utf8 [0x4E0D, 0x80FD, 0x4E3A, 0x7A7A, 0xFF08] @ ''Bitbucket '' @ utf8 [0x6E90, 0x5FC5, 0x586B, 0xFF09]))
          else if has_illegal ''/#?@'' (prj_bitbucket_project project) then
            project_error (''bitbucketProject '' @ (utf8 [0x542B, 0x975E, 0x6CD5, 0x5B57, 0x7B26, 0xFF08, 0x4E0D, 0x80FD, 0x6709, 0x7A7A, 0x767D, 0x3001, 0x63A7, 0x5236, 0x5B57, 0x7B26, 0x6216] @ '' / # ? @'' @ utf8 [0xFF09] @ '': '')
              @ prj_bitbucket_project project)
          else if trim (prj_bitbucket_token project) = [] then
            project_error (''bitbucketToken '' @ (utf8 [0x4E0D, 0x80FD, 0x4E3A, 0x7A7A, 0xFF08] @ ''Bitbucket '' @ utf8 [0x6E90, 0x5FC5, 0x586B, 0xFF09]))
          else if trim (prj_repo project) = [] then
            project_error (''repo '' @ (utf8 [0x4E0D, 0x80FD, 0x4E3A, 0x7A7A, 0xFF08] @ ''Bitbucket '' @ utf8 [0x6E90, 0x5FC5, 0x586B, 0x4ED3, 0x5E93] @ '' slug'' @ utf8 [0xFF09]))
          else if has_illegal ''/#?@'' (prj_repo project) then
            project_error (''repo '' @ (utf8 [0x542B, 0x975E, 0x6CD5, 0x5B57, 0x7B26, 0xFF08] @ ''Bitbucket '' @ utf8 [0x4ED3, 0x5E93] @ '' slug '' @ utf8 [0x4E0D, 0x80FD, 0x6709, 0x7A7A, 0x767D, 0x3001, 0x63A7, 0x5236, 0x5B57, 0x7B26, 0x6216] @ '' / # ? @'' @ utf8 [0xFF09] @ '': '') @ prj_repo project)
          else if prj_label_source project \<noteq> Title then
            project_error (''labelSource '' @ (utf8 [0x5FC5, 0x987B, 0x4E3A, 0x300C, 0x4ECE, 0x6807, 0x9898, 0x89E3, 0x6790, 0x300D, 0xFF08] @ ''Bitbucket '' @ utf8 [0x6E90, 0x65E0, 0x539F, 0x751F, 0x6807, 0x7B7E, 0xFF09]))
          else if prj_update_mode project = WebhookOnly \<or> prj_update_mode project = Hybrid then
            project_error (''updateMode'' @ (utf8 [0xFF1A] @ ''Bitbucket '' @ utf8 [0x6E90, 0x65E0, 0x5165, 0x7AD9] @ '' webhook'' @ utf8 [0xFF0C, 0x8BF7, 0x6539, 0x7528] @ '' pull-only '' @ utf8 [0x6216] @ '' manual''))
          else Inr ())"

(* config/model.rs 1464-1625 validate_project *)
definition validate_project :: "(string \<Rightarrow> bool) \<Rightarrow> project \<Rightarrow> unit app_result" where
  "validate_project is_dir project =
     try_bind (validate_source project) (\<lambda>_.
     let repo_root = trim (prj_repo_root project) in
     if repo_root = [] \<or> \<not> path_is_absolute repo_root \<or> \<not> is_dir repo_root then
       project_error (''repoRoot '' @ (utf8 [0x5FC5, 0x987B, 0x662F, 0x5B58, 0x5728, 0x7684, 0x7EDD, 0x5BF9, 0x76EE, 0x5F55, 0x8DEF, 0x5F84] @ '': '') @ prj_repo_root project)
     else if prj_poll_interval_secs project = 0 then project_error (''pollIntervalSecs '' @ (utf8 [0x5FC5, 0x987B, 0x5927, 0x4E8E] @ '' 0''))
     else if prj_pr_cooldown_seconds project = 0 then project_error (''prCooldownSeconds '' @ (utf8 [0x5FC5, 0x987B, 0x5927, 0x4E8E] @ '' 0''))
     else Inr ())"

definition project_id_ok :: "string \<Rightarrow> bool" where
  "project_id_ok i \<longleftrightarrow> i \<noteq> [] \<and> CHR '':'' \<notin> set i \<and> \<not> has_whitespace i"

(* config/model.rs 2286-2337 validate *)
fun validate_projects ::
    "(string \<Rightarrow> bool) \<Rightarrow> string list \<Rightarrow> string list \<Rightarrow> project list \<Rightarrow> unit app_result" where
  "validate_projects is_dir seen_ids seen_repos [] = Inr ()"
| "validate_projects is_dir seen_ids seen_repos (project # projects) =
     (if \<not> project_id_ok (prj_id project) then
        project_error (''projectId '' @ (utf8 [0x975E, 0x6CD5, 0xFF08, 0x4E0D, 0x80FD, 0x4E3A, 0x7A7A, 0x3001, 0x542B] @ '' `:` '' @ utf8 [0x6216, 0x7A7A, 0x767D, 0x5B57, 0x7B26, 0xFF09] @ '': '') @ debug_str (prj_id project))
      else if prj_id project \<in> set seen_ids then
        project_error ((utf8 [0x9879, 0x76EE] @ '' id '' @ utf8 [0x91CD, 0x590D] @ '': '') @ prj_id project @ (utf8 [0xFF08, 0x6BCF, 0x4E2A, 0x9879, 0x76EE, 0x7684] @ '' id '' @ utf8 [0x5FC5, 0x987B, 0x552F, 0x4E00, 0xFF09]))
      else if ascii_lower (prj_repo project) \<in> set seen_repos then
        project_error ((utf8 [0x9879, 0x76EE] @ '' repo '' @ utf8 [0x91CD, 0x590D] @ '': '') @ prj_repo project @ (utf8 [0xFF08, 0x540C, 0x4E00, 0x4ED3, 0x5E93, 0x4E0D, 0x80FD, 0x76D1, 0x63A7, 0x4E24, 0x6B21, 0xFF0C, 0x5927, 0x5C0F, 0x5199, 0x4E0D, 0x654F, 0x611F, 0xFF09]))
      else
        try_bind (if prj_enabled project then validate_project is_dir project else Inr ()) (\<lambda>_.
        validate_projects is_dir (prj_id project # seen_ids) (ascii_lower (prj_repo project) # seen_repos) projects))"

section \<open>Resolving a reference\<close>

(* config/service.rs 971-979 project *)
definition find_project :: "app_config app_result \<Rightarrow> string \<Rightarrow> project app_result" where
  "find_project load i =
     try_bind load (\<lambda>config.
     ok_or (find (\<lambda>p. prj_id p = i) (cfg_projects config)) (AppError ((utf8 [0x627E, 0x4E0D, 0x5230, 0x9879, 0x76EE] @ '': '') @ i)))"

(* config/service.rs 988-995 project_validated *)
definition project_validated :: "(string \<Rightarrow> bool) \<Rightarrow> app_config app_result \<Rightarrow> string \<Rightarrow> project app_result" where
  "project_validated is_dir load i =
     try_bind (find_project load i) (\<lambda>p. try_bind (validate_project is_dir p) (\<lambda>_. Inr p))"

(* config/service.rs 1027-1043 match_project_ref *)
definition match_project_ref :: "project list \<Rightarrow> string \<Rightarrow> project app_result" where
  "match_project_ref projects reference =
     (case find (\<lambda>p. prj_id p = reference) projects of
        Some p \<Rightarrow> Inr p
      | None \<Rightarrow>
          (case filter (\<lambda>p. ascii_lower (prj_repo p) = ascii_lower reference) projects of
             [] \<Rightarrow> project_error ((utf8 [0x627E, 0x4E0D, 0x5230, 0x9879, 0x76EE, 0xFF08] @ ''reference '' @ utf8 [0x65E2, 0x975E] @ '' id '' @ utf8 [0x4E5F, 0x975E, 0x5DF2, 0x77E5] @ '' repo'' @ utf8 [0xFF09] @ '': '') @ reference)
           | [p] \<Rightarrow> Inr p
           | _ \<Rightarrow> project_error (''repo '' @ (utf8 [0x4E0D, 0x552F, 0x4E00, 0xFF0C, 0x8BF7, 0x7528] @ '' projectId: '') @ reference)))"

(* config/service.rs 1003-1011 project_by_ref_validated *)
definition project_by_ref_validated ::
    "(string \<Rightarrow> bool) \<Rightarrow> app_config app_result \<Rightarrow> string \<Rightarrow> project app_result" where
  "project_by_ref_validated is_dir load reference =
     try_bind load (\<lambda>config.
     try_bind (match_project_ref (cfg_projects config) reference) (\<lambda>p.
     try_bind (validate_project is_dir p) (\<lambda>_. Inr p)))"

section \<open>Text without white space\<close>

definition graphic :: "char \<Rightarrow> bool" where
  "graphic c \<longleftrightarrow> 33 \<le> byte_of c \<and> byte_of c < 127"

lemma white_space_not_graphic: "w \<in> set white_space \<Longrightarrow> c \<in> set w \<Longrightarrow> \<not> graphic c"
proof -
  have "list_all (list_all (\<lambda>c. \<not> graphic c)) white_space"
    by (simp add: white_space_def utf8_char_def graphic_def byte_of_def)
  then show "w \<in> set white_space \<Longrightarrow> c \<in> set w \<Longrightarrow> \<not> graphic c" by (auto simp: list_all_iff)
qed

lemma graphic_no_whitespace:
  assumes "list_all graphic s"
  shows "\<not> has_whitespace s"
proof
  assume "has_whitespace s"
  then obtain w where w: "w \<in> set white_space" "sublist w s"
    by (auto simp: has_whitespace_def list_ex_iff contains_sub_iff)
  from white_space_edges [OF w(1)] have h: "hd w \<in> set w" by simp
  with set_mono_sublist [OF w(2)] assms have "graphic (hd w)" by (auto simp: list_all_iff)
  with white_space_not_graphic [OF w(1) h] show False by contradiction
qed

lemma graphic_trim:
  assumes "list_all graphic s"
  shows "trim s = s"
proof -
  have none: "strip_one ws t = None" if "\<And>w. w \<in> set ws \<Longrightarrow> w \<noteq> [] \<Longrightarrow> \<not> graphic (hd w)" "list_all graphic t" for ws t
    using that by (auto simp: strip_one_def find_None_iff prefix_def list_all_iff) (metis hd_in_set Un_iff set_append)
  have "strip_one white_space s = None"
    by (rule none [OF _ assms]) (use white_space_not_graphic hd_in_set in blast)
  moreover have "strip_one (map rev white_space) (rev s) = None"
    by (rule none) (use assms white_space_not_graphic last_in_set in \<open>auto simp: hd_rev list_all_iff\<close>)
  ultimately show ?thesis
    by (simp add: trim_def trim_start_def trim_end_def strip_one_None_strip_all)
qed

section \<open>What validation establishes\<close>

lemma ascii_lower_Nil [simp]: "ascii_lower [] = []"
  by (simp add: ascii_lower_def)

lemma validate_projects_Inr:
  assumes "validate_projects is_dir ids repos ps = Inr ()"
  shows "distinct (map prj_id ps)" "distinct (map (ascii_lower \<circ> prj_repo) ps)"
    "set (map prj_id ps) \<inter> set ids = {}" "set (map (ascii_lower \<circ> prj_repo) ps) \<inter> set repos = {}"
    "\<And>p. p \<in> set ps \<Longrightarrow> project_id_ok (prj_id p)"
    "\<And>p. p \<in> set ps \<Longrightarrow> prj_enabled p \<Longrightarrow> validate_project is_dir p = Inr ()"
proof -
  have "distinct (map prj_id ps) \<and> distinct (map (ascii_lower \<circ> prj_repo) ps) \<and>
      set (map prj_id ps) \<inter> set ids = {} \<and> set (map (ascii_lower \<circ> prj_repo) ps) \<inter> set repos = {} \<and>
      (\<forall>p \<in> set ps. project_id_ok (prj_id p) \<and> (prj_enabled p \<longrightarrow> validate_project is_dir p = Inr ()))"
    using assms
  proof (induction ps arbitrary: ids repos)
    case (Cons p ps)
    from Cons.prems have p: "project_id_ok (prj_id p)" "prj_id p \<notin> set ids" "ascii_lower (prj_repo p) \<notin> set repos"
      "prj_enabled p \<longrightarrow> validate_project is_dir p = Inr ()"
      and rest: "validate_projects is_dir (prj_id p # ids) (ascii_lower (prj_repo p) # repos) ps = Inr ()"
      by (auto simp: project_error_def try_bind_Inr_iff split: if_splits)
    from Cons.IH [OF rest] p show ?case by auto
  qed simp
  then show "distinct (map prj_id ps)" "distinct (map (ascii_lower \<circ> prj_repo) ps)"
    "set (map prj_id ps) \<inter> set ids = {}" "set (map (ascii_lower \<circ> prj_repo) ps) \<inter> set repos = {}"
    "\<And>p. p \<in> set ps \<Longrightarrow> project_id_ok (prj_id p)"
    "\<And>p. p \<in> set ps \<Longrightarrow> prj_enabled p \<Longrightarrow> validate_project is_dir p = Inr ()"
    by auto
qed

lemma match_project_ref_in:
  assumes "match_project_ref ps reference = Inr p"
  shows "p \<in> set ps" and "prj_id p = reference \<or> ascii_lower (prj_repo p) = ascii_lower reference"
proof -
  have "p \<in> set ps \<and> (prj_id p = reference \<or> ascii_lower (prj_repo p) = ascii_lower reference)"
  proof (cases "find (\<lambda>p. prj_id p = reference) ps")
    case (Some q)
    with assms show ?thesis by (auto simp: match_project_ref_def find_Some_iff)
  next
    case None
    with assms have "filter (\<lambda>p. ascii_lower (prj_repo p) = ascii_lower reference) ps = [p]"
      by (auto simp: match_project_ref_def project_error_def split: list.splits)
    then have "p \<in> set (filter (\<lambda>p. ascii_lower (prj_repo p) = ascii_lower reference) ps)" by simp
    then show ?thesis by simp
  qed
  then show "p \<in> set ps" and "prj_id p = reference \<or> ascii_lower (prj_repo p) = ascii_lower reference" by auto
qed

end
