(* ===== verification/External_Review.thy ===== *)
theory External_Review
  imports Project_Config Rule_Events Inbox_Service Workflow_Service
begin

text \<open>
  Review requests from outside (\<open>lib.rs\<close>, the closures behind \<open>ExternalReviewIngress\<close> of \<open>state.rs\<close>): a
  request is validated against the configuration, stored in the inbox under its request id, and bound to
  the receipt of the stored row; a repeated request id gives the receipt of the first request, provided
  it asks for the same thing. The file system and the digest of the workflow's key are parameters.
\<close>

record submit_env =
  se_fs :: filesystem
  se_is_dir :: "string \<Rightarrow> bool"
  se_digest :: "review_notify_request \<Rightarrow> string"

definition same_request :: "review_request \<Rightarrow> review_request \<Rightarrow> bool" where
  "same_request a b \<longleftrightarrow>
     req_pr_number a = req_pr_number b \<and> req_extra_args a = req_extra_args b \<and>
     req_request_id a = req_request_id b \<and> req_origin a = req_origin b \<and>
     req_notify_on_completion a = req_notify_on_completion b"

(* lib.rs 1199-1227 ensure_same_external_review_request *)
definition ensure_same_external_review_request ::
    "event_envelope \<Rightarrow> event_envelope \<Rightarrow> unit app_result" where
  "ensure_same_external_review_request existing requested =
     (let same_envelope = env_source existing = env_source requested \<and>
            env_project_id existing = env_project_id requested \<and> env_repo existing = env_repo requested;
          same = (case (as_review_request existing, as_review_request requested) of
            (Some a, Some b) \<Rightarrow> same_request a b
          | _ \<Rightarrow> False) in
      if same_envelope \<and> same then Inr ()
      else Inl (AppError (''requestId ''
        @ (case as_review_request requested of Some r \<Rightarrow> req_request_id r | None \<Rightarrow> ''<invalid>'')
        @ ('' '' @ utf8 [0x5DF2, 0x7ED1, 0x5B9A, 0x5230, 0x4E0D, 0x540C, 0x7684] @ '' review request''))))"

text \<open>The stored event of a request, with the default skill's name, path and template.\<close>

definition submitted_event ::
    "project \<Rightarrow> nat \<Rightarrow> string \<Rightarrow> string \<Rightarrow> external_trigger_origin \<Rightarrow> bool \<Rightarrow> nat \<Rightarrow> event_envelope app_result" where
  "submitted_event project pr_number extra_args request_id origin notify now =
     try_bind (map_error AppError (new_key (''external:'' @ request_id))) (\<lambda>dedupe.
     map_error AppError (envelope_review_request dedupe (prj_source_kind project) (prj_id project) (prj_repo project)
       \<lparr>req_pr_number = pr_number, req_skill_name = default_skill_name, req_extra_args = extra_args,
        req_skill_path = default_skill_path, req_command_template = default_command_template,
        req_request_id = request_id, req_origin = origin, req_notify_on_completion = notify\<rparr> now))"

text \<open>The receipt of a request: the new row's, or that of the row which has the key already.\<close>

definition receipt_for :: "event_envelope \<Rightarrow> world \<Rightarrow> int app_result \<times> world" where
  "receipt_for event w =
     (case on_db (insert_dedup event ''external-review-request'' None None) w of
        (Inl e, w) \<Rightarrow> (Inl e, w)
      | (Inr (Some i), w) \<Rightarrow> (Inr i, w)
      | (Inr None, w) \<Rightarrow>
          (try_bind (id_by_dedupe_key (env_dedupe_key event) (w_db w)) (\<lambda>found.
           try_bind (ok_or found (AppError ((utf8 [0x91CD, 0x590D] @ '' review request '' @ utf8 [0x672A, 0x627E, 0x5230] @ '' receipt'')))) (\<lambda>i.
           try_bind (inbox_get_entry i (w_db w)) (\<lambda>entry.
           try_bind (ok_or entry (AppError ((utf8 [0x91CD, 0x590D] @ '' review request '' @ utf8 [0x7684] @ '' receipt '' @ utf8 [0x5DF2, 0x4E22, 0x5931])))) (\<lambda>existing.
           try_bind (ensure_same_external_review_request (ie_event existing) event) (\<lambda>_. Inr i))))), w))"

definition prepare_submit ::
    "submit_env \<Rightarrow> app_config app_result \<Rightarrow> string \<Rightarrow> nat \<Rightarrow> string \<Rightarrow> (project \<times> skill_invocation) app_result" where
  "prepare_submit env load reference pr_number extra_args =
     try_bind (project_by_ref_validated (se_is_dir env) load reference) (\<lambda>project.
     try_bind load (\<lambda>config.
     try_bind (map_error AppError
       (resolve_skill_invocation (se_fs env) (cfg_rules config) project pr_number extra_args)) (\<lambda>invocation.
     Inr (project, invocation))))"

(* lib.rs 474-541 set_sinks *)
definition submit_review ::
    "submit_env \<Rightarrow> app_config app_result \<Rightarrow> string \<Rightarrow> nat \<Rightarrow> string \<Rightarrow> string \<Rightarrow> external_trigger_origin
      \<Rightarrow> bool \<Rightarrow> world \<Rightarrow> int app_result \<times> world" where
  "submit_review env load reference pr_number extra_args request_id origin notify w =
     (case prepare_submit env load reference pr_number extra_args of
        Inl e \<Rightarrow> (Inl e, w)
      | Inr (project, invocation) \<Rightarrow>
          (let (now, w) = now_epoch w in
           case submitted_event project pr_number extra_args request_id origin notify now of
             Inl e \<Rightarrow> (Inl e, w)
           | Inr event \<Rightarrow>
          (case receipt_for event w of
             (Inl e, w) \<Rightarrow> (Inl e, w)
           | (Inr i, w) \<Rightarrow>
          (case map_error AppError (review_receipt_id_new i) of
             Inl e \<Rightarrow> (Inl e, w)
           | Inr receipt \<Rightarrow>
               (let w = wake_inbox w in
                if notify then
                  (case start_receipt_notify (se_digest env) receipt reference pr_number
                          (inv_skill_key invocation) w of
                     (Inl e, w) \<Rightarrow> (Inl e, w)
                   | (Inr _, w) \<Rightarrow> (Inr receipt, w))
                else (Inr receipt, w))))))"

end
