(* ===== verification/External_Properties.thy ===== *)
theory External_Properties
  imports External_Review Inbox_Properties Rule_Properties
begin

text \<open>
  What a caller from outside may rely on: a request id stands for one review request and one receipt, and
  in a validated list of projects a reference names at most one project.
\<close>

section \<open>Frames\<close>

lemma create_for_receipt_inbox:
  "create_or_get_for_receipt_tx receipt new d = Inr (x, d') \<Longrightarrow> db_inbox d' = db_inbox d"
  by (auto simp: create_or_get_for_receipt_tx_def wf_insert_def receipt_link_def try_bind_Inr_iff map_error_Inr_iff
      Let_def split: option.splits if_splits prod.splits)

lemma start_receipt_notify_inbox [simp]:
  "db_inbox (w_db (snd (start_receipt_notify digest receipt reference pr_number key w))) = db_inbox (w_db w)"
proof -
  have "db_inbox (snd (create_or_get_for_receipt r new d)) = db_inbox d" for r new d
    unfolding create_or_get_for_receipt_def
    by (rule with_tx_inv [where P = "\<lambda>d'. db_inbox d' = db_inbox d"]) (auto dest: create_for_receipt_inbox)
  then show ?thesis
    by (auto simp: start_receipt_notify_def ensure_receipt_notify_def split_beta Let_def wake_workflow_def
        wf_announce_updated_def split: sum.split option.split)
qed

lemma wake_inbox_db [simp]: "w_db (wake_inbox w) = w_db w"
  by (simp add: wake_inbox_def)

section \<open>The row behind a receipt\<close>

text \<open>The row of a request: its key, and an event of the same project that asks for the request.\<close>

definition same_place :: "event_envelope \<Rightarrow> event_envelope \<Rightarrow> bool" where
  "same_place a b \<longleftrightarrow> env_source a = env_source b \<and> env_project_id a = env_project_id b \<and> env_repo a = env_repo b"

definition request_row :: "inbox_row \<Rightarrow> string \<Rightarrow> event_envelope \<Rightarrow> review_request \<Rightarrow> bool" where
  "request_row r rid event request \<longleftrightarrow> ib_dedupe_key r = ''external:'' @ rid \<and>
     (\<exists>e q. from_json (ib_event_json r) = Inr e \<and> same_place e event \<and> as_review_request e = Some q \<and> same_request q request)"

lemma request_row_unique:
  "request_row r rid event request \<Longrightarrow> request_row r rid event' request' \<Longrightarrow>
    same_place event' event \<and> same_request request' request"
  by (auto simp: request_row_def same_request_def same_place_def)

lemma inbox_key_eq:
  assumes "inbox_ok d" and "r \<in> set (tb_rows (db_inbox d))" and "s \<in> set (tb_rows (db_inbox d))"
    and "ib_dedupe_key r = ib_dedupe_key s"
  shows "r = s"
  using assms unique_index_eq [of inbox_key "tb_rows (db_inbox d)" r s "ib_dedupe_key r"]
  by (simp add: inbox_ok_def inbox_key_def)

lemma receipt_forE:
  assumes "receipt_for event w = (Inr i, w')" and "inbox_ok (w_db w)" and "as_review_request event = Some request"
    and "env_dedupe_key event = ''external:'' @ rid"
  shows "\<exists>r. by_id ib_id i (db_inbox (w_db w')) = Some r \<and> request_row r rid event request" and "inbox_ok (w_db w')"
proof -
  obtain res d' where tx: "insert_dedup_tx event ''external-review-request'' None None (w_db w) = Inr (res, d')"
    and w': "w_db w' = d'" and res: "res = Some i \<or> (res = None \<and>
      (\<exists>entry. id_by_dedupe_key (env_dedupe_key event) d' = Inr (Some i) \<and> inbox_get_entry i d' = Inr (Some entry) \<and>
         ensure_same_external_review_request (ie_event entry) event = Inr ()))"
  proof (cases "insert_dedup_tx event ''external-review-request'' None None (w_db w)")
    case (Inl e)
    with assms(1) show ?thesis by (simp add: receipt_for_def on_db_def insert_dedup_def with_tx_def)
  next
    case (Inr p)
    then obtain res d' where tx: "insert_dedup_tx event ''external-review-request'' None None (w_db w) = Inr (res, d')"
      by (cases p) auto
    show ?thesis
    proof (rule that [OF tx])
      show "w_db w' = d'" using assms(1) tx
        by (cases res) (auto simp: receipt_for_def on_db_def insert_dedup_def with_tx_def)
      show "res = Some i \<or> (res = None \<and>
      (\<exists>entry. id_by_dedupe_key (env_dedupe_key event) d' = Inr (Some i) \<and> inbox_get_entry i d' = Inr (Some entry) \<and>
         ensure_same_external_review_request (ie_event entry) event = Inr ()))"
        using assms(1) tx
        by (cases res) (auto simp: receipt_for_def on_db_def insert_dedup_def with_tx_def try_bind_Inr_iff ok_or_Inr_iff)
    qed
  qed
  from insert_dedup_tx_ok [OF assms(2) tx] show ok: "inbox_ok (w_db w')" by (simp add: w')
  from res show "\<exists>r. by_id ib_id i (db_inbox (w_db w')) = Some r \<and> request_row r rid event request"
  proof (elim disjE conjE exE)
    assume "res = Some i"
    from insert_dedup_inserted(1) [OF assms(2) tx [unfolded this]]
    have r: "inbox_insert_row event ''external-review-request'' None None i \<in> set (tb_rows (db_inbox (w_db w')))"
      by (simp add: w')
    moreover have "ib_id (inbox_insert_row event ''external-review-request'' None None i) = i" by simp
    ultimately have "by_id ib_id i (db_inbox (w_db w')) = Some (inbox_insert_row event ''external-review-request'' None None i)"
      using ok tbl_ok_distinct by (subst by_id_eq_Some_iff) (auto simp: inbox_ok_def)
    moreover have "request_row (inbox_insert_row event ''external-review-request'' None None i) rid event request"
      using assms(3,4) by (simp add: request_row_def inbox_insert_row_def same_request_def same_place_def)
    ultimately show ?thesis by blast
  next
    fix entry
    assume i: "id_by_dedupe_key (env_dedupe_key event) d' = Inr (Some i)"
      and g: "inbox_get_entry i d' = Inr (Some entry)"
      and same: "ensure_same_external_review_request (ie_event entry) event = Inr ()"
    from g obtain r where r: "by_id ib_id i (db_inbox d') = Some r" "envelope_deserialize (ib_event_json r) = Inr (ie_event entry)"
      by (auto simp: inbox_get_entry_def try_bind_Inr_iff map_error_Inr_iff entry_of_row_def split: option.splits)
    from i obtain s where s: "s \<in> set (tb_rows (db_inbox d'))" "ib_dedupe_key s = env_dedupe_key event" "ib_id s = i"
      by (auto simp: id_by_dedupe_key_def dest: find_SomeD)
    have "r = s" using by_id_Some_in [OF r(1)] s ok tbl_ok_id_eq [of ib_id "db_inbox d'" r s] by (simp add: inbox_ok_def w')
    with s have "ib_dedupe_key r = ''external:'' @ rid" using assms(4) by simp
    moreover from same assms(3) obtain q where "as_review_request (ie_event entry) = Some q" "same_request q request"
      "same_place (ie_event entry) event"
      by (auto simp: ensure_same_external_review_request_def same_place_def Let_def split: option.splits if_splits)
    ultimately have "request_row r rid event request"
      using envelope_deserialize_ok [OF r(2)] by (auto simp: request_row_def)
    with r(1) show ?thesis by (auto simp: w')
  qed
qed

lemma receipt_for_known:
  assumes "receipt_for event w = (x, w')"
    and "\<exists>s \<in> set (tb_rows (db_inbox (w_db w))). ib_dedupe_key s = env_dedupe_key event"
  shows "tb_rows (db_inbox (w_db w')) = tb_rows (db_inbox (w_db w))"
proof (cases "insert_dedup_tx event ''external-review-request'' None None (w_db w)")
  case (Inl e)
  with assms(1) show ?thesis by (auto simp: receipt_for_def on_db_def insert_dedup_def with_tx_def)
next
  case (Inr p)
  then obtain res d' where tx: "insert_dedup_tx event ''external-review-request'' None None (w_db w) = Inr (res, d')"
    by (cases p) auto
  then have "w_db w' = d'" using assms(1)
    by (cases res) (auto simp: receipt_for_def on_db_def insert_dedup_def with_tx_def)
  with tx assms(2) show ?thesis by (cases rule: insert_dedup_txE) auto
qed

text \<open>A submission, taken apart.\<close>

lemma submit_reviewE:
  assumes "submit_review env load reference n args rid origin notify w = (r, w')"
  obtains (rejected) e where "r = Inl e" "db_inbox (w_db w') = db_inbox (w_db w)"
  | (stored) project event request x w2 where "project_by_ref_validated (se_is_dir env) load reference = Inr project"
      "env_project_id event = prj_id project" "env_repo event = prj_repo project" "env_source event = prj_source_kind project"
      "receipt_for event (snd (now_epoch w)) = (x, w2)"
      "as_review_request event = Some request" "env_dedupe_key event = ''external:'' @ rid"
      "req_pr_number request = n" "req_extra_args request = args" "req_request_id request = rid"
      "req_origin request = origin" "req_notify_on_completion request = notify"
      "db_inbox (w_db w') = db_inbox (w_db w2)" "\<And>i. r = Inr i \<Longrightarrow> x = Inr i"
proof (cases "prepare_submit env load reference n args")
  case (Inl e)
  with assms show ?thesis by (intro rejected [of e]) (simp_all add: submit_review_def)
next
  case (Inr p)
  obtain project inv where p: "p = (project, inv)" by (cases p)
  show ?thesis
  proof (cases "submitted_event project n args rid origin notify (fst (now_epoch w))")
    case (Inl e)
    with assms Inr p show ?thesis by (intro rejected [of e]) (auto simp: submit_review_def split_beta Let_def)
  next
    case event: (Inr event)
    obtain x w2 where x: "receipt_for event (snd (now_epoch w)) = (x, w2)" by fastforce
    from Inr p have place: "project_by_ref_validated (se_is_dir env) load reference = Inr project"
      by (auto simp: prepare_submit_def try_bind_Inr_iff)
    from event obtain request where rq: "env_project_id event = prj_id project" "env_repo event = prj_repo project"
      "env_source event = prj_source_kind project" "as_review_request event = Some request" "env_dedupe_key event = ''external:'' @ rid"
      "req_pr_number request = n" "req_extra_args request = args" "req_request_id request = rid"
      "req_origin request = origin" "req_notify_on_completion request = notify"
      by (auto simp: submitted_event_def try_bind_Inr_iff map_error_Inr_iff new_key_Inr_iff
          envelope_review_request_def envelope_new_Inr_iff as_review_request_def split: if_splits)
    have "db_inbox (w_db w') = db_inbox (w_db w2) \<and> (\<forall>i. r = Inr i \<longrightarrow> x = Inr i)"
    proof (cases x)
      case (Inl e)
      with assms Inr p event x show ?thesis by (auto simp: submit_review_def split_beta Let_def)
    next
      case i: (Inr i)
      obtain y w3 where y: "start_receipt_notify (se_digest env) i reference n (inv_skill_key inv) (wake_inbox w2) = (y, w3)"
        by fastforce
      with start_receipt_notify_inbox [of "se_digest env" i reference n "inv_skill_key inv" "wake_inbox w2"]
      have "db_inbox (w_db w3) = db_inbox (w_db w2)" by simp
      with assms Inr p event x i y show ?thesis
        by (cases y) (auto simp: submit_review_def split_beta Let_def review_receipt_id_new_def split: if_splits)
    qed
    with x rq place show ?thesis by (intro stored [of project event x w2 request]) auto
  qed
qed

text \<open>
  C32. A request id stands for one review request and one receipt: after a request was accepted, whatever
  happens to its row's status, submitting anything under the same request id, under any configuration, adds
  no row to the inbox, and if it is accepted then it asks for the same pull request of the same project,
  repository and source, with the same arguments, origin and notice, and the answer is the receipt of the
  first submission.
\<close>

theorem request_id_idempotent:
  assumes "submit_review env load reference n args rid origin notify w = (Inr receipt, w1)" and "inbox_ok (w_db w)"
    and "by_id ib_id receipt (db_inbox (w_db w1)) = Some row1" and "by_id ib_id receipt (db_inbox (w_db w2)) = Some row2"
    and "ib_dedupe_key row2 = ib_dedupe_key row1" and "ib_event_json row2 = ib_event_json row1"
    and "inbox_ok (w_db w2)"
    and "submit_review env' load' reference' n' args' rid origin' notify' w2 = (r, w3)"
  shows "tb_rows (db_inbox (w_db w3)) = tb_rows (db_inbox (w_db w2)) \<and>
    (\<forall>receipt'. r = Inr receipt' \<longrightarrow>
       receipt' = receipt \<and> n' = n \<and> args' = args \<and> origin' = origin \<and> notify' = notify \<and>
       (\<exists>project project'. project_by_ref_validated (se_is_dir env) load reference = Inr project \<and>
          project_by_ref_validated (se_is_dir env') load' reference' = Inr project' \<and>
          prj_id project' = prj_id project \<and> prj_repo project' = prj_repo project \<and>
          prj_source_kind project' = prj_source_kind project))"
proof -
  from assms(1) obtain project event request where row1: "request_row row1 rid event request"
    and rq: "req_pr_number request = n" "req_extra_args request = args" "req_origin request = origin"
      "req_notify_on_completion request = notify"
    and place: "project_by_ref_validated (se_is_dir env) load reference = Inr project" "env_project_id event = prj_id project"
      "env_repo event = prj_repo project" "env_source event = prj_source_kind project"
  proof (cases rule: submit_reviewE)
    case (stored project event request x wa)
    then have "receipt_for event (snd (now_epoch w)) = (Inr receipt, wa)" by simp
    from receipt_forE(1) [OF this _ stored(6,7)] assms(2,3) stored show ?thesis
      by (intro that [of event request project]) auto
  qed simp
  have row2: "request_row row2 rid event request" using row1 assms(5,6) by (simp add: request_row_def)
  from assms(8) show ?thesis
  proof (cases rule: submit_reviewE)
    case (stored project' event' request' x wb)
    have ok: "inbox_ok (w_db (snd (now_epoch w2)))" using assms(7) by simp
    have dup: "\<exists>s \<in> set (tb_rows (db_inbox (w_db (snd (now_epoch w2))))). ib_dedupe_key s = env_dedupe_key event'"
      using by_id_Some_in [OF assms(4)] row2 stored(7) by (auto simp: request_row_def)
    have rows: "tb_rows (db_inbox (w_db w3)) = tb_rows (db_inbox (w_db w2))"
      using receipt_for_known [OF stored(5) dup] stored(13) by simp
    have "receipt' = receipt \<and> n' = n \<and> args' = args \<and> origin' = origin \<and> notify' = notify \<and> same_place event' event"
      if "r = Inr receipt'" for receipt'
    proof -
      from stored(5) stored(14) [OF that] have rf: "receipt_for event' (snd (now_epoch w2)) = (Inr receipt', wb)" by simp
      from receipt_forE [OF rf ok stored(6,7)] obtain s where s: "by_id ib_id receipt' (db_inbox (w_db wb)) = Some s"
        "request_row s rid event' request'" and okb: "inbox_ok (w_db wb)" by blast
      have "row2 \<in> set (tb_rows (db_inbox (w_db wb)))"
        using by_id_Some_in [OF assms(4)] receipt_for_known [OF stored(5) dup] by simp
      moreover have "s \<in> set (tb_rows (db_inbox (w_db wb)))" "ib_id s = receipt'" using by_id_Some_in [OF s(1)] by simp_all
      ultimately have "s = row2"
        using inbox_key_eq [OF okb, of s row2] s(2) row2 by (simp add: request_row_def)
      with s(2) row2 have "same_place event' event \<and> same_request request' request" using request_row_unique by blast
      with \<open>s = row2\<close> \<open>ib_id s = receipt'\<close> by_id_Some_in [OF assms(4)] stored(8-12) rq show ?thesis
        by (auto simp: same_request_def)
    qed
    with rows place stored(1-4) show ?thesis by (simp add: same_place_def)
  qed simp
qed

definition submit_config :: app_config where
  "submit_config = desktop_config\<lparr>cfg_projects := [sample_project]\<rparr>"

definition sample_submit :: "nat \<Rightarrow> world \<Rightarrow> int app_result \<times> world" where
  "sample_submit n = submit_review \<lparr>se_fs = no_files, se_is_dir = (\<lambda>p. True), se_digest = (\<lambda>q. [])\<rparr> (Inr submit_config)
     ''p'' n [] (replicate 32 CHR ''0'') Http False"

lemma sample_project_valid: "validate_project (\<lambda>p. True) sample_project = Inr ()"
proof -
  have "list_all graphic ''o/r''" "list_all graphic ''/r''" by (simp_all add: graphic_def byte_of_def)
  with graphic_no_whitespace graphic_trim show ?thesis
    by (simp add: validate_project_def validate_source_def sample_project_def github_repo_ok_def path_is_absolute_def Let_def)
qed

lemma sample_submit_any:
  assumes "cfg_projects cfg = [sample_project]" and "cfg_rules cfg = cfg_rules submit_config"
  shows "\<exists>w1. submit_review \<lparr>se_fs = no_files, se_is_dir = (\<lambda>p. True), se_digest = (\<lambda>q. [])\<rparr> (Inr cfg)
     ''p'' 7 [] (replicate 32 CHR ''0'') origin False (idle_world empty_db) = (Inr 1, w1) \<and>
    (\<exists>row. by_id ib_id 1 (db_inbox (w_db w1)) = Some row) \<and> inbox_ok (w_db w1)"
proof -
  have "trim (''external:'' @ s) \<noteq> []" for s
    by (rule trim_not_Nil [of "CHR ''e''"]) (simp_all add: is_ascii_alphanumeric_def byte_of_def)
  then have key: "new_key (''external:'' @ s) = Inr (''external:'' @ s)" for s
    by (simp add: new_key_def non_empty_def)
  have p: "trim (prj_id sample_project) \<noteq> []" by (simp add: sample_project_def)
  have "\<exists>event. submitted_event sample_project 7 [] (replicate 32 CHR ''0'') origin False 10 = Inr event"
    unfolding submitted_event_def key using p by (simp add: envelope_review_request_def envelope_new_def)
  then obtain event where event: "submitted_event sample_project 7 [] (replicate 32 CHR ''0'') origin False 10 = Inr event" by blast
  define d1 where "d1 = empty_db\<lparr>db_inbox := \<lparr>tb_rows = [inbox_insert_row event ''external-review-request'' None None 1], tb_seq = 1\<rparr>\<rparr>"
  have ins: "insert_dedup_tx event ''external-review-request'' None None empty_db = Inr (Some 1, d1)"
    by (simp add: insert_dedup_tx_def tbl_next_def empty_db_def empty_table_def i64_max_def tbl_push_def
      prune_ids_def max_inbox_events_def delete_inbox_def sql_delete_def sql_select_def d1_def)
  have id_p: "prj_id sample_project = ''p''" by (simp add: sample_project_def)
  have prep: "prepare_submit \<lparr>se_fs = no_files, se_is_dir = (\<lambda>p. True), se_digest = (\<lambda>q. [])\<rparr> (Inr cfg) ''p'' 7 [] =
      Inr (sample_project, build_invocation ''pr-review'' None ''/pr-review 7'' [])"
    using sample_project_valid sample_invocation id_p assms
    by (simp add: prepare_submit_def project_by_ref_validated_def match_project_ref_def submit_config_def default_config_def)
  show ?thesis
    using event ins insert_dedup_tx_ok [OF inbox_ok_empty ins]
    by (simp add: submit_review_def prep receipt_for_def on_db_def insert_dedup_def idle_world_def
        now_epoch_def review_receipt_id_new_def wake_inbox_def) (simp add: d1_def by_id_def)
qed

lemma sample_submit_ok:
  "\<exists>w1. sample_submit 7 (idle_world empty_db) = (Inr 1, w1) \<and> (\<exists>row. by_id ib_id 1 (db_inbox (w_db w1)) = Some row) \<and> inbox_ok (w_db w1)"
  unfolding sample_submit_def by (rule sample_submit_any) (simp_all add: submit_config_def)

theorem request_id_idempotent_witness:
  "\<exists>w1. sample_submit 7 (idle_world empty_db) = (Inr 1, w1) \<and>
    tb_rows (db_inbox (w_db (snd (sample_submit 8 w1)))) = tb_rows (db_inbox (w_db w1)) \<and>
    (\<forall>receipt. fst (sample_submit 8 w1) \<noteq> Inr receipt)"
proof -
  from sample_submit_ok obtain w1 row where w1: "sample_submit 7 (idle_world empty_db) = (Inr 1, w1)"
    "by_id ib_id 1 (db_inbox (w_db w1)) = Some row" "inbox_ok (w_db w1)" by blast
  have "inbox_ok (w_db (idle_world empty_db))" by (simp add: idle_world_def inbox_ok_empty)
  from request_id_idempotent [OF w1(1) [unfolded sample_submit_def] this w1(2) w1(2) refl refl w1(3)
      prod.collapse [symmetric, of "sample_submit 8 w1", unfolded sample_submit_def]]
  show ?thesis using w1(1) by (auto simp: sample_submit_def)
qed

end
