(* ===== verification/Human_Input.thy ===== *)
theory Human_Input
  imports Outbox_Store
begin

text \<open>
  Questions to a human (\<open>messaging/human_input.rs\<close>): a request waits until it is answered, cancelled or
  expired, whichever statement comes first; the broker hands the settled request to whoever waits for it.
  A \<open>serde_json::Value\<close> stands for its serialised text. The table has a TEXT key, rows are kept in rowid
  order, and rows with equal sort keys are taken in that order.
\<close>

section \<open>Limits and enums\<close>

(* messaging/human_input.rs 22-22 MAX_WAIT_SECONDS *)
definition max_wait_seconds :: nat where "max_wait_seconds = 3600"

(* messaging/human_input.rs 23-23 TERMINAL_RETENTION_SECONDS *)
definition terminal_retention_seconds :: nat where "terminal_retention_seconds = 7 * 24 * 60 * 60"

(* messaging/human_input.rs 24-24 MAX_PENDING_GLOBAL *)
definition max_pending_global :: nat where "max_pending_global = 100"

(* messaging/human_input.rs 25-25 MAX_PENDING_PER_INTEGRATION *)
definition max_pending_per_integration :: nat where "max_pending_per_integration = 50"

(* messaging/human_input.rs 26-26 MAX_PENDING_PER_CONVERSATION *)
definition max_pending_per_conversation :: nat where "max_pending_per_conversation = 10"

(* messaging/human_input.rs 27-27 MAX_MESSAGE_BYTES *)
definition max_message_bytes :: nat where "max_message_bytes = 8 * 1024"
(* messaging/human_input.rs 29-29 MAX_REQUEST_ID_BYTES *)
definition max_request_id_bytes :: nat where "max_request_id_bytes = 96"
(* messaging/human_input.rs 30-30 MAX_INTEGRATION_ID_BYTES *)
definition max_integration_id_bytes :: nat where "max_integration_id_bytes = 128"
(* messaging/human_input.rs 31-31 MAX_CONVERSATION_ID_BYTES *)
definition max_conversation_id_bytes :: nat where "max_conversation_id_bytes = 256"
(* messaging/human_input.rs 32-32 MAX_PURPOSE_BYTES *)
definition max_purpose_bytes :: nat where "max_purpose_bytes = 128"
(* messaging/human_input.rs 33-33 MAX_TITLE_BYTES *)
definition max_title_bytes :: nat where "max_title_bytes = 256"
(* messaging/human_input.rs 34-34 MAX_QUESTION_ID_BYTES *)
definition max_question_id_bytes :: nat where "max_question_id_bytes = 64"
(* messaging/human_input.rs 35-35 MAX_QUESTION_BYTES *)
definition max_question_bytes :: nat where "max_question_bytes = 1024"
(* messaging/human_input.rs 36-36 MAX_OPTIONS *)
definition max_options :: nat where "max_options = 20"
(* messaging/human_input.rs 37-37 MAX_OPTION_BYTES *)
definition max_option_bytes :: nat where "max_option_bytes = 256"
(* messaging/human_input.rs 39-39 MAX_ANSWER_BYTES *)
definition max_answer_bytes :: nat where "max_answer_bytes = 1024"
(* messaging/human_input.rs 40-40 MAX_CONTEXT_BYTES *)
definition max_context_bytes :: nat where "max_context_bytes = 16 * 1024"
(* messaging/human_input.rs 41-41 MAX_TOTAL_PAYLOAD_BYTES *)
definition max_total_payload_bytes :: nat where "max_total_payload_bytes = 32 * 1024"

(* messaging/human_input.rs 47-52 HumanInputStatus *)
datatype human_status = Human_Pending | Human_Answered | Human_Cancelled | Human_Expired

(* messaging/human_input.rs 55-62 HumanInputStatus::as_str *)
fun human_status_as_str :: "human_status \<Rightarrow> string" where
  "human_status_as_str Human_Pending = ''pending''"
| "human_status_as_str Human_Answered = ''answered''"
| "human_status_as_str Human_Cancelled = ''cancelled''"
| "human_status_as_str Human_Expired = ''expired''"

(* messaging/human_input.rs 82-90 HumanInputStatus::from_str *)
definition human_status_from_str :: "string \<Rightarrow> human_status app_result" where
  "human_status_from_str value =
     (if value = ''pending'' then Inr Human_Pending
      else if value = ''answered'' then Inr Human_Answered
      else if value = ''cancelled'' then Inr Human_Cancelled
      else if value = ''expired'' then Inr Human_Expired
      else Inl (AppError (''human input status '' @ (utf8 [0x975E, 0x6CD5] @ '': '') @ value)))"

(* messaging/human_input.rs 94-101 HumanAnswerSource *)
datatype human_source = Src_Feishu | Src_DingTalk | Src_Codex

(* messaging/human_input.rs 104-110 HumanAnswerSource::as_str *)
fun human_source_as_str :: "human_source \<Rightarrow> string" where
  "human_source_as_str Src_Feishu = ''feishu''"
| "human_source_as_str Src_DingTalk = ''dingTalk''"
| "human_source_as_str Src_Codex = ''codex''"

(* messaging/human_input.rs 130-139 HumanAnswerSource::from_str *)
definition human_source_from_str :: "string \<Rightarrow> human_source app_result" where
  "human_source_from_str value =
     (if value = ''feishu'' then Inr Src_Feishu
      else if value = ''dingTalk'' \<or> value = ''ding_talk'' then Inr Src_DingTalk
      else if value = ''codex'' then Inr Src_Codex
      else Inl (AppError (''human input answer source '' @ (utf8 [0x975E, 0x6CD5] @ '': '') @ value)))"

interpretation human_status_codec: strict_wire_enum human_status_as_str "\<lambda>s. ok (human_status_from_str s)"
proof unfold_locales
  show "ok (human_status_from_str (human_status_as_str x)) = Some x" for x
    by (cases x) (simp_all add: human_status_from_str_def)
  show "ok (human_status_from_str s) = Some x \<Longrightarrow> human_status_as_str x = s" for s x
    by (auto simp: human_status_from_str_def split: if_splits)
qed

interpretation human_source_codec: wire_enum human_source_as_str "\<lambda>s. ok (human_source_from_str s)"
proof unfold_locales
  show "ok (human_source_from_str (human_source_as_str x)) = Some x" for x
    by (cases x) (simp_all add: human_source_from_str_def)
qed

(* messaging/human_input.rs 163-179 HumanInputRequest *)
record human_request =
  hir_id :: string
  hir_integration_id :: string
  hir_conversation_id :: string
  hir_purpose :: string
  hir_title :: string
  hir_message :: string
  hir_questions :: "human_question list"
  hir_context :: string
  hir_status :: human_status
  hir_answer :: "human_answer list option"
  hir_answer_source :: "human_source option"
  hir_card_message_id :: "string option"
  hir_created_at :: nat
  hir_expires_at :: nat
  hir_answered_at :: "nat option"

(* messaging/human_input.rs 182-185 AnswerOutcome *)
datatype answer_outcome = Won | AlreadyAnswered "human_source option"

section \<open>The broker\<close>

text \<open>The ids somebody waits for, and the requests delivered to them.\<close>

(* messaging/human_input.rs 188-190 HumanInputBroker *)
record human_broker =
  br_waiters :: "string list"
  br_delivered :: "human_request list"

record human_state =
  hs_db :: db
  hs_broker :: human_broker

(* messaging/human_input.rs 193-199 HumanInputBroker::subscribe *)
definition human_subscribe :: "string \<Rightarrow> human_state \<Rightarrow> human_state" where
  "human_subscribe i s = s\<lparr>hs_broker := (hs_broker s)\<lparr>br_waiters := List.insert i (br_waiters (hs_broker s))\<rparr>\<rparr>"

(* messaging/human_input.rs 201-210 HumanInputBroker::publish *)
definition human_publish :: "human_request \<Rightarrow> human_state \<Rightarrow> human_state" where
  "human_publish r s =
     (let b = hs_broker s in
      if hir_id r \<in> set (br_waiters b)
      then s\<lparr>hs_broker := \<lparr>br_waiters = removeAll (hir_id r) (br_waiters b), br_delivered = br_delivered b @ [r]\<rparr>\<rparr>
      else s)"

(* messaging/human_input.rs 212-217 HumanInputBroker::remove *)
definition human_remove :: "string \<Rightarrow> human_state \<Rightarrow> human_state" where
  "human_remove i s = s\<lparr>hs_broker := (hs_broker s)\<lparr>br_waiters := removeAll i (br_waiters (hs_broker s))\<rparr>\<rparr>"

definition on_hs :: "'a db_op \<Rightarrow> human_state \<Rightarrow> 'a app_result \<times> human_state" where
  "on_hs f s = (let (r, d) = f (hs_db s) in (r, s\<lparr>hs_db := d\<rparr>))"

section \<open>Validation\<close>

(* messaging/human_input.rs 348-358 validate_identifier *)
definition validate_identifier :: "string \<Rightarrow> string \<Rightarrow> nat \<Rightarrow> unit app_result" where
  "validate_identifier label value max_bytes =
     (if value = [] \<or> max_bytes < length value \<or>
         \<not> list_all (\<lambda>b. is_ascii_alphanumeric b \<or> b \<in> set ''-_.:'') value
      then Inl (AppError (label @ ('' '' @ utf8 [0x975E, 0x6CD5]))) else Inr ())"

(* messaging/human_input.rs 360-370 validate_text *)
definition validate_text :: "string \<Rightarrow> string \<Rightarrow> nat \<Rightarrow> bool \<Rightarrow> unit app_result" where
  "validate_text label value max_bytes allow_empty =
     (if (\<not> allow_empty \<and> trim value = []) \<or> max_bytes < length value \<or> char_of (0 :: nat) \<in> set value
      then Inl (AppError (label @ ('' '' @ utf8 [0x975E, 0x6CD5, 0x6216, 0x8D85, 0x8FC7] @ '' '') @ dec max_bytes @ ('' '' @ utf8 [0x5B57, 0x8282, 0x4E0A, 0x9650]))) else Inr ())"

fun validate_options :: "string list \<Rightarrow> string list \<Rightarrow> nat \<Rightarrow> nat app_result" where
  "validate_options [] seen bytes = Inr bytes"
| "validate_options (opt # opts) seen bytes =
     try_bind (validate_text ''option'' opt max_option_bytes False) (\<lambda>_.
     if opt \<in> set seen then Inl (AppError ((utf8 [0x540C, 0x4E00, 0x95EE, 0x9898, 0x7684, 0x9009, 0x9879, 0x5FC5, 0x987B, 0x552F, 0x4E00])))
     else validate_options opts (opt # seen) (sat_add_u64 bytes (length opt)))"

fun validate_questions :: "human_question list \<Rightarrow> string list \<Rightarrow> nat \<Rightarrow> nat app_result" where
  "validate_questions [] seen bytes = Inr bytes"
| "validate_questions (q # qs) seen bytes =
     try_bind (validate_identifier ''question id'' (hq_id q) max_question_id_bytes) (\<lambda>_.
     if hq_id q \<in> set seen then Inl (AppError (''human input question id '' @ (utf8 [0x5FC5, 0x987B, 0x552F, 0x4E00])))
     else
       try_bind (validate_text ''question'' (hq_question q) max_question_bytes False) (\<lambda>_.
       if max_options < length (hq_options q) then
         Inl (AppError ((utf8 [0x6BCF, 0x4E2A, 0x95EE, 0x9898, 0x6700, 0x591A, 0x5305, 0x542B] @ '' '') @ dec max_options @ ('' '' @ utf8 [0x4E2A, 0x9009, 0x9879])))
       else
         try_bind (validate_options (hq_options q) [] bytes) (\<lambda>bytes.
         validate_questions qs (hq_id q # seen)
           (sat_add_u64 (sat_add_u64 bytes (length (hq_id q))) (length (hq_question q))))))"

(* messaging/human_input.rs 269-346 validate_request *)
definition validate_human_request :: "human_request \<Rightarrow> unit app_result" where
  "validate_human_request r =
     (if hir_status r \<noteq> Human_Pending \<or> hir_answer r \<noteq> None \<or> hir_answer_source r \<noteq> None \<or> hir_answered_at r \<noteq> None
      then Inl (AppError ((utf8 [0x65B0, 0x5EFA, 0x4EBA, 0x5DE5, 0x8F93, 0x5165, 0x8BF7, 0x6C42, 0x5FC5, 0x987B, 0x5904, 0x4E8E, 0x7EAF] @ '' pending '' @ utf8 [0x72B6, 0x6001])))
      else
        try_bind (validate_identifier ''request id'' (hir_id r) max_request_id_bytes) (\<lambda>_.
        try_bind (validate_identifier ''integration id'' (hir_integration_id r) max_integration_id_bytes) (\<lambda>_.
        try_bind (validate_identifier ''conversation id'' (hir_conversation_id r) max_conversation_id_bytes) (\<lambda>_.
        try_bind (validate_text ''purpose'' (hir_purpose r) max_purpose_bytes False) (\<lambda>_.
        try_bind (validate_text ''title'' (hir_title r) max_title_bytes False) (\<lambda>_.
        try_bind (validate_text ''message'' (hir_message r) max_message_bytes False) (\<lambda>_.
        if hir_expires_at r < hir_created_at r then Inl (AppError (''expiresAt '' @ (utf8 [0x5FC5, 0x987B, 0x665A, 0x4E8E] @ '' createdAt'')))
        else if \<not> (1 \<le> hir_expires_at r - hir_created_at r \<and> hir_expires_at r - hir_created_at r \<le> max_wait_seconds) then
          Inl (AppError (''timeoutSecs '' @ (utf8 [0x5FC5, 0x987B, 0x5728] @ '' 1-'') @ dec max_wait_seconds @ ('' '' @ utf8 [0x79D2, 0x4E4B, 0x95F4])))
        else if hir_questions r = [] \<or> 3 < length (hir_questions r) then
          Inl (AppError (''questions '' @ (utf8 [0x5FC5, 0x987B, 0x5305, 0x542B] @ '' 1-3 '' @ utf8 [0x4E2A, 0x95EE, 0x9898])))
        else
          try_bind (validate_questions (hir_questions r) []
            (length (hir_purpose r) + length (hir_title r) + length (hir_message r)
              + length (hir_integration_id r) + length (hir_conversation_id r))) (\<lambda>bytes.
          if max_context_bytes < length (hir_context r) then
            Inl (AppError (''context '' @ (utf8 [0x8D85, 0x8FC7] @ '' '') @ dec max_context_bytes @ ('' '' @ utf8 [0x5B57, 0x8282, 0x4E0A, 0x9650])))
          else if max_total_payload_bytes < sat_add_u64 bytes (length (hir_context r)) then
            Inl (AppError ((utf8 [0x4EBA, 0x5DE5, 0x8F93, 0x5165, 0x8BF7, 0x6C42, 0x8D85, 0x8FC7] @ '' '') @ dec max_total_payload_bytes @ ('' '' @ utf8 [0x5B57, 0x8282, 0x603B, 0x4E0A, 0x9650])))
          else Inr ()))))))))"

fun check_question_ids :: "human_question list \<Rightarrow> string list \<Rightarrow> string list app_result" where
  "check_question_ids [] seen = Inr seen"
| "check_question_ids (q # qs) seen =
     (if trim (hq_id q) = [] \<or> trim (hq_id q) \<in> set seen
      then Inl (AppError (''human input question id '' @ (utf8 [0x5FC5, 0x987B, 0x975E, 0x7A7A, 0x4E14, 0x552F, 0x4E00])))
      else check_question_ids qs (trim (hq_id q) # seen))"

fun normalize_answers :: "string list \<Rightarrow> human_answer list \<Rightarrow> string list \<Rightarrow> human_answer list app_result" where
  "normalize_answers ids [] seen = Inr []"
| "normalize_answers ids (a # as) seen =
     (let question_id = trim (ha_question_id a); value = trim (ha_answer a) in
      if question_id = [] \<or> question_id \<in> set seen then Inl (AppError (''answer questionId '' @ (utf8 [0x5FC5, 0x987B, 0x975E, 0x7A7A, 0x4E14, 0x552F, 0x4E00])))
      else if question_id \<notin> set ids then Inl (AppError ((utf8 [0x672A, 0x77E5] @ '' questionId: '') @ question_id))
      else if value = [] then Inl (AppError ((utf8 [0x95EE, 0x9898] @ '' '') @ question_id @ ('' '' @ utf8 [0x7684, 0x7B54, 0x6848, 0x4E0D, 0x80FD, 0x4E3A, 0x7A7A])))
      else if max_answer_bytes < length value \<or> char_of (0 :: nat) \<in> set value then
        Inl (AppError ((utf8 [0x95EE, 0x9898] @ '' '') @ question_id @ ('' '' @ utf8 [0x7684, 0x7B54, 0x6848, 0x975E, 0x6CD5, 0x6216, 0x8D85, 0x8FC7] @ '' '') @ dec max_answer_bytes @ ('' '' @ utf8 [0x5B57, 0x8282, 0x4E0A, 0x9650])))
      else
        try_bind (normalize_answers ids as (question_id # seen)) (\<lambda>rest.
        Inr (\<lparr>ha_question_id = question_id, ha_answer = value\<rparr> # rest)))"

(* messaging/human_input.rs 413-452 validate_answers *)
definition validate_answers :: "human_request \<Rightarrow> human_answer list \<Rightarrow> human_answer list app_result" where
  "validate_answers request answers =
     try_bind (check_question_ids (hir_questions request) []) (\<lambda>ids.
     if length answers \<noteq> length ids then Inl (AppError ((utf8 [0x5FC5, 0x987B, 0x5B8C, 0x6574, 0x56DE, 0x7B54, 0x6BCF, 0x4E00, 0x4E2A, 0x95EE, 0x9898])))
     else normalize_answers ids answers [])"

section \<open>Reading\<close>

definition try_option :: "('a \<Rightarrow> 'e + 'b) \<Rightarrow> 'a option \<Rightarrow> 'e + 'b option" where
  "try_option f v = (case v of None \<Rightarrow> Inr None | Some x \<Rightarrow> try_bind (f x) (\<lambda>y. Inr (Some y)))"

(* messaging/human_input.rs 637-664 RawRequest::into_request *)
definition into_request :: "human_row \<Rightarrow> human_request app_result" where
  "into_request r =
     try_bind (map_error (\<lambda>e. AppError (''questions JSON '' @ (utf8 [0x635F, 0x574F] @ '': '') @ e)) (from_json (hr_questions r))) (\<lambda>questions.
     try_bind (map_error (\<lambda>e. AppError (''context JSON '' @ (utf8 [0x635F, 0x574F] @ '': '') @ e)) (from_json (hr_context r))) (\<lambda>context.
     try_bind (human_status_from_str (hr_status r)) (\<lambda>status.
     try_bind (map_error (\<lambda>e. AppError (''answer JSON '' @ (utf8 [0x635F, 0x574F] @ '': '') @ e)) (try_option from_json (hr_answer r))) (\<lambda>answer.
     try_bind (try_option human_source_from_str (hr_answer_source r)) (\<lambda>source.
     Inr \<lparr>hir_id = hr_id r, hir_integration_id = hr_integration_id r, hir_conversation_id = hr_conversation_id r,
          hir_purpose = hr_purpose r, hir_title = hr_title r, hir_message = hr_message r,
          hir_questions = questions, hir_context = context, hir_status = status, hir_answer = answer,
          hir_answer_source = source, hir_card_message_id = hr_card_message_id r,
          hir_created_at = clamp0 (hr_created_at r), hir_expires_at = clamp0 (hr_expires_at r),
          hir_answered_at = map_option clamp0 (hr_answered_at r)\<rparr>)))))"

(* messaging/human_input.rs 574-580 get *)
definition human_get :: "string \<Rightarrow> db \<Rightarrow> human_request option app_result" where
  "human_get i d = try_option into_request (by_id hr_id i (db_human d))"

definition human_pending :: "human_row \<Rightarrow> bool" where
  "human_pending r \<longleftrightarrow> hr_status r = ''pending''"

(* messaging/human_input.rs 582-596 latest_pending_for_conversation *)
definition latest_pending_for_conversation :: "string \<Rightarrow> string \<Rightarrow> db \<Rightarrow> human_request option app_result" where
  "latest_pending_for_conversation integration_id conversation_id d =
     try_option into_request
       (case sort_key (\<lambda>r. - hr_created_at r) (sql_select (\<lambda>r. hr_integration_id r = integration_id \<and>
               hr_conversation_id r = conversation_id \<and> human_pending r) (db_human d)) of
          [] \<Rightarrow> None | r # _ \<Rightarrow> Some r)"

section \<open>Creating and pruning\<close>

definition prunable_human :: "nat \<Rightarrow> human_row \<Rightarrow> bool" where
  "prunable_human now r \<longleftrightarrow> \<not> human_pending r \<and>
     (case hr_answered_at r of None \<Rightarrow> False | Some t \<Rightarrow> t < as_i64 (now - terminal_retention_seconds))"

(* messaging/human_input.rs 566-572 prune_terminal_conn *)
definition prune_terminal_conn :: "nat \<Rightarrow> nat db_stmt" where
  "prune_terminal_conn now d =
     Inr (sql_changes (prunable_human now) (db_human d),
       d\<lparr>db_human := sql_delete (prunable_human now) (db_human d)\<rparr>)"

(* messaging/human_input.rs 558-560 prune_terminal *)
definition prune_terminal :: "nat \<Rightarrow> nat db_op" where
  "prune_terminal now = with_conn (prune_terminal_conn now)"

definition new_human_row :: "human_request \<Rightarrow> human_row" where
  "new_human_row r =
     \<lparr>hr_id = hir_id r, hr_integration_id = hir_integration_id r, hr_conversation_id = hir_conversation_id r,
      hr_purpose = hir_purpose r, hr_title = hir_title r, hr_message = hir_message r,
      hr_questions = JsonOf (hir_questions r), hr_context = JsonOf (hir_context r), hr_status = ''pending'',
      hr_answer = None, hr_answer_source = None, hr_card_message_id = None,
      hr_created_at = as_i64 (hir_created_at r), hr_expires_at = as_i64 (hir_expires_at r), hr_answered_at = None\<rparr>"

definition human_insert :: "human_request \<Rightarrow> unit db_stmt" where
  "human_insert r d =
     (if list_ex (\<lambda>s. hr_id s = hir_id r) (tb_rows (db_human d))
      then Inl ''UNIQUE constraint failed: human_input_request.id''
      else Inr ((), d\<lparr>db_human := (db_human d)\<lparr>tb_rows := tb_rows (db_human d) @ [new_human_row r]\<rparr>\<rparr>))"

text \<open>The three counts a new request is measured against.\<close>

definition pending_count :: "(human_row \<Rightarrow> bool) \<Rightarrow> db \<Rightarrow> nat" where
  "pending_count p d = sql_changes (\<lambda>r. human_pending r \<and> p r) (db_human d)"

definition in_conversation :: "string \<Rightarrow> string \<Rightarrow> human_row \<Rightarrow> bool" where
  "in_conversation integration_id conversation_id r \<longleftrightarrow>
     hr_integration_id r = integration_id \<and> hr_conversation_id r = conversation_id"

(* messaging/human_input.rs 226-266 create *)
definition human_create_tx :: "human_request \<Rightarrow> unit db_tx" where
  "human_create_tx r d =
     try_bind (map_error map_err (prune_terminal_conn (hir_created_at r) d)) (\<lambda>(_, d).
     if max_pending_global \<le> pending_count (\<lambda>_. True) d then
       Inl (AppError ((utf8 [0x7B49, 0x5F85, 0x4E2D, 0x7684, 0x4EBA, 0x5DE5, 0x8F93, 0x5165, 0x8BF7, 0x6C42, 0x5DF2, 0x8FBE, 0x5230, 0x5168, 0x5C40, 0x4E0A, 0x9650])))
     else if max_pending_per_integration \<le> pending_count (\<lambda>s. hr_integration_id s = hir_integration_id r) d then
       Inl (AppError ((utf8 [0x5F53, 0x524D, 0x96C6, 0x6210, 0x7B49, 0x5F85, 0x4E2D, 0x7684, 0x4EBA, 0x5DE5, 0x8F93, 0x5165, 0x8BF7, 0x6C42, 0x5DF2, 0x8FBE, 0x5230, 0x4E0A, 0x9650])))
     else if max_pending_per_conversation
         \<le> pending_count (in_conversation (hir_integration_id r) (hir_conversation_id r)) d then
       Inl (AppError ((utf8 [0x5F53, 0x524D, 0x96C6, 0x6210] @ ''/'' @ utf8 [0x4F1A, 0x8BDD, 0x7B49, 0x5F85, 0x4E2D, 0x7684, 0x4EBA, 0x5DE5, 0x8F93, 0x5165, 0x8BF7, 0x6C42, 0x5DF2, 0x8FBE, 0x5230, 0x4E0A, 0x9650])))
     else map_error map_err (human_insert r d))"

(* messaging/human_input.rs 220-267 create *)
definition human_create :: "human_request \<Rightarrow> unit db_op" where
  "human_create r d =
     (case validate_human_request r of Inl e \<Rightarrow> (Inl e, d) | Inr _ \<Rightarrow> with_tx (human_create_tx r) d)"

section \<open>Settling\<close>

definition human_update :: "(human_row \<Rightarrow> bool) \<Rightarrow> (human_row \<Rightarrow> human_row) \<Rightarrow> nat db_op" where
  "human_update p f = with_conn (\<lambda>d.
     Inr (sql_changes p (db_human d), d\<lparr>db_human := sql_update p f (db_human d)\<rparr>))"

(* messaging/human_input.rs 372-380 set_card_message_id *)
definition set_card_message_id :: "string \<Rightarrow> string \<Rightarrow> unit db_op" where
  "set_card_message_id i message_id d =
     (let (_, d) = human_update (\<lambda>r. hr_id r = i \<and> human_pending r)
            (\<lambda>r. r\<lparr>hr_card_message_id := Some message_id\<rparr>) d in (Inr (), d))"

definition answered_row :: "human_answer list \<Rightarrow> human_source \<Rightarrow> nat \<Rightarrow> human_row \<Rightarrow> human_row" where
  "answered_row answers source now r =
     r\<lparr>hr_status := ''answered'', hr_answer := Some (JsonOf answers),
       hr_answer_source := Some (human_source_as_str source), hr_answered_at := Some (as_i64 now)\<rparr>"

definition settled_row :: "string \<Rightarrow> nat \<Rightarrow> human_row \<Rightarrow> human_row" where
  "settled_row status now r = r\<lparr>hr_status := status, hr_answered_at := Some (as_i64 now)\<rparr>"

definition human_missing :: "string \<Rightarrow> app_error" where
  "human_missing i = AppError (''human input request '' @ (utf8 [0x4E0D, 0x5B58, 0x5728] @ '': '') @ i)"

(* messaging/human_input.rs 382-411 answer *)
definition human_answer_request ::
    "string \<Rightarrow> human_answer list \<Rightarrow> human_source \<Rightarrow> nat \<Rightarrow> human_state \<Rightarrow> answer_outcome app_result \<times> human_state" where
  "human_answer_request i answers source now s =
     (case try_bind (human_get i (hs_db s)) (\<lambda>found.
           try_bind (ok_or found (human_missing i)) (\<lambda>request. validate_answers request answers)) of
        Inl e \<Rightarrow> (Inl e, s)
      | Inr answers \<Rightarrow>
     (case on_hs (human_update (\<lambda>r. hr_id r = i \<and> human_pending r \<and> as_i64 now \<le> hr_expires_at r)
             (answered_row answers source now)) s of
        (Inl e, s) \<Rightarrow> (Inl e, s)
      | (Inr changed, s) \<Rightarrow>
          (case try_bind (human_get i (hs_db s)) (\<lambda>found. ok_or found (human_missing i)) of
             Inl e \<Rightarrow> (Inl e, s)
           | Inr request \<Rightarrow>
               if changed = 1 then (Inr Won, human_publish request s)
               else (Inr (AlreadyAnswered (hir_answer_source request)), s))))"

text \<open>Settling without an answer: the row is read back and published if the statement changed it.\<close>

definition human_settle ::
    "(human_row \<Rightarrow> bool) \<Rightarrow> string \<Rightarrow> string \<Rightarrow> nat \<Rightarrow> human_state \<Rightarrow> (bool \<times> human_request option) app_result \<times> human_state" where
  "human_settle guard status i now s =
     (case on_hs (human_update (\<lambda>r. hr_id r = i \<and> human_pending r \<and> guard r) (settled_row status now)) s of
        (Inl e, s) \<Rightarrow> (Inl e, s)
      | (Inr changed, s) \<Rightarrow>
          if changed = 1 then
            (case human_get i (hs_db s) of
               Inl e \<Rightarrow> (Inl e, s)
             | Inr None \<Rightarrow> (Inr (True, None), s)
             | Inr (Some request) \<Rightarrow> (Inr (True, Some request), human_publish request s))
          else (Inr (False, None), s))"

(* messaging/human_input.rs 454-467 cancel *)
definition human_cancel :: "string \<Rightarrow> nat \<Rightarrow> human_state \<Rightarrow> bool app_result \<times> human_state" where
  "human_cancel i now s =
     (let (r, s) = human_settle (\<lambda>r. True) ''cancelled'' i now s in (try_bind r (\<lambda>(changed, _). Inr changed), s))"

(* messaging/human_input.rs 469-482 expire *)
definition human_expire :: "string \<Rightarrow> nat \<Rightarrow> human_state \<Rightarrow> bool app_result \<times> human_state" where
  "human_expire i now s =
     (let (r, s) = human_settle (\<lambda>r. True) ''expired'' i now s in (try_bind r (\<lambda>(changed, _). Inr changed), s))"

definition overdue :: "nat \<Rightarrow> human_row \<Rightarrow> bool" where
  "overdue now r \<longleftrightarrow> hr_expires_at r < as_i64 now"

fun expire_loop :: "nat \<Rightarrow> string list \<Rightarrow> human_request list \<Rightarrow> human_state \<Rightarrow> human_request list app_result \<times> human_state" where
  "expire_loop now [] expired s = (Inr expired, s)"
| "expire_loop now (i # ids) expired s =
     (case human_settle (overdue now) ''expired'' i now s of
        (Inl e, s) \<Rightarrow> (Inl e, s)
      | (Inr (_, None), s) \<Rightarrow> expire_loop now ids expired s
      | (Inr (_, Some request), s) \<Rightarrow> expire_loop now ids (expired @ [request]) s)"

(* messaging/human_input.rs 486-516 expire_due *)
definition human_expire_due :: "nat \<Rightarrow> human_state \<Rightarrow> human_request list app_result \<times> human_state" where
  "human_expire_due now s =
     expire_loop now
       (map hr_id (sort_key hr_created_at (sql_select (\<lambda>r. human_pending r \<and> overdue now r) (db_human (hs_db s))))) [] s"

fun reconcile_loop :: "nat \<Rightarrow> human_row list \<Rightarrow> human_request list \<Rightarrow> human_state \<Rightarrow> human_request list app_result \<times> human_state" where
  "reconcile_loop now [] reconciled s = (Inr reconciled, s)"
| "reconcile_loop now (row # rows) reconciled s =
     (case into_request row of
        Inl e \<Rightarrow> (Inl e, s)
      | Inr request \<Rightarrow>
          (let request = request\<lparr>hir_status := Human_Cancelled, hir_answered_at := Some now\<rparr> in
           reconcile_loop now rows (reconciled @ [request]) (human_publish request s)))"

(* messaging/human_input.rs 521-556 reconcile_startup_orphans *)
definition reconcile_startup_orphans :: "nat \<Rightarrow> human_state \<Rightarrow> human_request list app_result \<times> human_state" where
  "reconcile_startup_orphans now s =
     (let rows = sort_key hr_created_at (sql_select human_pending (db_human (hs_db s)));
          (_, s) = on_hs (human_update human_pending (settled_row ''cancelled'' now)) s
      in reconcile_loop now rows [] s)"

end
