(* ===== verification/Human_Properties.thy ===== *)
theory Human_Properties
  imports Human_Input
begin

text \<open>
  Requests for human input: what is stored is read back, the quotas hold in every reachable state, and a
  request is settled once, whoever comes first. Every settling statement is guarded by the pending status,
  so that together they are a \<open>cas_family\<close>.
\<close>

section \<open>The table\<close>

definition human_ok :: "db \<Rightarrow> bool" where
  "human_ok d \<longleftrightarrow> distinct (map hr_id (tb_rows (db_human d)))"

abbreviation human_row_of :: "db \<Rightarrow> string \<Rightarrow> human_row option" where
  "human_row_of d i \<equiv> by_id hr_id i (db_human d)"

text \<open>The settling commands of one request, with their guards.\<close>

datatype settle_command =
  Settle_Answer "human_answer list" human_source nat | Settle_Cancel nat | Settle_Expire nat | Settle_Overdue nat

fun settle_guard :: "settle_command \<Rightarrow> human_row \<Rightarrow> bool" where
  "settle_guard (Settle_Answer answers source now) r = (human_pending r \<and> as_i64 now \<le> hr_expires_at r)"
| "settle_guard (Settle_Cancel now) r = (human_pending r \<and> True)"
| "settle_guard (Settle_Expire now) r = (human_pending r \<and> True)"
| "settle_guard (Settle_Overdue now) r = (human_pending r \<and> overdue now r)"

fun settle_act :: "settle_command \<Rightarrow> human_row \<Rightarrow> human_row" where
  "settle_act (Settle_Answer answers source now) = answered_row answers source now"
| "settle_act (Settle_Cancel now) = settled_row ''cancelled'' now"
| "settle_act (Settle_Expire now) = settled_row ''expired'' now"
| "settle_act (Settle_Overdue now) = settled_row ''expired'' now"

lemma settle_act_sel [simp]:
  "hr_id (settle_act c r) = hr_id r" "\<not> human_pending (settle_act c r)"
  "hr_integration_id (settle_act c r) = hr_integration_id r"
  "hr_conversation_id (settle_act c r) = hr_conversation_id r"
  by (cases c; simp add: answered_row_def settled_row_def human_pending_def)+

lemma settle_guard_pending: "settle_guard c r \<Longrightarrow> human_pending r"
  by (cases c) simp_all

interpretation human_settle: cas_family hr_id settle_guard settle_act
  by unfold_locales (auto dest: settle_guard_pending)

text \<open>
  The updates of the table: they keep the identity of a row, where it belongs and whatever is settled, and
  never make a row pending.
\<close>

definition benign :: "(human_row \<Rightarrow> human_row) \<Rightarrow> bool" where
  "benign f \<longleftrightarrow> (\<forall>r. hr_id (f r) = hr_id r \<and> hr_integration_id (f r) = hr_integration_id r \<and>
     hr_conversation_id (f r) = hr_conversation_id r)"

lemma benign_acts [simp]:
  "benign (settle_act c)" "benign (answered_row answers source now)" "benign (settled_row status now)"
  "benign (\<lambda>r. r\<lparr>hr_card_message_id := m\<rparr>)"
  by (simp_all add: benign_def answered_row_def settled_row_def)

text \<open>
  One step of the table: pending rows updated, settled rows deleted, or a new row within the quotas, with an
  id of the given set.
\<close>

definition within_quota :: "human_row \<Rightarrow> db \<Rightarrow> bool" where
  "within_quota r d \<longleftrightarrow>
     pending_count (\<lambda>_. True) d < max_pending_global \<and>
     pending_count (\<lambda>s. hr_integration_id s = hr_integration_id r) d < max_pending_per_integration \<and>
     pending_count (in_conversation (hr_integration_id r) (hr_conversation_id r)) d < max_pending_per_conversation"

inductive human_step :: "string set \<Rightarrow> db \<Rightarrow> db \<Rightarrow> bool" for ids where
  update: "(\<And>r. p r \<Longrightarrow> human_pending r) \<Longrightarrow> benign f \<Longrightarrow> human_step ids d (d\<lparr>db_human := sql_update p f (db_human d)\<rparr>)"
| delete: "(\<And>r. p r \<Longrightarrow> \<not> human_pending r) \<Longrightarrow> human_step ids d (d\<lparr>db_human := sql_delete p (db_human d)\<rparr>)"
| insert: "hr_id r \<in> ids \<Longrightarrow> human_row_of d (hr_id r) = None \<Longrightarrow> within_quota r d \<Longrightarrow>
    human_step ids d (d\<lparr>db_human := (db_human d)\<lparr>tb_rows := tb_rows (db_human d) @ [r]\<rparr>\<rparr>)"

inductive_cases human_stepE: "human_step ids d d'"

abbreviation human_steps :: "string set \<Rightarrow> db \<Rightarrow> db \<Rightarrow> bool" where
  "human_steps ids \<equiv> (human_step ids)\<^sup>*\<^sup>*"

section \<open>The operations take steps\<close>

lemma human_update_eq: "human_update p f d =
    (Inr (sql_changes p (db_human d)), d\<lparr>db_human := sql_update p f (db_human d)\<rparr>)"
  by (simp add: human_update_def)

lemma on_hs_update: "on_hs (human_update p f) s =
    (Inr (sql_changes p (db_human (hs_db s))), s\<lparr>hs_db := (hs_db s)\<lparr>db_human := sql_update p f (db_human (hs_db s))\<rparr>\<rparr>)"
  by (simp add: on_hs_def human_update_eq)

lemma human_publish_db [simp]: "hs_db (human_publish r s) = hs_db s"
  by (simp add: human_publish_def Let_def)

lemma update_step: "(\<And>r. p r \<Longrightarrow> human_pending r) \<Longrightarrow> benign f \<Longrightarrow>
    human_steps X (hs_db s) (hs_db (snd (on_hs (human_update p f) s)))"
  by (auto simp: on_hs_update intro!: r_into_rtranclp human_step.update)

lemma human_settle_steps: "human_steps X (hs_db s) (hs_db (snd (human_settle g st i now s)))"
  using update_step [of "\<lambda>r. hr_id r = i \<and> human_pending r \<and> g r" "settled_row st now" X s]
  by (auto simp: human_settle_def on_hs_update split: sum.split option.split)

lemma human_cancel_steps: "human_steps X (hs_db s) (hs_db (snd (human_cancel i now s)))"
  and human_expire_steps: "human_steps X (hs_db s) (hs_db (snd (human_expire i now s)))"
  using human_settle_steps [of X s "\<lambda>r. True" _ i now] by (simp_all add: human_cancel_def human_expire_def split_beta)

lemma human_answer_steps: "human_steps X (hs_db s) (hs_db (snd (human_answer_request i answers source now s)))"
proof (cases "try_bind (human_get i (hs_db s)) (\<lambda>found. try_bind (ok_or found (human_missing i)) (\<lambda>request. validate_answers request answers))")
  case (Inr as)
  with update_step [of "\<lambda>r. hr_id r = i \<and> human_pending r \<and> as_i64 now \<le> hr_expires_at r" "answered_row as source now" X s]
  show ?thesis by (auto simp: human_answer_request_def on_hs_update split: sum.split)
qed (simp add: human_answer_request_def)

lemma expire_loop_steps: "human_steps X (hs_db s) (hs_db (snd (expire_loop now ids expired s)))"
proof (induction ids arbitrary: expired s)
  case (Cons i ids)
  obtain r s1 where s1: "human_settle (overdue now) ''expired'' i now s = (r, s1)" by fastforce
  with human_settle_steps [of X s "overdue now" "''expired''" i now] have "human_steps X (hs_db s) (hs_db s1)" by simp
  with Cons.IH [where s = s1] show ?case
    by (auto simp: s1 split: sum.split prod.split option.split intro: rtranclp_trans)
qed simp

lemma human_expire_due_steps: "human_steps X (hs_db s) (hs_db (snd (human_expire_due now s)))"
  unfolding human_expire_due_def by (rule expire_loop_steps)

lemma reconcile_loop_db [simp]: "hs_db (snd (reconcile_loop now rows rec s)) = hs_db s"
  by (induction rows arbitrary: rec s) (auto simp: Let_def split: sum.split)

lemma reconcile_steps: "human_steps X (hs_db s) (hs_db (snd (reconcile_startup_orphans now s)))"
  using update_step [of human_pending "settled_row ''cancelled'' now" X s]
  by (simp add: reconcile_startup_orphans_def on_hs_update)

lemma set_card_steps: "human_steps X d (snd (set_card_message_id i m d))"
  by (auto simp: set_card_message_id_def human_update_eq intro!: r_into_rtranclp human_step.update)

lemma prune_steps: "human_steps X d (snd (prune_terminal now d))"
  by (auto simp: prune_terminal_def prune_terminal_conn_def prunable_human_def
      intro!: r_into_rtranclp human_step.delete)

lemma human_create_steps:
  assumes "hir_id r \<in> X"
  shows "human_steps X d (snd (human_create r d))"
proof (cases "validate_human_request r")
  case (Inr u)
  let ?d = "d\<lparr>db_human := sql_delete (prunable_human (hir_created_at r)) (db_human d)\<rparr>"
  have del: "human_step X d ?d" by (rule human_step.delete) (simp add: prunable_human_def)
  have "human_steps X d (snd (with_tx (human_create_tx r) d))"
  proof (rule with_tx_inv [where P = "human_steps X d"])
    fix x d'
    assume "human_create_tx r d = Inr (x, d')"
    then have q: "within_quota (new_human_row r) ?d" and ins: "human_insert r ?d = Inr (x, d')"
      by (auto simp: human_create_tx_def prune_terminal_conn_def within_quota_def map_error_Inr_iff new_human_row_def split: if_splits)
    from ins have none: "human_row_of ?d (hr_id (new_human_row r)) = None"
      and d': "d' = ?d\<lparr>db_human := (db_human ?d)\<lparr>tb_rows := tb_rows (db_human ?d) @ [new_human_row r]\<rparr>\<rparr>"
      by (auto simp: human_insert_def list_ex_iff by_id_None_iff new_human_row_def split: if_splits)
    have "hr_id (new_human_row r) \<in> X" using assms by (simp add: new_human_row_def)
    from human_step.insert [OF this none q] del show "human_steps X d d'" by (simp add: d')
  qed simp
  with Inr show ?thesis by (simp add: human_create_def)
qed (simp add: human_create_def)

section \<open>Invariants of a step\<close>

definition quotas_hold :: "db \<Rightarrow> bool" where
  "quotas_hold d \<longleftrightarrow>
     pending_count (\<lambda>_. True) d \<le> max_pending_global \<and>
     (\<forall>i. pending_count (\<lambda>s. hr_integration_id s = i) d \<le> max_pending_per_integration) \<and>
     (\<forall>i c. pending_count (in_conversation i c) d \<le> max_pending_per_conversation)"

lemma human_ok_step: "human_step ids d d' \<Longrightarrow> human_ok d \<Longrightarrow> human_ok d'"
proof (induction rule: human_step.induct)
  case (update p f d)
  then show ?case using map_rid_update [of hr_id f p "db_human d"] by (simp add: human_ok_def benign_def)
next
  case (insert r d)
  then show ?case by (auto simp: human_ok_def by_id_None_iff)
qed (auto simp: human_ok_def table_simps distinct_map inj_on_def)

lemma pending_count_update:
  assumes "benign f" and "\<And>r. p r \<Longrightarrow> human_pending r"
    and q: "\<And>r s. hr_integration_id s = hr_integration_id r \<Longrightarrow> hr_conversation_id s = hr_conversation_id r \<Longrightarrow> q s = q r"
  shows "pending_count q (d\<lparr>db_human := sql_update p f (db_human d)\<rparr>) \<le> pending_count q d"
proof -
  have qf: "q (f r) = q r" for r using assms(1) by (intro q) (simp_all add: benign_def)
  have "length (filter (\<lambda>r. human_pending r \<and> q r) (map (\<lambda>r. if p r then f r else r) rs)) \<le>
      length (filter (\<lambda>r. human_pending r \<and> q r) rs)" for rs
    by (induction rs) (auto simp: qf assms(2))
  then show ?thesis by (simp add: pending_count_def sql_changes_def table_simps)
qed

lemma pending_count_delete:
  "pending_count q (d\<lparr>db_human := sql_delete p (db_human d)\<rparr>) \<le> pending_count q d"
proof -
  have "length (filter r (filter s xs)) \<le> length (filter r xs)" for r s and xs :: "human_row list"
    by (induction xs) auto
  then show ?thesis by (simp add: pending_count_def sql_changes_def table_simps)
qed

lemma pending_count_insert:
  "pending_count q (d\<lparr>db_human := (db_human d)\<lparr>tb_rows := tb_rows (db_human d) @ [r]\<rparr>\<rparr>) \<le>
     pending_count q d + (if q r then 1 else 0)"
  by (simp add: pending_count_def sql_changes_def)

lemma quotas_hold_step: "human_step ids d d' \<Longrightarrow> quotas_hold d \<Longrightarrow> quotas_hold d'"
proof (induction rule: human_step.induct)
  case (update p f d)
  then show ?case
    unfolding quotas_hold_def
    by (intro conjI allI; intro order_trans [OF pending_count_update]) (auto simp: in_conversation_def)
next
  case (delete p d)
  then show ?case
    unfolding quotas_hold_def by (intro conjI allI; intro order_trans [OF pending_count_delete]) auto
next
  case (insert r d)
  have "pending_count (\<lambda>s. hr_integration_id s = i) d + (if hr_integration_id r = i then 1 else 0) \<le> max_pending_per_integration"
    and "pending_count (in_conversation i c) d + (if in_conversation i c r then 1 else 0) \<le> max_pending_per_conversation"
    for i c
    using insert by (auto simp: quotas_hold_def within_quota_def in_conversation_def)
  moreover have "pending_count (\<lambda>_. True) d + 1 \<le> max_pending_global" using insert by (simp add: within_quota_def)
  ultimately show ?case
    unfolding quotas_hold_def
    by (intro conjI allI; intro order_trans [OF pending_count_insert]) simp_all
qed

text \<open>A settled row stays as it is or is deleted, and its id is not taken again.\<close>

lemma settled_step:
  assumes "human_step ids d d'" and "human_ok d" and "i \<notin> ids"
    and "\<And>s. human_row_of d i = Some s \<Longrightarrow> s = r" and "\<not> human_pending r"
  shows "human_row_of d' i = Some s \<Longrightarrow> s = r"
  using assms
proof (induction rule: human_step.induct)
  case (update p f d)
  then obtain t where "human_row_of d i = Some t" "s = (if p t then f t else t)"
    by (auto simp: benign_def by_id_update)
  with update show ?case by auto
next
  case (delete p d)
  then have "s \<in> set (tb_rows (db_human d))" "hr_id s = i" by (auto simp: table_simps dest!: by_id_Some_in)
  with delete show ?case by (simp add: human_ok_def by_id_eq_Some_iff)
next
  case (insert u d)
  have "find q (xs @ [x]) = Some s \<Longrightarrow> \<not> q x \<Longrightarrow> find q xs = Some s" for q x and xs :: "human_row list"
    by (induction xs) (auto split: if_splits)
  with insert have "human_row_of d i = Some s" by (auto simp: by_id_def)
  with insert show ?case by simp
qed

lemma human_ok_steps: "human_steps ids d d' \<Longrightarrow> human_ok d \<Longrightarrow> human_ok d'"
  by (induction rule: rtranclp_induct) (auto intro: human_ok_step)

lemma quotas_hold_steps: "human_steps ids d d' \<Longrightarrow> quotas_hold d \<Longrightarrow> quotas_hold d'"
  by (induction rule: rtranclp_induct) (auto intro: quotas_hold_step)

lemma settled_steps:
  assumes "human_steps ids d d'" and "human_ok d" and "i \<notin> ids" and "human_row_of d i = Some r" and "\<not> human_pending r"
  shows "human_row_of d' i = Some s \<Longrightarrow> s = r"
  using assms(1)
proof (induction arbitrary: s rule: rtranclp_induct)
  case base
  with assms(4) show ?case by simp
next
  case (step e f)
  from settled_step [OF step.hyps(2) human_ok_steps [OF step.hyps(1) assms(2)] assms(3) step.IH assms(5) step.prems]
  show ?case .
qed

section \<open>Histories\<close>

text \<open>The operations in any order; new requests take their ids from the given set.\<close>

inductive human_run :: "string set \<Rightarrow> human_state \<Rightarrow> human_state \<Rightarrow> bool" for ids where
  stop: "human_run ids s s"
| create: "human_run ids s t \<Longrightarrow> hir_id r \<in> ids \<Longrightarrow> human_run ids s (snd (on_hs (human_create r) t))"
| answer: "human_run ids s t \<Longrightarrow> human_run ids s (snd (human_answer_request i answers source now t))"
| cancel: "human_run ids s t \<Longrightarrow> human_run ids s (snd (human_cancel i now t))"
| expire: "human_run ids s t \<Longrightarrow> human_run ids s (snd (human_expire i now t))"
| expire_due: "human_run ids s t \<Longrightarrow> human_run ids s (snd (human_expire_due now t))"
| reconcile: "human_run ids s t \<Longrightarrow> human_run ids s (snd (reconcile_startup_orphans now t))"
| card: "human_run ids s t \<Longrightarrow> human_run ids s (snd (on_hs (set_card_message_id i m) t))"
| prune: "human_run ids s t \<Longrightarrow> human_run ids s (snd (on_hs (prune_terminal now) t))"
| other: "human_run ids s t \<Longrightarrow> db_human (hs_db u) = db_human (hs_db t) \<Longrightarrow> human_run ids s u"

lemma on_hs_db [simp]: "hs_db (snd (on_hs f s)) = snd (f (hs_db s))"
  by (simp add: on_hs_def split_beta)

text \<open>The facts of a step carry over to histories, which may change other tables too.\<close>

lemma human_run_inv:
  assumes "human_run ids s t" and "P (hs_db s)"
    and step: "\<And>d d'. human_step ids d d' \<Longrightarrow> P d \<Longrightarrow> P d'"
    and cong: "\<And>d d'. db_human d' = db_human d \<Longrightarrow> P d \<Longrightarrow> P d'"
  shows "P (hs_db t)"
proof -
  have steps: "human_steps ids d d' \<Longrightarrow> P d \<Longrightarrow> P d'" for d d'
    by (induction rule: rtranclp_induct) (auto intro: step)
  from assms(1,2) show ?thesis
  proof (induction rule: human_run.induct)
    case (other s t u)
    then show ?case using cong by blast
  qed (auto intro: steps [OF human_create_steps] steps [OF human_answer_steps] steps [OF human_cancel_steps]
      steps [OF human_expire_steps] steps [OF human_expire_due_steps] steps [OF reconcile_steps]
      steps [OF set_card_steps] steps [OF prune_steps])
qed

section \<open>Properties\<close>

lemma find_cas: "fst (cas hr_id (settle_guard c) (settle_act c) i (db_human d)) =
    sql_changes (\<lambda>r. hr_id r = i \<and> settle_guard c r) (db_human d)"
  by (simp add: cas_def)

text \<open>A win of \<open>answer\<close>: the row was pending and holds the answer now.\<close>

lemma answer_won:
  assumes "human_ok (hs_db s)" and "human_answer_request i answers source now s = (Inr Won, s')"
  obtains r as where "human_row_of (hs_db s) i = Some r" "human_pending r" "as_i64 now \<le> hr_expires_at r"
    "human_row_of (hs_db s') i = Some (answered_row as source now r)"
proof -
  obtain as where as: "try_bind (human_get i (hs_db s)) (\<lambda>found. try_bind (ok_or found (human_missing i)) (\<lambda>request. validate_answers request answers)) = Inr as"
    using assms(2)
    by (cases "try_bind (human_get i (hs_db s)) (\<lambda>found. try_bind (ok_or found (human_missing i)) (\<lambda>request. validate_answers request answers))")
      (auto simp: human_answer_request_def)
  let ?c = "Settle_Answer as source now" and ?t = "db_human (hs_db s)"
  have one: "sql_changes (\<lambda>r. hr_id r = i \<and> settle_guard ?c r) ?t = 1"
    and s': "db_human (hs_db s') = sql_update (\<lambda>r. hr_id r = i \<and> settle_guard ?c r) (settle_act ?c) ?t"
    using assms(2) by (auto simp: human_answer_request_def as on_hs_update split: sum.splits if_splits)
  have "cas hr_id (settle_guard ?c) (settle_act ?c) i ?t = (Suc 0, db_human (hs_db s'))"
    using one s' by (simp add: cas_def)
  from human_settle.cas_won [OF assms(1) [unfolded human_ok_def] this]
  obtain r where "human_row_of (hs_db s) i = Some r" "settle_guard ?c r" "human_row_of (hs_db s') i = Some (settle_act ?c r)"
    by metis
  then show ?thesis using that [of r as] by simp
qed

lemma human_get_Some:
  "human_get i d = Inr (Some request) \<Longrightarrow> \<exists>r. human_row_of d i = Some r \<and> into_request r = Inr request"
  by (auto simp: human_get_def try_option_def try_bind_Inr_iff split: option.splits)

lemma into_request_source:
  "into_request (answered_row as source now r) = Inr request \<Longrightarrow> hir_answer_source request = Some source"
proof -
  have "human_source_from_str (human_source_as_str source) = Inr source"
    using human_source_codec.from_as [of source] by (cases "human_source_from_str (human_source_as_str source)") auto
  then show "into_request (answered_row as source now r) = Inr request \<Longrightarrow> ?thesis"
    by (auto simp: into_request_def answered_row_def try_option_def try_bind_Inr_iff)
qed

lemma settled_no_change:
  assumes "human_ok d" and "\<And>r. human_row_of d i = Some r \<Longrightarrow> \<not> human_pending r"
  shows "sql_changes (\<lambda>r. hr_id r = i \<and> human_pending r \<and> g r) (db_human d) = 0"
  using changes_by_id [of hr_id "db_human d" i "\<lambda>r. human_pending r \<and> g r"] assms
  by (auto simp: human_ok_def split: option.split)

text \<open>
  C12. A request is settled once: when an answer has won, then whatever happens afterwards, short of a new
  request with the same id, the stored row stays answered from this source, neither a cancel nor an expiry
  takes effect, and every later answer is told that this source has answered already.
\<close>

theorem human_request_settled_once:
  assumes "human_ok (hs_db s)" and "human_answer_request i answers source now s = (Inr Won, s1)"
    and "human_run ids s1 s2" and "i \<notin> ids"
  shows "(\<forall>r. human_row_of (hs_db s2) i = Some r \<longrightarrow> hr_status r = ''answered'' \<and> hr_answer_source r = Some (human_source_as_str source)) \<and>
    fst (human_cancel i later s2) = Inr False \<and> fst (human_expire i later s2) = Inr False \<and>
    (\<forall>outcome. fst (human_answer_request i answers' source' later s2) = Inr outcome \<longrightarrow> outcome = AlreadyAnswered (Some source))"
proof -
  obtain r as where won: "human_row_of (hs_db s1) i = Some (answered_row as source now r)"
    by (rule answer_won [OF assms(1,2)])
  have ok1: "human_ok (hs_db s1)"
    using human_ok_steps [OF human_answer_steps [of "{}" s i answers source now] assms(1)] assms(2) by simp
  let ?r = "answered_row as source now r"
  have "human_ok (hs_db s2) \<and> (\<forall>x. human_row_of (hs_db s2) i = Some x \<longrightarrow> x = ?r)"
  proof (rule human_run_inv [OF assms(3), where P = "\<lambda>d. human_ok d \<and> (\<forall>x. human_row_of d i = Some x \<longrightarrow> x = ?r)"])
    fix d d'
    assume step: "human_step ids d d'" and P: "human_ok d \<and> (\<forall>x. human_row_of d i = Some x \<longrightarrow> x = ?r)"
    have "\<not> human_pending ?r" by (simp add: answered_row_def human_pending_def)
    with settled_step [OF step _ assms(4), of ?r] P human_ok_step [OF step]
    show "human_ok d' \<and> (\<forall>x. human_row_of d' i = Some x \<longrightarrow> x = ?r)" by blast
  qed (use ok1 won in \<open>auto simp: human_ok_def\<close>)
  then have ok2: "human_ok (hs_db s2)" and row: "\<And>x. human_row_of (hs_db s2) i = Some x \<Longrightarrow> x = ?r" by auto
  then have "\<And>x. human_row_of (hs_db s2) i = Some x \<Longrightarrow> \<not> human_pending x"
    by (auto simp: answered_row_def human_pending_def)
  note zero = settled_no_change [OF ok2 this]
  have settle: "fst (human_settle (\<lambda>r. True) st i later s2) = Inr (False, None)" for st
    using zero [where g = "\<lambda>r. True"] by (simp add: human_settle_def on_hs_update)
  have "outcome = AlreadyAnswered (Some source)"
    if "fst (human_answer_request i answers' source' later s2) = Inr outcome" for outcome
  proof -
    have same: "sql_update (\<lambda>r. hr_id r = i \<and> human_pending r \<and> as_i64 later \<le> hr_expires_at r) f (db_human (hs_db s2)) = db_human (hs_db s2)" for f
      using zero [where g = "\<lambda>r. as_i64 later \<le> hr_expires_at r"] by (rule sql_update_none)
    from that zero [where g = "\<lambda>r. as_i64 later \<le> hr_expires_at r"]
    obtain request where "human_get i (hs_db s2) = Inr (Some request)" "outcome = AlreadyAnswered (hir_answer_source request)"
      by (auto simp: human_answer_request_def on_hs_update same try_bind_Inr_iff ok_or_Inr_iff split: sum.splits if_splits)
    with row human_get_Some show ?thesis by (fastforce dest: into_request_source)
  qed
  with row settle show ?thesis
    by (auto simp: answered_row_def human_cancel_def human_expire_def split_beta)
qed

text \<open>The witness: a request is created and answered, and the answer wins.\<close>

definition sample_human :: human_request where
  "sample_human =
     \<lparr>hir_id = ''r1'', hir_integration_id = ''feishu'', hir_conversation_id = ''c1'', hir_purpose = ''ask'', hir_title = ''T'',
      hir_message = ''M'', hir_questions = [\<lparr>hq_id = ''q1'', hq_question = ''Q'', hq_options = [''yes'', ''no'']\<rparr>], hir_context = ''{}'',
      hir_status = Human_Pending, hir_answer = None, hir_answer_source = None, hir_card_message_id = None,
      hir_created_at = 1000, hir_expires_at = 1600, hir_answered_at = None\<rparr>"

definition sample_broker :: human_broker where
  "sample_broker = \<lparr>br_waiters = [''r1''], br_delivered = []\<rparr>"

definition asked_db :: db where
  "asked_db = empty_db\<lparr>db_human := \<lparr>tb_rows = [new_human_row sample_human], tb_seq = 0\<rparr>\<rparr>"

lemma sample_trims [simp]:
  "trim ''ask'' = ''ask''" "trim ''T'' = ''T''" "trim ''M'' = ''M''" "trim ''Q'' = ''Q''"
  "trim ''yes'' = ''yes''" "trim ''no'' = ''no''" "trim ''q1'' = ''q1''"
  by (rule trim_alnum, simp_all add: is_ascii_alphanumeric_def is_ascii_digit_def byte_of_def)+

lemma sample_valid: "validate_human_request sample_human = Inr ()"
  by (simp add: validate_human_request_def sample_human_def validate_identifier_def validate_text_def
      max_request_id_bytes_def max_integration_id_bytes_def max_conversation_id_bytes_def max_purpose_bytes_def
      max_title_bytes_def max_message_bytes_def max_wait_seconds_def max_question_id_bytes_def max_question_bytes_def
      max_options_def max_option_bytes_def max_context_bytes_def max_total_payload_bytes_def
      sat_add_u64_def is_ascii_alphanumeric_def is_ascii_digit_def byte_of_def char_of_def bit_iff_odd)

lemma sample_created: "human_create sample_human empty_db = (Inr (), asked_db)"
  by (simp add: human_create_def sample_valid with_tx_def human_create_tx_def prune_terminal_conn_def pending_count_def
      sql_changes_def sql_delete_def human_insert_def empty_db_def empty_table_def asked_db_def
      max_pending_global_def max_pending_per_integration_def max_pending_per_conversation_def)

definition sample_answers :: "human_answer list" where
  "sample_answers = [\<lparr>ha_question_id = ''q1'', ha_answer = ''yes''\<rparr>]"

definition answered_state :: human_state where
  "answered_state = snd (human_answer_request ''r1'' sample_answers Src_Feishu 1100 \<lparr>hs_db = asked_db, hs_broker = sample_broker\<rparr>)"

lemma sample_normalized: "normalize_answers [''q1''] sample_answers [] = Inr sample_answers"
  by (simp add: sample_answers_def Let_def max_answer_bytes_def char_of_def bit_iff_odd)

lemma length_sample: "length sample_answers = 1"
  by (simp add: sample_answers_def)

lemma sample_answered:
  "human_answer_request ''r1'' sample_answers Src_Feishu 1100 \<lparr>hs_db = asked_db, hs_broker = sample_broker\<rparr> = (Inr Won, answered_state)"
  by (simp add: answered_state_def human_answer_request_def human_get_def by_id_def asked_db_def new_human_row_def try_option_def
      into_request_def sample_human_def human_status_from_str_def validate_answers_def sample_normalized length_sample
      on_hs_update sql_changes_def sql_update_def human_pending_def as_i64_small i64_max_def answered_row_def human_source_from_str_def)

theorem human_request_settled_once_witness:
  "fst (human_cancel ''r1'' 1300 (snd (human_cancel ''r1'' 1200 answered_state))) = Inr False"
  using human_request_settled_once [OF _ sample_answered human_run.cancel [OF human_run.stop], where ids = "{}" and later = 1300]
  by (simp add: human_ok_def asked_db_def)

text \<open>
  The quotas hold at all times: starting without requests, after any operations at most a hundred
  requests are pending, at most fifty per integration and at most ten per conversation.
\<close>

theorem human_quotas_hold:
  assumes "db_human (hs_db s) = empty_table" and "human_run UNIV s t"
  shows "pending_count (\<lambda>_. True) (hs_db t) \<le> 100 \<and> pending_count (\<lambda>r. hr_integration_id r = i) (hs_db t) \<le> 50 \<and>
    pending_count (in_conversation i c) (hs_db t) \<le> 10"
proof -
  have "quotas_hold (hs_db t)"
  proof (rule human_run_inv [OF assms(2), where P = quotas_hold])
    show "quotas_hold (hs_db s)"
      by (simp add: quotas_hold_def pending_count_def assms(1) empty_table_def sql_changes_def)
  next
    fix d d' :: db
    assume "db_human d' = db_human d" "quotas_hold d"
    then show "quotas_hold d'" by (simp add: quotas_hold_def pending_count_def)
  qed (rule quotas_hold_step)
  then show ?thesis
    by (simp add: quotas_hold_def max_pending_global_def max_pending_per_integration_def max_pending_per_conversation_def)
qed

theorem human_quotas_hold_witness:
  "pending_count (\<lambda>_. True) asked_db \<le> 100 \<and> pending_count (in_conversation ''feishu'' ''c1'') asked_db \<le> 10"
proof -
  let ?s = "\<lparr>hs_db = empty_db, hs_broker = sample_broker\<rparr>"
  have "human_run UNIV ?s (snd (on_hs (human_create sample_human) ?s))"
    by (rule human_run.create [OF human_run.stop]) simp
  from human_quotas_hold [OF _ this, of "''feishu''" "''c1''"]
  have "db_human (hs_db ?s) = empty_table \<longrightarrow> ?thesis" by (auto simp: sample_created)
  then show ?thesis by (simp add: empty_db_def)
qed

text \<open>
  Round trip: a request that was created is read back as it was given, apart from the card message id,
  which is set later, provided its times fit the column type.
\<close>

theorem human_create_roundtrip:
  assumes "human_create r d = (Inr (), d')" and "human_ok d" and "int (hir_expires_at r) \<le> i64_max"
  shows "human_get (hir_id r) d' = Inr (Some (r\<lparr>hir_card_message_id := None\<rparr>))"
proof -
  let ?d = "d\<lparr>db_human := sql_delete (prunable_human (hir_created_at r)) (db_human d)\<rparr>"
  from assms(1) have v: "validate_human_request r = Inr ()" and "human_create_tx r d = Inr ((), d')"
    by (auto simp: human_create_def with_tx_def split: sum.splits)
  then have ins: "human_insert r ?d = Inr ((), d')"
    by (auto simp: human_create_tx_def prune_terminal_conn_def map_error_Inr_iff split: if_splits)
  have "find q (xs @ [x]) = Some x" if "\<not> list_ex q xs" "q x" for q x and xs :: "human_row list"
    using that by (induction xs) auto
  with ins have row: "human_row_of d' (hir_id r) = Some (new_human_row r)"
    by (auto simp: human_insert_def by_id_def new_human_row_def split: if_splits)
  from v have p: "hir_status r = Human_Pending" "hir_answer r = None" "hir_answer_source r = None" "hir_answered_at r = None"
    "hir_created_at r \<le> hir_expires_at r"
    by (auto simp: validate_human_request_def try_bind_Inr_iff split: if_splits)
  with assms(3) have "as_i64 (hir_created_at r) = int (hir_created_at r)" "as_i64 (hir_expires_at r) = int (hir_expires_at r)"
    by (auto intro!: as_i64_small)
  with row p show ?thesis
    by (simp add: human_get_def try_option_def into_request_def new_human_row_def human_status_from_str_def clamp0_of_nat)
qed

theorem human_create_roundtrip_witness:
  "human_get ''r1'' asked_db = Inr (Some sample_human)"
  using human_create_roundtrip [OF sample_created]
  by (simp add: human_ok_def empty_db_def empty_table_def sample_human_def i64_max_def)

end
