(* ===== verification/Session_Registry.thy ===== *)
theory Session_Registry
  imports "HOL-Library.AList" World "HOL-Library.List_Lexorder" "HOL-Library.Char_ord"
begin

text \<open>
  The in-memory registry of review sessions (\<open>review/session.rs\<close>, \<open>impl SessionRegistry\<close>). Every
  operation runs under one lock, so each is one step on the registry's state. A \<open>HashMap\<close> is an
  association list; where the code iterates over its values, it does so in the order of the list.
\<close>

text \<open>
  The durable side of the review sessions: the sessions and their history (\<open>review/history_store.rs\<close>)
  and the claims that link an outbox row to the session it started (\<open>review/claim_store.rs\<close>). The clock
  reading of a statement is its argument. A session's thread is referenced by the outbox rows, whose
  foreign key is set to NULL when the session is deleted.
\<close>

section \<open>Sessions\<close>

(* review/session.rs 66-77 SessionStatus *)
datatype session_status =
  Session_Starting | Session_Running | Session_Interrupting | Session_Done | Session_Failed

(* review/session.rs 83-111 SessionInfo *)
record session_info =
  si_project_id :: string
  si_thread_id :: string
  si_turn_id :: string
  si_pr_number :: nat
  si_skill_key :: string
  si_engine_kind :: engine_kind
  si_status :: session_status
  si_created_at :: nat
  si_comment_url :: "string option"

(* review/history_store.rs 91-96 status_wire *)
fun session_status_wire :: "session_status \<Rightarrow> string" where
  "session_status_wire Session_Starting = ''starting''"
| "session_status_wire Session_Running = ''running''"
| "session_status_wire Session_Interrupting = ''interrupting''"
| "session_status_wire Session_Done = ''done''"
| "session_status_wire Session_Failed = ''failed''"

(* review/history_store.rs 101-104 status_from_wire *)
definition session_status_from_wire :: "string \<Rightarrow> session_status" where
  "session_status_from_wire s =
     (if s = ''starting'' then Session_Starting
      else if s = ''running'' then Session_Running
      else if s = ''interrupting'' then Session_Interrupting
      else if s = ''done'' then Session_Done
      else Session_Failed)"

(* review/history_store.rs 108-113 engine_kind_wire *)
fun engine_kind_wire :: "engine_kind \<Rightarrow> string" where
  "engine_kind_wire Codex = ''codex''"
| "engine_kind_wire Claude = ''claude''"
| "engine_kind_wire Cursor = ''cursor''"

definition conversion_failure :: "nat \<Rightarrow> string \<Rightarrow> string" where
  "conversion_failure column e = ''Conversion error from type Text at index: '' @ dec column @ '', '' @ e"

(* review/history_store.rs 118-126 engine_kind_from_wire *)
definition engine_kind_from_wire :: "nat \<Rightarrow> string \<Rightarrow> string + engine_kind" where
  "engine_kind_from_wire column value =
     (if value = ''codex'' then Inr Codex
      else if value = ''claude'' then Inr Claude
      else if value = ''cursor'' then Inr Cursor
      else Inl (conversion_failure column
        (''unknown variant '' @ [CHR 0x60] @ value @ [CHR 0x60] @ '', expected one of ''
          @ [CHR 0x60] @ ''codex'' @ [CHR 0x60] @ '', '' @ [CHR 0x60] @ ''claude'' @ [CHR 0x60] @ '', ''
          @ [CHR 0x60] @ ''cursor'' @ [CHR 0x60])))"

(* review/history_store.rs 130-138 skill_key_from_wire *)
definition skill_key_from_wire :: "nat \<Rightarrow> string \<Rightarrow> string + string" where
  "skill_key_from_wire column value = map_error (conversion_failure column) (parse_skill_key_wire value)"

interpretation session_status_codec: lenient_wire_enum session_status_wire session_status_from_wire Session_Failed
proof unfold_locales
  show "session_status_from_wire (session_status_wire x) = x" for x
    by (cases x) (simp_all add: session_status_from_wire_def)
  show "session_status_from_wire s = Session_Failed" if "s \<notin> range session_status_wire" for s
  proof -
    from that have "session_status_wire x \<noteq> s" for x by blast
    from this [of Session_Starting] this [of Session_Running] this [of Session_Interrupting] this [of Session_Done]
    show ?thesis by (auto simp: session_status_from_wire_def)
  qed
qed

text \<open>A row as it is read back.\<close>

(* review/history_store.rs 381-396 get_session *)
definition session_of_row :: "session_row \<Rightarrow> string + session_info" where
  "session_of_row r =
     try_bind (skill_key_from_wire 4 (ss_skill_key r)) (\<lambda>skill.
     try_bind (engine_kind_from_wire 8 (ss_engine_kind r)) (\<lambda>engine.
     Inr \<lparr>si_project_id = ss_project_id r, si_thread_id = ss_thread_id r, si_turn_id = ss_turn_id r,
          si_pr_number = as_u64 (ss_pr_number r), si_skill_key = skill, si_engine_kind = engine,
          si_status = session_status_from_wire (ss_status r), si_created_at = as_u64 (ss_created_at r),
          si_comment_url = ss_comment_url r\<rparr>))"

(* review/history_store.rs 374-400 get_session *)
definition get_session :: "string \<Rightarrow> db \<Rightarrow> session_info option app_result" where
  "get_session thread_id = read_conn (\<lambda>d.
     case by_id ss_thread_id thread_id (db_session d) of
       None \<Rightarrow> Inr None
     | Some r \<Rightarrow> try_bind (session_of_row r) (\<lambda>info. Inr (Some info)))"

text \<open>Newest first, then by thread id: a stable sort by each key in turn.\<close>

definition of_pr :: "string \<Rightarrow> int \<Rightarrow> session_row \<Rightarrow> bool" where
  "of_pr project_id pr r \<longleftrightarrow> ss_project_id r = project_id \<and> ss_pr_number r = pr"

definition newest_first :: "session_row list \<Rightarrow> session_row list" where
  "newest_first rows = sort_key (\<lambda>r. - ss_created_at r) (sort_key ss_thread_id rows)"

(* review/history_store.rs 337-367 get_pr_sessions *)
definition get_pr_sessions :: "string \<Rightarrow> nat \<Rightarrow> db \<Rightarrow> session_info list app_result" where
  "get_pr_sessions project_id pr_number = read_conn (\<lambda>d.
     try_map session_of_row (newest_first (sql_select (of_pr project_id (as_i64 pr_number)) (db_session d))))"

(* review/history_store.rs 143-143 MAX_SESSIONS_PER_PR *)
definition max_sessions_per_pr :: nat where "max_sessions_per_pr = 50"

definition surplus :: "string \<Rightarrow> int \<Rightarrow> db \<Rightarrow> string list" where
  "surplus project_id pr d =
     map ss_thread_id (drop max_sessions_per_pr (newest_first (sql_select (of_pr project_id pr) (db_session d))))"

text \<open>\<open>ON DELETE SET NULL\<close>: the outbox rows of the deleted sessions lose their thread.\<close>

definition forget_threads :: "string list \<Rightarrow> outbox_row table \<Rightarrow> outbox_row table" where
  "forget_threads ids = sql_update (\<lambda>r. \<exists>t \<in> set ids. ob_review_thread_id r = Some t)
     (\<lambda>r. r\<lparr>ob_review_thread_id := None\<rparr>)"

(* review/history_store.rs 150-170 prune_pr_sessions *)
definition prune_pr_sessions :: "string \<Rightarrow> int \<Rightarrow> unit db_stmt" where
  "prune_pr_sessions project_id pr d =
     (let ids = surplus project_id pr d;
          d = d\<lparr>db_history := sql_delete (\<lambda>h. hi_thread_id h \<in> set ids) (db_history d)\<rparr>;
          ids = surplus project_id pr d
      in Inr ((), d\<lparr>db_session := sql_delete (\<lambda>s. ss_thread_id s \<in> set ids) (db_session d),
                  db_outbox := forget_threads ids (db_outbox d)\<rparr>))"

definition fresh_session_row :: "session_info \<Rightarrow> nat \<Rightarrow> session_row" where
  "fresh_session_row info now =
     \<lparr>ss_thread_id = si_thread_id info, ss_project_id = si_project_id info, ss_pr_number = as_i64 (si_pr_number info),
      ss_turn_id = si_turn_id info, ss_skill_key = si_skill_key info, ss_status = session_status_wire (si_status info),
      ss_created_at = as_i64 now, ss_updated_at = as_i64 now, ss_comment_url = si_comment_url info,
      ss_engine_kind = engine_kind_wire (si_engine_kind info), ss_terminal_outcome = None, ss_terminal_error = None\<rparr>"

definition merged_session_row :: "session_info \<Rightarrow> nat \<Rightarrow> session_row \<Rightarrow> session_row" where
  "merged_session_row info now r =
     r\<lparr>ss_project_id := si_project_id info, ss_pr_number := as_i64 (si_pr_number info), ss_turn_id := si_turn_id info,
       ss_skill_key := si_skill_key info, ss_status := session_status_wire (si_status info),
       ss_updated_at := as_i64 now,
       ss_comment_url := (case si_comment_url info of None \<Rightarrow> ss_comment_url r | Some u \<Rightarrow> Some u),
       ss_engine_kind := engine_kind_wire (si_engine_kind info)\<rparr>"

(* review/history_store.rs 187-227 upsert_session_in_tx *)
definition upsert_session_in_tx :: "session_info \<Rightarrow> nat \<Rightarrow> unit db_tx" where
  "upsert_session_in_tx info now d =
     (let t = db_session d;
          t' = (if list_ex (\<lambda>s. ss_thread_id s = si_thread_id info) (tb_rows t)
                then sql_update (\<lambda>s. ss_thread_id s = si_thread_id info) (merged_session_row info now) t
                else t\<lparr>tb_rows := tb_rows t @ [fresh_session_row info now]\<rparr>)
      in map_error map_err (prune_pr_sessions (si_project_id info) (as_i64 (si_pr_number info)) (d\<lparr>db_session := t'\<rparr>)))"

(* review/history_store.rs 176-181 upsert_session *)
definition upsert_session :: "session_info \<Rightarrow> nat \<Rightarrow> unit db_op" where
  "upsert_session info now = with_tx (upsert_session_in_tx info now)"

definition session_update :: "(session_row \<Rightarrow> bool) \<Rightarrow> (session_row \<Rightarrow> session_row) \<Rightarrow> nat db_op" where
  "session_update p f = with_conn (\<lambda>d.
     Inr (sql_changes p (db_session d), d\<lparr>db_session := sql_update p f (db_session d)\<rparr>))"

(* review/history_store.rs 232-242 set_status *)
definition store_set_status :: "string \<Rightarrow> session_status \<Rightarrow> nat \<Rightarrow> unit db_op" where
  "store_set_status thread_id status now d =
     (let (r, d) = session_update (\<lambda>s. ss_thread_id s = thread_id)
        (\<lambda>s. s\<lparr>ss_status := session_status_wire status, ss_updated_at := as_i64 now\<rparr>) d
      in (try_bind r (\<lambda>_. Inr ()), d))"

(* review/history_store.rs 250-276 set_status_and_comment_url *)
definition store_set_status_and_comment_url ::
    "string \<Rightarrow> session_status \<Rightarrow> string option \<Rightarrow> string \<Rightarrow> string option \<Rightarrow> nat \<Rightarrow> unit db_op" where
  "store_set_status_and_comment_url thread_id status comment_url outcome error now d =
     (let (r, d) = session_update (\<lambda>s. ss_thread_id s = thread_id)
        (\<lambda>s. s\<lparr>ss_status := session_status_wire status, ss_comment_url := comment_url,
                ss_terminal_outcome := Some outcome, ss_terminal_error := error, ss_updated_at := as_i64 now\<rparr>) d
      in (try_bind r (\<lambda>_. Inr ()), d))"

(* review/history_store.rs 406-414 fail_orphaned_sessions *)
definition fail_orphaned_sessions :: "nat db_op" where
  "fail_orphaned_sessions =
     session_update (\<lambda>s. ss_status s \<in> {''starting'', ''running'', ''interrupting''})
       (\<lambda>s. s\<lparr>ss_status := ''failed''\<rparr>)"

section \<open>History\<close>

(* review/history_store.rs 28-36 HistoryItemKind *)
datatype history_item_kind = Item_Message | Item_Reasoning | Item_User

(* review/history_store.rs 40-46 HistoryItemKind::as_wire *)
fun item_kind_wire :: "history_item_kind \<Rightarrow> string" where
  "item_kind_wire Item_Message = ''message''"
| "item_kind_wire Item_Reasoning = ''reasoning''"
| "item_kind_wire Item_User = ''user''"

(* review/history_store.rs 51-57 HistoryItemKind::from_wire *)
definition item_kind_from_wire :: "string \<Rightarrow> history_item_kind" where
  "item_kind_from_wire s =
     (if s = ''reasoning'' then Item_Reasoning else if s = ''user'' then Item_User else Item_Message)"

interpretation item_kind_codec: lenient_wire_enum item_kind_wire item_kind_from_wire Item_Message
proof unfold_locales
  show "item_kind_from_wire (item_kind_wire x) = x" for x by (cases x) (simp_all add: item_kind_from_wire_def)
  show "item_kind_from_wire s = Item_Message" if "s \<notin> range item_kind_wire" for s
  proof -
    from that have "item_kind_wire x \<noteq> s" for x by blast
    from this [of Item_Reasoning] this [of Item_User] show ?thesis by (auto simp: item_kind_from_wire_def)
  qed
qed

(* review/history_store.rs 66-70 HistoryItem *)
record history_item =
  hit_item_id :: string
  hit_kind :: history_item_kind
  hit_text :: string

(* review/history_store.rs 283-299 append_item *)
definition append_item :: "string \<Rightarrow> string \<Rightarrow> history_item_kind \<Rightarrow> string \<Rightarrow> unit db_op" where
  "append_item thread_id item_id kind text = with_conn (\<lambda>d.
     try_bind (tbl_next (db_history d)) (\<lambda>i.
     let t = db_history d; same = (\<lambda>h. hi_thread_id h = thread_id \<and> hi_item_id h = item_id) in
     Inr ((), d\<lparr>db_history :=
       (if list_ex same (tb_rows t) then (sql_update same (\<lambda>h. h\<lparr>hi_text := hi_text h @ text\<rparr>) t)\<lparr>tb_seq := i\<rparr>
        else tbl_push i \<lparr>hi_id = i, hi_thread_id = thread_id, hi_item_id = item_id,
               hi_kind = item_kind_wire kind, hi_text = text\<rparr> t)\<rparr>)))"

definition item_of_row :: "history_row \<Rightarrow> history_item" where
  "item_of_row h = \<lparr>hit_item_id = hi_item_id h, hit_kind = item_kind_from_wire (hi_kind h), hit_text = hi_text h\<rparr>"

(* review/history_store.rs 306-332 get_history *)
definition get_history :: "string \<Rightarrow> nat \<Rightarrow> string \<Rightarrow> db \<Rightarrow> history_item list app_result" where
  "get_history project_id pr_number thread_id = read_conn (\<lambda>d.
     Inr (if list_ex (\<lambda>s. ss_thread_id s = thread_id \<and> of_pr project_id (as_i64 pr_number) s) (tb_rows (db_session d))
          then map item_of_row (sort_key hi_id (sql_select (\<lambda>h. hi_thread_id h = thread_id) (db_history d)))
          else []))"

section \<open>Claims\<close>

definition outbox_exists :: "int \<Rightarrow> db \<Rightarrow> bool" where
  "outbox_exists i d \<longleftrightarrow> list_ex (\<lambda>r. ob_id r = i) (tb_rows (db_outbox d))"

(* review/claim_store.rs 59-76 begin_claim *)
definition begin_claim_tx :: "int \<Rightarrow> string \<Rightarrow> nat \<Rightarrow> string \<Rightarrow> nat \<Rightarrow> string option db_tx" where
  "begin_claim_tx outbox_id project_id pr_number skill now d =
     (let t = db_claim d in
      case by_id cl_outbox_id outbox_id t of
        Some c \<Rightarrow> Inr (cl_thread_id c, d)
      | None \<Rightarrow>
          if \<not> outbox_exists outbox_id d then Inl (map_err ''FOREIGN KEY constraint failed'')
          else Inr (None, d\<lparr>db_claim := t\<lparr>tb_rows := tb_rows t @
            [\<lparr>cl_outbox_id = outbox_id, cl_project_id = project_id, cl_pr_number = as_i64 pr_number,
              cl_skill_key = skill, cl_thread_id = None, cl_created_at = as_i64 now\<rparr>]\<rparr>\<rparr>))"

(* review/claim_store.rs 40-77 begin_claim *)
definition begin_claim :: "int \<Rightarrow> string \<Rightarrow> nat \<Rightarrow> string \<Rightarrow> nat \<Rightarrow> string option db_op" where
  "begin_claim outbox_id project_id pr_number skill now =
     with_tx (begin_claim_tx outbox_id project_id pr_number skill now)"

(* review/claim_store.rs 94-114 attach_started_session *)
definition attach_started_session :: "int \<Rightarrow> session_info \<Rightarrow> nat \<Rightarrow> unit db_op" where
  "attach_started_session outbox_id info now = with_tx (\<lambda>d.
     try_bind (upsert_session_in_tx info now d) (\<lambda>(_, d).
     if sql_changes (\<lambda>c. cl_outbox_id c = outbox_id) (db_claim d) \<noteq> 1 then
       Inl (AppError (''outbox review claim '' @ (utf8 [0x4E0D, 0x5B58, 0x5728, 0xFF08] @ ''outbox_id='') @ dec_int outbox_id @ (utf8 [0xFF09])))
     else Inr ((), d\<lparr>db_claim := sql_update (\<lambda>c. cl_outbox_id c = outbox_id)
       (\<lambda>c. c\<lparr>cl_thread_id := Some (si_thread_id info)\<rparr>) (db_claim d)\<rparr>)))"

(* review/claim_store.rs 119-127 release_claim *)
definition release_claim :: "int \<Rightarrow> unit db_op" where
  "release_claim outbox_id = with_conn (\<lambda>d.
     Inr ((), d\<lparr>db_claim := sql_delete (\<lambda>c. cl_outbox_id c = outbox_id) (db_claim d)\<rparr>))"

section \<open>State\<close>

text \<open>The context of a comment URL; a \<open>ResolvedCli\<close> stands for the path it resolved to.\<close>

(* review/session.rs 148-154 CommentUrlContext *)
record comment_url_context =
  cuc_gh :: "string option"
  cuc_source_kind :: source_kind
  cuc_repo :: string
  cuc_azure_org :: string
  cuc_azure_project :: string

(* review/session.rs 126-133 CompletionOutcome *)
record completion_outcome =
  co_status :: session_status
  co_wire_status :: string
  co_comment_url :: "string option"
  co_error :: "string option"

type_synonym review_pair = "string \<times> nat \<times> string"

(* review/session.rs 179-204 RegistryState *)
record registry =
  rg_sessions :: "(string \<times> session_info) list"
  rg_reserved :: "review_pair list"
  rg_completions :: "(string \<times> completion_outcome option) list"
  rg_url_contexts :: "(string \<times> comment_url_context) list"
  rg_cursor_generations :: "(string \<times> nat) list"

definition empty_registry :: registry where
  "empty_registry = \<lparr>rg_sessions = [], rg_reserved = [], rg_completions = [], rg_url_contexts = [],
     rg_cursor_generations = []\<rparr>"

definition live :: "session_status \<Rightarrow> bool" where
  "live s \<longleftrightarrow> s = Session_Starting \<or> s = Session_Running \<or> s = Session_Interrupting"

definition pair_of :: "session_info \<Rightarrow> review_pair" where
  "pair_of s = (si_project_id s, si_pr_number s, si_skill_key s)"

text \<open>\<open>HashMap::get_mut\<close>: the session of a thread is changed in place, if it is known.\<close>

definition edit_session :: "string \<Rightarrow> (session_info \<Rightarrow> session_info) \<Rightarrow> registry \<Rightarrow> registry" where
  "edit_session t f reg = reg\<lparr>rg_sessions := AList.map_entry t f (rg_sessions reg)\<rparr>"

(* review/session.rs 541-543 SessionRegistry::get *)
definition registry_get :: "string \<Rightarrow> registry \<Rightarrow> session_info option" where
  "registry_get t reg = map_of (rg_sessions reg) t"

(* review/session.rs 526-534 SessionRegistry::list *)
definition registry_list :: "registry \<Rightarrow> session_info list" where
  "registry_list reg = map snd (rg_sessions reg)"

section \<open>Status\<close>

(* review/session.rs 249-253 SessionRegistry::set_status *)
definition set_status :: "string \<Rightarrow> session_status \<Rightarrow> registry \<Rightarrow> registry" where
  "set_status t status = edit_session t (\<lambda>s. s\<lparr>si_status := status\<rparr>)"

(* review/session.rs 259-269 SessionRegistry::set_status_and_comment_url *)
definition set_status_and_comment_url :: "string \<Rightarrow> session_status \<Rightarrow> string option \<Rightarrow> registry \<Rightarrow> registry" where
  "set_status_and_comment_url t status url = edit_session t (\<lambda>s. s\<lparr>si_status := status, si_comment_url := url\<rparr>)"

(* review/session.rs 274-279 SessionRegistry::set_running *)
definition set_running :: "string \<Rightarrow> string \<Rightarrow> registry \<Rightarrow> registry" where
  "set_running t turn_id = edit_session t (\<lambda>s. s\<lparr>si_turn_id := turn_id, si_status := Session_Running\<rparr>)"

(* review/session.rs 419-435 SessionRegistry::try_begin_terminal *)
definition try_begin_terminal :: "string \<Rightarrow> session_status \<Rightarrow> registry \<Rightarrow> bool \<times> registry" where
  "try_begin_terminal t terminal reg =
     (case registry_get t reg of
        None \<Rightarrow> (False, reg)
      | Some info \<Rightarrow>
          if live (si_status info) then (True, set_status t terminal reg) else (False, reg))"

(* review/session.rs 438-443 SessionRegistry::is_terminal *)
definition is_terminal :: "string \<Rightarrow> registry \<Rightarrow> bool" where
  "is_terminal t reg \<longleftrightarrow> (case registry_get t reg of None \<Rightarrow> False | Some s \<Rightarrow> \<not> live (si_status s))"

(* review/session.rs 208-215 BeginInterrupt *)
datatype begin_interrupt_outcome = Interrupt_Proceed string | Interrupt_AlreadyHandled | Interrupt_NotFound

(* review/session.rs 462-474 SessionRegistry::begin_interrupt *)
definition begin_interrupt :: "string \<Rightarrow> registry \<Rightarrow> begin_interrupt_outcome \<times> registry" where
  "begin_interrupt t reg =
     (case registry_get t reg of
        None \<Rightarrow> (Interrupt_NotFound, reg)
      | Some info \<Rightarrow>
          if si_status info = Session_Running
          then (Interrupt_Proceed (si_turn_id info), set_status t Session_Interrupting reg)
          else (Interrupt_AlreadyHandled, reg))"

(* review/session.rs 220-230 BeginResume *)
datatype begin_resume_outcome = Resume_Proceed | Resume_Busy | Resume_NotFound

(* review/session.rs 486-498 SessionRegistry::begin_resume *)
definition begin_resume :: "string \<Rightarrow> registry \<Rightarrow> begin_resume_outcome \<times> registry" where
  "begin_resume t reg =
     (case registry_get t reg of
        None \<Rightarrow> (Resume_NotFound, reg)
      | Some info \<Rightarrow>
          if \<not> live (si_status info) then (Resume_Proceed, set_status t Session_Running reg)
          else (Resume_Busy, reg))"

(* review/session.rs 517-523 SessionRegistry::rollback_interrupt *)
definition rollback_interrupt :: "string \<Rightarrow> registry \<Rightarrow> registry" where
  "rollback_interrupt t =
     edit_session t (\<lambda>s. if si_status s = Session_Interrupting then s\<lparr>si_status := Session_Running\<rparr> else s)"

section \<open>Reservations\<close>

definition covered :: "review_pair \<Rightarrow> registry \<Rightarrow> bool" where
  "covered p reg \<longleftrightarrow> list_ex (\<lambda>s. pair_of s = p \<and> live (si_status s)) (registry_list reg)"

(* review/session.rs 292-319 SessionRegistry::try_reserve_pair *)
definition try_reserve_pair :: "string \<Rightarrow> nat \<Rightarrow> string \<Rightarrow> registry \<Rightarrow> bool \<times> registry" where
  "try_reserve_pair project_id pr_number skill reg =
     (let p = (project_id, pr_number, skill) in
      if covered p reg \<or> p \<in> set (rg_reserved reg) then (False, reg)
      else (True, reg\<lparr>rg_reserved := p # rg_reserved reg\<rparr>))"

(* review/session.rs 329-341 SessionRegistry::release_pair *)
definition release_pair :: "string \<Rightarrow> nat \<Rightarrow> string \<Rightarrow> registry \<Rightarrow> registry" where
  "release_pair project_id pr_number skill reg =
     reg\<lparr>rg_reserved := removeAll (project_id, pr_number, skill) (rg_reserved reg)\<rparr>"

(* review/session.rs 508-512 SessionRegistry::rehydrate *)
definition rehydrate :: "session_info \<Rightarrow> comment_url_context \<Rightarrow> registry \<Rightarrow> registry" where
  "rehydrate info ctx reg =
     reg\<lparr>rg_url_contexts := AList.update (si_thread_id info) ctx (rg_url_contexts reg),
         rg_sessions := AList.update (si_thread_id info) info (rg_sessions reg)\<rparr>"

(* review/session.rs 355-364 SessionRegistry::promote_reservation *)
definition promote_reservation :: "session_info \<Rightarrow> comment_url_context \<Rightarrow> registry \<Rightarrow> registry" where
  "promote_reservation info ctx reg =
     rehydrate info ctx (release_pair (si_project_id info) (si_pr_number info) (si_skill_key info) reg)"

(* review/session.rs 371-373 SessionRegistry::take_url_context *)
definition take_url_context :: "string \<Rightarrow> registry \<Rightarrow> comment_url_context option \<times> registry" where
  "take_url_context t reg =
     (map_of (rg_url_contexts reg) t, reg\<lparr>rg_url_contexts := AList.delete t (rg_url_contexts reg)\<rparr>)"

(* review/session.rs 557-584 SessionRegistry::active_pairs *)
definition active_pairs :: "string \<Rightarrow> registry \<Rightarrow> (nat \<times> string) list" where
  "active_pairs project_id reg =
     map (\<lambda>s. (si_pr_number s, si_skill_key s))
       (filter (\<lambda>s. si_project_id s = project_id \<and> live (si_status s)) (registry_list reg))
     @ map snd (filter (\<lambda>p. fst p = project_id) (rg_reserved reg))"

(* review/session.rs 55-59 StopTarget *)
datatype stop_target = Stop_Live string | Stop_Reserved | Stop_Absent

(* review/session.rs 596-624 SessionRegistry::stop_target *)
definition stop_target_of :: "string \<Rightarrow> nat \<Rightarrow> string \<Rightarrow> registry \<Rightarrow> stop_target" where
  "stop_target_of project_id pr_number skill reg =
     (let p = (project_id, pr_number, skill) in
      case find (\<lambda>s. pair_of s = p \<and> live (si_status s)) (registry_list reg) of
        Some s \<Rightarrow> Stop_Live (si_thread_id s)
      | None \<Rightarrow> if p \<in> set (rg_reserved reg) then Stop_Reserved else Stop_Absent)"

section \<open>Cursor generations and completions\<close>

(* review/session.rs 376-382 SessionRegistry::bind_cursor_generation *)
definition bind_cursor_generation :: "string \<Rightarrow> nat \<Rightarrow> registry \<Rightarrow> registry" where
  "bind_cursor_generation t g reg = reg\<lparr>rg_cursor_generations := AList.update t g (rg_cursor_generations reg)\<rparr>"

(* review/session.rs 386-392 SessionRegistry::take_cursor_generation *)
definition take_cursor_generation :: "string \<Rightarrow> registry \<Rightarrow> nat option \<times> registry" where
  "take_cursor_generation t reg =
     (map_of (rg_cursor_generations reg) t,
      reg\<lparr>rg_cursor_generations := AList.delete t (rg_cursor_generations reg)\<rparr>)"

(* review/session.rs 40-41 CURSOR_ACP_STALE_SESSION_MSG *)
definition cursor_stale_session_msg :: string where
  "cursor_stale_session_msg = (''cursor ACP '' @ utf8 [0x8FDB, 0x7A0B, 0x5DF2, 0x91CD, 0x542F, 0xFF0C, 0x4F1A, 0x8BDD, 0x5DF2, 0x5931, 0x6548, 0xFF0C, 0x8BF7, 0x65B0, 0x5F00] @ '' review'')"

(* review/session.rs 395-414 SessionRegistry::require_cursor_generation *)
definition require_cursor_generation :: "string \<Rightarrow> nat option \<Rightarrow> registry \<Rightarrow> unit app_result" where
  "require_cursor_generation t alive reg =
     (case alive of
        None \<Rightarrow> Inl (AppError cursor_stale_session_msg)
      | Some g \<Rightarrow>
          if map_of (rg_cursor_generations reg) t = Some g then Inr ()
          else Inl (AppError cursor_stale_session_msg))"

(* review/session.rs 446-454 SessionRegistry::has_in_flight_cursor *)
definition has_in_flight_cursor :: "registry \<Rightarrow> bool" where
  "has_in_flight_cursor reg \<longleftrightarrow>
     list_ex (\<lambda>s. si_engine_kind s = Cursor \<and> live (si_status s)) (registry_list reg)"

text \<open>A watch channel holds its latest value; the sender is made on first use.\<close>

(* review/session.rs 631-640 SessionRegistry::subscribe_completion *)
definition subscribe_completion :: "string \<Rightarrow> registry \<Rightarrow> completion_outcome option \<times> registry" where
  "subscribe_completion t reg =
     (case map_of (rg_completions reg) t of
        Some v \<Rightarrow> (v, reg)
      | None \<Rightarrow> (None, reg\<lparr>rg_completions := AList.update t None (rg_completions reg)\<rparr>))"

(* review/session.rs 648-659 SessionRegistry::signal_completion *)
definition signal_completion :: "string \<Rightarrow> completion_outcome \<Rightarrow> registry \<Rightarrow> registry" where
  "signal_completion t out reg = reg\<lparr>rg_completions := AList.update t (Some out) (rg_completions reg)\<rparr>"

section \<open>Reading after an operation\<close>

lemma registry_get_edit [simp]:
  "registry_get u (edit_session t f reg) = (if u = t then map_option f (registry_get t reg) else registry_get u reg)"
  by (auto simp: registry_get_def edit_session_def map_of_map_entry split: option.split)

lemma edit_session_other [simp]:
  "rg_reserved (edit_session t f reg) = rg_reserved reg" "rg_completions (edit_session t f reg) = rg_completions reg"
  "rg_url_contexts (edit_session t f reg) = rg_url_contexts reg"
  "rg_cursor_generations (edit_session t f reg) = rg_cursor_generations reg"
  by (simp_all add: edit_session_def)

lemma registry_get_simps [simp]:
  "registry_get u (rehydrate info ctx reg) = (if u = si_thread_id info then Some info else registry_get u reg)"
  "registry_get u (release_pair a b c reg) = registry_get u reg"
  "registry_get u (snd (take_url_context t reg)) = registry_get u reg"
  "registry_get u (signal_completion t out reg) = registry_get u reg"
  "registry_get u (bind_cursor_generation t g reg) = registry_get u reg"
  by (auto simp: registry_get_def rehydrate_def release_pair_def take_url_context_def signal_completion_def
      bind_cursor_generation_def update_conv')

text \<open>The threads are the keys of the sessions, each once.\<close>

definition registry_keyed :: "registry \<Rightarrow> bool" where
  "registry_keyed reg \<longleftrightarrow> distinct (map fst (rg_sessions reg)) \<and> (\<forall>p \<in> set (rg_sessions reg). si_thread_id (snd p) = fst p)"

lemma registry_list_iff:
  assumes "registry_keyed reg"
  shows "s \<in> set (registry_list reg) \<longleftrightarrow> registry_get (si_thread_id s) reg = Some s"
  using assms by (auto simp: registry_keyed_def registry_list_def registry_get_def dest: map_of_SomeD intro: rev_image_eqI)

lemma registry_keyed_empty [simp]: "registry_keyed empty_registry"
  by (simp add: registry_keyed_def empty_registry_def)

lemma registry_keyed_edit [simp]:
  assumes "registry_keyed reg" and "\<And>s. si_thread_id (f s) = si_thread_id s"
  shows "registry_keyed (edit_session t f reg)"
proof -
  have keys: "map fst (AList.map_entry t f xs) = map fst xs" for xs :: "(string \<times> session_info) list"
    by (induction xs) (auto)
  have ids: "\<forall>p \<in> set (AList.map_entry t f xs). si_thread_id (snd p) = fst p"
    if "\<forall>p \<in> set xs. si_thread_id (snd p) = fst p" for xs
    using that by (induction xs) (auto simp: assms(2))
  show ?thesis
    using assms(1) ids [of "rg_sessions reg"] by (simp add: registry_keyed_def edit_session_def keys)
qed

lemma registry_keyed_rehydrate [simp]:
  assumes "registry_keyed reg"
  shows "registry_keyed (rehydrate info ctx reg)"
proof -
  have "(u, s) \<in> set (AList.update t i xs) \<Longrightarrow> u = t \<and> s = i \<or> (u, s) \<in> set xs" for u s t i and xs :: "(string \<times> session_info) list"
    by (induction xs) (auto split: if_splits)
  with assms show ?thesis
    by (fastforce simp: registry_keyed_def rehydrate_def distinct_update)
qed

lemma registry_keyed_other [simp]:
  "registry_keyed (release_pair a b c reg) = registry_keyed reg"
  "registry_keyed (snd (take_url_context t reg)) = registry_keyed reg"
  "registry_keyed (signal_completion t out reg) = registry_keyed reg"
  "registry_keyed (bind_cursor_generation t g reg) = registry_keyed reg"
  by (simp_all add: registry_keyed_def release_pair_def take_url_context_def signal_completion_def bind_cursor_generation_def)

lemmas status_ops = set_status_def set_status_and_comment_url_def set_running_def rollback_interrupt_def

lemma live_simps [simp]:
  "live Session_Starting" "live Session_Running" "live Session_Interrupting"
  "\<not> live Session_Done" "\<not> live Session_Failed"
  by (simp_all add: live_def)

end
