(* ===== verification/History_Properties.thy ===== *)
theory History_Properties
  imports Session_Registry "HOL-Library.Multiset"
begin

text \<open>
  The durable side of the reviews: what is read back of a session's history is what its chunks add up to,
  and the sessions of a pull request stay bounded without leaving a reference dangling.
\<close>

section \<open>The history of a thread\<close>

text \<open>A chunk names its item and carries its kind and text; a log entry names the thread too.\<close>

type_synonym chunk = "string \<times> history_item_kind \<times> string"

definition append_entry :: "string \<times> chunk \<Rightarrow> db \<Rightarrow> db" where
  "append_entry e d = (case e of (t, i, k, x) \<Rightarrow> snd (append_item t i k x d))"

text \<open>
  The reference: the first chunk of an item makes it, every later chunk of the item adds its text, and the
  items stand in the order of their first chunks.
\<close>

function coalesce :: "chunk list \<Rightarrow> history_item list" where
  "coalesce [] = []"
| "coalesce ((i, k, x) # cs) =
     \<lparr>hit_item_id = i, hit_kind = k, hit_text = x @ concat (map (snd \<circ> snd) (filter (\<lambda>c. fst c = i) cs))\<rparr>
       # coalesce (filter (\<lambda>c. fst c \<noteq> i) cs)"
  by pat_completeness auto
termination by (relation "measure length") (auto simp: less_Suc_eq_le)

definition add_chunk :: "chunk \<Rightarrow> history_item list \<Rightarrow> history_item list" where
  "add_chunk c items =
     (case c of (i, k, x) \<Rightarrow>
        if list_ex (\<lambda>h. hit_item_id h = i) items
        then map (\<lambda>h. if hit_item_id h = i then h\<lparr>hit_text := hit_text h @ x\<rparr> else h) items
        else items @ [\<lparr>hit_item_id = i, hit_kind = k, hit_text = x\<rparr>])"

definition extended :: "chunk list \<Rightarrow> history_item \<Rightarrow> history_item" where
  "extended cs h = h\<lparr>hit_text := hit_text h @ concat (map (snd \<circ> snd) (filter (\<lambda>c. fst c = hit_item_id h) cs))\<rparr>"

lemma extended_Nil [simp]: "extended [] h = h"
  by (simp add: extended_def)

lemma fold_add_chunk:
  "fold add_chunk cs items = map (extended cs) items @ coalesce (filter (\<lambda>c. fst c \<notin> hit_item_id ` set items) cs)"
proof (induction cs arbitrary: items)
  case Nil
  show ?case by (simp add: map_idI)
next
  case (Cons c cs)
  obtain i k x where c: "c = (i, k, x)" by (cases c)
  show ?case
  proof (cases "i \<in> hit_item_id ` set items")
    case True
    let ?f = "\<lambda>h :: history_item. if hit_item_id h = i then h\<lparr>hit_text := hit_text h @ x\<rparr> else h"
    have new: "add_chunk c items = map ?f items" using True by (auto simp: add_chunk_def c list_ex_iff)
    have "hit_item_id \<circ> ?f = hit_item_id" by (simp add: fun_eq_iff)
    then have ids: "hit_item_id ` set (map ?f items) = hit_item_id ` set items"
      by (simp only: set_map image_comp)
    have ext: "extended cs (?f h) = extended (c # cs) h" for h by (simp add: extended_def c)
    show ?thesis using True ext unfolding fold_simps new Cons.IH ids map_map by (simp add: c comp_def)
  next
    case False
    let ?h = "\<lparr>hit_item_id = i, hit_kind = k, hit_text = x\<rparr>"
    have new: "add_chunk c items = items @ [?h]" using False by (auto simp: add_chunk_def c list_ex_iff)
    have ext: "map (extended (c # cs)) items = map (extended cs) items"
      using False by (auto simp: extended_def c)
    have keep: "filter (\<lambda>c. fst c \<notin> hit_item_id ` set items \<and> fst c = i) cs = filter (\<lambda>c. fst c = i) cs"
      using False by (auto intro!: filter_cong)
    have rest: "filter (\<lambda>c. fst c \<noteq> i) (filter (\<lambda>c. fst c \<notin> hit_item_id ` set items) cs) =
        filter (\<lambda>c. fst c \<notin> hit_item_id ` set (items @ [?h])) cs"
      by (auto intro!: filter_cong)
    have "coalesce (filter (\<lambda>c. fst c \<notin> hit_item_id ` set items) (c # cs)) =
        extended cs ?h # coalesce (filter (\<lambda>c. fst c \<notin> hit_item_id ` set (items @ [?h])) cs)"
      using False by (simp add: c keep rest [symmetric] extended_def del: set_append)
    then show ?thesis by (simp add: new Cons.IH ext)
  qed
qed

lemma fold_add_chunk_Nil: "fold add_chunk cs [] = coalesce cs"
  by (simp add: fold_add_chunk)

definition thread_items :: "string \<Rightarrow> db \<Rightarrow> history_item list" where
  "thread_items t d = map item_of_row (sql_select (\<lambda>h. hi_thread_id h = t) (db_history d))"

lemma tbl_ok_raise_seq: "tbl_ok rid t \<Longrightarrow> tb_seq t \<le> n \<Longrightarrow> tbl_ok rid (t\<lparr>tb_seq := n\<rparr>)"
  by (force simp: tbl_ok_def)

text \<open>An append adds a chunk to its own thread, and changes nothing else.\<close>

lemma append_item_effect:
  assumes "tb_seq (db_history d) < i64_max" and "tbl_ok hi_id (db_history d)"
  shows "fst (append_item u i k x d) = Inr ()"
    and "thread_items t (snd (append_item u i k x d)) = (if u = t then add_chunk (i, k, x) (thread_items t d) else thread_items t d)"
    and "tbl_ok hi_id (db_history (snd (append_item u i k x d)))"
    and "tb_seq (db_history (snd (append_item u i k x d))) = tb_seq (db_history d) + 1"
    and "db_session (snd (append_item u i k x d)) = db_session d"
proof -
  let ?same = "\<lambda>h. hi_thread_id h = u \<and> hi_item_id h = i"
  let ?t = "db_history d" and ?n = "tb_seq (db_history d) + 1"
  let ?row = "\<lparr>hi_id = ?n, hi_thread_id = u, hi_item_id = i, hi_kind = item_kind_wire k, hi_text = x\<rparr>"
  let ?t' = "if list_ex ?same (tb_rows ?t) then (sql_update ?same (\<lambda>h. h\<lparr>hi_text := hi_text h @ x\<rparr>) ?t)\<lparr>tb_seq := ?n\<rparr>
    else tbl_push ?n ?row ?t"
  have next_id: "tbl_next ?t = Inr ?n" using assms(1) by (simp add: tbl_next_def)
  have eq: "append_item u i k x d = (Inr (), d\<lparr>db_history := ?t'\<rparr>)"
    by (simp add: append_item_def next_id Let_def)
  show "fst (append_item u i k x d) = Inr ()" "db_session (snd (append_item u i k x d)) = db_session d"
    "tb_seq (db_history (snd (append_item u i k x d))) = tb_seq ?t + 1"
    by (simp_all add: eq table_simps)
  have "tbl_ok hi_id ((sql_update ?same (\<lambda>h. h\<lparr>hi_text := hi_text h @ x\<rparr>) ?t)\<lparr>tb_seq := ?n\<rparr>)"
    by (intro tbl_ok_raise_seq tbl_ok_update assms(2)) (simp_all add: table_simps)
  with tbl_ok_push [OF assms(2) next_id, of ?row] show "tbl_ok hi_id (db_history (snd (append_item u i k x d)))"
    by (simp add: eq)
  let ?upd = "\<lambda>r. if ?same r then r\<lparr>hi_text := hi_text r @ x\<rparr> else r"
  have own: "map item_of_row (filter (\<lambda>h. hi_thread_id h = u) (map ?upd rs)) =
      map (\<lambda>h. if hit_item_id h = i then h\<lparr>hit_text := hit_text h @ x\<rparr> else h) (map item_of_row (filter (\<lambda>h. hi_thread_id h = u) rs))" for rs
    by (induction rs) (auto simp: item_of_row_def)
  have other: "u \<noteq> t \<Longrightarrow> filter (\<lambda>h. hi_thread_id h = t) (map ?upd rs) = filter (\<lambda>h. hi_thread_id h = t) rs" for rs
    by (induction rs) auto
  have ex: "list_ex (\<lambda>h. hit_item_id h = i) (map item_of_row (filter (\<lambda>h. hi_thread_id h = u) rs)) \<longleftrightarrow> list_ex ?same rs" for rs
    by (induction rs) (auto simp: item_of_row_def)
  show "thread_items t (snd (append_item u i k x d)) = (if u = t then add_chunk (i, k, x) (thread_items t d) else thread_items t d)"
  proof (cases "u = t")
    case True
    then have "t = u" by simp
    then show ?thesis
      using own [of "tb_rows ?t"] ex [of "tb_rows ?t"]
      by (simp add: eq thread_items_def sql_select_def table_simps add_chunk_def item_of_row_def
          item_kind_codec.lenient_from_as del: map_map)
  next
    case False
    then show ?thesis using other [of "tb_rows ?t"] by (simp add: eq thread_items_def sql_select_def table_simps)
  qed
qed

lemma append_log_items:
  assumes "tbl_ok hi_id (db_history d)" and "tb_seq (db_history d) + int (length log) \<le> i64_max"
  shows "thread_items t (fold append_entry log d) = fold add_chunk (map snd (filter (\<lambda>e. fst e = t) log)) (thread_items t d) \<and>
    tbl_ok hi_id (db_history (fold append_entry log d)) \<and> db_session (fold append_entry log d) = db_session d"
  using assms
proof (induction log arbitrary: d)
  case (Cons e log)
  obtain u i k x where e: "e = (u, i, k, x)" by (cases e)
  have lt: "tb_seq (db_history d) < i64_max" using Cons.prems(2) by simp
  note eff = append_item_effect [OF lt Cons.prems(1), where u = u and i = i and k = k and x = x]
  have "tb_seq (db_history (append_entry e d)) + int (length log) \<le> i64_max"
    using Cons.prems(2) eff(4) by (simp add: append_entry_def e)
  from Cons.IH [OF _ this] eff show ?case by (simp add: append_entry_def e)
qed simp

text \<open>
  C17. The history that is read back is what the chunks add up to: after any chunks of any threads were
  appended, in any interleaving, the history of a thread of the pull request is its own chunks coalesced,
  one item per item id in the order of the first chunks, each with the concatenation of its texts.
\<close>

theorem history_coalesces:
  assumes "tbl_ok hi_id (db_history d)" and "tb_seq (db_history d) + int (length log) \<le> i64_max"
    and "thread_items t d = []"
    and "\<exists>s \<in> set (tb_rows (db_session d)). ss_thread_id s = t \<and> of_pr project_id (as_i64 pr) s"
  shows "get_history project_id pr t (fold append_entry log d) = Inr (coalesce (map snd (filter (\<lambda>e. fst e = t) log)))"
proof -
  let ?d = "fold append_entry log d"
  from append_log_items [OF assms(1,2), of t] assms(3)
  have items: "thread_items t ?d = coalesce (map snd (filter (\<lambda>e. fst e = t) log))" and ok: "tbl_ok hi_id (db_history ?d)"
    and ses: "db_session ?d = db_session d"
    by (simp_all add: fold_add_chunk_Nil)
  have "sorted (map hi_id (tb_rows (db_history ?d)))" using ok by (simp add: tbl_ok_def strict_sorted_imp_sorted)
  then have "sort_key hi_id (sql_select (\<lambda>h. hi_thread_id h = t) (db_history ?d)) = sql_select (\<lambda>h. hi_thread_id h = t) (db_history ?d)"
    by (simp add: sql_select_def sort_key_id_if_sorted sorted_filter)
  with items assms(4) show ?thesis
    by (simp add: get_history_def read_conn_def thread_items_def ses list_ex_iff)
qed


definition sample_session_info :: session_info where
  "sample_session_info = \<lparr>si_project_id = ''p'', si_thread_id = ''t1'', si_turn_id = ''n1'', si_pr_number = 7,
     si_skill_key = skill_key ''pr-review'' [], si_engine_kind = Codex, si_status = Session_Running,
     si_created_at = 10, si_comment_url = None\<rparr>"

definition sample_session_db :: db where
  "sample_session_db = empty_db\<lparr>db_session := \<lparr>tb_rows = [fresh_session_row sample_session_info 10], tb_seq = 0\<rparr>\<rparr>"

theorem history_coalesces_witness:
  "get_history ''p'' 7 ''t1'' (fold append_entry
      [(''t1'', ''m'', Item_Message, ''Hel''), (''t2'', ''m'', Item_Message, ''x''), (''t1'', ''r'', Item_Reasoning, ''so''),
       (''t1'', ''m'', Item_Message, ''lo'')] sample_session_db) =
    Inr [\<lparr>hit_item_id = ''m'', hit_kind = Item_Message, hit_text = ''Hello''\<rparr>,
      \<lparr>hit_item_id = ''r'', hit_kind = Item_Reasoning, hit_text = ''so''\<rparr>]"
  by (subst history_coalesces)
    (simp_all add: sample_session_db_def empty_db_def empty_table_def tbl_ok_def i64_max_def thread_items_def sql_select_def
      fresh_session_row_def sample_session_info_def of_pr_def as_i64_small)

section \<open>The sessions of a pull request\<close>

text \<open>
  The invariant: threads are distinct, a pull request has at most fifty sessions, and an outbox row refers
  only to a session that exists.
\<close>

definition sessions_ok :: "db \<Rightarrow> bool" where
  "sessions_ok d \<longleftrightarrow>
     distinct (map ss_thread_id (tb_rows (db_session d))) \<and>
     (\<forall>project_id pr. length (sql_select (of_pr project_id pr) (db_session d)) \<le> max_sessions_per_pr) \<and>
     (\<forall>r \<in> set (tb_rows (db_outbox d)). outbox_fk d r)"

lemma session_exists_iff: "session_exists t d \<longleftrightarrow> t \<in> ss_thread_id ` set (tb_rows (db_session d))"
  by (auto simp: session_exists_def list_ex_iff)

lemma mset_newest_first [simp]: "mset (newest_first rows) = mset rows"
  by (simp add: newest_first_def)

lemma set_newest_first [simp]: "set (newest_first rows) = set rows"
  by (metis mset_newest_first set_mset_mset)

lemma length_filter_mset: "mset xs = mset ys \<Longrightarrow> length (filter p xs) = length (filter p ys)"
  by (metis mset_filter size_mset)

lemma filter_take_drop: "filter p xs = filter p (take n xs) @ filter p (drop n xs)"
  by (simp flip: filter_append)

text \<open>What is left of a list when the rows of the tail's threads are deleted.\<close>

lemma length_kept:
  "length (filter (\<lambda>s. ss_thread_id s \<notin> set (map ss_thread_id (drop n (newest_first rows)))) rows) \<le> n"
proof -
  let ?keep = "\<lambda>s. ss_thread_id s \<notin> set (map ss_thread_id (drop n (newest_first rows)))"
  have "filter ?keep (drop n (newest_first rows)) = []" by (simp add: filter_empty_conv)
  then have kept: "filter ?keep (newest_first rows) = filter ?keep (take n (newest_first rows))"
    by (subst filter_take_drop [where n = n]) simp
  have "length (filter ?keep rows) = length (filter ?keep (newest_first rows))"
    by (rule length_filter_mset) simp
  also note kept
  also have "length (filter ?keep (take n (newest_first rows))) \<le> length (take n (newest_first rows))"
    by (rule length_filter_le)
  also have "\<dots> \<le> n" by simp
  finally show ?thesis .
qed

lemma surplus_history [simp]: "surplus p n (d\<lparr>db_history := h\<rparr>) = surplus p n d"
  by (simp add: surplus_def)

lemma sql_select_delete: "sql_select p (sql_delete q t) = filter (\<lambda>r. \<not> q r) (sql_select p t)"
  by (simp add: sql_select_def table_simps conj_commute)

text \<open>Pruning restores the bound of its own pull request and keeps everything else.\<close>

lemma prune_sessions_ok:
  assumes "prune_pr_sessions p n d = Inr ((), d')"
    and "distinct (map ss_thread_id (tb_rows (db_session d)))"
    and others: "\<And>q m. (q, m) \<noteq> (p, n) \<Longrightarrow> length (sql_select (of_pr q m) (db_session d)) \<le> max_sessions_per_pr"
    and fk: "\<forall>r \<in> set (tb_rows (db_outbox d)). outbox_fk d r"
  shows "sessions_ok d'"
proof -
  let ?ids = "surplus p n d"
  have ses: "db_session d' = sql_delete (\<lambda>s. ss_thread_id s \<in> set ?ids) (db_session d)"
    and out: "db_outbox d' = forget_threads ?ids (db_outbox d)"
    using assms(1) by (auto simp: prune_pr_sessions_def Let_def)
  have own: "length (sql_select (of_pr p n) (db_session d')) \<le> max_sessions_per_pr"
    using length_kept [of max_sessions_per_pr "sql_select (of_pr p n) (db_session d)"]
    by (simp add: ses sql_select_delete surplus_def del: set_map)
  have "length (sql_select (of_pr q m) (db_session d')) \<le> max_sessions_per_pr" for q m
  proof (cases "(q, m) = (p, n)")
    case False
    have "length (sql_select (of_pr q m) (db_session d')) \<le> length (sql_select (of_pr q m) (db_session d))"
      by (simp add: ses sql_select_delete)
    with others [OF False] show ?thesis by linarith
  qed (use own in simp)
  moreover have "distinct (map ss_thread_id (tb_rows (db_session d')))"
    using assms(2) by (simp add: ses table_simps distinct_map inj_on_def)
  moreover have "outbox_fk d' r" if r: "r \<in> set (tb_rows (db_outbox d'))" for r
  proof -
    from r obtain r0 where r0: "r0 \<in> set (tb_rows (db_outbox d))"
      "r = (if \<exists>t \<in> set ?ids. ob_review_thread_id r0 = Some t then r0\<lparr>ob_review_thread_id := None\<rparr> else r0)"
      by (auto simp: out forget_threads_def table_simps)
    show ?thesis
    proof (cases "ob_review_thread_id r")
      case None
      then show ?thesis by (simp add: outbox_fk_def)
    next
      case (Some t)
      with r0 have "ob_review_thread_id r0 = Some t" "t \<notin> set ?ids" by (auto split: if_splits)
      moreover from this(1) r0(1) fk have "session_exists t d" by (auto simp: outbox_fk_def)
      ultimately show ?thesis using Some by (auto simp: outbox_fk_def session_exists_def ses table_simps)
    qed
  qed
  ultimately show ?thesis by (simp add: sessions_ok_def)
qed

lemma upsert_sessions_ok:
  assumes "upsert_session_in_tx info now d = Inr ((), d')" and "sessions_ok d"
  shows "sessions_ok d'"
proof -
  let ?same = "\<lambda>s. ss_thread_id s = si_thread_id info" and ?t = "db_session d"
  define t' where "t' = (if list_ex ?same (tb_rows ?t) then sql_update ?same (merged_session_row info now) ?t
      else ?t\<lparr>tb_rows := tb_rows ?t @ [fresh_session_row info now]\<rparr>)"
  have pr: "prune_pr_sessions (si_project_id info) (as_i64 (si_pr_number info)) (d\<lparr>db_session := t'\<rparr>) = Inr ((), d')"
    using assms(1) by (simp add: upsert_session_in_tx_def Let_def t'_def)
  have ids: "ss_thread_id ` set (tb_rows t') \<supseteq> ss_thread_id ` set (tb_rows ?t)"
    using map_rid_update [of ss_thread_id "merged_session_row info now" ?same ?t]
    by (auto simp: t'_def merged_session_row_def simp flip: set_map)
  have dist: "distinct (map ss_thread_id (tb_rows t'))"
    using assms(2) map_rid_update [of ss_thread_id "merged_session_row info now" ?same ?t]
    by (auto simp: sessions_ok_def t'_def merged_session_row_def fresh_session_row_def list_ex_iff)
  have other: "length (sql_select (of_pr q m) t') \<le> length (sql_select (of_pr q m) ?t)"
    if "(q, m) \<noteq> (si_project_id info, as_i64 (si_pr_number info))" for q m
  proof -
    have "length (filter (of_pr q m) (map (\<lambda>s. if ?same s then merged_session_row info now s else s) rs)) \<le>
        length (filter (of_pr q m) rs)" for rs
      using that by (induction rs) (auto simp: of_pr_def merged_session_row_def)
    moreover have "\<not> of_pr q m (fresh_session_row info now)" using that by (auto simp: of_pr_def fresh_session_row_def)
    ultimately show ?thesis by (simp add: t'_def sql_select_def table_simps)
  qed
  have "outbox_fk (d\<lparr>db_session := t'\<rparr>) r" if "r \<in> set (tb_rows (db_outbox d))" for r
    using assms(2) that ids by (auto simp: sessions_ok_def outbox_fk_def session_exists_iff split: option.splits)
  with prune_sessions_ok [OF pr] dist other assms(2) show ?thesis
    by (fastforce simp: sessions_ok_def intro: order_trans)
qed

text \<open>An update that keeps the thread and the pull request of a row keeps the invariant.\<close>

lemma session_update_ok:
  assumes "sessions_ok d" and "\<And>s. ss_thread_id (f s) = ss_thread_id s \<and> ss_project_id (f s) = ss_project_id s \<and> ss_pr_number (f s) = ss_pr_number s"
  shows "sessions_ok (snd (session_update p f d))"
proof -
  have sel: "length (filter (of_pr q m) (map (\<lambda>s. if p s then f s else s) rs)) = length (filter (of_pr q m) rs)" for q m rs
    by (induction rs) (auto simp: of_pr_def assms(2))
  have ids: "map ss_thread_id (tb_rows (sql_update p f (db_session d))) = map ss_thread_id (tb_rows (db_session d))"
    by (rule map_rid_update) (simp add: assms(2))
  have "session_exists t (d\<lparr>db_session := sql_update p f (db_session d)\<rparr>) = session_exists t d" for t
    using ids by (simp add: session_exists_iff flip: set_map)
  with assms(1) have "\<forall>r \<in> set (tb_rows (db_outbox d)). outbox_fk (d\<lparr>db_session := sql_update p f (db_session d)\<rparr>) r"
    by (auto simp: sessions_ok_def outbox_fk_def split: option.splits)
  moreover have "distinct (map ss_thread_id (tb_rows (sql_update p f (db_session d))))"
    using assms(1) unfolding ids sessions_ok_def by simp
  moreover have "length (sql_select (of_pr q m) (sql_update p f (db_session d))) \<le> max_sessions_per_pr" for q m
    using assms(1) sel [of q m "tb_rows (db_session d)"]
    by (simp only: sql_select_def sql_update_def sessions_ok_def table.simps) simp
  ultimately show ?thesis by (simp add: session_update_def sessions_ok_def)
qed

lemma sessions_ok_other_tables [simp]:
  "sessions_ok (d\<lparr>db_history := h\<rparr>) = sessions_ok d"
  "sessions_ok (d\<lparr>db_claim := c\<rparr>) = sessions_ok d"
  by (simp_all add: sessions_ok_def outbox_fk_def session_exists_def cong: option.case_cong)

text \<open>Every operation of the two stores, at any arguments and any clock.\<close>

inductive session_step :: "db \<Rightarrow> db \<Rightarrow> bool" where
  Upserted: "session_step d (snd (upsert_session info now d))"
| Attached: "session_step d (snd (attach_started_session i info now d))"
| Status_set: "session_step d (snd (store_set_status t st now d))"
| Finished: "session_step d (snd (store_set_status_and_comment_url t st url outcome err now d))"
| Orphans_failed: "session_step d (snd (fail_orphaned_sessions d))"
| Appended: "session_step d (snd (append_item t i k x d))"
| Claimed: "session_step d (snd (begin_claim i p n sk now d))"
| Released: "session_step d (snd (release_claim i d))"

lemma begin_claim_tx_ok:
  assumes "begin_claim_tx i p n sk now d = Inr (x, d')" and "sessions_ok d"
  shows "sessions_ok d'"
proof (cases "by_id cl_outbox_id i (db_claim d)")
  case None
  with assms(1) have "\<exists>c. d' = d\<lparr>db_claim := c\<rparr>"
    unfolding begin_claim_tx_def Let_def by (simp split: if_splits) blast
  with assms(2) show ?thesis by auto
next
  case (Some c)
  with assms show ?thesis by (simp add: begin_claim_tx_def)
qed

lemma session_step_ok: "session_step d d' \<Longrightarrow> sessions_ok d \<Longrightarrow> sessions_ok d'"
proof (induction rule: session_step.induct)
  case (Upserted d info now)
  show ?case unfolding upsert_session_def
    by (rule with_tx_inv) (use Upserted in \<open>auto dest: upsert_sessions_ok\<close>)
next
  case (Attached d i info now)
  show ?case
    unfolding attach_started_session_def
  proof (rule with_tx_inv)
    show "sessions_ok d" by (rule Attached)
    show "sessions_ok d'"
      if "try_bind (upsert_session_in_tx info now d) (\<lambda>(_, d).
        if sql_changes (\<lambda>c. cl_outbox_id c = i) (db_claim d) \<noteq> 1 then Inl (AppError (e d))
        else Inr ((), d\<lparr>db_claim := upd d\<rparr>)) = Inr (x, d')" for x d' e upd
      using that upsert_sessions_ok [OF _ Attached]
      by (elim try_bind_InrE) (fastforce split: if_splits prod.splits)
  qed
next
  case (Status_set d t st now)
  then show ?case by (simp add: store_set_status_def session_update_ok split_beta)
next
  case (Finished d t st url outcome err now)
  then show ?case by (simp add: store_set_status_and_comment_url_def session_update_ok split_beta)
next
  case (Orphans_failed d)
  then show ?case by (simp add: fail_orphaned_sessions_def session_update_ok)
next
  case (Appended d t i k x)
  show ?case
    unfolding append_item_def
    by (rule with_conn_inv) (use Appended in \<open>auto simp: Let_def elim!: try_bind_InrE\<close>)
next
  case (Claimed d i p n sk now)
  show ?case unfolding begin_claim_def
    by (rule with_tx_inv) (use Claimed in \<open>auto dest: begin_claim_tx_ok\<close>)
next
  case (Released d i)
  then show ?case by (simp add: release_claim_def)
qed

text \<open>
  C7. Whatever the session store and the claim store do, in any order, at any arguments and with any clock
  readings: threads stay distinct, a pull request never keeps more than fifty sessions, and pruning leaves
  no outbox row that refers to a deleted session.
\<close>

theorem session_runs_keep_bounds:
  assumes "session_step\<^sup>*\<^sup>* d d'" and "sessions_ok d"
  shows "sessions_ok d'"
  using assms by (induction rule: rtranclp_induct) (auto intro: session_step_ok)

theorem session_runs_keep_bounds_witness:
  "sessions_ok (snd (upsert_session sample_session_info 12 (snd (begin_claim 3 ''p'' 7 ''s'' 11 sample_session_db))))"
proof (rule session_runs_keep_bounds)
  show "session_step\<^sup>*\<^sup>* sample_session_db (snd (upsert_session sample_session_info 12 (snd (begin_claim 3 ''p'' 7 ''s'' 11 sample_session_db))))"
    by (rule rtranclp_trans [OF r_into_rtranclp r_into_rtranclp]) (rule Claimed, rule Upserted)
  show "sessions_ok sample_session_db"
    by (simp add: sessions_ok_def sample_session_db_def empty_db_def empty_table_def sql_select_def max_sessions_per_pr_def)
qed

end
