(* ===== verification/Session_Turns.thy ===== *)
theory Session_Turns
  imports Session_Registry
begin

text \<open>
  The turns of a review (\<open>review/session.rs\<close>): starting a Codex review, following it up, interrupting it,
  the pump that forwards its output, and the funnel that ends a turn. Child processes and RPC are the
  environment: what an \<open>await\<close> on them answered is an argument. A function with such an argument is the
  code run without interleaving; where the theorems need the interleaving, the code between two awaits is
  a definition of its own. A spawned task is recorded in the list of pumps.
\<close>

section \<open>The handle\<close>

(* model.rs 235-242 ReviewLifecycleDispatch *)
record lifecycle_dispatch =
  rld_project_id :: string
  rld_pr_number :: nat
  rld_skill_key :: string
  rld_thread_id :: string
  rld_event :: review_lifecycle_event
  rld_comment_url :: "string option"

text \<open>The sinks of the resume hook and the lifecycle notifier, and the resolution of a comment URL over the network.\<close>

record review_env =
  rve_resume :: "(world \<Rightarrow> unit app_result \<times> world) option"
  rve_sink :: "(lifecycle_dispatch \<Rightarrow> world \<Rightarrow> unit app_result \<times> world) option"
  rve_comment_url :: "comment_url_context \<Rightarrow> nat \<Rightarrow> string option"

record pump_task =
  pt_project_id :: string
  pt_pr_number :: nat
  pt_thread_id :: string

text \<open>
  The spawned pumps and watchdogs, the sessions registered with the Claude manager, and whether the user
  has stopped the resident engines. The write to the database that reads the clock for the n-th time may fail,
  when the code goes on without it.
\<close>

record review_app =
  ra_world :: world
  ra_registry :: registry
  ra_persist_notified :: bool
  ra_write_error :: "nat \<Rightarrow> app_error option"
  ra_pumps :: "pump_task list"
  ra_watchdogs :: "pump_task list"
  ra_claude :: "string list"
  ra_codex_stopped :: bool
  ra_cursor_stopped :: bool

definition on_world :: "(world \<Rightarrow> 'a \<times> world) \<Rightarrow> review_app \<Rightarrow> 'a \<times> review_app" where
  "on_world f a = (let (r, w) = f (ra_world a) in (r, a\<lparr>ra_world := w\<rparr>))"

definition on_registry :: "(registry \<Rightarrow> 'a \<times> registry) \<Rightarrow> review_app \<Rightarrow> 'a \<times> review_app" where
  "on_registry f a = (let (r, reg) = f (ra_registry a) in (r, a\<lparr>ra_registry := reg\<rparr>))"

definition with_registry :: "(registry \<Rightarrow> registry) \<Rightarrow> review_app \<Rightarrow> review_app" where
  "with_registry f a = a\<lparr>ra_registry := f (ra_registry a)\<rparr>"

definition emit_review :: "review_event \<Rightarrow> review_app \<Rightarrow> review_app" where
  "emit_review e a = a\<lparr>ra_world := emit (Review e) (ra_world a)\<rparr>"

text \<open>A database operation with its own reading of the clock.\<close>

definition stamped_db :: "(nat \<Rightarrow> 'a db_op) \<Rightarrow> review_app \<Rightarrow> 'a app_result \<times> review_app" where
  "stamped_db f = on_world (\<lambda>w. let (now, w) = now_epoch w in on_db (f now) w)"

(* state.rs 187-195 ReviewLifecycleNotifier::fire *)
definition fire_lifecycle :: "review_env \<Rightarrow> lifecycle_dispatch \<Rightarrow> review_app \<Rightarrow> unit app_result \<times> review_app" where
  "fire_lifecycle env event a =
     (case rve_sink env of
        None \<Rightarrow> (Inl (AppError (''review lifecycle notifier '' @ utf8 [0x672A, 0x521D, 0x59CB, 0x5316])), a)
      | Some sink \<Rightarrow> on_world (sink event) a)"

section \<open>Persistence\<close>

(* review/session.rs 1234-1249 notify_persist_failure_once *)
definition notify_persist_failure_once :: "string \<Rightarrow> review_app \<Rightarrow> review_app" where
  "notify_persist_failure_once project_id a =
     (if ra_persist_notified a then a
      else emit_review (Dispatch_Error project_id
        (''review '' @ utf8 [0x4F1A, 0x8BDD, 0x6301, 0x4E45, 0x5316, 0x5931, 0x8D25, 0x2014, 0x2014, 0x91CD, 0x542F, 0x540E, 0x5386, 0x53F2, 0x53EF, 0x80FD, 0x4E22, 0x5931, 0xFF08, 0x8BF7, 0x68C0, 0x67E5, 0x78C1, 0x76D8, 0x7A7A, 0x95F4] @ '' / '' @ utf8 [0x6570, 0x636E, 0x5E93, 0x6587, 0x4EF6, 0x6743, 0x9650, 0xFF09, 0x3002, 0x540E, 0x7EED, 0x5931, 0x8D25, 0x4EC5, 0x8BB0, 0x5F55, 0x65E5, 0x5FD7, 0x3002]))
        (a\<lparr>ra_persist_notified := True\<rparr>))"

text \<open>A write whose failure is swallowed; the statement of a failed one is rolled back.\<close>

definition best_effort :: "(nat \<Rightarrow> 'a db_op) \<Rightarrow> review_app \<Rightarrow> 'a app_result \<times> review_app" where
  "best_effort f a =
     (case ra_write_error a (w_ticks (ra_world a)) of
        Some e \<Rightarrow> (Inl e, snd (on_world now_epoch a))
      | None \<Rightarrow> stamped_db f a)"

(* review/session.rs 1255-1269 persist_session *)
definition persist_session :: "session_info \<Rightarrow> review_app \<Rightarrow> unit app_result \<times> review_app" where
  "persist_session info a =
     (case best_effort (upsert_session info) a of
        (Inl e, a) \<Rightarrow> (Inl e, notify_persist_failure_once (si_project_id info) a)
      | (Inr _, a) \<Rightarrow> (Inr (), a))"

(* review/session.rs 1277-1301 commit_starting_session *)
definition commit_starting_session ::
    "session_info \<Rightarrow> comment_url_context \<Rightarrow> int option \<Rightarrow> review_app \<Rightarrow> unit app_result \<times> review_app" where
  "commit_starting_session starting ctx claim a =
     (case claim of
        Some outbox_id \<Rightarrow>
          (case stamped_db (attach_started_session outbox_id starting) a of
             (Inl e, a) \<Rightarrow> (Inl e, notify_persist_failure_once (si_project_id starting) a)
           | (Inr _, a) \<Rightarrow> (Inr (), with_registry (promote_reservation starting ctx) a))
      | None \<Rightarrow> (Inr (), with_registry (promote_reservation starting ctx) (snd (persist_session starting a))))"

(* review/session.rs 1305-1317 persist_status *)
definition persist_status :: "string \<Rightarrow> session_status \<Rightarrow> review_app \<Rightarrow> review_app" where
  "persist_status t status a = snd (best_effort (store_set_status t status) a)"

definition append_or_notify :: "string \<Rightarrow> string \<Rightarrow> string \<Rightarrow> history_item_kind \<Rightarrow> string \<Rightarrow> review_app \<Rightarrow> review_app" where
  "append_or_notify project_id t item_id kind text a =
     (case on_world (on_db (append_item t item_id kind text)) a of
        (Inl e, a) \<Rightarrow> notify_persist_failure_once project_id a
      | (Inr _, a) \<Rightarrow> a)"

(* review/session.rs 1032-1053 persist_user_message *)
definition persist_user_message :: "string \<Rightarrow> string \<Rightarrow> string \<Rightarrow> string \<Rightarrow> review_app \<Rightarrow> review_app" where
  "persist_user_message project_id t user_item_id text =
     append_or_notify project_id t user_item_id Item_User text"

(* review/session.rs 1323-1353 persist_delta *)
fun persist_delta :: "string \<Rightarrow> review_event \<Rightarrow> review_app \<Rightarrow> review_app" where
  "persist_delta t (Message_Delta project_id thread item_id text) a =
     append_or_notify project_id t item_id Item_Message text a"
| "persist_delta t (Reasoning_Delta project_id thread item_id text) a =
     append_or_notify project_id t item_id Item_Reasoning text a"
| "persist_delta t _ a = a"

section \<open>Ending a turn\<close>

(* review/session.rs 1637-1646 lifecycle_event_from_wire_status *)
definition lifecycle_event_from_wire_status :: "string \<Rightarrow> review_lifecycle_event option" where
  "lifecycle_event_from_wire_status s =
     (if s = ''completed'' then Some Lifecycle_Completed
      else if s = ''failed'' then Some Lifecycle_Failed
      else if s = ''interrupted'' then Some Lifecycle_Interrupted
      else None)"

(* review/session.rs 1693-1698 terminal_status *)
definition terminal_status :: "string \<Rightarrow> session_status" where
  "terminal_status s = (if s = ''completed'' \<or> s = ''interrupted'' then Session_Done else Session_Failed)"

(* review/session.rs 1704-1706 should_resolve_url *)
definition should_resolve_url :: "string \<Rightarrow> bool" where
  "should_resolve_url wire_status \<longleftrightarrow> wire_status = ''completed''"

text \<open>The funnel up to its await: the compare-and-set of the status and the captured context.\<close>

(* review/session.rs 1512-1516 finalize_turn *)
definition finalize_begin :: "string \<Rightarrow> session_status \<Rightarrow> review_app \<Rightarrow> comment_url_context option option \<times> review_app" where
  "finalize_begin t terminal a =
     (case on_registry (try_begin_terminal t terminal) a of
        (False, a) \<Rightarrow> (None, a)
      | (True, a) \<Rightarrow> (let (ctx, a) = on_registry (take_url_context t) a in (Some ctx, a)))"

(* review/session.rs 1515-1528 finalize_turn *)
definition finalize_url :: "review_env \<Rightarrow> string \<Rightarrow> nat \<Rightarrow> comment_url_context option \<Rightarrow> string option" where
  "finalize_url env wire_status pr ctx =
     (case ctx of None \<Rightarrow> None
      | Some c \<Rightarrow> if should_resolve_url wire_status then rve_comment_url env c pr else None)"

definition dispatch_skill_key :: "string \<Rightarrow> review_app \<Rightarrow> string option" where
  "dispatch_skill_key t a =
     (case registry_get t (ra_registry a) of
        Some info \<Rightarrow> Some (si_skill_key info)
      | None \<Rightarrow> (case get_session t (w_db (ra_world a)) of
          Inr (Some info) \<Rightarrow> Some (si_skill_key info) | _ \<Rightarrow> None))"

text \<open>The rest of the funnel; without a skill key it returns before the completion is signalled.\<close>

(* review/session.rs 1531-1611 finalize_turn *)
definition finalize_end ::
    "review_env \<Rightarrow> string \<Rightarrow> nat \<Rightarrow> string \<Rightarrow> session_status \<Rightarrow> string \<Rightarrow> string option \<Rightarrow> string option \<Rightarrow> review_app \<Rightarrow> review_app" where
  "finalize_end env project_id pr t terminal wire_status error url a =
     (let a = with_registry (set_status_and_comment_url t terminal url) a;
          a = (case stamped_db (store_set_status_and_comment_url t terminal url wire_status error) a of
                 (Inl e, a) \<Rightarrow> notify_persist_failure_once project_id a
               | (Inr _, a) \<Rightarrow> a);
          a = (case error of None \<Rightarrow> a | Some msg \<Rightarrow> emit_review (Review_Error project_id t msg) a);
          a = emit_review (Turn_Completed project_id t wire_status url) a;
          outcome = \<lparr>co_status = terminal, co_wire_status = wire_status, co_comment_url = url, co_error = error\<rparr>
      in case lifecycle_event_from_wire_status wire_status of
           None \<Rightarrow> with_registry (signal_completion t outcome) a
         | Some event \<Rightarrow>
             (case dispatch_skill_key t a of
                None \<Rightarrow> a
              | Some skill \<Rightarrow>
                  with_registry (signal_completion t outcome)
                    (snd (fire_lifecycle env \<lparr>rld_project_id = project_id, rld_pr_number = pr, rld_skill_key = skill,
                       rld_thread_id = t, rld_event = event, rld_comment_url = url\<rparr> a))))"

(* review/session.rs 1500-1612 finalize_turn *)
definition finalize_turn ::
    "review_env \<Rightarrow> string \<Rightarrow> nat \<Rightarrow> string \<Rightarrow> session_status \<Rightarrow> string \<Rightarrow> string option \<Rightarrow> review_app \<Rightarrow> review_app" where
  "finalize_turn env project_id pr t terminal wire_status error a =
     (case finalize_begin t terminal a of
        (None, a) \<Rightarrow> a
      | (Some ctx, a) \<Rightarrow>
          finalize_end env project_id pr t terminal wire_status error (finalize_url env wire_status pr ctx) a)"

(* review/session.rs 1614-1635 fire_failed_lifecycle *)
definition fire_failed_lifecycle :: "review_env \<Rightarrow> string \<Rightarrow> nat \<Rightarrow> string \<Rightarrow> string \<Rightarrow> review_app \<Rightarrow> review_app" where
  "fire_failed_lifecycle env project_id pr skill t a =
     snd (fire_lifecycle env \<lparr>rld_project_id = project_id, rld_pr_number = pr, rld_skill_key = skill,
       rld_thread_id = t, rld_event = Lifecycle_Failed, rld_comment_url = None\<rparr> a)"

section \<open>The pump\<close>

text \<open>
  The notifications of the Codex server that the pump tells apart, and what a receive on the broadcast
  channel returns.
\<close>

datatype server_notification =
  Agent_Message_Delta string string string
| Reasoning_Text_Delta string string string
| Turn_Completed_Note string string
| Connection_Closed
| Other_Note

datatype 'n received = Received 'n | Lagged nat | Channel_Closed

(* review/session.rs 1652-1688 map_notification *)
fun map_notification :: "server_notification \<Rightarrow> string \<Rightarrow> string \<Rightarrow> review_event option" where
  "map_notification (Agent_Message_Delta t item delta) project_id thread =
     (if t = thread then Some (Message_Delta project_id t item delta) else None)"
| "map_notification (Reasoning_Text_Delta t item delta) project_id thread =
     (if t = thread then Some (Reasoning_Delta project_id t item delta) else None)"
| "map_notification (Turn_Completed_Note t status) project_id thread =
     (if t = thread then Some (Turn_Completed project_id t status None) else None)"
| "map_notification _ project_id thread = None"

(* review/session.rs 1456-1474 fail_connection_closed *)
definition fail_connection_closed :: "review_env \<Rightarrow> string \<Rightarrow> nat \<Rightarrow> string \<Rightarrow> review_app \<Rightarrow> review_app" where
  "fail_connection_closed env project_id pr t =
     finalize_turn env project_id pr t Session_Failed ''failed'' (Some (''codex '' @ utf8 [0x8FDE, 0x63A5, 0x5DF2, 0x5173, 0x95ED]))"

text \<open>
  The pump over what it receives: the state when it stops, or when it has received everything so far and
  waits for more.
\<close>

(* review/session.rs 1360-1448 pump *)
fun pump :: "review_env \<Rightarrow> string \<Rightarrow> nat \<Rightarrow> string \<Rightarrow> server_notification received list \<Rightarrow> review_app \<Rightarrow> bool \<times> review_app" where
  "pump env project_id pr t [] a = (False, a)"
| "pump env project_id pr t (Received Connection_Closed # rest) a =
     (True, fail_connection_closed env project_id pr t a)"
| "pump env project_id pr t (Received (Turn_Completed_Note thread status) # rest) a =
     (if thread = t
      then (True, finalize_turn env project_id pr t (terminal_status status) status None a)
      else pump env project_id pr t rest a)"
| "pump env project_id pr t (Received note # rest) a =
     (case map_notification note project_id t of
        None \<Rightarrow> pump env project_id pr t rest a
      | Some event \<Rightarrow> pump env project_id pr t rest (persist_delta t event (emit_review event a)))"
| "pump env project_id pr t (Lagged n # rest) a =
     (True, finalize_turn env project_id pr t Session_Failed ''failed''
        (Some ((''codex '' @ utf8 [0x8F93, 0x51FA, 0x6D41, 0x6EDE, 0x540E, 0xFF0C, 0x4E22, 0x5F03] @ '' '') @ dec n @ ('' '' @ utf8 [0x6761, 0x6D88, 0x606F, 0xFF08] @ ''review '' @ utf8 [0x4E2D, 0x65AD, 0xFF09]))) a)"
| "pump env project_id pr t (Channel_Closed # rest) a =
     (True, fail_connection_closed env project_id pr t a)"

section \<open>Starting\<close>

(* review/engine.rs 47-52 StartReviewOutcome *)
datatype start_review_outcome = Started string | Deduped

text \<open>
  The beginning all engines share: reserve the pair, wait for the engine to name the session, commit the
  starting session. The reservation's guard releases the pair when an error leaves before the commit.
\<close>

(* review/session.rs 685-692 Drop for ReservationGuard *)
definition drop_guard :: "string \<Rightarrow> nat \<Rightarrow> string \<Rightarrow> review_app \<Rightarrow> review_app" where
  "drop_guard project_id pr skill = with_registry (release_pair project_id pr skill)"

definition starting_session :: "engine_kind \<Rightarrow> string \<Rightarrow> nat \<Rightarrow> string \<Rightarrow> string \<Rightarrow> string \<Rightarrow> nat \<Rightarrow> session_info" where
  "starting_session engine project_id pr skill t turn_id now =
     \<lparr>si_project_id = project_id, si_thread_id = t, si_turn_id = turn_id, si_pr_number = pr, si_skill_key = skill,
      si_engine_kind = engine, si_status = Session_Starting, si_created_at = now, si_comment_url = None\<rparr>"

definition reserve_and_commit ::
    "engine_kind \<Rightarrow> string \<Rightarrow> nat \<Rightarrow> string \<Rightarrow> (registry \<Rightarrow> string app_result) \<Rightarrow> comment_url_context \<Rightarrow> int option
      \<Rightarrow> review_app \<Rightarrow> session_info option app_result \<times> review_app" where
  "reserve_and_commit engine project_id pr skill name_session ctx claim a =
     (case on_registry (try_reserve_pair project_id pr skill) a of
        (False, a) \<Rightarrow> (Inr None, a)
      | (True, a) \<Rightarrow>
          (case name_session (ra_registry a) of
             Inl e \<Rightarrow> (Inl e, drop_guard project_id pr skill a)
           | Inr t \<Rightarrow>
               (let (now, a) = on_world now_epoch a;
                    starting = starting_session engine project_id pr skill t (if engine = Codex then [] else t) now
                in case commit_starting_session starting ctx claim a of
                     (Inl e, a) \<Rightarrow> (Inl e, drop_guard project_id pr skill a)
                   | (Inr _, a) \<Rightarrow> (Inr (Some starting), a))))"

(* review/session.rs 1723-1735 review_prompt *)
definition review_prompt :: "string \<Rightarrow> string \<Rightarrow> string \<Rightarrow> string app_result" where
  "review_prompt repo skill_name skill_command =
     try_bind (map_error AppError (validate_prompt_token ''skillName'' skill_name)) (\<lambda>_.
     try_bind (map_error AppError (validate_prompt_token ''command'' skill_command)) (\<lambda>_.
     try_bind (map_error AppError (validate_prompt_token ''repo'' repo)) (\<lambda>_.
     Inr (''Use the attached local project skill '' @ [CHR 0x60] @ skill_name @ [CHR 0x60] @ '' exactly. ''
       @ ''Execute '' @ [CHR 0x60] @ skill_command @ [CHR 0x60] @ '' for repository '' @ [CHR 0x60] @ repo @ [CHR 0x60] @ ''. ''
       @ ''Complete the full skill workflow, including posting the pm:pr-review ''
       @ ''comment and actually applying the label transition required by the skill. ''
       @ ''Do not stop at a label-transition suggestion. Do not use the built-in ''
       @ ''Codex review command.''))))"

text \<open>
  What a started Codex session still needs before its turn: the prompt and the skill path. An error here
  leaves the function after the guard was disarmed.
\<close>

definition codex_turn_input :: "string \<Rightarrow> skill_invocation \<Rightarrow> (string \<times> string) app_result" where
  "codex_turn_input repo invo =
     try_bind (review_prompt repo (inv_skill_name invo) (inv_command invo)) (\<lambda>prompt.
     try_bind (ok_or (inv_skill_path invo) (AppError ''Codex requires a resolved skill path'')) (\<lambda>path.
     Inr (prompt, path)))"

definition spawn_pump :: "string \<Rightarrow> nat \<Rightarrow> string \<Rightarrow> review_app \<Rightarrow> review_app" where
  "spawn_pump project_id pr t a =
     a\<lparr>ra_pumps := ra_pumps a @ [\<lparr>pt_project_id = project_id, pt_pr_number = pr, pt_thread_id = t\<rparr>]\<rparr>"

text \<open>The answers of the server: the connection, the new thread, the new turn.\<close>

(* review/session.rs 708-866 start_review *)
definition codex_start_review ::
    "review_env \<Rightarrow> string \<Rightarrow> string \<Rightarrow> nat \<Rightarrow> skill_invocation \<Rightarrow> comment_url_context \<Rightarrow> int option
      \<Rightarrow> unit app_result \<Rightarrow> string app_result \<Rightarrow> string app_result \<Rightarrow> review_app \<Rightarrow> start_review_outcome app_result \<times> review_app" where
  "codex_start_review env repo project_id pr invo ctx claim connection thread turn a =
     (case reserve_and_commit Codex project_id pr (inv_skill_key invo)
             (\<lambda>_. try_bind connection (\<lambda>_. thread)) ctx claim a of
        (Inl e, a) \<Rightarrow> (Inl e, a)
      | (Inr None, a) \<Rightarrow> (Inr Deduped, a)
      | (Inr (Some starting), a) \<Rightarrow>
          (let t = si_thread_id starting in
           case codex_turn_input repo invo of
             Inl e \<Rightarrow> (Inl e, a)
           | Inr _ \<Rightarrow>
               (case turn of
                  Inl e \<Rightarrow>
                    (Inl e, fire_failed_lifecycle env project_id pr (inv_skill_key invo) t
                      (persist_status t Session_Failed (with_registry (set_status t Session_Failed) a)))
                | Inr turn_id \<Rightarrow>
                    (let a = with_registry (set_running t turn_id) a;
                         a = snd (persist_session (starting\<lparr>si_turn_id := turn_id, si_status := Session_Running\<rparr>) a)
                     in (Inr (Started t), spawn_pump project_id pr t a)))))"

section \<open>Following up\<close>

text \<open>The beginning all engines share: make the session known, and take the turn.\<close>

(* review/session.rs 912-928 resume_turn *)
definition resume_begin ::
    "session_info \<Rightarrow> string \<Rightarrow> comment_url_context \<Rightarrow> review_app \<Rightarrow> unit app_result \<times> review_app" where
  "resume_begin durable t ctx a =
     (let a = (if registry_get t (ra_registry a) = None then with_registry (rehydrate durable ctx) a else a) in
      case on_registry (begin_resume t) a of
        (Resume_Proceed, a) \<Rightarrow> (Inr (), a)
      | (Resume_Busy, a) \<Rightarrow> (Inl (AppError ((''review '' @ utf8 [0x4F1A, 0x8BDD, 0x4ECD, 0x5728, 0x8FDB, 0x884C, 0x4E2D, 0xFF0C, 0x65E0, 0x6CD5, 0x7EED, 0x804A] @ '': '') @ t)), a)
      | (Resume_NotFound, a) \<Rightarrow> (Inl (AppError ((utf8 [0x672A, 0x627E, 0x5230] @ '' review '' @ utf8 [0x4F1A, 0x8BDD] @ '': '') @ t)), a))"

(* review/session.rs 1716-1718 codex_follow_up_start_error *)
definition codex_follow_up_start_error :: "app_error \<Rightarrow> app_error" where
  "codex_follow_up_start_error e = AppError ((''Codex '' @ utf8 [0x7EED, 0x804A] @ '' turn/start '' @ utf8 [0x5931, 0x8D25] @ '': '') @ message e)"

definition live_or :: "session_info \<Rightarrow> string \<Rightarrow> nat \<Rightarrow> string \<Rightarrow> string \<Rightarrow> session_status \<Rightarrow> review_app \<Rightarrow> session_info" where
  "live_or durable project_id pr t turn_id status a =
     (case registry_get t (ra_registry a) of
        Some info \<Rightarrow> info\<lparr>si_status := status\<rparr>
      | None \<Rightarrow> durable\<lparr>si_project_id := project_id, si_thread_id := t, si_turn_id := turn_id,
                  si_pr_number := pr, si_status := status\<rparr>)"

definition codex_resume_failed :: "string \<Rightarrow> review_app \<Rightarrow> review_app" where
  "codex_resume_failed t a =
     snd (on_registry (take_url_context t)
       (persist_status t Session_Failed (with_registry (set_status t Session_Failed) a)))"

(* review/session.rs 887-1024 resume_turn *)
definition codex_resume_turn ::
    "string \<Rightarrow> nat \<Rightarrow> session_info \<Rightarrow> string \<Rightarrow> string \<Rightarrow> string \<Rightarrow> comment_url_context
      \<Rightarrow> unit app_result \<Rightarrow> string app_result \<Rightarrow> review_app \<Rightarrow> unit app_result \<times> review_app" where
  "codex_resume_turn project_id pr durable t text user_item_id ctx connection turn a =
     (case resume_begin durable t ctx a of
        (Inl e, a) \<Rightarrow> (Inl e, a)
      | (Inr _, a) \<Rightarrow>
     (case connection of
        Inl e \<Rightarrow> (Inl e, codex_resume_failed t a)
      | Inr _ \<Rightarrow>
          (let a = persist_user_message project_id t user_item_id text a in
           case turn of
             Inl e \<Rightarrow> (Inl (codex_follow_up_start_error e), codex_resume_failed t a)
           | Inr turn_id \<Rightarrow>
               (let a = with_registry (set_running t turn_id) a;
                    info = (live_or durable project_id pr t turn_id Session_Running a)\<lparr>si_turn_id := turn_id\<rparr>;
                    a = snd (persist_session info a)
                in (Inr (), spawn_pump project_id pr t a)))))"

section \<open>Interrupting\<close>

(* review/session.rs 1070-1114 stop_review *)
definition codex_stop_review ::
    "bool \<Rightarrow> unit app_result \<Rightarrow> string \<Rightarrow> review_app \<Rightarrow> unit app_result \<times> review_app" where
  "codex_stop_review client interrupt t a =
     (case on_registry (begin_interrupt t) a of
        (Interrupt_AlreadyHandled, a) \<Rightarrow> (Inr (), a)
      | (Interrupt_NotFound, a) \<Rightarrow> (Inl (AppError ((utf8 [0x672A, 0x627E, 0x5230] @ '' review '' @ utf8 [0x4F1A, 0x8BDD] @ '': '') @ t)), a)
      | (Interrupt_Proceed turn_id, a) \<Rightarrow>
          if \<not> client then (Inr (), with_registry (rollback_interrupt t) a)
          else (case interrupt of
                  Inl e \<Rightarrow> (Inl e, with_registry (rollback_interrupt t) a)
                | Inr _ \<Rightarrow> (Inr (), a)))"

end
