(* ===== verification/Session_Interleaving.thy ===== *)
theory Session_Interleaving
  imports Session_Turns
begin

text \<open>
  Reviews of all engines running at once. A command, a pump or a watchdog is a task; between two of its
  awaits it runs one operation of the registry under the lock, and the tasks take their turns in any
  order. A task that still has something to do with the registry is in the list of tasks.
\<close>

section \<open>Tasks and their steps\<close>

text \<open>
  A start that owns its reservation, a start whose session is committed and whose turn is not yet running,
  and a funnel that has won the compare-and-set and is resolving the comment URL.
\<close>

datatype review_task =
  Reserving review_pair
| Committed string
| Finalizing string session_status

type_synonym review_tasks = "registry \<times> review_task list"

inductive review_step :: "review_tasks \<Rightarrow> review_tasks \<Rightarrow> bool" where
  Reserve: "try_reserve_pair p n sk reg = (True, reg') \<Longrightarrow>
    review_step (reg, ts) (reg', Reserving (p, n, sk) # ts)"
| Give_up: "Reserving (p, n, sk) \<in> set ts \<Longrightarrow>
    review_step (reg, ts) (release_pair p n sk reg, remove1 (Reserving (p, n, sk)) ts)"
| Commit: "Reserving (pair_of info) \<in> set ts \<Longrightarrow> registry_get (si_thread_id info) reg = None \<Longrightarrow>
    si_status info = Session_Starting \<Longrightarrow>
    review_step (reg, ts) (promote_reservation info ctx reg, Committed (si_thread_id info) # remove1 (Reserving (pair_of info)) ts)"
| Turn_runs: "Committed t \<in> set ts \<Longrightarrow>
    review_step (reg, ts) (set_running t turn_id reg, remove1 (Committed t) ts)"
| Turn_refused: "Committed t \<in> set ts \<Longrightarrow>
    review_step (reg, ts) (set_status t Session_Failed reg, remove1 (Committed t) ts)"
| Interrupt: "review_step (reg, ts) (snd (begin_interrupt t reg), ts)"
| Rollback: "review_step (reg, ts) (rollback_interrupt t reg, ts)"
| Turn_ends: "Committed t \<notin> set ts \<Longrightarrow> \<not> live terminal \<Longrightarrow> try_begin_terminal t terminal reg = (True, reg') \<Longrightarrow>
    review_step (reg, ts) (snd (take_url_context t reg'), Finalizing t terminal # ts)"
| Turn_ended: "Finalizing t terminal \<in> set ts \<Longrightarrow>
    review_step (reg, ts) (signal_completion t out (set_status_and_comment_url t terminal url reg), remove1 (Finalizing t terminal) ts)"

section \<open>One review per pull request and skill\<close>

text \<open>A live session covers its pair, and so does a reservation; no pair is covered twice.\<close>

definition one_review :: "registry \<Rightarrow> bool" where
  "one_review reg \<longleftrightarrow> registry_keyed reg \<and> distinct (rg_reserved reg) \<and>
     (\<forall>t s. registry_get t reg = Some s \<longrightarrow> live (si_status s) \<longrightarrow>
        pair_of s \<notin> set (rg_reserved reg) \<and>
        (\<forall>t' s'. registry_get t' reg = Some s' \<longrightarrow> live (si_status s') \<longrightarrow> pair_of s' = pair_of s \<longrightarrow> t' = t))"

definition task_ok :: "registry \<Rightarrow> review_task \<Rightarrow> bool" where
  "task_ok reg task = (case task of
     Reserving p \<Rightarrow> p \<in> set (rg_reserved reg)
   | Committed t \<Rightarrow> map_option si_status (registry_get t reg) = Some Session_Starting
   | Finalizing t terminal \<Rightarrow> \<not> live terminal \<and> (\<exists>s. registry_get t reg = Some s \<and> \<not> live (si_status s)))"

definition tasks_ok :: "review_tasks \<Rightarrow> bool" where
  "tasks_ok st = (case st of (reg, ts) \<Rightarrow> one_review reg \<and> distinct ts \<and> (\<forall>task \<in> set ts. task_ok reg task))"

text \<open>An edit that makes nothing live and keeps the pairs keeps the invariant of the registry.\<close>

lemma one_review_edit:
  assumes "one_review reg"
    and keep: "\<And>s. si_thread_id (f s) = si_thread_id s \<and> pair_of (f s) = pair_of s"
    and live: "\<And>s. registry_get t reg = Some s \<Longrightarrow> live (si_status (f s)) \<Longrightarrow> live (si_status s)"
  shows "one_review (edit_session t f reg)"
proof -
  have was: "\<exists>s. registry_get u reg = Some s \<and> live (si_status s) \<and> pair_of s' = pair_of s"
    if "registry_get u (edit_session t f reg) = Some s'" and "live (si_status s')" for u s'
    using that keep live by (auto split: if_splits)
  show ?thesis
    unfolding one_review_def
  proof (intro conjI allI impI)
    show "registry_keyed (edit_session t f reg)" "distinct (rg_reserved (edit_session t f reg))"
      using assms(1) keep by (simp_all add: one_review_def)
  next
    fix u s assume s: "registry_get u (edit_session t f reg) = Some s" "live (si_status s)"
    from was [OF this] assms(1) show "pair_of s \<notin> set (rg_reserved (edit_session t f reg))"
      by (auto simp: one_review_def)
    fix u' s' assume s': "registry_get u' (edit_session t f reg) = Some s'" "live (si_status s')" "pair_of s' = pair_of s"
    from was [OF s] was [OF s'(1,2)] s'(3) assms(1) show "u' = u"
      by (metis one_review_def)
  qed
qed

lemma one_review_other [simp]:
  "one_review (snd (take_url_context t reg)) = one_review reg"
  "one_review (signal_completion t out reg) = one_review reg"
  by (simp_all add: one_review_def) (simp_all add: take_url_context_def signal_completion_def)

lemma task_ok_other [simp]:
  "task_ok (snd (take_url_context t reg)) = task_ok reg"
  "task_ok (signal_completion t out reg) = task_ok reg"
  by (simp_all add: task_ok_def fun_eq_iff split: review_task.split) (simp_all add: take_url_context_def signal_completion_def)

lemma one_review_release: "one_review reg \<Longrightarrow> one_review (release_pair p n sk reg)"
  by (simp add: one_review_def) (auto simp: release_pair_def distinct_removeAll)

lemma one_review_reserve:
  assumes "one_review reg" and "try_reserve_pair p n sk reg = (True, reg')"
  shows "one_review reg'" and "rg_reserved reg' = (p, n, sk) # rg_reserved reg"
    and "(p, n, sk) \<notin> set (rg_reserved reg)" and "registry_get t reg' = registry_get t reg"
proof -
  from assms(2) have eq: "reg' = reg\<lparr>rg_reserved := (p, n, sk) # rg_reserved reg\<rparr>"
    and new: "\<not> covered (p, n, sk) reg" and fresh: "(p, n, sk) \<notin> set (rg_reserved reg)"
    by (auto simp: try_reserve_pair_def Let_def split: if_splits)
  show "rg_reserved reg' = (p, n, sk) # rg_reserved reg" "(p, n, sk) \<notin> set (rg_reserved reg)"
    using eq fresh by simp_all
  show get: "registry_get t reg' = registry_get t reg" for t by (simp add: eq registry_get_def)
  have uncovered: "pair_of s \<noteq> (p, n, sk)" if "registry_get t reg = Some s" "live (si_status s)" for t s
  proof -
    have "s \<in> set (registry_list reg)"
      using that(1) by (force simp: registry_get_def registry_list_def dest: map_of_SomeD)
    with new that(2) show ?thesis by (auto simp: covered_def list_ex_iff)
  qed
  have "registry_keyed reg'" using assms(1) by (simp add: eq one_review_def registry_keyed_def)
  then show "one_review reg'"
    using assms(1) fresh uncovered unfolding one_review_def get by (auto simp: eq)
qed

lemma one_review_commit:
  assumes "one_review reg" and "pair_of info \<in> set (rg_reserved reg)" and "registry_get (si_thread_id info) reg = None"
  shows "one_review (promote_reservation info ctx reg)"
proof -
  obtain p n sk where pair: "pair_of info = (p, n, sk)" by (cases "pair_of info")
  have eq: "promote_reservation info ctx reg = rehydrate info ctx (release_pair p n sk reg)"
    using pair by (simp add: promote_reservation_def pair_of_def)
  have res: "rg_reserved (promote_reservation info ctx reg) = removeAll (pair_of info) (rg_reserved reg)"
    by (simp add: eq rehydrate_def release_pair_def pair)
  have get: "registry_get u (promote_reservation info ctx reg) = (if u = si_thread_id info then Some info else registry_get u reg)" for u
    by (simp add: eq)
  have old: "pair_of s \<noteq> pair_of info" if "registry_get u reg = Some s" "live (si_status s)" for u s
    using that assms(1,2) by (metis one_review_def)
  have "registry_keyed (promote_reservation info ctx reg)" using assms(1) by (simp add: eq one_review_def)
  moreover have "distinct (removeAll (pair_of info) (rg_reserved reg))"
    using assms(1) by (simp add: one_review_def distinct_removeAll)
  ultimately show ?thesis
    using assms(1) old unfolding one_review_def get res by (auto split: if_splits) metis+
qed

lemma task_ok_edit:
  assumes "task_ok reg task"
    and "\<And>s. registry_get t reg = Some s \<Longrightarrow> si_status s = Session_Starting \<Longrightarrow> task \<noteq> Committed t \<or> si_status (f s) = Session_Starting"
    and "\<And>s. registry_get t reg = Some s \<Longrightarrow> \<not> live (si_status s) \<Longrightarrow> \<not> live (si_status (f s))"
  shows "task_ok (edit_session t f reg) task"
  using assms by (cases task) (auto simp: task_ok_def)

lemma review_step_ok: "review_step st st' \<Longrightarrow> tasks_ok st \<Longrightarrow> tasks_ok st'"
proof (induction rule: review_step.induct)
  case (Reserve p n sk reg reg' ts)
  then have ok: "one_review reg" and ts: "distinct ts" "\<forall>task \<in> set ts. task_ok reg task" by (auto simp: tasks_ok_def)
  note new = one_review_reserve [OF ok Reserve.hyps]
  have "Reserving (p, n, sk) \<notin> set ts" using ts(2) new(3) by (auto simp: task_ok_def)
  moreover have "task_ok reg' task" if "task_ok reg task" for task
    using that by (cases task) (auto simp: task_ok_def new(2,4))
  moreover have "task_ok reg' (Reserving (p, n, sk))" by (simp add: task_ok_def new(2))
  ultimately show ?case using ts new(1) by (simp add: tasks_ok_def)
next
  case (Give_up p n sk ts reg)
  have "task_ok (release_pair p n sk reg) task" if "task_ok reg task" "task \<noteq> Reserving (p, n, sk)" for task
    using that by (cases task) (auto simp: task_ok_def release_pair_def registry_get_def)
  with Give_up show ?case by (auto simp: tasks_ok_def one_review_release distinct_remove1 dest: notin_set_remove1)
next
  case (Commit info ts reg ctx)
  then have ok: "one_review reg" and ts: "distinct ts" "\<forall>task \<in> set ts. task_ok reg task" by (auto simp: tasks_ok_def)
  have get: "registry_get u (promote_reservation info ctx reg) = (if u = si_thread_id info then Some info else registry_get u reg)" for u
    by (simp add: promote_reservation_def)
  have res: "rg_reserved (promote_reservation info ctx reg) = removeAll (pair_of info) (rg_reserved reg)"
    by (simp add: promote_reservation_def rehydrate_def release_pair_def pair_of_def)
  have "pair_of info \<in> set (rg_reserved reg)" using Commit.hyps(1) ts(2) by (auto simp: task_ok_def)
  then have "one_review (promote_reservation info ctx reg)" using one_review_commit [OF ok] Commit.hyps(2) by simp
  moreover have "task_ok (promote_reservation info ctx reg) task"
    if "task_ok reg task" "task \<noteq> Reserving (pair_of info)" for task
    using that Commit.hyps(2) by (cases task) (auto simp: task_ok_def get res)
  moreover have "Committed (si_thread_id info) \<notin> set ts" using ts(2) Commit.hyps(2) by (auto simp: task_ok_def)
  moreover have "task_ok (promote_reservation info ctx reg) (Committed (si_thread_id info))"
    using Commit.hyps(3) by (simp add: task_ok_def get)
  ultimately show ?case using ts by (auto simp: tasks_ok_def dest: notin_set_remove1)
next
  case (Turn_runs t ts reg turn_id)
  let ?f = "\<lambda>s. s\<lparr>si_turn_id := turn_id, si_status := Session_Running\<rparr>"
  have ok: "one_review reg" and ts: "distinct ts" "\<forall>task \<in> set ts. task_ok reg task"
    using Turn_runs by (auto simp: tasks_ok_def)
  have start: "map_option si_status (registry_get t reg) = Some Session_Starting"
    using ts(2) Turn_runs.hyps by (auto simp: task_ok_def)
  then have "one_review (set_running t turn_id reg)"
    unfolding set_running_def by (intro one_review_edit [OF ok]) (auto simp: pair_of_def)
  moreover have "task_ok (set_running t turn_id reg) task" if "task_ok reg task" "task \<noteq> Committed t" for task
    unfolding set_running_def using start that by (intro task_ok_edit) auto
  ultimately show ?case using ts by (auto simp: tasks_ok_def)
next
  case (Turn_refused t ts reg)
  have ok: "one_review reg" and ts: "distinct ts" "\<forall>task \<in> set ts. task_ok reg task"
    using Turn_refused by (auto simp: tasks_ok_def)
  have "one_review (set_status t Session_Failed reg)"
    unfolding set_status_def by (intro one_review_edit [OF ok]) (auto simp: pair_of_def)
  moreover have "task_ok (set_status t Session_Failed reg) task" if "task_ok reg task" "task \<noteq> Committed t" for task
    unfolding set_status_def using that by (intro task_ok_edit) auto
  ultimately show ?case using ts by (auto simp: tasks_ok_def)
next
  case (Interrupt reg ts t)
  have ok: "one_review reg" and ts: "distinct ts" "\<forall>task \<in> set ts. task_ok reg task"
    using Interrupt by (auto simp: tasks_ok_def)
  have cases: "snd (begin_interrupt t reg) = reg \<or>
      snd (begin_interrupt t reg) = set_status t Session_Interrupting reg \<and> map_option si_status (registry_get t reg) = Some Session_Running"
    by (auto simp: begin_interrupt_def split: option.splits)
  have "one_review (set_status t Session_Interrupting reg) \<and> (\<forall>task. task_ok reg task \<longrightarrow> task_ok (set_status t Session_Interrupting reg) task)"
    if "map_option si_status (registry_get t reg) = Some Session_Running"
    using that unfolding set_status_def
    by (auto intro!: one_review_edit [OF ok] task_ok_edit simp: pair_of_def)
  with cases ok ts show ?case by (auto simp: tasks_ok_def)
next
  case (Rollback reg ts t)
  have ok: "one_review reg" and ts: "distinct ts" "\<forall>task \<in> set ts. task_ok reg task"
    using Rollback by (auto simp: tasks_ok_def)
  have "one_review (rollback_interrupt t reg)"
    unfolding rollback_interrupt_def by (intro one_review_edit [OF ok]) (auto simp: pair_of_def live_def)
  moreover have "task_ok (rollback_interrupt t reg) task" if "task_ok reg task" for task
    unfolding rollback_interrupt_def using that by (intro task_ok_edit) (auto simp: live_def)
  ultimately show ?case using ts by (auto simp: tasks_ok_def)
next
  case (Turn_ends t ts terminal reg reg')
  have ok: "one_review reg" and ts: "distinct ts" "\<forall>task \<in> set ts. task_ok reg task"
    using Turn_ends by (auto simp: tasks_ok_def)
  from Turn_ends.hyps(3) obtain info where info: "registry_get t reg = Some info" "live (si_status info)"
    and eq: "reg' = set_status t terminal reg"
    by (auto simp: try_begin_terminal_def split: option.splits if_splits)
  have "one_review reg'"
    unfolding eq set_status_def using Turn_ends.hyps(2) by (intro one_review_edit [OF ok]) (auto simp: pair_of_def)
  moreover have "task_ok reg' task" if "task_ok reg task" "task \<noteq> Committed t" for task
    unfolding eq set_status_def using that Turn_ends.hyps(2) by (intro task_ok_edit) auto
  moreover have "task_ok reg' (Finalizing t terminal)" using info Turn_ends.hyps(2) by (simp add: task_ok_def eq set_status_def)
  moreover have "Finalizing t terminal \<notin> set ts" using info ts(2) by (auto simp: task_ok_def)
  ultimately show ?case using ts Turn_ends.hyps(1) by (auto simp: tasks_ok_def)
next
  case (Turn_ended t terminal ts reg out url)
  have ok: "one_review reg" and ts: "distinct ts" "\<forall>task \<in> set ts. task_ok reg task"
    using Turn_ended by (auto simp: tasks_ok_def)
  have fin: "\<not> live terminal" "\<exists>s. registry_get t reg = Some s \<and> \<not> live (si_status s)"
    using ts(2) Turn_ended.hyps by (auto simp: task_ok_def)
  have "one_review (set_status_and_comment_url t terminal url reg)"
    unfolding set_status_and_comment_url_def using fin by (intro one_review_edit [OF ok]) (auto simp: pair_of_def)
  moreover have "task_ok (set_status_and_comment_url t terminal url reg) task" if "task_ok reg task" for task
    unfolding set_status_and_comment_url_def using that fin by (intro task_ok_edit) auto
  ultimately show ?case using ts by (auto simp: tasks_ok_def)
qed

text \<open>
  C2. However many reviews start, run, are interrupted and end at once, in any interleaving: the pairs a
  project has live or reserved are distinct, so a pull request never has two reviews of one skill. This
  is for reviews without follow-ups; a follow-up does not look at the pair.
\<close>

theorem one_review_per_pair:
  assumes "review_step\<^sup>*\<^sup>* (empty_registry, []) (reg, ts)"
  shows "distinct (active_pairs project_id reg)"
proof -
  have "tasks_ok (empty_registry, [])" by (simp add: tasks_ok_def one_review_def empty_registry_def registry_get_def registry_keyed_def)
  with assms have "tasks_ok (reg, ts)"
    by (induction rule: rtranclp_induct) (auto intro: review_step_ok)
  then have ok: "one_review reg" by (simp add: tasks_ok_def)
  let ?mine = "\<lambda>s. si_project_id s = project_id \<and> live (si_status s)" and ?pair = "\<lambda>s. (si_pr_number s, si_skill_key s)"
  have get: "registry_get (si_thread_id s) reg = Some s" if "s \<in> set (registry_list reg)" for s
    using ok that registry_list_iff by (auto simp: one_review_def)
  have pair: "pair_of s = (si_project_id s, ?pair s)" for s by (simp add: pair_of_def)
  have "inj_on ?pair (set (filter ?mine (registry_list reg)))"
  proof (rule inj_onI)
    fix s s' assume "s \<in> set (filter ?mine (registry_list reg))" "s' \<in> set (filter ?mine (registry_list reg))" "?pair s = ?pair s'"
    with get [of s] get [of s'] ok have "si_thread_id s' = si_thread_id s" "registry_get (si_thread_id s) reg = Some s"
        "registry_get (si_thread_id s') reg = Some s'"
      unfolding one_review_def pair by auto
    then show "s = s'" by simp
  qed
  moreover have "distinct (registry_list reg)"
  proof -
    have "inj_on snd (set (rg_sessions reg))"
      using ok by (auto simp: one_review_def registry_keyed_def intro!: inj_onI) (metis snd_conv fst_conv)
    then show ?thesis using ok by (auto simp: one_review_def registry_keyed_def registry_list_def distinct_map)
  qed
  ultimately have live: "distinct (map ?pair (filter ?mine (registry_list reg)))"
    by (simp add: distinct_map)
  have "inj_on snd (set (filter (\<lambda>p. fst p = project_id) (rg_reserved reg)))" by (auto intro!: inj_onI)
  then have reserved: "distinct (map snd (filter (\<lambda>p. fst p = project_id) (rg_reserved reg)))"
    using ok by (simp add: distinct_map one_review_def)
  have "?pair s \<notin> snd ` {p \<in> set (rg_reserved reg). fst p = project_id}" if "s \<in> set (filter ?mine (registry_list reg))" for s
  proof
    assume "?pair s \<in> snd ` {p \<in> set (rg_reserved reg). fst p = project_id}"
    then have "pair_of s \<in> set (rg_reserved reg)" using that by (auto simp: pair)
    with get [of s] ok that show False by (auto simp: one_review_def)
  qed
  with live reserved show ?thesis by (auto simp: active_pairs_def)
qed

text \<open>A run with a reservation, its session and a refused second start.\<close>

definition sample_context :: comment_url_context where
  "sample_context = \<lparr>cuc_gh = None, cuc_source_kind = Github, cuc_repo = ''o/r'', cuc_azure_org = [], cuc_azure_project = []\<rparr>"

definition sample_starting :: session_info where
  "sample_starting = starting_session Codex ''p'' 7 ''s'' ''t1'' [] 10"

definition sample_registry :: registry where
  "sample_registry = promote_reservation sample_starting sample_context (snd (try_reserve_pair ''p'' 7 ''s'' empty_registry))"

theorem one_review_per_pair_witness:
  "active_pairs ''p'' sample_registry = [(7, ''s'')] \<and> distinct (active_pairs ''p'' sample_registry) \<and>
    try_reserve_pair ''p'' 7 ''s'' sample_registry = (False, sample_registry)"
proof (intro conjI)
  show "active_pairs ''p'' sample_registry = [(7, ''s'')]" "try_reserve_pair ''p'' 7 ''s'' sample_registry = (False, sample_registry)"
    by code_simp+
  have one: "review_step (empty_registry, []) (snd (try_reserve_pair ''p'' 7 ''s'' empty_registry), [Reserving (''p'', 7, ''s'')])"
    by (rule Reserve) code_simp
  have two: "review_step (snd (try_reserve_pair ''p'' 7 ''s'' empty_registry), [Reserving (''p'', 7, ''s'')])
      (sample_registry, [Committed ''t1''])"
    using Commit [of sample_starting "[Reserving (''p'', 7, ''s'')]" "snd (try_reserve_pair ''p'' 7 ''s'' empty_registry)" sample_context]
    by (simp add: sample_registry_def sample_starting_def starting_session_def pair_of_def registry_get_def try_reserve_pair_def
        empty_registry_def covered_def registry_list_def)
  have "review_step\<^sup>*\<^sup>* (empty_registry, []) (sample_registry, [Committed ''t1''])"
    using one two by (simp add: rtranclp.rtrancl_into_rtrancl)
  then show "distinct (active_pairs ''p'' sample_registry)" by (rule one_review_per_pair)
qed

text \<open>
  A follow-up does not look at the pair: when a second review of the pair runs, following up the first
  makes both live.
\<close>

definition sample_second :: session_info where
  "sample_second = starting_session Codex ''p'' 7 ''s'' ''t2'' [] 20"

definition sample_two_reviews :: registry where
  "sample_two_reviews = promote_reservation sample_second sample_context (snd (try_reserve_pair ''p'' 7 ''s''
     (snd (try_begin_terminal ''t1'' Session_Done sample_registry))))"

lemma follow_up_ignores_pair:
  "active_pairs ''p'' sample_two_reviews = [(7, ''s'')] \<and>
   fst (begin_resume ''t1'' sample_two_reviews) = Resume_Proceed \<and>
   active_pairs ''p'' (snd (begin_resume ''t1'' sample_two_reviews)) = [(7, ''s''), (7, ''s'')]"
  by code_simp

end
