(* ===== verification/Session_Engines.thy ===== *)
theory Session_Engines
  imports Session_Turns
begin

text \<open>
  The Cursor and Claude engines (\<open>review/engines/cursor/engine.rs\<close>, \<open>review/engines/claude/engine.rs\<close>).
  Both share the registry and the terminal funnel with Codex. What the managers and child processes
  answer is an argument; a pump runs over the list of what its \<open>select!\<close> takes next.
\<close>

section \<open>Cursor\<close>

text \<open>What the engine reads of the resident connection.\<close>

record cursor_view =
  cv_live :: bool
  cv_model :: "string option"
  cv_generation :: "nat option"
  cv_client :: bool

(* review/engines/cursor/manager.rs 21-21 CURSOR_ACP_UNAVAILABLE *)
definition cursor_acp_unavailable :: string where
  "cursor_acp_unavailable = (''cursor ACP '' @ utf8 [0x8FDE, 0x63A5, 0x4E0D, 0x53EF, 0x7528])"

(* review/engines/cursor/manager.rs 23-24 CURSOR_ACP_MODEL_BUSY_MSG *)
definition cursor_acp_model_busy_msg :: string where
  "cursor_acp_model_busy_msg = (''cursor ACP '' @ utf8 [0x6A21, 0x578B, 0x4E0E, 0x5E38, 0x9A7B, 0x8FDB, 0x7A0B, 0x4E0D, 0x4E00, 0x81F4, 0xFF0C, 0x8BF7, 0x5148, 0x505C, 0x6B62, 0x8FDB, 0x884C, 0x4E2D, 0x7684] @ '' review '' @ utf8 [0x6216, 0x505C, 0x6B62] @ '' ACP '' @ utf8 [0x540E, 0x518D, 0x5207, 0x6362, 0x6A21, 0x578B])"

(* review/engines/cursor/engine.rs 27-27 LAGGED_ABORT_MESSAGE *)
definition lagged_abort_message :: string where
  "lagged_abort_message = (''cursor ACP '' @ utf8 [0x8F93, 0x51FA, 0x6D41, 0x6EDE, 0x540E, 0xFF0C, 0x5DF2, 0x4E2D, 0x6B62])"

(* review/engines/cursor/engine.rs 418-428 map_stop_reason *)
definition map_stop_reason :: "string \<Rightarrow> session_status \<times> string \<times> string option" where
  "map_stop_reason r =
     (if r = ''end_turn'' \<or> r = ''endTurn'' \<or> r = [] then (Session_Done, ''completed'', None)
      else if r = ''cancelled'' \<or> r = ''canceled'' then (Session_Done, ''interrupted'', None)
      else (Session_Failed, ''failed'', Some (''cursor ACP stopReason='' @ r)))"

(* review/engines/cursor/engine.rs 431-443 cursor_resume_model_ok *)
definition cursor_resume_model_ok :: "string \<Rightarrow> string option \<Rightarrow> unit app_result" where
  "cursor_resume_model_ok desired live_spawn_model =
     (let desired = trim desired in
      if desired = [] \<or> live_spawn_model = Some desired then Inr ()
      else Inl (AppError cursor_stale_session_msg))"

text \<open>The name of the new session, unless a review in flight holds the connection to another model.\<close>

(* review/engines/cursor/engine.rs 129-154 start_review *)
definition cursor_name_session ::
    "cursor_view \<Rightarrow> string \<Rightarrow> nat app_result \<Rightarrow> string app_result \<Rightarrow> registry \<Rightarrow> string app_result" where
  "cursor_name_session view model connection session_new reg =
     (let desired = trim model in
      if has_in_flight_cursor reg \<and> cv_live view \<and>
         (case cv_model view of None \<Rightarrow> False | Some m \<Rightarrow> desired \<noteq> [] \<and> m \<noteq> desired)
      then Inl (AppError cursor_acp_model_busy_msg)
      else try_bind connection (\<lambda>_. session_new))"

text \<open>The engines whose turn runs as soon as the session is known.\<close>

definition mark_running :: "session_info \<Rightarrow> review_app \<Rightarrow> review_app" where
  "mark_running starting a = snd (persist_session (starting\<lparr>si_status := Session_Running\<rparr>) a)"

(* review/engines/cursor/engine.rs 104-196 start_review *)
definition cursor_start_review ::
    "cursor_view \<Rightarrow> string \<Rightarrow> string \<Rightarrow> nat \<Rightarrow> skill_invocation \<Rightarrow> comment_url_context \<Rightarrow> int option
      \<Rightarrow> nat app_result \<Rightarrow> string app_result \<Rightarrow> review_app \<Rightarrow> start_review_outcome app_result \<times> review_app" where
  "cursor_start_review view model project_id pr invo ctx claim connection session_new a =
     (case reserve_and_commit Cursor project_id pr (inv_skill_key invo)
             (cursor_name_session view model connection session_new) ctx claim a of
        (Inl e, a) \<Rightarrow> (Inl e, a)
      | (Inr None, a) \<Rightarrow> (Inr Deduped, a)
      | (Inr (Some starting), a) \<Rightarrow>
          (let t = si_thread_id starting;
               a = with_registry (set_running t t) a;
               a = (case connection of Inl e \<Rightarrow> a | Inr gen \<Rightarrow> with_registry (bind_cursor_generation t gen) a)
           in (Inr (Started t), spawn_pump project_id pr t (mark_running starting a))))"

(* review/engines/cursor/engine.rs 499-523 persist_session_status *)
definition persist_session_status ::
    "string \<Rightarrow> string \<Rightarrow> nat \<Rightarrow> session_info \<Rightarrow> session_status \<Rightarrow> review_app \<Rightarrow> review_app" where
  "persist_session_status project_id t pr durable status a =
     snd (persist_session (live_or durable project_id pr t t status a) a)"

(* review/engines/cursor/engine.rs 526-548 resume_fail_closed *)
definition resume_fail_closed ::
    "string \<Rightarrow> string \<Rightarrow> nat \<Rightarrow> session_info \<Rightarrow> app_error \<Rightarrow> review_app \<Rightarrow> unit app_result \<times> review_app" where
  "resume_fail_closed project_id t pr durable err a =
     (let a = with_registry (set_status t Session_Failed) a;
          a = persist_session_status project_id t pr durable Session_Failed a;
          a = snd (on_registry (take_url_context t) a)
      in (Inl err, snd (on_registry (take_cursor_generation t) a)))"

(* review/engines/cursor/engine.rs 199-292 resume_review *)
definition cursor_resume_review ::
    "cursor_view \<Rightarrow> string \<Rightarrow> string \<Rightarrow> nat \<Rightarrow> session_info \<Rightarrow> string \<Rightarrow> string \<Rightarrow> string \<Rightarrow> comment_url_context
      \<Rightarrow> review_app \<Rightarrow> unit app_result \<times> review_app" where
  "cursor_resume_review view model project_id pr durable t text user_item_id ctx a =
     (case resume_begin durable t ctx a of
        (Inl e, a) \<Rightarrow> (Inl e, a)
      | (Inr _, a) \<Rightarrow>
     (case require_cursor_generation t (cv_generation view) (ra_registry a) of
        Inl e \<Rightarrow> resume_fail_closed project_id t pr durable e a
      | Inr _ \<Rightarrow>
     (case cursor_resume_model_ok model (cv_model view) of
        Inl e \<Rightarrow> resume_fail_closed project_id t pr durable e a
      | Inr _ \<Rightarrow>
          if \<not> cv_client view then resume_fail_closed project_id t pr durable (AppError cursor_acp_unavailable) a
          else
            (let a = persist_user_message project_id t user_item_id text a;
                 a = persist_session_status project_id t pr durable Session_Running a
             in (Inr (), spawn_pump project_id pr t a)))))"

datatype cursor_note = Agent_Message_Chunk string string | Cursor_Connection_Closed | Cursor_Other

datatype cursor_input = Prompt_Result "string app_result" | Cursor_Note "cursor_note received"

(* review/engines/cursor/engine.rs 445-473 emit_and_persist *)
definition cursor_emit_and_persist :: "string \<Rightarrow> string \<Rightarrow> string \<Rightarrow> string \<Rightarrow> review_app \<Rightarrow> review_app" where
  "cursor_emit_and_persist project_id t item_id text a =
     append_or_notify project_id t item_id Item_Message text (emit_review (Message_Delta project_id t item_id text) a)"

(* review/engines/cursor/engine.rs 297-416 pump *)
fun cursor_pump :: "review_env \<Rightarrow> string \<Rightarrow> nat \<Rightarrow> string \<Rightarrow> cursor_input list \<Rightarrow> review_app \<Rightarrow> bool \<times> review_app" where
  "cursor_pump env project_id pr t [] a = (False, a)"
| "cursor_pump env project_id pr t (Prompt_Result (Inr stop_reason) # rest) a =
     (let (status, wire_status, error) = map_stop_reason stop_reason
      in (True, finalize_turn env project_id pr t status wire_status error a))"
| "cursor_pump env project_id pr t (Prompt_Result (Inl e) # rest) a =
     (True, finalize_turn env project_id pr t Session_Failed ''failed'' (Some (message e)) a)"
| "cursor_pump env project_id pr t (Cursor_Note (Received (Agent_Message_Chunk sid text)) # rest) a =
     (if sid = t \<and> text \<noteq> [] \<and> \<not> is_terminal t (ra_registry a)
      then cursor_pump env project_id pr t rest (cursor_emit_and_persist project_id t (t @ '':assistant'') text a)
      else cursor_pump env project_id pr t rest a)"
| "cursor_pump env project_id pr t (Cursor_Note (Received Cursor_Connection_Closed) # rest) a =
     (True, finalize_turn env project_id pr t Session_Failed ''failed'' (Some (''cursor ACP '' @ utf8 [0x8FDE, 0x63A5, 0x5DF2, 0x5173, 0x95ED])) a)"
| "cursor_pump env project_id pr t (Cursor_Note (Received Cursor_Other) # rest) a =
     cursor_pump env project_id pr t rest a"
| "cursor_pump env project_id pr t (Cursor_Note (Lagged n) # rest) a =
     (True, finalize_turn env project_id pr t Session_Failed ''failed'' (Some lagged_abort_message) a)"
| "cursor_pump env project_id pr t (Cursor_Note Channel_Closed # rest) a =
     (True, finalize_turn env project_id pr t Session_Failed ''failed'' (Some (''cursor ACP '' @ utf8 [0x901A, 0x77E5, 0x901A, 0x9053, 0x5DF2, 0x5173, 0x95ED])) a)"

text \<open>After a cancel was sent, a watchdog ends the turn if nothing else has.\<close>

(* review/session.rs 1134-1160 arm_cursor_cancel_watchdog *)
definition cursor_cancel_watchdog :: "review_env \<Rightarrow> string \<Rightarrow> nat \<Rightarrow> string \<Rightarrow> review_app \<Rightarrow> review_app" where
  "cursor_cancel_watchdog env project_id pr t a =
     (if is_terminal t (ra_registry a) then a
      else finalize_turn env project_id pr t Session_Done ''interrupted'' None a)"

(* review/session.rs 1163-1214 stop_cursor_review *)
definition stop_cursor_review ::
    "review_env \<Rightarrow> bool \<Rightarrow> unit app_result \<Rightarrow> string \<Rightarrow> review_app \<Rightarrow> unit app_result \<times> review_app" where
  "stop_cursor_review env client cancel t a =
     (case on_registry (begin_interrupt t) a of
        (Interrupt_AlreadyHandled, a) \<Rightarrow> (Inr (), a)
      | (Interrupt_NotFound, a) \<Rightarrow> (Inl (AppError ((utf8 [0x672A, 0x627E, 0x5230] @ '' review '' @ utf8 [0x4F1A, 0x8BDD] @ '': '') @ t)), a)
      | (Interrupt_Proceed _, a) \<Rightarrow>
          if \<not> client then
            (case registry_get t (ra_registry a) of
               None \<Rightarrow> (Inl (AppError ((utf8 [0x672A, 0x627E, 0x5230] @ '' review '' @ utf8 [0x4F1A, 0x8BDD] @ '': '') @ t)), with_registry (rollback_interrupt t) a)
             | Some info \<Rightarrow>
                 (Inr (), finalize_turn env (si_project_id info) (si_pr_number info) t Session_Done ''interrupted'' None a))
          else
            (case cancel of
               Inl e \<Rightarrow> (Inl e, with_registry (rollback_interrupt t) a)
             | Inr _ \<Rightarrow>
                 (case registry_get t (ra_registry a) of
                    None \<Rightarrow> (Inr (), a)
                  | Some info \<Rightarrow>
                      (Inr (), a\<lparr>ra_watchdogs := ra_watchdogs a @ [\<lparr>pt_project_id = si_project_id info,
                         pt_pr_number = si_pr_number info, pt_thread_id = t\<rparr>]\<rparr>))))"

section \<open>Claude\<close>

(* review/engines/claude/manager.rs 45-47 ClaudeManager::register *)
definition claude_register :: "string \<Rightarrow> review_app \<Rightarrow> review_app" where
  "claude_register t a = a\<lparr>ra_claude := List.insert t (ra_claude a)\<rparr>"

(* review/engines/claude/manager.rs 52-54 ClaudeManager::deregister *)
definition claude_deregister :: "string \<Rightarrow> review_app \<Rightarrow> review_app" where
  "claude_deregister t a = a\<lparr>ra_claude := removeAll t (ra_claude a)\<rparr>"

text \<open>Stopping removes the sender and sends the cancel, which the pump receives.\<close>

(* review/engines/claude/manager.rs 65-74 ClaudeManager::stop *)
definition claude_stop :: "string \<Rightarrow> review_app \<Rightarrow> bool \<times> review_app" where
  "claude_stop t a = (t \<in> set (ra_claude a), claude_deregister t a)"

(* review/engines/claude/process.rs 107-122 ParsedEvent *)
datatype parsed_event =
  Session_Started string
| Parsed_Message string string
| Parsed_Reasoning string string
| Parsed_Result bool string

(* review/engines/claude/engine.rs 209-220 start_review *)
definition claude_name_session :: "unit app_result \<Rightarrow> string option app_result \<Rightarrow> string app_result" where
  "claude_name_session spawned init =
     try_bind spawned (\<lambda>_. try_bind init (\<lambda>i.
     ok_or i (AppError (''claude '' @ utf8 [0x672A, 0x8F93, 0x51FA, 0x4F1A, 0x8BDD] @ '' init'' @ utf8 [0xFF08, 0x672A, 0x767B, 0x5F55, 0x6216, 0x542F, 0x52A8, 0x5931, 0x8D25, 0xFF1F, 0xFF09]))))"

(* review/engines/claude/engine.rs 149-279 start_review *)
definition claude_start_review ::
    "string \<Rightarrow> nat \<Rightarrow> skill_invocation \<Rightarrow> comment_url_context \<Rightarrow> int option
      \<Rightarrow> unit app_result \<Rightarrow> string option app_result \<Rightarrow> review_app \<Rightarrow> start_review_outcome app_result \<times> review_app" where
  "claude_start_review project_id pr invo ctx claim spawned init a =
     (case reserve_and_commit Claude project_id pr (inv_skill_key invo) (\<lambda>_. claude_name_session spawned init) ctx claim a of
        (Inl e, a) \<Rightarrow> (Inl e, a)
      | (Inr None, a) \<Rightarrow> (Inr Deduped, a)
      | (Inr (Some starting), a) \<Rightarrow>
          (let t = si_thread_id starting;
               a = mark_running starting (with_registry (set_running t t) a)
           in (Inr (Started t), spawn_pump project_id pr t (claude_register t a))))"

(* review/engines/claude/engine.rs 753-782 finish *)
definition claude_finish ::
    "review_env \<Rightarrow> string \<Rightarrow> nat \<Rightarrow> string \<Rightarrow> session_status \<Rightarrow> string \<Rightarrow> string option \<Rightarrow> review_app \<Rightarrow> review_app" where
  "claude_finish env project_id pr t status wire_status error a =
     claude_deregister t (finalize_turn env project_id pr t status wire_status error a)"

text \<open>What the follow-up waits for first: the cancel, or the init line.\<close>

datatype claude_init = Init_Cancelled | Init_Answer "string option app_result"

definition claude_resume_failed :: "string \<Rightarrow> string \<Rightarrow> nat \<Rightarrow> session_info \<Rightarrow> review_app \<Rightarrow> review_app" where
  "claude_resume_failed project_id t pr durable a =
     (let a = with_registry (set_status t Session_Failed) a;
          a = persist_session_status project_id t pr durable Session_Failed a
      in claude_deregister t (snd (on_registry (take_url_context t) a)))"

(* review/engines/claude/engine.rs 300-482 resume_review *)
definition claude_resume_review ::
    "review_env \<Rightarrow> string \<Rightarrow> nat \<Rightarrow> session_info \<Rightarrow> string \<Rightarrow> string \<Rightarrow> string \<Rightarrow> comment_url_context
      \<Rightarrow> unit app_result \<Rightarrow> claude_init \<Rightarrow> review_app \<Rightarrow> unit app_result \<times> review_app" where
  "claude_resume_review env project_id pr durable t text user_item_id ctx spawned init a =
     (case resume_begin durable t ctx a of
        (Inl e, a) \<Rightarrow> (Inl e, a)
      | (Inr _, a) \<Rightarrow>
     (let a = claude_register t a in
      case spawned of
        Inl e \<Rightarrow> (Inl e, claude_resume_failed project_id t pr durable a)
      | Inr _ \<Rightarrow>
     (case init of
        Init_Cancelled \<Rightarrow> (Inr (), claude_finish env project_id pr t Session_Done ''interrupted'' None a)
      | Init_Answer (Inl e) \<Rightarrow> (Inl e, claude_resume_failed project_id t pr durable a)
      | Init_Answer (Inr None) \<Rightarrow>
          (Inl (AppError (''claude '' @ utf8 [0x672A, 0x8F93, 0x51FA, 0x4F1A, 0x8BDD] @ '' init'' @ utf8 [0xFF08, 0x7EED, 0x804A, 0x5931, 0x8D25, 0xFF1A] @ ''transcript '' @ utf8 [0x4E0D, 0x5B58, 0x5728, 0x6216, 0x672A, 0x767B, 0x5F55, 0xFF1F, 0xFF09])),
           claude_resume_failed project_id t pr durable a)
      | Init_Answer (Inr (Some _)) \<Rightarrow>
          (let a = persist_user_message project_id t user_item_id text a;
               a = persist_session_status project_id t pr durable Session_Running a
           in (Inr (), spawn_pump project_id pr t a)))))"

text \<open>The lines are parsed by \<open>process::parse_line\<close>; a line that is no event is \<open>None\<close>.\<close>

datatype claude_input = Claude_Cancelled | Claude_Line "parsed_event option" | Claude_Eof | Claude_Read_Error string

(* review/engines/claude/engine.rs 692-737 emit_and_persist *)
definition claude_emit_and_persist ::
    "string \<Rightarrow> string \<Rightarrow> string \<Rightarrow> history_item_kind \<Rightarrow> string \<Rightarrow> review_app \<Rightarrow> review_app" where
  "claude_emit_and_persist project_id t item_id kind text a =
     (case kind of
        Item_Message \<Rightarrow> append_or_notify project_id t item_id kind text (emit_review (Message_Delta project_id t item_id text) a)
      | Item_Reasoning \<Rightarrow> append_or_notify project_id t item_id kind text (emit_review (Reasoning_Delta project_id t item_id text) a)
      | Item_User \<Rightarrow> a)"

(* review/engines/claude/engine.rs 549-687 pump *)
fun claude_pump :: "review_env \<Rightarrow> string \<Rightarrow> nat \<Rightarrow> string \<Rightarrow> claude_input list \<Rightarrow> review_app \<Rightarrow> bool \<times> review_app" where
  "claude_pump env project_id pr t [] a = (False, a)"
| "claude_pump env project_id pr t (Claude_Cancelled # rest) a =
     (True, claude_finish env project_id pr t Session_Done ''interrupted'' None a)"
| "claude_pump env project_id pr t (Claude_Eof # rest) a =
     (True, claude_finish env project_id pr t Session_Failed ''failed'' (Some (''claude '' @ utf8 [0x8FDB, 0x7A0B, 0x7ED3, 0x675F, 0x4F46, 0x672A, 0x8FD4, 0x56DE, 0x7ED3, 0x679C])) a)"
| "claude_pump env project_id pr t (Claude_Read_Error e # rest) a =
     (True, claude_finish env project_id pr t Session_Failed ''failed'' (Some ((utf8 [0x8BFB, 0x53D6] @ '' claude '' @ utf8 [0x8F93, 0x51FA, 0x5931, 0x8D25] @ '': '') @ e)) a)"
| "claude_pump env project_id pr t (Claude_Line None # rest) a = claude_pump env project_id pr t rest a"
| "claude_pump env project_id pr t (Claude_Line (Some (Session_Started s)) # rest) a = claude_pump env project_id pr t rest a"
| "claude_pump env project_id pr t (Claude_Line (Some (Parsed_Message item_id text)) # rest) a =
     claude_pump env project_id pr t rest (claude_emit_and_persist project_id t item_id Item_Message text a)"
| "claude_pump env project_id pr t (Claude_Line (Some (Parsed_Reasoning item_id text)) # rest) a =
     claude_pump env project_id pr t rest (claude_emit_and_persist project_id t item_id Item_Reasoning text a)"
| "claude_pump env project_id pr t (Claude_Line (Some (Parsed_Result is_error text)) # rest) a =
     (if is_error
      then (True, claude_finish env project_id pr t Session_Failed ''failed''
             (Some (if text = [] then (''claude review '' @ utf8 [0x5931, 0x8D25]) else text)) a)
      else (True, claude_finish env project_id pr t Session_Done ''completed'' None a))"

end
