(* ===== verification/Pr_Registry.thy ===== *)
theory Pr_Registry
  imports World Project_Config
begin

text \<open>
  The tracked pull requests of a project (\<open>pr/registry.rs\<close>): the set that outlives a poll round, its
  upsert and pruning, the single read-modify-write seam under one lock, and the rows the panel sees. The
  seam holds its lock from the load to the save, so a mutation is one step on the database.
\<close>

text \<open>
  The dispatch ledger of a project (\<open>pr/ledger.rs\<close>): the keys of the reviews that were dispatched and the
  events with their times, which the cooldown reads. A ledger is loaded, extended and written back whole
  under one lock. The key set is a list without repetition; \<open>None\<close> is the panic of the code where a
  candidate has no valid key.
\<close>

(* pr/ledger.rs 55-58 Ledger *)
record ledger =
  lg_dispatched :: "string list"
  lg_events :: "dispatch_event list"

(* pr/ledger.rs 100-107 cooldown_remaining *)
definition cooldown_remaining :: "nat \<Rightarrow> nat \<Rightarrow> nat \<Rightarrow> nat option" where
  "cooldown_remaining now latest secs =
     (let age = now - latest in if age < secs then Some (secs - age) else None)"

(* pr/ledger.rs 151-161 Ledger::load_db *)
definition event_of_row :: "dispatch_event_row \<Rightarrow> dispatch_event" where
  "event_of_row r =
     \<lparr>de_pr = as_u64 (dr_pr r), de_skill_key = migrate_legacy_skill_key (dr_skill_key r), de_head_sha = dr_head_sha r,
      de_key = migrate_legacy_dispatch_key (dr_key r), de_dispatched_at = as_u64 (dr_dispatched_at r)\<rparr>"

(* pr/ledger.rs 135-168 Ledger::load_db *)
definition load_ledger :: "string \<Rightarrow> db \<Rightarrow> ledger app_result" where
  "load_ledger project_id = read_conn (\<lambda>d. Inr
     \<lparr>lg_dispatched = remdups (map (migrate_legacy_dispatch_key \<circ> snd)
        (filter (\<lambda>k. fst k = project_id) (db_dispatch_key d))),
      lg_events = map event_of_row
        (sort_key dr_id (sql_select (\<lambda>r. dr_project_id r = project_id) (db_dispatch_event d)))\<rparr>)"

(* pr/ledger.rs 171-173 Ledger::has_dispatched *)
definition has_dispatched :: "ledger \<Rightarrow> string \<Rightarrow> bool" where
  "has_dispatched l key \<longleftrightarrow> key \<in> set (lg_dispatched l)"

(* pr/ledger.rs 178-185 Ledger::last_dispatch_at *)
definition last_dispatch_at :: "ledger \<Rightarrow> nat \<Rightarrow> string \<Rightarrow> nat option" where
  "last_dispatch_at l pr skill =
     (case map de_dispatched_at (filter (\<lambda>e. de_pr e = pr \<and> de_skill_key e = skill) (lg_events l)) of
        [] \<Rightarrow> None | t # ts \<Rightarrow> Some (fold max ts t))"

(* pr/ledger.rs 269-282 Ledger::stage_all *)
fun stage_all :: "candidate list \<Rightarrow> nat \<Rightarrow> ledger \<Rightarrow> ledger option" where
  "stage_all [] epoch l = Some l"
| "stage_all (c # cs) epoch l =
     (case action_key_for_candidate c of
        Inl e \<Rightarrow> None
      | Inr key \<Rightarrow>
          stage_all cs epoch
            \<lparr>lg_dispatched = (if key \<in> set (lg_dispatched l) then lg_dispatched l else lg_dispatched l @ [key]),
             lg_events = lg_events l @ [\<lparr>de_pr = cand_number c, de_skill_key = cand_skill_key c,
               de_head_sha = cand_head_sha c, de_key = key, de_dispatched_at = epoch\<rparr>]\<rparr>)"

text \<open>One INSERT per event, each with its own rowid.\<close>

fun insert_events :: "string \<Rightarrow> dispatch_event list \<Rightarrow> unit db_stmt" where
  "insert_events project_id [] d = Inr ((), d)"
| "insert_events project_id (e # es) d =
     try_bind (tbl_next (db_dispatch_event d)) (\<lambda>i.
     insert_events project_id es (d\<lparr>db_dispatch_event := tbl_push i
       \<lparr>dr_id = i, dr_project_id = project_id, dr_pr = as_i64 (de_pr e), dr_skill_key = de_skill_key e,
        dr_head_sha = de_head_sha e, dr_key = de_key e, dr_dispatched_at = as_i64 (de_dispatched_at e)\<rparr>
       (db_dispatch_event d)\<rparr>))"

(* pr/ledger.rs 220-263 Ledger::save_db *)
definition save_ledger :: "string \<Rightarrow> ledger \<Rightarrow> unit db_op" where
  "save_ledger project_id l = with_tx (\<lambda>d.
     map_error map_err (insert_events project_id (lg_events l)
       (d\<lparr>db_dispatch_key := filter (\<lambda>k. fst k \<noteq> project_id) (db_dispatch_key d)
             @ map (Pair project_id) (lg_dispatched l),
           db_dispatch_event := sql_delete (\<lambda>r. dr_project_id r = project_id) (db_dispatch_event d)\<rparr>)))"

(* pr/ledger.rs 205-214 Ledger::record_many *)
definition record_many :: "string \<Rightarrow> candidate list \<Rightarrow> nat \<Rightarrow> ledger \<Rightarrow> db \<Rightarrow> (unit app_result \<times> db) option" where
  "record_many project_id cands epoch l d =
     (case stage_all cands epoch l of None \<Rightarrow> None | Some l \<Rightarrow> Some (save_ledger project_id l d))"

(* pr/ledger.rs 79-95 record_dispatched *)
definition record_dispatched :: "string \<Rightarrow> candidate list \<Rightarrow> world \<Rightarrow> (unit app_result \<times> world) option" where
  "record_dispatched project_id cands w =
     (case load_ledger project_id (w_db w) of
        Inl e \<Rightarrow> Some (Inl e, w)
      | Inr l \<Rightarrow>
          (let (now, w) = now_epoch w in
           case record_many project_id cands now l (w_db w) of
             None \<Rightarrow> None
           | Some (r, d) \<Rightarrow> Some (r, w\<lparr>w_db := d\<rparr>)))"

section \<open>Facts\<close>

lemma sort_rows: "sorted (map rid rs) \<Longrightarrow> sort_key rid rs = rs"
  by (simp add: sort_key_id_if_sorted)

lemma insert_events_Inr:
  assumes "insert_events project_id es d = Inr ((), d')" and "tbl_ok dr_id (db_dispatch_event d)"
  shows "tbl_ok dr_id (db_dispatch_event d') \<and> db_dispatch_key d' = db_dispatch_key d \<and>
    (\<exists>rows. tb_rows (db_dispatch_event d') = tb_rows (db_dispatch_event d) @ rows \<and>
      list_all2 (\<lambda>e r. dr_project_id r = project_id \<and> dr_pr r = as_i64 (de_pr e) \<and> dr_skill_key r = de_skill_key e \<and>
        dr_head_sha r = de_head_sha e \<and> dr_key r = de_key e \<and> dr_dispatched_at r = as_i64 (de_dispatched_at e)) es rows)"
  using assms
proof (induction es arbitrary: d)
  case Nil
  then show ?case by (auto intro: exI [of _ "[]"])
next
  case (Cons e es)
  then obtain i where i: "tbl_next (db_dispatch_event d) = Inr i" by (auto simp: try_bind_Inr_iff)
  let ?r = "\<lparr>dr_id = i, dr_project_id = project_id, dr_pr = as_i64 (de_pr e), dr_skill_key = de_skill_key e,
      dr_head_sha = de_head_sha e, dr_key = de_key e, dr_dispatched_at = as_i64 (de_dispatched_at e)\<rparr>"
  let ?d = "d\<lparr>db_dispatch_event := tbl_push i ?r (db_dispatch_event d)\<rparr>"
  have "insert_events project_id es ?d = Inr ((), d')" using Cons.prems(1) i by simp
  moreover have "tbl_ok dr_id (db_dispatch_event ?d)" using tbl_ok_push [OF Cons.prems(2) i, of ?r] by simp
  ultimately show ?case
    using Cons.IH [of ?d] by (fastforce simp: table_simps intro: exI [of _ "?r # _"])
qed

text \<open>What the statements of the ledger write is what they were given.\<close>

definition plain_event :: "dispatch_event \<Rightarrow> bool" where
  "plain_event e \<longleftrightarrow> migrate_legacy_skill_key (de_skill_key e) = de_skill_key e \<and>
     migrate_legacy_dispatch_key (de_key e) = de_key e \<and> de_pr e \<le> u64_max \<and> de_dispatched_at e \<le> u64_max"

definition plain_ledger :: "ledger \<Rightarrow> bool" where
  "plain_ledger l \<longleftrightarrow> distinct (lg_dispatched l) \<and>
     list_all (\<lambda>k. migrate_legacy_dispatch_key k = k) (lg_dispatched l) \<and> list_all plain_event (lg_events l)"

lemma events_read_back:
  assumes "list_all2 (\<lambda>e r. dr_project_id r = project_id \<and> dr_pr r = as_i64 (de_pr e) \<and> dr_skill_key r = de_skill_key e \<and>
      dr_head_sha r = de_head_sha e \<and> dr_key r = de_key e \<and> dr_dispatched_at r = as_i64 (de_dispatched_at e)) es rows"
    and "list_all plain_event es"
  shows "filter (\<lambda>r. dr_project_id r = project_id) rows = rows \<and> map event_of_row rows = es"
  using assms by (induction rule: list_all2_induct) (auto simp: event_of_row_def plain_event_def as_u64_as_i64)

lemma save_ledger_load:
  assumes "save_ledger project_id l d = (Inr (), d')" and "tbl_ok dr_id (db_dispatch_event d)" and "plain_ledger l"
  shows "load_ledger project_id d' = Inr l \<and> tbl_ok dr_id (db_dispatch_event d') \<and>
    (\<forall>other. other \<noteq> project_id \<longrightarrow> load_ledger other d' = load_ledger other d)"
proof -
  let ?d = "d\<lparr>db_dispatch_key := filter (\<lambda>k. fst k \<noteq> project_id) (db_dispatch_key d) @ map (Pair project_id) (lg_dispatched l),
      db_dispatch_event := sql_delete (\<lambda>r. dr_project_id r = project_id) (db_dispatch_event d)\<rparr>"
  have ins: "insert_events project_id (lg_events l) ?d = Inr ((), d')"
    using assms(1) by (simp add: save_ledger_def with_tx_Inr_iff)
  have ok0: "tbl_ok dr_id (db_dispatch_event ?d)" using assms(2) by (simp add: tbl_ok_delete)
  from insert_events_Inr [OF ins ok0] obtain rows where ok: "tbl_ok dr_id (db_dispatch_event d')"
    and keys: "db_dispatch_key d' = filter (\<lambda>k. fst k \<noteq> project_id) (db_dispatch_key d) @ map (Pair project_id) (lg_dispatched l)"
    and rows: "tb_rows (db_dispatch_event d') = filter (\<lambda>r. dr_project_id r \<noteq> project_id) (tb_rows (db_dispatch_event d)) @ rows"
    and written: "list_all2 (\<lambda>e r. dr_project_id r = project_id \<and> dr_pr r = as_i64 (de_pr e) \<and> dr_skill_key r = de_skill_key e \<and>
        dr_head_sha r = de_head_sha e \<and> dr_key r = de_key e \<and> dr_dispatched_at r = as_i64 (de_dispatched_at e)) (lg_events l) rows"
    by (auto simp: table_simps)
  from written assms(3) have reread: "filter (\<lambda>r. dr_project_id r = project_id) rows = rows" "map event_of_row rows = lg_events l"
    using events_read_back [OF written] by (simp_all add: plain_ledger_def)
  have others: "filter (\<lambda>r. dr_project_id r = other) rows = []" if "other \<noteq> project_id" for other
    using that reread(1) by (auto simp: filter_id_conv filter_empty_conv)
  have ids: "sorted (map dr_id (filter p (tb_rows (db_dispatch_event d'))))" for p
    using ok by (auto simp: tbl_ok_def strict_sorted_imp_sorted sorted_wrt_map intro!: sorted_wrt_filter sorted_wrt_mono_rel [of _ "\<lambda>a b. dr_id a < dr_id b"])
  have ids0: "sorted (map dr_id (filter p (tb_rows (db_dispatch_event d))))" for p
    using assms(2) by (auto simp: tbl_ok_def strict_sorted_imp_sorted sorted_wrt_map intro!: sorted_wrt_filter sorted_wrt_mono_rel [of _ "\<lambda>a b. dr_id a < dr_id b"])
  have "load_ledger project_id d' = Inr l"
    using ids [of "\<lambda>r. dr_project_id r = project_id"] assms(3)
    by (cases l) (simp add: load_ledger_def read_conn_def sql_select_def sort_rows rows keys reread filter_map comp_def
        plain_ledger_def list_all_iff map_idI)
  moreover have "load_ledger other d' = load_ledger other d" if o: "other \<noteq> project_id" for other
  proof -
    have k: "filter (\<lambda>k. fst k = other) (db_dispatch_key d') = filter (\<lambda>k. fst k = other) (db_dispatch_key d)"
      using o by (auto simp: keys filter_map comp_def intro!: filter_cong)
    have r: "filter (\<lambda>r. dr_project_id r = other) (tb_rows (db_dispatch_event d')) =
        filter (\<lambda>r. dr_project_id r = other) (tb_rows (db_dispatch_event d))"
      using o others [OF o] by (auto simp: rows intro!: filter_cong)
    show ?thesis by (simp add: load_ledger_def read_conn_def sql_select_def k r)
  qed
  ultimately show ?thesis using ok by blast
qed

section \<open>The set\<close>

(* pr/registry.rs 52-64 TrackedPr *)
record tracked_pr =
  tp_number :: nat
  tp_title :: string
  tp_labels :: "string list"
  tp_url :: string
  tp_skill_key :: string
  tp_skip_reason :: "string option"
  tp_first_seen :: nat
  tp_last_seen :: nat
  tp_archived :: bool

(* pr/registry.rs 28-28 MAX_TRACKED *)
definition max_tracked :: nat where "max_tracked = 500"

definition tracked_of_row :: "tracked_pr_row \<Rightarrow> tracked_pr" where
  "tracked_of_row r =
     \<lparr>tp_number = as_u64 (tk_number r), tp_title = tk_title r,
      tp_labels = (case from_json (tk_labels_json r) of Inl e \<Rightarrow> [] | Inr l \<Rightarrow> l), tp_url = tk_url r,
      tp_skill_key = migrate_legacy_skill_key (tk_skill_key r), tp_skip_reason = tk_skip_reason r,
      tp_first_seen = as_u64 (tk_first_seen_epoch r), tp_last_seen = as_u64 (tk_last_seen_epoch r),
      tp_archived = (tk_archived r \<noteq> 0)\<rparr>"

(* pr/registry.rs 87-113 TrackedPrs::load_db *)
definition load_tracked :: "string \<Rightarrow> db \<Rightarrow> tracked_pr list app_result" where
  "load_tracked project_id = read_conn (\<lambda>d.
     Inr (map tracked_of_row (sort_key (\<lambda>r. - tk_number r) (filter (\<lambda>r. tk_project_id r = project_id) (db_tracked d)))))"

definition row_of_tracked :: "string \<Rightarrow> tracked_pr \<Rightarrow> tracked_pr_row" where
  "row_of_tracked project_id t =
     \<lparr>tk_project_id = project_id, tk_number = as_i64 (tp_number t), tk_title = tp_title t,
      tk_labels_json = JsonOf (tp_labels t), tk_url = tp_url t, tk_skill_key = tp_skill_key t,
      tk_skip_reason = tp_skip_reason t, tk_first_seen_epoch = as_i64 (tp_first_seen t),
      tk_last_seen_epoch = as_i64 (tp_last_seen t), tk_archived = (if tp_archived t then 1 else 0)\<rparr>"

definition tracked_index :: "tracked_pr_row \<Rightarrow> string \<times> int" where
  "tracked_index r = (tk_project_id r, tk_number r)"

fun insert_tracked :: "tracked_pr_row list \<Rightarrow> tracked_pr_row list \<Rightarrow> string + tracked_pr_row list" where
  "insert_tracked [] t = Inr t"
| "insert_tracked (r # rs) t =
     (if tracked_index r \<in> tracked_index ` set t
      then Inl ''UNIQUE constraint failed: tracked_pr.project_id, tracked_pr.number''
      else insert_tracked rs (t @ [r]))"

(* pr/registry.rs 136-166 TrackedPrs::save_db *)
definition save_tracked :: "string \<Rightarrow> tracked_pr list \<Rightarrow> unit db_op" where
  "save_tracked project_id prs = with_tx (\<lambda>d.
     map_error map_err (try_bind
       (insert_tracked (map (row_of_tracked project_id) prs) (filter (\<lambda>r. tk_project_id r \<noteq> project_id) (db_tracked d)))
       (\<lambda>t. Inr ((), d\<lparr>db_tracked := t\<rparr>))))"

text \<open>The first element that satisfies a predicate, changed in place.\<close>

fun edit_first :: "('a \<Rightarrow> bool) \<Rightarrow> ('a \<Rightarrow> 'a) \<Rightarrow> 'a list \<Rightarrow> 'a list" where
  "edit_first p f [] = []"
| "edit_first p f (x # xs) = (if p x then f x # xs else x # edit_first p f xs)"

definition refreshed :: "pull_request_view \<Rightarrow> nat \<Rightarrow> tracked_pr \<Rightarrow> tracked_pr" where
  "refreshed v now t = t\<lparr>tp_title := pv_title v, tp_labels := pv_labels v, tp_url := pv_url v,
     tp_skill_key := pv_skill_key v, tp_skip_reason := pv_skip_reason v, tp_last_seen := now\<rparr>"

definition fresh_tracked :: "pull_request_view \<Rightarrow> nat \<Rightarrow> tracked_pr" where
  "fresh_tracked v now =
     \<lparr>tp_number = pv_number v, tp_title = pv_title v, tp_labels = pv_labels v, tp_url = pv_url v,
      tp_skill_key = pv_skill_key v, tp_skip_reason = pv_skip_reason v, tp_first_seen = now, tp_last_seen = now,
      tp_archived = False\<rparr>"

(* pr/registry.rs 247-260 TrackedPrs::update_present *)
definition update_present :: "pull_request_view \<Rightarrow> nat \<Rightarrow> tracked_pr list \<Rightarrow> bool \<times> tracked_pr list" where
  "update_present v now prs =
     (if list_ex (\<lambda>t. tp_number t = pv_number v) prs
      then (True, edit_first (\<lambda>t. tp_number t = pv_number v) (refreshed v now) prs)
      else (False, prs))"

(* pr/registry.rs 208-222 TrackedPrs::prune *)
definition prune_tracked :: "tracked_pr list \<Rightarrow> tracked_pr list" where
  "prune_tracked prs =
     (if length prs \<le> max_tracked then prs
      else (let archived = filter tp_archived prs;
                active = filter (\<lambda>t. \<not> tp_archived t) prs;
                active_budget = max_tracked - length archived
            in archived @ take active_budget (sort_key (\<lambda>t. - int (tp_last_seen t)) active)))"

definition upsert_one :: "nat \<Rightarrow> pull_request_view \<Rightarrow> tracked_pr list \<Rightarrow> tracked_pr list" where
  "upsert_one now v prs =
     (case update_present v now prs of (True, prs) \<Rightarrow> prs | (False, prs) \<Rightarrow> prs @ [fresh_tracked v now])"

(* pr/registry.rs 173-198 TrackedPrs::upsert *)
definition upsert_tracked :: "pull_request_view list \<Rightarrow> nat \<Rightarrow> tracked_pr list \<Rightarrow> tracked_pr list" where
  "upsert_tracked views now prs = prune_tracked (fold (upsert_one now) views prs)"

(* pr/registry.rs 227-234 TrackedPrs::set_archived *)
definition set_archived :: "nat \<Rightarrow> bool \<Rightarrow> tracked_pr list \<Rightarrow> bool \<times> tracked_pr list" where
  "set_archived number archived prs =
     (if list_ex (\<lambda>t. tp_number t = number) prs
      then (True, edit_first (\<lambda>t. tp_number t = number) (\<lambda>t. t\<lparr>tp_archived := archived\<rparr>) prs)
      else (False, prs))"

text \<open>The mutation returns whether to persist and the result, with the changed set; it may read the clock.\<close>

type_synonym 'a tracked_mutation = "tracked_pr list \<Rightarrow> world \<Rightarrow> (bool \<times> 'a) \<times> tracked_pr list \<times> world"

(* pr/registry.rs 281-301 mutate_tracked *)
definition mutate_tracked :: "string \<Rightarrow> 'a tracked_mutation \<Rightarrow> world \<Rightarrow> 'a app_result \<times> world" where
  "mutate_tracked project_id mutate w =
     (case load_tracked project_id (w_db w) of
        Inl e \<Rightarrow> (Inl e, w)
      | Inr tracked \<Rightarrow>
          (let ((persist, out), tracked, w) = mutate tracked w in
           if persist
           then (let (r, w) = on_db (save_tracked project_id tracked) w in (try_bind r (\<lambda>_. Inr out), w))
           else (Inr out, w)))"

section \<open>The rows of the panel\<close>

definition view_of_tracked :: "nat \<Rightarrow> nat \<Rightarrow> tracked_pr \<Rightarrow> tracked_pr_view" where
  "view_of_tracked now grace_secs t =
     \<lparr>tv_pr = \<lparr>pv_number = tp_number t, pv_title = tp_title t, pv_labels = tp_labels t, pv_url = tp_url t,
        pv_skill_key = tp_skill_key t, pv_skip_reason = tp_skip_reason t\<rparr>,
      tv_presence = (if now - tp_last_seen t \<le> grace_secs then Current else Stale), tv_archived = tp_archived t\<rparr>"

(* pr/registry.rs 351-374 to_view_list *)
definition to_view_list :: "tracked_pr list \<Rightarrow> nat \<Rightarrow> nat \<Rightarrow> tracked_pr_view list" where
  "to_view_list tracked now grace_secs =
     sort_key (\<lambda>v. - int (pv_number (tv_pr v))) (map (view_of_tracked now grace_secs) tracked)"

(* pr/scheduler.rs 154-154 DEFAULT_POLL_INTERVAL_SECS *)
definition default_poll_interval_secs :: nat where "default_poll_interval_secs = 120"

(* pr/scheduler.rs 796-801 resolve_period *)
definition resolve_period :: "nat app_result \<Rightarrow> nat" where
  "resolve_period loaded = (case loaded of Inr s \<Rightarrow> if s > 0 then s else default_poll_interval_secs | Inl e \<Rightarrow> default_poll_interval_secs)"

definition poll_period :: "app_config app_result \<Rightarrow> string \<Rightarrow> nat" where
  "poll_period load project_id = resolve_period (try_bind (find_project load project_id) (\<lambda>p. Inr (prj_poll_interval_secs p)))"

(* pr/registry.rs 382-387 presence_grace_secs *)
definition presence_grace_secs :: "app_config app_result \<Rightarrow> string \<Rightarrow> nat" where
  "presence_grace_secs load project_id = sat_mul_u64 (poll_period load project_id) 2"

(* pr/registry.rs 396-406 project_snapshot *)
definition project_snapshot ::
    "app_config app_result \<Rightarrow> string \<Rightarrow> tracked_pr list \<Rightarrow> world \<Rightarrow> tracked_pr_view list \<times> world" where
  "project_snapshot load project_id tracked w =
     (let (now, w) = now_epoch w in (to_view_list tracked now (presence_grace_secs load project_id), w))"

end
