(* ===== verification/Session_Commands.thy ===== *)
theory Session_Commands
  imports Session_Engines Project_Config Pr_Registry Notifications Session_Turns
begin

text \<open>
  The entry points of the reviews (\<open>review/commands.rs\<close>) and the two review actions of the outbox
  executor (\<open>lib.rs\<close>). Which project is meant is validated first, then the engine of the project starts,
  follows up or stops the session. An outbox action claims its row before it starts a review, so that a
  replay after a crash finds the session it started.
\<close>

text \<open>
  The lifecycle notices of reviews (\<open>composition/review_lifecycle.rs\<close>): the sink that the composition
  root installs for the events a review session fires. A terminal event first cancels the pending notice
  that the review has started, then the notices of the event are enqueued for every target, each once.
  The configuration that \<open>config::service::load\<close> returns and \<open>Url::parse\<close> are arguments.
\<close>

section \<open>Texts and keys\<close>

(* composition/review_lifecycle.rs 122-127 started_dedupe_fragment *)
definition started_dedupe_fragment :: "lifecycle_dispatch \<Rightarrow> string" where
  "started_dedupe_fragment event =
     ''review-lifecycle:'' @ rld_project_id event @ '':'' @ rld_thread_id event @ '':started:''"

(* composition/review_lifecycle.rs 169-177 dedupe_prefix *)
definition lifecycle_dedupe_prefix :: "lifecycle_dispatch \<Rightarrow> string \<Rightarrow> string" where
  "lifecycle_dedupe_prefix event target =
     ''review-lifecycle:'' @ rld_project_id event @ '':'' @ rld_thread_id event @ '':''
       @ lifecycle_as_wire (rld_event event) @ '':'' @ target"

fun lifecycle_label :: "review_lifecycle_event \<Rightarrow> string" where
  "lifecycle_label Lifecycle_Started = (utf8 [0x5DF2, 0x5F00, 0x59CB])"
| "lifecycle_label Lifecycle_Completed = (utf8 [0x5DF2, 0x5B8C, 0x6210])"
| "lifecycle_label Lifecycle_Failed = (utf8 [0x5931, 0x8D25])"
| "lifecycle_label Lifecycle_Interrupted = (utf8 [0x5DF2, 0x4E2D, 0x65AD])"

fun lifecycle_closing :: "review_lifecycle_event \<Rightarrow> string option \<Rightarrow> string list" where
  "lifecycle_closing Lifecycle_Started url = []"
| "lifecycle_closing Lifecycle_Completed url =
     [case url of Some u \<Rightarrow> u | None \<Rightarrow> (utf8 [0x672C, 0x6B21] @ '' review '' @ utf8 [0x5DF2, 0x5B8C, 0x6210, 0xFF08, 0x65E0, 0x8BC4, 0x8BBA, 0x94FE, 0x63A5, 0xFF09])]"
| "lifecycle_closing Lifecycle_Failed url = [(utf8 [0x672C, 0x6B21] @ '' review '' @ utf8 [0x5931, 0x8D25])]"
| "lifecycle_closing Lifecycle_Interrupted url = [(utf8 [0x672C, 0x6B21] @ '' review '' @ utf8 [0x5DF2, 0x4E2D, 0x65AD])]"

(* composition/review_lifecycle.rs 129-167 message *)
definition lifecycle_message :: "app_config \<Rightarrow> lifecycle_dispatch \<Rightarrow> string \<times> string \<times> string option" where
  "lifecycle_message cfg event =
     (let repo = (case find (\<lambda>p. prj_id p = rld_project_id event) (cfg_projects cfg) of
            None \<Rightarrow> [] | Some p \<Rightarrow> prj_repo p)
      in (''PR #'' @ dec (rld_pr_number event) @ '' '' @ display_label (rld_skill_key event) @ '' ''
            @ lifecycle_label (rld_event event),
          join [CHR 0x0A] ([''projectId: '' @ rld_project_id event, ''repo: '' @ repo,
            ''threadId: '' @ rld_thread_id event] @ lifecycle_closing (rld_event event) (rld_comment_url event)),
          rld_comment_url event))"

section \<open>The sink\<close>

(* composition/review_lifecycle.rs 103-120 cancel_pending_started *)
definition cancel_pending_started :: "lifecycle_dispatch \<Rightarrow> world \<Rightarrow> unit app_result \<times> world" where
  "cancel_pending_started event w =
     (let (now, w) = now_epoch w;
          (r, w) = on_db (mark_pending_by_dedupe_fragment_dead (started_dedupe_fragment event)
            ''review lifecycle Started canceled by terminal event'' now) w
      in case r of
           Inl e \<Rightarrow> (Inl e, w)
         | Inr ids \<Rightarrow> (Inr (), fold announce_updated ids w))"

definition lifecycle_text :: "string \<times> string \<times> string option \<Rightarrow> string" where
  "lifecycle_text m =
     (case m of (title, body, url) \<Rightarrow>
        title @ [CHR 0x0A] @ body @ (case url of None \<Rightarrow> [] | Some u \<Rightarrow> if u = [] then [] else [CHR 0x0A] @ u))"

fun enqueue_target ::
    "(string \<Rightarrow> parsed_url option) \<Rightarrow> app_config app_result \<Rightarrow> app_config \<Rightarrow> lifecycle_dispatch \<Rightarrow> nat \<Rightarrow> review_lifecycle_target
      \<Rightarrow> world \<Rightarrow> unit app_result \<times> world" where
  "enqueue_target parse_url load cfg event delay_secs (Lifecycle_Channels channel_ids) w =
     (let (title, body, url) = lifecycle_message cfg event;
          (r, w) = enqueue_notification_after parse_url load
            \<lparr>snr_level = Some Info, snr_title = title, snr_body = Some body, snr_url = url,
             snr_project_id = Some (rld_project_id event), snr_channel_ids = channel_ids\<rparr>
            (Some (lifecycle_dedupe_prefix event ''notification'')) delay_secs w
      in (try_bind r (\<lambda>_. Inr ()), w))"
| "enqueue_target parse_url load cfg event delay_secs (Lifecycle_Conversation integration_id conversation_id) w =
     (let (r, w) = enqueue_send_scoped_after load
            \<lparr>smr_integration_id = integration_id, smr_conversation_id = conversation_id,
             smr_content = Text (lifecycle_text (lifecycle_message cfg event)),
             smr_request_id = lifecycle_dedupe_prefix event (''messaging:'' @ integration_id @ '':'' @ conversation_id)\<rparr>
            delay_secs True w
      in (try_bind r (\<lambda>_. Inr ()), w))"

fun enqueue_targets ::
    "(string \<Rightarrow> parsed_url option) \<Rightarrow> app_config app_result \<Rightarrow> app_config \<Rightarrow> lifecycle_dispatch \<Rightarrow> nat \<Rightarrow> review_lifecycle_target list
      \<Rightarrow> string list \<Rightarrow> world \<Rightarrow> string list \<times> world" where
  "enqueue_targets parse_url load cfg event delay_secs [] errors w = (errors, w)"
| "enqueue_targets parse_url load cfg event delay_secs (target # targets) errors w =
     (case enqueue_target parse_url load cfg event delay_secs target w of
        (Inl e, w) \<Rightarrow> enqueue_targets parse_url load cfg event delay_secs targets (errors @ [message e]) w
      | (Inr _, w) \<Rightarrow> enqueue_targets parse_url load cfg event delay_secs targets errors w)"

(* composition/review_lifecycle.rs 27-100 enqueue *)
definition enqueue_lifecycle_notices ::
    "(string \<Rightarrow> parsed_url option) \<Rightarrow> app_config app_result \<Rightarrow> lifecycle_dispatch \<Rightarrow> world \<Rightarrow> unit app_result \<times> world" where
  "enqueue_lifecycle_notices parse_url load event w =
     (case load of
        Inl e \<Rightarrow> (Inl e, w)
      | Inr cfg \<Rightarrow>
          (let lifecycle = cfg_review_lifecycle cfg in
           if \<not> rln_enabled lifecycle \<or> rld_event event \<notin> set (rln_events lifecycle) then (Inr (), w)
           else
             (let delay_secs = (if rld_event event = Lifecycle_Started then rln_start_delay_secs lifecycle
                                else rln_end_delay_secs lifecycle);
                  (errors, w) = enqueue_targets parse_url load cfg event delay_secs (rln_targets lifecycle) [] w
              in if errors = [] then (Inr (), w)
                 else (Inl (AppError ((''review lifecycle '' @ utf8 [0x901A, 0x77E5, 0x5165, 0x961F, 0x5931, 0x8D25, 0xFF1A]) @ join ''; '' errors)), w))))"

(* composition/review_lifecycle.rs 18-101 enqueue *)
definition lifecycle_enqueue ::
    "(string \<Rightarrow> parsed_url option) \<Rightarrow> app_config app_result \<Rightarrow> lifecycle_dispatch \<Rightarrow> world \<Rightarrow> unit app_result \<times> world" where
  "lifecycle_enqueue parse_url load event w =
     (if rld_event event = Lifecycle_Started then enqueue_lifecycle_notices parse_url load event w
      else case cancel_pending_started event w of
        (Inl e, w) \<Rightarrow> (Inl e, w)
      | (Inr _, w) \<Rightarrow> enqueue_lifecycle_notices parse_url load event w)"

text \<open>The environment with the sink that the composition root installs.\<close>

(* composition.rs 16-23 install_review_lifecycle_sink *)
definition install_lifecycle_sink ::
    "(string \<Rightarrow> parsed_url option) \<Rightarrow> app_config app_result \<Rightarrow> review_env \<Rightarrow> review_env" where
  "install_lifecycle_sink parse_url load env = env\<lparr>rve_sink := Some (lifecycle_enqueue parse_url load)\<rparr>"

section \<open>Answers of the engines\<close>

text \<open>What the command line tools, the connections and the child processes answer during one command.\<close>

record engine_answers =
  ea_gh :: "string app_result"
  ea_cli :: "unit app_result"
  ea_connection :: "nat app_result"
  ea_session :: "string app_result"
  ea_turn :: "string app_result"
  ea_init :: "string option app_result"
  ea_chat :: claude_init
  ea_view :: cursor_view
  ea_client :: bool
  ea_interrupt :: "unit app_result"

definition unit_of :: "'e + 'a \<Rightarrow> 'e + unit" where
  "unit_of r = try_bind r (\<lambda>_. Inr ())"

(* state.rs 48-57 ReviewResumeHook::fire *)
definition fire_review_resume :: "review_env \<Rightarrow> review_app \<Rightarrow> unit app_result \<times> review_app" where
  "fire_review_resume env a =
     (let a = a\<lparr>ra_world := (ra_world a)\<lparr>w_resume_generation := Suc (w_resume_generation (ra_world a))\<rparr>\<rparr> in
      case rve_resume env of
        None \<Rightarrow> (Inl (AppError (''review resume hook '' @ utf8 [0x672A, 0x521D, 0x59CB, 0x5316])), a)
      | Some sink \<Rightarrow> on_world sink a)"

(* lib.rs 462-470 set_sink *)
definition review_resume_sink :: "world \<Rightarrow> unit app_result \<times> world" where
  "review_resume_sink w =
     (let (now, w) = now_epoch w; (r, w) = on_db (unblock_reviews now) w in
      case r of Inl e \<Rightarrow> (Inl e, w) | Inr _ \<Rightarrow> (Inr (), wake_outbox w))"

section \<open>Looking up\<close>

(* review/commands.rs 27-33 validate_pr_number *)
definition validate_pr_number :: "nat \<Rightarrow> unit app_result" where
  "validate_pr_number pr = (if pr = 0 then Inl (AppError (''pr '' @ utf8 [0x975E, 0x6CD5, 0xFF08] @ ''PR '' @ utf8 [0x53F7, 0x5FC5, 0x987B, 0x5927, 0x4E8E] @ '' 0'' @ utf8 [0xFF09] @ '': 0'')) else Inr ())"

(* review/commands.rs 564-571 optional_comment_url_cli *)
definition optional_comment_url_cli :: "source_kind \<Rightarrow> string app_result \<Rightarrow> string option" where
  "optional_comment_url_cli kind gh =
     (if kind = Github then (case gh of Inl e \<Rightarrow> None | Inr path \<Rightarrow> Some path) else None)"

(* review/commands.rs 573-586 comment_url_ctx_from *)
definition comment_url_ctx_from :: "string app_result \<Rightarrow> project \<Rightarrow> comment_url_context" where
  "comment_url_ctx_from gh project =
     \<lparr>cuc_gh = optional_comment_url_cli (prj_source_kind project) gh, cuc_source_kind = prj_source_kind project,
      cuc_repo = prj_repo project, cuc_azure_org = prj_azure_org project, cuc_azure_project = prj_azure_project project\<rparr>"

(* review/commands.rs 601-622 resolve_session_info *)
definition resolve_session_info :: "string \<Rightarrow> string \<Rightarrow> review_app \<Rightarrow> session_info app_result" where
  "resolve_session_info project_id t a =
     (let missing = AppError ((utf8 [0x672A, 0x627E, 0x5230] @ '' review '' @ utf8 [0x4F1A, 0x8BDD, 0xFF08, 0x65E0, 0x6CD5, 0x7EED, 0x804A, 0xFF09] @ '': '') @ t) in
      case registry_get t (ra_registry a) of
        Some info \<Rightarrow> if si_project_id info \<noteq> project_id then Inl missing else Inr info
      | None \<Rightarrow>
          try_bind (get_session t (w_db (ra_world a))) (\<lambda>found.
          case found of
            Some info \<Rightarrow> if si_project_id info = project_id then Inr info else Inl missing
          | None \<Rightarrow> Inl missing))"

section \<open>Starting\<close>

text \<open>An explicit start lets a stopped engine run again and resumes the blocked reviews.\<close>

definition resume_engine :: "review_env \<Rightarrow> engine_kind \<Rightarrow> review_app \<Rightarrow> unit app_result \<times> review_app" where
  "resume_engine env engine a =
     (case engine of
        Codex \<Rightarrow> fire_review_resume env (a\<lparr>ra_codex_stopped := False\<rparr>)
      | Cursor \<Rightarrow> fire_review_resume env (a\<lparr>ra_cursor_stopped := False\<rparr>)
      | Claude \<Rightarrow> (Inr (), a))"

definition engine_start ::
    "review_env \<Rightarrow> engine_answers \<Rightarrow> project \<Rightarrow> nat \<Rightarrow> skill_invocation \<Rightarrow> comment_url_context \<Rightarrow> int option
      \<Rightarrow> review_app \<Rightarrow> start_review_outcome app_result \<times> review_app" where
  "engine_start env ans project pr invo ctx claim a =
     (case prj_engine_kind project of
        Codex \<Rightarrow> codex_start_review env (prj_repo project) (prj_id project) pr invo ctx claim
          (unit_of (ea_connection ans)) (ea_session ans) (ea_turn ans) a
      | Claude \<Rightarrow> claude_start_review (prj_id project) pr invo ctx claim (unit_of (ea_connection ans)) (ea_init ans) a
      | Cursor \<Rightarrow> cursor_start_review (ea_view ans) (prj_cursor_model project) (prj_id project) pr invo ctx claim
          (ea_connection ans) (ea_session ans) a)"

(* review/commands.rs 181-188 StartTrigger *)
datatype start_trigger = Trigger_Explicit | Trigger_Auto

(* review/commands.rs 212-326 ReviewStartCapability::start_via_engine *)
definition start_via_engine ::
    "review_env \<Rightarrow> engine_answers \<Rightarrow> project \<Rightarrow> nat \<Rightarrow> skill_invocation \<Rightarrow> start_trigger \<Rightarrow> int option
      \<Rightarrow> review_app \<Rightarrow> start_review_outcome app_result \<times> review_app" where
  "start_via_engine env ans project pr invo trigger claim a =
     (let ctx = comment_url_ctx_from (ea_gh ans) project in
      case (if trigger = Trigger_Explicit then resume_engine env (prj_engine_kind project) a else (Inr (), a)) of
        (Inl e, a) \<Rightarrow> (Inl e, a)
      | (Inr _, a) \<Rightarrow>
     (case ea_cli ans of
        Inl e \<Rightarrow> (Inl e, a)
      | Inr _ \<Rightarrow>
     (case engine_start env ans project pr invo ctx claim a of
        (Inl e, a) \<Rightarrow> (Inl e, a)
      | (Inr Deduped, a) \<Rightarrow> (Inr Deduped, a)
      | (Inr (Started t), a) \<Rightarrow>
          (Inr (Started t), snd (fire_lifecycle env \<lparr>rld_project_id = prj_id project, rld_pr_number = pr,
             rld_skill_key = inv_skill_key invo, rld_thread_id = t, rld_event = Lifecycle_Started,
             rld_comment_url = None\<rparr> a)))))"

(* review/commands.rs 338-367 dispatch_engine *)
definition dispatch_engine ::
    "review_env \<Rightarrow> engine_answers \<Rightarrow> project \<Rightarrow> nat \<Rightarrow> skill_invocation \<Rightarrow> review_app \<Rightarrow> string app_result \<times> review_app" where
  "dispatch_engine env ans project pr invo a =
     (case start_via_engine env ans project pr invo Trigger_Explicit None a of
        (Inl e, a) \<Rightarrow> (Inl e, a)
      | (Inr (Started t), a) \<Rightarrow> (Inr t, a)
      | (Inr Deduped, a) \<Rightarrow>
          (Inl (AppError (''PR '' @ dec pr @ ('' '' @ utf8 [0x7684] @ '' '') @ inv_skill_key invo @ ('' review '' @ utf8 [0x5DF2, 0x5728, 0x8FDB, 0x884C, 0x4E2D]))), a))"

(* review/commands.rs 752-769 start_review_authorized *)
definition start_review_authorized ::
    "review_env \<Rightarrow> (string \<Rightarrow> bool) \<Rightarrow> filesystem \<Rightarrow> app_config app_result \<Rightarrow> engine_answers \<Rightarrow> string \<Rightarrow> nat \<Rightarrow> skill_invocation
      \<Rightarrow> review_app \<Rightarrow> string app_result \<times> review_app" where
  "start_review_authorized env is_dir fs load ans project_id pr invo a =
     (case try_bind (validate_pr_number pr) (\<lambda>_.
           try_bind (project_validated is_dir load project_id) (\<lambda>project.
           try_bind (map_error AppError (materialize_for_engine fs invo (prj_repo_root project) (prj_engine_kind project))) (\<lambda>invo.
           Inr (project, invo)))) of
        Inl e \<Rightarrow> (Inl e, a)
      | Inr (project, invo) \<Rightarrow> dispatch_engine env ans project pr invo a)"

(* review/commands.rs 505-510 replayed_review_should_suppress *)
definition replayed_review_should_suppress :: "string \<Rightarrow> db \<Rightarrow> bool app_result" where
  "replayed_review_should_suppress t d =
     try_bind (get_session t d) (\<lambda>found. Inr (case found of
         Some s \<Rightarrow> \<not> (si_status s = Session_Failed \<and> si_turn_id s = [])
       | None \<Rightarrow> True))"

(* review/commands.rs 514-524 OutboxReviewStartOutcome *)
datatype outbox_start_outcome = Outbox_Started string | Suppressed_Replay string | Active_Deduped string

(* review/commands.rs 527-533 OutboxReviewStartOutcome::thread_id *)
fun outcome_thread_id :: "outbox_start_outcome \<Rightarrow> string" where
  "outcome_thread_id (Outbox_Started t) = t"
| "outcome_thread_id (Suppressed_Replay t) = t"
| "outcome_thread_id (Active_Deduped t) = t"

(* review/commands.rs 551-557 should_record_dispatch_ledger *)
fun should_record_dispatch_ledger :: "outbox_start_outcome \<Rightarrow> bool" where
  "should_record_dispatch_ledger (Outbox_Started t) = True"
| "should_record_dispatch_ledger (Suppressed_Replay t) = True"
| "should_record_dispatch_ledger (Active_Deduped t) = False"

text \<open>The claim of the row, and the session of an earlier attempt that must not be started again.\<close>

(* review/commands.rs 429-442 start_for_outbox *)
definition claim_or_suppress ::
    "string \<Rightarrow> nat \<Rightarrow> string \<Rightarrow> int \<Rightarrow> review_app \<Rightarrow> string option app_result \<times> review_app" where
  "claim_or_suppress project_id pr skill outbox_id a =
     (case stamped_db (begin_claim outbox_id project_id pr skill) a of
        (Inl e, a) \<Rightarrow> (Inl e, a)
      | (Inr None, a) \<Rightarrow> (Inr None, a)
      | (Inr (Some t), a) \<Rightarrow>
          (try_bind (replayed_review_should_suppress t (w_db (ra_world a))) (\<lambda>suppress.
             Inr (if suppress then Some t else None)), a))"

(* review/commands.rs 406-478 start_for_outbox *)
definition start_for_outbox ::
    "review_env \<Rightarrow> (string \<Rightarrow> bool) \<Rightarrow> filesystem \<Rightarrow> app_config app_result \<Rightarrow> engine_answers \<Rightarrow> string \<Rightarrow> nat \<Rightarrow> skill_invocation
      \<Rightarrow> int \<Rightarrow> review_app \<Rightarrow> outbox_start_outcome app_result \<times> review_app" where
  "start_for_outbox env is_dir fs load ans project_id pr invo outbox_id a =
     (case try_bind (validate_pr_number pr) (\<lambda>_.
           try_bind (project_validated is_dir load project_id) (\<lambda>project.
           try_bind (map_error AppError (materialize_for_engine fs invo (prj_repo_root project) (prj_engine_kind project))) (\<lambda>invo.
           Inr (project, invo)))) of
        Inl e \<Rightarrow> (Inl e, a)
      | Inr (project, invo) \<Rightarrow>
     (case claim_or_suppress project_id pr (inv_skill_key invo) outbox_id a of
        (Inl e, a) \<Rightarrow> (Inl e, a)
      | (Inr (Some t), a) \<Rightarrow> (Inr (Suppressed_Replay t), a)
      | (Inr None, a) \<Rightarrow>
     (case start_via_engine env ans project pr invo Trigger_Auto (Some outbox_id) a of
        (Inl e, a) \<Rightarrow> (Inl e, a)
      | (Inr (Started t), a) \<Rightarrow> (Inr (Outbox_Started t), a)
      | (Inr Deduped, a) \<Rightarrow>
          (case stop_target_of project_id pr (inv_skill_key invo) (ra_registry a) of
             Stop_Live t \<Rightarrow> (Inr (Active_Deduped t), a)
           | _ \<Rightarrow> (Inl (AppError ''active review dedupe missing session''), a)))))"

section \<open>Following up\<close>

(* review/commands.rs 637-746 send_review_message *)
definition send_review_message ::
    "review_env \<Rightarrow> (string \<Rightarrow> bool) \<Rightarrow> app_config app_result \<Rightarrow> engine_answers \<Rightarrow> string \<Rightarrow> string \<Rightarrow> string \<Rightarrow> string
      \<Rightarrow> review_app \<Rightarrow> unit app_result \<times> review_app" where
  "send_review_message env is_dir load ans project_id t text user_item_id a =
     (if trim text = [] then (Inl (AppError (utf8 [0x6D88, 0x606F, 0x4E3A, 0x7A7A])), a)
      else if trim user_item_id = [] then (Inl (AppError (''user_item_id '' @ utf8 [0x4E3A, 0x7A7A])), a)
      else if 131072 < length text then (Inl (AppError (utf8 [0x6D88, 0x606F, 0x8FC7, 0x957F, 0xFF08, 0x4E0A, 0x9650] @ '' 128KB'' @ utf8 [0xFF09])), a)
      else case try_bind (project_validated is_dir load project_id) (\<lambda>project.
             try_bind (resolve_session_info project_id t a) (\<lambda>info. Inr (project, info))) of
        Inl e \<Rightarrow> (Inl e, a)
      | Inr (project, info) \<Rightarrow>
          (let ctx = comment_url_ctx_from (ea_gh ans) project; pr = si_pr_number info in
           case resume_engine env (si_engine_kind info) a of
             (Inl e, a) \<Rightarrow> (Inl e, a)
           | (Inr _, a) \<Rightarrow>
          (case ea_cli ans of
             Inl e \<Rightarrow> (Inl e, a)
           | Inr _ \<Rightarrow>
          (case si_engine_kind info of
             Codex \<Rightarrow> codex_resume_turn (prj_id project) pr info t text user_item_id ctx
               (unit_of (ea_connection ans)) (ea_turn ans) a
           | Claude \<Rightarrow> claude_resume_review env (prj_id project) pr info t text user_item_id ctx
               (unit_of (ea_connection ans)) (ea_chat ans) a
           | Cursor \<Rightarrow> cursor_resume_review (ea_view ans) (prj_cursor_model project) (prj_id project) pr info t text
               user_item_id ctx a))))"

section \<open>Stopping\<close>

(* review/commands.rs 776-817 stop_session_by_id *)
definition stop_session_by_id ::
    "review_env \<Rightarrow> engine_answers \<Rightarrow> string \<Rightarrow> review_app \<Rightarrow> unit app_result \<times> review_app" where
  "stop_session_by_id env ans t a =
     (case registry_get t (ra_registry a) of
        Some info \<Rightarrow>
          (case si_engine_kind info of
             Claude \<Rightarrow> (Inr (), snd (claude_stop t a))
           | Cursor \<Rightarrow> stop_cursor_review env (cv_client (ea_view ans)) (ea_interrupt ans) t a
           | Codex \<Rightarrow> codex_stop_review (ea_client ans) (ea_interrupt ans) t a)
      | None \<Rightarrow>
          (case claude_stop t a of
             (True, a) \<Rightarrow> (Inr (), a)
           | (False, a) \<Rightarrow> codex_stop_review (ea_client ans) (ea_interrupt ans) t a))"

(* review/commands.rs 836-844 absorb_stop_toctou *)
definition absorb_stop_toctou :: "unit app_result \<Rightarrow> bool \<Rightarrow> unit app_result" where
  "absorb_stop_toctou r still_active = (case r of Inr _ \<Rightarrow> Inr () | Inl e \<Rightarrow> if still_active then Inl e else Inr ())"

(* review/commands.rs 863-892 stop_for_outbox *)
definition stop_for_outbox ::
    "review_env \<Rightarrow> engine_answers \<Rightarrow> string \<Rightarrow> nat \<Rightarrow> string \<Rightarrow> review_app \<Rightarrow> unit app_result \<times> review_app" where
  "stop_for_outbox env ans project_id pr skill a =
     (case validate_pr_number pr of
        Inl e \<Rightarrow> (Inl e, a)
      | Inr _ \<Rightarrow>
     (case stop_target_of project_id pr skill (ra_registry a) of
        Stop_Absent \<Rightarrow> (Inr (), a)
      | Stop_Reserved \<Rightarrow>
          (Inl (AppError ((''stop-review'' @ utf8 [0xFF1A] @ ''PR '') @ dec pr @ ('' '' @ utf8 [0x7684] @ '' '') @ display_label skill
             @ ('' '' @ utf8 [0x8BC4, 0x5BA1, 0x6B63, 0x5728, 0x542F, 0x52A8, 0xFF08] @ ''reserved'' @ utf8 [0xFF0C, 0x672A] @ '' promote'' @ utf8 [0xFF09, 0xFF0C, 0x7A0D, 0x540E, 0x91CD, 0x8BD5]))), a)
      | Stop_Live t \<Rightarrow>
          (let (r, a) = stop_session_by_id env ans t a;
               still_live = (case stop_target_of project_id pr skill (ra_registry a) of Stop_Live _ \<Rightarrow> True | _ \<Rightarrow> False)
           in (absorb_stop_toctou r still_live, a))))"

section \<open>The review actions of the outbox\<close>

text \<open>A payload column that does not hold a review action does not parse as one.\<close>

definition review_payload_of :: "action_payload json_text \<Rightarrow> string + review_action_payload" where
  "review_payload_of j =
     try_bind (from_json j) (\<lambda>p. case p of ReviewPayload r \<Rightarrow> Inr r | _ \<Rightarrow> Inl ''unknown variant'')"

definition stop_payload_of :: "action_payload json_text \<Rightarrow> string + stop_review_payload" where
  "stop_payload_of j =
     try_bind (from_json j) (\<lambda>p. case p of StopPayload r \<Rightarrow> Inr r | _ \<Rightarrow> Inl ''missing field'')"

text \<open>The pull request of the payload, and the candidate of an automatic one with the skill of its invocation.\<close>

(* lib.rs 1250-1261 run_review_action *)
fun review_target :: "review_action_payload \<Rightarrow> (nat \<times> candidate option) app_result" where
  "review_target (Automatic c invo) =
     (let c = c\<lparr>cand_skill_key := inv_skill_key invo\<rparr> in
      try_bind (map_error AppError (action_key_for_candidate c)) (\<lambda>_. Inr (cand_number c, Some c)))"
| "review_target (Explicit pr req origin invo) = Inr (pr, None)"

definition engine_stopped :: "engine_kind \<Rightarrow> review_app \<Rightarrow> bool" where
  "engine_stopped engine a =
     (case engine of Codex \<Rightarrow> ra_codex_stopped a | Cursor \<Rightarrow> ra_cursor_stopped a | Claude \<Rightarrow> False)"

definition stopped_message :: "engine_kind \<Rightarrow> string" where
  "stopped_message engine =
     (if engine = Codex then (''Codex '' @ utf8 [0x5DF2, 0x7531, 0x7528, 0x6237, 0x505C, 0x6B62, 0xFF0C, 0x7B49, 0x5F85, 0x663E, 0x5F0F, 0x6062, 0x590D]) else (''Cursor ACP '' @ utf8 [0x5DF2, 0x7531, 0x7528, 0x6237, 0x505C, 0x6B62, 0xFF0C, 0x7B49, 0x5F85, 0x663E, 0x5F0F, 0x6062, 0x590D]))"

text \<open>\<open>None\<close> is the panic of the ledger, which \<open>review_target\<close> rules out.\<close>

(* lib.rs 1244-1314 run_review_action *)
definition run_review_action ::
    "review_env \<Rightarrow> (string \<Rightarrow> bool) \<Rightarrow> filesystem \<Rightarrow> app_config app_result \<Rightarrow> engine_answers \<Rightarrow> outbox_action
      \<Rightarrow> review_app \<Rightarrow> (action_execution_result app_result \<times> review_app) option" where
  "run_review_action env is_dir fs load ans action a =
     (case try_bind (map_error (\<lambda>e. AppError ((''outbox review action '' @ utf8 [0x53CD, 0x5E8F, 0x5217, 0x5316, 0x5931, 0x8D25, 0xFF1A]) @ e))
             (review_payload_of (oa_payload action))) (\<lambda>payload.
           try_bind (review_target payload) (\<lambda>(pr, cand).
           try_bind (project_validated is_dir load (oa_project_id action)) (\<lambda>project.
           Inr (payload_invocation payload, pr, cand, prj_engine_kind project)))) of
        Inl e \<Rightarrow> Some (Inl e, a)
      | Inr (invo, pr, cand, engine) \<Rightarrow>
          if cand \<noteq> None \<and> engine_stopped engine a
          then Some (Inr (Exec_Blocked (stopped_message engine) (w_resume_generation (ra_world a))), a)
          else
     (case (if cand = None then resume_engine env engine a else (Inr (), a)) of
        (Inl e, a) \<Rightarrow> Some (Inl e, a)
      | (Inr _, a) \<Rightarrow>
     (case start_for_outbox env is_dir fs load ans (oa_project_id action) pr invo (oa_id action) a of
        (Inl e, a) \<Rightarrow> Some (Inl e, a)
      | (Inr outcome, a) \<Rightarrow>
          (case cand of
             Some c \<Rightarrow>
               if should_record_dispatch_ledger outcome then
                 (case record_dispatched (oa_project_id action) [c] (ra_world a) of
                    None \<Rightarrow> None
                  | Some (Inl e, w) \<Rightarrow> Some (Inl e, a\<lparr>ra_world := w\<rparr>)
                  | Some (Inr _, w) \<Rightarrow>
                      Some (Inr (Exec_Done (Output_Review (outcome_thread_id outcome))), a\<lparr>ra_world := w\<rparr>))
               else Some (Inr (Exec_Done (Output_Review (outcome_thread_id outcome))), a)
           | None \<Rightarrow> Some (Inr (Exec_Done (Output_Review (outcome_thread_id outcome))), a)))))"

(* lib.rs 1323-1340 run_stop_action *)
definition run_stop_action ::
    "review_env \<Rightarrow> engine_answers \<Rightarrow> outbox_action \<Rightarrow> review_app \<Rightarrow> unit app_result \<times> review_app" where
  "run_stop_action env ans action a =
     (case map_error (\<lambda>e. AppError ((''outbox stop-review action '' @ utf8 [0x53CD, 0x5E8F, 0x5217, 0x5316, 0x5931, 0x8D25, 0xFF1A]) @ e)) (stop_payload_of (oa_payload action)) of
        Inl e \<Rightarrow> (Inl e, a)
      | Inr p \<Rightarrow> stop_for_outbox env ans (oa_project_id action) (srp_pr_number p) (srp_skill_key p) a)"

section \<open>Panel commands and startup\<close>

(* review/commands.rs 898-900 list_review_sessions *)
definition list_review_sessions :: "review_app \<Rightarrow> session_info list" where
  "list_review_sessions a = registry_list (ra_registry a)"

(* review/commands.rs 906-916 get_session_history *)
definition get_session_history :: "string \<Rightarrow> nat \<Rightarrow> string \<Rightarrow> review_app \<Rightarrow> history_item list app_result" where
  "get_session_history project_id pr t a = get_history project_id pr t (w_db (ra_world a))"

(* review/commands.rs 922-929 get_pr_sessions *)
definition list_pr_sessions :: "string \<Rightarrow> nat \<Rightarrow> review_app \<Rightarrow> session_info list app_result" where
  "list_pr_sessions project_id pr a = get_pr_sessions project_id pr (w_db (ra_world a))"

(* lib.rs 817-825 claim_releaser *)
definition release_outbox_claim :: "db \<Rightarrow> int \<Rightarrow> db" where
  "release_outbox_claim d outbox_id = snd (release_claim outbox_id d)"

end
