(* ===== verification/Session_Properties.thy ===== *)
theory Session_Properties
  imports Session_Commands Session_Interleaving Notification_Properties
begin

text \<open>
  What the reviews promise: a turn that ends is settled, a start that fails can be tried again, an outbox
  row that is replayed after a crash does not start a second review, and a terminal notice takes back the
  pending notice that the review has started.
\<close>

section \<open>The parts of the handle that an operation leaves alone\<close>

lemma on_world_sel [simp]:
  "ra_registry (snd (on_world f a)) = ra_registry a" "ra_pumps (snd (on_world f a)) = ra_pumps a"
  "ra_watchdogs (snd (on_world f a)) = ra_watchdogs a" "ra_claude (snd (on_world f a)) = ra_claude a"
  "ra_world (snd (on_world f a)) = snd (f (ra_world a))" "fst (on_world f a) = fst (f (ra_world a))"
  by (simp_all add: on_world_def split_beta)

lemma on_registry_sel [simp]:
  "ra_world (snd (on_registry f a)) = ra_world a" "ra_pumps (snd (on_registry f a)) = ra_pumps a"
  "ra_registry (snd (on_registry f a)) = snd (f (ra_registry a))" "fst (on_registry f a) = fst (f (ra_registry a))"
  by (simp_all add: on_registry_def split_beta)

lemma with_registry_sel [simp]:
  "ra_world (with_registry f a) = ra_world a" "ra_pumps (with_registry f a) = ra_pumps a"
  "ra_registry (with_registry f a) = f (ra_registry a)"
  by (simp_all add: with_registry_def)

lemma emit_review_sel [simp]:
  "ra_registry (emit_review e a) = ra_registry a" "ra_pumps (emit_review e a) = ra_pumps a"
  "w_db (ra_world (emit_review e a)) = w_db (ra_world a)"
  by (simp_all add: emit_review_def)

lemma stamped_db_sel [simp]:
  "ra_registry (snd (stamped_db f a)) = ra_registry a" "ra_pumps (snd (stamped_db f a)) = ra_pumps a"
  by (simp_all add: stamped_db_def)

lemma best_effort_sel [simp]:
  "ra_registry (snd (best_effort f a)) = ra_registry a" "ra_pumps (snd (best_effort f a)) = ra_pumps a"
  by (simp_all add: best_effort_def split: option.split)

lemma notify_persist_sel [simp]:
  "ra_registry (notify_persist_failure_once p a) = ra_registry a" "ra_pumps (notify_persist_failure_once p a) = ra_pumps a"
  "w_db (ra_world (notify_persist_failure_once p a)) = w_db (ra_world a)"
  by (simp_all add: notify_persist_failure_once_def)

text \<open>A result and a state, taken apart by their components.\<close>

lemma case_result:
  "(case p of (Inl e, a) \<Rightarrow> f e a | (Inr v, a) \<Rightarrow> g v a) = (case fst p of Inl e \<Rightarrow> f e (snd p) | Inr v \<Rightarrow> g v (snd p))"
  by (cases p) (simp split: sum.split)

text \<open>An operation that may report a failed write keeps the registry and the pumps.\<close>

lemma persist_sel [simp]:
  "ra_registry (snd (persist_session info a)) = ra_registry a" "ra_pumps (snd (persist_session info a)) = ra_pumps a"
  "ra_registry (persist_status t st a) = ra_registry a" "ra_pumps (persist_status t st a) = ra_pumps a"
  "ra_registry (append_or_notify p t i k x a) = ra_registry a" "ra_pumps (append_or_notify p t i k x a) = ra_pumps a"
  by (simp_all add: persist_session_def persist_status_def append_or_notify_def case_result split: sum.split)

lemma persist_delta_sel [simp]:
  "ra_registry (persist_delta t e a) = ra_registry a" "ra_pumps (persist_delta t e a) = ra_pumps a"
  by (cases e; simp)+

lemma fire_lifecycle_sel [simp]:
  "ra_registry (snd (fire_lifecycle env e a)) = ra_registry a" "ra_pumps (snd (fire_lifecycle env e a)) = ra_pumps a"
  by (simp_all add: fire_lifecycle_def split: option.split)

section \<open>Ending a turn\<close>

definition status_of :: "string \<Rightarrow> review_app \<Rightarrow> session_status option" where
  "status_of t a = map_option si_status (registry_get t (ra_registry a))"

lemma status_get_edit [simp]:
  "map_option si_status (registry_get u (set_status t st reg)) =
    (if u = t then map_option (\<lambda>_. st) (registry_get t reg) else map_option si_status (registry_get u reg))"
  "map_option si_status (registry_get u (set_status_and_comment_url t st url reg)) =
    (if u = t then map_option (\<lambda>_. st) (registry_get t reg) else map_option si_status (registry_get u reg))"
  "map_option si_status (registry_get u (set_running t n reg)) =
    (if u = t then map_option (\<lambda>_. Session_Running) (registry_get t reg) else map_option si_status (registry_get u reg))"
  by (simp_all add: status_ops option.map_comp comp_def)

lemma finalize_begin_won:
  assumes "finalize_begin t terminal a = (Some ctx, a1)"
  shows "\<exists>s. registry_get t (ra_registry a) = Some s \<and> live (si_status s)"
    and "registry_get t (ra_registry a1) = map_option (\<lambda>s. s\<lparr>si_status := terminal\<rparr>) (registry_get t (ra_registry a))"
  using assms
  by (auto simp: finalize_begin_def on_registry_def try_begin_terminal_def Let_def split_beta status_ops
      split: option.splits if_splits)

lemma finalize_begin_lost:
  assumes "status_of t a = Some st" and "\<not> live st"
  shows "finalize_begin t terminal a = (None, a)"
  using assms by (auto simp: finalize_begin_def on_registry_def try_begin_terminal_def status_of_def)

lemma finalize_begin_wins:
  assumes "status_of t a = Some st" and "live st"
  shows "\<exists>ctx a1. finalize_begin t terminal a = (Some ctx, a1)"
  using assms by (auto simp: finalize_begin_def on_registry_def try_begin_terminal_def status_of_def split_beta Let_def)

text \<open>What the end of the funnel leaves in the registry, whatever the sink and the database do.\<close>

lemma finalize_end_registry:
  assumes "registry_get t (ra_registry a) \<noteq> None"
  shows "ra_registry (finalize_end env p n t terminal wire err url a) =
    signal_completion t \<lparr>co_status = terminal, co_wire_status = wire, co_comment_url = url, co_error = err\<rparr>
      (set_status_and_comment_url t terminal url (ra_registry a))"
proof -
  let ?reg = "set_status_and_comment_url t terminal url (ra_registry a)"
  let ?out = "\<lparr>co_status = terminal, co_wire_status = wire, co_comment_url = url, co_error = err\<rparr>"
  obtain s where s: "registry_get t ?reg = Some s"
    using assms by (auto simp: set_status_and_comment_url_def)
  define stored where "stored = (case stamped_db (store_set_status_and_comment_url t terminal url wire err)
      (with_registry (set_status_and_comment_url t terminal url) a) of
    (Inl e, a) \<Rightarrow> notify_persist_failure_once p a | (Inr _, a) \<Rightarrow> a)"
  have stored: "ra_registry stored = ?reg"
    by (simp add: stored_def case_result split: sum.split)
  define told where "told = emit_review (Turn_Completed p t wire url)
    (case err of None \<Rightarrow> stored | Some msg \<Rightarrow> emit_review (Review_Error p t msg) stored)"
  have told: "ra_registry told = ?reg" by (simp add: told_def stored split: option.split)
  have key: "dispatch_skill_key t told = Some (si_skill_key s)" by (simp add: dispatch_skill_key_def told s)
  have "finalize_end env p n t terminal wire err url a =
      (case lifecycle_event_from_wire_status wire of
         None \<Rightarrow> with_registry (signal_completion t ?out) told
       | Some event \<Rightarrow> with_registry (signal_completion t ?out)
           (snd (fire_lifecycle env \<lparr>rld_project_id = p, rld_pr_number = n, rld_skill_key = si_skill_key s,
              rld_thread_id = t, rld_event = event, rld_comment_url = url\<rparr> told)))"
    unfolding finalize_end_def Let_def stored_def [symmetric] told_def [symmetric] key option.case ..
  then show ?thesis by (simp add: told split: option.split)
qed

text \<open>A session is settled when it is terminal and its completion says so.\<close>

definition settled :: "string \<Rightarrow> review_app \<Rightarrow> bool" where
  "settled t a \<longleftrightarrow> (\<exists>st out. status_of t a = Some st \<and> \<not> live st \<and>
     map_of (rg_completions (ra_registry a)) t = Some (Some out) \<and> co_status out = st)"

lemma completions_signal [simp]: "map_of (rg_completions (signal_completion t out reg)) t = Some (Some out)"
  by (simp add: signal_completion_def update_conv')

lemma finalize_turn_settles:
  assumes "status_of t a = Some st" and "live st" and "\<not> live terminal"
  shows "settled t (finalize_turn env p n t terminal wire err a)"
proof -
  from finalize_begin_wins [OF assms(1,2)] obtain ctx a1 where won: "finalize_begin t terminal a = (Some ctx, a1)" by blast
  from finalize_begin_won [OF won] obtain s where s: "registry_get t (ra_registry a1) = Some s" by auto
  then have reg: "ra_registry (finalize_turn env p n t terminal wire err a) =
      signal_completion t \<lparr>co_status = terminal, co_wire_status = wire,
          co_comment_url = finalize_url env wire n ctx, co_error = err\<rparr>
        (set_status_and_comment_url t terminal (finalize_url env wire n ctx) (ra_registry a1))"
    by (simp add: finalize_turn_def won finalize_end_registry)
  show ?thesis
    unfolding settled_def status_of_def reg using s assms(3)
    by (simp add: completions_signal)
qed

text \<open>What ends the pump of a thread.\<close>

definition codex_ends :: "string \<Rightarrow> server_notification received \<Rightarrow> bool" where
  "codex_ends t m = (case m of Received Connection_Closed \<Rightarrow> True | Received (Turn_Completed_Note u st) \<Rightarrow> u = t
     | Received _ \<Rightarrow> False | _ \<Rightarrow> True)"

definition cursor_ends :: "cursor_input \<Rightarrow> bool" where
  "cursor_ends m = (case m of Prompt_Result _ \<Rightarrow> True | Cursor_Note (Received Cursor_Connection_Closed) \<Rightarrow> True
     | Cursor_Note (Received _) \<Rightarrow> False | Cursor_Note _ \<Rightarrow> True)"

definition claude_ends :: "claude_input \<Rightarrow> bool" where
  "claude_ends m = (case m of Claude_Line (Some (Parsed_Result _ _)) \<Rightarrow> True | Claude_Line _ \<Rightarrow> False | _ \<Rightarrow> True)"

lemma terminal_status_dead [simp]: "\<not> live (terminal_status st)"
  by (simp add: terminal_status_def)

lemma map_stop_reason_dead: "\<not> live (fst (map_stop_reason r))"
  by (simp add: map_stop_reason_def)

lemma status_of_sel [simp]:
  "status_of t (persist_delta u e a) = status_of t a" "status_of t (emit_review ev a) = status_of t a"
  "status_of t (append_or_notify p u i k x a) = status_of t a"
  "status_of t (claude_deregister u a) = status_of t a"
  by (simp_all add: status_of_def claude_deregister_def)

lemma settled_deregister [simp]: "settled t (claude_deregister u a) = settled t a"
  by (simp add: settled_def) (simp add: claude_deregister_def)

lemma codex_pump_settles:
  "status_of t a = Some st \<Longrightarrow> live st \<Longrightarrow> list_ex (codex_ends t) msgs \<Longrightarrow>
    fst (pump env p n t msgs a) \<and> settled t (snd (pump env p n t msgs a))"
  by (induction env p n t msgs a rule: pump.induct)
    (auto simp: codex_ends_def fail_connection_closed_def finalize_turn_settles split: option.split)

lemma cursor_pump_settles:
  "status_of t a = Some st \<Longrightarrow> live st \<Longrightarrow> list_ex cursor_ends msgs \<Longrightarrow>
    fst (cursor_pump env p n t msgs a) \<and> settled t (snd (cursor_pump env p n t msgs a))"
proof (induction env p n t msgs a rule: cursor_pump.induct)
  case (2 env p n t stop_reason rest a)
  then show ?case using map_stop_reason_dead [of stop_reason] by (auto simp: finalize_turn_settles split: prod.splits)
qed (auto simp: cursor_ends_def cursor_emit_and_persist_def finalize_turn_settles)

lemma claude_pump_settles:
  "status_of t a = Some st \<Longrightarrow> live st \<Longrightarrow> list_ex claude_ends msgs \<Longrightarrow>
    fst (claude_pump env p n t msgs a) \<and> settled t (snd (claude_pump env p n t msgs a))"
  by (induction env p n t msgs a rule: claude_pump.induct)
    (auto simp: claude_ends_def claude_finish_def claude_emit_and_persist_def finalize_turn_settles)

text \<open>
  C27. Once anything that ends its turn arrives, the pump of a live session stops, for each of the three
  engines and whatever it received before: the session is then terminal and the completion that waiters
  read carries the terminal status, even when every write to the database fails.
\<close>

theorem pumps_settle:
  assumes "status_of t a = Some st" and "live st"
  shows "(list_ex (codex_ends t) msgs \<longrightarrow> fst (pump env p n t msgs a) \<and> settled t (snd (pump env p n t msgs a))) \<and>
    (list_ex cursor_ends inputs \<longrightarrow> fst (cursor_pump env p n t inputs a) \<and> settled t (snd (cursor_pump env p n t inputs a))) \<and>
    (list_ex claude_ends events \<longrightarrow> fst (claude_pump env p n t events a) \<and> settled t (snd (claude_pump env p n t events a)))"
  using codex_pump_settles [OF assms] cursor_pump_settles [OF assms] claude_pump_settles [OF assms] by auto

definition bare_env :: review_env where
  "bare_env = \<lparr>rve_resume = None, rve_sink = None, rve_comment_url = (\<lambda>_ _. Some ''u'')\<rparr>"

definition app_of :: "registry \<Rightarrow> db \<Rightarrow> review_app" where
  "app_of reg d = \<lparr>ra_world = idle_world d, ra_registry = reg, ra_persist_notified = False, ra_write_error = (\<lambda>_. None),
     ra_pumps = [], ra_watchdogs = [],
     ra_claude = [], ra_codex_stopped = False, ra_cursor_stopped = False\<rparr>"

definition running_session :: session_info where
  "running_session = \<lparr>si_project_id = ''p'', si_thread_id = ''t1'', si_turn_id = ''n1'', si_pr_number = 7, si_skill_key = ''k'',
     si_engine_kind = Codex, si_status = Session_Running, si_created_at = 10, si_comment_url = None\<rparr>"

definition running_registry :: registry where
  "running_registry = empty_registry\<lparr>rg_sessions := [(''t1'', running_session)]\<rparr>"

lemma running_status: "status_of ''t1'' (app_of running_registry d) = Some Session_Running"
  by (simp add: status_of_def app_of_def running_registry_def running_session_def registry_get_def)

theorem pumps_settle_witness:
  "settled ''t1'' (snd (pump bare_env ''p'' 7 ''t1'' [Received Other_Note, Lagged 3] (app_of running_registry empty_db))) \<and>
    settled ''t1'' (snd (claude_pump bare_env ''p'' 7 ''t1'' [Claude_Line None, Claude_Eof] (app_of running_registry empty_db)))"
  using pumps_settle [OF running_status, where msgs = "[Received Other_Note, Lagged 3]" and events = "[Claude_Line None, Claude_Eof]"]
  by (auto simp: codex_ends_def claude_ends_def)

section \<open>A follow-up while the turn before it ends\<close>

text \<open>
  C33. A follow-up that begins while the funnel of the turn before it waits for the comment URL is accepted,
  and then lost: the rest of the funnel overwrites its status, so that when the turn of the follow-up ends,
  its own funnel does nothing (no status, no event, no completion, no notice).
\<close>

theorem follow_up_during_funnel_lost:
  assumes "finalize_begin t terminal a = (Some ctx, a1)" and "\<not> live terminal"
  shows "\<exists>a2. resume_begin durable t url_ctx a1 = (Inr (), a2) \<and>
    (let ended = finalize_end env p n t terminal wire err url (with_registry (set_running t turn_id) a2)
     in status_of t ended = Some terminal \<and> finalize_turn env p n t terminal' wire' err' ended = ended)"
proof -
  from finalize_begin_won [OF assms(1)] obtain s where s: "registry_get t (ra_registry a1) = Some (s\<lparr>si_status := terminal\<rparr>)" by auto
  define a2 where "a2 = with_registry (set_status t Session_Running) a1"
  have begun: "resume_begin durable t url_ctx a1 = (Inr (), a2)"
    using s assms(2) by (simp add: resume_begin_def begin_resume_def on_registry_def with_registry_def a2_def)
  let ?a3 = "with_registry (set_running t turn_id) a2"
  let ?ended = "finalize_end env p n t terminal wire err url ?a3"
  have known: "registry_get t (ra_registry ?a3) \<noteq> None" using s by (simp add: a2_def status_ops)
  then have ended: "status_of t ?ended = Some terminal" by (simp add: status_of_def finalize_end_registry)
  then have "finalize_turn env p n t terminal' wire' err' ?ended = ?ended"
    using finalize_begin_lost [OF _ assms(2)] by (simp add: finalize_turn_def)
  with begun ended show ?thesis by (auto simp: Let_def)
qed

theorem follow_up_during_funnel_lost_witness:
  "\<exists>a2. resume_begin running_session ''t1'' sample_context (snd (finalize_begin ''t1'' Session_Done (app_of running_registry empty_db))) = (Inr (), a2) \<and>
    (let ended = finalize_end bare_env ''p'' 7 ''t1'' Session_Done ''completed'' None (Some ''u'') (with_registry (set_running ''t1'' ''n2'') a2)
     in status_of ''t1'' ended = Some Session_Done \<and>
        finalize_turn bare_env ''p'' 7 ''t1'' Session_Failed ''failed'' (Some ''e'') ended = ended)"
proof -
  obtain ctx a1 where won: "finalize_begin ''t1'' Session_Done (app_of running_registry empty_db) = (Some ctx, a1)"
    using finalize_begin_wins [OF running_status live_simps(2)] by blast
  from follow_up_during_funnel_lost [OF won] show ?thesis by (simp add: won)
qed

section \<open>A start that fails\<close>

abbreviation free_pair :: "string \<Rightarrow> nat \<Rightarrow> string \<Rightarrow> registry \<Rightarrow> bool" where
  "free_pair p n sk reg \<equiv> fst (try_reserve_pair p n sk reg)"

lemma covered_iff:
  assumes "registry_keyed reg"
  shows "covered q reg \<longleftrightarrow> (\<exists>t s. registry_get t reg = Some s \<and> pair_of s = q \<and> live (si_status s))"
proof
  assume "covered q reg"
  then show "\<exists>t s. registry_get t reg = Some s \<and> pair_of s = q \<and> live (si_status s)"
    using registry_list_iff [OF assms] by (auto simp: covered_def list_ex_iff)
next
  assume "\<exists>t s. registry_get t reg = Some s \<and> pair_of s = q \<and> live (si_status s)"
  then obtain t s where s: "registry_get t reg = Some s" "pair_of s = q" "live (si_status s)" by blast
  then have "s \<in> set (registry_list reg)" by (force simp: registry_get_def registry_list_def dest: map_of_SomeD)
  with s show "covered q reg" by (auto simp: covered_def list_ex_iff)
qed

lemma free_pair_iff: "free_pair p n sk reg \<longleftrightarrow> \<not> covered (p, n, sk) reg \<and> (p, n, sk) \<notin> set (rg_reserved reg)"
  by (simp add: try_reserve_pair_def Let_def)

text \<open>The reserved pair, the committed session and the given up reservation.\<close>

definition reserved :: "string \<Rightarrow> nat \<Rightarrow> string \<Rightarrow> registry \<Rightarrow> registry" where
  "reserved p n sk reg = reg\<lparr>rg_reserved := (p, n, sk) # rg_reserved reg\<rparr>"

lemma reserved_sel [simp]:
  "registry_get t (reserved p n sk reg) = registry_get t reg" "registry_keyed (reserved p n sk reg) = registry_keyed reg"
  "covered q (reserved p n sk reg) = covered q reg"
  by (simp_all add: reserved_def registry_get_def registry_keyed_def covered_def registry_list_def)

lemma try_reserve_free: "free_pair p n sk reg \<Longrightarrow> try_reserve_pair p n sk reg = (True, reserved p n sk reg)"
  by (auto simp: try_reserve_pair_def Let_def reserved_def split: if_splits)

lemma try_reserve_taken: "\<not> free_pair p n sk reg \<Longrightarrow> try_reserve_pair p n sk reg = (False, reg)"
  by (auto simp: try_reserve_pair_def Let_def split: if_splits)

lemma release_reserved_free: "free_pair p n sk reg \<Longrightarrow> free_pair p n sk (release_pair p n sk (reserved p n sk reg))"
  by (simp add: free_pair_iff) (simp add: release_pair_def reserved_def covered_def registry_list_def)

lemma commit_starting_registry:
  "ra_registry (snd (commit_starting_session info ctx claim a)) =
     (case fst (commit_starting_session info ctx claim a) of
        Inl e \<Rightarrow> ra_registry a | Inr _ \<Rightarrow> promote_reservation info ctx (ra_registry a))"
  "ra_pumps (snd (commit_starting_session info ctx claim a)) = ra_pumps a"
  by (simp_all add: commit_starting_session_def case_result split: option.split sum.split)

lemma reserve_and_commit_cases:
  obtains (failed) e a' where "reserve_and_commit eng p n sk name ctx claim a = (Inl e, a')"
      and "free_pair p n sk (ra_registry a)" and "free_pair p n sk (ra_registry a')" and "ra_pumps a' = ra_pumps a"
  | (deduped) "reserve_and_commit eng p n sk name ctx claim a = (Inr None, a)" and "\<not> free_pair p n sk (ra_registry a)"
  | (committed) starting t now a0 a' where "reserve_and_commit eng p n sk name ctx claim a = (Inr (Some starting), a')"
      and "free_pair p n sk (ra_registry a)"
      and "starting = starting_session eng p n sk t (if eng = Codex then [] else t) now"
      and "ra_registry a' = promote_reservation starting ctx (reserved p n sk (ra_registry a))" and "ra_pumps a' = ra_pumps a"
      and "w_db (ra_world a0) = w_db (ra_world a)" and "commit_starting_session starting ctx claim a0 = (Inr (), a')"
proof (cases "free_pair p n sk (ra_registry a)")
  case False
  then have "reserve_and_commit eng p n sk name ctx claim a = (Inr None, a)"
    by (simp add: reserve_and_commit_def on_registry_def try_reserve_taken)
  with False show ?thesis by (rule deduped [rotated])
next
  case True
  let ?a = "a\<lparr>ra_registry := reserved p n sk (ra_registry a)\<rparr>"
  have reg: "ra_registry ?a = reserved p n sk (ra_registry a)" by simp
  have start: "on_registry (try_reserve_pair p n sk) a = (True, ?a)"
    using True by (simp add: on_registry_def try_reserve_free)
  show ?thesis
  proof (cases "name (reserved p n sk (ra_registry a))")
    case (Inl e)
    show ?thesis
      by (rule failed [of e "drop_guard p n sk ?a"])
        (use True Inl start in \<open>simp_all add: reserve_and_commit_def drop_guard_def with_registry_def release_reserved_free\<close>)
  next
    case (Inr t)
    obtain now a0 where now: "on_world now_epoch ?a = (now, a0)" by fastforce
    define starting where "starting = starting_session eng p n sk t (if eng = Codex then [] else t) now"
    have a0: "ra_registry a0 = reserved p n sk (ra_registry a)" "ra_pumps a0 = ra_pumps a" "w_db (ra_world a0) = w_db (ra_world a)"
      using on_world_sel [of now_epoch ?a] by (simp_all add: now)
    have eq: "reserve_and_commit eng p n sk name ctx claim a =
        (case commit_starting_session starting ctx claim a0 of
           (Inl e, a) \<Rightarrow> (Inl e, drop_guard p n sk a) | (Inr _, a) \<Rightarrow> (Inr (Some starting), a))"
      unfolding reserve_and_commit_def start reg Inr starting_def Let_def prod.case bool.case sum.case now ..
    show ?thesis
    proof (cases "commit_starting_session starting ctx claim a0")
      case (Pair r a')
      note com = commit_starting_registry [of starting ctx claim a0, unfolded Pair]
      show ?thesis
      proof (cases r)
        case (Inl e)
        show ?thesis
          by (rule failed [of e "drop_guard p n sk a'"])
            (use True Inl com a0 in \<open>simp_all add: eq Pair drop_guard_def with_registry_def release_reserved_free\<close>)
      next
        case (Inr u)
        show ?thesis
        proof (rule committed [of starting a' t now a0])
          show "reserve_and_commit eng p n sk name ctx claim a = (Inr (Some starting), a')" by (simp add: eq Pair Inr)
          show "starting = starting_session eng p n sk t (if eng = Codex then [] else t) now" by (rule starting_def)
          show "commit_starting_session starting ctx claim a0 = (Inr (), a')" by (simp add: Pair Inr)
        qed (use True Inr com a0 in simp_all)
      qed
    qed
  qed
qed

text \<open>A committed session that is failed again leaves its pair free.\<close>

lemma failed_commit_free:
  assumes "registry_keyed reg" and "free_pair p n sk reg" and "pair_of info = (p, n, sk)"
  shows "free_pair p n sk (set_status (si_thread_id info) Session_Failed (promote_reservation info ctx (reserved p n sk reg)))"
proof -
  let ?reg = "set_status (si_thread_id info) Session_Failed (promote_reservation info ctx (reserved p n sk reg))"
  have keyed: "registry_keyed ?reg" using assms(1) by (simp add: set_status_def promote_reservation_def)
  have get: "registry_get u ?reg = (if u = si_thread_id info then Some (info\<lparr>si_status := Session_Failed\<rparr>) else registry_get u reg)" for u
    by (simp add: set_status_def promote_reservation_def)
  have "rg_reserved ?reg = removeAll (p, n, sk) (rg_reserved reg)"
    using assms(3) by (simp add: set_status_def promote_reservation_def rehydrate_def release_pair_def reserved_def pair_of_def)
  moreover have "\<not> covered (p, n, sk) ?reg"
    using assms(2) unfolding covered_iff [OF keyed] free_pair_iff covered_iff [OF assms(1)] get
    by (auto split: if_splits)
  ultimately show ?thesis by (simp add: free_pair_iff)
qed

lemma fire_failed_sel [simp]:
  "ra_registry (fire_failed_lifecycle env p n sk t a) = ra_registry a" "ra_pumps (fire_failed_lifecycle env p n sk t a) = ra_pumps a"
  by (simp_all add: fire_failed_lifecycle_def)

lemma starting_pair [simp]:
  "pair_of (starting_session eng p n sk t turn now) = (p, n, sk)" "si_thread_id (starting_session eng p n sk t turn now) = t"
  by (simp_all add: starting_session_def pair_of_def)

lemma codex_start_failed:
  assumes "codex_start_review env repo p n invo ctx claim connection thread turn a = (Inl e, a')"
    and "codex_turn_input repo invo = Inr x" and "registry_keyed (ra_registry a)"
  shows "free_pair p n (inv_skill_key invo) (ra_registry a') \<and> ra_pumps a' = ra_pumps a"
proof (cases rule: reserve_and_commit_cases [of Codex p n "inv_skill_key invo" "\<lambda>_. try_bind connection (\<lambda>_. thread)" ctx claim a])
  case (failed e a')
  with assms(1) show ?thesis by (simp add: codex_start_review_def)
next
  case deduped
  with assms(1) show ?thesis by (simp add: codex_start_review_def)
next
  case (committed starting t now a0 a'')
  from assms(1,2) committed(1,3) obtain e' where
    "a' = fire_failed_lifecycle env p n (inv_skill_key invo) t (persist_status t Session_Failed (with_registry (set_status t Session_Failed) a''))"
    by (auto simp: codex_start_review_def Let_def split: sum.splits)
  then show ?thesis
    using failed_commit_free [OF assms(3) committed(2), of starting ctx] committed(3,4,5) by simp
qed

lemma other_start_failed:
  assumes "cursor_start_review view model p n invo ctx claim gen session_new a = (Inl e, a') \<or>
    claude_start_review p n invo ctx claim spawned init a = (Inl e, a')"
  shows "free_pair p n (inv_skill_key invo) (ra_registry a') \<and> ra_pumps a' = ra_pumps a"
  using assms
proof
  assume "cursor_start_review view model p n invo ctx claim gen session_new a = (Inl e, a')"
  then show ?thesis
    by (cases rule: reserve_and_commit_cases [of Cursor p n "inv_skill_key invo" "cursor_name_session view model gen session_new" ctx claim a])
      (auto simp: cursor_start_review_def Let_def)
next
  assume "claude_start_review p n invo ctx claim spawned init a = (Inl e, a')"
  then show ?thesis
    by (cases rule: reserve_and_commit_cases [of Claude p n "inv_skill_key invo" "\<lambda>_. claude_name_session spawned init" ctx claim a])
      (auto simp: claude_start_review_def Let_def)
qed

text \<open>
  A start that fails leaves its pull request free for the next one: whichever step failed, the pair is
  neither reserved nor covered by a live session, and no pump was spawned. For Codex this needs a prompt
  that can be built.
\<close>

theorem failed_start_leaves_pair_free:
  assumes "registry_keyed (ra_registry a)"
    and "codex_start_review env repo p n invo ctx claim connection thread turn a = (Inl e, a') \<and> codex_turn_input repo invo = Inr x \<or>
      cursor_start_review view model p n invo ctx claim gen session_new a = (Inl e, a') \<or>
      claude_start_review p n invo ctx claim spawned init a = (Inl e, a')"
  shows "fst (try_reserve_pair p n (inv_skill_key invo) (ra_registry a')) \<and> ra_pumps a' = ra_pumps a"
  using assms(2)
proof (elim disjE conjE)
  assume "codex_start_review env repo p n invo ctx claim connection thread turn a = (Inl e, a')" "codex_turn_input repo invo = Inr x"
  from codex_start_failed [OF this assms(1)] show ?thesis .
qed (rule other_start_failed, blast)+

definition sample_invocation :: skill_invocation where
  "sample_invocation = \<lparr>inv_skill_name = ''s'', inv_skill_path = Some ''/s'', inv_command = ''c'', inv_skill_key = ''k''\<rparr>"

definition sample_app :: review_app where
  "sample_app = app_of empty_registry empty_db"

theorem failed_start_leaves_pair_free_witness:
  "\<exists>e a'. claude_start_review ''p'' 7 sample_invocation sample_context None (Inl (AppError ''spawn'')) (Inr None) sample_app = (Inl e, a') \<and>
    fst (try_reserve_pair ''p'' 7 (inv_skill_key sample_invocation) (ra_registry a'))"
proof -
  have free: "free_pair ''p'' 7 (inv_skill_key sample_invocation) empty_registry"
    by (simp add: free_pair_iff covered_def registry_list_def empty_registry_def)
  obtain e a' where fail: "claude_start_review ''p'' 7 sample_invocation sample_context None (Inl (AppError ''spawn'')) (Inr None) sample_app = (Inl e, a')"
    using free by (simp add: claude_start_review_def reserve_and_commit_def on_registry_def sample_app_def app_of_def
        claude_name_session_def try_reserve_free)
  have "registry_keyed (ra_registry sample_app)" by (simp add: sample_app_def app_of_def)
  from failed_start_leaves_pair_free [OF this disjI2 [OF disjI2 [OF fail]]] fail show ?thesis by blast
qed

text \<open>
  A Codex start whose prompt cannot be built (its repository contains a backtick, say) fails after the
  session was committed: the caller gets the error, but the session stays live without a pump, and the pull
  request cannot be reviewed with this skill until the application is restarted.
\<close>

theorem codex_prompt_error_strands_session:
  assumes "free_pair p n (inv_skill_key invo) (ra_registry a)" and "codex_turn_input repo invo = Inl e"
  shows "\<exists>a'. codex_start_review env repo p n invo ctx None (Inr ()) (Inr t) turn a = (Inl e, a') \<and>
    status_of t a' = Some Session_Starting \<and> ra_pumps a' = ra_pumps a \<and>
    \<not> fst (try_reserve_pair p n (inv_skill_key invo) (ra_registry a'))"
proof (cases rule: reserve_and_commit_cases [of Codex p n "inv_skill_key invo" "\<lambda>_. try_bind (Inr ()) (\<lambda>_. Inr t)" ctx None a])
  case (failed e' a')
  then show ?thesis
    using assms(1) by (simp add: reserve_and_commit_def on_registry_def try_reserve_free commit_starting_session_def split_beta Let_def)
next
  case deduped
  with assms(1) show ?thesis by simp
next
  case (committed starting t' now a0 a')
  have "t' = t"
    using committed(1,3) assms(1)
    by (auto simp: reserve_and_commit_def on_registry_def try_reserve_free commit_starting_session_def starting_session_def split_beta Let_def)
  have live: "registry_get t (ra_registry a') = Some starting" "pair_of starting = (p, n, inv_skill_key invo)"
    "si_status starting = Session_Starting"
    using committed(3,4) by (simp_all add: promote_reservation_def \<open>t' = t\<close> starting_session_def pair_of_def)
  then have "starting \<in> set (registry_list (ra_registry a'))" by (force simp: registry_get_def registry_list_def dest: map_of_SomeD)
  then have "covered (p, n, inv_skill_key invo) (ra_registry a')" using live by (auto simp: covered_def list_ex_iff)
  with committed(1,5) live assms(2) show ?thesis
    by (intro exI [of _ a']) (simp add: codex_start_review_def Let_def status_of_def free_pair_iff)
qed

theorem codex_prompt_error_strands_session_witness:
  "\<exists>e a'. codex_start_review bare_env (''o/r'' @ [CHR 0x60]) ''p'' 7 sample_invocation sample_context None (Inr ()) (Inr ''t1'')
     (Inr ''n1'') sample_app = (Inl e, a') \<and> status_of ''t1'' a' = Some Session_Starting"
proof -
  have free: "free_pair ''p'' 7 (inv_skill_key sample_invocation) (ra_registry sample_app)"
    by (simp add: free_pair_iff covered_def registry_list_def empty_registry_def sample_app_def app_of_def)
  obtain e where "codex_turn_input (''o/r'' @ [CHR 0x60]) sample_invocation = Inl e"
    by (simp add: codex_turn_input_def review_prompt_def validate_prompt_token_def sample_invocation_def)
  from codex_prompt_error_strands_session [OF free this] show ?thesis by blast
qed

end
