(* ===== verification/Lifecycle_Properties.thy ===== *)
theory Lifecycle_Properties
  imports Session_Commands Notification_Properties
begin

text \<open>
  The lifecycle notices: the sink adds rows to the outbox and changes none, except that a terminal event
  takes back the pending notices that its review has started.
\<close>

section \<open>Enqueuing only adds\<close>

lemma announce_enqueued_db [simp]: "w_db (snd (announce_enqueued res)) = w_db (snd res)"
  by (cases res) (simp add: announce_enqueued_def split: sum.split)

lemma on_db_tx_grows:
  assumes "\<And>d x d'. f d = Inr (x, d') \<Longrightarrow> outbox_grows d d'"
  shows "outbox_grows (w_db w) (w_db (snd (on_db (with_tx f) w)))"
  using assms by (cases "f (w_db w)") (auto simp: on_db_def with_tx_def split: prod.split)

lemma service_enqueue_grows:
  "outbox_grows (w_db w) (w_db (snd (service_enqueue_deduped_after p k s x key delay w)))"
proof -
  have "outbox_grows (w_db w) (w_db (snd (on_db (with_tx (enqueue_in_tx [] row now)) w')))" if "w_db w' = w_db w" for row now w'
    using on_db_tx_grows [of "enqueue_in_tx [] row now" w'] that by (auto dest: enqueue_in_grows)
  then show ?thesis
    by (simp add: service_enqueue_deduped_after_def split_beta Let_def)
qed

lemma send_scoped_grows: "outbox_grows (w_db w) (w_db (snd (enqueue_send_scoped_after load request delay all w)))"
  by (simp add: enqueue_send_scoped_after_def actions_enqueue_send_once_after_def actions_enqueue_send_after_def
      service_enqueue_grows split: sum.split option.split)

lemma notification_after_grows: "outbox_grows (w_db w) (w_db (snd (enqueue_notification_after parse_url load request dedupe delay w)))"
proof -
  let ?w = "\<lambda>prepared. (snd (now_epoch w))\<lparr>w_uuid := w_uuid (snd (now_epoch w)) + length prepared\<rparr>"
  have "outbox_grows (w_db w) (w_db (snd (on_db (with_tx (enqueue_prepared_in_tx nonces 0 prepared delay now)) (?w prepared))))" for nonces prepared now
    using on_db_tx_grows [of "enqueue_prepared_in_tx nonces 0 prepared delay now" "?w prepared"]
    by (auto dest: enqueue_prepared_grows)
  then show ?thesis
    by (simp add: enqueue_notification_after_def Let_def split_beta split: sum.split)
qed

lemma enqueue_target_grows: "outbox_grows (w_db w) (w_db (snd (enqueue_target parse_url load cfg event delay target w)))"
  by (cases target) (simp_all add: Let_def split_beta notification_after_grows send_scoped_grows)

lemma enqueue_targets_grows: "outbox_grows (w_db w) (w_db (snd (enqueue_targets parse_url load cfg event delay targets errors w)))"
proof (induction targets arbitrary: errors w)
  case (Cons target targets)
  obtain r w' where step: "enqueue_target parse_url load cfg event delay target w = (r, w')" by fastforce
  have "outbox_grows (w_db w) (w_db w')" using enqueue_target_grows [of w parse_url load cfg event delay target] by (simp add: step)
  then show ?case using Cons.IH outbox_grows_trans by (cases r) (auto simp: step)
qed simp

lemma lifecycle_notices_grow: "outbox_grows (w_db w) (w_db (snd (enqueue_lifecycle_notices parse_url load event w)))"
  using enqueue_targets_grows
  by (simp add: enqueue_lifecycle_notices_def Let_def split_beta split: sum.split)

section \<open>The keys of the notices\<close>

text \<open>What every dedupe key of a notice that a review has started contains, whatever the target.\<close>

definition start_mark :: "lifecycle_dispatch \<Rightarrow> string" where
  "start_mark event =
     ''review-lifecycle:'' @ rld_project_id event @ '':'' @ rld_thread_id event @ '':started:''"

definition adds_keyed :: "string \<Rightarrow> db \<Rightarrow> db \<Rightarrow> bool" where
  "adds_keyed mark d d' \<longleftrightarrow>
     (\<exists>new. tb_rows (db_outbox d') = tb_rows (db_outbox d) @ new \<and>
        (\<forall>r \<in> set new. \<exists>k. ob_dedupe_key r = Some k \<and> sublist mark k))"

lemma adds_keyed_refl [simp]: "adds_keyed mark d d"
  by (simp add: adds_keyed_def)

lemma adds_keyed_trans: "adds_keyed mark d d1 \<Longrightarrow> adds_keyed mark d1 d2 \<Longrightarrow> adds_keyed mark d d2"
  by (fastforce simp: adds_keyed_def)

lemma enqueue_in_keyed:
  assumes "enqueue_in_tx nonce row now d = Inr (i, d')" and "ei_dedupe_key row = Some k" and "sublist mark k"
  shows "adds_keyed mark d d'"
proof -
  from assms(1) obtain key where "enqueue_inner_tx row key now d = Inr (i, d')"
    by (auto simp: enqueue_in_tx_def try_bind_Inr_iff)
  from enqueue_inner_tx_rows [OF this] assms(2,3) show ?thesis by (auto simp: adds_keyed_def)
qed

lemma on_db_tx_keyed:
  assumes "\<And>d x d'. f d = Inr (x, d') \<Longrightarrow> adds_keyed mark d d'"
  shows "adds_keyed mark (w_db w) (w_db (snd (on_db (with_tx f) w)))"
  using assms by (cases "f (w_db w)") (auto simp: on_db_def with_tx_def split: prod.split)

lemma service_enqueue_keyed:
  assumes "sublist mark key"
  shows "adds_keyed mark (w_db w) (w_db (snd (service_enqueue_deduped_after p k s x key delay w)))"
proof -
  have "adds_keyed mark (w_db w) (w_db (snd (on_db (with_tx (enqueue_in_tx [] row now)) w')))"
    if "w_db w' = w_db w" "ei_dedupe_key row = Some key" for row now w'
    using on_db_tx_keyed [of "enqueue_in_tx [] row now" mark w'] that enqueue_in_keyed [OF _ that(2) assms] by auto
  then show ?thesis
    by (simp add: service_enqueue_deduped_after_def split_beta Let_def)
qed

lemma send_scoped_keyed:
  assumes "\<And>i. sublist mark (active_send_dedupe_key i (trim (smr_request_id request)))"
  shows "adds_keyed mark (w_db w) (w_db (snd (enqueue_send_scoped_after load request delay all w)))"
proof (cases "try_bind (find_integration load (smr_integration_id request)) (\<lambda>integration. prepare_send integration request)")
  case (Inr p)
  then have "\<exists>i. ps_dedupe_key p = active_send_dedupe_key i (trim (smr_request_id request))"
    by (auto simp: try_bind_Inr_iff prepare_send_def split: if_splits)
  with assms have "sublist mark (ps_dedupe_key p)" by auto
  with Inr show ?thesis
    by (simp add: enqueue_send_scoped_after_def actions_enqueue_send_once_after_def actions_enqueue_send_after_def
        service_enqueue_keyed split: sum.split option.split)
qed (simp add: enqueue_send_scoped_after_def)

lemma enqueue_prepared_keyed:
  assumes "\<And>row. row \<in> set rows \<Longrightarrow> \<exists>k. pr_dedupe_key row = Some k \<and> sublist mark k"
    and "enqueue_prepared_in_tx nonces n rows delay now d = Inr (ids, d')"
  shows "adds_keyed mark d d'"
  using assms
proof (induction rows arbitrary: n d ids)
  case (Cons row rows)
  from Cons.prems(2) obtain i d1 ids2 where one: "enqueue_one_prepared (nonces n) row delay now d = Inr (i, d1)"
    and rest: "enqueue_prepared_in_tx nonces (Suc n) rows delay now d1 = Inr (ids2, d')"
    by (auto simp: try_bind_Inr_iff)
  from Cons.prems(1) [of row] obtain k where k: "pr_dedupe_key row = Some k" "sublist mark k" by auto
  from one k(1) have "d1 = d \<or> enqueue_in_tx (nonces n) (prepared_input now delay row) now d = Inr (i, d1)"
    by (auto simp: enqueue_one_prepared_def try_bind_Inr_iff split: option.splits)
  then have "adds_keyed mark d d1"
    using enqueue_in_keyed [of "nonces n" "prepared_input now delay row" now d i d1 k mark] k
    by (auto simp: prepared_input_def)
  moreover have "adds_keyed mark d1 d'" using Cons.IH [OF _ rest] Cons.prems(1) by simp
  ultimately show ?case by (rule adds_keyed_trans)
qed simp

lemma notification_after_keyed:
  assumes "\<And>c. sublist mark (dedupe @ '':'' @ c)"
  shows "adds_keyed mark (w_db w) (w_db (snd (enqueue_notification_after parse_url load request (Some dedupe) delay w)))"
proof (cases "try_bind (normalize_request parse_url request) (\<lambda>request.
           try_bind (selected_channels load (nr_channel_ids request)) (\<lambda>channels.
           prepare_delivery_rows request channels (Some dedupe)))")
  case (Inr prepared)
  let ?w = "(snd (now_epoch w))\<lparr>w_uuid := w_uuid (snd (now_epoch w)) + length prepared\<rparr>"
  from Inr have rows: "\<exists>k. pr_dedupe_key row = Some k \<and> sublist mark k" if "row \<in> set prepared" for row
    using that assms by (auto simp: try_bind_Inr_iff prepare_delivery_rows_def prepared_row_of_def Let_def split: if_splits)
  have "adds_keyed mark (w_db w) (w_db (snd (on_db (with_tx (enqueue_prepared_in_tx nonces 0 prepared delay now)) ?w)))" for nonces now
    using on_db_tx_keyed [of "enqueue_prepared_in_tx nonces 0 prepared delay now" mark ?w] enqueue_prepared_keyed [OF rows]
    by auto
  then show ?thesis
    by (simp add: enqueue_notification_after_def Inr Let_def split_beta split: sum.split)
qed (simp add: enqueue_notification_after_def)

text \<open>Trimming a key of the messages keeps the mark: it begins with a letter and ends with a colon.\<close>

lemma strip_all_keeps_suffix:
  assumes "\<forall>w \<in> set ws. g \<notin> set w"
  shows "suffix (g # b) (strip_all ws (a @ g # b))"
proof (induction "length a" arbitrary: a rule: less_induct)
  case less
  show ?case
  proof (cases "strip_one ws (a @ g # b)")
    case None
    then show ?thesis by (simp add: strip_one_None_strip_all suffix_def)
  next
    case (Some t)
    then obtain w where w: "w \<in> set ws" "w \<noteq> []" "prefix w (a @ g # b)" "t = drop (length w) (a @ g # b)"
      by (auto simp: strip_one_def dest!: find_SomeD)
    have "length w \<le> length a"
    proof (rule ccontr)
      assume "\<not> length w \<le> length a"
      moreover from w(3) obtain zs where "a @ g # b = w @ zs" by (auto simp: prefix_def)
      ultimately have "g \<in> set w" by (auto simp: append_eq_append_conv2 Cons_eq_append_conv)
      with assms w(1) show False by blast
    qed
    then have t: "t = drop (length w) a @ g # b" using w(4) by simp
    from w(2) \<open>length w \<le> length a\<close> have "length (drop (length w) a) < length a" by (cases w) auto
    from less [OF this] Some t show ?thesis by (simp add: strip_all.simps [of ws "a @ g # b"])
  qed
qed

lemma trim_keeps_mark:
  assumes "graphic a" and "graphic g"
  shows "\<exists>q'. trim ((a # p) @ g # q) = (a # p) @ g # q'"
proof -
  let ?s = "(a # p) @ g # q"
  have no: "\<forall>w \<in> set white_space. x \<notin> set w" if "graphic x" for x
    using white_space_not_graphic that by blast
  have "suffix ?s (strip_all white_space ?s)" using strip_all_keeps_suffix [OF no [OF assms(1)], of "p @ g # q" "[]"] by simp
  then have start: "trim_start ?s = ?s"
    unfolding trim_start_def using strip_all_suffix suffix_order.antisym by blast
  have "\<forall>w \<in> set (map rev white_space). g \<notin> set w" using no [OF assms(2)] by simp
  from strip_all_keeps_suffix [OF this, of "rev p @ [a]" "rev q"]
  obtain z where "strip_all (map rev white_space) (rev ?s) = z @ g # rev p @ [a]" by (auto simp: suffix_def)
  then have "rev (strip_all (map rev white_space) (rev ?s)) = (a # p) @ g # rev z" by simp
  then have "trim ?s = (a # p) @ g # rev z" unfolding trim_def start trim_end_def .
  then show ?thesis by blast
qed

lemma start_mark_prefix:
  "rld_event event = Lifecycle_Started \<Longrightarrow> lifecycle_dedupe_prefix event target = start_mark event @ target"
  by (simp add: lifecycle_dedupe_prefix_def start_mark_def)

lemma started_target_keyed:
  assumes "rld_event event = Lifecycle_Started"
  shows "adds_keyed (start_mark event) (w_db w) (w_db (snd (enqueue_target parse_url load cfg event delay target w)))"
proof (cases target)
  case (Lifecycle_Channels ids)
  have "sublist (start_mark event) (lifecycle_dedupe_prefix event ''notification'' @ '':'' @ c)" for c
    by (simp add: start_mark_prefix [OF assms] sublist_append_rightI)
  with Lifecycle_Channels show ?thesis by (simp add: Let_def split_beta notification_after_keyed)
next
  case (Lifecycle_Conversation i c)
  let ?rest = "''messaging:'' @ i @ '':'' @ c"
  obtain p where mark: "start_mark event = (CHR ''r'' # p) @ [CHR '':'']"
    by (rule that [of "''eview-lifecycle:'' @ rld_project_id event @ '':'' @ rld_thread_id event @ '':started''"])
      (simp add: start_mark_def)
  have "graphic CHR ''r''" "graphic CHR '':''" by (simp_all add: graphic_def byte_of_def)
  from trim_keeps_mark [OF this, of p ?rest] obtain q where
    t: "trim (start_mark event @ ?rest) = start_mark event @ q" by (auto simp: mark)
  have "sublist (start_mark event) (active_send_dedupe_key j (trim (start_mark event @ ?rest)))" for j
  proof -
    have "trim (start_mark event @ q) = start_mark event @ q" using t [symmetric] trim_trim by metis
    then show ?thesis
      using sublist_appendI [of "start_mark event" "''messaging-send:'' @ trim j @ '':''" q]
      unfolding active_send_dedupe_key_def t by simp
  qed
  then have "adds_keyed (start_mark event) (w_db w) (w_db (snd (enqueue_send_scoped_after load
      \<lparr>smr_integration_id = i, smr_conversation_id = c, smr_content = Text (lifecycle_text (lifecycle_message cfg event)),
       smr_request_id = lifecycle_dedupe_prefix event ?rest\<rparr> delay True w)))"
    by (intro send_scoped_keyed) (simp add: start_mark_prefix [OF assms])
  with Lifecycle_Conversation show ?thesis by (simp add: split_beta)
qed

lemma started_targets_keyed:
  assumes "rld_event event = Lifecycle_Started"
  shows "adds_keyed (start_mark event) (w_db w) (w_db (snd (enqueue_targets parse_url load cfg event delay targets errors w)))"
proof (induction targets arbitrary: errors w)
  case (Cons target targets)
  obtain r w' where step: "enqueue_target parse_url load cfg event delay target w = (r, w')" by fastforce
  have "adds_keyed (start_mark event) (w_db w) (w_db w')"
    using started_target_keyed [OF assms, of w parse_url load cfg delay target] by (simp add: step)
  then show ?case using Cons.IH adds_keyed_trans by (cases r) (auto simp: step)
qed simp

text \<open>Every row that the sink adds for a review that has started has the mark in its dedupe key.\<close>

lemma started_rows_marked:
  assumes "rld_event event = Lifecycle_Started"
  shows "adds_keyed (start_mark event) (w_db w) (w_db (snd (lifecycle_enqueue parse_url load event w)))"
  using started_targets_keyed [OF assms] assms
  by (simp add: lifecycle_enqueue_def enqueue_lifecycle_notices_def Let_def split_beta split: sum.split)

section \<open>Taking back the start\<close>

definition awaits_start :: "lifecycle_dispatch \<Rightarrow> outbox_row \<Rightarrow> bool" where
  "awaits_start event r \<longleftrightarrow> ob_status r = ''pending'' \<and>
     (\<exists>k. ob_dedupe_key r = Some k \<and> sublist (start_mark event) k)"

lemma fragment_is_mark: "started_dedupe_fragment event = start_mark event"
  by (simp add: started_dedupe_fragment_def start_mark_def)

definition killed :: "string \<Rightarrow> int \<Rightarrow> outbox_row \<Rightarrow> outbox_row" where
  "killed error now r = r\<lparr>ob_status := ''dead'', ob_last_error := Some error, ob_updated_at := now\<rparr>"

lemma kill_pending_lookup:
  "kill_pending_ids ids e now d = Inr (u, d') \<Longrightarrow>
    by_id ob_id j (db_outbox d') = map_option (\<lambda>r. if j \<in> set ids \<and> ob_status r = ''pending'' then killed e now r else r) (by_id ob_id j (db_outbox d))"
proof (induction ids arbitrary: d)
  case Nil
  then show ?case by (simp add: option.map_ident)
next
  case (Cons i ids)
  from Cons.prems obtain n d1 where
    u: "outbox_update (\<lambda>r. ob_id r = i \<and> ob_status r = ''pending'') (killed e now) d = Inr (n, d1)"
    and rest: "kill_pending_ids ids e now d1 = Inr (u, d')"
    by (auto simp: try_bind_Inr_iff killed_def [abs_def])
  have "by_id ob_id j (db_outbox d1) = map_option (\<lambda>r. if ob_id r = i \<and> ob_status r = ''pending'' then killed e now r else r) (by_id ob_id j (db_outbox d))"
    by (rule outbox_update_lookup [OF u]) (simp add: killed_def)
  moreover have "by_id ob_id j (db_outbox d) = Some r \<Longrightarrow> ob_id r = j" for r by (blast dest: by_id_Some_in)
  ultimately show ?case using Cons.IH [OF rest] by (cases "by_id ob_id j (db_outbox d)") (auto simp: killed_def)
qed

text \<open>A statement that cancels reports no pending row that is left.\<close>

lemma cancel_pending_started_lookup:
  assumes "fst (cancel_pending_started event w) = Inr ()" and "r \<in> set (tb_rows (db_outbox (w_db w)))" and "outbox_ok (w_db w)"
  shows "\<exists>e now. by_id ob_id (ob_id r) (db_outbox (w_db (snd (cancel_pending_started event w)))) =
    Some (if awaits_start event r then killed e now r else r)"
proof -
  let ?p = "\<lambda>r. ob_status r = ''pending'' \<and>
    (case ob_dedupe_key r of None \<Rightarrow> False | Some k \<Rightarrow> contains_sub k (started_dedupe_fragment event))"
  let ?e = "''review lifecycle Started canceled by terminal event''"
  let ?now = "fst (now_epoch w)" and ?ids = "map ob_id (sql_select ?p (db_outbox (w_db w)))"
  have ne: "started_dedupe_fragment event \<noteq> []" by (simp add: started_dedupe_fragment_def)
  have p: "?p r = awaits_start event r" for r
    by (auto simp: awaits_start_def contains_sub_iff fragment_is_mark split: option.split)
  have dist: "distinct (map ob_id (tb_rows (db_outbox (w_db w))))"
    using assms(3) by (auto simp: outbox_ok_def tbl_ok_def strict_sorted_iff)
  then have own: "by_id ob_id (ob_id r) (db_outbox (w_db w)) = Some r" using assms(2) by (simp add: by_id_eq_Some_iff)
  obtain now d' u where kill: "kill_pending_ids ?ids (clamp_error ?e) now (w_db w) = Inr (u, d')"
    and out: "w_db (snd (cancel_pending_started event w)) = d'"
  proof (cases "sqlite_epoch ''now'' ?now")
    case (Inl e)
    then show ?thesis
      using assms(1) ne by (simp add: cancel_pending_started_def mark_pending_by_dedupe_fragment_dead_def on_db_def split_beta Let_def)
  next
    case (Inr now)
    show ?thesis
    proof (cases "kill_pending_ids ?ids (clamp_error ?e) now (w_db w)")
      case (Inl e)
      then show ?thesis
        using assms(1) ne Inr
        by (simp add: cancel_pending_started_def mark_pending_by_dedupe_fragment_dead_def on_db_def split_beta Let_def with_tx_def)
    next
      case (Inr res)
      obtain u d' where res: "res = (u, d')" by (cases res)
      have "w_db (snd (cancel_pending_started event w)) = d'"
        using ne Inr \<open>sqlite_epoch ''now'' ?now = Inr now\<close>
        by (simp add: cancel_pending_started_def mark_pending_by_dedupe_fragment_dead_def on_db_def split_beta Let_def with_tx_def res)
      with Inr res show ?thesis by (intro that) auto
    qed
  qed
  have "ob_id r \<in> set ?ids \<and> ob_status r = ''pending'' \<longleftrightarrow> awaits_start event r"
  proof
    assume a: "ob_id r \<in> set ?ids \<and> ob_status r = ''pending''"
    then obtain r' where "r' \<in> set (tb_rows (db_outbox (w_db w)))" "?p r'" "ob_id r' = ob_id r"
      by (auto simp: sql_select_def)
    with dist assms(2) have "r' = r" by (metis by_id_eq_Some_iff option.inject)
    with \<open>?p r'\<close> p show "awaits_start event r" by blast
  next
    assume "awaits_start event r"
    with assms(2) p show "ob_id r \<in> set ?ids \<and> ob_status r = ''pending''"
      by (auto simp: sql_select_def awaits_start_def)
  qed
  with kill_pending_lookup [OF kill, of "ob_id r"] own show ?thesis by (auto simp: out)
qed

text \<open>
  C28. When the sink accepts a terminal event, no notice that the review has started is left pending: take
  any earlier event that the same review (project and thread) has started, whatever the configuration and
  the database then, and any row the sink added for it; if a row with its dedupe key is now pending, it is
  dead afterwards. The only other pending rows that die are those whose dedupe key contains the mark of
  such a notice, and every row that does not await the start is as it was: the sink only adds rows.
\<close>

theorem terminal_event_cancels_started:
  assumes "outbox_ok (w_db w)" and "rld_event event \<noteq> Lifecycle_Started"
    and "fst (lifecycle_enqueue parse_url load event w) = Inr ()"
    and "rld_event started = Lifecycle_Started" and "rld_project_id started = rld_project_id event"
    and "rld_thread_id started = rld_thread_id event"
    and "n \<in> set (tb_rows (db_outbox (w_db (snd (lifecycle_enqueue parse_url0 load0 started w0)))))"
    and "n \<notin> set (tb_rows (db_outbox (w_db w0)))"
  shows "\<forall>r \<in> set (tb_rows (db_outbox (w_db w))).
    \<exists>r'. by_id ob_id (ob_id r) (db_outbox (w_db (snd (lifecycle_enqueue parse_url load event w)))) = Some r' \<and>
      (ob_dedupe_key r = ob_dedupe_key n \<longrightarrow> ob_status r = ''pending'' \<longrightarrow> ob_status r' = ''dead'') \<and>
      (if awaits_start event r then ob_status r' = ''dead'' else r' = r)"
proof
  fix r assume r: "r \<in> set (tb_rows (db_outbox (w_db w)))"
  let ?w = "snd (cancel_pending_started event w)"
  have cancelled: "fst (cancel_pending_started event w) = Inr ()"
    and after: "snd (lifecycle_enqueue parse_url load event w) = snd (enqueue_lifecycle_notices parse_url load event ?w)"
    using assms(2,3) by (cases "cancel_pending_started event w"; auto simp: lifecycle_enqueue_def split: sum.splits)+
  from cancel_pending_started_lookup [OF cancelled r assms(1)] obtain e now where
    was: "by_id ob_id (ob_id r) (db_outbox (w_db ?w)) = Some (if awaits_start event r then killed e now r else r)" by blast
  from outbox_grows_find [OF lifecycle_notices_grow, where p = "\<lambda>x. ob_id x = ob_id r"] was
  have "by_id ob_id (ob_id r) (db_outbox (w_db (snd (enqueue_lifecycle_notices parse_url load event ?w)))) =
      Some (if awaits_start event r then killed e now r else r)"
    by (auto simp: by_id_def)
  moreover have "awaits_start event r" if "ob_dedupe_key r = ob_dedupe_key n" "ob_status r = ''pending''"
  proof -
    have "start_mark started = start_mark event" using assms(5,6) by (simp add: start_mark_def)
    with started_rows_marked [OF assms(4), of w0 parse_url0 load0] assms(7,8)
    have "\<exists>k. ob_dedupe_key n = Some k \<and> sublist (start_mark event) k" by (auto simp: adds_keyed_def)
    with that show ?thesis by (simp add: awaits_start_def)
  qed
  ultimately show "\<exists>r'. by_id ob_id (ob_id r) (db_outbox (w_db (snd (lifecycle_enqueue parse_url load event w)))) = Some r' \<and>
      (ob_dedupe_key r = ob_dedupe_key n \<longrightarrow> ob_status r = ''pending'' \<longrightarrow> ob_status r' = ''dead'') \<and>
      (if awaits_start event r then ob_status r' = ''dead'' else r' = r)"
    by (simp add: after killed_def)
qed

definition sample_event :: lifecycle_dispatch where
  "sample_event = \<lparr>rld_project_id = ''p'', rld_pr_number = 7, rld_skill_key = ''k'', rld_thread_id = ''t1'',
     rld_event = Lifecycle_Completed, rld_comment_url = None\<rparr>"

definition sample_started :: lifecycle_dispatch where
  "sample_started = sample_event\<lparr>rld_event := Lifecycle_Started\<rparr>"

text \<open>A configuration that tells one conversation that reviews have started, and nothing else.\<close>

definition start_only :: app_config where
  "start_only = desktop_config
     \<lparr>cfg_review_lifecycle := \<lparr>rln_enabled = True, rln_events = [Lifecycle_Started],
        rln_targets = [Lifecycle_Conversation ''p'' ''t''], rln_start_delay_secs = 60, rln_end_delay_secs = 0\<rparr>,
      cfg_integrations := [feishu_default\<lparr>mi_id := ''p'', mi_enabled := True, mi_allowed_conversation_ids := [''t'']\<rparr>]\<rparr>"

definition one_row :: "outbox_row \<Rightarrow> db" where
  "one_row r = empty_db\<lparr>db_outbox := tbl_push 1 r empty_table\<rparr>"

lemma send_on_empty:
  assumes "trim key \<noteq> []" and "json_valid payload"
  shows "\<exists>r. w_db (snd (actions_enqueue_send_once_after summary payload key 60 (idle_world empty_db))) = one_row r \<and>
    ob_id r = 1 \<and> ob_status r = ''pending'' \<and> ob_dedupe_key r = Some key \<and> outbox_ok (one_row r)"
proof -
  let ?in = "\<lparr>ei_project_id = messaging_outbox_scope, ei_kind = Kind_MessagingSend, ei_summary = summary,
     ei_payload = payload, ei_dedupe_key = Some key, ei_next_attempt_at = Some 70\<rparr>"
  have "trim messaging_outbox_scope \<noteq> []"
    by (rule trim_not_Nil [of "CHR ''m''"]) (simp_all add: messaging_outbox_scope_def is_ascii_alphanumeric_def byte_of_def)
  moreover have "trim (''dedupe:'' @ x) \<noteq> []" for x
    by (rule trim_not_Nil [of "CHR ''d''"]) (simp_all add: is_ascii_alphanumeric_def byte_of_def)
  ultimately obtain p where p: "producer_for_dedupe messaging_outbox_scope key = Inr p" "p \<noteq> []"
    using assms by (auto simp: producer_for_dedupe_def new_key_def non_empty_def)
  let ?r = "enqueue_row ?in p 70 10 1"
  have "enqueue_inner_tx ?in p 10 empty_db = Inr (1, one_row ?r)"
    using p(2) assms(2) by (simp add: enqueue_inner_tx_def sqlite_epoch_def i64_max_def tbl_next_def empty_table_def
        enqueue_row_def outbox_insertable_def outbox_check_def kind_as_wire_def outbox_kinds_def
        outbox_statuses_def thread_check_def unique_index_def producer_index_def live_dedupe_index_def
        one_row_def empty_db_def tbl_push_def Let_def is_live_def)
  with outbox_ok_empty have "outbox_ok (one_row ?r)" by (rule enqueue_inner_tx_ok)
  moreover have "w_db (snd (actions_enqueue_send_once_after summary payload key 60 (idle_world empty_db))) = one_row ?r"
    using \<open>enqueue_inner_tx ?in p 10 empty_db = Inr (1, one_row ?r)\<close> p(1)
    by (simp add: read_conn_def actions_enqueue_send_once_after_def actions_enqueue_send_after_def service_enqueue_deduped_after_def
        id_by_dedupe_key_any_status_def id_by_dedupe_key_any_status_in_tx_def empty_db_def empty_table_def
        enqueue_in_tx_def default_producer_key_def idle_world_def now_epoch_def sat_add_u64_def u64_max_def with_tx_def on_db_def)
  ultimately show ?thesis by (intro exI [of _ ?r]) simp
qed

text \<open>A review that starts under this configuration leaves one pending row.\<close>

lemma sample_start:
  obtains r k where
    "w_db (snd (lifecycle_enqueue (\<lambda>_. None) (Inr start_only) sample_started (idle_world empty_db))) = one_row r"
    and "ob_id r = 1" and "ob_status r = ''pending''" and "outbox_ok (one_row r)"
proof -
  let ?m = "feishu_default\<lparr>mi_id := ''p'', mi_enabled := True, mi_allowed_conversation_ids := [''t'']\<rparr>"
  let ?q = "\<lparr>smr_integration_id = ''p'', smr_conversation_id = ''t'',
    smr_content = Text (lifecycle_text (lifecycle_message start_only sample_started)),
    smr_request_id = lifecycle_dedupe_prefix sample_started ''messaging:p:t''\<rparr>"
  have "trim (lifecycle_text (lifecycle_message start_only sample_started)) \<noteq> []"
    by (rule trim_not_Nil [of "CHR ''P''"])
      (simp_all add: lifecycle_text_def lifecycle_message_def Let_def is_ascii_alphanumeric_def byte_of_def split: option.split)
  moreover have "trim (lifecycle_dedupe_prefix sample_started ''messaging:p:t'') \<noteq> []"
    by (rule trim_not_Nil [of "CHR ''r''"])
      (simp_all add: lifecycle_dedupe_prefix_def is_ascii_alphanumeric_def byte_of_def)
  ultimately obtain ps where ps: "prepare_send ?m ?q = Inr ps"
    by (auto simp: prepare_send_def conversation_allowed_def)
  then have "\<exists>i. ps_dedupe_key ps = active_send_dedupe_key i (trim (smr_request_id ?q))"
    by (auto simp: try_bind_Inr_iff prepare_send_def split: if_splits)
  then have "CHR ''m'' \<in> set (ps_dedupe_key ps)" by (auto simp: active_send_dedupe_key_def)
  then have "trim (ps_dedupe_key ps) \<noteq> []"
    by (rule trim_not_Nil) (simp add: is_ascii_alphanumeric_def byte_of_def)
  moreover from ps have "json_valid (ps_payload ps)" by (auto simp: prepare_send_def try_bind_Inr_iff split: if_splits)
  ultimately obtain r where
    r: "w_db (snd (actions_enqueue_send_once_after (ps_summary ps) (ps_payload ps) (ps_dedupe_key ps) 60 (idle_world empty_db))) = one_row r"
      "ob_id r = 1" "ob_status r = ''pending''" "outbox_ok (one_row r)" using send_on_empty by blast
  have "w_db (snd (lifecycle_enqueue (\<lambda>_. None) (Inr start_only) sample_started (idle_world empty_db))) = one_row r"
    using ps r(1)
    by (simp add: lifecycle_enqueue_def enqueue_lifecycle_notices_def sample_started_def start_only_def Let_def split_beta
        enqueue_send_scoped_after_def find_integration_def split: sum.split)
  with r show ?thesis by (intro that)
qed

lemma cancel_one_row:
  assumes "ob_id r = 1" and "ob_status r = ''pending''" and "outbox_ok (one_row r)"
  shows "fst (cancel_pending_started sample_event (idle_world (one_row r))) = Inr ()"
proof -
  have ne: "started_dedupe_fragment sample_event \<noteq> []" by (simp add: started_dedupe_fragment_def)
  let ?ids = "map ob_id (sql_select (\<lambda>r. ob_status r = ''pending'' \<and>
      (case ob_dedupe_key r of None \<Rightarrow> False | Some k \<Rightarrow> contains_sub k (started_dedupe_fragment sample_event))) (db_outbox (one_row r)))"
  have "?ids = [] \<or> ?ids = [1]"
    using assms(1) by (auto simp: sql_select_def one_row_def empty_db_def empty_table_def tbl_push_def)
  moreover have "\<exists>d'. kill_pending_ids [1] e now (one_row r) = Inr ((), d')" for e now
    using assms(1,2) by (simp add: outbox_update_def Let_def rethreaded_def sql_select_def table_simps one_row_def empty_db_def
        empty_table_def tbl_push_def unique_index_def live_dedupe_index_def is_live_def split: option.split)
  ultimately obtain d' where
    "kill_pending_ids ?ids (clamp_error ''review lifecycle Started canceled by terminal event'') 10 (one_row r) = Inr ((), d')"
    by fastforce
  then show ?thesis
    by (simp add: cancel_pending_started_def mark_pending_by_dedupe_fragment_dead_def ne on_db_def with_tx_def split_beta Let_def
        idle_world_def now_epoch_def sqlite_epoch_def i64_max_def del: kill_pending_ids.simps)
qed

text \<open>The review starts, its notice waits for its minute, and the review completes meanwhile.\<close>

theorem terminal_event_cancels_started_witness:
  "\<exists>r r'. r \<in> set (tb_rows (db_outbox (w_db (snd (lifecycle_enqueue (\<lambda>_. None) (Inr start_only) sample_started (idle_world empty_db)))))) \<and>
    ob_status r = ''pending'' \<and>
    by_id ob_id (ob_id r) (db_outbox (w_db (snd (lifecycle_enqueue (\<lambda>_. None) (Inr start_only) sample_event
      (idle_world (w_db (snd (lifecycle_enqueue (\<lambda>_. None) (Inr start_only) sample_started (idle_world empty_db))))))))) = Some r' \<and>
    ob_status r' = ''dead''"
proof -
  obtain r where r: "w_db (snd (lifecycle_enqueue (\<lambda>_. None) (Inr start_only) sample_started (idle_world empty_db))) = one_row r"
    "ob_id r = 1" "ob_status r = ''pending''" "outbox_ok (one_row r)" by (rule sample_start)
  have in_row: "r \<in> set (tb_rows (db_outbox (one_row r)))" "r \<notin> set (tb_rows (db_outbox empty_db))"
    by (simp_all add: one_row_def tbl_push_def empty_table_def empty_db_def)
  have "fst (lifecycle_enqueue (\<lambda>_. None) (Inr start_only) sample_event (idle_world (one_row r))) = Inr ()"
    using cancel_one_row [OF r(2-4)] by (cases "cancel_pending_started sample_event (idle_world (one_row r))")
      (simp add: lifecycle_enqueue_def sample_event_def enqueue_lifecycle_notices_def start_only_def)
  from terminal_event_cancels_started [OF _ _ this, of sample_started r "\<lambda>_. None" "Inr start_only" "idle_world empty_db"]
  have "\<forall>x \<in> set (tb_rows (db_outbox (one_row r))).
    \<exists>r'. by_id ob_id (ob_id x) (db_outbox (w_db (snd (lifecycle_enqueue (\<lambda>_. None) (Inr start_only) sample_event (idle_world (one_row r)))))) = Some r' \<and>
      (ob_dedupe_key x = ob_dedupe_key r \<longrightarrow> ob_status x = ''pending'' \<longrightarrow> ob_status r' = ''dead'') \<and>
      (if awaits_start sample_event x then ob_status r' = ''dead'' else r' = x)"
    using r in_row by (simp add: idle_world_def sample_event_def sample_started_def)
  with in_row r show ?thesis by fastforce
qed

end
