(* ===== verification/Replay_Properties.thy ===== *)
theory Replay_Properties
  imports Session_Properties Lifecycle_Properties External_Properties
begin

text \<open>
  A review that an outbox row started is not started again when the row is replayed after a crash: the
  claim of the row names the session, and the session that is read back suppresses the replay.
\<close>

section \<open>What is known of a started session\<close>

definition claimed :: "int \<Rightarrow> string \<Rightarrow> db \<Rightarrow> bool" where
  "claimed i t d \<longleftrightarrow> (\<exists>c. by_id cl_outbox_id i (db_claim d) = Some c \<and> cl_thread_id c = Some t)"

definition named :: "string \<Rightarrow> db \<Rightarrow> bool" where
  "named t d \<longleftrightarrow> (\<forall>s \<in> set (tb_rows (db_session d)). ss_thread_id s = t \<longrightarrow>
     ss_turn_id s \<noteq> [] \<and> (\<exists>k. parse_skill_key_wire (ss_skill_key s) = Inr k) \<and> ss_engine_kind s \<in> range engine_kind_wire)"

lemma named_suppresses:
  assumes "named t d"
  shows "replayed_review_should_suppress t d = Inr True"
proof (cases "by_id ss_thread_id t (db_session d)")
  case None
  then show ?thesis by (simp add: replayed_review_should_suppress_def get_session_def read_conn_def)
next
  case (Some s)
  from by_id_Some_in [OF this] assms obtain k e where s: "ss_turn_id s \<noteq> []" "parse_skill_key_wire (ss_skill_key s) = Inr k"
    "ss_engine_kind s = engine_kind_wire e"
    by (auto simp: named_def)
  then obtain info where "session_of_row s = Inr info" "si_turn_id info \<noteq> []"
    by (cases e) (auto simp: session_of_row_def skill_key_from_wire_def engine_kind_from_wire_def)
  with Some show ?thesis by (simp add: replayed_review_should_suppress_def get_session_def read_conn_def)
qed

lemma upsert_named:
  assumes "si_turn_id info \<noteq> []" and "parse_skill_key_wire (si_skill_key info) = Inr k"
  obtains d' where "upsert_session_in_tx info now d = Inr ((), d')" and "db_claim d' = db_claim d" and "named (si_thread_id info) d'"
proof -
  let ?same = "\<lambda>s. ss_thread_id s = si_thread_id info" and ?t = "db_session d"
  define t' where "t' = (if list_ex ?same (tb_rows ?t) then sql_update ?same (merged_session_row info now) ?t
      else ?t\<lparr>tb_rows := tb_rows ?t @ [fresh_session_row info now]\<rparr>)"
  obtain d' where d': "prune_pr_sessions (si_project_id info) (as_i64 (si_pr_number info)) (d\<lparr>db_session := t'\<rparr>) = Inr ((), d')"
    "db_claim d' = db_claim d" "set (tb_rows (db_session d')) \<subseteq> set (tb_rows t')"
    by (auto simp: prune_pr_sessions_def Let_def table_simps)
  have "ss_turn_id s \<noteq> [] \<and> (\<exists>k. parse_skill_key_wire (ss_skill_key s) = Inr k) \<and> ss_engine_kind s \<in> range engine_kind_wire"
    if "s \<in> set (tb_rows t')" "ss_thread_id s = si_thread_id info" for s
    using that assms
    by (auto simp: t'_def table_simps fresh_session_row_def merged_session_row_def list_ex_iff split: if_splits)
  with d'(3) have "named (si_thread_id info) d'" by (auto simp: named_def)
  with d'(1,2) show ?thesis by (intro that) (simp_all add: upsert_session_in_tx_def Let_def t'_def)
qed

lemma upsert_total: "\<exists>d'. upsert_session_in_tx info now d = Inr ((), d') \<and> db_claim d' = db_claim d"
  by (simp add: upsert_session_in_tx_def prune_pr_sessions_def Let_def)

lemma persist_named:
  assumes "si_turn_id info \<noteq> []" and "parse_skill_key_wire (si_skill_key info) = Inr k"
    and "ra_write_error a (w_ticks (ra_world a)) = None"
  shows "named (si_thread_id info) (w_db (ra_world (snd (persist_session info a))))"
    and "db_claim (w_db (ra_world (snd (persist_session info a)))) = db_claim (w_db (ra_world a))"
proof -
  obtain d' where "upsert_session_in_tx info (fst (now_epoch (ra_world a))) (w_db (ra_world a)) = Inr ((), d')"
    "db_claim d' = db_claim (w_db (ra_world a))" "named (si_thread_id info) d'"
    by (rule upsert_named [OF assms(1,2)])
  with assms(3) show "named (si_thread_id info) (w_db (ra_world (snd (persist_session info a))))"
    "db_claim (w_db (ra_world (snd (persist_session info a)))) = db_claim (w_db (ra_world a))"
    by (simp_all add: persist_session_def best_effort_def case_result stamped_db_def on_db_def upsert_session_def split_beta)
qed

text \<open>A mirror that fails writes nothing.\<close>

lemma persist_failed:
  assumes "ra_write_error a (w_ticks (ra_world a)) = Some e"
  shows "w_db (ra_world (snd (persist_session info a))) = w_db (ra_world a)"
  using assms by (simp add: persist_session_def best_effort_def case_result on_world_def now_epoch_def)

text \<open>The commit of a start links the claim, and writes the session as it is then.\<close>

lemma commit_claims:
  assumes "commit_starting_session starting ctx (Some i) a = (Inr (), a')"
  shows "claimed i (si_thread_id starting) (w_db (ra_world a'))"
    and "si_turn_id starting \<noteq> [] \<Longrightarrow> parse_skill_key_wire (si_skill_key starting) = Inr k \<Longrightarrow>
      named (si_thread_id starting) (w_db (ra_world a'))"
proof -
  let ?now = "fst (now_epoch (ra_world a))" and ?d = "w_db (ra_world a)"
  let ?p = "\<lambda>c. cl_outbox_id c = i" and ?f = "\<lambda>c. c\<lparr>cl_thread_id := Some (si_thread_id starting)\<rparr>"
  have out: "sql_changes ?p (db_claim d1) = 1 \<and> w_db (ra_world a') = d1\<lparr>db_claim := sql_update ?p ?f (db_claim d1)\<rparr>"
    if "upsert_session_in_tx starting ?now ?d = Inr ((), d1)" for d1
    using assms that
    by (auto simp: commit_starting_session_def case_result stamped_db_def attach_started_session_def on_world_def on_db_def
        with_tx_def split_beta split: if_splits)
  obtain d1 where up: "upsert_session_in_tx starting ?now ?d = Inr ((), d1)" using upsert_total by blast
  from out [OF up] have "filter ?p (tb_rows (db_claim d1)) \<noteq> []" by (auto simp: sql_changes_def)
  then have "by_id cl_outbox_id i (db_claim d1) \<noteq> None" by (auto simp: by_id_None_iff filter_empty_conv)
  then obtain c' where "by_id cl_outbox_id i (db_claim d1) = Some c'" by blast
  then show "claimed i (si_thread_id starting) (w_db (ra_world a'))"
    using by_id_Some_in [of cl_outbox_id i "db_claim d1" c'] out [OF up] by (auto simp: claimed_def by_id_update)
  assume turn: "si_turn_id starting \<noteq> []" "parse_skill_key_wire (si_skill_key starting) = Inr k"
  obtain d2 where "upsert_session_in_tx starting ?now ?d = Inr ((), d2)" "db_claim d2 = db_claim ?d" "named (si_thread_id starting) d2"
    by (rule upsert_named [OF turn])
  with out show "named (si_thread_id starting) (w_db (ra_world a'))" by (simp add: named_def)
qed

text \<open>The readings of the clock up to the write of the turn: the start time and the commit.\<close>

lemma stamped_db_ticks [simp]:
  "w_ticks (ra_world (snd (stamped_db f a))) = Suc (w_ticks (ra_world a))" "ra_write_error (snd (stamped_db f a)) = ra_write_error a"
  by (simp_all add: stamped_db_def on_world_def now_epoch_def on_db_def split_beta)

lemma claim_ticks:
  "w_ticks (ra_world (snd (claim_or_suppress p n sk i a))) = Suc (w_ticks (ra_world a)) \<and>
    ra_write_error (snd (claim_or_suppress p n sk i a)) = ra_write_error a"
proof -
  obtain r a1 where r: "stamped_db (begin_claim i p n sk) a = (r, a1)" by fastforce
  with stamped_db_ticks [of "begin_claim i p n sk" a] show ?thesis
    by (auto simp: claim_or_suppress_def split: sum.split option.split)
qed

lemma reserve_and_commit_ticks:
  assumes "reserve_and_commit eng p n sk name ctx (Some i) a = (Inr (Some starting), a')"
  shows "w_ticks (ra_world a') = w_ticks (ra_world a) + 2 \<and> ra_write_error a' = ra_write_error a"
proof -
  obtain b a0 where r: "on_registry (try_reserve_pair p n sk) a = (b, a0)" by fastforce
  then have a0: "ra_world a0 = ra_world a" "ra_write_error a0 = ra_write_error a" by (auto simp: on_registry_def split_beta)
  obtain now a1 where n: "on_world now_epoch a0 = (now, a1)" by fastforce
  then have a1: "w_ticks (ra_world a1) = Suc (w_ticks (ra_world a))" "ra_write_error a1 = ra_write_error a"
    using a0 by (auto simp: on_world_def now_epoch_def)
  have commit: "w_ticks (ra_world (snd (commit_starting_session s ctx (Some i) a1))) = Suc (w_ticks (ra_world a1))"
    "ra_write_error (snd (commit_starting_session s ctx (Some i) a1)) = ra_write_error a1"
    if "fst (commit_starting_session s ctx (Some i) a1) = Inr ()" for s
    using that
    by (cases "stamped_db (attach_started_session i s) a1"; cases "fst (stamped_db (attach_started_session i s) a1)";
        use stamped_db_ticks [of "attach_started_session i s" a1] in \<open>simp add: commit_starting_session_def with_registry_def\<close>)+
  from assms r n obtain s t where "commit_starting_session s ctx (Some i) a1 = (Inr (), a')"
    by (auto simp: reserve_and_commit_def Let_def split: if_splits sum.splits prod.splits bool.splits)
  with commit [of s] a1 show ?thesis by simp
qed

section \<open>A start that succeeds\<close>

definition recorded :: "int \<Rightarrow> string \<Rightarrow> review_app \<Rightarrow> bool" where
  "recorded i t a \<longleftrightarrow> claimed i t (w_db (ra_world a)) \<and> named t (w_db (ra_world a))"

lemma starting_sel [simp]:
  "si_skill_key (starting_session eng p n sk t turn now) = sk" "si_turn_id (starting_session eng p n sk t turn now) = turn"
  by (simp_all add: starting_session_def)

lemma persist_recorded:
  assumes "claimed i (si_thread_id info) (w_db (ra_world a))" and "si_turn_id info \<noteq> []"
    and "parse_skill_key_wire (si_skill_key info) = Inr k"
    and "named (si_thread_id info) (w_db (ra_world a)) \<or> ra_write_error a (w_ticks (ra_world a)) = None"
  shows "recorded i (si_thread_id info) (snd (persist_session info a))"
proof (cases "ra_write_error a (w_ticks (ra_world a))")
  case None
  with assms(1) persist_named [OF assms(2,3) None] show ?thesis by (simp add: recorded_def claimed_def)
next
  case (Some e)
  with assms(1,4) persist_failed [OF Some] show ?thesis by (simp add: recorded_def)
qed

lemma recorded_registry [simp]:
  "recorded i t (with_registry f a) = recorded i t a" "recorded i t (spawn_pump p n u a) = recorded i t a"
  "recorded i t (claude_register u a) = recorded i t a"
  by (simp_all add: recorded_def spawn_pump_def claude_register_def)

lemma engine_start_recorded:
  assumes "engine_start env ans project pr invo ctx (Some i) a = (Inr (Started t), a')"
    and "parse_skill_key_wire (inv_skill_key invo) = Inr k" and "t \<noteq> []" and "\<And>turn. ea_turn ans = Inr turn \<Longrightarrow> turn \<noteq> []"
    and "prj_engine_kind project = Codex \<Longrightarrow> ra_write_error a (w_ticks (ra_world a) + 2) = None"
  shows "recorded i t a'"
proof (cases "prj_engine_kind project")
  case Codex
  let ?name = "\<lambda>_. try_bind (unit_of (ea_connection ans)) (\<lambda>_. ea_session ans)"
  show ?thesis
  proof (cases rule: reserve_and_commit_cases [of Codex "prj_id project" pr "inv_skill_key invo" ?name ctx "Some i" a])
    case (committed starting t' now a0 a1)
    from assms(1) committed(1,3) Codex obtain x turn where turn: "ea_turn ans = Inr turn" and t: "t' = t"
      and a': "a' = spawn_pump (prj_id project) pr t
        (snd (persist_session (starting\<lparr>si_turn_id := turn, si_status := Session_Running\<rparr>) (with_registry (set_running t turn) a1)))"
      by (auto simp: engine_start_def codex_start_review_def Let_def split_beta split: sum.splits)
    have "claimed i t (w_db (ra_world (with_registry (set_running t turn) a1)))"
      using commit_claims(1) [OF committed(7)] committed(3) t by simp
    moreover have "ra_write_error (with_registry (set_running t turn) a1) (w_ticks (ra_world (with_registry (set_running t turn) a1))) = None"
      using reserve_and_commit_ticks [OF committed(1)] assms(5) [OF Codex] by (simp add: with_registry_def)
    ultimately show ?thesis
      using persist_recorded [of i "starting\<lparr>si_turn_id := turn, si_status := Session_Running\<rparr>" "with_registry (set_running t turn) a1" k]
        assms(2) assms(4) [OF turn] committed(3) t
      by (simp add: a')
  qed (use assms(1) Codex in \<open>simp_all add: engine_start_def codex_start_review_def\<close>)
next
  case Claude
  let ?name = "\<lambda>_. claude_name_session (unit_of (ea_connection ans)) (ea_init ans)"
  show ?thesis
  proof (cases rule: reserve_and_commit_cases [of Claude "prj_id project" pr "inv_skill_key invo" ?name ctx "Some i" a])
    case (committed starting t' now a0 a1)
    from assms(1) committed(1,3) Claude have t: "t' = t"
      and a': "a' = spawn_pump (prj_id project) pr t (claude_register t (mark_running starting (with_registry (set_running t t) a1)))"
      by (auto simp: engine_start_def claude_start_review_def Let_def)
    have "claimed i t (w_db (ra_world (with_registry (set_running t t) a1)))"
      "named t (w_db (ra_world (with_registry (set_running t t) a1)))"
      using commit_claims [OF committed(7)] committed(3) t assms(2,3) by simp_all
    with persist_recorded [of i "starting\<lparr>si_status := Session_Running\<rparr>" "with_registry (set_running t t) a1" k] assms(2,3) committed(3) t
    show ?thesis by (simp add: a' mark_running_def)
  qed (use assms(1) Claude in \<open>simp_all add: engine_start_def claude_start_review_def\<close>)
next
  case Cursor
  let ?name = "cursor_name_session (ea_view ans) (prj_cursor_model project) (ea_connection ans) (ea_session ans)"
  show ?thesis
  proof (cases rule: reserve_and_commit_cases [of Cursor "prj_id project" pr "inv_skill_key invo" ?name ctx "Some i" a])
    case (committed starting t' now a0 a1)
    let ?bind = "\<lambda>a. case ea_connection ans of Inl e \<Rightarrow> a | Inr gen \<Rightarrow> with_registry (bind_cursor_generation t gen) a"
    from assms(1) committed(1,3) Cursor have t: "t' = t"
      and a': "a' = spawn_pump (prj_id project) pr t (mark_running starting (?bind (with_registry (set_running t t) a1)))"
      by (auto simp: engine_start_def cursor_start_review_def Let_def)
    have "claimed i t (w_db (ra_world (?bind (with_registry (set_running t t) a1))))"
      "named t (w_db (ra_world (?bind (with_registry (set_running t t) a1))))"
      using commit_claims [OF committed(7)] committed(3) t assms(2,3) by (simp_all split: sum.split)
    with persist_recorded [of i "starting\<lparr>si_status := Session_Running\<rparr>" "?bind (with_registry (set_running t t) a1)" k] assms(2,3) committed(3) t
    show ?thesis by (simp add: a' mark_running_def)
  qed (use assms(1) Cursor in \<open>simp_all add: engine_start_def cursor_start_review_def\<close>)
qed

text \<open>The sink of the lifecycle notices adds rows to the outbox only.\<close>

lemma started_notice_recorded:
  assumes "rve_sink env = None \<or> rve_sink env = Some (lifecycle_enqueue parse_url load)" and "rld_event event = Lifecycle_Started"
  shows "recorded i t (snd (fire_lifecycle env event a)) = recorded i t a"
proof (cases "rve_sink env")
  case None
  then show ?thesis by (simp add: fire_lifecycle_def)
next
  case (Some sink)
  with assms have sink: "sink event w = enqueue_lifecycle_notices parse_url load event w" for w
    by (auto simp: lifecycle_enqueue_def)
  have "outbox_grows (w_db w) (w_db (snd (sink event w)))" for w unfolding sink by (rule lifecycle_notices_grow)
  then obtain tb where "w_db (snd (sink event (ra_world a))) = (w_db (ra_world a))\<lparr>db_outbox := tb\<rparr>"
    by (auto simp: outbox_grows_def)
  with Some show ?thesis by (simp add: fire_lifecycle_def recorded_def claimed_def named_def)
qed

lemma materialize_keeps_key: "materialize_for_engine fs invo root engine = Inr invo' \<Longrightarrow> inv_skill_key invo' = inv_skill_key invo"
  by (auto simp: materialize_for_engine_def try_bind_Inr_iff split: if_splits)

section \<open>The restart\<close>

text \<open>
  What is left after a crash: the database. The sessions that were in flight are failed before the worker
  of the outbox runs.
\<close>

(* lib.rs 836-851 reconcile_before_worker *)
definition restart :: "review_app \<Rightarrow> review_app" where
  "restart a = a\<lparr>ra_world := (ra_world a)\<lparr>w_db := snd (fail_orphaned_sessions (w_db (ra_world a)))\<rparr>,
     ra_registry := empty_registry, ra_persist_notified := False, ra_pumps := [], ra_watchdogs := [], ra_claude := [],
     ra_codex_stopped := False, ra_cursor_stopped := False\<rparr>"

lemma restart_recorded: "recorded i t a \<Longrightarrow> recorded i t (restart a)"
  by (auto simp: restart_def recorded_def claimed_def named_def fail_orphaned_sessions_def session_update_def table_simps)

lemma replay_suppressed:
  assumes "recorded i t a"
  shows "\<exists>a'. claim_or_suppress p n sk i a = (Inr (Some t), a') \<and> ra_registry a' = ra_registry a \<and> ra_pumps a' = ra_pumps a \<and>
    w_db (ra_world a') = w_db (ra_world a)"
proof -
  from assms obtain c where c: "by_id cl_outbox_id i (db_claim (w_db (ra_world a))) = Some c" "cl_thread_id c = Some t"
    by (auto simp: recorded_def claimed_def)
  have known: "begin_claim i p n sk now d = (Inr (Some t), d)" if "d = w_db (ra_world a)" for now d
    using c that by (simp add: begin_claim_def with_tx_def begin_claim_tx_def)
  let ?r = "stamped_db (begin_claim i p n sk) a"
  have r: "fst ?r = Inr (Some t)" "w_db (ra_world (snd ?r)) = w_db (ra_world a)"
    by (simp_all add: stamped_db_def on_db_def split_beta known)
  moreover have "replayed_review_should_suppress t (w_db (ra_world (snd ?r))) = Inr True"
    using assms r(2) by (simp add: named_suppresses recorded_def)
  ultimately show ?thesis
    by (cases ?r) (use stamped_db_sel [of "begin_claim i p n sk" a] in \<open>auto simp: claim_or_suppress_def\<close>)
qed

text \<open>
  The window that is left: a claim that names a session which failed without a turn, be it that the turn never
  started or that it could not be written down, does not suppress the start.
\<close>

lemma unrecorded_turn_not_suppressed:
  assumes "claimed i t (w_db (ra_world a))" and "get_session t (w_db (ra_world a)) = Inr (Some info)"
    and "si_status info = Session_Failed" and "si_turn_id info = []"
  shows "fst (claim_or_suppress p n sk i a) = Inr None"
proof -
  from assms(1) obtain c where c: "by_id cl_outbox_id i (db_claim (w_db (ra_world a))) = Some c" "cl_thread_id c = Some t"
    by (auto simp: claimed_def)
  have known: "begin_claim i p n sk now d = (Inr (Some t), d)" if "d = w_db (ra_world a)" for now d
    using c that by (simp add: begin_claim_def with_tx_def begin_claim_tx_def)
  let ?r = "stamped_db (begin_claim i p n sk) a"
  have "fst ?r = Inr (Some t)" "w_db (ra_world (snd ?r)) = w_db (ra_world a)"
    by (simp_all add: stamped_db_def on_db_def split_beta known)
  with assms(2-4) show ?thesis
    by (cases ?r) (simp add: claim_or_suppress_def replayed_review_should_suppress_def)
qed

text \<open>
  C3. A crash right after an outbox row started its review does not start it twice: when the row is run again
  after the restart, whatever the engine would answer, the attempt ends with the session of the first one;
  no session is registered, no pump is spawned and the database is as it was. The skill key must be one that
  reads back, and the engine must have named the session and the turn. A write to the database that the code
  does not insist on may have failed at any time, except, with Codex, the one that records the turn: the fourth
  reading of the clock after the row was taken up. That is the window the comment of the code leaves open.
\<close>

theorem replay_starts_once:
  assumes "start_for_outbox env is_dir fs load ans project_id pr invo i a = (Inr (Outbox_Started t), a')"
    and "rve_sink env = None \<or> rve_sink env = Some (lifecycle_enqueue parse_url load')"
    and "parse_skill_key_wire (inv_skill_key invo) = Inr k"
    and "t \<noteq> []" and "\<forall>turn. ea_turn ans = Inr turn \<longrightarrow> turn \<noteq> []"
    and "\<forall>project. project_validated is_dir load project_id = Inr project \<and> prj_engine_kind project = Codex \<longrightarrow>
      ra_write_error a (w_ticks (ra_world a) + 3) = None"
  shows "\<exists>a''. start_for_outbox env is_dir fs load ans' project_id pr invo i (restart a') = (Inr (Suppressed_Replay t), a'') \<and>
    ra_registry a'' = empty_registry \<and> ra_pumps a'' = [] \<and> w_db (ra_world a'') = w_db (ra_world (restart a'))"
proof -
  define checked where "checked = try_bind (validate_pr_number pr) (\<lambda>_.
           try_bind (project_validated is_dir load project_id) (\<lambda>project.
           try_bind (map_error AppError (materialize_for_engine fs invo (prj_repo_root project) (prj_engine_kind project))) (\<lambda>invo.
           Inr (project, invo))))"
  note start = start_for_outbox_def [of env is_dir fs load _ project_id pr invo i, folded checked_def]
  obtain project invo' where checked: "checked = Inr (project, invo')"
    using assms(1) by (cases checked) (auto simp: start)
  have "inv_skill_key invo' = inv_skill_key invo"
    using checked by (auto simp: checked_def try_bind_Inr_iff dest: materialize_keeps_key)
  with assms(3) have key: "parse_skill_key_wire (inv_skill_key invo') = Inr k" by simp
  have project: "project_validated is_dir load project_id = Inr project"
    using checked by (auto simp: checked_def try_bind_Inr_iff)
  from assms(1) checked obtain a1 where claim: "claim_or_suppress project_id pr (inv_skill_key invo') i a = (Inr None, a1)"
    and via: "start_via_engine env ans project pr invo' Trigger_Auto (Some i) a1 = (Inr (Started t), a')"
    by (auto simp: start split: prod.splits sum.splits option.splits start_review_outcome.splits stop_target.splits)
  from via obtain ctx a2 where eng: "engine_start env ans project pr invo' ctx (Some i) a1 = (Inr (Started t), a2)"
    and a': "a' = snd (fire_lifecycle env \<lparr>rld_project_id = prj_id project, rld_pr_number = pr,
             rld_skill_key = inv_skill_key invo', rld_thread_id = t, rld_event = Lifecycle_Started,
             rld_comment_url = None\<rparr> a2)"
    by (auto simp: start_via_engine_def Let_def split: prod.splits sum.splits start_review_outcome.splits)
  have "w_ticks (ra_world a1) = Suc (w_ticks (ra_world a)) \<and> ra_write_error a1 = ra_write_error a"
    using claim_ticks [of project_id pr "inv_skill_key invo'" i a] by (simp add: claim)
  then have "prj_engine_kind project = Codex \<Longrightarrow> ra_write_error a1 (w_ticks (ra_world a1) + 2) = None"
    using assms(6) project by (simp add: numeral_3_eq_3)
  then have "recorded i t a2" using engine_start_recorded [OF eng key assms(4)] assms(5) by blast
  then have "recorded i t (restart a')"
    using started_notice_recorded [OF assms(2)] by (intro restart_recorded) (simp add: a')
  from replay_suppressed [OF this, of project_id pr "inv_skill_key invo'"] show ?thesis
    by (auto simp: start checked) (auto simp: restart_def)
qed

text \<open>One outbox row, and an engine that answers.\<close>

definition replay_invocation :: skill_invocation where
  "replay_invocation = \<lparr>inv_skill_name = ''s'', inv_skill_path = None, inv_command = ''c'', inv_skill_key = ''review''\<rparr>"

definition replay_answers :: engine_answers where
  "replay_answers = \<lparr>ea_gh = Inr ''gh'', ea_cli = Inr (), ea_connection = Inr 1, ea_session = Inr ''t1'', ea_turn = Inr ''n1'',
     ea_init = Inr None, ea_chat = Init_Cancelled, ea_view = \<lparr>cv_live = False, cv_model = None, cv_generation = None, cv_client = True\<rparr>,
     ea_client = True, ea_interrupt = Inr ()\<rparr>"

definition sample_notice :: enqueue_input where
  "sample_notice = \<lparr>ei_project_id = ''p'', ei_kind = Kind_StopReview, ei_summary = ''n'',
     ei_payload = JsonOf (StopPayload \<lparr>srp_pr_number = 7, srp_skill_key = ''k''\<rparr>),
     ei_dedupe_key = Some ''n'', ei_next_attempt_at = Some 10\<rparr>"

definition sample_notice_row :: outbox_row where
  "sample_notice_row = enqueue_row sample_notice ''k1'' 10 10 1"

definition sample_notice_db :: db where
  "sample_notice_db = empty_db\<lparr>db_outbox := tbl_push 1 sample_notice_row empty_table\<rparr>"

definition replay_app :: review_app where
  "replay_app = app_of empty_registry sample_notice_db"

definition replay_start :: "review_app \<Rightarrow> outbox_start_outcome app_result \<times> review_app" where
  "replay_start = start_for_outbox bare_env (\<lambda>p. True) no_files (Inr submit_config) replay_answers ''p'' 7 replay_invocation 1"

lemma reserve_and_commit_ok:
  assumes "free_pair p n sk (ra_registry a)" and "name (reserved p n sk (ra_registry a)) = Inr t"
    and "\<And>starting a0. w_db (ra_world a0) = w_db (ra_world a) \<Longrightarrow> \<exists>a'. commit_starting_session starting ctx claim a0 = (Inr (), a')"
  shows "\<exists>starting a'. reserve_and_commit eng p n sk name ctx claim a = (Inr (Some starting), a') \<and> si_thread_id starting = t"
proof -
  let ?a = "a\<lparr>ra_registry := reserved p n sk (ra_registry a)\<rparr>"
  obtain now a0 where now: "on_world now_epoch ?a = (now, a0)" by fastforce
  have a0: "w_db (ra_world a0) = w_db (ra_world a)" using on_world_sel [of now_epoch ?a] by (simp add: now)
  have start: "on_registry (try_reserve_pair p n sk) a = (True, ?a)" "ra_registry ?a = reserved p n sk (ra_registry a)"
    using assms(1) by (simp_all add: on_registry_def try_reserve_free)
  let ?starting = "starting_session eng p n sk t (if eng = Codex then [] else t) now"
  from assms(3) [OF a0, of ?starting] obtain a' where "commit_starting_session ?starting ctx claim a0 = (Inr (), a')" by blast
  then have "reserve_and_commit eng p n sk name ctx claim a = (Inr (Some ?starting), a')"
    unfolding reserve_and_commit_def start assms(2) Let_def prod.case bool.case sum.case now by simp
  then show ?thesis by (intro exI [of _ ?starting] exI [of _ a']) simp
qed

lemma replay_first: "\<exists>a'. replay_start replay_app = (Inr (Outbox_Started ''t1''), a')"
proof -
  have checked: "project_validated (\<lambda>p. True) (Inr submit_config) ''p'' = Inr sample_project"
    using sample_project_valid
    by (simp add: project_validated_def find_project_def submit_config_def default_config_def) (simp add: sample_project_def)
  have mat: "materialize_for_engine no_files replay_invocation root Cursor = Inr replay_invocation" for root
    by (simp add: materialize_for_engine_def requires_skill_path_def replay_invocation_def)
  have eng: "prj_engine_kind sample_project = Cursor" "prj_id sample_project = ''p''" "prj_cursor_model sample_project = []"
    by (simp_all add: sample_project_def)
  have name: "cursor_name_session (ea_view replay_answers) [] (ea_connection replay_answers) (ea_session replay_answers) reg = Inr ''t1''" for reg
    by (simp add: cursor_name_session_def replay_answers_def)
  have key: "inv_skill_key replay_invocation = ''review''" by (simp add: replay_invocation_def)
  have free: "free_pair ''p'' 7 ''review'' empty_registry"
    by (simp add: free_pair_iff covered_def registry_list_def empty_registry_def)
  obtain a1 where claim: "claim_or_suppress ''p'' 7 ''review'' 1 replay_app = (Inr None, a1)" and reg: "ra_registry a1 = empty_registry"
    and cl: "\<exists>c. tb_rows (db_claim (w_db (ra_world a1))) = [c] \<and> cl_outbox_id c = 1"
    by (simp add: claim_or_suppress_def stamped_db_def on_world_def on_db_def now_epoch_def idle_world_def replay_app_def app_of_def
        begin_claim_def with_tx_def begin_claim_tx_def sample_notice_db_def sample_notice_row_def enqueue_row_def
        empty_db_def empty_table_def by_id_def outbox_exists_def tbl_push_def Let_def)
  have commit: "\<exists>a'. commit_starting_session starting ctx (Some 1) a = (Inr (), a')" if "w_db (ra_world a) = w_db (ra_world a1)" for starting ctx a
  proof -
    from upsert_total [of starting "fst (now_epoch (ra_world a))" "w_db (ra_world a)"] obtain d' where
      "upsert_session_in_tx starting (fst (now_epoch (ra_world a))) (w_db (ra_world a)) = Inr ((), d')" "db_claim d' = db_claim (w_db (ra_world a))"
      by blast
    with cl that show ?thesis
      by (auto simp: commit_starting_session_def case_result stamped_db_def attach_started_session_def on_world_def on_db_def
          with_tx_def split_beta sql_changes_def)
  qed
  have started: "\<exists>a'. cursor_start_review (ea_view replay_answers) [] ''p'' 7 replay_invocation ctx (Some 1) (ea_connection replay_answers)
      (ea_session replay_answers) a1 = (Inr (Started ''t1''), a')" for ctx
  proof -
    from reserve_and_commit_ok [where p = "''p''" and n = 7 and sk = "''review''" and eng = Cursor and ctx = ctx and a = a1
        and name = "cursor_name_session (ea_view replay_answers) [] (ea_connection replay_answers) (ea_session replay_answers)",
        OF _ name commit] free reg obtain starting a' where
      "reserve_and_commit Cursor ''p'' 7 ''review'' (cursor_name_session (ea_view replay_answers) [] (ea_connection replay_answers)
        (ea_session replay_answers)) ctx (Some 1) a1 = (Inr (Some starting), a')" "si_thread_id starting = ''t1''"
      by auto
    then show ?thesis by (simp add: cursor_start_review_def key Let_def)
  qed
  have "\<exists>a'. start_via_engine bare_env replay_answers sample_project 7 replay_invocation Trigger_Auto (Some 1) a1 = (Inr (Started ''t1''), a')"
    using started [of "comment_url_ctx_from (ea_gh replay_answers) sample_project"]
    by (auto simp: start_via_engine_def engine_start_def eng Let_def replay_answers_def)
  then show ?thesis
    using claim by (auto simp: replay_start_def start_for_outbox_def validate_pr_number_def checked eng mat key)
qed

theorem replay_starts_once_witness:
  "\<exists>a' a''. replay_start replay_app = (Inr (Outbox_Started ''t1''), a') \<and>
    replay_start (restart a') = (Inr (Suppressed_Replay ''t1''), a'') \<and> ra_pumps a'' = []"
proof -
  from replay_first obtain a' where first: "replay_start replay_app = (Inr (Outbox_Started ''t1''), a')" by blast
  have key: "\<exists>k. parse_skill_key_wire (inv_skill_key replay_invocation) = Inr k"
    by (simp add: replay_invocation_def parse_skill_key_wire_def)
  then obtain k where key: "parse_skill_key_wire (inv_skill_key replay_invocation) = Inr k" ..
  have sink: "rve_sink bare_env = None \<or> rve_sink bare_env = Some (lifecycle_enqueue (\<lambda>_. None) (Inr submit_config))"
    by (simp add: bare_env_def)
  have turn: "\<forall>turn. ea_turn replay_answers = Inr turn \<longrightarrow> turn \<noteq> []" by (simp add: replay_answers_def)
  have "\<forall>project. project_validated (\<lambda>p. True) (Inr submit_config) ''p'' = Inr project \<and> prj_engine_kind project = Codex \<longrightarrow>
      ra_write_error replay_app (w_ticks (ra_world replay_app) + 3) = None"
    by (simp add: replay_app_def app_of_def)
  from replay_starts_once [OF first [unfolded replay_start_def] sink key _ turn this, where ans' = replay_answers] first
  show ?thesis by (auto simp: replay_start_def)
qed

end
