(* ===== verification/Pr_Ingest.thy ===== *)
theory Pr_Ingest
  imports Pr_Registry Rule_Events
begin

text \<open>
  What happens to a routed webhook event once the inbox hands it back (\<open>ingest_webhook\<close> of
  \<open>pr/commands.rs\<close>): the gate, the row of the panel, the recorded delivery and the candidate that the
  rules may act on; and the panel's commands on the tracked pull requests. The JSON form of an event
  (crate \<open>serde_json\<close>) is a parameter.
\<close>

text \<open>
  From what a source reports to what may be dispatched (\<open>pr/discover.rs\<close>, the first half of
  \<open>pr/commands.rs\<close>): the gates that hold an event back (fork, draft, author, the ledger, the cooldown), the
  row each event makes in the panel, and one discovery of a project. What the source answers (the command
  line tools \<open>gh\<close> and \<open>az\<close>, Bitbucket over HTTP) is a parameter.
\<close>

section \<open>The gates\<close>

(* pr/discover.rs 17-17 BOTH_TRIGGER_LABELS_REASON *)
definition both_trigger_labels_reason :: string where
  "both_trigger_labels_reason = ''both review and check trigger labels are present''"

(* pr/discover.rs 24-28 MonitorParams *)
record monitor_params =
  mp_repo :: string
  mp_authors :: "string list"
  mp_pr_cooldown_seconds :: nat

(* pr/discover.rs 38-56 should_skip *)
definition should_skip :: "candidate \<Rightarrow> monitor_params \<Rightarrow> ledger \<Rightarrow> string option" where
  "should_skip cand params ledger =
     (if cand_is_cross_repository cand then Some ''cross-repository PR''
      else if cand_is_draft cand then Some ''draft PR''
      else if mp_authors params \<noteq> [] \<and> cand_author cand \<notin> set (mp_authors params)
      then Some (''author '' @ debug_str (cand_author cand) @ '' not in allowlist'')
      else case action_key_for_candidate cand of
        Inl e \<Rightarrow> Some (''invalid candidate: '' @ e)
      | Inr key \<Rightarrow> if has_dispatched ledger key then Some (''already dispatched key '' @ key) else None)"

(* pr/discover.rs 61-76 cooldown_skip *)
definition cooldown_skip :: "candidate \<Rightarrow> monitor_params \<Rightarrow> ledger \<Rightarrow> nat \<Rightarrow> string option" where
  "cooldown_skip cand params ledger now =
     (if mp_pr_cooldown_seconds params = 0 then None
      else case last_dispatch_at ledger (cand_number cand) (cand_skill_key cand) of
        None \<Rightarrow> None
      | Some t \<Rightarrow>
          (case cooldown_remaining now t (mp_pr_cooldown_seconds params) of
             None \<Rightarrow> None
           | Some remaining \<Rightarrow>
               Some (''recent '' @ cand_skill_key cand @ '' dispatch within cooldown ('' @ dec remaining @ ''s remaining)'')))"

text \<open>\<open>s.chars().take(n)\<close>.\<close>

fun take_chars :: "nat \<Rightarrow> string \<Rightarrow> string" where
  "take_chars n [] = []"
| "take_chars n (c # s) =
     (if is_continuation c then c # take_chars n s
      else case n of 0 \<Rightarrow> [] | Suc m \<Rightarrow> c # take_chars m s)"

(* pr/discover.rs 109-111 short_sha *)
definition short_sha :: "string \<Rightarrow> string" where
  "short_sha sha = take_chars 12 sha"

(* pr/discover.rs 86-105 live_gate_skip *)
definition live_gate_skip :: "candidate \<Rightarrow> string \<Rightarrow> bool \<Rightarrow> string option" where
  "live_gate_skip cand live_head live_is_draft =
     (if live_head \<noteq> cand_head_sha cand
      then Some (''head moved (listed='' @ short_sha (cand_head_sha cand) @ '' live='' @ short_sha live_head @ '')'')
      else if live_is_draft then Some ''draft PR'' else None)"

section \<open>Rows and dispatchable events\<close>

(* pr/commands.rs 79-107 build_view_parts *)
definition build_view_parts ::
    "candidate \<Rightarrow> string \<Rightarrow> string list \<Rightarrow> string \<Rightarrow> bool \<Rightarrow> monitor_params \<Rightarrow> ledger \<Rightarrow> nat
      \<Rightarrow> pull_request_view \<times> candidate option" where
  "build_view_parts cand title labels url conflict params ledger now =
     (let skip_reason =
        (if conflict then Some both_trigger_labels_reason
         else or_else (should_skip cand params ledger) (cooldown_skip cand params ledger now))
      in (\<lparr>pv_number = cand_number cand, pv_title = title, pv_labels = labels, pv_url = url,
            pv_skill_key = cand_skill_key cand, pv_skip_reason = skip_reason\<rparr>,
          if skip_reason = None then Some cand else None))"

(* pr/commands.rs 40-65 build_view *)
definition build_view ::
    "discovered_event \<Rightarrow> monitor_params \<Rightarrow> ledger \<Rightarrow> nat \<Rightarrow> pull_request_view \<times> candidate option" where
  "build_view de params ledger now =
     (let part = (\<lambda>f. case as_observation (dsc_event de) of None \<Rightarrow> [] | Some (_, subject) \<Rightarrow> f subject)
      in build_view_parts (dsc_candidate de) (part sub_title)
        (case as_observation (dsc_event de) of None \<Rightarrow> [] | Some (_, subject) \<Rightarrow> sub_labels subject)
        (part sub_url) (dsc_conflict de) params ledger now)"

(* pr/commands.rs 113-129 partition_events *)
definition partition_events ::
    "discovered_event list \<Rightarrow> monitor_params \<Rightarrow> ledger \<Rightarrow> nat
      \<Rightarrow> pull_request_view list \<times> discovered_event list" where
  "partition_events events params ledger now =
     (map (\<lambda>de. fst (build_view de params ledger now)) events,
      filter (\<lambda>de. snd (build_view de params ledger now) \<noteq> None) events)"

section \<open>Discovery\<close>

text \<open>
  The labels that the rules of a project, or of every project, ask for. \<open>push_label\<close> is one turn of
  the inner loop.
\<close>

definition push_label :: "string \<Rightarrow> string list \<Rightarrow> string list" where
  "push_label label labels =
     (let label = trim label in if label = [] \<or> label \<in> set labels then labels else labels @ [label])"

(* config/service.rs 104-118 rule_interest_labels *)
definition rule_interest_labels :: "rule_config list \<Rightarrow> string \<Rightarrow> string list" where
  "rule_interest_labels rules project_id =
     fold (\<lambda>rule labels.
       if rc_project_id rule \<noteq> [] \<and> rc_project_id rule \<noteq> project_id then labels
       else fold push_label (rc_labels_any rule @ rc_labels_all rule) labels) rules []"

text \<open>The outside of a discovery: resolving the command line tool, and what the source reports.\<close>

record pr_source =
  src_resolve_cli :: "source_kind \<Rightarrow> unit app_result"
  src_discover_events :: "project \<Rightarrow> string list \<Rightarrow> discovered_event list app_result"

definition source_events :: "pr_source \<Rightarrow> project \<Rightarrow> string list \<Rightarrow> discovered_event list app_result" where
  "source_events src p trigger_labels =
     (case prj_source_kind p of
        Github \<Rightarrow> try_bind (src_resolve_cli src Github) (\<lambda>_. src_discover_events src p trigger_labels)
      | Azure \<Rightarrow>
          if trim (prj_azure_org p) = [] \<or> trim (prj_azure_project p) = []
          then Inl (AppError (''Azure '' @ utf8 [0x6E90, 0x672A, 0x914D, 0x7F6E] @ '' azureOrg / azureProject'' @ utf8 [0xFF08, 0x8BF7, 0x5728, 0x8BBE, 0x7F6E, 0x4E2D, 0x8865, 0x5168, 0xFF09]))
          else try_bind (src_resolve_cli src Azure) (\<lambda>_. src_discover_events src p trigger_labels)
      | Bitbucket \<Rightarrow>
          if trim (prj_bitbucket_host p) = [] \<or> trim (prj_bitbucket_project p) = []
             \<or> trim (prj_bitbucket_token p) = [] \<or> trim (prj_repo p) = []
          then Inl (AppError (''Bitbucket '' @ utf8 [0x6E90, 0x672A, 0x914D, 0x7F6E] @ '' bitbucketHost / bitbucketProject / bitbucketToken / repo'' @ utf8 [0xFF08, 0x8BF7, 0x5728, 0x8BBE, 0x7F6E, 0x4E2D, 0x8865, 0x5168, 0xFF09]))
          else src_discover_events src p trigger_labels)"

definition params_of :: "project \<Rightarrow> monitor_params" where
  "params_of p = \<lparr>mp_repo = prj_repo p, mp_authors = prj_authors p, mp_pr_cooldown_seconds = prj_pr_cooldown_seconds p\<rparr>"

(* pr/commands.rs 142-239 discover *)
definition discover ::
    "pr_source \<Rightarrow> app_config app_result \<Rightarrow> string \<Rightarrow> world
      \<Rightarrow> (pull_request_view list \<times> discovered_event list) app_result \<times> world" where
  "discover src load project_id w =
     (case try_bind (find_project load project_id) (\<lambda>p. try_bind load (\<lambda>cfg.
           try_bind (load_ledger project_id (w_db w)) (\<lambda>ledger. Inr (p, cfg, ledger)))) of
        Inl e \<Rightarrow> (Inl e, w)
      | Inr (p, cfg, ledger) \<Rightarrow>
          (let (now, w) = now_epoch w in
           (try_bind (source_events src p (rule_interest_labels (cfg_rules cfg) project_id)) (\<lambda>events.
              Inr (partition_events events (params_of p) ledger now)), w)))"

section \<open>Facts\<close>

lemma build_view_parts_skip:
  "snd (build_view_parts cand title labels url conflict params ledger now) =
     (if pv_skip_reason (fst (build_view_parts cand title labels url conflict params ledger now)) = None then Some cand else None)"
  by (simp add: build_view_parts_def Let_def)

lemma build_view_dispatchable:
  "snd (build_view de params ledger now) \<noteq> None \<longleftrightarrow>
     \<not> dsc_conflict de \<and> should_skip (dsc_candidate de) params ledger = None \<and>
     cooldown_skip (dsc_candidate de) params ledger now = None"
  by (auto simp: build_view_def build_view_parts_def or_else_def Let_def split: option.splits)

lemma should_skip_None_iff:
  "should_skip cand params ledger = None \<longleftrightarrow>
     \<not> cand_is_cross_repository cand \<and> \<not> cand_is_draft cand \<and>
     (mp_authors params = [] \<or> cand_author cand \<in> set (mp_authors params)) \<and>
     (\<exists>key. action_key_for_candidate cand = Inr key \<and> \<not> has_dispatched ledger key)"
  by (auto simp: should_skip_def split: sum.splits)

lemma cooldown_skip_None_iff:
  "cooldown_skip cand params ledger now = None \<longleftrightarrow>
     (\<forall>t. last_dispatch_at ledger (cand_number cand) (cand_skill_key cand) = Some t \<longrightarrow>
       mp_pr_cooldown_seconds params \<le> now - t)"
  by (auto simp: cooldown_skip_def cooldown_remaining_def Let_def split: option.splits)

section \<open>Routed events\<close>

(* pr/webhook.rs 371-376 StatusOnlyKind *)
datatype status_only_kind = ClosedOrMerged | TriggerLabelRemoved

(* pr/webhook.rs 382-387 StatusOnlyKind::reason *)
fun status_only_reason :: "status_only_kind \<Rightarrow> string" where
  "status_only_reason ClosedOrMerged = (''PR '' @ utf8 [0x5DF2, 0x5173, 0x95ED, 0x6216, 0x5408, 0x5E76])"
| "status_only_reason TriggerLabelRemoved = (utf8 [0x89E6, 0x53D1] @ '' label '' @ utf8 [0x5DF2, 0x79FB, 0x9664])"

(* pr/webhook.rs 391-396 StatusOnlyKind::delivery_status *)
fun status_only_delivery :: "status_only_kind \<Rightarrow> delivery_status" where
  "status_only_delivery ClosedOrMerged = NotOpen"
| "status_only_delivery TriggerLabelRemoved = NoTriggerLabel"

(* pr/webhook.rs 347-360 IngestIntent *)
datatype ingest_intent = Track "candidate option" bool | StatusOnly status_only_kind

(* pr/webhook.rs 257-286 WebhookEvent *)
record webhook_event =
  we_project_id :: string
  we_received_at :: nat
  we_event :: string
  we_action :: "string option"
  we_repo :: string
  we_number :: nat
  we_title :: string
  we_labels :: "string list"
  we_url :: string
  we_intent :: ingest_intent

section \<open>The decision\<close>

(* pr/commands.rs 21-24 WriteKind *)
datatype write_kind = Upsert | UpdatePresent

(* pr/commands.rs 524-538 IngestDecision *)
record ingest_decision =
  id_view :: pull_request_view
  id_write :: write_kind
  id_dispatchable :: "candidate option"
  id_status :: delivery_status
  id_message :: "string option"

(* pr/commands.rs 494-517 webhook_view *)
definition webhook_view ::
    "candidate \<Rightarrow> string \<Rightarrow> string list \<Rightarrow> string \<Rightarrow> monitor_params \<Rightarrow> ledger \<Rightarrow> nat
      \<Rightarrow> pull_request_view \<times> candidate option" where
  "webhook_view cand title labels url params ledger now =
     (let skip_reason = or_else (should_skip cand params ledger) (cooldown_skip cand params ledger now)
      in (\<lparr>pv_number = cand_number cand, pv_title = title, pv_labels = labels, pv_url = url,
            pv_skill_key = cand_skill_key cand, pv_skip_reason = skip_reason\<rparr>,
          if skip_reason = None then Some cand else None))"

definition status_view :: "nat \<Rightarrow> string \<Rightarrow> string list \<Rightarrow> string \<Rightarrow> string \<Rightarrow> pull_request_view" where
  "status_view number title labels url reason =
     \<lparr>pv_number = number, pv_title = title, pv_labels = labels, pv_url = url,
      pv_skill_key = skill_key ''pr-review'' [], pv_skip_reason = Some reason\<rparr>"

(* pr/commands.rs 564-648 decide_ingest *)
definition decide_ingest ::
    "ingest_intent \<Rightarrow> nat \<Rightarrow> string \<Rightarrow> string list \<Rightarrow> string \<Rightarrow> monitor_params \<Rightarrow> ledger \<Rightarrow> nat \<Rightarrow> ingest_decision" where
  "decide_ingest intent number title labels url params ledger now =
     (case intent of
        Track (Some cand) conflict \<Rightarrow>
          (case webhook_view cand title labels url params ledger now of
             (view, Some cand) \<Rightarrow>
               \<lparr>id_view = view, id_write = Upsert, id_dispatchable = Some cand, id_status = ListUpdated, id_message = None\<rparr>
           | (view, None) \<Rightarrow>
               \<lparr>id_view = view, id_write = Upsert, id_dispatchable = None, id_status = Gated,
                id_message = pv_skip_reason view\<rparr>)
      | Track None conflict \<Rightarrow>
          \<lparr>id_view = status_view number title labels url both_trigger_labels_reason, id_write = Upsert,
           id_dispatchable = None, id_status = Gated, id_message = Some both_trigger_labels_reason\<rparr>
      | StatusOnly kind \<Rightarrow>
          \<lparr>id_view = status_view number title labels url (status_only_reason kind), id_write = UpdatePresent,
           id_dispatchable = None, id_status = status_only_delivery kind, id_message = Some (status_only_reason kind)\<rparr>)"

section \<open>Recording\<close>

(* pr/webhook.rs 667-672 WebhookManager::record_delivery *)
definition record_delivery :: "webhook_delivery \<Rightarrow> world \<Rightarrow> world" where
  "record_delivery d w = w\<lparr>w_deliveries := record_into (w_deliveries w) d\<rparr>"

(* pr/webhook.rs 676-678 WebhookManager::deliveries_snapshot *)
definition deliveries_snapshot :: "world \<Rightarrow> webhook_delivery list" where
  "deliveries_snapshot w = w_deliveries w"

definition pr_persist_error :: "string \<Rightarrow> string" where
  "pr_persist_error msg = (''PR '' @ utf8 [0x5217, 0x8868, 0x6301, 0x4E45, 0x5316, 0x5931, 0x8D25, 0xFF1A]) @ msg"

text \<open>A mutation of the set followed by its snapshot, or nothing when there is nothing to change.\<close>

definition when_changed ::
    "app_config app_result \<Rightarrow> string \<Rightarrow> (tracked_pr list \<Rightarrow> bool \<times> tracked_pr list)
      \<Rightarrow> tracked_pr_view list option tracked_mutation" where
  "when_changed load project_id f tracked w =
     (case f tracked of
        (True, tracked) \<Rightarrow> (let (list, w) = project_snapshot load project_id tracked w in ((True, Some list), tracked, w))
      | (False, tracked) \<Rightarrow> ((False, None), tracked, w))"

definition write_view :: "write_kind \<Rightarrow> pull_request_view \<Rightarrow> nat \<Rightarrow> tracked_pr list \<Rightarrow> bool \<times> tracked_pr list" where
  "write_view write view now tracked =
     (case write of Upsert \<Rightarrow> (True, upsert_tracked [view] now tracked) | UpdatePresent \<Rightarrow> update_present view now tracked)"

definition emit_ingested :: "string \<Rightarrow> tracked_pr_view list option app_result \<Rightarrow> world \<Rightarrow> world" where
  "emit_ingested project_id emitted w =
     (case emitted of
        Inr (Some list) \<Rightarrow> emit (Pr (Pr_Updated project_id list)) w
      | Inr None \<Rightarrow> w
      | Inl e \<Rightarrow> emit (Pr (Pr_Error project_id (pr_persist_error (message e)))) w)"

definition event_delivery :: "webhook_event \<Rightarrow> string option \<Rightarrow> delivery_status \<Rightarrow> string option \<Rightarrow> webhook_delivery" where
  "event_delivery ev skey status msg =
     \<lparr>wd_received_at_epoch = we_received_at ev, wd_event = we_event ev, wd_action = we_action ev,
      wd_repo = Some (we_repo ev), wd_pr_number = Some (we_number ev), wd_skill_key = skey,
      wd_status = status, wd_message = msg\<rparr>"

(* pr/commands.rs 675-811 ingest_webhook *)
definition ingest_webhook ::
    "app_config app_result \<Rightarrow> webhook_event \<Rightarrow> world \<Rightarrow> candidate option app_result \<times> world" where
  "ingest_webhook load ev w =
     (let project_id = we_project_id ev;
          failclosed = (\<lambda>msg w. (Inr None, record_delivery (event_delivery ev None Gated (Some msg)) w))
      in case find_project load project_id of
        Inl e \<Rightarrow> failclosed ((utf8 [0x9879, 0x76EE, 0x914D, 0x7F6E, 0x4E0D, 0x53EF, 0x8BFB, 0xFF1A]) @ message e) w
      | Inr p \<Rightarrow>
          (case load_ledger project_id (w_db w) of
             Inl e \<Rightarrow> failclosed (''ledger '' @ (utf8 [0x4E0D, 0x53EF, 0x8BFB, 0xFF1A]) @ message e) w
           | Inr ledger \<Rightarrow>
               (let (now, w) = now_epoch w;
                    d = decide_ingest (we_intent ev) (we_number ev) (we_title ev) (we_labels ev) (we_url ev)
                          (params_of p) ledger now;
                    (emitted, w) = mutate_tracked project_id
                      (when_changed load project_id (write_view (id_write d) (id_view d) now)) w;
                    w = emit_ingested project_id emitted w;
                    w = record_delivery (event_delivery ev (Some (pv_skill_key (id_view d))) (id_status d) (id_message d)) w
                in (Inr (id_dispatchable d), w))))"

section \<open>Commands of the panel\<close>

(* pr/commands.rs 421-430 get_prs *)
definition get_prs :: "app_config app_result \<Rightarrow> string \<Rightarrow> world \<Rightarrow> tracked_pr_view list app_result \<times> world" where
  "get_prs load project_id w =
     (case load_tracked project_id (w_db w) of
        Inl e \<Rightarrow> (Inl e, w)
      | Inr tracked \<Rightarrow> (let (list, w) = project_snapshot load project_id tracked w in (Inr list, w)))"

(* pr/commands.rs 444-475 set_pr_archived *)
definition set_pr_archived ::
    "app_config app_result \<Rightarrow> string \<Rightarrow> nat \<Rightarrow> bool \<Rightarrow> world \<Rightarrow> unit app_result \<times> world" where
  "set_pr_archived load project_id number archived w =
     (case mutate_tracked project_id (when_changed load project_id (set_archived number archived)) w of
        (Inl e, w) \<Rightarrow> (Inl e, w)
      | (Inr None, w) \<Rightarrow> (Inr (), w)
      | (Inr (Some list), w) \<Rightarrow> (Inr (), emit (Pr (Pr_Updated project_id list)) w))"

(* pr/commands.rs 833-838 webhook_route_eligible *)
definition webhook_route_eligible :: "update_mode \<Rightarrow> bool" where
  "webhook_route_eligible mode = (mode \<noteq> PullOnly)"

section \<open>The hook of the inbox\<close>

text \<open>The re-feed that the composition root gives to the inbox: \<open>parse\<close> is the JSON reader of an event.\<close>

(* lib.rs 598-613 github_refeed *)
definition installed_github_refeed ::
    "(string \<Rightarrow> string + webhook_event) \<Rightarrow> app_config app_result \<Rightarrow> github_refeed" where
  "installed_github_refeed parse load w json =
     (case parse json of
        Inl e \<Rightarrow> (Inl (AppError ((utf8 [0x91CD, 0x653E] @ ''/'' @ utf8 [0x518D, 0x6295, 0x9012, 0x65F6] @ '' WebhookEvent '' @ utf8 [0x53CD, 0x5E8F, 0x5217, 0x5316, 0x5931, 0x8D25, 0xFF1A]) @ e)), w)
      | Inr ev \<Rightarrow> ingest_webhook load ev w)"

end
