(* ===== verification/Pr_Scheduler.thy ===== *)
theory Pr_Scheduler
  imports Pr_Ingest
begin

text \<open>
  Polling (\<open>pr/scheduler.rs\<close>): the poll loops of the projects, reconciled with the configuration; the
  discovery cycle, which records its diagnostics, persists the tracked pull requests, tells the panel and
  hands the dispatchable events to the sink; one-shot discoveries; and the panel's polling commands. An
  operation on the loops alone is a function on \<open>scheduler_set\<close>; a select of a running loop takes
  the branch that was chosen.
\<close>

section \<open>Loops\<close>

definition update_loop :: "nat \<Rightarrow> (poll_loop \<Rightarrow> poll_loop) \<Rightarrow> scheduler_set \<Rightarrow> scheduler_set" where
  "update_loop i f ss = ss\<lparr>ss_loops := (ss_loops ss)[i := f (ss_loops ss ! i)]\<rparr>"

text \<open>A task that is already running is kept.\<close>

(* pr/scheduler.rs 197-261 Scheduler::start *)
definition scheduler_start :: "string \<Rightarrow> scheduler \<Rightarrow> scheduler_set \<Rightarrow> scheduler \<times> scheduler_set" where
  "scheduler_start project_id s ss =
     (if (case sc_task s of None \<Rightarrow> False | Some i \<Rightarrow> pl_phase (ss_loops ss ! i) \<noteq> Returned) then (s, ss)
      else (s\<lparr>sc_task := Some (length (ss_loops ss))\<rparr>,
            ss\<lparr>ss_loops := ss_loops ss @ [\<lparr>pl_project_id = project_id, pl_phase = Selecting,
              pl_has_sink = sc_has_sink s, pl_diag = sc_diag s, pl_wake = False, pl_reconfigure = False,
              pl_stop = False\<rparr>]\<rparr>))"

(* pr/scheduler.rs 264-270 Scheduler::stop *)
definition scheduler_stop :: "scheduler \<Rightarrow> scheduler_set \<Rightarrow> scheduler \<times> scheduler_set" where
  "scheduler_stop s ss =
     (case sc_task s of
        None \<Rightarrow> (s, ss)
      | Some i \<Rightarrow> (s\<lparr>sc_task := None\<rparr>, update_loop i (\<lambda>l. l\<lparr>pl_stop := True\<rparr>) ss))"

(* pr/scheduler.rs 276-283 Scheduler::wake *)
definition scheduler_wake :: "scheduler \<Rightarrow> scheduler_set \<Rightarrow> bool \<times> scheduler_set" where
  "scheduler_wake s ss =
     (case sc_task s of
        None \<Rightarrow> (False, ss)
      | Some i \<Rightarrow> (True, update_loop i (\<lambda>l. l\<lparr>pl_wake := True\<rparr>) ss))"

(* pr/scheduler.rs 288-292 Scheduler::reconfigure *)
definition scheduler_reconfigure :: "scheduler \<Rightarrow> scheduler_set \<Rightarrow> scheduler_set" where
  "scheduler_reconfigure s ss =
     (case sc_task s of
        None \<Rightarrow> ss
      | Some i \<Rightarrow> update_loop i (\<lambda>l. l\<lparr>pl_reconfigure := True\<rparr>) ss)"

(* pr/scheduler.rs 298-305 Scheduler::is_running *)
definition scheduler_is_running :: "scheduler \<Rightarrow> scheduler_set \<Rightarrow> bool" where
  "scheduler_is_running s ss =
     (case sc_task s of None \<Rightarrow> False | Some i \<Rightarrow> pl_phase (ss_loops ss ! i) \<noteq> Returned)"

text \<open>
  One select of \<open>run_loop\<close>. The tick may be ready at any time, a notifier is ready when its permit is
  set, and taking the branch takes the permit. The second select runs the cycle or drops it.
\<close>

datatype loop_branch = Tick | Woken | Reconfigured | Stopped | Cycle_Ended

definition branch_ready :: "loop_branch \<Rightarrow> poll_loop \<Rightarrow> bool" where
  "branch_ready b l =
     (case b of
        Tick \<Rightarrow> pl_phase l = Selecting
      | Woken \<Rightarrow> pl_phase l = Selecting \<and> pl_wake l
      | Reconfigured \<Rightarrow> pl_phase l = Selecting \<and> pl_reconfigure l
      | Stopped \<Rightarrow> pl_phase l \<noteq> Returned \<and> pl_stop l
      | Cycle_Ended \<Rightarrow> pl_phase l = Cycling)"

definition take_branch :: "loop_branch \<Rightarrow> poll_loop \<Rightarrow> poll_loop" where
  "take_branch b l =
     (case b of
        Tick \<Rightarrow> l\<lparr>pl_phase := Cycling\<rparr>
      | Woken \<Rightarrow> l\<lparr>pl_phase := Cycling, pl_wake := False\<rparr>
      | Reconfigured \<Rightarrow> l\<lparr>pl_reconfigure := False\<rparr>
      | Stopped \<Rightarrow> l\<lparr>pl_phase := Returned, pl_stop := False\<rparr>
      | Cycle_Ended \<Rightarrow> l\<lparr>pl_phase := Selecting\<rparr>)"

(* pr/scheduler.rs 636-666 run_loop *)
definition run_loop_step :: "nat \<Rightarrow> loop_branch \<Rightarrow> scheduler_set \<Rightarrow> scheduler_set" where
  "run_loop_step i b ss =
     (if i < length (ss_loops ss) \<and> branch_ready b (ss_loops ss ! i) then update_loop i (take_branch b) ss else ss)"

section \<open>The set of schedulers\<close>

(* pr/scheduler.rs 328-336 periodic_polling *)
definition periodic_polling :: "project \<Rightarrow> bool" where
  "periodic_polling p = (prj_enabled p \<and> (case prj_update_mode p of PullOnly \<Rightarrow> True | Hybrid \<Rightarrow> True | _ \<Rightarrow> False))"

definition stop_entry :: "string \<times> scheduler \<Rightarrow> scheduler_set \<Rightarrow> scheduler_set" where
  "stop_entry e ss = snd (scheduler_stop (snd e) ss)"

text \<open>A fresh scheduler with a diagnostic cell of its own, and the turn of \<open>reconcile\<close> for one project.\<close>

definition reconcile_project :: "project \<Rightarrow> scheduler_set \<Rightarrow> scheduler_set" where
  "reconcile_project p ss =
     (case map_of (ss_inner ss) (prj_id p) of
        Some s \<Rightarrow> scheduler_reconfigure s ss
      | None \<Rightarrow>
          (let (s, ss) = scheduler_start (prj_id p)
                 \<lparr>sc_task = None, sc_has_sink = ss_has_sink ss, sc_diag = length (ss_diags ss)\<rparr>
                 (ss\<lparr>ss_diags := ss_diags ss @ [poll_diag_default]\<rparr>)
           in ss\<lparr>ss_inner := (prj_id p, s) # ss_inner ss\<rparr>))"

(* pr/scheduler.rs 411-468 SchedulerSet::reconcile *)
definition reconcile :: "project list \<Rightarrow> scheduler_set \<Rightarrow> scheduler_set" where
  "reconcile projects ss =
     (let polled = filter periodic_polling projects;
          (kept, dropped) = partition (\<lambda>e. fst e \<in> set (map prj_id polled)) (ss_inner ss);
          ss = fold stop_entry dropped (ss\<lparr>ss_inner := kept\<rparr>);
          ss = fold reconcile_project polled ss;
          manual_ids = map prj_id (filter (\<lambda>p. prj_update_mode p = Manual) projects)
      in ss\<lparr>ss_manual_diags := filter (\<lambda>e. fst e \<in> set manual_ids) (ss_manual_diags ss)\<rparr>)"

(* pr/scheduler.rs 474-481 SchedulerSet::wake *)
definition wake_project :: "string \<Rightarrow> scheduler_set \<Rightarrow> bool \<times> scheduler_set" where
  "wake_project project_id ss =
     (case map_of (ss_inner ss) project_id of None \<Rightarrow> (False, ss) | Some s \<Rightarrow> scheduler_wake s ss)"

(* pr/scheduler.rs 486-490 SchedulerSet::reconfigure *)
definition reconfigure_project :: "string \<Rightarrow> scheduler_set \<Rightarrow> scheduler_set" where
  "reconfigure_project project_id ss =
     (case map_of (ss_inner ss) project_id of None \<Rightarrow> ss | Some s \<Rightarrow> scheduler_reconfigure s ss)"

(* pr/scheduler.rs 557-563 SchedulerSet::stop_all *)
definition stop_all :: "scheduler_set \<Rightarrow> scheduler_set" where
  "stop_all ss = (fold stop_entry (ss_inner ss) ss)\<lparr>ss_inner := []\<rparr>"

(* pr/scheduler.rs 542-552 SchedulerSet::try_begin_manual *)
definition try_begin_manual :: "string \<Rightarrow> scheduler_set \<Rightarrow> bool \<times> scheduler_set" where
  "try_begin_manual project_id ss =
     (if project_id \<in> set (ss_manual_inflight ss) then (False, ss)
      else (True, ss\<lparr>ss_manual_inflight := project_id # ss_manual_inflight ss\<rparr>))"

(* pr/scheduler.rs 384-388 ManualInflightGuard::drop *)
definition drop_manual_guard :: "string \<Rightarrow> scheduler_set \<Rightarrow> scheduler_set" where
  "drop_manual_guard project_id ss = ss\<lparr>ss_manual_inflight := removeAll project_id (ss_manual_inflight ss)\<rparr>"

text \<open>The diagnostic cell of a manual project, made on first use.\<close>

definition manual_diag :: "string \<Rightarrow> scheduler_set \<Rightarrow> nat \<times> scheduler_set" where
  "manual_diag project_id ss =
     (case map_of (ss_manual_diags ss) project_id of
        Some i \<Rightarrow> (i, ss)
      | None \<Rightarrow>
          (length (ss_diags ss),
           ss\<lparr>ss_manual_diags := (project_id, length (ss_diags ss)) # ss_manual_diags ss,
              ss_diags := ss_diags ss @ [poll_diag_default]\<rparr>))"

section \<open>The discovery cycle\<close>

text \<open>Recording a mark with the time of the mark in a diagnostic cell.\<close>

definition mark_diag :: "nat \<Rightarrow> (nat \<Rightarrow> poll_diag \<Rightarrow> poll_diag) \<Rightarrow> world \<Rightarrow> world" where
  "mark_diag i f w =
     (let (now, w) = now_epoch w; ss = w_scheduler w
      in w\<lparr>w_scheduler := ss\<lparr>ss_diags := (ss_diags ss)[i := f now (ss_diags ss ! i)]\<rparr>\<rparr>)"

(* pr/scheduler.rs 779-790 persist_event *)
definition persist_event :: "string \<Rightarrow> tracked_pr_view list app_result \<Rightarrow> pr_event" where
  "persist_event project_id result =
     (case result of
        Inr list \<Rightarrow> Pr_Updated project_id list
      | Inl e \<Rightarrow> Pr_Error project_id (pr_persist_error (message e)))"

(* pr/scheduler.rs 143-147 DiscoveredEventSink *)
type_synonym event_sink = "string \<Rightarrow> discovered_event list \<Rightarrow> world \<Rightarrow> unit app_result \<times> world"

definition upsert_views ::
    "app_config app_result \<Rightarrow> string \<Rightarrow> pull_request_view list \<Rightarrow> nat \<Rightarrow> tracked_pr_view list tracked_mutation" where
  "upsert_views load project_id views now tracked w =
     (let tracked = upsert_tracked views now tracked
      in ((True, to_view_list tracked now (presence_grace_secs load project_id)), tracked, w))"

text \<open>The half of a cycle up to the event for the panel: what was persisted, what is to be dispatched, the error.\<close>

definition cycle_discover ::
    "pr_source \<Rightarrow> app_config app_result \<Rightarrow> string \<Rightarrow> nat \<Rightarrow> world
      \<Rightarrow> (pr_event \<times> discovered_event list \<times> app_error option) \<times> world" where
  "cycle_discover src load project_id diag w =
     (case discover src load project_id (mark_diag diag mark_started w) of
        (Inr (views, dispatchable), w) \<Rightarrow>
          (let w = mark_diag diag (mark_discovered (length views)) w;
               (now, w) = now_epoch w;
               (persisted, w) = mutate_tracked project_id (upsert_views load project_id views now) w;
               w = mark_diag diag (case persisted of Inr _ \<Rightarrow> mark_persist | Inl e \<Rightarrow> mark_error (message e)) w
           in ((persist_event project_id persisted, dispatchable, None), w))
      | (Inl e, w) \<Rightarrow>
          ((Pr_Error project_id (message e), [], Some (AppError (message e))),
           mark_diag diag (mark_error (message e)) w))"

(* pr/scheduler.rs 686-769 run_discovery_cycle *)
definition run_discovery_cycle ::
    "pr_source \<Rightarrow> app_config app_result \<Rightarrow> event_sink option \<Rightarrow> string \<Rightarrow> nat \<Rightarrow> world \<Rightarrow> unit app_result \<times> world" where
  "run_discovery_cycle src load sink project_id diag w =
     (let ((event, dispatchable, cycle_error), w) = cycle_discover src load project_id diag w;
          w = emit (Pr event) w;
          (cycle_error, w) =
            (case sink of
               Some deliver \<Rightarrow>
                 if dispatchable = [] then (cycle_error, w)
                 else (case deliver project_id dispatchable w of
                     (Inr _, w) \<Rightarrow> (cycle_error, w)
                   | (Inl e, w) \<Rightarrow> (first_err cycle_error e, mark_diag diag (mark_error (message e)) w))
             | None \<Rightarrow> (cycle_error, w))
      in (case cycle_error of Some e \<Rightarrow> (Inl e, w) | None \<Rightarrow> (Inr (), w)))"

definition on_scheduler :: "(scheduler_set \<Rightarrow> 'a \<times> scheduler_set) \<Rightarrow> world \<Rightarrow> 'a \<times> world" where
  "on_scheduler f w = (let (r, ss) = f (w_scheduler w) in (r, w\<lparr>w_scheduler := ss\<rparr>))"

text \<open>
  A one-shot discovery of a project that has one in flight does nothing. The guard and the cell are taken
  first (\<open>discover_once_begin\<close>), so that another call can come between.
\<close>

definition discover_once_begin :: "string \<Rightarrow> world \<Rightarrow> nat option \<times> world" where
  "discover_once_begin project_id w =
     (case on_scheduler (try_begin_manual project_id) w of
        (False, w) \<Rightarrow> (None, w)
      | (True, w) \<Rightarrow> (let (diag, w) = on_scheduler (manual_diag project_id) w in (Some diag, w)))"

(* pr/scheduler.rs 507-534 SchedulerSet::discover_once *)
definition discover_once ::
    "pr_source \<Rightarrow> app_config app_result \<Rightarrow> event_sink \<Rightarrow> string \<Rightarrow> world \<Rightarrow> unit app_result \<times> world" where
  "discover_once src load sink project_id w =
     (case discover_once_begin project_id w of
        (None, w) \<Rightarrow> (Inr (), w)
      | (Some diag, w) \<Rightarrow>
          (let (r, w) = run_discovery_cycle src load (if ss_has_sink (w_scheduler w) then Some sink else None)
                          project_id diag w
           in (r, snd (on_scheduler (\<lambda>ss. ((), drop_manual_guard project_id ss)) w))))"

section \<open>Status and commands\<close>

(* pr/scheduler.rs 116-133 PollStatus *)
record poll_status =
  ps_running :: bool
  ps_interval_secs :: nat
  ps_diag :: poll_diag

(* pr/scheduler.rs 614-625 poll_status_from_diag *)
definition poll_status_from_diag :: "bool \<Rightarrow> nat \<Rightarrow> poll_diag \<Rightarrow> poll_status" where
  "poll_status_from_diag running interval_secs d =
     \<lparr>ps_running = running, ps_interval_secs = interval_secs, ps_diag = d\<rparr>"

(* pr/scheduler.rs 575-608 SchedulerSet::poll_status *)
definition poll_status_of :: "app_config app_result \<Rightarrow> string \<Rightarrow> scheduler_set \<Rightarrow> poll_status" where
  "poll_status_of load project_id ss =
     (let interval_secs = poll_period load project_id in
      case (case map_of (ss_inner ss) project_id of
              None \<Rightarrow> None
            | Some s \<Rightarrow> if scheduler_is_running s ss then Some (ss_diags ss ! sc_diag s) else None) of
        Some d \<Rightarrow> poll_status_from_diag True interval_secs d
      | None \<Rightarrow>
          (case map_of (ss_manual_diags ss) project_id of
             Some i \<Rightarrow> poll_status_from_diag False interval_secs (ss_diags ss ! i)
           | None \<Rightarrow> poll_status_from_diag False interval_secs poll_diag_default))"

(* pr/commands.rs 260-267 start_if_config_valid *)
definition start_if_config_valid :: "app_config app_result \<Rightarrow> world \<Rightarrow> unit app_result \<times> world" where
  "start_if_config_valid load_validated w =
     (case load_validated of
        Inl e \<Rightarrow> (Inl e, w)
      | Inr cfg \<Rightarrow> (Inr (), snd (on_scheduler (\<lambda>ss. ((), reconcile (cfg_projects cfg) ss)) w)))"

(* pr/commands.rs 290-294 stop_polling *)
definition stop_polling :: "world \<Rightarrow> unit app_result \<times> world" where
  "stop_polling w = (Inr (), snd (on_scheduler (\<lambda>ss. ((), stop_all ss)) w))"

(* pr/commands.rs 376-384 reschedule *)
definition reschedule :: "app_config app_result \<Rightarrow> world \<Rightarrow> unit app_result \<times> world" where
  "reschedule load w =
     (case load of
        Inl e \<Rightarrow> (Inl e, w)
      | Inr cfg \<Rightarrow> (Inr (), snd (on_scheduler (\<lambda>ss. ((), reconcile (cfg_projects cfg) ss)) w)))"

(* pr/commands.rs 300-310 PollNowAction *)
datatype poll_now_action = Wake_Loop | One_Shot | Reject_Webhook_Only | Reject_Paused

(* pr/commands.rs 317-326 poll_now_action *)
definition poll_now_action_of :: "bool \<Rightarrow> update_mode \<Rightarrow> poll_now_action" where
  "poll_now_action_of loop_running mode =
     (if loop_running then Wake_Loop
      else case mode of
        Manual \<Rightarrow> One_Shot | WebhookOnly \<Rightarrow> Reject_Webhook_Only | PullOnly \<Rightarrow> Reject_Paused | Hybrid \<Rightarrow> Reject_Paused)"

(* pr/commands.rs 338-367 poll_now *)
definition poll_now ::
    "pr_source \<Rightarrow> app_config app_result \<Rightarrow> event_sink \<Rightarrow> string \<Rightarrow> world \<Rightarrow> unit app_result \<times> world" where
  "poll_now src load sink project_id w =
     (case on_scheduler (wake_project project_id) w of
        (True, w) \<Rightarrow> (Inr (), w)
      | (False, w) \<Rightarrow>
          (case find_project load project_id of
             Inl e \<Rightarrow> (Inl e, w)
           | Inr p \<Rightarrow>
               (case poll_now_action_of False (prj_update_mode p) of
                  Wake_Loop \<Rightarrow> (Inr (), w)
                | One_Shot \<Rightarrow> discover_once src load sink project_id w
                | Reject_Webhook_Only \<Rightarrow> (Inl (AppError (''webhook-only '' @ (utf8 [0x6A21, 0x5F0F, 0x4E0D, 0x652F, 0x6301, 0x624B, 0x52A8, 0x62C9, 0x53D6]))), w)
                | Reject_Paused \<Rightarrow> (Inl (AppError (utf8 [0x8F6E, 0x8BE2, 0x5DF2, 0x6682, 0x505C, 0xFF0C, 0x8BF7, 0x5148, 0x6062, 0x590D, 0x8F6E, 0x8BE2])), w))))"

section \<open>The closures of the composition root\<close>

(* lib.rs 1190-1197 make_event_sink *)
definition installed_event_sink :: "(poll_snapshot \<Rightarrow> string) \<Rightarrow> event_sink" where
  "installed_event_sink sha project_id events w = ingest_discovered_events sha project_id events w"

(* lib.rs 618-630 azure_refresh *)
definition installed_azure_refresh ::
    "(poll_snapshot \<Rightarrow> string) \<Rightarrow> pr_source \<Rightarrow> app_config app_result \<Rightarrow> azure_refresh" where
  "installed_azure_refresh sha src load w project_id =
     discover_once src load (installed_event_sink sha) project_id w"

end
