(* ===== verification/Json.thy ===== *)
theory Json
  imports Prelude "HOL-Library.List_Lexorder" "HOL-Library.Char_ord"
begin

text \<open>
  The values of the crate \<open>serde_json\<close> as its documentation describes them: a number is a \<open>u64\<close>, a
  negative \<open>i64\<close> or a float (kept as text), and an object is a map ordered by key, here an association
  list that the map's operations keep sorted. Parsing and printing text are parameters where they are used.
\<close>

datatype jnumber = JNat nat | JNegative int | JFloat string

datatype jvalue =
  JNull | JBool bool | JNumber jnumber | JString string | JArray "jvalue list" | JObject "(string \<times> jvalue) list"

type_synonym jobject = "(string \<times> jvalue) list"

section \<open>Reading\<close>

text \<open>\<open>Value::get\<close> of a key, and the partial views.\<close>

fun jget :: "string \<Rightarrow> jvalue \<Rightarrow> jvalue option" where
  "jget k (JObject m) = map_of m k"
| "jget k _ = None"

fun jas_str :: "jvalue \<Rightarrow> string option" where
  "jas_str (JString s) = Some s"
| "jas_str _ = None"

fun jas_bool :: "jvalue \<Rightarrow> bool option" where
  "jas_bool (JBool b) = Some b"
| "jas_bool _ = None"

fun jas_u64 :: "jvalue \<Rightarrow> nat option" where
  "jas_u64 (JNumber (JNat n)) = Some n"
| "jas_u64 _ = None"

fun jas_array :: "jvalue \<Rightarrow> jvalue list option" where
  "jas_array (JArray vs) = Some vs"
| "jas_array _ = None"

fun jas_object :: "jvalue \<Rightarrow> jobject option" where
  "jas_object (JObject m) = Some m"
| "jas_object _ = None"

text \<open>The chains \<open>v.get(a).and_then(f)\<close> and a path of keys.\<close>

definition jget_as :: "(jvalue \<Rightarrow> 'a option) \<Rightarrow> string \<Rightarrow> jvalue \<Rightarrow> 'a option" where
  "jget_as f k v = Option.bind (jget k v) f"

fun jpath :: "string list \<Rightarrow> jvalue \<Rightarrow> jvalue option" where
  "jpath [] v = Some v"
| "jpath (k # ks) v = Option.bind (jget k v) (jpath ks)"

definition jstr_at :: "string list \<Rightarrow> jvalue \<Rightarrow> string option" where
  "jstr_at ks v = Option.bind (jpath ks v) jas_str"

definition unwrap_or :: "'a \<Rightarrow> 'a option \<Rightarrow> 'a" where
  "unwrap_or d v = (case v of None \<Rightarrow> d | Some x \<Rightarrow> x)"

lemma unwrap_or_simps [simp]: "unwrap_or d None = d" "unwrap_or d (Some x) = x"
  by (simp_all add: unwrap_or_def)

section \<open>Objects\<close>

definition has_key :: "string \<Rightarrow> jobject \<Rightarrow> bool" where
  "has_key k m \<longleftrightarrow> map_of m k \<noteq> None"

fun obj_insert :: "string \<Rightarrow> jvalue \<Rightarrow> jobject \<Rightarrow> jobject" where
  "obj_insert k v [] = [(k, v)]"
| "obj_insert k v ((k', v') # m) =
     (if k = k' then (k, v) # m else if k < k' then (k, v) # (k', v') # m else (k', v') # obj_insert k v m)"

definition obj_remove :: "string \<Rightarrow> jobject \<Rightarrow> jobject" where
  "obj_remove k m = filter (\<lambda>e. fst e \<noteq> k) m"

definition obj_of :: "(string \<times> jvalue) list \<Rightarrow> jobject" where
  "obj_of es = fold (\<lambda>(k, v). obj_insert k v) es []"

text \<open>\<open>obj.get_mut(k)\<close> followed by a change in place.\<close>

definition obj_update :: "string \<Rightarrow> (jvalue \<Rightarrow> jvalue) \<Rightarrow> jobject \<Rightarrow> jobject" where
  "obj_update k f m = map (\<lambda>(k', v). (k', if k' = k then f v else v)) m"

lemma map_of_obj_insert [simp]: "map_of (obj_insert k v m) = (map_of m)(k \<mapsto> v)"
  by (induction m) (auto simp: fun_eq_iff)

lemma map_of_obj_remove [simp]: "map_of (obj_remove k m) = (map_of m)(k := None)"
  by (induction m) (auto simp: obj_remove_def fun_eq_iff)

lemma map_of_obj_update [simp]: "map_of (obj_update k f m) = (map_of m)(k := map_option f (map_of m k))"
  by (induction m) (auto simp: obj_update_def fun_eq_iff)

lemma has_key_insert [simp]: "has_key k (obj_insert k' v m) \<longleftrightarrow> k = k' \<or> has_key k m"
  by (auto simp: has_key_def)

lemma has_key_remove [simp]: "has_key k (obj_remove k' m) \<longleftrightarrow> k \<noteq> k' \<and> has_key k m"
  by (auto simp: has_key_def)

lemma has_key_update [simp]: "has_key k (obj_update k' f m) \<longleftrightarrow> has_key k m"
  by (auto simp: has_key_def)

lemma obj_remove_absent: "\<not> has_key k m \<Longrightarrow> obj_remove k m = m"
  by (induction m) (auto simp: obj_remove_def has_key_def split: if_splits)

lemma obj_remove_idem [simp]: "obj_remove k (obj_remove k m) = obj_remove k m"
  by (simp add: obj_remove_def)

lemma obj_insert_same: "sorted_wrt (<) (map fst m) \<Longrightarrow> map_of m k = Some v \<Longrightarrow> obj_insert k v m = m"
proof (induction m)
  case (Cons e m)
  obtain k' v' where e: "e = (k', v')" by (cases e)
  from Cons.prems e have "k \<noteq> k' \<Longrightarrow> k' < k" by (force dest: map_of_SomeD)
  with Cons e show ?case by (cases "k = k'") auto
qed simp

lemma keys_obj_insert: "set (map fst (obj_insert k v m)) = insert k (set (map fst m))"
  by (induction k v m rule: obj_insert.induct) auto

lemma sorted_obj_insert: "sorted_wrt (<) (map fst m) \<Longrightarrow> sorted_wrt (<) (map fst (obj_insert k v m))"
proof (induction m)
  case (Cons e m)
  obtain k' v' where e: "e = (k', v')" by (cases e)
  have "\<forall>x \<in> set (map fst (obj_insert k v m)). k' < x" if "k' < k" "\<forall>x \<in> set (map fst m). k' < x"
    using that by (simp only: keys_obj_insert) auto
  with Cons e show ?case by (auto simp: not_less_iff_gr_or_eq)
qed simp

lemma sorted_obj_remove: "sorted_wrt (<) (map fst m) \<Longrightarrow> sorted_wrt (<) (map fst (obj_remove k m))"
  by (induction m) (auto simp: obj_remove_def)

lemma obj_update_absent: "map_of m k = None \<Longrightarrow> obj_update k f m = m"
  by (induction m) (auto simp: obj_update_def split: if_splits)

lemma map_of_obj_of: "map_of (obj_of es) = map_of (rev es)"
proof -
  have "map_of (fold (\<lambda>(k, v). obj_insert k v) es m) = map_of m ++ map_of (rev es)" for m
    by (induction es arbitrary: m) (auto simp: map_add_def fun_eq_iff split: option.splits)
  then show ?thesis by (simp add: obj_of_def)
qed

end
