(* ===== verification/Text.thy ===== *)
theory Text
  imports Skill
begin

text \<open>
  The text operations of Rust's standard library that the network facing components use: splitting at
  white space and at several separators, prefixes, parsing of decimal numbers.
\<close>

text \<open>Splitting at any of some separators, empty pieces kept (\<open>str::split\<close> with a closure).\<close>

function split_seps :: "string list \<Rightarrow> string \<Rightarrow> string \<Rightarrow> string list" where
  "split_seps seps cur s =
     (case s of
        [] \<Rightarrow> [cur]
      | c # t \<Rightarrow>
          (case strip_one seps s of
             Some r \<Rightarrow> cur # split_seps seps [] r
           | None \<Rightarrow> split_seps seps (cur @ [c]) t))"
  by pat_completeness auto
termination
  by (relation "measure (\<lambda>(seps, cur, s). length s)") (auto dest: strip_one_length)

declare split_seps.simps [simp del]

definition split_whitespace :: "string \<Rightarrow> string list" where
  "split_whitespace s = filter (\<lambda>w. w \<noteq> []) (split_seps white_space [] s)"

text \<open>\<open>strip_prefix\<close>, \<open>strip_suffix\<close> and \<open>trim_end_matches\<close> of a character.\<close>

definition strip_prefix :: "string \<Rightarrow> string \<Rightarrow> string option" where
  "strip_prefix p s = (if prefix p s then Some (drop (length p) s) else None)"

definition strip_suffix :: "string \<Rightarrow> string \<Rightarrow> string option" where
  "strip_suffix p s = (if suffix p s then Some (take (length s - length p) s) else None)"

definition trim_end_char :: "char \<Rightarrow> string \<Rightarrow> string" where
  "trim_end_char c s = rev (dropWhile (\<lambda>x. x = c) (rev s))"

definition trim_start_char :: "char \<Rightarrow> string \<Rightarrow> string" where
  "trim_start_char c s = dropWhile (\<lambda>x. x = c) s"

lemma strip_prefix_Some_iff: "strip_prefix p s = Some r \<longleftrightarrow> s = p @ r"
  by (auto simp: strip_prefix_def prefix_def)

text \<open>\<open>str::parse::<u64>\<close>: an optional plus sign, then digits, within the width.\<close>

definition digit_value :: "char \<Rightarrow> nat" where
  "digit_value c = byte_of c - 48"

definition decimal_value :: "string \<Rightarrow> nat" where
  "decimal_value s = foldl (\<lambda>n c. 10 * n + digit_value c) 0 s"

definition parse_unsigned :: "nat \<Rightarrow> string \<Rightarrow> nat option" where
  "parse_unsigned limit s =
     (let ds = (case s of c # t \<Rightarrow> if c = CHR ''+'' then t else s | [] \<Rightarrow> s) in
      if ds \<noteq> [] \<and> list_all is_ascii_digit ds \<and> decimal_value ds \<le> limit then Some (decimal_value ds) else None)"

definition parse_u64 :: "string \<Rightarrow> nat option" where "parse_u64 = parse_unsigned u64_max"
definition parse_u16 :: "string \<Rightarrow> nat option" where "parse_u16 = parse_unsigned 65535"

lemma decimal_value_append: "decimal_value (s @ t) = decimal_value s * 10 ^ length t + decimal_value t"
proof (induction t rule: rev_induct)
  case (snoc c t)
  then show ?case by (simp add: decimal_value_def algebra_simps)
qed (simp add: decimal_value_def)

lemma decimal_value_dec [simp]: "decimal_value (dec n) = n"
proof (induction n rule: dec.induct)
  case (1 n)
  then show ?case
    by (subst dec.simps) (auto simp: decimal_value_append decimal_value_def digit_value_def)
qed

lemma parse_unsigned_dec: "n \<le> limit \<Longrightarrow> parse_unsigned limit (dec n) = Some n"
proof -
  assume n: "n \<le> limit"
  obtain c t where d: "dec n = c # t" by (cases "dec n") simp_all
  with dec_digits [of n] have "is_ascii_digit c" by simp
  then have "c \<noteq> CHR ''+''" by (auto simp: is_ascii_digit_def byte_of_def)
  with d have "(case dec n of c # t \<Rightarrow> if c = CHR ''+'' then t else dec n | [] \<Rightarrow> dec n) = dec n" by simp
  then show ?thesis using n dec_digits [of n] unfolding parse_unsigned_def Let_def by simp
qed

text \<open>Keeping the first of equal elements, and pushing an element that is not there yet.\<close>

definition first_occurrences :: "'a list \<Rightarrow> 'a list" where
  "first_occurrences xs = rev (remdups (rev xs))"

definition extend_distinct :: "'a list \<Rightarrow> 'a \<Rightarrow> 'a list" where
  "extend_distinct acc x = (if x \<in> set acc then acc else acc @ [x])"

lemma foldl_extend: "foldl extend_distinct [] xs = first_occurrences xs"
proof (induction xs rule: rev_induct)
  case (snoc x xs)
  then show ?case by (simp add: extend_distinct_def first_occurrences_def)
qed (simp add: first_occurrences_def)

lemma first_occurrences_simps [simp]:
  "first_occurrences [] = []" "set (first_occurrences xs) = set xs" "distinct (first_occurrences xs)"
  by (simp_all add: first_occurrences_def)

end
