(* ===== verification/Webhook.thy ===== *)
theory Webhook
  imports Pr_Scheduler Json Config Text
begin

text \<open>
  The webhook receiver (\<open>pr/webhook.rs\<close>): authentication of a delivery, routing to a project, and the
  HTTP handler, whose answer tells the sender whether to deliver again. A header value is text or bytes
  that are not; the hash functions, the hex codec, the JSON codec and the lossy UTF-8 conversion are
  parameters. An \<open>expect\<close> that fails is \<open>None\<close>.
\<close>

text \<open>
  The effective labels of a pull request (\<open>pr/labels.rs\<close>): the provider's own, or the bracketed segments
  of its title. The loop over the rest of the title is compared with a scanner that reads it once.
\<close>

section \<open>The code\<close>

definition find_char :: "char \<Rightarrow> string \<Rightarrow> nat option" where
  "find_char c s = (if c \<in> set s then Some (length (takeWhile (\<lambda>x. x \<noteq> c) s)) else None)"

lemma find_char_Some:
  assumes "find_char c s = Some n"
  shows "s = take n s @ c # drop (Suc n) s" and "c \<notin> set (take n s)" and "n < length s"
proof -
  from assms have c: "c \<in> set s" and n: "n = length (takeWhile (\<lambda>x. x \<noteq> c) s)"
    by (auto simp: find_char_def split: if_splits)
  obtain a b where s: "s = a @ c # b" "c \<notin> set a" using split_list_first [OF c] by blast
  then have "n = length a" using n by (simp add: takeWhile_append)
  with s show "s = take n s @ c # drop (Suc n) s" "c \<notin> set (take n s)" "n < length s" by simp_all
qed

lemma find_char_append [simp]: "c \<notin> set a \<Longrightarrow> find_char c (a @ c # b) = Some (length a)"
  by (auto simp: find_char_def takeWhile_append)

(* pr/labels.rs 27-40 parse_title_labels *)
function title_labels :: "string \<Rightarrow> string list \<Rightarrow> string list" where
  "title_labels rest labels =
     (case find_char CHR ''['' rest of
        None \<Rightarrow> labels
      | Some open_at \<Rightarrow>
          (let after_open = drop (Suc open_at) rest in
           case find_char CHR '']'' after_open of
             None \<Rightarrow> labels
           | Some close \<Rightarrow>
               (let content = trim (take close after_open);
                    labels = (if content \<noteq> [] \<and> content \<notin> set labels then labels @ [content] else labels)
                in title_labels (drop (Suc close) after_open) labels)))"
  by pat_completeness auto
termination
  by (relation "measure (\<lambda>(rest, labels). length rest)") (auto dest: find_char_Some(3))

declare title_labels.simps [simp del]

(* pr/labels.rs 24-42 parse_title_labels *)
definition parse_title_labels :: "string \<Rightarrow> string list" where
  "parse_title_labels title = title_labels title []"

(* pr/labels.rs 47-52 effective_labels *)
definition effective_labels :: "string list \<Rightarrow> string \<Rightarrow> label_source \<Rightarrow> string list" where
  "effective_labels native title source = (case source of Native \<Rightarrow> native | Title \<Rightarrow> parse_title_labels title)"

section \<open>The reference\<close>

text \<open>A scanner with two states: outside the brackets, and inside with what it has read.\<close>

fun outside :: "string \<Rightarrow> string list" and inside :: "string \<Rightarrow> string \<Rightarrow> string list" where
  "outside [] = []"
| "outside (c # cs) = (if c = CHR ''['' then inside [] cs else outside cs)"
| "inside acc [] = []"
| "inside acc (c # cs) = (if c = CHR '']'' then rev acc # outside cs else inside (c # acc) cs)"

lemma outside_skip: "CHR ''['' \<notin> set a \<Longrightarrow> outside (a @ b) = outside b"
  by (induction a) auto

lemma outside_none: "CHR ''['' \<notin> set a \<Longrightarrow> outside a = []"
  using outside_skip [of a "[]"] by simp

lemma inside_skip: "CHR '']'' \<notin> set a \<Longrightarrow> inside acc (a @ b) = inside (rev a @ acc) b"
  by (induction a arbitrary: acc) auto

lemma inside_none: "CHR '']'' \<notin> set a \<Longrightarrow> inside acc a = []"
  using inside_skip [of a acc "[]"] by simp

lemma title_labels_scan:
  "title_labels rest labels = foldl extend_distinct labels (filter (\<lambda>l. l \<noteq> []) (map trim (outside rest)))"
proof (induction rest labels rule: title_labels.induct)
  case (1 rest labels)
  show ?case
  proof (cases "find_char CHR ''['' rest")
    case None
    then have "CHR ''['' \<notin> set rest" by (auto simp: find_char_def split: if_splits)
    with None show ?thesis by (simp add: title_labels.simps [of rest] outside_none)
  next
    case open_at: (Some n)
    note n = find_char_Some [OF open_at]
    let ?after = "drop (Suc n) rest"
    have out: "outside rest = inside [] ?after" using outside_skip [OF n(2), of "CHR ''['' # ?after"] n(1) by simp
    show ?thesis
    proof (cases "find_char CHR '']'' ?after")
      case None
      then have "CHR '']'' \<notin> set ?after" by (auto simp: find_char_def split: if_splits)
      with None open_at show ?thesis by (simp add: title_labels.simps [of rest] out inside_none)
    next
      case close: (Some m)
      note m = find_char_Some [OF close]
      let ?content = "take m ?after" and ?rest = "drop (Suc m) ?after"
      have ins: "inside [] ?after = ?content # outside ?rest"
        using inside_skip [OF m(2), of "[]" "CHR '']'' # ?rest"] m(1) by simp
      show ?thesis
        using 1 [OF open_at refl close refl refl] open_at close
        by (simp add: title_labels.simps [of rest] out ins extend_distinct_def Let_def)
    qed
  qed
qed

text \<open>
  The labels read from a title are those of a single left to right scan: each bracketed segment,
  trimmed, without the empty ones, each once, in the order of the first occurrences.
\<close>

theorem parse_title_labels_scan:
  "parse_title_labels title = first_occurrences (filter (\<lambda>l. l \<noteq> []) (map trim (outside title)))"
  by (simp add: parse_title_labels_def title_labels_scan foldl_extend)

section \<open>Requests and routes\<close>

datatype header_value = Header_Text string | Header_Opaque string

record http_request =
  rq_headers :: "(string \<times> header_value) list"
  rq_body :: string

definition header_text :: "string \<Rightarrow> http_request \<Rightarrow> string option" where
  "header_text name rq =
     (case map_of (rq_headers rq) name of Some (Header_Text s) \<Rightarrow> Some s | _ \<Rightarrow> None)"

record webhook_env =
  wx_hmac_sha256 :: "string \<Rightarrow> string \<Rightarrow> string"
  wx_sha256_hex :: "string \<Rightarrow> string"
  wx_hex_decode :: "string \<Rightarrow> string option"
  wx_from_utf8_lossy :: "string \<Rightarrow> string"
  wx_parse_json :: "string \<Rightarrow> jvalue option"
  wx_event_to_json :: "webhook_event \<Rightarrow> string + string"

(* pr/webhook.rs 504-527 ProjectRoute *)
record project_route =
  rt_id :: string
  rt_source_kind :: source_kind
  rt_repo :: string
  rt_azure_project :: string
  rt_label_source :: label_source

section \<open>Authentication\<close>

(* pr/webhook.rs 1439-1454 verify_signature *)
definition verify_signature :: "webhook_env \<Rightarrow> string \<Rightarrow> string \<Rightarrow> string \<Rightarrow> bool" where
  "verify_signature env secret body header =
     (if secret = [] then False
      else case strip_prefix ''sha256='' header of
        None \<Rightarrow> False
      | Some hex_digest \<Rightarrow>
          (case wx_hex_decode env hex_digest of
             None \<Rightarrow> False
           | Some expected \<Rightarrow> wx_hmac_sha256 env secret body = expected))"

(* pr/webhook.rs 1467-1483 verify_azure_token *)
definition verify_azure_token :: "string \<Rightarrow> string \<Rightarrow> bool" where
  "verify_azure_token secret header =
     (if secret = [] then False
      else case split_once (CHR '' '') header of
        Some (scheme, token) \<Rightarrow> eq_ignore_ascii_case scheme ''bearer'' \<and> token = secret
      | None \<Rightarrow> False)"

section \<open>Routing\<close>

(* pr/webhook.rs 228-239 ParseResult *)
datatype parse_result = Routable webhook_event | Parse_WrongRepo "string option" | Malformed

definition full_name_of :: "jvalue option \<Rightarrow> string option" where
  "full_name_of v = Option.bind v (jstr_at [''full_name''])"

definition event_repo :: "jvalue \<Rightarrow> jvalue \<Rightarrow> string option" where
  "event_repo payload pr =
     or_else (jstr_at [''repository'', ''full_name''] payload) (jstr_at [''base'', ''repo'', ''full_name''] pr)"

definition github_route :: "project_route list \<Rightarrow> string \<Rightarrow> project_route option" where
  "github_route routes repo = find (\<lambda>r. rt_source_kind r = Github \<and> eq_ignore_ascii_case (rt_repo r) repo) routes"

definition native_labels :: "jvalue list \<Rightarrow> string list" where
  "native_labels labels = List.map_filter (jstr_at [''name'']) labels"

definition is_cross_repository :: "jvalue \<Rightarrow> bool" where
  "is_cross_repository pr =
     (case (jstr_at [''head'', ''repo'', ''full_name''] pr, jstr_at [''base'', ''repo'', ''full_name''] pr) of
        (Some h, Some b) \<Rightarrow> \<not> eq_ignore_ascii_case h b
      | _ \<Rightarrow> True)"

text \<open>A trigger label is not looked for: the rules decide. Every open pull request has a candidate.\<close>

definition intent_of :: "jvalue \<Rightarrow> nat \<Rightarrow> string \<Rightarrow> string \<Rightarrow> ingest_intent" where
  "intent_of pr number head_sha head_ref =
     (if jstr_at [''state''] pr \<noteq> Some ''open'' then StatusOnly ClosedOrMerged
      else Track (Some \<lparr>cand_number = number, cand_head_sha = head_sha, cand_head_ref = head_ref,
        cand_author = unwrap_or [] (jstr_at [''user'', ''login''] pr),
        cand_is_cross_repository = is_cross_repository pr,
        cand_is_draft = unwrap_or False (jget_as jas_bool ''draft'' pr),
        cand_skill_key = skill_key ''pr-review'' []\<rparr>) False)"

(* pr/webhook.rs 1510-1671 parse_delivery *)
definition parse_delivery :: "jvalue \<Rightarrow> project_route list \<Rightarrow> parse_result" where
  "parse_delivery payload routes =
     (case jget ''pull_request'' payload of
        None \<Rightarrow> Malformed
      | Some pr \<Rightarrow>
          (case Option.bind (event_repo payload pr) (github_route routes) of
             None \<Rightarrow> Parse_WrongRepo (event_repo payload pr)
           | Some route \<Rightarrow>
               (case (jget_as jas_u64 ''number'' pr, jstr_at [''head'', ''sha''] pr, jstr_at [''head'', ''ref''] pr,
                      jget_as jas_array ''labels'' pr) of
                  (Some number, Some head_sha, Some head_ref, Some labels) \<Rightarrow>
                    (let title = unwrap_or [] (jstr_at [''title''] pr) in
                     Routable \<lparr>we_project_id = rt_id route, we_received_at = 0, we_event = ''pull_request'',
                       we_action = jstr_at [''action''] payload, we_repo = rt_repo route, we_number = number,
                       we_title = title,
                       we_labels = effective_labels (native_labels labels) title (rt_label_source route),
                       we_url = unwrap_or [] (jstr_at [''html_url''] pr),
                       we_intent = intent_of pr number head_sha head_ref\<rparr>)
                | _ \<Rightarrow> Malformed)))"

(* pr/webhook.rs 1678-1686 AzureRoute *)
datatype azure_route = Refresh string string | Azure_WrongRepo "string option" | Azure_Malformed

(* pr/webhook.rs 1701-1732 route_azure_delivery *)
definition route_azure_delivery :: "jvalue \<Rightarrow> project_route list \<Rightarrow> azure_route" where
  "route_azure_delivery payload routes =
     (case jget ''resource'' payload of
        None \<Rightarrow> Azure_Malformed
      | Some res \<Rightarrow>
          (case (jstr_at [''repository'', ''name''] res, jstr_at [''repository'', ''project'', ''name''] res) of
             (Some repo_name, Some project_name) \<Rightarrow>
               (case find (\<lambda>r. rt_source_kind r = Azure \<and> eq_ignore_ascii_case (rt_repo r) repo_name \<and>
                       eq_ignore_ascii_case (rt_azure_project r) project_name) routes of
                  Some r \<Rightarrow> Refresh (rt_id r) (rt_repo r)
                | None \<Rightarrow> Azure_WrongRepo (Some repo_name))
           | _ \<Rightarrow> Azure_Malformed))"

section \<open>The event of a delivery\<close>

(* pr/webhook.rs 329-334 event_dedupe_key *)
definition event_dedupe_key :: "webhook_env \<Rightarrow> string option \<Rightarrow> string \<Rightarrow> string" where
  "event_dedupe_key env guid raw =
     (case guid of
        Some g \<Rightarrow> if g \<noteq> [] then ''github:'' @ g else ''github:sha256:'' @ wx_sha256_hex env raw
      | None \<Rightarrow> ''github:sha256:'' @ wx_sha256_hex env raw)"

(* pr/webhook.rs 298-323 event_from_webhook *)
definition event_from_webhook ::
    "webhook_env \<Rightarrow> webhook_event \<Rightarrow> string option \<Rightarrow> string \<Rightarrow> world \<Rightarrow> (event_envelope \<times> world) option" where
  "event_from_webhook env ev guid raw w =
     (let (received_at, w) = (if we_received_at ev > 0 then (we_received_at ev, w) else now_epoch w) in
      case try_bind (new_key (event_dedupe_key env guid raw)) (\<lambda>key.
             envelope_observation key Github (we_project_id ev) (we_repo ev) PullRequest
               \<lparr>sub_number = Some (we_number ev), sub_title = we_title ev, sub_body = [], sub_labels = we_labels ev,
                sub_url = we_url ev\<rparr> received_at) of
        Inl _ \<Rightarrow> None
      | Inr e \<Rightarrow> Some (e, w))"

section \<open>The handler\<close>

(* pr/webhook.rs 122-130 WebhookIngestor *)
type_synonym webhook_ingestor =
  "string \<Rightarrow> string option \<Rightarrow> webhook_event \<Rightarrow> world \<Rightarrow> (unit app_result \<times> world) option"

(* pr/webhook.rs 151-155 WebhookRefresher *)
type_synonym webhook_refresher = "string \<Rightarrow> string \<Rightarrow> string \<Rightarrow> world \<Rightarrow> (unit app_result \<times> world) option"

(* pr/webhook.rs 1063-1082 WebhookCtx *)
record webhook_ctx =
  cx_secret :: string
  cx_routes :: "project_route list"
  cx_ingestor :: webhook_ingestor
  cx_refresher :: webhook_refresher

datatype http_status = Status_OK | Status_Bad_Request | Status_Unauthorized | Status_Internal_Error

text \<open>A delivery that goes no further is recorded and answered.\<close>

definition answer ::
    "nat \<Rightarrow> string \<Rightarrow> string option \<Rightarrow> string option \<Rightarrow> delivery_status \<Rightarrow> string \<Rightarrow> http_status \<Rightarrow> world
      \<Rightarrow> (http_status \<times> world) option" where
  "answer received_at event action repo status msg code w =
     Some (code, record_delivery
       \<lparr>wd_received_at_epoch = received_at, wd_event = event, wd_action = action, wd_repo = repo, wd_pr_number = None,
        wd_skill_key = None, wd_status = status, wd_message = Some msg\<rparr> w)"

(* pr/webhook.rs 1146-1281 handle_github_delivery *)
definition handle_github_delivery ::
    "webhook_env \<Rightarrow> webhook_ctx \<Rightarrow> nat \<Rightarrow> string \<Rightarrow> http_request \<Rightarrow> world \<Rightarrow> (http_status \<times> world) option" where
  "handle_github_delivery env ctx received_at event rq w =
     (if \<not> verify_signature env (cx_secret ctx) (rq_body rq) (unwrap_or [] (header_text ''x-hub-signature-256'' rq))
      then answer received_at event None None Unauthorized
             (''HMAC '' @ (utf8 [0x6821, 0x9A8C, 0x5931, 0x8D25, 0xFF08, 0x7B7E, 0x540D] @ ''/'' @ utf8 [0x5BC6, 0x94A5, 0x4E0D, 0x5339, 0x914D, 0xFF09])) Status_Unauthorized w
      else if event \<noteq> ''pull_request''
      then answer received_at event None None Ignored (utf8 [0x975E] @ '' pull_request '' @ utf8 [0x4E8B, 0x4EF6, 0xFF08, 0x5DF2, 0x786E, 0x8BA4, 0xFF0C, 0x4E0D, 0x5904, 0x7406, 0xFF09]) Status_OK w
      else case wx_parse_json env (rq_body rq) of
        None \<Rightarrow> answer received_at event None None BadPayload (utf8 [0x8BF7, 0x6C42, 0x4F53, 0x4E0D, 0x662F, 0x5408, 0x6CD5] @ '' JSON'') Status_Bad_Request w
      | Some payload \<Rightarrow>
          (case parse_delivery payload (cx_routes ctx) of
             Routable ev \<Rightarrow>
               (case cx_ingestor ctx (wx_from_utf8_lossy env (rq_body rq)) (header_text ''x-github-delivery'' rq)
                       (ev\<lparr>we_received_at := received_at\<rparr>) w of
                  None \<Rightarrow> None
                | Some (Inr _, w) \<Rightarrow> Some (Status_OK, w)
                | Some (Inl _, w) \<Rightarrow> Some (Status_Internal_Error, w))
           | Parse_WrongRepo repo \<Rightarrow>
               answer received_at event (jstr_at [''action''] payload) repo WrongRepo
                 (utf8 [0x4ED3, 0x5E93, 0x672A, 0x5339, 0x914D, 0x4EFB, 0x4F55, 0x5DF2, 0x542F, 0x7528, 0x9879, 0x76EE, 0xFF08, 0x5DF2, 0x5FFD, 0x7565, 0xFF09]) Status_OK w
           | Malformed \<Rightarrow>
               answer received_at event (jstr_at [''action''] payload) None BadPayload
                 (''pull_request '' @ (utf8 [0x8F7D, 0x8377, 0x7F3A, 0x5C11, 0x5FC5, 0x8981, 0x5B57, 0x6BB5])) Status_OK w))"

(* pr/webhook.rs 426-427 AZURE_PR_CREATED *)
definition azure_pr_events :: "string list" where
  "azure_pr_events = [''git.pullrequest.created'', ''git.pullrequest.updated'']"

(* pr/webhook.rs 1299-1433 handle_azure_delivery *)
definition handle_azure_delivery ::
    "webhook_env \<Rightarrow> webhook_ctx \<Rightarrow> nat \<Rightarrow> http_request \<Rightarrow> world \<Rightarrow> (http_status \<times> world) option" where
  "handle_azure_delivery env ctx received_at rq w =
     (if \<not> verify_azure_token (cx_secret ctx) (unwrap_or [] (header_text ''authorization'' rq))
      then answer received_at [] None None Unauthorized
             (''Azure '' @ (utf8 [0x9274, 0x6743, 0x5931, 0x8D25, 0xFF08] @ ''Authorization '' @ utf8 [0x7F3A, 0x5931, 0x6216, 0x4E0D, 0x5339, 0x914D, 0xFF09])) Status_Unauthorized w
      else case wx_parse_json env (rq_body rq) of
        None \<Rightarrow> answer received_at [] None None BadPayload (utf8 [0x8BF7, 0x6C42, 0x4F53, 0x4E0D, 0x662F, 0x5408, 0x6CD5] @ '' JSON'') Status_Bad_Request w
      | Some payload \<Rightarrow>
          (let event_type = unwrap_or [] (jstr_at [''eventType''] payload) in
           if event_type \<notin> set azure_pr_events
           then answer received_at event_type None None Ignored
                  (utf8 [0x975E] @ '' PR '' @ utf8 [0x521B, 0x5EFA] @ ''/'' @ utf8 [0x66F4, 0x65B0, 0x4E8B, 0x4EF6, 0xFF08, 0x5DF2, 0x786E, 0x8BA4, 0xFF0C, 0x4E0D, 0x5904, 0x7406, 0xFF09]) Status_OK w
           else case route_azure_delivery payload (cx_routes ctx) of
             Refresh project_id repo \<Rightarrow>
               (case cx_refresher ctx (wx_from_utf8_lossy env (rq_body rq)) project_id repo w of
                  None \<Rightarrow> None
                | Some (Inr _, w) \<Rightarrow>
                    answer received_at event_type None (Some repo) Refreshed
                      (utf8 [0x5DF2, 0x89E6, 0x53D1] @ '' az '' @ utf8 [0x91CD, 0x65B0, 0x53D1, 0x73B0, 0xFF08, 0x8BFB, 0x53D6, 0x5F53, 0x524D, 0x6807, 0x7B7E, 0xFF09]) Status_OK w
                | Some (Inl _, w) \<Rightarrow> Some (Status_Internal_Error, w))
           | Azure_WrongRepo repo \<Rightarrow>
               answer received_at event_type None repo WrongRepo
                 (utf8 [0x4ED3, 0x5E93] @ ''/'' @ utf8 [0x9879, 0x76EE, 0x672A, 0x5339, 0x914D, 0x4EFB, 0x4F55, 0x5DF2, 0x542F, 0x7528] @ '' Azure '' @ utf8 [0x9879, 0x76EE, 0xFF08, 0x5DF2, 0x5FFD, 0x7565, 0xFF09]) Status_OK w
           | Azure_Malformed \<Rightarrow>
               answer received_at event_type None None BadPayload
                 (''Azure PR '' @ (utf8 [0x8F7D, 0x8377, 0x7F3A, 0x5C11, 0x5FC5, 0x8981, 0x5B57, 0x6BB5])) Status_OK w))"

(* pr/webhook.rs 1107-1140 handle_webhook *)
definition handle_webhook ::
    "webhook_env \<Rightarrow> webhook_ctx \<Rightarrow> http_request \<Rightarrow> world \<Rightarrow> (http_status \<times> world) option" where
  "handle_webhook env ctx rq w =
     (let (received_at, w) = now_epoch w in
      case map_of (rq_headers rq) ''x-github-event'' of
        Some (Header_Text event) \<Rightarrow>
          if event \<noteq> [] then handle_github_delivery env ctx received_at event rq w
          else handle_azure_delivery env ctx received_at rq w
      | Some (Header_Opaque _) \<Rightarrow>
          answer received_at [] None None BadPayload
            (''X-GitHub-Event '' @ (utf8 [0x5934, 0x4E0D, 0x662F, 0x5408, 0x6CD5] @ '' UTF-8'')) Status_Bad_Request w
      | None \<Rightarrow> handle_azure_delivery env ctx received_at rq w)"

section \<open>The closures of the composition root\<close>

(* lib.rs 653-688 set_ingestor *)
definition installed_ingestor :: "webhook_env \<Rightarrow> webhook_ingestor" where
  "installed_ingestor env raw guid ev w =
     (case event_from_webhook env ev guid raw w of
        None \<Rightarrow> None
      | Some (event, w) \<Rightarrow>
          Some (case wx_event_to_json env ev of
             Inl e \<Rightarrow> (Inl (AppError (''WebhookEvent '' @ (utf8 [0x5E8F, 0x5217, 0x5316, 0x5931, 0x8D25, 0xFF0C, 0x62D2, 0x7EDD, 0x7A7A] @ '' payload fallback'' @ utf8 [0xFF1A]) @ e)), w)
           | Inr json \<Rightarrow>
               ingest_github event raw json (case we_intent ev of Track c _ \<Rightarrow> c | StatusOnly _ \<Rightarrow> None) w))"

(* lib.rs 690-708 set_refresher *)
definition installed_refresher :: "webhook_env \<Rightarrow> webhook_refresher" where
  "installed_refresher env raw project_id repo w = ingest_azure_refresh (wx_sha256_hex env) raw project_id repo w"

text \<open>The routes that \<open>start_webhook\<close> serves.\<close>

(* pr/commands.rs 894-916 start_webhook *)
definition webhook_routes :: "project list \<Rightarrow> project_route list" where
  "webhook_routes projects =
     map (\<lambda>p. \<lparr>rt_id = prj_id p, rt_source_kind = prj_source_kind p, rt_repo = prj_repo p,
                rt_azure_project = prj_azure_project p, rt_label_source = prj_label_source p\<rparr>)
       (filter (\<lambda>p. prj_enabled p \<and> webhook_route_eligible (prj_update_mode p) \<and> prj_source_kind p \<noteq> Bitbucket) projects)"

definition installed_ctx :: "webhook_env \<Rightarrow> string \<Rightarrow> project list \<Rightarrow> webhook_ctx" where
  "installed_ctx env secret projects =
     \<lparr>cx_secret = secret, cx_routes = webhook_routes projects, cx_ingestor = installed_ingestor env,
      cx_refresher = installed_refresher env\<rparr>"

end
