(* ===== verification/Scheduler_Properties.thy ===== *)
theory Scheduler_Properties
  imports Pr_Scheduler
begin

text \<open>
  The poll loops are what the configuration asks for: over every sequence of reconciliations, stops, wakes
  and steps of the loops, a project has at most one loop that has not been told to stop.
\<close>

text \<open>
  The tracked set: an archived pull request survives every poll, delivery and pruning, and pruning keeps the
  set within its bound by dropping the pull requests that were seen least recently.
\<close>

section \<open>One upsert\<close>

definition archived_in :: "nat \<Rightarrow> tracked_pr list \<Rightarrow> bool" where
  "archived_in n ts \<longleftrightarrow> (\<exists>t \<in> set ts. tp_number t = n \<and> tp_archived t)"

lemma edit_first_archived:
  assumes "archived_in n ts" and "\<And>t. tp_number t = n \<Longrightarrow> p t \<Longrightarrow> tp_number (f t) = n \<and> (tp_archived t \<longrightarrow> tp_archived (f t))"
  shows "archived_in n (edit_first p f ts)"
  using assms by (induction ts) (auto simp: archived_in_def)

lemma update_present_archived: "archived_in n ts \<Longrightarrow> archived_in n (snd (update_present v now ts))"
  by (auto simp: update_present_def refreshed_def intro: edit_first_archived)

lemma set_archived_archived:
  "archived_in n ts \<Longrightarrow> m \<noteq> n \<or> flag \<Longrightarrow> archived_in n (snd (set_archived m flag ts))"
  by (auto simp: set_archived_def intro: edit_first_archived)

lemma upsert_one_archived:
  assumes "archived_in n ts"
  shows "archived_in n (upsert_one now v ts)"
proof (cases "update_present v now ts")
  case (Pair b ts')
  with update_present_archived [OF assms, of v now] show ?thesis
    by (cases b) (auto simp: upsert_one_def archived_in_def)
qed

lemma upserts_archived: "archived_in n ts \<Longrightarrow> archived_in n (fold (upsert_one now) views ts)"
  by (induction views arbitrary: ts) (auto simp: upsert_one_archived)

lemma prune_archived: "archived_in n ts \<Longrightarrow> archived_in n (prune_tracked ts)"
  by (auto simp: archived_in_def prune_tracked_def Let_def)

lemma upsert_archived: "archived_in n ts \<Longrightarrow> archived_in n (upsert_tracked views now ts)"
  by (simp add: upsert_tracked_def prune_archived upserts_archived)

lemma write_view_archived: "archived_in n ts \<Longrightarrow> archived_in n (snd (write_view k v now ts))"
  by (cases k) (simp_all add: write_view_def upsert_archived update_present_archived)

section \<open>Through the database\<close>

lemma insert_tracked_Inr: "insert_tracked rs t = Inr t' \<Longrightarrow> t' = t @ rs"
  by (induction rs arbitrary: t) (fastforce split: if_splits)+

definition archived_row :: "string \<Rightarrow> nat \<Rightarrow> db \<Rightarrow> bool" where
  "archived_row p n d \<longleftrightarrow>
     (\<exists>r \<in> set (db_tracked d). tk_project_id r = p \<and> as_u64 (tk_number r) = n \<and> tk_archived r \<noteq> 0)"

lemma load_tracked_Inr:
  assumes "load_tracked p d = Inr ts"
  shows "archived_in n ts \<longleftrightarrow> archived_row p n d"
proof -
  have "set ts = tracked_of_row ` {r \<in> set (db_tracked d). tk_project_id r = p}"
    using assms by (auto simp: load_tracked_def read_conn_def)
  then show ?thesis unfolding archived_in_def archived_row_def by (auto simp: tracked_of_row_def)
qed

lemma load_tracked_total: "\<exists>ts. load_tracked p d = Inr ts"
  by (simp add: load_tracked_def read_conn_def)

lemma as_u64_le: "as_u64 i \<le> u64_max"
proof -
  have "i mod 2 ^ 64 < 2 ^ 64" by simp
  then show ?thesis by (simp add: as_u64_def u64_max_def nat_le_iff)
qed

lemma archived_row_bound: "archived_row p n d \<Longrightarrow> n \<le> u64_max"
  by (auto simp: archived_row_def as_u64_le)

lemma save_tracked_cases:
  obtains (failed) e where "save_tracked q ts d = (Inl e, d)"
  | (saved) "save_tracked q ts d = (Inr (),
      d\<lparr>db_tracked := filter (\<lambda>r. tk_project_id r \<noteq> q) (db_tracked d) @ map (row_of_tracked q) ts\<rparr>)"
proof (cases "insert_tracked (map (row_of_tracked q) ts) (filter (\<lambda>r. tk_project_id r \<noteq> q) (db_tracked d))")
  case (Inl e)
  then show thesis by (intro failed) (simp add: save_tracked_def with_tx_def)
next
  case (Inr t)
  with insert_tracked_Inr [OF this] show thesis by (intro saved) (simp add: save_tracked_def with_tx_def)
qed

lemma save_tracked_archived:
  assumes "archived_row p n d" and "q = p \<Longrightarrow> archived_in n ts"
  shows "archived_row p n (snd (save_tracked q ts d))"
proof (cases rule: save_tracked_cases [of q ts d])
  case (failed e)
  with assms(1) show ?thesis by simp
next
  case saved
  show ?thesis
  proof (cases "q = p")
    case True
    with assms(2) obtain x where "x \<in> set ts" "tp_number x = n" "tp_archived x" by (auto simp: archived_in_def)
    with True saved archived_row_bound [OF assms(1)] show ?thesis
      by (force simp: archived_row_def row_of_tracked_def as_u64_as_i64)
  next
    case False
    with assms(1) saved show ?thesis by (auto simp: archived_row_def)
  qed
qed

text \<open>What a mutation that keeps the archived ones does through the seam.\<close>

definition keeps_archived :: "nat \<Rightarrow> 'a tracked_mutation \<Rightarrow> bool" where
  "keeps_archived n mutate \<longleftrightarrow>
     (\<forall>ts w. archived_in n ts \<longrightarrow> archived_in n (fst (snd (mutate ts w)))) \<and> (\<forall>ts w. w_db (snd (snd (mutate ts w))) = w_db w)"

lemma mutate_tracked_archived:
  assumes "archived_row p n (w_db w)" and "q = p \<Longrightarrow> keeps_archived n mutate"
    and "\<And>ts w. w_db (snd (snd (mutate ts w))) = w_db w"
  shows "archived_row p n (w_db (snd (mutate_tracked q mutate w)))"
proof -
  obtain ts where ts: "load_tracked q (w_db w) = Inr ts" using load_tracked_total by blast
  obtain persist out ts' w' where m: "mutate ts w = ((persist, out), ts', w')" by (cases "mutate ts w") auto
  have db: "w_db w' = w_db w" using assms(3) [of ts w] m by simp
  have "archived_in n ts'" if "q = p"
  proof -
    have "archived_in n (fst (snd (mutate ts w)))"
      using assms(1,2) ts that load_tracked_Inr [OF ts, of n] unfolding keeps_archived_def by blast
    with m show ?thesis by simp
  qed
  with assms(1) db have "archived_row p n (snd (save_tracked q ts' (w_db w')))" by (simp add: save_tracked_archived)
  with assms(1) db show ?thesis by (simp add: mutate_tracked_def ts m split_beta Let_def)
qed

lemma project_snapshot_db [simp]: "w_db (snd (project_snapshot load p ts w)) = w_db w"
  by (simp add: project_snapshot_def split_beta Let_def)

lemma when_changed_keeps:
  assumes "\<And>ts. archived_in n ts \<Longrightarrow> archived_in n (snd (f ts))"
  shows "keeps_archived n (when_changed load p f)"
  using assms by (fastforce simp: keeps_archived_def when_changed_def split_beta Let_def split: prod.splits bool.splits)

lemma when_changed_db: "w_db (snd (snd (when_changed load p f ts w))) = w_db w"
  by (simp add: when_changed_def split_beta Let_def split: prod.splits bool.splits)

lemma upsert_views_keeps: "keeps_archived n (upsert_views load p views now)"
  by (simp add: keeps_archived_def upsert_views_def Let_def upsert_archived)

lemma upsert_views_db: "w_db (snd (snd (upsert_views load p views now ts w))) = w_db w"
  by (simp add: upsert_views_def Let_def)

section \<open>The operations on the tracked pull requests\<close>

lemma mark_diag_db [simp]: "w_db (mark_diag i f w) = w_db w"
  by (simp add: mark_diag_def split_beta Let_def)

lemma discover_db [simp]: "w_db (snd (discover src load p w)) = w_db w"
  by (simp add: discover_def split_beta Let_def split: sum.splits)

lemma record_delivery_db [simp]: "w_db (record_delivery d w) = w_db w"
  by (simp add: record_delivery_def)

lemma emit_for_id_keeps_db [simp]: "w_db (emit_for_id p i w) = w_db w"
  by (simp add: emit_for_id_def inbox_emit_updated_def split: sum.splits option.splits)

lemma emit_ingested_db [simp]: "w_db (emit_ingested q r w) = w_db w"
  by (simp add: emit_ingested_def split: sum.splits option.splits)

datatype pr_op =
  Poll pr_source "app_config app_result" string nat
| Deliver "app_config app_result" webhook_event
| Set_Archived "app_config app_result" string nat bool

fun pr_step :: "(poll_snapshot \<Rightarrow> string) \<Rightarrow> pr_op \<Rightarrow> world \<Rightarrow> world" where
  "pr_step sha (Poll src load p diag) w = snd (run_discovery_cycle src load (Some (installed_event_sink sha)) p diag w)"
| "pr_step sha (Deliver load ev) w = snd (ingest_webhook load ev w)"
| "pr_step sha (Set_Archived load p n flag) w = snd (set_pr_archived load p n flag w)"

fun op_allowed :: "(string \<Rightarrow> nat \<Rightarrow> bool \<Rightarrow> bool) \<Rightarrow> pr_op \<Rightarrow> bool" where
  "op_allowed allowed (Set_Archived load q m flag) = allowed q m flag"
| "op_allowed allowed op = True"

text \<open>
  An invariant of the database that every mutation of the tracked pull requests keeps, and the insertion
  into the inbox, is kept by every sequence of operations. The archive command may be restricted.
\<close>

locale pr_invariant =
  fixes P :: "db \<Rightarrow> bool" and allowed :: "string \<Rightarrow> nat \<Rightarrow> bool \<Rightarrow> bool"
  assumes upsert: "P (w_db w) \<Longrightarrow> P (w_db (snd (mutate_tracked q (upsert_views load q views now) w)))"
    and deliver: "P (w_db w) \<Longrightarrow> P (w_db (snd (mutate_tracked q (when_changed load q (write_view k v now)) w)))"
    and archive: "allowed q m flag \<Longrightarrow> P (w_db w) \<Longrightarrow>
      P (w_db (snd (mutate_tracked q (when_changed load q (set_archived m flag)) w)))"
    and ingest: "P d \<Longrightarrow> P (snd (insert_dedup e raw j c d))"
begin

lemma cycle_discover:
  assumes "P (w_db w)"
  shows "P (w_db (snd (cycle_discover src load q diag w)))"
proof (cases "discover src load q (mark_diag diag mark_started w)")
  case (Pair r w1)
  have db: "w_db w1 = w_db w" using discover_db [of src load q "mark_diag diag mark_started w"] Pair by simp
  show ?thesis
  proof (cases r)
    case (Inl e)
    with Pair db assms show ?thesis by (simp add: cycle_discover_def)
  next
    case (Inr v)
    obtain views disp where v: "v = (views, disp)" by (cases v)
    obtain now w2 where w2: "now_epoch (mark_diag diag (mark_discovered (length views)) w1) = (now, w2)"
      by (cases "now_epoch (mark_diag diag (mark_discovered (length views)) w1)")
    then have "w_db w2 = w_db w"
      using db now_epoch_simps(1) [of "mark_diag diag (mark_discovered (length views)) w1"] by simp
    with assms have "P (w_db (snd (mutate_tracked q (upsert_views load q views now) w2)))" by (intro upsert) simp
    with Pair Inr v w2 show ?thesis by (simp add: cycle_discover_def split_beta Let_def)
  qed
qed

lemma ingest_webhook:
  assumes "P (w_db w)"
  shows "P (w_db (snd (ingest_webhook load ev w)))"
proof -
  have "P (w_db (snd (mutate_tracked q (when_changed load q (write_view k v now)) (snd (now_epoch w)))))" for q k v now
    using assms by (intro deliver) simp
  then show ?thesis using assms by (simp add: ingest_webhook_def split_beta Let_def split: sum.splits)
qed

lemma set_pr_archived:
  assumes "allowed q m flag" and "P (w_db w)"
  shows "P (w_db (snd (set_pr_archived load q m flag w)))"
  using archive [OF assms, of load]
  by (cases "mutate_tracked q (when_changed load q (set_archived m flag)) w")
    (auto simp: set_pr_archived_def split: sum.splits option.splits)

lemma ingest_loop:
  assumes "P (w_db w)"
  shows "P (w_db (snd (ingest_loop sha p events err w)))"
  using assms
proof (induction events arbitrary: err w)
  case (Cons e events)
  obtain now w1 where now: "now_epoch w = (now, w1)" by (cases "now_epoch w")
  then have w1: "P (w_db w1)" using now_epoch_simps(1) [of w] Cons.prems by simp
  show ?case
  proof (cases "normalize_discovered_event sha p e now")
    case (Inl err')
    then show ?thesis using w1 by (simp add: now Cons.IH emit_dispatch_error_def)
  next
    case (Inr ev)
    obtain r w2 where ins: "on_db (insert_dedup ev ''rule-engine-discovery'' None (Some (dsc_candidate e))) w1 = (r, w2)"
      by (cases "on_db (insert_dedup ev ''rule-engine-discovery'' None (Some (dsc_candidate e))) w1")
    then have "P (w_db w2)"
      using on_db_simps(2) [of "insert_dedup ev ''rule-engine-discovery'' None (Some (dsc_candidate e))" w1] w1 ingest by simp
    then show ?thesis
      by (simp add: now Inr ins Cons.IH emit_dispatch_error_def wake_inbox_def split: sum.splits option.splits)
  qed
qed simp

lemma run_discovery_cycle:
  assumes "P (w_db w)"
  shows "P (w_db (snd (run_discovery_cycle src load (Some (installed_event_sink sha)) q diag w)))"
proof -
  obtain event disp err w1 where c: "cycle_discover src load q diag w = ((event, disp, err), w1)"
    by (cases "cycle_discover src load q diag w") auto
  have w1: "P (w_db w1)" using cycle_discover [OF assms, of src load q diag] c by simp
  obtain r w2 where sink: "installed_event_sink sha q disp (emit (Pr event) w1) = (r, w2)"
    by (cases "installed_event_sink sha q disp (emit (Pr event) w1)")
  have "P (w_db (snd (ingest_loop sha q disp None (emit (Pr event) w1))))"
    using w1 by (intro ingest_loop) simp
  then have "P (w_db w2)"
    using sink w1 by (auto simp: installed_event_sink_def ingest_discovered_events_def split: prod.splits option.splits if_splits)
  with w1 show ?thesis
    using sink by (cases r; cases err) (simp_all add: run_discovery_cycle_def c Let_def first_err_def)
qed

lemma steps: "P (w_db w) \<Longrightarrow> list_all (op_allowed allowed) ops \<Longrightarrow> P (w_db (fold (pr_step sha) ops w))"
proof (induction ops arbitrary: w)
  case (Cons op ops)
  have "P (w_db (pr_step sha op w))"
    using Cons.prems by (cases op) (auto intro: run_discovery_cycle ingest_webhook set_pr_archived)
  with Cons show ?case by simp
qed simp

end

section \<open>Archived pull requests stay\<close>

lemma insert_dedup_tables:
  "db_tracked (snd (insert_dedup e raw j c d)) = db_tracked d \<and>
   load_ledger p (snd (insert_dedup e raw j c d)) = load_ledger p d"
proof (cases "insert_dedup e raw j c d")
  case (Pair r d')
  then have "db_tracked d' = db_tracked d \<and> db_dispatch_key d' = db_dispatch_key d \<and> db_dispatch_event d' = db_dispatch_event d"
    by (cases r) (auto simp: insert_dedup_def insert_dedup_tx_def with_tx_def delete_inbox_def try_bind_Inr_iff Let_def
      split: sum.splits prod.splits if_splits option.splits)
  with Pair show ?thesis by (simp add: load_ledger_def read_conn_def)
qed

interpretation archived: pr_invariant "archived_row p n" "\<lambda>q m flag. (q, m) \<noteq> (p, n) \<or> flag" for p n
proof
  show "archived_row p n (w_db w) \<Longrightarrow> archived_row p n (w_db (snd (mutate_tracked q (upsert_views load q views now) w)))"
    for q load views now w
    by (rule mutate_tracked_archived) (simp_all add: upsert_views_keeps upsert_views_db)
  show "archived_row p n (w_db w) \<Longrightarrow>
      archived_row p n (w_db (snd (mutate_tracked q (when_changed load q (write_view k v now)) w)))" for q load k v now w
    by (rule mutate_tracked_archived) (simp_all add: when_changed_keeps write_view_archived when_changed_db)
  show "(q, m) \<noteq> (p, n) \<or> flag \<Longrightarrow> archived_row p n (w_db w) \<Longrightarrow>
      archived_row p n (w_db (snd (mutate_tracked q (when_changed load q (set_archived m flag)) w)))" for q m flag load w
    by (rule mutate_tracked_archived) (auto intro!: when_changed_keeps set_archived_archived simp: when_changed_db)
  show "archived_row p n d \<Longrightarrow> archived_row p n (snd (insert_dedup e raw j c d))" for d e raw j c
    using insert_dedup_tables [of e raw j c d] by (simp add: archived_row_def)
qed

lemma get_prs_views:
  assumes "get_prs load p w = (Inr list, w')"
  shows "(\<exists>v \<in> set list. pv_number (tv_pr v) = n \<and> tv_archived v) \<longleftrightarrow> archived_row p n (w_db w)"
proof -
  from assms obtain ts where ts: "load_tracked p (w_db w) = Inr ts"
    and list: "set list = view_of_tracked (fst (now_epoch w)) (presence_grace_secs load p) ` set ts"
    by (auto simp: get_prs_def project_snapshot_def to_view_list_def split_beta Let_def split: sum.splits)
  show ?thesis
    unfolding load_tracked_Inr [OF ts, symmetric] archived_in_def list by (auto simp: view_of_tracked_def)
qed

lemma get_prs_total: "\<exists>list w'. get_prs load p w = (Inr list, w')"
proof -
  obtain ts where "load_tracked p (w_db w) = Inr ts" using load_tracked_total by blast
  then show ?thesis by (simp add: get_prs_def split_beta)
qed

text \<open>
  An archived pull request stays in the list, archived: after any sequence of discovery cycles (of any
  project, whatever the sources report), webhook deliveries and archive commands that does not un-archive
  it, the panel still lists it and still shows it archived, however many pull requests were pruned.
\<close>

theorem archived_stays_listed:
  assumes "get_prs load p w = (Inr list, w1)" and "v \<in> set list" and "pv_number (tv_pr v) = n" and "tv_archived v"
    and "list_all (op_allowed (\<lambda>q m flag. (q, m) \<noteq> (p, n) \<or> flag)) ops"
  shows "\<exists>list' w2 v'. get_prs load' p (fold (pr_step sha) ops w) = (Inr list', w2) \<and>
    v' \<in> set list' \<and> pv_number (tv_pr v') = n \<and> tv_archived v'"
proof -
  have "archived_row p n (w_db w)" using get_prs_views [OF assms(1)] assms(2-4) by blast
  from archived.steps [OF this assms(5)] have "archived_row p n (w_db (fold (pr_step sha) ops w))" .
  moreover obtain list' w2 where l: "get_prs load' p (fold (pr_step sha) ops w) = (Inr list', w2)"
    using get_prs_total by blast
  ultimately show ?thesis using get_prs_views [OF l] by blast
qed

definition archived_db :: db where
  "archived_db = empty_db\<lparr>db_tracked := [\<lparr>tk_project_id = ''p'', tk_number = 7, tk_title = ''t'', tk_labels_json = JsonOf [],
     tk_url = [], tk_skill_key = ''pr-review:'', tk_skip_reason = None, tk_first_seen_epoch = 1, tk_last_seen_epoch = 1,
     tk_archived = 1\<rparr>]\<rparr>"

theorem archived_stays_listed_witness:
  "\<exists>list' w2 v'. get_prs (Inl (AppError [])) ''p''
     (fold (pr_step (\<lambda>s. [])) [Set_Archived (Inl (AppError [])) ''p'' 8 False] (idle_world archived_db)) = (Inr list', w2) \<and>
   v' \<in> set list' \<and> pv_number (tv_pr v') = 7 \<and> tv_archived v'"
proof -
  let ?w = "idle_world archived_db" and ?load = "Inl (AppError []) :: app_config app_result"
  obtain list w1 where l: "get_prs ?load ''p'' ?w = (Inr list, w1)" using get_prs_total by blast
  have "archived_row ''p'' 7 (w_db ?w)" by (simp add: archived_row_def archived_db_def idle_world_def as_u64_def)
  with get_prs_views [OF l] obtain v where "v \<in> set list" "pv_number (tv_pr v) = 7" "tv_archived v" by blast
  from archived_stays_listed [OF l this, of "[Set_Archived ?load ''p'' 8 False]" ?load "\<lambda>s. []"] show ?thesis
    by simp
qed

section \<open>The bound\<close>

lemma sorted_take_drop:
  assumes "sorted (map f xs)" and "x \<in> set (drop k xs)" and "y \<in> set (take k xs)"
  shows "(f y :: int) \<le> f x"
proof -
  have "map f xs = map f (take k xs) @ map f (drop k xs)" by (simp flip: map_append)
  with assms show ?thesis by (auto simp: sorted_append)
qed

text \<open>
  The tracked set stays within its bound: after an upsert it has at most 500 pull requests, or only
  archived ones; no archived pull request was dropped, and every active one that was dropped was seen no
  later than every active one that was kept.
\<close>

theorem tracked_set_bounded:
  fixes views now ts
  defines "merged \<equiv> fold (upsert_one now) views ts" and "kept \<equiv> upsert_tracked views now ts"
  shows "(length kept \<le> 500 \<or> list_all tp_archived kept) \<and> set kept \<subseteq> set merged \<and>
    {t \<in> set merged. tp_archived t} \<subseteq> set kept \<and>
    (\<forall>t s. t \<in> set merged \<longrightarrow> t \<notin> set kept \<longrightarrow> s \<in> set kept \<longrightarrow> \<not> tp_archived s \<longrightarrow> tp_last_seen t \<le> tp_last_seen s)"
proof (cases "length merged \<le> max_tracked")
  case True
  then have "kept = merged" by (simp add: kept_def merged_def upsert_tracked_def prune_tracked_def)
  with True show ?thesis by (simp add: max_tracked_def)
next
  case False
  let ?arch = "filter tp_archived merged"
  let ?act = "sort_key (\<lambda>t. - int (tp_last_seen t)) (filter (\<lambda>t. \<not> tp_archived t) merged)"
  let ?k = "max_tracked - length ?arch"
  have kept: "kept = ?arch @ take ?k ?act"
    using False by (simp add: kept_def merged_def upsert_tracked_def prune_tracked_def Let_def)
  have "length kept \<le> 500 \<or> list_all tp_archived kept"
  proof (cases "length ?arch \<le> max_tracked")
    case True
    then show ?thesis unfolding kept by (intro disjI1, simp add: max_tracked_def min_def, arith)
  next
    case False
    then have "kept = ?arch" unfolding kept by simp
    then show ?thesis by (simp add: list_all_iff)
  qed
  moreover have "set kept \<subseteq> set merged" unfolding kept by (auto dest: in_set_takeD)
  moreover have "{t \<in> set merged. tp_archived t} \<subseteq> set kept" unfolding kept by auto
  moreover have "tp_last_seen t \<le> tp_last_seen s"
    if t: "t \<in> set merged" "t \<notin> set kept" and s: "s \<in> set kept" "\<not> tp_archived s" for t s
  proof -
    have "t \<in> set ?act" "t \<notin> set (take ?k ?act)" using t unfolding kept by auto
    then have "t \<in> set (drop ?k ?act)" by (metis Un_iff append_take_drop_id set_append)
    moreover have "s \<in> set (take ?k ?act)" using s unfolding kept by auto
    ultimately show ?thesis using sorted_take_drop [of "\<lambda>t. - int (tp_last_seen t)" ?act t ?k s] by simp
  qed
  ultimately show ?thesis by blast
qed

theorem tracked_set_bounded_witness:
  "length (upsert_tracked [\<lparr>pv_number = 7, pv_title = [], pv_labels = [], pv_url = [], pv_skill_key = [], pv_skip_reason = None\<rparr>]
     5 []) \<le> 500 \<or> list_all tp_archived (upsert_tracked [\<lparr>pv_number = 7, pv_title = [], pv_labels = [], pv_url = [], pv_skill_key = [], pv_skip_reason = None\<rparr>] 5 [])"
  using tracked_set_bounded [of
    "[\<lparr>pv_number = 7, pv_title = [], pv_labels = [], pv_url = [], pv_skill_key = [], pv_skip_reason = None\<rparr>]" 5 "[]"]
  by blast

section \<open>Runs\<close>

datatype sched_op =
  Op_Reconcile "project list" | Op_Stop_All | Op_Wake string | Op_Reconfigure string
| Op_Loop nat loop_branch | Op_Begin_Manual string | Op_End_Manual string

fun sched_step :: "sched_op \<Rightarrow> scheduler_set \<Rightarrow> scheduler_set" where
  "sched_step (Op_Reconcile projects) ss = reconcile projects ss"
| "sched_step Op_Stop_All ss = stop_all ss"
| "sched_step (Op_Wake p) ss = snd (wake_project p ss)"
| "sched_step (Op_Reconfigure p) ss = reconfigure_project p ss"
| "sched_step (Op_Loop i b) ss = run_loop_step i b ss"
| "sched_step (Op_Begin_Manual p) ss =
     (case try_begin_manual p ss of (True, ss) \<Rightarrow> snd (manual_diag p ss) | (False, ss) \<Rightarrow> ss)"
| "sched_step (Op_End_Manual p) ss = drop_manual_guard p ss"

definition runs_of :: "sched_op list \<Rightarrow> scheduler_set" where
  "runs_of ops = fold sched_step ops scheduler_set_default"

text \<open>A loop that runs and was not told to stop.\<close>

definition live_loop :: "poll_loop \<Rightarrow> bool" where
  "live_loop l \<longleftrightarrow> pl_phase l \<noteq> Returned \<and> \<not> pl_stop l"

definition live_loops :: "scheduler_set \<Rightarrow> nat set" where
  "live_loops ss = {i. i < length (ss_loops ss) \<and> live_loop (ss_loops ss ! i)}"

section \<open>The invariant\<close>

definition entry_ok :: "poll_loop list \<Rightarrow> string \<times> scheduler \<Rightarrow> bool" where
  "entry_ok loops e \<longleftrightarrow> (\<exists>i. sc_task (snd e) = Some i \<and> i < length loops \<and> live_loop (loops ! i) \<and> pl_project_id (loops ! i) = fst e)"

definition tasks :: "(string \<times> scheduler) list \<Rightarrow> nat set" where
  "tasks es = {i. \<exists>e \<in> set es. sc_task (snd e) = Some i}"

definition loops_match :: "(string \<times> scheduler) list \<Rightarrow> poll_loop list \<Rightarrow> bool" where
  "loops_match es loops \<longleftrightarrow> distinct (map fst es) \<and> (\<forall>e \<in> set es. entry_ok loops e) \<and>
     {i. i < length loops \<and> live_loop (loops ! i)} = tasks es"

abbreviation sched_ok :: "scheduler_set \<Rightarrow> bool" where
  "sched_ok ss \<equiv> loops_match (ss_inner ss) (ss_loops ss)"

lemma entry_okD:
  "entry_ok loops e \<Longrightarrow> sc_task (snd e) = Some i \<Longrightarrow> i < length loops \<and> live_loop (loops ! i) \<and> pl_project_id (loops ! i) = fst e"
  by (auto simp: entry_ok_def)

lemma tasks_iff: "i \<in> tasks es \<longleftrightarrow> (\<exists>e. e \<in> set es \<and> sc_task (snd e) = Some i)"
  unfolding tasks_def by blast

text \<open>Changing a loop without touching its project and whether it is live changes nothing.\<close>

lemma loops_match_update:
  assumes "loops_match es loops" and "i < length loops \<Longrightarrow> live_loop l = live_loop (loops ! i)"
    and "i < length loops \<Longrightarrow> pl_project_id l = pl_project_id (loops ! i)"
  shows "loops_match es (loops[i := l])"
proof (cases "i < length loops")
  case True
  have "entry_ok (loops[i := l]) e" if "entry_ok loops e" for e
    using that assms(2,3) True by (auto simp: entry_ok_def nth_list_update split: if_splits)
  moreover have "{j. j < length loops \<and> live_loop (loops[i := l] ! j)} = {j. j < length loops \<and> live_loop (loops ! j)}"
    using assms(2) True by (auto simp: nth_list_update split: if_splits)
  ultimately show ?thesis using assms(1) by (simp add: loops_match_def)
qed (use assms(1) in \<open>simp add: list_update_beyond\<close>)

lemma update_loop_ok:
  assumes "sched_ok ss" and "\<And>l. live_loop (f l) = live_loop l" and "\<And>l. pl_project_id (f l) = pl_project_id l"
  shows "sched_ok (update_loop i f ss)"
  using loops_match_update [OF assms(1), of i "f (ss_loops ss ! i)"] assms(2,3) by (simp add: update_loop_def)

lemma wake_ok: "sched_ok ss \<Longrightarrow> sched_ok (snd (scheduler_wake s ss))"
  by (auto simp: scheduler_wake_def live_loop_def intro: update_loop_ok split: option.splits)

lemma reconfigure_ok: "sched_ok ss \<Longrightarrow> sched_ok (scheduler_reconfigure s ss)"
  by (auto simp: scheduler_reconfigure_def live_loop_def intro: update_loop_ok split: option.splits)

lemma run_loop_step_ok: "sched_ok ss \<Longrightarrow> sched_ok (run_loop_step i b ss)"
proof -
  assume ok: "sched_ok ss"
  have "live_loop (take_branch b (ss_loops ss ! i)) = live_loop (ss_loops ss ! i)"
    and "pl_project_id (take_branch b (ss_loops ss ! i)) = pl_project_id (ss_loops ss ! i)"
    if "branch_ready b (ss_loops ss ! i)"
    using that by (auto simp: take_branch_def branch_ready_def live_loop_def split: loop_branch.splits)
  with loops_match_update [OF ok] ok show ?thesis by (simp add: run_loop_step_def update_loop_def)
qed

section \<open>Stopping\<close>

lemma stop_entry_fields: "ss_inner (stop_entry e ss) = ss_inner ss" "length (ss_loops (stop_entry e ss)) = length (ss_loops ss)"
  by (auto simp: stop_entry_def scheduler_stop_def update_loop_def split: option.splits)

lemma stop_entries_fields:
  "ss_inner (fold stop_entry es ss) = ss_inner ss" "length (ss_loops (fold stop_entry es ss)) = length (ss_loops ss)"
  by (induction es arbitrary: ss) (simp_all add: stop_entry_fields)

lemma stop_entries_loops:
  "i < length (ss_loops ss) \<Longrightarrow>
   ss_loops (fold stop_entry es ss) ! i =
     (if i \<in> tasks es then (ss_loops ss ! i)\<lparr>pl_stop := True\<rparr> else ss_loops ss ! i)"
proof (induction es arbitrary: ss)
  case (Cons e es)
  have len: "i < length (ss_loops (stop_entry e ss))" using Cons.prems by (simp add: stop_entry_fields)
  have one: "ss_loops (stop_entry e ss) ! i =
      (if sc_task (snd e) = Some i then (ss_loops ss ! i)\<lparr>pl_stop := True\<rparr> else ss_loops ss ! i)"
    using Cons.prems
    by (auto simp: stop_entry_def scheduler_stop_def update_loop_def nth_list_update split: option.splits)
  show ?case using Cons.IH [OF len] one by (auto simp: tasks_def)
qed (simp add: tasks_def)

lemma task_of_one_entry:
  assumes "loops_match es loops" and "e \<in> set es" and "f \<in> set es" and "sc_task (snd e) = sc_task (snd f)"
  shows "e = f"
proof -
  from assms(1-3) have "entry_ok loops e" "entry_ok loops f" by (auto simp: loops_match_def)
  with assms(4) have "fst e = fst f" by (metis entry_okD entry_ok_def)
  with assms(1-3) show ?thesis by (auto simp: loops_match_def distinct_map dest: inj_onD)
qed

lemma drop_entries_ok:
  assumes "sched_ok ss" and "ss_inner ss' = filter P (ss_inner ss)"
    and "ss_loops ss' = ss_loops (fold stop_entry (filter (\<lambda>e. \<not> P e) (ss_inner ss)) ss)"
  shows "sched_ok ss'"
proof -
  let ?es = "ss_inner ss" and ?loops = "ss_loops ss"
  let ?out = "filter (\<lambda>e. \<not> P e) ?es" and ?in = "filter P ?es"
  have ok: "loops_match ?es ?loops" by (rule assms(1))
  have len: "length (ss_loops ss') = length ?loops" by (simp add: assms(3) stop_entries_fields)
  have nth: "ss_loops ss' ! i = (if i \<in> tasks ?out then (?loops ! i)\<lparr>pl_stop := True\<rparr> else ?loops ! i)"
    if "i < length ?loops" for i
    using stop_entries_loops [OF that] by (simp add: assms(3))
  have apart: "i \<notin> tasks ?out" if "i \<in> tasks ?in" for i
    using that task_of_one_entry [OF ok] by (fastforce simp: tasks_def)
  have split: "tasks ?es = tasks ?out \<union> tasks ?in"
  proof (rule set_eqI)
    fix i show "i \<in> tasks ?es \<longleftrightarrow> i \<in> tasks ?out \<union> tasks ?in" unfolding tasks_iff Un_iff set_filter by blast
  qed
  have live: "live_loop (ss_loops ss' ! i) \<longleftrightarrow> i \<notin> tasks ?out \<and> live_loop (?loops ! i)" if "i < length ?loops" for i
    using nth [OF that] by (auto simp: live_loop_def)
  have "entry_ok (ss_loops ss') e" if e: "e \<in> set ?in" for e
  proof -
    from ok e obtain i where i: "sc_task (snd e) = Some i" "i < length ?loops" "live_loop (?loops ! i)"
      "pl_project_id (?loops ! i) = fst e"
      by (auto simp: loops_match_def entry_ok_def)
    then have "i \<in> tasks ?in" using e unfolding tasks_iff by blast
    with apart nth i show ?thesis by (auto simp: entry_ok_def len)
  qed
  moreover have "{i. i < length ?loops \<and> live_loop (ss_loops ss' ! i)} = tasks ?in"
  proof -
    have "{i. i < length ?loops \<and> live_loop (?loops ! i)} = tasks ?es" using ok by (simp add: loops_match_def)
    then show ?thesis using live apart split by blast
  qed
  moreover have "distinct (map fst ?in)" using ok by (simp add: loops_match_def distinct_map_filter)
  ultimately show ?thesis by (simp add: loops_match_def assms(2) len)
qed

lemma stop_all_ok: "sched_ok ss \<Longrightarrow> sched_ok (stop_all ss)"
  by (rule drop_entries_ok [of ss _ "\<lambda>e. False"]) (simp_all add: stop_all_def)

section \<open>Reconciling\<close>

lemma reconcile_project_ok:
  assumes "sched_ok ss"
  shows "sched_ok (reconcile_project p ss) \<and>
    set (map fst (ss_inner (reconcile_project p ss))) = insert (prj_id p) (set (map fst (ss_inner ss)))"
proof (cases "map_of (ss_inner ss) (prj_id p)")
  case None
  let ?l = "\<lparr>pl_project_id = prj_id p, pl_phase = Selecting, pl_has_sink = ss_has_sink ss, pl_diag = length (ss_diags ss),
    pl_wake = False, pl_reconfigure = False, pl_stop = False\<rparr>"
  let ?s = "\<lparr>sc_task = Some (length (ss_loops ss)), sc_has_sink = ss_has_sink ss, sc_diag = length (ss_diags ss)\<rparr>"
  let ?es = "ss_inner ss" and ?loops = "ss_loops ss"
  have fresh: "prj_id p \<notin> set (map fst ?es)" using None by (simp add: map_of_eq_None_iff)
  have ok: "loops_match ?es ?loops" by (rule assms)
  have "entry_ok (?loops @ [?l]) e" if "entry_ok ?loops e" for e
    using that by (auto simp: entry_ok_def nth_append)
  moreover have "entry_ok (?loops @ [?l]) (prj_id p, ?s)" by (simp add: entry_ok_def live_loop_def)
  moreover have "{i. i < length (?loops @ [?l]) \<and> live_loop ((?loops @ [?l]) ! i)} = tasks ((prj_id p, ?s) # ?es)"
  proof -
    have "{i. i < length (?loops @ [?l]) \<and> live_loop ((?loops @ [?l]) ! i)} =
        insert (length ?loops) {i. i < length ?loops \<and> live_loop (?loops ! i)}"
      by (auto simp: nth_append live_loop_def less_Suc_eq)
    with ok show ?thesis by (auto simp: loops_match_def tasks_def)
  qed
  ultimately have "loops_match ((prj_id p, ?s) # ?es) (?loops @ [?l])"
    using ok fresh by (simp add: loops_match_def)
  then show ?thesis by (simp add: reconcile_project_def None scheduler_start_def Let_def)
next
  case (Some s)
  then have "prj_id p \<in> set (map fst (ss_inner ss))" by (force dest: map_of_SomeD)
  moreover have "ss_inner (scheduler_reconfigure s ss) = ss_inner ss"
    by (simp add: scheduler_reconfigure_def update_loop_def split: option.splits)
  ultimately show ?thesis using reconfigure_ok [OF assms, of s] Some by (simp add: reconcile_project_def insert_absorb)
qed

lemma reconcile_projects_ok:
  "sched_ok ss \<Longrightarrow> sched_ok (fold reconcile_project ps ss) \<and>
     set (map fst (ss_inner (fold reconcile_project ps ss))) = prj_id ` set ps \<union> set (map fst (ss_inner ss))"
proof (induction ps arbitrary: ss)
  case (Cons p ps)
  from Cons.IH reconcile_project_ok [OF Cons.prems, of p] show ?case by auto
qed simp

lemma fold_stop_inner: "fold stop_entry es (ss\<lparr>ss_inner := xs\<rparr>) = (fold stop_entry es ss)\<lparr>ss_inner := xs\<rparr>"
proof (induction es arbitrary: ss)
  case (Cons e es)
  have "stop_entry e (ss\<lparr>ss_inner := xs\<rparr>) = (stop_entry e ss)\<lparr>ss_inner := xs\<rparr>"
    by (simp add: stop_entry_def scheduler_stop_def update_loop_def split: option.splits)
  with Cons.IH show ?case by simp
qed simp

lemma scheduler_reconcile_ok:
  assumes "sched_ok ss"
  shows "sched_ok (reconcile projects ss) \<and>
    set (map fst (ss_inner (reconcile projects ss))) = prj_id ` {p \<in> set projects. periodic_polling p}"
proof -
  let ?polled = "filter periodic_polling projects"
  let ?P = "\<lambda>e :: string \<times> scheduler. fst e \<in> set (map prj_id ?polled)"
  let ?ss = "(fold stop_entry (filter (\<lambda>e. \<not> ?P e) (ss_inner ss)) ss)\<lparr>ss_inner := filter ?P (ss_inner ss)\<rparr>"
  have "sched_ok ?ss" by (rule drop_entries_ok [OF assms, of _ ?P]) simp_all
  from reconcile_projects_ok [OF this, of ?polled] show ?thesis
    by (simp add: reconcile_def Let_def comp_def fold_stop_inner) (auto simp: image_iff)
qed

lemma sched_step_ok: "sched_ok ss \<Longrightarrow> sched_ok (sched_step op ss)"
proof (cases op)
  case (Op_Begin_Manual p)
  moreover assume "sched_ok ss"
  ultimately show ?thesis by (simp add: try_begin_manual_def manual_diag_def split: option.splits)
qed (auto simp: scheduler_reconcile_ok stop_all_ok run_loop_step_ok wake_project_def reconfigure_project_def drop_manual_guard_def
  wake_ok reconfigure_ok split: option.splits)

lemma runs_ok: "sched_ok (runs_of ops)"
proof -
  have "sched_ok (fold sched_step ops ss)" if "sched_ok ss" for ss
    using that by (induction ops arbitrary: ss) (simp_all add: sched_step_ok)
  moreover have "sched_ok scheduler_set_default" by (simp add: loops_match_def scheduler_set_default_def tasks_def)
  ultimately show ?thesis by (simp add: runs_of_def)
qed

lemma live_projects: "sched_ok ss \<Longrightarrow> (\<lambda>i. pl_project_id (ss_loops ss ! i)) ` live_loops ss = set (map fst (ss_inner ss))"
  by (force simp: loops_match_def live_loops_def entry_ok_def tasks_def)

lemma live_loops_inj:
  assumes ok: "sched_ok ss"
  shows "inj_on (\<lambda>i. pl_project_id (ss_loops ss ! i)) (live_loops ss)"
proof (rule inj_onI)
  fix i j assume i: "i \<in> live_loops ss" and j: "j \<in> live_loops ss"
    and eq: "pl_project_id (ss_loops ss ! i) = pl_project_id (ss_loops ss ! j)"
  from ok i j obtain e f where e: "e \<in> set (ss_inner ss)" "sc_task (snd e) = Some i"
    and f: "f \<in> set (ss_inner ss)" "sc_task (snd f) = Some j"
    unfolding loops_match_def live_loops_def tasks_def by blast
  with ok have "entry_ok (ss_loops ss) e" "entry_ok (ss_loops ss) f" by (auto simp: loops_match_def)
  with e f eq have "fst e = fst f" by (metis entry_okD)
  with ok e f have "e = f" by (auto simp: loops_match_def distinct_map dest: inj_onD)
  with e f show "i = j" by simp
qed

text \<open>
  C34. One poll loop per project: after any sequence of reconciliations, stops, wakes, reconfigurations,
  one-shot discoveries and steps of the loops, no two loops that have not been told to stop belong to the
  same project, and a reconciliation leaves such loops for exactly the enabled projects that poll.
\<close>

theorem one_loop_per_project:
  "inj_on (\<lambda>i. pl_project_id (ss_loops (runs_of ops) ! i)) (live_loops (runs_of ops)) \<and>
   (\<lambda>i. pl_project_id (ss_loops (reconcile projects (runs_of ops)) ! i)) ` live_loops (reconcile projects (runs_of ops)) =
     prj_id ` {p \<in> set projects. periodic_polling p}"
  using live_loops_inj [OF runs_ok] live_projects scheduler_reconcile_ok [OF runs_ok] by metis

end
