(* ===== verification/Gate_Properties.thy ===== *)
theory Gate_Properties
  imports Scheduler_Properties Pr_Registry
begin

text \<open>
  The ledger and the gate: what was recorded is read back, and a review that was dispatched is not offered again, by a poll or by a webhook;
  and a discovery that fails changes nothing that lasts.
\<close>

text \<open>
  The ledger of a project remembers what was dispatched: what is written is read back, the other projects
  are left alone, and the cooldown of a pull request starts at the dispatch.
\<close>

section \<open>Staging\<close>

definition event_of :: "nat \<Rightarrow> string \<Rightarrow> candidate \<Rightarrow> dispatch_event" where
  "event_of epoch key c = \<lparr>de_pr = cand_number c, de_skill_key = cand_skill_key c, de_head_sha = cand_head_sha c,
     de_key = key, de_dispatched_at = epoch\<rparr>"

text \<open>A candidate whose key no migration of old keys rewrites.\<close>

definition plain_candidate :: "candidate \<Rightarrow> bool" where
  "plain_candidate c \<longleftrightarrow> migrate_legacy_skill_key (cand_skill_key c) = cand_skill_key c \<and> cand_number c \<le> u64_max \<and>
     (\<forall>key. action_key_for_candidate c = Inr key \<longrightarrow> migrate_legacy_dispatch_key key = key)"

lemma stage_all_spec:
  assumes "stage_all cands epoch l = Some l'" and "plain_ledger l" and "list_all plain_candidate cands" and "epoch \<le> u64_max"
  shows "plain_ledger l' \<and> set (lg_dispatched l) \<subseteq> set (lg_dispatched l') \<and> set (lg_events l) \<subseteq> set (lg_events l') \<and>
    (\<forall>c \<in> set cands. \<exists>key. action_key_for_candidate c = Inr key \<and> key \<in> set (lg_dispatched l') \<and> event_of epoch key c \<in> set (lg_events l'))"
  using assms
proof (induction cands arbitrary: l)
  case (Cons c cands)
  from Cons.prems(1) obtain key where key: "action_key_for_candidate c = Inr key"
    by (auto split: sum.splits)
  let ?l = "\<lparr>lg_dispatched = (if key \<in> set (lg_dispatched l) then lg_dispatched l else lg_dispatched l @ [key]),
    lg_events = lg_events l @ [event_of epoch key c]\<rparr>"
  have rest: "stage_all cands epoch ?l = Some l'" using Cons.prems(1) by (simp add: key event_of_def)
  have "plain_event (event_of epoch key c)" "migrate_legacy_dispatch_key key = key"
    using Cons.prems(3,4) key by (auto simp: plain_candidate_def plain_event_def event_of_def)
  then have "plain_ledger ?l" using Cons.prems(2) by (auto simp: plain_ledger_def)
  from Cons.IH [OF rest this] Cons.prems(3,4) key show ?case by (auto split: if_splits)
qed simp

lemma last_dispatch_at_ge:
  assumes "e \<in> set (lg_events l)" and "de_pr e = pr" and "de_skill_key e = skill"
  shows "\<exists>t. last_dispatch_at l pr skill = Some t \<and> de_dispatched_at e \<le> t"
proof -
  let ?ts = "map de_dispatched_at (filter (\<lambda>e. de_pr e = pr \<and> de_skill_key e = skill) (lg_events l))"
  have mem: "de_dispatched_at e \<in> set ?ts" using assms by auto
  from mem obtain t ts where ts: "?ts = t # ts" by (cases ?ts) auto
  have "de_dispatched_at e \<le> Max (set ?ts)" using mem by (intro Max_ge) auto
  then have "de_dispatched_at e \<le> fold max ts t" unfolding ts Max.set_eq_fold .
  with ts show ?thesis by (simp add: last_dispatch_at_def)
qed

text \<open>
  What was dispatched is remembered: after candidates were recorded, the ledger that is read back has
  the key of each of them and every key it had before, the cooldown of each pull request and skill runs
  from the time of the recording at least, and the ledgers of all other projects are unchanged.
\<close>

theorem ledger_remembers_dispatch:
  assumes "record_dispatched project_id cands w = Some (Inr (), w')" and "load_ledger project_id (w_db w) = Inr l"
    and "tbl_ok dr_id (db_dispatch_event (w_db w))" and "plain_ledger l" and "list_all plain_candidate cands"
    and "fst (now_epoch w) \<le> u64_max"
  shows "\<exists>l'. load_ledger project_id (w_db w') = Inr l' \<and> (\<forall>key. has_dispatched l key \<longrightarrow> has_dispatched l' key) \<and>
    (\<forall>c \<in> set cands. \<exists>key t. action_key_for_candidate c = Inr key \<and> has_dispatched l' key \<and>
      last_dispatch_at l' (cand_number c) (cand_skill_key c) = Some t \<and> fst (now_epoch w) \<le> t) \<and>
    (\<forall>other. other \<noteq> project_id \<longrightarrow> load_ledger other (w_db w') = load_ledger other (w_db w))"
proof -
  let ?now = "fst (now_epoch w)"
  from assms(1,2) obtain l' where staged: "stage_all cands ?now l = Some l'"
    and saved: "save_ledger project_id l' (w_db w) = (Inr (), w_db w')"
    by (auto simp: record_dispatched_def record_many_def split_beta Let_def split: option.splits)
  note spec = stage_all_spec [OF staged assms(4,5,6)]
  note reread = save_ledger_load [OF saved assms(3)]
  have "\<exists>key t. action_key_for_candidate c = Inr key \<and> has_dispatched l' key \<and>
      last_dispatch_at l' (cand_number c) (cand_skill_key c) = Some t \<and> ?now \<le> t" if "c \<in> set cands" for c
  proof -
    from spec that obtain key where key: "action_key_for_candidate c = Inr key" "key \<in> set (lg_dispatched l')"
      "event_of ?now key c \<in> set (lg_events l')" by blast
    from last_dispatch_at_ge [OF this(3)] key(1,2) show ?thesis by (auto simp: has_dispatched_def event_of_def)
  qed
  with spec reread show ?thesis by (auto simp: has_dispatched_def)
qed

definition ledger_candidate :: candidate where
  "ledger_candidate = \<lparr>cand_number = 7, cand_head_sha = ''h'', cand_head_ref = [], cand_author = [],
     cand_is_cross_repository = False, cand_is_draft = False, cand_skill_key = ''s''\<rparr>"

lemma ledger_candidate_key: "action_key_for_candidate ledger_candidate = Inr ''7@h:s''"
proof -
  have "dec 7 = ''7''" by (simp add: dec.simps digit_def) (simp add: char_of_def bit_iff_odd)
  moreover have "trim ''h'' = ''h''" by (rule trim_alnum) (simp_all add: is_ascii_alphanumeric_def is_ascii_digit_def byte_of_def)
  moreover have "trim ''7@h:s'' \<noteq> []"
    by (rule trim_not_Nil [of "CHR ''h''"]) (simp_all add: is_ascii_alphanumeric_def byte_of_def)
  ultimately show ?thesis
    by (simp add: action_key_for_candidate_def action_key_for_parts_def ledger_candidate_def new_key_def non_empty_def)
qed

lemma empty_ledger: "load_ledger ''p'' empty_db = Inr \<lparr>lg_dispatched = [], lg_events = []\<rparr>"
  by (simp add: load_ledger_def read_conn_def sql_select_def empty_db_def empty_table_def)

lemma ledger_candidate_plain: "plain_candidate ledger_candidate"
  by (simp add: plain_candidate_def ledger_candidate_key)
    (simp add: ledger_candidate_def migrate_legacy_skill_key_def migrate_legacy_dispatch_key_def rsplit_once_def split_once_def u64_max_def)

text \<open>The premises of a recording, for concrete examples.\<close>

lemma ledger_candidate_recorded:
  obtains w' where "record_dispatched ''p'' [ledger_candidate] (idle_world empty_db) = Some (Inr (), w')"
    and "load_ledger ''p'' (w_db (idle_world empty_db)) = Inr \<lparr>lg_dispatched = [], lg_events = []\<rparr>"
    and "tbl_ok dr_id (db_dispatch_event (w_db (idle_world empty_db)))"
    and "plain_ledger \<lparr>lg_dispatched = [], lg_events = []\<rparr>" and "list_all plain_candidate [ledger_candidate]"
    and "fst (now_epoch (idle_world empty_db)) \<le> u64_max"
proof -
  let ?l = "\<lparr>lg_dispatched = [''7@h:s''], lg_events = [event_of 10 ''7@h:s'' ledger_candidate]\<rparr>"
  have staged: "stage_all [ledger_candidate] 10 \<lparr>lg_dispatched = [], lg_events = []\<rparr> = Some ?l"
    by (simp add: ledger_candidate_key event_of_def)
  obtain d' where saved: "save_ledger ''p'' ?l empty_db = (Inr (), d')"
    by (simp add: save_ledger_def with_tx_def empty_db_def empty_table_def tbl_next_def i64_max_def table_simps)
  obtain w' where "record_dispatched ''p'' [ledger_candidate] (idle_world empty_db) = Some (Inr (), w')"
    using staged saved
    by (simp add: record_dispatched_def record_many_def idle_world_def empty_ledger now_epoch_def del: stage_all.simps)
  moreover have "tbl_ok dr_id (db_dispatch_event empty_db)" by (simp add: empty_db_def empty_table_def tbl_ok_def)
  ultimately show thesis
    by (intro that) (simp_all add: idle_world_def empty_ledger plain_ledger_def ledger_candidate_plain now_epoch_def u64_max_def)
qed

theorem ledger_remembers_dispatch_witness:
  "\<exists>w' l'. record_dispatched ''p'' [ledger_candidate] (idle_world empty_db) = Some (Inr (), w') \<and>
    load_ledger ''p'' (w_db w') = Inr l' \<and> has_dispatched l' ''7@h:s''"
proof (rule ledger_candidate_recorded)
  fix w' assume rec: "record_dispatched ''p'' [ledger_candidate] (idle_world empty_db) = Some (Inr (), w')"
    and rest: "load_ledger ''p'' (w_db (idle_world empty_db)) = Inr \<lparr>lg_dispatched = [], lg_events = []\<rparr>"
    "tbl_ok dr_id (db_dispatch_event (w_db (idle_world empty_db)))" "plain_ledger \<lparr>lg_dispatched = [], lg_events = []\<rparr>"
    "list_all plain_candidate [ledger_candidate]" "fst (now_epoch (idle_world empty_db)) \<le> u64_max"
  from ledger_remembers_dispatch [OF rec rest] rec ledger_candidate_key show ?thesis by auto
qed

section \<open>The ledger is left alone\<close>

lemma save_tracked_ledger: "load_ledger p (snd (save_tracked q ts d)) = load_ledger p d"
  by (cases rule: save_tracked_cases [of q ts d]) (simp_all add: load_ledger_def read_conn_def)

lemma mutate_tracked_ledger:
  assumes "\<And>ts w. w_db (snd (snd (mutate ts w))) = w_db w"
  shows "load_ledger p (w_db (snd (mutate_tracked q mutate w))) = load_ledger p (w_db w)"
proof -
  obtain ts where ts: "load_tracked q (w_db w) = Inr ts" using load_tracked_total by blast
  obtain persist out ts' w' where m: "mutate ts w = ((persist, out), ts', w')" by (cases "mutate ts w") auto
  have "w_db w' = w_db w" using assms [of ts w] m by simp
  then show ?thesis by (simp add: mutate_tracked_def ts m split_beta Let_def save_tracked_ledger)
qed

interpretation ledger_kept: pr_invariant "\<lambda>d. load_ledger p d = x" "\<lambda>q m flag. True" for p x
  by unfold_locales (simp_all add: mutate_tracked_ledger upsert_views_db when_changed_db insert_dedup_tables)

lemma pr_steps_ledger: "load_ledger p (w_db (fold (pr_step sha) ops w)) = load_ledger p (w_db w)"
proof (rule ledger_kept.steps)
  have "op_allowed (\<lambda>q m flag. True) op" for op by (cases op) simp_all
  then show "list_all (op_allowed (\<lambda>q m flag. True)) ops" by (simp add: list_all_iff)
qed simp

section \<open>Dispatched once\<close>

text \<open>
  A key is in the ledger of a project when it is read. A later recording, of any candidates for any
  project, reads the keys, adds its own and writes all of them back.
\<close>

definition ledger_holds :: "string \<Rightarrow> string \<Rightarrow> db \<Rightarrow> bool" where
  "ledger_holds p key d \<longleftrightarrow> (\<exists>l. load_ledger p d = Inr l \<and> has_dispatched l key)"

lemma ledger_holds_iff:
  "ledger_holds p key d \<longleftrightarrow> (\<exists>k. (p, k) \<in> set (db_dispatch_key d) \<and> migrate_legacy_dispatch_key k = key)"
  by (force simp: ledger_holds_def load_ledger_def read_conn_def has_dispatched_def)

lemma insert_events_keys: "insert_events p es d = Inr ((), d') \<Longrightarrow> db_dispatch_key d' = db_dispatch_key d"
  by (induction es arbitrary: d) (fastforce simp: try_bind_Inr_iff)+

lemma save_ledger_keys:
  assumes "save_ledger p l d = (Inr (), d')"
  shows "db_dispatch_key d' = filter (\<lambda>k. fst k \<noteq> p) (db_dispatch_key d) @ map (Pair p) (lg_dispatched l)"
  using assms by (auto simp: save_ledger_def with_tx_Inr_iff dest!: insert_events_keys)

lemma stage_all_keys:
  assumes "stage_all cands epoch l = Some l'"
  shows "set (lg_dispatched l) \<subseteq> set (lg_dispatched l') \<and>
    (\<forall>c \<in> set cands. \<exists>key. action_key_for_candidate c = Inr key \<and> key \<in> set (lg_dispatched l'))"
  using assms
proof (induction cands arbitrary: l)
  case (Cons c cands)
  from Cons.prems obtain key where key: "action_key_for_candidate c = Inr key"
    by (auto split: sum.splits)
  from Cons.IH [OF Cons.prems [unfolded stage_all.simps key sum.case]] key show ?case
    by (auto split: if_splits)
qed simp

lemma record_dispatched_holds:
  assumes "record_dispatched p cands w = Some (Inr (), w')" and "c \<in> set cands"
    and "action_key_for_candidate c = Inr key" and "migrate_legacy_dispatch_key key = key"
  shows "ledger_holds p key (w_db w')"
proof -
  from assms(1) obtain l l' where staged: "stage_all cands (fst (now_epoch w)) l = Some l'"
    and saved: "save_ledger p l' (w_db w) = (Inr (), w_db w')"
    by (auto simp: record_dispatched_def record_many_def split_beta Let_def split: option.splits sum.splits)
  from stage_all_keys [OF staged] assms(2,3) have "key \<in> set (lg_dispatched l')" by auto
  with assms(4) show ?thesis by (auto simp: ledger_holds_iff save_ledger_keys [OF saved])
qed

lemma record_dispatched_keeps:
  assumes "record_dispatched q cands w = Some (r, w')" and "ledger_holds p key (w_db w)"
    and "migrate_legacy_dispatch_key key = key"
  shows "ledger_holds p key (w_db w')"
proof (cases r)
  case (Inl e)
  with assms(1) have "w_db w' = w_db w"
    by (auto simp: record_dispatched_def record_many_def save_ledger_def with_tx_def now_epoch_def split_beta Let_def
        split: option.splits sum.splits)
  with assms(2) show ?thesis by simp
next
  case (Inr u)
  with assms(1) obtain l l' where load: "load_ledger q (w_db w) = Inr l"
    and staged: "stage_all cands (fst (now_epoch w)) l = Some l'"
    and saved: "save_ledger q l' (w_db w) = (Inr (), w_db w')"
    by (auto simp: record_dispatched_def record_many_def split_beta Let_def split: option.splits sum.splits)
  show ?thesis
  proof (cases "q = p")
    case True
    with assms(2) load have "key \<in> set (lg_dispatched l)" by (auto simp: ledger_holds_def has_dispatched_def)
    with stage_all_keys [OF staged] have "key \<in> set (lg_dispatched l')" by auto
    with True assms(3) show ?thesis by (auto simp: ledger_holds_iff save_ledger_keys [OF saved])
  next
    case False
    with assms(2) show ?thesis by (auto simp: ledger_holds_iff save_ledger_keys [OF saved])
  qed
qed

text \<open>
  The operations after a dispatch: those on the tracked pull requests, and the recording of further
  dispatches, which is lost as a whole when it panics or fails.
\<close>

datatype gate_op = Tracked_Op pr_op | Record_Dispatch string "candidate list"

fun gate_step :: "(poll_snapshot \<Rightarrow> string) \<Rightarrow> gate_op \<Rightarrow> world \<Rightarrow> world" where
  "gate_step sha (Tracked_Op op) w = pr_step sha op w"
| "gate_step sha (Record_Dispatch q cands) w =
     (case record_dispatched q cands w of None \<Rightarrow> w | Some (r, w') \<Rightarrow> w')"

lemma gate_steps_hold:
  "ledger_holds p key (w_db w) \<Longrightarrow> migrate_legacy_dispatch_key key = key \<Longrightarrow>
    ledger_holds p key (w_db (fold (gate_step sha) ops w))"
proof (induction ops arbitrary: w)
  case (Cons op ops)
  have "ledger_holds p key (w_db (gate_step sha op w))"
  proof (cases op)
    case (Tracked_Op pr)
    with Cons.prems(1) pr_steps_ledger [of p sha "[pr]" w] show ?thesis by (simp add: ledger_holds_def)
  next
    case (Record_Dispatch q cands)
    with Cons.prems record_dispatched_keeps [of q cands w] show ?thesis by (auto split: option.split)
  qed
  from Cons.IH [OF this Cons.prems(2)] show ?case by simp
qed simp

lemma discover_dispatchable:
  assumes "discover src load p w = (Inr (views, disp), w')" and "de \<in> set disp" and "load_ledger p (w_db w) = Inr l"
  shows "\<exists>key. action_key_for_candidate (dsc_candidate de) = Inr key \<and> \<not> has_dispatched l key"
proof -
  from assms have "\<exists>params now. snd (build_view de params l now) \<noteq> None"
    by (auto simp: discover_def partition_events_def try_bind_Inr_iff split_beta Let_def split: sum.splits) blast
  then show ?thesis using build_view_dispatchable should_skip_None_iff by blast
qed

lemma decide_ingest_dispatchable:
  assumes "id_dispatchable (decide_ingest intent n title labels url params l now) = Some c"
  shows "should_skip c params l = None"
proof (cases intent)
  case (Track cand conflict)
  with assms obtain c' where c': "cand = Some c'"
    by (cases cand) (simp_all add: decide_ingest_def)
  show ?thesis
  proof (cases "or_else (should_skip c' params l) (cooldown_skip c' params l now)")
    case None
    then have "should_skip c' params l = None" by (simp add: or_else_def split: option.splits)
    moreover have "c = c'" using assms Track c' None by (simp add: decide_ingest_def webhook_view_def)
    ultimately show ?thesis by simp
  next
    case (Some r)
    with assms Track c' show ?thesis by (simp add: decide_ingest_def webhook_view_def)
  qed
next
  case (StatusOnly k)
  with assms show ?thesis by (simp add: decide_ingest_def)
qed

lemma ingest_dispatchable:
  assumes "ingest_webhook load ev w = (Inr (Some c), w')" and "load_ledger (we_project_id ev) (w_db w) = Inr l"
  shows "\<exists>key. action_key_for_candidate c = Inr key \<and> \<not> has_dispatched l key"
proof -
  from assms obtain p where "find_project load (we_project_id ev) = Inr p"
    by (auto simp: ingest_webhook_def Let_def split: sum.splits)
  with assms have "id_dispatchable (decide_ingest (we_intent ev) (we_number ev) (we_title ev)
      (we_labels ev) (we_url ev) (params_of p) l (fst (now_epoch w))) = Some c"
    by (simp add: ingest_webhook_def Let_def split_beta)
  then show ?thesis using should_skip_None_iff decide_ingest_dispatchable by blast
qed

text \<open>
  C9. Dispatched once: after the dispatch of candidates was recorded, and after any polls, deliveries,
  archive commands and further recordings (of any candidates, for this project or another) that follow,
  neither a discovery nor a webhook of the project offers a candidate with the key (number, head and
  skill) of one of them for dispatch. The key must be one that the migration of old dispatch keys, which
  runs whenever the ledger is read, leaves alone: its skill is none of the two legacy words.
\<close>

theorem dispatched_not_offered_again:
  fixes ops :: "gate_op list" and sha :: "poll_snapshot \<Rightarrow> string"
  assumes "record_dispatched p cands w = Some (Inr (), w')" and "c \<in> set cands"
    and "action_key_for_candidate c = Inr key" and "migrate_legacy_dispatch_key key = key"
  defines "later \<equiv> fold (gate_step sha) ops w'"
  shows "(\<forall>src load views disp v. discover src load p later = (Inr (views, disp), v) \<longrightarrow>
      (\<forall>de \<in> set disp. action_key_for_candidate (dsc_candidate de) \<noteq> Inr key)) \<and>
    (\<forall>load ev c' v. we_project_id ev = p \<longrightarrow> ingest_webhook load ev later = (Inr (Some c'), v) \<longrightarrow>
      action_key_for_candidate c' \<noteq> Inr key)"
proof -
  from gate_steps_hold [OF record_dispatched_holds [OF assms(1-4)] assms(4)]
  obtain l' where l': "load_ledger p (w_db later) = Inr l'" "has_dispatched l' key"
    by (auto simp: later_def ledger_holds_def)
  show ?thesis
    using discover_dispatchable [OF _ _ l'(1)] ingest_dispatchable [of _ _ later _ _ l'] l' by fastforce
qed

theorem dispatched_not_offered_again_witness:
  "\<exists>w'. record_dispatched ''p'' [ledger_candidate] (idle_world empty_db) = Some (Inr (), w') \<and>
    (\<forall>load ev c' v. we_project_id ev = ''p'' \<longrightarrow>
      ingest_webhook load ev (gate_step (\<lambda>s. []) (Record_Dispatch ''p'' [ledger_candidate\<lparr>cand_number := 8\<rparr>]) w') = (Inr (Some c'), v) \<longrightarrow>
      action_key_for_candidate c' \<noteq> Inr ''7@h:s'')"
proof (rule ledger_candidate_recorded)
  fix w' assume rec: "record_dispatched ''p'' [ledger_candidate] (idle_world empty_db) = Some (Inr (), w')"
  have "migrate_legacy_dispatch_key ''7@h:s'' = ''7@h:s''"
    using ledger_candidate_plain by (simp add: plain_candidate_def ledger_candidate_key)
  from dispatched_not_offered_again [OF rec _ ledger_candidate_key this, where sha = "\<lambda>s. []"
      and ops = "[Record_Dispatch ''p'' [ledger_candidate\<lparr>cand_number := 8\<rparr>]]"] rec
  show ?thesis by simp
qed

section \<open>A discovery that fails\<close>

text \<open>
  A discovery that fails loses nothing: when the source, the configuration or the ledger cannot be read,
  the cycle returns that error, tells the panel, records the error in the diagnostics, and leaves the
  database (the tracked pull requests with it) and the inbox alone: nothing is handed to the sink.
\<close>

theorem failed_discovery_changes_nothing:
  assumes "fst (discover src load p (mark_diag diag mark_started w)) = Inl e" and "diag < length (ss_diags (w_scheduler w))"
  shows "\<exists>w'. run_discovery_cycle src load sink p diag w = (Inl (AppError (message e)), w') \<and> w_db w' = w_db w \<and>
    w_events w' = w_events w @ [Pr (Pr_Error p (message e))] \<and> w_inbox_wake w' = w_inbox_wake w \<and>
    pd_last_error_message (ss_diags (w_scheduler w') ! diag) = Some (message e)"
proof -
  obtain w1 where d: "discover src load p (mark_diag diag mark_started w) = (Inl e, w1)"
    using assms(1) by (cases "discover src load p (mark_diag diag mark_started w)") auto
  then have "w1 = mark_diag diag mark_started w \<or> w1 = snd (now_epoch (mark_diag diag mark_started w))"
    by (auto simp: discover_def split_beta Let_def split: sum.splits)
  then have "w_db w1 = w_db w \<and> w_events w1 = w_events w \<and> w_inbox_wake w1 = w_inbox_wake w \<and>
      length (ss_diags (w_scheduler w1)) = length (ss_diags (w_scheduler w))"
    by (auto simp: mark_diag_def now_epoch_def Let_def)
  then show ?thesis
    using assms(2)
    by (simp add: run_discovery_cycle_def cycle_discover_def d Let_def split: option.splits)
       (auto simp: mark_diag_def now_epoch_def emit_def mark_error_def Let_def)
qed

theorem failed_discovery_changes_nothing_witness:
  "\<exists>w'. run_discovery_cycle \<lparr>src_resolve_cli = (\<lambda>k. Inr ()), src_discover_events = (\<lambda>p l. Inr [])\<rparr>
      (Inl (AppError ''unreadable'')) None ''p'' 0
      ((idle_world empty_db)\<lparr>w_scheduler := scheduler_set_default\<lparr>ss_diags := [poll_diag_default]\<rparr>\<rparr>) = (Inl (AppError ''unreadable''), w') \<and>
    w_db w' = empty_db"
proof -
  let ?src = "\<lparr>src_resolve_cli = (\<lambda>k. Inr ()), src_discover_events = (\<lambda>p l. Inr [])\<rparr>"
  let ?w = "(idle_world empty_db)\<lparr>w_scheduler := scheduler_set_default\<lparr>ss_diags := [poll_diag_default]\<rparr>\<rparr>"
  have "fst (discover ?src (Inl (AppError ''unreadable'')) ''p'' (mark_diag 0 mark_started ?w)) = Inl (AppError ''unreadable'')"
    by (simp add: discover_def find_project_def)
  from failed_discovery_changes_nothing [OF this, of None] show ?thesis
    by (auto simp: scheduler_set_default_def idle_world_def)
qed

end
