(* ===== verification/Cli_Resolver.thy ===== *)
theory Cli_Resolver
  imports Text Config
begin

text \<open>
  Finding the third party command line tools (\<open>config/cli.rs\<close>), as the program is compiled for Unix: a configured absolute path is validated and
  taken, otherwise the tool is looked for on the process path, the path of the login shell and the
  platform's directories. The file system and the environment are parameters; the login shell is started
  by code that is not modelled, its output is parsed here.
\<close>

section \<open>Paths\<close>

text \<open>\<open>std::env::split_paths\<close> and \<open>join_paths\<close> on Unix.\<close>

definition split_paths :: "string \<Rightarrow> string list" where
  "split_paths s = split_all CHR '':'' s"

definition join_paths :: "string list \<Rightarrow> string option" where
  "join_paths ps = (if list_ex (\<lambda>p. CHR '':'' \<in> set p) ps then None else Some (join '':'' ps))"

definition join_paths_or_default :: "string list \<Rightarrow> string" where
  "join_paths_or_default ps = (case join_paths ps of None \<Rightarrow> [] | Some s \<Rightarrow> s)"

definition some_values :: "'a option list \<Rightarrow> 'a list" where
  "some_values vs = List.map_filter id vs"

text \<open>The directories that are merged, in order: one turn keeps an absolute directory not seen before.\<close>

definition merge_directory :: "string \<Rightarrow> string list \<Rightarrow> string list" where
  "merge_directory directory merged =
     (if \<not> path_is_absolute directory \<or> directory \<in> set merged then merged else merged @ [directory])"

(* config/cli.rs 412-429 merge_paths *)
definition merge_paths :: "string option list \<Rightarrow> string" where
  "merge_paths paths =
     join_paths_or_default
       (fold merge_directory (concat (map split_paths (some_values paths))) [])"

(* config/cli.rs 445-462 find_on_path *)
definition find_on_path :: "cli_files \<Rightarrow> string option \<Rightarrow> cli_tool \<Rightarrow> string option" where
  "find_on_path fs path tool =
     find (cf_is_executable_file fs)
       (map (\<lambda>directory. path_join directory (canonical_cli_name tool))
         (filter path_is_absolute (concat (map split_paths (some_values [path])))))"

section \<open>Resolution\<close>

(* config/cli.rs 338-343 ResolveInputs *)
record resolve_inputs =
  rin_process_path :: "string option"
  rin_login_shell_path :: "string option"
  rin_platform_fallbacks :: "string list"

(* config/cli.rs 91-98 ResolvedCli *)
record resolved_cli =
  rcl_program :: string
  rcl_source :: cli_source
  rcl_enhanced_path :: string
  rcl_config_env :: "(string \<times> string) option"
  rcl_fingerprint :: string

(* config/cli.rs 393-410 resolved *)
definition resolved :: "string \<Rightarrow> cli_source \<Rightarrow> string \<Rightarrow> resolved_cli" where
  "resolved program source enhanced_path =
     \<lparr>rcl_program = program, rcl_source = source, rcl_enhanced_path = enhanced_path, rcl_config_env = None,
      rcl_fingerprint = program @ [CHR 0x00] @ enhanced_path\<rparr>"

(* config/cli.rs 112-121 ResolvedCli::with_config_dir *)
definition with_config_dir :: "cli_tools_config \<Rightarrow> cli_tool \<Rightarrow> resolved_cli \<Rightarrow> resolved_cli" where
  "with_config_dir tools tool r =
     (case config_dir tools tool of
        Some (variable, directory) \<Rightarrow>
          if directory \<noteq> []
          then r\<lparr>rcl_config_env := Some (variable, directory),
                 rcl_fingerprint := rcl_fingerprint r @ [CHR 0x00] @ variable @ ''='' @ directory\<rparr>
          else r
      | None \<Rightarrow> r)"

text \<open>The environment of a command of the tool: the path, and the variable of the configured directory.\<close>

(* config/cli.rs 101-108 ResolvedCli::command *)
definition command_env :: "resolved_cli \<Rightarrow> (string \<times> string) list" where
  "command_env r =
     (''PATH'', rcl_enhanced_path r) # (case rcl_config_env r of None \<Rightarrow> [] | Some kv \<Rightarrow> [kv])"

fun first_source ::
    "cli_files \<Rightarrow> cli_tool \<Rightarrow> (string option \<times> cli_source) list \<Rightarrow> (string \<times> cli_source) option" where
  "first_source fs tool [] = None"
| "first_source fs tool ((path, source) # sources) =
     (case find_on_path fs path tool of
        Some program \<Rightarrow> Some (program, source)
      | None \<Rightarrow> first_source fs tool sources)"

definition resolve_sources :: "resolve_inputs \<Rightarrow> (string option \<times> cli_source) list" where
  "resolve_sources i =
     [(rin_process_path i, Process_Path), (rin_login_shell_path i, Login_Shell_Path),
      (Some (join_paths_or_default (rin_platform_fallbacks i)), Platform_Fallback)]"

(* config/cli.rs 345-391 resolve_with_inputs *)
definition resolve_with_inputs ::
    "cli_files \<Rightarrow> cli_tools_config \<Rightarrow> cli_tool \<Rightarrow> resolve_inputs \<Rightarrow> resolved_cli app_result" where
  "resolve_with_inputs fs tools tool i =
     try_bind (validate_tool fs tools tool) (\<lambda>_.
     let enhanced_path = merge_paths [rin_process_path i, rin_login_shell_path i,
           Some (join_paths_or_default (rin_platform_fallbacks i))]
     in if tool_path tools tool \<noteq> []
        then Inr (with_config_dir tools tool (resolved (tool_path tools tool) Custom enhanced_path))
        else case first_source fs tool (resolve_sources i) of
          Some (program, source) \<Rightarrow> Inr (with_config_dir tools tool (resolved program source enhanced_path))
        | None \<Rightarrow>
            Inl (AppError ((utf8 [0x672A, 0x627E, 0x5230, 0x53EF, 0x6267, 0x884C, 0x7684] @ '' '') @ canonical_cli_name tool @ (utf8 [0xFF1B, 0x8BF7, 0x5B89, 0x88C5, 0x8BE5] @ '' CLI '' @ utf8 [0x6216, 0x914D, 0x7F6E, 0x7EDD, 0x5BF9, 0x8DEF, 0x5F84]))))"

section \<open>The path of the login shell\<close>

(* config/cli.rs 642-649 parse_marked_path *)
definition parse_marked_path :: "string \<Rightarrow> string option" where
  "parse_marked_path output =
     (case find_sub ''__PRMONITOR_PATH_BEGIN__'' output of
        None \<Rightarrow> None
      | Some b \<Rightarrow>
          (let rest = drop (b + length ''__PRMONITOR_PATH_BEGIN__'') output in
           case find_sub ''__PRMONITOR_PATH_END__'' rest of
             None \<Rightarrow> None
           | Some e \<Rightarrow> if e = 0 then None else Some (take e rest)))"

(* config/cli.rs 494-503 select_login_shell *)
definition select_login_shell :: "cli_files \<Rightarrow> string option \<Rightarrow> string option \<Rightarrow> string option" where
  "select_login_shell fs environment_shell account_shell =
     find (\<lambda>shell. path_is_absolute shell \<and> cf_is_executable_file fs shell) (some_values [environment_shell, account_shell])"

text \<open>The cache holds the outcome of the last discovery, which may be that there is none.\<close>

(* config/cli.rs 310-335 CliResolver::cached_login_shell_path_with *)
definition cached_login_shell_path ::
    "bool \<Rightarrow> string option \<Rightarrow> string option option \<Rightarrow> string option \<times> string option option" where
  "cached_login_shell_path refresh discovered cache =
     (case (refresh, cache) of
        (False, Some v) \<Rightarrow> (v, cache)
      | _ \<Rightarrow>
          (let cache = (if refresh \<or> cache = None then Some discovered else cache)
           in (Option.bind cache (\<lambda>v. v), cache)))"

(* config/cli.rs 719-733 home_fallback_dirs *)
definition home_fallback_dirs :: "string \<Rightarrow> bool \<Rightarrow> string list" where
  "home_fallback_dirs home include_pnpm =
     map (path_join home)
       ([''.local/bin'', ''.cargo/bin'', ''.pyenv/shims'', ''.asdf/shims'', ''.local/share/mise/shims'',
         ''.volta/bin'', ''.bun/bin''] @ (if include_pnpm then [''Library/pnpm''] else []))"

(* config/cli.rs 692-716 platform_fallback_dirs *)
definition platform_fallback_dirs :: "bool \<Rightarrow> string option \<Rightarrow> string list" where
  "platform_fallback_dirs macos home =
     (if macos then [''/opt/homebrew/bin'', ''/usr/local/bin'', ''/usr/bin'']
      else [''/usr/local/bin'', ''/usr/bin'', ''/snap/bin''])
     @ (case home of Some home \<Rightarrow> home_fallback_dirs home macos | None \<Rightarrow> [])"

(* config/cli.rs 240-255 CliResolver::resolve *)
definition cli_resolve ::
    "cli_files \<Rightarrow> bool \<Rightarrow> string option \<Rightarrow> string option \<Rightarrow> string option \<Rightarrow> cli_tools_config \<Rightarrow> cli_tool \<Rightarrow> bool
      \<Rightarrow> string option option \<Rightarrow> resolved_cli app_result \<times> string option option" where
  "cli_resolve fs macos env_path home discovered tools tool refresh cache =
     (case validate_tool fs tools tool of
        Inl e \<Rightarrow> (Inl e, cache)
      | Inr _ \<Rightarrow>
          (let (shell_path, cache) = cached_login_shell_path refresh discovered cache
           in (resolve_with_inputs fs tools tool
                 \<lparr>rin_process_path = env_path, rin_login_shell_path = shell_path,
                  rin_platform_fallbacks = platform_fallback_dirs macos home\<rparr>, cache)))"

section \<open>Cloudflared\<close>

(* config/cli.rs 35-48 is_bare_cloudflared_program *)
definition is_bare_cloudflared_program :: "string \<Rightarrow> bool" where
  "is_bare_cloudflared_program program \<longleftrightarrow>
     length (path_components program) = 1 \<and> program = canonical_cli_name Tool_Cloudflared"

(* config/cli.rs 51-56 tunnel_command_uses_bare_cloudflared *)
definition tunnel_command_uses_bare_cloudflared :: "string \<Rightarrow> bool" where
  "tunnel_command_uses_bare_cloudflared command =
     (case split_whitespace command of [] \<Rightarrow> False | w # _ \<Rightarrow> is_bare_cloudflared_program w)"

(* config/cli.rs 60-73 managed_cloudflared_for_program *)
definition managed_cloudflared_for_program :: "string \<Rightarrow> resolved_cli option \<Rightarrow> resolved_cli option app_result" where
  "managed_cloudflared_for_program program cloudflared =
     (if \<not> is_bare_cloudflared_program program then Inr None
      else case cloudflared of
        Some cli \<Rightarrow> Inr (Some cli)
      | None \<Rightarrow> Inl (AppError (utf8 [0x672A, 0x627E, 0x5230] @ '' cloudflared'' @ utf8 [0xFF0C, 0x8BF7, 0x5728, 0x300C, 0x7B2C, 0x4E09, 0x65B9] @ '' CLI'' @ utf8 [0x300D, 0x914D, 0x7F6E] @ '' cloudflaredPath'')))"

end
