(* ===== verification/Webhook_Tunnel.thy ===== *)
theory Webhook_Tunnel
  imports Webhook Cli_Resolver
begin

text \<open>
  The life of the webhook listener and its tunnel (\<open>WebhookManager\<close> of \<open>pr/webhook.rs\<close>): at most one runtime,
  replaced by a start and taken by a stop; the tunnel command; and finding the public URL in the output of
  cloudflared. Server tasks and children are part of the state, with what becomes of them when they are aborted
  or killed; whether a bind or a spawn succeeds, the lines a child writes, and whether it has exited are
  parameters.
\<close>

section \<open>Commands and output of the tunnel\<close>

(* pr/webhook.rs 1818-1826 build_tunnel_command_argv *)
definition build_tunnel_command_argv :: "string \<Rightarrow> nat \<Rightarrow> (string \<times> string list) option" where
  "build_tunnel_command_argv command port =
     (case map (str_replace ''{port}'' (dec port)) (split_whitespace command) of
        [] \<Rightarrow> None
      | program # args \<Rightarrow> Some (program, args))"

(* pr/webhook.rs 1911-1916 extract_trycloudflare_url *)
definition extract_trycloudflare_url :: "string \<Rightarrow> string option" where
  "extract_trycloudflare_url line =
     find (\<lambda>tok. prefix ''https://'' tok \<and> contains_sub tok ''.trycloudflare.com'')
       (map trim (split_seps (''|'' # white_space) [] line))"

text \<open>The lines up to the end of the output or the timeout.\<close>

(* pr/webhook.rs 1881-1888 scan_for_url *)
fun scan_for_url :: "string list \<Rightarrow> string option \<times> string list" where
  "scan_for_url [] = (None, [])"
| "scan_for_url (line # rest) =
     (case extract_trycloudflare_url line of Some url \<Rightarrow> (Some url, rest) | None \<Rightarrow> scan_for_url rest)"

(* pr/webhook.rs 1895-1907 drain_scanning_url *)
fun drain_scanning_url :: "string list \<Rightarrow> string option \<Rightarrow> string option" where
  "drain_scanning_url [] url = url"
| "drain_scanning_url (line # rest) url =
     drain_scanning_url rest (if url = None then or_else (extract_trycloudflare_url line) url else url)"

section \<open>The state of the manager\<close>

(* pr/webhook.rs 567-595 WebhookRuntime *)
record webhook_runtime =
  wr_server :: nat
  wr_tunnel :: "nat option"
  wr_public_url :: "string option"
  wr_mode :: webhook_tunnel_mode
  wr_cloudflared_fingerprint :: "string option"

text \<open>
  A server task holds its port until it has ended: \<open>abort\<close> only schedules that. A child that was told to die is
  still there until somebody has waited for it.
\<close>

record hook_server =
  sv_id :: nat
  sv_port :: nat
  sv_stopping :: bool

record tunnel_child =
  tc_id :: nat
  tc_killed :: bool

text \<open>What a start keeps while it holds the start lock, before and after its listener is bound.\<close>

record start_job =
  sj_port :: nat
  sj_cloudflared :: "resolved_cli option"
  sj_mode :: webhook_tunnel_mode
  sj_command :: string
  sj_public_url :: string

datatype start_stage = No_Start | Taken start_job | Bound start_job nat

text \<open>The manager, the start under way, and the server tasks and children that exist, whoever owns them.\<close>

(* pr/webhook.rs 532-554 WebhookManager *)
record webhook_manager =
  wm_ingestor_set :: bool
  wm_refresher_set :: bool
  wm_runtime :: "webhook_runtime option"
  wm_start :: start_stage
  wm_servers :: "hook_server list"
  wm_children :: "tunnel_child list"
  wm_next :: nat

(* pr/webhook.rs 434-449 WebhookStatus *)
record webhook_status =
  ws_running :: bool
  ws_public_url :: "string option"
  ws_payload_url :: "string option"
  ws_cloudflared_installed :: bool
  ws_message :: string

(* pr/webhook.rs 421-421 WEBHOOK_PATH *)
definition webhook_path :: string where "webhook_path = ''/webhook''"

(* pr/webhook.rs 457-477 WebhookStatus::new *)
definition webhook_status_new :: "bool \<Rightarrow> string option \<Rightarrow> bool \<Rightarrow> string \<Rightarrow> webhook_status" where
  "webhook_status_new running public_url installed msg =
     \<lparr>ws_running = running, ws_public_url = public_url,
      ws_payload_url = map_option (\<lambda>u. trim_end_char CHR ''/'' u @ webhook_path) public_url,
      ws_cloudflared_installed = installed, ws_message = msg\<rparr>"

section \<open>Tearing down\<close>

definition abort_server :: "nat \<Rightarrow> webhook_manager \<Rightarrow> webhook_manager" where
  "abort_server i m =
     m\<lparr>wm_servers := map (\<lambda>s. if sv_id s = i then s\<lparr>sv_stopping := True\<rparr> else s) (wm_servers m)\<rparr>"

definition kill_tunnel :: "nat \<Rightarrow> webhook_manager \<Rightarrow> webhook_manager" where
  "kill_tunnel c m =
     m\<lparr>wm_children := map (\<lambda>t. if tc_id t = c then t\<lparr>tc_killed := True\<rparr> else t) (wm_children m)\<rparr>"

text \<open>The end of a server task, which drops its listener; a child that was waited for.\<close>

definition server_ended :: "nat \<Rightarrow> webhook_manager \<Rightarrow> webhook_manager" where
  "server_ended i m = m\<lparr>wm_servers := filter (\<lambda>s. sv_id s \<noteq> i) (wm_servers m)\<rparr>"

definition child_reaped :: "nat \<Rightarrow> webhook_manager \<Rightarrow> webhook_manager" where
  "child_reaped c m = m\<lparr>wm_children := filter (\<lambda>t. tc_id t \<noteq> c) (wm_children m)\<rparr>"

text \<open>Without waiting: the server still holds its port, and a detached task waits for the child.\<close>

(* pr/webhook.rs 606-622 WebhookRuntime::teardown *)
definition teardown :: "webhook_runtime \<Rightarrow> webhook_manager \<Rightarrow> webhook_manager" where
  "teardown rt m =
     (let m = abort_server (wr_server rt) m in case wr_tunnel rt of None \<Rightarrow> m | Some c \<Rightarrow> kill_tunnel c m)"

text \<open>Waiting for the server task, then for the child.\<close>

(* pr/webhook.rs 631-646 WebhookRuntime::teardown_awaiting *)
definition teardown_awaiting :: "webhook_runtime \<Rightarrow> webhook_manager \<Rightarrow> webhook_manager" where
  "teardown_awaiting rt m =
     (let m = server_ended (wr_server rt) (abort_server (wr_server rt) m)
      in case wr_tunnel rt of None \<Rightarrow> m | Some c \<Rightarrow> child_reaped c (kill_tunnel c m))"

(* pr/webhook.rs 924-932 WebhookManager::stop *)
definition webhook_stop :: "webhook_manager \<Rightarrow> webhook_manager" where
  "webhook_stop m =
     (case wm_runtime m of None \<Rightarrow> m | Some rt \<Rightarrow> teardown_awaiting rt (m\<lparr>wm_runtime := None\<rparr>))"

(* pr/webhook.rs 913-917 WebhookManager::stop_inner *)
definition webhook_stop_inner :: "webhook_manager \<Rightarrow> webhook_manager" where
  "webhook_stop_inner m =
     (case wm_runtime m of None \<Rightarrow> m | Some rt \<Rightarrow> teardown rt (m\<lparr>wm_runtime := None\<rparr>))"

(* pr/webhook.rs 937-939 WebhookManager::shutdown *)
definition webhook_shutdown :: "webhook_manager \<Rightarrow> webhook_manager" where
  "webhook_shutdown m = webhook_stop_inner m"

section \<open>Starting\<close>

text \<open>
  What the operating system answers during one start; \<open>se_ended\<close> tells which of the stopping servers have
  ended by an attempt to bind.
\<close>

record start_env =
  se_cloudflared_runs :: "resolved_cli \<Rightarrow> bool"
  se_bind :: "nat \<Rightarrow> string option"
  se_in_use :: string
  se_ended :: "nat \<Rightarrow> nat \<Rightarrow> bool"
  se_spawn :: "string \<Rightarrow> string list \<Rightarrow> string option"
  se_stderr :: bool
  se_lines :: "string list"
  se_exited :: "string option"

(* pr/webhook.rs 407-407 BIND_RETRIES *)
definition bind_retries :: nat where "bind_retries = 10"

text \<open>
  The bind is tried ten times; the error is the last one (\<open>None\<close> is success). A port that a server task of
  this program still holds is in use.
\<close>

fun bind_loop ::
    "start_env \<Rightarrow> nat \<Rightarrow> nat list \<Rightarrow> string option \<Rightarrow> hook_server list \<Rightarrow> (string + unit) \<times> hook_server list" where
  "bind_loop env port [] last_err servers = (Inl (case last_err of None \<Rightarrow> [] | Some e \<Rightarrow> e), servers)"
| "bind_loop env port (attempt # attempts) last_err servers =
     (let servers = filter (\<lambda>s. \<not> (sv_stopping s \<and> se_ended env attempt (sv_id s))) servers in
      if list_ex (\<lambda>s. sv_port s = port) servers then bind_loop env port attempts (Some (se_in_use env)) servers
      else case se_bind env attempt of
        None \<Rightarrow> (Inr (), servers)
      | Some e \<Rightarrow> bind_loop env port attempts (Some e) servers)"

(* pr/webhook.rs 775-801 WebhookManager::start *)
definition bind_listener :: "start_env \<Rightarrow> nat \<Rightarrow> hook_server list \<Rightarrow> unit app_result \<times> hook_server list" where
  "bind_listener env port servers =
     (let (r, servers) = bind_loop env port [0..<bind_retries] None servers in
      (map_error (\<lambda>e. AppError (''webhookPort '' @ (utf8 [0x76D1, 0x542C, 0x5931, 0x8D25, 0xFF08, 0x7AEF, 0x53E3] @ '' '') @ dec port @ (utf8 [0xFF09, 0xFF1A]) @ e)) r,
       servers))"

definition new_child :: "webhook_manager \<Rightarrow> nat \<times> webhook_manager" where
  "new_child m = (wm_next m, m\<lparr>wm_next := Suc (wm_next m),
     wm_children := wm_children m @ [\<lparr>tc_id = wm_next m, tc_killed = False\<rparr>]\<rparr>)"

text \<open>
  The child and the URL found in its first lines; a child that exited without one is an error, and a child
  that is dropped is killed.
\<close>

(* pr/webhook.rs 1756-1809 spawn_quick_tunnel *)
definition spawn_quick_tunnel ::
    "start_env \<Rightarrow> resolved_cli \<Rightarrow> nat \<Rightarrow> webhook_manager \<Rightarrow> (nat \<times> string option) app_result \<times> webhook_manager" where
  "spawn_quick_tunnel env cloudflared port m =
     (case se_spawn env (rcl_program cloudflared)
             [''tunnel'', ''--no-autoupdate'', ''--url'', ''http://127.0.0.1:'' @ dec port] of
        Some e \<Rightarrow> (Inl (AppError ((utf8 [0x65E0, 0x6CD5, 0x542F, 0x52A8] @ '' cloudflared'' @ utf8 [0xFF1A]) @ e)), m)
      | None \<Rightarrow>
          (let (child, m) = new_child m in
           if \<not> se_stderr env then (Inl (AppError (''cloudflared stderr '' @ utf8 [0x4E0D, 0x53EF, 0x7528])), kill_tunnel child m)
           else
             (let initial = fst (scan_for_url (se_lines env)) in
              case (initial, se_exited env) of
                (None, Some exit) \<Rightarrow>
                  (Inl (AppError (''cloudflared '' @ (utf8 [0x5728, 0x89E3, 0x6790, 0x516C, 0x7F51] @ '' URL '' @ utf8 [0x524D, 0x5DF2, 0x9000, 0x51FA, 0xFF08]) @ exit @ (utf8 [0xFF09, 0xFF1B, 0x8BF7, 0x68C0, 0x67E5] @ '' cloudflared '' @ utf8 [0x65E5, 0x5FD7]))),
                   child_reaped child m)
              | _ \<Rightarrow> (Inr (child, initial), m))))"

text \<open>The program of the command with its arguments, and the managed cloudflared when that is the program.\<close>

definition custom_argv :: "string \<Rightarrow> nat \<Rightarrow> resolved_cli option \<Rightarrow> (string \<times> string list \<times> resolved_cli option) app_result" where
  "custom_argv command port cloudflared =
     try_bind (ok_or (build_tunnel_command_argv command port)
       (AppError (''webhookTunnelCommand '' @ (utf8 [0x4E0D, 0x80FD, 0x4E3A, 0x7A7A, 0xFF08] @ ''command '' @ utf8 [0x6A21, 0x5F0F, 0x9700, 0x586B, 0x96A7, 0x9053, 0x547D, 0x4EE4, 0xFF09])))) (\<lambda>(program, args).
     try_bind (managed_cloudflared_for_program program cloudflared) (\<lambda>managed. Inr (program, args, managed)))"

(* pr/webhook.rs 1840-1876 spawn_custom_tunnel *)
definition spawn_custom_tunnel ::
    "start_env \<Rightarrow> string \<Rightarrow> nat \<Rightarrow> resolved_cli option \<Rightarrow> webhook_manager \<Rightarrow> nat app_result \<times> webhook_manager" where
  "spawn_custom_tunnel env command port cloudflared m =
     (case custom_argv command port cloudflared of
        Inl e \<Rightarrow> (Inl e, m)
      | Inr (program, args, managed) \<Rightarrow>
          (let name = (case managed of Some cli \<Rightarrow> ''cloudflared'' | None \<Rightarrow> program);
               path = (case managed of Some cli \<Rightarrow> rcl_program cli | None \<Rightarrow> program)
           in case se_spawn env path args of
                Some e \<Rightarrow> (Inl (AppError ((utf8 [0x65E0, 0x6CD5, 0x542F, 0x52A8, 0x81EA, 0x5B9A, 0x4E49, 0x96A7, 0x9053, 0x547D, 0x4EE4, 0xFF08]) @ name @ (utf8 [0xFF09, 0xFF1A]) @ e)), m)
              | None \<Rightarrow>
                  (let (child, m) = new_child m in
                   if \<not> se_stderr env then (Inl (AppError (utf8 [0x81EA, 0x5B9A, 0x4E49, 0x96A7, 0x9053, 0x547D, 0x4EE4] @ '' stderr '' @ utf8 [0x4E0D, 0x53EF, 0x7528])), kill_tunnel child m)
                   else (Inr child, m))))"

definition uses_cloudflared :: "webhook_tunnel_mode \<Rightarrow> string \<Rightarrow> bool" where
  "uses_cloudflared mode command \<longleftrightarrow>
     mode = Mode_Quick \<or> mode = Mode_Command \<and> tunnel_command_uses_bare_cloudflared command"

definition start_message :: "webhook_tunnel_mode \<Rightarrow> string option \<Rightarrow> string" where
  "start_message mode url =
     (case (mode, url) of
        (Mode_Quick, Some u) \<Rightarrow> (utf8 [0x5DF2, 0x542F, 0x52A8, 0xFF0C, 0x516C, 0x7F51] @ '' URL'' @ utf8 [0xFF1A]) @ u
      | (Mode_Quick, None) \<Rightarrow> (utf8 [0x96A7, 0x9053, 0x5DF2, 0x542F, 0x52A8, 0xFF0C, 0x4F46, 0x672A, 0x80FD, 0x5728, 0x8D85, 0x65F6, 0x5185, 0x89E3, 0x6790, 0x516C, 0x7F51] @ '' URL'' @ utf8 [0xFF08, 0x8BF7, 0x67E5, 0x770B] @ '' cloudflared '' @ utf8 [0x65E5, 0x5FD7, 0xFF09])
      | (Mode_Command, Some u) \<Rightarrow> (utf8 [0x5DF2, 0x542F, 0x52A8, 0x81EA, 0x5B9A, 0x4E49, 0x96A7, 0x9053, 0xFF0C, 0x516C, 0x7F51] @ '' URL'' @ utf8 [0xFF1A]) @ u
      | (Mode_Command, None) \<Rightarrow> (utf8 [0x5DF2, 0x542F, 0x52A8, 0x81EA, 0x5B9A, 0x4E49, 0x96A7, 0x9053, 0xFF08, 0x672A, 0x914D, 0x7F6E] @ '' webhookPublicUrl'' @ utf8 [0xFF0C, 0x65E0, 0x6CD5, 0x663E, 0x793A, 0x516C, 0x7F51] @ '' URL'' @ utf8 [0xFF09])
      | (Mode_Listener, Some u) \<Rightarrow> (utf8 [0x63A5, 0x6536, 0x7AEF, 0x5DF2, 0x76D1, 0x542C, 0xFF0C, 0x516C, 0x7F51] @ '' URL'' @ utf8 [0xFF1A]) @ u
      | (Mode_Listener, None) \<Rightarrow> (utf8 [0x63A5, 0x6536, 0x7AEF, 0x5DF2, 0x76D1, 0x542C, 0xFF08, 0x96A7, 0x9053, 0x5916, 0x7F6E, 0xFF0C, 0x672A, 0x914D, 0x7F6E] @ '' webhookPublicUrl'' @ utf8 [0xFF09]))"

text \<open>The tunnel of the mode: its child and its public URL.\<close>

(* pr/webhook.rs 832-868 WebhookManager::start *)
definition start_tunnel ::
    "start_env \<Rightarrow> start_job \<Rightarrow> webhook_manager \<Rightarrow> (nat option \<times> string option) app_result \<times> webhook_manager" where
  "start_tunnel env job m =
     (let url = trim (sj_public_url job); configured_url = (if url \<noteq> [] then Some url else None) in
      case sj_mode job of
        Mode_Quick \<Rightarrow>
          (case sj_cloudflared job of
             None \<Rightarrow> (Inr (None, None), m)
           | Some cli \<Rightarrow>
               (let (r, m) = spawn_quick_tunnel env cli (sj_port job) m
                in (try_bind r (\<lambda>(child, url). Inr (Some child, url)), m)))
      | Mode_Command \<Rightarrow>
          (let (r, m) = spawn_custom_tunnel env (sj_command job) (sj_port job) (sj_cloudflared job) m
           in (try_bind r (\<lambda>child. Inr (Some child, configured_url)), m))
      | Mode_Listener \<Rightarrow> (Inr (None, configured_url), m))"

text \<open>
  A start in the pieces between which, although it holds the start lock, the program may be shut down or asked
  for its status: the prior runtime is taken and awaited; the listener is bound and served; the tunnel is
  spawned and the runtime installed. A tunnel that does not start takes the server down again, and waits.
\<close>

(* pr/webhook.rs 720-735 WebhookManager::start *)
definition start_take ::
    "nat \<Rightarrow> resolved_cli option app_result \<Rightarrow> webhook_tunnel_mode \<Rightarrow> string \<Rightarrow> string \<Rightarrow> webhook_manager
      \<Rightarrow> start_job app_result \<times> webhook_manager" where
  "start_take port cloudflared mode command public_url m =
     (case (if uses_cloudflared mode command then cloudflared else Inr None) of
        Inl e \<Rightarrow> (Inl e, m)
      | Inr cli \<Rightarrow>
          (let job = \<lparr>sj_port = port, sj_cloudflared = cli, sj_mode = mode, sj_command = command, sj_public_url = public_url\<rparr>
           in (Inr job, (webhook_stop m)\<lparr>wm_start := Taken job\<rparr>)))"

(* pr/webhook.rs 738-828 WebhookManager::start *)
definition start_bind ::
    "start_env \<Rightarrow> start_job \<Rightarrow> webhook_manager \<Rightarrow> (webhook_status app_result + nat) \<times> webhook_manager" where
  "start_bind env job m =
     (let owns = uses_cloudflared (sj_mode job) (sj_command job);
          available = (case sj_cloudflared job of
              Some c \<Rightarrow> owns \<longrightarrow> se_cloudflared_runs env c
            | None \<Rightarrow> \<not> owns);
          idle = m\<lparr>wm_start := No_Start\<rparr>
      in if \<not> available
         then (Inl (Inr (webhook_status_new False None False (utf8 [0x672A, 0x627E, 0x5230] @ '' cloudflared'' @ utf8 [0xFF0C, 0x8BF7, 0x5148, 0x5B89, 0x88C5, 0xFF1A] @ ''brew install cloudflared''))), idle)
         else if \<not> wm_ingestor_set m then (Inl (Inl (AppError (''webhook ingestor '' @ (utf8 [0x672A, 0x521D, 0x59CB, 0x5316])))), idle)
         else if \<not> wm_refresher_set m then (Inl (Inl (AppError (''webhook refresher '' @ (utf8 [0x672A, 0x521D, 0x59CB, 0x5316])))), idle)
         else case bind_listener env (sj_port job) (wm_servers m) of
           (Inl e, servers) \<Rightarrow> (Inl (Inl e), idle\<lparr>wm_servers := servers\<rparr>)
         | (Inr _, servers) \<Rightarrow>
             (Inr (wm_next m),
              m\<lparr>wm_start := Bound job (wm_next m), wm_next := Suc (wm_next m),
                wm_servers := servers @ [\<lparr>sv_id = wm_next m, sv_port = sj_port job, sv_stopping = False\<rparr>]\<rparr>))"

(* pr/webhook.rs 832-907 WebhookManager::start *)
definition start_finish ::
    "start_env \<Rightarrow> start_job \<Rightarrow> nat \<Rightarrow> webhook_manager \<Rightarrow> webhook_status app_result \<times> webhook_manager" where
  "start_finish env job server m =
     (case start_tunnel env job m of
        (Inl e, m) \<Rightarrow> (Inl e, (server_ended server (abort_server server m))\<lparr>wm_start := No_Start\<rparr>)
      | (Inr (child, url), m) \<Rightarrow>
          (Inr (webhook_status_new True url True (start_message (sj_mode job) url)),
           m\<lparr>wm_start := No_Start,
             wm_runtime := Some \<lparr>wr_server = server, wr_tunnel = child, wr_public_url = url, wr_mode = sj_mode job,
               wr_cloudflared_fingerprint =
                 (if uses_cloudflared (sj_mode job) (sj_command job) then map_option rcl_fingerprint (sj_cloudflared job)
                  else None)\<rparr>\<rparr>))"

(* pr/webhook.rs 702-908 WebhookManager::start *)
definition webhook_start ::
    "start_env \<Rightarrow> nat \<Rightarrow> resolved_cli option app_result \<Rightarrow> webhook_tunnel_mode \<Rightarrow> string \<Rightarrow> string \<Rightarrow> webhook_manager
      \<Rightarrow> webhook_status app_result \<times> webhook_manager" where
  "webhook_start env port cloudflared mode command public_url m =
     (case start_take port cloudflared mode command public_url m of
        (Inl e, m) \<Rightarrow> (Inl e, m)
      | (Inr job, m) \<Rightarrow>
     (case start_bind env job m of
        (Inl r, m) \<Rightarrow> (r, m)
      | (Inr server, m) \<Rightarrow> start_finish env job server m))"

text \<open>The drain task of a quick tunnel goes on looking for the URL.\<close>

(* pr/webhook.rs 1895-1907 drain_scanning_url *)
definition tunnel_line :: "string \<Rightarrow> webhook_manager \<Rightarrow> webhook_manager" where
  "tunnel_line line m =
     (case wm_runtime m of
        None \<Rightarrow> m
      | Some rt \<Rightarrow>
          if wr_mode rt = Mode_Quick
          then m\<lparr>wm_runtime := Some (rt\<lparr>wr_public_url := drain_scanning_url [line] (wr_public_url rt)\<rparr>)\<rparr> else m)"

section \<open>Status\<close>

text \<open>
  \<open>exited\<close> tells of a child whether its \<open>try_wait\<close> finds an exit. A runtime whose tunnel exited is taken
  out and torn down: the status is computed from what was found.
\<close>

definition probe :: "(nat \<Rightarrow> bool) \<Rightarrow> webhook_tunnel_mode \<Rightarrow> webhook_manager
      \<Rightarrow> (bool \<times> bool \<times> string option \<times> webhook_tunnel_mode) \<times> webhook_manager" where
  "probe exited configured_mode m =
     (case wm_runtime m of
        None \<Rightarrow> ((False, False, None, configured_mode), m)
      | Some rt \<Rightarrow>
          if (case wr_tunnel rt of None \<Rightarrow> False | Some c \<Rightarrow> exited c)
          then ((False, True, None, wr_mode rt), webhook_stop_inner m)
          else ((True, False, wr_public_url rt, wr_mode rt), m))"

definition status_message ::
    "bool \<Rightarrow> bool \<Rightarrow> string option \<Rightarrow> webhook_tunnel_mode \<Rightarrow> bool \<Rightarrow> bool \<Rightarrow> string option \<Rightarrow> string" where
  "status_message running crashed url mode owns installed resolution_error =
     (if running then
        (case url of Some u \<Rightarrow> (utf8 [0x8FD0, 0x884C, 0x4E2D, 0xFF0C, 0x516C, 0x7F51] @ '' URL'' @ utf8 [0xFF1A]) @ u | None \<Rightarrow> (utf8 [0x8FD0, 0x884C, 0x4E2D, 0xFF08, 0x516C, 0x7F51] @ '' URL '' @ utf8 [0x5C1A, 0x672A, 0x89E3, 0x6790, 0xFF09]))
        @ (if owns then (case resolution_error of Some e \<Rightarrow> (utf8 [0xFF1B, 0x5F53, 0x524D] @ '' cloudflared '' @ utf8 [0x914D, 0x7F6E, 0x9519, 0x8BEF, 0xFF1A]) @ e | None \<Rightarrow> []) else [])
      else if crashed then
        (case mode of
           Mode_Quick \<Rightarrow> (utf8 [0x96A7, 0x9053, 0x5DF2, 0x9000, 0x51FA, 0xFF08] @ ''cloudflared '' @ utf8 [0x8FDB, 0x7A0B, 0x5DF2, 0x9000, 0x51FA, 0xFF09, 0xFF0C, 0x8BF7, 0x91CD, 0x65B0, 0x542F, 0x52A8] @ '' Webhook'')
         | Mode_Command \<Rightarrow> (utf8 [0x81EA, 0x5B9A, 0x4E49, 0x96A7, 0x9053, 0x8FDB, 0x7A0B, 0x5DF2, 0x9000, 0x51FA, 0xFF0C, 0x8BF7, 0x91CD, 0x65B0, 0x542F, 0x52A8] @ '' Webhook'')
         | Mode_Listener \<Rightarrow> (utf8 [0x96A7, 0x9053, 0x5DF2, 0x9000, 0x51FA, 0xFF0C, 0x8BF7, 0x91CD, 0x65B0, 0x542F, 0x52A8] @ '' Webhook''))
      else if owns \<and> \<not> installed then
        (case resolution_error of Some e \<Rightarrow> e | None \<Rightarrow> (utf8 [0x672A, 0x8FD0, 0x884C, 0xFF1B, 0x672A, 0x68C0, 0x6D4B, 0x5230] @ '' cloudflared'' @ utf8 [0xFF08] @ ''brew install cloudflared'' @ utf8 [0xFF09]))
      else (utf8 [0x672A, 0x8FD0, 0x884C]))"

(* pr/webhook.rs 975-1059 WebhookManager::status *)
definition webhook_status_of ::
    "(nat \<Rightarrow> bool) \<Rightarrow> (resolved_cli \<Rightarrow> bool) \<Rightarrow> resolved_cli option app_result \<Rightarrow> webhook_tunnel_mode \<Rightarrow> string
      \<Rightarrow> webhook_manager \<Rightarrow> webhook_status \<times> webhook_manager" where
  "webhook_status_of exited runs cloudflared configured_mode command m =
     (let (cli, resolution_error) = (case cloudflared of Inr c \<Rightarrow> (c, None) | Inl e \<Rightarrow> (None, Some (message e)));
          ((running, crashed, url, mode), m) = probe exited configured_mode m;
          owns = uses_cloudflared mode command;
          installed = (if owns then (case cli of Some c \<Rightarrow> runs c | None \<Rightarrow> False) else True)
      in (webhook_status_new running url installed
            (status_message running crashed url mode owns installed resolution_error), m))"

(* pr/webhook.rs 941-950 WebhookManager::active_cloudflared_fingerprint *)
definition active_cloudflared_fingerprint :: "(nat \<Rightarrow> bool) \<Rightarrow> webhook_manager \<Rightarrow> string option" where
  "active_cloudflared_fingerprint exited m =
     (case wm_runtime m of
        None \<Rightarrow> None
      | Some rt \<Rightarrow>
          (case (wr_cloudflared_fingerprint rt, wr_tunnel rt) of
             (Some f, Some c) \<Rightarrow> if exited c then None else Some f
           | _ \<Rightarrow> None))"

end
