(* ===== verification/Webhook_Properties.thy ===== *)
theory Webhook_Properties
  imports Webhook_Tunnel Inbox_Properties
begin

text \<open>
  The webhook receiver: a delivery that is not authentic changes nothing but the ring of deliveries; a
  delivery is acknowledged only when it is stored, once per delivery id; a pull request from a fork is never
  offered for dispatch; and no tunnel outlives the runtime that owns it.
\<close>

section \<open>Authentication\<close>









definition plain_env :: webhook_env where
  "plain_env = \<lparr>wx_hmac_sha256 = (\<lambda>k m. k @ m), wx_sha256_hex = (\<lambda>s. s), wx_hex_decode = Some,
     wx_from_utf8_lossy = (\<lambda>s. s), wx_parse_json = (\<lambda>s. Some JNull), wx_event_to_json = (\<lambda>e. Inr [])\<rparr>"


section \<open>Storing before acknowledging\<close>

definition stored :: "string \<Rightarrow> db \<Rightarrow> bool" where
  "stored key d \<longleftrightarrow> (\<exists>r \<in> set (tb_rows (db_inbox d)). ib_dedupe_key r = key)"

lemma insert_dedup_stores:
  assumes "insert_dedup event raw json cand d = (Inr res, d')" and "inbox_ok d"
  shows "stored (env_dedupe_key event) d' \<and> (stored (env_dedupe_key event) d \<longleftrightarrow> res = None) \<and>
    (stored (env_dedupe_key event) d \<longrightarrow> tb_rows (db_inbox d') = tb_rows (db_inbox d))"
proof -
  from assms(1) have tx: "insert_dedup_tx event raw json cand d = Inr (res, d')"
    by (simp add: insert_dedup_def with_tx_Inr_iff)
  then show ?thesis
  proof (cases rule: insert_dedup_txE)
    case (duplicate i)
    then show ?thesis by (auto simp: stored_def)
  next
    case (inserted i d1)
    let ?r = "inbox_insert_row event raw json cand i"
    have ok: "inbox_ok d1"
      unfolding inserted(4) by (rule inbox_ok_push [OF assms(2) inserted(2)]) (use inserted(3) in simp_all)
    have mem: "?r \<in> set (tb_rows (db_inbox d1))" by (simp add: inserted(4) table_simps)
    have "distinct (map ib_id (tb_rows (db_inbox d1)))" using ok by (simp add: inbox_ok_def tbl_ok_distinct)
    then have "ib_id ?r \<notin> set (prune_ids (tb_rows (db_inbox d1)))"
      using mem by (rule prune_keeps_unprunable) (simp add: prunable_def)
    with mem have "?r \<in> set (tb_rows (db_inbox d'))" unfolding inserted(5) delete_inbox_rows by simp
    then have "stored (env_dedupe_key event) d'" unfolding stored_def by (intro bexI [of _ ?r]) simp_all
    with inserted(1,3) show ?thesis by (auto simp: stored_def)
  qed
qed

lemma emit_for_id_inbox [simp]: "w_db (emit_for_id p i w) = w_db w"
  by (simp add: emit_for_id_def inbox_emit_updated_def split: sum.splits option.splits)

lemma ingest_github_stores:
  assumes "ingest_github event raw json cand w = (Inr (), w')" and "inbox_ok (w_db w)"
  shows "stored (env_dedupe_key event) (w_db w') \<and>
    (stored (env_dedupe_key event) (w_db w) \<longrightarrow> tb_rows (db_inbox (w_db w')) = tb_rows (db_inbox (w_db w)))"
proof -
  obtain r d' where ins: "insert_dedup event raw (Some json) cand (w_db w) = (r, d')" by (cases "insert_dedup event raw (Some json) cand (w_db w)")
  with assms(1) obtain res where r: "r = Inr res" by (cases r) (auto simp: ingest_github_def on_db_def)
  have "w_db w' = d'"
    using assms(1) ins r
    by (auto simp: ingest_github_def on_db_def wake_inbox_def announce_worker_error_def Let_def
      split: option.splits sum.splits if_splits)
  with insert_dedup_stores [OF ins [unfolded r] assms(2)] show ?thesis by simp
qed

lemma event_from_webhook_key:
  "event_from_webhook env ev guid raw w = Some (e, w') \<Longrightarrow>
     env_dedupe_key e = event_dedupe_key env guid raw \<and> w_db w' = w_db w"
  by (auto simp: event_from_webhook_def envelope_observation_def envelope_new_Inr_iff new_key_Inr_iff try_bind_Inr_iff
    split: sum.splits prod.splits if_splits)
    (metis now_epoch_simps(1) snd_conv)+

text \<open>
  C35. A delivery is acknowledged only when it is stored: when the answer to a GitHub pull request event that
  is routed to a project is 200, the inbox has a row under the key of the delivery (its delivery id, or the
  hash of its body), and if it had one before, the delivery added and removed nothing.
\<close>

theorem acknowledged_delivery_stored:
  assumes "handle_webhook env (installed_ctx env secret projects) rq w = Some (Status_OK, w')"
    and "map_of (rq_headers rq) ''x-github-event'' = Some (Header_Text ''pull_request'')"
    and "wx_parse_json env (rq_body rq) = Some payload" and "parse_delivery payload (webhook_routes projects) = Routable ev"
    and "inbox_ok (w_db w)"
  defines "key \<equiv> event_dedupe_key env (header_text ''x-github-delivery'' rq) (wx_from_utf8_lossy env (rq_body rq))"
  shows "stored key (w_db w') \<and> (stored key (w_db w) \<longrightarrow> tb_rows (db_inbox (w_db w')) = tb_rows (db_inbox (w_db w)))"
proof -
  obtain t w1 where t: "now_epoch w = (t, w1)" by (cases "now_epoch w")
  then have w1: "w_db w1 = w_db w" using now_epoch_simps(1) [of w] by simp
  let ?ev = "ev\<lparr>we_received_at := t\<rparr>"
  have "installed_ingestor env (wx_from_utf8_lossy env (rq_body rq)) (header_text ''x-github-delivery'' rq) ?ev w1 = Some (Inr (), w')"
    using assms(1-4) t
    by (auto simp: handle_webhook_def handle_github_delivery_def installed_ctx_def answer_def
      split: if_splits option.splits prod.splits sum.splits)
  then obtain e w2 json c where e: "event_from_webhook env ?ev (header_text ''x-github-delivery'' rq) (wx_from_utf8_lossy env (rq_body rq)) w1 = Some (e, w2)"
    and i: "ingest_github e (wx_from_utf8_lossy env (rq_body rq)) json c w2 = (Inr (), w')"
    by (auto simp: installed_ingestor_def split: option.splits prod.splits sum.splits)
  from event_from_webhook_key [OF e] have "env_dedupe_key e = key" "w_db w2 = w_db w" by (simp_all add: key_def w1)
  with ingest_github_stores [OF i] assms(5) show ?thesis by simp
qed

lemma ingest_github_Inr:
  assumes "insert_dedup event raw (Some json) cand (w_db w) = (Inr res, d')"
  shows "fst (ingest_github event raw json cand w) = Inr ()"
  using assms
  by (simp add: ingest_github_def on_db_def retention_pressure_def read_conn_def Let_def split: option.splits)

definition hook_project :: project where
  "hook_project = \<lparr>prj_id = ''p'', prj_name = [], prj_enabled = True, prj_repo = ''o/r'', prj_repo_root = [],
     prj_poll_interval_secs = 0, prj_authors = [], prj_pr_cooldown_seconds = 0, prj_source_kind = Github,
     prj_engine_kind = Codex, prj_codex_model = [], prj_claude_model = [], prj_cursor_model = [],
     prj_codex_effort = undefined, prj_claude_effort = CL_Default, prj_update_mode = Hybrid, prj_azure_org = [],
     prj_azure_project = [], prj_label_source = Native, prj_bitbucket_host = [], prj_bitbucket_project = [],
     prj_bitbucket_token = []\<rparr>"

definition hook_pr :: jvalue where
  "hook_pr = JObject [(''base'', JObject [(''repo'', JObject [(''full_name'', JString ''o/r'')])]),
     (''head'', JObject [(''ref'', JString ''b''), (''repo'', JObject [(''full_name'', JString ''O/R'')]), (''sha'', JString ''abc'')]),
     (''labels'', JArray []), (''number'', JNumber (JNat 7)), (''state'', JString ''open'')]"

definition hook_payload :: jvalue where
  "hook_payload = JObject [(''pull_request'', hook_pr)]"

definition hook_env :: webhook_env where
  "hook_env = plain_env\<lparr>wx_parse_json := (\<lambda>s. Some hook_payload)\<rparr>"

definition hook_request :: http_request where
  "hook_request = \<lparr>rq_headers = [(''x-github-event'', Header_Text ''pull_request''), (''x-github-delivery'', Header_Text ''1''),
     (''x-hub-signature-256'', Header_Text ''sha256=keybody'')], rq_body = ''body''\<rparr>"

lemma hook_routed: "\<exists>ev. parse_delivery hook_payload (webhook_routes [hook_project]) = Routable ev \<and> we_project_id ev = ''p''"
  by (simp add: parse_delivery_def hook_payload_def hook_pr_def webhook_routes_def hook_project_def webhook_route_eligible_def
    event_repo_def jstr_at_def jget_as_def or_else_def github_route_def eq_ignore_ascii_case_def Let_def)

lemma github_key_not_blank: "trim (''github:'' @ s) \<noteq> []"
  by (rule trim_not_Nil [of "CHR ''g''"]) (simp_all add: is_ascii_alphanumeric_def byte_of_def)

theorem acknowledged_delivery_stored_witness:
  "\<exists>w'. handle_webhook hook_env (installed_ctx hook_env ''key'' [hook_project]) hook_request (idle_world empty_db) = Some (Status_OK, w') \<and>
    stored ''github:1'' (w_db w')"
proof -
  obtain ev where ev: "parse_delivery hook_payload (webhook_routes [hook_project]) = Routable ev" "we_project_id ev = ''p''"
    using hook_routed by blast
  let ?w1 = "snd (now_epoch (idle_world empty_db))"
  have p: "trim ''p'' \<noteq> []" by (rule trim_not_Nil [of "CHR ''p''"]) (simp_all add: is_ascii_alphanumeric_def byte_of_def)
  obtain e where e: "event_from_webhook hook_env (ev\<lparr>we_received_at := 10\<rparr>) (Some ''1'') ''body'' ?w1 = Some (e, ?w1)"
    using ev(2) p github_key_not_blank [of "''1''"]
    by (simp add: event_from_webhook_def event_dedupe_key_def new_key_def non_empty_def envelope_observation_def envelope_new_def)
  have "\<exists>res d'. insert_dedup e ''body'' (Some []) c (w_db ?w1) = (Inr res, d')" for c
    by (simp add: insert_dedup_def insert_dedup_tx_def with_tx_def idle_world_def empty_db_def empty_table_def tbl_next_def i64_max_def Let_def)
  then have "fst (ingest_github e ''body'' [] c ?w1) = Inr ()" for c by (metis ingest_github_Inr)
  then have "\<exists>w'. installed_ingestor hook_env ''body'' (Some ''1'') (ev\<lparr>we_received_at := 10\<rparr>) ?w1 = Some (Inr (), w')"
  proof -
    have "wx_event_to_json hook_env v = Inr []" for v by (simp add: hook_env_def plain_env_def)
    with \<open>\<And>c. fst (ingest_github e ''body'' [] c ?w1) = Inr ()\<close> show ?thesis
      by (simp add: installed_ingestor_def e prod_eq_iff)
  qed
  then obtain w' where w': "handle_webhook hook_env (installed_ctx hook_env ''key'' [hook_project]) hook_request (idle_world empty_db) = Some (Status_OK, w')"
    using ev(1)
    by (auto simp: handle_webhook_def handle_github_delivery_def hook_request_def installed_ctx_def header_text_def verify_signature_def
      strip_prefix_def hook_env_def plain_env_def idle_world_def now_epoch_def)
  have "header_text ''x-github-delivery'' hook_request = Some ''1''" by (simp add: header_text_def hook_request_def)
  with acknowledged_delivery_stored [OF w' _ _ ev(1)] w' inbox_ok_empty show ?thesis
    by (simp add: hook_request_def hook_env_def plain_env_def idle_world_def event_dedupe_key_def)
qed

section \<open>Forks\<close>

lemma parse_delivery_Routable:
  assumes "parse_delivery payload routes = Routable ev" and "jget ''pull_request'' payload = Some pr"
  shows "\<exists>number head_sha head_ref route. route \<in> set routes \<and> rt_source_kind route = Github \<and>
    we_project_id ev = rt_id route \<and> we_repo ev = rt_repo route \<and> we_intent ev = intent_of pr number head_sha head_ref"
  using assms
  by (auto simp: parse_delivery_def github_route_def Let_def bind_eq_Some_conv dest!: find_SomeD split: option.splits) blast

text \<open>
  A pull request from a fork is never offered for dispatch by a webhook: when the repository of the head is
  missing from the payload or is not that of the base, ignoring case, the routed event belongs to a project
  with a GitHub route, and ingesting it, at any time and in any state, gives no candidate.
\<close>

theorem fork_never_offered:
  assumes "parse_delivery payload routes = Routable ev" and "jget ''pull_request'' payload = Some pr"
    and "\<not> (\<exists>h b. jstr_at [''head'', ''repo'', ''full_name''] pr = Some h \<and>
      jstr_at [''base'', ''repo'', ''full_name''] pr = Some b \<and> eq_ignore_ascii_case h b)"
  shows "(\<exists>r \<in> set routes. rt_source_kind r = Github \<and> rt_id r = we_project_id ev) \<and>
    fst (ingest_webhook load (ev\<lparr>we_received_at := t\<rparr>) w) = Inr None"
proof -
  from parse_delivery_Routable [OF assms(1,2)] obtain n sha ref where i: "we_intent ev = intent_of pr n sha ref"
    and r: "\<exists>r \<in> set routes. rt_source_kind r = Github \<and> rt_id r = we_project_id ev"
    by metis
  have cross: "is_cross_repository pr"
    using assms(3) by (auto simp: is_cross_repository_def split: option.splits)
  have "id_dispatchable (decide_ingest (we_intent ev) m title labels url params l now) = None" for m title labels url params l now
  proof (cases "jstr_at [''state''] pr = Some ''open''")
    case True
    then show ?thesis
      using cross by (simp add: i intent_of_def decide_ingest_def webhook_view_def should_skip_def or_else_def)
  next
    case False
    then show ?thesis by (simp add: i intent_of_def decide_ingest_def)
  qed
  with r show ?thesis by (simp add: ingest_webhook_def Let_def split_beta split: sum.splits)
qed

theorem fork_never_offered_witness:
  "fst (ingest_webhook (Inl (AppError [])) (\<lparr>we_project_id = ''p'', we_received_at = 3, we_event = ''pull_request'', we_action = None,
     we_repo = ''o/r'', we_number = 7, we_title = [], we_labels = [], we_url = [],
     we_intent = intent_of (JObject [(''head'', JObject [(''ref'', JString ''b''), (''sha'', JString ''abc'')]),
       (''labels'', JArray []), (''number'', JNumber (JNat 7)), (''state'', JString ''open'')]) 7 ''abc'' ''b''\<rparr>) (idle_world empty_db)) = Inr None"
proof -
  let ?pr = "JObject [(''head'', JObject [(''ref'', JString ''b''), (''sha'', JString ''abc'')]),
      (''labels'', JArray []), (''number'', JNumber (JNat 7)), (''state'', JString ''open'')]"
  let ?payload = "JObject [(''pull_request'', ?pr), (''repository'', JObject [(''full_name'', JString ''o/r'')])]"
  let ?ev = "\<lparr>we_project_id = ''p'', we_received_at = 0, we_event = ''pull_request'', we_action = None,
     we_repo = ''o/r'', we_number = 7, we_title = [], we_labels = [], we_url = [], we_intent = intent_of ?pr 7 ''abc'' ''b''\<rparr>"
  have "parse_delivery ?payload (webhook_routes [hook_project]) = Routable ?ev"
    by (simp add: parse_delivery_def webhook_routes_def hook_project_def webhook_route_eligible_def native_labels_def
      event_repo_def jstr_at_def jget_as_def or_else_def github_route_def eq_ignore_ascii_case_def Let_def
      effective_labels_def List.map_filter_def)
  from fork_never_offered [OF this, of ?pr "Inl (AppError [])" 3 "idle_world empty_db"] show ?thesis
    by (simp add: jstr_at_def)
qed

section \<open>The tunnel\<close>

text \<open>
  Starting and stopping wait for the start lock; shutting down and asking for the status do not. A server that
  was aborted ends at some time, a child that was killed is reaped at some time, and the tunnel prints lines.
\<close>

datatype hook_op =
  Hook_Take nat "resolved_cli option app_result" webhook_tunnel_mode string string
| Hook_Bind start_env
| Hook_Finish start_env
| Hook_Stop
| Hook_Shutdown
| Hook_Status "nat \<Rightarrow> bool" "resolved_cli \<Rightarrow> bool" "resolved_cli option app_result" webhook_tunnel_mode string
| Hook_Server_Ends nat
| Hook_Child_Reaped nat
| Hook_Line string

fun hook_step :: "hook_op \<Rightarrow> webhook_manager \<Rightarrow> webhook_manager" where
  "hook_step (Hook_Take port cli mode command url) m =
     (case wm_start m of No_Start \<Rightarrow> snd (start_take port cli mode command url m) | _ \<Rightarrow> m)"
| "hook_step (Hook_Bind env) m = (case wm_start m of Taken job \<Rightarrow> snd (start_bind env job m) | _ \<Rightarrow> m)"
| "hook_step (Hook_Finish env) m = (case wm_start m of Bound job i \<Rightarrow> snd (start_finish env job i m) | _ \<Rightarrow> m)"
| "hook_step Hook_Stop m = (case wm_start m of No_Start \<Rightarrow> webhook_stop m | _ \<Rightarrow> m)"
| "hook_step Hook_Shutdown m = webhook_shutdown m"
| "hook_step (Hook_Status exited runs cli mode command) m = snd (webhook_status_of exited runs cli mode command m)"
| "hook_step (Hook_Server_Ends i) m = (if \<exists>s \<in> set (wm_servers m). sv_id s = i \<and> sv_stopping s then server_ended i m else m)"
| "hook_step (Hook_Child_Reaped c) m = (if \<exists>t \<in> set (wm_children m). tc_id t = c \<and> tc_killed t then child_reaped c m else m)"
| "hook_step (Hook_Line line) m = tunnel_line line m"

text \<open>The servers that serve and the children that live, and who owns them.\<close>

definition serving :: "webhook_manager \<Rightarrow> nat list" where
  "serving m = map sv_id (filter (\<lambda>s. \<not> sv_stopping s) (wm_servers m))"

definition living :: "webhook_manager \<Rightarrow> nat list" where
  "living m = map tc_id (filter (\<lambda>t. \<not> tc_killed t) (wm_children m))"

definition owned_servers :: "webhook_manager \<Rightarrow> nat list" where
  "owned_servers m =
     (case wm_start m of
        Bound job i \<Rightarrow> [i]
      | _ \<Rightarrow> (case wm_runtime m of None \<Rightarrow> [] | Some rt \<Rightarrow> [wr_server rt]))"

definition owned_children :: "webhook_manager \<Rightarrow> nat list" where
  "owned_children m = (case Option.bind (wm_runtime m) wr_tunnel of None \<Rightarrow> [] | Some c \<Rightarrow> [c])"

lemma marked_map:
  "map sv_id (filter (\<lambda>s. \<not> sv_stopping s) (map (\<lambda>s. if sv_id s = i then s\<lparr>sv_stopping := True\<rparr> else s) ss))
    = filter (\<lambda>j. j \<noteq> i) (map sv_id (filter (\<lambda>s. \<not> sv_stopping s) ss))"
  "map tc_id (filter (\<lambda>t. \<not> tc_killed t) (map (\<lambda>t. if tc_id t = i then t\<lparr>tc_killed := True\<rparr> else t) ts))
    = filter (\<lambda>j. j \<noteq> i) (map tc_id (filter (\<lambda>t. \<not> tc_killed t) ts))"
  "map sv_id (filter (\<lambda>s. sv_id s \<noteq> i \<and> \<not> sv_stopping s) ss)
    = filter (\<lambda>j. j \<noteq> i) (map sv_id (filter (\<lambda>s. \<not> sv_stopping s) ss))"
  "map tc_id (filter (\<lambda>t. tc_id t \<noteq> i \<and> \<not> tc_killed t) ts)
    = filter (\<lambda>j. j \<noteq> i) (map tc_id (filter (\<lambda>t. \<not> tc_killed t) ts))"
  subgoal by (induction ss) simp_all
  subgoal by (induction ts) simp_all
  subgoal by (induction ss) simp_all
  subgoal by (induction ts) simp_all
  done

lemma serving_simps [simp]:
  "serving (abort_server i m) = filter (\<lambda>j. j \<noteq> i) (serving m)" "serving (server_ended i m) = filter (\<lambda>j. j \<noteq> i) (serving m)"
  "serving (kill_tunnel c m) = serving m" "serving (child_reaped c m) = serving m"
  "serving (m\<lparr>wm_runtime := r\<rparr>) = serving m" "serving (m\<lparr>wm_start := st\<rparr>) = serving m" "serving (m\<lparr>wm_next := n\<rparr>) = serving m"
  by (simp_all add: serving_def abort_server_def server_ended_def kill_tunnel_def child_reaped_def marked_map)

lemma living_simps [simp]:
  "living (kill_tunnel c m) = filter (\<lambda>j. j \<noteq> c) (living m)" "living (child_reaped c m) = filter (\<lambda>j. j \<noteq> c) (living m)"
  "living (abort_server i m) = living m" "living (server_ended i m) = living m"
  "living (m\<lparr>wm_runtime := r\<rparr>) = living m" "living (m\<lparr>wm_start := st\<rparr>) = living m" "living (m\<lparr>wm_servers := ss\<rparr>) = living m"
  by (simp_all add: living_def abort_server_def server_ended_def kill_tunnel_def child_reaped_def marked_map)

lemma tear_sel [simp]:
  "wm_start (abort_server i m) = wm_start m" "wm_start (server_ended i m) = wm_start m"
  "wm_start (kill_tunnel i m) = wm_start m" "wm_start (child_reaped i m) = wm_start m"
  "wm_runtime (abort_server i m) = wm_runtime m" "wm_runtime (server_ended i m) = wm_runtime m"
  "wm_runtime (kill_tunnel i m) = wm_runtime m" "wm_runtime (child_reaped i m) = wm_runtime m"
  "wm_next (abort_server i m) = wm_next m" "wm_next (server_ended i m) = wm_next m"
  "wm_next (kill_tunnel i m) = wm_next m" "wm_next (child_reaped i m) = wm_next m"
  by (simp_all add: abort_server_def server_ended_def kill_tunnel_def child_reaped_def)

lemma owned_tear [simp]:
  "owned_servers (server_ended i m) = owned_servers m" "owned_servers (child_reaped i m) = owned_servers m"
  "owned_children (server_ended i m) = owned_children m" "owned_children (child_reaped i m) = owned_children m"
  by (simp_all add: owned_servers_def owned_children_def cong: start_stage.case_cong option.case_cong)

text \<open>The ids that were given out.\<close>

definition ids_ok :: "webhook_manager \<Rightarrow> bool" where
  "ids_ok m \<longleftrightarrow>
     distinct (map sv_id (wm_servers m)) \<and> distinct (map tc_id (wm_children m)) \<and>
     (\<forall>s \<in> set (wm_servers m). sv_id s < wm_next m) \<and> (\<forall>t \<in> set (wm_children m). tc_id t < wm_next m)"

lemma ids_tear [simp]:
  "ids_ok m \<Longrightarrow> ids_ok (abort_server i m)" "ids_ok m \<Longrightarrow> ids_ok (server_ended i m)"
  "ids_ok m \<Longrightarrow> ids_ok (kill_tunnel i m)" "ids_ok m \<Longrightarrow> ids_ok (child_reaped i m)"
  "ids_ok (m\<lparr>wm_runtime := r\<rparr>) = ids_ok m" "ids_ok (m\<lparr>wm_start := st\<rparr>) = ids_ok m"
  by (auto simp: ids_ok_def abort_server_def server_ended_def kill_tunnel_def child_reaped_def distinct_map_filter comp_def if_distrib
      cong: if_cong)

definition hook_ok :: "webhook_manager \<Rightarrow> bool" where
  "hook_ok m \<longleftrightarrow> ids_ok m \<and> (wm_start m \<noteq> No_Start \<longrightarrow> wm_runtime m = None) \<and>
     serving m = owned_servers m \<and> living m = owned_children m"

lemma hook_ok_teardown:
  assumes "hook_ok m" and "wm_runtime m = Some rt"
  shows "hook_ok (teardown rt (m\<lparr>wm_runtime := None\<rparr>))" "hook_ok (teardown_awaiting rt (m\<lparr>wm_runtime := None\<rparr>))"
    "serving (teardown_awaiting rt (m\<lparr>wm_runtime := None\<rparr>)) = []" "living (teardown_awaiting rt (m\<lparr>wm_runtime := None\<rparr>)) = []"
  using assms
  by (auto simp: hook_ok_def teardown_def teardown_awaiting_def owned_servers_def owned_children_def Let_def split: start_stage.splits option.splits)

lemma hook_ok_stop: "hook_ok m \<Longrightarrow> hook_ok (webhook_stop m)"
  by (auto simp: webhook_stop_def hook_ok_teardown split: option.split)

lemma hook_ok_stop_inner: "hook_ok m \<Longrightarrow> hook_ok (webhook_stop_inner m)"
  by (auto simp: webhook_stop_inner_def hook_ok_teardown split: option.split)

lemma stop_sel [simp]: "wm_runtime (webhook_stop m) = None" "wm_start (webhook_stop m) = wm_start m"
  by (simp_all add: webhook_stop_def teardown_awaiting_def Let_def split: option.split)

lemma stop_owned:
  assumes "hook_ok m" and "wm_start m = No_Start"
  shows "serving (webhook_stop m) = []" "living (webhook_stop m) = []"
  using hook_ok_stop [OF assms(1)] assms(2) by (simp_all add: hook_ok_def owned_servers_def owned_children_def)

text \<open>Binding only drops servers that were stopping; on success none of the rest holds the port.\<close>

lemma bind_loop_servers:
  "bind_loop env port attempts e ss = (r, ss') \<Longrightarrow>
    filter (\<lambda>s. \<not> sv_stopping s) ss' = filter (\<lambda>s. \<not> sv_stopping s) ss \<and> set ss' \<subseteq> set ss \<and>
    (distinct (map sv_id ss) \<longrightarrow> distinct (map sv_id ss'))"
proof (induction attempts arbitrary: e ss)
  case (Cons a attempts)
  let ?ss = "filter (\<lambda>s. \<not> (sv_stopping s \<and> se_ended env a (sv_id s))) ss"
  have same: "filter (\<lambda>s. \<not> sv_stopping s) ?ss = filter (\<lambda>s. \<not> sv_stopping s) ss" "set ?ss \<subseteq> set ss"
    "distinct (map sv_id ss) \<Longrightarrow> distinct (map sv_id ?ss)"
    by (auto simp: distinct_map_filter intro!: filter_cong)
  from Cons.prems consider "ss' = ?ss" | e' where "bind_loop env port attempts e' ?ss = (r, ss')"
    by (auto simp del: filter_filter simp: Let_def split: if_splits option.splits)
  then show ?case
  proof cases
    case 1
    with same show ?thesis by simp
  next
    case (2 e')
    from Cons.IH [OF 2] same show ?thesis by fastforce
  qed
qed simp

lemma bind_listener_servers:
  assumes "bind_listener env port ss = (r, ss')"
  shows "filter (\<lambda>s. \<not> sv_stopping s) ss' = filter (\<lambda>s. \<not> sv_stopping s) ss" "set ss' \<subseteq> set ss"
    "distinct (map sv_id ss) \<Longrightarrow> distinct (map sv_id ss')"
  using assms bind_loop_servers [of env port "[0..<bind_retries]" None ss]
  by (cases "bind_loop env port [0..<bind_retries] None ss"; simp add: bind_listener_def)+

lemma hook_ok_bind:
  assumes "hook_ok m" and "wm_start m = Taken job" and "start_bind env job m = (r, m')"
  shows "hook_ok m' \<and> wm_runtime m' = None \<and> living m' = [] \<and>
    (case r of Inl _ \<Rightarrow> wm_start m' = No_Start \<and> serving m' = [] \<and> set (wm_servers m') \<subseteq> set (wm_servers m)
     | Inr i \<Rightarrow> wm_start m' = Bound job i \<and> set (wm_servers m') \<subseteq> insert \<lparr>sv_id = i, sv_port = sj_port job, sv_stopping = False\<rparr> (set (wm_servers m)))"
proof -
  obtain res ss where b: "bind_listener env (sj_port job) (wm_servers m) = (res, ss)" by fastforce
  from assms(1,2) have m: "wm_runtime m = None" "serving m = []" "living m = []" "ids_ok m"
    by (auto simp: hook_ok_def owned_servers_def owned_children_def)
  note servers = bind_listener_servers [OF b]
  have none: "filter (\<lambda>s. \<not> sv_stopping s) ss = []"
    using m(2) servers(1) by (simp add: serving_def)
  have ids: "distinct (map sv_id ss)" "\<forall>s \<in> set ss. sv_id s < wm_next m" "\<forall>t \<in> set (wm_children m). tc_id t < wm_next m"
    "distinct (map tc_id (wm_children m))"
    using m(4) servers(2,3) by (auto simp: ids_ok_def)
  then have fresh: "wm_next m \<notin> sv_id ` set ss" by auto
  from m(3) have living: "filter (\<lambda>t. \<not> tc_killed t) (wm_children m) = []" by (simp add: living_def)
  from assms(3) consider "r \<in> range Inl" "m' = m\<lparr>wm_start := No_Start\<rparr>"
    | "r \<in> range Inl" "m' = m\<lparr>wm_start := No_Start, wm_servers := ss\<rparr>"
    | "r = Inr (wm_next m)" "m' = m\<lparr>wm_start := Bound job (wm_next m), wm_next := Suc (wm_next m),
         wm_servers := ss @ [\<lparr>sv_id = wm_next m, sv_port = sj_port job, sv_stopping = False\<rparr>]\<rparr>"
    using b by (auto simp: start_bind_def Let_def split: if_splits sum.splits)
  then show ?thesis
  proof cases
    case 1
    with m show ?thesis by (auto simp: hook_ok_def owned_servers_def owned_children_def)
  next
    case 2
    with m(1,4) none ids living servers(2) show ?thesis
      by (auto simp: hook_ok_def owned_servers_def owned_children_def serving_def living_def ids_ok_def)
  next
    case 3
    with m(1) none ids fresh living servers(2) show ?thesis
      by (auto simp: hook_ok_def owned_servers_def owned_children_def serving_def living_def ids_ok_def less_SucI)
  qed
qed

text \<open>Spawning adds a child that lives, or none.\<close>

lemma fresh_child: "ids_ok m \<Longrightarrow> wm_next m \<notin> tc_id ` set (wm_children m)"
  by (auto simp: ids_ok_def)

lemma new_child_facts:
  assumes "ids_ok m" and "new_child m = (c, m')"
  shows "ids_ok m'" "c \<notin> set (living m)" "living m' = living m @ [c]" "serving m' = serving m" "wm_servers m' = wm_servers m"
    "wm_start m' = wm_start m" "wm_runtime m' = wm_runtime m"
  using assms fresh_child [OF assms(1)] by (auto simp: new_child_def ids_ok_def living_def serving_def less_SucI)

text \<open>What a spawn came to: nothing, a child that is gone or told to go, or a child that lives.\<close>

definition spawned :: "webhook_manager \<Rightarrow> nat option \<Rightarrow> webhook_manager \<Rightarrow> bool" where
  "spawned m child m' \<longleftrightarrow>
     child = None \<and> m' = m \<or>
     child = None \<and> (m' = kill_tunnel (fst (new_child m)) (snd (new_child m)) \<or> m' = child_reaped (fst (new_child m)) (snd (new_child m))) \<or>
     child = Some (fst (new_child m)) \<and> m' = snd (new_child m)"

lemma spawned_facts:
  assumes "ids_ok m" and "spawned m child m'"
  shows "ids_ok m'" "living m' = living m @ (case child of None \<Rightarrow> [] | Some c \<Rightarrow> [c])" "serving m' = serving m"
    "wm_servers m' = wm_servers m" "wm_start m' = wm_start m" "wm_runtime m' = wm_runtime m"
proof -
  obtain c mc where c: "new_child m = (c, mc)" by fastforce
  note nc = new_child_facts [OF assms(1) c]
  have keep: "filter (\<lambda>j. j \<noteq> c) (living m) = living m" using nc(2) by (auto simp: filter_id_conv)
  have servers: "wm_servers (kill_tunnel c mc) = wm_servers mc" "wm_servers (child_reaped c mc) = wm_servers mc"
    by (simp_all add: kill_tunnel_def child_reaped_def)
  from assms(2) consider "child = None" "m' = m" | "child = None" "m' = kill_tunnel c mc" | "child = None" "m' = child_reaped c mc"
    | "child = Some c" "m' = mc"
    by (auto simp: spawned_def c)
  then show "ids_ok m'" "living m' = living m @ (case child of None \<Rightarrow> [] | Some c \<Rightarrow> [c])" "serving m' = serving m"
    "wm_servers m' = wm_servers m" "wm_start m' = wm_start m" "wm_runtime m' = wm_runtime m"
    by (cases; simp add: assms(1) nc keep servers)+
qed

lemma spawn_quick_spawned:
  assumes "spawn_quick_tunnel env cli port m = (r, m')"
  shows "spawned m (case r of Inl _ \<Rightarrow> None | Inr (c, _) \<Rightarrow> Some c) m'"
  using assms
  by (cases "new_child m") (auto simp: spawn_quick_tunnel_def spawned_def Let_def split: option.splits if_splits)

lemma spawn_custom_spawned:
  assumes "spawn_custom_tunnel env command port cli m = (r, m')"
  shows "spawned m (case r of Inl _ \<Rightarrow> None | Inr c \<Rightarrow> Some c) m'"
  using assms
  by (cases "new_child m"; cases "custom_argv command port cli")
     (auto simp: spawn_custom_tunnel_def spawned_def Let_def split: option.splits if_splits)

lemma start_tunnel_facts:
  assumes "ids_ok m" and "start_tunnel env job m = (r, m')"
  shows "spawned m (case r of Inr (child, _) \<Rightarrow> child | _ \<Rightarrow> None) m'"
proof (cases "sj_mode job")
  case Mode_Quick
  show ?thesis
  proof (cases "sj_cloudflared job")
    case None
    with Mode_Quick assms(2) show ?thesis by (auto simp: start_tunnel_def spawned_def Let_def)
  next
    case (Some cli)
    obtain q mq where q: "spawn_quick_tunnel env cli (sj_port job) m = (q, mq)" by fastforce
    from spawn_quick_spawned [OF q] Mode_Quick Some q assms(2) show ?thesis
      by (cases q) (auto simp: start_tunnel_def Let_def)
  qed
next
  case Mode_Command
  obtain q mq where q: "spawn_custom_tunnel env (sj_command job) (sj_port job) (sj_cloudflared job) m = (q, mq)" by fastforce
  from spawn_custom_spawned [OF q] Mode_Command q assms(2) show ?thesis
    by (cases q) (auto simp: start_tunnel_def Let_def)
next
  case Mode_Listener
  with assms(2) show ?thesis by (auto simp: start_tunnel_def spawned_def Let_def)
qed

lemma hook_ok_finish:
  assumes "hook_ok m" and "wm_start m = Bound job i" and "start_finish env job i m = (r, m')"
  shows "hook_ok m' \<and> wm_start m' = No_Start \<and>
    (case r of Inl _ \<Rightarrow> wm_runtime m' = None \<and> serving m' = [] \<and> living m' = [] \<and> set (wm_servers m') = {s \<in> set (wm_servers m). sv_id s \<noteq> i}
     | Inr _ \<Rightarrow> \<exists>rt. wm_runtime m' = Some rt \<and> wr_server rt = i)"
proof -
  from assms(1,2) have m: "wm_runtime m = None" "serving m = [i]" "living m = []" "ids_ok m"
    by (auto simp: hook_ok_def owned_servers_def owned_children_def)
  obtain rt m1 where t: "start_tunnel env job m = (rt, m1)" by fastforce
  note facts = spawned_facts [OF m(4) start_tunnel_facts [OF m(4) t]]
  show ?thesis
  proof (cases rt)
    case (Inl e)
    with assms(3) t have r: "r = Inl e" "m' = (server_ended i (abort_server i m1))\<lparr>wm_start := No_Start\<rparr>"
      by (simp_all add: start_finish_def)
    moreover have "set (wm_servers m') = {s \<in> set (wm_servers m). sv_id s \<noteq> i}"
      using facts(4) by (auto simp: r server_ended_def abort_server_def)
    ultimately show ?thesis
      using m facts Inl by (simp add: hook_ok_def owned_servers_def owned_children_def)
  next
    case (Inr p)
    obtain child url where p: "p = (child, url)" by (cases p)
    with assms(3) t Inr obtain runtime st where r: "r = Inr st" "m' = m1\<lparr>wm_start := No_Start, wm_runtime := Some runtime\<rparr>"
      "wr_server runtime = i" "wr_tunnel runtime = child"
      by (auto simp: start_finish_def)
    with m facts Inr p show ?thesis
      by (cases child) (auto simp: hook_ok_def owned_servers_def owned_children_def)
  qed
qed

lemma hook_ok_take:
  assumes "hook_ok m" and "wm_start m = No_Start" and "start_take port cli mode command url m = (r, m')"
  shows "hook_ok m' \<and> (case r of Inl _ \<Rightarrow> m' = m | Inr job \<Rightarrow> wm_start m' = Taken job \<and> wm_servers m' = wm_servers (webhook_stop m))"
  using assms hook_ok_stop [OF assms(1)] stop_owned [OF assms(1,2)]
  by (auto simp: start_take_def Let_def hook_ok_def owned_servers_def owned_children_def split: sum.splits if_splits)

lemma hook_ok_marked:
  assumes "hook_ok m"
  shows "s \<in> set (wm_servers m) \<Longrightarrow> sv_stopping s \<Longrightarrow> hook_ok (server_ended (sv_id s) m)"
    and "t \<in> set (wm_children m) \<Longrightarrow> tc_killed t \<Longrightarrow> hook_ok (child_reaped (tc_id t) m)"
proof -
  assume s: "s \<in> set (wm_servers m)" "sv_stopping s"
  from assms have "ids_ok m" by (simp add: hook_ok_def)
  with s have "sv_id s \<notin> set (serving m)" by (auto simp: ids_ok_def serving_def distinct_map inj_on_def)
  then have "filter (\<lambda>j. j \<noteq> sv_id s) (serving m) = serving m" by (auto simp: filter_id_conv)
  with assms show "hook_ok (server_ended (sv_id s) m)" by (simp add: hook_ok_def)
next
  assume t: "t \<in> set (wm_children m)" "tc_killed t"
  from assms have "ids_ok m" by (simp add: hook_ok_def)
  with t have "tc_id t \<notin> set (living m)" by (auto simp: ids_ok_def living_def distinct_map inj_on_def)
  then have "filter (\<lambda>j. j \<noteq> tc_id t) (living m) = living m" by (auto simp: filter_id_conv)
  with assms show "hook_ok (child_reaped (tc_id t) m)" by (simp add: hook_ok_def)
qed

lemma hook_ok_line: "hook_ok m \<Longrightarrow> hook_ok (tunnel_line line m)"
  by (auto simp: tunnel_line_def hook_ok_def owned_servers_def owned_children_def split: option.splits start_stage.splits)

lemma hook_ok_status: "hook_ok m \<Longrightarrow> hook_ok (snd (webhook_status_of exited runs cli mode command m))"
  by (auto simp: webhook_status_of_def probe_def split_beta Let_def hook_ok_stop_inner split: option.splits sum.splits)

lemma hook_ok_step: "hook_ok m \<Longrightarrow> hook_ok (hook_step op m)"
proof (induction op m rule: hook_step.induct)
  case (1 port cli mode command url m)
  then show ?case using hook_ok_take [OF 1 _ prod.collapse [symmetric]] by (auto split: start_stage.split)
next
  case (2 env m)
  then show ?case using hook_ok_bind [OF 2 _ prod.collapse [symmetric]] by (auto split: start_stage.split)
next
  case (3 env m)
  then show ?case using hook_ok_finish [OF 3 _ prod.collapse [symmetric]] by (auto split: start_stage.split)
qed (auto simp: hook_ok_stop hook_ok_stop_inner webhook_shutdown_def hook_ok_status hook_ok_line hook_ok_marked split: start_stage.split)

definition fresh_manager :: "bool \<Rightarrow> bool \<Rightarrow> webhook_manager" where
  "fresh_manager i r = \<lparr>wm_ingestor_set = i, wm_refresher_set = r, wm_runtime = None, wm_start = No_Start,
     wm_servers = [], wm_children = [], wm_next = 0\<rparr>"

lemma hook_reachable: "hook_ok (fold hook_step ops (fresh_manager i r))"
proof -
  have "hook_ok (fold hook_step ops m)" if "hook_ok m" for m
    using that by (induction ops arbitrary: m) (simp_all add: hook_ok_step)
  moreover have "hook_ok (fresh_manager i r)"
    by (simp add: hook_ok_def ids_ok_def fresh_manager_def serving_def living_def owned_servers_def owned_children_def)
  ultimately show ?thesis .
qed

lemma ended_server:
  assumes "distinct (map sv_id ss)" and "map sv_id (filter (\<lambda>s. \<not> sv_stopping s) ss) = [i]"
  shows "filter (\<lambda>s. sv_id s \<noteq> i) (map (\<lambda>s. if sv_id s = i then s\<lparr>sv_stopping := True\<rparr> else s) ss) = filter sv_stopping ss"
proof -
  have "sv_id ` {s \<in> set ss. \<not> sv_stopping s} = {i}" using arg_cong [OF assms(2), of set] by simp
  then have one: "s \<in> set ss \<Longrightarrow> \<not> sv_stopping s \<Longrightarrow> sv_id s = i" for s by blast
  from assms(2) have "i \<in> set (map sv_id (filter (\<lambda>s. \<not> sv_stopping s) ss))" by simp
  then obtain s0 where s0: "s0 \<in> set ss" "\<not> sv_stopping s0" "sv_id s0 = i" by auto
  have iff: "sv_id s \<noteq> i \<longleftrightarrow> sv_stopping s" if "s \<in> set ss" for s
    using that one s0 assms(1) by (auto simp: distinct_map inj_on_def)
  have "filter (\<lambda>s. sv_id s \<noteq> i) (map (\<lambda>s. if sv_id s = i then s\<lparr>sv_stopping := True\<rparr> else s) ss) = filter (\<lambda>s. sv_id s \<noteq> i) ss"
    by (induction ss) auto
  also have "\<dots> = filter sv_stopping ss" using iff by (intro filter_cong) auto
  finally show ?thesis .
qed

lemma stop_servers:
  assumes "hook_ok m" and "wm_start m = No_Start"
  shows "wm_servers (webhook_stop m) = filter sv_stopping (wm_servers m)"
proof (cases "wm_runtime m")
  case None
  with assms have "filter (\<lambda>s. \<not> sv_stopping s) (wm_servers m) = []" by (simp add: hook_ok_def owned_servers_def serving_def)
  then have "filter sv_stopping (wm_servers m) = wm_servers m" by (simp add: filter_id_conv filter_empty_conv)
  with None show ?thesis by (simp add: webhook_stop_def)
next
  case (Some rt)
  with assms have "distinct (map sv_id (wm_servers m))"
    "map sv_id (filter (\<lambda>s. \<not> sv_stopping s) (wm_servers m)) = [wr_server rt]"
    by (simp_all add: hook_ok_def ids_ok_def owned_servers_def serving_def)
  from ended_server [OF this] Some show ?thesis
    by (simp add: webhook_stop_def teardown_awaiting_def Let_def server_ended_def abort_server_def kill_tunnel_def child_reaped_def
        split: option.split)
qed

text \<open>A whole start: it fails before anything was done, or leaves nothing behind, or ends with a runtime.\<close>

lemma failed_start:
  assumes "hook_ok m" and "wm_start m = No_Start" and "webhook_start env port cli mode command url m = (Inl e, m')"
  shows "m' = m \<or> wm_runtime m' = None \<and> wm_start m' = No_Start \<and> serving m' = [] \<and> living m' = [] \<and>
    set (wm_servers m') \<subseteq> {s \<in> set (wm_servers m). sv_stopping s}"
proof -
  have stopping: "set (wm_servers (webhook_stop m)) \<subseteq> {s \<in> set (wm_servers m). sv_stopping s}"
    using stop_servers [OF assms(1,2)] by auto
  obtain r1 m1 where take: "start_take port cli mode command url m = (r1, m1)" by fastforce
  note one = hook_ok_take [OF assms(1,2) take]
  show ?thesis
  proof (cases r1)
    case (Inl e1)
    with one take assms(3) show ?thesis by (simp add: webhook_start_def)
  next
    case (Inr job)
    with one have m1: "hook_ok m1" "wm_start m1 = Taken job" "wm_servers m1 = wm_servers (webhook_stop m)" by auto
    obtain r2 m2 where bind: "start_bind env job m1 = (r2, m2)" by fastforce
    note two = hook_ok_bind [OF m1(1,2) bind]
    show ?thesis
    proof (cases r2)
      case (Inl a)
      with two take bind Inr assms(3) m1(3) stopping show ?thesis by (auto simp: webhook_start_def)
    next
      case (Inr i)
      with take bind \<open>r1 = Inr job\<close> assms(3) have f: "start_finish env job i m2 = (Inl e, m')" by (simp add: webhook_start_def)
      from two Inr have m2: "hook_ok m2" "wm_start m2 = Bound job i"
        "set (wm_servers m2) \<subseteq> insert \<lparr>sv_id = i, sv_port = sj_port job, sv_stopping = False\<rparr> (set (wm_servers m1))" by auto
      from hook_ok_finish [OF m2(1,2) f] m2(3) m1(3) stopping show ?thesis by auto
    qed
  qed
qed

text \<open>
  C36. No tunnel and no listener outlives its runtime: after any sequence of the pieces of starts (whatever
  binds and spawns fail), stops, shutdowns, status queries, and ends of aborted servers and killed children, the
  servers that serve are the one of the runtime or of the start under way, and the children that live the one of
  the runtime. A whole start that fails changes nothing, or leaves no runtime, no server that serves, no
  child that lives, and no server that was not already stopping; a stop leaves only servers that were already
  stopping, so that a port that no such server holds is free.
\<close>

theorem no_orphan_tunnel:
  defines "m \<equiv> \<lambda>ops i r. fold hook_step ops (fresh_manager i r)"
  shows "serving (m ops i r) = owned_servers (m ops i r) \<and> living (m ops i r) = owned_children (m ops i r) \<and>
    (wm_start (m ops i r) = No_Start \<longrightarrow>
      (\<forall>env port cli mode command url e m'. webhook_start env port cli mode command url (m ops i r) = (Inl e, m') \<longrightarrow>
        m' = m ops i r \<or> wm_runtime m' = None \<and> wm_start m' = No_Start \<and> serving m' = [] \<and> living m' = [] \<and>
          set (wm_servers m') \<subseteq> {s \<in> set (wm_servers (m ops i r)). sv_stopping s}) \<and>
      wm_runtime (webhook_stop (m ops i r)) = None \<and> living (webhook_stop (m ops i r)) = [] \<and>
      set (wm_servers (webhook_stop (m ops i r))) = {s \<in> set (wm_servers (m ops i r)). sv_stopping s})"
proof -
  have ok: "hook_ok (m ops i r)" by (simp add: m_def hook_reachable)
  have "serving (m ops i r) = owned_servers (m ops i r)" "living (m ops i r) = owned_children (m ops i r)"
    using ok by (simp_all add: hook_ok_def)
  moreover have "(\<forall>env port cli mode command url e m'. webhook_start env port cli mode command url (m ops i r) = (Inl e, m') \<longrightarrow>
        m' = m ops i r \<or> wm_runtime m' = None \<and> wm_start m' = No_Start \<and> serving m' = [] \<and> living m' = [] \<and>
          set (wm_servers m') \<subseteq> {s \<in> set (wm_servers (m ops i r)). sv_stopping s}) \<and>
      wm_runtime (webhook_stop (m ops i r)) = None \<and> living (webhook_stop (m ops i r)) = [] \<and>
      set (wm_servers (webhook_stop (m ops i r))) = {s \<in> set (wm_servers (m ops i r)). sv_stopping s}"
    if "wm_start (m ops i r) = No_Start"
    using failed_start [OF ok that] stop_owned(2) [OF ok that] stop_servers [OF ok that] by auto
  ultimately show ?thesis by blast
qed

text \<open>
  Shutting down does not wait for the start lock: a start that has bound its listener goes on and installs a
  runtime that nobody takes down.
\<close>

lemma shutdown_during_start_lost:
  "wm_runtime (fold hook_step [Hook_Take 9000 (Inr None) Mode_Listener [] [], Hook_Bind env, Hook_Shutdown, Hook_Finish env]
     (fresh_manager True True)) \<noteq> None" if "se_bind env 0 = None"
  using that
  by (simp add: fresh_manager_def start_take_def start_bind_def start_finish_def start_tunnel_def uses_cloudflared_def
    webhook_stop_def webhook_shutdown_def webhook_stop_inner_def bind_listener_def bind_retries_def upt_rec Let_def)

text \<open>A start whose tunnel does not start, by a manager that a shutdown had left with a server still stopping.\<close>

definition no_tunnel_env :: start_env where
  "no_tunnel_env = \<lparr>se_cloudflared_runs = (\<lambda>_. True), se_bind = (\<lambda>_. None), se_in_use = ''in use'', se_ended = (\<lambda>_ _. False),
     se_spawn = (\<lambda>_ _. Some ''no such file''), se_stderr = True, se_lines = [], se_exited = None\<rparr>"

definition sample_cloudflared :: resolved_cli where
  "sample_cloudflared = \<lparr>rcl_program = ''cloudflared'', rcl_source = Process_Path, rcl_enhanced_path = [], rcl_config_env = None,
     rcl_fingerprint = ''f''\<rparr>"

definition busy_manager :: webhook_manager where
  "busy_manager = fold hook_step [Hook_Take 9000 (Inr None) Mode_Listener [] [], Hook_Bind no_tunnel_env, Hook_Finish no_tunnel_env,
     Hook_Shutdown] (fresh_manager True True)"

theorem no_orphan_tunnel_witness:
  "wm_start busy_manager = No_Start \<and> wm_servers busy_manager = [\<lparr>sv_id = 0, sv_port = 9000, sv_stopping = True\<rparr>] \<and>
   (\<exists>e m'. webhook_start no_tunnel_env 9001 (Inr (Some sample_cloudflared)) Mode_Quick [] [] busy_manager = (Inl e, m') \<and> serving m' = [] \<and>
     set (wm_servers m') \<subseteq> {s \<in> set (wm_servers busy_manager). sv_stopping s})"
proof -
  have busy: "busy_manager = \<lparr>wm_ingestor_set = True, wm_refresher_set = True, wm_runtime = None, wm_start = No_Start,
     wm_servers = [\<lparr>sv_id = 0, sv_port = 9000, sv_stopping = True\<rparr>], wm_children = [], wm_next = 1\<rparr>"
    by (simp add: busy_manager_def fresh_manager_def start_take_def start_bind_def start_finish_def start_tunnel_def uses_cloudflared_def
      webhook_stop_def webhook_shutdown_def webhook_stop_inner_def teardown_def abort_server_def bind_listener_def no_tunnel_env_def
      bind_retries_def upt_rec Let_def)
  have idle: "wm_start busy_manager = No_Start" by (simp add: busy)
  have "\<exists>e m'. webhook_start no_tunnel_env 9001 (Inr (Some sample_cloudflared)) Mode_Quick [] [] busy_manager = (Inl e, m') \<and> m' \<noteq> busy_manager"
    by (simp add: busy webhook_start_def start_take_def start_bind_def start_finish_def start_tunnel_def spawn_quick_tunnel_def uses_cloudflared_def
      webhook_stop_def abort_server_def server_ended_def bind_listener_def no_tunnel_env_def bind_retries_def upt_rec Let_def)
  then obtain e m' where f: "webhook_start no_tunnel_env 9001 (Inr (Some sample_cloudflared)) Mode_Quick [] [] busy_manager = (Inl e, m')"
    "m' \<noteq> busy_manager" by blast
  from no_orphan_tunnel [where ops = "[Hook_Take 9000 (Inr None) Mode_Listener [] [], Hook_Bind no_tunnel_env, Hook_Finish no_tunnel_env,
      Hook_Shutdown]" and i = True and r = True, folded busy_manager_def] idle f
  have "serving m' = []" "set (wm_servers m') \<subseteq> {s \<in> set (wm_servers busy_manager). sv_stopping s}" by metis+
  with idle f show ?thesis by (simp add: busy)
qed

end
