(* ===== verification/Messaging_Service.thy ===== *)
theory Messaging_Service
  imports External_Review Human_Input Text Notifications
begin

text \<open>
  The commands that arrive from a chat (\<open>messaging/service.rs\<close>): a delivery is verified and parsed by its
  provider, stored once, and processed; the worker drains what is stored but not processed. A command may
  answer or cancel a request for human input, or submit a review; each ends with a reply in the outbox and
  with the row marked. The providers, the digest and whether the review engine is stopped are parameters;
  serialization of an integration is injective, so two snapshots are equal if the records are.
\<close>

text \<open>
  The events that chat providers deliver (\<open>messaging/store.rs\<close>): the deduplicating insert with its
  retention, the terminal mark with the reply it led to, and the reads, which join the reply's outbox row.
\<close>

(* messaging/store.rs 12-12 LIST_LIMIT *)
definition messaging_list_limit :: nat where "messaging_list_limit = 500"

(* messaging/store.rs 13-13 MAX_MESSAGING_EVENTS *)
definition max_messaging_events :: nat where "max_messaging_events = 5000"

(* messaging/store.rs 14-14 MAX_ERROR_LEN *)
definition max_error_len :: nat where "max_error_len = 1024"

(* messaging/store.rs 15-15 MAX_REPLY_SUMMARY_LEN *)
definition max_reply_summary_len :: nat where "max_reply_summary_len = 512"

(* model.rs 1648-1654 MessagingReplyAudit *)
record reply_audit =
  ry_outbox_id :: int
  ry_kind :: string
  ry_summary :: string
  ry_status :: "action_status option"
  ry_error :: "string option"

(* model.rs 1660-1667 MessagingEventEntry *)
record messaging_entry =
  mv_id :: int
  mv_event :: messaging_event
  mv_status :: messaging_event_status
  mv_processed_at :: "nat option"
  mv_error :: "string option"
  mv_reply :: "reply_audit option"

(* messaging/store.rs 17-20 DedupInsert *)
datatype dedup_insert = Event_Inserted int | Event_Existing messaging_entry

(* messaging/store.rs 23-27 ReplyRecord *)
record reply_record =
  rpr_outbox_id :: int
  rpr_kind :: string
  rpr_summary :: string

section \<open>Reading a row\<close>

(* messaging/store.rs 45-47 action_status_from_wire *)
definition action_status_from_wire :: "string \<Rightarrow> action_status option" where
  "action_status_from_wire s =
     find (\<lambda>x. status_as_wire x = s) [Action_Pending, Action_Blocked, Action_Done, Action_Dead]"

text \<open>\<open>Option::zip\<close>.\<close>

fun zip_option :: "'a option \<Rightarrow> 'b option \<Rightarrow> ('a \<times> 'b) option" where
  "zip_option (Some a) (Some b) = Some (a, b)"
| "zip_option _ _ = None"

(* messaging/store.rs 271-295 RawRow::into_entry *)
definition messaging_into_entry :: "db \<Rightarrow> messaging_row \<Rightarrow> messaging_entry app_result" where
  "messaging_into_entry d r =
     try_bind (map_error (\<lambda>e. AppError ((''messaging event '' @ utf8 [0x53CD, 0x5E8F, 0x5217, 0x5316, 0x5931, 0x8D25] @ '': '') @ e)) (from_json (mg_event_json r))) (\<lambda>event.
     let joined = Option.bind (mg_reply_outbox_id r) (\<lambda>i. by_id ob_id i (db_outbox d))
     in Inr \<lparr>mv_id = mg_id r, mv_event = event, mv_status = messaging_status_from_wire (mg_status r),
          mv_processed_at = map_option as_u64 (mg_processed_at r), mv_error = mg_error r,
          mv_reply = map_option (\<lambda>((outbox_id, kind), summary).
              \<lparr>ry_outbox_id = outbox_id, ry_kind = kind, ry_summary = summary,
               ry_status = Option.bind (map_option ob_status joined) action_status_from_wire,
               ry_error = Option.bind joined ob_last_error\<rparr>)
            (zip_option (zip_option (mg_reply_outbox_id r) (mg_reply_kind r)) (mg_reply_summary r))\<rparr>)"

section \<open>The deduplicating insert\<close>

definition same_delivery :: "messaging_event \<Rightarrow> messaging_row \<Rightarrow> bool" where
  "same_delivery event r \<longleftrightarrow>
     mg_provider r = provider_as_wire (me_provider event) \<and> mg_integration_id r = me_integration_id event \<and>
     mg_event_id r = me_event_id event"

definition new_messaging_row :: "messaging_event \<Rightarrow> int \<Rightarrow> messaging_row" where
  "new_messaging_row event i =
     \<lparr>mg_id = i, mg_provider = provider_as_wire (me_provider event), mg_integration_id = me_integration_id event,
      mg_event_id = me_event_id event, mg_conversation_id = me_conversation_id event, mg_event_json = JsonOf event,
      mg_raw_summary = me_raw_payload event, mg_status = messaging_status_as_wire Msg_Received,
      mg_received_at = as_i64 (me_received_at_epoch event), mg_processed_at = None, mg_error = None,
      mg_reply_outbox_id = None, mg_reply_kind = None, mg_reply_summary = None\<rparr>"

text \<open>The DELETE keeps the newest rows; rows are in the order of their ids.\<close>

definition keep_newest :: "nat \<Rightarrow> messaging_row table \<Rightarrow> messaging_row table" where
  "keep_newest n t = t\<lparr>tb_rows := drop (length (tb_rows t) - n) (tb_rows t)\<rparr>"

(* messaging/store.rs 52-94 insert_dedup *)
definition messaging_insert_tx :: "messaging_event \<Rightarrow> dedup_insert db_tx" where
  "messaging_insert_tx event d =
     try_bind (map_error map_err (tbl_next (db_messaging d))) (\<lambda>i.
     let t = db_messaging d in
     case find (same_delivery event) (tb_rows t) of
       Some r \<Rightarrow>
         (let d' = d\<lparr>db_messaging := t\<lparr>tb_seq := i\<rparr>\<rparr>
          in try_bind (messaging_into_entry d' r) (\<lambda>entry. Inr (Event_Existing entry, d')))
     | None \<Rightarrow>
         Inr (Event_Inserted i,
           d\<lparr>db_messaging := keep_newest max_messaging_events (tbl_push i (new_messaging_row event i) t)\<rparr>))"

(* messaging/store.rs 49-95 insert_dedup *)
definition messaging_insert_dedup :: "messaging_event \<Rightarrow> dedup_insert db_op" where
  "messaging_insert_dedup event = with_tx (messaging_insert_tx event)"

section \<open>Marking\<close>

text \<open>\<open>COALESCE\<close> of a parameter and the column.\<close>

definition coalesce :: "'a option \<Rightarrow> 'a option \<Rightarrow> 'a option" where
  "coalesce a b = (if a = None then b else a)"

definition terminal_row ::
    "messaging_event_status \<Rightarrow> string option \<Rightarrow> reply_record option \<Rightarrow> nat \<Rightarrow> messaging_row \<Rightarrow> messaging_row" where
  "terminal_row status error reply now r =
     r\<lparr>mg_status := messaging_status_as_wire status, mg_processed_at := Some (as_i64 now),
       mg_error := map_option (\<lambda>e. truncate_utf8_boundary e max_error_len) error,
       mg_reply_outbox_id := coalesce (map_option rpr_outbox_id reply) (mg_reply_outbox_id r),
       mg_reply_kind := coalesce (map_option rpr_kind reply) (mg_reply_kind r),
       mg_reply_summary :=
         coalesce (map_option (\<lambda>v. truncate_utf8_boundary (rpr_summary v) max_reply_summary_len) reply) (mg_reply_summary r)\<rparr>"

(* messaging/store.rs 131-162 mark_terminal *)
definition messaging_mark_terminal ::
    "int \<Rightarrow> messaging_event_status \<Rightarrow> string option \<Rightarrow> reply_record option \<Rightarrow> nat \<Rightarrow> unit db_op" where
  "messaging_mark_terminal i status error reply now = with_conn (\<lambda>d.
     Inr ((), d\<lparr>db_messaging := sql_update (\<lambda>r. mg_id r = i) (terminal_row status error reply now) (db_messaging d)\<rparr>))"

(* messaging/store.rs 97-99 mark_processed *)
definition messaging_mark_processed :: "int \<Rightarrow> nat \<Rightarrow> unit db_op" where
  "messaging_mark_processed i now = messaging_mark_terminal i Msg_Processed None None now"

(* messaging/store.rs 101-108 mark_processed_with_reply *)
definition messaging_mark_processed_with_reply :: "int \<Rightarrow> reply_record option \<Rightarrow> nat \<Rightarrow> unit db_op" where
  "messaging_mark_processed_with_reply i reply now = messaging_mark_terminal i Msg_Processed None reply now"

(* messaging/store.rs 114-129 mark_failed_with_reply *)
definition messaging_mark_failed_with_reply :: "int \<Rightarrow> string \<Rightarrow> reply_record option \<Rightarrow> nat \<Rightarrow> unit db_op" where
  "messaging_mark_failed_with_reply i error reply now = messaging_mark_terminal i Msg_Failed (Some error) reply now"

(* messaging/store.rs 110-112 mark_failed *)
definition messaging_mark_failed :: "int \<Rightarrow> string \<Rightarrow> nat \<Rightarrow> unit db_op" where
  "messaging_mark_failed i error now = messaging_mark_failed_with_reply i error None now"

section \<open>Reads\<close>

(* messaging/store.rs 164-201 list *)
definition messaging_list :: "string option \<Rightarrow> db \<Rightarrow> messaging_entry list app_result" where
  "messaging_list integration_id d =
     try_map (messaging_into_entry d) (take messaging_list_limit (rev
       (case integration_id of
          Some i \<Rightarrow> sql_select (\<lambda>r. mg_integration_id r = i) (db_messaging d)
        | None \<Rightarrow> tb_rows (db_messaging d))))"

(* messaging/store.rs 203-217 get_entry *)
definition messaging_get_entry :: "int \<Rightarrow> db \<Rightarrow> messaging_entry option app_result" where
  "messaging_get_entry i d =
     (case by_id mg_id i (db_messaging d) of
        None \<Rightarrow> Inr None
      | Some r \<Rightarrow> try_bind (messaging_into_entry d r) (\<lambda>entry. Inr (Some entry)))"

(* messaging/store.rs 219-229 received_ids *)
definition messaging_received_ids :: "db \<Rightarrow> int list" where
  "messaging_received_ids d = map mg_id (take 500 (sql_select (\<lambda>r. mg_status r = ''received'') (db_messaging d)))"

(* messaging/store.rs 231-240 get_raw_summary *)
definition messaging_get_raw_summary :: "int \<Rightarrow> db \<Rightarrow> string option app_result" where
  "messaging_get_raw_summary i d = Inr (map_option mg_raw_summary (by_id mg_id i (db_messaging d)))"

section \<open>Commands\<close>

(* messaging/service.rs 208-212 ReviewCommandKind *)
datatype review_command_kind = Command_Review | Command_Check

(* messaging/service.rs 190-206 MessagingCommand *)
datatype messaging_command =
  Cmd_Help
| Cmd_Status
| Cmd_Answer string string
| Cmd_Cancel string
| Cmd_Review string nat review_command_kind

(* messaging/service.rs 215-220 ReviewCommandKind::extra_args *)
fun command_extra_args :: "review_command_kind \<Rightarrow> string" where
  "command_extra_args Command_Review = []"
| "command_extra_args Command_Check = ''--check''"

(* messaging/service.rs 222-227 ReviewCommandKind::as_wire *)
fun command_kind_wire :: "review_command_kind \<Rightarrow> string" where
  "command_kind_wire Command_Review = ''review''"
| "command_kind_wire Command_Check = ''check''"

fun parse_review_flags :: "review_command_kind \<Rightarrow> string list \<Rightarrow> review_command_kind app_result" where
  "parse_review_flags kind [] = Inr kind"
| "parse_review_flags kind (part # parts) =
     (if part = ''--check'' then parse_review_flags Command_Check parts
      else Inl (AppError ((''/review '' @ utf8 [0x53C2, 0x6570, 0x4E0D, 0x652F, 0x6301] @ '': '') @ part @ (utf8 [0xFF08, 0x4EC5, 0x652F, 0x6301] @ '' --check'' @ utf8 [0xFF09]))))"

fun parse_review_command :: "string list \<Rightarrow> messaging_command app_result" where
  "parse_review_command [] = Inl (AppError (''/review '' @ utf8 [0x9700, 0x8981, 0x9879, 0x76EE] @ '' id '' @ utf8 [0x6216] @ '' repo''))"
| "parse_review_command [reference] = Inl (AppError (''/review '' @ utf8 [0x9700, 0x8981] @ '' PR '' @ utf8 [0x53F7]))"
| "parse_review_command (reference # number # parts) =
     (case parse_u64 number of
        None \<Rightarrow> Inl (AppError (''/review PR '' @ utf8 [0x53F7, 0x5FC5, 0x987B, 0x662F, 0x6B63, 0x6574, 0x6570]))
      | Some pr_number \<Rightarrow>
          if pr_number = 0 then Inl (AppError (''/review PR '' @ utf8 [0x53F7, 0x5FC5, 0x987B, 0x5927, 0x4E8E] @ '' 0''))
          else try_bind (parse_review_flags Command_Review parts) (\<lambda>kind.
            Inr (Cmd_Review reference pr_number kind)))"

(* messaging/service.rs 877-938 parse_command *)
definition parse_command :: "string \<Rightarrow> messaging_command app_result" where
  "parse_command text =
     (case split_whitespace text of
        [] \<Rightarrow> Inl (AppError (utf8 [0x6D88, 0x606F, 0x547D, 0x4EE4, 0x4E0D, 0x80FD, 0x4E3A, 0x7A7A]))
      | command # parts \<Rightarrow>
          if command = ''/help'' then Inr Cmd_Help
          else if command = ''/status'' then Inr Cmd_Status
          else if command = ''/answer'' then
            (case parts of
               [] \<Rightarrow> Inl (AppError (''/answer '' @ utf8 [0x9700, 0x8981] @ '' Q-id''))
             | request_id # rest \<Rightarrow>
                 if trim (join '' '' rest) = [] then Inl (AppError (''/answer '' @ utf8 [0x9700, 0x8981, 0x7B54, 0x6848]))
                 else Inr (Cmd_Answer request_id (join '' '' rest)))
          else if command = ''/cancel'' then
            (case parts of
               [] \<Rightarrow> Inl (AppError (''/cancel '' @ utf8 [0x9700, 0x8981] @ '' Q-id''))
             | [request_id] \<Rightarrow> Inr (Cmd_Cancel request_id)
             | _ \<Rightarrow> Inl (AppError (''/cancel '' @ utf8 [0x53EA, 0x63A5, 0x53D7, 0x4E00, 0x4E2A] @ '' Q-id'')))
          else if command = ''/review'' then parse_review_command parts
          else Inl (AppError ((utf8 [0x672A, 0x77E5, 0x547D, 0x4EE4, 0xFF1A]) @ command)))"

(* messaging/service.rs 940-945 command_allowed_without_mention *)
fun command_allowed_without_mention :: "messaging_command \<Rightarrow> bool" where
  "command_allowed_without_mention (Cmd_Answer _ _) = True"
| "command_allowed_without_mention (Cmd_Cancel _) = True"
| "command_allowed_without_mention _ = False"

(* messaging/service.rs 967-969 help_text *)
definition help_text :: string where
  "help_text =
     (utf8 [0x53EF, 0x7528, 0x547D, 0x4EE4, 0xFF1A]) @ [CHR 0x0A] @ ''/help'' @ [CHR 0x0A] @ ''/status'' @ [CHR 0x0A]
     @ ''/review <project|repo> <pr-number> [--check]'' @ [CHR 0x0A] @ (''/answer <Q-id> <'' @ utf8 [0x7B54, 0x6848] @ ''>'') @ [CHR 0x0A] @ ''/cancel <Q-id>''"

(* messaging/service.rs 947-965 passive_status *)
definition passive_status :: "app_config app_result \<Rightarrow> bool \<Rightarrow> string app_result" where
  "passive_status load codex_stopped =
     try_bind load (\<lambda>cfg.
     Inr ((''prmonitor '' @ utf8 [0x72B6, 0x6001]) @ [CHR 0x0A] @ (utf8 [0x9879, 0x76EE, 0x6570, 0xFF1A]) @ dec (length (cfg_projects cfg)) @ [CHR 0x0A]
       @ (utf8 [0x6D88, 0x606F, 0x96C6, 0x6210, 0xFF1A]) @ dec (length (filter mi_enabled (cfg_integrations cfg))) @ [CHR 0x0A]
       @ (if codex_stopped then ''codex: stopped'' else ''codex: desired-running'')))"

section \<open>Replies\<close>

(* messaging/service.rs 972-980 ReplyKind *)
datatype reply_kind =
  Unauthorized_Reply | InvalidCommand_Reply | Help_Reply | Status_Reply | ReviewQueued_Reply | ReviewFailed_Reply
| HumanInput_Reply

(* messaging/service.rs 997-1009 ReplyKind::as_wire *)
fun reply_kind_wire :: "reply_kind \<Rightarrow> string" where
  "reply_kind_wire Unauthorized_Reply = ''unauthorized''"
| "reply_kind_wire InvalidCommand_Reply = ''invalid-command''"
| "reply_kind_wire Help_Reply = ''help''"
| "reply_kind_wire Status_Reply = ''status''"
| "reply_kind_wire ReviewQueued_Reply = ''review-queued''"
| "reply_kind_wire ReviewFailed_Reply = ''review-failed''"
| "reply_kind_wire HumanInput_Reply = ''human-input''"

(* messaging/service.rs 983-995 ProcessingOutcome *)
record processing_outcome =
  po_reply :: "reply_record option"
  po_business_error :: "string option"

definition with_reply :: "reply_record \<Rightarrow> processing_outcome" where
  "with_reply reply = \<lparr>po_reply = Some reply, po_business_error = None\<rparr>"

text \<open>The application with the broker of human input.\<close>

record chat =
  ch_world :: world
  ch_broker :: human_broker

definition on_world :: "(world \<Rightarrow> 'a \<times> world) \<Rightarrow> chat \<Rightarrow> 'a \<times> chat" where
  "on_world f c = (let (r, w) = f (ch_world c) in (r, c\<lparr>ch_world := w\<rparr>))"

definition on_human :: "(human_state \<Rightarrow> 'a \<times> human_state) \<Rightarrow> chat \<Rightarrow> 'a \<times> chat" where
  "on_human f c =
     (let (r, s) = f \<lparr>hs_db = w_db (ch_world c), hs_broker = ch_broker c\<rparr>
      in (r, \<lparr>ch_world = (ch_world c)\<lparr>w_db := hs_db s\<rparr>, ch_broker = hs_broker s\<rparr>))"

(* lib.rs 104-121 MessagingActionsImpl::enqueue_reply *)
definition actions_enqueue_reply ::
    "string \<Rightarrow> action_payload json_text \<Rightarrow> string \<Rightarrow> world \<Rightarrow> int app_result \<times> world" where
  "actions_enqueue_reply summary payload dedupe_key w =
     service_enqueue_deduped messaging_outbox_scope Kind_MessagingReply summary payload dedupe_key w"

definition reply_dedupe_key :: "messaging_event \<Rightarrow> reply_kind \<Rightarrow> string" where
  "reply_dedupe_key event kind =
     ''reply:'' @ provider_as_wire (me_provider event) @ '':'' @ me_event_id event @ '':'' @ reply_kind_wire kind"

(* messaging/service.rs 1011-1052 enqueue_reply *)
definition enqueue_reply ::
    "messaging_integration \<Rightarrow> messaging_event \<Rightarrow> reply_kind \<Rightarrow> string \<Rightarrow> chat \<Rightarrow> reply_record app_result \<times> chat" where
  "enqueue_reply integration event kind text c =
     (let payload = ReplyPayload \<lparr>mrp_integration_id = mi_id integration, mrp_provider = mi_kind integration,
            mrp_conversation_id = me_conversation_id event, mrp_message_id = me_thread_id event,
            mrp_thread_id = me_thread_id event, mrp_text = text\<rparr>;
          summary = ''Messaging reply '' @ reply_kind_wire kind;
          (r, c) = on_world (actions_enqueue_reply summary (JsonOf payload) (reply_dedupe_key event kind)) c
      in (try_bind r (\<lambda>outbox_id.
            Inr \<lparr>rpr_outbox_id = outbox_id, rpr_kind = reply_kind_wire kind, rpr_summary = summary\<rparr>), c))"

definition reply_outcome ::
    "messaging_integration \<Rightarrow> messaging_event \<Rightarrow> reply_kind \<Rightarrow> string \<Rightarrow> string option \<Rightarrow> chat
      \<Rightarrow> processing_outcome app_result \<times> chat" where
  "reply_outcome integration event kind text business_error c =
     (let (r, c) = enqueue_reply integration event kind text c
      in (try_bind r (\<lambda>reply. Inr ((with_reply reply)\<lparr>po_business_error := business_error\<rparr>)), c))"

section \<open>The commands on requests for human input\<close>

definition command_answers :: "human_request \<Rightarrow> string \<Rightarrow> human_answer list" where
  "command_answers request value =
     (let answers = List.map_filter (\<lambda>part.
            case split_once CHR ''='' part of
              None \<Rightarrow> None
            | Some (question_id, answer) \<Rightarrow>
                if list_ex (\<lambda>q. hq_id q = trim question_id) (hir_questions request)
                then Some \<lparr>ha_question_id = trim question_id, ha_answer = trim answer\<rparr> else None)
            (split_all CHR '';'' value)
      in if answers = []
         then [\<lparr>ha_question_id = (case hir_questions request of q # _ \<Rightarrow> hq_id q | [] \<Rightarrow> ''q1''), ha_answer = value\<rparr>]
         else answers)"

fun answer_source :: "messaging_provider_kind \<Rightarrow> human_source app_result" where
  "answer_source Feishu = Inr Src_Feishu"
| "answer_source DingTalk = Inr Src_DingTalk"
| "answer_source WeChatWork = Inl (AppError (utf8 [0x4F01, 0x4E1A, 0x5FAE, 0x4FE1, 0x4E0D, 0x652F, 0x6301, 0x957F, 0x8FDE, 0x63A5] @ '' /answer'' @ utf8 [0xFF1B, 0x8BF7, 0x4F7F, 0x7528, 0x652F, 0x6301, 0x4E92, 0x52A8, 0x95EE, 0x7B54, 0x7684, 0x901A, 0x9053]))"

text \<open>The request a command names, if it belongs to the integration and the conversation.\<close>

definition own_request ::
    "messaging_integration \<Rightarrow> messaging_event \<Rightarrow> string \<Rightarrow> db \<Rightarrow> human_request app_result" where
  "own_request integration event request_id d =
     try_bind (human_get request_id d) (\<lambda>found.
     try_bind (ok_or found (AppError ((utf8 [0x4EBA, 0x5DE5, 0x8F93, 0x5165, 0x8BF7, 0x6C42, 0x4E0D, 0x5B58, 0x5728] @ '': '') @ request_id))) (\<lambda>request.
     if hir_integration_id request \<noteq> mi_id integration \<or> hir_conversation_id request \<noteq> me_conversation_id event
     then Inl (AppError (utf8 [0x4EBA, 0x5DE5, 0x8F93, 0x5165, 0x8BF7, 0x6C42, 0x4E0D, 0x5C5E, 0x4E8E, 0x5F53, 0x524D, 0x96C6, 0x6210] @ ''/'' @ utf8 [0x4F1A, 0x8BDD]))
     else Inr request))"

fun outcome_text :: "answer_outcome \<Rightarrow> string" where
  "outcome_text Won = (utf8 [0x5DF2, 0x63D0, 0x4EA4, 0xFF0C] @ ''Codex '' @ utf8 [0x5C06, 0x7EE7, 0x7EED, 0x6267, 0x884C, 0x3002])"
| "outcome_text (AlreadyAnswered source) =
     (utf8 [0x8BE5, 0x95EE, 0x9898, 0x5DF2, 0x7531] @ '' '') @ (case source of Some s \<Rightarrow> human_source_as_str s | None \<Rightarrow> (utf8 [0x5176, 0x4ED6, 0x901A, 0x9053])) @ ('' '' @ utf8 [0x56DE, 0x7B54, 0x3002])"

(* messaging/service.rs 673-751 process_event *)
definition process_answer ::
    "messaging_integration \<Rightarrow> messaging_event \<Rightarrow> string \<Rightarrow> string \<Rightarrow> chat \<Rightarrow> processing_outcome app_result \<times> chat" where
  "process_answer integration event request_id value c =
     (case try_bind (own_request integration event request_id (w_db (ch_world c))) (\<lambda>request.
             try_bind (answer_source (me_provider event)) (\<lambda>source. Inr (command_answers request value, source))) of
        Inl e \<Rightarrow> (Inl e, c)
      | Inr (answers, source) \<Rightarrow>
          (let (now, c) = on_world now_epoch c in
           case on_human (human_answer_request request_id answers source now) c of
             (Inl e, c) \<Rightarrow> (Inl e, c)
           | (Inr outcome, c) \<Rightarrow> reply_outcome integration event HumanInput_Reply (outcome_text outcome) None c))"

(* messaging/service.rs 752-781 process_event *)
definition process_cancel ::
    "messaging_integration \<Rightarrow> messaging_event \<Rightarrow> string \<Rightarrow> chat \<Rightarrow> processing_outcome app_result \<times> chat" where
  "process_cancel integration event request_id c =
     (case own_request integration event request_id (w_db (ch_world c)) of
        Inl e \<Rightarrow> (Inl e, c)
      | Inr _ \<Rightarrow>
          (let (now, c) = on_world now_epoch c in
           case on_human (human_cancel request_id now) c of
             (Inl e, c) \<Rightarrow> (Inl e, c)
           | (Inr cancelled, c) \<Rightarrow>
               reply_outcome integration event HumanInput_Reply
                 (if cancelled then (utf8 [0x5DF2, 0x53D6, 0x6D88, 0x4EBA, 0x5DE5, 0x8F93, 0x5165, 0x8BF7, 0x6C42, 0x3002]) else (utf8 [0x8BE5, 0x8BF7, 0x6C42, 0x5DF2, 0x7ED3, 0x675F, 0xFF0C, 0x65E0, 0x6CD5, 0x53D6, 0x6D88, 0x3002])) None c))"

section \<open>Reviews\<close>

record messaging_env =
  gx_load :: "app_config app_result"
  gx_submit :: submit_env
  gx_digest_hex :: "string \<Rightarrow> string"
  gx_codex_stopped :: bool

text \<open>The first sixteen bytes of the digest, in hexadecimal.\<close>

(* messaging/service.rs 830-847 messaging_review_request_id *)
definition messaging_review_request_id :: "(string \<Rightarrow> string) \<Rightarrow> messaging_event \<Rightarrow> string" where
  "messaging_review_request_id digest_hex event =
     (let provider_message_id = (if trim (me_thread_id event) = [] then me_event_id event else me_thread_id event)
      in take 32 (digest_hex (provider_as_wire (me_provider event) @ [CHR 0x00] @ me_integration_id event @ [CHR 0x00]
           @ provider_message_id)))"

(* messaging/service.rs 782-826 process_event *)
definition process_review ::
    "messaging_env \<Rightarrow> messaging_integration \<Rightarrow> messaging_event \<Rightarrow> string \<Rightarrow> nat \<Rightarrow> review_command_kind \<Rightarrow> chat
      \<Rightarrow> processing_outcome app_result \<times> chat" where
  "process_review env integration event reference pr_number kind c =
     (case on_world (submit_review (gx_submit env) (gx_load env) reference pr_number (command_extra_args kind)
             (messaging_review_request_id (gx_digest_hex env) event) MessagingBot False) c of
        (Inr receipt, c) \<Rightarrow>
          reply_outcome integration event ReviewQueued_Reply
            ((utf8 [0x5DF2, 0x5165, 0x961F] @ '' '') @ command_kind_wire kind @ (utf8 [0xFF1A]) @ reference @ '' #'' @ dec pr_number @ [CHR 0x0A]
             @ ''Receipt: '' @ dec_int receipt) None c
      | (Inl e, c) \<Rightarrow>
          reply_outcome integration event ReviewFailed_Reply ((''review '' @ utf8 [0x5165, 0x961F, 0x5931, 0x8D25, 0xFF1A]) @ message e) (Some (message e)) c)"

section \<open>Processing an event\<close>

(* messaging/service.rs 655-672 process_event *)
fun run_command ::
    "messaging_env \<Rightarrow> messaging_integration \<Rightarrow> messaging_event \<Rightarrow> messaging_command \<Rightarrow> chat
      \<Rightarrow> processing_outcome app_result \<times> chat" where
  "run_command env integration event Cmd_Help c =
     reply_outcome integration event Help_Reply help_text None c"
| "run_command env integration event Cmd_Status c =
     (case passive_status (gx_load env) (gx_codex_stopped env) of
        Inl e \<Rightarrow> (Inl e, c)
      | Inr status \<Rightarrow> reply_outcome integration event Status_Reply status None c)"
| "run_command env integration event (Cmd_Answer request_id value) c =
     process_answer integration event request_id value c"
| "run_command env integration event (Cmd_Cancel request_id) c = process_cancel integration event request_id c"
| "run_command env integration event (Cmd_Review reference pr_number kind) c =
     process_review env integration event reference pr_number kind c"

definition needs_mention :: "messaging_integration \<Rightarrow> messaging_event \<Rightarrow> bool" where
  "needs_mention integration event \<longleftrightarrow>
     mi_require_mention integration \<and> \<not> me_mentioned_bot event \<and>
     \<not> (case parse_command (me_text event) of Inr command \<Rightarrow> command_allowed_without_mention command | Inl _ \<Rightarrow> False)"

(* messaging/service.rs 617-654 process_event *)
definition process_event ::
    "messaging_env \<Rightarrow> messaging_integration \<Rightarrow> messaging_event \<Rightarrow> chat \<Rightarrow> processing_outcome app_result \<times> chat" where
  "process_event env integration event c =
     (if \<not> conversation_allowed integration (me_conversation_id event)
      then reply_outcome integration event Unauthorized_Reply (utf8 [0x5F53, 0x524D, 0x4F1A, 0x8BDD, 0x672A, 0x6388, 0x6743, 0x4F7F, 0x7528] @ '' prmonitor'' @ utf8 [0x3002]) None c
      else if needs_mention integration event then (Inr \<lparr>po_reply = None, po_business_error = None\<rparr>, c)
      else case parse_command (me_text event) of
        Inl e \<Rightarrow> reply_outcome integration event InvalidCommand_Reply (message e @ [CHR 0x0A] @ help_text) None c
      | Inr command \<Rightarrow> run_command env integration event command c)"

definition mark_result ::
    "int \<Rightarrow> processing_outcome app_result \<Rightarrow> nat \<Rightarrow> unit db_op" where
  "mark_result i result now =
     (case result of
        Inr outcome \<Rightarrow>
          (case po_business_error outcome of
             Some error \<Rightarrow> messaging_mark_failed_with_reply i error (po_reply outcome) now
           | None \<Rightarrow> messaging_mark_processed_with_reply i (po_reply outcome) now)
      | Inl e \<Rightarrow> messaging_mark_failed i (message e) now)"

(* messaging/service.rs 380-401 process_and_mark *)
definition process_and_mark ::
    "messaging_env \<Rightarrow> int \<Rightarrow> messaging_integration \<Rightarrow> messaging_event \<Rightarrow> chat \<Rightarrow> unit app_result \<times> chat" where
  "process_and_mark env i integration event c =
     (let (result, c) = process_event env integration event c;
          (now, c) = on_world now_epoch c
      in case on_world (on_db (mark_result i result now)) c of
           (Inl e, c) \<Rightarrow> (Inl e, c)
         | (Inr _, c) \<Rightarrow> (try_bind result (\<lambda>_. Inr ()), c))"

section \<open>Deliveries over HTTP\<close>

(* messaging/provider.rs 19-22 Verification *)
datatype verification = UrlVerification string | Verified_Event

(* messaging/service.rs 185-188 IngestResponse *)
datatype ingest_response = Challenge string | Ack

record messaging_provider =
  pv_verify :: "messaging_integration \<Rightarrow> verification app_result"
  pv_parse_event :: "messaging_integration \<Rightarrow> nat \<Rightarrow> messaging_event app_result"

(* messaging/service.rs 230-265 ingest *)
definition messaging_ingest ::
    "messaging_env \<Rightarrow> messaging_provider \<Rightarrow> messaging_provider_kind \<Rightarrow> string \<Rightarrow> chat \<Rightarrow> ingest_response app_result \<times> chat" where
  "messaging_ingest env provider provider_kind integration_id c =
     (case find_integration (gx_load env) integration_id of
        Inl e \<Rightarrow> (Inl e, c)
      | Inr integration \<Rightarrow>
          if \<not> mi_enabled integration
          then (Inl (AppError ((''messagingIntegrationId '' @ utf8 [0x5DF2, 0x7981, 0x7528] @ '': '') @ integration_id)), c)
          else if mi_kind integration \<noteq> provider_kind
          then (Inl (AppError ((''messagingIntegrationId provider '' @ utf8 [0x4E0D, 0x5339, 0x914D] @ '': '') @ integration_id)), c)
          else case pv_verify provider integration of
            Inl e \<Rightarrow> (Inl e, c)
          | Inr (UrlVerification challenge) \<Rightarrow> (Inr (Challenge challenge), c)
          | Inr Verified_Event \<Rightarrow>
              (let (now, c) = on_world now_epoch c in
               case pv_parse_event provider integration now of
                 Inl e \<Rightarrow> (Inl e, c)
               | Inr event \<Rightarrow>
                   (case on_world (on_db (messaging_insert_dedup event)) c of
                      (Inl e, c) \<Rightarrow> (Inl e, c)
                    | (Inr (Event_Existing _), c) \<Rightarrow> (Inr Ack, c)
                    | (Inr (Event_Inserted i), c) \<Rightarrow>
                        (case process_and_mark env i integration event c of
                           (Inl e, c) \<Rightarrow> (Inl e, c)
                         | (Inr _, c) \<Rightarrow> (Inr Ack, c)))))"

section \<open>Deliveries over a long connection\<close>

fun supports_long_connection :: "messaging_provider_kind \<Rightarrow> bool" where
  "supports_long_connection Feishu = True"
| "supports_long_connection DingTalk = True"
| "supports_long_connection WeChatWork = False"

(* messaging/service.rs 318-340 validate_long_connection_integration *)
definition validate_long_connection_integration ::
    "messaging_integration \<Rightarrow> messaging_integration \<Rightarrow> messaging_provider_kind \<Rightarrow> unit app_result" where
  "validate_long_connection_integration current connected expected =
     (if \<not> mi_enabled current then Inl (AppError (utf8 [0x6D88, 0x606F, 0x96C6, 0x6210, 0x5DF2, 0x7981, 0x7528, 0xFF0C, 0x62D2, 0x7EDD, 0x957F, 0x8FDE, 0x63A5, 0x4E8B, 0x4EF6]))
      else if mi_kind current \<noteq> expected \<or> mi_kind connected \<noteq> expected \<or> mi_id connected \<noteq> mi_id current
      then Inl (AppError (utf8 [0x957F, 0x8FDE, 0x63A5, 0x4E8B, 0x4EF6] @ '' provider '' @ utf8 [0x4E0D, 0x5339, 0x914D]))
      else if \<not> supports_long_connection expected then Inl (AppError (utf8 [0x8BE5, 0x6D88, 0x606F, 0x96C6, 0x6210, 0x4E0D, 0x652F, 0x6301, 0x957F, 0x8FDE, 0x63A5, 0x5165, 0x7AD9]))
      else if current \<noteq> connected then Inl (AppError (utf8 [0x957F, 0x8FDE, 0x63A5, 0x914D, 0x7F6E] @ '' generation '' @ utf8 [0x5DF2, 0x5931, 0x6548]))
      else Inr ())"

(* messaging/service.rs 306-316 validate_long_connection_event *)
definition validate_long_connection_event ::
    "messaging_integration \<Rightarrow> messaging_integration \<Rightarrow> messaging_event \<Rightarrow> unit app_result" where
  "validate_long_connection_event current connected event =
     try_bind (validate_long_connection_integration current connected (mi_kind current)) (\<lambda>_.
     if me_provider event \<noteq> mi_kind current \<or> me_integration_id event \<noteq> mi_id current
     then Inl (AppError (utf8 [0x957F, 0x8FDE, 0x63A5, 0x4E8B, 0x4EF6] @ '' provider '' @ utf8 [0x4E0D, 0x5339, 0x914D]))
     else Inr ())"

(* messaging/service.rs 297-304 validate_current_long_connection *)
definition validate_current_long_connection ::
    "app_config app_result \<Rightarrow> messaging_integration \<Rightarrow> messaging_provider_kind \<Rightarrow> unit app_result" where
  "validate_current_long_connection load connected expected =
     try_bind (find_integration load (mi_id connected)) (\<lambda>current.
     validate_long_connection_integration current connected expected)"

text \<open>The answer says whether the worker is woken.\<close>

(* messaging/service.rs 269-281 persist_verified_long_connection_event *)
definition persist_verified_long_connection_event ::
    "app_config app_result \<Rightarrow> messaging_integration \<Rightarrow> messaging_event \<Rightarrow> chat \<Rightarrow> bool app_result \<times> chat" where
  "persist_verified_long_connection_event load connected event c =
     (case try_bind (find_integration load (mi_id connected)) (\<lambda>current.
             validate_long_connection_event current connected event) of
        Inl e \<Rightarrow> (Inl e, c)
      | Inr _ \<Rightarrow>
          (case on_world (on_db (messaging_insert_dedup event)) c of
             (Inl e, c) \<Rightarrow> (Inl e, c)
           | (Inr (Event_Inserted _), c) \<Rightarrow> (Inr True, c)
           | (Inr (Event_Existing _), c) \<Rightarrow> (Inr False, c)))"

section \<open>The worker\<close>

text \<open>The integration under which a stored event is processed, or why it fails.\<close>

definition integration_for_stored :: "messaging_env \<Rightarrow> messaging_event \<Rightarrow> string + messaging_integration" where
  "integration_for_stored env event =
     (case find_integration (gx_load env) (me_integration_id event) of
        Inr integration \<Rightarrow>
          if mi_enabled integration \<and> mi_kind integration = me_provider event then Inr integration
          else if mi_enabled integration then Inl (utf8 [0x6D88, 0x606F, 0x96C6, 0x6210] @ '' provider '' @ utf8 [0x5DF2, 0x53D8, 0x66F4, 0xFF0C, 0x62D2, 0x7EDD, 0x5904, 0x7406, 0x65E7, 0x4E8B, 0x4EF6])
          else Inl (utf8 [0x6D88, 0x606F, 0x96C6, 0x6210, 0x5DF2, 0x7981, 0x7528, 0xFF0C, 0x65E0, 0x6CD5, 0x5904, 0x7406, 0x6301, 0x4E45, 0x5316, 0x4E8B, 0x4EF6])
      | Inl e \<Rightarrow> Inl ((utf8 [0x6D88, 0x606F, 0x96C6, 0x6210, 0x4E0D, 0x53EF, 0x7528] @ '': '') @ message e))"

fun drain_ids :: "messaging_env \<Rightarrow> int list \<Rightarrow> chat \<Rightarrow> unit app_result \<times> chat" where
  "drain_ids env [] c = (Inr (), c)"
| "drain_ids env (i # ids) c =
     (case messaging_get_entry i (w_db (ch_world c)) of
        Inl e \<Rightarrow> (Inl e, c)
      | Inr None \<Rightarrow> drain_ids env ids c
      | Inr (Some entry) \<Rightarrow>
          (case integration_for_stored env (mv_event entry) of
             Inl error \<Rightarrow>
               (let (now, c) = on_world now_epoch c in
                case on_world (on_db (messaging_mark_failed i error now)) c of
                  (Inl e, c) \<Rightarrow> (Inl e, c)
                | (Inr _, c) \<Rightarrow> drain_ids env ids c)
           | Inr integration \<Rightarrow> drain_ids env ids (snd (process_and_mark env i integration (mv_event entry) c))))"

(* messaging/service.rs 127-182 drain_received *)
partial_function (option) drain_received :: "messaging_env \<Rightarrow> chat \<Rightarrow> (unit app_result \<times> chat) option" where
  "drain_received env c =
     (let ids = messaging_received_ids (w_db (ch_world c)) in
      if ids = [] then Some (Inr (), c)
      else case drain_ids env ids c of
        (Inl e, c) \<Rightarrow> Some (Inl e, c)
      | (Inr _, c) \<Rightarrow> drain_received env c)"

section \<open>Replay and execution\<close>

(* messaging/service.rs 371-378 ensure_replay_allowed *)
fun ensure_replay_allowed :: "messaging_event_status \<Rightarrow> unit app_result" where
  "ensure_replay_allowed Msg_Received = Inr ()"
| "ensure_replay_allowed Msg_Failed = Inr ()"
| "ensure_replay_allowed Msg_Processed =
     Inl (AppError (''messagingEvent '' @ utf8 [0x5DF2, 0x5904, 0x7406, 0xFF0C, 0x4E0D, 0x80FD, 0x91CD, 0x653E, 0xFF1B, 0x8BF7, 0x53EA, 0x91CD, 0x653E] @ '' failed/received '' @ utf8 [0x4E8B, 0x4EF6]))"

definition replayable :: "messaging_env \<Rightarrow> int \<Rightarrow> db \<Rightarrow> (messaging_integration \<times> messaging_event) app_result" where
  "replayable env i d =
     try_bind (messaging_get_entry i d) (\<lambda>found.
     try_bind (ok_or found (AppError ((''messagingEventId '' @ utf8 [0x4E0D, 0x5B58, 0x5728] @ '': '') @ dec_int i))) (\<lambda>entry.
     try_bind (find_integration (gx_load env) (me_integration_id (mv_event entry))) (\<lambda>integration.
     if \<not> mi_enabled integration then Inl (AppError ((''messagingIntegrationId '' @ utf8 [0x5DF2, 0x7981, 0x7528] @ '': '') @ mi_id integration))
     else if mi_kind integration \<noteq> me_provider (mv_event entry)
     then Inl (AppError (''messagingEvent provider '' @ utf8 [0x4E0E, 0x5F53, 0x524D, 0x96C6, 0x6210, 0x4E0D, 0x5339, 0x914D]))
     else try_bind (ensure_replay_allowed (mv_status entry)) (\<lambda>_. Inr (integration, mv_event entry)))))"

(* messaging/service.rs 349-369 replay *)
definition messaging_replay :: "messaging_env \<Rightarrow> int \<Rightarrow> chat \<Rightarrow> unit app_result \<times> chat" where
  "messaging_replay env i c =
     (case replayable env i (w_db (ch_world c)) of
        Inl e \<Rightarrow> (Inl e, c)
      | Inr (integration, event) \<Rightarrow> process_and_mark env i integration event c)"

(* messaging/service.rs 403-424 execute_reply *)
definition execute_reply ::
    "app_config app_result \<Rightarrow> (messaging_integration \<Rightarrow> messaging_reply_payload \<Rightarrow> action_execution_result app_result)
      \<Rightarrow> messaging_reply_payload \<Rightarrow> action_execution_result app_result" where
  "execute_reply load reply payload =
     try_bind (find_integration load (mrp_integration_id payload)) (\<lambda>m.
     if \<not> mi_enabled m then Inr (Exec_Dead ((utf8 [0x6D88, 0x606F, 0x96C6, 0x6210, 0x300C]) @ mi_name m @ (utf8 [0x300D, 0x5DF2, 0x7981, 0x7528, 0xFF0C, 0x505C, 0x6B62, 0x56DE, 0x590D])))
     else if mi_kind m \<noteq> mrp_provider payload
     then Inr (Exec_Dead ((utf8 [0x6D88, 0x606F, 0x96C6, 0x6210, 0x300C]) @ mi_name m @ (utf8 [0x300D] @ ''kind '' @ utf8 [0x5DF2, 0x4ECE] @ '' '') @ kind_debug_provider (mrp_provider payload)
            @ ('' '' @ utf8 [0x6539, 0x4E3A] @ '' '') @ kind_debug_provider (mi_kind m) @ (utf8 [0xFF0C, 0x505C, 0x6B62, 0x56DE, 0x590D])))
     else reply m payload)"

end
