(* ===== verification/Serde.thy ===== *)
theory Serde
  imports Json Text Model
begin

text \<open>
  Reading the structs of a JSON value and calling an HTTP API, as the provider adapters do. A derived
  reader takes an object (or the array of the fields in order); the text of its error is the parser's. A call
  is answered by the network, which sees the number of the call and the request.
\<close>

section \<open>Structs\<close>

definition as_struct :: "string list \<Rightarrow> jvalue \<Rightarrow> jobject option" where
  "as_struct names v =
     (case v of
        JObject m \<Rightarrow> Some m
      | JArray vs \<Rightarrow> if length vs = length names then Some (zip names vs) else None
      | _ \<Rightarrow> None)"

definition required :: "(jvalue \<Rightarrow> 'a option) \<Rightarrow> string \<Rightarrow> jobject \<Rightarrow> 'a option" where
  "required f k m = Option.bind (map_of m k) f"

text \<open>An \<open>Option\<close>: missing and null are \<open>None\<close>. A field with \<open>serde(default)\<close>: only missing is.\<close>

definition optional :: "(jvalue \<Rightarrow> 'a option) \<Rightarrow> string \<Rightarrow> jobject \<Rightarrow> 'a option option" where
  "optional f k m =
     (case map_of m k of None \<Rightarrow> Some None | Some JNull \<Rightarrow> Some None | Some v \<Rightarrow> map_option Some (f v))"

definition defaulted :: "'a \<Rightarrow> (jvalue \<Rightarrow> 'a option) \<Rightarrow> string \<Rightarrow> jobject \<Rightarrow> 'a option" where
  "defaulted d f k m = (case map_of m k of None \<Rightarrow> Some d | Some v \<Rightarrow> f v)"

fun map_all :: "('a \<Rightarrow> 'b option) \<Rightarrow> 'a list \<Rightarrow> 'b list option" where
  "map_all f [] = Some []"
| "map_all f (x # xs) = Option.bind (f x) (\<lambda>y. map_option (Cons y) (map_all f xs))"

definition jlist :: "(jvalue \<Rightarrow> 'a option) \<Rightarrow> jvalue \<Rightarrow> 'a list option" where
  "jlist f v = (case v of JArray vs \<Rightarrow> map_all f vs | _ \<Rightarrow> None)"

fun jas_i64 :: "jvalue \<Rightarrow> int option" where
  "jas_i64 (JNumber (JNat n)) = (if int n \<le> i64_max then Some (int n) else None)"
| "jas_i64 (JNumber (JNegative n)) = Some n"
| "jas_i64 _ = None"

text \<open>\<open>str::parse::<i64>\<close>: an optional sign, then digits, within the width.\<close>

definition parse_i64 :: "string \<Rightarrow> int option" where
  "parse_i64 s =
     (case s of
        [] \<Rightarrow> None
      | c # ds \<Rightarrow>
          if c = CHR ''-'' then
            (if ds \<noteq> [] \<and> list_all is_ascii_digit ds \<and> int (decimal_value ds) \<le> i64_max + 1
             then Some (- int (decimal_value ds)) else None)
          else map_option int (parse_unsigned (nat i64_max) s))"

text \<open>\<open>json!\<close> of an object literal.\<close>

definition jobj :: "(string \<times> jvalue) list \<Rightarrow> jvalue" where
  "jobj es = JObject (obj_of es)"

section \<open>Writing\<close>

definition jcount :: "nat \<Rightarrow> jvalue" where "jcount n = JNumber (JNat n)"

definition jint :: "int \<Rightarrow> jvalue" where
  "jint i = JNumber (if 0 \<le> i then JNat (nat i) else JNegative i)"

definition jopt :: "('a \<Rightarrow> jvalue) \<Rightarrow> 'a option \<Rightarrow> jvalue" where
  "jopt f v = (case v of None \<Rightarrow> JNull | Some x \<Rightarrow> f x)"

text \<open>\<open>skip_serializing_if\<close>.\<close>

definition given :: "string \<Rightarrow> ('a \<Rightarrow> jvalue) \<Rightarrow> 'a option \<Rightarrow> (string \<times> jvalue) list" where
  "given k f v = (case v of None \<Rightarrow> [] | Some x \<Rightarrow> [(k, f x)])"

lemma jas_jint [simp]: "- i64_max - 1 \<le> i \<Longrightarrow> i \<le> i64_max \<Longrightarrow> jas_i64 (jint i) = Some i"
  by (simp add: jint_def)

lemma jas_jcount [simp]: "jas_u64 (jcount n) = Some n"
  by (simp add: jcount_def)

lemma jopt_cases [simp]: "jopt f None = JNull" "jopt f (Some x) = f x"
  by (simp_all add: jopt_def)

lemma not_null [simp]: "jint i \<noteq> JNull" "jcount n \<noteq> JNull" "jobj es \<noteq> JNull"
  by (simp_all add: jint_def jcount_def jobj_def)

lemma keys_obj_of: "set (map fst (obj_of es)) = set (map fst es)"
proof -
  have "set (map fst (fold (\<lambda>(k, v). obj_insert k v) es m)) = set (map fst es) \<union> set (map fst m)" for m
  proof (induction es arbitrary: m)
    case (Cons e es)
    obtain k v where "e = (k, v)" by (cases e)
    with Cons [of "obj_insert k v m"] keys_obj_insert [of k v m] show ?case by simp
  qed simp
  from this [of "[]"] show ?thesis by (simp add: obj_of_def)
qed

text \<open>The range of the integers of the wire.\<close>

definition i64_ok :: "int \<Rightarrow> bool" where "i64_ok i \<longleftrightarrow> - i64_max - 1 \<le> i \<and> i \<le> i64_max"

lemma optional_jopt:
  "map_of m k = Some (jopt f v) \<Longrightarrow> (\<And>x. v = Some x \<Longrightarrow> f x \<noteq> JNull \<and> g (f x) = Some x) \<Longrightarrow> optional g k m = Some v"
  by (cases v) (auto simp: optional_def split: jvalue.split)

section \<open>HTTP\<close>

datatype http_method = Http_Get | Http_Post | Http_Put | Http_Patch

record http_call =
  hc_method :: http_method
  hc_url :: string
  hc_headers :: "(string \<times> string) list"
  hc_query :: "(string \<times> string) list"
  hc_body :: jvalue

text \<open>No answer, or a status with the body read or the reason it could not be.\<close>

datatype http_outcome = Transport_Error string | Response nat "string + string"

record net_env =
  nx_send :: "nat \<Rightarrow> http_call \<Rightarrow> http_outcome"
  nx_parse :: "string \<Rightarrow> string + jvalue"
  nx_shape_error :: "jvalue \<Rightarrow> string"
  nx_print :: "jvalue \<Rightarrow> string"
  nx_status_text :: "nat \<Rightarrow> string"

definition status_success :: "nat \<Rightarrow> bool" where
  "status_success s \<longleftrightarrow> 200 \<le> s \<and> s \<le> 299"

text \<open>\<open>status.as_u16() == 429 || status.is_server_error()\<close>.\<close>

definition status_transient :: "nat \<Rightarrow> bool" where
  "status_transient s \<longleftrightarrow> s = 429 \<or> (500 \<le> s \<and> s \<le> 599)"

text \<open>Reading a body as a struct.\<close>

definition read_struct :: "net_env \<Rightarrow> (jvalue \<Rightarrow> 'a option) \<Rightarrow> string + string \<Rightarrow> string + 'a" where
  "read_struct env f body =
     try_bind body (\<lambda>text.
     try_bind (nx_parse env text) (\<lambda>v.
     case f v of Some x \<Rightarrow> Inr x | None \<Rightarrow> Inl (nx_shape_error env v)))"

text \<open>A \<open>code\<close> and a message.\<close>

definition code_and_text :: "string \<Rightarrow> string \<Rightarrow> jvalue \<Rightarrow> (int \<times> string) option" where
  "code_and_text code text v =
     Option.bind (as_struct [code, text] v) (\<lambda>m.
     Option.bind (required jas_i64 code m) (\<lambda>c.
     Option.bind (required jas_str text m) (\<lambda>t. Some (c, t))))"

end
