(* ===== verification/Messaging_Adapters.thy ===== *)
theory Messaging_Adapters
  imports Messaging_Service Serde Webhook "HOL-Library.AList"
begin

text \<open>
  The adapters of Feishu and DingTalk (\<open>messaging/feishu.rs\<close>, \<open>messaging/dingtalk.rs\<close>): reading an event,
  the requests that send a text, an information card or a card that asks for human input, and how an answer
  of the API becomes the result of an outbox action.
\<close>

text \<open>
  The adapter of WeChat Work (\<open>messaging/wechat_work.rs\<close>) and what the adapters share (\<open>messaging/mod.rs\<close>,
  \<open>messaging/provider.rs\<close>): the signature and the age of a callback, its decryption, the event in it as JSON or
  XML, and sending a text. Hashes, base64, the cipher, the XML reader and UTF-8 decoding are parameters.
\<close>

section \<open>What the adapters share\<close>

text \<open>The events of the XML reader, with text trimmed; a text may fail to decode.\<close>

datatype xml_event = Xml_Start string | Xml_Text "string + string" | Xml_CData string | Xml_End | Xml_Other | Xml_Error string

record adapter_env =
  ax_net :: net_env
  ax_sha1_hex :: "string \<Rightarrow> string"
  ax_sha256_hex :: "string \<Rightarrow> string"
  ax_base64 :: "string \<Rightarrow> string + string"
  ax_aes_cbc :: "string \<Rightarrow> string \<Rightarrow> string \<Rightarrow> string + string"
  ax_xml :: "string \<Rightarrow> xml_event list"
  ax_from_utf8 :: "string \<Rightarrow> string + string"
  ax_lossy :: "string \<Rightarrow> string"

(* messaging/mod.rs 21-21 MAX_RAW_SUMMARY *)
definition max_raw_summary :: nat where "max_raw_summary = 4096"

(* messaging/mod.rs 63-77 is_secret_like_key *)
definition is_secret_like_key :: "string \<Rightarrow> bool" where
  "is_secret_like_key key \<longleftrightarrow>
     (let lower = ascii_lower key in
      list_ex (contains_sub lower)
        [''secret'', ''token'', ''authorization'', ''encrypt_key'', ''encryptkey'', ''encodingaeskey'', ''access_token'',
         ''accesstoken'', ''msg_signature'', ''sessionwebhook'', ''session_webhook'']
      \<or> lower = ''sign'')"

(* messaging/mod.rs 43-61 redact_value *)
fun redact_value :: "jvalue \<Rightarrow> jvalue" where
  "redact_value (JObject m) =
     JObject (map (\<lambda>(k, v). (k, if is_secret_like_key k then JString ''[redacted]'' else redact_value v)) m)"
| "redact_value (JArray vs) = JArray (map redact_value vs)"
| "redact_value v = v"

(* messaging/mod.rs 34-41 redact_raw_summary *)
definition redact_raw_summary :: "adapter_env \<Rightarrow> string \<Rightarrow> string" where
  "redact_raw_summary env raw =
     (let text = ax_lossy env raw;
          v = (case nx_parse (ax_net env) text of Inr v \<Rightarrow> v | Inl _ \<Rightarrow> jobj [(''raw'', JString text)])
      in truncate_utf8_boundary (nx_print (ax_net env) (redact_value v)) max_raw_summary)"

text \<open>Arithmetic on \<open>i64\<close> in a release build.\<close>

definition wrap_i64 :: "int \<Rightarrow> int" where
  "wrap_i64 x = (x + 2 ^ 63) mod 2 ^ 64 - 2 ^ 63"

definition older_than :: "int \<Rightarrow> int \<Rightarrow> int \<Rightarrow> bool" where
  "older_than limit now ts \<longleftrightarrow> limit < wrap_i64 (abs (wrap_i64 (now - ts)))"

text \<open>The result of an exchange: the calls made and what came of them.\<close>

type_synonym 'a exchange = "http_call list \<times> 'a app_result"

section \<open>Callbacks\<close>

(* messaging/wechat_work.rs 26-26 MAX_TIMESTAMP_SKEW_SECS *)
definition max_timestamp_skew_secs :: int where "max_timestamp_skew_secs = 300"

(* messaging/wechat_work.rs 318-320 header *)
definition wechat_header :: "string \<Rightarrow> http_request \<Rightarrow> string app_result" where
  "wechat_header name rq = ok_or (header_text name rq) (AppError ((utf8 [0x4F01, 0x4E1A, 0x5FAE, 0x4FE1, 0x4E8B, 0x4EF6, 0x7F3A, 0x5C11, 0x8BF7, 0x6C42, 0x5934] @ '': '') @ name))"

(* messaging/wechat_work.rs 285-304 verify_signature *)
definition wechat_verify_signature ::
    "adapter_env \<Rightarrow> string \<Rightarrow> string \<Rightarrow> string \<Rightarrow> string \<Rightarrow> string \<Rightarrow> unit app_result" where
  "wechat_verify_signature env token timestamp nonce signed_payload signature =
     (if ax_sha1_hex env (concat (sort [token, timestamp, nonce, signed_payload])) = signature then Inr ()
      else Inl (AppError (utf8 [0x4F01, 0x4E1A, 0x5FAE, 0x4FE1, 0x4E8B, 0x4EF6, 0x7B7E, 0x540D, 0x6821, 0x9A8C, 0x5931, 0x8D25])))"

(* messaging/wechat_work.rs 306-316 verify_timestamp_fresh *)
definition wechat_verify_timestamp_fresh :: "string \<Rightarrow> nat \<Rightarrow> unit app_result" where
  "wechat_verify_timestamp_fresh timestamp now =
     (case parse_i64 (trim timestamp) of
        None \<Rightarrow> Inl (AppError (utf8 [0x4F01, 0x4E1A, 0x5FAE, 0x4FE1, 0x4E8B, 0x4EF6] @ '' timestamp '' @ utf8 [0x65E0, 0x6548]))
      | Some seconds \<Rightarrow>
          if older_than max_timestamp_skew_secs (as_i64 now) seconds
          then Inl (AppError (utf8 [0x4F01, 0x4E1A, 0x5FAE, 0x4FE1, 0x4E8B, 0x4EF6] @ '' timestamp '' @ utf8 [0x5DF2, 0x8FC7, 0x671F])) else Inr ())"

text \<open>The fields of an XML document: each start tag opens a field, each end tag closes it.\<close>

fun xml_walk :: "xml_event list \<Rightarrow> string option \<Rightarrow> (string \<times> string) list \<Rightarrow> (string \<times> string) list app_result" where
  "xml_walk [] current found = Inr found"
| "xml_walk (Xml_Start name # es) current found = xml_walk es (Some name) found"
| "xml_walk (Xml_Text t # es) current found =
     (case current of
        None \<Rightarrow> xml_walk es current found
      | Some key \<Rightarrow>
          (case t of
             Inl e \<Rightarrow> Inl (AppError ((utf8 [0x4F01, 0x4E1A, 0x5FAE, 0x4FE1] @ '' XML '' @ utf8 [0x6587, 0x672C, 0x89E3, 0x6790, 0x5931, 0x8D25] @ '': '') @ e))
           | Inr v \<Rightarrow> xml_walk es current (AList.update key v found)))"
| "xml_walk (Xml_CData v # es) current found =
     xml_walk es current (case current of None \<Rightarrow> found | Some key \<Rightarrow> AList.update key v found)"
| "xml_walk (Xml_End # es) current found = xml_walk es None found"
| "xml_walk (Xml_Other # es) current found = xml_walk es current found"
| "xml_walk (Xml_Error e # es) current found = Inl (AppError ((utf8 [0x4F01, 0x4E1A, 0x5FAE, 0x4FE1, 0x4E8B, 0x4EF6] @ '' XML '' @ utf8 [0x89E3, 0x6790, 0x5931, 0x8D25] @ '': '') @ e))"

(* messaging/wechat_work.rs 190-223 xml_fields *)
definition xml_fields :: "adapter_env \<Rightarrow> string \<Rightarrow> (string \<times> string) list app_result" where
  "xml_fields env xml = xml_walk (ax_xml env xml) None []"

(* messaging/wechat_work.rs 225-235 encrypted_payload *)
definition encrypted_payload :: "adapter_env \<Rightarrow> string \<Rightarrow> string option" where
  "encrypted_payload env raw =
     (case nx_parse (ax_net env) raw of
        Inr v \<Rightarrow> Option.bind (or_else (jget ''Encrypt'' v) (jget ''encrypt'' v)) jas_str
      | Inl _ \<Rightarrow>
          (case ax_from_utf8 env raw of
             Inl _ \<Rightarrow> None
           | Inr xml \<Rightarrow> (case xml_fields env xml of Inl _ \<Rightarrow> None | Inr found \<Rightarrow> map_of found ''Encrypt'')))"

(* messaging/wechat_work.rs 272-283 decode_encoding_aes_key *)
definition decode_encoding_aes_key :: "adapter_env \<Rightarrow> string \<Rightarrow> string app_result" where
  "decode_encoding_aes_key env v =
     (let padded = (if length v mod 4 = 0 then v else v @ replicate (4 - length v mod 4) CHR ''='') in
      case ax_base64 env padded of
        Inl e \<Rightarrow> Inl (AppError ((utf8 [0x4F01, 0x4E1A, 0x5FAE, 0x4FE1] @ '' EncodingAESKey base64 '' @ utf8 [0x89E3, 0x7801, 0x5931, 0x8D25] @ '': '') @ e))
      | Inr decoded \<Rightarrow>
          if length decoded = 32 then Inr decoded
          else Inl (AppError (utf8 [0x4F01, 0x4E1A, 0x5FAE, 0x4FE1] @ '' EncodingAESKey '' @ utf8 [0x5FC5, 0x987B, 0x89E3, 0x7801, 0x4E3A] @ '' 32 '' @ utf8 [0x5B57, 0x8282])))"

definition be_u32 :: "string \<Rightarrow> nat" where
  "be_u32 bs = foldl (\<lambda>n c. 256 * n + byte_of c) 0 bs"

text \<open>After sixteen random bytes come the length of the text, the text and the id of the receiver.\<close>

definition open_plaintext :: "adapter_env \<Rightarrow> string \<Rightarrow> string \<Rightarrow> string app_result" where
  "open_plaintext env expected plaintext =
     (if length plaintext < 20 then Inl (AppError (utf8 [0x4F01, 0x4E1A, 0x5FAE, 0x4FE1, 0x52A0, 0x5BC6, 0x6D88, 0x606F, 0x660E, 0x6587, 0x957F, 0x5EA6, 0x4E0D, 0x8DB3]))
      else
        let msg_len = be_u32 (take 4 (drop 16 plaintext)) in
        if length plaintext < 20 + msg_len then Inl (AppError (utf8 [0x4F01, 0x4E1A, 0x5FAE, 0x4FE1, 0x52A0, 0x5BC6, 0x6D88, 0x606F, 0x957F, 0x5EA6, 0x5B57, 0x6BB5, 0x65E0, 0x6548]))
        else
          try_bind (map_error (\<lambda>e. AppError ((utf8 [0x4F01, 0x4E1A, 0x5FAE, 0x4FE1] @ '' receiveId '' @ utf8 [0x4E0D, 0x662F] @ '' UTF-8: '') @ e))
            (ax_from_utf8 env (drop (20 + msg_len) plaintext))) (\<lambda>receive_id.
          if expected \<noteq> [] \<and> receive_id \<noteq> expected
          then Inl (AppError (utf8 [0x4F01, 0x4E1A, 0x5FAE, 0x4FE1, 0x52A0, 0x5BC6, 0x6D88, 0x606F] @ '' receiveId '' @ utf8 [0x4E0E] @ '' Corp ID '' @ utf8 [0x4E0D, 0x5339, 0x914D]))
          else map_error (\<lambda>e. AppError ((utf8 [0x4F01, 0x4E1A, 0x5FAE, 0x4FE1, 0x52A0, 0x5BC6, 0x6D88, 0x606F, 0x6B63, 0x6587, 0x4E0D, 0x662F] @ '' UTF-8: '') @ e))
                 (ax_from_utf8 env (take msg_len (drop 20 plaintext)))))"

(* messaging/wechat_work.rs 237-270 decrypt_wechat_payload *)
definition decrypt_wechat_payload :: "adapter_env \<Rightarrow> messaging_integration \<Rightarrow> string \<Rightarrow> string app_result" where
  "decrypt_wechat_payload env integration encrypted =
     try_bind (decode_encoding_aes_key env (trim (mi_encrypt_key integration))) (\<lambda>key.
     try_bind (map_error (\<lambda>e. AppError ((utf8 [0x4F01, 0x4E1A, 0x5FAE, 0x4FE1, 0x52A0, 0x5BC6, 0x6D88, 0x606F] @ '' base64 '' @ utf8 [0x89E3, 0x7801, 0x5931, 0x8D25] @ '': '') @ e)) (ax_base64 env encrypted)) (\<lambda>ciphertext.
     try_bind (map_error (\<lambda>e. AppError ((utf8 [0x4F01, 0x4E1A, 0x5FAE, 0x4FE1, 0x52A0, 0x5BC6, 0x6D88, 0x606F] @ '' AES '' @ utf8 [0x89E3, 0x5BC6, 0x5931, 0x8D25] @ '': '') @ e))
       (ax_aes_cbc env key (take 16 key) ciphertext)) (\<lambda>plaintext.
     open_plaintext env (trim (mi_app_id integration)) plaintext)))"

text \<open>The signature is checked before the age.\<close>

definition wechat_authenticate ::
    "adapter_env \<Rightarrow> messaging_integration \<Rightarrow> http_request \<Rightarrow> string \<Rightarrow> nat \<Rightarrow> unit app_result" where
  "wechat_authenticate env integration rq payload now =
     try_bind (wechat_header ''x-wechatwork-timestamp'' rq) (\<lambda>timestamp.
     try_bind (wechat_header ''x-wechatwork-nonce'' rq) (\<lambda>nonce.
     try_bind (wechat_header ''x-wechatwork-msg-signature'' rq) (\<lambda>signature.
     try_bind (wechat_verify_signature env (trim (mi_verification_token integration)) timestamp nonce payload signature)
       (\<lambda>_. wechat_verify_timestamp_fresh timestamp now))))"

(* messaging/wechat_work.rs 44-81 WeChatWorkProvider::verify *)
definition wechat_verify :: "adapter_env \<Rightarrow> http_request \<Rightarrow> nat \<Rightarrow> messaging_integration \<Rightarrow> verification app_result" where
  "wechat_verify env rq now integration =
     (case header_text ''x-wechatwork-echostr'' rq of
        Some challenge \<Rightarrow>
          try_bind (wechat_authenticate env integration rq challenge now) (\<lambda>_.
          Inr (UrlVerification (case decrypt_wechat_payload env integration challenge of
            Inr text \<Rightarrow> text | Inl _ \<Rightarrow> challenge)))
      | None \<Rightarrow>
          (let body = (case ax_from_utf8 env (rq_body rq) of Inr s \<Rightarrow> s | Inl _ \<Rightarrow> []);
               signed = unwrap_or body (encrypted_payload env (rq_body rq))
           in try_bind (wechat_authenticate env integration rq signed now) (\<lambda>_. Inr Verified_Event)))"

section \<open>Events\<close>

(* messaging/wechat_work.rs 446-465 WeChatWorkEvent *)
record wechat_event =
  we_msg_id :: "string option"
  we_msg_type :: "string option"
  we_from_user_name :: "string option"
  we_room_id :: "string option"
  we_chat_id :: "string option"
  we_content :: "string option"
  we_is_at_all :: "nat option"
  we_to_user_name :: "string option"

fun jas_u8 :: "jvalue \<Rightarrow> nat option" where
  "jas_u8 (JNumber (JNat n)) = (if n \<le> 255 then Some n else None)"
| "jas_u8 _ = None"

definition wechat_fields :: "string list" where
  "wechat_fields = [''MsgId'', ''MsgType'', ''FromUserName'', ''RoomId'', ''ChatId'', ''Content'', ''IsAtAll'', ''ToUserName'']"

definition wechat_event_of_json :: "jvalue \<Rightarrow> wechat_event option" where
  "wechat_event_of_json v =
     Option.bind (as_struct wechat_fields v) (\<lambda>m.
     Option.bind (optional jas_str ''MsgId'' m) (\<lambda>msg_id.
     Option.bind (optional jas_str ''MsgType'' m) (\<lambda>msg_type.
     Option.bind (optional jas_str ''FromUserName'' m) (\<lambda>from.
     Option.bind (optional jas_str ''RoomId'' m) (\<lambda>room.
     Option.bind (optional jas_str ''ChatId'' m) (\<lambda>chat.
     Option.bind (optional jas_str ''Content'' m) (\<lambda>content.
     Option.bind (optional jas_u8 ''IsAtAll'' m) (\<lambda>at_all.
     Option.bind (optional jas_str ''ToUserName'' m) (\<lambda>to.
     Some \<lparr>we_msg_id = msg_id, we_msg_type = msg_type, we_from_user_name = from, we_room_id = room, we_chat_id = chat,
           we_content = content, we_is_at_all = at_all, we_to_user_name = to\<rparr>)))))))))"

(* messaging/wechat_work.rs 169-172 parse_json_event *)
definition parse_json_event :: "adapter_env \<Rightarrow> jvalue \<Rightarrow> wechat_event app_result" where
  "parse_json_event env v =
     ok_or (wechat_event_of_json v) (AppError ((utf8 [0x4F01, 0x4E1A, 0x5FAE, 0x4FE1, 0x4E8B, 0x4EF6, 0x7ED3, 0x6784, 0x89E3, 0x6790, 0x5931, 0x8D25] @ '': '') @ nx_shape_error (ax_net env) v))"

(* messaging/wechat_work.rs 174-188 parse_xml_event *)
definition parse_xml_event :: "adapter_env \<Rightarrow> string \<Rightarrow> wechat_event app_result" where
  "parse_xml_event env raw =
     try_bind (map_error (\<lambda>e. AppError ((utf8 [0x4F01, 0x4E1A, 0x5FAE, 0x4FE1, 0x4E8B, 0x4EF6] @ '' XML '' @ utf8 [0x4E0D, 0x662F] @ '' UTF-8: '') @ e)) (ax_from_utf8 env raw)) (\<lambda>xml.
     try_bind (xml_fields env xml) (\<lambda>found.
     Inr \<lparr>we_msg_id = map_of found ''MsgId'', we_msg_type = map_of found ''MsgType'',
          we_from_user_name = map_of found ''FromUserName'', we_room_id = map_of found ''RoomId'',
          we_chat_id = map_of found ''ChatId'', we_content = map_of found ''Content'',
          we_is_at_all = Option.bind (map_of found ''IsAtAll'') (parse_unsigned 255),
          we_to_user_name = map_of found ''ToUserName''\<rparr>))"

(* messaging/wechat_work.rs 468-474 WeChatWorkEvent::conversation_id *)
definition wechat_conversation_id :: "wechat_event \<Rightarrow> string" where
  "wechat_conversation_id e = unwrap_or [] (or_else (or_else (we_chat_id e) (we_room_id e)) (we_from_user_name e))"

(* messaging/wechat_work.rs 476-483 WeChatWorkEvent::mentioned_bot *)
definition wechat_mentioned_bot :: "wechat_event \<Rightarrow> string \<Rightarrow> bool" where
  "wechat_mentioned_bot e bot_open_id \<longleftrightarrow>
     we_is_at_all e = Some 1 \<or> (bot_open_id \<noteq> [] \<and> we_to_user_name e = Some bot_open_id)"

definition non_blank :: "string option \<Rightarrow> string option" where
  "non_blank v = (case v of Some s \<Rightarrow> if trim s = [] then None else Some s | None \<Rightarrow> None)"

(* messaging/wechat_work.rs 128-167 parse_plain_event *)
definition parse_plain_event ::
    "adapter_env \<Rightarrow> string \<Rightarrow> messaging_integration \<Rightarrow> nat \<Rightarrow> string \<Rightarrow> messaging_event app_result" where
  "parse_plain_event env raw integration now summary_source =
     try_bind (case nx_parse (ax_net env) raw of Inr v \<Rightarrow> parse_json_event env v | Inl _ \<Rightarrow> parse_xml_event env raw) (\<lambda>e.
     if unwrap_or ''text'' (we_msg_type e) \<noteq> ''text'' then Inl (AppError (utf8 [0x4F01, 0x4E1A, 0x5FAE, 0x4FE1, 0x4E8B, 0x4EF6, 0x4E0D, 0x662F, 0x6587, 0x672C, 0x6D88, 0x606F, 0xFF0C, 0x5DF2, 0x5FFD, 0x7565]))
     else Inr \<lparr>me_provider = WeChatWork, me_integration_id = mi_id integration,
            me_event_id = unwrap_or (''sha1:'' @ ax_sha1_hex env raw) (non_blank (we_msg_id e)),
            me_conversation_id = wechat_conversation_id e, me_thread_id = unwrap_or [] (we_msg_id e),
            me_sender_id = unwrap_or [] (we_from_user_name e), me_text = trim (unwrap_or [] (we_content e)),
            me_mentioned_bot = wechat_mentioned_bot e (trim (mi_bot_open_id integration)),
            me_raw_payload = redact_raw_summary env summary_source, me_received_at_epoch = now\<rparr>)"

(* messaging/wechat_work.rs 83-94 WeChatWorkProvider::parse_event *)
definition wechat_parse_event ::
    "adapter_env \<Rightarrow> string \<Rightarrow> messaging_integration \<Rightarrow> nat \<Rightarrow> messaging_event app_result" where
  "wechat_parse_event env raw integration now =
     (case encrypted_payload env raw of
        Some encrypted \<Rightarrow>
          try_bind (decrypt_wechat_payload env integration encrypted) (\<lambda>decrypted.
          parse_plain_event env decrypted integration now raw)
      | None \<Rightarrow> parse_plain_event env raw integration now raw)"

section \<open>Sending\<close>

definition wechat_token_call :: "messaging_integration \<Rightarrow> http_call" where
  "wechat_token_call integration =
     \<lparr>hc_method = Http_Get, hc_url = ''https://qyapi.weixin.qq.com/cgi-bin/gettoken'', hc_headers = [],
      hc_query = [(''corpid'', trim (mi_app_id integration)), (''corpsecret'', trim (mi_app_secret integration))],
      hc_body = JNull\<rparr>"

definition wechat_token_body :: "jvalue \<Rightarrow> (int \<times> string \<times> string option) option" where
  "wechat_token_body v =
     Option.bind (as_struct [''errcode'', ''errmsg'', ''access_token''] v) (\<lambda>m.
     Option.bind (required jas_i64 ''errcode'' m) (\<lambda>c.
     Option.bind (required jas_str ''errmsg'' m) (\<lambda>t.
     Option.bind (optional jas_str ''access_token'' m) (\<lambda>token. Some (c, t, token)))))"

definition non_empty_string :: "string option \<Rightarrow> string option" where
  "non_empty_string v = (case v of Some s \<Rightarrow> if s = [] then None else Some s | None \<Rightarrow> None)"

(* messaging/wechat_work.rs 368-405 access_token *)
definition wechat_access_token :: "net_env \<Rightarrow> messaging_integration \<Rightarrow> string app_result" where
  "wechat_access_token env integration =
     (case nx_send env 0 (wechat_token_call integration) of
        Transport_Error e \<Rightarrow> Inl (AppError ((utf8 [0x4F01, 0x4E1A, 0x5FAE, 0x4FE1] @ '' access_token '' @ utf8 [0x8BF7, 0x6C42, 0x5931, 0x8D25] @ '': '') @ e))
      | Response status body \<Rightarrow>
          try_bind (map_error (\<lambda>e. AppError ((utf8 [0x4F01, 0x4E1A, 0x5FAE, 0x4FE1] @ '' access_token '' @ utf8 [0x54CD, 0x5E94, 0x89E3, 0x6790, 0x5931, 0x8D25] @ '': '') @ e))
            (read_struct env wechat_token_body body)) (\<lambda>(errcode, errmsg, token).
          if errcode \<noteq> 0 then Inl (AppError ((utf8 [0x4F01, 0x4E1A, 0x5FAE, 0x4FE1] @ '' access_token '' @ utf8 [0x5931, 0x8D25] @ '': '') @ errmsg))
          else ok_or (non_empty_string token) (AppError (utf8 [0x4F01, 0x4E1A, 0x5FAE, 0x4FE1] @ '' access_token '' @ utf8 [0x54CD, 0x5E94, 0x7F3A, 0x5C11] @ '' token''))))"

(* messaging/wechat_work.rs 407-444 classify_wechat_response *)
definition classify_wechat_response ::
    "net_env \<Rightarrow> nat \<Rightarrow> string + string \<Rightarrow> string \<Rightarrow> action_execution_result app_result" where
  "classify_wechat_response env status body op =
     (if status_transient status
      then Inr (Exec_Retry (op @ ('' '' @ utf8 [0x6682, 0x65F6, 0x5931, 0x8D25] @ '': HTTP '') @ nx_status_text env status) None)
      else if \<not> status_success status
      then Inr (Exec_Dead (op @ ('' '' @ utf8 [0x4E0D, 0x53EF, 0x91CD, 0x8BD5, 0x5931, 0x8D25] @ '': HTTP '') @ nx_status_text env status))
      else
        try_bind (map_error (\<lambda>e. AppError (op @ ('' '' @ utf8 [0x54CD, 0x5E94, 0x89E3, 0x6790, 0x5931, 0x8D25] @ '': '') @ e))
          (read_struct env (code_and_text ''errcode'' ''errmsg'') body)) (\<lambda>(errcode, errmsg).
        if errcode = 0 then Inr (Exec_Done Output_None)
        else if errcode = 45009 \<or> errcode = 45047 then Inr (Exec_Retry (op @ ('' '' @ utf8 [0x6682, 0x65F6, 0x5931, 0x8D25] @ '': '') @ errmsg) None)
        else Inr (Exec_Dead (op @ ('' '' @ utf8 [0x5931, 0x8D25] @ '': '') @ errmsg))))"

(* messaging/wechat_work.rs 337-366 send_text *)
definition wechat_send_text ::
    "net_env \<Rightarrow> messaging_integration \<Rightarrow> string \<Rightarrow> string \<Rightarrow> action_execution_result exchange" where
  "wechat_send_text env integration conversation_id text =
     (let token_call = wechat_token_call integration in
      case wechat_access_token env integration of
        Inl e \<Rightarrow> ([token_call], Inl e)
      | Inr token \<Rightarrow>
          (case parse_u64 (trim (mi_bot_open_id integration)) of
             None \<Rightarrow> ([token_call], Inl (AppError (utf8 [0x4F01, 0x4E1A, 0x5FAE, 0x4FE1] @ '' AgentId '' @ utf8 [0x5FC5, 0x987B, 0x662F, 0x6570, 0x5B57])))
           | Some agent_id \<Rightarrow>
               (let call = \<lparr>hc_method = Http_Post, hc_url = ''https://qyapi.weixin.qq.com/cgi-bin/message/send'',
                      hc_headers = [], hc_query = [(''access_token'', token)],
                      hc_body = jobj [(''touser'', JString conversation_id), (''msgtype'', JString ''text''),
                        (''agentid'', JNumber (JNat agent_id)), (''text'', jobj [(''content'', JString text)]),
                        (''safe'', JNumber (JNat 0))]\<rparr>
                in ([token_call, call],
                    case nx_send env 1 call of
                      Transport_Error e \<Rightarrow> Inl (AppError ((utf8 [0x4F01, 0x4E1A, 0x5FAE, 0x4FE1, 0x53D1, 0x9001, 0x6D88, 0x606F, 0x8BF7, 0x6C42, 0x5931, 0x8D25] @ '': '') @ e))
                    | Response status body \<Rightarrow> classify_wechat_response env status body (utf8 [0x4F01, 0x4E1A, 0x5FAE, 0x4FE1, 0x53D1, 0x9001, 0x6D88, 0x606F])))))"

(* messaging/wechat_work.rs 105-125 WeChatWorkProvider::send *)
definition wechat_send ::
    "net_env \<Rightarrow> messaging_integration \<Rightarrow> string \<Rightarrow> messaging_send_content \<Rightarrow> action_execution_result exchange" where
  "wechat_send env integration conversation_id content =
     (case content of
        Text text \<Rightarrow> wechat_send_text env integration conversation_id text
      | Card _ _ _ \<Rightarrow>
          ([], Inr (Exec_Dead ((utf8 [0x4FE1, 0x606F, 0x5361, 0x7247, 0x4E0D, 0x53D7, 0x652F, 0x6301, 0xFF0C, 0x6D88, 0x606F, 0x96C6, 0x6210, 0x300C]) @ mi_name integration @ (utf8 [0x300D, 0x662F] @ '' '')
             @ provider_as_wire (mi_kind integration)))))"

(* messaging/wechat_work.rs 96-103 WeChatWorkProvider::reply *)
definition wechat_reply ::
    "net_env \<Rightarrow> messaging_integration \<Rightarrow> messaging_reply_payload \<Rightarrow> action_execution_result exchange" where
  "wechat_reply env integration payload =
     wechat_send_text env integration (mrp_conversation_id payload) (mrp_text payload)"

section \<open>Feishu: callbacks\<close>

(* messaging/feishu.rs 20-20 MAX_SIGNATURE_AGE_SECS *)
definition max_signature_age_secs :: int where "max_signature_age_secs = 300"

(* messaging/feishu.rs 25-27 human_input_choice_field_name *)
definition choice_field_name :: "nat \<Rightarrow> string" where "choice_field_name index = ''q_'' @ dec index @ ''_choice''"

(* messaging/feishu.rs 29-31 human_input_custom_field_name *)
definition custom_field_name :: "nat \<Rightarrow> string" where "custom_field_name index = ''q_'' @ dec index @ ''_custom''"

(* messaging/feishu.rs 33-35 human_input_option_value *)
definition option_value :: "nat \<Rightarrow> string" where "option_value index = ''o_'' @ dec index"

(* messaging/feishu.rs 75-97 FeishuProvider::verify_url_challenge *)
definition feishu_url_challenge :: "adapter_env \<Rightarrow> string \<Rightarrow> messaging_integration \<Rightarrow> string option app_result" where
  "feishu_url_challenge env raw integration =
     (case nx_parse (ax_net env) raw of
        Inl _ \<Rightarrow> Inr None
      | Inr v \<Rightarrow>
          if jget_as jas_str ''type'' v \<noteq> Some ''url_verification'' then Inr None
          else if unwrap_or [] (jget_as jas_str ''token'' v) \<noteq> trim (mi_verification_token integration)
          then Inl (AppError (utf8 [0x98DE, 0x4E66] @ '' URL '' @ utf8 [0x6821, 0x9A8C] @ '' token '' @ utf8 [0x4E0D, 0x5339, 0x914D]))
          else try_bind (ok_or (jget_as jas_str ''challenge'' v) (AppError (utf8 [0x98DE, 0x4E66] @ '' URL '' @ utf8 [0x6821, 0x9A8C, 0x7F3A, 0x5C11] @ '' challenge''))) (\<lambda>c. Inr (Some c)))"

(* messaging/feishu.rs 237-243 header *)
definition feishu_header :: "string \<Rightarrow> http_request \<Rightarrow> string app_result" where
  "feishu_header name rq = ok_or (header_text name rq) (AppError ((utf8 [0x98DE, 0x4E66, 0x4E8B, 0x4EF6, 0x7F3A, 0x5C11, 0x8BF7, 0x6C42, 0x5934] @ '': '') @ name))"

(* messaging/feishu.rs 249-258 verify_timestamp_fresh *)
definition feishu_verify_timestamp_fresh :: "string \<Rightarrow> nat \<Rightarrow> unit app_result" where
  "feishu_verify_timestamp_fresh timestamp now =
     (case parse_i64 timestamp of
        None \<Rightarrow> Inl (AppError (utf8 [0x98DE, 0x4E66, 0x4E8B, 0x4EF6] @ '' timestamp '' @ utf8 [0x975E, 0x6CD5]))
      | Some ts \<Rightarrow>
          if older_than max_signature_age_secs (as_i64 now) ts then Inl (AppError (utf8 [0x98DE, 0x4E66, 0x4E8B, 0x4EF6] @ '' timestamp '' @ utf8 [0x5DF2, 0x8FC7, 0x671F]))
          else Inr ())"

(* messaging/feishu.rs 99-118 FeishuProvider::verify_signature *)
definition feishu_verify_signature ::
    "adapter_env \<Rightarrow> http_request \<Rightarrow> nat \<Rightarrow> messaging_integration \<Rightarrow> unit app_result" where
  "feishu_verify_signature env rq now integration =
     try_bind (feishu_header ''x-lark-request-timestamp'' rq) (\<lambda>timestamp.
     try_bind (feishu_verify_timestamp_fresh timestamp now) (\<lambda>_.
     try_bind (feishu_header ''x-lark-request-nonce'' rq) (\<lambda>nonce.
     try_bind (feishu_header ''x-lark-signature'' rq) (\<lambda>signature.
     if ax_sha256_hex env (timestamp @ nonce @ trim (mi_encrypt_key integration) @ rq_body rq) = signature then Inr ()
     else Inl (AppError (utf8 [0x98DE, 0x4E66, 0x4E8B, 0x4EF6, 0x7B7E, 0x540D, 0x6821, 0x9A8C, 0x5931, 0x8D25]))))))"

(* messaging/feishu.rs 137-148 FeishuProvider::verify *)
definition feishu_verify :: "adapter_env \<Rightarrow> http_request \<Rightarrow> nat \<Rightarrow> messaging_integration \<Rightarrow> verification app_result" where
  "feishu_verify env rq now integration =
     try_bind (feishu_url_challenge env (rq_body rq) integration) (\<lambda>challenge.
     case challenge of
       Some c \<Rightarrow> Inr (UrlVerification c)
     | None \<Rightarrow> try_bind (feishu_verify_signature env rq now integration) (\<lambda>_. Inr Verified_Event))"

section \<open>Feishu: events\<close>

(* messaging/feishu.rs 604-645 FeishuEnvelope *)
record feishu_message =
  fe_event_id :: string
  fe_event_type :: string
  fe_token :: string
  fe_sender :: string
  fe_message_id :: string
  fe_chat_id :: string
  fe_content :: string
  fe_message_type :: "string option"
  fe_mentions :: "jvalue list option"

text \<open>The id of the sender: that of the user, else the open one, else the union one.\<close>

definition feishu_sender_id :: "jvalue \<Rightarrow> string option" where
  "feishu_sender_id v =
     Option.bind (as_struct [''sender_id''] v) (\<lambda>m.
     Option.bind (optional (\<lambda>i.
         Option.bind (as_struct [''user_id'', ''open_id'', ''union_id''] i) (\<lambda>m.
         Option.bind (optional jas_str ''user_id'' m) (\<lambda>user.
         Option.bind (optional jas_str ''open_id'' m) (\<lambda>opn.
         Option.bind (optional jas_str ''union_id'' m) (\<lambda>union. Some (or_else (or_else user opn) union)))))) ''sender_id'' m)
       (\<lambda>found. Some (unwrap_or [] (Option.bind found id))))"

definition feishu_envelope_of_json :: "jvalue \<Rightarrow> feishu_message option" where
  "feishu_envelope_of_json v =
     Option.bind (as_struct [''header'', ''event''] v) (\<lambda>top.
     Option.bind (required (as_struct [''event_id'', ''event_type'', ''token'']) ''header'' top) (\<lambda>h.
     Option.bind (required jas_str ''event_id'' h) (\<lambda>event_id.
     Option.bind (required jas_str ''event_type'' h) (\<lambda>event_type.
     Option.bind (defaulted [] jas_str ''token'' h) (\<lambda>token.
     Option.bind (required (as_struct [''sender'', ''message'']) ''event'' top) (\<lambda>ev.
     Option.bind (required feishu_sender_id ''sender'' ev) (\<lambda>sender.
     Option.bind (required (as_struct [''message_id'', ''chat_id'', ''content'', ''message_type'', ''mentions'']) ''message'' ev) (\<lambda>m.
     Option.bind (required jas_str ''message_id'' m) (\<lambda>message_id.
     Option.bind (required jas_str ''chat_id'' m) (\<lambda>chat_id.
     Option.bind (required jas_str ''content'' m) (\<lambda>content.
     Option.bind (optional jas_str ''message_type'' m) (\<lambda>message_type.
     Option.bind (optional (jlist Some) ''mentions'' m) (\<lambda>mentions.
     Some \<lparr>fe_event_id = event_id, fe_event_type = event_type, fe_token = token, fe_sender = sender,
           fe_message_id = message_id, fe_chat_id = chat_id, fe_content = content,
           fe_message_type = message_type, fe_mentions = mentions\<rparr>)))))))))))))"

definition open_id_of :: "jvalue \<Rightarrow> string option" where
  "open_id_of v = Option.bind (or_else (jget ''open_id'' v) (jget ''openId'' v)) jas_str"

(* messaging/feishu.rs 260-276 mentions_bot *)
definition mentions_bot :: "jvalue list \<Rightarrow> string \<Rightarrow> bool" where
  "mentions_bot mentions bot_open_id \<longleftrightarrow>
     bot_open_id \<noteq> [] \<and>
     list_ex (\<lambda>m. Option.bind (jget ''id'' m) open_id_of = Some bot_open_id \<or> open_id_of m = Some bot_open_id) mentions"

definition text_content_of_json :: "jvalue \<Rightarrow> string option" where
  "text_content_of_json v = Option.bind (as_struct [''text''] v) (required jas_str ''text'')"

(* messaging/feishu.rs 150-202 FeishuProvider::parse_event *)
definition feishu_parse_event ::
    "adapter_env \<Rightarrow> string \<Rightarrow> messaging_integration \<Rightarrow> nat \<Rightarrow> messaging_event app_result" where
  "feishu_parse_event env raw integration now =
     (let token = trim (mi_verification_token integration) in
      try_bind (map_error (\<lambda>e. AppError ((utf8 [0x98DE, 0x4E66, 0x4E8B, 0x4EF6] @ '' JSON '' @ utf8 [0x89E3, 0x6790, 0x5931, 0x8D25] @ '': '') @ e))
        (read_struct (ax_net env) feishu_envelope_of_json (Inr raw))) (\<lambda>e.
      if token \<noteq> [] \<and> trim (fe_token e) \<noteq> token then Inl (AppError (utf8 [0x98DE, 0x4E66, 0x4E8B, 0x4EF6] @ '' token '' @ utf8 [0x6821, 0x9A8C, 0x5931, 0x8D25]))
      else if fe_event_type e \<noteq> ''im.message.receive_v1''
      then Inl (AppError ((utf8 [0x98DE, 0x4E66, 0x4E8B, 0x4EF6, 0x7C7B, 0x578B, 0x4E0D, 0x652F, 0x6301] @ '': '') @ fe_event_type e))
      else if trim (fe_event_id e) = [] then Inl (AppError (utf8 [0x98DE, 0x4E66, 0x4E8B, 0x4EF6, 0x7F3A, 0x5C11] @ '' event_id''))
      else if unwrap_or ''text'' (fe_message_type e) \<noteq> ''text'' then Inl (AppError (utf8 [0x98DE, 0x4E66, 0x4E8B, 0x4EF6, 0x4E0D, 0x662F, 0x6587, 0x672C, 0x6D88, 0x606F, 0xFF0C, 0x5DF2, 0x5FFD, 0x7565]))
      else
        try_bind (map_error (\<lambda>e. AppError ((utf8 [0x98DE, 0x4E66, 0x6587, 0x672C, 0x5185, 0x5BB9, 0x89E3, 0x6790, 0x5931, 0x8D25] @ '': '') @ e))
          (read_struct (ax_net env) text_content_of_json (Inr (fe_content e)))) (\<lambda>content.
        Inr \<lparr>me_provider = Feishu, me_integration_id = mi_id integration, me_event_id = fe_event_id e,
             me_conversation_id = fe_chat_id e, me_thread_id = fe_message_id e, me_sender_id = fe_sender e,
             me_text = trim content,
             me_mentioned_bot = mentions_bot (unwrap_or [] (fe_mentions e)) (trim (mi_bot_open_id integration)),
             me_raw_payload = redact_raw_summary env raw, me_received_at_epoch = now\<rparr>)))"

section \<open>Feishu: sending\<close>

definition feishu_base_url :: string where "feishu_base_url = ''https://open.feishu.cn''"

definition feishu_token_call :: "messaging_integration \<Rightarrow> http_call" where
  "feishu_token_call integration =
     \<lparr>hc_method = Http_Post, hc_url = feishu_base_url @ ''/open-apis/auth/v3/tenant_access_token/internal'',
      hc_headers = [], hc_query = [],
      hc_body = jobj [(''app_id'', JString (mi_app_id integration)), (''app_secret'', JString (mi_app_secret integration))]\<rparr>"

definition feishu_token_body :: "jvalue \<Rightarrow> (int \<times> string \<times> string option) option" where
  "feishu_token_body v =
     Option.bind (as_struct [''code'', ''msg'', ''tenant_access_token''] v) (\<lambda>m.
     Option.bind (required jas_i64 ''code'' m) (\<lambda>c.
     Option.bind (required jas_str ''msg'' m) (\<lambda>t.
     Option.bind (optional jas_str ''tenant_access_token'' m) (\<lambda>token. Some (c, t, token)))))"

(* messaging/feishu.rs 523-563 tenant_access_token *)
definition feishu_access_token :: "net_env \<Rightarrow> messaging_integration \<Rightarrow> string app_result" where
  "feishu_access_token env integration =
     (case nx_send env 0 (feishu_token_call integration) of
        Transport_Error e \<Rightarrow> Inl (AppError ((utf8 [0x98DE, 0x4E66] @ '' tenant_access_token '' @ utf8 [0x8BF7, 0x6C42, 0x5931, 0x8D25] @ '': '') @ e))
      | Response status body \<Rightarrow>
          if \<not> status_success status
          then Inl (AppError ((utf8 [0x98DE, 0x4E66] @ '' tenant_access_token HTTP '' @ utf8 [0x5931, 0x8D25] @ '': '') @ nx_status_text env status))
          else
            try_bind (map_error (\<lambda>e. AppError ((utf8 [0x98DE, 0x4E66] @ '' tenant_access_token '' @ utf8 [0x54CD, 0x5E94, 0x89E3, 0x6790, 0x5931, 0x8D25] @ '': '') @ e))
              (read_struct env feishu_token_body body)) (\<lambda>(code, msg, token).
            if code \<noteq> 0 then Inl (AppError ((utf8 [0x98DE, 0x4E66] @ '' tenant_access_token '' @ utf8 [0x5931, 0x8D25] @ '': '') @ msg))
            else ok_or (non_empty_string token) (AppError (utf8 [0x98DE, 0x4E66] @ '' tenant_access_token '' @ utf8 [0x54CD, 0x5E94, 0x7F3A, 0x5C11] @ '' token''))))"

(* messaging/feishu.rs 565-602 classify_feishu_response *)
definition classify_feishu_response ::
    "net_env \<Rightarrow> nat \<Rightarrow> string + string \<Rightarrow> string \<Rightarrow> action_execution_result app_result" where
  "classify_feishu_response env status body op =
     (if status_transient status
      then Inr (Exec_Retry (op @ ('' '' @ utf8 [0x6682, 0x65F6, 0x5931, 0x8D25] @ '': HTTP '') @ nx_status_text env status) None)
      else if \<not> status_success status
      then Inr (Exec_Dead (op @ ('' '' @ utf8 [0x4E0D, 0x53EF, 0x91CD, 0x8BD5, 0x5931, 0x8D25] @ '': HTTP '') @ nx_status_text env status))
      else
        try_bind (map_error (\<lambda>e. AppError (op @ ('' '' @ utf8 [0x54CD, 0x5E94, 0x89E3, 0x6790, 0x5931, 0x8D25] @ '': '') @ e))
          (read_struct env (code_and_text ''code'' ''msg'') body)) (\<lambda>(code, msg).
        if code = 0 then Inr (Exec_Done Output_None)
        else if code = 99991663 \<or> code = 99991664 then Inr (Exec_Retry (op @ ('' '' @ utf8 [0x6682, 0x65F6, 0x5931, 0x8D25] @ '': '') @ msg) None)
        else Inr (Exec_Dead (op @ ('' '' @ utf8 [0x5931, 0x8D25] @ '': '') @ msg))))"

text \<open>A call with the token of the tenant.\<close>

(* messaging/feishu.rs 54-72 FeishuApiClient *)
definition feishu_exchange ::
    "net_env \<Rightarrow> messaging_integration \<Rightarrow> http_method \<Rightarrow> string \<Rightarrow> (string \<times> string) list \<Rightarrow> jvalue \<Rightarrow> string
      \<Rightarrow> (nat \<Rightarrow> string + string \<Rightarrow> 'a app_result) \<Rightarrow> 'a exchange" where
  "feishu_exchange env integration method path query body failed answered =
     (case feishu_access_token env integration of
        Inl e \<Rightarrow> ([feishu_token_call integration], Inl e)
      | Inr token \<Rightarrow>
          (let call = \<lparr>hc_method = method, hc_url = feishu_base_url @ path,
                 hc_headers = [(''authorization'', ''Bearer '' @ token)], hc_query = query, hc_body = body\<rparr>
           in ([feishu_token_call integration, call],
               case nx_send env 1 call of
                 Transport_Error e \<Rightarrow> Inl (AppError (failed @ '': '' @ e))
               | Response status b \<Rightarrow> answered status b)))"

definition text_content :: "net_env \<Rightarrow> string \<Rightarrow> jvalue" where
  "text_content env text = JString (nx_print env (jobj [(''text'', JString text)]))"

(* messaging/feishu.rs 278-297 reply_message *)
definition feishu_reply ::
    "net_env \<Rightarrow> messaging_integration \<Rightarrow> messaging_reply_payload \<Rightarrow> action_execution_result exchange" where
  "feishu_reply env integration payload =
     feishu_exchange env integration Http_Post (''/open-apis/im/v1/messages/'' @ mrp_message_id payload @ ''/reply'') []
       (jobj [(''msg_type'', JString ''text''), (''content'', text_content env (mrp_text payload))])
       (utf8 [0x98DE, 0x4E66, 0x56DE, 0x590D, 0x8BF7, 0x6C42, 0x5931, 0x8D25]) (\<lambda>status body. classify_feishu_response env status body (utf8 [0x98DE, 0x4E66, 0x56DE, 0x590D, 0x6D88, 0x606F]))"

definition messages_query :: "(string \<times> string) list" where
  "messages_query = [(''receive_id_type'', ''chat_id'')]"

(* messaging/feishu.rs 299-317 send_message *)
definition feishu_send_message ::
    "net_env \<Rightarrow> messaging_integration \<Rightarrow> string \<Rightarrow> string \<Rightarrow> action_execution_result exchange" where
  "feishu_send_message env integration conversation_id text =
     feishu_exchange env integration Http_Post ''/open-apis/im/v1/messages'' messages_query
       (jobj [(''receive_id'', JString conversation_id), (''msg_type'', JString ''text''), (''content'', text_content env text)])
       (utf8 [0x98DE, 0x4E66, 0x53D1, 0x9001, 0x6D88, 0x606F, 0x8BF7, 0x6C42, 0x5931, 0x8D25]) (\<lambda>status body. classify_feishu_response env status body (utf8 [0x98DE, 0x4E66, 0x53D1, 0x9001, 0x6D88, 0x606F]))"

definition plain_text :: "string \<Rightarrow> jvalue" where
  "plain_text s = jobj [(''tag'', JString ''plain_text''), (''content'', JString s)]"

(* messaging/feishu.rs 343-362 information_card_request *)
definition feishu_information_card_request ::
    "net_env \<Rightarrow> string \<Rightarrow> string \<Rightarrow> string \<Rightarrow> messaging_card_template \<Rightarrow> jvalue" where
  "feishu_information_card_request env conversation_id title text template =
     (let card = jobj
            [(''config'', jobj [(''wide_screen_mode'', JBool True)]),
             (''header'', jobj [(''template'', JString (card_template_as_wire template)), (''title'', plain_text title)]),
             (''elements'', JArray [jobj [(''tag'', JString ''markdown''), (''content'', JString text)]])]
      in jobj [(''receive_id'', JString conversation_id), (''msg_type'', JString ''interactive''),
               (''content'', JString (nx_print env card))])"

(* messaging/feishu.rs 320-341 send_information_card *)
definition feishu_send_information_card ::
    "net_env \<Rightarrow> messaging_integration \<Rightarrow> string \<Rightarrow> string \<Rightarrow> string \<Rightarrow> messaging_card_template
      \<Rightarrow> action_execution_result exchange" where
  "feishu_send_information_card env integration conversation_id title text template =
     feishu_exchange env integration Http_Post ''/open-apis/im/v1/messages'' messages_query
       (feishu_information_card_request env conversation_id title text template)
       (utf8 [0x98DE, 0x4E66, 0x53D1, 0x9001, 0x4FE1, 0x606F, 0x5361, 0x7247, 0x8BF7, 0x6C42, 0x5931, 0x8D25]) (\<lambda>status body. classify_feishu_response env status body (utf8 [0x98DE, 0x4E66, 0x53D1, 0x9001, 0x4FE1, 0x606F, 0x5361, 0x7247]))"

(* messaging/feishu.rs 213-234 FeishuProvider::send *)
definition feishu_send ::
    "net_env \<Rightarrow> messaging_integration \<Rightarrow> string \<Rightarrow> messaging_send_content \<Rightarrow> action_execution_result exchange" where
  "feishu_send env integration conversation_id content =
     (case content of
        Text text \<Rightarrow> feishu_send_message env integration conversation_id text
      | Card title text template \<Rightarrow> feishu_send_information_card env integration conversation_id title text template)"

section \<open>Feishu: cards that ask for human input\<close>

definition choice_element :: "nat \<Rightarrow> human_question \<Rightarrow> jvalue list" where
  "choice_element index q =
     (if hq_options q = []
      then [jobj [(''tag'', JString ''input''), (''name'', JString (custom_field_name index)), (''required'', JBool True),
                  (''placeholder'', plain_text (utf8 [0x8BF7, 0x8F93, 0x5165, 0x7B54, 0x6848]))]]
      else
        [jobj [(''tag'', JString ''select_static''), (''name'', JString (choice_field_name index)), (''required'', JBool True),
               (''placeholder'', plain_text (utf8 [0x8BF7, 0x9009, 0x62E9])),
               (''options'', JArray
                 (map (\<lambda>(i, text). jobj [(''text'', plain_text text), (''value'', JString (option_value i))])
                   (enumerate 0 (hq_options q))
                  @ [jobj [(''text'', plain_text (utf8 [0x81EA, 0x5B9A, 0x4E49, 0x8F93, 0x5165])), (''value'', JString ''custom'')]]))],
         jobj [(''tag'', JString ''input''), (''name'', JString (custom_field_name index)), (''required'', JBool False),
               (''placeholder'', plain_text ((utf8 [0x9009, 0x62E9, 0x201C, 0x81EA, 0x5B9A, 0x4E49, 0x8F93, 0x5165, 0x201D, 0x65F6, 0x586B, 0x5199])))]])"

(* messaging/feishu.rs 459-517 human_input_form *)
definition human_input_form :: "human_request \<Rightarrow> jvalue" where
  "human_input_form request =
     jobj [(''tag'', JString ''form''), (''name'', JString ''human_input_form''),
       (''elements'', JArray
         (concat (map (\<lambda>(index, q).
            jobj [(''tag'', JString ''markdown''), (''content'', JString (''**'' @ hq_question q @ ''**''))]
            # choice_element index q) (enumerate 0 (hir_questions request)))
          @ [jobj [(''tag'', JString ''button''), (''name'', JString ''human_input_submit''), (''text'', plain_text (utf8 [0x63D0, 0x4EA4, 0x7B54, 0x6848])),
                   (''type'', JString ''primary''), (''action_type'', JString ''form_submit''),
                   (''value'', jobj [(''requestId'', JString (hir_id request)), (''action'', JString ''submit'')])]]))]"

(* messaging/feishu.rs 519-521 cancel_human_input_action *)
definition cancel_human_input_action :: "human_request \<Rightarrow> jvalue" where
  "cancel_human_input_action request =
     jobj [(''tag'', JString ''action''), (''actions'', JArray
       [jobj [(''tag'', JString ''button''), (''text'', plain_text (utf8 [0x53D6, 0x6D88])), (''type'', JString ''danger''),
              (''value'', jobj [(''requestId'', JString (hir_id request)), (''questionId'', JString ''__cancel__''),
                (''answer'', JString ''__cancel__'')])]])]"

definition note_element :: "string \<Rightarrow> jvalue" where
  "note_element s = jobj [(''tag'', JString ''note''), (''elements'', JArray [plain_text s])]"

definition ended_by :: "human_request \<Rightarrow> string" where
  "ended_by request =
     (case hir_answer_source request of Some s \<Rightarrow> human_source_as_str s | None \<Rightarrow> human_status_as_str (hir_status request))"

(* messaging/feishu.rs 442-457 human_input_card *)
definition human_input_card :: "human_request \<Rightarrow> bool \<Rightarrow> jvalue" where
  "human_input_card request terminal =
     jobj [(''config'', jobj [(''wide_screen_mode'', JBool True), (''update_multi'', JBool True)]),
       (''header'', jobj [(''template'', JString (if terminal then ''grey'' else ''blue'')), (''title'', plain_text (hir_title request))]),
       (''elements'', JArray
         (jobj [(''tag'', JString ''markdown''),
                (''content'', JString (hir_message request @ [CHR 0x0A, CHR 0x0A, CHR 0x60] @ hir_id request @ [CHR 0x60]))]
          # (if terminal then [note_element ((utf8 [0x5DF2, 0x7ED3, 0x675F, 0xFF1A]) @ ended_by request)]
             else [human_input_form request, note_element (utf8 [0x4E5F, 0x53EF, 0x56DE, 0x590D] @ '' /answer <'' @ utf8 [0x7B54, 0x6848] @ ''> '' @ utf8 [0x4F5C, 0x7B54]), cancel_human_input_action request])))]"

definition card_sent_body :: "jvalue \<Rightarrow> (int \<times> string \<times> string option) option" where
  "card_sent_body v =
     Option.bind (as_struct [''code'', ''msg'', ''data''] v) (\<lambda>m.
     Option.bind (required jas_i64 ''code'' m) (\<lambda>c.
     Option.bind (required jas_str ''msg'' m) (\<lambda>t.
     Option.bind (optional (\<lambda>d. Option.bind (as_struct [''message_id''] d) (required jas_str ''message_id'')) ''data'' m) (\<lambda>i.
     Some (c, t, i)))))"

(* messaging/feishu.rs 366-402 send_human_input_card *)
definition feishu_send_human_input_card ::
    "net_env \<Rightarrow> messaging_integration \<Rightarrow> string \<Rightarrow> human_request \<Rightarrow> string exchange" where
  "feishu_send_human_input_card env integration conversation_id request =
     feishu_exchange env integration Http_Post ''/open-apis/im/v1/messages'' messages_query
       (jobj [(''receive_id'', JString conversation_id), (''msg_type'', JString ''interactive''),
              (''content'', JString (nx_print env (human_input_card request False)))])
       (utf8 [0x98DE, 0x4E66, 0x53D1, 0x9001, 0x95EE, 0x7B54, 0x5361, 0x7247, 0x5931, 0x8D25])
       (\<lambda>status body.
          if \<not> status_success status then Inl (AppError ((utf8 [0x98DE, 0x4E66, 0x53D1, 0x9001, 0x95EE, 0x7B54, 0x5361, 0x7247] @ '' HTTP '') @ nx_status_text env status))
          else
            try_bind (map_error (\<lambda>e. AppError ((utf8 [0x98DE, 0x4E66, 0x95EE, 0x7B54, 0x5361, 0x7247, 0x54CD, 0x5E94, 0x635F, 0x574F] @ '': '') @ e)) (read_struct env card_sent_body body))
              (\<lambda>(code, msg, message_id).
            if code \<noteq> 0 then Inl (AppError ((utf8 [0x98DE, 0x4E66, 0x53D1, 0x9001, 0x95EE, 0x7B54, 0x5361, 0x7247, 0x5931, 0x8D25] @ '': '') @ msg))
            else ok_or (non_empty_string message_id) (AppError (utf8 [0x98DE, 0x4E66, 0x95EE, 0x7B54, 0x5361, 0x7247, 0x54CD, 0x5E94, 0x7F3A, 0x5C11] @ '' message_id''))))"

definition card_updated_body :: "jvalue \<Rightarrow> (int \<times> string) option" where
  "card_updated_body v =
     Option.bind (as_struct [''code'', ''msg''] v) (\<lambda>m.
     Option.bind (required jas_i64 ''code'' m) (\<lambda>c.
     Option.bind (defaulted [] jas_str ''msg'' m) (\<lambda>t. Some (c, t))))"

(* messaging/feishu.rs 421-440 validate_card_update_response *)
definition validate_card_update_response :: "net_env \<Rightarrow> nat \<Rightarrow> string \<Rightarrow> unit app_result" where
  "validate_card_update_response env status raw =
     (if \<not> status_success status then Inl (AppError ((utf8 [0x98DE, 0x4E66, 0x66F4, 0x65B0, 0x95EE, 0x7B54, 0x5361, 0x7247] @ '' HTTP '') @ nx_status_text env status))
      else
        try_bind (map_error (\<lambda>e. AppError ((utf8 [0x98DE, 0x4E66, 0x66F4, 0x65B0, 0x95EE, 0x7B54, 0x5361, 0x7247, 0x54CD, 0x5E94, 0x635F, 0x574F] @ '': '') @ e)) (read_struct env card_updated_body (Inr raw)))
          (\<lambda>(code, msg).
        if code \<noteq> 0 then Inl (AppError ((utf8 [0x98DE, 0x4E66, 0x66F4, 0x65B0, 0x95EE, 0x7B54, 0x5361, 0x7247, 0x5931, 0x8D25, 0xFF08]) @ dec_int code @ (utf8 [0xFF09, 0xFF1A]) @ msg)) else Inr ()))"

(* messaging/feishu.rs 404-419 update_human_input_card *)
definition feishu_update_human_input_card ::
    "net_env \<Rightarrow> messaging_integration \<Rightarrow> string \<Rightarrow> human_request \<Rightarrow> unit exchange" where
  "feishu_update_human_input_card env integration message_id request =
     feishu_exchange env integration Http_Patch (''/open-apis/im/v1/messages/'' @ message_id) []
       (jobj [(''content'', JString (nx_print env (human_input_card request True)))])
       (utf8 [0x98DE, 0x4E66, 0x66F4, 0x65B0, 0x95EE, 0x7B54, 0x5361, 0x7247, 0x5931, 0x8D25])
       (\<lambda>status body.
          try_bind (map_error (\<lambda>e. AppError ((utf8 [0x98DE, 0x4E66, 0x66F4, 0x65B0, 0x95EE, 0x7B54, 0x5361, 0x7247, 0x54CD, 0x5E94, 0x8BFB, 0x53D6, 0x5931, 0x8D25] @ '': '') @ e)) body)
            (validate_card_update_response env status))"

section \<open>DingTalk: events\<close>

(* messaging/dingtalk.rs 115-124 DingTalkProvider::verify *)
definition dingtalk_verify :: "messaging_integration \<Rightarrow> verification app_result" where
  "dingtalk_verify integration = Inl (AppError (utf8 [0x9489, 0x9489] @ '' HTTP '' @ utf8 [0x56DE, 0x8C03, 0x5DF2, 0x7981, 0x7528, 0xFF1B, 0x8BF7, 0x5728, 0x9489, 0x9489, 0x5F00, 0x653E, 0x5E73, 0x53F0, 0x542F, 0x7528] @ '' Stream '' @ utf8 [0x6A21, 0x5F0F]))"

(* messaging/dingtalk.rs 404-421 DingTalkEvent *)
record dingtalk_event =
  de_msg_id :: "string option"
  de_msg_type :: "string option"
  de_conversation_id :: "string option"
  de_sender_id :: "string option"
  de_text :: "string option option"
  de_is_in_at_list :: "bool option"

text \<open>The two names of the type of a message exclude each other.\<close>

definition dingtalk_event_of_json :: "jvalue \<Rightarrow> dingtalk_event option" where
  "dingtalk_event_of_json v =
     Option.bind (as_struct [''msgId'', ''msgtype'', ''conversationId'', ''senderId'', ''text'', ''isInAtList'', ''atUsers''] v) (\<lambda>m.
     if has_key ''msgtype'' m \<and> has_key ''msgType'' m then None
     else
     Option.bind (optional jas_str ''msgId'' m) (\<lambda>msg_id.
     Option.bind (optional jas_str (if has_key ''msgType'' m then ''msgType'' else ''msgtype'') m) (\<lambda>msg_type.
     Option.bind (optional jas_str ''conversationId'' m) (\<lambda>conversation_id.
     Option.bind (optional jas_str ''senderId'' m) (\<lambda>sender_id.
     Option.bind (optional (\<lambda>t. Option.bind (as_struct [''content''] t) (optional jas_str ''content'')) ''text'' m) (\<lambda>text.
     Option.bind (optional jas_bool ''isInAtList'' m) (\<lambda>is_in_at_list.
     Option.bind (defaulted [] (jlist Some) ''atUsers'' m) (\<lambda>_.
     Some \<lparr>de_msg_id = msg_id, de_msg_type = msg_type, de_conversation_id = conversation_id, de_sender_id = sender_id,
           de_text = text, de_is_in_at_list = is_in_at_list\<rparr>))))))))"

(* messaging/dingtalk.rs 424-429 DingTalkEvent::mentioned_bot *)
definition dingtalk_mentioned_bot :: "dingtalk_event \<Rightarrow> bool" where
  "dingtalk_mentioned_bot e = unwrap_or False (de_is_in_at_list e)"

(* messaging/dingtalk.rs 397-402 stable_event_id *)
definition dingtalk_stable_event_id :: "adapter_env \<Rightarrow> string \<Rightarrow> string" where
  "dingtalk_stable_event_id env raw = ''sha256:'' @ ax_sha256_hex env raw"

(* messaging/dingtalk.rs 126-163 DingTalkProvider::parse_event *)
definition dingtalk_parse_event ::
    "adapter_env \<Rightarrow> string \<Rightarrow> messaging_integration \<Rightarrow> nat \<Rightarrow> messaging_event app_result" where
  "dingtalk_parse_event env raw integration now =
     try_bind (map_error (\<lambda>e. AppError ((utf8 [0x9489, 0x9489, 0x4E8B, 0x4EF6] @ '' JSON '' @ utf8 [0x89E3, 0x6790, 0x5931, 0x8D25] @ '': '') @ e))
       (read_struct (ax_net env) dingtalk_event_of_json (Inr raw))) (\<lambda>e.
     if unwrap_or ''text'' (de_msg_type e) \<noteq> ''text'' then Inl (AppError (utf8 [0x9489, 0x9489, 0x4E8B, 0x4EF6, 0x4E0D, 0x662F, 0x6587, 0x672C, 0x6D88, 0x606F, 0xFF0C, 0x5DF2, 0x5FFD, 0x7565]))
     else Inr \<lparr>me_provider = DingTalk, me_integration_id = mi_id integration,
            me_event_id = unwrap_or (dingtalk_stable_event_id env raw) (non_blank (de_msg_id e)),
            me_conversation_id = unwrap_or [] (de_conversation_id e), me_thread_id = unwrap_or [] (de_msg_id e),
            me_sender_id = unwrap_or [] (de_sender_id e), me_text = unwrap_or [] (Option.bind (de_text e) id),
            me_mentioned_bot = dingtalk_mentioned_bot e, me_raw_payload = redact_raw_summary env raw,
            me_received_at_epoch = now\<rparr>)"

section \<open>DingTalk: sending\<close>

definition dingtalk_api_host :: string where "dingtalk_api_host = ''https://api.dingtalk.com''"

definition dingtalk_token_call :: "messaging_integration \<Rightarrow> http_call" where
  "dingtalk_token_call integration =
     \<lparr>hc_method = Http_Post, hc_url = dingtalk_api_host @ ''/v1.0/oauth2/accessToken'', hc_headers = [], hc_query = [],
      hc_body = jobj [(''appKey'', JString (trim (mi_app_id integration))), (''appSecret'', JString (trim (mi_app_secret integration)))]\<rparr>"

definition dingtalk_token_body :: "jvalue \<Rightarrow> (string option \<times> string option \<times> string option) option" where
  "dingtalk_token_body v =
     Option.bind (as_struct [''accessToken'', ''message'', ''code''] v) (\<lambda>m.
     Option.bind (optional jas_str ''accessToken'' m) (\<lambda>token.
     Option.bind (optional jas_str ''message'' m) (\<lambda>msg.
     Option.bind (optional jas_str ''code'' m) (\<lambda>code. Some (token, msg, code)))))"

(* messaging/dingtalk.rs 58-97 access_token *)
definition dingtalk_access_token :: "net_env \<Rightarrow> messaging_integration \<Rightarrow> string app_result" where
  "dingtalk_access_token env integration =
     (case nx_send env 0 (dingtalk_token_call integration) of
        Transport_Error e \<Rightarrow> Inl (AppError ((utf8 [0x9489, 0x9489] @ '' accessToken '' @ utf8 [0x8BF7, 0x6C42, 0x5931, 0x8D25] @ '': '') @ e))
      | Response status body \<Rightarrow>
          try_bind (map_error (\<lambda>e. AppError ((utf8 [0x9489, 0x9489] @ '' accessToken '' @ utf8 [0x54CD, 0x5E94, 0x635F, 0x574F] @ '': '') @ e))
            (read_struct env dingtalk_token_body body)) (\<lambda>(token, msg, code).
          if \<not> status_success status
          then Inl (AppError ((utf8 [0x9489, 0x9489] @ '' accessToken HTTP '') @ nx_status_text env status @ '': '' @ unwrap_or [] msg))
          else ok_or (non_empty_string token)
            (AppError ((utf8 [0x9489, 0x9489] @ '' accessToken '' @ utf8 [0x4E3A, 0x7A7A, 0xFF08]) @ unwrap_or [] code @ (utf8 [0xFF09])))))"

(* messaging/dingtalk.rs 393-395 truncate_err *)
definition truncate_err :: "string \<Rightarrow> string" where
  "truncate_err v = truncate_utf8_boundary v 240"

text \<open>\<open>resp.text().await.unwrap_or_default()\<close>.\<close>

definition body_text :: "string + string \<Rightarrow> string" where
  "body_text body = (case body of Inr s \<Rightarrow> s | Inl _ \<Rightarrow> [])"

(* messaging/dingtalk.rs 370-391 classify_dingtalk_open_api *)
definition classify_dingtalk_open_api ::
    "net_env \<Rightarrow> nat \<Rightarrow> string + string \<Rightarrow> string \<Rightarrow> action_execution_result app_result" where
  "classify_dingtalk_open_api env status body op =
     (if status_transient status
      then Inr (Exec_Retry (op @ ('' '' @ utf8 [0x6682, 0x65F6, 0x5931, 0x8D25] @ '': HTTP '') @ nx_status_text env status) None)
      else if \<not> status_success status
      then Inr (Exec_Dead (op @ ('' '' @ utf8 [0x4E0D, 0x53EF, 0x91CD, 0x8BD5, 0x5931, 0x8D25] @ '': HTTP '') @ nx_status_text env status @ '': '' @ truncate_err (body_text body)))
      else Inr (Exec_Done Output_None))"

(* messaging/dingtalk.rs 38-56 DingTalkApiClient *)
definition dingtalk_exchange ::
    "net_env \<Rightarrow> messaging_integration \<Rightarrow> http_method \<Rightarrow> string \<Rightarrow> jvalue \<Rightarrow> string
      \<Rightarrow> (nat \<Rightarrow> string + string \<Rightarrow> 'a app_result) \<Rightarrow> 'a exchange" where
  "dingtalk_exchange env integration method path body failed answered =
     (case dingtalk_access_token env integration of
        Inl e \<Rightarrow> ([dingtalk_token_call integration], Inl e)
      | Inr token \<Rightarrow>
          (let call = \<lparr>hc_method = method, hc_url = dingtalk_api_host @ path,
                 hc_headers = [(''x-acs-dingtalk-access-token'', token)], hc_query = [], hc_body = body\<rparr>
           in ([dingtalk_token_call integration, call],
               case nx_send env 1 call of
                 Transport_Error e \<Rightarrow> Inl (AppError (failed @ '': '' @ e))
               | Response status b \<Rightarrow> answered status b)))"

definition group_message ::
    "net_env \<Rightarrow> messaging_integration \<Rightarrow> string \<Rightarrow> string \<Rightarrow> jvalue \<Rightarrow> jvalue" where
  "group_message env integration conversation_id msg_key param =
     jobj [(''robotCode'', JString (trim (mi_bot_open_id integration))),
           (''openConversationId'', JString (trim conversation_id)), (''msgKey'', JString msg_key),
           (''msgParam'', JString (nx_print env param))]"

(* messaging/dingtalk.rs 198-217 send_text *)
definition dingtalk_send_text ::
    "net_env \<Rightarrow> messaging_integration \<Rightarrow> string \<Rightarrow> string \<Rightarrow> action_execution_result exchange" where
  "dingtalk_send_text env integration conversation_id text =
     dingtalk_exchange env integration Http_Post ''/v1.0/robot/groupMessages/send''
       (group_message env integration conversation_id ''sampleText'' (jobj [(''content'', JString text)]))
       (utf8 [0x9489, 0x9489, 0x53D1, 0x9001, 0x6D88, 0x606F, 0x8BF7, 0x6C42, 0x5931, 0x8D25]) (\<lambda>status body. classify_dingtalk_open_api env status body (utf8 [0x9489, 0x9489, 0x53D1, 0x9001, 0x6D88, 0x606F]))"

(* messaging/dingtalk.rs 243-261 information_card_request *)
definition dingtalk_information_card_request ::
    "net_env \<Rightarrow> messaging_integration \<Rightarrow> string \<Rightarrow> string \<Rightarrow> string \<Rightarrow> messaging_card_template \<Rightarrow> jvalue" where
  "dingtalk_information_card_request env integration conversation_id title text template =
     group_message env integration conversation_id ''sampleMarkdown''
       (jobj [(''title'', JString (''['' @ card_template_as_wire template @ ''] '' @ title)), (''text'', JString text)])"

(* messaging/dingtalk.rs 220-241 send_information_card *)
definition dingtalk_send_information_card ::
    "net_env \<Rightarrow> messaging_integration \<Rightarrow> string \<Rightarrow> string \<Rightarrow> string \<Rightarrow> messaging_card_template
      \<Rightarrow> action_execution_result exchange" where
  "dingtalk_send_information_card env integration conversation_id title text template =
     dingtalk_exchange env integration Http_Post ''/v1.0/robot/groupMessages/send''
       (dingtalk_information_card_request env integration conversation_id title text template)
       (utf8 [0x9489, 0x9489, 0x53D1, 0x9001, 0x4FE1, 0x606F, 0x5361, 0x7247, 0x8BF7, 0x6C42, 0x5931, 0x8D25]) (\<lambda>status body. classify_dingtalk_open_api env status body (utf8 [0x9489, 0x9489, 0x53D1, 0x9001, 0x4FE1, 0x606F, 0x5361, 0x7247]))"

(* messaging/dingtalk.rs 174-195 DingTalkProvider::send *)
definition dingtalk_send ::
    "net_env \<Rightarrow> messaging_integration \<Rightarrow> string \<Rightarrow> messaging_send_content \<Rightarrow> action_execution_result exchange" where
  "dingtalk_send env integration conversation_id content =
     (case content of
        Text text \<Rightarrow> dingtalk_send_text env integration conversation_id text
      | Card title text template \<Rightarrow> dingtalk_send_information_card env integration conversation_id title text template)"

(* messaging/dingtalk.rs 165-172 DingTalkProvider::reply *)
definition dingtalk_reply ::
    "net_env \<Rightarrow> messaging_integration \<Rightarrow> messaging_reply_payload \<Rightarrow> action_execution_result exchange" where
  "dingtalk_reply env integration payload =
     dingtalk_send_text env integration (mrp_conversation_id payload) (mrp_text payload)"

section \<open>DingTalk: cards that ask for human input\<close>

(* messaging/dingtalk.rs 343-368 human_input_card_params *)
definition human_input_card_params :: "human_request \<Rightarrow> bool \<Rightarrow> jvalue" where
  "human_input_card_params request terminal =
     jobj [(''title'', JString (hir_title request)), (''message'', JString (hir_message request)),
       (''requestId'', JString (hir_id request)),
       (''options'', JString (join '' / '' (concat (map hq_options (hir_questions request))))),
       (''status'', JString (if terminal then (utf8 [0x5DF2, 0x7ED3, 0x675F, 0xFF1A]) @ ended_by request else ''pending''))]"

(* messaging/dingtalk.rs 311-332 human_input_create_and_deliver_request *)
definition human_input_create_and_deliver_request ::
    "messaging_integration \<Rightarrow> string \<Rightarrow> human_request \<Rightarrow> jvalue" where
  "human_input_create_and_deliver_request integration conversation_id request =
     jobj [(''cardTemplateId'', JString (trim (mi_card_template_id integration))), (''outTrackId'', JString (hir_id request)),
       (''callbackType'', JString ''STREAM''),
       (''cardData'', jobj [(''cardParamMap'', human_input_card_params request False)]),
       (''openSpaceId'', JString (''dtv1.card//IM_GROUP.'' @ trim conversation_id)),
       (''imGroupOpenSpaceModel'', jobj [(''supportForward'', JBool False)]),
       (''imGroupOpenDeliverModel'', jobj [(''robotCode'', JString (trim (mi_bot_open_id integration)))]),
       (''userIdType'', JNumber (JNat 1))]"

(* messaging/dingtalk.rs 334-341 human_input_update_request *)
definition human_input_update_request :: "string \<Rightarrow> human_request \<Rightarrow> jvalue" where
  "human_input_update_request out_track_id request =
     jobj [(''outTrackId'', JString out_track_id),
       (''cardData'', jobj [(''cardParamMap'', human_input_card_params request True)])]"

definition card_answer :: "net_env \<Rightarrow> string \<Rightarrow> 'a \<Rightarrow> nat \<Rightarrow> string + string \<Rightarrow> 'a app_result" where
  "card_answer env text x status body =
     (if status_success status then Inr x
      else Inl (AppError (text @ nx_status_text env status @ '': '' @ truncate_err (body_text body))))"

(* messaging/dingtalk.rs 264-286 send_human_input_card *)
definition dingtalk_send_human_input_card ::
    "net_env \<Rightarrow> messaging_integration \<Rightarrow> string \<Rightarrow> human_request \<Rightarrow> string exchange" where
  "dingtalk_send_human_input_card env integration conversation_id request =
     dingtalk_exchange env integration Http_Post ''/v1.0/card/instances/createAndDeliver''
       (human_input_create_and_deliver_request integration conversation_id request)
       (utf8 [0x9489, 0x9489, 0x53D1, 0x9001, 0x95EE, 0x7B54, 0x5361, 0x7247, 0x5931, 0x8D25]) (card_answer env (utf8 [0x9489, 0x9489, 0x53D1, 0x9001, 0x95EE, 0x7B54, 0x5361, 0x7247] @ '' HTTP '') (hir_id request))"

(* messaging/dingtalk.rs 288-309 update_human_input_card *)
definition dingtalk_update_human_input_card ::
    "net_env \<Rightarrow> messaging_integration \<Rightarrow> string \<Rightarrow> human_request \<Rightarrow> unit exchange" where
  "dingtalk_update_human_input_card env integration out_track_id request =
     dingtalk_exchange env integration Http_Put ''/v1.0/card/instances''
       (human_input_update_request out_track_id request)
       (utf8 [0x9489, 0x9489, 0x66F4, 0x65B0, 0x95EE, 0x7B54, 0x5361, 0x7247, 0x5931, 0x8D25]) (card_answer env (utf8 [0x9489, 0x9489, 0x66F4, 0x65B0, 0x95EE, 0x7B54, 0x5361, 0x7247] @ '' HTTP '') ())"

section \<open>The adapter of a provider\<close>

(* messaging/service.rs 849-855 provider_for *)
definition provider_for :: "adapter_env \<Rightarrow> http_request \<Rightarrow> nat \<Rightarrow> messaging_provider_kind \<Rightarrow> messaging_provider" where
  "provider_for env rq now kind =
     (case kind of
        Feishu \<Rightarrow> \<lparr>pv_verify = feishu_verify env rq now, pv_parse_event = feishu_parse_event env (rq_body rq)\<rparr>
      | WeChatWork \<Rightarrow> \<lparr>pv_verify = wechat_verify env rq now, pv_parse_event = wechat_parse_event env (rq_body rq)\<rparr>
      | DingTalk \<Rightarrow> \<lparr>pv_verify = dingtalk_verify, pv_parse_event = dingtalk_parse_event env (rq_body rq)\<rparr>)"

definition provider_reply ::
    "net_env \<Rightarrow> messaging_integration \<Rightarrow> messaging_reply_payload \<Rightarrow> action_execution_result exchange" where
  "provider_reply env integration =
     (case mi_kind integration of
        Feishu \<Rightarrow> feishu_reply env integration
      | WeChatWork \<Rightarrow> wechat_reply env integration
      | DingTalk \<Rightarrow> dingtalk_reply env integration)"

definition provider_send ::
    "net_env \<Rightarrow> messaging_integration \<Rightarrow> string \<Rightarrow> messaging_send_content \<Rightarrow> action_execution_result exchange" where
  "provider_send env integration =
     (case mi_kind integration of
        Feishu \<Rightarrow> feishu_send env integration
      | WeChatWork \<Rightarrow> wechat_send env integration
      | DingTalk \<Rightarrow> dingtalk_send env integration)"

end
