(* ===== verification/Config_Validation.thy ===== *)
theory Config_Validation
  imports Project_Config Text "HOL-Library.Word"
begin

text \<open>
  What the settings command checks before it stores a configuration (\<open>validate\<close> of
  \<open>config/model.rs\<close>): the command line tools, the webhook, tokens, notification channels, messaging
  integrations, lifecycle notifications, projects, rules and remote access. The URL and mailbox parsers, the
  base64 decoder and the file system are parameters.
\<close>

text \<open>
  Internet addresses as \<open>std::net::IpAddr\<close> has them: a 32 or 128 bit word, read by the parser of the
  standard library, written by its \<open>Display\<close>, with the classifications that the remote access gate uses.
\<close>

unbundle bit_operations_syntax

datatype ip_addr = V4 "32 word" | V6 "128 word"

section \<open>Parsing\<close>

text \<open>A parser returns its value and the rest of the text, or nothing, which leaves the text as it was.\<close>

type_synonym 'a parser = "string \<Rightarrow> ('a \<times> string) option"

definition hex_digit :: "char \<Rightarrow> nat" where
  "hex_digit c =
     (let b = byte_of c in if b \<le> 57 then b - 48 else if 97 \<le> b then b - 87 else b - 55)"

definition is_hex_digit :: "char \<Rightarrow> bool" where
  "is_hex_digit c \<longleftrightarrow> is_ascii_digit c \<or> (let b = byte_of c in (97 \<le> b \<and> b \<le> 102) \<or> (65 \<le> b \<and> b \<le> 70))"

text \<open>
  \<open>read_number\<close>: all digits that follow, at least one and at most \<open>max_digits\<close>, within the width of the
  type, and for the parts of an IPv4 address without a leading zero.
\<close>

definition read_number :: "nat \<Rightarrow> (char \<Rightarrow> bool) \<Rightarrow> nat \<Rightarrow> bool \<Rightarrow> nat \<Rightarrow> nat parser" where
  "read_number radix is_digit max_digits zero_prefix limit s =
     (let ds = takeWhile is_digit s;
          v = foldl (\<lambda>n c. radix * n + hex_digit c) 0 ds
      in if ds = [] \<or> max_digits < length ds \<or> (\<not> zero_prefix \<and> hd ds = CHR ''0'' \<and> 1 < length ds) \<or> limit < v
         then None else Some (v, drop (length ds) s))"

definition read_char :: "char \<Rightarrow> unit parser" where
  "read_char c s = (case s of x # rest \<Rightarrow> if x = c then Some ((), rest) else None | [] \<Rightarrow> None)"

text \<open>The separator comes before every part but the first.\<close>

definition read_separated :: "char \<Rightarrow> bool \<Rightarrow> 'a parser \<Rightarrow> 'a parser" where
  "read_separated sep first p s =
     (if first then p s else case read_char sep s of Some (_, rest) \<Rightarrow> p rest | None \<Rightarrow> None)"

definition read_octet :: "nat parser" where
  "read_octet = read_number 10 is_ascii_digit 3 False 255"

fun read_octets :: "nat \<Rightarrow> bool \<Rightarrow> nat list parser" where
  "read_octets 0 first s = Some ([], s)"
| "read_octets (Suc n) first s =
     (case read_separated CHR ''.'' first read_octet s of
        None \<Rightarrow> None
      | Some (v, rest) \<Rightarrow>
          (case read_octets n False rest of
             None \<Rightarrow> None
           | Some (vs, rest) \<Rightarrow> Some (v # vs, rest)))"

definition from_digits :: "nat \<Rightarrow> nat list \<Rightarrow> nat" where
  "from_digits base vs = foldl (\<lambda>n v. base * n + v) 0 vs"

definition read_ipv4 :: "nat list parser" where
  "read_ipv4 = read_octets 4 True"

definition read_group :: "nat parser" where
  "read_group = read_number 16 is_hex_digit 4 True 65535"

text \<open>At most so many groups, the last two of which may be written as an IPv4 address.\<close>

fun read_groups :: "nat \<Rightarrow> bool \<Rightarrow> string \<Rightarrow> nat list \<times> bool \<times> string" where
  "read_groups 0 first s = ([], False, s)"
| "read_groups (Suc n) first s =
     (case (if 0 < n then read_separated CHR '':'' first read_ipv4 s else None) of
        Some (vs, rest) \<Rightarrow> ([256 * (vs ! 0) + vs ! 1, 256 * (vs ! 2) + vs ! 3], True, rest)
      | None \<Rightarrow>
          (case read_separated CHR '':'' first read_group s of
             Some (g, rest) \<Rightarrow> (let (gs, v4, rest) = read_groups n False rest in (g # gs, v4, rest))
           | None \<Rightarrow> ([], False, s)))"

definition read_ipv6 :: "nat list parser" where
  "read_ipv6 s =
     (let (head, head_v4, rest) = read_groups 8 True s in
      if length head = 8 then Some (head, rest)
      else if head_v4 then None
      else case read_char CHR '':'' rest of
        None \<Rightarrow> None
      | Some (_, rest) \<Rightarrow>
          (case read_char CHR '':'' rest of
             None \<Rightarrow> None
           | Some (_, rest) \<Rightarrow>
               (let (tail, _, rest) = read_groups (7 - length head) True rest
                in Some (head @ replicate (8 - length head - length tail) 0 @ tail, rest))))"

definition parse_ip :: "string \<Rightarrow> ip_addr option" where
  "parse_ip s =
     (case read_ipv4 s of
        Some (vs, rest) \<Rightarrow> if rest = [] then Some (V4 (of_nat (from_digits 256 vs))) else None
      | None \<Rightarrow>
          (case read_ipv6 s of
             Some (gs, rest) \<Rightarrow> if rest = [] then Some (V6 (of_nat (from_digits 65536 gs))) else None
           | None \<Rightarrow> None))"

section \<open>Printing\<close>

definition octets :: "32 word \<Rightarrow> nat list" where
  "octets w = map (\<lambda>i. unat (drop_bit i w AND 0xFF)) [24, 16, 8, 0]"

definition segments :: "128 word \<Rightarrow> nat list" where
  "segments w = map (\<lambda>i. unat (drop_bit i w AND 0xFFFF)) [112, 96, 80, 64, 48, 32, 16, 0]"

definition ipv4_text :: "nat list \<Rightarrow> string" where
  "ipv4_text vs = join ''.'' (map dec vs)"

function hex :: "nat \<Rightarrow> string" where
  "hex n = (if n < 16 then [] else hex (n div 16)) @ [char_of (if n mod 16 < 10 then 48 + n mod 16 else 87 + n mod 16)]"
  by pat_completeness auto
termination by (relation "measure id") auto

declare hex.simps [simp del]

text \<open>The first of the longest runs of zero segments: its position and length.\<close>

fun zero_run :: "nat \<Rightarrow> nat list \<Rightarrow> nat \<times> nat \<Rightarrow> nat \<times> nat \<Rightarrow> nat \<times> nat" where
  "zero_run i [] (cs, cl) (bs, bl) = (bs, bl)"
| "zero_run i (g # gs) (cs, cl) (bs, bl) =
     (if g = 0
      then (let cur = (if cl = 0 then (i, 1) else (cs, cl + 1))
            in zero_run (Suc i) gs cur (if bl < snd cur then cur else (bs, bl)))
      else zero_run (Suc i) gs (0, 0) (bs, bl))"

definition ipv6_text :: "nat list \<Rightarrow> string" where
  "ipv6_text gs =
     (if take 6 gs = [0, 0, 0, 0, 0, 65535]
      then ''::ffff:'' @ ipv4_text [gs ! 6 div 256, gs ! 6 mod 256, gs ! 7 div 256, gs ! 7 mod 256]
      else
        (let (start, n) = zero_run 0 gs (0, 0) (0, 0) in
         if 1 < n then join '':'' (map hex (take start gs)) @ ''::'' @ join '':'' (map hex (drop (start + n) gs))
         else join '':'' (map hex gs)))"

fun ip_text :: "ip_addr \<Rightarrow> string" where
  "ip_text (V4 w) = ipv4_text (octets w)"
| "ip_text (V6 w) = ipv6_text (segments w)"

section \<open>Classification\<close>

fun is_loopback :: "ip_addr \<Rightarrow> bool" where
  "is_loopback (V4 w) = (drop_bit 24 w = 127)"
| "is_loopback (V6 w) = (w = 1)"

definition is_private :: "32 word \<Rightarrow> bool" where
  "is_private w \<longleftrightarrow> drop_bit 24 w = 10 \<or> drop_bit 20 w = 0xAC1 \<or> drop_bit 16 w = 0xC0A8"

record url_parts =
  url_scheme :: string
  url_username :: string
  url_has_password :: bool
  url_host :: "string option"

record validation_env =
  vx_parse_url :: "string \<Rightarrow> url_parts option"
  vx_is_mailbox :: "string \<Rightarrow> bool"
  vx_base64_decode :: "string \<Rightarrow> string + string"
  vx_cli_files :: cli_files
  vx_is_dir :: "string \<Rightarrow> bool"
  vx_files :: filesystem

text \<open>A loop that carries a state and stops at the first error.\<close>

fun try_fold :: "('s \<Rightarrow> 'a \<Rightarrow> 'e + 's) \<Rightarrow> 's \<Rightarrow> 'a list \<Rightarrow> 'e + 's" where
  "try_fold f s [] = Inr s"
| "try_fold f s (x # xs) = try_bind (f s x) (\<lambda>s. try_fold f s xs)"

definition try_each :: "('a \<Rightarrow> 'e + unit) \<Rightarrow> 'a list \<Rightarrow> 'e + unit" where
  "try_each f xs = try_fold (\<lambda>_. f) () xs"

definition ensure :: "bool \<Rightarrow> string \<Rightarrow> unit app_result" where
  "ensure cond text = (if cond then Inr () else Inl (AppError text))"

definition both :: "unit app_result \<Rightarrow> unit app_result \<Rightarrow> unit app_result" where
  "both a b = try_bind a (\<lambda>_. b)"

definition all_ok :: "unit app_result list \<Rightarrow> unit app_result" where
  "all_ok rs = foldr both rs (Inr ())"

definition blank :: "string \<Rightarrow> bool" where
  "blank s \<longleftrightarrow> trim s = []"

lemma ensure_Inr [simp]: "ensure cond t = Inr x \<longleftrightarrow> cond"
  by (simp add: ensure_def)

lemma both_Inr [simp]: "both a b = Inr x \<longleftrightarrow> a = Inr () \<and> b = Inr ()"
  by (simp add: both_def try_bind_Inr_iff)

lemma all_ok_simps [simp]: "all_ok [] = Inr ()" "all_ok (r # rs) = both r (all_ok rs)"
  by (simp_all add: all_ok_def)

lemma try_each_Inr [simp]: "try_each f xs = Inr x \<longleftrightarrow> (\<forall>y \<in> set xs. f y = Inr ())"
  unfolding try_each_def by (induction xs) (auto simp: try_bind_Inr_iff)

section \<open>Tokens and URLs\<close>

(* config/model.rs 1146-1157 WEBHOOK_SECRET_MIN_LEN *)
definition webhook_secret_min_len :: nat where "webhook_secret_min_len = 16"
definition local_api_token_min_len :: nat where "local_api_token_min_len = 16"
definition remote_terminal_token_min_len :: nat where "remote_terminal_token_min_len = 32"

(* config/model.rs 1159-1161 terminal_auth_token_is_strong *)
definition terminal_auth_token_is_strong :: "string \<Rightarrow> bool" where
  "terminal_auth_token_is_strong token \<longleftrightarrow> remote_terminal_token_min_len \<le> char_count (trim token)"

(* config/model.rs 1163-1167 is_https_url_without_userinfo *)
definition is_https_url_without_userinfo :: "validation_env \<Rightarrow> string \<Rightarrow> bool" where
  "is_https_url_without_userinfo env v =
     (case vx_parse_url env (trim v) of
        Some u \<Rightarrow> url_scheme u = ''https'' \<and> url_username u = [] \<and> \<not> url_has_password u
      | None \<Rightarrow> False)"

(* config/model.rs 1169-1171 is_valid_mailbox *)
definition is_valid_mailbox :: "validation_env \<Rightarrow> string \<Rightarrow> bool" where
  "is_valid_mailbox env v = vx_is_mailbox env (trim v)"

section \<open>Notification channels\<close>

definition of_channel :: "string \<Rightarrow> notification_channel \<Rightarrow> string" where
  "of_channel text c = text @ (utf8 [0xFF08, 0x901A, 0x77E5, 0x6E20, 0x9053, 0x300C]) @ nch_name c @ (utf8 [0x300D, 0xFF09])"

definition validate_channel_target :: "validation_env \<Rightarrow> notification_channel \<Rightarrow> unit app_result" where
  "validate_channel_target env c =
     (case nch_kind c of
        Desktop \<Rightarrow> Inr ()
      | Email \<Rightarrow> all_ok
          [ensure (\<not> blank (nch_smtp_host c)) (of_channel (''smtpHost '' @ utf8 [0x4E0D, 0x80FD, 0x4E3A, 0x7A7A]) c),
           ensure (nch_smtp_port c \<noteq> 0) (of_channel (''smtpPort '' @ utf8 [0x5FC5, 0x987B, 0x5927, 0x4E8E] @ '' 0'') c),
           ensure (\<not> blank (nch_smtp_from c)) (of_channel (''smtpFrom '' @ utf8 [0x4E0D, 0x80FD, 0x4E3A, 0x7A7A]) c),
           ensure (is_valid_mailbox env (nch_smtp_from c)) (of_channel (''smtpFrom '' @ utf8 [0x5FC5, 0x987B, 0x662F, 0x6709, 0x6548, 0x90AE, 0x4EF6, 0x5730, 0x5740]) c),
           ensure (\<not> blank (nch_smtp_to c)) (of_channel (''smtpTo '' @ utf8 [0x4E0D, 0x80FD, 0x4E3A, 0x7A7A]) c),
           ensure (list_all (\<lambda>addr. trim addr = [] \<or> is_valid_mailbox env (trim addr)) (split_all CHR '','' (nch_smtp_to c)))
             (of_channel (''smtpTo '' @ utf8 [0x5FC5, 0x987B, 0x662F, 0x9017, 0x53F7, 0x5206, 0x9694, 0x7684, 0x6709, 0x6548, 0x90AE, 0x4EF6, 0x5730, 0x5740]) c)]
      | Telegram \<Rightarrow> all_ok
          [ensure (\<not> blank (nch_telegram_bot_token c)) (of_channel (''telegramBotToken '' @ utf8 [0x4E0D, 0x80FD, 0x4E3A, 0x7A7A]) c),
           ensure (\<not> blank (nch_telegram_chat_id c)) (of_channel (''telegramChatId '' @ utf8 [0x4E0D, 0x80FD, 0x4E3A, 0x7A7A]) c)]
      | _ \<Rightarrow> all_ok
          [ensure (\<not> blank (nch_webhook_url c)) (of_channel (''notificationWebhookUrl '' @ utf8 [0x4E0D, 0x80FD, 0x4E3A, 0x7A7A]) c),
           ensure (is_https_url_without_userinfo env (nch_webhook_url c))
             (of_channel (''notificationWebhookUrl '' @ utf8 [0x5FC5, 0x987B, 0x662F] @ '' https:// URL '' @ utf8 [0x4E14, 0x4E0D, 0x80FD, 0x5185, 0x5D4C] @ '' userinfo'') c)])"

(* config/model.rs 1173-1274 validate_notification_channel *)
definition validate_notification_channel :: "validation_env \<Rightarrow> notification_channel \<Rightarrow> unit app_result" where
  "validate_notification_channel env c = all_ok
     [ensure (\<not> bad_token (nch_id c)) ((''notificationChannelId '' @ utf8 [0x975E, 0x6CD5, 0xFF08, 0x4E0D, 0x80FD, 0x4E3A, 0x7A7A, 0x3001, 0x542B] @ '' `:` '' @ utf8 [0x6216, 0x7A7A, 0x767D, 0x5B57, 0x7B26, 0xFF09] @ '': '') @ debug_str (nch_id c)),
      ensure (nch_timeout_secs c \<noteq> 0) (of_channel (''notificationTimeoutSecs '' @ utf8 [0x5FC5, 0x987B, 0x5927, 0x4E8E] @ '' 0'') c),
      (if nch_enabled c then validate_channel_target env c else Inr ())]"

definition validate_next_channel :: "validation_env \<Rightarrow> string list \<Rightarrow> notification_channel \<Rightarrow> string list app_result" where
  "validate_next_channel env seen c =
     (let i = trim (nch_id c) in
      if i \<in> set seen then Inl (AppError ((''notificationChannelId '' @ utf8 [0x91CD, 0x590D] @ '': '') @ i @ (utf8 [0xFF08, 0x6BCF, 0x4E2A, 0x901A, 0x77E5, 0x6E20, 0x9053] @ '' id '' @ utf8 [0x5FC5, 0x987B, 0x552F, 0x4E00, 0xFF09])))
      else try_bind (validate_notification_channel env c) (\<lambda>_. Inr (i # seen)))"

(* config/model.rs 1276-1288 validate_notifications *)
definition validate_notifications :: "validation_env \<Rightarrow> notification_channel list \<Rightarrow> unit app_result" where
  "validate_notifications env channels = try_bind (try_fold (validate_next_channel env) [] channels) (\<lambda>_. Inr ())"

section \<open>Messaging integrations\<close>

(* config/model.rs 1290-1302 validate_wechat_work_encoding_aes_key *)
definition validate_wechat_work_encoding_aes_key :: "validation_env \<Rightarrow> string \<Rightarrow> unit app_result" where
  "validate_wechat_work_encoding_aes_key env v =
     (let padded = (if length v mod 4 = 0 then v else v @ replicate (4 - length v mod 4) CHR ''='') in
      case vx_base64_decode env padded of
        Inl e \<Rightarrow> Inl (AppError ((''weChatWorkEncodingAesKey base64 '' @ utf8 [0x89E3, 0x7801, 0x5931, 0x8D25] @ '': '') @ e))
      | Inr decoded \<Rightarrow> ensure (length decoded = 32) (''weChatWorkEncodingAesKey '' @ utf8 [0x5FC5, 0x987B, 0x89E3, 0x7801, 0x4E3A] @ '' 32 '' @ utf8 [0x5B57, 0x8282]))"

definition of_integration :: "string \<Rightarrow> messaging_integration \<Rightarrow> string" where
  "of_integration text m = text @ (utf8 [0xFF08, 0x6D88, 0x606F, 0x96C6, 0x6210, 0x300C]) @ mi_name m @ (utf8 [0x300D, 0xFF09])"

fun validate_provider :: "validation_env \<Rightarrow> messaging_integration \<Rightarrow> messaging_provider_kind \<Rightarrow> unit app_result" where
  "validate_provider env m Feishu = all_ok
     [ensure (\<not> blank (mi_app_id m)) (of_integration (''feishuAppId '' @ utf8 [0x4E0D, 0x80FD, 0x4E3A, 0x7A7A]) m),
      ensure (\<not> blank (mi_app_secret m)) (of_integration (''feishuAppSecret '' @ utf8 [0x4E0D, 0x80FD, 0x4E3A, 0x7A7A]) m),
      ensure (\<not> (mi_require_mention m \<and> blank (mi_bot_open_id m)))
        ((''feishuBotOpenId '' @ utf8 [0x4E0D, 0x80FD, 0x4E3A, 0x7A7A, 0xFF08, 0x6D88, 0x606F, 0x96C6, 0x6210, 0x300C]) @ mi_name m @ (utf8 [0x300D, 0x542F, 0x7528] @ '' @Bot '' @ utf8 [0x89E6, 0x53D1, 0x65F6, 0x5FC5, 0x987B, 0x914D, 0x7F6E, 0xFF09]))]"
| "validate_provider env m WeChatWork = all_ok
     [ensure (\<not> blank (mi_verification_token m)) (of_integration (''weChatWorkToken '' @ utf8 [0x4E0D, 0x80FD, 0x4E3A, 0x7A7A]) m),
      ensure (webhook_secret_min_len \<le> char_count (trim (mi_verification_token m)))
        ((''weChatWorkToken '' @ utf8 [0x592A, 0x77ED, 0xFF08, 0x81F3, 0x5C11] @ '' '') @ dec webhook_secret_min_len @ ('' '' @ utf8 [0x4E2A, 0x5B57, 0x7B26, 0xFF1B, 0x6D88, 0x606F, 0x96C6, 0x6210, 0x300C]) @ mi_name m @ (utf8 [0x300D, 0xFF09])),
      ensure (\<not> blank (mi_encrypt_key m)) (of_integration (''weChatWorkEncodingAesKey '' @ utf8 [0x4E0D, 0x80FD, 0x4E3A, 0x7A7A]) m),
      validate_wechat_work_encoding_aes_key env (trim (mi_encrypt_key m)),
      ensure (\<not> blank (mi_app_id m)) (of_integration (''weChatWorkCorpId '' @ utf8 [0x4E0D, 0x80FD, 0x4E3A, 0x7A7A]) m),
      ensure (\<not> blank (mi_app_secret m)) (of_integration (''weChatWorkCorpSecret '' @ utf8 [0x4E0D, 0x80FD, 0x4E3A, 0x7A7A]) m),
      ensure (\<not> blank (mi_bot_open_id m)) (of_integration (''weChatWorkAgentId '' @ utf8 [0x4E0D, 0x80FD, 0x4E3A, 0x7A7A]) m)]"
| "validate_provider env m DingTalk = all_ok
     [ensure (\<not> blank (mi_app_id m)) (of_integration (''dingTalkAppId '' @ utf8 [0x4E0D, 0x80FD, 0x4E3A, 0x7A7A]) m),
      ensure (\<not> blank (mi_app_secret m)) (of_integration (''dingTalkAppSecret '' @ utf8 [0x4E0D, 0x80FD, 0x4E3A, 0x7A7A]) m),
      ensure (\<not> blank (mi_bot_open_id m)) (of_integration (''dingTalkRobotCode '' @ utf8 [0x4E0D, 0x80FD, 0x4E3A, 0x7A7A]) m),
      ensure (\<not> blank (mi_card_template_id m)) (of_integration (''dingTalkCardTemplateId '' @ utf8 [0x4E0D, 0x80FD, 0x4E3A, 0x7A7A]) m)]"

definition validate_integration :: "validation_env \<Rightarrow> messaging_integration \<Rightarrow> unit app_result" where
  "validate_integration env m = all_ok
     [ensure (mi_timeout_secs m \<noteq> 0) (of_integration (''messagingTimeoutSecs '' @ utf8 [0x5FC5, 0x987B, 0x5927, 0x4E8E] @ '' 0'') m),
      (if mi_enabled m then
         both (ensure (mi_allowed_conversation_ids m \<noteq> [] \<and> \<not> list_ex blank (mi_allowed_conversation_ids m))
                 ((''messagingAllowedConversationIds '' @ utf8 [0x4E0D, 0x80FD, 0x4E3A, 0x7A7A, 0xFF08, 0x542F, 0x7528, 0x6D88, 0x606F, 0x96C6, 0x6210, 0x300C]) @ mi_name m @ (utf8 [0x300D, 0x65F6, 0x5FC5, 0x987B, 0x663E, 0x5F0F, 0x5141, 0x8BB8, 0x4F1A, 0x8BDD, 0xFF09])))
           (validate_provider env m (mi_kind m))
       else Inr ())]"

definition validate_next_integration ::
    "validation_env \<Rightarrow> string list \<Rightarrow> messaging_integration \<Rightarrow> string list app_result" where
  "validate_next_integration env seen m =
     (let i = trim (mi_id m) in
      if bad_token i then Inl (AppError ((''messagingIntegrationId '' @ utf8 [0x975E, 0x6CD5, 0xFF08, 0x4E0D, 0x80FD, 0x4E3A, 0x7A7A, 0x3001, 0x542B] @ '' `:` '' @ utf8 [0x6216, 0x7A7A, 0x767D, 0x5B57, 0x7B26, 0xFF09] @ '': '') @ debug_str (mi_id m)))
      else if i \<in> set seen then Inl (AppError ((''messagingIntegrationId '' @ utf8 [0x91CD, 0x590D] @ '': '') @ i @ (utf8 [0xFF08, 0x6BCF, 0x4E2A, 0x6D88, 0x606F, 0x96C6, 0x6210] @ '' id '' @ utf8 [0x5FC5, 0x987B, 0x552F, 0x4E00, 0xFF09])))
      else try_bind (validate_integration env m) (\<lambda>_. Inr (i # seen)))"

(* config/model.rs 1304-1431 validate_messaging *)
definition validate_messaging :: "validation_env \<Rightarrow> messaging_integration list \<Rightarrow> unit app_result" where
  "validate_messaging env integrations =
     try_bind (try_fold (validate_next_integration env) [] integrations) (\<lambda>_. Inr ())"

section \<open>Lifecycle notifications\<close>

fun lifecycle_debug :: "review_lifecycle_event \<Rightarrow> string" where
  "lifecycle_debug Lifecycle_Started = ''Started''"
| "lifecycle_debug Lifecycle_Completed = ''Completed''"
| "lifecycle_debug Lifecycle_Failed = ''Failed''"
| "lifecycle_debug Lifecycle_Interrupted = ''Interrupted''"

definition validate_next_event ::
    "review_lifecycle_event list \<Rightarrow> review_lifecycle_event \<Rightarrow> review_lifecycle_event list app_result" where
  "validate_next_event seen e =
     (if e \<in> set seen then Inl (AppError ((''reviewLifecycleNotifications.events '' @ utf8 [0x4E0D, 0x80FD, 0x91CD, 0x590D] @ '': '') @ lifecycle_debug e))
      else Inr (e # seen))"

(* config/model.rs 1940-1956 validate_review_lifecycle_events *)
definition validate_review_lifecycle_events :: "review_lifecycle_event list \<Rightarrow> unit app_result" where
  "validate_review_lifecycle_events events =
     (if events = [] then Inl (AppError (''reviewLifecycleNotifications.events '' @ utf8 [0x4E0D, 0x80FD, 0x4E3A, 0x7A7A]))
      else try_bind (try_fold validate_next_event [] events) (\<lambda>_. Inr ()))"

definition target_field :: "nat \<Rightarrow> string \<Rightarrow> string" where
  "target_field idx field = ''reviewLifecycleNotifications.targets['' @ dec idx @ ''].'' @ field"

fun validate_lifecycle_target :: "app_config \<Rightarrow> nat \<times> review_lifecycle_target \<Rightarrow> unit app_result" where
  "validate_lifecycle_target config (idx, Lifecycle_Channels channel_ids) = both
     (if channel_ids = []
      then ensure (list_ex nch_enabled (cfg_channels config)) (target_field idx (''channelIds '' @ utf8 [0x672A, 0x6307, 0x5B9A, 0x4E14, 0x6CA1, 0x6709, 0x542F, 0x7528, 0x7684, 0x901A, 0x77E5, 0x6E20, 0x9053]))
      else validate_id_list (target_field idx ''channelIds'') channel_ids)
     (try_each (\<lambda>i.
        case find (\<lambda>c. nch_id c = i) (cfg_channels config) of
          None \<Rightarrow> Inl (AppError (target_field idx ((''channelIds '' @ utf8 [0x4E0D, 0x5B58, 0x5728] @ '': '') @ i)))
        | Some c \<Rightarrow> ensure (nch_enabled c) (target_field idx ((''channelIds '' @ utf8 [0x5DF2, 0x7981, 0x7528] @ '': '') @ i))) channel_ids)"
| "validate_lifecycle_target config (idx, Lifecycle_Conversation integration_id conversation_id) =
     (if blank integration_id then Inl (AppError (target_field idx (''integrationId '' @ utf8 [0x4E0D, 0x80FD, 0x4E3A, 0x7A7A])))
      else if blank conversation_id then Inl (AppError (target_field idx (''conversationId '' @ utf8 [0x4E0D, 0x80FD, 0x4E3A, 0x7A7A])))
      else case find (\<lambda>m. mi_id m = integration_id) (cfg_integrations config) of
        None \<Rightarrow> Inl (AppError (target_field idx ((''integrationId '' @ utf8 [0x4E0D, 0x5B58, 0x5728] @ '': '') @ integration_id)))
      | Some m \<Rightarrow>
          if \<not> mi_enabled m then Inl (AppError (target_field idx ((''integrationId '' @ utf8 [0x5DF2, 0x7981, 0x7528] @ '': '') @ integration_id)))
          else ensure (list_ex (\<lambda>a. trim a = trim conversation_id) (mi_allowed_conversation_ids m))
                 (target_field idx ((''conversationId '' @ utf8 [0x672A, 0x6388, 0x6743] @ '': '') @ conversation_id)))"

(* config/model.rs 1843-1938 validate_review_lifecycle_notifications *)
definition validate_review_lifecycle_notifications :: "app_config \<Rightarrow> unit app_result" where
  "validate_review_lifecycle_notifications config =
     (let c = cfg_review_lifecycle config in
      if \<not> rln_enabled c then Inr ()
      else all_ok
        [validate_review_lifecycle_events (rln_events c),
         validate_delay_secs ''reviewLifecycleNotifications.startDelaySecs'' (rln_start_delay_secs c),
         validate_delay_secs ''reviewLifecycleNotifications.endDelaySecs'' (rln_end_delay_secs c),
         ensure (rln_targets c \<noteq> []) (''reviewLifecycleNotifications.targets '' @ utf8 [0x4E0D, 0x80FD, 0x4E3A, 0x7A7A, 0xFF08, 0x542F, 0x7528, 0x540E, 0x81F3, 0x5C11, 0x9700, 0x8981, 0x4E00, 0x4E2A, 0x76EE, 0x6807, 0xFF09]),
         try_each (validate_lifecycle_target config) (enumerate 0 (rln_targets c))])"

section \<open>Remote access\<close>

(* config/model.rs 1983-1985 is_route_path_segment_byte *)
definition is_route_path_segment_byte :: "char \<Rightarrow> bool" where
  "is_route_path_segment_byte c \<longleftrightarrow> is_ascii_alphanumeric c \<or> c \<in> {CHR ''.'', CHR ''_'', CHR ''~'', CHR ''-''}"

definition path_segments :: "string \<Rightarrow> string list" where
  "path_segments p = tl (split_all CHR ''/'' p)"

(* config/model.rs 1958-1981 normalize_route_path *)
definition normalize_route_path :: "string \<Rightarrow> string app_result" where
  "normalize_route_path path =
     (let trimmed = trim_end_char CHR ''/'' (trim path) in
      if trimmed = [] \<or> \<not> prefix ''/'' trimmed
      then Inl (AppError ((''routePath '' @ utf8 [0x5FC5, 0x987B, 0x4EE5] @ '' / '' @ utf8 [0x5F00, 0x5934, 0x4E14, 0x4E0D, 0x80FD, 0x4E3A, 0x7A7A] @ '': '') @ debug_str path))
      else if trimmed = ''/'' \<or> [] \<in> set (path_segments trimmed)
      then Inl (AppError ((''routePath '' @ utf8 [0x4E0D, 0x80FD, 0x4E3A, 0x6839, 0x8DEF, 0x5F84, 0x4E14, 0x4E0D, 0x80FD, 0x5305, 0x542B, 0x7A7A, 0x8DEF, 0x5F84, 0x6BB5] @ '': '') @ trimmed))
      else if \<not> list_all (list_all is_route_path_segment_byte) (path_segments trimmed)
      then Inl (AppError ((''routePath '' @ utf8 [0x53EA, 0x80FD, 0x5305, 0x542B] @ '' URL path-safe '' @ utf8 [0x5B57, 0x7B26, 0xFF08] @ ''A-Z a-z 0-9 . _ ~ -'' @ utf8 [0xFF09] @ '': '') @ trimmed))
      else Inr trimmed)"

definition below :: "string \<Rightarrow> string \<Rightarrow> bool" where
  "below a b = (case strip_prefix b a of Some rest \<Rightarrow> prefix ''/'' rest | None \<Rightarrow> False)"

(* config/model.rs 1987-1991 route_paths_conflict *)
definition route_paths_conflict :: "string \<Rightarrow> string \<Rightarrow> bool" where
  "route_paths_conflict a b \<longleftrightarrow> a = b \<or> below a b \<or> below b a"

(* config/model.rs 1993-2011 parse_ip_or_cidr *)
definition parse_ip_or_cidr :: "string \<Rightarrow> bool" where
  "parse_ip_or_cidr v =
     (let trimmed = trim v in
      if parse_ip trimmed \<noteq> None then True
      else case split_once CHR ''/'' trimmed of
        None \<Rightarrow> False
      | Some (ip, bits) \<Rightarrow>
          (case (parse_ip ip, parse_unsigned 255 bits) of
             (Some (V4 _), Some n) \<Rightarrow> n \<le> 32
           | (Some (V6 _), Some n) \<Rightarrow> n \<le> 128
           | _ \<Rightarrow> False))"

(* config/model.rs 2013-2038 validate_source_policy *)
definition validate_source_policy :: "source_policy \<Rightarrow> string \<Rightarrow> unit app_result" where
  "validate_source_policy policy label =
     (if sp_mode policy = Policy_Custom
      then both (ensure (sp_allow policy \<noteq> []) ((''sourcePolicy custom '' @ utf8 [0x6A21, 0x5F0F, 0x5FC5, 0x987B, 0x586B, 0x5199, 0x81F3, 0x5C11, 0x4E00, 0x4E2A] @ '' IP/CIDR'' @ utf8 [0xFF08]) @ label @ (utf8 [0xFF09])))
             (try_each (\<lambda>item. ensure (parse_ip_or_cidr item)
                ((''sourcePolicy '' @ utf8 [0x5305, 0x542B, 0x975E, 0x6CD5] @ '' IP/CIDR'' @ utf8 [0xFF08]) @ label @ (utf8 [0xFF09] @ '': '') @ item)) (sp_allow policy))
      else ensure (sp_allow policy = []) ((''sourcePolicy allow '' @ utf8 [0x4EC5] @ '' custom '' @ utf8 [0x6A21, 0x5F0F, 0x53EF, 0x586B, 0x5199, 0xFF08]) @ label @ (utf8 [0xFF09])))"

type_synonym claimed_ports = "(nat \<times> string) list"

definition claim_port :: "nat \<Rightarrow> string \<Rightarrow> claimed_ports \<Rightarrow> claimed_ports app_result" where
  "claim_port port label ports =
     (case map_of ports port of
        Some existing \<Rightarrow> Inl (AppError ((''port '' @ utf8 [0x51B2, 0x7A81, 0xFF1A, 0x7AEF, 0x53E3] @ '' '') @ dec port @ ('' '' @ utf8 [0x88AB] @ '' '') @ existing @ ('' '' @ utf8 [0x4E0E] @ '' '') @ label
          @ ('' '' @ utf8 [0x540C, 0x65F6, 0x5360, 0x7528, 0xFF08, 0x542F, 0x7528, 0x7684, 0x76D1, 0x542C, 0x7AEF, 0x53E3, 0x5FC5, 0x987B, 0x4E92, 0x4E0D, 0x76F8, 0x540C, 0xFF09])))
      | None \<Rightarrow> Inr ((port, label) # ports))"

definition validate_route_auth :: "remote_route \<Rightarrow> unit app_result" where
  "validate_route_auth route =
     (if rr_capability route = Capability_Terminal
      then both (ensure (terminal_auth_token_is_strong (rr_auth_token route))
              ((''authToken '' @ utf8 [0x7EC8, 0x7AEF, 0x8DEF, 0x7531, 0x300C]) @ rr_name route @ (utf8 [0x300D, 0x5FC5, 0x987B, 0x914D, 0x7F6E, 0x81F3, 0x5C11] @ '' '') @ dec remote_terminal_token_min_len
               @ ('' '' @ utf8 [0x4E2A, 0x5B57, 0x7B26, 0x7684, 0x968F, 0x673A] @ '' Bearer token'')))
            (ensure (rr_terminal_read route) ((''terminalRead '' @ utf8 [0x7EC8, 0x7AEF, 0x8DEF, 0x7531, 0x300C]) @ rr_name route @ (utf8 [0x300D, 0x5FC5, 0x987B, 0x81F3, 0x5C11, 0x5F00, 0x542F, 0x8BFB, 0x53D6, 0x6743, 0x9650])))
      else Inr ())"

definition validate_route ::
    "remote_entrypoint \<Rightarrow> string list \<times> string list \<Rightarrow> remote_route \<Rightarrow> (string list \<times> string list) app_result" where
  "validate_route entrypoint = (\<lambda>(route_ids, paths) route.
     let route_id = trim (rr_id route) in
     if route_id = []
     then Inl (AppError ((''routeId '' @ utf8 [0x4E0D, 0x80FD, 0x4E3A, 0x7A7A, 0xFF08, 0x5165, 0x53E3, 0x300C]) @ re_name entrypoint @ (utf8 [0x300D, 0x4E2D, 0x7684, 0x8DEF, 0x7531, 0x9700, 0x8981, 0x4E00, 0x4E2A, 0x552F, 0x4E00] @ '' id'' @ utf8 [0xFF09])))
     else if route_id \<in> set route_ids
     then Inl (AppError ((''routeId '' @ utf8 [0x91CD, 0x590D] @ '': '') @ route_id @ (utf8 [0xFF08, 0x5165, 0x53E3, 0x300C]) @ re_name entrypoint @ (utf8 [0x300D, 0x5185, 0x8DEF, 0x7531] @ '' id '' @ utf8 [0x5FC5, 0x987B, 0x552F, 0x4E00, 0xFF09])))
     else if \<not> rr_enabled route then Inr (route_id # route_ids, paths)
     else try_bind (normalize_route_path (rr_path route)) (\<lambda>path.
       if list_ex (\<lambda>existing. route_paths_conflict existing path) paths
       then Inl (AppError ((''routePath '' @ utf8 [0x51B2, 0x7A81, 0xFF08, 0x5165, 0x53E3, 0x300C]) @ re_name entrypoint @ (utf8 [0x300D, 0x4E2D, 0x5B58, 0x5728, 0x91CD, 0x590D, 0x6216, 0x524D, 0x7F00, 0x91CD, 0x53E0, 0xFF09] @ '': '') @ path))
       else try_bind (validate_route_auth route) (\<lambda>_. Inr (route_id # route_ids, paths @ [path]))))"

definition validate_entrypoint ::
    "claimed_ports \<times> string list \<times> string list \<Rightarrow> remote_entrypoint
      \<Rightarrow> (claimed_ports \<times> string list \<times> string list) app_result" where
  "validate_entrypoint = (\<lambda>(ports, enabled, ids) entrypoint.
     let i = trim (re_id entrypoint) in
     if i = [] then Inl (AppError ((''entrypointId '' @ utf8 [0x4E0D, 0x80FD, 0x4E3A, 0x7A7A, 0xFF08, 0x5165, 0x53E3, 0x300C]) @ re_name entrypoint @ (utf8 [0x300D, 0x9700, 0x8981, 0x4E00, 0x4E2A, 0x552F, 0x4E00] @ '' id'' @ utf8 [0xFF09])))
     else if i \<in> set ids then Inl (AppError ((''entrypointId '' @ utf8 [0x91CD, 0x590D] @ '': '') @ i @ (utf8 [0xFF08, 0x6BCF, 0x4E2A, 0x8FDC, 0x7A0B, 0x5165, 0x53E3, 0x7684] @ '' id '' @ utf8 [0x5FC5, 0x987B, 0x552F, 0x4E00, 0xFF09])))
     else if \<not> re_enabled entrypoint then Inr (ports, enabled, i # ids)
     else if re_port entrypoint = 0
     then Inl (AppError ((''port '' @ utf8 [0x5FC5, 0x987B, 0x5927, 0x4E8E] @ '' 0'' @ utf8 [0xFF08, 0x5165, 0x53E3, 0x300C]) @ re_name entrypoint @ (utf8 [0x300D, 0x5DF2, 0x542F, 0x7528, 0x4F46, 0x7AEF, 0x53E3, 0x4E3A] @ '' 0/'' @ utf8 [0x672A, 0x8BBE, 0x7F6E, 0xFF09])))
     else if blank (re_bind_host entrypoint)
     then Inl (AppError ((''bindHost '' @ utf8 [0x4E0D, 0x80FD, 0x4E3A, 0x7A7A, 0xFF08, 0x5165, 0x53E3, 0x300C]) @ re_name entrypoint @ (utf8 [0x300D, 0x5DF2, 0x542F, 0x7528, 0xFF09])))
     else try_bind (validate_source_policy (re_source_policy entrypoint) (re_name entrypoint)) (\<lambda>_.
       try_bind (try_each (\<lambda>proxy. ensure (parse_ip_or_cidr proxy)
           ((''trustedProxies '' @ utf8 [0x5305, 0x542B, 0x975E, 0x6CD5] @ '' IP/CIDR'' @ utf8 [0xFF08, 0x5165, 0x53E3, 0x300C]) @ re_name entrypoint @ (utf8 [0x300D, 0xFF09] @ '': '') @ proxy))
         (re_trusted_proxies entrypoint)) (\<lambda>_.
       try_bind (claim_port (re_port entrypoint) ((utf8 [0x8FDC, 0x7A0B, 0x5165, 0x53E3, 0x300C]) @ trim (re_name entrypoint) @ (utf8 [0x300D])) ports) (\<lambda>ports.
       try_bind (try_fold (validate_route entrypoint) ([], []) (re_routes entrypoint)) (\<lambda>_.
       Inr (ports, i # enabled, i # ids))))))"

definition validate_tunnel_mode :: "remote_tunnel \<Rightarrow> claimed_ports \<Rightarrow> claimed_ports app_result" where
  "validate_tunnel_mode tunnel ports =
     (case rtn_mode tunnel of
        Remote_Command \<Rightarrow>
          if blank (rtn_command tunnel)
          then Inl (AppError ((''command '' @ utf8 [0x4E0D, 0x80FD, 0x4E3A, 0x7A7A, 0xFF08, 0x96A7, 0x9053, 0x300C]) @ rtn_name tunnel
                 @ (utf8 [0x300D, 0x4E3A] @ '' command '' @ utf8 [0x6A21, 0x5F0F, 0x65F6, 0x9700, 0x586B, 0x5199, 0x96A7, 0x9053, 0x547D, 0x4EE4, 0xFF0C, 0x53EF, 0x7528] @ '' {port} '' @ utf8 [0x5360, 0x4F4D, 0xFF09])))
          else Inr ports
      | Remote_Listener \<Rightarrow> Inr ports
      | Remote_Quick \<Rightarrow> Inr ports
      | Remote_Lan \<Rightarrow>
          if rtn_port tunnel = 0
          then Inl (AppError ((''port '' @ utf8 [0x5FC5, 0x987B, 0x5927, 0x4E8E] @ '' 0'' @ utf8 [0xFF08] @ ''LAN '' @ utf8 [0x96A7, 0x9053, 0x300C]) @ rtn_name tunnel @ (utf8 [0x300D, 0x5DF2, 0x542F, 0x7528, 0x4F46, 0x7AEF, 0x53E3, 0x4E3A] @ '' 0/'' @ utf8 [0x672A, 0x8BBE, 0x7F6E, 0xFF09])))
          else if blank (rtn_bind_host tunnel)
          then Inl (AppError ((''bindHost '' @ utf8 [0x4E0D, 0x80FD, 0x4E3A, 0x7A7A, 0xFF08] @ ''LAN '' @ utf8 [0x96A7, 0x9053, 0x300C]) @ rtn_name tunnel @ (utf8 [0x300D, 0x5DF2, 0x542F, 0x7528, 0xFF09])))
          else claim_port (rtn_port tunnel) ((''LAN '' @ utf8 [0x96A7, 0x9053, 0x300C]) @ trim (rtn_name tunnel) @ (utf8 [0x300D])) ports)"

definition validate_tunnel ::
    "validation_env \<Rightarrow> string list \<Rightarrow> claimed_ports \<times> string list \<Rightarrow> remote_tunnel
      \<Rightarrow> (claimed_ports \<times> string list) app_result" where
  "validate_tunnel env enabled_entrypoints = (\<lambda>(ports, ids) tunnel.
     let i = trim (rtn_id tunnel);
         public_url = trim (rtn_public_url tunnel);
         target = trim (rtn_target_entrypoint_id tunnel)
     in if i = [] then Inl (AppError ((''tunnelId '' @ utf8 [0x4E0D, 0x80FD, 0x4E3A, 0x7A7A, 0xFF08, 0x96A7, 0x9053, 0x300C]) @ rtn_name tunnel @ (utf8 [0x300D, 0x9700, 0x8981, 0x4E00, 0x4E2A, 0x552F, 0x4E00] @ '' id'' @ utf8 [0xFF09])))
        else if i \<in> set ids then Inl (AppError ((''tunnelId '' @ utf8 [0x91CD, 0x590D] @ '': '') @ i @ (utf8 [0xFF08, 0x6BCF, 0x4E2A, 0x96A7, 0x9053, 0x7684] @ '' id '' @ utf8 [0x5FC5, 0x987B, 0x552F, 0x4E00, 0xFF09])))
        else if public_url \<noteq> [] \<and> \<not> is_https_url_without_userinfo env public_url
        then Inl (AppError ((''publicUrl '' @ utf8 [0x5FC5, 0x987B, 0x662F] @ '' https:// '' @ utf8 [0x5F00, 0x5934, 0x7684] @ '' URL'' @ utf8 [0xFF08, 0x96A7, 0x9053, 0x300C]) @ rtn_name tunnel
               @ (utf8 [0x300D, 0xFF0C, 0x4E0D, 0x80FD, 0x8D70, 0x660E, 0x6587] @ '' HTTP/'' @ utf8 [0x4E0D, 0x80FD, 0x5185, 0x5D4C, 0x51ED, 0x636E, 0xFF09] @ '': '') @ public_url))
        else if \<not> rtn_enabled tunnel then Inr (ports, i # ids)
        else if target = []
        then Inl (AppError ((''targetEntrypointId '' @ utf8 [0x4E0D, 0x80FD, 0x4E3A, 0x7A7A, 0xFF08, 0x96A7, 0x9053, 0x300C]) @ rtn_name tunnel @ (utf8 [0x300D, 0x5DF2, 0x542F, 0x7528, 0xFF0C, 0x9700, 0x6307, 0x5B9A, 0x76EE, 0x6807, 0x5165, 0x53E3, 0xFF09])))
        else if target \<notin> set enabled_entrypoints
        then Inl (AppError ((''targetEntrypointId '' @ utf8 [0x4E0D, 0x6307, 0x5411, 0x5DF2, 0x542F, 0x7528, 0x5165, 0x53E3, 0xFF08, 0x96A7, 0x9053, 0x300C]) @ rtn_name tunnel @ (utf8 [0x300D] @ '': '') @ target @ (utf8 [0xFF09])))
        else try_bind (validate_tunnel_mode tunnel ports) (\<lambda>ports. Inr (ports, i # ids)))"

(* config/model.rs 2040-2217 validate_remote_access *)
definition validate_remote_access :: "validation_env \<Rightarrow> app_config \<Rightarrow> unit app_result" where
  "validate_remote_access env config =
     try_bind (if cfg_webhook_enabled config then claim_port (cfg_webhook_port config) ''webhookPort'' [] else Inr []) (\<lambda>ports.
     try_bind (try_fold validate_entrypoint (ports, [], []) (ra_entrypoints (cfg_remote_access config))) (\<lambda>(ports, enabled, _).
     try_bind (try_fold (validate_tunnel env enabled) (ports, []) (ra_tunnels (cfg_remote_access config))) (\<lambda>_. Inr ())))"

section \<open>The whole configuration\<close>

definition validate_webhook :: "app_config \<Rightarrow> unit app_result" where
  "validate_webhook config =
     (if cfg_webhook_enabled config then all_ok
        [ensure (\<not> blank (cfg_webhook_secret config)) (''webhookSecret '' @ utf8 [0x4E0D, 0x80FD, 0x4E3A, 0x7A7A, 0xFF08, 0x542F, 0x7528] @ '' webhook '' @ utf8 [0x65F6, 0x5FC5, 0x586B, 0xFF09]),
         ensure (webhook_secret_min_len \<le> char_count (trim (cfg_webhook_secret config)))
           ((''webhookSecret '' @ utf8 [0x592A, 0x77ED, 0xFF08, 0x81F3, 0x5C11] @ '' '') @ dec webhook_secret_min_len @ ('' '' @ utf8 [0x4E2A, 0x5B57, 0x7B26, 0xFF1B, 0x8BF7, 0x4F7F, 0x7528, 0x66F4, 0x957F, 0x7684, 0x968F, 0x673A, 0x4E32, 0xFF09])),
         ensure (cfg_webhook_port config \<noteq> 0) (''webhookPort '' @ utf8 [0x5FC5, 0x987B, 0x5927, 0x4E8E] @ '' 0''),
         ensure (\<not> (cfg_webhook_tunnel_mode config = Mode_Command \<and> blank (cfg_webhook_tunnel_command config)))
           (''webhookTunnelCommand '' @ utf8 [0x4E0D, 0x80FD, 0x4E3A, 0x7A7A, 0xFF08] @ ''command '' @ utf8 [0x6A21, 0x5F0F, 0x9700, 0x586B, 0x96A7, 0x9053, 0x547D, 0x4EE4, 0xFF0C, 0x53EF, 0x7528] @ '' {port} '' @ utf8 [0x5360, 0x4F4D, 0xFF09])]
      else Inr ())"

definition validate_local_token :: "app_config \<Rightarrow> unit app_result" where
  "validate_local_token config =
     (let token = trim (cfg_local_api_token config) in
      ensure (token = [] \<or> local_api_token_min_len \<le> char_count token)
        ((''localApiToken '' @ utf8 [0x592A, 0x77ED, 0xFF08, 0x81F3, 0x5C11] @ '' '') @ dec local_api_token_min_len @ ('' '' @ utf8 [0x4E2A, 0x5B57, 0x7B26, 0xFF1B, 0x8BF7, 0x4F7F, 0x7528, 0x66F4, 0x957F, 0x7684, 0x968F, 0x673A, 0x4E32, 0xFF09])))"

(* config/model.rs 2226-2382 validate *)
definition validate_config :: "validation_env \<Rightarrow> app_config \<Rightarrow> unit app_result" where
  "validate_config env config = all_ok
     [validate_tools (vx_cli_files env) (cfg_cli_tools config),
      validate_webhook config,
      validate_local_token config,
      validate_notifications env (cfg_channels config),
      validate_messaging env (cfg_integrations config),
      validate_review_lifecycle_notifications config,
      validate_projects (vx_is_dir env) [] [] (cfg_projects config),
      validate_rules (vx_files env) config,
      ensure (cfg_projects config = [] \<or> cfg_active_project_id config \<in> set (map prj_id (cfg_projects config)))
        ((''activeProjectId '' @ utf8 [0x4E0D, 0x6307, 0x5411, 0x4EFB, 0x4F55, 0x73B0, 0x6709, 0x9879, 0x76EE] @ '': '') @ debug_str (cfg_active_project_id config)),
      validate_remote_access env config]"

end
