(* ===== verification/Remote_Gate.thy ===== *)
theory Remote_Gate
  imports Config_Validation World Json
begin

text \<open>
  The gate in front of every remote entrypoint (\<open>remote/supervisor.rs\<close>): the address a request really
  comes from, the allowed sources, hosts and origins, and the audit row of a refusal. The URL parser is a
  parameter, as in \<open>Config_Validation\<close>; the request's headers are the text values that \<open>to_str\<close>
  gives, the others are opaque.
\<close>

unbundle bit_operations_syntax

text \<open>A request: a header with bytes that are not text is there, but has no value.\<close>

record gate_request =
  gr_headers :: "(string \<times> string option) list"
  gr_path :: string
  gr_peer :: ip_addr

definition header_str :: "string \<Rightarrow> gate_request \<Rightarrow> string option" where
  "header_str name rq = Option.bind (map_of (gr_headers rq) name) (\<lambda>v. v)"

section \<open>Addresses and rules\<close>

text \<open>The mask of a prefix: \<open>MAX << (width - prefix)\<close>, and nothing for the empty prefix.\<close>

definition prefix_mask :: "nat \<Rightarrow> 'w::len word" where
  "prefix_mask n = (if n = 0 then 0 else push_bit (LENGTH('w) - n) (- 1))"

(* remote/supervisor.rs 841-874 ip_matches_rule *)
definition ip_matches_rule :: "ip_addr \<Rightarrow> string \<Rightarrow> bool" where
  "ip_matches_rule ip raw =
     (let rule = trim raw in
      case parse_ip rule of
        Some exact \<Rightarrow> exact = ip
      | None \<Rightarrow>
          (case split_once CHR ''/'' rule of
             None \<Rightarrow> False
           | Some (base, bits) \<Rightarrow>
               (case (parse_ip base, parse_unsigned 255 bits) of
                  (Some base, Some n) \<Rightarrow>
                    (case (ip, base) of
                       (V4 ip, V4 base) \<Rightarrow> n \<le> 32 \<and> ip AND prefix_mask n = base AND prefix_mask n
                     | (V6 ip, V6 base) \<Rightarrow> n \<le> 128 \<and> ip AND prefix_mask n = base AND prefix_mask n
                     | _ \<Rightarrow> False)
                | _ \<Rightarrow> False)))"

(* remote/supervisor.rs 834-839 is_lan_ip *)
fun is_lan_ip :: "ip_addr \<Rightarrow> bool" where
  "is_lan_ip (V4 w) \<longleftrightarrow> is_private w \<or> is_loopback (V4 w) \<or> take 2 (octets w) = [169, 254]"
| "is_lan_ip (V6 w) \<longleftrightarrow> is_loopback (V6 w) \<or> (of_nat (segments w ! 0) :: 16 word) AND 0xFE00 = 0xFC00"

(* remote/supervisor.rs 822-832 source_allowed *)
definition source_allowed :: "ip_addr \<Rightarrow> remote_entrypoint \<Rightarrow> bool" where
  "source_allowed ip entrypoint =
     (case sp_mode (re_source_policy entrypoint) of
        Policy_Loopback \<Rightarrow> is_loopback ip
      | Policy_Lan \<Rightarrow> is_loopback ip \<or> is_lan_ip ip
      | Policy_Custom \<Rightarrow> list_ex (ip_matches_rule ip) (sp_allow (re_source_policy entrypoint)))"

section \<open>Forwarded requests\<close>

(* remote/supervisor.rs 742-747 trusted_proxy_matches *)
definition trusted_proxy_matches :: "ip_addr \<Rightarrow> remote_entrypoint \<Rightarrow> bool" where
  "trusted_proxy_matches ip entrypoint = list_ex (ip_matches_rule ip) (re_trusted_proxies entrypoint)"

text \<open>\<open>host:port\<close> without the port, unless the host has a colon itself or the port is not a number.\<close>

definition without_port :: "string \<Rightarrow> string" where
  "without_port v =
     (case rsplit_once CHR '':'' v of
        Some (host, port) \<Rightarrow> if CHR '':'' \<notin> set host \<and> list_all is_ascii_digit port then host else v
      | None \<Rightarrow> v)"

definition trim_quotes :: "string \<Rightarrow> string" where
  "trim_quotes v = trim_end_char (CHR 0x22) (trim_start_char (CHR 0x22) v)"

(* remote/supervisor.rs 805-820 parse_forwarded_ip_value *)
definition parse_forwarded_ip_value :: "string \<Rightarrow> ip_addr option" where
  "parse_forwarded_ip_value raw =
     (let v = trim_quotes (trim raw) in
      if v = [] \<or> eq_ignore_ascii_case v ''unknown'' \<or> prefix ''_'' v then None
      else case strip_prefix ''['' v of
        Some rest \<Rightarrow> (case split_once CHR '']'' rest of None \<Rightarrow> None | Some (host, _) \<Rightarrow> parse_ip host)
      | None \<Rightarrow> parse_ip (without_port v))"

fun find_map :: "('a \<Rightarrow> 'b option) \<Rightarrow> 'a list \<Rightarrow> 'b option" where
  "find_map f [] = None"
| "find_map f (x # xs) = (case f x of Some y \<Rightarrow> Some y | None \<Rightarrow> find_map f xs)"

(* remote/supervisor.rs 789-803 parse_forwarded_header *)
definition parse_forwarded_header :: "string \<Rightarrow> ip_addr list" where
  "parse_forwarded_header v =
     List.map_filter (\<lambda>node.
       find_map (\<lambda>pair.
         case split_once CHR ''='' pair of
           None \<Rightarrow> None
         | Some (key, v) \<Rightarrow> if eq_ignore_ascii_case (trim key) ''for'' then parse_forwarded_ip_value v else None)
         (split_all CHR '';'' node))
       (split_all CHR '','' v)"

definition some_nonempty :: "'a list \<Rightarrow> 'a list option" where
  "some_nonempty xs = (if xs = [] then None else Some xs)"

(* remote/supervisor.rs 768-779 header_ip_chain *)
definition header_ip_chain :: "string \<Rightarrow> gate_request \<Rightarrow> ip_addr list option" where
  "header_ip_chain name rq =
     (case header_str name rq of
        None \<Rightarrow> None
      | Some v \<Rightarrow>
          some_nonempty
            (if name = ''forwarded'' then parse_forwarded_header v
             else if name = ''x-forwarded-for'' then List.map_filter parse_forwarded_ip_value (split_all CHR '','' v)
             else []))"

(* remote/supervisor.rs 781-787 header_ip *)
definition header_ip :: "string \<Rightarrow> gate_request \<Rightarrow> ip_addr option" where
  "header_ip name rq =
     (if name \<in> {''x-real-ip'', ''cf-connecting-ip''}
      then Option.bind (header_str name rq) parse_forwarded_ip_value else None)"

(* remote/supervisor.rs 757-766 first_untrusted_forwarded_hop *)
definition first_untrusted_forwarded_hop :: "ip_addr list \<Rightarrow> remote_entrypoint \<Rightarrow> ip_addr option" where
  "first_untrusted_forwarded_hop chain entrypoint = find (\<lambda>ip. \<not> trusted_proxy_matches ip entrypoint) (rev chain)"

definition or_try :: "'a option \<Rightarrow> 'a option \<Rightarrow> 'a option" where
  "or_try a b = (case a of Some x \<Rightarrow> Some x | None \<Rightarrow> b)"

(* remote/supervisor.rs 749-755 forwarded_peer_ip *)
definition forwarded_peer_ip :: "gate_request \<Rightarrow> remote_entrypoint \<Rightarrow> ip_addr option" where
  "forwarded_peer_ip rq entrypoint =
     or_try (or_try
       (Option.bind (or_try (header_ip_chain ''forwarded'' rq) (header_ip_chain ''x-forwarded-for'' rq))
          (\<lambda>chain. first_untrusted_forwarded_hop chain entrypoint))
       (header_ip ''x-real-ip'' rq))
       (header_ip ''cf-connecting-ip'' rq)"

(* remote/supervisor.rs 106-109 PeerIdentity *)
record peer_identity =
  pi_effective_ip :: ip_addr
  pi_forwarded :: bool

(* remote/supervisor.rs 704-725 effective_peer_identity *)
definition effective_peer_identity :: "gate_request \<Rightarrow> remote_entrypoint \<Rightarrow> peer_identity" where
  "effective_peer_identity rq entrypoint =
     (if \<not> trusted_proxy_matches (gr_peer rq) entrypoint then \<lparr>pi_effective_ip = gr_peer rq, pi_forwarded = False\<rparr>
      else case forwarded_peer_ip rq entrypoint of
        Some ip \<Rightarrow> \<lparr>pi_effective_ip = ip, pi_forwarded = True\<rparr>
      | None \<Rightarrow> \<lparr>pi_effective_ip = gr_peer rq, pi_forwarded = False\<rparr>)"

(* remote/supervisor.rs 978-987 host_without_port *)
definition host_without_port :: "string \<Rightarrow> string" where
  "host_without_port raw =
     (let host = trim raw in
      case strip_prefix ''['' host of
        Some rest \<Rightarrow> (case split_once CHR '']'' rest of Some (host, _) \<Rightarrow> host | None \<Rightarrow> rest)
      | None \<Rightarrow> without_port host)"

definition url_hosts :: "validation_env \<Rightarrow> string list \<Rightarrow> string list" where
  "url_hosts env urls = List.map_filter (\<lambda>url. Option.bind (vx_parse_url env url) url_host) urls"

(* remote/supervisor.rs 727-740 public_tunnel_request *)
definition public_tunnel_request :: "validation_env \<Rightarrow> gate_request \<Rightarrow> string list \<Rightarrow> bool" where
  "public_tunnel_request env rq public_urls =
     (case header_str ''host'' rq of
        None \<Rightarrow> False
      | Some host \<Rightarrow> list_ex (eq_ignore_ascii_case (host_without_port host)) (url_hosts env public_urls))"

(* remote/supervisor.rs 682-693 source_request_allowed *)
definition source_request_allowed :: "validation_env \<Rightarrow> gate_request \<Rightarrow> remote_entrypoint \<Rightarrow> string list \<Rightarrow> bool" where
  "source_request_allowed env rq entrypoint public_urls =
     (let identity = effective_peer_identity rq entrypoint in
      if public_tunnel_request env rq public_urls \<and> \<not> pi_forwarded identity then False
      else source_allowed (pi_effective_ip identity) entrypoint)"

section \<open>Hosts and origins\<close>

definition any_address :: "string list" where "any_address = [''0.0.0.0'', ''::'']"

(* remote/supervisor.rs 951-954 host_matches_bind_host *)
definition host_matches_bind_host :: "string \<Rightarrow> string \<Rightarrow> bool" where
  "host_matches_bind_host host bind_host \<longleftrightarrow>
     eq_ignore_ascii_case host bind_host \<or> bind_host \<in> set any_address \<and> parse_ip host \<noteq> None"

(* remote/supervisor.rs 893-926 host_allowed_str *)
definition host_allowed_str :: "validation_env \<Rightarrow> string \<Rightarrow> remote_entrypoint \<Rightarrow> string list \<Rightarrow> string list \<Rightarrow> bool" where
  "host_allowed_str env host entrypoint extra_allowed_hosts public_urls =
     (if list_ex (eq_ignore_ascii_case host) [''127.0.0.1'', ''localhost'', ''::1''] then True
      else if eq_ignore_ascii_case host (re_bind_host entrypoint) then True
      else if re_bind_host entrypoint \<in> set any_address then parse_ip host \<noteq> None
      else if list_ex (host_matches_bind_host host) extra_allowed_hosts then True
      else list_ex (eq_ignore_ascii_case host) (url_hosts env public_urls))"

(* remote/supervisor.rs 876-891 host_allowed *)
definition host_allowed :: "validation_env \<Rightarrow> string option \<Rightarrow> remote_entrypoint \<Rightarrow> string list \<Rightarrow> string list \<Rightarrow> bool" where
  "host_allowed env host entrypoint extra_allowed_hosts public_urls =
     (case host of
        None \<Rightarrow> False
      | Some host \<Rightarrow> host_allowed_str env (host_without_port host) entrypoint extra_allowed_hosts public_urls)"

definition same_origin :: "string \<Rightarrow> string \<Rightarrow> bool" where
  "same_origin allowed origin = eq_ignore_ascii_case (trim_end_char CHR ''/'' allowed) (trim_end_char CHR ''/'' origin)"

(* remote/supervisor.rs 928-949 origin_allowed *)
definition origin_allowed :: "validation_env \<Rightarrow> string option \<Rightarrow> remote_entrypoint \<Rightarrow> string list \<Rightarrow> string list \<Rightarrow> bool" where
  "origin_allowed env origin entrypoint extra_allowed_hosts public_urls =
     (case origin of
        None \<Rightarrow> True
      | Some origin \<Rightarrow>
          list_ex (\<lambda>allowed. same_origin allowed origin) (re_allowed_origins entrypoint)
          \<or> list_ex (\<lambda>allowed. same_origin allowed origin) public_urls
          \<or> (case Option.bind (vx_parse_url env origin) url_host of
               Some host \<Rightarrow> host_allowed_str env host entrypoint extra_allowed_hosts public_urls
             | None \<Rightarrow> False))"

section \<open>The audit of refusals\<close>

(* remote/supervisor.rs 1043-1049 capability_audit_label *)
fun capability_audit_label :: "remote_capability \<Rightarrow> string" where
  "capability_audit_label Capability_Terminal = ''terminal''"
| "capability_audit_label Capability_LocalApi = ''local-api''"
| "capability_audit_label Capability_Messaging = ''messaging''"

(* remote/supervisor.rs 1028-1041 route_audit_fields *)
definition route_audit_fields :: "remote_entrypoint \<Rightarrow> string \<Rightarrow> string \<times> string" where
  "route_audit_fields entrypoint request_path =
     (case find (\<lambda>route. rr_enabled route \<and> (request_path = rr_path route \<or> below request_path (rr_path route)))
             (re_routes entrypoint) of
        Some route \<Rightarrow> (rr_path route, capability_audit_label (rr_capability route))
      | None \<Rightarrow> (request_path, ''unknown''))"

text \<open>The clock of the database gives the second; an error of the statement is ignored.\<close>

(* remote/supervisor.rs 989-1026 audit_remote_denial *)
definition audit_remote_denial ::
    "remote_entrypoint \<Rightarrow> gate_request \<Rightarrow> ip_addr \<Rightarrow> string \<Rightarrow> world \<Rightarrow> world" where
  "audit_remote_denial entrypoint rq effective_ip gate w =
     (let (now, w) = now_epoch w;
          (route, capability) = route_audit_fields entrypoint (gr_path rq);
          d = w_db w
      in case tbl_next (db_remote_audit d) of
           Inl _ \<Rightarrow> w
         | Inr i \<Rightarrow> w\<lparr>w_db := d\<lparr>db_remote_audit := tbl_push i
             \<lparr>au_id = i, au_ts_ms = int now * 1000, au_entrypoint_id = re_id entrypoint, au_route = route,
              au_capability = capability, au_gate = gate, au_decision = ''deny'', au_peer_ip = ip_text (gr_peer rq),
              au_effective_ip = ip_text effective_ip, au_host = unwrap_or [] (header_str ''host'' rq),
              au_origin = unwrap_or [] (header_str ''origin'' rq)\<rparr> (db_remote_audit d)\<rparr>\<rparr>)"

datatype gate_answer = Forbidden | Admitted

(* remote/supervisor.rs 622-680 remote_access_gate *)
definition remote_access_gate ::
    "validation_env \<Rightarrow> remote_entrypoint \<Rightarrow> string list \<Rightarrow> string list \<Rightarrow> string list \<Rightarrow> gate_request \<Rightarrow> world
      \<Rightarrow> gate_answer \<times> world" where
  "remote_access_gate env entrypoint extra_allowed_hosts public_urls forwarded_public_urls rq w =
     (let effective = pi_effective_ip (effective_peer_identity rq entrypoint) in
      if \<not> host_allowed env (header_str ''host'' rq) entrypoint extra_allowed_hosts public_urls
      then (Forbidden, audit_remote_denial entrypoint rq effective ''host'' w)
      else if \<not> origin_allowed env (header_str ''origin'' rq) entrypoint extra_allowed_hosts public_urls
      then (Forbidden, audit_remote_denial entrypoint rq effective ''origin'' w)
      else if \<not> source_request_allowed env rq entrypoint forwarded_public_urls
      then (Forbidden, audit_remote_denial entrypoint rq effective ''source'' w)
      else (Admitted, w))"

end
