(* ===== verification/Local_Api.thy ===== *)
theory Local_Api
  imports Messaging_Adapters Remote_Gate
begin

text \<open>
  The local HTTP interface (\<open>review/local_api.rs\<close>, \<open>messaging/local_api.rs\<close>) and the callbacks of chat
  providers (\<open>messaging/commands.rs\<close>): the three layers of the gate, the readers of the request bodies
  (\<open>model.rs\<close>), the handlers and the stream of one receipt. A body is what the handler serializes; a
  panic is \<open>None\<close>.
\<close>

section \<open>The gate\<close>

(* review/local_api.rs 130-140 security::host_allowed *)
definition local_host_allowed :: "string \<Rightarrow> nat \<Rightarrow> bool" where
  "local_host_allowed host port =
     list_ex (\<lambda>a. eq_ignore_ascii_case a host)
       [''127.0.0.1'', ''127.0.0.1:'' @ dec port, ''localhost'', ''localhost:'' @ dec port, ''[::1]'', ''[::1]:'' @ dec port]"

(* review/local_api.rs 160-166 security::is_loopback_origin *)
definition is_loopback_origin :: "string \<Rightarrow> nat \<Rightarrow> bool" where
  "is_loopback_origin origin port =
     list_ex (\<lambda>h. origin = h \<or> strip_prefix h origin = Some ('':'' @ dec port))
       [''http://127.0.0.1'', ''http://localhost'', ''http://[::1]'']"

(* review/local_api.rs 150-158 security::origin_allowed *)
definition local_origin_allowed :: "string option \<Rightarrow> string option \<Rightarrow> nat \<Rightarrow> bool" where
  "local_origin_allowed origin sec_fetch_site port =
     (case sec_fetch_site of
        Some sfs \<Rightarrow> sfs = ''same-origin'' \<or> sfs = ''none''
      | None \<Rightarrow> (case origin of None \<Rightarrow> True | Some o' \<Rightarrow> is_loopback_origin o' port))"

(* review/local_api.rs 173-185 security::verify_bearer *)
definition verify_bearer :: "string \<Rightarrow> string \<Rightarrow> bool" where
  "verify_bearer token header =
     (token \<noteq> [] \<and>
      (case split_once CHR '' '' header of
         Some (scheme, presented) \<Rightarrow> eq_ignore_ascii_case scheme ''bearer'' \<and> presented = token
       | None \<Rightarrow> False))"

(* review/local_api.rs 664-669 Ctx *)
record local_ctx =
  lc_port :: nat
  lc_base_path :: string
  lc_remote_entrypoint_id :: "string option"

datatype api_status =
  Api_OK | Api_Accepted | Api_Bad_Request | Api_Unauthorized | Api_Forbidden | Api_Not_Found | Api_Gone | Api_Internal_Error

datatype api_body =
  Error_Body string
| Receipt_Accepted int string
| Receipt_Snapshot review_receipt_snapshot
| Outbox_Ids "int list"
| Outbox_Id int
| Messaging_Entries "messaging_entry list"
| Outbox_Entries "outbox_entry list"
| Challenge_Body string
| Plain_Body string
| Receipt_Stream int

type_synonym api_response = "api_status \<times> api_body"

(* review/local_api.rs 237-274 check_request *)
definition check_request :: "app_config app_result \<Rightarrow> local_ctx \<Rightarrow> http_request \<Rightarrow> api_response option" where
  "check_request load ctx rq =
     (if lc_remote_entrypoint_id ctx = None \<and> \<not> local_host_allowed (unwrap_or [] (header_text ''host'' rq)) (lc_port ctx)
      then Some (Api_Forbidden, Error_Body (''Host '' @ utf8 [0x4E0D, 0x88AB, 0x5141, 0x8BB8, 0xFF08, 0x4EC5] @ '' loopback '' @ utf8 [0x53EF, 0x8BBF, 0x95EE, 0xFF09]))
      else if lc_remote_entrypoint_id ctx = None \<and>
        \<not> local_origin_allowed (header_text ''origin'' rq) (header_text ''sec-fetch-site'' rq) (lc_port ctx)
      then Some (Api_Forbidden, Error_Body (''Origin '' @ utf8 [0x4E0D, 0x88AB, 0x5141, 0x8BB8, 0xFF08, 0x8DE8, 0x7AD9, 0x8BF7, 0x6C42, 0x5DF2, 0x62D2, 0x7EDD, 0xFF09]))
      else case load of
        Inl _ \<Rightarrow> Some (Api_Unauthorized, Error_Body (utf8 [0x9274, 0x6743, 0x4E0D, 0x53EF, 0x7528]))
      | Inr cfg \<Rightarrow>
          if verify_bearer (trim (cfg_local_api_token cfg)) (unwrap_or [] (header_text ''authorization'' rq)) then None
          else Some (Api_Unauthorized, Error_Body (utf8 [0x672A, 0x6388, 0x6743])))"

section \<open>Bodies of requests\<close>

text \<open>With \<open>deny_unknown_fields\<close> an object may have only the named keys.\<close>

definition strict_struct :: "string list \<Rightarrow> jvalue \<Rightarrow> jobject option" where
  "strict_struct names v =
     Option.bind (as_struct names v) (\<lambda>m. if fst ` set m \<subseteq> set names then Some m else None)"

(* review/local_api.rs 85-97 ReviewRequestBody *)
record review_request_body =
  rb_project_id :: "string option"
  rb_repo :: "string option"
  rb_pr :: nat
  rb_extra_args :: string
  rb_request_id :: string

definition request_id_of_json :: "jvalue \<Rightarrow> string option" where
  "request_id_of_json v = Option.bind (jas_str v) (\<lambda>s. case parse_request_id s of Inr i \<Rightarrow> Some i | Inl _ \<Rightarrow> None)"

(* review/local_api.rs 85-97 ReviewRequestBody (Deserialize) *)
definition review_request_of_json :: "jvalue \<Rightarrow> review_request_body option" where
  "review_request_of_json v =
     Option.bind (strict_struct [''projectId'', ''repo'', ''pr'', ''extraArgs'', ''requestId''] v) (\<lambda>m.
     Option.bind (optional jas_str ''projectId'' m) (\<lambda>project_id.
     Option.bind (optional jas_str ''repo'' m) (\<lambda>repo.
     Option.bind (required jas_u64 ''pr'' m) (\<lambda>pr.
     Option.bind (defaulted [] jas_str ''extraArgs'' m) (\<lambda>extra_args.
     Option.bind (required request_id_of_json ''requestId'' m) (\<lambda>request_id.
     Some \<lparr>rb_project_id = project_id, rb_repo = repo, rb_pr = pr, rb_extra_args = extra_args, rb_request_id = request_id\<rparr>))))))"

definition level_of_json :: "jvalue \<Rightarrow> notification_level option" where
  "level_of_json v = Option.bind (jas_str v) (map_of [(''info'', Info), (''warning'', Warning), (''error'', Error)])"

(* model.rs 1984-1998 SendNotificationRequest (Deserialize) *)
definition notification_request_of_json :: "jvalue \<Rightarrow> send_notification_request option" where
  "notification_request_of_json v =
     Option.bind (strict_struct [''level'', ''title'', ''body'', ''url'', ''projectId'', ''channelIds''] v) (\<lambda>m.
     Option.bind (optional level_of_json ''level'' m) (\<lambda>level.
     Option.bind (required jas_str ''title'' m) (\<lambda>title.
     Option.bind (optional jas_str ''body'' m) (\<lambda>body.
     Option.bind (optional jas_str ''url'' m) (\<lambda>url.
     Option.bind (optional jas_str ''projectId'' m) (\<lambda>project_id.
     Option.bind (defaulted [] (jlist jas_str) ''channelIds'' m) (\<lambda>channel_ids.
     Some \<lparr>snr_level = level, snr_title = title, snr_body = body, snr_url = url, snr_project_id = project_id,
           snr_channel_ids = channel_ids\<rparr>)))))))"

definition template_of_json :: "jvalue \<Rightarrow> messaging_card_template option" where
  "template_of_json v = Option.bind (jas_str v) (map_of [(''blue'', Blue), (''orange'', Orange), (''grey'', Grey)])"

text \<open>The tag of the content is a key of an object, or the first element of an array.\<close>

definition tagged :: "jvalue \<Rightarrow> (string \<times> jvalue) option" where
  "tagged v =
     (case v of
        JObject m \<Rightarrow> Option.bind (map_of m ''kind'') (\<lambda>k. Option.bind (jas_str k) (\<lambda>k. Some (k, JObject (obj_remove ''kind'' m))))
      | JArray (k # vs) \<Rightarrow> Option.bind (jas_str k) (\<lambda>k. Some (k, JArray vs))
      | _ \<Rightarrow> None)"

(* model.rs 1757-1789 StrictMessagingSendContentWire *)
definition send_content_of_json :: "jvalue \<Rightarrow> messaging_send_content option" where
  "send_content_of_json v =
     Option.bind (tagged v) (\<lambda>(kind, rest).
     if kind = ''text'' then
       Option.bind (strict_struct [''text''] rest) (\<lambda>m. Option.bind (required jas_str ''text'' m) (\<lambda>t. Some (Text t)))
     else if kind = ''card'' then
       Option.bind (strict_struct [''title'', ''text'', ''template''] rest) (\<lambda>m.
       Option.bind (required jas_str ''title'' m) (\<lambda>title.
       Option.bind (required jas_str ''text'' m) (\<lambda>text.
       Option.bind (required template_of_json ''template'' m) (\<lambda>template. Some (Card title text template)))))
     else None)"

(* model.rs 1890-1897 CurrentSendMessagingRequestWire *)
definition current_send_request :: "jvalue \<Rightarrow> send_messaging_request option" where
  "current_send_request v =
     Option.bind (strict_struct [''integrationId'', ''conversationId'', ''content'', ''requestId''] v) (\<lambda>m.
     Option.bind (required jas_str ''integrationId'' m) (\<lambda>integration_id.
     Option.bind (required jas_str ''conversationId'' m) (\<lambda>conversation_id.
     Option.bind (required send_content_of_json ''content'' m) (\<lambda>content.
     Option.bind (required jas_str ''requestId'' m) (\<lambda>request_id.
     Some \<lparr>smr_integration_id = integration_id, smr_conversation_id = conversation_id, smr_content = content,
           smr_request_id = request_id\<rparr>)))))"

(* model.rs 1900-1907 LegacySendMessagingRequestWire *)
definition legacy_send_request :: "jvalue \<Rightarrow> send_messaging_request option" where
  "legacy_send_request v =
     Option.bind (strict_struct [''integrationId'', ''conversationId'', ''text'', ''requestId''] v) (\<lambda>m.
     Option.bind (required jas_str ''integrationId'' m) (\<lambda>integration_id.
     Option.bind (required jas_str ''conversationId'' m) (\<lambda>conversation_id.
     Option.bind (required jas_str ''text'' m) (\<lambda>text.
     Option.bind (required jas_str ''requestId'' m) (\<lambda>request_id.
     Some \<lparr>smr_integration_id = integration_id, smr_conversation_id = conversation_id, smr_content = Text text,
           smr_request_id = request_id\<rparr>)))))"

text \<open>\<open>Some None\<close> is a rejected body; the \<open>expect\<close> on the error that must exist is the \<open>None\<close>.\<close>

(* model.rs 1909-1945 SendMessagingRequest::deserialize *)
definition send_request_of_json :: "jvalue \<Rightarrow> send_messaging_request option option" where
  "send_request_of_json v =
     (if jget ''content'' v \<noteq> None then Some (current_send_request v)
      else if jget ''text'' v \<noteq> None then Some (legacy_send_request v)
      else if current_send_request v = None then Some None
      else None)"

section \<open>Review requests\<close>

definition presented :: "string option \<Rightarrow> string option" where
  "presented v = Option.bind v (\<lambda>s. if trim s = [] then None else Some (trim s))"

(* review/local_api.rs 191-204 resolve_reference *)
definition resolve_reference :: "review_request_body \<Rightarrow> string app_result" where
  "resolve_reference rq =
     (case (presented (rb_project_id rq), presented (rb_repo rq)) of
        (Some i, None) \<Rightarrow> Inr i
      | (None, Some r) \<Rightarrow> Inr r
      | (Some _, Some _) \<Rightarrow> Inl (AppError (''projectId '' @ utf8 [0x4E0E] @ '' repo '' @ utf8 [0x53EA, 0x80FD, 0x586B, 0x4E00, 0x4E2A]))
      | (None, None) \<Rightarrow> Inl (AppError (utf8 [0x5FC5, 0x987B, 0x63D0, 0x4F9B] @ '' projectId '' @ utf8 [0x6216] @ '' repo '' @ utf8 [0x4E4B, 0x4E00, 0xFF08, 0x975E, 0x7A7A, 0xFF09])))"

(* review/local_api.rs 334-346 receipt_status_url *)
definition receipt_status_url :: "nat \<Rightarrow> string \<Rightarrow> bool \<Rightarrow> int \<Rightarrow> string" where
  "receipt_status_url port base_path remote receipt_id =
     (let path = base_path @ ''/reviews/'' @ dec_int receipt_id
      in if remote then path else ''http://127.0.0.1:'' @ dec port @ path)"

definition request_origin :: "local_ctx \<Rightarrow> http_request \<Rightarrow> external_trigger_origin" where
  "request_origin ctx rq =
     (if lc_remote_entrypoint_id ctx \<noteq> None then RemoteWeb
      else if header_text ''x-prmonitor-client'' rq = Some ''cli'' then Cli else Http)"

definition bad_request :: "string \<Rightarrow> api_response" where
  "bad_request text = (Api_Bad_Request, Error_Body text)"

definition read_body :: "net_env \<Rightarrow> (jvalue \<Rightarrow> 'a option) \<Rightarrow> http_request \<Rightarrow> string + 'a" where
  "read_body env f rq =
     map_error (\<lambda>e. (utf8 [0x8BF7, 0x6C42, 0x4F53, 0x89E3, 0x6790, 0x5931, 0x8D25] @ '': '') @ e) (read_struct env f (Inr (rq_body rq)))"

(* review/local_api.rs 280-332 handle_create *)
definition handle_create ::
    "net_env \<Rightarrow> submit_env \<Rightarrow> app_config app_result \<Rightarrow> local_ctx \<Rightarrow> http_request \<Rightarrow> world \<Rightarrow> api_response \<times> world" where
  "handle_create env senv load ctx rq w =
     (case check_request load ctx rq of
        Some resp \<Rightarrow> (resp, w)
      | None \<Rightarrow>
     (case read_body env review_request_of_json rq of
        Inl e \<Rightarrow> (bad_request e, w)
      | Inr body \<Rightarrow>
     (case resolve_reference body of
        Inl e \<Rightarrow> (bad_request (message e), w)
      | Inr reference \<Rightarrow>
     (case validate_extra_args (rb_extra_args body) of
        Inl e \<Rightarrow> (bad_request e, w)
      | Inr _ \<Rightarrow>
     (case submit_review senv load reference (rb_pr body) (rb_extra_args body) (rb_request_id body)
             (request_origin ctx rq) False w of
        (Inl e, w) \<Rightarrow> (bad_request (message e), w)
      | (Inr receipt_id, w) \<Rightarrow>
          ((Api_Accepted, Receipt_Accepted receipt_id
             (receipt_status_url (lc_port ctx) (lc_base_path ctx) (lc_remote_entrypoint_id ctx \<noteq> None) receipt_id)), w))))))"

(* review/local_api.rs 348-365 handle_notify *)
definition handle_notify ::
    "net_env \<Rightarrow> (string \<Rightarrow> parsed_url option) \<Rightarrow> app_config app_result \<Rightarrow> local_ctx \<Rightarrow> http_request \<Rightarrow> world
      \<Rightarrow> api_response \<times> world" where
  "handle_notify env parse_url load ctx rq w =
     (case check_request load ctx rq of
        Some resp \<Rightarrow> (resp, w)
      | None \<Rightarrow>
     (case read_body env notification_request_of_json rq of
        Inl e \<Rightarrow> (bad_request e, w)
      | Inr body \<Rightarrow>
     (case send_notification parse_url load body w of
        (Inl e, w) \<Rightarrow> (bad_request (message e), w)
      | (Inr ids, w) \<Rightarrow> ((Api_Accepted, Outbox_Ids ids), w))))"

definition receipt_failure :: "app_error \<Rightarrow> api_response" where
  "receipt_failure e =
     (if contains_sub (message e) (utf8 [0x4E0D, 0x5B58, 0x5728]) \<or> contains_sub (message e) ''not found''
      then (Api_Not_Found, Error_Body (utf8 [0x672A, 0x627E, 0x5230, 0x6307, 0x5B9A, 0x7684] @ '' review receipt''))
      else (Api_Internal_Error, Error_Body (utf8 [0x67E5, 0x8BE2] @ '' review receipt '' @ utf8 [0x5931, 0x8D25])))"

(* review/local_api.rs 383-409 handle_status *)
definition handle_status ::
    "app_config app_result \<Rightarrow> local_ctx \<Rightarrow> http_request \<Rightarrow> int \<Rightarrow> db \<Rightarrow> api_response" where
  "handle_status load ctx rq i d =
     (case check_request load ctx rq of
        Some resp \<Rightarrow> resp
      | None \<Rightarrow>
     (case review_receipt_id_new i of
        Inl _ \<Rightarrow> bad_request (''receiptId '' @ utf8 [0x5FC5, 0x987B, 0x4E3A, 0x6B63, 0x6574, 0x6570])
      | Inr receipt_id \<Rightarrow>
          (case get_review_receipt receipt_id d of
             Inr snapshot \<Rightarrow> (Api_OK, Receipt_Snapshot snapshot)
           | Inl e \<Rightarrow> receipt_failure e)))"

(* review/local_api.rs 621-654 handle_stream *)
definition handle_stream ::
    "app_config app_result \<Rightarrow> local_ctx \<Rightarrow> http_request \<Rightarrow> int \<Rightarrow> db \<Rightarrow> api_response" where
  "handle_stream load ctx rq i d =
     (case check_request load ctx rq of
        Some resp \<Rightarrow> resp
      | None \<Rightarrow>
     (case review_receipt_id_new i of
        Inl _ \<Rightarrow> bad_request (''receiptId '' @ utf8 [0x5FC5, 0x987B, 0x4E3A, 0x6B63, 0x6574, 0x6570])
      | Inr receipt_id \<Rightarrow>
          (case get_review_receipt receipt_id d of
             Inr _ \<Rightarrow> (Api_OK, Receipt_Stream receipt_id)
           | Inl e \<Rightarrow> receipt_failure e)))"

section \<open>The stream of a receipt\<close>

(* review/local_api.rs 527-543 ReceiptStreamEvent *)
datatype receipt_stream_event =
  Stream_Receipt review_receipt_snapshot
| Stream_Review int review_event
| Stream_Error int string

(* review/local_api.rs 421-429 review_thread_id *)
fun review_thread_id :: "review_event \<Rightarrow> string option" where
  "review_thread_id (Message_Delta _ thread_id _ _) = Some thread_id"
| "review_thread_id (Reasoning_Delta _ thread_id _ _) = Some thread_id"
| "review_thread_id (Turn_Completed _ thread_id _ _) = Some thread_id"
| "review_thread_id (Review_Error _ thread_id _) = Some thread_id"
| "review_thread_id (Dispatch_Error _ _) = None"

text \<open>What the bus answers within the timeout: an event, another item or nothing, or that it is closed.\<close>

datatype bus_answer = Bus_Event stream_event | Bus_Lagged | Bus_Timeout | Bus_Closed

definition receipt_terminal :: "review_receipt_snapshot \<Rightarrow> bool" where
  "receipt_terminal s \<longleftrightarrow> rrs_status s = Receipt_Done \<or> rrs_status s = Receipt_Failed"

text \<open>
  One turn of the loop: the receipt as it is now, and the answer of the bus if the turn waits for one.
  The result is the event yielded, the snapshot remembered and whether the stream ends.
\<close>

definition receipt_turn ::
    "int \<Rightarrow> review_receipt_snapshot option \<Rightarrow> review_receipt_snapshot app_result \<Rightarrow> bus_answer
      \<Rightarrow> receipt_stream_event option \<times> review_receipt_snapshot option \<times> bool" where
  "receipt_turn receipt_id previous current ans =
     (case current of
        Inl _ \<Rightarrow> (Some (Stream_Error receipt_id (utf8 [0x67E5, 0x8BE2] @ '' review receipt '' @ utf8 [0x5931, 0x8D25])), previous, True)
      | Inr snapshot \<Rightarrow>
          if previous \<noteq> Some snapshot then (Some (Stream_Receipt snapshot), Some snapshot, receipt_terminal snapshot)
          else
            (case rrs_thread_id snapshot of
               None \<Rightarrow> (None, previous, False)
             | Some thread_id \<Rightarrow>
                 (case ans of
                    Bus_Event (Review event) \<Rightarrow>
                      if review_thread_id event = Some thread_id
                      then (Some (Stream_Review receipt_id event), previous, False)
                      else (None, previous, False)
                  | Bus_Closed \<Rightarrow> (Some (Stream_Error receipt_id (''review event stream '' @ utf8 [0x5DF2, 0x5173, 0x95ED])), previous, True)
                  | _ \<Rightarrow> (None, previous, False))))"

(* review/local_api.rs 545-619 receipt_event_stream *)
fun receipt_event_stream ::
    "int \<Rightarrow> review_receipt_snapshot option \<Rightarrow> (review_receipt_snapshot app_result \<times> bus_answer) list
      \<Rightarrow> receipt_stream_event list \<times> bool" where
  "receipt_event_stream receipt_id previous [] = ([], False)"
| "receipt_event_stream receipt_id previous ((current, ans) # rest) =
     (let (event, previous, ended) = receipt_turn receipt_id previous current ans;
          out = (case event of Some e \<Rightarrow> [e] | None \<Rightarrow> [])
      in if ended then (out, True)
         else (let (es, ended) = receipt_event_stream receipt_id previous rest in (out @ es, ended)))"

section \<open>Messages\<close>

text \<open>\<open>form_urlencoded::parse\<close> gives the pairs of the query.\<close>

(* messaging/local_api.rs 134-137 query_param *)
definition query_param :: "(string \<times> string) list option \<Rightarrow> string \<Rightarrow> string option" where
  "query_param query key =
     Option.bind query (\<lambda>pairs. map_option snd (find (\<lambda>(k, v). k = key \<and> trim v \<noteq> []) pairs))"

(* messaging/local_api.rs 139-156 handle_send *)
definition messaging_handle_send ::
    "net_env \<Rightarrow> app_config app_result \<Rightarrow> local_ctx \<Rightarrow> http_request \<Rightarrow> world \<Rightarrow> (api_response \<times> world) option" where
  "messaging_handle_send env load ctx rq w =
     (case check_request load ctx rq of
        Some resp \<Rightarrow> Some (resp, w)
      | None \<Rightarrow>
     (case nx_parse env (rq_body rq) of
        Inl e \<Rightarrow> Some (bad_request ((utf8 [0x8BF7, 0x6C42, 0x4F53, 0x89E3, 0x6790, 0x5931, 0x8D25] @ '': '') @ e), w)
      | Inr v \<Rightarrow>
     (case send_request_of_json v of
        None \<Rightarrow> None
      | Some None \<Rightarrow> Some (bad_request ((utf8 [0x8BF7, 0x6C42, 0x4F53, 0x89E3, 0x6790, 0x5931, 0x8D25] @ '': '') @ nx_shape_error env v), w)
      | Some (Some request) \<Rightarrow>
          (case enqueue_send_scoped_after load request 0 False w of
             (Inl e, w) \<Rightarrow> Some (bad_request (message e), w)
           | (Inr outbox_id, w) \<Rightarrow> Some ((Api_Accepted, Outbox_Id outbox_id), w)))))"

(* messaging/local_api.rs 158-171 handle_events *)
definition messaging_handle_events ::
    "app_config app_result \<Rightarrow> local_ctx \<Rightarrow> http_request \<Rightarrow> (string \<times> string) list option \<Rightarrow> db \<Rightarrow> api_response" where
  "messaging_handle_events load ctx rq query d =
     (case check_request load ctx rq of
        Some resp \<Rightarrow> resp
      | None \<Rightarrow>
          (case messaging_list (query_param query ''integrationId'') d of
             Inr entries \<Rightarrow> (Api_OK, Messaging_Entries entries)
           | Inl e \<Rightarrow> bad_request (message e)))"

definition payload_integration :: "action_payload json_text option \<Rightarrow> string option" where
  "payload_integration p =
     (case p of
        Some (JsonOf (ReplyPayload r)) \<Rightarrow> Some (mrp_integration_id r)
      | Some (JsonOf (SendPayload s)) \<Rightarrow> Some (msp_integration_id s)
      | _ \<Rightarrow> None)"

fun keep_of_integration :: "string \<Rightarrow> db \<Rightarrow> outbox_entry list \<Rightarrow> outbox_entry list app_result" where
  "keep_of_integration expected d [] = Inr []"
| "keep_of_integration expected d (e # es) =
     try_bind (get_raw (oe_id e) d) (\<lambda>payload.
     try_bind (keep_of_integration expected d es) (\<lambda>rest.
     Inr (if payload_integration payload = Some expected then e # rest else rest)))"

(* lib.rs 189-215 MessagingActionsImpl::list_sends *)
definition list_sends :: "string option \<Rightarrow> db \<Rightarrow> outbox_entry list app_result" where
  "list_sends integration_id d =
     try_bind (list_by_project (Some messaging_outbox_scope) d) (\<lambda>entries.
     let mine = filter (\<lambda>e. oe_kind e = Kind_MessagingReply \<or> oe_kind e = Kind_MessagingSend) entries
     in case integration_id of None \<Rightarrow> Inr mine | Some expected \<Rightarrow> keep_of_integration expected d mine)"

(* messaging/local_api.rs 173-190 handle_sends *)
definition messaging_handle_sends ::
    "app_config app_result \<Rightarrow> local_ctx \<Rightarrow> http_request \<Rightarrow> (string \<times> string) list option \<Rightarrow> db \<Rightarrow> api_response" where
  "messaging_handle_sends load ctx rq query d =
     (case check_request load ctx rq of
        Some resp \<Rightarrow> resp
      | None \<Rightarrow>
          (case list_sends (query_param query ''integrationId'') d of
             Inr entries \<Rightarrow> (Api_OK, Outbox_Entries entries)
           | Inl e \<Rightarrow> bad_request (message e)))"

section \<open>Callbacks of providers\<close>

(* messaging/service.rs 861-867 long_connection_http_gone_message *)
fun long_connection_http_gone_message :: "messaging_provider_kind \<Rightarrow> string" where
  "long_connection_http_gone_message Feishu = (utf8 [0x98DE, 0x4E66] @ '' HTTP '' @ utf8 [0x56DE, 0x8C03, 0x5DF2, 0x7981, 0x7528, 0xFF1B, 0x8BF7, 0x5728, 0x98DE, 0x4E66, 0x5F00, 0x653E, 0x5E73, 0x53F0, 0x542F, 0x7528, 0x5B98, 0x65B9, 0x957F, 0x8FDE, 0x63A5])"
| "long_connection_http_gone_message DingTalk = (utf8 [0x9489, 0x9489] @ '' HTTP '' @ utf8 [0x56DE, 0x8C03, 0x5DF2, 0x7981, 0x7528, 0xFF1B, 0x8BF7, 0x5728, 0x9489, 0x9489, 0x5F00, 0x653E, 0x5E73, 0x53F0, 0x542F, 0x7528] @ '' Stream '' @ utf8 [0x6A21, 0x5F0F])"
| "long_connection_http_gone_message WeChatWork = (utf8 [0x8BE5] @ '' messaging provider '' @ utf8 [0x672A, 0x542F, 0x7528, 0x957F, 0x8FDE, 0x63A5] @ '' HTTP 410'')"

definition query_header :: "string \<Rightarrow> string option" where
  "query_header = map_of
     [(''msg_signature'', ''x-wechatwork-msg-signature''), (''timestamp'', ''x-wechatwork-timestamp''),
      (''nonce'', ''x-wechatwork-nonce''), (''echostr'', ''x-wechatwork-echostr'')]"

text \<open>\<open>HeaderValue::from_str\<close>: visible ASCII and tabs; other text makes no header.\<close>

definition header_value_ok :: "string \<Rightarrow> bool" where
  "header_value_ok s = list_all (\<lambda>c. byte_of c = 9 \<or> (32 \<le> byte_of c \<and> byte_of c \<noteq> 127 \<and> byte_of c < 256)) s"

fun merge_query :: "(string \<times> string) list \<Rightarrow> (string \<times> header_value) list \<Rightarrow> (string \<times> header_value) list" where
  "merge_query [] headers = headers"
| "merge_query ((key, v) # pairs) headers =
     (case query_header key of
        None \<Rightarrow> merge_query pairs headers
      | Some name \<Rightarrow>
          if header_value_ok v
          then merge_query pairs (AList.update name (if list_all (\<lambda>c. byte_of c < 127) v then Header_Text v else Header_Opaque v) headers)
          else merge_query pairs headers)"

(* messaging/commands.rs 90-116 merge_provider_query_headers *)
definition merge_provider_query_headers ::
    "messaging_provider_kind \<Rightarrow> (string \<times> string) list option \<Rightarrow> (string \<times> header_value) list \<Rightarrow> (string \<times> header_value) list" where
  "merge_provider_query_headers provider query headers =
     (case query of
        None \<Rightarrow> headers
      | Some pairs \<Rightarrow>
          if supports_long_connection provider \<or> provider \<noteq> WeChatWork then headers else merge_query pairs headers)"

(* messaging/commands.rs 85-88 provider_from_path *)
definition provider_from_path :: "string \<Rightarrow> messaging_provider_kind app_result" where
  "provider_from_path v = ok_or (provider_from_wire v) (AppError ((utf8 [0x672A, 0x77E5] @ '' messaging provider: '') @ v))"

(* messaging/commands.rs 36-83 handle_provider *)
definition handle_provider ::
    "messaging_env \<Rightarrow> adapter_env \<Rightarrow> string \<Rightarrow> string \<Rightarrow> (string \<times> string) list option \<Rightarrow> http_request \<Rightarrow> chat
      \<Rightarrow> api_response \<times> chat" where
  "handle_provider env adapters path integration_id query rq c =
     (case provider_from_path path of
        Inl e \<Rightarrow> ((Api_Not_Found, Plain_Body (message e)), c)
      | Inr provider \<Rightarrow>
          if supports_long_connection provider
          then ((Api_Gone, Plain_Body (long_connection_http_gone_message provider)), c)
          else
            (let rq = rq\<lparr>rq_headers := merge_provider_query_headers provider query (rq_headers rq)\<rparr>;
                 (now, c) = on_world now_epoch c
             in case messaging_ingest env (provider_for adapters rq now provider) provider integration_id c of
                  (Inr (Challenge challenge), c) \<Rightarrow> ((Api_OK, Challenge_Body challenge), c)
                | (Inr Ack, c) \<Rightarrow> ((Api_OK, Plain_Body []), c)
                | (Inl e, c) \<Rightarrow>
                    ((if contains_sub (message e) (utf8 [0x7B7E, 0x540D]) \<or> contains_sub (message e) ''token'' then Api_Unauthorized
                      else Api_Bad_Request, Plain_Body (message e)), c)))"

section \<open>Panel commands\<close>

(* messaging/commands.rs 118-125 messaging_events_list *)
definition messaging_events_list :: "string option \<Rightarrow> db \<Rightarrow> messaging_entry list app_result" where
  "messaging_events_list = messaging_list"

(* messaging/commands.rs 127-135 messaging_event_raw *)
definition messaging_event_raw :: "int \<Rightarrow> db \<Rightarrow> string app_result" where
  "messaging_event_raw i d =
     try_bind (messaging_get_raw_summary i d) (\<lambda>found. ok_or found (AppError ((''messagingEventId '' @ utf8 [0x4E0D, 0x5B58, 0x5728] @ '': '') @ dec_int i)))"

(* messaging/commands.rs 146-153 messaging_send *)
definition messaging_send :: "app_config app_result \<Rightarrow> send_messaging_request \<Rightarrow> world \<Rightarrow> int app_result \<times> world" where
  "messaging_send load request = enqueue_send_scoped_after load request 0 False"

(* messaging/commands.rs 164-177 messaging_integrations_list *)
definition messaging_integrations_list ::
    "app_config app_result \<Rightarrow> (string \<times> string \<times> messaging_provider_kind \<times> string list) list app_result" where
  "messaging_integrations_list load =
     try_bind load (\<lambda>cfg.
     Inr (map (\<lambda>m. (mi_id m, mi_name m, mi_kind m, mi_allowed_conversation_ids m)) (filter mi_enabled (cfg_integrations cfg))))"

end
