(* ===== verification/Wire_Json.thy ===== *)
theory Wire_Json
  imports Local_Api
begin

text \<open>
  The JSON of the wire records of the local interface (\<open>model.rs\<close>, \<open>review/local_api.rs\<close>): what the derived
  writers produce and the derived readers take. The command line client writes the requests and reads the
  answers; the server does the opposite.
\<close>

section \<open>Writing\<close>

definition messaging_event_json :: "messaging_event \<Rightarrow> jvalue" where
  "messaging_event_json e = jobj
     [(''provider'', JString (provider_as_wire (me_provider e))), (''integrationId'', JString (me_integration_id e)),
      (''eventId'', JString (me_event_id e)), (''conversationId'', JString (me_conversation_id e)),
      (''threadId'', JString (me_thread_id e)), (''senderId'', JString (me_sender_id e)), (''text'', JString (me_text e)),
      (''mentionedBot'', JBool (me_mentioned_bot e)), (''rawPayload'', JString (me_raw_payload e)),
      (''receivedAtEpoch'', jcount (me_received_at_epoch e))]"

definition reply_audit_json :: "reply_audit \<Rightarrow> jvalue" where
  "reply_audit_json r = jobj
     [(''outboxId'', jint (ry_outbox_id r)), (''kind'', JString (ry_kind r)), (''summary'', JString (ry_summary r)),
      (''status'', jopt (\<lambda>s. JString (status_as_wire s)) (ry_status r)), (''error'', jopt JString (ry_error r))]"

(* model.rs 1658-1667 MessagingEventEntry (Serialize) *)
definition messaging_entry_json :: "messaging_entry \<Rightarrow> jvalue" where
  "messaging_entry_json e = jobj
     [(''id'', jint (mv_id e)), (''event'', messaging_event_json (mv_event e)),
      (''status'', JString (messaging_status_as_wire (mv_status e))), (''processedAtEpoch'', jopt jcount (mv_processed_at e)),
      (''error'', jopt JString (mv_error e)), (''reply'', jopt reply_audit_json (mv_reply e))]"

(* model.rs 2312-2335 OutboxEntry (Serialize) *)
definition outbox_entry_json :: "outbox_entry \<Rightarrow> jvalue" where
  "outbox_entry_json e = jobj
     [(''id'', jint (oe_id e)), (''projectId'', JString (oe_project_id e)), (''kind'', JString (action_kind_as_str (oe_kind e))),
      (''summary'', JString (oe_summary e)), (''status'', JString (status_as_wire (oe_status e))),
      (''attemptCount'', jcount (oe_attempt_count e)), (''nextAttemptAt'', jcount (oe_next_attempt_at e)),
      (''lastError'', jopt JString (oe_last_error e)), (''createdAt'', jcount (oe_created_at e)), (''updatedAt'', jcount (oe_updated_at e))]"

(* model.rs 178-190 ReviewReceiptStatus (Serialize) *)
fun snapshot_status_wire :: "review_receipt_status \<Rightarrow> string" where
  "snapshot_status_wire Receipt_Received = ''received''"
| "snapshot_status_wire Receipt_Queued = ''queued''"
| "snapshot_status_wire Receipt_Blocked = ''blocked''"
| "snapshot_status_wire Receipt_Starting = ''starting''"
| "snapshot_status_wire Receipt_Running = ''running''"
| "snapshot_status_wire Receipt_Interrupting = ''interrupting''"
| "snapshot_status_wire Receipt_Done = ''done''"
| "snapshot_status_wire Receipt_Failed = ''failed''"

(* model.rs 195-204 ReviewReceiptSnapshot (Serialize) *)
definition snapshot_json :: "review_receipt_snapshot \<Rightarrow> jvalue" where
  "snapshot_json s = jobj
     [(''receiptId'', jint (rrs_receipt_id s)), (''status'', JString (snapshot_status_wire (rrs_status s))),
      (''threadId'', jopt JString (rrs_thread_id s)), (''commentUrl'', jopt JString (rrs_comment_url s)),
      (''outcome'', jopt JString (rrs_outcome s)), (''error'', jopt JString (rrs_error s))]"

(* review/local_api.rs 102-105 ReviewReceiptAccepted *)
record receipt_accepted =
  ra_receipt_id :: int
  ra_status_url :: string

(* review/local_api.rs 101-106 ReviewReceiptAccepted (Serialize) *)
definition accepted_json :: "receipt_accepted \<Rightarrow> jvalue" where
  "accepted_json a = jobj [(''receiptId'', jint (ra_receipt_id a)), (''statusUrl'', JString (ra_status_url a))]"

(* review/local_api.rs 85-97 ReviewRequestBody (Serialize) *)
definition review_request_json :: "review_request_body \<Rightarrow> jvalue" where
  "review_request_json b = jobj
     (given ''projectId'' JString (rb_project_id b) @ given ''repo'' JString (rb_repo b) @
      [(''pr'', jcount (rb_pr b)), (''extraArgs'', JString (rb_extra_args b)), (''requestId'', JString (rb_request_id b))])"

fun level_wire :: "notification_level \<Rightarrow> string" where
  "level_wire Info = ''info''"
| "level_wire Warning = ''warning''"
| "level_wire Error = ''error''"

(* model.rs 1984-1998 SendNotificationRequest (Serialize) *)
definition notification_request_json :: "send_notification_request \<Rightarrow> jvalue" where
  "notification_request_json r = jobj
     (given ''level'' (\<lambda>l. JString (level_wire l)) (snr_level r) @ [(''title'', JString (snr_title r))] @
      given ''body'' JString (snr_body r) @ given ''url'' JString (snr_url r) @ given ''projectId'' JString (snr_project_id r) @
      (if snr_channel_ids r = [] then [] else [(''channelIds'', JArray (map JString (snr_channel_ids r)))]))"

fun send_content_json :: "messaging_send_content \<Rightarrow> jvalue" where
  "send_content_json (Text words) = jobj [(''kind'', JString ''text''), (''text'', JString words)]"
| "send_content_json (Card title words template) = jobj
     [(''kind'', JString ''card''), (''title'', JString title), (''text'', JString words),
      (''template'', JString (card_template_as_wire template))]"

(* model.rs 1881-1888 SendMessagingRequest (Serialize) *)
definition send_request_json :: "send_messaging_request \<Rightarrow> jvalue" where
  "send_request_json r = jobj
     [(''integrationId'', JString (smr_integration_id r)), (''conversationId'', JString (smr_conversation_id r)),
      (''content'', send_content_json (smr_content r)), (''requestId'', JString (smr_request_id r))]"

section \<open>Reading\<close>

definition enum_of :: "('a \<Rightarrow> string) \<Rightarrow> 'a list \<Rightarrow> jvalue \<Rightarrow> 'a option" where
  "enum_of wire all v = Option.bind (jas_str v) (\<lambda>s. find (\<lambda>x. wire x = s) all)"

definition jas_u32 :: "jvalue \<Rightarrow> nat option" where
  "jas_u32 v = Option.bind (jas_u64 v) (\<lambda>n. if n < 2 ^ 32 then Some n else None)"

definition messaging_event_of_json :: "jvalue \<Rightarrow> messaging_event option" where
  "messaging_event_of_json v =
     Option.bind (as_struct [''provider'', ''integrationId'', ''eventId'', ''conversationId'', ''threadId'', ''senderId'', ''text'',
       ''mentionedBot'', ''rawPayload'', ''receivedAtEpoch''] v) (\<lambda>m.
     Option.bind (required (enum_of provider_as_wire [Feishu, WeChatWork, DingTalk]) ''provider'' m) (\<lambda>provider.
     Option.bind (required jas_str ''integrationId'' m) (\<lambda>integration_id.
     Option.bind (required jas_str ''eventId'' m) (\<lambda>event_id.
     Option.bind (required jas_str ''conversationId'' m) (\<lambda>conversation_id.
     Option.bind (required jas_str ''threadId'' m) (\<lambda>thread_id.
     Option.bind (required jas_str ''senderId'' m) (\<lambda>sender_id.
     Option.bind (required jas_str ''text'' m) (\<lambda>words.
     Option.bind (required jas_bool ''mentionedBot'' m) (\<lambda>mentioned.
     Option.bind (required jas_str ''rawPayload'' m) (\<lambda>raw.
     Option.bind (required jas_u64 ''receivedAtEpoch'' m) (\<lambda>received.
     Some \<lparr>me_provider = provider, me_integration_id = integration_id, me_event_id = event_id,
           me_conversation_id = conversation_id, me_thread_id = thread_id, me_sender_id = sender_id, me_text = words,
           me_mentioned_bot = mentioned, me_raw_payload = raw, me_received_at_epoch = received\<rparr>)))))))))))"

definition action_status_of_json :: "jvalue \<Rightarrow> action_status option" where
  "action_status_of_json = enum_of status_as_wire [Action_Pending, Action_Blocked, Action_Done, Action_Dead]"

definition reply_audit_of_json :: "jvalue \<Rightarrow> reply_audit option" where
  "reply_audit_of_json v =
     Option.bind (as_struct [''outboxId'', ''kind'', ''summary'', ''status'', ''error''] v) (\<lambda>m.
     Option.bind (required jas_i64 ''outboxId'' m) (\<lambda>outbox_id.
     Option.bind (required jas_str ''kind'' m) (\<lambda>kind.
     Option.bind (required jas_str ''summary'' m) (\<lambda>summary.
     Option.bind (optional action_status_of_json ''status'' m) (\<lambda>status.
     Option.bind (optional jas_str ''error'' m) (\<lambda>error.
     Some \<lparr>ry_outbox_id = outbox_id, ry_kind = kind, ry_summary = summary, ry_status = status, ry_error = error\<rparr>))))))"

(* model.rs 1658-1667 MessagingEventEntry (Deserialize) *)
definition messaging_entry_of_json :: "jvalue \<Rightarrow> messaging_entry option" where
  "messaging_entry_of_json v =
     Option.bind (as_struct [''id'', ''event'', ''status'', ''processedAtEpoch'', ''error'', ''reply''] v) (\<lambda>m.
     Option.bind (required jas_i64 ''id'' m) (\<lambda>i.
     Option.bind (required messaging_event_of_json ''event'' m) (\<lambda>event.
     Option.bind (required (enum_of messaging_status_as_wire [Msg_Received, Msg_Processed, Msg_Failed]) ''status'' m) (\<lambda>status.
     Option.bind (optional jas_u64 ''processedAtEpoch'' m) (\<lambda>processed.
     Option.bind (optional jas_str ''error'' m) (\<lambda>error.
     Option.bind (optional reply_audit_of_json ''reply'' m) (\<lambda>reply.
     Some \<lparr>mv_id = i, mv_event = event, mv_status = status, mv_processed_at = processed, mv_error = error, mv_reply = reply\<rparr>)))))))"

(* model.rs 2312-2335 OutboxEntry (Deserialize) *)
definition outbox_entry_of_json :: "jvalue \<Rightarrow> outbox_entry option" where
  "outbox_entry_of_json v =
     Option.bind (as_struct [''id'', ''projectId'', ''kind'', ''summary'', ''status'', ''attemptCount'', ''nextAttemptAt'',
       ''lastError'', ''createdAt'', ''updatedAt''] v) (\<lambda>m.
     Option.bind (required jas_i64 ''id'' m) (\<lambda>i.
     Option.bind (required jas_str ''projectId'' m) (\<lambda>project_id.
     Option.bind (required (enum_of action_kind_as_str
       [Kind_Notification, Kind_RunSkill, Kind_StopReview, Kind_MessagingReply, Kind_MessagingSend]) ''kind'' m) (\<lambda>kind.
     Option.bind (required jas_str ''summary'' m) (\<lambda>summary.
     Option.bind (required action_status_of_json ''status'' m) (\<lambda>status.
     Option.bind (required jas_u32 ''attemptCount'' m) (\<lambda>attempts.
     Option.bind (required jas_u64 ''nextAttemptAt'' m) (\<lambda>next_at.
     Option.bind (optional jas_str ''lastError'' m) (\<lambda>last_error.
     Option.bind (required jas_u64 ''createdAt'' m) (\<lambda>created.
     Option.bind (required jas_u64 ''updatedAt'' m) (\<lambda>updated.
     Some \<lparr>oe_id = i, oe_project_id = project_id, oe_kind = kind, oe_summary = summary, oe_status = status,
           oe_attempt_count = attempts, oe_next_attempt_at = next_at, oe_last_error = last_error, oe_created_at = created,
           oe_updated_at = updated\<rparr>)))))))))))"

(* model.rs 160-167 ReviewReceiptId::deserialize *)
definition receipt_id_of_json :: "jvalue \<Rightarrow> int option" where
  "receipt_id_of_json v = Option.bind (jas_i64 v) (\<lambda>i. case review_receipt_id_new i of Inr j \<Rightarrow> Some j | Inl _ \<Rightarrow> None)"

(* model.rs 195-204 ReviewReceiptSnapshot (Deserialize) *)
definition snapshot_of_json :: "jvalue \<Rightarrow> review_receipt_snapshot option" where
  "snapshot_of_json v =
     Option.bind (as_struct [''receiptId'', ''status'', ''threadId'', ''commentUrl'', ''outcome'', ''error''] v) (\<lambda>m.
     Option.bind (required receipt_id_of_json ''receiptId'' m) (\<lambda>i.
     Option.bind (required (enum_of snapshot_status_wire [Receipt_Received, Receipt_Queued, Receipt_Blocked, Receipt_Starting,
       Receipt_Running, Receipt_Interrupting, Receipt_Done, Receipt_Failed]) ''status'' m) (\<lambda>status.
     Option.bind (optional jas_str ''threadId'' m) (\<lambda>thread_id.
     Option.bind (optional jas_str ''commentUrl'' m) (\<lambda>url.
     Option.bind (optional jas_str ''outcome'' m) (\<lambda>outcome.
     Option.bind (optional jas_str ''error'' m) (\<lambda>error.
     Some \<lparr>rrs_receipt_id = i, rrs_status = status, rrs_thread_id = thread_id, rrs_comment_url = url,
           rrs_outcome = outcome, rrs_error = error\<rparr>)))))))"

(* review/local_api.rs 101-106 ReviewReceiptAccepted (Deserialize) *)
definition accepted_of_json :: "jvalue \<Rightarrow> receipt_accepted option" where
  "accepted_of_json v =
     Option.bind (as_struct [''receiptId'', ''statusUrl''] v) (\<lambda>m.
     Option.bind (required receipt_id_of_json ''receiptId'' m) (\<lambda>i.
     Option.bind (required jas_str ''statusUrl'' m) (\<lambda>url. Some \<lparr>ra_receipt_id = i, ra_status_url = url\<rparr>)))"

definition outbox_id_of_json :: "jvalue \<Rightarrow> int option" where
  "outbox_id_of_json v = Option.bind (as_struct [''outboxId''] v) (required jas_i64 ''outboxId'')"

definition outbox_ids_of_json :: "jvalue \<Rightarrow> int list option" where
  "outbox_ids_of_json v = Option.bind (as_struct [''outboxIds''] v) (required (jlist jas_i64) ''outboxIds'')"

definition message_of_json :: "jvalue \<Rightarrow> string option" where
  "message_of_json v = Option.bind (as_struct [''message''] v) (required jas_str ''message'')"

section \<open>What is written is read back\<close>

lemmas wire_json_simps = as_struct_def strict_struct_def jobj_def map_of_obj_of required_def optional_def defaulted_def enum_of_def given_def

lemma strict_jobj: "set (map fst es) \<subseteq> set names \<Longrightarrow> strict_struct names (jobj es) = Some (obj_of es)"
  using keys_obj_of [of es] by (simp add: strict_struct_def as_struct_def jobj_def)

lemma map_all_map: "(\<And>x. x \<in> set xs \<Longrightarrow> f (g x) = Some x) \<Longrightarrow> map_all f (map g xs) = Some xs"
  by (induction xs) simp_all

lemma messaging_event_roundtrip [simp]: "messaging_event_of_json (messaging_event_json e) = Some e"
  by (cases "me_provider e") (simp_all add: messaging_event_of_json_def messaging_event_json_def wire_json_simps)

lemma action_status_roundtrip [simp]: "action_status_of_json (JString (status_as_wire s)) = Some s"
  by (cases s) (simp_all add: action_status_of_json_def enum_of_def)

lemma jas_count_u32 [simp]: "n < 2 ^ 32 \<Longrightarrow> jas_u32 (jcount n) = Some n"
  by (simp add: jas_u32_def)

lemma reply_audit_roundtrip [simp]: "i64_ok (ry_outbox_id r) \<Longrightarrow> reply_audit_of_json (reply_audit_json r) = Some r"
  by (simp add: reply_audit_of_json_def reply_audit_json_def as_struct_def jobj_def map_of_obj_of required_def i64_ok_def
      optional_jopt [where f = "\<lambda>s. JString (status_as_wire s)"] optional_jopt [where f = JString])

lemma reply_audit_not_null [simp]: "reply_audit_json r \<noteq> JNull"
  by (simp add: reply_audit_json_def)

definition entry_in_range :: "messaging_entry \<Rightarrow> bool" where
  "entry_in_range e \<longleftrightarrow> i64_ok (mv_id e) \<and> (case mv_reply e of None \<Rightarrow> True | Some r \<Rightarrow> i64_ok (ry_outbox_id r))"

lemma messaging_entry_roundtrip:
  assumes "entry_in_range e"
  shows "messaging_entry_of_json (messaging_entry_json e) = Some e"
proof -
  have reply: "mv_reply e = Some r \<Longrightarrow> reply_audit_of_json (reply_audit_json r) = Some r" for r
    using assms by (simp add: entry_in_range_def)
  show ?thesis
    using assms reply
    by (cases "mv_status e")
      (simp_all add: messaging_entry_of_json_def messaging_entry_json_def as_struct_def jobj_def map_of_obj_of required_def
        entry_in_range_def i64_ok_def enum_of_def optional_jopt [where f = jcount] optional_jopt [where f = JString]
        optional_jopt [where f = reply_audit_json])
qed

lemma outbox_entry_roundtrip:
  "i64_ok (oe_id e) \<Longrightarrow> oe_attempt_count e < 2 ^ 32 \<Longrightarrow> outbox_entry_of_json (outbox_entry_json e) = Some e"
  by (cases "oe_kind e")
    (simp_all add: outbox_entry_of_json_def outbox_entry_json_def as_struct_def jobj_def map_of_obj_of required_def
      i64_ok_def enum_of_def optional_jopt [where f = JString])

lemma receipt_id_roundtrip [simp]: "0 < i \<Longrightarrow> i \<le> i64_max \<Longrightarrow> receipt_id_of_json (jint i) = Some i"
  by (simp add: receipt_id_of_json_def jint_def review_receipt_id_new_def)

lemma snapshot_roundtrip:
  "0 < rrs_receipt_id s \<Longrightarrow> rrs_receipt_id s \<le> i64_max \<Longrightarrow> snapshot_of_json (snapshot_json s) = Some s"
  by (cases "rrs_status s")
    (simp_all add: snapshot_of_json_def snapshot_json_def as_struct_def jobj_def map_of_obj_of required_def enum_of_def
      optional_jopt [where f = JString])

lemma accepted_roundtrip:
  "0 < ra_receipt_id a \<Longrightarrow> ra_receipt_id a \<le> i64_max \<Longrightarrow> accepted_of_json (accepted_json a) = Some a"
  by (simp add: accepted_of_json_def accepted_json_def as_struct_def jobj_def map_of_obj_of required_def)

lemma review_request_roundtrip:
  assumes "parse_request_id (rb_request_id b) = Inr (rb_request_id b)"
  shows "review_request_of_json (review_request_json b) = Some b"
proof -
  have "set (map fst (given ''projectId'' JString (rb_project_id b) @ given ''repo'' JString (rb_repo b) @
      [(''pr'', jcount (rb_pr b)), (''extraArgs'', JString (rb_extra_args b)), (''requestId'', JString (rb_request_id b))]))
    \<subseteq> set [''projectId'', ''repo'', ''pr'', ''extraArgs'', ''requestId'']"
    by (cases "rb_project_id b"; cases "rb_repo b") (simp_all add: given_def)
  from strict_jobj [OF this] assms show ?thesis
    by (cases "rb_project_id b"; cases "rb_repo b")
      (simp_all add: review_request_of_json_def review_request_json_def required_def optional_def defaulted_def
        map_of_obj_of given_def request_id_of_json_def)
qed

lemma notification_request_roundtrip: "notification_request_of_json (notification_request_json r) = Some r"
proof -
  let ?es = "given ''level'' (\<lambda>l. JString (level_wire l)) (snr_level r) @ [(''title'', JString (snr_title r))] @
      given ''body'' JString (snr_body r) @ given ''url'' JString (snr_url r) @ given ''projectId'' JString (snr_project_id r) @
      (if snr_channel_ids r = [] then [] else [(''channelIds'', JArray (map JString (snr_channel_ids r)))])"
  have "set (map fst ?es) \<subseteq> set [''level'', ''title'', ''body'', ''url'', ''projectId'', ''channelIds'']"
    by (auto simp: given_def split: option.splits if_splits)
  note struct = strict_jobj [OF this]
  have level: "level_of_json (JString (level_wire l)) = Some l" for l
    by (cases l) (simp_all add: level_of_json_def)
  have channels: "jlist jas_str (JArray (map JString xs)) = Some xs" for xs
    by (simp add: jlist_def map_all_map)
  have "optional level_of_json ''level'' (obj_of ?es) = Some (snr_level r)"
    "optional jas_str ''body'' (obj_of ?es) = Some (snr_body r)" "optional jas_str ''url'' (obj_of ?es) = Some (snr_url r)"
    "optional jas_str ''projectId'' (obj_of ?es) = Some (snr_project_id r)"
    "required jas_str ''title'' (obj_of ?es) = Some (snr_title r)"
    "defaulted [] (jlist jas_str) ''channelIds'' (obj_of ?es) = Some (snr_channel_ids r)"
    unfolding optional_def required_def defaulted_def map_of_obj_of
    by (auto simp: given_def level channels map_add_def split: option.split)
  then show ?thesis
    unfolding notification_request_of_json_def notification_request_json_def struct by simp
qed

lemma send_request_roundtrip: "send_request_of_json (send_request_json r) = Some (Some r)"
proof -
  have content: "send_content_of_json (send_content_json content) = Some content" for content
  proof (cases content)
    case (Text words)
    have "tagged (send_content_json content) = Some (''text'', JObject [(''text'', JString words)])"
      by (simp add: Text tagged_def jobj_def map_of_obj_of) (simp add: obj_of_def obj_remove_def)
    with Text show ?thesis
      by (simp add: send_content_of_json_def strict_struct_def as_struct_def required_def)
  next
    case (Card title words template)
    have "\<exists>m. tagged (send_content_json content) = Some (''card'', JObject m) \<and> set (map fst m) \<subseteq> {''title'', ''text'', ''template''} \<and>
      map_of m = [''title'' \<mapsto> JString title, ''text'' \<mapsto> JString words, ''template'' \<mapsto> JString (card_template_as_wire template)]"
      by (simp add: Card tagged_def jobj_def map_of_obj_of) (simp add: obj_of_def obj_remove_def fun_eq_iff)
    then obtain m where m: "tagged (send_content_json content) = Some (''card'', JObject m)"
      "fst ` set m \<subseteq> {''title'', ''text'', ''template''}"
      "map_of m = [''title'' \<mapsto> JString title, ''text'' \<mapsto> JString words, ''template'' \<mapsto> JString (card_template_as_wire template)]"
      by auto
    then have "strict_struct [''title'', ''text'', ''template''] (JObject m) = Some m"
      by (simp add: strict_struct_def as_struct_def)
    with m Card show ?thesis
      by (cases template) (simp_all add: send_content_of_json_def required_def template_of_json_def)
  qed
  let ?es = "[(''integrationId'', JString (smr_integration_id r)), (''conversationId'', JString (smr_conversation_id r)),
      (''content'', send_content_json (smr_content r)), (''requestId'', JString (smr_request_id r))]"
  have "strict_struct [''integrationId'', ''conversationId'', ''content'', ''requestId''] (jobj ?es) = Some (obj_of ?es)"
    by (rule strict_jobj) simp
  then have "current_send_request (send_request_json r) = Some r"
    by (simp add: current_send_request_def send_request_json_def required_def map_of_obj_of content)
  moreover have "jget ''content'' (send_request_json r) \<noteq> None"
    by (simp add: send_request_json_def jobj_def map_of_obj_of)
  ultimately show ?thesis by (simp add: send_request_of_json_def)
qed

end
