(* ===== verification/Cli_Client.thy ===== *)
theory Cli_Client
  imports Wire_Json Config_Validation
begin

text \<open>
  The command line client (\<open>cli.rs\<close>): a thin client of the local HTTP interface. The arguments are what clap
  parsed. A run is a state: the calls made, the lines printed, the time slept and the number of times the
  application was started. The network answers a call by its number; the parser and printer of JSON, the URL
  parser, the process spawner, the two environment variables, the saved configuration and the fresh UUID are
  parameters. The watch loop has no deadline, so it may not return.
\<close>

section \<open>Arguments\<close>

(* cli.rs 74-107 ReviewArgs *)
record review_args =
  va_pr :: nat
  va_repo :: "string option"
  va_project_id :: "string option"
  va_check :: bool
  va_watch :: bool
  va_json :: "string option"
  va_exit_status :: bool
  va_request_id :: "string option"
  va_port :: "nat option"
  va_token :: "string option"

(* cli.rs 112-140 NotifyArgs *)
record notify_args =
  na_title :: string
  na_body :: "string option"
  na_url :: "string option"
  na_level :: "notification_level option"
  na_project_id :: "string option"
  na_channel_ids :: "string list"
  na_json :: "string option"
  na_port :: "nat option"
  na_token :: "string option"

(* cli.rs 161-174 MessageSendArgs *)
record message_send_args =
  sa_integration_id :: string
  sa_conversation_id :: string
  sa_text :: string
  sa_json :: "string option"
  sa_port :: "nat option"
  sa_token :: "string option"

(* cli.rs 177-195 MessageSendCardArgs *)
record message_card_args =
  da_integration_id :: string
  da_conversation_id :: string
  da_title :: string
  da_text :: string
  da_template :: messaging_card_template
  da_json :: "string option"
  da_port :: "nat option"
  da_token :: "string option"

(* cli.rs 198-207 MessageLogArgs *)
record message_log_args =
  la_integration_id :: "string option"
  la_json :: "string option"
  la_port :: "nat option"
  la_token :: "string option"

(* cli.rs 149-158 MessageCommand *)
datatype message_command =
  Send_Command message_send_args
| Send_Card_Command message_card_args
| Events_Command message_log_args
| Sends_Command message_log_args

(* cli.rs 59-66 Command *)
datatype cli_command = Review_Command review_args | Notify_Command notify_args | Message_Command message_command

(* cli.rs 376-384 Invocation *)
datatype invocation = Invoke_Cli cli_command | Invoke_Gui

text \<open>clap is not run unless the first argument names a subcommand.\<close>

(* cli.rs 390-402 parse *)
definition parse_invocation :: "(string list \<Rightarrow> cli_command option) \<Rightarrow> string list \<Rightarrow> invocation" where
  "parse_invocation clap argv =
     (case drop 1 argv of
        [] \<Rightarrow> Invoke_Gui
      | name # _ \<Rightarrow>
          if name \<in> {''review'', ''notify'', ''message''}
          then (case clap argv of Some c \<Rightarrow> Invoke_Cli c | None \<Rightarrow> Invoke_Gui)
          else Invoke_Gui)"

(* cli.rs 212-217 ReviewArgs::reference *)
definition args_reference :: "review_args \<Rightarrow> string" where
  "args_reference args = unwrap_or [] (case va_repo args of Some r \<Rightarrow> Some r | None \<Rightarrow> va_project_id args)"

(* cli.rs 222-234 ReviewArgs::review_request_body *)
definition args_review_body :: "review_args \<Rightarrow> string \<Rightarrow> review_request_body" where
  "args_review_body args request_id =
     \<lparr>rb_project_id = va_project_id args, rb_repo = va_repo args, rb_pr = va_pr args,
      rb_extra_args = (if va_check args then ''--check'' else []), rb_request_id = request_id\<rparr>"

(* cli.rs 238-247 NotifyArgs::notification_request *)
definition args_notification :: "notify_args \<Rightarrow> send_notification_request" where
  "args_notification args =
     \<lparr>snr_level = na_level args, snr_title = na_title args, snr_body = na_body args, snr_url = na_url args,
      snr_project_id = na_project_id args, snr_channel_ids = na_channel_ids args\<rparr>"

(* cli.rs 251-260 MessageSendArgs::send_request *)
definition args_send :: "string \<Rightarrow> message_send_args \<Rightarrow> send_messaging_request" where
  "args_send uuid args =
     \<lparr>smr_integration_id = sa_integration_id args, smr_conversation_id = sa_conversation_id args,
      smr_content = Text (sa_text args), smr_request_id = uuid\<rparr>"

(* cli.rs 264-275 MessageSendCardArgs::send_request *)
definition args_send_card :: "string \<Rightarrow> message_card_args \<Rightarrow> send_messaging_request" where
  "args_send_card uuid args =
     \<lparr>smr_integration_id = da_integration_id args, smr_conversation_id = da_conversation_id args,
      smr_content = Card (da_title args) (da_text args) (da_template args), smr_request_id = uuid\<rparr>"

section \<open>A run\<close>

datatype call_answer = Refused_Connect string | Failed_Call string | Answered nat "string + string"

record cli_url =
  cu_scheme :: string
  cu_username :: string
  cu_password :: "string option"
  cu_host :: "string option"

record cli_env =
  ce_answer :: "nat \<Rightarrow> http_call \<Rightarrow> call_answer"
  ce_parse :: "string \<Rightarrow> string + jvalue"
  ce_shape_error :: "jvalue \<Rightarrow> string"
  ce_print :: "jvalue \<Rightarrow> string"
  ce_url :: "string \<Rightarrow> cli_url option"
  ce_client_error :: "string option"
  ce_spawn_error :: "string option"
  ce_port_var :: "string option"
  ce_token_var :: "string option"
  ce_config :: "app_config option"
  ce_uuid :: string

record cli_run =
  cr_calls :: "http_call list"
  cr_out :: "string list"
  cr_err :: "string list"
  cr_slept :: nat
  cr_spawned :: nat

definition fresh_run :: cli_run where
  "fresh_run = \<lparr>cr_calls = [], cr_out = [], cr_err = [], cr_slept = 0, cr_spawned = 0\<rparr>"

definition print_out :: "string \<Rightarrow> cli_run \<Rightarrow> cli_run" where "print_out s r = r\<lparr>cr_out := cr_out r @ [s]\<rparr>"
definition print_err :: "string \<Rightarrow> cli_run \<Rightarrow> cli_run" where "print_err s r = r\<lparr>cr_err := cr_err r @ [s]\<rparr>"
definition sleep_ms :: "nat \<Rightarrow> cli_run \<Rightarrow> cli_run" where "sleep_ms n r = r\<lparr>cr_slept := cr_slept r + n\<rparr>"

definition do_call :: "cli_env \<Rightarrow> http_call \<Rightarrow> cli_run \<Rightarrow> call_answer \<times> cli_run" where
  "do_call env call r = (ce_answer env (length (cr_calls r)) call, r\<lparr>cr_calls := cr_calls r @ [call]\<rparr>)"

text \<open>\<open>resp.json()\<close>.\<close>

definition read_json :: "cli_env \<Rightarrow> (jvalue \<Rightarrow> 'a option) \<Rightarrow> string + string \<Rightarrow> string + 'a" where
  "read_json env f body =
     try_bind body (\<lambda>words.
     try_bind (ce_parse env words) (\<lambda>v. case f v of Some x \<Rightarrow> Inr x | None \<Rightarrow> Inl (ce_shape_error env v)))"

(* cli.rs 983-991 spawn_detached_gui *)
definition spawn_detached_gui :: "cli_env \<Rightarrow> cli_run \<Rightarrow> (string + unit) \<times> cli_run" where
  "spawn_detached_gui env r =
     (case ce_spawn_error env of
        Some e \<Rightarrow> (Inl e, r)
      | None \<Rightarrow> (Inr (), r\<lparr>cr_spawned := Suc (cr_spawned r)\<rparr>))"

(* cli.rs 45-45 WATCH_POLL_INTERVAL *)
definition watch_poll_interval :: nat where "watch_poll_interval = 1500"

(* cli.rs 407-407 COLD_START_DEADLINE *)
definition cold_start_deadline :: nat where "cold_start_deadline = 30000"

(* cli.rs 408-408 COLD_START_POLL *)
definition cold_start_poll :: nat where "cold_start_poll = 300"

(* cli.rs 409-409 AMBIGUOUS_REQUEST_RETRIES *)
definition ambiguous_request_retries :: nat where "ambiguous_request_retries = 3"

(* cli.rs 410-410 AMBIGUOUS_REQUEST_RETRY_DELAY *)
definition ambiguous_request_retry_delay :: nat where "ambiguous_request_retry_delay = 300"

section \<open>The endpoint\<close>

(* cli.rs 1057-1061 Endpoint *)
record endpoint =
  ep_port :: nat
  ep_token :: string
  ep_base_path :: string

definition serves_local_api :: "remote_route \<Rightarrow> bool" where
  "serves_local_api route \<longleftrightarrow> rr_enabled route \<and> rr_capability route = Capability_LocalApi"

definition local_api_entrypoint :: "app_config \<Rightarrow> remote_entrypoint option" where
  "local_api_entrypoint cfg =
     find (\<lambda>e. re_enabled e \<and> list_ex serves_local_api (re_routes e)) (ra_entrypoints (cfg_remote_access cfg))"

(* config/service.rs 859-872 local_api_port *)
definition local_api_port :: "app_config \<Rightarrow> nat" where
  "local_api_port cfg = (case local_api_entrypoint cfg of Some e \<Rightarrow> re_port e | None \<Rightarrow> 0)"

(* config/service.rs 874-896 local_api_path *)
definition local_api_path :: "app_config \<Rightarrow> string" where
  "local_api_path cfg =
     unwrap_or (rr_path local_api_route)
       (Option.bind (local_api_entrypoint cfg) (\<lambda>e.
        Option.bind (find serves_local_api (re_routes e)) (\<lambda>route.
        case normalize_route_path (rr_path route) of Inr p \<Rightarrow> Some p | Inl _ \<Rightarrow> None)))"

(* config/service.rs 900-912 local_api_path_for_entrypoint *)
definition local_api_path_for_entrypoint :: "app_config \<Rightarrow> string \<Rightarrow> string option" where
  "local_api_path_for_entrypoint cfg entrypoint_id =
     Option.bind (find (\<lambda>e. re_enabled e \<and> re_id e = entrypoint_id) (ra_entrypoints (cfg_remote_access cfg))) (\<lambda>e.
     Option.bind (find serves_local_api (re_routes e)) (\<lambda>route.
     case normalize_route_path (rr_path route) of Inr p \<Rightarrow> Some p | Inl _ \<Rightarrow> None))"

(* cli.rs 1064-1066 Endpoint::base_url *)
definition base_url :: "endpoint \<Rightarrow> string" where
  "base_url e = ''http://127.0.0.1:'' @ dec (ep_port e) @ ep_base_path e"

(* cli.rs 1095-1101 env_port *)
definition env_port :: "cli_env \<Rightarrow> nat option" where
  "env_port env = Option.bind (ce_port_var env) (\<lambda>s. parse_u16 (trim s))"

(* cli.rs 1074-1088 resolve_endpoint *)
definition resolve_endpoint :: "cli_env \<Rightarrow> nat option \<Rightarrow> string option \<Rightarrow> endpoint" where
  "resolve_endpoint env port token =
     (let cfg = (case ce_config env of Some c \<Rightarrow> c | None \<Rightarrow> default_config)
      in \<lparr>ep_port = (case port of Some p \<Rightarrow> p
            | None \<Rightarrow> (case env_port env of Some p \<Rightarrow> p | None \<Rightarrow> local_api_port cfg)),
          ep_token = (case token of Some t \<Rightarrow> t
            | None \<Rightarrow> (case ce_token_var env of Some t \<Rightarrow> t | None \<Rightarrow> cfg_local_api_token cfg)),
          ep_base_path = local_api_path cfg\<rparr>)"

section \<open>Output\<close>

definition render_field :: "cli_env \<Rightarrow> jvalue \<Rightarrow> string \<Rightarrow> string option" where
  "render_field env v raw =
     (let f = trim raw in
      if f = [] then None
      else Some (ce_print env (JString f) @ '':'' @ ce_print env (case jget f v of Some x \<Rightarrow> x | None \<Rightarrow> JNull)))"

(* cli.rs 1173-1195 render_json *)
definition render_json :: "cli_env \<Rightarrow> jvalue \<Rightarrow> string \<Rightarrow> string" where
  "render_json env v wanted =
     (let wanted = trim wanted in
      if wanted = [] then ce_print env v
      else ''{'' @ join '','' (List.map_filter (render_field env v) (split_all CHR '','' wanted)) @ ''}'')"

(* cli.rs 1113-1118 emit *)
definition emit_result :: "cli_env \<Rightarrow> string option \<Rightarrow> jvalue \<Rightarrow> string \<Rightarrow> cli_run \<Rightarrow> cli_run" where
  "emit_result env json v human r =
     print_out (case json of None \<Rightarrow> human | Some wanted \<Rightarrow> render_json env v wanted) r"

(* cli.rs 1157-1168 compact_text *)
definition compact_text :: "string \<Rightarrow> string" where
  "compact_text s =
     (let v = join '' '' (split_whitespace s)
      in if length v \<le> 80 then v else take (back_to_boundary v 80) v @ ellipsis)"

(* cli.rs 1120-1136 format_message_events *)
definition format_message_events :: "messaging_entry list \<Rightarrow> string" where
  "format_message_events entries =
     (if entries = [] then ''messaging events: 0''
      else join [CHR 0x0A] ((''messaging events: '' @ dec (length entries)) #
        map (\<lambda>e. ''#'' @ dec_int (mv_id e) @ '' '' @ messaging_status_as_wire (mv_status e) @ '' ''
               @ provider_as_wire (me_provider (mv_event e)) @ '' '' @ me_integration_id (mv_event e) @ '' ''
               @ compact_text (me_text (mv_event e)))
          (take 20 entries)))"

fun kind_debug :: "action_kind \<Rightarrow> string" where
  "kind_debug Kind_Notification = ''Notification''"
| "kind_debug Kind_RunSkill = ''RunSkill''"
| "kind_debug Kind_StopReview = ''StopReview''"
| "kind_debug Kind_MessagingReply = ''MessagingReply''"
| "kind_debug Kind_MessagingSend = ''MessagingSend''"

fun status_debug :: "action_status \<Rightarrow> string" where
  "status_debug Action_Pending = ''Pending''"
| "status_debug Action_Blocked = ''Blocked''"
| "status_debug Action_Done = ''Done''"
| "status_debug Action_Dead = ''Dead''"

(* cli.rs 1138-1155 format_message_sends *)
definition format_message_sends :: "outbox_entry list \<Rightarrow> string" where
  "format_message_sends entries =
     (if entries = [] then ''messaging sends: 0''
      else join [CHR 0x0A] ((''messaging sends: '' @ dec (length entries)) #
        map (\<lambda>e. ''#'' @ dec_int (oe_id e) @ '' '' @ kind_debug (oe_kind e) @ '' '' @ status_debug (oe_status e)
               @ '' attempts='' @ dec (oe_attempt_count e) @ '' '' @ oe_summary e
               @ (case oe_last_error e of Some e' \<Rightarrow> '' error='' @ compact_text e' | None \<Rightarrow> []))
          (take 20 entries)))"

fun receipt_status_debug :: "review_receipt_status \<Rightarrow> string" where
  "receipt_status_debug Receipt_Received = ''Received''"
| "receipt_status_debug Receipt_Queued = ''Queued''"
| "receipt_status_debug Receipt_Blocked = ''Blocked''"
| "receipt_status_debug Receipt_Starting = ''Starting''"
| "receipt_status_debug Receipt_Running = ''Running''"
| "receipt_status_debug Receipt_Interrupting = ''Interrupting''"
| "receipt_status_debug Receipt_Done = ''Done''"
| "receipt_status_debug Receipt_Failed = ''Failed''"

(* cli.rs 1197-1213 cli_human_status *)
definition cli_human_status :: "review_receipt_status \<Rightarrow> string option \<Rightarrow> string option \<Rightarrow> string" where
  "cli_human_status status comment_url error =
     (case (status, comment_url) of
        (Receipt_Done, Some url) \<Rightarrow> (utf8 [0x2713] @ '' review '' @ utf8 [0x5B8C, 0x6210, 0xFF1A]) @ url
      | (Receipt_Done, None) \<Rightarrow> (utf8 [0x26A0] @ '' review '' @ utf8 [0x7ED3, 0x675F, 0x4F46, 0x672A, 0x751F, 0x6210, 0x8BC4, 0x8BBA, 0x94FE, 0x63A5, 0xFF08, 0x53EF, 0x80FD, 0x88AB, 0x4E2D, 0x65AD, 0xFF09])
      | (Receipt_Failed, _) \<Rightarrow> (case error of Some m \<Rightarrow> (utf8 [0x2717] @ '' review '' @ utf8 [0x5931, 0x8D25, 0xFF1A]) @ m | None \<Rightarrow> (utf8 [0x2717] @ '' review '' @ utf8 [0x5931, 0x8D25]))
      | _ \<Rightarrow> (''review '' @ utf8 [0x72B6, 0x6001, 0xFF1A]) @ receipt_status_debug status)"

(* cli.rs 1223-1235 is_loopback_http_url *)
definition is_loopback_http_url :: "cli_env \<Rightarrow> string \<Rightarrow> bool" where
  "is_loopback_http_url env url =
     (case ce_url env url of
        None \<Rightarrow> False
      | Some u \<Rightarrow> cu_scheme u = ''http'' \<and> cu_username u = [] \<and> cu_password u = None \<and>
          cu_host u \<in> {Some ''127.0.0.1'', Some ''localhost'', Some ''[::1]''})"

(* cli.rs 1238-1243 cli_is_terminal *)
definition cli_is_terminal :: "review_receipt_status \<Rightarrow> bool" where
  "cli_is_terminal status \<longleftrightarrow> status = Receipt_Done \<or> status = Receipt_Failed"

(* cli.rs 1249-1261 exit_code *)
definition exit_code :: "review_receipt_status \<Rightarrow> bool \<Rightarrow> bool \<Rightarrow> nat" where
  "exit_code status has_comment_url exit_status_flag =
     (if \<not> exit_status_flag then 0 else if status = Receipt_Done \<and> has_comment_url then 0 else 1)"

(* cli.rs 1046-1055 report_http_error *)
definition report_http_error :: "cli_env \<Rightarrow> nat \<Rightarrow> string + string \<Rightarrow> cli_run \<Rightarrow> nat \<times> cli_run" where
  "report_http_error env status body r =
     (1, print_err ((utf8 [0x8BF7, 0x6C42, 0x5931, 0x8D25, 0xFF08] @ ''HTTP '') @ dec status @ (utf8 [0xFF09, 0xFF1A])
        @ (case read_json env message_of_json body of Inr m \<Rightarrow> m | Inl _ \<Rightarrow> (utf8 [0xFF08, 0x65E0, 0x9519, 0x8BEF, 0x8BE6, 0x60C5, 0xFF09]))) r)"

section \<open>Calls\<close>

definition bearer_headers :: "string \<Rightarrow> (string \<times> string) list" where
  "bearer_headers token = [(''authorization'', ''Bearer '' @ token)]"

definition post_call :: "string \<Rightarrow> string \<Rightarrow> (string \<times> string) list \<Rightarrow> jvalue \<Rightarrow> http_call" where
  "post_call url token extra body =
     \<lparr>hc_method = Http_Post, hc_url = url, hc_headers = bearer_headers token @ extra, hc_query = [], hc_body = body\<rparr>"

definition get_call :: "string \<Rightarrow> string \<Rightarrow> (string \<times> string) list \<Rightarrow> http_call" where
  "get_call url token query =
     \<lparr>hc_method = Http_Get, hc_url = url, hc_headers = bearer_headers token, hc_query = query, hc_body = JNull\<rparr>"

(* cli.rs 413-422 ReviewRequestAttempt *)
datatype review_request_attempt =
  Attempt_Accepted receipt_accepted
| Attempt_NotRunning
| Attempt_Ambiguous string
| Attempt_Rejected nat

(* cli.rs 894-922 post_review_request_once *)
definition post_review_request_once ::
    "cli_env \<Rightarrow> string \<Rightarrow> string \<Rightarrow> review_args \<Rightarrow> string \<Rightarrow> cli_run \<Rightarrow> review_request_attempt \<times> cli_run" where
  "post_review_request_once env base token args request_id r =
     (case do_call env (post_call (base @ ''/reviews'') token [(''x-prmonitor-client'', ''cli'')]
             (review_request_json (args_review_body args request_id))) r of
        (Refused_Connect e, r) \<Rightarrow> (Attempt_NotRunning, r)
      | (Failed_Call e, r) \<Rightarrow> (Attempt_Ambiguous ((''review '' @ utf8 [0x8BF7, 0x6C42, 0x54CD, 0x5E94, 0x4E0D, 0x786E, 0x5B9A] @ '': '') @ e), r)
      | (Answered status body, r) \<Rightarrow>
          if \<not> status_success status
          then (let (code, r) = report_http_error env status body r in (Attempt_Rejected code, r))
          else (case read_json env accepted_of_json body of
                  Inr a \<Rightarrow> (Attempt_Accepted a, r)
                | Inl e \<Rightarrow> (Attempt_Ambiguous ((utf8 [0x89E3, 0x6790] @ '' review receipt '' @ utf8 [0x54CD, 0x5E94, 0x5931, 0x8D25] @ '': '') @ e), r)))"

text \<open>The retries left, and the number of the attempt.\<close>

fun submit_attempts ::
    "nat \<Rightarrow> nat \<Rightarrow> cli_env \<Rightarrow> string \<Rightarrow> string \<Rightarrow> review_args \<Rightarrow> string \<Rightarrow> cli_run \<Rightarrow> review_request_attempt \<times> cli_run" where
  "submit_attempts 0 attempt env base token args request_id r =
     (case post_review_request_once env base token args request_id r of
        (Attempt_Ambiguous words, r) \<Rightarrow>
          (Attempt_Rejected 1, print_err (words @ (utf8 [0xFF1B, 0x91CD, 0x8BD5, 0x5DF2, 0x8017, 0x5C3D, 0x3002, 0x8BF7, 0x6C42, 0x53EF, 0x80FD, 0x5DF2, 0x7ECF, 0x5165, 0x961F, 0xFF0C, 0x8BF7, 0x7528, 0x76F8, 0x540C, 0x53C2, 0x6570, 0x52A0] @ '' --request-id='') @ request_id
             @ ('' '' @ utf8 [0x91CD, 0x8BD5, 0x4EE5, 0x6062, 0x590D, 0x539F] @ '' receipt'' @ utf8 [0x3002])) r)
      | settled \<Rightarrow> settled)"
| "submit_attempts (Suc left) attempt env base token args request_id r =
     (case post_review_request_once env base token args request_id r of
        (Attempt_Ambiguous words, r) \<Rightarrow>
          submit_attempts left (Suc attempt) env base token args request_id
            (sleep_ms ambiguous_request_retry_delay
              (print_err (words @ (utf8 [0xFF1B, 0x4F7F, 0x7528, 0x540C, 0x4E00] @ '' requestId '' @ utf8 [0x91CD, 0x8BD5, 0xFF08]) @ dec (Suc attempt) @ ''/'' @ dec ambiguous_request_retries @ (utf8 [0xFF09])) r))
      | settled \<Rightarrow> settled)"

(* cli.rs 926-953 submit_review_request *)
definition submit_review_request ::
    "cli_env \<Rightarrow> string \<Rightarrow> string \<Rightarrow> review_args \<Rightarrow> string \<Rightarrow> cli_run \<Rightarrow> review_request_attempt \<times> cli_run" where
  "submit_review_request = submit_attempts ambiguous_request_retries 0"

function await_app_loop ::
    "nat \<Rightarrow> cli_env \<Rightarrow> string \<Rightarrow> string \<Rightarrow> review_args \<Rightarrow> string \<Rightarrow> cli_run \<Rightarrow> review_request_attempt \<times> cli_run" where
  "await_app_loop waited env base token args request_id r =
     (case submit_review_request env base token args request_id r of
        (Attempt_NotRunning, r) \<Rightarrow>
          if cold_start_deadline \<le> waited then (Attempt_NotRunning, r)
          else await_app_loop (waited + cold_start_poll) env base token args request_id (sleep_ms cold_start_poll r)
      | settled \<Rightarrow> settled)"
  by pat_completeness auto
termination
  by (relation "measure (\<lambda>(waited, _). cold_start_deadline - waited)") (auto simp: cold_start_poll_def)

declare await_app_loop.simps [simp del]

(* cli.rs 957-977 await_app_then_request *)
definition await_app_then_request ::
    "cli_env \<Rightarrow> string \<Rightarrow> string \<Rightarrow> review_args \<Rightarrow> string \<Rightarrow> cli_run \<Rightarrow> review_request_attempt \<times> cli_run" where
  "await_app_then_request = await_app_loop 0"

section \<open>Watching a review\<close>

text \<open>One poll: the exit code, or the state in which the loop goes on.\<close>

definition watch_poll :: "cli_env \<Rightarrow> string \<Rightarrow> string \<Rightarrow> review_args \<Rightarrow> cli_run \<Rightarrow> nat option \<times> cli_run" where
  "watch_poll env token status_url args r =
     (case do_call env (get_call status_url token []) r of
        (Refused_Connect e, r) \<Rightarrow> (Some 1, print_err ((utf8 [0x8F6E, 0x8BE2, 0x8BF7, 0x6C42, 0x5931, 0x8D25] @ '': '') @ e) r)
      | (Failed_Call e, r) \<Rightarrow> (Some 1, print_err ((utf8 [0x8F6E, 0x8BE2, 0x8BF7, 0x6C42, 0x5931, 0x8D25] @ '': '') @ e) r)
      | (Answered code body, r) \<Rightarrow>
          if \<not> status_success code then (let (c, r) = report_http_error env code body r in (Some c, r))
          else (case read_json env snapshot_of_json body of
              Inl e \<Rightarrow> (Some 1, print_err ((utf8 [0x89E3, 0x6790, 0x72B6, 0x6001, 0x54CD, 0x5E94, 0x5931, 0x8D25] @ '': '') @ e) r)
            | Inr status \<Rightarrow>
                if cli_is_terminal (rrs_status status)
                then (Some (exit_code (rrs_status status) (rrs_comment_url status \<noteq> None) (va_exit_status args)),
                      emit_result env (va_json args) (snapshot_json status)
                        (cli_human_status (rrs_status status) (rrs_comment_url status) (rrs_error status)) r)
                else (None, sleep_ms watch_poll_interval
                       (print_err ((utf8 [0x23F3] @ '' '' @ utf8 [0x7B49, 0x5F85] @ '' review '' @ utf8 [0x5B8C, 0x6210, 0xFF08, 0x5F53, 0x524D, 0xFF1A]) @ receipt_status_debug (rrs_status status) @ (utf8 [0xFF09])) r))))"

(* cli.rs 993-1041 watch_to_terminal *)
partial_function (option) watch_to_terminal ::
    "cli_env \<Rightarrow> string \<Rightarrow> string \<Rightarrow> review_args \<Rightarrow> cli_run \<Rightarrow> (nat \<times> cli_run) option" where
  "watch_to_terminal env token status_url args r =
     (case watch_poll env token status_url args r of
        (Some code, r) \<Rightarrow> Some (code, r)
      | (None, r) \<Rightarrow> watch_to_terminal env token status_url args r)"

section \<open>The review command\<close>

definition disabled_text :: string where
  "disabled_text = (utf8 [0x672C, 0x5730] @ '' API '' @ utf8 [0x5DF2, 0x7981, 0x7528, 0xFF08, 0x7AEF, 0x53E3, 0x4E3A] @ '' 0'' @ utf8 [0xFF09, 0xFF1B, 0x8BF7, 0x5728, 0x300C, 0x8BBE, 0x7F6E] @ '' '' @ utf8 [0x2192] @ '' '' @ utf8 [0x8FDC, 0x7A0B, 0x8BBF, 0x95EE, 0x300D, 0x4E2D, 0x4E3A] @ '' local-api '' @ utf8 [0x76D1, 0x542C, 0x5668, 0x8BBE, 0x7F6E, 0x7AEF, 0x53E3, 0x5E76, 0x542F, 0x7528, 0x540E, 0x91CD, 0x8BD5])"

definition not_ready_text :: string where
  "not_ready_text = (utf8 [0x542F, 0x52A8] @ '' app '' @ utf8 [0x540E, 0x672C, 0x5730] @ '' API '' @ utf8 [0x672A, 0x5728] @ '' 30s '' @ utf8 [0x5185, 0x5C31, 0x7EEA])"

text \<open>The submission with the cold start: an accepted receipt, or the exit code.\<close>

definition obtain_receipt ::
    "cli_env \<Rightarrow> string \<Rightarrow> string \<Rightarrow> review_args \<Rightarrow> string \<Rightarrow> cli_run \<Rightarrow> (nat + receipt_accepted) \<times> cli_run" where
  "obtain_receipt env base token args request_id r =
     (case submit_review_request env base token args request_id r of
        (Attempt_Accepted a, r) \<Rightarrow> (Inr a, r)
      | (Attempt_Rejected code, r) \<Rightarrow> (Inl code, r)
      | (Attempt_Ambiguous _, r) \<Rightarrow> (Inl 1, r)
      | (Attempt_NotRunning, r) \<Rightarrow>
          (case spawn_detached_gui env (print_err ((''app '' @ utf8 [0x672A, 0x8FD0, 0x884C, 0xFF1A, 0x6B63, 0x5728, 0x542F, 0x52A8] @ '' app'' @ utf8 [0x2026])) r) of
             (Inl e, r) \<Rightarrow> (Inl 1, print_err ((utf8 [0x542F, 0x52A8] @ '' app '' @ utf8 [0x5931, 0x8D25, 0xFF1A]) @ e) r)
           | (Inr _, r) \<Rightarrow>
               (case await_app_then_request env base token args request_id r of
                  (Attempt_Accepted a, r) \<Rightarrow> (Inr a, r)
                | (Attempt_Rejected code, r) \<Rightarrow> (Inl code, r)
                | (Attempt_Ambiguous _, r) \<Rightarrow> (Inl 1, r)
                | (Attempt_NotRunning, r) \<Rightarrow> (Inl 1, print_err not_ready_text r))))"

(* cli.rs 469-547 run_client *)
definition run_client :: "cli_env \<Rightarrow> review_args \<Rightarrow> cli_run \<Rightarrow> (nat \<times> cli_run) option" where
  "run_client env args r =
     (let endpoint = resolve_endpoint env (va_port args) (va_token args) in
      if ep_port endpoint = 0 then Some (1, print_err disabled_text r)
      else case ce_client_error env of
        Some e \<Rightarrow> Some (1, print_err ((utf8 [0x65E0, 0x6CD5, 0x521B, 0x5EFA] @ '' HTTP '' @ utf8 [0x5BA2, 0x6237, 0x7AEF] @ '': '') @ e) r)
      | None \<Rightarrow>
          (let request_id = (case va_request_id args of Some i \<Rightarrow> i | None \<Rightarrow> ce_uuid env) in
           case obtain_receipt env (base_url endpoint) (ep_token endpoint) args request_id r of
             (Inl code, r) \<Rightarrow> Some (code, r)
           | (Inr accepted, r) \<Rightarrow>
               if \<not> va_watch args
               then Some (0, emit_result env (va_json args) (accepted_json accepted)
                      ((''review '' @ utf8 [0x5DF2, 0x5165, 0x961F, 0xFF08] @ ''receipt '') @ dec_int (ra_receipt_id accepted) @ (utf8 [0xFF09, 0xFF1A]) @ [CHR 0x0A] @ ra_status_url accepted) r)
               else if \<not> is_loopback_http_url env (ra_status_url accepted)
               then Some (1, print_err ((utf8 [0x62D2, 0x7EDD, 0x8F6E, 0x8BE2, 0x975E] @ '' loopback '' @ utf8 [0x7684] @ '' statusUrl'' @ utf8 [0xFF1A]) @ ra_status_url accepted) r)
               else watch_to_terminal env (ep_token endpoint) (ra_status_url accepted) args r))"

section \<open>The notify command\<close>

(* cli.rs 752-756 MessageAttempt *)
datatype 'a message_attempt = Message_Ok 'a | Message_NotRunning | Message_Failed nat

definition read_attempt ::
    "cli_env \<Rightarrow> http_call \<Rightarrow> (jvalue \<Rightarrow> 'a option) \<Rightarrow> string \<Rightarrow> string \<Rightarrow> cli_run \<Rightarrow> 'a message_attempt \<times> cli_run" where
  "read_attempt env call f failed unparsed r =
     (case do_call env call r of
        (Refused_Connect e, r) \<Rightarrow> (Message_NotRunning, r)
      | (Failed_Call e, r) \<Rightarrow> (Message_Failed 1, print_err (failed @ e) r)
      | (Answered status body, r) \<Rightarrow>
          if \<not> status_success status
          then (let (code, r) = report_http_error env status body r in (Message_Failed code, r))
          else (case read_json env f body of
                  Inr x \<Rightarrow> (Message_Ok x, r)
                | Inl e \<Rightarrow> (Message_Failed 1, print_err (unparsed @ e) r)))"

(* cli.rs 860-890 post_notification *)
definition post_notification ::
    "cli_env \<Rightarrow> string \<Rightarrow> string \<Rightarrow> notify_args \<Rightarrow> cli_run \<Rightarrow> int list message_attempt \<times> cli_run" where
  "post_notification env base token args =
     read_attempt env (post_call (base @ ''/notifications'') token [] (notification_request_json (args_notification args)))
       outbox_ids_of_json ((utf8 [0x901A, 0x77E5, 0x8BF7, 0x6C42, 0x5931, 0x8D25] @ '': '')) ((utf8 [0x89E3, 0x6790, 0x901A, 0x77E5, 0x54CD, 0x5E94, 0x5931, 0x8D25] @ '': ''))"

definition ids_debug :: "int list \<Rightarrow> string" where
  "ids_debug ids = ''['' @ join '', '' (map dec_int ids) @ '']''"

definition emit_notified :: "cli_env \<Rightarrow> notify_args \<Rightarrow> int list \<Rightarrow> cli_run \<Rightarrow> cli_run" where
  "emit_notified env args ids =
     emit_result env (na_json args) (jobj [(''outboxIds'', JArray (map jint ids))]) ((''notification '' @ utf8 [0x5DF2, 0x5165, 0x961F, 0xFF1A]) @ ids_debug ids)"

function notify_loop :: "nat \<Rightarrow> cli_env \<Rightarrow> string \<Rightarrow> string \<Rightarrow> notify_args \<Rightarrow> cli_run \<Rightarrow> nat \<times> cli_run" where
  "notify_loop waited env base token args r =
     (case post_notification env base token args r of
        (Message_NotRunning, r) \<Rightarrow>
          if cold_start_deadline \<le> waited then (1, print_err not_ready_text r)
          else notify_loop (waited + cold_start_poll) env base token args (sleep_ms cold_start_poll r)
      | (Message_Ok ids, r) \<Rightarrow> (0, emit_notified env args ids r)
      | (Message_Failed code, r) \<Rightarrow> (code, r))"
  by pat_completeness auto
termination
  by (relation "measure (\<lambda>(waited, _). cold_start_deadline - waited)") (auto simp: cold_start_poll_def)

declare notify_loop.simps [simp del]

(* cli.rs 549-606 run_notify_client *)
definition run_notify_client :: "cli_env \<Rightarrow> notify_args \<Rightarrow> cli_run \<Rightarrow> nat \<times> cli_run" where
  "run_notify_client env args r =
     (let endpoint = resolve_endpoint env (na_port args) (na_token args) in
      if ep_port endpoint = 0 then (1, print_err disabled_text r)
      else case ce_client_error env of
        Some e \<Rightarrow> (1, print_err ((utf8 [0x65E0, 0x6CD5, 0x521B, 0x5EFA] @ '' HTTP '' @ utf8 [0x5BA2, 0x6237, 0x7AEF] @ '': '') @ e) r)
      | None \<Rightarrow>
          (case post_notification env (base_url endpoint) (ep_token endpoint) args r of
             (Message_Ok ids, r) \<Rightarrow> (0, emit_notified env args ids r)
           | (Message_Failed code, r) \<Rightarrow> (code, r)
           | (Message_NotRunning, r) \<Rightarrow>
               (case spawn_detached_gui env (print_err ((''app '' @ utf8 [0x672A, 0x8FD0, 0x884C, 0xFF1A, 0x6B63, 0x5728, 0x542F, 0x52A8] @ '' app'' @ utf8 [0x2026])) r) of
                  (Inl e, r) \<Rightarrow> (1, print_err ((utf8 [0x542F, 0x52A8] @ '' app '' @ utf8 [0x5931, 0x8D25, 0xFF1A]) @ e) r)
                | (Inr _, r) \<Rightarrow> notify_loop 0 env (base_url endpoint) (ep_token endpoint) args r)))"

section \<open>The message commands\<close>

function cold_start_loop ::
    "nat \<Rightarrow> cli_env \<Rightarrow> (cli_run \<Rightarrow> 'a message_attempt \<times> cli_run) \<Rightarrow> cli_run \<Rightarrow> (nat + 'a) \<times> cli_run" where
  "cold_start_loop waited env attempt r =
     (case attempt r of
        (Message_NotRunning, r) \<Rightarrow>
          if waited = 0 then
            (case spawn_detached_gui env (print_err ((''app '' @ utf8 [0x672A, 0x8FD0, 0x884C, 0xFF1A, 0x6B63, 0x5728, 0x542F, 0x52A8] @ '' app'' @ utf8 [0x2026])) r) of
               (Inl e, r) \<Rightarrow> (Inl 1, print_err ((utf8 [0x542F, 0x52A8] @ '' app '' @ utf8 [0x5931, 0x8D25, 0xFF1A]) @ e) r)
             | (Inr _, r) \<Rightarrow> cold_start_loop (waited + cold_start_poll) env attempt (sleep_ms cold_start_poll r))
          else if cold_start_deadline \<le> waited then (Inl 1, print_err not_ready_text r)
          else cold_start_loop (waited + cold_start_poll) env attempt (sleep_ms cold_start_poll r)
      | (Message_Ok x, r) \<Rightarrow> (Inr x, r)
      | (Message_Failed code, r) \<Rightarrow> (Inl code, r))"
  by pat_completeness auto
termination
  by (relation "measure (\<lambda>(waited, _). cold_start_deadline - waited)")
    (auto simp: cold_start_poll_def cold_start_deadline_def)

declare cold_start_loop.simps [simp del]

(* cli.rs 723-750 with_message_cold_start *)
definition with_message_cold_start ::
    "cli_env \<Rightarrow> (cli_run \<Rightarrow> 'a message_attempt \<times> cli_run) \<Rightarrow> cli_run \<Rightarrow> (nat + 'a) \<times> cli_run" where
  "with_message_cold_start = cold_start_loop 0"

(* cli.rs 758-788 post_message_send *)
definition post_message_send ::
    "cli_env \<Rightarrow> string \<Rightarrow> string \<Rightarrow> send_messaging_request \<Rightarrow> cli_run \<Rightarrow> int message_attempt \<times> cli_run" where
  "post_message_send env base token request =
     read_attempt env (post_call (base @ ''/messaging/send'') token [] (send_request_json request)) outbox_id_of_json
       ((utf8 [0x6D88, 0x606F, 0x53D1, 0x9001, 0x8BF7, 0x6C42, 0x5931, 0x8D25] @ '': '')) ((utf8 [0x89E3, 0x6790, 0x6D88, 0x606F, 0x53D1, 0x9001, 0x54CD, 0x5E94, 0x5931, 0x8D25] @ '': ''))"

definition log_query :: "message_log_args \<Rightarrow> (string \<times> string) list" where
  "log_query args = (case la_integration_id args of Some i \<Rightarrow> [(''integrationId'', i)] | None \<Rightarrow> [])"

(* cli.rs 790-820 get_message_events *)
definition get_message_events ::
    "cli_env \<Rightarrow> string \<Rightarrow> string \<Rightarrow> message_log_args \<Rightarrow> cli_run \<Rightarrow> messaging_entry list message_attempt \<times> cli_run" where
  "get_message_events env base token args =
     read_attempt env (get_call (base @ ''/messaging/events'') token (log_query args)) (jlist messaging_entry_of_json)
       ((utf8 [0x6D88, 0x606F, 0x63A5, 0x6536, 0x65E5, 0x5FD7, 0x8BF7, 0x6C42, 0x5931, 0x8D25] @ '': '')) ((utf8 [0x89E3, 0x6790, 0x6D88, 0x606F, 0x63A5, 0x6536, 0x65E5, 0x5FD7, 0x54CD, 0x5E94, 0x5931, 0x8D25] @ '': ''))"

(* cli.rs 822-852 get_message_sends *)
definition get_message_sends ::
    "cli_env \<Rightarrow> string \<Rightarrow> string \<Rightarrow> message_log_args \<Rightarrow> cli_run \<Rightarrow> outbox_entry list message_attempt \<times> cli_run" where
  "get_message_sends env base token args =
     read_attempt env (get_call (base @ ''/messaging/sends'') token (log_query args)) (jlist outbox_entry_of_json)
       ((utf8 [0x6D88, 0x606F, 0x53D1, 0x9001, 0x65E5, 0x5FD7, 0x8BF7, 0x6C42, 0x5931, 0x8D25] @ '': '')) ((utf8 [0x89E3, 0x6790, 0x6D88, 0x606F, 0x53D1, 0x9001, 0x65E5, 0x5FD7, 0x54CD, 0x5E94, 0x5931, 0x8D25] @ '': ''))"

text \<open>What the three commands share: the endpoint, the client, the cold start and the output.\<close>

definition message_client ::
    "cli_env \<Rightarrow> nat option \<Rightarrow> string option \<Rightarrow> (string \<Rightarrow> string \<Rightarrow> cli_run \<Rightarrow> 'a message_attempt \<times> cli_run)
      \<Rightarrow> ('a \<Rightarrow> cli_run \<Rightarrow> cli_run) \<Rightarrow> cli_run \<Rightarrow> nat \<times> cli_run" where
  "message_client env port token attempt show r =
     (let endpoint = resolve_endpoint env port token in
      if ep_port endpoint = 0 then (1, print_err disabled_text r)
      else case ce_client_error env of
        Some e \<Rightarrow> (1, print_err ((utf8 [0x65E0, 0x6CD5, 0x521B, 0x5EFA] @ '' HTTP '' @ utf8 [0x5BA2, 0x6237, 0x7AEF] @ '': '') @ e) r)
      | None \<Rightarrow>
          (case with_message_cold_start env (attempt (base_url endpoint) (ep_token endpoint)) r of
             (Inl code, r) \<Rightarrow> (code, r)
           | (Inr x, r) \<Rightarrow> (0, show x r)))"

(* cli.rs 637-665 run_message_send_request *)
definition run_message_send_request ::
    "cli_env \<Rightarrow> send_messaging_request \<Rightarrow> nat option \<Rightarrow> string option \<Rightarrow> string option \<Rightarrow> cli_run \<Rightarrow> nat \<times> cli_run" where
  "run_message_send_request env request port token json =
     message_client env port token (\<lambda>base tok. post_message_send env base tok request)
       (\<lambda>i. emit_result env json (jobj [(''outboxId'', jint i)]) ((''message '' @ utf8 [0x5DF2, 0x5165, 0x961F, 0xFF1A]) @ dec_int i))"

(* cli.rs 667-688 run_message_events_client *)
definition run_message_events_client :: "cli_env \<Rightarrow> message_log_args \<Rightarrow> cli_run \<Rightarrow> nat \<times> cli_run" where
  "run_message_events_client env args =
     message_client env (la_port args) (la_token args) (\<lambda>base tok. get_message_events env base tok args)
       (\<lambda>entries. emit_result env (la_json args) (JArray (map messaging_entry_json entries)) (format_message_events entries))"

(* cli.rs 690-710 run_message_sends_client *)
definition run_message_sends_client :: "cli_env \<Rightarrow> message_log_args \<Rightarrow> cli_run \<Rightarrow> nat \<times> cli_run" where
  "run_message_sends_client env args =
     message_client env (la_port args) (la_token args) (\<lambda>base tok. get_message_sends env base tok args)
       (\<lambda>entries. emit_result env (la_json args) (JArray (map outbox_entry_json entries)) (format_message_sends entries))"

(* cli.rs 608-635 run_message_client *)
fun run_message_client :: "cli_env \<Rightarrow> message_command \<Rightarrow> cli_run \<Rightarrow> nat \<times> cli_run" where
  "run_message_client env (Send_Command args) r =
     run_message_send_request env (args_send (ce_uuid env) args) (sa_port args) (sa_token args) (sa_json args) r"
| "run_message_client env (Send_Card_Command args) r =
     run_message_send_request env (args_send_card (ce_uuid env) args) (da_port args) (da_token args) (da_json args) r"
| "run_message_client env (Events_Command args) r = run_message_events_client env args r"
| "run_message_client env (Sends_Command args) r = run_message_sends_client env args r"

text \<open>The three \<open>run_*_blocking\<close> functions run these on a fresh runtime.\<close>

(* cli.rs 426-467 run_client_blocking *)
fun run_cli :: "cli_env \<Rightarrow> string option \<Rightarrow> cli_command \<Rightarrow> cli_run \<Rightarrow> (nat \<times> cli_run) option" where
  "run_cli env (Some e) command r = Some (1, print_err ((utf8 [0x65E0, 0x6CD5, 0x521B, 0x5EFA, 0x8FD0, 0x884C, 0x65F6] @ '': '') @ e) r)"
| "run_cli env None (Review_Command args) r = run_client env args r"
| "run_cli env None (Notify_Command args) r = Some (run_notify_client env args r)"
| "run_cli env None (Message_Command command) r = Some (run_message_client env command r)"

section \<open>The server as it is mounted\<close>

text \<open>
  The supervisor is the only one that mounts the local interface, and it always names the entrypoint.
\<close>

(* lib.rs 248-260 make_local_api_ctx *)
definition make_local_api_ctx :: "nat \<Rightarrow> string \<Rightarrow> string option \<Rightarrow> local_ctx" where
  "make_local_api_ctx port base_path entrypoint_id =
     \<lparr>lc_port = port, lc_base_path = base_path, lc_remote_entrypoint_id = entrypoint_id\<rparr>"

(* remote/supervisor.rs 587-593 build_entrypoint_router *)
definition mounted_local_ctx :: "nat \<Rightarrow> remote_entrypoint \<Rightarrow> remote_route \<Rightarrow> local_ctx" where
  "mounted_local_ctx port entrypoint route = make_local_api_ctx port (rr_path route) (Some (re_id entrypoint))"

end
