(* ===== verification/Messaging_Properties.thy ===== *)
theory Messaging_Properties
  imports Messaging_Service External_Properties Human_Properties Outbox_Facts
begin

text \<open>
  What a chat can do (\<open>messaging/service.rs\<close>): a command touches only what belongs to its conversation, its
  effects happen once however often the event is processed, and the worker empties the table of received
  events unless a row of it does not decode. Every handler changes the database by at most one call of each
  of three operations, so most of the work is to say which tables each of them keeps.
\<close>

section \<open>What an operation keeps\<close>

text \<open>A view of the database that does not see the outbox, such as one of the other tables.\<close>

locale outbox_blind =
  fixes view :: "db \<Rightarrow> 'a"
  assumes blind: "view (d\<lparr>db_outbox := t\<rparr>) = view d"
begin

lemma enqueue_inner_view: "enqueue_inner_tx row k now d = Inr (i, d') \<Longrightarrow> view d' = view d"
  by (erule enqueue_inner_txE) (simp_all add: blind)

lemma enqueue_deduped_view: "view (snd (enqueue_deduped nonce p kind summary payload key now d)) = view d"
  unfolding enqueue_deduped_def enqueue_inner_def
  by (rule with_tx_inv [where P = "\<lambda>d'. view d' = view d"]) (auto simp: try_bind_Inr_iff Let_def dest: enqueue_inner_view)

lemma service_enqueue_view:
  "view (w_db (snd (service_enqueue_deduped p kind summary payload key w))) = view (w_db w)"
proof -
  obtain now w1 where w1: "now_epoch w = (now, w1)" by fastforce
  have "w_db w1 = w_db w" using now_epoch_simps(1) [of w] by (simp add: w1)
  moreover obtain r w2 where r: "on_db (enqueue_deduped [] p kind summary payload key now) w1 = (r, w2)" by fastforce
  moreover have "view (w_db w2) = view (w_db w1)"
    using on_db_simps(2) [of "enqueue_deduped [] p kind summary payload key now" w1] by (simp add: r enqueue_deduped_view)
  ultimately show ?thesis
    using announce_updated_db by (auto simp: service_enqueue_deduped_def w1 announce_enqueued_def split: sum.split)
qed

lemma enqueue_reply_view: "view (w_db (ch_world (snd (enqueue_reply m e k body c)))) = view (w_db (ch_world c))"
  by (auto simp: enqueue_reply_def on_world_def actions_enqueue_reply_def Let_def split_beta service_enqueue_view)

lemma reply_outcome_view:
  "view (w_db (ch_world (snd (reply_outcome m e k body b c)))) = view (w_db (ch_world c))"
  using enqueue_reply_view [of m e k body c] by (simp add: reply_outcome_def split_beta)

end

interpretation messaging_view: outbox_blind db_messaging by unfold_locales simp
interpretation human_view: outbox_blind db_human by unfold_locales simp
interpretation inbox_view: outbox_blind db_inbox by unfold_locales simp

lemma reply_outcome_broker [simp]: "ch_broker (snd (reply_outcome m e k body b c)) = ch_broker c"
  by (simp add: reply_outcome_def enqueue_reply_def on_world_def Let_def split_beta)

text \<open>A submission without a notice touches the inbox only.\<close>

definition only_inbox :: "db \<Rightarrow> db \<Rightarrow> bool" where
  "only_inbox d d' \<longleftrightarrow> db_messaging d' = db_messaging d \<and> db_human d' = db_human d \<and> db_outbox d' = db_outbox d"

lemma only_inbox_refl [simp]: "only_inbox d d" by (simp add: only_inbox_def)

lemma insert_dedup_only_inbox: "only_inbox d (snd (insert_dedup event raw webhook cand d))"
  unfolding insert_dedup_def
proof (rule with_tx_inv [where P = "only_inbox d"])
  show "only_inbox d d'" if "insert_dedup_tx event raw webhook cand d = Inr (res, d')" for res d'
    using that by (cases rule: insert_dedup_txE) (auto simp: delete_inbox_def only_inbox_def)
qed simp

lemma receipt_for_only_inbox:
  assumes "receipt_for event w = (x, w')"
  shows "only_inbox (w_db w) (w_db w')"
proof -
  obtain r w1 where r: "on_db (insert_dedup event ''external-review-request'' None None) w = (r, w1)" by fastforce
  have "only_inbox (w_db w) (w_db w1)"
    using on_db_simps(2) [of "insert_dedup event ''external-review-request'' None None" w] insert_dedup_only_inbox
    by (simp add: r)
  moreover have "w' = w1" using assms by (auto simp: receipt_for_def r split: sum.splits option.splits)
  ultimately show ?thesis by simp
qed

lemma submit_review_only_inbox:
  "only_inbox (w_db w) (w_db (snd (submit_review env load reference n args rid origin False w)))"
proof -
  obtain now w1 where w1: "now_epoch w = (now, w1)" by fastforce
  have d1: "w_db w1 = w_db w" using now_epoch_simps(1) [of w] by (simp add: w1)
  show ?thesis
    using receipt_for_only_inbox [of _ w1] d1
    by (auto simp: submit_review_def w1 Let_def split: sum.split prod.split)
qed

section \<open>Requests for human input\<close>

definition elsewhere :: "messaging_integration \<Rightarrow> messaging_event \<Rightarrow> human_row \<Rightarrow> bool" where
  "elsewhere m event r \<longleftrightarrow> hr_integration_id r \<noteq> mi_id m \<or> hr_conversation_id r \<noteq> me_conversation_id event"

abbreviation chat_db :: "chat \<Rightarrow> db" where "chat_db c \<equiv> w_db (ch_world c)"

text \<open>A database that differs in the table of requests only, there in no row of another conversation.\<close>

definition only_human :: "messaging_integration \<Rightarrow> messaging_event \<Rightarrow> db \<Rightarrow> db \<Rightarrow> bool" where
  "only_human m event d d' \<longleftrightarrow>
     (\<exists>t. d' = d\<lparr>db_human := t\<rparr> \<and> filter (elsewhere m event) (tb_rows t) = filter (elsewhere m event) (tb_rows (db_human d)))"

lemma only_human_refl [simp]: "only_human m event d d"
  unfolding only_human_def by (rule exI [of _ "db_human d"]) simp

lemma filter_update_elsewhere:
  assumes "\<And>r. r \<in> set rs \<Longrightarrow> p r \<Longrightarrow> \<not> e r" and "\<And>r. e (f r) = e r"
  shows "filter e (map (\<lambda>r. if p r then f r else r) rs) = filter e rs"
  using assms(1) by (induction rs) (auto simp: assms(2))

lemma update_only_human:
  assumes "\<And>r. r \<in> set (tb_rows (db_human d)) \<Longrightarrow> p r \<Longrightarrow> \<not> elsewhere m event r" and "benign f"
  shows "only_human m event d (d\<lparr>db_human := sql_update p f (db_human d)\<rparr>)"
proof -
  have "elsewhere m event (f r) = elsewhere m event r" for r using assms(2) by (simp add: elsewhere_def benign_def)
  with filter_update_elsewhere [of "tb_rows (db_human d)" p "elsewhere m event" f] assms(1) show ?thesis
    unfolding only_human_def by (intro exI [of _ "sql_update p f (db_human d)"]) (simp add: table_simps)
qed

lemma own_request_here:
  assumes "own_request m event i d = Inr request" and "human_ok d" and "r \<in> set (tb_rows (db_human d))" and "hr_id r = i"
  shows "\<not> elsewhere m event r"
proof -
  from assms(1) obtain s where s: "human_row_of d i = Some s" "into_request s = Inr request"
    "hir_integration_id request = mi_id m" "hir_conversation_id request = me_conversation_id event"
    by (auto simp: own_request_def try_bind_Inr_iff ok_or_Inr_iff split: if_splits dest!: human_get_Some)
  then have "hr_integration_id s = mi_id m" "hr_conversation_id s = me_conversation_id event"
    by (auto simp: into_request_def try_bind_Inr_iff try_option_def)
  moreover have "r = s"
    using by_id_Some_in [OF s(1)] assms(2-4) by (auto simp: human_ok_def distinct_map dest: inj_onD)
  ultimately show ?thesis by (simp add: elsewhere_def)
qed

lemma answer_only_human:
  assumes "\<And>r. r \<in> set (tb_rows (db_human (hs_db s))) \<Longrightarrow> hr_id r = i \<Longrightarrow> \<not> elsewhere m event r"
  shows "only_human m event (hs_db s) (hs_db (snd (human_answer_request i answers source now s)))"
proof (cases "try_bind (human_get i (hs_db s)) (\<lambda>found. try_bind (ok_or found (human_missing i)) (\<lambda>request. validate_answers request answers))")
  case (Inr as)
  show ?thesis
    using update_only_human [of "hs_db s" "\<lambda>r. hr_id r = i \<and> human_pending r \<and> as_i64 now \<le> hr_expires_at r" m event
        "answered_row as source now"] assms
    by (auto simp: human_answer_request_def Inr on_hs_update split: sum.split)
qed (simp add: human_answer_request_def)

lemma cancel_only_human:
  assumes "\<And>r. r \<in> set (tb_rows (db_human (hs_db s))) \<Longrightarrow> hr_id r = i \<Longrightarrow> \<not> elsewhere m event r"
  shows "only_human m event (hs_db s) (hs_db (snd (human_cancel i now s)))"
  using update_only_human [of "hs_db s" "\<lambda>r. hr_id r = i \<and> human_pending r \<and> True" m event "settled_row ''cancelled'' now"] assms
  by (auto simp: human_cancel_def human_settle_def on_hs_update split_beta split: sum.split option.split)

section \<open>Processing an event\<close>

definition confined :: "messaging_integration \<Rightarrow> messaging_event \<Rightarrow> db \<Rightarrow> db \<Rightarrow> bool" where
  "confined m event d d' \<longleftrightarrow> db_messaging d' = db_messaging d \<and>
     filter (elsewhere m event) (tb_rows (db_human d')) = filter (elsewhere m event) (tb_rows (db_human d))"

interpretation confined_view: outbox_blind "confined m event d" for m event d
  by unfold_locales (simp add: confined_def)

lemma confined_refl [simp]: "confined m event d d"
  by (simp add: confined_def)

lemma only_human_confined: "only_human m event d d' \<Longrightarrow> confined m event d d'"
  by (auto simp: only_human_def confined_def)

lemma on_world_now [simp]: "chat_db (snd (on_world now_epoch c)) = chat_db c" "ch_broker (snd (on_world now_epoch c)) = ch_broker c"
  by (simp_all add: on_world_def split_beta)

lemma on_human_db: "chat_db (snd (on_human f c)) = hs_db (snd (f \<lparr>hs_db = chat_db c, hs_broker = ch_broker c\<rparr>))"
  by (simp add: on_human_def split_beta)

lemma process_answer_confined:
  assumes "human_ok (chat_db c)"
  shows "confined m event (chat_db c) (chat_db (snd (process_answer m event i v c)))"
proof (cases "try_bind (own_request m event i (chat_db c)) (\<lambda>request.
             try_bind (answer_source (me_provider event)) (\<lambda>source. Inr (command_answers request v, source)))")
  case (Inr p)
  then obtain answers source request where p: "p = (answers, source)" and own: "own_request m event i (chat_db c) = Inr request"
    by (auto simp: try_bind_Inr_iff)
  obtain now c1 where c1: "on_world now_epoch c = (now, c1)" by fastforce
  have d1: "chat_db c1 = chat_db c" using on_world_now(1) [of c] by (simp add: c1)
  obtain x c2 where c2: "on_human (human_answer_request i answers source now) c1 = (x, c2)" by fastforce
  have "only_human m event (chat_db c) (chat_db c2)"
    using answer_only_human [of "\<lparr>hs_db = chat_db c1, hs_broker = ch_broker c1\<rparr>" i m event answers source now]
      own_request_here [OF own assms] on_human_db [of "human_answer_request i answers source now" c1]
    by (simp add: c2 d1)
  then have "confined m event (chat_db c) (chat_db c2)" by (rule only_human_confined)
  then show ?thesis
    by (simp add: process_answer_def Inr p c1 c2 confined_view.reply_outcome_view split: sum.split)
qed (simp add: process_answer_def)

lemma process_cancel_confined:
  assumes "human_ok (chat_db c)"
  shows "confined m event (chat_db c) (chat_db (snd (process_cancel m event i c)))"
proof (cases "own_request m event i (chat_db c)")
  case own: (Inr request)
  obtain now c1 where c1: "on_world now_epoch c = (now, c1)" by fastforce
  have d1: "chat_db c1 = chat_db c" using on_world_now(1) [of c] by (simp add: c1)
  obtain x c2 where c2: "on_human (human_cancel i now) c1 = (x, c2)" by fastforce
  have "only_human m event (chat_db c) (chat_db c2)"
    using cancel_only_human [of "\<lparr>hs_db = chat_db c1, hs_broker = ch_broker c1\<rparr>" i m event now]
      own_request_here [OF own assms] on_human_db [of "human_cancel i now" c1]
    by (simp add: c2 d1)
  then have "confined m event (chat_db c) (chat_db c2)" by (rule only_human_confined)
  then show ?thesis
    by (simp add: process_cancel_def own c1 c2 confined_view.reply_outcome_view split: sum.split)
qed (simp add: process_cancel_def)

lemma process_review_confined:
  "confined m event (chat_db c) (chat_db (snd (process_review env m event reference n kind c)))"
proof -
  let ?submit = "submit_review (gx_submit env) (gx_load env) reference n (command_extra_args kind)
             (messaging_review_request_id (gx_digest_hex env) event) MessagingBot False"
  obtain x c1 where c1: "on_world ?submit c = (x, c1)" by fastforce
  have "only_inbox (chat_db c) (chat_db c1)"
    using submit_review_only_inbox [of "ch_world c" "gx_submit env" "gx_load env" reference n "command_extra_args kind"
        "messaging_review_request_id (gx_digest_hex env) event" MessagingBot] c1
    by (auto simp: on_world_def split_beta)
  then have "confined m event (chat_db c) (chat_db c1)" by (simp add: only_inbox_def confined_def)
  then show ?thesis
    by (simp add: process_review_def c1 confined_view.reply_outcome_view split: sum.split)
qed

lemma run_command_confined:
  "human_ok (chat_db c) \<Longrightarrow> confined m event (chat_db c) (chat_db (snd (run_command env m event command c)))"
  by (cases command)
    (auto simp: confined_view.reply_outcome_view process_answer_confined process_cancel_confined process_review_confined
      split: sum.split)

lemma process_event_confined:
  "human_ok (chat_db c) \<Longrightarrow> confined m event (chat_db c) (chat_db (snd (process_event env m event c)))"
  by (auto simp: process_event_def confined_view.reply_outcome_view run_command_confined split: sum.split)

section \<open>Replies\<close>

definition reply_payload_of :: "messaging_integration \<Rightarrow> messaging_event \<Rightarrow> string \<Rightarrow> action_payload" where
  "reply_payload_of m e body = ReplyPayload \<lparr>mrp_integration_id = mi_id m, mrp_provider = mi_kind m,
     mrp_conversation_id = me_conversation_id e, mrp_message_id = me_thread_id e, mrp_thread_id = me_thread_id e,
     mrp_text = body\<rparr>"

definition reply_input :: "messaging_integration \<Rightarrow> messaging_event \<Rightarrow> reply_kind \<Rightarrow> string \<Rightarrow> nat \<Rightarrow> enqueue_input" where
  "reply_input m e k body now =
     \<lparr>ei_project_id = messaging_outbox_scope, ei_kind = Kind_MessagingReply,
      ei_summary = ''Messaging reply '' @ reply_kind_wire k, ei_payload = JsonOf (reply_payload_of m e body),
      ei_dedupe_key = Some (reply_dedupe_key e k), ei_next_attempt_at = Some now\<rparr>"

definition reply_producer :: "messaging_event \<Rightarrow> reply_kind \<Rightarrow> string + string" where
  "reply_producer e k = producer_for_dedupe messaging_outbox_scope (reply_dedupe_key e k)"

lemma enqueue_reply_cases:
  assumes "enqueue_reply m e k body c = (r, c')"
  obtains (failed) x where "r = Inl x" "chat_db c' = chat_db c"
  | (stored) i key now where "r = Inr \<lparr>rpr_outbox_id = i, rpr_kind = reply_kind_wire k, rpr_summary = ''Messaging reply '' @ reply_kind_wire k\<rparr>"
      "reply_producer e k = Inr key" "enqueue_inner_tx (reply_input m e k body now) key now (chat_db c) = Inr (i, chat_db c')"
proof -
  obtain now w1 where w1: "now_epoch (ch_world c) = (now, w1)" by fastforce
  have d1: "w_db w1 = chat_db c" using now_epoch_simps(1) [of "ch_world c"] by (simp add: w1)
  let ?f = "enqueue_deduped [] messaging_outbox_scope Kind_MessagingReply (''Messaging reply '' @ reply_kind_wire k)
      (JsonOf (reply_payload_of m e body)) (reply_dedupe_key e k) now"
  have f: "?f d = with_tx (\<lambda>d. try_bind (map_error AppError (reply_producer e k)) (\<lambda>key.
      enqueue_inner_tx (reply_input m e k body now) key now d)) d" for d
    by (simp add: enqueue_deduped_def enqueue_inner_def default_producer_key_def reply_input_def reply_producer_def Let_def)
  show ?thesis
  proof (cases "try_bind (map_error AppError (reply_producer e k)) (\<lambda>key. enqueue_inner_tx (reply_input m e k body now) key now (chat_db c))")
    case (Inl x)
    then have "?f (chat_db c) = (Inl x, chat_db c)" unfolding f by simp
    then show ?thesis using assms d1 failed [of x]
      by (auto simp: enqueue_reply_def actions_enqueue_reply_def service_enqueue_deduped_def on_world_def w1 on_db_def
          announce_enqueued_def reply_payload_of_def [symmetric] Let_def split_beta)
  next
    case (Inr p)
    then obtain key i d' where p: "p = (i, d')" and key: "reply_producer e k = Inr key"
      "enqueue_inner_tx (reply_input m e k body now) key now (chat_db c) = Inr (i, d')"
      by (cases p) (auto simp: try_bind_Inr_iff)
    have "?f (chat_db c) = (Inr i, d')" unfolding f using Inr by (simp add: p)
    then have "r = Inr \<lparr>rpr_outbox_id = i, rpr_kind = reply_kind_wire k, rpr_summary = ''Messaging reply '' @ reply_kind_wire k\<rparr>"
      "chat_db c' = d'" using assms d1
      by (auto simp: enqueue_reply_def actions_enqueue_reply_def service_enqueue_deduped_def on_world_def w1 on_db_def
          announce_enqueued_def reply_payload_of_def [symmetric] Let_def split_beta)
    with key show ?thesis by (intro stored) auto
  qed
qed

text \<open>A reply to an event is queued once per kind, whatever its text.\<close>

lemma enqueue_known_rows:
  assumes "find (\<lambda>r. ob_producer_key r = key) (tb_rows (db_outbox d)) = Some s"
    and "enqueue_inner_tx row key now d = Inr (j, d')"
  shows "j = ob_id s \<and> tb_rows (db_outbox d') = tb_rows (db_outbox d)"
  using assms(2)
proof (cases rule: enqueue_inner_txE)
  case (inserted next_at now_sql)
  with find_SomeD [OF assms(1)] show ?thesis
    by (auto simp: outbox_insertable_def unique_index_snoc producer_index_def)
qed (use assms(1) in auto)

lemma enqueue_inner_again:
  assumes first: "enqueue_inner_tx row key now d = Inr (i, d1)" and between: "db_outbox d1' = db_outbox d1"
    and again: "enqueue_inner_tx row' key now' d1' = Inr (j, d2)"
    and same: "ei_project_id row' = ei_project_id row" "ei_dedupe_key row' = ei_dedupe_key row"
  shows "j = i \<and> tb_rows (db_outbox d2) = tb_rows (db_outbox d1)"
  using first
proof (cases rule: enqueue_inner_txE)
  case (inserted next_at now_sql)
  then have "\<not> (\<exists>s \<in> set (tb_rows (db_outbox d)). ob_producer_key s = key)"
    by (auto simp: outbox_insertable_def unique_index_snoc producer_index_def)
  then have "find (\<lambda>r. ob_producer_key r = key) (tb_rows (db_outbox d)) = None"
    by (auto simp: find_None_iff)
  with inserted between have "find (\<lambda>r. ob_producer_key r = key) (tb_rows (db_outbox d1')) = Some (enqueue_row row key next_at now_sql i)"
    by (simp add: producer_id_append table_simps)
  from enqueue_known_rows [OF this again] between show ?thesis by simp
next
  case (known s j')
  with between have "find (\<lambda>r. ob_producer_key r = key) (tb_rows (db_outbox d1')) = Some s" by simp
  from enqueue_known_rows [OF this again] between known show ?thesis by simp
next
  case (live s j' k)
  from again show ?thesis
  proof (cases rule: enqueue_inner_txE)
    case (inserted next_at now_sql)
    have s: "s \<in> set (tb_rows (db_outbox d1'))" "ob_project_id s = ei_project_id row"
      "ob_dedupe_key s = Some k" "is_live (ob_status s)" using find_SomeD [OF live(3)] live(6) between by auto
    have "live_dedupe_index s = Some (ei_project_id row, k)" using s by (simp add: live_dedupe_index_def)
    moreover have "live_dedupe_index (enqueue_row row' key next_at now_sql j) = Some (ei_project_id row, k)"
      using same live(2) by (simp add: live_dedupe_index_def is_live_def)
    ultimately have "\<not> outbox_insertable (enqueue_row row' key next_at now_sql j) (tb_rows (db_outbox d1'))"
      using s(1) by (auto simp: outbox_insertable_def unique_index_snoc)
    with inserted show ?thesis by blast
  qed (use live same between in auto)
qed

lemma enqueue_reply_again:
  assumes "enqueue_reply m e k body c = (Inr first, c1)" and "db_outbox (chat_db c1') = db_outbox (chat_db c1)"
    and "enqueue_reply m' e k body' c1' = (Inr second, c2)"
  shows "rpr_outbox_id second = rpr_outbox_id first \<and> tb_rows (db_outbox (chat_db c2)) = tb_rows (db_outbox (chat_db c1))"
  using assms(1)
proof (cases rule: enqueue_reply_cases)
  case (stored i key now)
  note first = stored
  from assms(3) show ?thesis
  proof (cases rule: enqueue_reply_cases)
    case (stored j key' now')
    with first have "key' = key" by simp
    with enqueue_inner_again [OF first(3) assms(2) stored(3) [unfolded this]] first(1) stored(1)
    show ?thesis by (simp add: reply_input_def)
  qed simp
qed simp

section \<open>The reply of a successful event\<close>

fun command_reply :: "messaging_command \<Rightarrow> reply_kind" where
  "command_reply Cmd_Help = Help_Reply"
| "command_reply Cmd_Status = Status_Reply"
| "command_reply (Cmd_Answer i v) = HumanInput_Reply"
| "command_reply (Cmd_Cancel i) = HumanInput_Reply"
| "command_reply (Cmd_Review reference n kind) = ReviewQueued_Reply"

text \<open>The kind of the reply depends on the event alone; an event without a mention has none.\<close>

definition success_kind :: "messaging_integration \<Rightarrow> messaging_event \<Rightarrow> reply_kind option" where
  "success_kind m event =
     (if \<not> conversation_allowed m (me_conversation_id event) then Some Unauthorized_Reply
      else if needs_mention m event then None
      else case parse_command (me_text event) of Inl e \<Rightarrow> Some InvalidCommand_Reply | Inr command \<Rightarrow> Some (command_reply command))"

definition replied :: "messaging_integration \<Rightarrow> messaging_event \<Rightarrow> reply_kind \<Rightarrow> chat \<Rightarrow> processing_outcome \<Rightarrow> chat \<Rightarrow> bool" where
  "replied m event k c outcome c' \<longleftrightarrow>
     (\<exists>body c0 reply. db_outbox (chat_db c0) = db_outbox (chat_db c) \<and> enqueue_reply m event k body c0 = (Inr reply, c') \<and>
        po_reply outcome = Some reply)"

lemma reply_outcome_replied:
  assumes "reply_outcome m event k body b c0 = (Inr outcome, c')" and "db_outbox (chat_db c0) = db_outbox (chat_db c)"
  shows "replied m event k c outcome c' \<and> po_business_error outcome = b"
proof -
  obtain r c1 where e: "enqueue_reply m event k body c0 = (r, c1)" by fastforce
  with assms(1) obtain reply where "r = Inr reply" "c1 = c'" "outcome = (with_reply reply)\<lparr>po_business_error := b\<rparr>"
    by (cases r) (auto simp: reply_outcome_def)
  with assms(2) e show ?thesis by (auto simp: replied_def with_reply_def)
qed

lemma only_human_outbox: "only_human m event d d' \<Longrightarrow> db_outbox d' = db_outbox d \<and> db_inbox d' = db_inbox d"
  by (auto simp: only_human_def)

lemma human_outbox:
  "db_outbox (hs_db (snd (human_answer_request i answers source now s))) = db_outbox (hs_db s)"
  "db_outbox (hs_db (snd (human_cancel i now s))) = db_outbox (hs_db s)"
  "db_inbox (hs_db (snd (human_answer_request i answers source now s))) = db_inbox (hs_db s)"
  "db_inbox (hs_db (snd (human_cancel i now s))) = db_inbox (hs_db s)"
  by (auto simp: human_answer_request_def human_cancel_def human_settle_def on_hs_update split_beta split: sum.split option.split)

lemma process_answer_replied:
  assumes "process_answer m event i v c = (Inr outcome, c')"
  shows "replied m event HumanInput_Reply c outcome c'"
proof -
  from assms obtain answers source where p: "try_bind (own_request m event i (chat_db c)) (\<lambda>request.
             try_bind (answer_source (me_provider event)) (\<lambda>source. Inr (command_answers request v, source))) = Inr (answers, source)"
    by (auto simp: process_answer_def split: sum.splits)
  obtain now c1 where c1: "on_world now_epoch c = (now, c1)" by fastforce
  have d1: "chat_db c1 = chat_db c" using on_world_now(1) [of c] by (simp add: c1)
  obtain x c2 where c2: "on_human (human_answer_request i answers source now) c1 = (x, c2)" by fastforce
  have "db_outbox (chat_db c2) = db_outbox (chat_db c)"
    using on_human_db [of "human_answer_request i answers source now" c1] human_outbox by (simp add: c2 d1)
  then show ?thesis using assms reply_outcome_replied [of m event HumanInput_Reply _ None c2 outcome c' c]
    by (auto simp: process_answer_def p c1 c2 split: sum.splits)
qed

lemma process_cancel_replied:
  assumes "process_cancel m event i c = (Inr outcome, c')"
  shows "replied m event HumanInput_Reply c outcome c'"
proof -
  from assms obtain request where p: "own_request m event i (chat_db c) = Inr request"
    by (auto simp: process_cancel_def split: sum.splits)
  obtain now c1 where c1: "on_world now_epoch c = (now, c1)" by fastforce
  have d1: "chat_db c1 = chat_db c" using on_world_now(1) [of c] by (simp add: c1)
  obtain x c2 where c2: "on_human (human_cancel i now) c1 = (x, c2)" by fastforce
  have "db_outbox (chat_db c2) = db_outbox (chat_db c)"
    using on_human_db [of "human_cancel i now" c1] human_outbox by (simp add: c2 d1)
  then show ?thesis using assms reply_outcome_replied [of m event HumanInput_Reply _ None c2 outcome c' c]
    by (auto simp: process_cancel_def p c1 c2 split: sum.splits)
qed

lemma on_world_submit:
  assumes "on_world (submit_review env load reference n args rid origin False) c = (x, c1)"
  shows "only_inbox (chat_db c) (chat_db c1)" and "submit_review env load reference n args rid origin False (ch_world c) = (x, ch_world c1)"
  using submit_review_only_inbox [of "ch_world c" env load reference n args rid origin] assms
  by (auto simp: on_world_def split_beta)

lemma process_review_replied:
  assumes "process_review env m event reference n kind c = (Inr outcome, c')" and "po_business_error outcome = None"
  shows "replied m event ReviewQueued_Reply c outcome c'"
proof -
  obtain x c1 where c1: "on_world (submit_review (gx_submit env) (gx_load env) reference n (command_extra_args kind)
             (messaging_review_request_id (gx_digest_hex env) event) MessagingBot False) c = (x, c1)" by fastforce
  have "db_outbox (chat_db c1) = db_outbox (chat_db c)" using on_world_submit(1) [OF c1] by (simp add: only_inbox_def)
  with assms show ?thesis
    using reply_outcome_replied [of m event _ _ _ c1 outcome c' c]
    by (cases x) (auto simp: process_review_def c1)
qed

lemma run_command_replied:
  assumes "run_command env m event command c = (Inr outcome, c')" and "po_business_error outcome = None"
  shows "replied m event (command_reply command) c outcome c'"
  using assms
  by (cases command)
    (auto dest: process_answer_replied process_cancel_replied process_review_replied
      reply_outcome_replied [of _ _ _ _ _ c _ _ c] split: sum.splits)

lemma process_event_replied:
  assumes "process_event env m event c = (Inr outcome, c')" and "po_business_error outcome = None"
  shows "case success_kind m event of None \<Rightarrow> c' = c \<and> po_reply outcome = None | Some k \<Rightarrow> replied m event k c outcome c'"
  using assms
  by (auto simp: process_event_def success_kind_def dest: run_command_replied
      reply_outcome_replied [of _ _ _ _ _ c _ _ c] split: sum.splits if_splits)

section \<open>The inbox row of a review\<close>

definition request_known :: "string \<Rightarrow> db \<Rightarrow> bool" where
  "request_known rid d \<longleftrightarrow> (\<exists>s \<in> set (tb_rows (db_inbox d)). ib_dedupe_key s = ''external:'' @ rid)"

lemma submit_makes_known:
  assumes "submit_review env load reference n args rid origin notify w = (Inr i, w1)" and "inbox_ok (w_db w)"
  shows "request_known rid (w_db w1)"
  using assms(1)
proof (cases rule: submit_reviewE)
  case (stored project event request x w2)
  then have "receipt_for event (snd (now_epoch w)) = (Inr i, w2)" by simp
  from receipt_forE(1) [OF this _ stored(6,7)] assms(2) stored(13) show ?thesis
    by (auto simp: request_known_def request_row_def dest!: by_id_Some_in)
qed simp

lemma submit_known:
  assumes "submit_review env load reference n args rid origin notify w = (r, w1)" and "request_known rid (w_db w)"
  shows "tb_rows (db_inbox (w_db w1)) = tb_rows (db_inbox (w_db w))"
  using assms(1)
proof (cases rule: submit_reviewE)
  case (stored project event request x w2)
  with receipt_for_known [OF stored(5)] assms(2) show ?thesis by (simp add: request_known_def)
qed simp

lemma process_answer_inbox: "db_inbox (chat_db (snd (process_answer m event i v c))) = db_inbox (chat_db c)"
  and process_cancel_inbox: "db_inbox (chat_db (snd (process_cancel m event i c))) = db_inbox (chat_db c)"
  using on_world_now [of c]
  by (auto simp: process_answer_def process_cancel_def inbox_view.reply_outcome_view on_human_def human_outbox
      split: sum.split prod.split dest!: arg_cong [where f = snd] arg_cong [where f = "\<lambda>s. db_inbox (hs_db s)"])

definition asks_review :: "messaging_integration \<Rightarrow> messaging_event \<Rightarrow> bool" where
  "asks_review m event \<longleftrightarrow> success_kind m event = Some ReviewQueued_Reply"

lemma run_command_inbox:
  "command_reply command \<noteq> ReviewQueued_Reply \<Longrightarrow>
    db_inbox (chat_db (snd (run_command env m event command c))) = db_inbox (chat_db c)"
  by (cases command)
    (auto simp: inbox_view.reply_outcome_view process_answer_inbox process_cancel_inbox split: sum.split)

lemma process_event_inbox:
  "\<not> asks_review m event \<Longrightarrow> db_inbox (chat_db (snd (process_event env m event c))) = db_inbox (chat_db c)"
  by (auto simp: asks_review_def process_event_def success_kind_def inbox_view.reply_outcome_view run_command_inbox
      split: sum.split sum.split_asm if_splits)

lemma asks_review_is:
  assumes "asks_review m event"
  shows "\<exists>reference n kind. \<forall>env c. process_event env m event c = process_review env m event reference n kind c"
proof -
  from assms obtain command where "conversation_allowed m (me_conversation_id event)" "\<not> needs_mention m event"
    "parse_command (me_text event) = Inr command" "command_reply command = ReviewQueued_Reply"
    by (auto simp: asks_review_def success_kind_def split: sum.splits if_splits)
  then show ?thesis by (cases command) (auto simp: process_event_def)
qed

lemma process_review_inbox:
  assumes "process_review env m event reference n kind c = (Inr outcome, c')" and "po_business_error outcome = None"
    and "inbox_ok (chat_db c)"
  shows "request_known (messaging_review_request_id (gx_digest_hex env) event) (chat_db c')"
proof -
  obtain x c1 where c1: "on_world (submit_review (gx_submit env) (gx_load env) reference n (command_extra_args kind)
             (messaging_review_request_id (gx_digest_hex env) event) MessagingBot False) c = (x, c1)" by fastforce
  from assms(1,2) obtain i where x: "x = Inr i"
    using reply_outcome_replied [of m event _ _ _ c1 outcome c' c1]
    by (cases x) (auto simp: process_review_def c1)
  have "request_known (messaging_review_request_id (gx_digest_hex env) event) (chat_db c1)"
    using submit_makes_known [OF on_world_submit(2) [OF c1, unfolded x] assms(3)] .
  moreover have "db_inbox (chat_db c') = db_inbox (chat_db c1)"
    using assms(1) inbox_view.reply_outcome_view
    by (auto simp: process_review_def c1 x dest!: arg_cong [where f = "\<lambda>p. db_inbox (chat_db (snd p))"])
  ultimately show ?thesis by (simp add: request_known_def)
qed

lemma process_review_known:
  assumes "request_known (messaging_review_request_id (gx_digest_hex env) event) (chat_db c)"
  shows "tb_rows (db_inbox (chat_db (snd (process_review env m event reference n kind c)))) = tb_rows (db_inbox (chat_db c))"
proof -
  obtain x c1 where c1: "on_world (submit_review (gx_submit env) (gx_load env) reference n (command_extra_args kind)
             (messaging_review_request_id (gx_digest_hex env) event) MessagingBot False) c = (x, c1)" by fastforce
  from submit_known [OF on_world_submit(2) [OF c1]] assms
  show ?thesis by (simp add: process_review_def c1 inbox_view.reply_outcome_view split: sum.split)
qed

section \<open>The effects of another run\<close>

lemma enqueue_reply_row:
  assumes "enqueue_reply m e k body c = (r, c')"
  shows "tb_rows (db_outbox (chat_db c')) = tb_rows (db_outbox (chat_db c)) \<or>
    (\<exists>row. tb_rows (db_outbox (chat_db c')) = tb_rows (db_outbox (chat_db c)) @ [row] \<and>
      ob_kind row = ''messagingReply'' \<and> ob_dedupe_key row = Some (reply_dedupe_key e k))"
  using assms
proof (cases rule: enqueue_reply_cases)
  case (stored i key now)
  from stored(3) show ?thesis
    by (cases rule: enqueue_inner_txE) (simp_all add: table_simps enqueue_row_def reply_input_def kind_as_wire_def)
qed simp

lemma reply_outcome_error:
  assumes "reply_outcome m event k body b c0 = (Inl x, c')"
  shows "chat_db c' = chat_db c0"
proof -
  obtain r c1 where e: "enqueue_reply m event k body c0 = (r, c1)" by fastforce
  with assms have "r = Inl x" "c1 = c'" by (cases r; simp add: reply_outcome_def)+
  with e show ?thesis by (auto elim: enqueue_reply_cases)
qed

lemma reply_outcome_business:
  assumes "reply_outcome m event k body b c0 = (Inr outcome, c')"
  shows "po_business_error outcome = b"
  using assms by (cases "fst (enqueue_reply m event k body c0)") (auto simp: reply_outcome_def split_beta)

lemma process_answer_error:
  assumes "process_answer m event i v c = (Inl x, c')"
  shows "db_outbox (chat_db c') = db_outbox (chat_db c)"
proof (cases "try_bind (own_request m event i (chat_db c)) (\<lambda>request.
             try_bind (answer_source (me_provider event)) (\<lambda>source. Inr (command_answers request v, source)))")
  case (Inr p)
  obtain answers source where p: "p = (answers, source)" by (cases p)
  obtain now c1 where c1: "on_world now_epoch c = (now, c1)" by fastforce
  have d1: "chat_db c1 = chat_db c" using on_world_now(1) [of c] by (simp add: c1)
  obtain y c2 where c2: "on_human (human_answer_request i answers source now) c1 = (y, c2)" by fastforce
  have "db_outbox (chat_db c2) = db_outbox (chat_db c)"
    using on_human_db [of "human_answer_request i answers source now" c1] human_outbox by (simp add: c2 d1)
  with assms reply_outcome_error show ?thesis
    by (fastforce simp: process_answer_def Inr p c1 c2 split: sum.splits)
qed (use assms in \<open>simp add: process_answer_def\<close>)

lemma process_cancel_error:
  assumes "process_cancel m event i c = (Inl x, c')"
  shows "db_outbox (chat_db c') = db_outbox (chat_db c)"
proof (cases "own_request m event i (chat_db c)")
  case own: (Inr request)
  obtain now c1 where c1: "on_world now_epoch c = (now, c1)" by fastforce
  have d1: "chat_db c1 = chat_db c" using on_world_now(1) [of c] by (simp add: c1)
  obtain y c2 where c2: "on_human (human_cancel i now) c1 = (y, c2)" by fastforce
  have "db_outbox (chat_db c2) = db_outbox (chat_db c)"
    using on_human_db [of "human_cancel i now" c1] human_outbox by (simp add: c2 d1)
  with assms reply_outcome_error show ?thesis
    by (fastforce simp: process_cancel_def own c1 c2 split: sum.splits)
qed (use assms in \<open>simp add: process_cancel_def\<close>)

lemma no_business_error:
  "process_answer m event i v c = (Inr outcome, c') \<Longrightarrow> po_business_error outcome = None"
  "process_cancel m event i c = (Inr outcome, c') \<Longrightarrow> po_business_error outcome = None"
  by (auto simp: process_answer_def process_cancel_def reply_outcome_business split: sum.splits prod.splits)

lemma process_review_error:
  assumes "process_review env m event reference n kind c = (r, c')"
  shows "case r of Inl x \<Rightarrow> db_outbox (chat_db c') = db_outbox (chat_db c)
    | Inr outcome \<Rightarrow> po_business_error outcome = None \<or>
        tb_rows (db_outbox (chat_db c')) = tb_rows (db_outbox (chat_db c)) \<or>
        (\<exists>row. tb_rows (db_outbox (chat_db c')) = tb_rows (db_outbox (chat_db c)) @ [row] \<and>
          ob_kind row = ''messagingReply'' \<and> ob_dedupe_key row = Some (reply_dedupe_key event ReviewFailed_Reply))"
proof -
  obtain x c1 where c1: "on_world (submit_review (gx_submit env) (gx_load env) reference n (command_extra_args kind)
             (messaging_review_request_id (gx_digest_hex env) event) MessagingBot False) c = (x, c1)" by fastforce
  have same: "db_outbox (chat_db c1) = db_outbox (chat_db c)" using on_world_submit(1) [OF c1] by (simp add: only_inbox_def)
  show ?thesis
  proof (cases x)
    case (Inl e)
    from assms obtain body where o: "reply_outcome m event ReviewFailed_Reply body (Some (message e)) c1 = (r, c')"
      by (auto simp: process_review_def c1 Inl)
    obtain q c2 where e: "enqueue_reply m event ReviewFailed_Reply body c1 = (q, c2)" by fastforce
    with o have "c2 = c'" by (cases q) (auto simp: reply_outcome_def)
    with enqueue_reply_row [OF e] same have "tb_rows (db_outbox (chat_db c')) = tb_rows (db_outbox (chat_db c)) \<or>
        (\<exists>row. tb_rows (db_outbox (chat_db c')) = tb_rows (db_outbox (chat_db c)) @ [row] \<and>
          ob_kind row = ''messagingReply'' \<and> ob_dedupe_key row = Some (reply_dedupe_key event ReviewFailed_Reply))"
      by simp
    with o same reply_outcome_error [of m event ReviewFailed_Reply body _ c1 _ c'] show ?thesis
      by (auto split: sum.split)
  next
    case (Inr i)
    from assms obtain body where o: "reply_outcome m event ReviewQueued_Reply body None c1 = (r, c')"
      by (auto simp: process_review_def c1 Inr)
    with same reply_outcome_error [of m event ReviewQueued_Reply body _ c1 _ c'] reply_outcome_business [of m event ReviewQueued_Reply body None c1]
    show ?thesis by (auto split: sum.split)
  qed
qed

text \<open>An error adds nothing to the outbox; a business error is a review that could not be submitted.\<close>

lemma process_event_error:
  assumes "process_event env m event c = (r, c')"
  shows "case r of Inl x \<Rightarrow> db_outbox (chat_db c') = db_outbox (chat_db c)
    | Inr outcome \<Rightarrow> po_business_error outcome = None \<or> asks_review m event \<and>
       (tb_rows (db_outbox (chat_db c')) = tb_rows (db_outbox (chat_db c)) \<or>
        (\<exists>row. tb_rows (db_outbox (chat_db c')) = tb_rows (db_outbox (chat_db c)) @ [row] \<and>
          ob_kind row = ''messagingReply'' \<and> ob_dedupe_key row = Some (reply_dedupe_key event ReviewFailed_Reply)))"
proof (cases "asks_review m event")
  case True
  then obtain reference n kind where "process_event env m event c = process_review env m event reference n kind c"
    using asks_review_is by blast
  with assms process_review_error [of env m event reference n kind c r c'] True show ?thesis
    by (auto split: sum.splits)
next
  case False
  have "po_business_error outcome = None" if r: "r = Inr outcome" for outcome
  proof (cases "parse_command (me_text event)")
    case (Inr command)
    show ?thesis
    proof (cases command)
      case (Cmd_Review reference n kind)
      with False assms r Inr show ?thesis
        by (auto simp: process_event_def asks_review_def success_kind_def reply_outcome_business split: if_splits)
    qed (use assms r Inr in \<open>auto simp: process_event_def reply_outcome_business no_business_error split: if_splits sum.splits\<close>)
  qed (use assms r in \<open>auto simp: process_event_def reply_outcome_business split: if_splits\<close>)
  moreover have "db_outbox (chat_db c') = db_outbox (chat_db c)" if r: "r = Inl x" for x
  proof (cases "parse_command (me_text event)")
    case (Inr command)
    show ?thesis
    proof (cases command)
      case (Cmd_Review reference n kind)
      with False assms r Inr show ?thesis
        by (auto simp: process_event_def asks_review_def success_kind_def reply_outcome_error split: if_splits)
    qed (use assms r Inr in \<open>auto simp: process_event_def reply_outcome_error process_answer_error process_cancel_error
        split: if_splits sum.splits\<close>)
  qed (use assms r in \<open>auto simp: process_event_def reply_outcome_error split: if_splits\<close>)
  ultimately show ?thesis by (simp split: sum.split)
qed

text \<open>
  C13. A chat command takes effect once. When an event was processed without an error and the program dies
  before the event is marked, the event is processed again, perhaps under another configuration; the
  integration still decides alike whether it answers the conversation and reads the message. The second
  run adds no row to the inbox, so no second review is queued, and:
  if it succeeds, it adds no row to the outbox and its reply is the one that was queued the first time;
  if it fails, it adds none either; only if the event asks for a review and submitting it is refused this
  time (the project was removed, say) may it add one row, the reply that says so.
\<close>

theorem chat_event_effects_once:
  assumes "process_event env m event c = (Inr before, c1)" and "po_business_error before = None"
    and "inbox_ok (chat_db c)" and "chat_db c1' = chat_db c1" and "gx_digest_hex env' = gx_digest_hex env"
    and "conversation_allowed m' (me_conversation_id event) = conversation_allowed m (me_conversation_id event)"
    and "needs_mention m' event = needs_mention m event"
    and "process_event env' m' event c1' = (again, c2)"
  shows "tb_rows (db_inbox (chat_db c2)) = tb_rows (db_inbox (chat_db c1)) \<and>
    (case again of
       Inl e \<Rightarrow> tb_rows (db_outbox (chat_db c2)) = tb_rows (db_outbox (chat_db c1))
     | Inr outcome \<Rightarrow>
         (case po_business_error outcome of
            None \<Rightarrow> tb_rows (db_outbox (chat_db c2)) = tb_rows (db_outbox (chat_db c1)) \<and>
              map_option rpr_outbox_id (po_reply outcome) = map_option rpr_outbox_id (po_reply before)
          | Some e \<Rightarrow> asks_review m event \<and>
              (tb_rows (db_outbox (chat_db c2)) = tb_rows (db_outbox (chat_db c1)) \<or>
               (\<exists>row. tb_rows (db_outbox (chat_db c2)) = tb_rows (db_outbox (chat_db c1)) @ [row] \<and>
                  ob_kind row = ''messagingReply'' \<and>
                  ob_dedupe_key row = Some (reply_dedupe_key event ReviewFailed_Reply)))))"
proof -
  have kind: "success_kind m' event = success_kind m event" using assms(6,7) by (simp add: success_kind_def)
  have outbox: "tb_rows (db_outbox (chat_db c2)) = tb_rows (db_outbox (chat_db c1)) \<and>
      map_option rpr_outbox_id (po_reply outcome) = map_option rpr_outbox_id (po_reply before)"
    if r: "again = Inr outcome" and ok: "po_business_error outcome = None" for outcome
  proof (cases "success_kind m event")
    case None
    with process_event_replied [OF assms(1,2)] process_event_replied [OF assms(8) [unfolded r] ok] kind assms(4)
    show ?thesis by simp
  next
    case (Some k)
    with process_event_replied [OF assms(1,2)] process_event_replied [OF assms(8) [unfolded r] ok] kind
    obtain body c0 reply body' c0' reply' where "enqueue_reply m event k body c0 = (Inr reply, c1)" "po_reply before = Some reply"
      "enqueue_reply m' event k body' c0' = (Inr reply', c2)" "po_reply outcome = Some reply'"
      "db_outbox (chat_db c0') = db_outbox (chat_db c1)"
      using assms(4) by (auto simp: replied_def)
    with enqueue_reply_again [of m event k body c0 reply c1 c0' m' body' reply' c2] show ?thesis by simp
  qed
  have inbox: "tb_rows (db_inbox (chat_db c2)) = tb_rows (db_inbox (chat_db c1))"
  proof (cases "asks_review m event")
    case True
    then obtain reference n kind where rv: "process_event env m event c = process_review env m event reference n kind c" for env c
      using asks_review_is by blast
    from True kind have "asks_review m' event" by (simp add: asks_review_def)
    then obtain reference' n' kind' where rv': "process_event env' m' event c1' = process_review env' m' event reference' n' kind' c1'"
      using asks_review_is by blast
    from process_review_inbox [OF assms(1) [unfolded rv] assms(2,3)]
    have "request_known (messaging_review_request_id (gx_digest_hex env') event) (chat_db c1')"
      using assms(4,5) by simp
    from process_review_known [OF this, of m' reference' n' kind'] show ?thesis
      using assms(4,8) by (simp add: rv')
  next
    case False
    with kind have "\<not> asks_review m' event" by (simp add: asks_review_def)
    from process_event_inbox [OF this, of env' c1'] assms(4,8) show ?thesis by simp
  qed
  have "asks_review m' event = asks_review m event" by (simp add: asks_review_def kind)
  with inbox outbox process_event_error [OF assms(8)] assms(4) show ?thesis
    by (auto split: sum.splits option.splits)
qed

definition chat_integration :: messaging_integration where
  "chat_integration = feishu_default\<lparr>mi_id := ''m'', mi_enabled := True, mi_allowed_conversation_ids := [''c'']\<rparr>"

definition chat_event :: "string \<Rightarrow> string \<Rightarrow> messaging_event" where
  "chat_event conversation body = \<lparr>me_provider = Feishu, me_integration_id = ''m'', me_event_id = ''e'',
     me_conversation_id = conversation, me_thread_id = ''t'', me_sender_id = ''u'', me_text = body,
     me_mentioned_bot = True, me_raw_payload = [], me_received_at_epoch = 10\<rparr>"

definition chat_env :: messaging_env where
  "chat_env = \<lparr>gx_load = Inr submit_config,
     gx_submit = \<lparr>se_fs = no_files, se_is_dir = (\<lambda>p. True), se_digest = (\<lambda>q. [])\<rparr>,
     gx_digest_hex = (\<lambda>s. replicate 64 CHR ''0''), gx_codex_stopped = False\<rparr>"

definition quiet_chat :: chat where
  "quiet_chat = \<lparr>ch_world = idle_world empty_db, ch_broker = \<lparr>br_waiters = [], br_delivered = []\<rparr>\<rparr>"

definition succeeds :: "processing_outcome app_result \<times> chat \<Rightarrow> bool" where
  "succeeds p = (case fst p of Inr outcome \<Rightarrow> po_business_error outcome = None | Inl e \<Rightarrow> False)"

text \<open>Queueing a reply fails only for want of a row number or a representable time.\<close>

lemma enqueue_inner_succeeds:
  assumes "outbox_ok d" and "ei_dedupe_key row = Some key" and "json_valid (ei_payload row)" and "producer \<noteq> []"
    and "int now \<le> i64_max" and "ei_next_attempt_at row = Some now" and "tbl_next (db_outbox d) = Inr i"
  shows "\<exists>j d'. enqueue_inner_tx row producer now d = Inr (j, d')"
proof -
  let ?r = "enqueue_row row producer (int now) (int now) i"
  have epoch: "sqlite_epoch s now = Inr (int now)" for s using assms(5) by (simp add: sqlite_epoch_def)
  have check: "outbox_check ?r"
    using assms(3,4)
    by (cases "ei_kind row")
      (simp_all add: outbox_check_def enqueue_row_def outbox_kinds_def outbox_statuses_def thread_check_def kind_as_wire_def)
  let ?known = "find (\<lambda>s. ob_producer_key s = producer) (tb_rows (db_outbox d))"
  let ?live = "find (\<lambda>s. ob_project_id s = ei_project_id row \<and> ob_dedupe_key s = Some key \<and> is_live (ob_status s)) (tb_rows (db_outbox d))"
  have "outbox_insertable ?r (tb_rows (db_outbox d))" if "?known = None" "?live = None"
  proof -
    from that have "\<forall>s \<in> set (tb_rows (db_outbox d)). ob_producer_key s \<noteq> producer \<and>
        \<not> (ob_project_id s = ei_project_id row \<and> ob_dedupe_key s = Some key \<and> is_live (ob_status s))"
      by (auto simp: find_None_iff)
    with check assms(1,2) show ?thesis
      by (auto simp: outbox_insertable_def outbox_ok_def unique_index_snoc producer_index_def live_dedupe_index_def
          is_live_def split: option.splits if_splits)
  qed
  then show ?thesis
    using assms(2,6,7) by (cases ?known; cases ?live) (auto simp: enqueue_inner_tx_def epoch Let_def)
qed

lemma reply_producer_ok: "\<exists>key. reply_producer e k = Inr key \<and> key \<noteq> []"
proof -
  have "trim (''dedupe:'' @ s) \<noteq> []" for s
    by (rule trim_not_Nil [of "CHR ''d''"]) (simp_all add: is_ascii_alphanumeric_def byte_of_def)
  moreover have "trim (''reply:'' @ s) \<noteq> []" for s
    by (rule trim_not_Nil [of "CHR ''r''"]) (simp_all add: is_ascii_alphanumeric_def byte_of_def)
  moreover have "trim messaging_outbox_scope \<noteq> []"
    by (rule trim_not_Nil [of "CHR ''m''"]) (simp_all add: messaging_outbox_scope_def is_ascii_alphanumeric_def byte_of_def)
  ultimately show ?thesis
    by (auto simp: reply_producer_def producer_for_dedupe_def reply_dedupe_key_def new_key_def non_empty_def)
qed

lemma enqueue_reply_succeeds:
  assumes "outbox_ok (chat_db c)" and "int (fst (now_epoch (ch_world c))) \<le> i64_max" and "tbl_next (db_outbox (chat_db c)) = Inr i"
  shows "\<exists>reply c'. enqueue_reply m e k body c = (Inr reply, c')"
proof -
  obtain now w1 where w1: "now_epoch (ch_world c) = (now, w1)" by fastforce
  have d1: "w_db w1 = chat_db c" using now_epoch_simps(1) [of "ch_world c"] by (simp add: w1)
  obtain key where key: "reply_producer e k = Inr key" "key \<noteq> []" using reply_producer_ok by blast
  have "\<exists>j d'. enqueue_inner_tx (reply_input m e k body now) key now (chat_db c) = Inr (j, d')"
    by (rule enqueue_inner_succeeds [OF assms(1) _ _ key(2) _ _ assms(3)])
      (use assms(2) in \<open>simp_all add: reply_input_def w1\<close>)
  then obtain j d' where "enqueue_inner_tx (reply_input m e k body now) key now (chat_db c) = Inr (j, d')" by blast
  then show ?thesis
    using key(1) d1
    by (simp add: enqueue_reply_def actions_enqueue_reply_def service_enqueue_deduped_def on_world_def w1 on_db_def
        enqueue_deduped_def enqueue_inner_def default_producer_key_def announce_enqueued_def
        reply_payload_of_def [symmetric] reply_input_def reply_producer_def Let_def split_beta)
qed

lemma chat_clock: "int (fst (now_epoch (idle_world d))) \<le> i64_max"
  by (simp add: now_epoch_def idle_world_def i64_max_def)

lemma quiet_outbox: "outbox_ok (chat_db quiet_chat)" "tbl_next (db_outbox (chat_db quiet_chat)) = Inr 1"
  by (simp_all add: quiet_chat_def idle_world_def outbox_ok_empty)
    (simp add: empty_db_def empty_table_def tbl_next_def i64_max_def)

lemma reply_on_quiet:
  "\<exists>reply c1. enqueue_reply m e k body quiet_chat = (Inr reply, c1) \<and> outbox_ok (chat_db c1) \<and> tbl_next (db_outbox (chat_db c1)) = Inr 2"
proof -
  have "int (fst (now_epoch (ch_world quiet_chat))) \<le> i64_max" by (simp add: quiet_chat_def chat_clock)
  from enqueue_reply_succeeds [OF quiet_outbox(1) this quiet_outbox(2)] obtain reply c1
    where c1: "enqueue_reply m e k body quiet_chat = (Inr reply, c1)" by blast
  then show ?thesis
  proof (cases rule: enqueue_reply_cases)
    case (stored i key now)
    have "outbox_ok (chat_db c1)" by (rule enqueue_inner_tx_ok [OF quiet_outbox(1) stored(3)])
    moreover have "tb_seq (db_outbox (chat_db c1)) = 1"
      using stored(3) by (cases rule: enqueue_inner_txE) (use quiet_outbox(2) in \<open>auto simp: table_simps\<close>)
    ultimately show ?thesis using c1 by (auto simp: tbl_next_def i64_max_def)
  qed simp
qed

lemma split_word: "list_all graphic w \<Longrightarrow> split_seps white_space cur (w @ t) = split_seps white_space (cur @ w) t"
proof (induction w arbitrary: cur)
  case (Cons c w)
  then have "strip_one white_space (c # w @ t) = None"
    using white_space_not_graphic by (fastforce simp: strip_one_def find_None_iff prefix_Cons)
  with Cons show ?case by (subst split_seps.simps) simp
qed simp

lemma split_one_word:
  assumes "list_all graphic w" and "w \<noteq> []"
  shows "split_whitespace w = [w]"
proof -
  have "split_seps white_space [] (w @ []) = [w]" unfolding split_word [OF assms(1)] by (subst split_seps.simps) simp
  with assms(2) show ?thesis by (simp add: split_whitespace_def)
qed

lemma parse_help: "parse_command ''/help'' = Inr Cmd_Help"
proof -
  have "split_whitespace ''/help'' = [''/help'']" by (rule split_one_word) (simp_all add: graphic_def byte_of_def)
  then show ?thesis by (simp add: parse_command_def)
qed

lemma allowed_here: "conversation_allowed chat_integration ''c''" "\<not> conversation_allowed chat_integration ''x''"
proof -
  have "trim ''c'' = ''c''" "trim ''x'' = ''x''" by (rule graphic_trim; simp add: graphic_def byte_of_def)+
  then show "conversation_allowed chat_integration ''c''" "\<not> conversation_allowed chat_integration ''x''"
    by (simp_all add: conversation_allowed_def chat_integration_def)
qed

lemma help_event:
  "process_event env chat_integration (chat_event ''c'' ''/help'') c =
    reply_outcome chat_integration (chat_event ''c'' ''/help'') Help_Reply help_text None c"
proof -
  have "\<not> needs_mention chat_integration (chat_event ''c'' ''/help'')" by (simp add: needs_mention_def chat_event_def)
  with parse_help allowed_here show ?thesis by (simp add: process_event_def) (simp add: chat_event_def parse_help)
qed

theorem chat_event_effects_once_witness:
  "\<exists>before c1 again c2. process_event chat_env chat_integration (chat_event ''c'' ''/help'') quiet_chat = (Inr before, c1) \<and>
     process_event chat_env chat_integration (chat_event ''c'' ''/help'') (quiet_chat\<lparr>ch_world := idle_world (chat_db c1)\<rparr>) = (Inr again, c2) \<and>
     tb_rows (db_outbox (chat_db c2)) = tb_rows (db_outbox (chat_db c1)) \<and>
     map_option rpr_outbox_id (po_reply again) = map_option rpr_outbox_id (po_reply before)"
proof -
  let ?e = "chat_event ''c'' ''/help''"
  let ?o = "\<lambda>r. (with_reply r)\<lparr>po_business_error := None\<rparr>"
  obtain r1 c1 where r1: "enqueue_reply chat_integration ?e Help_Reply help_text quiet_chat = (Inr r1, c1)"
    and ok: "outbox_ok (chat_db c1)" "tbl_next (db_outbox (chat_db c1)) = Inr 2" using reply_on_quiet by blast
  let ?c = "quiet_chat\<lparr>ch_world := idle_world (chat_db c1)\<rparr>"
  have db: "chat_db ?c = chat_db c1" by (simp add: idle_world_def)
  have "\<exists>reply c'. enqueue_reply chat_integration ?e Help_Reply help_text ?c = (Inr reply, c')"
    by (rule enqueue_reply_succeeds [where i = 2]) (use ok db chat_clock in simp_all)
  then obtain r2 c2 where r2: "enqueue_reply chat_integration ?e Help_Reply help_text ?c = (Inr r2, c2)" by blast
  have first: "process_event chat_env chat_integration ?e quiet_chat = (Inr (?o r1), c1)"
    and second: "process_event chat_env chat_integration ?e ?c = (Inr (?o r2), c2)"
    by (simp_all add: help_event reply_outcome_def r1 r2)
  have inbox: "inbox_ok (chat_db quiet_chat)" by (simp add: quiet_chat_def idle_world_def inbox_ok_empty)
  from chat_event_effects_once [OF first _ inbox db refl refl refl second] first second show ?thesis by auto
qed

lemma reply_outcome_rows:
  "tb_rows (db_outbox (chat_db (snd (reply_outcome m event k body b c)))) = tb_rows (db_outbox (chat_db c)) \<or>
   (\<exists>row words. tb_rows (db_outbox (chat_db (snd (reply_outcome m event k body b c)))) = tb_rows (db_outbox (chat_db c)) @ [row] \<and>
      ob_kind row = ''messagingReply'' \<and> ob_payload row = JsonOf (reply_payload_of m event words))"
proof -
  obtain r c1 where e: "enqueue_reply m event k body c = (r, c1)" by fastforce
  then have "tb_rows (db_outbox (chat_db c1)) = tb_rows (db_outbox (chat_db c)) \<or>
    (\<exists>row. tb_rows (db_outbox (chat_db c1)) = tb_rows (db_outbox (chat_db c)) @ [row] \<and>
      ob_kind row = ''messagingReply'' \<and> ob_payload row = JsonOf (reply_payload_of m event body))"
  proof (cases rule: enqueue_reply_cases)
    case (stored i key now)
    from stored(3) show ?thesis
      by (cases rule: enqueue_inner_txE) (simp_all add: table_simps enqueue_row_def reply_input_def kind_as_wire_def)
  qed simp
  then show ?thesis by (auto simp: reply_outcome_def e)
qed

text \<open>
  C25. A chat cannot act beyond its conversation. Whatever it says, requests for human input of other
  integrations and conversations stay as they are. From a conversation that is not allowed, an event changes
  nothing but the outbox, where it adds at most a reply to that conversation; an event without the mention
  it needs changes nothing at all.
\<close>

theorem chat_commands_confined:
  assumes "process_event env m event c = (r, c')" and "human_ok (chat_db c)"
  shows "filter (elsewhere m event) (tb_rows (db_human (chat_db c'))) = filter (elsewhere m event) (tb_rows (db_human (chat_db c))) \<and>
    (\<not> conversation_allowed m (me_conversation_id event) \<longrightarrow> ch_broker c' = ch_broker c \<and>
      db_human (chat_db c') = db_human (chat_db c) \<and> db_inbox (chat_db c') = db_inbox (chat_db c) \<and>
      (tb_rows (db_outbox (chat_db c')) = tb_rows (db_outbox (chat_db c)) \<or>
       (\<exists>row body. tb_rows (db_outbox (chat_db c')) = tb_rows (db_outbox (chat_db c)) @ [row] \<and>
          ob_kind row = ''messagingReply'' \<and> ob_payload row = JsonOf (reply_payload_of m event body)))) \<and>
    (conversation_allowed m (me_conversation_id event) \<and> needs_mention m event \<longrightarrow> c' = c)"
proof -
  have "filter (elsewhere m event) (tb_rows (db_human (chat_db c'))) = filter (elsewhere m event) (tb_rows (db_human (chat_db c)))"
    using process_event_confined [OF assms(2), of m event env] assms(1) by (simp add: confined_def)
  moreover have "ch_broker c' = ch_broker c \<and> db_human (chat_db c') = db_human (chat_db c) \<and> db_inbox (chat_db c') = db_inbox (chat_db c) \<and>
      (tb_rows (db_outbox (chat_db c')) = tb_rows (db_outbox (chat_db c)) \<or>
       (\<exists>row body. tb_rows (db_outbox (chat_db c')) = tb_rows (db_outbox (chat_db c)) @ [row] \<and>
          ob_kind row = ''messagingReply'' \<and> ob_payload row = JsonOf (reply_payload_of m event body)))"
    if "\<not> conversation_allowed m (me_conversation_id event)"
  proof -
    from assms(1) that obtain body where c': "c' = snd (reply_outcome m event Unauthorized_Reply body None c)"
      by (simp add: process_event_def) (metis snd_conv)
    show ?thesis unfolding c'
      by (intro conjI) (rule reply_outcome_broker human_view.reply_outcome_view inbox_view.reply_outcome_view reply_outcome_rows)+
  qed
  moreover have "c' = c" if "conversation_allowed m (me_conversation_id event)" "needs_mention m event"
    using assms(1) that by (simp add: process_event_def)
  ultimately show ?thesis by blast
qed

theorem chat_commands_confined_witness:
  "\<exists>c'. process_event chat_env chat_integration (chat_event ''x'' ''/answer Q1 yes'') quiet_chat = (fst (process_event chat_env chat_integration (chat_event ''x'' ''/answer Q1 yes'') quiet_chat), c') \<and>
     ch_broker c' = ch_broker quiet_chat \<and> db_human (chat_db c') = db_human (chat_db quiet_chat)"
proof -
  let ?p = "process_event chat_env chat_integration (chat_event ''x'' ''/answer Q1 yes'') quiet_chat"
  have human: "human_ok (chat_db quiet_chat)"
    by (simp add: quiet_chat_def idle_world_def human_ok_def empty_db_def empty_table_def)
  have "me_conversation_id (chat_event ''x'' ''/answer Q1 yes'') = ''x''" by (simp add: chat_event_def)
  with chat_commands_confined [OF prod.collapse [symmetric, of ?p] human] allowed_here(2)
  have "ch_broker (snd ?p) = ch_broker quiet_chat \<and> db_human (chat_db (snd ?p)) = db_human (chat_db quiet_chat)" by simp
  then show ?thesis by (intro exI [of _ "snd ?p"]) simp
qed

section \<open>The worker\<close>

text \<open>The rows that wait, and the statement that ends the wait of one of them.\<close>

definition waiting :: "db \<Rightarrow> messaging_row set" where
  "waiting d = {r \<in> set (tb_rows (db_messaging d)). mg_status r = ''received''}"

definition all_decode :: "db \<Rightarrow> bool" where
  "all_decode d \<longleftrightarrow> (\<forall>r \<in> set (tb_rows (db_messaging d)). \<exists>e. from_json (mg_event_json r) = Inr e)"

definition marked :: "int \<Rightarrow> db \<Rightarrow> db \<Rightarrow> bool" where
  "marked i d d' \<longleftrightarrow> (\<exists>status error reply now. status \<noteq> Msg_Received \<and>
     db_messaging d' = sql_update (\<lambda>r. mg_id r = i) (terminal_row status error reply now) (db_messaging d))"

lemma finite_waiting [simp]: "finite (waiting d)"
  by (simp add: waiting_def)

lemma marked_waiting: "marked i d d' \<Longrightarrow> waiting d' = {r \<in> waiting d. mg_id r \<noteq> i}"
proof -
  have "mg_status (terminal_row status error reply now r) \<noteq> ''received''" if "status \<noteq> Msg_Received" for status error reply now r
    using that by (cases status) (simp_all add: terminal_row_def)
  then show "marked i d d' \<Longrightarrow> ?thesis"
    by (auto simp: marked_def waiting_def table_simps image_iff)
qed

lemma marked_decode: "marked i d d' \<Longrightarrow> all_decode d \<Longrightarrow> all_decode d'"
  by (auto simp: marked_def all_decode_def table_simps terminal_row_def)

lemma mark_terminal_marks:
  assumes "status \<noteq> Msg_Received"
  shows "\<exists>d'. messaging_mark_terminal i status error reply now d = (Inr (), d') \<and> marked i d d'"
  using assms by (auto simp: messaging_mark_terminal_def marked_def)

lemma mark_result_marks: "\<exists>d'. mark_result i result now d = (Inr (), d') \<and> marked i d d'"
  by (auto simp: mark_result_def messaging_mark_failed_with_reply_def messaging_mark_processed_with_reply_def
      messaging_mark_failed_def mark_terminal_marks split: sum.split option.split)

lemma process_event_messaging:
  "db_messaging (chat_db (snd (process_event env m event c))) = db_messaging (chat_db c)"
proof -
  have human: "db_messaging (hs_db (snd (human_answer_request i answers source now s))) = db_messaging (hs_db s)"
    "db_messaging (hs_db (snd (human_cancel i now s))) = db_messaging (hs_db s)" for i answers source now s
    by (auto simp: human_answer_request_def human_cancel_def human_settle_def on_hs_update split_beta split: sum.split option.split)
  have "db_messaging (chat_db (snd (process_answer m event i v c))) = db_messaging (chat_db c)"
    "db_messaging (chat_db (snd (process_cancel m event i c))) = db_messaging (chat_db c)" for i v
    using on_world_now [of c]
    by (auto simp: process_answer_def process_cancel_def messaging_view.reply_outcome_view on_human_def human
        split: sum.split prod.split dest!: arg_cong [where f = snd] arg_cong [where f = "\<lambda>s. db_messaging (hs_db s)"])
  moreover have "db_messaging (chat_db (snd (process_review env m event reference n kind c))) = db_messaging (chat_db c)" for reference n kind
    using process_review_confined [of m event c env reference n kind] by (simp add: confined_def)
  ultimately have "db_messaging (chat_db (snd (run_command env m event command c))) = db_messaging (chat_db c)" for command
    by (cases command) (auto simp: messaging_view.reply_outcome_view split: sum.split)
  then show ?thesis
    by (auto simp: process_event_def messaging_view.reply_outcome_view split: sum.split)
qed

lemma on_world_mark:
  "\<exists>d'. on_world (on_db (mark_result i result now)) c = (Inr (), c\<lparr>ch_world := (ch_world c)\<lparr>w_db := d'\<rparr>\<rparr>) \<and> marked i (chat_db c) d'"
  using mark_result_marks [of i result now "chat_db c"] by (auto simp: on_world_def on_db_def)

lemma process_and_mark_marks: "marked i (chat_db c) (chat_db (snd (process_and_mark env i m event c)))"
proof -
  obtain r c1 where c1: "process_event env m event c = (r, c1)" by fastforce
  have m1: "db_messaging (chat_db c1) = db_messaging (chat_db c)"
    using process_event_messaging [of env m event c] by (simp add: c1)
  obtain now c2 where c2: "on_world now_epoch c1 = (now, c2)" by fastforce
  have d2: "chat_db c2 = chat_db c1" using on_world_now(1) [of c1] by (simp add: c2)
  from on_world_mark [of i r now c2] obtain d' where "on_world (on_db (mark_result i r now)) c2 = (Inr (), c2\<lparr>ch_world := (ch_world c2)\<lparr>w_db := d'\<rparr>\<rparr>)"
    and "marked i (chat_db c2) d'" by blast
  then show ?thesis using m1 d2 by (simp add: process_and_mark_def c1 c2 marked_def)
qed

text \<open>One round of the worker, and the rounds.\<close>

lemma drain_step:
  assumes "messaging_get_entry i (chat_db c) = Inr (Some entry)"
  shows "\<exists>c'. drain_ids env (i # ids) c = drain_ids env ids c' \<and> marked i (chat_db c) (chat_db c')"
proof (cases "integration_for_stored env (mv_event entry)")
  case (Inl error)
  obtain now c1 where c1: "on_world now_epoch c = (now, c1)" by fastforce
  have d1: "chat_db c1 = chat_db c" using on_world_now(1) [of c] by (simp add: c1)
  from mark_terminal_marks [of Msg_Failed i "Some error" None now "chat_db c1"]
  obtain d' where "messaging_mark_failed i error now (chat_db c1) = (Inr (), d')" "marked i (chat_db c1) d'"
    by (auto simp: messaging_mark_failed_def messaging_mark_failed_with_reply_def)
  then have "on_world (on_db (messaging_mark_failed i error now)) c1 = (Inr (), c1\<lparr>ch_world := (ch_world c1)\<lparr>w_db := d'\<rparr>\<rparr>)"
    "marked i (chat_db c) d'" by (simp_all add: on_world_def on_db_def d1)
  then show ?thesis using assms Inl c1 by (intro exI [of _ "c1\<lparr>ch_world := (ch_world c1)\<lparr>w_db := d'\<rparr>\<rparr>"]) simp
next
  case (Inr m)
  with assms process_and_mark_marks [of i c env m "mv_event entry"] show ?thesis by auto
qed

lemma get_entry_cases:
  obtains (missing) "messaging_get_entry i d = Inr None" "\<forall>r \<in> waiting d. mg_id r \<noteq> i"
  | (found) entry where "messaging_get_entry i d = Inr (Some entry)"
  | (broken) e where "messaging_get_entry i d = Inl e" "\<not> all_decode d"
proof (cases "by_id mg_id i (db_messaging d)")
  case None
  then have "i \<notin> mg_id ` set (tb_rows (db_messaging d))" by (simp add: by_id_None_iff)
  with None show ?thesis by (intro missing) (auto simp: messaging_get_entry_def waiting_def)
next
  case (Some r)
  then have r: "r \<in> set (tb_rows (db_messaging d))" using by_id_Some_in by fastforce
  show ?thesis
  proof (cases "messaging_get_entry i d")
    case (Inl e)
    then have "\<not> (\<exists>ev. from_json (mg_event_json r) = Inr ev)"
      by (auto simp: messaging_get_entry_def Some messaging_into_entry_def Let_def)
    with Inl r show ?thesis by (intro broken [of e]) (auto simp: all_decode_def)
  next
    case (Inr x)
    then show ?thesis using Some found by (cases x) (auto simp: messaging_get_entry_def try_bind_Inr_iff)
  qed
qed

lemma drain_ids_waiting:
  assumes "drain_ids env ids c = (r, c')"
  shows "waiting (chat_db c') \<subseteq> waiting (chat_db c)"
    and "r = Inr () \<Longrightarrow> waiting (chat_db c') \<subseteq> {x \<in> waiting (chat_db c). mg_id x \<notin> set ids}"
    and "all_decode (chat_db c) \<Longrightarrow> r = Inr () \<and> all_decode (chat_db c')"
proof -
  have "waiting (chat_db c') \<subseteq> waiting (chat_db c) \<and>
    (r = Inr () \<longrightarrow> waiting (chat_db c') \<subseteq> {x \<in> waiting (chat_db c). mg_id x \<notin> set ids}) \<and>
    (all_decode (chat_db c) \<longrightarrow> r = Inr () \<and> all_decode (chat_db c'))"
    using assms
  proof (induction ids arbitrary: c)
    case (Cons i ids)
    show ?case
    proof (cases rule: get_entry_cases [where i = i and d = "chat_db c"])
      case missing
      with Cons.prems have "drain_ids env ids c = (r, c')" by simp
      from Cons.IH [OF this] missing(2) show ?thesis by auto
    next
      case (found entry)
      from drain_step [OF this, of env ids] obtain c1 where "drain_ids env (i # ids) c = drain_ids env ids c1"
        and m: "marked i (chat_db c) (chat_db c1)" by blast
      with Cons.prems have "drain_ids env ids c1 = (r, c')" by simp
      from Cons.IH [OF this] marked_waiting [OF m] marked_decode [OF m] show ?thesis by auto
    next
      case (broken e)
      with Cons.prems show ?thesis by auto
    qed
  qed auto
  then show "waiting (chat_db c') \<subseteq> waiting (chat_db c)"
    "r = Inr () \<Longrightarrow> waiting (chat_db c') \<subseteq> {x \<in> waiting (chat_db c). mg_id x \<notin> set ids}"
    "all_decode (chat_db c) \<Longrightarrow> r = Inr () \<and> all_decode (chat_db c')" by blast+
qed

lemma received_ids_waiting:
  "set (messaging_received_ids d) \<subseteq> mg_id ` waiting d" "messaging_received_ids d = [] \<longleftrightarrow> waiting d = {}"
  by (auto simp: messaging_received_ids_def waiting_def sql_select_def filter_empty_conv dest: in_set_takeD)

text \<open>
  C38. The worker of received events always stops. If it stops without an error no event waits any more,
  and this is so whenever the stored events can be read. One stored event that cannot be read stops it
  before it: when it is the oldest that waits, the worker changes nothing, now and every time it runs, and
  all the events after it keep waiting.
\<close>

theorem worker_drains_unless_unreadable:
  "\<exists>r c'. drain_received env c = Some (r, c') \<and> (r = Inr () \<longrightarrow> waiting (chat_db c') = {}) \<and>
     (all_decode (chat_db c) \<longrightarrow> r = Inr ()) \<and>
     (\<forall>i ids row e. messaging_received_ids (chat_db c) = i # ids \<and> by_id mg_id i (db_messaging (chat_db c)) = Some row \<and>
        from_json (mg_event_json row) = Inl e \<longrightarrow> c' = c \<and> r \<noteq> Inr ())"
proof -
  have stops: "\<exists>r c'. drain_received env c = Some (r, c') \<and> (r = Inr () \<longrightarrow> waiting (chat_db c') = {}) \<and>
     (all_decode (chat_db c) \<longrightarrow> r = Inr ())" for c
  proof (induction "card (waiting (chat_db c))" arbitrary: c rule: less_induct)
    case less
    show ?case
    proof (cases "messaging_received_ids (chat_db c) = []")
      case True
      then show ?thesis using received_ids_waiting(2) by (subst drain_received.simps) simp
    next
      case False
      obtain r c1 where c1: "drain_ids env (messaging_received_ids (chat_db c)) c = (r, c1)" by fastforce
      show ?thesis
      proof (cases r)
        case (Inl e)
        with False c1 drain_ids_waiting(3) [OF c1] show ?thesis by (subst drain_received.simps) auto
      next
        case (Inr u)
        have "waiting (chat_db c1) \<subset> waiting (chat_db c)"
          using drain_ids_waiting(2) [OF c1] Inr False received_ids_waiting(1) [of "chat_db c"] by (cases "messaging_received_ids (chat_db c)") auto
        then have "card (waiting (chat_db c1)) < card (waiting (chat_db c))" by (intro psubset_card_mono) simp_all
        from less [OF this] drain_ids_waiting(3) [OF c1] False c1 Inr show ?thesis
          by (subst drain_received.simps) auto
      qed
    qed
  qed
  have stuck: "drain_received env c = Some (Inl (AppError ((''messaging event '' @ utf8 [0x53CD, 0x5E8F, 0x5217, 0x5316, 0x5931, 0x8D25] @ '': '') @ e)), c)"
    if "messaging_received_ids (chat_db c) = i # ids" "by_id mg_id i (db_messaging (chat_db c)) = Some row"
      "from_json (mg_event_json row) = Inl e" for i ids row e
    using that by (subst drain_received.simps) (simp add: messaging_get_entry_def messaging_into_entry_def)
  from stops [of c] stuck show ?thesis by fastforce
qed

definition stuck_chat :: chat where
  "stuck_chat = quiet_chat\<lparr>ch_world := idle_world (empty_db\<lparr>db_messaging := \<lparr>tb_rows =
     [(new_messaging_row (chat_event ''c'' ''/help'') 1)\<lparr>mg_event_json := OtherJson ''missing field''\<rparr>,
      new_messaging_row ((chat_event ''c'' ''/help'')\<lparr>me_event_id := ''e2''\<rparr>) 2], tb_seq = 2\<rparr>\<rparr>)\<rparr>"

theorem worker_drains_unless_unreadable_witness:
  "\<exists>r. drain_received chat_env stuck_chat = Some (r, stuck_chat) \<and> r \<noteq> Inr () \<and> card (waiting (chat_db stuck_chat)) = 2"
proof -
  let ?bad = "(new_messaging_row (chat_event ''c'' ''/help'') 1)\<lparr>mg_event_json := OtherJson ''missing field''\<rparr>"
  let ?good = "new_messaging_row ((chat_event ''c'' ''/help'')\<lparr>me_event_id := ''e2''\<rparr>) 2"
  have rows: "tb_rows (db_messaging (chat_db stuck_chat)) = [?bad, ?good]"
    by (simp add: stuck_chat_def idle_world_def)
  have ids: "messaging_received_ids (chat_db stuck_chat) = [1, 2]"
    by (simp add: messaging_received_ids_def sql_select_def rows) (simp add: new_messaging_row_def)
  have first: "by_id mg_id 1 (db_messaging (chat_db stuck_chat)) = Some ?bad"
    by (simp add: by_id_def rows) (simp add: new_messaging_row_def)
  have "waiting (chat_db stuck_chat) = {?bad, ?good}"
    by (auto simp: waiting_def rows new_messaging_row_def)
  moreover have "?bad \<noteq> ?good" by (auto simp: new_messaging_row_def)
  ultimately have "card (waiting (chat_db stuck_chat)) = 2" by simp
  moreover have "\<exists>e. from_json (mg_event_json ?bad) = Inl e" by simp
  ultimately show ?thesis
    using worker_drains_unless_unreadable [of chat_env stuck_chat] ids first by blast
qed

end
