(* ===== verification/Local_Api_Properties.thy ===== *)
theory Local_Api_Properties
  imports Local_Api Messaging_Properties
begin

text \<open>
  The local HTTP interface: nobody without the token, and no foreign web page with it, gets anything from
  it; the stream of a receipt tells each state once and ends with the receipt; and one body that panics
  instead of being refused.
\<close>

section \<open>The gate\<close>

text \<open>Who may call, stated without the code's order of tests.\<close>

definition loopback_hosts :: "nat \<Rightarrow> string set" where
  "loopback_hosts port = (\<Union>h \<in> {''127.0.0.1'', ''localhost'', ''[::1]''}. {h, h @ '':'' @ dec port})"

definition browser_site_ok :: "http_request \<Rightarrow> nat \<Rightarrow> bool" where
  "browser_site_ok rq port \<longleftrightarrow>
     (\<forall>site. header_text ''sec-fetch-site'' rq = Some site \<longrightarrow> site \<in> {''same-origin'', ''none''}) \<and>
     (\<forall>origin. header_text ''sec-fetch-site'' rq = None \<and> header_text ''origin'' rq = Some origin \<longrightarrow>
        (\<exists>h \<in> loopback_hosts port. origin = ''http://'' @ h))"

definition caller_authorized :: "app_config app_result \<Rightarrow> local_ctx \<Rightarrow> http_request \<Rightarrow> bool" where
  "caller_authorized load ctx rq \<longleftrightarrow>
     (\<exists>cfg scheme. load = Inr cfg \<and> trim (cfg_local_api_token cfg) \<noteq> [] \<and> eq_ignore_ascii_case scheme ''bearer'' \<and>
        header_text ''authorization'' rq = Some (scheme @ '' '' @ trim (cfg_local_api_token cfg))) \<and>
     (lc_remote_entrypoint_id ctx = None \<longrightarrow> browser_site_ok rq (lc_port ctx) \<and>
        (\<exists>host. header_text ''host'' rq = Some host \<and> (\<exists>h \<in> loopback_hosts (lc_port ctx). eq_ignore_ascii_case h host)))"

definition refusal :: "api_response \<Rightarrow> bool" where
  "refusal resp \<longleftrightarrow> fst resp \<in> {Api_Unauthorized, Api_Forbidden} \<and> (\<exists>words. snd resp = Error_Body words)"

lemma local_host_in: "local_host_allowed host port \<Longrightarrow> \<exists>h \<in> loopback_hosts port. eq_ignore_ascii_case h host"
  by (auto simp: local_host_allowed_def loopback_hosts_def)

lemma local_origin_in: "is_loopback_origin origin port \<Longrightarrow> \<exists>h \<in> loopback_hosts port. origin = ''http://'' @ h"
  by (auto simp: is_loopback_origin_def loopback_hosts_def strip_prefix_Some_iff)

lemma check_request_authorized:
  assumes "check_request load ctx rq = None"
  shows "caller_authorized load ctx rq"
proof -
  have host: "lc_remote_entrypoint_id ctx = None \<Longrightarrow> local_host_allowed (unwrap_or [] (header_text ''host'' rq)) (lc_port ctx)"
    and site: "lc_remote_entrypoint_id ctx = None \<Longrightarrow> local_origin_allowed (header_text ''origin'' rq) (header_text ''sec-fetch-site'' rq) (lc_port ctx)"
    using assms by (auto simp: check_request_def split: if_splits)
  from assms obtain cfg where cfg: "load = Inr cfg"
    "verify_bearer (trim (cfg_local_api_token cfg)) (unwrap_or [] (header_text ''authorization'' rq))"
    by (auto simp: check_request_def split: if_splits sum.splits)
  then obtain scheme where "trim (cfg_local_api_token cfg) \<noteq> []" "eq_ignore_ascii_case scheme ''bearer''"
    "unwrap_or [] (header_text ''authorization'' rq) = scheme @ '' '' @ trim (cfg_local_api_token cfg)"
    by (auto simp: verify_bearer_def split_once_Some_iff split: option.splits)
  then have token: "\<exists>cfg scheme. load = Inr cfg \<and> trim (cfg_local_api_token cfg) \<noteq> [] \<and> eq_ignore_ascii_case scheme ''bearer'' \<and>
        header_text ''authorization'' rq = Some (scheme @ '' '' @ trim (cfg_local_api_token cfg))"
    using cfg(1) by (cases "header_text ''authorization'' rq") auto
  have "browser_site_ok rq (lc_port ctx)" if "lc_remote_entrypoint_id ctx = None"
    using site [OF that] local_origin_in by (auto simp: local_origin_allowed_def browser_site_ok_def split: option.splits)
  moreover have "\<exists>host. header_text ''host'' rq = Some host \<and> (\<exists>h \<in> loopback_hosts (lc_port ctx). eq_ignore_ascii_case h host)"
    if "lc_remote_entrypoint_id ctx = None"
  proof (cases "header_text ''host'' rq")
    case None
    with local_host_in [OF host [OF that]] show ?thesis by (auto simp: eq_ignore_ascii_case_def loopback_hosts_def)
  next
    case (Some h)
    with local_host_in [OF host [OF that]] show ?thesis by auto
  qed
  ultimately show ?thesis using token by (auto simp: caller_authorized_def)
qed

lemma check_request_refusal: "check_request load ctx rq = Some resp \<Longrightarrow> refusal resp"
  by (auto simp: check_request_def refusal_def split: if_splits sum.splits)

text \<open>
  C16. The local interface serves nobody without the token. Unless the request carries the configured,
  non-empty token, and on the local listener names a loopback host with the listener's port or none and does
  not come from another site in a browser, every handler answers with a refusal that carries no data, and
  nothing changes.
\<close>

theorem local_api_needs_token:
  assumes "\<not> caller_authorized load ctx rq"
  shows "\<exists>resp. refusal resp \<and> handle_create env senv load ctx rq w = (resp, w) \<and>
    handle_notify env parse_url load ctx rq w = (resp, w) \<and> messaging_handle_send env load ctx rq w = Some (resp, w) \<and>
    handle_status load ctx rq i d = resp \<and> handle_stream load ctx rq i d = resp \<and>
    messaging_handle_events load ctx rq query d = resp \<and> messaging_handle_sends load ctx rq query d = resp"
proof -
  from assms check_request_authorized obtain resp where "check_request load ctx rq = Some resp"
    by (cases "check_request load ctx rq") auto
  with check_request_refusal [OF this] show ?thesis
    by (intro exI [of _ resp])
      (simp add: handle_create_def handle_notify_def messaging_handle_send_def handle_status_def handle_stream_def
        messaging_handle_events_def messaging_handle_sends_def)
qed

definition no_net :: net_env where
  "no_net = \<lparr>nx_send = (\<lambda>n call. undefined), nx_parse = (\<lambda>s. Inl ''EOF''), nx_shape_error = (\<lambda>v. []), nx_print = (\<lambda>v. []),
     nx_status_text = (\<lambda>n. [])\<rparr>"

definition local_listener :: local_ctx where
  "local_listener = \<lparr>lc_port = 8787, lc_base_path = ''/api'', lc_remote_entrypoint_id = None\<rparr>"

definition rebound_request :: http_request where
  "rebound_request = \<lparr>rq_headers = [(''host'', Header_Text ''evil.example''), (''authorization'', Header_Text ''Bearer secret'')],
     rq_body = []\<rparr>"

theorem local_api_needs_token_witness:
  "\<exists>resp. refusal resp \<and>
     handle_create no_net (gx_submit chat_env) (Inr (submit_config\<lparr>cfg_local_api_token := ''secret''\<rparr>)) local_listener
       rebound_request (idle_world empty_db) = (resp, idle_world empty_db)"
proof -
  have "\<not> eq_ignore_ascii_case h ''evil.example''" if "h \<in> loopback_hosts 8787" for h
    using that by (auto simp: loopback_hosts_def eq_ignore_ascii_case_def Prelude.ascii_lower_def byte_of_def)
  then have "\<not> caller_authorized (Inr (submit_config\<lparr>cfg_local_api_token := ''secret''\<rparr>)) local_listener rebound_request"
    by (auto simp: caller_authorized_def local_listener_def header_text_def rebound_request_def)
  from local_api_needs_token [OF this, of no_net "gx_submit chat_env" "idle_world empty_db" "\<lambda>s. None" 1 empty_db None]
  show ?thesis by blast
qed

section \<open>A body that panics\<close>

text \<open>A message in the form of an array, as serde reads a struct from it.\<close>

definition array_message :: "string \<Rightarrow> string \<Rightarrow> string \<Rightarrow> string \<Rightarrow> jvalue" where
  "array_message integration conversation words request =
     JArray [JString integration, JString conversation, JObject [(''kind'', JString ''text''), (''text'', JString words)], JString request]"

lemma current_array_message:
  "current_send_request (array_message integration conversation words request) =
     Some \<lparr>smr_integration_id = integration, smr_conversation_id = conversation, smr_content = Text words, smr_request_id = request\<rparr>"
  by (simp add: array_message_def current_send_request_def strict_struct_def as_struct_def required_def
      send_content_of_json_def tagged_def obj_remove_def)

text \<open>
  An authenticated caller who sends a message in the form of an array makes the handler panic: the
  body has neither of the keys that tell the current form from the old one, so it is read as the current
  form for the sake of the error, and there is none.
\<close>

theorem array_message_panics:
  assumes "check_request load ctx rq = None" and "nx_parse env (rq_body rq) = Inr (array_message integration conversation words request)"
  shows "messaging_handle_send env load ctx rq w = None"
proof -
  have "send_request_of_json (array_message integration conversation words request) = None"
    by (simp add: send_request_of_json_def current_array_message) (simp add: array_message_def)
  with assms show ?thesis by (simp add: messaging_handle_send_def)
qed

definition token_request :: http_request where
  "token_request = \<lparr>rq_headers = [(''host'', Header_Text ''localhost''), (''authorization'', Header_Text ''bearer s'')], rq_body = []\<rparr>"

lemma token_request_passes: "check_request (Inr (submit_config\<lparr>cfg_local_api_token := ''s''\<rparr>)) local_listener token_request = None"
proof -
  have "trim ''s'' = ''s''" by (rule graphic_trim) (simp add: graphic_def byte_of_def)
  moreover have "split_once CHR '' '' ''bearer s'' = Some (''bearer'', ''s'')" by (simp add: split_once_def)
  moreover have "eq_ignore_ascii_case ''bearer'' ''bearer''" by (simp add: eq_ignore_ascii_case_def)
  ultimately show ?thesis
    by (simp add: check_request_def local_host_allowed_def local_origin_allowed_def local_listener_def header_text_def
        token_request_def verify_bearer_def) (simp add: eq_ignore_ascii_case_def)
qed

theorem array_message_panics_witness:
  "messaging_handle_send (no_net\<lparr>nx_parse := (\<lambda>s. Inr (array_message ''m'' ''c'' ''hello'' ''1''))\<rparr>)
     (Inr (submit_config\<lparr>cfg_local_api_token := ''s''\<rparr>)) local_listener token_request (idle_world empty_db) = None"
  by (rule array_message_panics [OF token_request_passes]) simp

section \<open>The stream of a receipt\<close>

fun stream_receipt :: "receipt_stream_event \<Rightarrow> review_receipt_snapshot option" where
  "stream_receipt (Stream_Receipt s) = Some s"
| "stream_receipt _ = None"

text \<open>The snapshots an answer of the stream tells, and whether an event is the last word.\<close>

definition told :: "receipt_stream_event list \<Rightarrow> review_receipt_snapshot list" where
  "told es = List.map_filter stream_receipt es"

fun final_event :: "receipt_stream_event \<Rightarrow> bool" where
  "final_event (Stream_Receipt s) = receipt_terminal s"
| "final_event (Stream_Review i e) = False"
| "final_event (Stream_Error i words) = True"

lemma told_simps [simp]: "told [] = []" "told (e # es) = (case stream_receipt e of Some s \<Rightarrow> s # told es | None \<Rightarrow> told es)"
  by (simp_all add: told_def map_filter_simps split: option.split)

text \<open>A turn tells a new snapshot or none, and ends exactly with a final event.\<close>

lemma receipt_turn_cases:
  assumes "receipt_turn receipt previous current ans = (event, previous', ended)"
  shows "ended \<longleftrightarrow> (\<exists>e. event = Some e \<and> final_event e)"
    and "case Option.bind event stream_receipt of Some s \<Rightarrow> previous \<noteq> Some s \<and> previous' = Some s | None \<Rightarrow> previous' = previous"
  using assms
  by (auto simp: receipt_turn_def split: sum.splits if_splits option.splits bus_answer.splits stream_event.splits)

text \<open>
  The stream of a receipt never tells the same snapshot twice in a row, and it ends exactly at its last
  event being an error or a receipt that is done or failed; nothing follows such an event.
\<close>

theorem receipt_stream_sound:
  "case receipt_event_stream receipt None turns of (es, ended) \<Rightarrow>
     distinct_adj (told es) \<and> (ended \<longleftrightarrow> (\<exists>e \<in> set es. final_event e)) \<and> \<not> (\<exists>e \<in> set (butlast es). final_event e)"
proof -
  have "distinct_adj (told es) \<and> (\<forall>s t. previous = Some s \<and> told es = t # tl (told es) \<longrightarrow> s \<noteq> t) \<and>
      (ended \<longleftrightarrow> (\<exists>e \<in> set es. final_event e)) \<and> \<not> (\<exists>e \<in> set (butlast es). final_event e)"
    if "receipt_event_stream receipt previous turns = (es, ended)" for previous es ended
    using that
  proof (induction turns arbitrary: previous es ended)
    case (Cons p turns)
    obtain current ans where p: "p = (current, ans)" by (cases p)
    obtain event previous' ended' where t: "receipt_turn receipt previous current ans = (event, previous', ended')"
      by (cases "receipt_turn receipt previous current ans")
    obtain es' e' where rest: "receipt_event_stream receipt previous' turns = (es', e')" by fastforce
    note IH = Cons.IH [OF rest]
    note turn = receipt_turn_cases [OF t]
    show ?case
    proof (cases event)
      case None
      with Cons.prems p t rest turn have "es = es'" "ended = e'" "previous' = previous" by auto
      with IH show ?thesis by simp
    next
      case (Some e)
      show ?thesis
      proof (cases "final_event e")
        case True
        with Some Cons.prems p t turn have "es = [e]" "ended" by auto
        with True Some turn(2) show ?thesis by (auto split: option.splits)
      next
        case False
        with Some Cons.prems p t rest turn have es: "es = e # es'" "ended = e'" by auto
        have last: "set (butlast (e # es')) \<subseteq> insert e (set (butlast es'))" by (cases es') auto
        show ?thesis
        proof (cases "stream_receipt e")
          case None
          with Some turn(2) have "previous' = previous" by simp
          with IH es last False None show ?thesis by auto
        next
          case (Some s)
          with \<open>event = Some e\<close> turn(2) have "previous \<noteq> Some s" "previous' = Some s" by simp_all
          with IH es last False Some show ?thesis by (cases "told es'") auto
        qed
      qed
    qed
  qed simp
  from this [of None] show ?thesis by (auto split: prod.split)
qed

end
