(* ===== verification/Config_Migration.thy ===== *)
theory Config_Migration
  imports Text Json
begin

text \<open>
  The migrations of the persisted configuration document (\<open>config/service.rs\<close>), over JSON values: the flat
  single project document, the legacy binary path, the legacy listeners and tunnels, the rules seeded from the
  labels of projects, and the skills inlined in the actions of rules. The document that comes out is what
  the derived deserializer of \<open>AppConfig\<close> reads.
\<close>

abbreviation JText :: "string \<Rightarrow> jvalue" where "JText \<equiv> JString"

definition jnat :: "nat \<Rightarrow> jvalue" where "jnat n = JNumber (JNat n)"

definition jobj :: "(string \<times> jvalue) list \<Rightarrow> jvalue" where "jobj es = JObject (obj_of es)"

text \<open>\<open>get\<close> on the optional object of \<open>legacy_kind_to_action\<close>.\<close>

definition jmember :: "string \<Rightarrow> jobject option \<Rightarrow> jvalue option" where
  "jmember k m = Option.bind m (\<lambda>m. map_of m k)"

text \<open>A change in place of every element of the array under a key, when there is one.\<close>

definition map_array :: "(jvalue \<Rightarrow> jvalue) \<Rightarrow> jvalue \<Rightarrow> jvalue" where
  "map_array f v = (case v of JArray vs \<Rightarrow> JArray (map f vs) | _ \<Rightarrow> v)"

definition map_object :: "(jobject \<Rightarrow> jobject) \<Rightarrow> jvalue \<Rightarrow> jvalue" where
  "map_object f v = (case v of JObject m \<Rightarrow> JObject (f m) | _ \<Rightarrow> v)"

section \<open>The binary of the tunnel\<close>

(* config/service.rs 246-270 migrate_cli_tools *)
definition migrate_cli_tools :: "jvalue \<Rightarrow> jvalue" where
  "migrate_cli_tools value =
     (case value of
        JObject obj \<Rightarrow>
          (case map_of obj ''cloudflaredBin'' of
             None \<Rightarrow> JObject obj
           | Some legacy \<Rightarrow>
               (let obj = obj_remove ''cloudflaredBin'' obj;
                    obj = (if has_key ''cliTools'' obj then obj else obj_insert ''cliTools'' (JObject []) obj);
                    path = (case jas_str legacy of
                              Some p \<Rightarrow> if path_is_absolute p then p else []
                            | None \<Rightarrow> [])
                in JObject (obj_update ''cliTools'' (map_object (\<lambda>tools.
                     if has_key ''cloudflaredPath'' tools then tools
                     else obj_insert ''cloudflaredPath'' (JText path) tools)) obj)))
      | _ \<Rightarrow> value)"

section \<open>Projects\<close>

(* config/service.rs 179-179 MIGRATED_PROJECT_ID *)
definition migrated_project_id :: string where "migrated_project_id = ''default''"

(* config/service.rs 184-198 PROJECT_KEYS *)
definition project_keys :: "string list" where
  "project_keys = [''repo'', ''repoRoot'', ''pollIntervalSecs'', ''authors'', ''reviewLabel'', ''checkLabel'',
     ''skillRelPath'', ''prCooldownSeconds'', ''sourceKind'', ''engineKind'', ''autoReview'']"

(* config/service.rs 202-209 WEBHOOK_KEYS *)
definition webhook_keys :: "string list" where
  "webhook_keys = [''webhookEnabled'', ''webhookPort'', ''webhookSecret'', ''webhookTunnelMode'',
     ''webhookTunnelCommand'', ''webhookPublicUrl'']"

definition no_projects :: jvalue where
  "no_projects = jobj [(''projects'', JArray []), (''activeProjectId'', JText [])]"

definition copy_key :: "jobject \<Rightarrow> string \<Rightarrow> jobject \<Rightarrow> jobject" where
  "copy_key old k m = (case map_of old k of Some v \<Rightarrow> obj_insert k v m | None \<Rightarrow> m)"

(* config/service.rs 274-314 normalize_multiproject *)
definition normalize_multiproject :: "jvalue \<Rightarrow> jvalue" where
  "normalize_multiproject raw =
     (case raw of
        JObject old \<Rightarrow>
          if has_key ''projects'' old then JObject old
          else if old = [] then no_projects
          else
            (let project = fold (copy_key old) project_keys
                   (obj_of [(''id'', JText migrated_project_id), (''name'', JText migrated_project_id), (''enabled'', JBool True)]);
                 new = fold (copy_key old) webhook_keys
                   (obj_of [(''projects'', JArray [JObject project]), (''activeProjectId'', JText migrated_project_id)])
             in JObject (copy_key old ''cliTools'' new))
      | _ \<Rightarrow> no_projects)"

section \<open>Remote access\<close>

definition u16_max :: nat where "u16_max = 65535"

(* config/service.rs 413-436 local_api_entrypoint_json *)
definition local_api_entrypoint_json :: "nat \<Rightarrow> bool \<Rightarrow> jvalue" where
  "local_api_entrypoint_json port enabled = jobj
     [(''id'', JText ''local-api''), (''name'', JText ''Local API''), (''bindHost'', JText ''127.0.0.1''),
      (''port'', jnat port), (''enabled'', JBool enabled),
      (''sourcePolicy'', jobj [(''mode'', JText ''loopback''), (''allow'', JArray [])]),
      (''allowedOrigins'', JArray []), (''trustedProxies'', JArray []),
      (''routes'', JArray [jobj
        [(''id'', JText ''local-api''), (''name'', JText ''Local API''), (''path'', JText ''/api''),
         (''capability'', JText ''local-api''), (''enabled'', JBool True), (''authToken'', JText []),
         (''terminalRead'', JBool False), (''terminalWrite'', JBool False),
         (''terminalCreate'', JBool False), (''terminalAdmin'', JBool False)]])]"

definition str_or :: "string \<Rightarrow> string \<Rightarrow> jvalue \<Rightarrow> jvalue" where
  "str_or k d v = JText (unwrap_or d (jget_as jas_str k v))"

definition bool_or :: "string \<Rightarrow> bool \<Rightarrow> jvalue \<Rightarrow> jvalue" where
  "bool_or k d v = JBool (unwrap_or d (jget_as jas_bool k v))"

definition nat_or :: "string \<Rightarrow> nat \<Rightarrow> jvalue \<Rightarrow> jvalue" where
  "nat_or k d v = jnat (unwrap_or d (jget_as jas_u64 k v))"

(* config/service.rs 438-482 legacy_listener_to_entrypoint *)
definition legacy_listener_to_entrypoint :: "jvalue \<Rightarrow> jvalue option" where
  "legacy_listener_to_entrypoint listener =
     (case jget_as jas_str ''kind'' listener of
        None \<Rightarrow> None
      | Some kind \<Rightarrow>
          if kind = ''local-api''
          then Some (local_api_entrypoint_json
                 (case jget_as jas_u64 ''port'' listener of
                    Some p \<Rightarrow> if p \<le> u16_max then p else 8788
                  | None \<Rightarrow> 8788)
                 (unwrap_or True (jget_as jas_bool ''enabled'' listener)))
          else if kind = ''terminal''
          then Some (jobj
            [(''id'', str_or ''id'' ''terminal'' listener), (''name'', str_or ''name'' ''Terminal'' listener),
             (''bindHost'', str_or ''bindHost'' ''127.0.0.1'' listener), (''port'', nat_or ''port'' 0 listener),
             (''enabled'', bool_or ''enabled'' False listener),
             (''sourcePolicy'', jobj [(''mode'', JText ''loopback''), (''allow'', JArray [])]),
             (''allowedOrigins'', unwrap_or (JArray []) (jget ''allowedOrigins'' listener)),
             (''trustedProxies'', JArray []),
             (''routes'', JArray [jobj
               [(''id'', JText ''terminal''), (''name'', JText ''Terminal''), (''path'', JText ''/terminal''),
                (''capability'', JText ''terminal''), (''enabled'', JBool True),
                (''authToken'', str_or ''authToken'' [] listener),
                (''terminalRead'', bool_or ''terminalRead'' True listener),
                (''terminalWrite'', bool_or ''terminalWrite'' False listener),
                (''terminalCreate'', bool_or ''terminalCreate'' False listener),
                (''terminalAdmin'', bool_or ''terminalAdmin'' False listener)]])])
          else None)"

(* config/service.rs 484-496 legacy_tunnel_to_remote_tunnel *)
definition legacy_tunnel_to_remote_tunnel :: "jvalue \<Rightarrow> jvalue option" where
  "legacy_tunnel_to_remote_tunnel tunnel =
     (case jget_as jas_str ''id'' tunnel of
        None \<Rightarrow> None
      | Some i \<Rightarrow> Some (jobj
          [(''id'', JText i), (''name'', str_or ''name'' ''Tunnel'' tunnel), (''mode'', str_or ''mode'' ''quick'' tunnel),
           (''targetEntrypointId'', str_or ''targetListenerId'' [] tunnel), (''bindHost'', str_or ''bindHost'' ''0.0.0.0'' tunnel),
           (''port'', nat_or ''port'' 0 tunnel), (''command'', str_or ''command'' [] tunnel),
           (''publicUrl'', str_or ''publicUrl'' [] tunnel), (''enabled'', bool_or ''enabled'' False tunnel)]))"

(* config/service.rs 387-403 remote_access_has_local_api *)
definition remote_access_has_local_api :: "jvalue \<Rightarrow> bool" where
  "remote_access_has_local_api remote =
     list_ex (\<lambda>entrypoint. list_ex (\<lambda>route. jget ''capability'' route = Some (JText ''local-api''))
         (unwrap_or [] (jget_as jas_array ''routes'' entrypoint)))
       (unwrap_or [] (jget_as jas_array ''entrypoints'' remote))"

(* config/service.rs 405-411 push_remote_entrypoint *)
definition push_remote_entrypoint :: "jvalue \<Rightarrow> jvalue \<Rightarrow> jvalue" where
  "push_remote_entrypoint entrypoint = map_object (\<lambda>m.
     case Option.bind (map_of m ''entrypoints'') jas_array of
       Some arr \<Rightarrow> obj_update ''entrypoints'' (\<lambda>_. JArray (arr @ [entrypoint])) m
     | None \<Rightarrow> obj_insert ''entrypoints'' (JArray [entrypoint]) m)"

definition no_remote_access :: jvalue where
  "no_remote_access = jobj [(''entrypoints'', JArray []), (''tunnels'', JArray [])]"

definition elements_at :: "string \<Rightarrow> jobject \<Rightarrow> jvalue list" where
  "elements_at k obj = unwrap_or [] (Option.bind (map_of obj k) jas_array)"

text \<open>The legacy port of the local API becomes an entrypoint, unless it is out of range or there is one.\<close>

definition seed_local_api :: "jobject \<Rightarrow> jvalue \<Rightarrow> jvalue" where
  "seed_local_api obj remote =
     (case Option.bind (map_of obj ''localApiPort'') jas_u64 of
        None \<Rightarrow> remote
      | Some port \<Rightarrow>
          if port \<le> u16_max \<and> \<not> remote_access_has_local_api remote
          then push_remote_entrypoint (local_api_entrypoint_json port (port \<noteq> 0)) remote
          else remote)"

(* config/service.rs 320-385 migrate_remote_access *)
definition migrate_remote_access :: "jvalue \<Rightarrow> jvalue" where
  "migrate_remote_access value =
     (case value of
        JObject obj \<Rightarrow>
          (let had_remote_access = has_key ''remoteAccess'' obj;
               has_legacy_remote_access = has_key ''listeners'' obj \<or> has_key ''tunnels'' obj \<or> has_key ''localApiPort'' obj;
               remote = unwrap_or no_remote_access (map_of obj ''remoteAccess'');
               remote = (case remote of JObject _ \<Rightarrow> remote | _ \<Rightarrow> no_remote_access)
           in if \<not> had_remote_access \<and> \<not> has_legacy_remote_access then JObject obj
              else
                (let remote = (if had_remote_access then remote
                       else map_object (\<lambda>m. obj_insert ''tunnels''
                                (JArray (List.map_filter legacy_tunnel_to_remote_tunnel (elements_at ''tunnels'' obj)))
                              (obj_insert ''entrypoints''
                                (JArray (List.map_filter legacy_listener_to_entrypoint (elements_at ''listeners'' obj))) m)) remote);
                     remote = seed_local_api obj remote
                 in JObject (obj_remove ''tunnels'' (obj_remove ''listeners'' (obj_insert ''remoteAccess'' remote obj)))))
      | _ \<Rightarrow> value)"

section \<open>Rules\<close>

(* config/service.rs 584-597 run_skill_action_json *)
definition run_skill_action_json :: "string \<Rightarrow> string \<Rightarrow> string \<Rightarrow> jvalue" where
  "run_skill_action_json i skill_path extra_args = jobj
     [(''id'', JText i), (''kind'', JText ''runSkill''), (''enabled'', JBool True), (''dedupePolicy'', JText ''event''),
      (''delaySecs'', jnat 0), (''level'', JText ''action''), (''skillName'', JText default_skill_name),
      (''skillPath'', JText skill_path), (''commandTemplate'', JText default_command_template),
      (''extraArgs'', JText extra_args)]"

(* config/service.rs 599-609 notify_action_json *)
definition notify_action_json :: "string \<Rightarrow> jvalue \<Rightarrow> jvalue" where
  "notify_action_json i target = jobj
     [(''id'', JText i), (''kind'', JText ''notify''), (''enabled'', JBool True), (''target'', target),
      (''dedupePolicy'', JText ''event''), (''delaySecs'', jnat 0), (''level'', JText ''action'')]"

(* config/service.rs 658-724 legacy_kind_to_action *)
definition legacy_kind_to_action :: "string \<Rightarrow> string \<Rightarrow> jobject option \<Rightarrow> jvalue" where
  "legacy_kind_to_action kind skill_path existing =
     (let i = unwrap_or kind (Option.bind (jmember ''id'' existing) jas_str);
          enabled = unwrap_or True (Option.bind (jmember ''enabled'' existing) jas_bool);
          dedupe_policy = unwrap_or (JText ''event'') (jmember ''dedupePolicy'' existing);
          delay_secs = unwrap_or (jnat 0) (jmember ''delaySecs'' existing);
          level = unwrap_or ''action'' (Option.bind (jmember ''level'' existing) jas_str);
          keep = map_object (\<lambda>m. obj_insert ''level'' (JText level) (obj_insert ''delaySecs'' delay_secs
                   (obj_insert ''dedupePolicy'' dedupe_policy (obj_insert ''enabled'' (JBool enabled) m))))
      in if kind = ''review'' then keep (run_skill_action_json i skill_path [])
         else if kind = ''check'' then keep (run_skill_action_json i skill_path ''--check'')
         else if kind = ''notify''
         then keep (notify_action_json i (unwrap_or (jobj [(''kind'', JText ''none'')]) (jmember ''target'' existing)))
         else notify_action_json kind (jobj [(''kind'', JText ''none'')]))"

text \<open>The skill path of a project, when it is text that is not blank.\<close>

definition skill_path_or_default :: "string option \<Rightarrow> string" where
  "skill_path_or_default v =
     (case v of Some p \<Rightarrow> if trim p = [] then default_skill_path else p | None \<Rightarrow> default_skill_path)"

definition project_skill_path :: "jvalue \<Rightarrow> string" where
  "project_skill_path project = skill_path_or_default (jget_as jas_str ''skillRelPath'' project)"

definition seeded_rule :: "string \<Rightarrow> string \<Rightarrow> string \<Rightarrow> bool \<Rightarrow> string \<Rightarrow> jvalue \<Rightarrow> jvalue" where
  "seeded_rule pid role repo auto label action = jobj
     [(''id'', JText (pid @ ''-'' @ role)), (''name'', JText (pid @ '' '' @ role)), (''enabled'', JBool auto),
      (''source'', JNull), (''eventType'', JText ''pullRequest''), (''projectId'', JText pid), (''repo'', JText repo),
      (''labelsAny'', JArray [JText label]), (''labelsAll'', JArray []), (''titleContains'', JText []),
      (''bodyContains'', JText []), (''actions'', JArray [action])]"

definition seed_project :: "jvalue \<Rightarrow> jvalue list" where
  "seed_project project =
     (case jget_as jas_str ''id'' project of
        None \<Rightarrow> []
      | Some pid \<Rightarrow>
          (let auto = unwrap_or False (jget_as jas_bool ''autoReview'' project);
               repo = unwrap_or [] (jget_as jas_str ''repo'' project);
               skill_path = project_skill_path project;
               rule = (\<lambda>key role extra.
                 case jget_as jas_str key project of
                   Some label \<Rightarrow>
                     if trim label \<noteq> []
                     then [seeded_rule pid role repo auto label (run_skill_action_json role skill_path extra)] else []
                 | None \<Rightarrow> [])
           in rule ''reviewLabel'' ''review'' [] @ rule ''checkLabel'' ''check'' ''--check''))"

text \<open>The skill paths by project id; of two projects with the same id the later counts.\<close>

definition skill_path_entry :: "jvalue \<Rightarrow> (string \<rightharpoonup> string) \<Rightarrow> (string \<rightharpoonup> string)" where
  "skill_path_entry project paths =
     (case jget_as jas_str ''id'' project of
        Some i \<Rightarrow> paths(i \<mapsto> project_skill_path project)
      | None \<Rightarrow> paths)"

definition project_skill_paths :: "jobject \<Rightarrow> (string \<rightharpoonup> string)" where
  "project_skill_paths obj = fold skill_path_entry (elements_at ''projects'' obj) Map.empty"

text \<open>A change of each action of each rule that has them, given the skill path of the rule's project.\<close>

definition map_rule_actions :: "(string \<rightharpoonup> string) \<Rightarrow> (string \<Rightarrow> jvalue \<Rightarrow> jvalue) \<Rightarrow> jobject \<Rightarrow> jobject" where
  "map_rule_actions paths f =
     obj_update ''rules'' (map_array (map_object (\<lambda>rule.
       let project_id = unwrap_or [] (Option.bind (map_of rule ''projectId'') jas_str);
           skill_path = unwrap_or default_skill_path (paths project_id)
       in obj_update ''actions'' (map_array (f skill_path)) rule)))"

definition normalize_rule_action :: "string \<Rightarrow> jvalue \<Rightarrow> jvalue" where
  "normalize_rule_action skill_path action =
     (case action of
        JString kind \<Rightarrow> legacy_kind_to_action kind skill_path None
      | JObject m \<Rightarrow> JObject (obj_remove ''dependsOn'' m)
      | _ \<Rightarrow> action)"

(* config/service.rs 611-656 migrate_rule_actions *)
definition migrate_rule_actions :: "jobject \<Rightarrow> jobject" where
  "migrate_rule_actions obj = map_rule_actions (project_skill_paths obj) normalize_rule_action obj"

(* config/service.rs 505-582 seed_rule_configs *)
definition seed_rule_configs :: "jvalue \<Rightarrow> jvalue" where
  "seed_rule_configs value =
     (case value of
        JObject obj \<Rightarrow>
          if has_key ''rules'' obj then JObject (migrate_rule_actions obj)
          else
            (let rules = concat (map seed_project (elements_at ''projects'' obj));
                 obj = obj_update ''projects'' (map_array (map_object (\<lambda>p.
                         obj_remove ''autoReview'' (obj_remove ''checkLabel'' (obj_remove ''reviewLabel'' p))))) obj
             in JObject (obj_insert ''rules'' (JArray rules) obj))
      | _ \<Rightarrow> value)"

section \<open>Skills in the actions\<close>

definition insert_absent :: "string \<Rightarrow> jvalue \<Rightarrow> jobject \<Rightarrow> jobject" where
  "insert_absent k v m = (if has_key k m then m else obj_insert k v m)"

(* config/service.rs 814-853 migrate_one_rule_action *)
definition migrate_one_rule_action :: "string \<Rightarrow> jvalue \<Rightarrow> jvalue" where
  "migrate_one_rule_action skill_path action =
     (case action of
        JString kind \<Rightarrow> legacy_kind_to_action kind skill_path None
      | JObject obj \<Rightarrow>
          (let obj = obj_remove ''dependsOn'' obj;
               kind = unwrap_or [] (Option.bind (map_of obj ''kind'') jas_str)
           in if kind \<in> {''review'', ''check'', ''notify''} then legacy_kind_to_action kind skill_path (Some obj)
              else if kind = ''runSkill''
              then JObject (obj_remove ''target''
                     (insert_absent ''extraArgs'' (JText [])
                     (insert_absent ''commandTemplate'' (JText default_command_template)
                     (insert_absent ''skillPath'' (JText skill_path)
                     (insert_absent ''skillName'' (JText default_skill_name) obj)))))
              else JObject obj)
      | other \<Rightarrow> other)"

definition rewrite_kind :: "bool \<Rightarrow> jvalue \<Rightarrow> jvalue option" where
  "rewrite_kind is_deny item =
     (case jas_str item of
        None \<Rightarrow> Some item
      | Some kind \<Rightarrow>
          if is_deny \<and> kind = ''check'' then None
          else if kind \<in> {''review'', ''check''} then Some (JText ''runSkill'') else Some (JText kind))"

text \<open>\<open>retain\<close> with the set of the kinds seen: of equal kinds the first stays.\<close>

fun retain_kinds :: "string list \<Rightarrow> jvalue list \<Rightarrow> jvalue list" where
  "retain_kinds seen [] = []"
| "retain_kinds seen (item # items) =
     (case jas_str item of
        Some kind \<Rightarrow> if kind \<in> set seen then retain_kinds seen items else item # retain_kinds (kind # seen) items
      | None \<Rightarrow> item # retain_kinds seen items)"

definition rewrite_kinds :: "bool \<Rightarrow> jvalue \<Rightarrow> jvalue" where
  "rewrite_kinds is_deny v =
     (case v of JArray items \<Rightarrow> JArray (retain_kinds [] (List.map_filter (rewrite_kind is_deny) items)) | _ \<Rightarrow> v)"

(* config/service.rs 728-812 migrate_inline_skills *)
definition migrate_inline_skills :: "jvalue \<Rightarrow> jvalue" where
  "migrate_inline_skills value =
     (case value of
        JObject obj \<Rightarrow>
          (let paths = fold skill_path_entry (elements_at ''projects'' obj) Map.empty;
               obj = obj_update ''projects'' (map_array (map_object (obj_remove ''skillRelPath''))) obj;
               obj = map_rule_actions paths migrate_one_rule_action obj;
               obj = obj_update ''rules'' (map_array (map_object (\<lambda>rule.
                       obj_update ''denyActionKinds'' (rewrite_kinds True)
                         (obj_update ''allowActionKinds'' (rewrite_kinds False) rule)))) obj
           in JObject obj)
      | _ \<Rightarrow> value)"

(* config/service.rs 235-239 migrate_value *)
definition migrate_value :: "jvalue \<Rightarrow> jvalue" where
  "migrate_value raw =
     migrate_inline_skills (seed_rule_configs (migrate_remote_access (normalize_multiproject (migrate_cli_tools raw))))"

end
