(* ===== verification/Migration_Properties.thy ===== *)
theory Migration_Properties
  imports Config_Migration
begin

text \<open>
  The migration of the configuration document reaches a fixed point in one pass: a migrated document is left
  as it is by every later load.
\<close>

section \<open>Sorted objects\<close>

definition keys_sorted :: "jobject \<Rightarrow> bool" where
  "keys_sorted m \<longleftrightarrow> sorted_wrt (<) (map fst m)"

lemma keys_sorted_ops [simp]:
  "keys_sorted []" "keys_sorted m \<Longrightarrow> keys_sorted (obj_insert k v m)" "keys_sorted m \<Longrightarrow> keys_sorted (obj_remove k m)"
  "keys_sorted (obj_update k f m) = keys_sorted m"
proof -
  have "map fst (obj_update k f m) = map fst m" by (induction m) (auto simp: obj_update_def)
  then show "keys_sorted (obj_update k f m) = keys_sorted m" by (simp only: keys_sorted_def)
qed (simp_all add: keys_sorted_def sorted_obj_insert sorted_obj_remove)

lemma keys_sorted_obj_of [simp]: "keys_sorted (obj_of es)"
proof -
  have "keys_sorted m \<Longrightarrow> keys_sorted (fold (\<lambda>(k, v). obj_insert k v) es m)" for m
    by (induction es arbitrary: m) auto
  then show ?thesis by (simp add: obj_of_def)
qed

lemma obj_insert_present: "keys_sorted m \<Longrightarrow> map_of m k = Some v \<Longrightarrow> obj_insert k v m = m"
  by (simp add: keys_sorted_def obj_insert_same)

text \<open>What holds of every value under a key.\<close>

definition all_at :: "string \<Rightarrow> (jvalue \<Rightarrow> bool) \<Rightarrow> jobject \<Rightarrow> bool" where
  "all_at k P m \<longleftrightarrow> (\<forall>e \<in> set m. fst e = k \<longrightarrow> P (snd e))"

lemma all_at_update [simp]:
  "all_at k P (obj_update k f m) = all_at k (\<lambda>v. P (f v)) m"
  "k \<noteq> k' \<Longrightarrow> all_at k P (obj_update k' f m) = all_at k P m"
  by (fastforce simp: all_at_def obj_update_def)+

lemma obj_update_fixed: "all_at k (\<lambda>v. f v = v) m \<Longrightarrow> obj_update k f m = m"
  unfolding obj_update_def by (rule map_idI) (auto simp: all_at_def)

lemma all_at_True: "(\<And>v. P v) \<Longrightarrow> all_at k P m"
  by (simp add: all_at_def)

lemma map_array_fixed: "(\<And>vs a. v = JArray vs \<Longrightarrow> a \<in> set vs \<Longrightarrow> f a = a) \<Longrightarrow> map_array f v = v"
  by (auto simp: map_array_def map_idI split: jvalue.splits)

lemma map_object_fixed: "(\<And>m. v = JObject m \<Longrightarrow> f m = m) \<Longrightarrow> map_object f v = v"
  by (simp add: map_object_def split: jvalue.splits)

section \<open>Actions\<close>

definition action_fixed :: "jvalue \<Rightarrow> bool" where
  "action_fixed a \<longleftrightarrow> (\<forall>sp. migrate_one_rule_action sp a = a \<and> normalize_rule_action sp a = a)"

lemma run_skill_fixed:
  assumes "map_of m ''kind'' = Some (JText ''runSkill'')" and "\<not> has_key ''dependsOn'' m" and "\<not> has_key ''target'' m"
    and "has_key ''skillName'' m" "has_key ''skillPath'' m" "has_key ''commandTemplate'' m" "has_key ''extraArgs'' m"
  shows "action_fixed (JObject m)"
  using assms by (simp add: action_fixed_def migrate_one_rule_action_def normalize_rule_action_def obj_remove_absent insert_absent_def)

definition notify_object :: "string \<Rightarrow> bool \<Rightarrow> jvalue \<Rightarrow> jvalue \<Rightarrow> jvalue \<Rightarrow> string \<Rightarrow> jobject" where
  "notify_object i b t d s l = [(''dedupePolicy'', d), (''delaySecs'', s), (''enabled'', JBool b), (''id'', JText i),
     (''kind'', JText ''notify''), (''level'', JText l), (''target'', t)]"

lemma notify_action_object: "notify_action_json i t = JObject (notify_object i True t (JText ''event'') (jnat 0) ''action'')"
  by (simp add: notify_action_json_def jobj_def obj_of_def notify_object_def)

lemma notify_object_set:
  "obj_insert ''enabled'' (JBool b') (notify_object i b t d s l) = notify_object i b' t d s l"
  "obj_insert ''dedupePolicy'' d' (notify_object i b t d s l) = notify_object i b t d' s l"
  "obj_insert ''delaySecs'' s' (notify_object i b t d s l) = notify_object i b t d s' l"
  "obj_insert ''level'' (JText l') (notify_object i b t d s l) = notify_object i b t d s l'"
  by (simp_all add: notify_object_def)

lemma map_of_notify_object:
  "map_of (notify_object i b t d s l) ''id'' = Some (JText i)" "map_of (notify_object i b t d s l) ''kind'' = Some (JText ''notify'')"
  "map_of (notify_object i b t d s l) ''enabled'' = Some (JBool b)" "map_of (notify_object i b t d s l) ''target'' = Some t"
  "map_of (notify_object i b t d s l) ''dedupePolicy'' = Some d" "map_of (notify_object i b t d s l) ''delaySecs'' = Some s"
  "map_of (notify_object i b t d s l) ''level'' = Some (JText l)" "map_of (notify_object i b t d s l) ''dependsOn'' = None"
  by (simp_all add: notify_object_def)

lemma map_object_JObject: "map_object f (JObject m) = JObject (f m)"
  by (simp add: map_object_def)

lemma legacy_notify_object:
  "legacy_kind_to_action ''notify'' sp (Some (notify_object i b t d s l)) = JObject (notify_object i b t d s l)"
proof -
  have "(''notify'' = ''review'') = False" "(''notify'' = ''check'') = False" by simp_all
  then show ?thesis
    unfolding legacy_kind_to_action_def Let_def jmember_def notify_action_object
    by (simp only: map_of_notify_object notify_object_set map_object_JObject bind.simps jas_str.simps jas_bool.simps
      unwrap_or_simps if_False if_True refl)
qed

lemma notify_fixed: "action_fixed (JObject (notify_object i b t d s l))"
proof -
  have r: "obj_remove ''dependsOn'' (notify_object i b t d s l) = notify_object i b t d s l"
    by (rule obj_remove_absent) (simp add: has_key_def map_of_notify_object)
  have k: "unwrap_or [] (Option.bind (map_of (notify_object i b t d s l) ''kind'') jas_str) = ''notify''"
    by (simp add: map_of_notify_object)
  have i: "(''notify'' \<in> {''review'', ''check'', ''notify''}) = True" by simp
  have "migrate_one_rule_action sp (JObject (notify_object i b t d s l)) = JObject (notify_object i b t d s l)" for sp
    unfolding migrate_one_rule_action_def jvalue.case Let_def r k i legacy_notify_object if_True ..
  moreover have "normalize_rule_action sp (JObject (notify_object i b t d s l)) = JObject (notify_object i b t d s l)" for sp
    unfolding normalize_rule_action_def jvalue.case r ..
  ultimately show ?thesis by (simp only: action_fixed_def) simp
qed

lemma map_of_run_skill_action:
  "\<exists>m. run_skill_action_json i sp extra = JObject m \<and> map_of m ''kind'' = Some (JText ''runSkill'') \<and>
     has_key ''skillName'' m \<and> has_key ''skillPath'' m \<and> has_key ''commandTemplate'' m \<and> has_key ''extraArgs'' m \<and>
     \<not> has_key ''dependsOn'' m \<and> \<not> has_key ''target'' m"
  unfolding run_skill_action_json_def jobj_def
  by (rule exI, rule conjI, rule refl) (simp add: map_of_obj_of has_key_def)

lemma run_skill_kept_fixed:
  "action_fixed (map_object (\<lambda>m. obj_insert ''level'' l (obj_insert ''delaySecs'' s
     (obj_insert ''dedupePolicy'' d (obj_insert ''enabled'' b m)))) (run_skill_action_json i sp extra))"
proof -
  obtain m where m: "run_skill_action_json i sp extra = JObject m" "map_of m ''kind'' = Some (JText ''runSkill'')"
    "has_key ''skillName'' m" "has_key ''skillPath'' m" "has_key ''commandTemplate'' m" "has_key ''extraArgs'' m"
    "\<not> has_key ''dependsOn'' m" "\<not> has_key ''target'' m"
    using map_of_run_skill_action by blast
  show ?thesis
    unfolding m(1) map_object_def jvalue.case by (rule run_skill_fixed) (use m(2-) in simp_all)
qed

lemma legacy_fixed: "action_fixed (legacy_kind_to_action kind sp existing)"
  unfolding legacy_kind_to_action_def Let_def notify_action_object
  by (simp only: run_skill_kept_fixed map_object_JObject notify_object_set notify_fixed if_cancel split: if_split) simp

definition run_skill_completed :: "string \<Rightarrow> jobject \<Rightarrow> jobject" where
  "run_skill_completed sp obj = obj_remove ''target''
     (insert_absent ''extraArgs'' (JText []) (insert_absent ''commandTemplate'' (JText default_command_template)
       (insert_absent ''skillPath'' (JText sp) (insert_absent ''skillName'' (JText default_skill_name) obj))))"

lemma has_key_insert_absent [simp]: "has_key k (insert_absent k' v m) \<longleftrightarrow> k = k' \<or> has_key k m"
  by (auto simp: insert_absent_def)

lemma map_of_insert_absent: "k \<noteq> k' \<Longrightarrow> map_of (insert_absent k' v m) k = map_of m k"
  by (simp add: insert_absent_def)

lemma run_skill_completed_fixed:
  assumes "map_of obj ''kind'' = Some (JText ''runSkill'')" and "\<not> has_key ''dependsOn'' obj"
  shows "action_fixed (JObject (run_skill_completed sp obj))"
  by (rule run_skill_fixed) (use assms in \<open>simp_all add: run_skill_completed_def map_of_insert_absent\<close>)

lemma migrate_action_fixed: "action_fixed (migrate_one_rule_action sp a)"
proof (cases a)
  case (JObject obj)
  let ?m = "obj_remove ''dependsOn'' obj"
  obtain kind where k: "unwrap_or [] (Option.bind (map_of ?m ''kind'') jas_str) = kind" by blast
  have eq: "migrate_one_rule_action sp a =
      (if kind \<in> {''review'', ''check'', ''notify''} then legacy_kind_to_action kind sp (Some ?m)
       else if kind = ''runSkill'' then JObject (run_skill_completed sp ?m) else JObject ?m)"
    unfolding JObject migrate_one_rule_action_def run_skill_completed_def Let_def by (simp only: jvalue.case k)
  show ?thesis
  proof (cases "kind \<in> {''review'', ''check'', ''notify''}")
    case True
    then show ?thesis unfolding eq by (simp only: if_True legacy_fixed)
  next
    case other: False
    show ?thesis
    proof (cases "kind = ''runSkill''")
      case True
      with k have "map_of ?m ''kind'' = Some (JText ''runSkill'')"
        by (auto simp: unwrap_or_def elim!: jas_str.elims split: option.splits Option.bind_splits)
      then have "action_fixed (JObject (run_skill_completed sp ?m))" by (rule run_skill_completed_fixed) simp
      then show ?thesis unfolding eq using other True by (simp only: if_False if_True refl)
    next
      case False
      have "migrate_one_rule_action sp' (JObject ?m) = JObject ?m" for sp'
        unfolding migrate_one_rule_action_def Let_def using other False by (simp only: jvalue.case obj_remove_idem k if_False)
      then have "action_fixed (JObject ?m)" by (simp add: action_fixed_def normalize_rule_action_def)
      with False other show ?thesis unfolding eq by (simp only: if_False)
    qed
  qed
next
  case (JString kind)
  then show ?thesis using legacy_fixed [of kind sp None] by (simp add: migrate_one_rule_action_def)
qed (simp_all add: action_fixed_def migrate_one_rule_action_def normalize_rule_action_def)

section \<open>Lists of kinds\<close>

lemma retain_kinds_idem: "retain_kinds seen (retain_kinds seen items) = retain_kinds seen items"
  by (induction seen items rule: retain_kinds.induct) (auto split: option.splits)

lemma set_retain_kinds: "set (retain_kinds seen items) \<subseteq> set items"
  by (induction seen items rule: retain_kinds.induct) (auto split: option.splits if_splits)

lemma rewrite_kind_idem: "rewrite_kind d x = Some y \<Longrightarrow> rewrite_kind d y = Some y"
  by (auto simp: rewrite_kind_def split: option.splits if_splits)

lemma map_filter_fixed: "(\<And>x. x \<in> set xs \<Longrightarrow> f x = Some x) \<Longrightarrow> List.map_filter f xs = xs"
  by (induction xs) (auto simp: List.map_filter_def)

lemma set_map_filter_rewrite: "x \<in> set (List.map_filter (rewrite_kind d) items) \<Longrightarrow> rewrite_kind d x = Some x"
  by (induction items) (auto simp: List.map_filter_simps dest: rewrite_kind_idem split: option.splits)

lemma rewrite_kinds_idem [simp]: "rewrite_kinds d (rewrite_kinds d v) = rewrite_kinds d v"
proof (cases v)
  case (JArray items)
  let ?kept = "retain_kinds [] (List.map_filter (rewrite_kind d) items)"
  have "List.map_filter (rewrite_kind d) ?kept = ?kept"
    by (rule map_filter_fixed) (use set_retain_kinds set_map_filter_rewrite in blast)
  then show ?thesis by (simp add: JArray rewrite_kinds_def retain_kinds_idem)
qed (simp_all add: rewrite_kinds_def)

section \<open>Remote access\<close>

lemma local_api_json_routes:
  "\<exists>m r. local_api_entrypoint_json p e = JObject m \<and> map_of m ''routes'' = Some (JArray [r]) \<and>
     jget ''capability'' r = Some (JText ''local-api'')"
  unfolding local_api_entrypoint_json_def jobj_def by (rule exI, rule exI, rule conjI, rule refl, rule conjI)
    (simp add: map_of_obj_of, simp add: map_of_obj_of)

lemma push_has_local_api:
  "remote_access_has_local_api (push_remote_entrypoint (local_api_entrypoint_json p e) (JObject m))"
proof -
  obtain ep r where r: "local_api_entrypoint_json p e = JObject ep" "map_of ep ''routes'' = Some (JArray [r])"
    "jget ''capability'' r = Some (JText ''local-api'')"
    using local_api_json_routes by blast
  then show ?thesis
    by (auto simp: remote_access_has_local_api_def push_remote_entrypoint_def map_object_def jget_as_def list_ex_iff
      Option.bind_eq_Some_conv split: option.splits)
qed

lemma seed_local_api_object: "\<exists>m'. seed_local_api obj (JObject m) = JObject m'"
  by (auto simp: seed_local_api_def push_remote_entrypoint_def map_object_def split: option.splits)

lemma seed_local_api_idem [simp]: "seed_local_api obj (seed_local_api obj (JObject m)) = seed_local_api obj (JObject m)"
  by (simp add: seed_local_api_def push_has_local_api split: option.splits)

lemma seed_local_api_cong: "map_of obj ''localApiPort'' = map_of obj' ''localApiPort'' \<Longrightarrow> seed_local_api obj = seed_local_api obj'"
  by (simp add: seed_local_api_def fun_eq_iff)

definition remote_keys :: "string set" where
  "remote_keys = {''listeners'', ''tunnels'', ''remoteAccess'', ''localApiPort''}"

definition remote_settled :: "jobject \<Rightarrow> bool" where
  "remote_settled obj \<longleftrightarrow> \<not> has_key ''listeners'' obj \<and> \<not> has_key ''tunnels'' obj \<and>
     (case map_of obj ''remoteAccess'' of
        None \<Rightarrow> \<not> has_key ''localApiPort'' obj
      | Some r \<Rightarrow> (\<exists>m. r = JObject m) \<and> seed_local_api obj r = r)"

lemma remote_settled_cong:
  "\<forall>k \<in> remote_keys. map_of obj' k = map_of obj k \<Longrightarrow> remote_settled obj' = remote_settled obj"
  using seed_local_api_cong [of obj' obj] by (auto simp: remote_settled_def remote_keys_def has_key_def split: option.splits)

lemma migrate_remote_access_settles:
  assumes "keys_sorted obj"
  shows "\<exists>obj'. migrate_remote_access (JObject obj) = JObject obj' \<and> keys_sorted obj' \<and> remote_settled obj' \<and>
    (\<forall>k. k \<notin> remote_keys \<longrightarrow> map_of obj' k = map_of obj k)"
proof (cases "has_key ''remoteAccess'' obj \<or> has_key ''listeners'' obj \<or> has_key ''tunnels'' obj \<or> has_key ''localApiPort'' obj")
  case True
  have "\<exists>m. migrate_remote_access (JObject obj) =
      JObject (obj_remove ''tunnels'' (obj_remove ''listeners'' (obj_insert ''remoteAccess'' (seed_local_api obj (JObject m)) obj)))"
  proof (cases "map_of obj ''remoteAccess''")
    case None
    with True show ?thesis
      by (auto simp: migrate_remote_access_def no_remote_access_def jobj_def map_object_def has_key_def [of "''remoteAccess''"] Let_def)
  next
    case (Some r)
    then show ?thesis
      by (cases r) (auto simp: migrate_remote_access_def no_remote_access_def jobj_def has_key_def [of "''remoteAccess''"] Let_def)
  qed
  then obtain m where m: "migrate_remote_access (JObject obj) =
      JObject (obj_remove ''tunnels'' (obj_remove ''listeners'' (obj_insert ''remoteAccess'' (seed_local_api obj (JObject m)) obj)))"
    by blast
  let ?obj = "obj_remove ''tunnels'' (obj_remove ''listeners'' (obj_insert ''remoteAccess'' (seed_local_api obj (JObject m)) obj))"
  have "seed_local_api ?obj = seed_local_api obj" by (rule seed_local_api_cong) simp
  then have "remote_settled ?obj" using seed_local_api_object by (simp add: remote_settled_def)
  with m assms show ?thesis by (intro exI [of _ ?obj]) (simp add: remote_keys_def)
next
  case False
  with assms show ?thesis
    by (intro exI [of _ obj]) (simp add: migrate_remote_access_def remote_settled_def has_key_def Let_def)
qed

lemma migrate_remote_access_fixed:
  assumes "keys_sorted obj" and "remote_settled obj"
  shows "migrate_remote_access (JObject obj) = JObject obj"
proof (cases "map_of obj ''remoteAccess''")
  case None
  with assms(2) show ?thesis by (simp add: migrate_remote_access_def remote_settled_def has_key_def Let_def)
next
  case (Some r)
  with assms(2) obtain m where m: "r = JObject m" "seed_local_api obj r = r" "\<not> has_key ''listeners'' obj" "\<not> has_key ''tunnels'' obj"
    by (auto simp: remote_settled_def)
  have "obj_insert ''remoteAccess'' r obj = obj" by (rule obj_insert_present [OF assms(1) Some])
  with m Some show ?thesis by (simp add: migrate_remote_access_def has_key_def [of "''remoteAccess''"] obj_remove_absent Let_def)
qed

section \<open>The migrated document\<close>

definition array_all :: "(jvalue \<Rightarrow> bool) \<Rightarrow> jvalue \<Rightarrow> bool" where
  "array_all P v \<longleftrightarrow> (\<forall>vs. v = JArray vs \<longrightarrow> (\<forall>x \<in> set vs. P x))"

definition object_all :: "(jobject \<Rightarrow> bool) \<Rightarrow> jvalue \<Rightarrow> bool" where
  "object_all P v \<longleftrightarrow> (\<forall>m. v = JObject m \<longrightarrow> P m)"

lemma array_all_map [simp]: "array_all P (map_array f v) = array_all (\<lambda>x. P (f x)) v"
  by (cases v) (simp_all add: array_all_def map_array_def)

lemma object_all_map [simp]: "object_all P (map_object f v) = object_all (\<lambda>m. P (f m)) v"
  by (cases v) (simp_all add: object_all_def map_object_def)

lemma map_array_all: "array_all (\<lambda>x. f x = x) v \<Longrightarrow> map_array f v = v"
  by (rule map_array_fixed) (simp add: array_all_def)

lemma map_object_all: "object_all (\<lambda>m. f m = m) v \<Longrightarrow> map_object f v = v"
  by (rule map_object_fixed) (simp add: object_all_def)

lemma array_all_mono: "array_all P v \<Longrightarrow> (\<And>x. P x \<Longrightarrow> Q x) \<Longrightarrow> array_all Q v"
  by (auto simp: array_all_def)

lemma object_all_mono: "object_all P v \<Longrightarrow> (\<And>m. P m \<Longrightarrow> Q m) \<Longrightarrow> object_all Q v"
  by (auto simp: object_all_def)

lemma all_at_mono: "all_at k P m \<Longrightarrow> (\<And>v. P v \<Longrightarrow> Q v) \<Longrightarrow> all_at k Q m"
  by (auto simp: all_at_def)

lemma array_all_True: "(\<And>x. P x) \<Longrightarrow> array_all P v"
  by (simp add: array_all_def)

lemma object_all_True: "(\<And>m. P m) \<Longrightarrow> object_all P v"
  by (simp add: object_all_def)

definition rule_fixed :: "jobject \<Rightarrow> bool" where
  "rule_fixed m \<longleftrightarrow> all_at ''actions'' (array_all action_fixed) m \<and>
     all_at ''allowActionKinds'' (\<lambda>v. rewrite_kinds False v = v) m \<and>
     all_at ''denyActionKinds'' (\<lambda>v. rewrite_kinds True v = v) m"

definition migrated :: "jobject \<Rightarrow> bool" where
  "migrated obj \<longleftrightarrow> keys_sorted obj \<and> \<not> has_key ''cloudflaredBin'' obj \<and> has_key ''projects'' obj \<and> has_key ''rules'' obj \<and>
     remote_settled obj \<and> all_at ''projects'' (array_all (object_all (\<lambda>p. \<not> has_key ''skillRelPath'' p))) obj \<and>
     all_at ''rules'' (array_all (object_all rule_fixed)) obj"

lemma map_rule_actions_fixed:
  assumes "all_at ''rules'' (array_all (object_all rule_fixed)) obj" and "\<And>sp a. action_fixed a \<Longrightarrow> f sp a = a"
  shows "map_rule_actions paths f obj = obj"
  unfolding map_rule_actions_def Let_def
  by (rule obj_update_fixed, rule all_at_mono [OF assms(1)], rule map_array_all, erule array_all_mono, rule map_object_all,
      erule object_all_mono, rule obj_update_fixed, unfold rule_fixed_def, elim conjE, erule all_at_mono, rule map_array_all,
      erule array_all_mono, rule assms(2))

lemma migrated_inline_skills_fixed:
  assumes "migrated obj"
  shows "migrate_inline_skills (JObject obj) = JObject obj"
proof -
  have p: "obj_update ''projects'' (map_array (map_object (obj_remove ''skillRelPath''))) obj = obj"
    by (rule obj_update_fixed, rule all_at_mono [where P = "array_all (object_all (\<lambda>p. \<not> has_key ''skillRelPath'' p))"])
      (use assms in \<open>auto simp: migrated_def intro!: map_array_all map_object_all obj_remove_absent elim!: array_all_mono object_all_mono\<close>)
  have rules: "all_at ''rules'' (array_all (object_all rule_fixed)) obj" using assms by (simp add: migrated_def)
  have a: "map_rule_actions paths migrate_one_rule_action obj = obj" for paths
    by (rule map_rule_actions_fixed [OF rules]) (simp add: action_fixed_def)
  have "obj_update ''denyActionKinds'' (rewrite_kinds True) (obj_update ''allowActionKinds'' (rewrite_kinds False) r) = r" if "rule_fixed r" for r
    using that by (simp add: rule_fixed_def obj_update_fixed)
  then have k: "obj_update ''rules'' (map_array (map_object (\<lambda>rule.
      obj_update ''denyActionKinds'' (rewrite_kinds True) (obj_update ''allowActionKinds'' (rewrite_kinds False) rule)))) obj = obj"
    by (intro obj_update_fixed all_at_mono [OF rules] map_array_all) (auto intro!: map_object_all elim!: array_all_mono object_all_mono)
  show ?thesis unfolding migrate_inline_skills_def Let_def jvalue.case p a k ..
qed

lemma migrated_fixed:
  assumes "migrated obj"
  shows "migrate_value (JObject obj) = JObject obj"
proof -
  have "migrate_cli_tools (JObject obj) = JObject obj"
    using assms by (simp add: migrate_cli_tools_def migrated_def has_key_def)
  moreover have "normalize_multiproject (JObject obj) = JObject obj"
    using assms by (simp add: normalize_multiproject_def migrated_def)
  moreover have "migrate_remote_access (JObject obj) = JObject obj"
    using assms by (simp add: migrated_def migrate_remote_access_fixed)
  moreover have "migrate_rule_actions obj = obj"
    unfolding migrate_rule_actions_def by (rule map_rule_actions_fixed) (use assms in \<open>simp_all add: migrated_def action_fixed_def\<close>)
  then have "seed_rule_configs (JObject obj) = JObject obj"
    using assms by (simp add: seed_rule_configs_def migrated_def)
  ultimately show ?thesis using migrated_inline_skills_fixed [OF assms] by (simp add: migrate_value_def)
qed

text \<open>Each stage settles its part and keeps the parts settled before.\<close>

lemma migrate_cli_tools_settles:
  assumes "\<And>m. raw = JObject m \<Longrightarrow> keys_sorted m"
  shows "object_all (\<lambda>m. keys_sorted m \<and> \<not> has_key ''cloudflaredBin'' m) (migrate_cli_tools raw)"
proof (cases raw)
  case (JObject m)
  then have "keys_sorted m" by (rule assms)
  then show ?thesis
    unfolding JObject
    by (cases "map_of m ''cloudflaredBin''")
      (simp_all add: object_all_def migrate_cli_tools_def has_key_def [of "''cloudflaredBin''"] Let_def)
qed (simp_all add: object_all_def migrate_cli_tools_def)

lemma fold_copy_key:
  "keys_sorted m \<Longrightarrow> keys_sorted (fold (copy_key old) ks m)"
  "k \<notin> set ks \<Longrightarrow> map_of (fold (copy_key old) ks m) k = map_of m k"
  by (induction ks arbitrary: m) (auto simp: copy_key_def split: option.splits)

lemma normalize_settles:
  assumes "object_all (\<lambda>m. keys_sorted m \<and> \<not> has_key ''cloudflaredBin'' m) raw"
  shows "\<exists>obj. normalize_multiproject raw = JObject obj \<and> keys_sorted obj \<and> \<not> has_key ''cloudflaredBin'' obj \<and> has_key ''projects'' obj"
proof -
  have "no_projects = JObject (obj_of [(''projects'', JArray []), (''activeProjectId'', JText [])])"
    by (simp add: no_projects_def jobj_def)
  then have empty: "\<exists>obj. no_projects = JObject obj \<and> keys_sorted obj \<and> \<not> has_key ''cloudflaredBin'' obj \<and> has_key ''projects'' obj"
    by (intro exI [of _ "obj_of [(''projects'', JArray []), (''activeProjectId'', JText [])]"] conjI)
      (simp_all add: has_key_def map_of_obj_of)
  have copied: "\<exists>obj. JObject (copy_key old ''cliTools'' (fold (copy_key old) webhook_keys
      (obj_of [(''projects'', p), (''activeProjectId'', i)]))) = JObject obj \<and>
      keys_sorted obj \<and> \<not> has_key ''cloudflaredBin'' obj \<and> has_key ''projects'' obj" for old p i
    by (auto simp: copy_key_def [of _ "''cliTools''"] has_key_def fold_copy_key webhook_keys_def map_of_obj_of
      simp del: fold.simps split: option.splits)
  show ?thesis
    using assms empty copied by (cases raw) (auto simp: normalize_multiproject_def object_all_def Let_def)
qed

lemma inline_skills_settles:
  "\<exists>obj'. migrate_inline_skills (JObject obj) = JObject obj' \<and> keys_sorted obj' = keys_sorted obj \<and>
     (\<forall>k. k \<noteq> ''projects'' \<and> k \<noteq> ''rules'' \<longrightarrow> map_of obj' k = map_of obj k) \<and>
     (\<forall>k. has_key k obj' = has_key k obj) \<and>
     all_at ''projects'' (array_all (object_all (\<lambda>p. \<not> has_key ''skillRelPath'' p))) obj' \<and>
     all_at ''rules'' (array_all (object_all rule_fixed)) obj'"
  unfolding migrate_inline_skills_def Let_def jvalue.case
  by (rule exI, rule conjI, rule refl)
    (simp add: map_rule_actions_def rule_fixed_def migrate_action_fixed all_at_True array_all_True object_all_True Let_def)

lemma seed_rules_settles:
  "\<exists>obj'. seed_rule_configs (JObject obj) = JObject obj' \<and> (keys_sorted obj \<longrightarrow> keys_sorted obj') \<and>
     (\<forall>k. k \<noteq> ''projects'' \<and> k \<noteq> ''rules'' \<longrightarrow> map_of obj' k = map_of obj k) \<and> has_key ''rules'' obj' \<and>
     (has_key ''projects'' obj \<longrightarrow> has_key ''projects'' obj')"
  by (simp add: seed_rule_configs_def migrate_rule_actions_def map_rule_actions_def Let_def)

lemma migrate_value_migrated:
  assumes "\<And>m. raw = JObject m \<Longrightarrow> keys_sorted m"
  shows "\<exists>obj. migrate_value raw = JObject obj \<and> migrated obj"
proof -
  obtain a where a: "normalize_multiproject (migrate_cli_tools raw) = JObject a" "keys_sorted a"
    "map_of a ''cloudflaredBin'' = None" "has_key ''projects'' a"
    using normalize_settles [OF migrate_cli_tools_settles [of raw, OF assms]]
    unfolding has_key_def [of "''cloudflaredBin''"] not_not by blast
  obtain b where b: "migrate_remote_access (JObject a) = JObject b" "keys_sorted b" "remote_settled b"
    "\<forall>k. k \<notin> remote_keys \<longrightarrow> map_of b k = map_of a k"
    using migrate_remote_access_settles [OF a(2)] by blast
  obtain c where c: "seed_rule_configs (JObject b) = JObject c" "keys_sorted b \<longrightarrow> keys_sorted c"
    "\<forall>k. k \<noteq> ''projects'' \<and> k \<noteq> ''rules'' \<longrightarrow> map_of c k = map_of b k" "has_key ''rules'' c"
    "has_key ''projects'' b \<longrightarrow> has_key ''projects'' c"
    using seed_rules_settles by blast
  obtain d where d: "migrate_inline_skills (JObject c) = JObject d" "keys_sorted d = keys_sorted c"
    "\<forall>k. k \<noteq> ''projects'' \<and> k \<noteq> ''rules'' \<longrightarrow> map_of d k = map_of c k" "\<forall>k. has_key k d = has_key k c"
    "all_at ''projects'' (array_all (object_all (\<lambda>p. \<not> has_key ''skillRelPath'' p))) d"
    "all_at ''rules'' (array_all (object_all rule_fixed)) d"
    using inline_skills_settles by blast
  have "remote_settled d = remote_settled b" by (rule remote_settled_cong) (simp add: c(3) d(3) remote_keys_def)
  moreover have "\<not> has_key ''cloudflaredBin'' d" using a(3) b(4) c(3) d(3) by (simp add: has_key_def remote_keys_def)
  moreover have "has_key ''projects'' b" using a(4) b(4) by (simp add: has_key_def remote_keys_def)
  ultimately have "migrated d" using b(2,3) c(2,4,5) d(2,4,5,6) by (simp add: migrated_def)
  then show ?thesis by (simp add: migrate_value_def a(1) b(1) c(1) d(1))
qed

text \<open>
  C24. Migrating a configuration document reaches a fixed point in one pass: the result has projects and
  rules and none of the legacy keys, and migrating it again changes nothing. (The objects of the JSON library
  are ordered by key.)
\<close>

theorem migration_reaches_fixed_point:
  assumes "\<And>m. raw = JObject m \<Longrightarrow> keys_sorted m"
  shows "migrate_value (migrate_value raw) = migrate_value raw \<and>
    (\<exists>obj. migrate_value raw = JObject obj \<and> has_key ''projects'' obj \<and> has_key ''rules'' obj \<and>
      \<not> has_key ''cloudflaredBin'' obj \<and> \<not> has_key ''listeners'' obj \<and> \<not> has_key ''tunnels'' obj)"
proof -
  obtain obj where obj: "migrate_value raw = JObject obj" "migrated obj"
    using migrate_value_migrated [OF assms] by blast
  with migrated_fixed [OF obj(2)] show ?thesis by (simp add: migrated_def remote_settled_def)
qed

theorem migration_reaches_fixed_point_witness:
  "\<exists>obj. migrate_value (JObject [(''repo'', JText ''o/r''), (''reviewLabel'', JText ''go'')]) = JObject obj \<and> has_key ''rules'' obj \<and>
     migrate_value (JObject obj) = JObject obj"
proof -
  have "keys_sorted [(''repo'', JText ''o/r''), (''reviewLabel'', JText ''go'')]" by (simp add: keys_sorted_def)
  with migration_reaches_fixed_point [of "JObject [(''repo'', JText ''o/r''), (''reviewLabel'', JText ''go'')]"]
  show ?thesis by auto
qed

end
