(* ===== verification/Remote_Supervisor.thy ===== *)
theory Remote_Supervisor
  imports Remote_Gate Cli_Resolver "HOL-Library.AList"
begin

text \<open>
  The supervisor of remote access (\<open>remote/supervisor.rs\<close>): the listeners that are bound and the tunnels
  that run, and the reconciliation of both with the configuration. A hash map is an association list with
  distinct keys, whose order stands for the order of iteration. Sockets, child processes and the JSON text of
  a configuration are parameters; a server or process task is its data and whether it has finished.
\<close>

section \<open>What is wanted\<close>

(* remote/supervisor.rs 45-52 EntrypointDesired *)
record entrypoint_desired =
  ed_bind_host :: string
  ed_port :: nat
  ed_signature :: string
  ed_entrypoint :: remote_entrypoint
  ed_mcp_mount :: bool

(* remote/supervisor.rs 54-66 TunnelDesired *)
record tunnel_desired =
  td_mode :: remote_tunnel_mode
  td_target_entrypoint_id :: string
  td_target_bind_host :: string
  td_target_port :: nat
  td_lan_bind_host :: string
  td_lan_port :: nat
  td_command :: string
  td_public_url :: string
  td_signature :: string
  td_entrypoint :: remote_entrypoint

text \<open>What the operating system answers during one reconciliation, and the JSON of configurations.\<close>

record supervisor_env =
  sx_bind :: "string \<Rightarrow> nat \<Rightarrow> nat \<Rightarrow> string option"
  sx_listener_ok :: "string \<Rightarrow> nat \<Rightarrow> bool"
  sx_spawn :: "string \<Rightarrow> string list \<Rightarrow> string + nat"
  sx_stderr :: "nat \<Rightarrow> string list option"
  sx_entrypoint_json :: "remote_entrypoint \<Rightarrow> string"
  sx_tunnel_json :: "remote_tunnel \<Rightarrow> string"

definition hash_map :: "(string \<times> 'a) list \<Rightarrow> (string \<times> 'a) list" where
  "hash_map es = fold (\<lambda>(k, v). AList.update k v) es []"

text \<open>One enabled route: its normalised path must not conflict with those before it.\<close>

definition check_route :: "remote_route list \<times> string list \<Rightarrow> remote_route \<Rightarrow> string + remote_route list \<times> string list" where
  "check_route = (\<lambda>(routes, paths) route.
     if \<not> rr_enabled route then Inr (routes @ [route], paths)
     else case normalize_route_path (rr_path route) of
       Inl e \<Rightarrow> Inl (message e)
     | Inr path \<Rightarrow>
         if list_ex (\<lambda>existing. route_paths_conflict existing path) paths then Inl path
         else Inr (routes @ [route\<lparr>rr_path := path\<rparr>], paths @ [path]))"

(* remote/supervisor.rs 518-546 runtime_checked_entrypoint *)
definition runtime_checked_entrypoint :: "remote_entrypoint \<Rightarrow> remote_entrypoint option" where
  "runtime_checked_entrypoint entrypoint =
     (case try_fold check_route ([], []) (re_routes entrypoint) of
        Inl _ \<Rightarrow> None
      | Inr (routes, _) \<Rightarrow> Some (entrypoint\<lparr>re_routes := routes\<rparr>))"

(* remote/supervisor.rs 503-516 mcp_mount_allowed *)
definition mcp_mount_allowed :: "remote_access_config \<Rightarrow> remote_entrypoint \<Rightarrow> bool" where
  "mcp_mount_allowed remote_access entrypoint \<longleftrightarrow>
     (case parse_ip (re_bind_host entrypoint) of Some ip \<Rightarrow> is_loopback ip | None \<Rightarrow> False)
     \<and> list_ex (\<lambda>route. rr_enabled route \<and> rr_capability route = Capability_LocalApi) (re_routes entrypoint)
     \<and> \<not> list_ex (\<lambda>tunnel. rtn_enabled tunnel \<and> rtn_target_entrypoint_id tunnel = re_id entrypoint)
         (ra_tunnels remote_access)"

(* remote/supervisor.rs 477-501 desired_entrypoints *)
definition desired_entrypoints ::
    "supervisor_env \<Rightarrow> remote_access_config \<Rightarrow> (string \<times> entrypoint_desired) list" where
  "desired_entrypoints env remote_access =
     hash_map (List.map_filter (\<lambda>entrypoint.
       if \<not> (re_enabled entrypoint \<and> re_port entrypoint \<noteq> 0) then None
       else map_option (\<lambda>entrypoint.
         let mcp_mount = mcp_mount_allowed remote_access entrypoint in
         (re_id entrypoint,
          \<lparr>ed_bind_host = re_bind_host entrypoint, ed_port = re_port entrypoint,
           ed_signature = sx_entrypoint_json env entrypoint @ [CHR 0x0A] @ ''mcp='' @ (if mcp_mount then ''true'' else ''false''),
           ed_entrypoint = entrypoint, ed_mcp_mount = mcp_mount\<rparr>))
         (runtime_checked_entrypoint entrypoint))
       (ra_entrypoints remote_access))"

(* remote/supervisor.rs 552-558 tunnel_signature *)
definition tunnel_signature :: "supervisor_env \<Rightarrow> remote_tunnel \<Rightarrow> remote_entrypoint \<Rightarrow> string" where
  "tunnel_signature env tunnel entrypoint =
     sx_tunnel_json env tunnel @ [CHR 0x0A] @ sx_entrypoint_json env entrypoint"

section \<open>Logs\<close>

(* remote/supervisor.rs 42-43 TUNNEL_LOG_LIMIT *)
definition tunnel_log_limit :: nat where "tunnel_log_limit = 200"
definition tunnel_log_line_limit :: nat where "tunnel_log_line_limit = 4096"

(* remote/supervisor.rs 1523-1536 truncate_log_line *)
definition truncate_log_line :: "string \<Rightarrow> string" where
  "truncate_log_line line =
     (if length line \<le> tunnel_log_line_limit then line
      else take (back_to_boundary line (tunnel_log_line_limit - length ''...[truncated]'')) line @ ''...[truncated]'')"

definition secret_markers :: "string list" where
  "secret_markers = [''authorization:'', ''authorization='', ''bearer '', ''token='', ''access_token='', ''auth_token='', ''secret='']"

fun redact :: "string list \<Rightarrow> string \<Rightarrow> string" where
  "redact [] line = line"
| "redact (marker # markers) line =
     (case find_sub marker (ascii_lower line) of
        Some idx \<Rightarrow> take (idx + length marker) line @ ''[redacted]''
      | None \<Rightarrow> redact markers line)"

(* remote/supervisor.rs 1502-1521 sanitize_log_line *)
definition sanitize_log_line :: "string \<Rightarrow> string" where
  "sanitize_log_line line = truncate_log_line (redact secret_markers line)"

(* remote/supervisor.rs 1493-1500 push_log *)
definition push_log :: "string \<Rightarrow> string list \<Rightarrow> string list" where
  "push_log line logs =
     (if tunnel_log_limit \<le> length logs then tl logs else logs) @ [sanitize_log_line line]"

section \<open>Listeners\<close>

text \<open>A server: what its router serves, and whether its task has finished.\<close>

record remote_server =
  sv_entrypoint :: remote_entrypoint
  sv_extra_allowed_hosts :: "string list"
  sv_mcp_mount :: bool
  sv_finished :: bool

(* remote/supervisor.rs 75-81 BoundEntrypoint *)
record bound_entrypoint =
  be_server :: remote_server
  be_bind_host :: string
  be_port :: nat
  be_signature :: string

(* remote/supervisor.rs 38-39 BIND_RETRIES *)
definition remote_bind_retries :: nat where "remote_bind_retries = 10"

(* remote/supervisor.rs 1074-1095 bind_std_with_retry *)
definition bind_std_with_retry :: "supervisor_env \<Rightarrow> string \<Rightarrow> nat \<Rightarrow> bool" where
  "bind_std_with_retry env bind_host port =
     list_ex (\<lambda>attempt. sx_bind env bind_host port attempt = None) [0..<remote_bind_retries]"

(* remote/supervisor.rs 1538-1595 bind_entrypoint_with_extra_hosts *)
definition bind_entrypoint_with_extra_hosts ::
    "supervisor_env \<Rightarrow> string \<Rightarrow> nat \<Rightarrow> remote_entrypoint \<Rightarrow> string \<Rightarrow> string list \<Rightarrow> bool \<Rightarrow> bound_entrypoint option" where
  "bind_entrypoint_with_extra_hosts env bind_host port entrypoint signature extra_allowed_hosts mcp_mount =
     (if \<not> bind_std_with_retry env bind_host port then None
      else if \<not> sx_listener_ok env bind_host port then None
      else Some \<lparr>be_server = \<lparr>sv_entrypoint = entrypoint, sv_extra_allowed_hosts = extra_allowed_hosts,
                   sv_mcp_mount = mcp_mount, sv_finished = False\<rparr>,
                 be_bind_host = bind_host, be_port = port, be_signature = signature\<rparr>)"

(* remote/supervisor.rs 1055-1072 bind_entrypoint *)
definition bind_entrypoint :: "supervisor_env \<Rightarrow> entrypoint_desired \<Rightarrow> bound_entrypoint option" where
  "bind_entrypoint env d =
     bind_entrypoint_with_extra_hosts env (ed_bind_host d) (ed_port d) (ed_entrypoint d) (ed_signature d) [] (ed_mcp_mount d)"

section \<open>Tunnels\<close>

(* remote/status.rs 19-23 RemoteTunnelState *)
datatype remote_tunnel_state = Tunnel_Running | Tunnel_Stopped | Tunnel_Error

text \<open>A process task is the child it owns and whether the task has finished.\<close>

(* remote/supervisor.rs 83-103 BoundTunnel *)
record bound_tunnel =
  bt_desired :: tunnel_desired
  bt_process :: "(nat \<times> bool) option"
  bt_server :: "remote_server option"
  bt_public_url :: "string option"
  bt_state :: remote_tunnel_state
  bt_message :: string
  bt_logs :: "string list"
  bt_cloudflared_fingerprint :: "string option"

(* remote/supervisor.rs 1355-1361 tunnel_status_message *)
fun tunnel_status_message :: "remote_tunnel_mode \<Rightarrow> remote_tunnel_state \<Rightarrow> string" where
  "tunnel_status_message _ Tunnel_Running = (utf8 [0x8FD0, 0x884C, 0x4E2D])"
| "tunnel_status_message _ Tunnel_Stopped = (utf8 [0x672A, 0x8FD0, 0x884C])"
| "tunnel_status_message _ Tunnel_Error = (utf8 [0x5F02, 0x5E38, 0x9000, 0x51FA, 0x6216, 0x7ED1, 0x5B9A, 0x5931, 0x8D25])"

(* remote/supervisor.rs 1363-1366 non_empty_url *)
definition non_empty_url :: "string \<Rightarrow> string option" where
  "non_empty_url url = (if trim url = [] then None else Some (trim url))"

(* remote/supervisor.rs 1368-1375 build_tunnel_command_argv *)
definition remote_tunnel_argv :: "string \<Rightarrow> nat \<Rightarrow> (string \<times> string list) option" where
  "remote_tunnel_argv command port =
     (case map (str_replace ''{port}'' (dec port)) (split_whitespace command) of
        [] \<Rightarrow> None
      | program # args \<Rightarrow> Some (program, args))"

definition trim_any :: "char set \<Rightarrow> string \<Rightarrow> string" where
  "trim_any cs s = rev (dropWhile (\<lambda>c. c \<in> cs) (rev (dropWhile (\<lambda>c. c \<in> cs) s)))"

(* remote/supervisor.rs 1486-1491 extract_cloudflared_url *)
definition extract_cloudflared_url :: "string \<Rightarrow> string option" where
  "extract_cloudflared_url line =
     find (\<lambda>tok. prefix ''https://'' tok \<and> contains_sub tok ''trycloudflare.com'')
       (map (trim_any {CHR 0x22, CHR 0x27, CHR '',''}) (split_whitespace line))"

text \<open>The lines up to the end of the output or the timeout; each goes to the logs.\<close>

(* remote/supervisor.rs 1472-1484 scan_for_url *)
fun scan_tunnel_url :: "string list \<Rightarrow> string list \<Rightarrow> string option \<times> string list" where
  "scan_tunnel_url [] logs = (None, logs)"
| "scan_tunnel_url (line # rest) logs =
     (let logs = push_log line logs in
      case extract_cloudflared_url line of
        Some url \<Rightarrow> (Some url, push_log (''public URL parsed: '' @ url) logs)
      | None \<Rightarrow> scan_tunnel_url rest logs)"

(* remote/supervisor.rs 1303-1323 failed_tunnel *)
definition failed_tunnel :: "tunnel_desired \<Rightarrow> string list \<Rightarrow> string \<Rightarrow> bound_tunnel" where
  "failed_tunnel d logs msg =
     \<lparr>bt_desired = d, bt_process = None, bt_server = None, bt_public_url = None, bt_state = Tunnel_Error,
      bt_message = msg, bt_logs = logs, bt_cloudflared_fingerprint = None\<rparr>"

definition running_tunnel ::
    "tunnel_desired \<Rightarrow> nat option \<Rightarrow> remote_server option \<Rightarrow> string option \<Rightarrow> string list \<Rightarrow> string option \<Rightarrow> bound_tunnel" where
  "running_tunnel d child server url logs fingerprint =
     \<lparr>bt_desired = d, bt_process = map_option (\<lambda>c. (c, False)) child, bt_server = server, bt_public_url = url,
      bt_state = Tunnel_Running, bt_message = tunnel_status_message (td_mode d) Tunnel_Running, bt_logs = logs,
      bt_cloudflared_fingerprint = fingerprint\<rparr>"

text \<open>The child, the fingerprint of a managed cloudflared, and the logs; an error keeps the logs too.\<close>

(* remote/supervisor.rs 1377-1427 spawn_custom_tunnel *)
definition spawn_remote_command ::
    "supervisor_env \<Rightarrow> string \<Rightarrow> nat \<Rightarrow> resolved_cli option \<Rightarrow> string list
      \<Rightarrow> (nat \<times> string option) app_result \<times> string list" where
  "spawn_remote_command env command port cloudflared logs =
     (case remote_tunnel_argv command port of
        None \<Rightarrow> (Inl (AppError (''command '' @ utf8 [0x4E0D, 0x80FD, 0x4E3A, 0x7A7A])), logs)
      | Some (program, args) \<Rightarrow>
          (case managed_cloudflared_for_program program cloudflared of
             Inl e \<Rightarrow> (Inl e, logs)
           | Inr managed \<Rightarrow>
               (let name = (case managed of Some _ \<Rightarrow> ''cloudflared'' | None \<Rightarrow> program);
                    path = (case managed of Some cli \<Rightarrow> rcl_program cli | None \<Rightarrow> program);
                    logs = push_log (''starting command tunnel: '' @ name) logs
                in case sx_spawn env path args of
                     Inl e \<Rightarrow> (Inl (AppError ((utf8 [0x65E0, 0x6CD5, 0x542F, 0x52A8, 0x8FDC, 0x7A0B, 0x96A7, 0x9053, 0x547D, 0x4EE4, 0xFF08]) @ name @ (utf8 [0xFF09, 0xFF1A]) @ e)), logs)
                   | Inr child \<Rightarrow> (Inr (child, map_option rcl_fingerprint managed), logs))))"

(* remote/supervisor.rs 1429-1470 spawn_quick_tunnel *)
definition spawn_remote_quick ::
    "supervisor_env \<Rightarrow> resolved_cli \<Rightarrow> nat \<Rightarrow> string list \<Rightarrow> (nat \<times> string option) app_result \<times> string list" where
  "spawn_remote_quick env cloudflared port logs =
     (let logs = push_log ''starting cloudflared quick tunnel'' logs in
      case sx_spawn env (rcl_program cloudflared)
             [''tunnel'', ''--no-autoupdate'', ''--url'', ''http://127.0.0.1:'' @ dec port] of
        Inl e \<Rightarrow> (Inl (AppError ((utf8 [0x65E0, 0x6CD5, 0x542F, 0x52A8] @ '' cloudflared'' @ utf8 [0xFF1A]) @ e)), logs)
      | Inr child \<Rightarrow>
          (case sx_stderr env child of
             None \<Rightarrow> (Inl (AppError (''cloudflared stderr '' @ utf8 [0x4E0D, 0x53EF, 0x7528])), logs)
           | Some output \<Rightarrow> (let (url, logs) = scan_tunnel_url output logs in (Inr (child, url), logs))))"

(* remote/supervisor.rs 1097-1246 BoundTunnel::start *)
definition bound_tunnel_start ::
    "supervisor_env \<Rightarrow> resolved_cli option \<Rightarrow> string option \<Rightarrow> tunnel_desired \<Rightarrow> bound_tunnel" where
  "bound_tunnel_start env cloudflared resolution_error d =
     (let fail = (\<lambda>logs msg. failed_tunnel d (push_log msg logs) msg) in
      case td_mode d of
        Remote_Listener \<Rightarrow>
          running_tunnel d None None (non_empty_url (td_public_url d))
            (push_log ''listener mode: using externally managed tunnel'' []) None
      | Remote_Lan \<Rightarrow>
          (let at = td_lan_bind_host d @ '':'' @ dec (td_lan_port d) in
           case bind_entrypoint_with_extra_hosts env (td_lan_bind_host d) (td_lan_port d) (td_entrypoint d)
                  (td_signature d) [td_lan_bind_host d] False of
             None \<Rightarrow> fail [] ((''LAN '' @ utf8 [0x96A7, 0x9053, 0x7ED1, 0x5B9A, 0x5931, 0x8D25, 0xFF1A]) @ at)
           | Some bound \<Rightarrow>
               running_tunnel d None (Some (be_server bound)) (Some (''http://'' @ at)) (push_log (''lan tunnel bound '' @ at) []) None)
      | Remote_Command \<Rightarrow>
          if tunnel_command_uses_bare_cloudflared (td_command d) \<and> cloudflared = None
          then fail [] (case resolution_error of Some e \<Rightarrow> e
                        | None \<Rightarrow> (utf8 [0x672A, 0x627E, 0x5230] @ '' cloudflared'' @ utf8 [0xFF0C, 0x8BF7, 0x5728, 0x300C, 0x7B2C, 0x4E09, 0x65B9] @ '' CLI'' @ utf8 [0x300D, 0x914D, 0x7F6E] @ '' cloudflaredPath''))
          else (case spawn_remote_command env (td_command d) (td_target_port d) cloudflared [] of
                  (Inl e, logs) \<Rightarrow> fail logs (message e)
                | (Inr (child, fingerprint), logs) \<Rightarrow>
                    running_tunnel d (Some child) None (non_empty_url (td_public_url d)) logs fingerprint)
      | Remote_Quick \<Rightarrow>
          (case cloudflared of
             None \<Rightarrow> fail [] (case resolution_error of Some e \<Rightarrow> e | None \<Rightarrow> (utf8 [0x672A, 0x627E, 0x5230] @ '' cloudflared'' @ utf8 [0xFF0C, 0x8BF7, 0x914D, 0x7F6E, 0x53EF, 0x6267, 0x884C, 0x6587, 0x4EF6]))
           | Some cli \<Rightarrow>
               (case spawn_remote_quick env cli (td_target_port d) [] of
                  (Inl e, logs) \<Rightarrow> fail logs (message e)
                | (Inr (child, url), logs) \<Rightarrow>
                    running_tunnel d (Some child) None url logs (Some (rcl_fingerprint cli)))))"

(* remote/supervisor.rs 1264-1276 BoundTunnel::needs_restart *)
definition needs_restart :: "bound_tunnel \<Rightarrow> bool" where
  "needs_restart t =
     (case td_mode (bt_desired t) of
        Remote_Lan \<Rightarrow> (case bt_server t of None \<Rightarrow> True | Some s \<Rightarrow> sv_finished s)
      | Remote_Listener \<Rightarrow> False
      | _ \<Rightarrow> (case bt_process t of None \<Rightarrow> True | Some (_, finished) \<Rightarrow> finished))"

(* remote/supervisor.rs 1278-1284 BoundTunnel::is_active_managed_cloudflared *)
definition is_active_managed_cloudflared :: "bound_tunnel \<Rightarrow> bool" where
  "is_active_managed_cloudflared t \<longleftrightarrow>
     bt_cloudflared_fingerprint t \<noteq> None \<and> (case bt_process t of None \<Rightarrow> False | Some (_, finished) \<Rightarrow> \<not> finished)"

text \<open>What a running tunnel does by itself: its process exits, or writes a line.\<close>

(* remote/supervisor.rs 1325-1353 spawn_tunnel_process_owner *)
definition tunnel_process_exits :: "string + string \<Rightarrow> bound_tunnel \<Rightarrow> bound_tunnel" where
  "tunnel_process_exits exit t =
     (case bt_process t of
        Some (child, False) \<Rightarrow>
          (let msg = (case exit of Inr status \<Rightarrow> (utf8 [0x96A7, 0x9053, 0x8FDB, 0x7A0B, 0x9000, 0x51FA, 0xFF1A]) @ status | Inl e \<Rightarrow> (utf8 [0x96A7, 0x9053, 0x8FDB, 0x7A0B, 0x7B49, 0x5F85, 0x5931, 0x8D25, 0xFF1A]) @ e)
           in t\<lparr>bt_process := Some (child, True), bt_logs := push_log msg (bt_logs t), bt_public_url := None,
                bt_state := Tunnel_Error, bt_message := msg\<rparr>)
      | _ \<Rightarrow> t)"

(* remote/supervisor.rs 1459-1468 spawn_quick_tunnel *)
definition quick_tunnel_writes :: "string \<Rightarrow> bound_tunnel \<Rightarrow> bound_tunnel" where
  "quick_tunnel_writes line t =
     t\<lparr>bt_logs := push_log line (bt_logs t),
       bt_public_url := (case extract_cloudflared_url line of Some url \<Rightarrow> Some url | None \<Rightarrow> bt_public_url t)\<rparr>"

section \<open>The supervisor\<close>

(* remote/supervisor.rs 111-116 ListenerSupervisor *)
record supervisor =
  su_entrypoints :: "(string \<times> bound_entrypoint) list"
  su_tunnels :: "(string \<times> bound_tunnel) list"

definition entrypoint_differs :: "entrypoint_desired \<Rightarrow> bound_entrypoint \<Rightarrow> bool" where
  "entrypoint_differs d b \<longleftrightarrow>
     ed_bind_host d \<noteq> be_bind_host b \<or> ed_port d \<noteq> be_port b \<or> ed_signature d \<noteq> be_signature b"

definition insert_started :: "(string \<times> 'a) list \<Rightarrow> (string \<times> 'a) list \<Rightarrow> (string \<times> 'a) list" where
  "insert_started started current = fold (\<lambda>(k, v). AList.update k v) started current"

text \<open>The listeners: those that died, are not wanted or differ are stopped, then the missing ones are bound.\<close>

definition dead_listeners :: "supervisor \<Rightarrow> string list" where
  "dead_listeners s = map fst (filter (\<lambda>(i, b). sv_finished (be_server b)) (su_entrypoints s))"

definition stays :: "(string \<times> entrypoint_desired) list \<Rightarrow> string \<Rightarrow> bound_entrypoint \<Rightarrow> bool" where
  "stays desired i b = (case map_of desired i of None \<Rightarrow> False | Some d \<Rightarrow> \<not> entrypoint_differs d b)"

definition kept_listeners :: "(string \<times> entrypoint_desired) list \<Rightarrow> supervisor \<Rightarrow> (string \<times> bound_entrypoint) list" where
  "kept_listeners desired s = filter (\<lambda>(i, b). stays desired i b \<and> i \<notin> set (dead_listeners s)) (su_entrypoints s)"

definition missing_listeners :: "(string \<times> entrypoint_desired) list \<Rightarrow> supervisor \<Rightarrow> (string \<times> entrypoint_desired) list" where
  "missing_listeners desired s = filter (\<lambda>(i, d). i \<in> set (dead_listeners s) \<or>
     (case map_of (su_entrypoints s) i of None \<Rightarrow> True | Some b \<Rightarrow> entrypoint_differs d b)) desired"

definition bind_missing :: "supervisor_env \<Rightarrow> (string \<times> entrypoint_desired) list \<Rightarrow> (string \<times> bound_entrypoint) list" where
  "bind_missing env missing = List.map_filter (\<lambda>(i, d). map_option (Pair i) (bind_entrypoint env d)) missing"

definition reconcile_entrypoints :: "supervisor_env \<Rightarrow> remote_access_config \<Rightarrow> supervisor \<Rightarrow> supervisor" where
  "reconcile_entrypoints env remote_access s =
     (let desired = desired_entrypoints env remote_access
      in s\<lparr>su_entrypoints := insert_started (bind_missing env (missing_listeners desired s)) (kept_listeners desired s)\<rparr>)"

definition live_ports :: "supervisor \<Rightarrow> (string \<times> string \<times> nat) list" where
  "live_ports s =
     map (\<lambda>(i, b). (i, be_bind_host b, be_port b)) (filter (\<lambda>(i, b). \<not> sv_finished (be_server b)) (su_entrypoints s))"

definition desired_tunnel ::
    "supervisor_env \<Rightarrow> remote_access_config \<Rightarrow> (string \<times> string \<times> nat) list \<Rightarrow> remote_tunnel
      \<Rightarrow> (string \<times> tunnel_desired) option" where
  "desired_tunnel env remote_access live tunnel =
     (case (find (\<lambda>e. re_id e = rtn_target_entrypoint_id tunnel \<and> re_enabled e) (ra_entrypoints remote_access),
            map_of live (rtn_target_entrypoint_id tunnel)) of
        (Some entrypoint, Some (host, port)) \<Rightarrow>
          Some (rtn_id tunnel,
            \<lparr>td_mode = rtn_mode tunnel, td_target_entrypoint_id = rtn_target_entrypoint_id tunnel,
             td_target_bind_host = host, td_target_port = port, td_lan_bind_host = rtn_bind_host tunnel,
             td_lan_port = rtn_port tunnel, td_command = rtn_command tunnel, td_public_url = rtn_public_url tunnel,
             td_signature = tunnel_signature env tunnel entrypoint, td_entrypoint = entrypoint\<rparr>)
      | _ \<Rightarrow> None)"

definition desired_tunnels ::
    "supervisor_env \<Rightarrow> remote_access_config \<Rightarrow> supervisor \<Rightarrow> (string \<times> tunnel_desired) list" where
  "desired_tunnels env remote_access s =
     hash_map (List.map_filter (desired_tunnel env remote_access (live_ports s))
       (filter rtn_enabled (ra_tunnels remote_access)))"

(* remote/supervisor.rs 395-474 ListenerSupervisor::reconcile_tunnels *)
definition reconcile_tunnels ::
    "supervisor_env \<Rightarrow> remote_access_config \<Rightarrow> resolved_cli option \<Rightarrow> string option \<Rightarrow> supervisor \<Rightarrow> supervisor" where
  "reconcile_tunnels env remote_access cloudflared resolution_error s =
     (let desired = desired_tunnels env remote_access s;
          kept = filter (\<lambda>(i, rt). map_of desired i = Some (bt_desired rt) \<and> \<not> needs_restart rt) (su_tunnels s);
          add = filter (\<lambda>(i, d). map_option bt_desired (map_of kept i) \<noteq> Some d) desired;
          started = map (\<lambda>(i, d). (i, bound_tunnel_start env cloudflared resolution_error d)) add
      in s\<lparr>su_tunnels := insert_started started kept\<rparr>)"

(* remote/supervisor.rs 119-204 ListenerSupervisor::reconcile *)
definition remote_reconcile ::
    "supervisor_env \<Rightarrow> remote_access_config \<Rightarrow> resolved_cli option app_result \<Rightarrow> supervisor \<Rightarrow> supervisor" where
  "remote_reconcile env remote_access cloudflared s =
     (let (cli, resolution_error) = (case cloudflared of Inr c \<Rightarrow> (c, None) | Inl e \<Rightarrow> (None, Some (message e)))
      in reconcile_tunnels env remote_access cli resolution_error (reconcile_entrypoints env remote_access s))"

(* remote/supervisor.rs 361-373 ListenerSupervisor::shutdown *)
definition remote_shutdown :: "supervisor \<Rightarrow> supervisor" where
  "remote_shutdown s = s\<lparr>su_tunnels := [], su_entrypoints := []\<rparr>"

(* remote/supervisor.rs 332-344 ListenerSupervisor::public_urls_for_entrypoint *)
definition public_urls_for_entrypoint :: "supervisor \<Rightarrow> string \<Rightarrow> string list" where
  "public_urls_for_entrypoint s entrypoint_id =
     List.map_filter bt_public_url
       (filter (\<lambda>rt. td_target_entrypoint_id (bt_desired rt) = entrypoint_id) (map snd (su_tunnels s)))"

(* remote/supervisor.rs 346-359 ListenerSupervisor::forwarded_public_urls_for_entrypoint *)
definition forwarded_public_urls_for_entrypoint :: "supervisor \<Rightarrow> string \<Rightarrow> string list" where
  "forwarded_public_urls_for_entrypoint s entrypoint_id =
     List.map_filter bt_public_url
       (filter (\<lambda>rt. td_target_entrypoint_id (bt_desired rt) = entrypoint_id \<and> td_mode (bt_desired rt) \<noteq> Remote_Lan)
         (map snd (su_tunnels s)))"

(* remote/supervisor.rs 381-393 ListenerSupervisor::active_cloudflared_fingerprints *)
definition active_cloudflared_fingerprints :: "supervisor \<Rightarrow> string list" where
  "active_cloudflared_fingerprints s =
     remdups (sort (List.map_filter bt_cloudflared_fingerprint
       (filter is_active_managed_cloudflared (map snd (su_tunnels s)))))"

text \<open>A request to a server of the supervisor: the gate sees the public URLs of the moment.\<close>

(* remote/supervisor.rs 956-976 public_urls_for_gate *)
definition serve_request ::
    "validation_env \<Rightarrow> supervisor \<Rightarrow> remote_server \<Rightarrow> gate_request \<Rightarrow> world \<Rightarrow> gate_answer \<times> world" where
  "serve_request env s server rq w =
     (let i = re_id (sv_entrypoint server) in
      remote_access_gate env (sv_entrypoint server) (sv_extra_allowed_hosts server)
        (public_urls_for_entrypoint s i) (forwarded_public_urls_for_entrypoint s i) rq w)"

section \<open>Status\<close>

(* remote/status.rs 10-14 RemoteEntrypointState *)
datatype remote_entrypoint_state = Entry_Bound | Entry_BoundNoAuth | Entry_Error

(* remote/status.rs 28-33 RemoteRouteRuntimeStatus *)
record remote_route_status =
  rs_id :: string
  rs_path :: string
  rs_capability :: remote_capability
  rs_enabled :: bool

(* remote/status.rs 38-47 RemoteEntrypointRuntimeStatus *)
record remote_entrypoint_status =
  es_id :: string
  es_bound :: bool
  es_bound_port :: "nat option"
  es_state :: remote_entrypoint_state
  es_message :: string
  es_routes :: "remote_route_status list"

(* remote/status.rs 52-62 RemoteTunnelRuntimeStatus *)
record remote_tunnel_status =
  ts_id :: string
  ts_mode :: remote_tunnel_mode
  ts_target_entrypoint_id :: string
  ts_state :: remote_tunnel_state
  ts_public_url :: "string option"
  ts_message :: string
  ts_logs :: "string list"

definition route_unusable :: "bool \<Rightarrow> remote_route \<Rightarrow> bool" where
  "route_unusable local_api_token_set route \<longleftrightarrow> rr_enabled route \<and>
     (case rr_capability route of
        Capability_Terminal \<Rightarrow> \<not> terminal_auth_token_is_strong (rr_auth_token route)
      | Capability_LocalApi \<Rightarrow> \<not> local_api_token_set
      | Capability_Messaging \<Rightarrow> False)"

definition entrypoint_status :: "supervisor \<Rightarrow> bool \<Rightarrow> remote_entrypoint \<Rightarrow> remote_entrypoint_status" where
  "entrypoint_status s local_api_token_set entrypoint =
     (let bound_port = (case map_of (su_entrypoints s) (re_id entrypoint) of
            Some b \<Rightarrow> if sv_finished (be_server b) then None else Some (be_port b)
          | None \<Rightarrow> None);
          (state, msg) = (case bound_port of
            Some port \<Rightarrow>
              (let at = (utf8 [0x5DF2, 0x7ED1, 0x5B9A] @ '' '') @ re_bind_host entrypoint @ '':'' @ dec port in
               if list_ex (route_unusable local_api_token_set) (re_routes entrypoint)
               then (Entry_BoundNoAuth, at @ (utf8 [0xFF0C, 0x4F46, 0x81F3, 0x5C11, 0x4E00, 0x4E2A] @ '' route token '' @ utf8 [0x672A, 0x914D, 0x7F6E]))
               else (Entry_Bound, at))
          | None \<Rightarrow> (Entry_Error, (utf8 [0x7ED1, 0x5B9A, 0x5931, 0x8D25, 0xFF08, 0x7AEF, 0x53E3, 0x88AB, 0x5360, 0x7528, 0x6216, 0x4E0D, 0x53EF, 0x7528, 0xFF09])))
      in \<lparr>es_id = re_id entrypoint, es_bound = bound_port \<noteq> None, es_bound_port = bound_port, es_state = state,
          es_message = msg,
          es_routes = map (\<lambda>route. \<lparr>rs_id = rr_id route, rs_path = rr_path route,
            rs_capability = rr_capability route, rs_enabled = rr_enabled route\<rparr>) (re_routes entrypoint)\<rparr>)"

definition tunnel_status :: "supervisor \<Rightarrow> remote_tunnel \<Rightarrow> remote_tunnel_status" where
  "tunnel_status s tunnel =
     (let (state, msg, url, logs) =
        (case map_of (su_tunnels s) (rtn_id tunnel) of
           Some rt \<Rightarrow>
             (let state = (case bt_server rt of Some sv \<Rightarrow> if sv_finished sv then Tunnel_Error else bt_state rt
                           | None \<Rightarrow> bt_state rt);
                  msg = (if state = bt_state rt then bt_message rt else tunnel_status_message (rtn_mode tunnel) state)
              in (state, msg, bt_public_url rt, bt_logs rt))
         | None \<Rightarrow> (Tunnel_Stopped, tunnel_status_message (rtn_mode tunnel) Tunnel_Stopped, None, []))
      in \<lparr>ts_id = rtn_id tunnel, ts_mode = rtn_mode tunnel, ts_target_entrypoint_id = rtn_target_entrypoint_id tunnel,
          ts_state = state, ts_public_url = url, ts_message = msg, ts_logs = logs\<rparr>)"

(* remote/supervisor.rs 206-330 ListenerSupervisor::status_snapshot *)
definition status_snapshot ::
    "supervisor \<Rightarrow> remote_access_config \<Rightarrow> bool \<Rightarrow> remote_entrypoint_status list \<times> remote_tunnel_status list" where
  "status_snapshot s remote_access local_api_token_set =
     (map (entrypoint_status s local_api_token_set) (filter re_enabled (ra_entrypoints remote_access)),
      map (tunnel_status s) (filter rtn_enabled (ra_tunnels remote_access)))"

end
