(* ===== verification/Supervisor_Properties.thy ===== *)
theory Supervisor_Properties
  imports Remote_Supervisor
begin

text \<open>
  The supervisor over any sequence of its operations: after a reconciliation every listener serves a wanted
  configuration, no MCP route is reachable through a tunnel, and the logs of tunnels stay bounded, though a
  secret that stands before the marker found first is not removed from them.
\<close>

section \<open>Hash maps\<close>

lemma map_of_updates: "map_of (fold (\<lambda>(k, v). AList.update k v) es m) = map_of m ++ map_of (rev es)"
proof (induction es arbitrary: m)
  case (Cons e es)
  then show ?case by (cases e) (auto simp: update_conv' map_add_def fun_eq_iff split: option.splits)
qed simp

lemma set_updates: "x \<in> set (fold (\<lambda>(k, v). AList.update k v) es m) \<Longrightarrow> x \<in> set es \<or> x \<in> set m"
proof (induction es arbitrary: m)
  case (Cons e es)
  obtain k v where e: "e = (k, v)" by (cases e)
  have "set (AList.update k v m) \<subseteq> insert (k, v) (set m)" by (induction m) auto
  with Cons e show ?case by fastforce
qed simp

lemma distinct_updates: "distinct (map fst m) \<Longrightarrow> distinct (map fst (fold (\<lambda>(k, v). AList.update k v) es m))"
  by (induction es arbitrary: m) (auto simp: distinct_update)

lemma distinct_filter_keys: "distinct (map fst m) \<Longrightarrow> distinct (map fst (filter P m))"
  by (induction m) (auto simp: image_iff)

lemma map_filter_in: "x \<in> set (List.map_filter f xs) \<Longrightarrow> \<exists>y \<in> set xs. f y = Some x"
  by (induction xs) (auto simp: List.map_filter_simps split: option.splits)

section \<open>Listeners\<close>

definition listener_signature :: "(remote_entrypoint \<Rightarrow> string) \<Rightarrow> remote_entrypoint \<Rightarrow> bool \<Rightarrow> string" where
  "listener_signature json e mcp = json e @ [CHR 0x0A] @ ''mcp='' @ (if mcp then ''true'' else ''false'')"

lemma listener_signature_mcp: "listener_signature json e mcp = listener_signature json e' mcp' \<Longrightarrow> mcp = mcp'"
proof -
  assume "listener_signature json e mcp = listener_signature json e' mcp'"
  then have "take 4 (rev (listener_signature json e mcp)) = take 4 (rev (listener_signature json e' mcp'))" by simp
  then show ?thesis by (cases mcp; cases mcp') (simp_all add: listener_signature_def)
qed

text \<open>A listener is what its signature says.\<close>

definition listener_ok :: "(remote_entrypoint \<Rightarrow> string) \<Rightarrow> string \<times> bound_entrypoint \<Rightarrow> bool" where
  "listener_ok json = (\<lambda>(i, b). be_signature b = listener_signature json (sv_entrypoint (be_server b)) (sv_mcp_mount (be_server b)) \<and>
     i = re_id (sv_entrypoint (be_server b)) \<and> be_bind_host b = re_bind_host (sv_entrypoint (be_server b)) \<and>
     be_port b = re_port (sv_entrypoint (be_server b)) \<and> sv_extra_allowed_hosts (be_server b) = [])"

definition tunnel_ok :: "string \<times> bound_tunnel \<Rightarrow> bool" where
  "tunnel_ok = (\<lambda>(i, rt). (\<forall>sv. bt_server rt = Some sv \<longrightarrow> \<not> sv_mcp_mount sv) \<and>
     length (bt_logs rt) \<le> tunnel_log_limit \<and> (\<forall>line \<in> set (bt_logs rt). length line \<le> tunnel_log_line_limit))"

definition supervisor_ok :: "(remote_entrypoint \<Rightarrow> string) \<Rightarrow> supervisor \<Rightarrow> bool" where
  "supervisor_ok json s \<longleftrightarrow> distinct (map fst (su_entrypoints s)) \<and> distinct (map fst (su_tunnels s)) \<and>
     (\<forall>e \<in> set (su_entrypoints s). listener_ok json e) \<and> (\<forall>t \<in> set (su_tunnels s). tunnel_ok t)"

lemma runtime_checked_fields:
  "runtime_checked_entrypoint e = Some e' \<Longrightarrow> \<exists>routes. e' = e\<lparr>re_routes := routes\<rparr>"
  by (auto simp: runtime_checked_entrypoint_def split: sum.splits)

lemma desired_in:
  assumes "(i, d) \<in> set (desired_entrypoints env ra)"
  shows "\<exists>e \<in> set (ra_entrypoints ra). \<exists>e'. re_enabled e \<and> re_port e \<noteq> 0 \<and> runtime_checked_entrypoint e = Some e' \<and>
    i = re_id e' \<and> ed_entrypoint d = e' \<and> ed_bind_host d = re_bind_host e' \<and> ed_port d = re_port e' \<and>
    ed_mcp_mount d = mcp_mount_allowed ra e' \<and> ed_signature d = listener_signature (sx_entrypoint_json env) e' (ed_mcp_mount d)"
proof -
  have "(i, d) \<in> set (List.map_filter (\<lambda>entrypoint.
      if \<not> (re_enabled entrypoint \<and> re_port entrypoint \<noteq> 0) then None
      else map_option (\<lambda>entrypoint.
        let mcp_mount = mcp_mount_allowed ra entrypoint in
        (re_id entrypoint,
         \<lparr>ed_bind_host = re_bind_host entrypoint, ed_port = re_port entrypoint,
          ed_signature = sx_entrypoint_json env entrypoint @ [CHR 0x0A] @ ''mcp='' @ (if mcp_mount then ''true'' else ''false''),
          ed_entrypoint = entrypoint, ed_mcp_mount = mcp_mount\<rparr>))
        (runtime_checked_entrypoint entrypoint)) (ra_entrypoints ra))"
    using set_updates assms unfolding desired_entrypoints_def hash_map_def by fastforce
  from map_filter_in [OF this] show ?thesis
    by (auto simp: listener_signature_def Let_def split: if_splits)
qed

lemma desired_listener_ok:
  assumes "(i, d) \<in> set (desired_entrypoints env ra)" and "bind_entrypoint env d = Some b"
  shows "listener_ok (sx_entrypoint_json env) (i, b) \<and> \<not> entrypoint_differs d b \<and> \<not> sv_finished (be_server b)"
  using desired_in [OF assms(1)] assms(2)
  by (auto simp: bind_entrypoint_def bind_entrypoint_with_extra_hosts_def listener_ok_def entrypoint_differs_def split: if_splits)

lemma reconciled_listener:
  assumes "distinct (map fst (su_entrypoints s))"
    and "(i, b) \<in> set (su_entrypoints (reconcile_entrypoints env ra s))"
  shows "(\<exists>d. map_of (desired_entrypoints env ra) i = Some d \<and> \<not> entrypoint_differs d b \<and> \<not> sv_finished (be_server b)) \<and>
    ((i, b) \<in> set (su_entrypoints s) \<or> listener_ok (sx_entrypoint_json env) (i, b))"
proof -
  have dd: "distinct (map fst (desired_entrypoints env ra))"
    unfolding desired_entrypoints_def hash_map_def by (rule distinct_updates) simp
  from assms(2) have "(i, b) \<in> set (insert_started (bind_missing env (missing_listeners (desired_entrypoints env ra) s))
      (kept_listeners (desired_entrypoints env ra) s))" by (simp add: reconcile_entrypoints_def Let_def)
  from set_updates [OF this [unfolded insert_started_def]] show ?thesis
  proof
    assume "(i, b) \<in> set (bind_missing env (missing_listeners (desired_entrypoints env ra) s))"
    from map_filter_in [OF this [unfolded bind_missing_def]] obtain d where
      d: "(i, d) \<in> set (desired_entrypoints env ra)" "bind_entrypoint env d = Some b"
      by (auto simp: missing_listeners_def)
    with desired_listener_ok [OF d] dd show ?thesis by (metis map_of_is_SomeI)
  next
    assume "(i, b) \<in> set (kept_listeners (desired_entrypoints env ra) s)"
    then have k: "(i, b) \<in> set (su_entrypoints s)" "stays (desired_entrypoints env ra) i b" "i \<notin> set (dead_listeners s)"
      by (auto simp: kept_listeners_def)
    then have "\<not> sv_finished (be_server b)" by (force simp: dead_listeners_def)
    with k show ?thesis by (auto simp: stays_def split: option.splits)
  qed
qed

lemma reconcile_listeners_ok:
  assumes "supervisor_ok (sx_entrypoint_json env) s"
  shows "supervisor_ok (sx_entrypoint_json env) (reconcile_entrypoints env ra s)"
proof -
  have "distinct (map fst (su_entrypoints (reconcile_entrypoints env ra s)))"
    using assms unfolding reconcile_entrypoints_def Let_def insert_started_def supervisor_ok_def
    by (simp add: distinct_updates kept_listeners_def distinct_filter_keys)
  moreover have "listener_ok (sx_entrypoint_json env) e" if "e \<in> set (su_entrypoints (reconcile_entrypoints env ra s))" for e
    using reconciled_listener [of s "fst e" "snd e" env ra] that assms by (auto simp: supervisor_ok_def)
  ultimately show ?thesis using assms by (simp add: supervisor_ok_def reconcile_entrypoints_def Let_def)
qed

section \<open>Logs\<close>

lemma back_to_boundary_limit: "back_to_boundary s n \<le> n"
  by (induction s n rule: back_to_boundary.induct) auto

lemma sanitized_length: "length (sanitize_log_line line) \<le> tunnel_log_line_limit"
proof -
  have "length (truncate_log_line s) \<le> tunnel_log_line_limit" for s
    using back_to_boundary_limit [of s "tunnel_log_line_limit - 14"]
    by (auto simp: truncate_log_line_def tunnel_log_line_limit_def)
  then show ?thesis by (simp add: sanitize_log_line_def)
qed

definition logs_ok :: "string list \<Rightarrow> bool" where
  "logs_ok logs \<longleftrightarrow> length logs \<le> tunnel_log_limit \<and> (\<forall>line \<in> set logs. length line \<le> tunnel_log_line_limit)"

lemma logs_ok_Nil [simp]: "logs_ok []"
  by (simp add: logs_ok_def)

lemma push_log_ok [simp]: "logs_ok logs \<Longrightarrow> logs_ok (push_log line logs)"
  using sanitized_length [of line] by (cases logs) (auto simp: push_log_def logs_ok_def tunnel_log_limit_def)

lemma scan_tunnel_url_ok: "logs_ok logs \<Longrightarrow> logs_ok (snd (scan_tunnel_url lines logs))"
  by (induction lines logs rule: scan_tunnel_url.induct) (auto simp: Let_def split: option.splits)

section \<open>Tunnels\<close>

lemma spawn_remote_command_logs: "logs_ok logs \<Longrightarrow> logs_ok (snd (spawn_remote_command env command port cli logs))"
  by (auto simp: spawn_remote_command_def Let_def split: option.splits sum.splits)

lemma spawn_remote_quick_logs: "logs_ok logs \<Longrightarrow> logs_ok (snd (spawn_remote_quick env cli port logs))"
  using scan_tunnel_url_ok [of "push_log ''starting cloudflared quick tunnel'' logs"]
  by (auto simp: spawn_remote_quick_def Let_def split: option.splits sum.splits prod.splits) (metis push_log_ok snd_conv)

lemma tunnel_ok_iff: "tunnel_ok (i, rt) \<longleftrightarrow> (\<forall>sv. bt_server rt = Some sv \<longrightarrow> \<not> sv_mcp_mount sv) \<and> logs_ok (bt_logs rt)"
  by (simp add: tunnel_ok_def logs_ok_def)

lemma started_tunnel:
  "tunnel_ok (i, bound_tunnel_start env cli err d) \<and> bt_desired (bound_tunnel_start env cli err d) = d"
proof (cases "td_mode d")
  case Remote_Command
  have "logs_ok (snd (spawn_remote_command env (td_command d) (td_target_port d) cli []))"
    by (rule spawn_remote_command_logs) simp
  with Remote_Command show ?thesis
    by (auto simp: bound_tunnel_start_def tunnel_ok_iff failed_tunnel_def running_tunnel_def Let_def
      split: prod.splits sum.splits option.splits)
next
  case Remote_Quick
  have "logs_ok (snd (spawn_remote_quick env c (td_target_port d) []))" for c
    by (rule spawn_remote_quick_logs) simp
  then have "logs_ok logs" if "spawn_remote_quick env c (td_target_port d) [] = (x, logs)" for c x logs
    using that by (metis snd_conv)
  with Remote_Quick show ?thesis
    by (auto simp: bound_tunnel_start_def tunnel_ok_iff failed_tunnel_def running_tunnel_def Let_def
      split: prod.splits sum.splits option.splits)
next
  case Remote_Listener
  then show ?thesis by (simp add: bound_tunnel_start_def tunnel_ok_iff running_tunnel_def)
next
  case Remote_Lan
  then show ?thesis
    by (auto simp: bound_tunnel_start_def tunnel_ok_iff running_tunnel_def failed_tunnel_def
      bind_entrypoint_with_extra_hosts_def Let_def split: option.splits if_splits)
qed

lemma reconciled_tunnel:
  assumes "(i, rt) \<in> set (su_tunnels (reconcile_tunnels env ra cli err s))"
  shows "(i, bt_desired rt) \<in> set (desired_tunnels env ra s) \<and> ((i, rt) \<in> set (su_tunnels s) \<or> tunnel_ok (i, rt))"
proof -
  from set_updates [of "(i, rt)"] assms show ?thesis
    unfolding reconcile_tunnels_def Let_def insert_started_def
    by (auto simp: started_tunnel dest: map_of_SomeD dest!: set_updates)
qed

lemma reconcile_tunnels_ok:
  assumes "supervisor_ok json s"
  shows "supervisor_ok json (reconcile_tunnels env ra cli err s)"
proof -
  have "distinct (map fst (su_tunnels (reconcile_tunnels env ra cli err s)))"
    using assms unfolding reconcile_tunnels_def Let_def insert_started_def supervisor_ok_def
    by (simp add: distinct_updates distinct_filter_keys)
  moreover have "tunnel_ok t" if "t \<in> set (su_tunnels (reconcile_tunnels env ra cli err s))" for t
    using reconciled_tunnel [of "fst t" "snd t" env ra cli err s] that assms by (auto simp: supervisor_ok_def)
  ultimately show ?thesis using assms by (simp add: supervisor_ok_def reconcile_tunnels_def Let_def)
qed

section \<open>Runs of the supervisor\<close>

text \<open>
  The operations and what listeners and tunnels do by themselves: a server task ends, a process exits, a
  quick tunnel writes a line. The JSON text of a configuration is one function throughout.
\<close>

datatype supervisor_op =
  Sup_Reconcile supervisor_env remote_access_config "resolved_cli option app_result"
| Sup_Shutdown
| Listener_Ends string
| Tunnel_Server_Ends string
| Process_Exits string "string + string"
| Process_Writes string string

definition end_server :: "remote_server \<Rightarrow> remote_server" where
  "end_server sv = sv\<lparr>sv_finished := True\<rparr>"

fun supervisor_step :: "(remote_entrypoint \<Rightarrow> string) \<Rightarrow> supervisor_op \<Rightarrow> supervisor \<Rightarrow> supervisor" where
  "supervisor_step json (Sup_Reconcile env ra cli) s = remote_reconcile (env\<lparr>sx_entrypoint_json := json\<rparr>) ra cli s"
| "supervisor_step json Sup_Shutdown s = remote_shutdown s"
| "supervisor_step json (Listener_Ends i) s =
     s\<lparr>su_entrypoints := AList.map_entry i (\<lambda>b. b\<lparr>be_server := end_server (be_server b)\<rparr>) (su_entrypoints s)\<rparr>"
| "supervisor_step json (Tunnel_Server_Ends i) s =
     s\<lparr>su_tunnels := AList.map_entry i (\<lambda>t. t\<lparr>bt_server := map_option end_server (bt_server t)\<rparr>) (su_tunnels s)\<rparr>"
| "supervisor_step json (Process_Exits i exit) s =
     s\<lparr>su_tunnels := AList.map_entry i (tunnel_process_exits exit) (su_tunnels s)\<rparr>"
| "supervisor_step json (Process_Writes i line) s =
     s\<lparr>su_tunnels := AList.map_entry i (quick_tunnel_writes line) (su_tunnels s)\<rparr>"

lemma map_entry_all:
  "\<forall>e \<in> set m. P e \<Longrightarrow> (\<And>v. P (i, v) \<Longrightarrow> P (i, f v)) \<Longrightarrow> \<forall>e \<in> set (AList.map_entry i f m). P e"
  by (induction m) auto

lemma map_entry_keys: "map fst (AList.map_entry i f m) = map fst m"
  by (induction m) auto

lemma remote_reconcile_ok:
  assumes "supervisor_ok json s"
  shows "supervisor_ok json (remote_reconcile (env\<lparr>sx_entrypoint_json := json\<rparr>) ra cli s)"
proof -
  have "supervisor_ok json (reconcile_entrypoints (env\<lparr>sx_entrypoint_json := json\<rparr>) ra s)"
    using reconcile_listeners_ok [of "env\<lparr>sx_entrypoint_json := json\<rparr>" s ra] assms by simp
  then show ?thesis by (simp add: remote_reconcile_def split_beta reconcile_tunnels_ok)
qed

lemma process_exits_ok: "tunnel_ok (i, t) \<Longrightarrow> tunnel_ok (i, tunnel_process_exits exit t)"
  by (simp add: tunnel_ok_iff tunnel_process_exits_def Let_def split: option.splits prod.splits bool.splits)

lemma quick_writes_ok: "tunnel_ok (i, t) \<Longrightarrow> tunnel_ok (i, quick_tunnel_writes line t)"
  by (simp add: tunnel_ok_iff quick_tunnel_writes_def)

lemma server_ends_ok: "tunnel_ok (i, t) \<Longrightarrow> tunnel_ok (i, t\<lparr>bt_server := map_option end_server (bt_server t)\<rparr>)"
  by (auto simp: tunnel_ok_iff end_server_def)

lemma listener_ends_ok: "listener_ok json (i, b) \<Longrightarrow> listener_ok json (i, b\<lparr>be_server := end_server (be_server b)\<rparr>)"
  by (simp add: listener_ok_def end_server_def)

lemma supervisor_ok_tunnels:
  assumes "supervisor_ok json s" and "\<And>t. tunnel_ok (i, t) \<Longrightarrow> tunnel_ok (i, f t)"
  shows "supervisor_ok json (s\<lparr>su_tunnels := AList.map_entry i f (su_tunnels s)\<rparr>)"
  using assms map_entry_all [of "su_tunnels s" tunnel_ok i f] by (simp add: supervisor_ok_def map_entry_keys)

lemma supervisor_step_ok:
  assumes ok: "supervisor_ok json s"
  shows "supervisor_ok json (supervisor_step json op s)"
proof (cases op)
  case (Sup_Reconcile env ra cli)
  with ok show ?thesis by (simp add: remote_reconcile_ok)
next
  case Sup_Shutdown
  then show ?thesis by (simp add: remote_shutdown_def supervisor_ok_def)
next
  case (Listener_Ends i)
  with ok map_entry_all [of "su_entrypoints s" "listener_ok json" i "\<lambda>b. b\<lparr>be_server := end_server (be_server b)\<rparr>"] listener_ends_ok
  show ?thesis by (simp add: supervisor_ok_def map_entry_keys)
next
  case (Tunnel_Server_Ends i)
  with ok show ?thesis by (simp add: supervisor_ok_tunnels server_ends_ok)
next
  case (Process_Exits i exit)
  with ok show ?thesis by (simp add: supervisor_ok_tunnels process_exits_ok)
next
  case (Process_Writes i line)
  with ok show ?thesis by (simp add: supervisor_ok_tunnels quick_writes_ok)
qed

definition idle_supervisor :: supervisor where
  "idle_supervisor = \<lparr>su_entrypoints = [], su_tunnels = []\<rparr>"

lemma supervisor_run_ok: "supervisor_ok json (fold (supervisor_step json) ops idle_supervisor)"
proof -
  have "supervisor_ok json s \<Longrightarrow> supervisor_ok json (fold (supervisor_step json) ops s)" for s
  proof (induction ops arbitrary: s)
    case (Cons op ops)
    from Cons.IH [OF supervisor_step_ok [OF Cons.prems]] show ?case by simp
  qed simp
  moreover have "supervisor_ok json idle_supervisor" by (simp add: idle_supervisor_def supervisor_ok_def)
  ultimately show ?thesis by blast
qed

section \<open>What holds after a reconciliation\<close>

lemma remote_reconcile_parts:
  "\<exists>cli' err. remote_reconcile env ra cli s = reconcile_tunnels env ra cli' err (reconcile_entrypoints env ra s)"
  by (auto simp: remote_reconcile_def split_beta)

lemma reconcile_tunnels_keeps [simp]: "su_entrypoints (reconcile_tunnels env ra cli err s) = su_entrypoints s"
  by (simp add: reconcile_tunnels_def Let_def)

lemma desired_tunnel_in:
  assumes "(i, d) \<in> set (desired_tunnels env ra s)"
  shows "\<exists>tunnel \<in> set (ra_tunnels ra). rtn_enabled tunnel \<and> rtn_id tunnel = i \<and> td_mode d = rtn_mode tunnel \<and>
    td_target_entrypoint_id d = rtn_target_entrypoint_id tunnel \<and>
    (\<exists>b. (td_target_entrypoint_id d, b) \<in> set (su_entrypoints s) \<and> \<not> sv_finished (be_server b) \<and>
      be_bind_host b = td_target_bind_host d \<and> be_port b = td_target_port d)"
proof -
  have "(i, d) \<in> set (List.map_filter (desired_tunnel env ra (live_ports s)) (filter rtn_enabled (ra_tunnels ra)))"
    using assms set_updates unfolding desired_tunnels_def hash_map_def by fastforce
  from map_filter_in [OF this] show ?thesis
    by (force simp: desired_tunnel_def live_ports_def split: option.splits dest: map_of_SomeD)
qed

text \<open>A machine on which every port is free, and the default configuration, alone or with a tunnel to it.\<close>

definition free_ports :: supervisor_env where
  "free_ports = \<lparr>sx_bind = \<lambda>_ _ _. None, sx_listener_ok = \<lambda>_ _. True, sx_spawn = \<lambda>_ _. Inr 1, sx_stderr = \<lambda>_. None,
     sx_entrypoint_json = \<lambda>_. [], sx_tunnel_json = \<lambda>_. []\<rparr>"

definition with_tunnel :: remote_access_config where
  "with_tunnel = default_remote_access\<lparr>ra_tunnels := [default_tunnel\<lparr>rtn_id := ''t'', rtn_mode := Remote_Listener,
     rtn_target_entrypoint_id := ''local-api'', rtn_enabled := True\<rparr>]\<rparr>"

definition sample_run :: "remote_access_config \<Rightarrow> supervisor" where
  "sample_run ra = fold (supervisor_step (\<lambda>_. [])) ([] @ [Sup_Reconcile free_ports ra (Inr None)]) idle_supervisor"

lemma sample_entrypoint_checked: "runtime_checked_entrypoint default_local_api = Some default_local_api"
proof -
  have "trim ''/api'' = ''/api''" by (rule graphic_trim) (simp add: graphic_def byte_of_def)
  then have "normalize_route_path ''/api'' = Inr ''/api''"
    by (simp add: normalize_route_path_def trim_end_char_def path_segments_def is_route_path_segment_byte_def
        is_ascii_alphanumeric_def byte_of_def)
  then show ?thesis
    by (simp add: runtime_checked_entrypoint_def default_local_api_def local_api_route_def check_route_def)
qed

lemma sample_listener: "bind_std_with_retry (free_ports\<lparr>sx_entrypoint_json := json\<rparr>) host port"
  by (simp add: bind_std_with_retry_def free_ports_def remote_bind_retries_def upt_rec)

lemma sample_listener_ok: "sx_listener_ok (free_ports\<lparr>sx_entrypoint_json := json\<rparr>) host port"
  by (simp add: free_ports_def)

lemma sample_port: "sx_listener_ok free_ports host port"
  by (simp add: free_ports_def)

lemma loopback_127: "case parse_ip ''127.0.0.1'' of Some ip \<Rightarrow> is_loopback ip | None \<Rightarrow> False"
proof -
  have "read_ipv4 ''127.0.0.1'' = Some ([127, 0, 0, 1], [])"
    by (simp add: read_ipv4_def numeral_eq_Suc read_separated_def read_octet_def read_number_def read_char_def
        is_ascii_digit_def byte_of_def hex_digit_def)
  then show ?thesis by (simp add: parse_ip_def from_digits_def)
qed

lemma default_local_api_fields:
  "re_id default_local_api = ''local-api''" "re_bind_host default_local_api = ''127.0.0.1''" "re_port default_local_api = 8788"
  "re_enabled default_local_api" "re_routes default_local_api = [local_api_route]"
  by (simp_all add: default_local_api_def)

lemmas sample_run_simps = sample_run_def remote_reconcile_def reconcile_tunnels_def reconcile_entrypoints_def desired_tunnels_def
  desired_entrypoints_def desired_tunnel_def hash_map_def sample_entrypoint_checked List.map_filter_simps Let_def
  missing_listeners_def kept_listeners_def dead_listeners_def bind_missing_def bind_entrypoint_def
  bind_entrypoint_with_extra_hosts_def sample_listener sample_listener_ok insert_started_def sample_port live_ports_def idle_supervisor_def
  bound_tunnel_start_def running_tunnel_def

lemma sample_run_listener:
  "ra_entrypoints ra = [default_local_api] \<Longrightarrow> \<exists>b. su_entrypoints (sample_run ra) = [(''local-api'', b)] \<and> be_port b = 8788 \<and>
     be_bind_host b = ''127.0.0.1'' \<and> sv_mcp_mount (be_server b) = mcp_mount_allowed ra default_local_api"
  by (simp add: sample_run_simps default_local_api_fields)

lemma sample_run_tunnel:
  "\<exists>rt. su_tunnels (sample_run with_tunnel) = [(''t'', rt)] \<and> td_target_port (bt_desired rt) = 8788"
  by (simp add: sample_run_simps default_local_api_fields with_tunnel_def default_remote_access_def default_tunnel_def)

lemma sample_mounts: "mcp_mount_allowed default_remote_access default_local_api"
  using loopback_127
  by (simp add: mcp_mount_allowed_def default_remote_access_def default_local_api_fields local_api_route_def)

text \<open>
  C11. After any run that ends with a reconciliation, nothing listens that is not wanted: every listener is
  alive and serves, under the id, address and port of the configuration, an entrypoint with the JSON text
  of the wanted one; and every tunnel belongs to an enabled tunnel of the configuration and leads to a
  listener that is alive.
\<close>

theorem reconciled_matches_configuration:
  defines "s \<equiv> \<lambda>json ops env ra cli. fold (supervisor_step json) (ops @ [Sup_Reconcile env ra cli]) idle_supervisor"
  shows "(\<forall>(i, b) \<in> set (su_entrypoints (s json ops env ra cli)).
      \<exists>d. map_of (desired_entrypoints (env\<lparr>sx_entrypoint_json := json\<rparr>) ra) i = Some d \<and> be_bind_host b = ed_bind_host d \<and>
        be_port b = ed_port d \<and> \<not> sv_finished (be_server b) \<and>
        listener_signature json (sv_entrypoint (be_server b)) (sv_mcp_mount (be_server b)) = ed_signature d) \<and>
    (\<forall>(i, rt) \<in> set (su_tunnels (s json ops env ra cli)).
      (\<exists>tunnel \<in> set (ra_tunnels ra). rtn_enabled tunnel \<and> rtn_id tunnel = i \<and> td_mode (bt_desired rt) = rtn_mode tunnel) \<and>
      (\<exists>b. (td_target_entrypoint_id (bt_desired rt), b) \<in> set (su_entrypoints (s json ops env ra cli)) \<and>
        \<not> sv_finished (be_server b) \<and> be_port b = td_target_port (bt_desired rt)))"
proof -
  let ?env = "env\<lparr>sx_entrypoint_json := json\<rparr>"
  let ?s0 = "fold (supervisor_step json) ops idle_supervisor"
  have ok: "supervisor_ok json ?s0" by (rule supervisor_run_ok)
  have ok1: "supervisor_ok json (reconcile_entrypoints ?env ra ?s0)" using reconcile_listeners_ok [of ?env ?s0 ra] ok by simp
  obtain cli' err where s: "s json ops env ra cli = reconcile_tunnels ?env ra cli' err (reconcile_entrypoints ?env ra ?s0)"
    using remote_reconcile_parts [of ?env ra cli ?s0] by (auto simp: s_def)
  have "\<exists>d. map_of (desired_entrypoints ?env ra) i = Some d \<and> be_bind_host b = ed_bind_host d \<and> be_port b = ed_port d \<and>
      \<not> sv_finished (be_server b) \<and>
      listener_signature json (sv_entrypoint (be_server b)) (sv_mcp_mount (be_server b)) = ed_signature d"
    if "(i, b) \<in> set (su_entrypoints (reconcile_entrypoints ?env ra ?s0))" for i b
    using reconciled_listener [OF _ that] ok ok1 that
    by (force simp: supervisor_ok_def entrypoint_differs_def listener_ok_def)
  moreover have "(\<exists>tunnel \<in> set (ra_tunnels ra). rtn_enabled tunnel \<and> rtn_id tunnel = i \<and> td_mode (bt_desired rt) = rtn_mode tunnel) \<and>
      (\<exists>b. (td_target_entrypoint_id (bt_desired rt), b) \<in> set (su_entrypoints (reconcile_entrypoints ?env ra ?s0)) \<and>
        \<not> sv_finished (be_server b) \<and> be_port b = td_target_port (bt_desired rt))"
    if "(i, rt) \<in> set (su_tunnels (s json ops env ra cli))" for i rt
    using reconciled_tunnel [OF that [unfolded s]] desired_tunnel_in [of i "bt_desired rt" ?env ra] by blast
  ultimately show ?thesis unfolding s reconcile_tunnels_keeps by (auto simp: s)
qed

theorem reconciled_matches_configuration_witness:
  "\<exists>b rt. su_entrypoints (sample_run with_tunnel) = [(''local-api'', b)] \<and> su_tunnels (sample_run with_tunnel) = [(''t'', rt)] \<and>
     \<not> sv_finished (be_server b) \<and> be_port b = 8788 \<and> td_mode (bt_desired rt) = Remote_Listener"
proof -
  obtain b where b: "su_entrypoints (sample_run with_tunnel) = [(''local-api'', b)]" "be_port b = 8788"
    using sample_run_listener [of with_tunnel] by (auto simp: with_tunnel_def default_remote_access_def)
  obtain rt where rt: "su_tunnels (sample_run with_tunnel) = [(''t'', rt)]" using sample_run_tunnel by blast
  from reconciled_matches_configuration [of "\<lambda>_. []" "[]" free_ports with_tunnel "Inr None", folded sample_run_def] b rt
  show ?thesis by (simp add: with_tunnel_def default_tunnel_def)
qed

text \<open>
  The MCP routes are never exposed: after any run that ends with a reconciliation, a server that mounts
  them is a listener bound to a loopback address that no enabled tunnel of the configuration targets, and no
  LAN tunnel mounts them.
\<close>

theorem mcp_never_exposed:
  defines "s \<equiv> \<lambda>json ops env ra cli. fold (supervisor_step json) (ops @ [Sup_Reconcile env ra cli]) idle_supervisor"
  shows "(\<forall>(i, b) \<in> set (su_entrypoints (s json ops env ra cli)). sv_mcp_mount (be_server b) \<longrightarrow>
      (\<exists>ip. parse_ip (be_bind_host b) = Some ip \<and> is_loopback ip) \<and>
      \<not> (\<exists>tunnel \<in> set (ra_tunnels ra). rtn_enabled tunnel \<and> rtn_target_entrypoint_id tunnel = i)) \<and>
    (\<forall>(i, rt) \<in> set (su_tunnels (s json ops env ra cli)). \<forall>sv. bt_server rt = Some sv \<longrightarrow> \<not> sv_mcp_mount sv)"
proof -
  let ?env = "env\<lparr>sx_entrypoint_json := json\<rparr>"
  let ?s0 = "fold (supervisor_step json) ops idle_supervisor"
  have ok: "supervisor_ok json ?s0" by (rule supervisor_run_ok)
  have ok1: "supervisor_ok json (reconcile_entrypoints ?env ra ?s0)" using reconcile_listeners_ok [of ?env ?s0 ra] ok by simp
  obtain cli' err where s: "s json ops env ra cli = reconcile_tunnels ?env ra cli' err (reconcile_entrypoints ?env ra ?s0)"
    using remote_reconcile_parts [of ?env ra cli ?s0] by (auto simp: s_def)
  have okr: "supervisor_ok json (s json ops env ra cli)" unfolding s using ok1 by (rule reconcile_tunnels_ok)
  have "(\<exists>ip. parse_ip (be_bind_host b) = Some ip \<and> is_loopback ip) \<and>
      \<not> (\<exists>tunnel \<in> set (ra_tunnels ra). rtn_enabled tunnel \<and> rtn_target_entrypoint_id tunnel = i)"
    if m: "(i, b) \<in> set (su_entrypoints (s json ops env ra cli))" "sv_mcp_mount (be_server b)" for i b
  proof -
    have m': "(i, b) \<in> set (su_entrypoints (reconcile_entrypoints ?env ra ?s0))" using m(1) by (simp add: s)
    obtain d where d: "map_of (desired_entrypoints ?env ra) i = Some d" "\<not> entrypoint_differs d b"
      using reconciled_listener [OF _ m'] ok by (auto simp: supervisor_ok_def)
    have l: "listener_ok json (i, b)" using ok1 m' by (auto simp: supervisor_ok_def)
    from desired_in [OF map_of_SomeD [OF d(1)]] obtain e' where e: "i = re_id e'" "ed_bind_host d = re_bind_host e'"
      "ed_mcp_mount d = mcp_mount_allowed ra e'" "ed_signature d = listener_signature json e' (ed_mcp_mount d)" by auto
    have "listener_signature json (sv_entrypoint (be_server b)) (sv_mcp_mount (be_server b)) = listener_signature json e' (ed_mcp_mount d)"
      using l d(2) e(4) by (simp add: listener_ok_def entrypoint_differs_def)
    from listener_signature_mcp [OF this] m(2) e(3) have "mcp_mount_allowed ra e'" by simp
    then show ?thesis using e(1,2) d(2)
      by (auto simp: mcp_mount_allowed_def entrypoint_differs_def list_ex_iff split: option.splits)
  qed
  moreover have "\<forall>(i, rt) \<in> set (su_tunnels (s json ops env ra cli)). \<forall>sv. bt_server rt = Some sv \<longrightarrow> \<not> sv_mcp_mount sv"
    using okr by (auto simp: supervisor_ok_def tunnel_ok_iff)
  ultimately show ?thesis by auto
qed

theorem mcp_never_exposed_witness:
  "\<exists>b. su_entrypoints (sample_run default_remote_access) = [(''local-api'', b)] \<and> sv_mcp_mount (be_server b) \<and>
     (\<exists>ip. parse_ip (be_bind_host b) = Some ip \<and> is_loopback ip)"
proof -
  obtain b where b: "su_entrypoints (sample_run default_remote_access) = [(''local-api'', b)]" "sv_mcp_mount (be_server b)"
    using sample_run_listener [of default_remote_access] sample_mounts by (auto simp: default_remote_access_def)
  from mcp_never_exposed [of "\<lambda>_. []" "[]" free_ports default_remote_access "Inr None", folded sample_run_def] b
  show ?thesis by simp
qed

text \<open>
  The logs of tunnels are bounded: after any run of the supervisor every tunnel keeps at most 200 lines of
  at most 4096 bytes.
\<close>

theorem tunnel_logs_bounded:
  shows "\<forall>(i, rt) \<in> set (su_tunnels (fold (supervisor_step json) ops idle_supervisor)).
    length (bt_logs rt) \<le> 200 \<and> (\<forall>line \<in> set (bt_logs rt). length line \<le> 4096)"
  using supervisor_run_ok [of json ops]
  by (auto simp: supervisor_ok_def tunnel_ok_def tunnel_log_limit_def tunnel_log_line_limit_def)

section \<open>Redaction\<close>

lemma find_sub_first:
  assumes "c \<notin> set a" and "c \<notin> set p"
  shows "find_sub (p @ [c]) (a @ p @ c # rest) = Some (length a)"
  using assms
proof (induction a)
  case Nil
  then show ?case by (cases p) (simp_all add: prefix_def)
next
  case (Cons x a)
  have "\<not> prefix (p @ [c]) ((x # a @ p) @ c # rest)"
  proof
    assume "prefix (p @ [c]) ((x # a @ p) @ c # rest)"
    then obtain r where r: "(x # a @ p) @ c # rest = p @ c # r" by (auto simp: prefix_def)
    have "((x # a @ p) @ c # rest) ! length p = c" unfolding r by simp
    moreover have "((x # a @ p) @ c # rest) ! length p = (x # a @ p) ! length p" by (simp add: nth_append del: append_Cons)
    moreover have "(x # a @ p) ! length p \<in> set (x # a @ p)" by (rule nth_mem) simp
    ultimately show False using Cons.prems by auto
  qed
  with Cons show ?case by simp
qed

lemma lower_append: "ascii_lower (a @ b) = ascii_lower a @ ascii_lower b"
  by (simp add: ascii_lower_def)

lemma colon_lower: "CHR '':'' \<notin> set s \<Longrightarrow> CHR '':'' \<notin> set (ascii_lower s)"
proof -
  have "CHR '':'' \<noteq> char_of (byte_of c + 32)" if "65 \<le> byte_of c" "byte_of c \<le> 90" for c
  proof
    assume "CHR '':'' = char_of (byte_of c + 32)"
    then have "byte_of CHR '':'' = byte_of (char_of (byte_of c + 32))" by (rule arg_cong)
    with that show False by (simp add: byte_of_def)
  qed
  then show "CHR '':'' \<notin> set s \<Longrightarrow> CHR '':'' \<notin> set (ascii_lower s)"
    by (induction s) (auto simp: ascii_lower_def)
qed

text \<open>
  The redaction of a log line stops at the marker that is first in the list, not first in the line: a
  secret that stands before the word authorization is kept.
\<close>

theorem redaction_keeps_earlier_secret:
  assumes "CHR '':'' \<notin> set s" and "length s \<le> 4000"
  shows "sanitize_log_line (''secret='' @ s @ '' authorization:'' @ t) = ''secret='' @ s @ '' authorization:[redacted]''"
proof -
  let ?line = "''secret='' @ s @ '' authorization:'' @ t"
  have "ascii_lower ?line = (''secret='' @ ascii_lower s @ '' '') @ ''authorization'' @ CHR '':'' # ascii_lower t"
    unfolding lower_append by (simp add: ascii_lower_def Prelude.ascii_lower_def byte_of_def)
  moreover have "find_sub (''authorization'' @ [CHR '':'']) ((''secret='' @ ascii_lower s @ '' '') @ ''authorization'' @ CHR '':'' # ascii_lower t)
      = Some (length (''secret='' @ ascii_lower s @ '' ''))"
    by (rule find_sub_first) (use colon_lower [OF assms(1)] in simp_all)
  ultimately have "find_sub ''authorization:'' (ascii_lower ?line) = Some (8 + length s)" by (simp add: ascii_lower_def)
  then have "redact secret_markers ?line = take (22 + length s) ?line @ ''[redacted]''" by (simp add: secret_markers_def)
  also have "take (22 + length s) ?line = ''secret='' @ s @ '' authorization:''"
  proof -
    let ?u = "''secret='' @ s @ '' authorization:''"
    have "?line = ?u @ t" and "length ?u = 22 + length s" by simp_all
    then show ?thesis by (metis append_eq_conv_conj)
  qed
  finally have "redact secret_markers ?line = ''secret='' @ s @ '' authorization:[redacted]''" by simp
  with assms(2) show ?thesis by (simp add: sanitize_log_line_def truncate_log_line_def tunnel_log_line_limit_def)
qed

theorem redaction_keeps_earlier_secret_witness:
  "sanitize_log_line ''secret=hunter2 authorization: Bearer x'' = ''secret=hunter2 authorization:[redacted]''"
  using redaction_keeps_earlier_secret [of "''hunter2''" "'' Bearer x''"] by simp

end
