(* ===== verification/Validation_Properties.thy ===== *)
theory Validation_Properties
  imports Supervisor_Properties Remote_Supervisor
begin

text \<open>
  The validation of the configuration keeps what it promises to remote access: in a configuration that was
  accepted, the supervisor wants every enabled entrypoint, on a port of its own. And the gate of remote access: an address
  rule is a network, and only an allowed source is admitted.
\<close>

text \<open>
  The gate of remote access: a CIDR rule is a comparison of leading bits, only requests from an allowed source
  pass, whatever forwarding headers an untrusted peer sends, and every refusal leaves exactly one audit row.
\<close>

unbundle bit_operations_syntax

section \<open>Prefixes\<close>

lemma bit_prefix_mask: "n \<le> LENGTH('w) \<Longrightarrow> bit (prefix_mask n :: 'w::len word) i \<longleftrightarrow> LENGTH('w) - n \<le> i \<and> i < LENGTH('w)"
  by (cases "n = 0") (auto simp: prefix_mask_def bit_simps not_less possible_bit_def)

lemma masked_eq_iff:
  fixes a b :: "'w::len word"
  assumes "n \<le> LENGTH('w)"
  shows "a AND prefix_mask n = b AND prefix_mask n \<longleftrightarrow> drop_bit (LENGTH('w) - n) a = drop_bit (LENGTH('w) - n) b"
proof
  let ?k = "LENGTH('w) - n"
  assume m: "a AND prefix_mask n = b AND prefix_mask n"
  show "drop_bit ?k a = drop_bit ?k b"
  proof (rule bit_eqI)
    fix i
    have "bit (a AND prefix_mask n) (?k + i) = bit (b AND prefix_mask n) (?k + i)" by (simp only: m)
    then show "bit (drop_bit ?k a) i = bit (drop_bit ?k b) i"
      unfolding bit_drop_bit_eq bit_and_iff comp_def bit_prefix_mask [OF assms]
      by (cases "?k + i < LENGTH('w)") (auto dest: bit_imp_le_length)
  qed
next
  let ?k = "LENGTH('w) - n"
  assume d: "drop_bit ?k a = drop_bit ?k b"
  show "a AND prefix_mask n = b AND prefix_mask n"
  proof (rule bit_eqI)
    fix i
    have "bit (drop_bit ?k a) (i - ?k) = bit (drop_bit ?k b) (i - ?k)" by (simp only: d)
    then show "bit (a AND prefix_mask n) i = bit (b AND prefix_mask n) i"
      unfolding bit_drop_bit_eq bit_and_iff comp_def bit_prefix_mask [OF assms]
      by (cases "?k \<le> i") simp_all
  qed
qed

text \<open>The network a rule names: an address alone is the network of itself.\<close>

fun in_network :: "ip_addr \<Rightarrow> ip_addr \<Rightarrow> nat \<Rightarrow> bool" where
  "in_network (V4 ip) (V4 base) n \<longleftrightarrow> n \<le> 32 \<and> drop_bit (32 - n) ip = drop_bit (32 - n) base"
| "in_network (V6 ip) (V6 base) n \<longleftrightarrow> n \<le> 128 \<and> drop_bit (128 - n) ip = drop_bit (128 - n) base"
| "in_network _ _ _ \<longleftrightarrow> False"

definition rule_network :: "string \<Rightarrow> (ip_addr \<times> nat) option" where
  "rule_network raw =
     (let rule = trim raw in
      case parse_ip rule of
        Some (V4 w) \<Rightarrow> Some (V4 w, 32)
      | Some (V6 w) \<Rightarrow> Some (V6 w, 128)
      | None \<Rightarrow>
          (case split_once CHR ''/'' rule of
             None \<Rightarrow> None
           | Some (base, bits) \<Rightarrow>
               (case (parse_ip base, parse_unsigned 255 bits) of (Some b, Some n) \<Rightarrow> Some (b, n) | _ \<Rightarrow> None)))"

text \<open>
  C37. Matching an address against a rule is membership of the network the rule names: the address and the
  base are of one family and agree on the leading bits, all of them when the rule is an address; a rule
  that names no network matches nothing.
\<close>

theorem ip_rule_is_network:
  "ip_matches_rule ip rule = (case rule_network rule of None \<Rightarrow> False | Some (base, n) \<Rightarrow> in_network ip base n)"
proof -
  have v4: "n \<le> 32 \<and> a AND prefix_mask n = b AND prefix_mask n \<longleftrightarrow> n \<le> 32 \<and> drop_bit (32 - n) a = drop_bit (32 - n) b"
    for a b :: "32 word" and n using masked_eq_iff [of n a b] by auto
  have v6: "n \<le> 128 \<and> a AND prefix_mask n = b AND prefix_mask n \<longleftrightarrow> n \<le> 128 \<and> drop_bit (128 - n) a = drop_bit (128 - n) b"
    for a b :: "128 word" and n using masked_eq_iff [of n a b] by auto
  show ?thesis
  proof (cases "parse_ip (trim rule)")
    case None
    then show ?thesis
      by (cases ip) (simp_all add: ip_matches_rule_def rule_network_def Let_def v4 v6 split: option.splits ip_addr.splits)
  next
    case (Some exact)
    then show ?thesis by (cases ip; cases exact) (auto simp: ip_matches_rule_def rule_network_def Let_def)
  qed
qed

section \<open>The gate\<close>

lemma audit_remote_denial_world:
  "\<exists>audit. w_db (audit_remote_denial e rq ip gate w) = (w_db w)\<lparr>db_remote_audit := audit\<rparr> \<and>
     (tb_seq (db_remote_audit (w_db w)) < i64_max \<longrightarrow>
       (\<exists>r. tb_rows audit = tb_rows (db_remote_audit (w_db w)) @ [r] \<and> au_entrypoint_id r = re_id e \<and> au_gate r = gate \<and>
         au_decision r = ''deny'' \<and> au_peer_ip r = ip_text (gr_peer rq) \<and> au_effective_ip r = ip_text ip))"
proof (cases "tb_seq (db_remote_audit (w_db w)) < i64_max")
  case True
  then show ?thesis
    by (auto simp: audit_remote_denial_def tbl_next_def now_epoch_def table_simps Let_def split: prod.splits
      intro!: exI [of _ "tbl_push _ _ (db_remote_audit (w_db w))"])
next
  case False
  then show ?thesis
    by (auto simp: audit_remote_denial_def tbl_next_def now_epoch_def Let_def split: prod.splits
      intro!: exI [of _ "db_remote_audit (w_db w)"])
qed

lemma effective_peer_untrusted:
  "\<not> trusted_proxy_matches (gr_peer rq) e \<Longrightarrow> effective_peer_identity rq e = \<lparr>pi_effective_ip = gr_peer rq, pi_forwarded = False\<rparr>"
  by (simp add: effective_peer_identity_def)

text \<open>
  The hops a request reports: those of \<open>Forwarded\<close>, or where it names none those of \<open>X-Forwarded-For\<close>,
  in the order of the header, the sender first. Everything a client puts there itself comes first, so the
  address to trust is the last hop that is not a proxy of ours: all hops after it are. Where the hops name
  no such address, the header of a single address decides.
\<close>

definition reported_hops :: "gate_request \<Rightarrow> ip_addr list" where
  "reported_hops rq =
     (let hops = (case header_str ''forwarded'' rq of None \<Rightarrow> [] | Some v \<Rightarrow> parse_forwarded_header v)
      in if hops \<noteq> [] then hops
         else case header_str ''x-forwarded-for'' rq of None \<Rightarrow> []
           | Some v \<Rightarrow> List.map_filter parse_forwarded_ip_value (split_all CHR '','' v))"

definition reported_address :: "string \<Rightarrow> gate_request \<Rightarrow> ip_addr option" where
  "reported_address name rq = Option.bind (header_str name rq) parse_forwarded_ip_value"

definition forwarded_from :: "gate_request \<Rightarrow> remote_entrypoint \<Rightarrow> ip_addr \<Rightarrow> bool" where
  "forwarded_from rq e ip \<longleftrightarrow>
     (\<exists>before after. reported_hops rq = before @ ip # after \<and> \<not> trusted_proxy_matches ip e \<and>
        (\<forall>hop \<in> set after. trusted_proxy_matches hop e)) \<or>
     (\<forall>hop \<in> set (reported_hops rq). trusted_proxy_matches hop e) \<and>
       (reported_address ''x-real-ip'' rq = Some ip \<or>
        reported_address ''x-real-ip'' rq = None \<and> reported_address ''cf-connecting-ip'' rq = Some ip)"

lemma last_untrusted_hop:
  "first_untrusted_forwarded_hop chain e = Some ip \<longleftrightarrow>
     (\<exists>before after. chain = before @ ip # after \<and> \<not> trusted_proxy_matches ip e \<and>
        (\<forall>hop \<in> set after. trusted_proxy_matches hop e))"
proof
  show "first_untrusted_forwarded_hop chain e = Some ip \<Longrightarrow> \<exists>before after. chain = before @ ip # after \<and>
      \<not> trusted_proxy_matches ip e \<and> (\<forall>hop \<in> set after. trusted_proxy_matches hop e)"
  proof (induction chain rule: rev_induct)
    case (snoc x xs)
    show ?case
    proof (cases "trusted_proxy_matches x e")
      case False
      with snoc.prems show ?thesis
        by (intro exI [of _ xs] exI [of _ "[]"]) (simp add: first_untrusted_forwarded_hop_def)
    next
      case True
      with snoc.prems have "first_untrusted_forwarded_hop xs e = Some ip"
        by (simp add: first_untrusted_forwarded_hop_def)
      then obtain before after where "xs = before @ ip # after" "\<not> trusted_proxy_matches ip e"
        "\<forall>hop \<in> set after. trusted_proxy_matches hop e" using snoc.IH by blast
      with True show ?thesis by (intro exI [of _ before] exI [of _ "after @ [x]"]) auto
    qed
  qed (simp add: first_untrusted_forwarded_hop_def)
next
  assume "\<exists>before after. chain = before @ ip # after \<and> \<not> trusted_proxy_matches ip e \<and>
      (\<forall>hop \<in> set after. trusted_proxy_matches hop e)"
  then obtain before after where c: "chain = before @ ip # after" "\<not> trusted_proxy_matches ip e"
    "\<forall>hop \<in> set after. trusted_proxy_matches hop e" by blast
  have "find q (xs @ ip # ys) = Some ip" if "q ip" "\<forall>x \<in> set xs. \<not> q x" for q and xs ys :: "ip_addr list"
    using that by (induction xs) auto
  with c show "first_untrusted_forwarded_hop chain e = Some ip" by (simp add: first_untrusted_forwarded_hop_def)
qed

lemma all_trusted_hops:
  "first_untrusted_forwarded_hop chain e = None \<longleftrightarrow> (\<forall>hop \<in> set chain. trusted_proxy_matches hop e)"
  by (auto simp: first_untrusted_forwarded_hop_def find_None_iff)

lemma reported_hop:
  "Option.bind (or_try (header_ip_chain ''forwarded'' rq) (header_ip_chain ''x-forwarded-for'' rq))
     (\<lambda>chain. first_untrusted_forwarded_hop chain e) = first_untrusted_forwarded_hop (reported_hops rq) e"
  by (auto simp: or_try_def header_ip_chain_def reported_hops_def some_nonempty_def Let_def
      first_untrusted_forwarded_hop_def split: option.splits)

lemma forwarded_peer_iff: "forwarded_peer_ip rq e = Some ip \<longleftrightarrow> forwarded_from rq e ip"
proof -
  have h: "header_ip ''x-real-ip'' rq = reported_address ''x-real-ip'' rq"
      "header_ip ''cf-connecting-ip'' rq = reported_address ''cf-connecting-ip'' rq"
    by (simp_all add: header_ip_def reported_address_def)
  have "forwarded_peer_ip rq e = or_try (or_try (first_untrusted_forwarded_hop (reported_hops rq) e)
      (reported_address ''x-real-ip'' rq)) (reported_address ''cf-connecting-ip'' rq)"
    by (simp only: forwarded_peer_ip_def reported_hop h)
  moreover have "forwarded_from rq e ip \<longleftrightarrow> first_untrusted_forwarded_hop (reported_hops rq) e = Some ip \<or>
      first_untrusted_forwarded_hop (reported_hops rq) e = None \<and>
       (reported_address ''x-real-ip'' rq = Some ip \<or>
        reported_address ''x-real-ip'' rq = None \<and> reported_address ''cf-connecting-ip'' rq = Some ip)"
    unfolding forwarded_from_def last_untrusted_hop all_trusted_hops ..
  ultimately show ?thesis
    by (auto simp: or_try_def split: option.splits)
qed

lemma effective_peer_trusted:
  assumes "trusted_proxy_matches (gr_peer rq) e"
  shows "(\<exists>ip. forwarded_from rq e ip \<and> effective_peer_identity rq e = \<lparr>pi_effective_ip = ip, pi_forwarded = True\<rparr>) \<or>
    (\<forall>ip. \<not> forwarded_from rq e ip) \<and> effective_peer_identity rq e = \<lparr>pi_effective_ip = gr_peer rq, pi_forwarded = False\<rparr>"
proof (cases "forwarded_peer_ip rq e")
  case None
  then have "\<not> forwarded_from rq e ip" for ip by (simp add: forwarded_peer_iff [symmetric])
  with assms None show ?thesis by (simp add: effective_peer_identity_def)
next
  case (Some ip)
  then have "forwarded_from rq e ip" by (simp add: forwarded_peer_iff)
  with assms Some show ?thesis by (simp add: effective_peer_identity_def)
qed

text \<open>
  C10. A request passes the gate only from an allowed source: it changes nothing, it names a host, and the
  policy of the entrypoint allows its address. That is the address of the peer itself, whatever forwarding
  headers it sends, unless the peer is a trusted proxy. Then it is the address the request was forwarded
  from: the last reported hop that is no trusted proxy, whatever the sender put before it, or the single
  reported address where no hop is left; and that of the proxy where nothing is reported. A request for a
  public tunnel host passes only if it was forwarded by a trusted proxy.
\<close>

theorem gate_admits_allowed_sources:
  assumes "remote_access_gate env e extra urls forwarded_urls rq w = (Admitted, w')"
  shows "w' = w \<and> header_str ''host'' rq \<noteq> None \<and>
    (if trusted_proxy_matches (gr_peer rq) e
     then (\<exists>ip. forwarded_from rq e ip \<and> source_allowed ip e) \<or>
       (\<forall>ip. \<not> forwarded_from rq e ip) \<and> source_allowed (gr_peer rq) e \<and> \<not> public_tunnel_request env rq forwarded_urls
     else source_allowed (gr_peer rq) e \<and> \<not> public_tunnel_request env rq forwarded_urls)"
proof -
  from assms have w: "w' = w" and host: "host_allowed env (header_str ''host'' rq) e extra urls"
    and src: "source_request_allowed env rq e forwarded_urls"
    by (auto simp: remote_access_gate_def Let_def split: if_splits)
  have "header_str ''host'' rq \<noteq> None" using host by (auto simp: host_allowed_def split: option.splits)
  moreover have "source_allowed (gr_peer rq) e \<and> \<not> public_tunnel_request env rq forwarded_urls"
    if "\<not> trusted_proxy_matches (gr_peer rq) e"
    using src effective_peer_untrusted [OF that] by (auto simp: source_request_allowed_def Let_def split: if_splits)
  moreover have "(\<exists>ip. forwarded_from rq e ip \<and> source_allowed ip e) \<or>
      (\<forall>ip. \<not> forwarded_from rq e ip) \<and> source_allowed (gr_peer rq) e \<and> \<not> public_tunnel_request env rq forwarded_urls"
    if "trusted_proxy_matches (gr_peer rq) e"
    using src effective_peer_trusted [OF that] by (auto simp: source_request_allowed_def Let_def split: if_splits)
  ultimately show ?thesis using w by simp
qed

definition no_urls :: validation_env where
  "no_urls = \<lparr>vx_parse_url = (\<lambda>u. None), vx_is_mailbox = (\<lambda>m. True), vx_base64_decode = Inr,
     vx_cli_files = \<lparr>cf_is_dir = (\<lambda>p. True), cf_is_executable_file = (\<lambda>p. True)\<rparr>, vx_is_dir = (\<lambda>p. True),
     vx_files = \<lparr>fs_canonicalize = Inr, fs_is_file = (\<lambda>p. True)\<rparr>\<rparr>"

definition local_request :: gate_request where
  "local_request = \<lparr>gr_headers = [(''host'', Some ''localhost''), (''x-forwarded-for'', Some ''10.0.0.1'')], gr_path = ''/api'',
     gr_peer = V4 0x7F000001\<rparr>"

lemma trim_localhost: "trim ''localhost'' = ''localhost''"
  by (rule trim_alnum) (simp_all add: is_ascii_alphanumeric_def byte_of_def)

theorem gate_admits_allowed_sources_witness:
  "remote_access_gate no_urls default_local_api [] [] [] local_request (idle_world empty_db) = (Admitted, idle_world empty_db) \<and>
   source_allowed (gr_peer local_request) default_local_api"
proof -
  have "rsplit_once CHR '':'' ''localhost'' = None" by (simp add: rsplit_once_None_iff)
  then have "remote_access_gate no_urls default_local_api [] [] [] local_request (idle_world empty_db) = (Admitted, idle_world empty_db)"
    by (simp add: remote_access_gate_def host_allowed_def header_str_def local_request_def host_without_port_def trim_localhost
      strip_prefix_def without_port_def host_allowed_str_def eq_ignore_ascii_case_def origin_allowed_def
      source_request_allowed_def effective_peer_identity_def trusted_proxy_matches_def default_local_api_def
      public_tunnel_request_def url_hosts_def List.map_filter_def source_allowed_def default_source_policy_def Let_def)
  with gate_admits_allowed_sources [OF this] show ?thesis
    by (simp add: trusted_proxy_matches_def default_local_api_def)
qed

text \<open>
  Every request is either admitted, with nothing changed, or refused: then nothing changes but the audit
  table, which gets exactly one row (unless it is full) with the entrypoint, the gate that refused, and the
  direct and the effective address.
\<close>

theorem refusals_are_audited:
  defines "r \<equiv> \<lambda>env e extra urls forwarded_urls rq w. remote_access_gate env e extra urls forwarded_urls rq w"
  shows "r env e extra urls forwarded_urls rq w = (Admitted, w) \<or>
    (\<exists>w' audit gate. r env e extra urls forwarded_urls rq w = (Forbidden, w') \<and> w_db w' = (w_db w)\<lparr>db_remote_audit := audit\<rparr> \<and>
      gate \<in> {''host'', ''origin'', ''source''} \<and>
      (i64_max \<le> tb_seq (db_remote_audit (w_db w)) \<or>
        (\<exists>a. tb_rows audit = tb_rows (db_remote_audit (w_db w)) @ [a] \<and> au_entrypoint_id a = re_id e \<and> au_gate a = gate \<and>
          au_decision a = ''deny'' \<and> au_peer_ip a = ip_text (gr_peer rq) \<and>
          au_effective_ip a = ip_text (pi_effective_ip (effective_peer_identity rq e)))))"
proof -
  let ?ip = "pi_effective_ip (effective_peer_identity rq e)"
  let ?denied = "\<lambda>gate. audit_remote_denial e rq ?ip gate w"
  have "r env e extra urls forwarded_urls rq w \<in> {(Admitted, w), (Forbidden, ?denied ''host''), (Forbidden, ?denied ''origin''), (Forbidden, ?denied ''source'')}"
    unfolding r_def remote_access_gate_def Let_def by (simp only: insert_iff refl split: if_split) blast
  then consider (admitted) "r env e extra urls forwarded_urls rq w = (Admitted, w)"
    | (refused) gate where "gate \<in> {''host'', ''origin'', ''source''}" "r env e extra urls forwarded_urls rq w = (Forbidden, ?denied gate)"
    by blast
  then show ?thesis
  proof cases
    case refused
    obtain audit where audit: "w_db (?denied gate) = (w_db w)\<lparr>db_remote_audit := audit\<rparr>"
      "tb_seq (db_remote_audit (w_db w)) < i64_max \<longrightarrow>
        (\<exists>a. tb_rows audit = tb_rows (db_remote_audit (w_db w)) @ [a] \<and> au_entrypoint_id a = re_id e \<and> au_gate a = gate \<and>
          au_decision a = ''deny'' \<and> au_peer_ip a = ip_text (gr_peer rq) \<and> au_effective_ip a = ip_text ?ip)"
      using audit_remote_denial_world [of e rq ?ip gate w] by blast
    show ?thesis
      by (rule disjI2, rule exI [of _ "?denied gate"], rule exI [of _ audit], rule exI [of _ gate])
        (use refused audit in \<open>auto simp: not_less\<close>)
  qed simp
qed

section \<open>Routes\<close>

lemma validated_routes_checked:
  assumes "try_fold (validate_route e) (ids, paths) routes = Inr (ids', paths')"
  shows "\<exists>rs. try_fold check_route (acc, paths) routes = Inr (acc @ rs, paths') \<and>
    (\<forall>route \<in> set routes. rr_enabled route \<longrightarrow> validate_route_auth route = Inr ())"
  using assms
proof (induction routes arbitrary: ids paths acc)
  case (Cons r routes)
  obtain ids1 paths1 where step: "validate_route e (ids, paths) r = Inr (ids1, paths1)"
    and rest: "try_fold (validate_route e) (ids1, paths1) routes = Inr (ids', paths')"
    using Cons.prems by (auto simp: try_bind_Inr_iff)
  show ?case
  proof (cases "rr_enabled r")
    case False
    with step have "paths1 = paths" by (auto simp: validate_route_def Let_def split: if_splits)
    with Cons.IH [OF rest, of "acc @ [r]"] False show ?thesis by (auto simp: check_route_def)
  next
    case True
    with step obtain path where p: "normalize_route_path (rr_path r) = Inr path" "\<not> list_ex (\<lambda>x. route_paths_conflict x path) paths"
      "validate_route_auth r = Inr ()" "paths1 = paths @ [path]"
      by (auto simp: validate_route_def try_bind_Inr_iff Let_def split: if_splits)
    with Cons.IH [OF rest, of "acc @ [r\<lparr>rr_path := path\<rparr>]"] True show ?thesis by (auto simp: check_route_def)
  qed
qed simp

lemma validated_entrypoint_checked:
  assumes "try_fold (validate_route e) ([], []) (re_routes e) = Inr x"
  shows "\<exists>e'. runtime_checked_entrypoint e = Some e' \<and> (\<forall>route \<in> set (re_routes e). rr_enabled route \<longrightarrow> validate_route_auth route = Inr ())"
  using validated_routes_checked [of e "[]" "[]" "re_routes e" "fst x" "snd x" "[]"] assms
  by (auto simp: runtime_checked_entrypoint_def)

section \<open>Entrypoints\<close>

definition entrypoint_valid :: "remote_entrypoint \<Rightarrow> bool" where
  "entrypoint_valid e \<longleftrightarrow> re_port e \<noteq> 0 \<and> (\<exists>x. try_fold (validate_route e) ([], []) (re_routes e) = Inr x)"

lemma validate_entrypoint_cases:
  assumes "validate_entrypoint (ports, enabled, ids) e = Inr (ports', enabled', ids')"
  shows "trim (re_id e) \<notin> set ids \<and> ids' = trim (re_id e) # ids \<and>
    (if re_enabled e then entrypoint_valid e \<and> map_of ports (re_port e) = None \<and> (\<exists>label. ports' = (re_port e, label) # ports)
     else ports' = ports)"
  using assms
  by (auto simp: validate_entrypoint_def try_bind_Inr_iff claim_port_def entrypoint_valid_def Let_def split: if_splits option.splits)

lemma validated_entrypoints:
  assumes "try_fold validate_entrypoint (ports, enabled, ids) es = Inr (ports', enabled', ids')"
  shows "distinct (map (\<lambda>e. trim (re_id e)) es) \<and> (\<forall>e \<in> set es. trim (re_id e) \<notin> set ids) \<and>
    distinct (map re_port (filter re_enabled es)) \<and>
    (\<forall>e \<in> set es. re_enabled e \<longrightarrow> entrypoint_valid e \<and> map_of ports (re_port e) = None)"
  using assms
proof (induction es arbitrary: ports enabled ids)
  case (Cons e es)
  then obtain ports1 enabled1 ids1 where step: "validate_entrypoint (ports, enabled, ids) e = Inr (ports1, enabled1, ids1)"
    and rest: "try_fold validate_entrypoint (ports1, enabled1, ids1) es = Inr (ports', enabled', ids')"
    by (auto simp: try_bind_Inr_iff)
  from validate_entrypoint_cases [OF step] Cons.IH [OF rest] show ?case
    by (cases "re_enabled e") (auto split: if_splits)
qed simp

lemma validated_remote_access:
  assumes "validate_config env cfg = Inr ()"
  obtains ports x where "ports = (if cfg_webhook_enabled cfg then [(cfg_webhook_port cfg, ''webhookPort'')] else [])"
    and "try_fold validate_entrypoint (ports, [], []) (ra_entrypoints (cfg_remote_access cfg)) = Inr x"
proof -
  have "validate_remote_access env cfg = Inr ()" using assms by (simp add: validate_config_def)
  then have "\<exists>ports x. ports = (if cfg_webhook_enabled cfg then [(cfg_webhook_port cfg, ''webhookPort'')] else []) \<and>
      try_fold validate_entrypoint (ports, [], []) (ra_entrypoints (cfg_remote_access cfg)) = Inr x"
    by (auto simp: validate_remote_access_def try_bind_Inr_iff claim_port_def split: if_splits)
  then show thesis using that by blast
qed

section \<open>What the supervisor wants of a validated configuration\<close>

lemma map_of_unique:
  assumes "\<And>x y. x \<in> set es \<Longrightarrow> y \<in> set es \<Longrightarrow> fst x = fst y \<Longrightarrow> x = y" and "(k, v) \<in> set es"
  shows "map_of es k = Some v"
  using assms(2)
proof -
  obtain v' where v': "map_of es k = Some v'" using assms(2) by (metis domI map_of_eq_None_iff not_Some_eq image_eqI fst_conv)
  with assms(1) [of "(k, v')" "(k, v)"] assms(2) map_of_SomeD [OF v'] show ?thesis by simp
qed

lemma hash_map_unique:
  assumes "distinct (map fst es)" and "(k, v) \<in> set es"
  shows "map_of (hash_map es) k = Some v"
proof -
  have "map_of (rev es) k = Some v" using assms by (simp add: rev_map [symmetric] map_of_eq_Some_iff)
  then show ?thesis unfolding hash_map_def map_of_updates by simp
qed

lemma distinct_map_filter_keys:
  assumes "distinct (map f xs)" and "\<And>x y. g x = Some y \<Longrightarrow> fst y = f x"
  shows "distinct (map fst (List.map_filter g xs))"
  using assms(1)
proof (induction xs)
  case (Cons x xs)
  have "fst y \<in> f ` set xs" if "y \<in> set (List.map_filter g xs)" for y
    using map_filter_in [OF that] assms(2) by fastforce
  with Cons assms(2) show ?case by (auto simp: List.map_filter_simps split: option.splits)
qed (simp add: List.map_filter_simps)

lemma map_filter_mem: "x \<in> set xs \<Longrightarrow> g x = Some y \<Longrightarrow> y \<in> set (List.map_filter g xs)"
  by (induction xs) (auto simp: List.map_filter_simps split: option.splits)

text \<open>
  Of a configuration that validation accepts, the supervisor wants every enabled entrypoint under its id
  and port; their ids and ports are distinct, none is the port of an enabled webhook, and every enabled
  terminal route has a token of at least 32 characters and the right to read.
\<close>

theorem validated_entrypoints_wanted:
  assumes "validate_config env cfg = Inr ()"
  defines "ra \<equiv> cfg_remote_access cfg"
  defines "enabled \<equiv> filter re_enabled (ra_entrypoints ra)"
  shows "(\<forall>e \<in> set enabled. \<exists>d. map_of (desired_entrypoints senv ra) (re_id e) = Some d \<and> ed_port d = re_port e \<and>
      ed_bind_host d = re_bind_host e) \<and>
    distinct (map re_id enabled) \<and> distinct (map re_port enabled) \<and>
    (cfg_webhook_enabled cfg \<longrightarrow> cfg_webhook_port cfg \<notin> re_port ` set enabled) \<and>
    (\<forall>e \<in> set enabled. \<forall>route \<in> set (re_routes e). rr_enabled route \<and> rr_capability route = Capability_Terminal \<longrightarrow>
      32 \<le> char_count (trim (rr_auth_token route)) \<and> rr_terminal_read route)"
proof -
  from validated_remote_access [OF assms(1)] obtain ports x where
    ports: "ports = (if cfg_webhook_enabled cfg then [(cfg_webhook_port cfg, ''webhookPort'')] else [])"
    and fold: "try_fold validate_entrypoint (ports, [], []) (ra_entrypoints ra) = Inr x"
    unfolding ra_def by blast
  obtain a b c where "x = (a, b, c)" by (cases x)
  note v = validated_entrypoints [OF fold [unfolded this]]
  have ids: "distinct (map re_id (ra_entrypoints ra))"
    using v by (auto simp: distinct_map inj_on_def)
  let ?want = "\<lambda>e. if \<not> (re_enabled e \<and> re_port e \<noteq> 0) then None
     else map_option (\<lambda>entrypoint.
       let mcp_mount = mcp_mount_allowed ra entrypoint in
       (re_id entrypoint,
        \<lparr>ed_bind_host = re_bind_host entrypoint, ed_port = re_port entrypoint,
         ed_signature = sx_entrypoint_json senv entrypoint @ [CHR 0x0A] @ ''mcp='' @ (if mcp_mount then ''true'' else ''false''),
         ed_entrypoint = entrypoint, ed_mcp_mount = mcp_mount\<rparr>)) (runtime_checked_entrypoint e)"
  have keys: "?want e = Some y \<Longrightarrow> fst y = re_id e" for e y
    by (auto simp: Let_def dest: runtime_checked_fields split: if_splits)
  have keyed: "distinct (map fst (List.map_filter ?want (ra_entrypoints ra)))"
    by (rule distinct_map_filter_keys [where f = re_id]) (use ids keys in blast)+
  have wanted: "\<exists>d. map_of (desired_entrypoints senv ra) (re_id e) = Some d \<and> ed_port d = re_port e \<and> ed_bind_host d = re_bind_host e"
    if e: "e \<in> set enabled" for e
  proof -
    have valid: "re_port e \<noteq> 0" "re_enabled e" "\<exists>x. try_fold (validate_route e) ([], []) (re_routes e) = Inr x"
      using v e by (auto simp: enabled_def entrypoint_valid_def)
    obtain e' where e': "runtime_checked_entrypoint e = Some e'" using validated_entrypoint_checked valid(3) by blast
    then obtain d where d: "?want e = Some (re_id e, d)" "ed_port d = re_port e" "ed_bind_host d = re_bind_host e"
      using runtime_checked_fields [OF e'] valid by (auto simp: Let_def)
    have "(re_id e, d) \<in> set (List.map_filter ?want (ra_entrypoints ra))"
      using map_filter_mem [of e "ra_entrypoints ra" ?want] d(1) e by (simp only: enabled_def set_filter mem_Collect_eq)
    with hash_map_unique [OF keyed] d(2,3) show ?thesis
      unfolding desired_entrypoints_def by blast
  qed
  have terminal: "32 \<le> char_count (trim (rr_auth_token route)) \<and> rr_terminal_read route"
    if "e \<in> set enabled" "route \<in> set (re_routes e)" "rr_enabled route \<and> rr_capability route = Capability_Terminal" for e route
  proof -
    have "\<exists>x. try_fold (validate_route e) ([], []) (re_routes e) = Inr x"
      using v that(1) by (auto simp: enabled_def entrypoint_valid_def)
    with validated_entrypoint_checked that(2,3) have "validate_route_auth route = Inr ()" by blast
    with that(3) show ?thesis
      by (simp add: validate_route_auth_def terminal_auth_token_is_strong_def remote_terminal_token_min_len_def)
  qed
  have "distinct (map re_id enabled)" using ids by (simp add: enabled_def distinct_map_filter)
  moreover have "cfg_webhook_enabled cfg \<longrightarrow> cfg_webhook_port cfg \<notin> re_port ` set enabled"
    using v ports by (auto simp: enabled_def)
  ultimately show ?thesis using wanted terminal v by (simp add: enabled_def)
qed

lemma default_trims:
  "trim ''desktop'' = ''desktop''" "trim ''/api'' = ''/api''" "trim ''local-api'' = ''local-api''" "trim ''127.0.0.1'' = ''127.0.0.1''"
  by (rule graphic_trim; simp add: graphic_def byte_of_def)+

lemma ensure_passes [simp]: "ensure True t = Inr ()"
  by simp

lemma both_passes [simp]: "both (Inr ()) r = r"
  by (simp add: both_def)

lemma try_each_empty [simp]: "try_each f [] = Inr ()"
  by simp

lemma default_tools_valid: "validate_tools fs default_cli_tools = Inr ()"
  by (simp add: validate_tools_def all_tools_def validate_tool_def default_cli_tools_def)

lemma default_channel_valid: "validate_notifications env [desktop_channel] = Inr ()"
proof -
  have "\<not> has_whitespace ''desktop''" by (rule graphic_no_whitespace) (simp add: graphic_def byte_of_def)
  then show ?thesis
    by (simp add: validate_notifications_def validate_next_channel_def validate_notification_channel_def bad_token_def
        validate_channel_target_def default_trims desktop_channel_def default_notification_timeout_secs_def)
qed

lemma default_entrypoint_valid: "\<exists>x. validate_entrypoint ([], [], []) default_local_api = Inr x"
  by (simp add: Let_def validate_entrypoint_def default_local_api_def default_trims default_source_policy_def claim_port_def
      validate_source_policy_def validate_route_def local_api_route_def normalize_route_path_def trim_end_char_def
      path_segments_def is_route_path_segment_byte_def validate_route_auth_def blank_def is_ascii_alphanumeric_def byte_of_def)

lemma default_config_valid: "validate_config env default_config = Inr ()"
proof -
  obtain x where "validate_entrypoint ([], [], []) default_local_api = Inr x" using default_entrypoint_valid by blast
  then have "validate_remote_access env default_config = Inr ()"
    by (cases x) (simp add: validate_remote_access_def default_config_def default_remote_access_def)
  moreover have "validate_webhook default_config = Inr ()" "validate_local_token default_config = Inr ()"
    "validate_review_lifecycle_notifications default_config = Inr ()"
    by (simp_all add: validate_webhook_def validate_local_token_def validate_review_lifecycle_notifications_def
        default_config_def review_lifecycle_default_def)
  moreover have "validate_messaging env [] = Inr ()" "validate_rules fs default_config = Inr ()" for fs
    by (simp_all add: validate_messaging_def validate_rules_def default_config_def)
  ultimately show ?thesis using default_tools_valid default_channel_valid
    by (simp add: validate_config_def default_config_def)
qed

theorem validated_entrypoints_wanted_witness:
  "validate_config no_urls default_config = Inr () \<and>
   (\<exists>d. map_of (desired_entrypoints free_ports default_remote_access) ''local-api'' = Some d \<and> ed_port d = 8788)"
  using validated_entrypoints_wanted [OF default_config_valid [of no_urls], of free_ports] default_config_valid [of no_urls]
  by (auto simp: default_config_def default_remote_access_def default_local_api_def)

end
