(* ===== verification/Comment_Url.thy ===== *)
theory Comment_Url
  imports Serde
begin

text \<open>
  The link of a finished review (\<open>review/comment_url.rs\<close>): the last marked comment of a pull request, read
  from the output of the tool \<open>gh\<close> within a bound, or the page of the pull request with its path escaped.
\<close>

(* review/comment_url.rs 37-37 GH_MAX_STDOUT_BYTES *)
definition gh_max_stdout_bytes :: nat where "gh_max_stdout_bytes = 10 * 1024 * 1024"

(* review/comment_url.rs 44-44 PM_REVIEW_MARKER *)
definition pm_review_marker :: string where "pm_review_marker = ''<!-- pm:pr-review -->''"

section \<open>Comments\<close>

(* review/comment_url.rs 76-82 RawComment *)
record raw_comment =
  rc_body :: string
  rc_url :: string

definition raw_comment_of_json :: "jvalue \<Rightarrow> raw_comment option" where
  "raw_comment_of_json v =
     Option.bind (as_struct [''body'', ''url''] v) (\<lambda>m.
     Option.bind (defaulted [] jas_str ''body'' m) (\<lambda>body.
     Option.bind (defaulted [] jas_str ''url'' m) (\<lambda>url.
     Some \<lparr>rc_body = body, rc_url = url\<rparr>)))"

(* review/comment_url.rs 85-89 RawPrView *)
definition raw_pr_view_of_json :: "jvalue \<Rightarrow> raw_comment list option" where
  "raw_pr_view_of_json v =
     Option.bind (as_struct [''comments''] v) (defaulted [] (jlist raw_comment_of_json) ''comments'')"

definition marked_comment :: "raw_comment \<Rightarrow> bool" where
  "marked_comment c \<longleftrightarrow> prefix pm_review_marker (trim_start (rc_body c)) \<and> rc_url c \<noteq> []"

(* review/comment_url.rs 99-107 pick_last_pm_comment_url *)
definition pick_last_pm_comment_url :: "(string \<Rightarrow> jvalue option) \<Rightarrow> string \<Rightarrow> string option" where
  "pick_last_pm_comment_url parse_json json =
     Option.bind (parse_json json) (\<lambda>v.
     Option.bind (raw_pr_view_of_json v) (\<lambda>comments.
     map_option rc_url (find marked_comment (rev comments))))"

section \<open>Escaping a path segment\<close>

definition upper_hex :: "nat \<Rightarrow> char" where
  "upper_hex n = ''0123456789ABCDEF'' ! n"

(* review/comment_url.rs 132-132 encode_path_segment *)
definition unreserved :: "char \<Rightarrow> bool" where
  "unreserved c \<longleftrightarrow> is_ascii_alphanumeric c \<or> c \<in> {CHR ''-'', CHR ''.'', CHR ''_'', CHR ''~''}"

definition encode_byte :: "char \<Rightarrow> string" where
  "encode_byte c =
     (if unreserved c then [c] else [CHR ''%'', upper_hex (byte_of c div 16), upper_hex (byte_of c mod 16)])"

(* review/comment_url.rs 128-141 encode_path_segment *)
definition encode_path_segment :: "string \<Rightarrow> string" where
  "encode_path_segment s = concat (map encode_byte s)"

(* review/comment_url.rs 114-122 azure_pr_url *)
definition azure_pr_url :: "string \<Rightarrow> string \<Rightarrow> string \<Rightarrow> nat \<Rightarrow> string" where
  "azure_pr_url org project repo pr =
     ''https://dev.azure.com/'' @ encode_path_segment org @ ''/'' @ encode_path_segment project @ ''/_git/''
       @ encode_path_segment repo @ ''/pullrequest/'' @ dec pr"

section \<open>Running gh\<close>

text \<open>
  The reader gives chunks of at most eight kibibytes, an empty one at the end, or fails. The loop stops at
  the end, at a failure and beyond the limit.
\<close>

(* review/comment_url.rs 187-200 read_bounded *)
fun read_bounded :: "(unit + string) list \<Rightarrow> nat \<Rightarrow> string \<Rightarrow> unit + string" where
  "read_bounded [] limit buf = Inr buf"
| "read_bounded (Inl _ # reads) limit buf = Inl ()"
| "read_bounded (Inr chunk # reads) limit buf =
     (if chunk = [] then Inr buf
      else if limit < length (buf @ chunk) then Inl ()
      else read_bounded reads limit (buf @ chunk))"

text \<open>
  What a run of the tool shows: whether it was spawned, its reads, and its status, each wait within the
  timeout of thirty seconds or not.
\<close>

record gh_run =
  gr_spawned :: bool
  gr_reads :: "(unit + string) list option"
  gr_success :: "bool option"

(* review/comment_url.rs 148-180 run_gh_pr_view *)
definition run_gh_pr_view ::
    "(string list \<Rightarrow> gh_run) \<Rightarrow> (string \<Rightarrow> string) \<Rightarrow> string \<Rightarrow> nat \<Rightarrow> string option" where
  "run_gh_pr_view gh lossy repo pr =
     (let run = gh [''pr'', ''view'', dec pr, ''--repo'', repo, ''--json'', ''comments''] in
      if \<not> gr_spawned run then None
      else case gr_reads run of
        None \<Rightarrow> None
      | Some reads \<Rightarrow>
          (case read_bounded reads gh_max_stdout_bytes [] of
             Inl _ \<Rightarrow> None
           | Inr bytes \<Rightarrow> if gr_success run = Some True then Some (lossy bytes) else None))"

(* review/comment_url.rs 52-71 resolve_comment_url *)
definition resolve_comment_url ::
    "(string list \<Rightarrow> gh_run) option \<Rightarrow> (string \<Rightarrow> string) \<Rightarrow> (string \<Rightarrow> jvalue option) \<Rightarrow> source_kind
      \<Rightarrow> string \<Rightarrow> string \<Rightarrow> string \<Rightarrow> nat \<Rightarrow> string option" where
  "resolve_comment_url gh lossy parse_json kind repo azure_org azure_project pr =
     (case kind of
        Github \<Rightarrow>
          Option.bind gh (\<lambda>gh.
          Option.bind (run_gh_pr_view gh lossy repo pr) (pick_last_pm_comment_url parse_json))
      | Azure \<Rightarrow> Some (azure_pr_url azure_org azure_project repo pr)
      | Bitbucket \<Rightarrow> None)"

section \<open>Properties\<close>

text \<open>A decoder of escaped text, by RFC 3986.\<close>

definition hex_value :: "char \<Rightarrow> nat option" where
  "hex_value c =
     (let b = byte_of c in
      if 48 \<le> b \<and> b \<le> 57 then Some (b - 48) else if 65 \<le> b \<and> b \<le> 70 then Some (b - 55)
      else if 97 \<le> b \<and> b \<le> 102 then Some (b - 87) else None)"

fun percent_decode :: "string \<Rightarrow> string" where
  "percent_decode (a # b # c # s) =
     (if a = CHR ''%'' then
        (case (hex_value b, hex_value c) of
           (Some h, Some l) \<Rightarrow> char_of (16 * h + l) # percent_decode s
         | _ \<Rightarrow> a # percent_decode (b # c # s))
      else a # percent_decode (b # c # s))"
| "percent_decode s = s"

lemma upper_hex_value: "n < 16 \<Longrightarrow> hex_value (upper_hex n) = Some n"
proof -
  have "list_all (\<lambda>n. hex_value (upper_hex n) = Some n) [0..<16]"
    by code_simp
  then show "n < 16 \<Longrightarrow> ?thesis" by (auto simp: list_all_iff)
qed

lemma upper_hex_plain: "n < 16 \<Longrightarrow> unreserved (upper_hex n) \<and> upper_hex n \<noteq> CHR ''%''"
proof -
  have "list_all (\<lambda>n. unreserved (upper_hex n) \<and> upper_hex n \<noteq> CHR ''%'') [0..<16]"
    by code_simp
  then show "n < 16 \<Longrightarrow> ?thesis" by (auto simp: list_all_iff)
qed

lemma percent_decode_plain: "a \<noteq> CHR ''%'' \<Longrightarrow> percent_decode (a # s) = a # percent_decode s"
  by (cases s; cases "tl s") auto

lemma percent_reserved: "\<not> unreserved CHR ''%''"
  by (simp add: unreserved_def is_ascii_alphanumeric_def is_ascii_digit_def byte_of_def)

lemma byte_lt: "byte_of c < 256"
  by (simp add: byte_of_def)

lemma decode_encoded_byte: "percent_decode (encode_byte c @ s) = c # percent_decode s"
proof (cases "unreserved c")
  case True
  with percent_reserved have "c \<noteq> CHR ''%''" by auto
  with True show ?thesis by (simp add: encode_byte_def percent_decode_plain)
next
  case False
  have "byte_of c div 16 < 16" "byte_of c mod 16 < 16" using byte_lt [of c] by simp_all
  with False show ?thesis
    by (simp add: encode_byte_def upper_hex_value) (simp add: byte_of_def)
qed

lemma decode_encoded: "percent_decode (encode_path_segment s @ t) = s @ percent_decode t"
  by (induction s) (simp_all add: encode_path_segment_def decode_encoded_byte)

lemma encoded_chars: "\<forall>c \<in> set (encode_path_segment s). unreserved c \<or> c = CHR ''%''"
proof -
  have "\<forall>d \<in> set (encode_byte c). unreserved d \<or> d = CHR ''%''" for c
    using byte_lt [of c] upper_hex_plain [of "byte_of c div 16"] upper_hex_plain [of "byte_of c mod 16"]
    by (auto simp: encode_byte_def)
  then show ?thesis by (auto simp: encode_path_segment_def)
qed

lemma encoded_no_slash: "CHR ''/'' \<notin> set (encode_path_segment s)"
  using encoded_chars [of s] by (force simp: unreserved_def is_ascii_alphanumeric_def is_ascii_digit_def byte_of_def)

lemma slash_split:
  assumes "a @ CHR ''/'' # s = b @ CHR ''/'' # t" "CHR ''/'' \<notin> set a" "CHR ''/'' \<notin> set b"
  shows "a = b \<and> s = t"
  using assms
proof (induction a arbitrary: b)
  case Nil
  then show ?case by (cases b) auto
next
  case (Cons x a)
  then show ?case by (cases b) auto
qed

lemma encode_inj: "encode_path_segment s = encode_path_segment t \<longleftrightarrow> s = t"
proof
  assume "encode_path_segment s = encode_path_segment t"
  then have "percent_decode (encode_path_segment s @ []) = percent_decode (encode_path_segment t @ [])" by simp
  then show "s = t" by (simp only: decode_encoded) simp
qed simp

text \<open>
  The segments of an Azure link hold only unreserved characters and escapes, decode to the organisation,
  project and repository they were made from, and two pull requests have one link only if they are the same,
  whatever characters the names hold.
\<close>

theorem azure_link_unambiguous:
  "percent_decode (encode_path_segment s) = s \<and> (\<forall>c \<in> set (encode_path_segment s). unreserved c \<or> c = CHR ''%'') \<and>
   (azure_pr_url org project repo pr = azure_pr_url org' project' repo' pr' \<longleftrightarrow>
      org = org' \<and> project = project' \<and> repo = repo' \<and> pr = pr')"
proof (intro conjI)
  from decode_encoded [of s "[]"] show "percent_decode (encode_path_segment s) = s" by simp
  show "\<forall>c \<in> set (encode_path_segment s). unreserved c \<or> c = CHR ''%''" by (rule encoded_chars)
  have tail: "CHR ''/'' # ''_git/'' @ s = CHR ''/'' # ''_git/'' @ t \<longleftrightarrow> s = t" for s t by simp
  show "azure_pr_url org project repo pr = azure_pr_url org' project' repo' pr' \<longleftrightarrow>
      org = org' \<and> project = project' \<and> repo = repo' \<and> pr = pr'" (is "?l \<longleftrightarrow> ?r")
  proof
    assume ?l
    then have 1: "encode_path_segment org @ CHR ''/'' # (encode_path_segment project @ CHR ''/'' # ''_git/'' @
        encode_path_segment repo @ CHR ''/'' # ''pullrequest/'' @ dec pr) =
      encode_path_segment org' @ CHR ''/'' # (encode_path_segment project' @ CHR ''/'' # ''_git/'' @
        encode_path_segment repo' @ CHR ''/'' # ''pullrequest/'' @ dec pr')"
      by (simp add: azure_pr_url_def)
    from slash_split [OF this encoded_no_slash encoded_no_slash]
    have a: "encode_path_segment org = encode_path_segment org'"
      and 2: "encode_path_segment project @ CHR ''/'' # (''_git/'' @
        encode_path_segment repo @ CHR ''/'' # ''pullrequest/'' @ dec pr) =
      encode_path_segment project' @ CHR ''/'' # (''_git/'' @
        encode_path_segment repo' @ CHR ''/'' # ''pullrequest/'' @ dec pr')" by blast+
    from slash_split [OF 2 encoded_no_slash encoded_no_slash]
    have b: "encode_path_segment project = encode_path_segment project'"
      and 3: "encode_path_segment repo @ CHR ''/'' # (''pullrequest/'' @ dec pr) =
        encode_path_segment repo' @ CHR ''/'' # (''pullrequest/'' @ dec pr')" by simp_all
    from slash_split [OF 3 encoded_no_slash encoded_no_slash]
    have "encode_path_segment repo = encode_path_segment repo'" "dec pr = dec pr'" by simp_all
    with a b show ?r by (simp add: encode_inj)
  qed simp
qed

text \<open>A link on dev.azure.com of names with a space, a slash and a non-ASCII character.\<close>

theorem azure_link_unambiguous_witness:
  "percent_decode (encode_path_segment (''a b/'' @ utf8 [0x4E2D])) = ''a b/'' @ utf8 [0x4E2D] \<and>
   azure_pr_url ''o'' ''a/b'' ''c'' 1 \<noteq> azure_pr_url ''o'' ''a'' ''b/c'' 1"
  using azure_link_unambiguous [of "''a b/'' @ utf8 [0x4E2D]" "''o''" "''a/b''" "''c''" 1 "''o''" "''a''" "''b/c''" 1]
  by simp

end
