(* ===== verification/Notify_Delivery.thy ===== *)
theory Notify_Delivery
  imports Session_Commands Messaging_Service Config_Validation Serde Webhook
begin

text \<open>
  Delivering a notification (\<open>review/notify.rs\<close>) and the executor of the outbox (\<open>lib.rs\<close>): the request a
  channel sends, how an answer becomes done, retry or dead, and which texts the outcome may hold. The HTTP
  client, the mail library, the desktop, the keyed hash, base64, the date parser and the clock are parameters.
\<close>

section \<open>Channels and the world outside\<close>

(* model.rs 2069-2084 NotificationDeliveryChannel *)
record delivery_channel =
  dc_id :: string
  dc_name :: string
  dc_kind :: notification_kind
  dc_webhook_url :: string
  dc_webhook_secret :: string
  dc_telegram_bot_token :: string
  dc_telegram_chat_id :: string
  dc_smtp_host :: string
  dc_smtp_port :: nat
  dc_smtp_username :: string
  dc_smtp_password :: string
  dc_smtp_from :: string
  dc_smtp_to :: string
  dc_timeout_secs :: nat

(* config/service.rs 128-145 notification_delivery_channel *)
definition notification_delivery_channel :: "notification_channel \<Rightarrow> delivery_channel" where
  "notification_delivery_channel c =
     \<lparr>dc_id = nch_id c, dc_name = nch_name c, dc_kind = nch_kind c, dc_webhook_url = nch_webhook_url c,
      dc_webhook_secret = nch_webhook_secret c, dc_telegram_bot_token = nch_telegram_bot_token c,
      dc_telegram_chat_id = nch_telegram_chat_id c, dc_smtp_host = nch_smtp_host c, dc_smtp_port = nch_smtp_port c,
      dc_smtp_username = nch_smtp_username c, dc_smtp_password = nch_smtp_password c, dc_smtp_from = nch_smtp_from c,
      dc_smtp_to = nch_smtp_to c, dc_timeout_secs = nch_timeout_secs c\<rparr>"

text \<open>What \<open>reqwest::Error\<close> and the error of \<open>lettre\<close> tell about themselves.\<close>

record transport_error =
  te_timeout :: bool
  te_connect :: bool
  te_builder :: bool

record smtp_error =
  sme_timeout :: bool
  sme_transient :: bool
  sme_permanent :: bool
  sme_client :: bool
  sme_response :: bool
  sme_tls :: bool
  sme_transport_shutdown :: bool

record http_client =
  hcl_https_only :: bool
  hcl_redirects :: bool
  hcl_timeout_secs :: nat

record mail =
  ml_from :: string
  ml_subject :: string
  ml_to :: "string list"
  ml_text :: string

record smtp_relay =
  rl_host :: string
  rl_port :: nat
  rl_timeout_secs :: nat
  rl_credentials :: "(string \<times> string) option"

datatype notify_reply =
  Send_Failed transport_error
| Replied nat "header_value option" "transport_error + string"

text \<open>The clock gives milliseconds since the epoch, one reading after the other.\<close>

record notify_env =
  ne_show_desktop :: "string \<Rightarrow> string \<Rightarrow> string option"
  ne_client_error :: "http_client \<Rightarrow> string option"
  ne_post :: "http_client \<Rightarrow> string \<Rightarrow> jvalue \<Rightarrow> notify_reply"
  ne_parse_url :: "string \<Rightarrow> string + string"
  ne_append_pairs :: "string \<Rightarrow> (string \<times> string) list \<Rightarrow> string"
  ne_hmac_sha256 :: "string \<Rightarrow> string \<Rightarrow> string option"
  ne_base64 :: "string \<Rightarrow> string"
  ne_parse_json :: "string \<Rightarrow> jvalue option"
  ne_http_date :: "string \<Rightarrow> nat option"
  ne_status_text :: "nat \<Rightarrow> string"
  ne_clock :: "nat \<Rightarrow> nat"
  ne_mailbox :: "string \<Rightarrow> string option"
  ne_mail_valid :: "mail \<Rightarrow> bool"
  ne_relay_valid :: "string \<Rightarrow> bool"
  ne_send_mail :: "smtp_relay \<Rightarrow> mail \<Rightarrow> smtp_error option"

abbreviation exec_done :: action_execution_result where
  "exec_done \<equiv> Exec_Done Output_None"

section \<open>Texts and bodies\<close>

(* review/notify.rs 242-251 desktop_body *)
definition desktop_body :: "notification \<Rightarrow> string" where
  "desktop_body n =
     (if ntf_body n = [] then ntf_url n
      else if ntf_url n = [] \<or> ntf_url n = ntf_body n then ntf_body n
      else ntf_body n @ [CHR 0x0A] @ ntf_url n)"

(* review/notify.rs 253-255 text_message *)
definition text_message :: "notification \<Rightarrow> string" where
  "text_message n = desktop_body n"

(* review/notify.rs 257-264 http_client *)
definition http_client_of :: "notify_env \<Rightarrow> nat \<Rightarrow> http_client app_result" where
  "http_client_of env timeout_secs =
     (let client = \<lparr>hcl_https_only = True, hcl_redirects = False, hcl_timeout_secs = max timeout_secs 1\<rparr> in
      case ne_client_error env client of
        Some e \<Rightarrow> Inl (AppError ((utf8 [0x901A, 0x77E5] @ '' HTTP client '' @ utf8 [0x521D, 0x59CB, 0x5316, 0x5931, 0x8D25] @ '': '') @ e))
      | None \<Rightarrow> Inr client)"

(* review/notify.rs 266-277 webhook_body *)
definition webhook_body :: "notification_kind \<Rightarrow> notification \<Rightarrow> jvalue" where
  "webhook_body kind n =
     (let words = JString (text_message n) in
      case kind of
        Slack \<Rightarrow> jobj [(''text'', words)]
      | NWeChatWork \<Rightarrow> jobj [(''msgtype'', JString ''text''), (''text'', jobj [(''content'', words)])]
      | NFeishu \<Rightarrow> jobj [(''msg_type'', JString ''text''), (''content'', jobj [(''text'', words)])]
      | NDingTalk \<Rightarrow> jobj [(''msgtype'', JString ''text''), (''text'', jobj [(''content'', words)])]
      | Desktop \<Rightarrow> jobj [(''text'', words)]
      | Email \<Rightarrow> jobj [(''text'', words)]
      | Telegram \<Rightarrow> jobj [(''text'', words)])"

(* review/notify.rs 323-328 now_millis *)
definition now_millis :: "notify_env \<Rightarrow> nat \<Rightarrow> nat" where
  "now_millis env k = ne_clock env k mod 2 ^ 64"

(* review/notify.rs 330-335 now_secs *)
definition now_secs :: "notify_env \<Rightarrow> nat \<Rightarrow> nat" where
  "now_secs env k = ne_clock env k div 1000"

(* review/notify.rs 316-321 hmac_sha256_base64 *)
definition hmac_sha256_base64 :: "notify_env \<Rightarrow> string \<Rightarrow> string \<Rightarrow> string app_result" where
  "hmac_sha256_base64 env key data =
     (case ne_hmac_sha256 env key data of
        None \<Rightarrow> Inl (AppError ((utf8 [0x901A, 0x77E5] @ '' webhook secret '' @ utf8 [0x65E0, 0x6548])))
      | Some mac \<Rightarrow> Inr (ne_base64 env mac))"

text \<open>Indexing a JSON value for assignment: an object gets or replaces the key; null becomes an object.\<close>

definition jset :: "string \<Rightarrow> jvalue \<Rightarrow> jvalue \<Rightarrow> jvalue" where
  "jset k x v = (case v of JObject m \<Rightarrow> JObject (obj_insert k x m) | JNull \<Rightarrow> JObject [(k, x)] | _ \<Rightarrow> v)"

(* review/notify.rs 299-314 apply_feishu_signature *)
definition apply_feishu_signature :: "notify_env \<Rightarrow> delivery_channel \<Rightarrow> jvalue \<Rightarrow> jvalue app_result" where
  "apply_feishu_signature env c body =
     (if dc_kind c \<noteq> NFeishu \<or> trim (dc_webhook_secret c) = [] then Inr body
      else
        let timestamp = now_secs env 0 in
        try_bind (hmac_sha256_base64 env (dec timestamp @ [CHR 0x0A] @ trim (dc_webhook_secret c)) []) (\<lambda>sign.
        Inr (jset ''sign'' (JString sign) (jset ''timestamp'' (JString (dec timestamp)) body))))"

(* review/notify.rs 279-297 signed_webhook_url *)
definition signed_webhook_url :: "notify_env \<Rightarrow> delivery_channel \<Rightarrow> string app_result" where
  "signed_webhook_url env c =
     (case ne_parse_url env (trim (dc_webhook_url c)) of
        Inl e \<Rightarrow> Inl (AppError ((utf8 [0x901A, 0x77E5, 0x6E20, 0x9053, 0x300C]) @ dc_name c @ (utf8 [0x300D] @ ''webhook URL '' @ utf8 [0x65E0, 0x6548, 0xFF08, 0x5DF2, 0x8131, 0x654F, 0xFF09] @ '': '') @ e))
      | Inr url \<Rightarrow>
          if dc_kind c = NDingTalk \<and> trim (dc_webhook_secret c) \<noteq> [] then
            let timestamp = now_millis env 1 in
            try_bind (hmac_sha256_base64 env (trim (dc_webhook_secret c))
                        (dec timestamp @ [CHR 0x0A] @ trim (dc_webhook_secret c))) (\<lambda>sign.
            Inr (ne_append_pairs env url [(''timestamp'', dec timestamp), (''sign'', sign)]))
          else Inr url)"

section \<open>Classifying answers\<close>

(* review/notify.rs 341-354 retry_after_secs_at *)
definition retry_after_secs_at :: "notify_env \<Rightarrow> header_value option \<Rightarrow> nat \<Rightarrow> nat option" where
  "retry_after_secs_at env header now_ms =
     (case header of
        Some (Header_Text v) \<Rightarrow>
          (case parse_u64 v of
             Some secs \<Rightarrow> Some secs
           | None \<Rightarrow> map_option (\<lambda>at. if now_ms \<le> 1000 * at then max ((1000 * at - now_ms) div 1000) 1 else 1)
                       (ne_http_date env v))
      | _ \<Rightarrow> None)"

(* review/notify.rs 337-339 retry_after_secs *)
definition retry_after_secs :: "notify_env \<Rightarrow> header_value option \<Rightarrow> nat option" where
  "retry_after_secs env header = retry_after_secs_at env header (ne_clock env 2)"

(* review/notify.rs 356-379 classify_http_status *)
definition classify_http_status ::
    "notify_env \<Rightarrow> delivery_channel \<Rightarrow> nat \<Rightarrow> nat option \<Rightarrow> action_execution_result" where
  "classify_http_status env c status retry_after =
     (if status_success status then exec_done
      else
        let words = (utf8 [0x901A, 0x77E5, 0x6E20, 0x9053, 0x300C]) @ dc_name c @ (utf8 [0x300D] @ ''HTTP '' @ utf8 [0x6295, 0x9012, 0x5931, 0x8D25, 0xFF08] @ ''status='') @ ne_status_text env status @ (utf8 [0xFF0C, 0x5DF2, 0x8131, 0x654F, 0xFF09]) in
        if status = 429 \<or> status = 408 \<or> 500 \<le> status \<and> status \<le> 599 then Exec_Retry words retry_after
        else Exec_Dead words)"

(* review/notify.rs 429-439 provider_business_dead *)
definition provider_business_dead :: "delivery_channel \<Rightarrow> string \<Rightarrow> action_execution_result" where
  "provider_business_dead c provider =
     Exec_Dead ((utf8 [0x901A, 0x77E5, 0x6E20, 0x9053, 0x300C]) @ dc_name c @ (utf8 [0x300D]) @ provider @ ('' '' @ utf8 [0x4E1A, 0x52A1, 0x54CD, 0x5E94, 0x5931, 0x8D25, 0xFF08, 0x5DF2, 0x8131, 0x654F, 0xFF09]))"

(* review/notify.rs 381-427 classify_provider_success_body *)
definition classify_provider_success_body ::
    "notify_env \<Rightarrow> delivery_channel \<Rightarrow> string \<Rightarrow> action_execution_result" where
  "classify_provider_success_body env c body =
     (case dc_kind c of
        Slack \<Rightarrow>
          if trim body = [] \<or> eq_ignore_ascii_case (trim body) ''ok'' then exec_done
          else provider_business_dead c ''slack''
      | Telegram \<Rightarrow>
          (case ne_parse_json env body of
             None \<Rightarrow> provider_business_dead c ''telegram-invalid-json''
           | Some v \<Rightarrow>
               if jget_as jas_bool ''ok'' v = Some True then exec_done else provider_business_dead c ''telegram'')
      | NFeishu \<Rightarrow>
          (case ne_parse_json env body of
             None \<Rightarrow> provider_business_dead c ''feishu-invalid-json''
           | Some v \<Rightarrow>
               if jget_as jas_i64 ''StatusCode'' v = Some 0 \<or> jget_as jas_i64 ''code'' v = Some 0 then exec_done
               else provider_business_dead c ''feishu'')
      | Desktop \<Rightarrow> exec_done
      | Email \<Rightarrow> exec_done
      | _ \<Rightarrow>
          (case ne_parse_json env body of
             None \<Rightarrow> provider_business_dead c ''webhook-invalid-json''
           | Some v \<Rightarrow>
               if jget_as jas_i64 ''errcode'' v = Some 0 then exec_done else provider_business_dead c ''webhook''))"

(* review/notify.rs 469-483 classified_smtp_failure *)
definition classified_smtp_failure :: "string \<Rightarrow> string \<Rightarrow> bool \<Rightarrow> action_execution_result" where
  "classified_smtp_failure channel_name cls retryable =
     (let words = (utf8 [0x901A, 0x77E5, 0x6E20, 0x9053, 0x300C]) @ channel_name @ (utf8 [0x300D] @ ''SMTP '') @ cls @ ('' '' @ utf8 [0x5931, 0x8D25, 0xFF08, 0x5DF2, 0x8131, 0x654F, 0xFF09]) in
      if retryable then Exec_Retry words None else Exec_Dead words)"

(* review/notify.rs 441-467 classify_smtp_error *)
definition classify_smtp_error :: "delivery_channel \<Rightarrow> smtp_error \<Rightarrow> action_execution_result" where
  "classify_smtp_error c e =
     (let cls =
            (if sme_timeout e then ''timeout''
             else if sme_transient e then ''transient''
             else if sme_permanent e then ''permanent''
             else if sme_client e then ''client''
             else if sme_response e then ''response''
             else if sme_tls e then ''tls''
             else if sme_transport_shutdown e then ''transport-shutdown''
             else ''transport'');
          retryable = (sme_timeout e \<or> sme_transient e \<or> sme_transport_shutdown e \<or>
            \<not> (sme_permanent e \<or> sme_client e \<or> sme_response e \<or> sme_tls e))
      in classified_smtp_failure (dc_name c) cls retryable)"

(* review/notify.rs 485-502 safe_http_transport_error *)
definition safe_http_transport_error :: "delivery_channel \<Rightarrow> transport_error \<Rightarrow> string" where
  "safe_http_transport_error c e =
     (utf8 [0x901A, 0x77E5, 0x6E20, 0x9053, 0x300C]) @ dc_name c @ (utf8 [0x300D] @ ''HTTP '') @
     (if te_timeout e then ''timeout'' else if te_connect e then ''connect''
      else if te_builder e then ''config'' else ''transport'') @ ('' '' @ utf8 [0x5931, 0x8D25, 0xFF08] @ ''URL/token '' @ utf8 [0x5DF2, 0x8131, 0x654F, 0xFF09])"

section \<open>Providers\<close>

text \<open>What the webhook and the Telegram provider do with the answer to their one request.\<close>

definition conclude_post :: "notify_env \<Rightarrow> delivery_channel \<Rightarrow> notify_reply \<Rightarrow> action_execution_result app_result" where
  "conclude_post env c reply =
     (case reply of
        Send_Failed e \<Rightarrow> Inl (AppError (safe_http_transport_error c e))
      | Replied status retry_after body \<Rightarrow>
          if \<not> status_success status then Inr (classify_http_status env c status (retry_after_secs env retry_after))
          else case body of
            Inl e \<Rightarrow> Inl (AppError (safe_http_transport_error c e))
          | Inr words \<Rightarrow> Inr (classify_provider_success_body env c words))"

(* review/notify.rs 97-106 DesktopNotifier::deliver *)
definition desktop_deliver :: "notify_env \<Rightarrow> notification \<Rightarrow> action_execution_result app_result" where
  "desktop_deliver env n =
     (case ne_show_desktop env (ntf_title n) (desktop_body n) of
        Some e \<Rightarrow> Inl (AppError ((utf8 [0x53D1, 0x9001, 0x684C, 0x9762, 0x901A, 0x77E5, 0x5931, 0x8D25] @ '': '') @ e))
      | None \<Rightarrow> Inr exec_done)"

(* review/notify.rs 114-135 WebhookNotifier::deliver *)
definition webhook_deliver :: "notify_env \<Rightarrow> delivery_channel \<Rightarrow> notification \<Rightarrow> action_execution_result app_result" where
  "webhook_deliver env c n =
     try_bind (apply_feishu_signature env c (webhook_body (dc_kind c) n)) (\<lambda>body.
     try_bind (signed_webhook_url env c) (\<lambda>url.
     try_bind (http_client_of env (dc_timeout_secs c)) (\<lambda>client.
     conclude_post env c (ne_post env client url body))))"

(* review/notify.rs 143-168 TelegramNotifier::deliver *)
definition telegram_deliver :: "notify_env \<Rightarrow> delivery_channel \<Rightarrow> notification \<Rightarrow> action_execution_result app_result" where
  "telegram_deliver env c n =
     (let url = ''https://api.telegram.org/bot'' @ trim (dc_telegram_bot_token c) @ ''/sendMessage'';
          body = jobj [(''chat_id'', JString (trim (dc_telegram_chat_id c))), (''text'', JString (text_message n)),
            (''disable_web_page_preview'', JBool False)]
      in try_bind (http_client_of env (dc_timeout_secs c)) (\<lambda>client.
         conclude_post env c (ne_post env client url body)))"

text \<open>The recipients of a list separated by commas.\<close>

definition recipients :: "notify_env \<Rightarrow> string \<Rightarrow> string list option" where
  "recipients env to = map_all (ne_mailbox env) (filter (\<lambda>a. a \<noteq> []) (map trim (split_all CHR '','' to)))"

(* review/notify.rs 176-233 EmailNotifier::deliver *)
definition email_deliver :: "notify_env \<Rightarrow> delivery_channel \<Rightarrow> notification \<Rightarrow> action_execution_result app_result" where
  "email_deliver env c n =
     (case ne_mailbox env (trim (dc_smtp_from c)) of
        None \<Rightarrow> Inr (Exec_Dead ((utf8 [0x901A, 0x77E5, 0x6E20, 0x9053, 0x300C]) @ dc_name c @ (utf8 [0x300D] @ ''SMTP '' @ utf8 [0x53D1, 0x4EF6, 0x4EBA, 0x5730, 0x5740, 0x65E0, 0x6548])))
      | Some sender \<Rightarrow>
     (case recipients env (dc_smtp_to c) of
        None \<Rightarrow> Inr (Exec_Dead ((utf8 [0x901A, 0x77E5, 0x6E20, 0x9053, 0x300C]) @ dc_name c @ (utf8 [0x300D] @ ''SMTP '' @ utf8 [0x6536, 0x4EF6, 0x4EBA, 0x5730, 0x5740, 0x65E0, 0x6548])))
      | Some tos \<Rightarrow>
     (let mail = \<lparr>ml_from = sender, ml_subject = ntf_title n, ml_to = tos, ml_text = text_message n\<rparr> in
      if \<not> ne_mail_valid env mail
      then Inr (Exec_Dead ((utf8 [0x901A, 0x77E5, 0x6E20, 0x9053, 0x300C]) @ dc_name c @ (utf8 [0x300D, 0x90AE, 0x4EF6, 0x6784, 0x9020, 0x5931, 0x8D25])))
      else if \<not> ne_relay_valid env (trim (dc_smtp_host c))
      then Inr (Exec_Dead ((utf8 [0x901A, 0x77E5, 0x6E20, 0x9053, 0x300C]) @ dc_name c @ (utf8 [0x300D] @ ''SMTP relay '' @ utf8 [0x914D, 0x7F6E, 0x65E0, 0x6548])))
      else
        let relay = \<lparr>rl_host = trim (dc_smtp_host c), rl_port = dc_smtp_port c, rl_timeout_secs = dc_timeout_secs c,
              rl_credentials = (if trim (dc_smtp_username c) \<noteq> []
                then Some (trim (dc_smtp_username c), dc_smtp_password c) else None)\<rparr>
        in case ne_send_mail env relay mail of
             None \<Rightarrow> Inr exec_done
           | Some e \<Rightarrow> Inr (classify_smtp_error c e))))"

(* review/notify.rs 509-526 deliver *)
definition notify_deliver :: "notify_env \<Rightarrow> notification_kind \<Rightarrow> notification \<Rightarrow> action_execution_result app_result" where
  "notify_deliver env kind n =
     (if kind = Desktop then desktop_deliver env n
      else Inr (Exec_Dead ((utf8 [0x901A, 0x77E5, 0x6E20, 0x9053, 0x914D, 0x7F6E, 0x7F3A, 0x5931, 0xFF1A, 0x5916, 0x90E8, 0x6E20, 0x9053, 0x5FC5, 0x987B, 0x901A, 0x8FC7] @ '' outbox delivery payload '' @ utf8 [0x6307, 0x5B9A] @ '' channelId''))))"

(* review/notify.rs 528-543 deliver_channel *)
definition deliver_channel :: "notify_env \<Rightarrow> delivery_channel \<Rightarrow> notification \<Rightarrow> action_execution_result app_result" where
  "deliver_channel env c n =
     (case dc_kind c of
        Desktop \<Rightarrow> Inr (Exec_Dead ''desktop channel requires AppHandle delivery path'')
      | Email \<Rightarrow> email_deliver env c n
      | Telegram \<Rightarrow> telegram_deliver env c n
      | _ \<Rightarrow> webhook_deliver env c n)"

(* review/notify.rs 545-554 deliver_channel_with_app *)
definition deliver_channel_with_app ::
    "notify_env \<Rightarrow> delivery_channel \<Rightarrow> notification \<Rightarrow> action_execution_result app_result" where
  "deliver_channel_with_app env c n =
     (if dc_kind c = Desktop then desktop_deliver env n else deliver_channel env c n)"

section \<open>The test of a channel\<close>

(* config/service.rs 147-151 validate_notification_channel_for_test *)
definition validate_notification_channel_for_test :: "validation_env \<Rightarrow> notification_channel \<Rightarrow> unit app_result" where
  "validate_notification_channel_for_test venv c = validate_notification_channel venv (c\<lparr>nch_enabled := True\<rparr>)"

(* lib.rs 278-301 notification_test_send *)
definition notification_test_send ::
    "validation_env \<Rightarrow> notify_env \<Rightarrow> notification_channel \<Rightarrow> string app_result" where
  "notification_test_send venv env c =
     try_bind (validate_notification_channel_for_test venv c) (\<lambda>_.
     try_bind (deliver_channel_with_app env (notification_delivery_channel c)
        \<lparr>ntf_level = Info, ntf_title = (''prmonitor '' @ utf8 [0x901A, 0x77E5, 0x6D4B, 0x8BD5]), ntf_url = [],
         ntf_body = (utf8 [0x8FD9, 0x662F, 0x4E00, 0x6761] @ '' prmonitor '' @ utf8 [0x6D4B, 0x8BD5, 0x901A, 0x77E5]), ntf_project_id = []\<rparr>) (\<lambda>result.
     case result of
       Exec_Done out \<Rightarrow> Inr ((utf8 [0x901A, 0x77E5, 0x6E20, 0x9053, 0x300C]) @ nch_name c @ (utf8 [0x300D, 0x6D4B, 0x8BD5, 0x53D1, 0x9001, 0x6210, 0x529F]))
     | Exec_Blocked words observed \<Rightarrow> Inl (AppError words)
     | Exec_Retry words after \<Rightarrow> Inl (AppError words)
     | Exec_Dead words \<Rightarrow> Inl (AppError words)))"

section \<open>The executor of the outbox\<close>

definition kind_debug :: "notification_kind \<Rightarrow> string" where
  "kind_debug k = (case k of Desktop \<Rightarrow> ''Desktop'' | Email \<Rightarrow> ''Email'' | Slack \<Rightarrow> ''Slack'' | Telegram \<Rightarrow> ''Telegram''
     | NWeChatWork \<Rightarrow> ''WeChatWork'' | NFeishu \<Rightarrow> ''Feishu'' | NDingTalk \<Rightarrow> ''DingTalk'')"

text \<open>A payload column that holds another kind of payload does not parse as the one that is wanted.\<close>

definition delivery_payload_of :: "action_payload json_text \<Rightarrow> string + notification_delivery" where
  "delivery_payload_of j =
     try_bind (from_json j) (\<lambda>p. case p of DeliveryPayload r \<Rightarrow> Inr r | _ \<Rightarrow> Inl ''missing field'')"

definition reply_payload_of :: "action_payload json_text \<Rightarrow> string + messaging_reply_payload" where
  "reply_payload_of j =
     try_bind (from_json j) (\<lambda>p. case p of ReplyPayload r \<Rightarrow> Inr r | _ \<Rightarrow> Inl ''missing field'')"

definition send_payload_of :: "action_payload json_text \<Rightarrow> string + messaging_send_payload" where
  "send_payload_of j =
     try_bind (from_json j) (\<lambda>p. case p of SendPayload r \<Rightarrow> Inr r | _ \<Rightarrow> Inl ''missing field'')"

(* config/service.rs 914-924 notification_channel *)
definition find_notification_channel :: "app_config app_result \<Rightarrow> string \<Rightarrow> notification_channel app_result" where
  "find_notification_channel load channel_id =
     try_bind load (\<lambda>cfg.
     ok_or (find (\<lambda>c. nch_id c = channel_id) (cfg_channels cfg))
       (AppError ((''notificationChannelId '' @ utf8 [0x4E0D, 0x5B58, 0x5728] @ '': '') @ channel_id)))"

(* lib.rs 724-762 outbox_executor *)
definition execute_notification ::
    "notify_env \<Rightarrow> app_config app_result \<Rightarrow> outbox_action \<Rightarrow> action_execution_result app_result" where
  "execute_notification env load action =
     (case delivery_payload_of (oa_payload action) of
        Inl e \<Rightarrow> Inr (Exec_Dead ((''outbox '' @ utf8 [0x901A, 0x77E5] @ '' payload '' @ utf8 [0x65E0, 0x6548, 0xFF08, 0x4EC5, 0x63A5, 0x53D7] @ '' NotificationDeliveryPayload'' @ utf8 [0xFF09, 0xFF1A]) @ e))
      | Inr payload \<Rightarrow>
     (case find_notification_channel load (dlv_channel_id payload) of
        Inl e \<Rightarrow> Inr (Exec_Dead (message e))
      | Inr channel \<Rightarrow>
          if \<not> nch_enabled channel
          then Inr (Exec_Dead ((utf8 [0x901A, 0x77E5, 0x6E20, 0x9053, 0x300C]) @ nch_name channel @ (utf8 [0x300D, 0x5DF2, 0x7981, 0x7528, 0xFF0C, 0x505C, 0x6B62, 0x6295, 0x9012])))
          else if nch_kind channel \<noteq> dlv_kind payload
          then Inr (Exec_Dead ((utf8 [0x901A, 0x77E5, 0x6E20, 0x9053, 0x300C]) @ nch_name channel @ (utf8 [0x300D, 0x7C7B, 0x578B, 0x4E0D, 0x5339, 0x914D, 0xFF1A] @ ''payload='') @ kind_debug (dlv_kind payload)
                 @ '' channel='' @ kind_debug (nch_kind channel)))
          else deliver_channel_with_app env (notification_delivery_channel channel) (dlv_notification payload)))"

(* lib.rs 763-766 outbox_executor *)
definition execute_stop_action ::
    "review_env \<Rightarrow> engine_answers \<Rightarrow> outbox_action \<Rightarrow> review_app \<Rightarrow> action_execution_result app_result \<times> review_app" where
  "execute_stop_action env ans action a =
     (let (r, a) = run_stop_action env ans action a in (try_bind r (\<lambda>_. Inr exec_done), a))"

record executor_env =
  xe_notify :: notify_env
  xe_review :: review_env
  xe_answers :: engine_answers
  xe_is_dir :: "string \<Rightarrow> bool"
  xe_fs :: filesystem
  xe_reply :: "messaging_integration \<Rightarrow> messaging_reply_payload \<Rightarrow> action_execution_result app_result"
  xe_send :: "messaging_integration \<Rightarrow> string \<Rightarrow> messaging_send_content \<Rightarrow> action_execution_result app_result"

text \<open>\<open>None\<close> is the panic of \<open>run_review_action\<close>.\<close>

(* lib.rs 763-813 outbox_executor *)
definition outbox_executor ::
    "executor_env \<Rightarrow> app_config app_result \<Rightarrow> outbox_action \<Rightarrow> review_app
      \<Rightarrow> (action_execution_result app_result \<times> review_app) option" where
  "outbox_executor env load action a =
     (case oa_kind action of
        Kind_Notification \<Rightarrow> Some (execute_notification (xe_notify env) load action, a)
      | Kind_RunSkill \<Rightarrow> run_review_action (xe_review env) (xe_is_dir env) (xe_fs env) load (xe_answers env) action a
      | Kind_StopReview \<Rightarrow> Some (execute_stop_action (xe_review env) (xe_answers env) action a)
      | Kind_MessagingReply \<Rightarrow>
          Some ((case reply_payload_of (oa_payload action) of
             Inl e \<Rightarrow> Inr (Exec_Dead ((''messaging reply payload '' @ utf8 [0x53CD, 0x5E8F, 0x5217, 0x5316, 0x5931, 0x8D25] @ '': '') @ e))
           | Inr payload \<Rightarrow> execute_reply load (xe_reply env) payload), a)
      | Kind_MessagingSend \<Rightarrow>
          Some ((case send_payload_of (oa_payload action) of
             Inl e \<Rightarrow> Inr (Exec_Dead ((''messaging send payload '' @ utf8 [0x53CD, 0x5E8F, 0x5217, 0x5316, 0x5931, 0x8D25] @ '': '') @ e))
           | Inr payload \<Rightarrow> execute_send load (xe_send env) payload), a))"

end
