(* ===== verification/Deeplink.thy ===== *)
theory Deeplink
  imports Notify_Delivery Wire_Json
begin

text \<open>
  The links of the scheme \<open>prmonitor\<close> (\<open>review/deeplink.rs\<close>): parsing, the signature of a notification
  link, the ring of links seen, and what opening a link does. A URL is parsed by the crate \<open>url\<close>: its scheme,
  host and decoded query pairs. The keyed hash, the digest, the hex codec and the bytes that serde writes for
  a request are parameters.
\<close>

section \<open>Parsing\<close>

record deeplink_url =
  dl_scheme :: string
  dl_host :: "string option"
  dl_query :: "(string \<times> string) list"

(* review/deeplink.rs 44-44 SCHEME *)
definition deeplink_scheme :: string where "deeplink_scheme = ''prmonitor''"

(* review/deeplink.rs 48-48 ACTION_REVIEW *)
definition action_review :: string where "action_review = ''review''"

(* review/deeplink.rs 49-49 ACTION_NOTIFY *)
definition action_notify :: string where "action_notify = ''notify''"

(* review/deeplink.rs 50-50 MAX_REVIEW_REFERENCE_CHARS *)
definition max_review_reference_chars :: nat where "max_review_reference_chars = 256"

(* review/deeplink.rs 55-55 DEFAULT_KIND *)
definition deeplink_default_kind :: string where "deeplink_default_kind = ''review''"

(* review/deeplink.rs 59-65 ParsedReviewRequest *)
record parsed_review_request =
  prr_reference :: string
  prr_pr_number :: nat
  prr_skill_key :: string
  prr_request_id :: string

(* review/deeplink.rs 67-71 ParsedNotify *)
record parsed_notify =
  pn_request :: send_notification_request
  pn_signature :: string

text \<open>
  The loop over the query pairs with one slot per known name: unknown names are skipped, and a second value
  for a slot is refused. The slots are the association list of the values seen.
\<close>

fun collect_slots :: "string list \<Rightarrow> (string \<times> string) list \<Rightarrow> (string \<times> string) list \<Rightarrow> (string \<times> string) list app_result" where
  "collect_slots names [] slots = Inr slots"
| "collect_slots names ((key, v) # pairs) slots =
     (if key \<notin> set names then collect_slots names pairs slots
      else if map_of slots key \<noteq> None then Inl (AppError ((''deeplink '' @ utf8 [0x91CD, 0x590D, 0x53C2, 0x6570] @ '': '') @ key))
      else collect_slots names pairs ((key, v) # slots))"

definition debug_opt_str :: "string option \<Rightarrow> string" where
  "debug_opt_str s = (case s of None \<Rightarrow> ''None'' | Some t \<Rightarrow> ''Some('' @ debug_str t @ '')'')"

text \<open>The checks of scheme and host that both parsers start with.\<close>

definition check_action :: "deeplink_url \<Rightarrow> string \<Rightarrow> unit app_result" where
  "check_action url action =
     (if dl_scheme url \<noteq> deeplink_scheme
      then Inl (AppError ((''deeplink scheme '' @ utf8 [0x975E, 0x6CD5, 0xFF08, 0x671F, 0x671B] @ '' prmonitor://'' @ utf8 [0xFF09] @ '': '') @ debug_str (dl_scheme url)))
      else if dl_host url \<noteq> Some action
      then Inl (AppError ((''deeplink action '' @ utf8 [0x975E, 0x6CD5, 0xFF08, 0x4EC5, 0x652F, 0x6301] @ '' '') @ action @ (utf8 [0xFF09] @ '': '') @ debug_opt_str (dl_host url)))
      else Inr ())"

definition parse_pr :: "string option \<Rightarrow> nat app_result" where
  "parse_pr raw =
     (case raw of
        None \<Rightarrow> Inl (AppError ((''deeplink '' @ utf8 [0x7F3A, 0x5C11] @ '' pr '' @ utf8 [0x53C2, 0x6570])))
      | Some s \<Rightarrow>
          (case parse_u64 s of
             None \<Rightarrow> Inl (AppError ((''deeplink pr '' @ utf8 [0x53C2, 0x6570, 0x975E, 0x6CD5, 0xFF08, 0x9700, 0x6B63, 0x6574, 0x6570, 0xFF09] @ '': '') @ debug_str s))
           | Some n \<Rightarrow> if n = 0 then Inl (AppError ((''deeplink pr '' @ utf8 [0x53C2, 0x6570, 0x975E, 0x6CD5, 0xFF08, 0x9700, 0x6B63, 0x6574, 0x6570, 0xFF09]))) else Inr n))"

fun choose_reference :: "string option \<Rightarrow> string option \<Rightarrow> string app_result" where
  "choose_reference (Some i) None = Inr i"
| "choose_reference None (Some r) = Inr r"
| "choose_reference (Some i) (Some r) = Inl (AppError ((''deeplink '' @ utf8 [0x540C, 0x65F6, 0x7ED9, 0x4E86] @ '' projectId '' @ utf8 [0x4E0E] @ '' repo'' @ utf8 [0xFF08, 0x53EA, 0x80FD, 0x5176, 0x4E00, 0xFF09])))"
| "choose_reference None None = Inl (AppError ((''deeplink '' @ utf8 [0x7F3A, 0x5C11] @ '' repo '' @ utf8 [0x6216] @ '' projectId'')))"

(* review/deeplink.rs 87-178 parse_review_deeplink *)
definition parse_review_deeplink :: "deeplink_url \<Rightarrow> parsed_review_request app_result" where
  "parse_review_deeplink url =
     try_bind (check_action url action_review) (\<lambda>_.
     try_bind (collect_slots [''pr'', ''repo'', ''projectId'', ''skill_key'', ''requestId''] (dl_query url) []) (\<lambda>slots.
     try_bind (parse_pr (map_of slots ''pr'')) (\<lambda>pr_number.
     try_bind (choose_reference (map_of slots ''projectId'') (map_of slots ''repo'')) (\<lambda>reference.
     let reference = trim reference in
     if reference = [] then Inl (AppError ((''deeplink repo/projectId '' @ utf8 [0x4E3A, 0x7A7A])))
     else if max_review_reference_chars < char_count reference
     then Inl (AppError ((''deeplink repo/projectId '' @ utf8 [0x8FC7, 0x957F, 0xFF08, 0x6700, 0x591A] @ '' 256 '' @ utf8 [0x5B57, 0x7B26, 0xFF09])))
     else
       let skey = migrate_legacy_skill_key (unwrap_or deeplink_default_kind (map_of slots ''skill_key'')) in
       try_bind (ok_or (map_of slots ''requestId'') (AppError ((''deeplink '' @ utf8 [0x7F3A, 0x5C11] @ '' requestId '' @ utf8 [0x53C2, 0x6570])))) (\<lambda>rid.
       try_bind (map_error AppError (parse_request_id rid)) (\<lambda>request_id.
       Inr \<lparr>prr_reference = reference, prr_pr_number = pr_number, prr_skill_key = skey, prr_request_id = request_id\<rparr>))))))"

text \<open>A value trimmed, where blank counts as missing.\<close>

definition non_blank :: "string option \<Rightarrow> string option" where
  "non_blank v = (case v of None \<Rightarrow> None | Some s \<Rightarrow> if trim s = [] then None else Some (trim s))"

definition notify_params :: "string list" where
  "notify_params = [''title'', ''body'', ''url'', ''projectId'', ''level'', ''channelId'', ''channelIds'', ''sig'']"

definition token_param :: string where "token_param = ''token''"

definition token_refused :: app_error where
  "token_refused = AppError ((''deeplink notify '' @ utf8 [0x4E0D, 0x652F, 0x6301] @ '' token '' @ utf8 [0x53C2, 0x6570, 0xFF0C, 0x8BF7, 0x4F7F, 0x7528] @ '' sig '' @ utf8 [0x7B7E, 0x540D]))"

text \<open>A parameter \<open>token\<close> is refused where it occurs, before later pairs are looked at.\<close>

fun notify_slots :: "(string \<times> string) list \<Rightarrow> (string \<times> string) list \<Rightarrow> (string \<times> string) list app_result" where
  "notify_slots [] slots = Inr slots"
| "notify_slots ((key, v) # pairs) slots =
     (if key = token_param then Inl token_refused
      else if key \<notin> set notify_params
      then notify_slots pairs slots
      else if map_of slots key \<noteq> None then Inl (AppError ((''deeplink '' @ utf8 [0x91CD, 0x590D, 0x53C2, 0x6570] @ '': '') @ key))
      else notify_slots pairs ((key, v) # slots))"

fun choose_channels :: "string option \<Rightarrow> string option \<Rightarrow> string list app_result" where
  "choose_channels (Some i) (Some is) = Inl (AppError ((''deeplink notify '' @ utf8 [0x540C, 0x65F6, 0x7ED9, 0x4E86] @ '' channelId '' @ utf8 [0x4E0E] @ '' channelIds'' @ utf8 [0xFF08, 0x53EA, 0x80FD, 0x5176, 0x4E00, 0xFF09])))"
| "choose_channels (Some i) None = Inr [trim i]"
| "choose_channels None (Some is) = Inr (filter (\<lambda>i. i \<noteq> []) (map trim (split_all CHR '','' is)))"
| "choose_channels None None = Inr []"

(* review/deeplink.rs 187-284 parse_notify_deeplink *)
definition parse_notify_deeplink :: "deeplink_url \<Rightarrow> parsed_notify app_result" where
  "parse_notify_deeplink url =
     try_bind (check_action url action_notify) (\<lambda>_.
     try_bind (notify_slots (dl_query url) []) (\<lambda>slots.
     let slot = (\<lambda>k. non_blank (map_of slots k)) in
     try_bind (ok_or (slot ''title'') (AppError ((''deeplink notify '' @ utf8 [0x7F3A, 0x5C11] @ '' title '' @ utf8 [0x53C2, 0x6570])))) (\<lambda>title.
     if slot ''body'' = None \<and> slot ''url'' = None then Inl (AppError ((''deeplink notify '' @ utf8 [0x7F3A, 0x5C11] @ '' body '' @ utf8 [0x6216] @ '' url'')))
     else
       try_bind (case slot ''level'' of None \<Rightarrow> Inr None
                 | Some v \<Rightarrow> map_error AppError (try_bind (notification_level_from_str v) (\<lambda>l. Inr (Some l)))) (\<lambda>level.
       try_bind (choose_channels (map_of slots ''channelId'') (map_of slots ''channelIds'')) (\<lambda>channel_ids.
       try_bind (ok_or (slot ''sig'') (AppError ((''deeplink notify '' @ utf8 [0x7F3A, 0x5C11] @ '' sig '' @ utf8 [0x53C2, 0x6570])))) (\<lambda>signature.
       Inr \<lparr>pn_request = \<lparr>snr_level = level, snr_title = title, snr_body = slot ''body'', snr_url = slot ''url'',
              snr_project_id = slot ''projectId'', snr_channel_ids = channel_ids\<rparr>,
            pn_signature = signature\<rparr>))))))"

section \<open>Signatures\<close>

record deeplink_env =
  dx_to_vec :: "send_notification_request \<Rightarrow> string + string"
  dx_hmac_sha256 :: "string \<Rightarrow> string \<Rightarrow> string option"
  dx_sha256_hex :: "string \<Rightarrow> string"
  dx_hex_decode :: "string \<Rightarrow> string option"
  dx_parse_url :: "string \<Rightarrow> parsed_url option"
  dx_submit :: submit_env

(* review/deeplink.rs 385-396 notify_deeplink_mac *)
definition notify_deeplink_mac :: "deeplink_env \<Rightarrow> send_notification_request \<Rightarrow> string \<Rightarrow> string app_result" where
  "notify_deeplink_mac env request secret =
     (let secret = trim secret in
      if secret = [] then Inl (AppError ((''deeplink notify '' @ utf8 [0x7B7E, 0x540D, 0x5BC6, 0x94A5, 0x4E3A, 0x7A7A])))
      else
        try_bind (map_error (\<lambda>e. AppError ((''deeplink notify '' @ utf8 [0x7B7E, 0x540D, 0x8F7D, 0x8377, 0x5E8F, 0x5217, 0x5316, 0x5931, 0x8D25, 0xFF1A]) @ e)) (dx_to_vec env request)) (\<lambda>bytes.
        ok_or (dx_hmac_sha256 env secret bytes) (AppError ((''deeplink notify '' @ utf8 [0x7B7E, 0x540D, 0x5BC6, 0x94A5, 0x65E0, 0x6548])))))"

(* review/deeplink.rs 407-419 verify_notify_deeplink_signature *)
definition verify_notify_deeplink_signature ::
    "deeplink_env \<Rightarrow> app_config app_result \<Rightarrow> send_notification_request \<Rightarrow> string \<Rightarrow> unit app_result" where
  "verify_notify_deeplink_signature env load request supplied =
     try_bind load (\<lambda>cfg.
     let configured = trim (cfg_local_api_token cfg) in
     try_bind (ok_or (dx_hex_decode env supplied) (AppError ((''deeplink notify sig '' @ utf8 [0x975E, 0x6CD5])))) (\<lambda>supplied.
     try_bind (notify_deeplink_mac env request configured) (\<lambda>mac.
     if mac = supplied then Inr () else Inl (AppError ((''deeplink notify sig '' @ utf8 [0x65E0, 0x6548]))))))"

(* review/deeplink.rs 421-426 notify_deeplink_dedupe_prefix *)
definition notify_deeplink_dedupe_prefix :: "deeplink_env \<Rightarrow> send_notification_request \<Rightarrow> string app_result" where
  "notify_deeplink_dedupe_prefix env request =
     try_bind (map_error (\<lambda>e. AppError ((''deeplink notify '' @ utf8 [0x5E8F, 0x5217, 0x5316, 0x5931, 0x8D25] @ '': '') @ e)) (dx_to_vec env request)) (\<lambda>bytes.
     Inr (''deeplink-notify:'' @ dx_sha256_hex env bytes))"

section \<open>The ring of links seen\<close>

(* review/deeplink.rs 74-74 NOTIFY_DEEPLINK_DEDUPE_CAP *)
definition notify_deeplink_dedupe_cap :: nat where "notify_deeplink_dedupe_cap = 256"

(* review/deeplink.rs 428-439 remember_notify_deeplink_key *)
definition remember_notify_deeplink_key :: "string \<Rightarrow> string list \<Rightarrow> bool \<times> string list" where
  "remember_notify_deeplink_key key seen =
     (if key \<in> set seen then (False, seen)
      else (True, (if notify_deeplink_dedupe_cap \<le> length seen then tl seen else seen) @ [key]))"

(* review/deeplink.rs 441-445 notify_deeplink_key_seen *)
definition notify_deeplink_key_seen :: "string \<Rightarrow> string list \<Rightarrow> bool" where
  "notify_deeplink_key_seen key seen \<longleftrightarrow> key \<in> set seen"

section \<open>Opening links\<close>

text \<open>
  The application as the links see it: the ring, how often the window was brought to the front, and the
  notices of failure handed to the desktop, whose own failure is only logged.
\<close>

record deeplink_app =
  dk_world :: world
  dk_seen :: "string list"
  dk_focused :: nat
  dk_notices :: "notification list"

(* review/deeplink.rs 545-551 focus_main_window *)
definition focus_main_window :: "deeplink_app \<Rightarrow> deeplink_app" where
  "focus_main_window a = a\<lparr>dk_focused := Suc (dk_focused a)\<rparr>"

(* review/deeplink.rs 526-541 notify_failure *)
definition notify_failure :: "string \<Rightarrow> string \<Rightarrow> deeplink_app \<Rightarrow> deeplink_app" where
  "notify_failure title body a =
     a\<lparr>dk_notices := dk_notices a @ [\<lparr>ntf_level = Warning, ntf_title = title, ntf_url = [], ntf_body = body,
       ntf_project_id = []\<rparr>]\<rparr>"

(* state.rs 164-174 NotificationSender::send *)
definition notification_sender_send ::
    "deeplink_env \<Rightarrow> app_config app_result \<Rightarrow> send_notification_request \<Rightarrow> string option \<Rightarrow> world
      \<Rightarrow> int list app_result \<times> world" where
  "notification_sender_send env load request dedupe_prefix w =
     enqueue_notification_after (dx_parse_url env) load request dedupe_prefix 0 w"

(* review/deeplink.rs 319-383 handle_notify_one *)
definition handle_notify_one :: "deeplink_env \<Rightarrow> app_config app_result \<Rightarrow> deeplink_url \<Rightarrow> deeplink_app \<Rightarrow> deeplink_app" where
  "handle_notify_one env load url a =
     (case parse_notify_deeplink url of
        Inl e \<Rightarrow> notify_failure ((''prmonitor notification '' @ utf8 [0x672A, 0x5165, 0x961F])) ((utf8 [0x901A, 0x77E5, 0x94FE, 0x63A5, 0x683C, 0x5F0F, 0x6216, 0x53C2, 0x6570, 0x65E0, 0x6548, 0xFF0C, 0x672A, 0x5165, 0x961F, 0x901A, 0x77E5])) a
      | Inr parsed \<Rightarrow>
     (case verify_notify_deeplink_signature env load (pn_request parsed) (pn_signature parsed) of
        Inl e \<Rightarrow> notify_failure ((''prmonitor notification '' @ utf8 [0x672A, 0x5165, 0x961F])) ((utf8 [0x901A, 0x77E5, 0x94FE, 0x63A5, 0x672A, 0x6388, 0x6743, 0xFF0C, 0x672A, 0x5165, 0x961F, 0x901A, 0x77E5])) a
      | Inr _ \<Rightarrow>
     (case notify_deeplink_dedupe_prefix env (pn_request parsed) of
        Inl e \<Rightarrow> notify_failure ((''prmonitor notification '' @ utf8 [0x672A, 0x5165, 0x961F])) ((utf8 [0x901A, 0x77E5, 0x5185, 0x5BB9, 0x65E0, 0x6548, 0xFF0C, 0x672A, 0x5165, 0x961F, 0x901A, 0x77E5])) a
      | Inr dedupe_prefix \<Rightarrow>
          if notify_deeplink_key_seen dedupe_prefix (dk_seen a) then a
          else
            (case notification_sender_send env load (pn_request parsed) (Some dedupe_prefix) (dk_world a) of
               (Inr ids, w) \<Rightarrow>
                 a\<lparr>dk_world := w, dk_seen := snd (remember_notify_deeplink_key dedupe_prefix (dk_seen a))\<rparr>
             | (Inl e, w) \<Rightarrow>
                 notify_failure ((''prmonitor notification '' @ utf8 [0x672A, 0x5165, 0x961F])) ((utf8 [0x901A, 0x77E5, 0x53C2, 0x6570, 0x65E0, 0x6548, 0x6216, 0x6E20, 0x9053, 0x4E0D, 0x53EF, 0x7528, 0xFF0C, 0x672A, 0x5165, 0x961F, 0x901A, 0x77E5]))
                   (a\<lparr>dk_world := w\<rparr>)))))"

(* model.rs 1396-1398 RedactedNotificationBody::review_trigger_rejected *)
definition review_trigger_rejected :: "nat \<Rightarrow> string" where
  "review_trigger_rejected pr_number = ''PR #'' @ dec pr_number @ (utf8 [0xFF1A, 0x9879, 0x76EE, 0x65E0, 0x6548, 0x6216, 0x8BE5] @ '' review '' @ utf8 [0x5DF2, 0x5728, 0x8FDB, 0x884C, 0x4E2D])"

definition deeplink_extra_args :: "string \<Rightarrow> string" where
  "deeplink_extra_args skey =
     (if skey = ''check'' \<or> skey = skill_key default_skill_name ''--check'' then ''--check'' else [])"

(* review/deeplink.rs 447-511 handle_review_one *)
definition handle_review_one :: "deeplink_env \<Rightarrow> app_config app_result \<Rightarrow> deeplink_url \<Rightarrow> deeplink_app \<Rightarrow> deeplink_app" where
  "handle_review_one env load url a =
     (case parse_review_deeplink url of
        Inl e \<Rightarrow> notify_failure ((''prmonitor deeplink '' @ utf8 [0x65E0, 0x6548])) ((utf8 [0x94FE, 0x63A5, 0x683C, 0x5F0F, 0x6216, 0x53C2, 0x6570, 0x65E0, 0x6548, 0xFF0C, 0x672A, 0x89E6, 0x53D1] @ '' review'')) a
      | Inr r \<Rightarrow>
     (case submit_review (dx_submit env) load (prr_reference r) (prr_pr_number r) (deeplink_extra_args (prr_skill_key r))
             (prr_request_id r) DeepLink True (dk_world a) of
        (Inl e, w) \<Rightarrow>
          notify_failure ((''prmonitor review '' @ utf8 [0x672A, 0x89E6, 0x53D1])) (review_trigger_rejected (prr_pr_number r)) (a\<lparr>dk_world := w\<rparr>)
      | (Inr receipt, w) \<Rightarrow> focus_main_window (a\<lparr>dk_world := w\<rparr>)))"

(* review/deeplink.rs 299-317 handle_one *)
definition handle_one :: "deeplink_env \<Rightarrow> app_config app_result \<Rightarrow> deeplink_url \<Rightarrow> deeplink_app \<Rightarrow> deeplink_app" where
  "handle_one env load url a =
     (if dl_host url = Some action_review then handle_review_one env load url a
      else if dl_host url = Some action_notify then handle_notify_one env load url a
      else notify_failure ((''prmonitor deeplink '' @ utf8 [0x65E0, 0x6548])) ((utf8 [0x94FE, 0x63A5, 0x683C, 0x5F0F, 0x6216, 0x53C2, 0x6570, 0x65E0, 0x6548, 0xFF0C, 0x672A, 0x89E6, 0x53D1, 0x64CD, 0x4F5C])) a)"

text \<open>
  The window is focused, then every link is opened by a task of its own; the tasks run in any order, here
  the order of the list.
\<close>

(* review/deeplink.rs 291-296 handle_review_deeplink *)
definition handle_review_deeplink ::
    "deeplink_env \<Rightarrow> app_config app_result \<Rightarrow> deeplink_url list \<Rightarrow> deeplink_app \<Rightarrow> deeplink_app" where
  "handle_review_deeplink env load urls a = fold (handle_one env load) urls (focus_main_window a)"

end
