(* ===== verification/Deeplink_Properties.thy ===== *)
theory Deeplink_Properties
  imports Deeplink External_Properties
begin

text \<open>
  What opening a link can do: a notification link acts only with a signature under the local token and only
  once; a review link with a skill that nobody knows starts the default review.
\<close>

section \<open>Signed links\<close>

definition signed_link :: "deeplink_env \<Rightarrow> app_config app_result \<Rightarrow> deeplink_url \<Rightarrow> bool" where
  "signed_link env load url \<longleftrightarrow>
     (\<exists>cfg parsed bytes mac. load = Inr cfg \<and> parse_notify_deeplink url = Inr parsed \<and>
        trim (cfg_local_api_token cfg) \<noteq> [] \<and> dx_to_vec env (pn_request parsed) = Inr bytes \<and>
        dx_hex_decode env (pn_signature parsed) = Some mac \<and>
        dx_hmac_sha256 env (trim (trim (cfg_local_api_token cfg))) bytes = Some mac)"

lemma notify_failure_sel [simp]:
  "dk_world (notify_failure t b a) = dk_world a" "dk_seen (notify_failure t b a) = dk_seen a"
  "dk_focused (notify_failure t b a) = dk_focused a"
  by (simp_all add: notify_failure_def)

lemma focus_sel [simp]:
  "dk_world (focus_main_window a) = dk_world a" "dk_seen (focus_main_window a) = dk_seen a"
  "dk_notices (focus_main_window a) = dk_notices a"
  by (simp_all add: focus_main_window_def)

lemma trim_trim_Nil: "trim (trim s) \<noteq> [] \<Longrightarrow> trim s \<noteq> []"
  by auto

lemma verified_link_signed:
  assumes "parse_notify_deeplink url = Inr parsed"
    and "verify_notify_deeplink_signature env load (pn_request parsed) (pn_signature parsed) = Inr u"
  shows "signed_link env load url"
  using assms
  by (auto simp: verify_notify_deeplink_signature_def notify_deeplink_mac_def signed_link_def try_bind_Inr_iff
      ok_or_Inr_iff Let_def trim_trim_Nil split: if_splits)

lemma unsigned_notify_inert:
  assumes "\<not> signed_link env load url"
  shows "dk_world (handle_notify_one env load url a) = dk_world a \<and> dk_seen (handle_notify_one env load url a) = dk_seen a"
proof (cases "parse_notify_deeplink url")
  case (Inr parsed)
  with assms verified_link_signed obtain e where
    "verify_notify_deeplink_signature env load (pn_request parsed) (pn_signature parsed) = Inl e"
    by (cases "verify_notify_deeplink_signature env load (pn_request parsed) (pn_signature parsed)") blast+
  with Inr show ?thesis by (simp add: handle_notify_one_def)
qed (simp add: handle_notify_one_def)

lemma unsigned_one_inert:
  assumes "dl_host url \<noteq> Some ''review''" and "\<not> signed_link env load url"
  shows "dk_world (handle_one env load url a) = dk_world a \<and> dk_seen (handle_one env load url a) = dk_seen a"
  using assms unsigned_notify_inert by (simp add: handle_one_def action_review_def)

text \<open>
  C20. Links that are not review links change nothing of the program unless one of them is a notification
  link with a signature: the keyed hash of the request, under the local token, which must not be blank. Any
  other link only brings the window to the front and shows a notice.
\<close>

theorem unsigned_links_inert:
  assumes "\<And>url. url \<in> set urls \<Longrightarrow> dl_host url \<noteq> Some ''review''"
    and "\<And>url. url \<in> set urls \<Longrightarrow> \<not> signed_link env load url"
  shows "dk_world (handle_review_deeplink env load urls a) = dk_world a \<and>
    dk_seen (handle_review_deeplink env load urls a) = dk_seen a"
proof -
  have "dk_world (fold (handle_one env load) urls b) = dk_world b \<and> dk_seen (fold (handle_one env load) urls b) = dk_seen b" for b
    using assms by (induction urls arbitrary: b) (auto simp: unsigned_one_inert)
  then show ?thesis by (simp add: handle_review_deeplink_def)
qed

text \<open>Two concrete environments: hashing is concatenation, and the request is written as its title.\<close>

definition link_env :: deeplink_env where
  "link_env = \<lparr>dx_to_vec = (\<lambda>r. Inr (snr_title r)), dx_hmac_sha256 = (\<lambda>k m. Some (k @ m)), dx_sha256_hex = (\<lambda>s. s),
     dx_hex_decode = Some, dx_parse_url = (\<lambda>u. None),
     dx_submit = \<lparr>se_fs = no_files, se_is_dir = (\<lambda>p. True), se_digest = (\<lambda>q. [])\<rparr>\<rparr>"

definition notify_link :: "string \<Rightarrow> deeplink_url" where
  "notify_link sig = \<lparr>dl_scheme = ''prmonitor'', dl_host = Some ''notify'',
     dl_query = [(''title'', ''t''), (''body'', ''b''), (''projectId'', ''p''), (''sig'', sig)]\<rparr>"

lemma notify_link_parsed:
  assumes "trim sig = sig" and "sig \<noteq> []"
  shows "parse_notify_deeplink (notify_link sig) = Inr \<lparr>pn_request = sample_request (Some ''p''), pn_signature = sig\<rparr>"
  using assms
  by (simp add: parse_notify_deeplink_def notify_link_def check_action_def deeplink_scheme_def action_notify_def
      token_param_def notify_params_def non_blank_def sample_request_def Let_def)

definition closed_app :: deeplink_app where
  "closed_app = \<lparr>dk_world = idle_world empty_db, dk_seen = [], dk_focused = 0, dk_notices = []\<rparr>"

lemma trim_kt: "trim ''kt'' = ''kt''" "trim ''k'' = ''k''" "trim ''xt'' = ''xt''"
  by (rule trim_alnum, simp_all add: is_ascii_alphanumeric_def is_ascii_digit_def byte_of_def)+

theorem unsigned_links_inert_witness:
  "dk_world (handle_review_deeplink link_env (Inr (desktop_config\<lparr>cfg_local_api_token := ''k''\<rparr>)) [notify_link ''xt''] closed_app)
     = dk_world closed_app \<and> \<not> signed_link link_env (Inr (desktop_config\<lparr>cfg_local_api_token := ''k''\<rparr>)) (notify_link ''xt'')
   \<and> signed_link link_env (Inr (desktop_config\<lparr>cfg_local_api_token := ''k''\<rparr>)) (notify_link ''kt'')"
proof -
  have bad: "\<not> signed_link link_env (Inr (desktop_config\<lparr>cfg_local_api_token := ''k''\<rparr>)) (notify_link ''xt'')"
    and good: "signed_link link_env (Inr (desktop_config\<lparr>cfg_local_api_token := ''k''\<rparr>)) (notify_link ''kt'')"
    by (simp_all add: signed_link_def notify_link_parsed trim_kt link_env_def sample_request_def)
  have "dk_world (handle_review_deeplink link_env (Inr (desktop_config\<lparr>cfg_local_api_token := ''k''\<rparr>)) [notify_link ''xt''] closed_app)
     = dk_world closed_app \<and> dk_seen (handle_review_deeplink link_env (Inr (desktop_config\<lparr>cfg_local_api_token := ''k''\<rparr>)) [notify_link ''xt''] closed_app) = dk_seen closed_app"
  proof (rule unsigned_links_inert)
    fix url
    assume u: "url \<in> set [notify_link ''xt'']"
    then show "dl_host url \<noteq> Some ''review''" by (simp add: notify_link_def)
    from u bad show "\<not> signed_link link_env (Inr (desktop_config\<lparr>cfg_local_api_token := ''k''\<rparr>)) url" by simp
  qed
  with bad good show ?thesis by blast
qed

section \<open>Opening a link again\<close>

lemma after_in_tx:
  assumes "enqueue_notification_after pu (Inr cfg) request pre delay w = (Inr ids, w')"
  shows "\<exists>nonces now. enqueue_notification_in_tx pu nonces cfg request pre delay now (w_db w) = Inr (ids, w_db w')"
proof -
  from assms obtain n cs rows where rows: "normalize_request pu request = Inr n"
    "selected_channels_from_settings (cfg_channels cfg) (nr_channel_ids n) = Inr cs"
    "prepare_delivery_rows n cs pre = Inr rows"
    by (auto simp: enqueue_notification_after_def selected_channels_def try_bind_Inr_iff split: sum.splits)
  obtain r0 d0 where e: "with_tx (enqueue_prepared_in_tx (\<lambda>k. w_uuids w (w_uuid w + k)) 0 rows delay (w_clock w (w_ticks w))) (w_db w)
      = (r0, d0)" by (cases "with_tx (enqueue_prepared_in_tx (\<lambda>k. w_uuids w (w_uuid w + k)) 0 rows delay (w_clock w (w_ticks w))) (w_db w)")
  from assms e rows have "r0 = Inr ids \<and> d0 = w_db w'"
    by (cases r0) (auto simp: enqueue_notification_after_def selected_channels_def on_db_def now_epoch_def)
  with e have "enqueue_prepared_in_tx (\<lambda>k. w_uuids w (w_uuid w + k)) 0 rows delay (w_clock w (w_ticks w)) (w_db w) = Inr (ids, w_db w')"
    by (simp add: with_tx_Inr_iff)
  with rows show ?thesis by (auto simp: enqueue_notification_in_tx_def)
qed

lemma after_unchanged:
  assumes "\<And>nonces now. enqueue_notification_in_tx pu nonces cfg request pre delay now (w_db w) = Inr (ids, w_db w)"
  shows "\<exists>w'. enqueue_notification_after pu (Inr cfg) request pre delay w = (Inr ids, w') \<and> w_db w' = w_db w"
proof -
  from assms obtain n cs rows where *: "normalize_request pu request = Inr n"
    "selected_channels_from_settings (cfg_channels cfg) (nr_channel_ids n) = Inr cs"
    "prepare_delivery_rows n cs pre = Inr rows"
    by (fastforce simp: enqueue_notification_in_tx_def try_bind_Inr_iff)
  with assms have "enqueue_prepared_in_tx nonces 0 rows delay now (w_db w) = Inr (ids, w_db w)" for nonces now
    by (simp add: enqueue_notification_in_tx_def)
  with * show ?thesis
    by (simp add: enqueue_notification_after_def selected_channels_def with_tx_def on_db_def now_epoch_def Let_def)
qed

lemma remembered_changes: "k \<notin> set seen \<Longrightarrow> snd (remember_notify_deeplink_key k seen) \<noteq> seen"
proof
  assume "k \<notin> set seen" and "snd (remember_notify_deeplink_key k seen) = seen"
  moreover have "k \<in> set (snd (remember_notify_deeplink_key k seen))"
    by (simp add: remember_notify_deeplink_key_def)
  ultimately show False by simp
qed

lemma accepted_linkE:
  assumes "dk_seen (handle_notify_one env load url a) \<noteq> dk_seen a"
  obtains parsed u pre ids w where "parse_notify_deeplink url = Inr parsed"
    and "verify_notify_deeplink_signature env load (pn_request parsed) (pn_signature parsed) = Inr u"
    and "notify_deeplink_dedupe_prefix env (pn_request parsed) = Inr pre"
    and "enqueue_notification_after (dx_parse_url env) load (pn_request parsed) (Some pre) 0 (dk_world a) = (Inr ids, w)"
    and "dk_world (handle_notify_one env load url a) = w"
  using assms
  by (auto simp: handle_notify_one_def notification_sender_send_def split: sum.splits prod.splits if_splits)

text \<open>
  C15. A notification link is enqueued once. When it was accepted, opening it again sends nothing and shows
  no notice, in any later state that still has the outbox rows, whatever became of them, and whatever links
  the ring has forgotten, so also when two openings race between looking at the ring and writing to it, or
  after a restart.
\<close>

theorem notify_link_enqueued_once:
  assumes "producer_consistent (w_db (dk_world a))"
    and "dk_seen (handle_notify_one env (Inr cfg) url a) \<noteq> dk_seen a"
    and "\<And>p k i. any_status_id p k (w_db (dk_world (handle_notify_one env (Inr cfg) url a))) = Some i \<Longrightarrow>
      any_status_id p k (w_db (dk_world b)) = Some i"
  shows "w_db (dk_world (handle_notify_one env (Inr cfg) url b)) = w_db (dk_world b) \<and>
    dk_notices (handle_notify_one env (Inr cfg) url b) = dk_notices b"
proof -
  from assms(2) obtain parsed u pre ids w where p: "parse_notify_deeplink url = Inr parsed"
    and v: "verify_notify_deeplink_signature env (Inr cfg) (pn_request parsed) (pn_signature parsed) = Inr u"
    and pre: "notify_deeplink_dedupe_prefix env (pn_request parsed) = Inr pre"
    and sent: "enqueue_notification_after (dx_parse_url env) (Inr cfg) (pn_request parsed) (Some pre) 0 (dk_world a) = (Inr ids, w)"
    and w: "dk_world (handle_notify_one env (Inr cfg) url a) = w"
    by (rule accepted_linkE)
  from after_in_tx [OF sent] obtain nonces now where
    first: "enqueue_notification_in_tx (dx_parse_url env) nonces cfg (pn_request parsed) (Some pre) 0 now (w_db (dk_world a)) = Inr (ids, w_db w)"
    by blast
  have "enqueue_notification_in_tx (dx_parse_url env) nonces' cfg (pn_request parsed) (Some pre) 0 later (w_db (dk_world b)) =
      Inr (ids, w_db (dk_world b))" for nonces' later
    using notification_prefix_idempotent [OF assms(1) first] assms(3) w by blast
  from after_unchanged [OF this] obtain w' where
    "enqueue_notification_after (dx_parse_url env) (Inr cfg) (pn_request parsed) (Some pre) 0 (dk_world b) = (Inr ids, w')"
    "w_db w' = w_db (dk_world b)" by blast
  with p v pre show ?thesis by (simp add: handle_notify_one_def notification_sender_send_def)
qed

lemma first_opening:
  "dk_seen (handle_notify_one link_env (Inr (desktop_config\<lparr>cfg_local_api_token := ''k''\<rparr>)) (notify_link ''kt'') closed_app)
     = [''deeplink-notify:t'']"
proof -
  have "trim (''dedupe:'' @ s) \<noteq> []" for s
    by (rule trim_not_Nil [of "CHR ''d''"]) (simp_all add: is_ascii_alphanumeric_def byte_of_def)
  moreover have "trim ''deeplink-notify:t:desktop'' \<noteq> []"
    by (rule trim_not_Nil [of "CHR ''d''"]) (simp_all add: is_ascii_alphanumeric_def byte_of_def)
  ultimately obtain key where pr: "producer_for_dedupe ''p'' ''deeplink-notify:t:desktop'' = Inr key" and key: "key \<noteq> []"
    by (auto simp: producer_for_dedupe_def new_key_def non_empty_def)
  have "\<exists>ids w. enqueue_notification_after (\<lambda>u. None) (Inr (desktop_config\<lparr>cfg_local_api_token := ''k''\<rparr>))
      (sample_request (Some ''p'')) (Some ''deeplink-notify:t'') 0 (idle_world empty_db) = (Inr ids, w)"
    by (simp add: enqueue_notification_after_def sample_request_normal default_config_def desktop_channel_def
        selected_channels_def selected_channels_from_settings_def prepare_delivery_rows_def enqueue_one_prepared_def
        id_by_dedupe_key_any_status_in_tx_def empty_db_def empty_table_def enqueue_in_tx_def default_producer_key_def
        prepared_row_of_def prepared_input_def pr key enqueue_inner_tx_def sqlite_epoch_def i64_max_def sat_add_u64_def
        u64_max_def tbl_next_def outbox_insertable_def outbox_check_def enqueue_row_def outbox_kinds_def
        outbox_statuses_def thread_check_def unique_index_def kind_as_wire_def with_tx_def on_db_def idle_world_def now_epoch_def
        Let_def split: option.split)
  then obtain ids w where "enqueue_notification_after (\<lambda>u. None) (Inr (desktop_config\<lparr>cfg_local_api_token := ''k''\<rparr>))
      (sample_request (Some ''p'')) (Some ''deeplink-notify:t'') 0 (idle_world empty_db) = (Inr ids, w)" by blast
  then show ?thesis
    by (simp add: handle_notify_one_def notify_link_parsed trim_kt verify_notify_deeplink_signature_def notify_deeplink_mac_def
        notify_deeplink_dedupe_prefix_def link_env_def sample_request_def notify_deeplink_key_seen_def closed_app_def
        notification_sender_send_def remember_notify_deeplink_key_def notify_deeplink_dedupe_cap_def)
qed

theorem notify_link_enqueued_once_witness:
  "\<exists>a. a = handle_notify_one link_env (Inr (desktop_config\<lparr>cfg_local_api_token := ''k''\<rparr>)) (notify_link ''kt'') closed_app \<and>
     dk_seen a = [''deeplink-notify:t''] \<and>
     w_db (dk_world (handle_notify_one link_env (Inr (desktop_config\<lparr>cfg_local_api_token := ''k''\<rparr>)) (notify_link ''kt'')
       (a\<lparr>dk_seen := []\<rparr>))) = w_db (dk_world a)"
proof -
  define a where "a = handle_notify_one link_env (Inr (desktop_config\<lparr>cfg_local_api_token := ''k''\<rparr>)) (notify_link ''kt'') closed_app"
  have c: "producer_consistent (w_db (dk_world closed_app))"
    by (simp add: producer_consistent_def closed_app_def idle_world_def empty_db_def empty_table_def)
  have seen: "dk_seen (handle_notify_one link_env (Inr (desktop_config\<lparr>cfg_local_api_token := ''k''\<rparr>)) (notify_link ''kt'') closed_app)
      \<noteq> dk_seen closed_app"
    by (simp add: first_opening) (simp add: closed_app_def)
  from notify_link_enqueued_once [OF c seen, of "a\<lparr>dk_seen := []\<rparr>"] show ?thesis
    using first_opening unfolding a_def by (intro exI conjI) (rule refl, simp, simp)
qed

section \<open>Unknown skills\<close>

lemma map_of_twice: "map_of s k = map_of t k \<Longrightarrow> map_of (x # s) k = map_of (x # t) k"
  by (cases x) simp

lemma collect_same:
  assumes "\<And>k. k \<noteq> n \<Longrightarrow> map_of s k = map_of t k" and "n \<notin> fst ` set q"
  shows "(\<exists>e. collect_slots names q s = Inl e \<and> collect_slots names q t = Inl e) \<or>
    (\<exists>s' t'. collect_slots names q s = Inr s' \<and> collect_slots names q t = Inr t' \<and>
      (\<forall>k. k \<noteq> n \<longrightarrow> map_of s' k = map_of t' k) \<and> map_of s' n = map_of s n \<and> map_of t' n = map_of t n)"
  using assms
proof (induction q arbitrary: s t)
  case (Cons p q)
  obtain k v where p: "p = (k, v)" by (cases p)
  with Cons.prems have k: "k \<noteq> n" and q: "n \<notin> fst ` set q" by auto
  show ?case
  proof (cases "k \<in> set names \<and> map_of t k = None")
    case True
    have "\<And>j. j \<noteq> n \<Longrightarrow> map_of ((k, v) # s) j = map_of ((k, v) # t) j" using Cons.prems(1) by simp
    from Cons.IH [OF this q] True k Cons.prems(1) [OF k] p show ?thesis by (auto simp: fun_upd_def)
  next
    case False
    with Cons.IH [OF Cons.prems(1) q] Cons.prems(1) [OF k] p show ?thesis by auto
  qed
qed simp

lemma collect_append:
  "collect_slots names (p @ q) s = try_bind (collect_slots names p s) (collect_slots names q)"
  by (induction p arbitrary: s) auto

lemma collect_keeps:
  "collect_slots names p s = Inr t \<Longrightarrow> n \<notin> fst ` set p \<Longrightarrow> map_of t n = map_of s n"
  by (induction p arbitrary: s) (auto split: if_splits)

lemma collect_with_extra:
  assumes "n \<in> set names" "n \<notin> fst ` set p" "n \<notin> fst ` set q"
  shows "(\<exists>e. collect_slots names (p @ (n, v) # q) [] = Inl e \<and> collect_slots names (p @ q) [] = Inl e) \<or>
    (\<exists>s' t'. collect_slots names (p @ (n, v) # q) [] = Inr s' \<and> collect_slots names (p @ q) [] = Inr t' \<and>
      (\<forall>k. k \<noteq> n \<longrightarrow> map_of s' k = map_of t' k) \<and> map_of s' n = Some v \<and> map_of t' n = None)"
proof (cases "collect_slots names p []")
  case (Inr t)
  from collect_keeps [OF Inr assms(2)] have t: "map_of t n = None" by simp
  from collect_same [of n "(n, v) # t" t q names, OF _ assms(3)] assms(1) t Inr
  show ?thesis by (simp add: collect_append)
qed (simp add: collect_append)

lemma extra_args_legacy:
  assumes "v \<noteq> ''check''" and "v \<noteq> skill_key default_skill_name ''--check''"
  shows "deeplink_extra_args (migrate_legacy_skill_key v) = []"
proof -
  have "skill_key default_skill_name [] \<noteq> ''check'' \<and> skill_key default_skill_name [] \<noteq> skill_key default_skill_name ''--check''"
  proof -
    have "trim ''--check'' = ''--check''"
      by (rule graphic_trim) (simp add: graphic_def byte_of_def)
    then show ?thesis by (simp add: skill_key_def default_skill_name_def)
  qed
  with assms show ?thesis by (simp add: deeplink_extra_args_def migrate_legacy_skill_key_def)
qed

lemma check_action_query: "check_action (u\<lparr>dl_query := z\<rparr>) action = check_action u action"
  unfolding check_action_def by simp

lemma parsed_with_skill:
  assumes "''skill_key'' \<notin> fst ` set p" "''skill_key'' \<notin> fst ` set q"
  shows "(\<exists>e. parse_review_deeplink (u\<lparr>dl_query := p @ (''skill_key'', v) # q\<rparr>) = Inl e \<and>
      parse_review_deeplink (u\<lparr>dl_query := p @ q\<rparr>) = Inl e) \<or>
    (\<exists>r. parse_review_deeplink (u\<lparr>dl_query := p @ (''skill_key'', v) # q\<rparr>) = Inr (r\<lparr>prr_skill_key := migrate_legacy_skill_key v\<rparr>) \<and>
      parse_review_deeplink (u\<lparr>dl_query := p @ q\<rparr>) = Inr (r\<lparr>prr_skill_key := migrate_legacy_skill_key ''review''\<rparr>))"
proof (cases "check_action u action_review")
  case (Inl e)
  then show ?thesis by (simp add: parse_review_deeplink_def check_action_query)
next
  case (Inr x)
  then have c: "check_action (u\<lparr>dl_query := z\<rparr>) action_review = Inr x" for z by (simp add: check_action_query)
  let ?names = "[''pr'', ''repo'', ''projectId'', ''skill_key'', ''requestId'']"
  have "''skill_key'' \<in> set ?names" by simp
  from collect_with_extra [OF this assms, of v] show ?thesis
  proof (elim disjE exE conjE)
    fix e
    assume "collect_slots ?names (p @ (''skill_key'', v) # q) [] = Inl e" "collect_slots ?names (p @ q) [] = Inl e"
    with c show ?thesis by (simp add: parse_review_deeplink_def)
  next
    fix s' t'
    assume s: "collect_slots ?names (p @ (''skill_key'', v) # q) [] = Inr s'" "collect_slots ?names (p @ q) [] = Inr t'"
      and same: "\<forall>k. k \<noteq> ''skill_key'' \<longrightarrow> map_of s' k = map_of t' k"
      and v: "map_of s' ''skill_key'' = Some v" "map_of t' ''skill_key'' = None"
    from same have eqs: "map_of s' ''pr'' = map_of t' ''pr''" "map_of s' ''repo'' = map_of t' ''repo''"
      "map_of s' ''projectId'' = map_of t' ''projectId''" "map_of s' ''requestId'' = map_of t' ''requestId''"
      by simp_all
    show ?thesis
    proof (cases "try_bind (parse_pr (map_of t' ''pr'')) (\<lambda>n. try_bind (choose_reference (map_of t' ''projectId'') (map_of t' ''repo'')) (\<lambda>r. Inr (n, r)))")
      case (Inl e)
      with c s eqs show ?thesis
        by (cases "parse_pr (map_of t' ''pr'')"; cases "choose_reference (map_of t' ''projectId'') (map_of t' ''repo'')")
          (simp_all add: parse_review_deeplink_def)
    next
      case (Inr nr)
      then obtain n r where "parse_pr (map_of t' ''pr'') = Inr n" "choose_reference (map_of t' ''projectId'') (map_of t' ''repo'') = Inr r"
        by (auto simp: try_bind_Inr_iff)
      note facts = c s eqs v this
      show ?thesis
      proof (cases "map_of t' ''requestId''")
        case None
        with facts show ?thesis by (auto simp: parse_review_deeplink_def Let_def)
      next
        case (Some rid)
        with facts show ?thesis
          by (cases "parse_request_id rid")
            (auto simp: parse_review_deeplink_def deeplink_default_kind_def Let_def
              intro!: exI [of _ "\<lparr>prr_reference = trim r, prr_pr_number = n, prr_skill_key = [], prr_request_id = i\<rparr>" for i])
      qed
    qed
  qed
qed

definition open_review :: "deeplink_env \<Rightarrow> app_config app_result \<Rightarrow> parsed_review_request \<Rightarrow> string \<Rightarrow> deeplink_app \<Rightarrow> deeplink_app" where
  "open_review env load r extra a =
     (case submit_review (dx_submit env) load (prr_reference r) (prr_pr_number r) extra (prr_request_id r) DeepLink True (dk_world a) of
        (Inl e, w) \<Rightarrow>
          notify_failure ((''prmonitor review '' @ utf8 [0x672A, 0x89E6, 0x53D1])) (review_trigger_rejected (prr_pr_number r)) (a\<lparr>dk_world := w\<rparr>)
      | (Inr receipt, w) \<Rightarrow> focus_main_window (a\<lparr>dk_world := w\<rparr>))"

lemma handle_parsed_review:
  "parse_review_deeplink url = Inr r \<Longrightarrow>
    handle_review_one env load url a = open_review env load r (deeplink_extra_args (prr_skill_key r)) a"
  unfolding handle_review_one_def open_review_def by simp

lemma open_review_skill: "open_review env load (r\<lparr>prr_skill_key := k\<rparr>) extra a = open_review env load r extra a"
proof -
  have "prr_reference (r\<lparr>prr_skill_key := k\<rparr>) = prr_reference r" "prr_pr_number (r\<lparr>prr_skill_key := k\<rparr>) = prr_pr_number r"
    "prr_request_id (r\<lparr>prr_skill_key := k\<rparr>) = prr_request_id r" by simp_all
  then show ?thesis unfolding open_review_def by (simp only:)
qed

text \<open>
  A review link that names a skill the program does not know is not refused, as the documentation of the
  parser says it is: it does what the link without a skill does, which starts the default review.
\<close>

theorem unknown_skill_link_reviews:
  assumes "''skill_key'' \<notin> fst ` set p" and "''skill_key'' \<notin> fst ` set q"
    and "v \<noteq> ''check''" and "v \<noteq> skill_key default_skill_name ''--check''"
  shows "handle_review_one env load (u\<lparr>dl_query := p @ (''skill_key'', v) # q\<rparr>) a =
    handle_review_one env load (u\<lparr>dl_query := p @ q\<rparr>) a"
proof -
  have "deeplink_extra_args (migrate_legacy_skill_key ''review'') = []"
    by (rule extra_args_legacy) (simp_all add: skill_key_def default_skill_name_def)
  note extra = this extra_args_legacy [OF assms(3,4)]
  from parsed_with_skill [OF assms(1,2), where u = u and v = v] show ?thesis
  proof (elim disjE exE conjE)
    fix e
    assume "parse_review_deeplink (u\<lparr>dl_query := p @ (''skill_key'', v) # q\<rparr>) = Inl e"
      "parse_review_deeplink (u\<lparr>dl_query := p @ q\<rparr>) = Inl e"
    then show ?thesis unfolding handle_review_one_def by (simp only: sum.case)
  next
    fix r
    assume "parse_review_deeplink (u\<lparr>dl_query := p @ (''skill_key'', v) # q\<rparr>) = Inr (r\<lparr>prr_skill_key := migrate_legacy_skill_key v\<rparr>)"
      "parse_review_deeplink (u\<lparr>dl_query := p @ q\<rparr>) = Inr (r\<lparr>prr_skill_key := migrate_legacy_skill_key ''review''\<rparr>)"
    from this [THEN handle_parsed_review] extra show ?thesis by (simp add: open_review_skill)
  qed
qed

text \<open>The link of an unknown skill: the same review request, and the same default skill.\<close>

theorem unknown_skill_link_reviews_witness:
  "handle_review_one link_env (Inr submit_config) \<lparr>dl_scheme = ''prmonitor'', dl_host = Some ''review'',
      dl_query = [(''pr'', ''7''), (''repo'', ''o/r'')] @ (''skill_key'', ''deploy'') # [(''requestId'', replicate 32 CHR ''0'')]\<rparr> closed_app =
   handle_review_one link_env (Inr submit_config) \<lparr>dl_scheme = ''prmonitor'', dl_host = Some ''review'',
      dl_query = [(''pr'', ''7''), (''repo'', ''o/r'')] @ [(''requestId'', replicate 32 CHR ''0'')]\<rparr> closed_app"
proof -
  let ?u = "\<lparr>dl_scheme = ''prmonitor'', dl_host = Some ''review'', dl_query = []\<rparr>"
  have "''deploy'' \<noteq> skill_key default_skill_name ''--check''" by (simp add: skill_key_def default_skill_name_def)
  from unknown_skill_link_reviews [OF _ _ _ this, of "[(''pr'', ''7''), (''repo'', ''o/r'')]"
      "[(''requestId'', replicate 32 CHR ''0'')]" link_env "Inr submit_config" ?u closed_app]
  show ?thesis by simp
qed

end
