(* ===== verification/Notify_Properties.thy ===== *)
theory Notify_Properties
  imports Notify_Delivery
begin

text \<open>
  What the outcome of a delivery tells: it follows the provider's answer through the outbox, and none of its
  texts holds a secret of the channel.
\<close>

section \<open>Deliveries\<close>

text \<open>
  The texts that a channel's outcome may hold, from its name and what the libraries say without the
  channel's secrets: the status of an answer, the class of an error and the fixed texts of a URL that does
  not parse.
\<close>

definition provider_labels :: "string set" where
  "provider_labels = {''slack'', ''telegram-invalid-json'', ''telegram'', ''webhook-invalid-json'', ''webhook'', ''feishu-invalid-json'', ''feishu''}"

definition smtp_classes :: "string set" where
  "smtp_classes = {''timeout'', ''transient'', ''permanent'', ''client'', ''response'', ''tls'', ''transport-shutdown'', ''transport''}"

definition http_classes :: "string set" where
  "http_classes = {''timeout'', ''connect'', ''config'', ''transport''}"

definition channel_texts :: "string \<Rightarrow> string set" where
  "channel_texts name =
     {(utf8 [0x901A, 0x77E5, 0x6E20, 0x9053, 0x300C]) @ name @ (utf8 [0x300D]) @ p @ ('' '' @ utf8 [0x4E1A, 0x52A1, 0x54CD, 0x5E94, 0x5931, 0x8D25, 0xFF08, 0x5DF2, 0x8131, 0x654F, 0xFF09]) | p. p \<in> provider_labels} \<union>
     {(utf8 [0x901A, 0x77E5, 0x6E20, 0x9053, 0x300C]) @ name @ (utf8 [0x300D] @ ''SMTP '') @ c @ ('' '' @ utf8 [0x5931, 0x8D25, 0xFF08, 0x5DF2, 0x8131, 0x654F, 0xFF09]) | c. c \<in> smtp_classes} \<union>
     {(utf8 [0x901A, 0x77E5, 0x6E20, 0x9053, 0x300C]) @ name @ (utf8 [0x300D] @ ''HTTP '') @ c @ ('' '' @ utf8 [0x5931, 0x8D25, 0xFF08] @ ''URL/token '' @ utf8 [0x5DF2, 0x8131, 0x654F, 0xFF09]) | c. c \<in> http_classes} \<union>
     {(utf8 [0x901A, 0x77E5, 0x6E20, 0x9053, 0x300C]) @ name @ (utf8 [0x300D] @ ''SMTP '' @ utf8 [0x53D1, 0x4EF6, 0x4EBA, 0x5730, 0x5740, 0x65E0, 0x6548]), (utf8 [0x901A, 0x77E5, 0x6E20, 0x9053, 0x300C]) @ name @ (utf8 [0x300D] @ ''SMTP '' @ utf8 [0x6536, 0x4EF6, 0x4EBA, 0x5730, 0x5740, 0x65E0, 0x6548]),
      (utf8 [0x901A, 0x77E5, 0x6E20, 0x9053, 0x300C]) @ name @ (utf8 [0x300D, 0x90AE, 0x4EF6, 0x6784, 0x9020, 0x5931, 0x8D25]), (utf8 [0x901A, 0x77E5, 0x6E20, 0x9053, 0x300C]) @ name @ (utf8 [0x300D] @ ''SMTP relay '' @ utf8 [0x914D, 0x7F6E, 0x65E0, 0x6548]), (utf8 [0x901A, 0x77E5] @ '' webhook secret '' @ utf8 [0x65E0, 0x6548])}"

definition library_texts :: "notify_env \<Rightarrow> string set \<Rightarrow> string \<Rightarrow> string set" where
  "library_texts env url_errors name =
     {(utf8 [0x901A, 0x77E5, 0x6E20, 0x9053, 0x300C]) @ name @ (utf8 [0x300D] @ ''HTTP '' @ utf8 [0x6295, 0x9012, 0x5931, 0x8D25, 0xFF08] @ ''status='') @ ne_status_text env s @ (utf8 [0xFF0C, 0x5DF2, 0x8131, 0x654F, 0xFF09]) | s. True} \<union>
     {(utf8 [0x901A, 0x77E5, 0x6E20, 0x9053, 0x300C]) @ name @ (utf8 [0x300D] @ ''webhook URL '' @ utf8 [0x65E0, 0x6548, 0xFF08, 0x5DF2, 0x8131, 0x654F, 0xFF09] @ '': '') @ e | e. e \<in> url_errors} \<union>
     {(utf8 [0x901A, 0x77E5] @ '' HTTP client '' @ utf8 [0x521D, 0x59CB, 0x5316, 0x5931, 0x8D25] @ '': '') @ e | e. \<exists>client. ne_client_error env client = Some e}"

fun delivery_text :: "action_execution_result app_result \<Rightarrow> string option" where
  "delivery_text (Inl e) = Some (message e)"
| "delivery_text (Inr (Exec_Done out)) = None"
| "delivery_text (Inr (Exec_Blocked t g)) = Some t"
| "delivery_text (Inr (Exec_Retry t s)) = Some t"
| "delivery_text (Inr (Exec_Dead t)) = Some t"

lemma delivery_text_bind:
  "delivery_text (try_bind r f) = Some t \<Longrightarrow> (\<exists>e. r = Inl e \<and> t = message e) \<or> (\<exists>x. r = Inr x \<and> delivery_text (f x) = Some t)"
  by (cases r) auto

lemma business_shape:
  "classify_provider_success_body env c body = exec_done \<or>
   (\<exists>p \<in> provider_labels. classify_provider_success_body env c body = provider_business_dead c p)"
  unfolding classify_provider_success_body_def provider_labels_def
  by (cases "dc_kind c") (simp_all split: option.split)

lemma business_text:
  assumes "delivery_text (Inr (classify_provider_success_body env c body)) = Some t"
  shows "t \<in> channel_texts (dc_name c)"
proof -
  from assms business_shape [of env c body] obtain p where "p \<in> provider_labels"
    "delivery_text (Inr (provider_business_dead c p)) = Some t" by auto
  then show ?thesis unfolding provider_business_dead_def channel_texts_def delivery_text.simps option.inject by blast
qed

lemma transport_text: "safe_http_transport_error c e \<in> channel_texts (dc_name c)"
proof -
  have "\<exists>cls \<in> http_classes. safe_http_transport_error c e = (utf8 [0x901A, 0x77E5, 0x6E20, 0x9053, 0x300C]) @ dc_name c @ (utf8 [0x300D] @ ''HTTP '') @ cls @ ('' '' @ utf8 [0x5931, 0x8D25, 0xFF08] @ ''URL/token '' @ utf8 [0x5DF2, 0x8131, 0x654F, 0xFF09])"
    unfolding safe_http_transport_error_def by (rule bexI, rule refl, simp add: http_classes_def)
  then show ?thesis unfolding channel_texts_def by blast
qed

lemma smtp_shape: "\<exists>cls retry. classify_smtp_error c e = classified_smtp_failure (dc_name c) cls retry \<and> cls \<in> smtp_classes"
  unfolding classify_smtp_error_def Let_def
  by (rule exI, rule exI, rule conjI, rule refl, simp add: smtp_classes_def)

lemma smtp_text:
  assumes "delivery_text (Inr (classify_smtp_error c e)) = Some t"
  shows "t \<in> channel_texts (dc_name c)"
proof -
  obtain cls retry where "classify_smtp_error c e = classified_smtp_failure (dc_name c) cls retry" and cls: "cls \<in> smtp_classes"
    using smtp_shape by blast
  with assms have "t = (utf8 [0x901A, 0x77E5, 0x6E20, 0x9053, 0x300C]) @ dc_name c @ (utf8 [0x300D] @ ''SMTP '') @ cls @ ('' '' @ utf8 [0x5931, 0x8D25, 0xFF08, 0x5DF2, 0x8131, 0x654F, 0xFF09])"
    by (cases retry) (simp_all add: classified_smtp_failure_def)
  with cls show ?thesis unfolding channel_texts_def by blast
qed

lemma status_text:
  assumes "delivery_text (Inr (classify_http_status env c s r)) = Some t"
  shows "t \<in> library_texts env url_errors (dc_name c)"
proof -
  from assms have "t = (utf8 [0x901A, 0x77E5, 0x6E20, 0x9053, 0x300C]) @ dc_name c @ (utf8 [0x300D] @ ''HTTP '' @ utf8 [0x6295, 0x9012, 0x5931, 0x8D25, 0xFF08] @ ''status='') @ ne_status_text env s @ (utf8 [0xFF0C, 0x5DF2, 0x8131, 0x654F, 0xFF09])"
    unfolding classify_http_status_def Let_def by (cases "status_success s"; cases "s = 429 \<or> s = 408 \<or> 500 \<le> s \<and> s \<le> 599") simp_all
  then show ?thesis unfolding library_texts_def by blast
qed

lemma conclude_text:
  assumes "delivery_text (conclude_post env c reply) = Some t"
  shows "t \<in> channel_texts (dc_name c) \<union> library_texts env url_errors (dc_name c)"
proof (cases reply)
  case (Send_Failed e)
  with assms transport_text [of c e] show ?thesis by (simp add: conclude_post_def)
next
  case (Replied s after body)
  show ?thesis
  proof (cases "status_success s")
    case False
    with assms Replied status_text show ?thesis by (simp add: conclude_post_def)
  next
    case True
    with assms Replied transport_text business_text show ?thesis by (cases body) (auto simp: conclude_post_def)
  qed
qed

lemma client_text:
  assumes "http_client_of env n = Inl e"
  shows "message e \<in> library_texts env url_errors name"
proof -
  from assms obtain cl d where "ne_client_error env cl = Some d" "e = AppError ((utf8 [0x901A, 0x77E5] @ '' HTTP client '' @ utf8 [0x521D, 0x59CB, 0x5316, 0x5931, 0x8D25] @ '': '') @ d)"
    unfolding http_client_of_def Let_def by (auto split: option.splits)
  then have "message e = (utf8 [0x901A, 0x77E5] @ '' HTTP client '' @ utf8 [0x521D, 0x59CB, 0x5316, 0x5931, 0x8D25] @ '': '') @ d" by simp
  with \<open>ne_client_error env cl = Some d\<close> show ?thesis unfolding library_texts_def by blast
qed

lemma hmac_text: "hmac_sha256_base64 env k d = Inl e \<Longrightarrow> message e \<in> channel_texts name"
  unfolding hmac_sha256_base64_def channel_texts_def by (auto split: option.splits)

lemma feishu_text: "apply_feishu_signature env c b = Inl e \<Longrightarrow> message e \<in> channel_texts name"
  by (auto simp: apply_feishu_signature_def try_bind_Inl_iff hmac_text Let_def split: if_splits)

lemma url_text:
  assumes "signed_webhook_url env c = Inl e" and "\<And>s e. ne_parse_url env s = Inl e \<Longrightarrow> e \<in> url_errors"
  shows "message e \<in> channel_texts (dc_name c) \<union> library_texts env url_errors (dc_name c)"
proof (cases "ne_parse_url env (trim (dc_webhook_url c))")
  case (Inl d)
  with assms have "message e = (utf8 [0x901A, 0x77E5, 0x6E20, 0x9053, 0x300C]) @ dc_name c @ (utf8 [0x300D] @ ''webhook URL '' @ utf8 [0x65E0, 0x6548, 0xFF08, 0x5DF2, 0x8131, 0x654F, 0xFF09] @ '': '') @ d" "d \<in> url_errors"
    by (auto simp: signed_webhook_url_def)
  then show ?thesis unfolding library_texts_def by blast
next
  case (Inr u)
  with assms(1) hmac_text show ?thesis
    by (auto simp: signed_webhook_url_def try_bind_Inl_iff Let_def split: if_splits)
qed

lemma posted_text:
  assumes "delivery_text (try_bind (http_client_of env k) (\<lambda>client. conclude_post env c (reply client))) = Some t"
  shows "t \<in> channel_texts (dc_name c) \<union> library_texts env url_errors (dc_name c)"
  using delivery_text_bind [OF assms] client_text conclude_text by blast

lemma webhook_text:
  assumes "delivery_text (webhook_deliver env c n) = Some t" and "\<And>s e. ne_parse_url env s = Inl e \<Longrightarrow> e \<in> url_errors"
  shows "t \<in> channel_texts (dc_name c) \<union> library_texts env url_errors (dc_name c)"
proof -
  from delivery_text_bind [OF assms(1) [unfolded webhook_deliver_def]] consider
    (sign) e where "apply_feishu_signature env c (webhook_body (dc_kind c) n) = Inl e" "t = message e"
  | (url) e where "signed_webhook_url env c = Inl e" "t = message e"
  | (post) url body where "delivery_text (try_bind (http_client_of env (dc_timeout_secs c))
        (\<lambda>client. conclude_post env c (ne_post env client url body))) = Some t"
    by (blast dest: delivery_text_bind)
  then show ?thesis
  proof cases
    case sign
    with feishu_text show ?thesis by blast
  next
    case url
    from url_text [OF url(1) assms(2)] url(2) show ?thesis by simp
  next
    case post
    then show ?thesis by (rule posted_text)
  qed
qed

lemma telegram_text:
  "delivery_text (telegram_deliver env c n) = Some t \<Longrightarrow>
    t \<in> channel_texts (dc_name c) \<union> library_texts env url_errors (dc_name c)"
  unfolding telegram_deliver_def Let_def by (rule posted_text)

lemma email_text:
  assumes "delivery_text (email_deliver env c n) = Some t"
  shows "t \<in> channel_texts (dc_name c)"
proof -
  have fixed: "(utf8 [0x901A, 0x77E5, 0x6E20, 0x9053, 0x300C]) @ dc_name c @ (utf8 [0x300D] @ ''SMTP '' @ utf8 [0x53D1, 0x4EF6, 0x4EBA, 0x5730, 0x5740, 0x65E0, 0x6548]) \<in> channel_texts (dc_name c)"
    "(utf8 [0x901A, 0x77E5, 0x6E20, 0x9053, 0x300C]) @ dc_name c @ (utf8 [0x300D] @ ''SMTP '' @ utf8 [0x6536, 0x4EF6, 0x4EBA, 0x5730, 0x5740, 0x65E0, 0x6548]) \<in> channel_texts (dc_name c)"
    "(utf8 [0x901A, 0x77E5, 0x6E20, 0x9053, 0x300C]) @ dc_name c @ (utf8 [0x300D, 0x90AE, 0x4EF6, 0x6784, 0x9020, 0x5931, 0x8D25]) \<in> channel_texts (dc_name c)"
    "(utf8 [0x901A, 0x77E5, 0x6E20, 0x9053, 0x300C]) @ dc_name c @ (utf8 [0x300D] @ ''SMTP relay '' @ utf8 [0x914D, 0x7F6E, 0x65E0, 0x6548]) \<in> channel_texts (dc_name c)"
    unfolding channel_texts_def by blast+
  show ?thesis
  proof (cases "ne_mailbox env (trim (dc_smtp_from c))")
    case None
    with assms fixed show ?thesis by (simp add: email_deliver_def)
  next
    case (Some sender)
    note s = this
    show ?thesis
    proof (cases "recipients env (dc_smtp_to c)")
      case None
      with s assms fixed show ?thesis by (simp add: email_deliver_def)
    next
      case (Some tos)
      with s assms fixed smtp_text show ?thesis
        unfolding email_deliver_def Let_def option.case by (auto split: if_split_asm option.splits)
    qed
  qed
qed

text \<open>
  C22. Delivering to an external channel never puts a secret of the channel into the outcome, which is
  stored with the outbox row and shown in the panel: whatever the URL, the signing secret, the bot token, the
  mail account or the provider's answer, the text is made of the channel's name and of texts fixed by the
  program and the libraries.
\<close>

theorem delivery_keeps_secrets:
  assumes "dc_kind c \<noteq> Desktop" and "\<And>s e. ne_parse_url env s = Inl e \<Longrightarrow> e \<in> url_errors"
    and "delivery_text (deliver_channel_with_app env c n) = Some t"
  shows "t \<in> channel_texts (dc_name c) \<union> library_texts env url_errors (dc_name c)"
  using assms(1,3) webhook_text [OF _ assms(2)] telegram_text email_text
  by (cases "dc_kind c") (auto simp: deliver_channel_with_app_def deliver_channel_def)

text \<open>The bot token that a rejected message to Telegram was sent with is not in the outcome.\<close>

definition telegram_env :: notify_env where
  "telegram_env = \<lparr>ne_show_desktop = (\<lambda>t b. None), ne_client_error = (\<lambda>cl. None),
     ne_post = (\<lambda>cl u b. Replied 401 None (Inr u)), ne_parse_url = (\<lambda>u. Inr u), ne_append_pairs = (\<lambda>u ps. u),
     ne_hmac_sha256 = (\<lambda>k d. Some k), ne_base64 = (\<lambda>s. s), ne_parse_json = (\<lambda>s. None), ne_http_date = (\<lambda>s. None),
     ne_status_text = dec, ne_clock = (\<lambda>k. 0), ne_mailbox = Some, ne_mail_valid = (\<lambda>m. True), ne_relay_valid = (\<lambda>h. True),
     ne_send_mail = (\<lambda>r m. None)\<rparr>"

definition telegram_channel :: "string \<Rightarrow> delivery_channel" where
  "telegram_channel token =
     (notification_delivery_channel desktop_channel)\<lparr>dc_kind := Telegram, dc_telegram_bot_token := token\<rparr>"

theorem delivery_keeps_secrets_witness:
  "\<exists>t. delivery_text (deliver_channel_with_app telegram_env (telegram_channel ''123:secret'')
        \<lparr>ntf_level = Info, ntf_title = ''t'', ntf_url = [], ntf_body = ''b'', ntf_project_id = []\<rparr>) = Some t \<and>
     t \<in> channel_texts ''Desktop'' \<union> library_texts telegram_env {} ''Desktop''"
proof -
  let ?n = "\<lparr>ntf_level = Info, ntf_title = ''t'', ntf_url = [], ntf_body = ''b'', ntf_project_id = []\<rparr>"
  have name: "dc_name (telegram_channel ''123:secret'') = ''Desktop''" and kind: "dc_kind (telegram_channel ''123:secret'') = Telegram"
    by (simp_all add: telegram_channel_def notification_delivery_channel_def desktop_channel_def)
  have "\<exists>t. delivery_text (deliver_channel_with_app telegram_env (telegram_channel ''123:secret'') ?n) = Some t"
    unfolding deliver_channel_with_app_def deliver_channel_def kind
    by (simp add: telegram_deliver_def http_client_of_def telegram_env_def conclude_post_def classify_http_status_def
        status_success_def Let_def)
  then obtain t where t: "delivery_text (deliver_channel_with_app telegram_env (telegram_channel ''123:secret'') ?n) = Some t" ..
  have "t \<in> channel_texts (dc_name (telegram_channel ''123:secret'')) \<union>
      library_texts telegram_env {} (dc_name (telegram_channel ''123:secret''))"
    by (rule delivery_keeps_secrets [OF _ _ t]) (simp_all add: kind telegram_env_def)
  with t name show ?thesis by auto
qed

end
