(* ===== verification/Terminal_Pty.thy ===== *)
theory Terminal_Pty
  imports Serde
begin

text \<open>
  The Web PTY sessions (\<open>terminal/webpty_manager.rs\<close>, \<open>webpty.rs\<close>): a registry of shells, each with a ring of
  its latest output and a reader thread, capped at sixteen. The operating system (opening a terminal, starting
  the shell and the thread, reads and writes), base64 and whether an emission panics are parameters; a session
  is shared by the registry and its reader, so the registry holds ids and a store holds the sessions.
\<close>

section \<open>Sessions and events\<close>

(* model.rs 645-651 TerminalBackendKind *)
datatype terminal_backend_kind = Iterm | WebPty

(* model.rs 672-686 TerminalSession *)
record terminal_session =
  ts_session_id :: string
  ts_window_id :: string
  ts_tab_id :: string
  ts_title :: string
  ts_is_active :: bool
  ts_rows :: nat
  ts_cols :: nat
  ts_backend :: terminal_backend_kind

(* model.rs 694-704 CreateSessionOpts *)
record create_session_opts =
  cso_window_id :: "string option"
  cso_profile :: "string option"
  cso_backend :: "terminal_backend_kind option"

(* events.rs 220-262 TerminalEvent *)
datatype terminal_event =
  Attached string nat nat
| ScreenUpdate string nat nat string "nat option" "nat option"
| Output string string
| SessionEnded string string
| TerminalError "string option" string

(* terminal/webpty_manager.rs 40-40 DEFAULT_COLS *)
definition default_cols :: nat where "default_cols = 80"

(* terminal/webpty_manager.rs 41-41 DEFAULT_ROWS *)
definition default_rows :: nat where "default_rows = 24"

(* terminal/webpty_manager.rs 49-49 SCROLLBACK_CAP *)
definition scrollback_cap :: nat where "scrollback_cap = 256 * 1024"

(* terminal/webpty_manager.rs 54-54 MAX_CONCURRENT_SESSIONS *)
definition max_concurrent_sessions :: nat where "max_concurrent_sessions = 16"

text \<open>The ring: pushing byte by byte and dropping the oldest beyond the cap.\<close>

(* terminal/webpty_manager.rs 77-82 ScrollbackRing::push *)
definition ring_push :: "nat \<Rightarrow> string \<Rightarrow> string \<Rightarrow> string" where
  "ring_push cap bytes buf = (let buf = buf @ bytes in drop (length buf - cap) buf)"

(* terminal/webpty_manager.rs 104-130 PtySession *)
record pty_session =
  ps_meta :: terminal_session
  ps_ring :: string
  ps_subscribed :: bool
  ps_master_open :: bool
  ps_child :: nat
  ps_written :: string
  ps_reading :: bool
  ps_closing :: bool
  ps_torn_down :: bool

text \<open>
  The manager and what it acts on: the children started so far, each killed or not, and the terminal events
  sent through the stream; the number of emissions tried numbers the ones that may panic.
\<close>

(* terminal/webpty_manager.rs 134-141 WebPtyManager *)
record pty_manager =
  pm_store :: "string \<Rightarrow> pty_session option"
  pm_live :: "string list"
  pm_reserved :: nat
  pm_next_id :: nat
  pm_children :: "bool list"
  pm_events :: "terminal_event list"
  pm_emits :: nat

record pty_env =
  px_emit_ok :: "nat \<Rightarrow> bool"
  px_base64 :: "string \<Rightarrow> string"
  px_openpty_error :: "string option"
  px_spawn_error :: "string \<Rightarrow> string option"
  px_reader_error :: "string option"
  px_writer_error :: "string option"
  px_thread_error :: "string option"
  px_write_error :: "string option"
  px_flush_error :: "string option"
  px_resize_error :: "string option"
  px_shell :: "string option"

section \<open>Helpers\<close>

definition pty_not_found :: "string \<Rightarrow> app_error" where
  "pty_not_found i = AppError ((utf8 [0x7EC8, 0x7AEF, 0x4F1A, 0x8BDD, 0x4E0D, 0x5B58, 0x5728] @ '': '') @ i)"

(* terminal/webpty_manager.rs 494-501 WebPtyManager::get *)
definition pty_get :: "string \<Rightarrow> pty_manager \<Rightarrow> pty_session app_result" where
  "pty_get i m = ok_or (if i \<in> set (pm_live m) then pm_store m i else None) (pty_not_found i)"

(* terminal/webpty_manager.rs 549-556 check_session_cap *)
definition check_session_cap :: "nat \<Rightarrow> unit app_result" where
  "check_session_cap current =
     (if max_concurrent_sessions \<le> current
      then Inl (AppError ((utf8 [0x5DF2, 0x8FBE] @ '' PTY '' @ utf8 [0x4F1A, 0x8BDD, 0x4E0A, 0x9650, 0xFF08] @ ''16 '' @ utf8 [0x4E2A, 0xFF09, 0xFF1A, 0x8BF7, 0x5148, 0x5173, 0x95ED, 0x5DF2, 0x6709, 0x4F1A, 0x8BDD, 0x518D, 0x65B0, 0x5EFA])))
      else Inr ())"

(* terminal/webpty_manager.rs 564-569 emit_terminal *)
definition emit_terminal :: "pty_env \<Rightarrow> terminal_event \<Rightarrow> pty_manager \<Rightarrow> bool \<times> pty_manager" where
  "emit_terminal env ev m =
     (let m' = m\<lparr>pm_emits := Suc (pm_emits m)\<rparr> in
      if px_emit_ok env (pm_emits m) then (True, m'\<lparr>pm_events := pm_events m @ [ev]\<rparr>) else (False, m'))"

definition update_session :: "string \<Rightarrow> (pty_session \<Rightarrow> pty_session) \<Rightarrow> pty_manager \<Rightarrow> pty_manager" where
  "update_session i f m = m\<lparr>pm_store := (pm_store m)(i := map_option f (pm_store m i))\<rparr>"

definition kill_child :: "nat \<Rightarrow> pty_manager \<Rightarrow> pty_manager" where
  "kill_child c m = m\<lparr>pm_children := (pm_children m)[c := True]\<rparr>"

text \<open>The last component of a path, as \<open>Path::file_name\<close> gives it.\<close>

(* terminal/webpty_manager.rs 590-596 shell_basename *)
definition shell_basename :: "string \<Rightarrow> string" where
  "shell_basename program =
     (case rev (path_components program) of
        c # _ \<Rightarrow> if c = ''..'' then program else c
      | [] \<Rightarrow> program)"

(* terminal/webpty.rs 82-86 unix_shell *)
definition unix_shell :: "string option \<Rightarrow> string" where
  "unix_shell shell_env =
     (case shell_env of Some s \<Rightarrow> if trim s \<noteq> [] then s else ''/bin/zsh'' | None \<Rightarrow> ''/bin/zsh'')"

(* terminal/webpty.rs 68-77 default_shell_program *)
definition default_shell_program :: "pty_env \<Rightarrow> string" where
  "default_shell_program env = unix_shell (px_shell env)"

section \<open>Creating a session\<close>

text \<open>The reservation under the registry's lock, and its release when the attempt is over.\<close>

(* terminal/webpty_manager.rs 213-217 WebPtyManager::spawn_program *)
definition spawn_reserve :: "pty_manager \<Rightarrow> unit app_result \<times> pty_manager" where
  "spawn_reserve m =
     (case check_session_cap (length (pm_live m) + pm_reserved m) of
        Inl e \<Rightarrow> (Inl e, m)
      | Inr _ \<Rightarrow> (Inr (), m\<lparr>pm_reserved := Suc (pm_reserved m)\<rparr>))"

(* terminal/webpty_manager.rs 175-188 SpawnCleanup::drop *)
definition spawn_cleanup :: "nat option \<Rightarrow> pty_manager \<Rightarrow> pty_manager" where
  "spawn_cleanup child m =
     (let m = m\<lparr>pm_reserved := pm_reserved m - 1\<rparr> in
      case child of None \<Rightarrow> m | Some c \<Rightarrow> kill_child c m)"

definition start_child :: "pty_manager \<Rightarrow> nat \<times> pty_manager" where
  "start_child m = (length (pm_children m), m\<lparr>pm_children := pm_children m @ [False]\<rparr>)"

definition new_meta :: "string \<Rightarrow> string \<Rightarrow> terminal_session" where
  "new_meta i program =
     \<lparr>ts_session_id = i, ts_window_id = ''webpty'', ts_tab_id = ''webpty'', ts_title = shell_basename program,
      ts_is_active = True, ts_rows = default_rows, ts_cols = default_cols, ts_backend = WebPty\<rparr>"

text \<open>The id counter is a \<open>u64\<close> that wraps.\<close>

(* terminal/webpty_manager.rs 264-297 WebPtyManager::spawn_program *)
definition spawn_register :: "string \<Rightarrow> nat \<Rightarrow> pty_manager \<Rightarrow> terminal_session \<times> pty_manager" where
  "spawn_register program child m =
     (let i = ''webpty-'' @ dec (pm_next_id m);
          meta = new_meta i program;
          session = \<lparr>ps_meta = meta, ps_ring = [], ps_subscribed = False, ps_master_open = True, ps_child = child,
            ps_written = [], ps_reading = False, ps_closing = False, ps_torn_down = False\<rparr>
      in (meta, m\<lparr>pm_next_id := (pm_next_id m + 1) mod 2 ^ 64, pm_store := (pm_store m)(i \<mapsto> session),
            pm_live := (if i \<in> set (pm_live m) then pm_live m else pm_live m @ [i])\<rparr>))"

(* terminal/webpty_manager.rs 318-329 WebPtyManager::spawn_program *)
definition spawn_unregister :: "string \<Rightarrow> nat \<Rightarrow> pty_manager \<Rightarrow> pty_manager" where
  "spawn_unregister i child m = kill_child child (m\<lparr>pm_live := removeAll i (pm_live m)\<rparr>)"

(* terminal/webpty_manager.rs 204-333 WebPtyManager::spawn_program *)
definition spawn_program :: "pty_env \<Rightarrow> string \<Rightarrow> pty_manager \<Rightarrow> terminal_session app_result \<times> pty_manager" where
  "spawn_program env program m =
     (case spawn_reserve m of
        (Inl e, m) \<Rightarrow> (Inl e, m)
      | (Inr _, m) \<Rightarrow>
     (case px_openpty_error env of
        Some e \<Rightarrow> (Inl (AppError ((utf8 [0x65E0, 0x6CD5, 0x6253, 0x5F00] @ '' PTY: '') @ e)), spawn_cleanup None m)
      | None \<Rightarrow>
     (case px_spawn_error env program of
        Some e \<Rightarrow> (Inl (AppError ((utf8 [0x65E0, 0x6CD5, 0x542F, 0x52A8, 0x7EC8, 0x7AEF, 0x8FDB, 0x7A0B] @ '' '') @ program @ '': '' @ e)), spawn_cleanup None m)
      | None \<Rightarrow>
     (let (child, m) = start_child m in
      case px_reader_error env of
        Some e \<Rightarrow> (Inl (AppError ((utf8 [0x65E0, 0x6CD5, 0x83B7, 0x53D6] @ '' PTY '' @ utf8 [0x8BFB, 0x53D6, 0x7AEF] @ '': '') @ e)), spawn_cleanup (Some child) m)
      | None \<Rightarrow>
     (case px_writer_error env of
        Some e \<Rightarrow> (Inl (AppError ((utf8 [0x65E0, 0x6CD5, 0x83B7, 0x53D6] @ '' PTY '' @ utf8 [0x5199, 0x5165, 0x7AEF] @ '': '') @ e)), spawn_cleanup (Some child) m)
      | None \<Rightarrow>
     (let (meta, m) = spawn_register program child m in
      case px_thread_error env of
        Some e \<Rightarrow>
          (Inl (AppError ((utf8 [0x65E0, 0x6CD5, 0x542F, 0x52A8] @ '' PTY '' @ utf8 [0x8BFB, 0x53D6, 0x7EBF, 0x7A0B] @ '': '') @ e)),
           spawn_cleanup None (spawn_unregister (ts_session_id meta) child m))
      | None \<Rightarrow>
          (Inr meta, spawn_cleanup None
             (update_session (ts_session_id meta) (\<lambda>s. s\<lparr>ps_reading := True\<rparr>) m))))))))"

(* terminal/webpty_manager.rs 194-200 WebPtyManager::spawn *)
definition pty_spawn :: "pty_env \<Rightarrow> create_session_opts \<Rightarrow> pty_manager \<Rightarrow> terminal_session app_result \<times> pty_manager" where
  "pty_spawn env opts m = spawn_program env (default_shell_program env) m"

section \<open>Ending a session\<close>

text \<open>Emissions of the teardown are not guarded: a panic there unwinds, and nothing is sent.\<close>

(* terminal/webpty_manager.rs 660-688 finish_session *)
definition finish_session :: "pty_env \<Rightarrow> string \<Rightarrow> pty_manager \<Rightarrow> pty_manager" where
  "finish_session env i m =
     (case pm_store m i of
        None \<Rightarrow> m
      | Some s \<Rightarrow>
          if ps_torn_down s then m
          else
            let m = update_session i (\<lambda>s. s\<lparr>ps_torn_down := True\<rparr>) m;
                m = m\<lparr>pm_live := removeAll i (pm_live m)\<rparr>;
                reason = (if ps_closing s then ''killed'' else ''exited'');
                m = kill_child (ps_child s) m
            in snd (emit_terminal env (SessionEnded i reason) m))"

(* terminal/webpty_manager.rs 429-435 WebPtyManager::close *)
definition pty_close :: "pty_env \<Rightarrow> string \<Rightarrow> pty_manager \<Rightarrow> unit app_result \<times> pty_manager" where
  "pty_close env i m =
     (case pty_get i m of
        Inl e \<Rightarrow> (Inl e, m)
      | Inr s \<Rightarrow>
          (let m = update_session i (\<lambda>s. s\<lparr>ps_closing := True\<rparr>) m;
               m = kill_child (ps_child s) m
           in (Inr (), finish_session env i m)))"

definition shutdown_one :: "string \<Rightarrow> pty_manager \<Rightarrow> pty_manager" where
  "shutdown_one i m =
     (case pm_store m i of
        None \<Rightarrow> m
      | Some s \<Rightarrow>
          update_session i (\<lambda>s. s\<lparr>ps_master_open := False\<rparr>)
            (kill_child (ps_child s) (update_session i (\<lambda>s. s\<lparr>ps_torn_down := True\<rparr>) m)))"

(* terminal/webpty_manager.rs 461-491 WebPtyManager::shutdown *)
definition pty_shutdown :: "pty_manager \<Rightarrow> pty_manager" where
  "pty_shutdown m = fold shutdown_one (pm_live m) (m\<lparr>pm_live := []\<rparr>)"

section \<open>Using a session\<close>

(* terminal/webpty_manager.rs 338-380 WebPtyManager::subscribe *)
definition pty_subscribe :: "pty_env \<Rightarrow> string \<Rightarrow> pty_manager \<Rightarrow> unit app_result \<times> pty_manager" where
  "pty_subscribe env i m =
     (case pty_get i m of
        Inl e \<Rightarrow> (Inl e, m)
      | Inr s \<Rightarrow>
     (case emit_terminal env (Attached i (ts_cols (ps_meta s)) (ts_rows (ps_meta s))) m of
        (False, m) \<Rightarrow> (Inl (AppError ((utf8 [0x7EC8, 0x7AEF, 0x4E8B, 0x4EF6, 0x53D1, 0x9001, 0x5931, 0x8D25, 0xFF08] @ ''attached'' @ utf8 [0xFF09]))), m)
      | (True, m) \<Rightarrow>
     (case (if ps_ring s = [] then (True, m) else emit_terminal env (Output i (px_base64 env (ps_ring s))) m) of
        (False, m) \<Rightarrow> (Inl (AppError ((utf8 [0x7EC8, 0x7AEF, 0x4E8B, 0x4EF6, 0x53D1, 0x9001, 0x5931, 0x8D25, 0xFF08] @ ''output replay'' @ utf8 [0xFF09]))), m)
      | (True, m) \<Rightarrow> (Inr (), update_session i (\<lambda>s. s\<lparr>ps_subscribed := True\<rparr>) m))))"

(* terminal/webpty_manager.rs 384-388 WebPtyManager::unsubscribe *)
definition pty_unsubscribe :: "string \<Rightarrow> pty_manager \<Rightarrow> unit app_result \<times> pty_manager" where
  "pty_unsubscribe i m =
     (case pty_get i m of
        Inl e \<Rightarrow> (Inl e, m)
      | Inr s \<Rightarrow> (Inr (), update_session i (\<lambda>s. s\<lparr>ps_subscribed := False\<rparr>) m))"

text \<open>What a write that fails gave to the shell is not known; here nothing.\<close>

(* terminal/webpty_manager.rs 391-401 WebPtyManager::write *)
definition pty_write :: "pty_env \<Rightarrow> string \<Rightarrow> string \<Rightarrow> pty_manager \<Rightarrow> unit app_result \<times> pty_manager" where
  "pty_write env i bytes m =
     (case pty_get i m of
        Inl e \<Rightarrow> (Inl e, m)
      | Inr s \<Rightarrow>
     (case px_write_error env of
        Some e \<Rightarrow> (Inl (AppError ((utf8 [0x5199, 0x5165, 0x7EC8, 0x7AEF, 0x5931, 0x8D25] @ '': '') @ e)), m)
      | None \<Rightarrow>
          (let m = update_session i (\<lambda>s. s\<lparr>ps_written := ps_written s @ bytes\<rparr>) m in
           case px_flush_error env of
             Some e \<Rightarrow> (Inl (AppError ((utf8 [0x5237, 0x65B0, 0x7EC8, 0x7AEF, 0x5931, 0x8D25] @ '': '') @ e)), m)
           | None \<Rightarrow> (Inr (), m))))"

(* terminal/webpty_manager.rs 404-424 WebPtyManager::resize *)
definition pty_resize :: "pty_env \<Rightarrow> string \<Rightarrow> nat \<Rightarrow> nat \<Rightarrow> pty_manager \<Rightarrow> unit app_result \<times> pty_manager" where
  "pty_resize env i cols rows m =
     (case pty_get i m of
        Inl e \<Rightarrow> (Inl e, m)
      | Inr s \<Rightarrow>
          if \<not> ps_master_open s then (Inl (AppError ((utf8 [0x7EC8, 0x7AEF, 0x4F1A, 0x8BDD, 0x6B63, 0x5728, 0x5173, 0x95ED]))), m)
          else case px_resize_error env of
            Some e \<Rightarrow> (Inl (AppError ((utf8 [0x8C03, 0x6574, 0x7EC8, 0x7AEF, 0x5C3A, 0x5BF8, 0x5931, 0x8D25] @ '': '') @ e)), m)
          | None \<Rightarrow>
              (Inr (), update_session i (\<lambda>s. s\<lparr>ps_meta := (ps_meta s)\<lparr>ts_cols := cols, ts_rows := rows\<rparr>\<rparr>) m))"

(* terminal/webpty_manager.rs 442-449 WebPtyManager::list *)
definition pty_list :: "pty_manager \<Rightarrow> terminal_session list" where
  "pty_list m = List.map_filter (\<lambda>i. map_option ps_meta (pm_store m i)) (pm_live m)"

(* terminal/webpty_manager.rs 453-455 WebPtyManager::owns *)
definition pty_owns :: "string \<Rightarrow> pty_manager \<Rightarrow> bool" where
  "pty_owns i m \<longleftrightarrow> i \<in> set (pm_live m)"

section \<open>The reader thread\<close>

text \<open>A read gives no bytes at the end, an error, or bytes; an unexpected error is only logged.\<close>

datatype pty_read = Read_End | Read_Failed | Read_Bytes string

definition reader_chunk :: "pty_env \<Rightarrow> string \<Rightarrow> string \<Rightarrow> pty_manager \<Rightarrow> bool \<times> pty_manager" where
  "reader_chunk env i chunk m =
     (let m = update_session i (\<lambda>s. s\<lparr>ps_ring := ring_push scrollback_cap chunk (ps_ring s)\<rparr>) m in
      if (case pm_store m i of Some s \<Rightarrow> ps_subscribed s | None \<Rightarrow> False)
      then emit_terminal env (Output i (px_base64 env chunk)) m else (True, m))"

definition reader_stop :: "pty_env \<Rightarrow> string \<Rightarrow> pty_manager \<Rightarrow> pty_manager" where
  "reader_stop env i m = finish_session env i (update_session i (\<lambda>s. s\<lparr>ps_reading := False\<rparr>) m)"

text \<open>One turn of the loop: a chunk, or the end of the thread. A thread that has ended does nothing.\<close>

(* terminal/webpty_manager.rs 603-653 reader_loop *)
definition reader_turn :: "pty_env \<Rightarrow> string \<Rightarrow> pty_read \<Rightarrow> pty_manager \<Rightarrow> pty_manager" where
  "reader_turn env i r m =
     (if (case pm_store m i of Some s \<Rightarrow> \<not> ps_reading s | None \<Rightarrow> True) then m
      else case r of
        Read_End \<Rightarrow> reader_stop env i m
      | Read_Failed \<Rightarrow> reader_stop env i m
      | Read_Bytes chunk \<Rightarrow>
          (case reader_chunk env i chunk m of
             (True, m) \<Rightarrow> m
           | (False, m) \<Rightarrow> reader_stop env i m))"

section \<open>Operations in any order\<close>

datatype pty_op =
  Op_Spawn string
| Op_Subscribe string
| Op_Unsubscribe string
| Op_Write string string
| Op_Resize string nat nat
| Op_Close string
| Op_Read string pty_read
| Op_Shutdown

fun pty_step :: "pty_op \<times> pty_env \<Rightarrow> pty_manager \<Rightarrow> pty_manager" where
  "pty_step (Op_Spawn program, env) m = snd (spawn_program env program m)"
| "pty_step (Op_Subscribe i, env) m = snd (pty_subscribe env i m)"
| "pty_step (Op_Unsubscribe i, env) m = snd (pty_unsubscribe i m)"
| "pty_step (Op_Write i bytes, env) m = snd (pty_write env i bytes m)"
| "pty_step (Op_Resize i cols rows, env) m = snd (pty_resize env i cols rows m)"
| "pty_step (Op_Close i, env) m = snd (pty_close env i m)"
| "pty_step (Op_Read i r, env) m = reader_turn env i r m"
| "pty_step (Op_Shutdown, env) m = pty_shutdown m"

definition pty_manager_default :: pty_manager where
  "pty_manager_default = \<lparr>pm_store = (\<lambda>i. None), pm_live = [], pm_reserved = 0, pm_next_id = 0, pm_children = [],
     pm_events = [], pm_emits = 0\<rparr>"

end
