(* ===== verification/Pty_Properties.thy ===== *)
theory Pty_Properties
  imports Terminal_Pty
begin

text \<open>
  What the Web PTY registry keeps in any interleaving of its callers and reader threads: at most sixteen
  sessions and no lost reservation, no shell that outlives its session, one end per session, and an attaching
  panel that sees the backlog and the live stream without a gap.
\<close>

section \<open>The operations on the store\<close>

lemma update_session_sel [simp]:
  "pm_live (update_session i f m) = pm_live m" "pm_reserved (update_session i f m) = pm_reserved m"
  "pm_next_id (update_session i f m) = pm_next_id m" "pm_children (update_session i f m) = pm_children m"
  "pm_events (update_session i f m) = pm_events m" "pm_emits (update_session i f m) = pm_emits m"
  "pm_store (update_session i f m) j = (if i = j then map_option f (pm_store m i) else pm_store m j)"
  by (simp_all add: update_session_def)

lemma kill_child_sel [simp]:
  "pm_live (kill_child c m) = pm_live m" "pm_reserved (kill_child c m) = pm_reserved m"
  "pm_next_id (kill_child c m) = pm_next_id m" "pm_store (kill_child c m) = pm_store m"
  "pm_events (kill_child c m) = pm_events m" "pm_emits (kill_child c m) = pm_emits m"
  "pm_children (kill_child c m) = (pm_children m)[c := True]"
  by (simp_all add: kill_child_def)

lemma emit_terminal_sel [simp]:
  "pm_live (snd (emit_terminal env ev m)) = pm_live m" "pm_reserved (snd (emit_terminal env ev m)) = pm_reserved m"
  "pm_next_id (snd (emit_terminal env ev m)) = pm_next_id m" "pm_store (snd (emit_terminal env ev m)) = pm_store m"
  "pm_children (snd (emit_terminal env ev m)) = pm_children m"
  "pm_events (snd (emit_terminal env ev m)) = pm_events m @ (if px_emit_ok env (pm_emits m) then [ev] else [])"
  by (simp_all add: emit_terminal_def Let_def)

lemma cleanup_sel [simp]:
  "pm_live (spawn_cleanup c m) = pm_live m" "pm_reserved (spawn_cleanup c m) = pm_reserved m - 1"
  "pm_next_id (spawn_cleanup c m) = pm_next_id m" "pm_store (spawn_cleanup c m) = pm_store m"
  "pm_events (spawn_cleanup c m) = pm_events m"
  "pm_children (spawn_cleanup c m) = (case c of None \<Rightarrow> pm_children m | Some c \<Rightarrow> (pm_children m)[c := True])"
  by (simp_all add: spawn_cleanup_def Let_def split: option.split)

lemma finish_live: "set (pm_live (finish_session env i m)) \<subseteq> set (pm_live m)"
  "length (pm_live (finish_session env i m)) \<le> length (pm_live m)"
  "pm_reserved (finish_session env i m) = pm_reserved m" "pm_next_id (finish_session env i m) = pm_next_id m"
  by (auto simp: finish_session_def Let_def length_removeAll_less_eq split: option.split)

lemma shutdown_one_sel [simp]:
  "pm_live (shutdown_one i m) = pm_live m" "pm_reserved (shutdown_one i m) = pm_reserved m"
  "pm_next_id (shutdown_one i m) = pm_next_id m" "pm_events (shutdown_one i m) = pm_events m"
  by (simp_all add: shutdown_one_def split: option.split)

lemma fold_shutdown_sel [simp]:
  "pm_live (fold shutdown_one is m) = pm_live m" "pm_reserved (fold shutdown_one is m) = pm_reserved m"
  "pm_next_id (fold shutdown_one is m) = pm_next_id m" "pm_events (fold shutdown_one is m) = pm_events m"
  by (induction "is" arbitrary: m) simp_all

section \<open>The cap\<close>

text \<open>
  Several callers create sessions at once: the manager with the number of attempts that hold a reservation
  but have not registered a session yet, and of those that have registered it but not released it.
\<close>

fun is_spawn :: "pty_op \<Rightarrow> bool" where
  "is_spawn (Op_Spawn p) = True"
| "is_spawn op = False"

inductive pty_sys_step :: "pty_manager \<times> nat \<times> nat \<Rightarrow> pty_manager \<times> nat \<times> nat \<Rightarrow> bool" where
  reserve: "spawn_reserve m = (Inr (), m') \<Longrightarrow> pty_sys_step (m, a, b) (m', Suc a, b)"
| open_fails: "pty_sys_step (m, Suc a, b) (spawn_cleanup None m, a, b)"
| start_fails: "start_child m = (c, m') \<Longrightarrow> pty_sys_step (m, Suc a, b) (spawn_cleanup (Some c) m', a, b)"
| register: "start_child m = (c, m') \<Longrightarrow> pty_sys_step (m, Suc a, b) (snd (spawn_register p c m'), a, Suc b)"
| thread_fails: "pty_sys_step (m, a, Suc b) (spawn_cleanup None (spawn_unregister i c m), a, b)"
| runs: "pty_sys_step (m, a, Suc b) (spawn_cleanup None (update_session i (\<lambda>s. s\<lparr>ps_reading := True\<rparr>) m), a, b)"
| other: "\<not> is_spawn op \<Longrightarrow> pty_sys_step (m, a, b) (pty_step (op, env) m, a, b)"

definition capped :: "pty_manager \<times> nat \<times> nat \<Rightarrow> bool" where
  "capped = (\<lambda>(m, a, b). length (pm_live m) + a \<le> max_concurrent_sessions \<and> pm_reserved m = a + b)"

lemma other_op_live:
  assumes "\<not> is_spawn op"
  shows "length (pm_live (pty_step (op, env) m)) \<le> length (pm_live m) \<and> pm_reserved (pty_step (op, env) m) = pm_reserved m"
proof -
  have finish: "length (pm_live (finish_session env i m')) \<le> length (pm_live m')"
    "pm_reserved (finish_session env i m') = pm_reserved m'" for i m'
    using finish_live by auto
  show ?thesis
  proof (cases op)
    case (Op_Subscribe i)
    then show ?thesis
      by (auto simp: pty_subscribe_def emit_terminal_def Let_def split: sum.splits if_splits)
  next
    case (Op_Close i)
    then show ?thesis
      using finish [of i "kill_child (ps_child s) (update_session i (\<lambda>s. s\<lparr>ps_closing := True\<rparr>) m)" for s :: pty_session]
      by (cases "pty_get i m") (simp_all add: pty_close_def)
  next
    case (Op_Read i r)
    note f = finish [of i "update_session i (\<lambda>s. s\<lparr>ps_reading := False\<rparr>) m'" for m', simplified]
    from Op_Read show ?thesis
      by (auto intro: order_trans [OF f(1)] simp: f(2) reader_turn_def reader_stop_def reader_chunk_def emit_terminal_def Let_def
          split: pty_read.splits option.splits if_splits prod.splits)
  qed (use assms in \<open>auto simp: pty_unsubscribe_def pty_write_def pty_resize_def pty_shutdown_def Let_def
      split: sum.splits option.splits if_splits\<close>)
qed

lemma capped_step:
  assumes "pty_sys_step x y" and "capped x"
  shows "capped y"
  using assms
proof (induction rule: pty_sys_step.induct)
  case (reserve m m' a b)
  then show ?case
    by (auto simp: capped_def spawn_reserve_def check_session_cap_def split: if_splits)
next
  case (other op m a b env)
  with other_op_live [OF other(1), of env m] show ?case by (auto simp: capped_def)
next
  case (thread_fails m a b i c)
  then show ?case
    by (auto simp: capped_def spawn_unregister_def intro: le_trans [OF add_right_mono [OF length_removeAll_less_eq]])
qed (auto simp: capped_def start_child_def spawn_register_def Let_def)

text \<open>
  C26. In every interleaving of callers that create sessions, step by step, with everything else that happens
  to sessions, at most sixteen sessions are registered or about to be, and a reservation is held exactly by
  an attempt that is under way, so that failed attempts never use up the cap.
\<close>

theorem pty_sessions_capped:
  assumes "pty_sys_step\<^sup>*\<^sup>* (pty_manager_default, 0, 0) (m, a, b)"
  shows "length (pm_live m) + a \<le> 16 \<and> pm_reserved m = a + b"
proof -
  from assms have "capped (m, a, b)"
  proof (induction rule: rtranclp_induct)
    case base
    show ?case by (simp add: capped_def pty_manager_default_def)
  next
    case (step y z)
    from capped_step [OF step(2,3)] show ?case .
  qed
  then show ?thesis by (simp add: capped_def max_concurrent_sessions_def)
qed

theorem pty_sessions_capped_witness:
  "\<exists>m. pty_sys_step\<^sup>*\<^sup>* (pty_manager_default, 0, 0) (m, 1, 0) \<and> length (pm_live m) + 1 \<le> 16 \<and> pm_reserved m = 1 + 0"
proof -
  have "spawn_reserve pty_manager_default = (Inr (), pty_manager_default\<lparr>pm_reserved := 1\<rparr>)"
    by (simp add: spawn_reserve_def check_session_cap_def max_concurrent_sessions_def pty_manager_default_def)
  from r_into_rtranclp [of pty_sys_step, OF pty_sys_step.reserve [OF this, of 0 0]]
  have "pty_sys_step\<^sup>*\<^sup>* (pty_manager_default, 0, 0) (pty_manager_default\<lparr>pm_reserved := 1\<rparr>, 1, 0)" by simp
  with pty_sessions_capped [OF this] show ?thesis by blast
qed

section \<open>Shells and ends\<close>

definition ended :: "string \<Rightarrow> pty_manager \<Rightarrow> nat" where
  "ended i m = length (filter (\<lambda>ev. case ev of SessionEnded j r \<Rightarrow> j = i | _ \<Rightarrow> False) (pm_events m))"

definition torn :: "string \<Rightarrow> pty_manager \<Rightarrow> bool" where
  "torn i m \<longleftrightarrow> (\<exists>s. pm_store m i = Some s \<and> ps_torn_down s)"

text \<open>
  Ids were handed out by the counter, registered sessions are not torn down, a child that was not killed
  belongs to a registered session with a reader (except the reader of a session of \<open>X\<close>, which is about to
  finish it), and only a session torn down has ended, once.
\<close>

definition ids_ok :: "nat \<Rightarrow> pty_manager \<Rightarrow> bool" where
  "ids_ok n m \<longleftrightarrow> pm_next_id m \<le> n \<and> (\<forall>i. pm_store m i \<noteq> None \<longrightarrow> (\<exists>k < pm_next_id m. i = ''webpty-'' @ dec k))"

definition live_ok :: "pty_manager \<Rightarrow> bool" where
  "live_ok m \<longleftrightarrow> (\<forall>i \<in> set (pm_live m). pm_store m i \<noteq> None \<and> \<not> torn i m)"

definition owned :: "string set \<Rightarrow> pty_manager \<Rightarrow> bool" where
  "owned X m \<longleftrightarrow> (\<forall>c < length (pm_children m). \<not> pm_children m ! c \<longrightarrow>
     (\<exists>i \<in> set (pm_live m). \<exists>s. pm_store m i = Some s \<and> ps_child s = c \<and> (ps_reading s \<or> i \<in> X)))"

definition ended_once :: "pty_manager \<Rightarrow> bool" where
  "ended_once m \<longleftrightarrow> (\<forall>i. ended i m \<le> (if torn i m then 1 else 0))"

definition registry_ok :: "string set \<Rightarrow> nat \<Rightarrow> pty_manager \<Rightarrow> bool" where
  "registry_ok X n m \<longleftrightarrow> ids_ok n m \<and> live_ok m \<and> owned X m \<and> ended_once m"

lemma registry_update:
  assumes ok: "registry_ok X n m" and f: "\<And>s. ps_child (f s) = ps_child s" "\<And>s. ps_torn_down (f s) = ps_torn_down s"
    and r: "\<And>s. ps_reading s \<Longrightarrow> ps_reading (f s) \<or> i \<in> X"
  shows "registry_ok X n (update_session i f m)"
proof -
  have t: "torn j (update_session i f m) = torn j m" for j
    using f(2) by (auto simp: torn_def)
  have "owned X (update_session i f m)"
    unfolding owned_def
  proof (intro allI impI)
    fix c
    assume "c < length (pm_children (update_session i f m))" "\<not> pm_children (update_session i f m) ! c"
    with ok obtain j s where j: "j \<in> set (pm_live m)" "pm_store m j = Some s" "ps_child s = c" "ps_reading s \<or> j \<in> X"
      by (auto simp: registry_ok_def owned_def)
    show "\<exists>j \<in> set (pm_live (update_session i f m)). \<exists>s. pm_store (update_session i f m) j = Some s \<and>
        ps_child s = c \<and> (ps_reading s \<or> j \<in> X)"
    proof (rule bexI [of _ j], cases "i = j")
      case True
      with j f(1) r [of s] show "\<exists>s. pm_store (update_session i f m) j = Some s \<and> ps_child s = c \<and> (ps_reading s \<or> j \<in> X)"
        by (intro exI [of _ "f s"]) auto
    next
      case False
      with j show "\<exists>s. pm_store (update_session i f m) j = Some s \<and> ps_child s = c \<and> (ps_reading s \<or> j \<in> X)"
        by (intro exI [of _ s]) auto
    qed (use j in simp)
  qed
  moreover have "ids_ok n (update_session i f m)" "live_ok (update_session i f m)" "ended_once (update_session i f m)"
    using ok t by (auto simp: registry_ok_def ids_ok_def live_ok_def ended_once_def ended_def)
  ultimately show ?thesis by (simp add: registry_ok_def)
qed

lemma registry_emit:
  assumes "registry_ok X n m" and "\<And>j r. ev \<noteq> SessionEnded j r"
  shows "registry_ok X n (snd (emit_terminal env ev m))"
proof -
  have "ended j (snd (emit_terminal env ev m)) = ended j m" for j
    using assms(2) by (cases ev) (auto simp: ended_def)
  with assms(1) show ?thesis
    by (simp add: registry_ok_def ids_ok_def live_ok_def owned_def ended_once_def torn_def)
qed

lemma killed_nth: "k < length cs \<Longrightarrow> \<not> (cs[c := True]) ! k \<Longrightarrow> \<not> cs ! k \<and> k \<noteq> c"
  by (cases "k = c") auto

lemma registry_kill:
  assumes "registry_ok X n m"
  shows "registry_ok X n (kill_child c m)"
proof -
  from assms have "owned X (kill_child c m)"
    by (auto simp: registry_ok_def owned_def dest: killed_nth)
  with assms show ?thesis by (auto simp: registry_ok_def ids_ok_def live_ok_def ended_once_def torn_def ended_def)
qed

lemma finish_active:
  assumes "pm_store m i = Some s" and "\<not> ps_torn_down s"
  shows "pm_next_id (finish_session env i m) = pm_next_id m" "pm_live (finish_session env i m) = removeAll i (pm_live m)"
    "pm_children (finish_session env i m) = (pm_children m)[ps_child s := True]"
    "pm_store (finish_session env i m) = (pm_store m)(i := Some (s\<lparr>ps_torn_down := True\<rparr>))"
    "ended j (finish_session env i m) \<le> ended j m + (if j = i then 1 else 0)"
  using assms by (auto simp: finish_session_def ended_def update_session_def Let_def)

lemma registry_finish:
  assumes "registry_ok {i} n m"
  shows "registry_ok {} n (finish_session env i m)"
proof (cases "pm_store m i")
  case None
  with assms have "owned {} m" by (fastforce simp: registry_ok_def owned_def)
  with None assms show ?thesis by (simp add: registry_ok_def finish_session_def)
next
  case (Some s)
  show ?thesis
  proof (cases "ps_torn_down s")
    case True
    with Some have "torn i m" by (simp add: torn_def)
    with assms have "i \<notin> set (pm_live m)" by (auto simp: registry_ok_def live_ok_def)
    with assms have "owned {} m" by (fastforce simp: registry_ok_def owned_def)
    with assms Some True show ?thesis by (simp add: registry_ok_def finish_session_def)
  next
    case False
    note sel = finish_active [OF Some False, where env = env]
    have torn: "torn j (finish_session env i m) \<longleftrightarrow> torn j m \<or> j = i" for j using sel(4) by (auto simp: torn_def)
    have "\<not> torn i m" using Some False by (simp add: torn_def)
    with assms have e0: "ended i m = 0" by (auto simp: registry_ok_def ended_once_def dest!: spec [of _ i])
    have "ended_once (finish_session env i m)"
      unfolding ended_once_def torn
    proof
      fix j
      from assms have "ended j m \<le> (if torn j m then 1 else 0)" by (simp add: registry_ok_def ended_once_def)
      with sel(5) [where j = j] e0 show "ended j (finish_session env i m) \<le> (if torn j m \<or> j = i then 1 else 0)"
        by (cases "j = i") (auto split: if_splits)
    qed
    moreover have "owned {} (finish_session env i m)"
      unfolding owned_def sel(2-4)
    proof (intro allI impI)
      fix c
      assume "c < length ((pm_children m)[ps_child s := True])" "\<not> (pm_children m)[ps_child s := True] ! c"
      then have c: "c < length (pm_children m)" "\<not> pm_children m ! c" "c \<noteq> ps_child s"
        by (auto dest: killed_nth)
      with assms obtain j t where j: "j \<in> set (pm_live m)" "pm_store m j = Some t" "ps_child t = c" "ps_reading t \<or> j = i"
        unfolding registry_ok_def owned_def by blast
      with c(3) Some have "j \<noteq> i" by auto
      with j show "\<exists>j \<in> set (removeAll i (pm_live m)). \<exists>t. ((pm_store m)(i \<mapsto> s\<lparr>ps_torn_down := True\<rparr>)) j = Some t \<and>
          ps_child t = c \<and> (ps_reading t \<or> j \<in> {})"
        by (intro bexI [of _ j] exI [of _ t]) auto
    qed
    moreover have "ids_ok n (finish_session env i m)"
      using assms Some unfolding registry_ok_def ids_ok_def sel(1,4) by auto
    moreover have "live_ok (finish_session env i m)"
      using assms unfolding registry_ok_def live_ok_def sel(2,4) torn by auto
    ultimately show ?thesis by (simp add: registry_ok_def)
  qed
qed

lemma registry_mono: "registry_ok X n m \<Longrightarrow> X \<subseteq> Y \<Longrightarrow> n \<le> k \<Longrightarrow> registry_ok Y k m"
  unfolding registry_ok_def ids_ok_def owned_def by (meson le_trans subsetD)

lemma registry_stop:
  assumes "registry_ok {} n m"
  shows "registry_ok {} n (reader_stop env i m)"
  unfolding reader_stop_def
  by (rule registry_finish, rule registry_update) (use registry_mono [OF assms, of "{i}" n] in auto)

lemma registry_turn:
  assumes "registry_ok {} n m"
  shows "registry_ok {} n (reader_turn env i r m)"
proof -
  have push: "registry_ok {} n (update_session i (\<lambda>s. s\<lparr>ps_ring := ring_push scrollback_cap chunk (ps_ring s)\<rparr>) m)" for chunk
    by (rule registry_update [OF assms]) auto
  have chunk: "registry_ok {} n (snd (reader_chunk env i chunk m))" for chunk
    unfolding reader_chunk_def Let_def using push registry_emit [OF push] by (auto split: option.split)
  show ?thesis
  proof (cases r)
    case (Read_Bytes chunk')
    with chunk [of chunk'] registry_stop [OF chunk, of env i chunk'] assms show ?thesis
      by (cases "reader_chunk env i chunk' m"; cases "fst (reader_chunk env i chunk' m)") (auto simp: reader_turn_def split: option.split)
  qed (use assms registry_stop in \<open>auto simp: reader_turn_def split: option.split\<close>)
qed

lemma registry_get: "pty_get i m = Inr s \<Longrightarrow> i \<in> set (pm_live m) \<and> pm_store m i = Some s"
  by (auto simp: pty_get_def ok_or_Inr_iff split: if_splits)

lemma registry_close:
  assumes "registry_ok {} n m"
  shows "registry_ok {} n (snd (pty_close env i m))"
proof (cases "pty_get i m")
  case (Inr s)
  have "registry_ok {} n (update_session i (\<lambda>s. s\<lparr>ps_closing := True\<rparr>) m)"
    by (rule registry_update [OF assms]) auto
  from registry_finish [OF registry_mono [OF registry_kill [OF this], of "{i}" n]] Inr show ?thesis
    by (simp add: pty_close_def)
qed (use assms in \<open>simp add: pty_close_def\<close>)

lemma registry_subscribe:
  assumes "registry_ok {} n m"
  shows "registry_ok {} n (snd (pty_subscribe env i m))"
proof (cases "pty_get i m")
  case (Inr s)
  define m1 where "m1 = snd (emit_terminal env (Attached i (ts_cols (ps_meta s)) (ts_rows (ps_meta s))) m)"
  have m1: "registry_ok {} n m1" unfolding m1_def by (rule registry_emit [OF assms]) simp
  define m2 where "m2 = (if ps_ring s = [] then m1 else snd (emit_terminal env (Output i (px_base64 env (ps_ring s))) m1))"
  have m2: "registry_ok {} n m2" unfolding m2_def using registry_emit [OF m1] m1 by auto
  have "registry_ok {} n (update_session i (\<lambda>s. s\<lparr>ps_subscribed := True\<rparr>) m2)"
    by (rule registry_update [OF m2]) auto
  with m1 m2 Inr show ?thesis
    by (auto simp: pty_subscribe_def m1_def m2_def split_beta split: bool.splits if_splits)
qed (use assms in \<open>simp add: pty_subscribe_def\<close>)

lemma shutdown_all:
  "pm_children (fold shutdown_one is m) = fold (\<lambda>i cs. case pm_store m i of None \<Rightarrow> cs | Some s \<Rightarrow> cs[ps_child s := True]) is (pm_children m) \<and>
   (\<forall>i. (pm_store (fold shutdown_one is m) i = None \<longleftrightarrow> pm_store m i = None) \<and> (torn i m \<longrightarrow> torn i (fold shutdown_one is m)))"
proof (induction "is" arbitrary: m)
  case (Cons i "is")
  have "map_option ps_child (pm_store (shutdown_one i m) j) = map_option ps_child (pm_store m j)" for j
    by (auto simp: shutdown_one_def option.map_comp comp_def split: option.split)
  then have same: "(\<lambda>j cs. case pm_store (shutdown_one i m) j of None \<Rightarrow> cs | Some s \<Rightarrow> cs[ps_child s := True]) =
      (\<lambda>j cs. case pm_store m j of None \<Rightarrow> cs | Some s \<Rightarrow> cs[ps_child s := True])"
    by (intro ext) (auto split: option.split, metis option.map_disc_iff option.simps(3), metis option.map_disc_iff option.simps(3),
        metis option.inject option.simps(9))
  have "pm_children (shutdown_one i m) = (case pm_store m i of None \<Rightarrow> pm_children m | Some s \<Rightarrow> (pm_children m)[ps_child s := True])"
    "\<forall>j. (pm_store (shutdown_one i m) j = None \<longleftrightarrow> pm_store m j = None) \<and> (torn j m \<longrightarrow> torn j (shutdown_one i m))"
    by (auto simp: shutdown_one_def torn_def split: option.split)
  with Cons.IH [of "shutdown_one i m"] same show ?case by simp
qed (simp add: torn_def)

lemma kept_killed: "c < length cs \<Longrightarrow> cs ! c \<or> k = c \<Longrightarrow> cs[k := True] ! c"
  by (cases "k = c") auto

lemma fold_kills:
  "length (fold (\<lambda>i cs. case st i of None \<Rightarrow> cs | Some s \<Rightarrow> cs[ps_child s := True]) is cs) = length cs \<and>
   (c < length cs \<longrightarrow> cs ! c \<or> (\<exists>i \<in> set is. \<exists>s. st i = Some s \<and> ps_child s = c) \<longrightarrow>
      fold (\<lambda>i cs. case st i of None \<Rightarrow> cs | Some s \<Rightarrow> cs[ps_child s := True]) is cs ! c)"
proof (induction "is" arbitrary: cs)
  case (Cons i "is")
  let ?cs = "case st i of None \<Rightarrow> cs | Some s \<Rightarrow> cs[ps_child s := True]"
  have "length ?cs = length cs" by (simp split: option.split)
  moreover have "c < length cs \<Longrightarrow> cs ! c \<or> (\<exists>s. st i = Some s \<and> ps_child s = c) \<Longrightarrow> ?cs ! c"
    by (auto split: option.split intro!: kept_killed)
  ultimately show ?case using Cons.IH [of ?cs] by auto
qed simp

lemma registry_shutdown:
  assumes "registry_ok {} n m"
  shows "registry_ok {} n (pty_shutdown m) \<and> (\<forall>c < length (pm_children (pty_shutdown m)). pm_children (pty_shutdown m) ! c)"
proof -
  define m0 where "m0 = m\<lparr>pm_live := []\<rparr>"
  have sd: "pty_shutdown m = fold shutdown_one (pm_live m) m0" by (simp add: pty_shutdown_def m0_def)
  have m0: "pm_store m0 = pm_store m" "pm_children m0 = pm_children m" "pm_events m0 = pm_events m" "pm_next_id m0 = pm_next_id m"
    by (simp_all add: m0_def)
  note all = shutdown_all [of "pm_live m" m0, unfolded m0]
  have killed: "pm_children (pty_shutdown m) ! c" if "c < length (pm_children (pty_shutdown m))" for c
  proof -
    from that all have c: "c < length (pm_children m)" by (simp add: sd fold_kills)
    have "pm_children m ! c \<or> (\<exists>i \<in> set (pm_live m). \<exists>s. pm_store m i = Some s \<and> ps_child s = c)"
      using assms c unfolding registry_ok_def owned_def by blast
    with c all show ?thesis unfolding sd by (simp add: fold_kills)
  qed
  have live: "pm_live (pty_shutdown m) = []" unfolding sd by (simp add: m0_def)
  have ev: "ended j (pty_shutdown m) = ended j m" for j unfolding sd by (simp add: ended_def m0_def)
  have ts: "torn j m \<Longrightarrow> torn j (pty_shutdown m)" for j using all unfolding sd by (simp add: torn_def m0_def)
  have "ended_once (pty_shutdown m)"
    unfolding ended_once_def ev
  proof
    fix j
    from assms have "ended j m \<le> (if torn j m then 1 else 0)" by (simp add: registry_ok_def ended_once_def)
    with ts [of j] show "ended j m \<le> (if torn j (pty_shutdown m) then 1 else 0)" by (auto split: if_splits)
  qed
  moreover have "ids_ok n (pty_shutdown m)" using assms all unfolding sd by (auto simp: registry_ok_def ids_ok_def m0_def)
  ultimately show ?thesis using live killed by (simp add: registry_ok_def live_ok_def owned_def)
qed

lemma owned_by: "owned X m \<Longrightarrow> c < length (pm_children m) \<Longrightarrow> \<not> pm_children m ! c \<Longrightarrow>
    \<exists>i \<in> set (pm_live m). \<exists>s. pm_store m i = Some s \<and> ps_child s = c \<and> (ps_reading s \<or> i \<in> X)"
  by (simp add: owned_def)

lemma registry_register:
  assumes ok: "registry_ok {} n m" and n: "n < 2 ^ 64 - 1"
    and m2: "spawn_register program c (m\<lparr>pm_children := pm_children m @ [False]\<rparr>) = (meta, m2)" and c: "c = length (pm_children m)"
  shows "registry_ok {ts_session_id meta} (Suc n) m2 \<and> ts_session_id meta \<in> set (pm_live m2) \<and>
    (\<exists>s. pm_store m2 (ts_session_id meta) = Some s \<and> ps_child s = c \<and> \<not> ps_torn_down s)"
proof -
  define i where "i = ''webpty-'' @ dec (pm_next_id m)"
  have nx: "pm_next_id m \<le> n" using ok by (simp add: registry_ok_def ids_ok_def)
  have fresh: "pm_store m i = None"
  proof (rule ccontr)
    assume "pm_store m i \<noteq> None"
    with ok obtain k where "k < pm_next_id m" "i = ''webpty-'' @ dec k" unfolding registry_ok_def ids_ok_def by blast
    then show False by (simp add: i_def)
  qed
  with ok have nl: "i \<notin> set (pm_live m)" by (auto simp: registry_ok_def live_ok_def)
  define s0 where "s0 = \<lparr>ps_meta = new_meta i program, ps_ring = [], ps_subscribed = False, ps_master_open = True, ps_child = c,
            ps_written = [], ps_reading = False, ps_closing = False, ps_torn_down = False\<rparr>"
  have meta: "ts_session_id meta = i" using m2 by (auto simp: spawn_register_def i_def new_meta_def Let_def)
  have sel: "pm_next_id m2 = Suc (pm_next_id m)" "pm_live m2 = pm_live m @ [i]" "pm_children m2 = pm_children m @ [False]"
    "pm_store m2 = (pm_store m)(i \<mapsto> s0)" "pm_events m2 = pm_events m"
    using m2 n nx nl by (auto simp: spawn_register_def i_def s0_def Let_def)
  have torn: "torn j m2 = torn j m" for j
    using fresh sel(4) by (auto simp: torn_def s0_def)
  have "owned {i} m2"
    unfolding owned_def
  proof (intro allI impI)
    fix d
    assume d: "d < length (pm_children m2)" "\<not> pm_children m2 ! d"
    show "\<exists>j \<in> set (pm_live m2). \<exists>s. pm_store m2 j = Some s \<and> ps_child s = d \<and> (ps_reading s \<or> j \<in> {i})"
    proof (cases "d = c")
      case True
      with sel show ?thesis by (intro bexI [of _ i] exI [of _ s0]) (auto simp: s0_def)
    next
      case False
      with d sel(3) c have "d < length (pm_children m)" "\<not> pm_children m ! d" by (auto simp: nth_append less_Suc_eq split: if_splits)
      with ok obtain j s where j: "j \<in> set (pm_live m)" "pm_store m j = Some s" "ps_child s = d" "ps_reading s"
        using owned_by [of "{}" m d] by (auto simp: registry_ok_def)
      with nl have "j \<noteq> i" by auto
      with j sel show ?thesis by (intro bexI [of _ j] exI [of _ s]) auto
    qed
  qed
  moreover have "ids_ok (Suc n) m2"
    using ok nx unfolding registry_ok_def ids_ok_def sel(1,4) by (auto simp: i_def less_Suc_eq)
  moreover have "live_ok m2" using ok fresh unfolding registry_ok_def live_ok_def sel(2,4) torn by (auto simp: torn_def)
  moreover have "ended_once m2" using ok by (simp add: registry_ok_def ended_once_def ended_def sel(5) torn)
  ultimately show ?thesis using sel meta by (auto simp: registry_ok_def s0_def)
qed

lemma registry_cong:
  assumes "pm_store m' = pm_store m" "pm_live m' = pm_live m" "pm_children m' = pm_children m"
    "pm_next_id m' = pm_next_id m" "pm_events m' = pm_events m"
  shows "registry_ok X n m' = registry_ok X n m"
  unfolding registry_ok_def ids_ok_def live_ok_def owned_def ended_once_def ended_def torn_def assms by (rule refl)

lemma owned_cleanup: "registry_ok X n m \<Longrightarrow> registry_ok X n (spawn_cleanup None m)"
  using registry_cong [of "spawn_cleanup None m" m X n] by simp

lemma registry_cleanup_new:
  assumes ok: "registry_ok {} n m"
  shows "registry_ok {} n (spawn_cleanup (Some (length (pm_children m))) (m\<lparr>pm_children := pm_children m @ [False]\<rparr>))" (is "registry_ok {} n ?m1")
proof -
  have c: "pm_children ?m1 = pm_children m @ [True]" by simp
  have "owned {} ?m1"
    unfolding owned_def
  proof (intro allI impI)
    fix d
    assume "d < length (pm_children ?m1)" "\<not> pm_children ?m1 ! d"
    with c have "d < length (pm_children m)" "\<not> pm_children m ! d" by (auto simp: nth_append less_Suc_eq split: if_splits)
    with ok owned_by [of "{}" m d] show "\<exists>i \<in> set (pm_live ?m1). \<exists>s. pm_store ?m1 i = Some s \<and> ps_child s = d \<and> (ps_reading s \<or> i \<in> {})"
      by (simp add: registry_ok_def)
  qed
  moreover have "ids_ok n ?m1" "live_ok ?m1" "ended_once ?m1"
    using ok by (simp_all add: registry_ok_def ids_ok_def live_ok_def ended_once_def ended_def torn_def)
  ultimately show ?thesis by (simp add: registry_ok_def)
qed

lemma registry_spawn:
  assumes ok: "registry_ok {} n m" and n: "n < 2 ^ 64 - 1"
  shows "registry_ok {} (Suc n) (snd (spawn_program env program m))"
proof -
  have up: "registry_ok {} n m' \<Longrightarrow> registry_ok {} (Suc n) m'" for m' by (erule registry_mono) auto
  show ?thesis
  proof (cases "spawn_reserve m")
    case (Pair r m1)
    show ?thesis
    proof (cases r)
      case (Inl e)
      with Pair have "m1 = m" by (auto simp: spawn_reserve_def split: sum.splits)
      with Inl Pair up [OF ok] show ?thesis by (simp add: spawn_program_def)
    next
      case (Inr x)
      with Pair have m1: "m1 = m\<lparr>pm_reserved := Suc (pm_reserved m)\<rparr>" by (auto simp: spawn_reserve_def split: sum.splits)
      have ok1: "registry_ok {} n m1"
        using ok registry_cong [of m1 m "{}" n] by (simp add: m1)
      define c where "c = length (pm_children m1)"
      define m2 where "m2 = m1\<lparr>pm_children := pm_children m1 @ [False]\<rparr>"
      have st: "start_child m1 = (c, m2)" by (simp add: start_child_def c_def m2_def)
      obtain meta m3 where reg: "spawn_register program c m2 = (meta, m3)" by (cases "spawn_register program c m2")
      note r = registry_register [OF ok1 n reg [unfolded m2_def] c_def]
      let ?i = "ts_session_id meta"
      have runs: "registry_ok {} (Suc n) (update_session ?i (\<lambda>s. s\<lparr>ps_reading := True\<rparr>) m3)"
      proof -
        have u: "registry_ok {?i} (Suc n) (update_session ?i (\<lambda>s. s\<lparr>ps_reading := True\<rparr>) m3)"
          by (rule registry_update) (use r in auto)
        have "owned {} (update_session ?i (\<lambda>s. s\<lparr>ps_reading := True\<rparr>) m3)"
          unfolding owned_def
        proof (intro allI impI)
          fix d
          assume d: "d < length (pm_children (update_session ?i (\<lambda>s. s\<lparr>ps_reading := True\<rparr>) m3))"
            "\<not> pm_children (update_session ?i (\<lambda>s. s\<lparr>ps_reading := True\<rparr>) m3) ! d"
          from u have "owned {?i} (update_session ?i (\<lambda>s. s\<lparr>ps_reading := True\<rparr>) m3)" by (simp add: registry_ok_def)
          from owned_by [OF this d] obtain j t where j: "j \<in> set (pm_live m3)"
            "pm_store (update_session ?i (\<lambda>s. s\<lparr>ps_reading := True\<rparr>) m3) j = Some t" "ps_child t = d" "ps_reading t \<or> j = ?i"
            by auto
          then have "ps_reading t" by (auto split: if_splits)
          with j show "\<exists>j \<in> set (pm_live (update_session ?i (\<lambda>s. s\<lparr>ps_reading := True\<rparr>) m3)).
              \<exists>t. pm_store (update_session ?i (\<lambda>s. s\<lparr>ps_reading := True\<rparr>) m3) j = Some t \<and> ps_child t = d \<and> (ps_reading t \<or> j \<in> {})"
            by (intro bexI [of _ j] exI [of _ t]) simp_all
        qed
        with u show ?thesis by (simp add: registry_ok_def)
      qed
      have fails: "registry_ok {} (Suc n) (spawn_unregister ?i c m3)"
      proof -
        from r obtain s where s: "pm_store m3 ?i = Some s" "ps_child s = c" and ok3: "registry_ok {?i} (Suc n) m3" by blast
        have "owned {} (spawn_unregister ?i c m3)"
          unfolding owned_def
        proof (intro allI impI)
          fix d
          assume d: "d < length (pm_children (spawn_unregister ?i c m3))" "\<not> pm_children (spawn_unregister ?i c m3) ! d"
          then have d': "d < length (pm_children m3)" "\<not> pm_children m3 ! d" "d \<noteq> c"
            by (auto simp: spawn_unregister_def dest: killed_nth)
          with ok3 obtain j t where j: "j \<in> set (pm_live m3)" "pm_store m3 j = Some t" "ps_child t = d" "ps_reading t \<or> j = ?i"
            using owned_by [of "{?i}" m3 d] by (auto simp: registry_ok_def)
          with d'(3) s have "j \<noteq> ?i" by auto
          with j show "\<exists>j \<in> set (pm_live (spawn_unregister ?i c m3)). \<exists>t. pm_store (spawn_unregister ?i c m3) j = Some t \<and>
              ps_child t = d \<and> (ps_reading t \<or> j \<in> {})"
            by (intro bexI [of _ j] exI [of _ t]) (auto simp: spawn_unregister_def)
        qed
        with ok3 show ?thesis
          by (auto simp: registry_ok_def ids_ok_def live_ok_def ended_once_def ended_def torn_def spawn_unregister_def)
      qed
      have new: "registry_ok {} (Suc n) (spawn_cleanup (Some c) m2)"
        unfolding c_def m2_def by (rule up, rule registry_cleanup_new [OF ok1])
      have none: "registry_ok {} (Suc n) (spawn_cleanup None m1)" by (rule owned_cleanup, rule up, rule ok1)
      note fails = owned_cleanup [OF fails] and runs = owned_cleanup [OF runs]
      show ?thesis
        unfolding spawn_program_def Pair Inr prod.case sum.case Let_def st reg
        using new none fails runs by (auto split: option.split)
    qed
  qed
qed

lemma registry_step:
  assumes ok: "registry_ok {} n m" and "n < 2 ^ 64 - 1"
  shows "registry_ok {} (Suc n) (pty_step (op, env) m)"
proof -
  have "registry_ok {} n (pty_step (op, env) m) \<or> is_spawn op"
    using registry_subscribe [OF ok] registry_close [OF ok] registry_turn [OF ok] registry_shutdown [OF ok] ok
      registry_update [OF ok]
    by (cases op) (auto simp: pty_unsubscribe_def pty_write_def pty_resize_def Let_def split: sum.split option.split)
  with registry_spawn [OF assms] show ?thesis
    by (cases op) (auto intro: registry_mono)
qed

lemma registry_run:
  assumes "registry_ok {} n m" and "n + length ops < 2 ^ 64"
  shows "registry_ok {} (n + length ops) (fold pty_step ops m)"
  using assms
proof (induction ops arbitrary: n m)
  case (Cons x ops)
  obtain op env where x: "x = (op, env)" by (cases x)
  have "registry_ok {} (Suc n) (pty_step (op, env) m)"
    by (rule registry_step [OF Cons.prems(1)]) (use Cons.prems(2) in simp)
  from Cons.IH [OF this] Cons.prems(2) x show ?case by simp
qed simp

text \<open>
  C14. In every order of creating, using, closing and reading sessions and shutting down, with every failure
  of the system, a shell that was not killed belongs to a registered session with a running reader, so none
  outlives its session or the program; and of each session at most one end is announced, none while it is
  registered. The id counter is 64 bits wide, so the number of operations is less than its range.
\<close>

theorem no_shell_outlives_session:
  assumes "length ops < 2 ^ 64"
  defines "m \<equiv> fold pty_step ops pty_manager_default"
  shows "(\<forall>c < length (pm_children m). \<not> pm_children m ! c \<longrightarrow>
      (\<exists>i \<in> set (pm_live m). \<exists>s. pm_store m i = Some s \<and> ps_child s = c \<and> ps_reading s)) \<and>
    (\<forall>c < length (pm_children m). pm_children (pty_shutdown m) ! c) \<and>
    (\<forall>i. ended i m \<le> 1 \<and> (i \<in> set (pm_live m) \<longrightarrow> ended i m = 0))"
proof -
  have "registry_ok {} 0 pty_manager_default"
    by (simp add: registry_ok_def ids_ok_def live_ok_def owned_def ended_once_def ended_def pty_manager_default_def)
  from registry_run [OF this, of ops] assms(1) have ok: "registry_ok {} (length ops) m" by (simp add: m_def)
  have "length (pm_children (pty_shutdown m)) = length (pm_children m)"
    using shutdown_all [of "pm_live m" "m\<lparr>pm_live := []\<rparr>"] by (simp add: pty_shutdown_def fold_kills)
  with registry_shutdown [OF ok] have down: "\<forall>c < length (pm_children m). pm_children (pty_shutdown m) ! c" by simp
  have "ended i m \<le> (if torn i m then 1 else 0)" for i using ok by (simp add: registry_ok_def ended_once_def)
  then have "ended i m \<le> 1 \<and> (\<not> torn i m \<longrightarrow> ended i m = 0)" for i
    using \<open>\<And>i. ended i m \<le> (if torn i m then 1 else 0)\<close> [of i] by (cases "torn i m") simp_all
  moreover have "\<forall>i \<in> set (pm_live m). \<not> torn i m" using ok by (simp add: registry_ok_def live_ok_def)
  moreover have "owned {} m" using ok by (simp add: registry_ok_def)
  ultimately show ?thesis using down unfolding owned_def by auto
qed

definition calm_env :: pty_env where
  "calm_env = \<lparr>px_emit_ok = (\<lambda>n. True), px_base64 = (\<lambda>s. s), px_openpty_error = None, px_spawn_error = (\<lambda>p. None),
     px_reader_error = None, px_writer_error = None, px_thread_error = None, px_write_error = None,
     px_flush_error = None, px_resize_error = None, px_shell = None\<rparr>"

definition one_shell :: pty_manager where
  "one_shell = fold pty_step [(Op_Spawn ''/bin/sh'', calm_env)] pty_manager_default"

lemma dec_zero: "dec 0 = ''0''"
  by code_simp

lemma one_shell_simps:
  "pm_live one_shell = [''webpty-0'']" "pm_children one_shell = [False]" "pm_next_id one_shell = 1" "pm_events one_shell = []"
  "\<exists>s. pm_store one_shell ''webpty-0'' = Some s \<and> ps_reading s \<and> \<not> ps_subscribed s \<and> ps_ring s = []"
  by (simp_all add: one_shell_def spawn_program_def spawn_reserve_def check_session_cap_def max_concurrent_sessions_def
      pty_manager_default_def calm_env_def start_child_def spawn_register_def new_meta_def Let_def dec_zero)

theorem no_shell_outlives_session_witness:
  "\<not> pm_children one_shell ! 0 \<and> pm_children (pty_shutdown one_shell) ! 0 \<and> ended ''webpty-0'' one_shell = 0"
proof -
  note r = no_shell_outlives_session [of "[(Op_Spawn ''/bin/sh'', calm_env)]", folded one_shell_def]
  have "length [(Op_Spawn ''/bin/sh'', calm_env)] < 2 ^ 64" by simp
  from r [OF this] show ?thesis by (simp add: one_shell_simps)
qed

section \<open>Attaching\<close>

lemma ring_of_stream:
  "fold (ring_push cap) cs [] = drop (length (concat cs) - cap) (concat cs)"
proof (induction cs rule: rev_induct)
  case (snoc c cs)
  then show ?case by (cases "length (concat cs) \<le> cap") (simp_all add: ring_push_def add.commute)
qed simp

definition chunks :: "string \<Rightarrow> (pty_op \<times> pty_env) list \<Rightarrow> string list" where
  "chunks i ops = List.map_filter (\<lambda>(op, env). case op of Op_Read j (Read_Bytes c) \<Rightarrow> if j = i then Some c else None | _ \<Rightarrow> None) ops"

definition outputs :: "string \<Rightarrow> terminal_event list \<Rightarrow> string list" where
  "outputs i evs = List.map_filter (\<lambda>ev. case ev of Output j d \<Rightarrow> if j = i then Some d else None | _ \<Rightarrow> None) evs"

text \<open>An operation that leaves a session attached or detached as it is, and its reader running.\<close>

fun keeps :: "string \<Rightarrow> pty_op \<Rightarrow> bool" where
  "keeps i (Op_Subscribe j) \<longleftrightarrow> j \<noteq> i"
| "keeps i (Op_Unsubscribe j) \<longleftrightarrow> j \<noteq> i"
| "keeps i (Op_Close j) \<longleftrightarrow> j \<noteq> i"
| "keeps i (Op_Read j r) \<longleftrightarrow> j \<noteq> i \<or> (\<exists>c. r = Read_Bytes c)"
| "keeps i Op_Shutdown \<longleftrightarrow> False"
| "keeps i op \<longleftrightarrow> True"

definition session_at :: "string \<Rightarrow> bool \<Rightarrow> string \<Rightarrow> pty_manager \<Rightarrow> bool" where
  "session_at i sub ring m \<longleftrightarrow> i \<in> set (pm_live m) \<and> (\<exists>k < pm_next_id m. i = ''webpty-'' @ dec k) \<and>
     (\<exists>s. pm_store m i = Some s \<and> ps_reading s \<and> ps_subscribed s = sub \<and> ps_ring s = ring)"

lemma outputs_append [simp]: "outputs i (a @ b) = outputs i a @ outputs i b"
  by (simp add: outputs_def List.map_filter_def)

lemma outputs_simps [simp]:
  "outputs i [] = []" "outputs i (Attached j c r # evs) = outputs i evs" "outputs i (SessionEnded j t # evs) = outputs i evs"
  "outputs i (Output j d # evs) = (if j = i then d # outputs i evs else outputs i evs)"
  by (simp_all add: outputs_def List.map_filter_def)

lemma finish_other:
  assumes "i \<noteq> j"
  shows "session_at i sub ring (finish_session env j m) = session_at i sub ring m"
    "outputs i (pm_events (finish_session env j m)) = outputs i (pm_events m)"
    "pm_next_id (finish_session env j m) = pm_next_id m"
  using assms by (auto simp: session_at_def finish_session_def Let_def split: option.split)

lemma update_other:
  assumes "i \<noteq> j"
  shows "session_at i sub ring (update_session j f m) = session_at i sub ring m"
  using assms by (auto simp: session_at_def)

lemma emit_session: "session_at i sub ring (snd (emit_terminal env ev m)) = session_at i sub ring m"
  by (simp add: session_at_def)

lemma kill_session: "session_at i sub ring (kill_child c m) = session_at i sub ring m"
  by (simp add: session_at_def)

definition stays :: "string \<Rightarrow> bool \<Rightarrow> string \<Rightarrow> string list \<Rightarrow> pty_manager \<Rightarrow> pty_manager \<Rightarrow> bool" where
  "stays i sub ring outs m m' \<longleftrightarrow> session_at i sub ring m' \<and> outputs i (pm_events m') = outputs i (pm_events m) @ outs \<and>
     pm_next_id m' \<le> Suc (pm_next_id m)"

lemma stays_close: "i \<noteq> j \<Longrightarrow> session_at i sub ring m \<Longrightarrow> stays i sub ring [] m (snd (pty_close env j m))"
  by (cases "pty_get j m") (simp_all add: pty_close_def stays_def finish_other kill_session update_other)

lemma stays_subscribe: "i \<noteq> j \<Longrightarrow> session_at i sub ring m \<Longrightarrow> stays i sub ring [] m (snd (pty_subscribe env j m))"
  by (cases "pty_get j m")
    (auto simp: pty_subscribe_def stays_def session_at_def emit_terminal_def Let_def split: if_splits)

lemma stays_read_other:
  assumes "i \<noteq> j" and "session_at i sub ring m"
  shows "stays i sub ring [] m (reader_turn env j r m)"
proof -
  have stop: "stays i sub ring [] m (reader_stop env j m')" if "stays i sub ring [] m m'" for m'
    using that assms(1) by (simp add: reader_stop_def stays_def finish_other update_other)
  have chunk: "stays i sub ring [] m (snd (reader_chunk env j c m))" for c
    using assms by (auto simp: reader_chunk_def stays_def emit_session update_other Let_def split: option.split)
  have start: "stays i sub ring [] m m" using assms by (simp add: stays_def)
  show ?thesis
  proof (cases r)
    case (Read_Bytes c)
    obtain b m1 where bm: "reader_chunk env j c m = (b, m1)" by (cases "reader_chunk env j c m")
    with chunk [of c] have "stays i sub ring [] m m1" by simp
    with stop start bm Read_Bytes show ?thesis by (cases b) (auto simp: reader_turn_def split: option.split)
  qed (use stop start in \<open>auto simp: reader_turn_def split: option.split\<close>)
qed

lemma stays_read:
  assumes "session_at i sub ring m" and "\<And>n. px_emit_ok env n"
  shows "stays i sub (ring_push scrollback_cap c ring) (if sub then [px_base64 env c] else []) m (reader_turn env i (Read_Bytes c) m)"
proof -
  from assms(1) obtain s where s: "pm_store m i = Some s" "ps_reading s" "ps_subscribed s = sub" "ps_ring s = ring"
    by (auto simp: session_at_def)
  with assms show ?thesis
    by (auto simp: reader_turn_def reader_chunk_def emit_terminal_def stays_def session_at_def Let_def)
qed

lemma stays_spawn:
  assumes at: "session_at i sub ring m" and n: "pm_next_id m < 2 ^ 64 - 1"
  shows "stays i sub ring [] m (snd (spawn_program env program m))"
proof -
  let ?new = "''webpty-'' @ dec (pm_next_id m)"
  from at have ne: "?new \<noteq> i" by (auto simp: session_at_def)
  have nx: "Suc (pm_next_id m) mod 2 ^ 64 = Suc (pm_next_id m)" using n by simp
  show ?thesis
  proof (cases "spawn_reserve m")
    case (Pair r m1)
    show ?thesis
    proof (cases r)
      case (Inl e)
      with Pair have "m1 = m" by (auto simp: spawn_reserve_def split: sum.splits)
      with Inl Pair at show ?thesis by (simp add: spawn_program_def stays_def)
    next
      case (Inr x)
      with Pair have m1: "m1 = m\<lparr>pm_reserved := Suc (pm_reserved m)\<rparr>" by (auto simp: spawn_reserve_def split: sum.splits)
      obtain c m2 where st: "start_child m1 = (c, m2)" by (cases "start_child m1")
      then have m2: "pm_next_id m2 = pm_next_id m" "pm_live m2 = pm_live m" "pm_store m2 = pm_store m" "pm_events m2 = pm_events m"
        by (auto simp: start_child_def m1)
      obtain meta m3 where reg: "spawn_register program c m2 = (meta, m3)" by (cases "spawn_register program c m2")
      then have m3: "ts_session_id meta = ?new" "pm_next_id m3 = Suc (pm_next_id m)" "pm_events m3 = pm_events m"
        "i \<in> set (pm_live m) \<Longrightarrow> i \<in> set (pm_live m3)" "pm_store m3 i = pm_store m i"
        using m2 nx ne by (auto simp: spawn_register_def new_meta_def Let_def)
      have "stays i sub ring [] m (spawn_cleanup None m1)" "stays i sub ring [] m (spawn_cleanup (Some c) m2)"
        "stays i sub ring [] m (spawn_cleanup None (spawn_unregister (ts_session_id meta) c m3))"
        "stays i sub ring [] m (spawn_cleanup None (update_session (ts_session_id meta) (\<lambda>s. s\<lparr>ps_reading := True\<rparr>) m3))"
        using at ne m2 m3 by (auto simp: stays_def session_at_def m1 spawn_unregister_def less_Suc_eq)
      then show ?thesis
        unfolding spawn_program_def Pair Inr prod.case sum.case Let_def st reg by (auto split: option.split)
    qed
  qed
qed

lemma stays_step:
  assumes "session_at i sub ring m" and "keeps i op" and "\<And>n. px_emit_ok env n" and "pm_next_id m < 2 ^ 64 - 1"
  shows "stays i sub (fold (ring_push scrollback_cap) (chunks i [(op, env)]) ring)
    (if sub then map (px_base64 env) (chunks i [(op, env)]) else []) m (pty_step (op, env) m)"
proof -
  have same: "stays i sub ring [] m (update_session j f m)"
    if "\<And>s. ps_reading (f s) = ps_reading s" "\<And>s. ps_subscribed (f s) = ps_subscribed s \<or> j \<noteq> i" "\<And>s. ps_ring (f s) = ps_ring s" for j f
    using assms(1) that by (auto simp: stays_def session_at_def)
  have none: "stays i sub ring [] m m" using assms(1) by (simp add: stays_def)
  show ?thesis
  proof (cases op)
    case (Op_Read j r)
    show ?thesis
    proof (cases "j = i")
      case True
      with Op_Read assms(2) obtain c where "r = Read_Bytes c" by auto
      with True Op_Read stays_read [OF assms(1,3)] show ?thesis by (cases sub) (simp_all add: chunks_def List.map_filter_def)
    next
      case False
      with Op_Read stays_read_other [OF _ assms(1)] show ?thesis
        by (cases r) (auto simp: chunks_def List.map_filter_def)
    qed
  qed (use assms stays_spawn stays_close stays_subscribe none same in
      \<open>auto simp: chunks_def List.map_filter_def pty_unsubscribe_def pty_write_def pty_resize_def Let_def split: sum.split option.split\<close>)
qed

lemma chunks_Cons: "chunks i (x # ops) = chunks i [x] @ chunks i ops"
  by (simp add: chunks_def List.map_filter_def)

lemma stays_run:
  assumes "session_at i sub ring m" and "\<forall>(op, env) \<in> set ops. keeps i op \<and> (\<forall>n. px_emit_ok env n) \<and> px_base64 env = b64"
    and "pm_next_id m + length ops < 2 ^ 64"
  shows "session_at i sub (fold (ring_push scrollback_cap) (chunks i ops) ring) (fold pty_step ops m) \<and>
    outputs i (pm_events (fold pty_step ops m)) = outputs i (pm_events m) @ (if sub then map b64 (chunks i ops) else []) \<and>
    pm_next_id (fold pty_step ops m) \<le> pm_next_id m + length ops"
  using assms
proof (induction ops arbitrary: m ring)
  case (Cons x ops)
  obtain op env where x: "x = (op, env)" by (cases x)
  with Cons.prems have e: "keeps i op" "\<And>n. px_emit_ok env n" "px_base64 env = b64" "pm_next_id m < 2 ^ 64 - 1" by auto
  from stays_step [OF Cons.prems(1) e(1,2,4)] x e(3)
  have s: "session_at i sub (fold (ring_push scrollback_cap) (chunks i [x]) ring) (pty_step x m)"
    "outputs i (pm_events (pty_step x m)) = outputs i (pm_events m) @ (if sub then map b64 (chunks i [x]) else [])"
    "pm_next_id (pty_step x m) \<le> Suc (pm_next_id m)"
    by (simp_all add: stays_def)
  from Cons.IH [OF s(1)] Cons.prems(2,3) s(2,3) show ?case
    by (auto simp: chunks_Cons [of i x ops])
qed (simp add: chunks_def List.map_filter_def)

text \<open>Panels that come and go leave the ring alone: it holds the end of all that was printed.\<close>

definition lasts :: "string \<Rightarrow> pty_op \<Rightarrow> bool" where
  "lasts i op \<longleftrightarrow> keeps i op \<or> op = Op_Subscribe i \<or> op = Op_Unsubscribe i"

lemma subscribe_ring:
  assumes "session_at i sub ring m"
  shows "\<exists>sub'. session_at i sub' ring (snd (pty_subscribe env i m)) \<and> pm_next_id (snd (pty_subscribe env i m)) = pm_next_id m"
  using assms by (auto simp: session_at_def pty_get_def pty_subscribe_def emit_terminal_def Let_def)

lemma unsubscribe_ring:
  assumes "session_at i sub ring m"
  shows "session_at i False ring (snd (pty_unsubscribe i m)) \<and> pm_next_id (snd (pty_unsubscribe i m)) = pm_next_id m"
  using assms by (auto simp: session_at_def pty_get_def pty_unsubscribe_def)

lemma ring_step:
  assumes "session_at i sub ring m" and "lasts i op" and "\<And>n. px_emit_ok env n" and "pm_next_id m < 2 ^ 64 - 1"
  shows "\<exists>sub'. session_at i sub' (fold (ring_push scrollback_cap) (chunks i [(op, env)]) ring) (pty_step (op, env) m) \<and>
    pm_next_id (pty_step (op, env) m) \<le> Suc (pm_next_id m)"
proof (cases "keeps i op")
  case True
  from stays_step [OF assms(1) True assms(3,4)] show ?thesis by (auto simp: stays_def)
next
  case False
  with assms(2) consider "op = Op_Subscribe i" | "op = Op_Unsubscribe i" by (auto simp: lasts_def)
  then show ?thesis
  proof cases
    case 1
    with subscribe_ring [OF assms(1), of env] show ?thesis by (auto simp: chunks_def List.map_filter_def)
  next
    case 2
    with unsubscribe_ring [OF assms(1)] show ?thesis by (auto simp: chunks_def List.map_filter_def)
  qed
qed

lemma ring_run:
  assumes "session_at i sub ring m" and "\<forall>(op, env) \<in> set ops. lasts i op \<and> (\<forall>n. px_emit_ok env n)"
    and "pm_next_id m + length ops < 2 ^ 64"
  shows "\<exists>sub'. session_at i sub' (fold (ring_push scrollback_cap) (chunks i ops) ring) (fold pty_step ops m) \<and>
    pm_next_id (fold pty_step ops m) \<le> pm_next_id m + length ops"
  using assms
proof (induction ops arbitrary: m ring sub)
  case Nil
  then show ?case by (auto simp: chunks_def List.map_filter_def)
next
  case (Cons x ops)
  obtain op env where x: "x = (op, env)" by (cases x)
  with Cons.prems have e: "lasts i op" "\<And>n. px_emit_ok env n" "pm_next_id m < 2 ^ 64 - 1" by auto
  from ring_step [OF Cons.prems(1) e] x obtain sub1
    where s: "session_at i sub1 (fold (ring_push scrollback_cap) (chunks i [x]) ring) (pty_step x m)"
      "pm_next_id (pty_step x m) \<le> Suc (pm_next_id m)" by blast
  from Cons.IH [OF s(1)] Cons.prems(2,3) s(2) obtain sub2 where
    "session_at i sub2 (fold (ring_push scrollback_cap) (chunks i ops) (fold (ring_push scrollback_cap) (chunks i [x]) ring))
      (fold pty_step ops (pty_step x m))"
    "pm_next_id (fold pty_step ops (pty_step x m)) \<le> pm_next_id (pty_step x m) + length ops" by force
  with s(2) show ?case by (auto simp: chunks_Cons [of i x ops])
qed

text \<open>
  C21. A panel that attaches to a shell sees its output without a gap and without a repetition, the first
  time and every time it attaches again: whatever panels attached to the shell or detached from it before,
  from the moment of attaching the data sent for the session are first the last 256 kibibytes of everything
  the shell printed so far, as one piece, and then every piece it prints, in order, until a panel attaches
  or detaches again, whatever happens to other sessions and however its chunks are cut.
\<close>

theorem attach_sees_backlog_once:
  assumes "session_at i attached [] m"
    and "\<forall>(op, env) \<in> set before. lasts i op \<and> (\<forall>n. px_emit_ok env n)"
    and "\<forall>(op, env) \<in> set after. keeps i op \<and> (\<forall>n. px_emit_ok env n) \<and> px_base64 env = b64"
    and "\<And>n. px_emit_ok env n" and "px_base64 env = b64"
    and "pm_next_id m + length before + length after < 2 ^ 64"
  defines "m1 \<equiv> fold pty_step before m"
    and "m2 \<equiv> fold pty_step after (snd (pty_subscribe env i (fold pty_step before m)))"
    and "printed \<equiv> concat (chunks i before)"
  shows "outputs i (pm_events m2) = outputs i (pm_events m1) @
      (if printed = [] then [] else [b64 (drop (length printed - 256 * 1024) printed)]) @ map b64 (chunks i after)"
proof -
  let ?ring = "drop (length printed - scrollback_cap) printed"
  have "\<exists>sub. session_at i sub ?ring m1 \<and> pm_next_id m1 \<le> pm_next_id m + length before"
    using ring_run [OF assms(1,2)] assms(6) by (simp add: m1_def printed_def ring_of_stream)
  then obtain sub where r1: "session_at i sub ?ring m1" and n1: "pm_next_id m1 \<le> pm_next_id m + length before" by blast
  from r1 obtain s where s: "pty_get i m1 = Inr s" "ps_ring s = ?ring"
    by (auto simp: session_at_def pty_get_def)
  have "0 < scrollback_cap" by (simp add: scrollback_cap_def)
  then have empty: "?ring = [] \<longleftrightarrow> printed = []" by (cases printed) auto
  define ms where "ms = snd (pty_subscribe env i m1)"
  have ms: "session_at i True ?ring ms" "pm_next_id ms = pm_next_id m1"
    "outputs i (pm_events ms) = outputs i (pm_events m1) @ (if printed = [] then [] else [b64 ?ring])"
    using r1 s empty assms(4,5)
    by (auto simp: ms_def pty_subscribe_def emit_terminal_def session_at_def Let_def split: if_splits)
  from stays_run [OF ms(1), of after b64] assms(3,6) n1 ms(2,3) show ?thesis
    by (simp add: m2_def ms_def [symmetric] m1_def [symmetric] scrollback_cap_def)
qed

text \<open>A shell that prints while a panel comes and goes, and after the panel has come back.\<close>

theorem attach_sees_backlog_once_witness:
  "outputs ''webpty-0'' (pm_events (fold pty_step [(Op_Read ''webpty-0'' (Read_Bytes ''b''), calm_env)]
      (snd (pty_subscribe calm_env ''webpty-0'' (fold pty_step [(Op_Subscribe ''webpty-0'', calm_env),
        (Op_Unsubscribe ''webpty-0'', calm_env), (Op_Read ''webpty-0'' (Read_Bytes ''a''), calm_env)] one_shell)))))
    = [''a'', ''b'']"
proof -
  let ?before = "[(Op_Subscribe ''webpty-0'', calm_env), (Op_Unsubscribe ''webpty-0'', calm_env),
    (Op_Read ''webpty-0'' (Read_Bytes ''a''), calm_env)]"
  let ?after = "[(Op_Read ''webpty-0'' (Read_Bytes ''b''), calm_env)]"
  have at: "session_at ''webpty-0'' False [] one_shell"
    using one_shell_simps by (auto simp: session_at_def dec_zero)
  obtain s where s: "pm_store one_shell ''webpty-0'' = Some s" "ps_reading s" "ps_ring s = []" "\<not> ps_subscribed s"
    using one_shell_simps(5) by blast
  have none: "outputs ''webpty-0'' (pm_events (fold pty_step ?before one_shell)) = []"
    using s one_shell_simps(1,4)
    by (simp add: pty_subscribe_def pty_unsubscribe_def pty_get_def emit_terminal_def calm_env_def reader_turn_def
        reader_chunk_def Let_def)
  have "outputs ''webpty-0'' (pm_events (fold pty_step ?after (snd (pty_subscribe calm_env ''webpty-0'' (fold pty_step ?before one_shell)))))
    = outputs ''webpty-0'' (pm_events (fold pty_step ?before one_shell)) @
      (if concat (chunks ''webpty-0'' ?before) = [] then []
       else [(\<lambda>s. s) (drop (length (concat (chunks ''webpty-0'' ?before)) - 256 * 1024) (concat (chunks ''webpty-0'' ?before)))]) @
      map (\<lambda>s. s) (chunks ''webpty-0'' ?after)"
    by (rule attach_sees_backlog_once [OF at]) (simp_all add: calm_env_def one_shell_simps lasts_def)
  then show ?thesis unfolding none by (simp add: chunks_def List.map_filter_def)
qed

end
