(* ===== verification/Spec2Isabelle.thy ===== *)
theory Spec2Isabelle
  imports Outbox_Properties Inbox_Properties Notification_Properties Rule_Properties Inbox_Commits Workflow_Properties External_Properties Human_Properties History_Properties Session_Interleaving Session_Properties Lifecycle_Properties Replay_Properties Webhook Gate_Properties Scheduler_Properties Webhook_Properties Client_Properties Migration_Properties Validation_Properties Comment_Url Deeplink_Properties Notify_Properties Pty_Properties
begin

text \<open>
  Verification of prmonitor, a desktop application that watches pull requests and runs reviews. The
  program is the Rust code under src/src-tauri/src; the paths below are relative to it. Each theory opens
  with what it holds; a comment before a definition names the lines it translates.

  THE PROGRAM. A webhook, a poll or an external caller delivers an event. The inbox stores it once and
  hands it to the rule processor, which matches the configured rules and enqueues their actions
  (notifications, messages, reviews) in the outbox, in the transaction that marks the event processed. The
  outbox worker executes the due actions with retries and a dead letter. A workflow waits for a review
  started by an external caller and sends the completion notice. A request for human input waits in its
  table until it is answered, cancelled or expired. A review runs in one of three engines: a session is
  registered, its turns are pumped from the engine to the panel and the history, and a single funnel ends
  each turn. All durable state lives in one SQLite database.

  THE BASE.
    Prelude: errors as values (error.rs), the width of Rust's integers with saturation and casts,
      byte strings with their UTF-8 boundaries, trimming, and the lemma collections. Text, Json, Serde: the
      text operations of the standard library, JSON values with serde_json's objects, and derived readers.
    Model, Skill, Event: the wire model (model.rs): newtypes, enums with their wire strings (locales
      wire_enum and strict_wire_enum), skill invocations, event envelopes, producer keys, payloads.
    Tables: SQLite tables as row lists in rowid order with the AUTOINCREMENT counter, and the compare and
      set update as a locale (cas_family) that many statements below interpret.
    Schema: the rows, the constraints and the transactions (db.rs). An operation inside a transaction is a
      function db => error + result * db, so that an error has no database to commit; with_tx rolls back,
      with_conn commits statement by statement.
    World: what a service sees: the database, the configuration, the clock, the wake permits and the log of
      emitted events; and the state of the pull request slice (locale world_view).

  THE CONFIGURATION.
    Config: the records of config/model.rs with their defaults, and the validation of rules.
    Project_Config: validation of projects and the resolution of a project reference (config/service.rs).
    Config_Validation: the rest of the validation (config/service.rs) with IP addresses and networks.
    Config_Migration: the migrations of a stored configuration. Cli_Resolver: config/cli.rs.

  THE COMPONENTS.
    Outbox_Store, Outbox_Worker: outbox/store.rs, service.rs, commands.rs and the wake permit.
    Inbox_Service: inbox/store.rs, service.rs, manager.rs, commands.rs.
    Rule_Events: rule/service.rs, store.rs, commands.rs and the rule processor of lib.rs.
    Notifications: notification.rs, messaging_outbox.rs and the sending half of messaging/service.rs.
    Notify_Delivery: the delivery to the channels (review/notify.rs) and the executor of the outbox (lib.rs).
    Workflow_Store, Workflow_Service: workflow/store.rs, service.rs, manager.rs, commands.rs and the actions
      that lib.rs injects. External_Review: the gateway of lib.rs for external review requests.
    Human_Input: messaging/human_input.rs.
    Messaging_Service, Messaging_Adapters: messaging/store.rs, service.rs and the adapters feishu.rs,
      dingtalk.rs, wechat_work.rs.
    Pr_Registry, Pr_Ingest, Pr_Scheduler: pr/registry.rs, ledger.rs, discover.rs, scheduler.rs, commands.rs.
    Webhook, Webhook_Tunnel: pr/labels.rs, pr/webhook.rs with its listener and tunnel.
    Session_Registry: review/history_store.rs, claim_store.rs and the registry of review/session.rs, one step
      of the lock per definition. Session_Turns, Session_Engines: starting, following up, pumping, interrupting
      and ending a turn of Codex (session.rs), Cursor and Claude (engines/*/engine.rs). Session_Commands:
      review/commands.rs, the review actions of lib.rs and composition/review_lifecycle.rs.
    Comment_Url, Deeplink: review/comment_url.rs and review/deeplink.rs.
    Local_Api, Wire_Json, Cli_Client: the local HTTP interface (review/local_api.rs, messaging/local_api.rs),
      the JSON of its bodies, and its client, the command line (cli.rs).
    Remote_Gate, Remote_Supervisor: remote/supervisor.rs, status.rs.
    Terminal_Pty: terminal/webpty_manager.rs and webpty.rs.

  THE LEMMAS AND PROPERTIES.
    Each property stands after a text block with its number.
    Outbox_Facts, Outbox_Worker_Facts, Outbox_Properties: the table invariant over all reachable databases,
      idempotent enqueueing, the order of a claim, the bounds of the retry delay, the retry budget and the
      dead letter, the release of claims, the manual retry, the clamped error text.
    Inbox_Properties: one stored row per delivery, retention, at most one commit of the rules of an event,
      failures recorded, replay, truthful receipts.
    Notification_Properties and Rule_Properties: one row per channel or none, idempotence under a dedupe
      prefix, bounds of a message; all or nothing processing of an event, confinement of planned reviews,
      distinct producer keys, keys of polled events.
    Workflow_Facts, Workflow_Properties: the abstract machine wf_move and the contract wf_operation that each
      operation of the store satisfies; decodability, refinement, termination of driving, one workflow per
      receipt, one notification, when waiting returns.
    External_Properties: a request id stands for one request and one receipt.
    Human_Properties: a request is settled once, the quotas, the round trip.
    History_Properties: the history is the coalesced chunks; the bound of the sessions and their references.
    Session_Interleaving: tasks that take their turns at the registry in any order; one review per pull
      request and skill. Session_Properties: a turn that ends is settled, a failed start leaves its pair free,
      and two ways in which a session is lost. Replay_Properties: no second start after a crash.
    Lifecycle_Properties: a terminal event takes back the pending start notices.
    Gate_Properties, Scheduler_Properties, Webhook_Properties: the memory of the ledger and what it keeps from
      being dispatched again; the poll loops of every sequence of operations; authentication and storage of
      deliveries, and no tunnel without its runtime.
    Migration_Properties, Validation_Properties, Supervisor_Properties: migration reaches a fixed point; address
      rules as networks and whom the gate admits; listeners and tunnels follow the configuration.
    Messaging_Properties, Notify_Properties, Deeplink_Properties: what a chat may do, and once; what a delivery
      tells of its secrets; what a link may do, and once.
    Local_Api_Properties, Client_Properties: nobody without the token; the client's token, its retries, its
      watch mode, and the round trip of the bodies.
    Pty_Properties: the cap, the shells and the output of terminals in every interleaving.

  CONVENTIONS. Errors are Inl app_error with the message of the code, in UTF-8 bytes. A SQL statement
  error is its text. Enum columns hold the wire strings, so that a row may be undecodable, as in SQLite; a
  JSON column holds either the encoding of a value or some other text, which does not parse. Unsigned
  integers are naturals with the saturation, wrap-around or cast of the code written out; SQLite integers
  are integers within i64. A loop that may run for ever (waiting for a receipt, driving a workflow) is a
  partial function, whose result None means that it does not return; there is no fuel anywhere.

  PARAMETERS. Code that is not in the repository is an argument of the definitions: the network (the answer to
  a call, given its number and content), the file system (canonical paths, file tests), the operating system's
  failures of processes, pipes, sockets and pseudo-terminals, the writer and parser of JSON text, Url::parse,
  HTTP dates, str::to_lowercase, SHA-256, HMAC and base64, and the random seed of a delay. The provider adapters
  of pull requests, which run gh and call Azure DevOps and Bitbucket, are a parameter of discovery. The theorems
  that rely on one of them say so in a hypothesis.

  NOT MODELLED. The child processes, the JSON-RPC and the codecs of the engines; the adapters over gh, Azure
  DevOps and Bitbucket; the websocket streams and the MCP endpoint of messaging; the iTerm daemon, the terminal
  over HTTP and the terminal commands; the sockets and child processes below the remote supervisor; opening and
  migrating the database file; loading and saving the configuration file; the Tauri set-up and the tokio loops
  around the modelled steps. They are I/O or wiring.
\<close>

end
